(* ===== verification/Prelude.thy ===== *)
theory Prelude
  imports Main "HOL-Library.Finite_Map" "HOL-Library.Word"
begin

text \<open>
  Shared vocabulary of the development: the fact collections the component
  theories fill, the fragment of Go's strings and strconv packages the sources
  use, the pointer helpers (strOrEmpty and its kin), and generic lemmas on
  finite maps. A Go string is a byte sequence and is modelled as a list of
  8-bit characters. A nil Go map and an empty one are identified: the sources
  only take lengths, range over maps and read keys, which cannot tell them
  apart.
\<close>

section \<open>Fact collections\<close>

named_theorems go_defs \<open>definitions a branch-by-branch proof unfolds\<close>
named_theorems world_simps \<open>what an operation leaves unchanged of the world\<close>

section \<open>Pointers\<close>

text \<open>
  A pointer to an immutable value is an option. These helpers are declared
  once per controller package in the source, with the same bodies.
\<close>

definition strOrEmpty :: "string option \<Rightarrow> string" where
  "strOrEmpty s = (case s of None \<Rightarrow> [] | Some v \<Rightarrow> v)"

definition boolOrFalse :: "bool option \<Rightarrow> bool" where
  "boolOrFalse b = (case b of None \<Rightarrow> False | Some v \<Rightarrow> v)"

definition boolPtrOrFalse :: "bool option \<Rightarrow> bool" where
  "boolPtrOrFalse b = boolOrFalse b"

definition ttlOrZero :: "32 word option \<Rightarrow> 32 word" where
  "ttlOrZero t = (case t of None \<Rightarrow> 0 | Some v \<Rightarrow> v)"

text \<open>The recurring \<open>if s != "" { v := s; o = &v }\<close>.\<close>

definition ptrIfNonEmpty :: "string \<Rightarrow> string option" where
  "ptrIfNonEmpty s = (if s \<noteq> [] then Some s else None)"

text \<open>The recurring \<open>if p != nil && *p != "" { v := *p; o = &v }\<close>.\<close>

definition ptrIfSet :: "string option \<Rightarrow> string option" where
  "ptrIfSet p = (case p of None \<Rightarrow> None | Some s \<Rightarrow> ptrIfNonEmpty s)"

lemma ptr_simps [simp]:
  "strOrEmpty None = []" "strOrEmpty (Some s) = s"
  "boolOrFalse None = False" "boolOrFalse (Some b) = b"
  "boolPtrOrFalse p = boolOrFalse p"
  "ttlOrZero None = 0" "ttlOrZero (Some t) = t"
  by (simp_all add: strOrEmpty_def boolOrFalse_def boolPtrOrFalse_def ttlOrZero_def)

lemma ptrIfNonEmpty_Nil [simp]: "ptrIfNonEmpty [] = None"
  by (simp add: ptrIfNonEmpty_def)

lemma strOrEmpty_ptrIfNonEmpty [simp]: "strOrEmpty (ptrIfNonEmpty s) = s"
  by (simp add: ptrIfNonEmpty_def)

lemma strOrEmpty_ptrIfSet [simp]: "strOrEmpty (ptrIfSet p) = strOrEmpty p"
  by (cases p) (simp_all add: ptrIfSet_def)

section \<open>Strings\<close>

fun starts_with :: "string \<Rightarrow> string \<Rightarrow> bool" where
  "starts_with [] s = True"
| "starts_with (p # ps) [] = False"
| "starts_with (p # ps) (c # cs) = (p = c \<and> starts_with ps cs)"

fun contains_str :: "string \<Rightarrow> string \<Rightarrow> bool" where
  "contains_str p [] = starts_with p []"
| "contains_str p (c # cs) = (starts_with p (c # cs) \<or> contains_str p cs)"

text \<open>strings.TrimPrefix.\<close>

definition trim_prefix :: "string \<Rightarrow> string \<Rightarrow> string" where
  "trim_prefix p s = (if starts_with p s then drop (length p) s else s)"

lemma starts_with_append [simp]: "starts_with p (p @ s)"
  by (induction p) simp_all

lemma trim_prefix_append [simp]: "trim_prefix p (p @ s) = s"
  by (simp add: trim_prefix_def)

lemma starts_with_iff: "starts_with p s \<longleftrightarrow> (\<exists>t. s = p @ t)"
  by (induction p s rule: starts_with.induct) auto

lemma contains_strI: "contains_str p (xs @ p @ ys)"
proof (induction xs)
  case Nil
  show ?case by (cases "p @ ys") (use starts_with_append [of p ys] in auto)
next
  case (Cons x xs)
  then show ?case by simp
qed

text \<open>
  strings.TrimSpace removes the UTF-8 encodings of Unicode white space
  (unicode.IsSpace) from both ends: tab to carriage return, space, U+0085,
  U+00A0, U+1680, U+2000 to U+200A, U+2028, U+2029, U+202F, U+205F, U+3000.
\<close>

definition space_encodings :: "string list" where
  "space_encodings =
     [[CHR 0x09], [CHR 0x0A], [CHR 0x0B], [CHR 0x0C], [CHR 0x0D], [CHR 0x20],
      [CHR 0xC2, CHR 0x85], [CHR 0xC2, CHR 0xA0], [CHR 0xE1, CHR 0x9A, CHR 0x80],
      [CHR 0xE2, CHR 0x80, CHR 0x80], [CHR 0xE2, CHR 0x80, CHR 0x81],
      [CHR 0xE2, CHR 0x80, CHR 0x82], [CHR 0xE2, CHR 0x80, CHR 0x83],
      [CHR 0xE2, CHR 0x80, CHR 0x84], [CHR 0xE2, CHR 0x80, CHR 0x85],
      [CHR 0xE2, CHR 0x80, CHR 0x86], [CHR 0xE2, CHR 0x80, CHR 0x87],
      [CHR 0xE2, CHR 0x80, CHR 0x88], [CHR 0xE2, CHR 0x80, CHR 0x89],
      [CHR 0xE2, CHR 0x80, CHR 0x8A], [CHR 0xE2, CHR 0x80, CHR 0xA8],
      [CHR 0xE2, CHR 0x80, CHR 0xA9], [CHR 0xE2, CHR 0x80, CHR 0xAF],
      [CHR 0xE2, CHR 0x81, CHR 0x9F], [CHR 0xE3, CHR 0x80, CHR 0x80]]"

function trim_with :: "string list \<Rightarrow> string \<Rightarrow> string" where
  "trim_with encs s =
     (case List.find (\<lambda>e. e \<noteq> [] \<and> starts_with e s) encs of
        None \<Rightarrow> s
      | Some e \<Rightarrow> trim_with encs (drop (length e) s))"
  by pat_completeness auto
termination
  by (relation "measure (\<lambda>(encs, s). length s)")
     (auto simp: find_Some_iff starts_with_iff)

declare trim_with.simps [simp del]

definition trim_space :: "string \<Rightarrow> string" where
  "trim_space s = rev (trim_with (map rev space_encodings) (rev (trim_with space_encodings s)))"

lemma trim_with_fixed:
  "\<forall>e \<in> set encs. e = [] \<or> \<not> starts_with e s \<Longrightarrow> trim_with encs s = s"
proof -
  assume "\<forall>e \<in> set encs. e = [] \<or> \<not> starts_with e s"
  then have "List.find (\<lambda>e. e \<noteq> [] \<and> starts_with e s) encs = None"
    by (auto simp: find_None_iff)
  then show ?thesis by (subst trim_with.simps) simp
qed

text \<open>A text of visible ASCII characters is left alone.\<close>

definition visible_ascii :: "string \<Rightarrow> bool" where
  "visible_ascii s \<longleftrightarrow> list_all (\<lambda>c. 33 \<le> (of_char c :: nat) \<and> (of_char c :: nat) < 127) s"

lemma starts_with_hd: "e \<noteq> [] \<Longrightarrow> starts_with e s \<Longrightarrow> hd e \<in> set s"
  by (cases e; cases s) auto

lemma trim_space_visible: "visible_ascii s \<Longrightarrow> trim_space s = s"
proof -
  assume v: "visible_ascii s"
  have ends: "\<forall>e \<in> set space_encodings. \<not> (33 \<le> (of_char (hd e) :: nat) \<and> (of_char (hd e) :: nat) < 127)
      \<and> \<not> (33 \<le> (of_char (hd (rev e)) :: nat) \<and> (of_char (hd (rev e)) :: nat) < 127)"
    by (simp add: space_encodings_def)
  have no: "e = [] \<or> \<not> starts_with e t"
    if "set t = set s" "\<not> (33 \<le> (of_char (hd e) :: nat) \<and> (of_char (hd e) :: nat) < 127)" for e t
    using that v starts_with_hd [of e t] by (auto simp: visible_ascii_def list_all_iff)
  have "trim_with space_encodings s = s"
    using ends no by (intro trim_with_fixed) blast
  moreover have "trim_with (map rev space_encodings) (rev s) = rev s"
    using ends no [of "rev s"] by (intro trim_with_fixed) auto
  ultimately show ?thesis by (simp add: trim_space_def)
qed

lemma trim_space_blank: "trim_space (CHR '' '' # s) = trim_space s"
proof -
  have "trim_with space_encodings (CHR '' '' # s) = trim_with space_encodings s"
    by (subst trim_with.simps) (simp add: space_encodings_def)
  then show ?thesis by (simp add: trim_space_def)
qed

text \<open>
  strings.ToLower, as far as a search for an ASCII pattern can tell: ASCII
  letters are folded, U+0130 and the Kelvin sign U+212A fold to ASCII, and no
  other code point does, so the remaining bytes stand for themselves.
\<close>

definition lower_char :: "char \<Rightarrow> char" where
  "lower_char c =
     (if 65 \<le> (of_char c :: nat) \<and> (of_char c :: nat) \<le> 90 then char_of ((of_char c :: nat) + 32) else c)"

fun to_lower :: "string \<Rightarrow> string" where
  "to_lower [] = []"
| "to_lower (c # cs) =
     (if starts_with [CHR 0xE2, CHR 0x84, CHR 0xAA] (c # cs) then CHR ''k'' # to_lower (drop 2 cs)
      else if starts_with [CHR 0xC4, CHR 0xB0] (c # cs) then CHR ''i'' # to_lower (drop 1 cs)
      else lower_char c # to_lower cs)"

text \<open>strings.Split on a one-byte separator, and strings.Join.\<close>

fun split_on :: "char \<Rightarrow> string \<Rightarrow> string list" where
  "split_on d [] = [[]]"
| "split_on d (c # cs) =
     (if c = d then [] # split_on d cs
      else (case split_on d cs of [] \<Rightarrow> [[c]] | w # ws \<Rightarrow> (c # w) # ws))"

fun join_with :: "string \<Rightarrow> string list \<Rightarrow> string" where
  "join_with sep [] = []"
| "join_with sep [w] = w"
| "join_with sep (w # ws) = w @ sep @ join_with sep ws"

lemma split_on_not_Nil [simp]: "split_on d s \<noteq> []"
  by (cases s) (auto split: list.splits)

lemma split_on_no_sep: "d \<notin> set w \<Longrightarrow> split_on d w = [w]"
  by (induction w) auto

lemma split_on_append: "d \<notin> set w \<Longrightarrow> split_on d (w @ d # s) = w # split_on d s"
  by (induction w) auto

lemma join_with_Cons_ne: "ws \<noteq> [] \<Longrightarrow> join_with sep (w # ws) = w @ sep @ join_with sep ws"
  by (cases ws) simp_all

lemma join_with_head: "join_with sep ((c # w) # ws) = c # join_with sep (w # ws)"
  by (cases ws) simp_all

lemma join_split [simp]: "join_with [d] (split_on d s) = s"
proof (induction s)
  case Nil
  show ?case by simp
next
  case (Cons c cs)
  then show ?case
    by (auto simp: join_with_Cons_ne join_with_head split: list.split)
qed

section \<open>Decimal numbers\<close>

definition digit_char :: "nat \<Rightarrow> char" where
  "digit_char d = char_of (48 + d)"

fun show_nat :: "nat \<Rightarrow> string" where
  "show_nat n = (if n < 10 then [digit_char n] else show_nat (n div 10) @ [digit_char (n mod 10)])"

declare show_nat.simps [simp del]

definition show_int :: "int \<Rightarrow> string" where
  "show_int i = (if i < 0 then CHR ''-'' # show_nat (nat (- i)) else show_nat (nat i))"

definition digit_value :: "char \<Rightarrow> nat option" where
  "digit_value c =
     (let n = (of_char c :: nat) in if 48 \<le> n \<and> n \<le> 57 then Some (n - 48) else None)"

section \<open>Results\<close>

text \<open>A Go call that returns a value and an error is a sum: \<open>Inl\<close> the error.\<close>

definition is_err :: "'e + 'a \<Rightarrow> bool" where
  "is_err r = (case r of Inl _ \<Rightarrow> True | Inr _ \<Rightarrow> False)"

lemma is_err_simps [simp]: "is_err (Inl e)" "\<not> is_err (Inr a)"
  by (simp_all add: is_err_def)

section \<open>JSON values\<close>

text \<open>
  The values encoding/json decodes to and the paved projection of an object is
  made of; an object is a finite map from names to values.
\<close>

datatype json =
    JNull
  | JBool bool
  | JNum int
  | JStr string
  | JArr "json list"
  | JObj "(string, json) fmap"

section \<open>Finite maps\<close>

lemma fcard_fmdom_0_iff [simp]: "fcard (fmdom m) = 0 \<longleftrightarrow> m = fmempty"
proof
  assume "fcard (fmdom m) = 0"
  then have "fmdom m = {||}" by (simp add: fcard_0_eq)
  then show "m = fmempty"
    by (metis fmdom_notD fempty_iff fmempty_lookup fmap_ext)
qed simp

lemma fmdrop_fmupd_id: "fmlookup m k = None \<Longrightarrow> fmdrop k (fmupd k v m) = m"
  by (rule fmap_ext) simp

text \<open>
  The source compares two maps by their sizes and one inclusion; on finite maps
  that is equality.
\<close>

lemma fmap_eq_by_card:
  assumes sub: "fmpred (\<lambda>k v. fmlookup b k = Some v) a"
    and card: "fcard (fmdom a) = fcard (fmdom b)"
  shows "a = b"
proof -
  have le: "\<And>k v. fmlookup a k = Some v \<Longrightarrow> fmlookup b k = Some v"
    using sub by (auto dest: fmpredD)
  then have "fmdom a |\<subseteq>| fmdom b"
    by (auto intro: fmdomI elim!: fmdomE)
  then have dom: "fmdom a = fmdom b"
    using card by (metis fcard_seteq order_refl)
  show ?thesis
  proof (rule fmap_ext)
    fix k
    show "fmlookup a k = fmlookup b k"
      using dom le by (metis fmdomE fmdom_notD fmlookup_dom_iff option.exhaust)
  qed
qed

section \<open>Late-initialisation steps\<close>

text \<open>
  Every lateInitialize of the controllers is a chain of steps of one shape: overwrite
  a field and set the changed flag, or leave both.
\<close>

lemma late_step: "(if c then (x, True) else (y, b)) = ((if c then x else y), c \<or> b)"
  by simp

lemma late_opt: "(if x = None \<and> y \<noteq> None then y else x) = (if x = None then y else x)"
  by simp

lemma late_opt_changed: "((if x = None then y else x) \<noteq> x) = (x = None \<and> y \<noteq> None)"
  by simp

lemma late_opt_if:
  "(if x = None \<and> y \<noteq> None \<and> q then y else x) = (if x = None \<and> q then y else x)"
  by simp

lemma late_opt_if_changed:
  "((if x = None \<and> q then y else x) \<noteq> x) = (x = None \<and> y \<noteq> None \<and> q)"
  by auto

lemma late_str:
  "(if x = None \<and> y \<noteq> None \<and> y \<noteq> Some [] then y else x) = (if x = None then ptrIfSet y else x)"
  by (cases y) (auto simp: ptrIfSet_def ptrIfNonEmpty_def)

lemma late_str_changed:
  "((if x = None then ptrIfSet y else x) \<noteq> x) = (x = None \<and> y \<noteq> None \<and> y \<noteq> Some [])"
  by (cases y) (auto simp: ptrIfSet_def ptrIfNonEmpty_def)

lemma late_str_rest:
  "(if x = None \<and> y \<noteq> Some [] then y else x) = (if x = None then ptrIfSet y else x)"
  by (cases y) (auto simp: ptrIfSet_def ptrIfNonEmpty_def)

lemma ptrIfSet_set: "(ptrIfSet y \<noteq> None) = (y \<noteq> None \<and> y \<noteq> Some [])"
  by (cases y) (auto simp: ptrIfSet_def ptrIfNonEmpty_def)

lemma late_attrs: "(if x = fmempty \<and> y \<noteq> fmempty then y else x) = (if x = fmempty then y else x)"
  by simp

lemma late_attrs_changed: "((if x = fmempty then y else x) \<noteq> x) = (x = fmempty \<and> y \<noteq> fmempty)"
  by auto

lemmas late_steps = late_step late_opt late_opt_if late_str late_str_rest late_attrs
lemmas late_changed = late_opt_changed late_opt_if_changed late_str_changed late_attrs_changed ptrIfSet_set

text \<open>
  The controllers with many back-filled fields use the same steps in the form of functions
  that overwrite only what is unset.
\<close>

definition fill :: "'a option \<Rightarrow> 'a option \<Rightarrow> 'a option" where
  "fill x y = (if x = None then y else x)"

definition fill_if :: "'a option \<Rightarrow> bool \<Rightarrow> 'a option \<Rightarrow> 'a option" where
  "fill_if x q y = (if x = None \<and> q then y else x)"

definition fill_map :: "('k, 'v) fmap \<Rightarrow> ('k, 'v) fmap \<Rightarrow> ('k, 'v) fmap" where
  "fill_map x y = (if x = fmempty then y else x)"

definition fill_list :: "'a list \<Rightarrow> 'a list \<Rightarrow> 'a list" where
  "fill_list x y = (if x = [] then y else x)"

lemma fill_steps:
  "(if c then (a, True) else (a', b)) = ((if c then a else a'), c \<or> b)"
  "(if x = None \<and> y \<noteq> None then y else x) = fill x y"
  "(if x = None \<and> y \<noteq> None \<and> q then y else x) = fill_if x q y"
  "(if s = None \<and> t \<noteq> None \<and> t \<noteq> Some [] then t else s) = fill s (ptrIfSet t)"
  "fill_if s (t \<noteq> Some []) t = fill s (ptrIfSet t)"
  "(if s = None \<and> f \<noteq> [] then Some f else s) = fill s (ptrIfNonEmpty f)"
  "(if c then True else b) = (c \<or> b)"
  "(if m = fmempty \<and> n \<noteq> fmempty then n else m) = fill_map m n"
  "(if xs = [] \<and> ys \<noteq> [] then ys else xs) = fill_list xs ys"
  by (simp_all add: fill_def fill_if_def fill_map_def fill_list_def ptrIfNonEmpty_def)
    (cases t; simp add: ptrIfSet_def ptrIfNonEmpty_def)+

lemma fill_changed:
  "(fill x y \<noteq> x) = (x = None \<and> y \<noteq> None)"
  "(fill_if x q y \<noteq> x) = (x = None \<and> y \<noteq> None \<and> q)"
  "(ptrIfNonEmpty f \<noteq> None) = (f \<noteq> [])"
  "(fill_map m n \<noteq> m) = (m = fmempty \<and> n \<noteq> fmempty)"
  "(fill_list xs ys \<noteq> xs) = (xs = [] \<and> ys \<noteq> [])"
  by (auto simp: fill_def fill_if_def fill_map_def fill_list_def ptrIfNonEmpty_def)

lemma fill_idem [simp]:
  "fill (fill x y) y = fill x y" "fill_if (fill_if x q y) q y = fill_if x q y"
  "fill_map (fill_map m n) n = fill_map m n" "fill_list (fill_list xs ys) ys = fill_list xs ys"
  by (simp_all add: fill_def fill_if_def fill_map_def fill_list_def)

lemma fill_None [simp]: "fill None y = y" and fill_Some [simp]: "fill (Some a) y = Some a"
  by (simp_all add: fill_def)

text \<open>A field that agreed with the object before agrees with it after.\<close>

lemma fill_agree: "g x = g y \<Longrightarrow> g (fill x y) = g y" and fill_if_agree: "g x = g y \<Longrightarrow> g (fill_if x q y) = g y"
  by (simp_all add: fill_def fill_if_def)

lemma strOrEmpty_filled:
  "(s \<noteq> None \<Longrightarrow> strOrEmpty s = strOrEmpty t) \<Longrightarrow> strOrEmpty (fill s (ptrIfSet t)) = strOrEmpty t"
  by (cases s) simp_all

lemma fill_agrees [simp]:
  "strOrEmpty s = strOrEmpty t \<Longrightarrow> strOrEmpty (fill s (ptrIfSet t)) = strOrEmpty t"
  "strOrEmpty s = f \<Longrightarrow> strOrEmpty (fill s (ptrIfNonEmpty f)) = f"
  "boolOrFalse b = boolOrFalse c \<Longrightarrow> boolOrFalse (fill b c) = boolOrFalse c"
  "ttlOrZero v = ttlOrZero w \<Longrightarrow> ttlOrZero (fill v w) = ttlOrZero w"
  "ttlOrZero v = ttlOrZero w \<Longrightarrow> ttlOrZero (fill_if v q w) = ttlOrZero w"
  "strOrEmpty s = strOrEmpty t \<Longrightarrow> strOrEmpty (fill_if s q (ptrIfSet t)) = strOrEmpty t"
  "fill_map m m = m"
  using fill_agree [of strOrEmpty s "ptrIfSet t"] fill_agree [of strOrEmpty s "ptrIfNonEmpty f"]
    fill_if_agree [of strOrEmpty s "ptrIfSet t"]
  by (simp_all add: fill_agree fill_if_agree fill_map_def)

text \<open>A field that was sent and stored, or not sent and filled in from the object.\<close>

lemma fill_sent: "(x \<noteq> None \<Longrightarrow> y = x) \<Longrightarrow> g (fill x y) = g y"
  by (auto simp: fill_def)

lemma fill_sent_str: "(x \<noteq> None \<Longrightarrow> y = x) \<Longrightarrow> strOrEmpty (fill x (ptrIfSet y)) = strOrEmpty y"
  by (cases x) auto

lemma fill_if_simps [simp]: "fill_if x True y = fill x y" "fill_if x False y = x"
  by (simp_all add: fill_if_def fill_def)

text \<open>
  The converters between SDK, package and CRD slices: an empty slice becomes nil, nil
  pointers are skipped.
\<close>

lemma conv_simps:
  "(if xs = [] then [] else map f xs) = map f xs"
  "(if ys = [] then [] else List.map_filter g ys) = List.map_filter g ys"
  by (simp_all add: map_filter_simps)

lemma map_filter_Some [simp]: "List.map_filter (map_option g) (map (\<lambda>x. Some (f x)) xs) = map (\<lambda>x. g (f x)) xs"
  by (induction xs) (simp_all add: map_filter_simps)

lemma map_filter_the: "None \<notin> set xs \<Longrightarrow> List.map_filter (map_option g) xs = map (\<lambda>x. g (the x)) xs"
proof (induction xs)
  case (Cons a xs)
  then show ?case by (cases a) (simp_all add: map_filter_simps)
qed (simp add: map_filter_simps)

lemma map_the_idI: "None \<notin> set xs \<Longrightarrow> (\<And>y. f y = Some y) \<Longrightarrow> map (\<lambda>x. f (the x)) xs = xs"
  by (rule map_idI) (metis option.collapse)

text \<open>A pointer that is set to a non-empty string.\<close>

lemma strOrEmpty_set: "x \<noteq> None \<Longrightarrow> x \<noteq> Some [] \<Longrightarrow> strOrEmpty x \<noteq> []"
  by (cases x) (simp_all add: strOrEmpty_def)

end
