(* ===== verification/Wapi.thy ===== *)
theory Wapi
  imports Prelude
begin

text \<open>
  Errors, extensible attributes and the Grid as the controllers see it.

  The WAPI client (infoblox-go-client) and the Kubernetes client are not part
  of the repository. They are a parameter: a record of functions, one per kind
  of request, each given the list of the requests issued so far and the
  request itself. A record therefore describes any Grid, any other writer on
  it and any pattern of failures, and the state the model threads is the list
  of requests the provider has issued. "No mutating request is made" is a
  statement about that list.
\<close>

section \<open>Error values\<close>

text \<open>
  The errors that travel through the provider: the SDK's typed not-found
  error, errors that are only a text, errors wrapped with a message
  (errors.Wrap), and the typed errors of internal/clients/identity and of the
  NSRecord controller.
\<close>

datatype goerr =
    NotFoundError string
  | TextError string
  | Wrapped string goerr
  | HandleReuseError (hr_objectType: string) (hr_ref: string) (hr_wantUID: string) (hr_gotUID: string)
  | AmbiguousMatchError (am_objectType: string) (am_uid: string) (am_count: nat)
  | SearchFailedError goerr
  | PrerequisiteError (pe_endpoint: string)
  | AmbiguousNaturalKeyMatchError string string string nat

definition EAKey :: string where
  "EAKey = ''Crossplane Internal ID''"

definition em_dash :: string where
  "em_dash = [CHR 0xE2, CHR 0x80, CHR 0x94]"

text \<open>The %q verb on a text of printable ASCII.\<close>

fun go_quote_chars :: "string \<Rightarrow> string" where
  "go_quote_chars [] = []"
| "go_quote_chars (c # cs) =
     (if c = CHR 0x22 \<or> c = CHR 0x5C then CHR 0x5C # c # go_quote_chars cs else c # go_quote_chars cs)"

definition go_quote :: "string \<Rightarrow> string" where
  "go_quote s = CHR 0x22 # go_quote_chars s @ [CHR 0x22]"

definition HandleReuseError_text :: "string \<Rightarrow> string \<Rightarrow> string \<Rightarrow> string \<Rightarrow> string" where
  "HandleReuseError_text objectType ref wantUID gotUID =
     ''refusing to manage '' @ objectType @ '' '' @ ref @ '': its '' @ go_quote EAKey
     @ '' extensible attribute holds identity '' @ gotUID @ '', not this resource's '' @ wantUID
     @ '' '' @ em_dash @ '' ''
     @ ''this reference now points at a different object, most likely because it was reused after the original ''
     @ ''was deleted and a new object was created at the same computed address; the operator's options are to ''
     @ ''delete this managed resource (it no longer owns anything) or, if the Grid object is actually the right ''
     @ ''one, clear the stamped attribute manually and let this resource adopt it''"

definition AmbiguousMatchError_text :: "string \<Rightarrow> string \<Rightarrow> nat \<Rightarrow> string" where
  "AmbiguousMatchError_text objectType uid count =
     ''refusing to manage '' @ objectType @ '': '' @ show_nat count @ '' Grid objects carry the ''
     @ go_quote EAKey @ '' extensible attribute set to '' @ uid @ '' '' @ em_dash @ '' identity must be ''
     @ ''unique to verify ownership, and taking an arbitrary match risks acting on an object this resource does ''
     @ ''not own; an operator should search the Grid for '' @ EAKey @ ''='' @ uid
     @ '' and remove the stamped attribute from every ''
     @ ''object except the one this managed resource should own''"

definition wapiVersionForRemediation :: string where
  "wapiVersionForRemediation = ''2.12''"

definition PrerequisiteError_text :: "string \<Rightarrow> string" where
  "PrerequisiteError_text endpoint =
     ''Grid '' @ endpoint @ '' has no '' @ go_quote EAKey @ '' extensible attribute'' @ [CHR 0x0A]
     @ ''definition, and the configured credential cannot create one. Resources whose'' @ [CHR 0x0A]
     @ ''_ref rotates on update cannot be managed safely without it. A Grid superuser'' @ [CHR 0x0A]
     @ ''should run:'' @ [CHR 0x0A]
     @ ''  POST /wapi/v'' @ wapiVersionForRemediation @ ''/extensibleattributedef'' @ [CHR 0x0A]
     @ ''  {'' @ go_quote ''name'' @ '':'' @ go_quote EAKey @ '','' @ go_quote ''type'' @ '':''
     @ go_quote ''STRING'' @ '','' @ go_quote ''flags'' @ '':'' @ go_quote ''CR'' @ ''}''"

definition AmbiguousNaturalKeyMatchError_text :: "string \<Rightarrow> string \<Rightarrow> string \<Rightarrow> nat \<Rightarrow> string" where
  "AmbiguousNaturalKeyMatchError_text name view nameserver count =
     ''refusing to resolve NSRecord: '' @ show_nat count @ '' Grid objects match name='' @ go_quote name
     @ '' view='' @ go_quote view @ '' nameserver='' @ go_quote nameserver @ '' '' @ em_dash @ '' ''
     @ ''this tuple is expected to be unique (it is exactly what WAPI computes the object's _ref ''
     @ ''from), so this indicates a Grid state this provider cannot safely resolve automatically; ''
     @ ''an operator should reconcile the duplicate objects on the Grid directly''"

text \<open>Error(): a wrapped error prints its message, a colon and its cause.\<close>

fun err_text :: "goerr \<Rightarrow> string" where
  "err_text (NotFoundError m) = m"
| "err_text (TextError m) = m"
| "err_text (Wrapped m e) = m @ '': '' @ err_text e"
| "err_text (HandleReuseError t r w g) = HandleReuseError_text t r w g"
| "err_text (AmbiguousMatchError t u n) = AmbiguousMatchError_text t u n"
| "err_text (SearchFailedError e) = err_text e"
| "err_text (PrerequisiteError ep) = PrerequisiteError_text ep"
| "err_text (AmbiguousNaturalKeyMatchError n v s k) = AmbiguousNaturalKeyMatchError_text n v s k"

text \<open>errors.As looks for a type along the chain of Unwrap methods.\<close>

fun err_chain :: "goerr \<Rightarrow> goerr list" where
  "err_chain (Wrapped m e) = Wrapped m e # err_chain e"
| "err_chain (SearchFailedError e) = SearchFailedError e # err_chain e"
| "err_chain e = [e]"

definition errors_as :: "(goerr \<Rightarrow> bool) \<Rightarrow> goerr \<Rightarrow> bool" where
  "errors_as p e = list_ex p (err_chain e)"

definition IsSearchFailure :: "goerr \<Rightarrow> bool" where
  "IsSearchFailure e = errors_as is_SearchFailedError e"

lemma errors_as_simps [simp]:
  "errors_as p (Wrapped m e) \<longleftrightarrow> p (Wrapped m e) \<or> errors_as p e"
  "errors_as p (SearchFailedError e) \<longleftrightarrow> p (SearchFailedError e) \<or> errors_as p e"
  "errors_as p (NotFoundError m) \<longleftrightarrow> p (NotFoundError m)"
  "errors_as p (TextError m) \<longleftrightarrow> p (TextError m)"
  "errors_as p (HandleReuseError t r w g) \<longleftrightarrow> p (HandleReuseError t r w g)"
  "errors_as p (AmbiguousMatchError t u n) \<longleftrightarrow> p (AmbiguousMatchError t u n)"
  "errors_as p (PrerequisiteError ep) \<longleftrightarrow> p (PrerequisiteError ep)"
  "errors_as p (AmbiguousNaturalKeyMatchError a b c n) \<longleftrightarrow> p (AmbiguousNaturalKeyMatchError a b c n)"
  by (simp_all add: errors_as_def)

section \<open>Error classification\<close>

text \<open>
  errStatusRe, the regular expression "WAPI request error: " followed by three
  digits: its leftmost match, and the number of the three digits.
\<close>

definition wapiErrorPrefix :: string where
  "wapiErrorPrefix = ''WAPI request error: ''"

definition three_digits :: "string \<Rightarrow> nat option" where
  "three_digits s =
     (case s of
        a # b # c # _ \<Rightarrow>
          (case (digit_value a, digit_value b, digit_value c) of
             (Some x, Some y, Some z) \<Rightarrow> Some (100 * x + 10 * y + z)
           | _ \<Rightarrow> None)
      | _ \<Rightarrow> None)"

fun errStatus :: "string \<Rightarrow> nat option" where
  "errStatus [] = None"
| "errStatus (c # cs) =
     (if starts_with wapiErrorPrefix (c # cs) then
        (case three_digits (drop (length wapiErrorPrefix) (c # cs)) of
           Some n \<Rightarrow> Some n
         | None \<Rightarrow> errStatus cs)
      else errStatus cs)"

definition isNotFound :: "goerr option \<Rightarrow> bool" where
  "isNotFound err =
     (case err of
        None \<Rightarrow> False
      | Some e \<Rightarrow>
          if errors_as is_NotFoundError e then True
          else (case errStatus (err_text e) of
                  None \<Rightarrow> False
                | Some code \<Rightarrow> code = 404))"

lemma isNotFound_None [simp]: "\<not> isNotFound None"
  by (simp add: isNotFound_def)

lemma isNotFound_typed [simp]: "isNotFound (Some (NotFoundError m))"
  by (simp add: isNotFound_def)

text \<open>The shape the SDK gives every HTTP error that is not its typed not-found error.\<close>

lemma errStatus_at_start:
  "three_digits rest = Some n \<Longrightarrow> errStatus (wapiErrorPrefix @ rest) = Some n"
proof -
  assume n: "three_digits rest = Some n"
  obtain c cs where p: "wapiErrorPrefix = c # cs"
    by (simp add: wapiErrorPrefix_def)
  have s: "starts_with (c # cs) (c # cs @ rest)"
    and d: "drop (length (c # cs)) (c # cs @ rest) = rest"
    using starts_with_append [of "c # cs" rest] by simp_all
  show ?thesis
    by (simp only: p append_Cons errStatus.simps s d n if_True option.case)
qed

lemma isNotFound_http:
  "three_digits rest = Some n \<Longrightarrow> isNotFound (Some (TextError (wapiErrorPrefix @ rest))) \<longleftrightarrow> n = 404"
  by (simp add: isNotFound_def errStatus_at_start)

text \<open>The marker type of a failed search does not change the classification.\<close>

lemma isNotFound_SearchFailed [simp]:
  "isNotFound (Some (SearchFailedError e)) = isNotFound (Some e)"
  by (simp add: isNotFound_def)

section \<open>Extensible attributes\<close>

text \<open>
  ibclient.EA is a map[string]interface{}; EA.UnmarshalJSON decodes a value to
  a string, an ibclient.Bool, an int or a []string, and nil is possible in a
  map built in Go.
\<close>

datatype eaval = EANil | EAStr string | EABool bool | EAInt int | EAStrs "string list"

type_synonym ea = "(string, eaval) fmap"
type_synonym extattrs = "(string, string) fmap"

text \<open>
  A Go value inspected by reflection: not a pointer, a nil pointer, or a
  pointer to a struct with its type name and its fields.
\<close>

datatype gofield = FString string | FEA ea | FOther

datatype goany = NonPointer string | NilPointer string | PtrTo string "(string \<times> gofield) list"

section \<open>The Grid and the Kubernetes API server as a parameter\<close>

text \<open>The SDK's EADefinition object, as far as the sources read and write it.\<close>

record EADefinition =
  ead_Ref :: string
  ead_Name :: "string option"
  ead_Type :: string
  ead_Comment :: "string option"
  ead_DefaultValue :: "string option"
  ead_Min :: "32 word option"
  ead_Max :: "32 word option"
  ead_Flags :: "string option"
  ead_ListValues :: "string option list" \<comment> \<open>[]*EADefListValue: a nil entry or its Value\<close>
  ead_AllowedObjectTypes :: "string list"
  ead_Namespace :: string
  ead_DescendantsAction :: "string option" \<comment> \<open>OptionWithEa of the struct, when not nil\<close>

text \<open>
  Requests. \<open>'m\<close> is the type of the create and update requests of one resource
  (its ObjectManager methods with their arguments).
\<close>

datatype 'm wcall =
    CGet string string                       \<comment> \<open>GetObject by reference: object type, reference\<close>
  | CSearch string "(string, string) fmap"   \<comment> \<open>GetObject with query parameters\<close>
  | CDefSearch "(string, string) fmap"       \<comment> \<open>GetObject on extensibleattributedef\<close>
  | CDefCreate EADefinition                  \<comment> \<open>CreateObject of the identity definition\<close>
  | CMutate 'm                               \<comment> \<open>create or update of a resource object\<close>
  | CDelete string                           \<comment> \<open>delete by reference\<close>
  | CPatch json                              \<comment> \<open>kube.Patch with a JSON merge patch\<close>

text \<open>Prometheus counters, incremented by label.\<close>

datatype metric = RefMissRecoveries | AdoptRestamps | FoundByUIDTotal
  | ProbeCreated | ProbeRefused | ProbeRaceWon

text \<open>One row of the prober's cache: the verdict (None for nil) and its expiry.\<close>

record probeCacheEntry =
  pce_err :: "goerr option"
  pce_expiresAt :: int

record 'm world =
  calls :: "'m wcall list"
  clock_reads :: nat
  probe_cache :: "string \<rightharpoonup> probeCacheEntry"
  metrics :: "(metric \<times> string) list"

text \<open>
  \<open>retry_on_conflict\<close> is client-go's retry.RetryOnConflict with its default
  backoff, applied to one attempt.
\<close>

record ('o, 'm) wapi =
  wapi_get :: "'m wcall list \<Rightarrow> string \<Rightarrow> string \<Rightarrow> goerr + 'o"
  wapi_search :: "'m wcall list \<Rightarrow> string \<Rightarrow> (string, string) fmap \<Rightarrow> goerr + 'o list"
  wapi_def_search :: "'m wcall list \<Rightarrow> (string, string) fmap \<Rightarrow> goerr + EADefinition list"
  wapi_def_create :: "'m wcall list \<Rightarrow> EADefinition \<Rightarrow> goerr + string"
  wapi_mutate :: "'m wcall list \<Rightarrow> 'm \<Rightarrow> goerr + 'o"
  wapi_delete :: "'m wcall list \<Rightarrow> string \<Rightarrow> goerr + string"
  kube_patch :: "'m wcall list \<Rightarrow> json \<Rightarrow> goerr option"
  retry_on_conflict :: "('m world \<Rightarrow> goerr option \<times> 'm world) \<Rightarrow> 'm world \<Rightarrow> goerr option \<times> 'm world"
  wall_clock :: "nat \<Rightarrow> int" \<comment> \<open>the n-th reading of the clock, in nanoseconds\<close>

definition init_world :: "'m world" where
  "init_world = \<lparr>calls = [], clock_reads = 0, probe_cache = Map.empty, metrics = []\<rparr>"

subsection \<open>Issuing a request: log it, then ask the environment\<close>

definition log_call :: "'m wcall \<Rightarrow> 'm world \<Rightarrow> 'm world" where
  "log_call c w = w\<lparr>calls := calls w @ [c]\<rparr>"

definition get_object :: "('o, 'm) wapi \<Rightarrow> string \<Rightarrow> string \<Rightarrow> 'm world \<Rightarrow> (goerr + 'o) \<times> 'm world" where
  "get_object env objType ref w = (wapi_get env (calls w) objType ref, log_call (CGet objType ref) w)"

definition search_objects ::
  "('o, 'm) wapi \<Rightarrow> string \<Rightarrow> (string, string) fmap \<Rightarrow> 'm world \<Rightarrow> (goerr + 'o list) \<times> 'm world" where
  "search_objects env objType q w = (wapi_search env (calls w) objType q, log_call (CSearch objType q) w)"

definition def_search ::
  "('o, 'm) wapi \<Rightarrow> (string, string) fmap \<Rightarrow> 'm world \<Rightarrow> (goerr + EADefinition list) \<times> 'm world" where
  "def_search env q w = (wapi_def_search env (calls w) q, log_call (CDefSearch q) w)"

definition def_create :: "('o, 'm) wapi \<Rightarrow> EADefinition \<Rightarrow> 'm world \<Rightarrow> (goerr + string) \<times> 'm world" where
  "def_create env d w = (wapi_def_create env (calls w) d, log_call (CDefCreate d) w)"

definition mutate_object :: "('o, 'm) wapi \<Rightarrow> 'm \<Rightarrow> 'm world \<Rightarrow> (goerr + 'o) \<times> 'm world" where
  "mutate_object env m w = (wapi_mutate env (calls w) m, log_call (CMutate m) w)"

definition delete_object :: "('o, 'm) wapi \<Rightarrow> string \<Rightarrow> 'm world \<Rightarrow> (goerr + string) \<times> 'm world" where
  "delete_object env ref w = (wapi_delete env (calls w) ref, log_call (CDelete ref) w)"

definition read_clock :: "('o, 'm) wapi \<Rightarrow> 'm world \<Rightarrow> int \<times> 'm world" where
  "read_clock env w = (wall_clock env (clock_reads w), w\<lparr>clock_reads := Suc (clock_reads w)\<rparr>)"

definition count_metric :: "metric \<Rightarrow> string \<Rightarrow> 'm world \<Rightarrow> 'm world" where
  "count_metric m label w = w\<lparr>metrics := metrics w @ [(m, label)]\<rparr>"

lemma log_call_simps [simp, world_simps]:
  "calls (log_call c w) = calls w @ [c]"
  "clock_reads (log_call c w) = clock_reads w"
  "probe_cache (log_call c w) = probe_cache w"
  "metrics (log_call c w) = metrics w"
  by (simp_all add: log_call_def)

lemma count_metric_simps [simp, world_simps]:
  "calls (count_metric m l w) = calls w"
  "clock_reads (count_metric m l w) = clock_reads w"
  "probe_cache (count_metric m l w) = probe_cache w"
  "metrics (count_metric m l w) = metrics w @ [(m, l)]"
  by (simp_all add: count_metric_def)

lemma read_clock_simps [simp, world_simps]:
  "calls (snd (read_clock env w)) = calls w"
  "probe_cache (snd (read_clock env w)) = probe_cache w"
  "metrics (snd (read_clock env w)) = metrics w"
  "fst (read_clock env w) = wall_clock env (clock_reads w)"
  by (simp_all add: read_clock_def)

subsection \<open>Requests that change the Grid's resource objects\<close>

text \<open>
  A delete, create or update of a resource object. Reads, searches and the
  identity definition's own create are not among them.
\<close>

fun mutating :: "'m wcall \<Rightarrow> bool" where
  "mutating (CMutate m) = True"
| "mutating (CDelete r) = True"
| "mutating _ = False"

definition mutations :: "'m world \<Rightarrow> 'm wcall list" where
  "mutations w = filter mutating (calls w)"

definition deletions :: "'m world \<Rightarrow> string list" where
  "deletions w = concat (map (\<lambda>c. case c of CDelete r \<Rightarrow> [r] | _ \<Rightarrow> []) (calls w))"

lemma mutations_log_call [simp]:
  "mutations (log_call c w) = mutations w @ (if mutating c then [c] else [])"
  by (simp add: mutations_def)

lemma mutations_frame [simp]:
  "mutations (count_metric m l w) = mutations w"
  "mutations (snd (read_clock env w)) = mutations w"
  by (simp_all add: mutations_def)

lemma mutations_init [simp]: "mutations init_world = []" "calls init_world = []"
  by (simp_all add: mutations_def init_world_def)

lemma mutations_cong: "calls w = calls w' \<Longrightarrow> mutations w = mutations w'"
  by (simp add: mutations_def)

end
