(* ===== verification/Identity.thy ===== *)
theory Identity
  imports Wapi
begin

text \<open>
  internal/clients/identity/identity.go: the object-identity ladder. A Grid
  object is owned by the managed resource whose uid is stamped in its
  "Crossplane Internal ID" extensible attribute; Resolve finds the object by
  its stored reference or, failing that, by a search on the stamp.
\<close>

section \<open>Outcomes\<close>

datatype Outcome =
    OutcomeResolved
  | OutcomeAdopted
  | OutcomeRotated
  | OutcomeFoundByUID
  | OutcomeNotFound

fun Outcome_String :: "Outcome \<Rightarrow> string" where
  "Outcome_String OutcomeResolved = ''Resolved''"
| "Outcome_String OutcomeAdopted = ''Adopted''"
| "Outcome_String OutcomeRotated = ''Rotated''"
| "Outcome_String OutcomeFoundByUID = ''FoundByUID''"
| "Outcome_String OutcomeNotFound = ''NotFound''"

section \<open>Error messages\<close>

definition errEmptyUID :: string where
  "errEmptyUID = ''identity: metadata.uid is empty or blank '' @ em_dash @
     '' refusing to resolve or stamp an object without a stable identity to verify ownership against''"

definition errGetByRef :: string where
  "errGetByRef = ''identity: cannot fetch object by its stored reference''"

definition errSearchByUID :: string where
  "errSearchByUID =
     ''identity: cannot search for the object by its stamped identity extensible attribute''"

definition errNotAPointer :: "string \<Rightarrow> string" where
  "errNotAPointer ty = ''identity: '' @ ty @ '' is not a non-nil pointer to a generated NIOS object '' @ em_dash @
     '' Resolve requires the SDK's usual *T shape''"

definition errNoRefField :: "string \<Rightarrow> string" where
  "errNoRefField ty = ''identity: '' @ ty @ '' has no string Ref field '' @ em_dash @
     '' this object type does not follow the Ref/Ea convention every cataloged NIOS type currently uses, and Resolve cannot verify its identity without one; add explicit field accessors for this type instead of silently skipping identity verification''"

definition errNoEAField :: "string \<Rightarrow> string" where
  "errNoEAField ty = ''identity: '' @ ty @ '' has no ibclient.EA-typed Ea field '' @ em_dash @
     '' this object type does not follow the Ref/Ea convention every cataloged NIOS type currently uses, and Resolve cannot verify its identity without one; add explicit field accessors for this type instead of silently skipping identity verification''"

section \<open>Reading an object by reflection\<close>

definition getRef :: "goany \<Rightarrow> goerr + string" where
  "getRef obj =
     (case obj of
        NonPointer ty \<Rightarrow> Inl (TextError (errNotAPointer ty))
      | NilPointer ty \<Rightarrow> Inl (TextError (errNotAPointer ty))
      | PtrTo ty fs \<Rightarrow>
          (case map_of fs ''Ref'' of
             Some (FString s) \<Rightarrow> Inr s
           | _ \<Rightarrow> Inl (TextError (errNoRefField ty))))"

definition getEA :: "goany \<Rightarrow> goerr + ea" where
  "getEA obj =
     (case obj of
        NonPointer ty \<Rightarrow> Inl (TextError (errNotAPointer ty))
      | NilPointer ty \<Rightarrow> Inl (TextError (errNotAPointer ty))
      | PtrTo ty fs \<Rightarrow>
          (case map_of fs ''Ea'' of
             None \<Rightarrow> Inl (TextError (errNoEAField ty))
           | Some f \<Rightarrow>
               (case f of
                  FEA e \<Rightarrow> Inr e
                | _ \<Rightarrow> Inl (TextError (errNoEAField ty)))))"

text \<open>A value that is absent, nil or not a string is reported as absent.\<close>

definition eaValue :: "ea \<Rightarrow> string \<Rightarrow> string option" where
  "eaValue e key =
     (case fmlookup e key of
        None \<Rightarrow> None
      | Some raw \<Rightarrow> (case raw of EAStr s \<Rightarrow> Some s | _ \<Rightarrow> None))"

section \<open>Stamping\<close>

definition Stamp :: "ea \<Rightarrow> string \<Rightarrow> ea" where
  "Stamp e uid = fmupd EAKey (EAStr uid) e"

definition Strip :: "ea \<Rightarrow> ea" where
  "Strip e = (if e = fmempty then e else fmdrop EAKey e)"

lemma Strip_fmdrop: "Strip e = fmdrop EAKey e"
  by (simp add: Strip_def)

lemma eaValue_Stamp [simp]: "eaValue (Stamp e uid) EAKey = Some uid"
  by (simp add: eaValue_def Stamp_def)

lemma eaValue_Stamp_other: "k \<noteq> EAKey \<Longrightarrow> eaValue (Stamp e uid) k = eaValue e k"
  by (simp add: eaValue_def Stamp_def)

lemma Strip_Stamp [simp]: "Strip (Stamp e uid) = Strip e"
  by (rule fmap_ext) (simp add: Strip_fmdrop Stamp_def)

lemma Strip_idem [simp]: "Strip (Strip e) = Strip e"
  by (rule fmap_ext) (simp add: Strip_fmdrop)

lemma eaValue_Strip [simp]: "eaValue (Strip e) EAKey = None"
  by (simp add: eaValue_def Strip_fmdrop)

section \<open>The ladder\<close>

text \<open>
  What Resolve needs of the object type T: its WAPI type name (ObjectType),
  the fresh value newEmpty returns, and how reflection sees a value.
\<close>

record 'o objtype =
  ot_name :: string
  ot_empty :: 'o
  ot_reflect :: "'o \<Rightarrow> goany"

text \<open>
  \<open>None\<close> is handled == false: a 404 on the reference, and the caller goes on to
  the search.
\<close>

definition resolveByRef ::
  "('o, 'm) wapi \<Rightarrow> 'o objtype \<Rightarrow> string \<Rightarrow> string \<Rightarrow> 'm world \<Rightarrow>
     (goerr + 'o option \<times> Outcome) option \<times> 'm world" where
  "resolveByRef env T ref uid w =
     (case get_object env (ot_name T) ref w of
        (Inl getErr, w1) \<Rightarrow>
          if isNotFound (Some getErr) then (None, w1)
          else (Some (Inl (Wrapped errGetByRef getErr)), w1)
      | (Inr fetched, w1) \<Rightarrow>
          (case getEA (ot_reflect T fetched) of
             Inl eaErr \<Rightarrow> (Some (Inl eaErr), w1)
           | Inr e \<Rightarrow>
               (case eaValue e EAKey of
                  None \<Rightarrow> (Some (Inr (Some fetched, OutcomeAdopted)), count_metric AdoptRestamps (ot_name T) w1)
                | Some got \<Rightarrow>
                    if got = uid then (Some (Inr (Some fetched, OutcomeResolved)), w1)
                    else (Some (Inl (HandleReuseError (ot_name T) ref uid got)), w1))))"

definition uid_query :: "string \<Rightarrow> (string, string) fmap" where
  "uid_query uid = fmupd (''*'' @ EAKey) uid fmempty"

lemma uid_query_inj: "uid_query a = uid_query b \<longleftrightarrow> a = b"
  unfolding uid_query_def by (metis fmupd_lookup option.inject)

definition searchByUID ::
  "('o, 'm) wapi \<Rightarrow> 'o objtype \<Rightarrow> string \<Rightarrow> 'm world \<Rightarrow> (goerr + 'o list) \<times> 'm world" where
  "searchByUID env T uid w =
     (case search_objects env (ot_name T) (uid_query uid) w of
        (Inl err, w1) \<Rightarrow> if isNotFound (Some err) then (Inr [], w1) else (Inl err, w1)
      | (Inr xs, w1) \<Rightarrow> (Inr xs, w1))"

definition resolveBySearch ::
  "('o, 'm) wapi \<Rightarrow> 'o objtype \<Rightarrow> string \<Rightarrow> string \<Rightarrow> 'm world \<Rightarrow>
     (goerr + 'o option \<times> Outcome) \<times> 'm world" where
  "resolveBySearch env T ref uid w =
     (case searchByUID env T uid w of
        (Inl err, w1) \<Rightarrow> (Inl (SearchFailedError (Wrapped errSearchByUID err)), w1)
      | (Inr found, w1) \<Rightarrow>
          (case found of
             [] \<Rightarrow> (Inr (None, OutcomeNotFound), w1)
           | [x] \<Rightarrow>
               if ref = [] then (Inr (Some x, OutcomeFoundByUID), count_metric FoundByUIDTotal (ot_name T) w1)
               else (Inr (Some x, OutcomeRotated), count_metric RefMissRecoveries (ot_name T) w1)
           | _ \<Rightarrow> (Inl (AmbiguousMatchError (ot_name T) uid (length found)), w1)))"

definition Resolve ::
  "('o, 'm) wapi \<Rightarrow> 'o objtype \<Rightarrow> string \<Rightarrow> string \<Rightarrow> 'm world \<Rightarrow>
     (goerr + 'o option \<times> Outcome) \<times> 'm world" where
  "Resolve env T ref uid0 w =
     (let uid = trim_space uid0 in
      if uid = [] then (Inl (TextError errEmptyUID), w)
      else (case getRef (ot_reflect T (ot_empty T)) of
        Inl err \<Rightarrow> (Inl err, w)
      | Inr _ \<Rightarrow>
          (case getEA (ot_reflect T (ot_empty T)) of
             Inl err \<Rightarrow> (Inl err, w)
           | Inr _ \<Rightarrow>
               (if ref \<noteq> [] then
                  (case resolveByRef env T ref uid w of
                     (Some r, w1) \<Rightarrow> (r, w1)
                   | (None, w1) \<Rightarrow> resolveBySearch env T ref uid w1)
                else resolveBySearch env T ref uid w))))"

subsection \<open>What the steps change\<close>

lemma get_object_world [simp]: "snd (get_object env t r w) = log_call (CGet t r) w"
  by (simp add: get_object_def)

lemma search_objects_world [simp]: "snd (search_objects env t q w) = log_call (CSearch t q) w"
  by (simp add: search_objects_def)

lemma resolveByRef_calls: "calls (snd (resolveByRef env T ref uid w)) = calls w @ [CGet (ot_name T) ref]"
  by (simp add: resolveByRef_def get_object_def split: sum.splits option.splits)

lemma searchByUID_calls:
  "calls (snd (searchByUID env T uid w)) = calls w @ [CSearch (ot_name T) (uid_query uid)]"
  by (simp add: searchByUID_def search_objects_def split: sum.splits)

lemma resolveBySearch_calls:
  "calls (snd (resolveBySearch env T ref uid w)) = calls w @ [CSearch (ot_name T) (uid_query uid)]"
  using searchByUID_calls [of env T uid w]
  by (auto simp: resolveBySearch_def split: prod.splits sum.splits list.splits)

lemma resolveByRef_frame:
  "probe_cache (snd (resolveByRef env T ref uid w)) = probe_cache w"
  "clock_reads (snd (resolveByRef env T ref uid w)) = clock_reads w"
  by (simp_all add: resolveByRef_def get_object_def split: sum.splits option.splits)

lemma resolveBySearch_frame:
  "probe_cache (snd (resolveBySearch env T ref uid w)) = probe_cache w"
  "clock_reads (snd (resolveBySearch env T ref uid w)) = clock_reads w"
  by (simp_all add: resolveBySearch_def searchByUID_def search_objects_def
      split: prod.splits sum.splits list.splits)

lemma Resolve_frame [simp]:
  "probe_cache (snd (Resolve env T ref uid w)) = probe_cache w"
  "clock_reads (snd (Resolve env T ref uid w)) = clock_reads w"
  using resolveByRef_frame [of env T ref "trim_space uid" w]
  by (auto simp: Resolve_def Let_def resolveBySearch_frame split: prod.splits sum.splits option.splits)

text \<open>The object type follows the Ref/Ea convention.\<close>

definition ref_ea_shape :: "'o objtype \<Rightarrow> bool" where
  "ref_ea_shape T \<longleftrightarrow>
     \<not> is_err (getRef (ot_reflect T (ot_empty T))) \<and> \<not> is_err (getEA (ot_reflect T (ot_empty T)))"

lemma ref_ea_shapeE:
  assumes "ref_ea_shape T"
  obtains r e where "getRef (ot_reflect T (ot_empty T)) = Inr r"
    and "getEA (ot_reflect T (ot_empty T)) = Inr e"
  using assms by (auto simp: ref_ea_shape_def is_err_def split: sum.splits)

lemma Resolve_unfold:
  assumes "ref_ea_shape T" and "trim_space uid \<noteq> []"
  shows "Resolve env T ref uid w =
     (if ref \<noteq> [] then
        (case resolveByRef env T ref (trim_space uid) w of
           (Some r, w1) \<Rightarrow> (r, w1)
         | (None, w1) \<Rightarrow> resolveBySearch env T ref (trim_space uid) w1)
      else resolveBySearch env T ref (trim_space uid) w)"
  using assms by (auto simp: Resolve_def Let_def elim!: ref_ea_shapeE)

subsection \<open>The requests one resolution makes\<close>

lemma Resolve_calls:
  "\<exists>cs. calls (snd (Resolve env T ref uid w)) = calls w @ cs \<and>
     (cs = [] \<or> cs = [CGet (ot_name T) ref]
      \<or> cs = [CSearch (ot_name T) (uid_query (trim_space uid))]
      \<or> cs = [CGet (ot_name T) ref, CSearch (ot_name T) (uid_query (trim_space uid))])"
  using resolveByRef_calls [of env T ref "trim_space uid" w]
  by (auto simp: Resolve_def Let_def resolveBySearch_calls split: prod.splits sum.splits option.splits)

lemma Resolve_mutations [simp]: "mutations (snd (Resolve env T ref uid w)) = mutations w"
  using Resolve_calls [of env T ref uid w] by (auto simp: mutations_def)

subsection \<open>What a result says\<close>

definition stamped :: "'o objtype \<Rightarrow> 'o \<Rightarrow> string option" where
  "stamped T x = (case getEA (ot_reflect T x) of Inl _ \<Rightarrow> None | Inr e \<Rightarrow> eaValue e EAKey)"

text \<open>
  The documented behaviour of a WAPI search on an extensible attribute: every
  object it returns carries the value searched for.
\<close>

definition search_sound :: "('o, 'm) wapi \<Rightarrow> 'o objtype \<Rightarrow> bool" where
  "search_sound env T \<longleftrightarrow>
     (\<forall>h uid xs. wapi_search env h (ot_name T) (uid_query uid) = Inr xs \<longrightarrow>
        (\<forall>x \<in> set xs. stamped T x = Some uid))"

lemma resolveByRef_cases:
  assumes "resolveByRef env T ref uid w = (r, w')"
  shows "(r = None \<longrightarrow> (\<exists>err. wapi_get env (calls w) (ot_name T) ref = Inl err \<and> isNotFound (Some err)))
    \<and> (\<forall>x out. r = Some (Inr (x, out)) \<longrightarrow>
        (\<exists>o1. x = Some o1 \<and> wapi_get env (calls w) (ot_name T) ref = Inr o1 \<and>
          (out = OutcomeResolved \<and> stamped T o1 = Some uid \<or> out = OutcomeAdopted \<and> stamped T o1 = None)))"
  using assms
  by (auto simp: resolveByRef_def get_object_def stamped_def split: sum.splits option.splits if_splits)

lemma resolveBySearch_cases:
  assumes "resolveBySearch env T ref uid w = (Inr (x, out), w')"
  shows "(x = None \<and> out = OutcomeNotFound \<and>
           (wapi_search env (calls w) (ot_name T) (uid_query uid) = Inr []
            \<or> (\<exists>err. wapi_search env (calls w) (ot_name T) (uid_query uid) = Inl err \<and> isNotFound (Some err))))
      \<or> (\<exists>o1. x = Some o1 \<and> wapi_search env (calls w) (ot_name T) (uid_query uid) = Inr [o1] \<and>
           out = (if ref = [] then OutcomeFoundByUID else OutcomeRotated))"
  using assms
  by (auto simp: resolveBySearch_def searchByUID_def search_objects_def
      split: sum.splits list.splits if_splits)

lemma Resolve_NotFound_search:
  assumes "Resolve env T ref uid w = (Inr (x, OutcomeNotFound), w')"
  shows "x = None \<and>
    (\<exists>h. calls w' = h @ [CSearch (ot_name T) (uid_query (trim_space uid))] \<and>
       (wapi_search env h (ot_name T) (uid_query (trim_space uid)) = Inr []
        \<or> (\<exists>err. wapi_search env h (ot_name T) (uid_query (trim_space uid)) = Inl err \<and> isNotFound (Some err))))
    \<and> (ref \<noteq> [] \<longrightarrow> (\<exists>err. wapi_get env (calls w) (ot_name T) ref = Inl err \<and> isNotFound (Some err)))"
proof -
  have search: "x = None \<and> (\<exists>h. calls w' = h @ [CSearch (ot_name T) (uid_query (trim_space uid))] \<and>
       (wapi_search env h (ot_name T) (uid_query (trim_space uid)) = Inr []
        \<or> (\<exists>err. wapi_search env h (ot_name T) (uid_query (trim_space uid)) = Inl err \<and> isNotFound (Some err))))"
    if "resolveBySearch env T ref (trim_space uid) w0 = (Inr (x, OutcomeNotFound), w')" for w0
    using resolveBySearch_cases [OF that] resolveBySearch_calls [of env T ref "trim_space uid" w0] that
    by (auto split: if_splits)
  show ?thesis
  proof (cases "ref = []")
    case True
    with assms search [of w] show ?thesis
      by (auto simp: Resolve_def Let_def split: sum.splits if_splits)
  next
    case False
    obtain r w1 where r: "resolveByRef env T ref (trim_space uid) w = (r, w1)"
      by (cases "resolveByRef env T ref (trim_space uid) w")
    with assms False have none: "r = None"
      using resolveByRef_cases [OF r]
      by (cases r) (auto simp: Resolve_def Let_def split: sum.splits if_splits)
    with assms False r have "resolveBySearch env T ref (trim_space uid) w1 = (Inr (x, OutcomeNotFound), w')"
      by (auto simp: Resolve_def Let_def split: sum.splits if_splits)
    with search [of w1] resolveByRef_cases [OF r] none show ?thesis by blast
  qed
qed

lemma Resolve_Some:
  assumes "Resolve env T ref uid w = (Inr (x, out), w')" and "out \<noteq> OutcomeNotFound"
  obtains o1 where "x = Some o1"
  using assms
  by (auto simp: Resolve_def Let_def dest!: resolveBySearch_cases resolveByRef_cases
      split: sum.splits if_splits prod.splits option.splits)

lemma Resolve_owner:
  assumes "Resolve env T ref uid w = (Inr (Some o1, out), w')" and "search_sound env T"
  shows "out = OutcomeAdopted \<and> stamped T o1 = None \<or> stamped T o1 = Some (trim_space uid)"
  using assms(1) assms(2) [unfolded search_sound_def, rule_format]
  by (fastforce simp: Resolve_def Let_def dest!: resolveBySearch_cases resolveByRef_cases
      split: sum.splits if_splits prod.splits option.splits)

lemma Resolve_Resolved_owner:
  assumes "Resolve env T ref uid w = (Inr (Some o1, OutcomeResolved), w')"
  shows "stamped T o1 = Some (trim_space uid)"
  using assms
  by (auto simp: Resolve_def Let_def dest!: resolveBySearch_cases resolveByRef_cases
      split: sum.splits if_splits prod.splits option.splits)

end
