(* ===== verification/ExtAttrs.thy ===== *)
theory ExtAttrs
  imports Identity
begin

text \<open>
  The translation between the CRD's string-valued extAttrs and the SDK's EA
  map, and the comparison the controllers decide drift with. Every controller
  package declares these helpers with the same bodies; the map names the
  ARecord package. The locale \<open>attr_codec\<close> states what the stamping of
  the Identity theory and this translation promise a controller.
\<close>

section \<open>SDK and CRD representations\<close>

definition buildEA :: "extattrs \<Rightarrow> ea" where
  "buildEA attrs = (if attrs = fmempty then fmempty else fmmap EAStr attrs)"

definition stringifyEAValue :: "eaval \<Rightarrow> string" where
  "stringifyEAValue v =
     (case v of
        EANil \<Rightarrow> []
      | EAStr s \<Rightarrow> s
      | EABool b \<Rightarrow> if b then ''True'' else ''False''
      | EAStrs xs \<Rightarrow> join_with '','' xs
      | EAInt i \<Rightarrow> show_int i)"

definition extAttrsFromEA :: "ea \<Rightarrow> extattrs" where
  "extAttrsFromEA e = (if e = fmempty then fmempty else fmmap stringifyEAValue e)"

definition extAttrsEqual :: "extattrs \<Rightarrow> extattrs \<Rightarrow> bool" where
  "extAttrsEqual a b =
     (if fcard (fmdom a) \<noteq> fcard (fmdom b) then False
      else fmpred (\<lambda>k v. fmlookup b k = Some v) a)"

lemma extAttrsEqual_iff: "extAttrsEqual a b \<longleftrightarrow> a = b"
proof
  assume "extAttrsEqual a b"
  then show "a = b" by (auto simp: extAttrsEqual_def intro: fmap_eq_by_card split: if_splits)
qed (auto simp: extAttrsEqual_def intro: fmpredI)

lemma buildEA_fmmap: "buildEA m = fmmap EAStr m"
  by (simp add: buildEA_def)

lemma extAttrsFromEA_fmmap: "extAttrsFromEA e = fmmap stringifyEAValue e"
  by (simp add: extAttrsFromEA_def)

lemma extAttrsFromEA_empty_iff [simp]: "extAttrsFromEA e = fmempty \<longleftrightarrow> e = fmempty"
  unfolding extAttrsFromEA_fmmap by (metis fmdom_empty fmdom_map fcard_fmdom_0_iff fcard_fempty)

lemma extAttrsFromEA_buildEA [simp]: "extAttrsFromEA (buildEA m) = m"
  by (rule fmap_ext) (simp add: buildEA_fmmap extAttrsFromEA_fmmap stringifyEAValue_def
      option.map_comp comp_def option.map_ident)

text \<open>The attributes a user sees: the Grid's map without the stamp.\<close>

definition userAttrs :: "ea \<Rightarrow> extattrs" where
  "userAttrs e = extAttrsFromEA (Strip e)"

lemma lookup_userAttrs:
  "fmlookup (userAttrs e) k = (if k = EAKey then None else map_option stringifyEAValue (fmlookup e k))"
  by (simp add: userAttrs_def extAttrsFromEA_fmmap Strip_fmdrop)

lemma userAttrs_reserved [simp]: "fmlookup (userAttrs e) EAKey = None"
  by (simp add: lookup_userAttrs)

lemma userAttrs_Stamp [simp]: "userAttrs (Stamp e uid) = userAttrs e"
  by (simp add: userAttrs_def)

lemma userAttrs_buildEA: "userAttrs (buildEA m) = fmdrop EAKey m"
  by (rule fmap_ext) (simp add: lookup_userAttrs buildEA_fmmap stringifyEAValue_def
      option.map_comp comp_def option.map_ident)

text \<open>The CRD rejects the reserved key in spec.forProvider.extAttrs (a CEL rule).\<close>

definition reserved_free :: "extattrs \<Rightarrow> bool" where
  "reserved_free m \<longleftrightarrow> fmlookup m EAKey = None"

lemma reserved_free_fmdrop: "reserved_free m \<Longrightarrow> fmdrop EAKey m = m"
  by (rule fmap_ext) (auto simp: reserved_free_def)

section \<open>The contract of stamping\<close>

locale attr_codec =
  fixes build :: "'u \<Rightarrow> 'e" and visible :: "'e \<Rightarrow> 'u"
    and stamp :: "'e \<Rightarrow> string \<Rightarrow> 'e" and owner :: "'e \<Rightarrow> string option"
    and admissible :: "'u \<Rightarrow> bool"
  assumes owner_stamp: "owner (stamp e uid) = Some uid"
    and visible_stamp: "visible (stamp e uid) = visible e"
    and visible_build: "admissible u \<Longrightarrow> visible (build u) = u"
    and visible_admissible: "admissible (visible e)"
begin

text \<open>A write sends the user's attributes, stamped: reading it back shows exactly them.\<close>

lemma written_visible: "admissible u \<Longrightarrow> visible (stamp (build u) uid) = u"
  by (simp add: visible_stamp visible_build)

text \<open>Reading an object and writing what was read changes nothing a user sees.\<close>

lemma read_write: "visible (stamp (build (visible e)) uid) = visible e"
  by (simp add: written_visible visible_admissible)

lemma restamp: "owner (stamp (stamp e u1) u2) = Some u2"
  by (rule owner_stamp)

end

interpretation ea: attr_codec buildEA userAttrs Stamp "\<lambda>e. eaValue e EAKey" reserved_free
  by unfold_locales
    (simp_all add: userAttrs_buildEA reserved_free_fmdrop reserved_free_def)

end
