(* ===== verification/Prober.thy ===== *)
theory Prober
  imports Identity
begin

text \<open>
  internal/clients/identity/probe.go: the install prerequisite. Ensure answers
  whether the identity extensible attribute definition is usable on a Grid,
  probing (and where permitted creating) it, and caches the verdict per
  endpoint for DefaultProbeTTL. The first part is one call of Ensure as a
  single goroutine runs it; the theory ProberConcurrency interleaves the same
  lookups and stores.
\<close>

section \<open>Constants\<close>

text \<open>Five minutes, in nanoseconds.\<close>

definition DefaultProbeTTL :: int where
  "DefaultProbeTTL = 5 * 60 * 1000000000"

definition eaDefType :: string where "eaDefType = ''STRING''"
definition eaDefFlags :: string where "eaDefFlags = ''CR''"

definition eaDefComment :: string where
  "eaDefComment = ''Identity attribute for crossplane-provider-infobloxnios. Do not delete or rename '' @ em_dash @
     '' managed resources are resolved through this attribute, and removing it breaks reads and writes for every managed object on this Grid.''"

definition errEmptyEndpoint :: string where
  "errEmptyEndpoint = ''identity: probe endpoint key is empty or blank '' @ em_dash @
     '' Ensure requires a non-empty, per-Grid/credential cache key''"

definition errCheckDefinitionExists :: string where
  "errCheckDefinitionExists =
     ''identity: cannot check whether the identity extensible attribute definition exists''"

definition errCreateDefinition :: string where
  "errCreateDefinition = ''identity: cannot create the identity extensible attribute definition''"

definition errSuperuserOnlyDefinition :: string where
  "errSuperuserOnlyDefinition = ''only superusers can manage extensible attribute definition''"

section \<open>Error classification\<close>

definition isForbidden :: "goerr option \<Rightarrow> bool" where
  "isForbidden err =
     (case err of
        None \<Rightarrow> False
      | Some e \<Rightarrow>
          (case errStatus (err_text e) of
             None \<Rightarrow> False
           | Some code \<Rightarrow>
               if code = 401 \<or> code = 403 then True
               else code = 400 \<and> contains_str errSuperuserOnlyDefinition (to_lower (err_text e))))"

definition isAlreadyExists :: "goerr option \<Rightarrow> bool" where
  "isAlreadyExists err =
     (case err of
        None \<Rightarrow> False
      | Some e \<Rightarrow> contains_str ''already exist'' (to_lower (err_text e)))"

section \<open>The cache\<close>

text \<open>
  lookup: a verdict is served while the clock is before its expiry. store:
  positive and negative verdicts alike, valid for the TTL.
\<close>

definition cache_live :: "(string \<rightharpoonup> probeCacheEntry) \<Rightarrow> string \<Rightarrow> int \<Rightarrow> goerr option option" where
  "cache_live cache ep now =
     (case cache ep of
        None \<Rightarrow> None
      | Some entry \<Rightarrow> if \<not> now < pce_expiresAt entry then None else Some (pce_err entry))"

definition cache_put ::
  "int \<Rightarrow> (string \<rightharpoonup> probeCacheEntry) \<Rightarrow> string \<Rightarrow> goerr option \<Rightarrow> int \<Rightarrow> (string \<rightharpoonup> probeCacheEntry)" where
  "cache_put ttl cache ep verdict now = cache(ep \<mapsto> \<lparr>pce_err = verdict, pce_expiresAt = now + ttl\<rparr>)"

text \<open>NewProber: the default TTL and empty maps.\<close>

definition NewProber :: "int \<times> (string \<rightharpoonup> probeCacheEntry)" where
  "NewProber = (DefaultProbeTTL, Map.empty)"

definition prober_lookup ::
  "('o, 'm) wapi \<Rightarrow> string \<Rightarrow> 'm world \<Rightarrow> goerr option option \<times> 'm world" where
  "prober_lookup env ep w =
     (case probe_cache w ep of
        None \<Rightarrow> (None, w)
      | Some entry \<Rightarrow>
          (case read_clock env w of
             (now, w1) \<Rightarrow>
               if \<not> now < pce_expiresAt entry then (None, w1) else (Some (pce_err entry), w1)))"

definition prober_store :: "('o, 'm) wapi \<Rightarrow> string \<Rightarrow> goerr option \<Rightarrow> 'm world \<Rightarrow> 'm world" where
  "prober_store env ep verdict w =
     (case read_clock env w of
        (now, w1) \<Rightarrow> w1\<lparr>probe_cache := cache_put DefaultProbeTTL (probe_cache w1) ep verdict now\<rparr>)"

section \<open>The probe\<close>

definition identityDefinition :: EADefinition where
  "identityDefinition =
     \<lparr>ead_Ref = [], ead_Name = Some EAKey, ead_Type = eaDefType, ead_Comment = Some eaDefComment,
      ead_DefaultValue = None, ead_Min = None, ead_Max = None, ead_Flags = Some eaDefFlags,
      ead_ListValues = [], ead_AllowedObjectTypes = [], ead_Namespace = [], ead_DescendantsAction = None\<rparr>"

definition definitionExists :: "('o, 'm) wapi \<Rightarrow> 'm world \<Rightarrow> (goerr + bool) \<times> 'm world" where
  "definitionExists env w =
     (case def_search env (fmupd ''name'' EAKey fmempty) w of
        (Inl err, w1) \<Rightarrow> if isNotFound (Some err) then (Inr False, w1) else (Inl err, w1)
      | (Inr res, w1) \<Rightarrow> (Inr (0 < length res), w1))"

definition createDefinition :: "('o, 'm) wapi \<Rightarrow> 'm world \<Rightarrow> goerr option \<times> 'm world" where
  "createDefinition env w =
     (case def_create env identityDefinition w of
        (Inl err, w1) \<Rightarrow> (Some err, w1)
      | (Inr _, w1) \<Rightarrow> (None, w1))"

definition probe :: "('o, 'm) wapi \<Rightarrow> string \<Rightarrow> 'm world \<Rightarrow> goerr option \<times> 'm world" where
  "probe env ep w =
     (case definitionExists env w of
        (Inl err, w1) \<Rightarrow> (Some (Wrapped errCheckDefinitionExists err), w1)
      | (Inr exists, w1) \<Rightarrow>
          if exists then (None, w1)
          else (case createDefinition env w1 of
                  (createErr, w2) \<Rightarrow>
                    (case createErr of
                       None \<Rightarrow> (None, count_metric ProbeCreated ep w2)
                     | Some e \<Rightarrow>
                         if isAlreadyExists createErr then (None, count_metric ProbeRaceWon ep w2)
                         else if isForbidden createErr
                           then (Some (PrerequisiteError ep), count_metric ProbeRefused ep w2)
                         else (Some (Wrapped errCreateDefinition e), w2))))"

definition Ensure :: "('o, 'm) wapi \<Rightarrow> string \<Rightarrow> 'm world \<Rightarrow> goerr option \<times> 'm world" where
  "Ensure env endpoint w =
     (let ep = trim_space endpoint in
      if ep = [] then (Some (TextError errEmptyEndpoint), w)
      else (case prober_lookup env ep w of
              (Some err, w1) \<Rightarrow> (err, w1)
            | (None, w1) \<Rightarrow>
                (case prober_lookup env ep w1 of
                   (Some err, w2) \<Rightarrow> (err, w2)
                 | (None, w2) \<Rightarrow>
                     (case probe env ep w2 of
                        (err, w3) \<Rightarrow> (err, prober_store env ep err w3)))))"

text \<open>
  ensureIdentityPrerequisite (declared per controller package with the same
  body): the refusal is returned verbatim, everything else is wrapped. An
  empty endpoint falls back to a fixed cache key.
\<close>

definition unresolvedProbeEndpoint :: string where
  "unresolvedProbeEndpoint = ''unresolved-grid-endpoint''"

definition errPrerequisiteCheck :: string where
  "errPrerequisiteCheck =
     ''cannot verify the identity extensible attribute definition prerequisite''"

definition ensureIdentityPrerequisite ::
  "('o, 'm) wapi \<Rightarrow> string \<Rightarrow> 'm world \<Rightarrow> goerr option \<times> 'm world" where
  "ensureIdentityPrerequisite env endpoint w =
     (let ep = (if endpoint = [] then unresolvedProbeEndpoint else endpoint) in
      case Ensure env ep w of
        (None, w1) \<Rightarrow> (None, w1)
      | (Some err, w1) \<Rightarrow>
          if errors_as is_PrerequisiteError err then (Some err, w1)
          else (Some (Wrapped errPrerequisiteCheck err), w1))"

section \<open>Frame: what a probe leaves alone\<close>

lemma prober_lookup_frame [simp]:
  "calls (snd (prober_lookup env ep w)) = calls w"
  "probe_cache (snd (prober_lookup env ep w)) = probe_cache w"
  "mutations (snd (prober_lookup env ep w)) = mutations w"
  by (simp_all add: prober_lookup_def split_beta split: option.splits)

lemma prober_store_frame [simp]:
  "calls (prober_store env ep v w) = calls w"
  "mutations (prober_store env ep v w) = mutations w"
  by (simp_all add: prober_store_def read_clock_def mutations_def)

lemma definitionExists_calls [simp]:
  "calls (snd (definitionExists env w)) = calls w @ [CDefSearch (fmupd ''name'' EAKey fmempty)]"
  by (simp add: definitionExists_def def_search_def split: sum.splits)

lemma createDefinition_calls [simp]:
  "calls (snd (createDefinition env w)) = calls w @ [CDefCreate identityDefinition]"
  by (simp add: createDefinition_def def_create_def split: sum.splits)

lemma definitionExists_frame [simp]:
  "probe_cache (snd (definitionExists env w)) = probe_cache w"
  "clock_reads (snd (definitionExists env w)) = clock_reads w"
  by (simp_all add: definitionExists_def def_search_def split: sum.splits)

lemma createDefinition_frame [simp]:
  "probe_cache (snd (createDefinition env w)) = probe_cache w"
  "clock_reads (snd (createDefinition env w)) = clock_reads w"
  by (simp_all add: createDefinition_def def_create_def split: sum.splits)

lemma probe_calls:
  "calls (snd (probe env ep w)) =
     calls w @ CDefSearch (fmupd ''name'' EAKey fmempty) #
     (if fst (definitionExists env w) = Inr False then [CDefCreate identityDefinition] else [])"
  by (simp add: probe_def split_beta split: sum.split option.split)

lemma probe_mutations [simp]: "mutations (snd (probe env ep w)) = mutations w"
  by (simp add: mutations_def probe_calls)

lemma probe_frame [simp]:
  "probe_cache (snd (probe env ep w)) = probe_cache w"
  "clock_reads (snd (probe env ep w)) = clock_reads w"
  by (simp_all add: probe_def split_beta split: sum.split option.split)

lemma Ensure_mutations [simp]: "mutations (snd (Ensure env endpoint w)) = mutations w"
  by (simp add: Ensure_def Let_def split_beta split: option.split)

lemma ensureIdentityPrerequisite_mutations [simp]:
  "mutations (snd (ensureIdentityPrerequisite env endpoint w)) = mutations w"
  by (simp add: ensureIdentityPrerequisite_def Let_def split_beta split: option.split)

section \<open>Behaviour\<close>

text \<open>The lookup is \<open>cache_live\<close> at the time the clock shows.\<close>

lemma prober_lookup_live:
  "fst (prober_lookup env ep w) = cache_live (probe_cache w) ep (wall_clock env (clock_reads w))"
  by (simp add: prober_lookup_def cache_live_def split_beta split: option.split)

lemma prober_store_cache:
  "probe_cache (prober_store env ep v w) =
     cache_put DefaultProbeTTL (probe_cache w) ep v (wall_clock env (clock_reads w))"
  by (simp add: prober_store_def read_clock_def)

lemma Ensure_hit:
  assumes "trim_space ep \<noteq> []"
    and "cache_live (probe_cache w) (trim_space ep) (wall_clock env (clock_reads w)) = Some v"
  shows "fst (Ensure env ep w) = v" and "calls (snd (Ensure env ep w)) = calls w"
    and "probe_cache (snd (Ensure env ep w)) = probe_cache w"
proof -
  have l: "fst (prober_lookup env (trim_space ep) w) = Some v"
    using assms(2) by (simp add: prober_lookup_live)
  show "fst (Ensure env ep w) = v" "calls (snd (Ensure env ep w)) = calls w"
    "probe_cache (snd (Ensure env ep w)) = probe_cache w"
    using assms(1) l by (simp_all add: Ensure_def Let_def split_beta)
qed

text \<open>Whatever the verdict, it is in the cache when Ensure returns.\<close>

lemma Ensure_caches:
  assumes "trim_space ep \<noteq> []"
  obtains entry where "probe_cache (snd (Ensure env ep w)) (trim_space ep) = Some entry"
    and "pce_err entry = fst (Ensure env ep w)"
proof -
  have l: "fst (prober_lookup env e w0) = Some v \<Longrightarrow> \<exists>entry. probe_cache w0 e = Some entry \<and> pce_err entry = v"
    for e w0 v by (auto simp: prober_lookup_live cache_live_def split: option.splits if_splits)
  have "\<exists>entry. probe_cache (snd (Ensure env ep w)) (trim_space ep) = Some entry
      \<and> pce_err entry = fst (Ensure env ep w)"
    using assms l [of "trim_space ep" w] l [of "trim_space ep" "snd (prober_lookup env (trim_space ep) w)"]
    by (auto simp: Ensure_def Let_def split_beta prober_store_cache cache_put_def split: option.split)
  then show ?thesis using that by blast
qed

lemma probe_ok_iff:
  "fst (probe env ep w) = None \<longleftrightarrow>
     (let w1 = snd (definitionExists env w) in
      fst (definitionExists env w) = Inr True
      \<or> fst (definitionExists env w) = Inr False \<and>
          (fst (createDefinition env w1) = None \<or> isAlreadyExists (fst (createDefinition env w1))))"
  by (auto simp: probe_def split_beta Let_def isAlreadyExists_def split: sum.split option.split)

lemma probe_refused_iff:
  "fst (probe env ep w) = Some (PrerequisiteError ep') \<longleftrightarrow>
     ep' = ep \<and> fst (definitionExists env w) = Inr False \<and>
     (let r = fst (createDefinition env (snd (definitionExists env w))) in
        isForbidden r \<and> \<not> isAlreadyExists r)"
  by (auto simp: probe_def split_beta Let_def isForbidden_def split: sum.split option.split)

end
