(* ===== verification/Contracts.thy ===== *)
theory Contracts
  imports ExtAttrs Prober
begin

text \<open>
  The interfaces the resource controllers share, as locales: late
  initialisation against the drift check, and deletion through the identity
  ladder. Each controller theory interprets them on its own definitions.
\<close>

section \<open>Late initialisation\<close>

text \<open>
  \<open>late s x\<close> back-fills a spec from an observed object and reports whether it
  changed anything; \<open>utd s x\<close> is the drift check; \<open>keeps s s'\<close> says that every
  value the user set in s is still there in s'.
\<close>

locale late_init =
  fixes late :: "'s \<Rightarrow> 'o \<Rightarrow> 's \<times> bool"
    and utd :: "'s \<Rightarrow> 'o \<Rightarrow> bool"
    and keeps :: "'s \<Rightarrow> 's \<Rightarrow> bool"
  assumes late_idem: "late (fst (late s x)) x = (fst (late s x), False)"
    and late_flag: "snd (late s x) \<longleftrightarrow> fst (late s x) \<noteq> s"
    and late_keeps: "keeps s (fst (late s x))"
    and late_utd: "utd s x \<Longrightarrow> utd (fst (late s x)) x"
begin

lemma late_unchanged: "utd s x \<Longrightarrow> \<not> snd (late s x) \<Longrightarrow> fst (late s x) = s"
  using late_flag by blast

text \<open>Observing an unchanged object again back-fills nothing and answers the same.\<close>

lemma second_observe:
  "fst (late (fst (late s x)) x) = fst (late s x)"
  "\<not> snd (late (fst (late s x)) x)"
  "utd (fst (late (fst (late s x)) x)) x = utd (fst (late s x)) x"
  by (simp_all add: late_idem)

lemma late_iterate: "((\<lambda>t. fst (late t x)) ^^ Suc n) s = fst (late s x)"
  by (induction n) (simp_all add: late_idem)

end

section \<open>Deletion through the ladder\<close>

text \<open>
  The shape of every delete<Kind>Identity function: resolve first; a failed
  search probes for the missing definition; an object whose ownership is not
  verified is refused; a verified one is deleted by its current reference, and
  a 404 on that delete is success. The text of the wrap and of the refusal are
  the controller's own.
\<close>

definition ladder_delete_shape ::
  "string \<Rightarrow> string \<Rightarrow> string \<Rightarrow> ('m world \<Rightarrow> (goerr + 'o option \<times> Outcome) \<times> 'm world) \<Rightarrow>
     ('m world \<Rightarrow> goerr option \<times> 'm world) \<Rightarrow> (string \<Rightarrow> 'm world \<Rightarrow> goerr option \<times> 'm world) \<Rightarrow>
     ('o \<Rightarrow> string) \<Rightarrow> 'm world \<Rightarrow> goerr option \<times> 'm world" where
  "ladder_delete_shape errDelete errRefuse errNil resolve ensure issue ref_of w =
     (case resolve w of
        (Inl err, w1) \<Rightarrow>
          if IsSearchFailure err then
            (case ensure w1 of
               (Some prereq, w2) \<Rightarrow> (Some prereq, w2)
             | (None, w2) \<Rightarrow> (Some (Wrapped errDelete err), w2))
          else (Some (Wrapped errDelete err), w1)
      | (Inr (obj, outcome), w1) \<Rightarrow>
          (case outcome of
             OutcomeNotFound \<Rightarrow> (None, w1)
           | OutcomeAdopted \<Rightarrow> (Some (TextError errRefuse), w1)
           | _ \<Rightarrow>
               (case obj of
                  None \<Rightarrow> (Some (TextError errNil), w1)
                | Some x \<Rightarrow>
                    (case issue (ref_of x) w1 of
                       (None, w2) \<Rightarrow> (None, w2)
                     | (Some delErr, w2) \<Rightarrow>
                         if isNotFound (Some delErr) then (None, w2)
                         else (Some (Wrapped errDelete delErr), w2)))))"

locale ladder_delete =
  fixes resolve :: "'m world \<Rightarrow> (goerr + 'o option \<times> Outcome) \<times> 'm world"
    and ensure :: "'m world \<Rightarrow> goerr option \<times> 'm world"
    and issue :: "string \<Rightarrow> 'm world \<Rightarrow> goerr option \<times> 'm world"
    and ref_of :: "'o \<Rightarrow> string"
    and owned :: "'o \<Rightarrow> bool"
    and del :: "'m world \<Rightarrow> goerr option \<times> 'm world"
    and errDelete errRefuse errNil :: string
  assumes del_shape: "del w = ladder_delete_shape errDelete errRefuse errNil resolve ensure issue ref_of w"
    and resolve_quiet: "mutations (snd (resolve w)) = mutations w"
    and ensure_quiet: "mutations (snd (ensure w)) = mutations w"
    and issue_logs: "mutations (snd (issue r w)) = mutations w @ [CDelete r]"
    and resolve_owned: "fst (resolve w) = Inr (Some x, out) \<Longrightarrow>
      out \<noteq> OutcomeAdopted \<Longrightarrow> out \<noteq> OutcomeNotFound \<Longrightarrow> owned x"
    and resolve_some: "fst (resolve w) = Inr (obj, out) \<Longrightarrow> out \<noteq> OutcomeNotFound \<Longrightarrow> obj \<noteq> None"
begin

text \<open>At most one mutating request, and only a delete of an object that is owned.\<close>

lemma del_mutations:
  "mutations (snd (del w)) = mutations w \<or>
   (\<exists>x out. fst (resolve w) = Inr (Some x, out) \<and> out \<noteq> OutcomeAdopted \<and> out \<noteq> OutcomeNotFound
      \<and> owned x \<and> mutations (snd (del w)) = mutations w @ [CDelete (ref_of x)])"
proof -
  obtain r w1 where r: "resolve w = (r, w1)" by (cases "resolve w")
  have q: "mutations w1 = mutations w" using resolve_quiet [of w] r by simp
  show ?thesis
  proof (cases r)
    case (Inl err)
    then show ?thesis
      using r q ensure_quiet [of w1]
      by (simp add: del_shape ladder_delete_shape_def split_beta split: option.split)
  next
    case (Inr p)
    then obtain obj out where p: "r = Inr (obj, out)" by (cases p) simp
    show ?thesis
    proof (cases "out \<in> {OutcomeAdopted, OutcomeNotFound}")
      case True
      then show ?thesis using r p q by (auto simp: del_shape ladder_delete_shape_def)
    next
      case False
      with resolve_some [of w obj out] r p obtain x where x: "obj = Some x" by auto
      have "owned x" using resolve_owned [of w x out] r p x False by simp
      moreover have "mutations (snd (del w)) = mutations w @ [CDelete (ref_of x)]"
        using r p x q False issue_logs [of "ref_of x" w1]
        by (simp add: del_shape ladder_delete_shape_def split_beta split: Outcome.split option.split)
      ultimately show ?thesis using r p x False by auto
    qed
  qed
qed

text \<open>The Adopted row is refused without a request.\<close>

lemma del_adopted:
  assumes "fst (resolve w) = Inr (obj, OutcomeAdopted)"
  shows "fst (del w) = Some (TextError errRefuse)" and "mutations (snd (del w)) = mutations w"
proof -
  obtain w1 where r: "resolve w = (Inr (obj, OutcomeAdopted), w1)"
    using assms by (cases "resolve w") simp
  then show "fst (del w) = Some (TextError errRefuse)" "mutations (snd (del w)) = mutations w"
    using resolve_quiet [of w] by (simp_all add: del_shape ladder_delete_shape_def)
qed

text \<open>
  Success means: the ladder found nothing, or the owned object was deleted, or
  it was gone when the delete arrived.
\<close>

lemma del_success:
  assumes "fst (del w) = None"
  shows "(\<exists>obj. fst (resolve w) = Inr (obj, OutcomeNotFound)) \<or>
    (\<exists>x out. fst (resolve w) = Inr (Some x, out) \<and> owned x \<and>
      (let r = fst (issue (ref_of x) (snd (resolve w))) in r = None \<or> isNotFound r))"
proof -
  obtain r w1 where r: "resolve w = (r, w1)" by (cases "resolve w")
  show ?thesis
  proof (cases r)
    case (Inl err)
    then show ?thesis
      using assms r by (simp add: del_shape ladder_delete_shape_def split_beta split: if_splits option.splits)
  next
    case (Inr p)
    then obtain obj out where p: "r = Inr (obj, out)" by (cases p) simp
    show ?thesis
    proof (cases "out \<in> {OutcomeAdopted, OutcomeNotFound}")
      case True
      then show ?thesis using assms r p by (auto simp: del_shape ladder_delete_shape_def)
    next
      case False
      with resolve_some [of w obj out] r p obtain x where x: "obj = Some x" by auto
      have "owned x" using resolve_owned [of w x out] r p x False by simp
      then show ?thesis
        using assms r p x False
        by (auto simp: del_shape ladder_delete_shape_def split_beta Let_def
            split: Outcome.splits option.splits if_splits)
    qed
  qed
qed

end

end
