(* ===== verification/Managed.thy ===== *)
theory Managed
  imports Wapi
begin

text \<open>
  What every managed resource carries besides its spec and status (name, uid,
  annotations, conditions), and internal/controller/externalname: persisting a
  rotated reference from inside Update. The annotation and condition accessors
  are crossplane-runtime's; they read and write the maps below. Condition
  timestamps are left out.
\<close>

section \<open>Object metadata and conditions\<close>

datatype condition_status = ConditionTrue | ConditionFalse

record condition =
  cond_status :: condition_status
  cond_reason :: string
  cond_message :: string

record mobj =
  mo_name :: string
  mo_namespace :: string
  mo_uid :: string
  mo_annotations :: "(string, string) fmap"
  mo_conditions :: "(string, condition) fmap"

definition AnnotationKeyExternalName :: string where
  "AnnotationKeyExternalName = ''crossplane.io/external-name''"

definition GetExternalName :: "'a mobj_scheme \<Rightarrow> string" where
  "GetExternalName cr =
     (case fmlookup (mo_annotations cr) AnnotationKeyExternalName of None \<Rightarrow> [] | Some v \<Rightarrow> v)"

definition SetExternalName :: "string \<Rightarrow> 'a mobj_scheme \<Rightarrow> 'a mobj_scheme" where
  "SetExternalName name cr = cr\<lparr>mo_annotations := fmupd AnnotationKeyExternalName name (mo_annotations cr)\<rparr>"

definition SetCondition :: "string \<Rightarrow> condition \<Rightarrow> 'a mobj_scheme \<Rightarrow> 'a mobj_scheme" where
  "SetCondition ty c cr = cr\<lparr>mo_conditions := fmupd ty c (mo_conditions cr)\<rparr>"

text \<open>xpv2.Available(): type Ready, status True.\<close>

definition AvailableCondition :: condition where
  "AvailableCondition = \<lparr>cond_status = ConditionTrue, cond_reason = ''Available'', cond_message = []\<rparr>"

definition SetAvailable :: "'a mobj_scheme \<Rightarrow> 'a mobj_scheme" where
  "SetAvailable cr = SetCondition ''Ready'' AvailableCondition cr"

lemma GetExternalName_Set [simp]: "GetExternalName (SetExternalName n cr) = n"
  by (simp add: GetExternalName_def SetExternalName_def)

lemma SetExternalName_frame [simp]:
  "mo_name (SetExternalName n cr) = mo_name cr"
  "mo_namespace (SetExternalName n cr) = mo_namespace cr"
  "mo_uid (SetExternalName n cr) = mo_uid cr"
  "mo_conditions (SetExternalName n cr) = mo_conditions cr"
  by (simp_all add: SetExternalName_def)

lemma SetAvailable_frame [simp]:
  "mo_name (SetAvailable cr) = mo_name cr"
  "mo_namespace (SetAvailable cr) = mo_namespace cr"
  "mo_uid (SetAvailable cr) = mo_uid cr"
  "mo_annotations (SetAvailable cr) = mo_annotations cr"
  "GetExternalName (SetAvailable cr) = GetExternalName cr"
  by (simp_all add: SetAvailable_def SetCondition_def GetExternalName_def)

section \<open>managed.ExternalObservation\<close>

record ExternalObservation =
  ResourceExists :: bool
  ResourceUpToDate :: bool
  ResourceLateInitialized :: bool

definition notExists :: ExternalObservation where
  "notExists = \<lparr>ResourceExists = False, ResourceUpToDate = False, ResourceLateInitialized = False\<rparr>"

section \<open>Persisting the external name\<close>

definition annotationMergePatch :: "string \<Rightarrow> json" where
  "annotationMergePatch newName =
     JObj (fmupd ''metadata''
       (JObj (fmupd ''annotations''
         (JObj (fmupd AnnotationKeyExternalName (JStr newName) fmempty)) fmempty)) fmempty)"

definition patch_attempt :: "('o, 'm) wapi \<Rightarrow> json \<Rightarrow> 'm world \<Rightarrow> goerr option \<times> 'm world" where
  "patch_attempt env patch w = (kube_patch env (calls w) patch, log_call (CPatch patch) w)"

text \<open>
  Refresh. Marshalling the patch document cannot fail: it is a fixed shape
  around one string.
\<close>

definition Refresh ::
  "('o, 'm) wapi \<Rightarrow> 'a mobj_scheme \<Rightarrow> string \<Rightarrow> 'm world \<Rightarrow> goerr option \<times> 'a mobj_scheme \<times> 'm world" where
  "Refresh env cr newName w =
     (case retry_on_conflict env (patch_attempt env (annotationMergePatch newName)) w of
        (Some err, w1) \<Rightarrow> (Some err, cr, w1)
      | (None, w1) \<Rightarrow> (None, SetExternalName newName cr, w1))"

text \<open>
  The documented behaviour of RetryOnConflict: it runs the attempt at least
  once, again while it likes, and returns the last attempt's result.
\<close>

fun attempts :: "('w \<Rightarrow> goerr option \<times> 'w) \<Rightarrow> nat \<Rightarrow> 'w \<Rightarrow> goerr option \<times> 'w" where
  "attempts f 0 w = f w"
| "attempts f (Suc n) w = attempts f n (snd (f w))"

definition retry_documented :: "('o, 'm) wapi \<Rightarrow> bool" where
  "retry_documented env \<longleftrightarrow> (\<forall>f w. \<exists>n. retry_on_conflict env f w = attempts f n w)"

lemma patch_attempts_mutations [simp]:
  "mutations (snd (attempts (patch_attempt env p) n w)) = mutations w"
  by (induction n arbitrary: w) (simp_all add: patch_attempt_def)

lemma Refresh_mutations:
  assumes "retry_documented env"
  shows "mutations (snd (snd (Refresh env cr name w))) = mutations w"
proof -
  obtain n where "retry_on_conflict env (patch_attempt env (annotationMergePatch name)) w =
      attempts (patch_attempt env (annotationMergePatch name)) n w"
    using assms by (auto simp: retry_documented_def)
  then show ?thesis
    using patch_attempts_mutations [of env "annotationMergePatch name" n w]
    by (simp add: Refresh_def split_beta split: option.split)
qed

lemma Refresh_result:
  "fst (snd (Refresh env cr name w)) = (if fst (Refresh env cr name w) = None then SetExternalName name cr else cr)"
  by (auto simp: Refresh_def split_beta split: option.split)

text \<open>RFC 7386: how the API server applies a JSON merge patch.\<close>

fun merge_patch :: "nat \<Rightarrow> json \<Rightarrow> json \<Rightarrow> json" where
  "merge_patch 0 target patch = patch"
| "merge_patch (Suc d) target patch =
     (case patch of
        JObj p \<Rightarrow>
          (let t = (case target of JObj t \<Rightarrow> t | _ \<Rightarrow> fmempty) in
           JObj (fmfilter (\<lambda>k. fmlookup p k \<noteq> Some JNull)
             (t ++\<^sub>f fmmap_keys (\<lambda>k v. merge_patch d (case fmlookup t k of None \<Rightarrow> JNull | Some x \<Rightarrow> x) v) p)))
      | _ \<Rightarrow> patch)"

fun json_at :: "string list \<Rightarrow> json \<Rightarrow> json option" where
  "json_at [] v = Some v"
| "json_at (k # ks) v =
     (case v of
        JObj m \<Rightarrow> (case fmlookup m k of None \<Rightarrow> None | Some x \<Rightarrow> json_at ks x)
      | _ \<Rightarrow> None)"

end
