(* ===== verification/HandlerShapes.thy ===== *)
theory HandlerShapes
  imports Contracts Managed
begin

text \<open>
  The external client that every controller on the identity ladder declares:
  the few helpers the packages copy verbatim, the shape of the four handlers, runs of many
  resources on one Grid, and the two ways the packages write back-filled fields into a spec.
\<close>

section \<open>What the packages share\<close>

definition errPersistExternalName :: string where
  "errPersistExternalName = ''cannot persist refreshed external name''"

definition errDeleteUnverifiedOwnership :: string where
  "errDeleteUnverifiedOwnership = ''refusing to delete: the resolved object's identity extensible attribute is absent or belongs to a different owner, so ownership cannot be verified before an irreversible delete. ''
     @ ''Reconcile the external-name annotation, verify the Grid object manually, or remove the finalizer to abandon it without deleting.''"

text \<open>
  A nil dereference panics in Go. The branches that would dereference a nil
  object are shown unreachable; they carry this marker.
\<close>

definition nilDereference :: string where "nilDereference = ''panic: nil pointer dereference''"

definition observeRefFor :: "string \<Rightarrow> string \<Rightarrow> string" where
  "observeRefFor crName externalName = (if externalName = crName then [] else externalName)"

text \<open>A back-filled field keeps a value the user set.\<close>

definition keeps_set :: "'a option \<Rightarrow> 'a option \<Rightarrow> bool" where
  "keeps_set a b \<longleftrightarrow> a = None \<or> b = a"

definition keeps_attrs :: "extattrs \<Rightarrow> extattrs \<Rightarrow> bool" where
  "keeps_attrs a b \<longleftrightarrow> a = fmempty \<or> b = a"

definition keeps_list :: "'a list \<Rightarrow> 'a list \<Rightarrow> bool" where
  "keeps_list xs ys \<longleftrightarrow> xs = [] \<or> ys = xs"

lemma keeps_fill [simp]:
  "keeps_set x (fill x y)" "keeps_set x (fill_if x q y)" "keeps_attrs a (fill_map a b)"
  "keeps_list xs (fill_list xs ys)"
  by (auto simp: keeps_set_def keeps_attrs_def keeps_list_def fill_def fill_if_def fill_map_def fill_list_def)

text \<open>observeResult, over the object type and the observed struct of a package.\<close>

record ('rec, 'obs) observeResult =
  ores_exists :: bool
  ores_rec :: 'rec
  ores_obs :: 'obs
  ores_lateInit :: bool
  ores_refreshedRef :: string
  ores_adopted :: bool

text \<open>Two more of the pointer helpers, as recordtxt and recordmx name them.\<close>

definition uint32OrZero :: "32 word option \<Rightarrow> 32 word" where
  "uint32OrZero ttl = (case ttl of None \<Rightarrow> 0 | Some v \<Rightarrow> v)"

definition uint32PtrOrZero :: "32 word option \<Rightarrow> 32 word" where
  "uint32PtrOrZero v = (case v of None \<Rightarrow> 0 | Some n \<Rightarrow> n)"

lemma uint32_simps [simp]: "uint32OrZero = ttlOrZero" "uint32PtrOrZero = ttlOrZero"
  by (simp_all add: fun_eq_iff uint32OrZero_def uint32PtrOrZero_def ttlOrZero_def)

section \<open>The shape of the handlers\<close>

text \<open>
  \<open>late\<close> back-fills the spec of a resource from an observed object, \<open>status\<close> writes
  the object into its status, \<open>utd\<close> is the drift check, \<open>ref_of\<close> the object's reference.
\<close>

definition ladder_observe_error :: "string \<Rightarrow> goerr option \<Rightarrow> goerr \<Rightarrow> goerr" where
  "ladder_observe_error errObserve prereq err =
     (let e = (case prereq of Some p \<Rightarrow> p | None \<Rightarrow> err)
      in if errors_as is_PrerequisiteError e then e else Wrapped errObserve e)"

text \<open>
  \<open>observe_error\<close> makes the error of a failed resolution, from the failure of the
  prerequisite check, if it was made and failed, and the resolution's; \<open>takes\<close> says for which
  references of a found object the external name is set, \<open>flags\<close> for which Observe reports
  late initialisation.
\<close>

definition ladder_observe_shape ::
  "(goerr option \<Rightarrow> goerr \<Rightarrow> goerr) \<Rightarrow> (string \<Rightarrow> string \<Rightarrow> 'm world \<Rightarrow> (goerr + 'o option \<times> Outcome) \<times> 'm world) \<Rightarrow>
     ('m world \<Rightarrow> goerr option \<times> 'm world) \<Rightarrow> (string \<Rightarrow> bool) \<Rightarrow> (string \<Rightarrow> bool) \<Rightarrow>
     ('c mobj_scheme \<Rightarrow> 'o \<Rightarrow> 'c mobj_scheme \<times> bool) \<Rightarrow>
     ('o \<Rightarrow> 'c mobj_scheme \<Rightarrow> 'c mobj_scheme) \<Rightarrow> ('c mobj_scheme \<Rightarrow> 'o \<Rightarrow> bool) \<Rightarrow> ('o \<Rightarrow> string) \<Rightarrow>
     'c mobj_scheme \<Rightarrow> 'm world \<Rightarrow> (goerr + ExternalObservation) \<times> 'c mobj_scheme \<times> 'm world" where
  "ladder_observe_shape observe_error resolve ensure takes flags late status utd ref_of cr w =
     (case resolve (observeRefFor (mo_name cr) (GetExternalName cr)) (mo_uid cr) w of
        (Inl err, w1) \<Rightarrow>
          (case (if IsSearchFailure err then ensure w1 else (None, w1)) of
             (prereq, w2) \<Rightarrow> (Inl (observe_error prereq err), cr, w2))
      | (Inr (obj, out), w1) \<Rightarrow>
          if out = OutcomeNotFound then (Inr notExists, cr, w1)
          else (case obj of
              None \<Rightarrow> (Inl (observe_error None (TextError nilDereference)), cr, w1)
            | Some x \<Rightarrow>
                (case late cr x of (cr1, changed) \<Rightarrow>
                   (let found = (out = OutcomeRotated \<or> out = OutcomeFoundByUID);
                        cr2 = status x cr1;
                        cr3 = (if found \<and> takes (ref_of x) then SetExternalName (ref_of x) cr2 else cr2)
                    in (Inr \<lparr>ResourceExists = True, ResourceUpToDate = utd cr1 x \<and> out \<noteq> OutcomeAdopted,
                             ResourceLateInitialized = found \<and> flags (ref_of x) \<or> changed\<rparr>, SetAvailable cr3, w1)))))"

definition ladder_create_shape ::
  "string \<Rightarrow> ('c mobj_scheme \<Rightarrow> goerr option) \<Rightarrow> ('m world \<Rightarrow> goerr option \<times> 'm world) \<Rightarrow>
     ('q \<Rightarrow> 'm world \<Rightarrow> (goerr + 'o) \<times> 'm world) \<Rightarrow> ('c mobj_scheme \<Rightarrow> 'q) \<Rightarrow> ('o \<Rightarrow> string) \<Rightarrow>
     'c mobj_scheme \<Rightarrow> 'm world \<Rightarrow> goerr option \<times> 'c mobj_scheme \<times> 'm world" where
  "ladder_create_shape errCreate valid ensure send creq ref_of cr w =
     (case valid cr of
        Some err \<Rightarrow> (Some err, cr, w)
      | None \<Rightarrow>
          (case ensure w of
             (Some err, w1) \<Rightarrow> (Some err, cr, w1)
           | (None, w1) \<Rightarrow>
               (case send (creq cr) w1 of
                  (Inl err, w2) \<Rightarrow> (Some (Wrapped errCreate err), cr, w2)
                | (Inr x, w2) \<Rightarrow> (None, SetExternalName (ref_of x) cr, w2))))"

text \<open>A create helper that fails on the spec alone, or sends one request.\<close>

definition send_planned :: "('o, 'm) wapi \<Rightarrow> goerr + 'm \<Rightarrow> 'm world \<Rightarrow> (goerr + 'o) \<times> 'm world" where
  "send_planned env plan w = (case plan of Inl err \<Rightarrow> (Inl err, w) | Inr m \<Rightarrow> mutate_object env m w)"

lemma send_planned_simps [simp]:
  "send_planned env (Inl err) w = (Inl err, w)" "send_planned env (Inr m) w = mutate_object env m w"
  by (simp_all add: send_planned_def)

lemma send_planned_Inr: "send_planned env (Inr m) = mutate_object env m"
  by (simp add: fun_eq_iff)

definition ladder_update_shape ::
  "string \<Rightarrow> string \<Rightarrow> ('o, 'm) wapi \<Rightarrow> ('m world \<Rightarrow> goerr option \<times> 'm world) \<Rightarrow>
     ('c mobj_scheme \<Rightarrow> 'm) \<Rightarrow> ('o \<Rightarrow> string) \<Rightarrow>
     'c mobj_scheme \<Rightarrow> 'm world \<Rightarrow> goerr option \<times> 'c mobj_scheme \<times> 'm world" where
  "ladder_update_shape errUpdate errUID env ensure ureq ref_of cr w =
     (case ensure w of
        (Some err, w1) \<Rightarrow> (Some err, cr, w1)
      | (None, w1) \<Rightarrow>
          if trim_space (mo_uid cr) = [] then (Some (Wrapped errUpdate (TextError errUID)), cr, w1)
          else
            (case mutate_object env (ureq cr) w1 of
               (Inl err, w2) \<Rightarrow> (Some (Wrapped errUpdate err), cr, w2)
             | (Inr x, w2) \<Rightarrow>
                 if ref_of x \<noteq> [] \<and> ref_of x \<noteq> GetExternalName cr then
                   (case Refresh env cr (ref_of x) w2 of
                      (Some err, cr1, w3) \<Rightarrow> (Some (Wrapped errPersistExternalName err), cr1, w3)
                    | (None, cr1, w3) \<Rightarrow> (None, cr1, w3))
                 else (None, cr, w2)))"

definition issue_delete :: "('o, 'm) wapi \<Rightarrow> string \<Rightarrow> 'm world \<Rightarrow> goerr option \<times> 'm world" where
  "issue_delete env ref w =
     (case delete_object env ref w of
        (Inl err, w1) \<Rightarrow> (Some err, w1)
      | (Inr _, w1) \<Rightarrow> (None, w1))"

lemma issue_delete_world [simp]: "snd (issue_delete env r w) = log_call (CDelete r) w"
  by (simp add: issue_delete_def delete_object_def split: sum.split)

section \<open>Logs that only grow\<close>

definition extends :: "'m world \<Rightarrow> 'm world \<Rightarrow> bool" where
  "extends w w' \<longleftrightarrow> (\<exists>cs. calls w' = calls w @ cs)"

lemma extends_refl [simp]: "extends w w"
  by (simp add: extends_def)

lemma extends_trans [trans]: "extends a b \<Longrightarrow> extends b c \<Longrightarrow> extends a c"
  by (auto simp: extends_def)

lemma extends_log [simp]: "extends w (log_call c w)"
  by (simp add: extends_def)

lemma extends_calls: "calls w' = calls w \<Longrightarrow> extends w w'"
  by (simp add: extends_def)

lemma Resolve_extends: "extends w (snd (Resolve env T ref uid w))"
  using Resolve_calls [of env T ref uid w] by (auto simp: extends_def)

lemma attempts_extends: "extends w (snd (attempts (patch_attempt env p) n w))"
proof (induction n arbitrary: w)
  case (Suc n)
  have "extends w (snd (patch_attempt env p w))" by (simp add: patch_attempt_def)
  then show ?case using Suc extends_trans by fastforce
qed (simp add: patch_attempt_def)

lemma Refresh_extends:
  assumes "retry_documented env"
  shows "extends w (snd (snd (Refresh env cr name w)))"
proof -
  obtain n where "retry_on_conflict env (patch_attempt env (annotationMergePatch name)) w =
      attempts (patch_attempt env (annotationMergePatch name)) n w"
    using assms by (auto simp: retry_documented_def)
  then show ?thesis
    using attempts_extends [of w env "annotationMergePatch name" n]
    by (simp add: Refresh_def split_beta split: option.split)
qed

lemma Ensure_extends: "extends w (snd (Ensure env ep w))"
  by (auto simp: Ensure_def Let_def split_beta extends_def probe_calls split: option.split)

lemma ensureIdentityPrerequisite_extends: "extends w (snd (ensureIdentityPrerequisite env ep w))"
  by (simp add: ensureIdentityPrerequisite_def Let_def split_beta Ensure_extends split: option.split)

section \<open>Runs of many resources on one Grid\<close>

text \<open>The types of the handlers.\<close>

type_synonym ('o, 'm, 'c) observe_op =
  "('o, 'm) wapi \<Rightarrow> string \<Rightarrow> 'c mobj_scheme \<Rightarrow> 'm world \<Rightarrow> (goerr + ExternalObservation) \<times> 'c mobj_scheme \<times> 'm world"
type_synonym ('o, 'm, 'c) write_op =
  "('o, 'm) wapi \<Rightarrow> string \<Rightarrow> 'c mobj_scheme \<Rightarrow> 'm world \<Rightarrow> goerr option \<times> 'c mobj_scheme \<times> 'm world"
type_synonym ('o, 'm, 'c) delete_op =
  "('o, 'm) wapi \<Rightarrow> string \<Rightarrow> 'c mobj_scheme \<Rightarrow> 'm world \<Rightarrow> goerr option \<times> 'm world"

text \<open>
  The handlers of any number of resources of one kind, interleaved in any order, with
  arbitrary edits of their specs, names and annotations in between (a uid never changes).
\<close>

inductive client_run ::
  "('o, 'm, 'c) observe_op \<Rightarrow> ('o, 'm, 'c) write_op \<Rightarrow> ('o, 'm, 'c) write_op \<Rightarrow> ('o, 'm, 'c) delete_op \<Rightarrow>
     ('o, 'm) wapi \<Rightarrow> string \<Rightarrow> (nat \<Rightarrow> 'c mobj_scheme) \<Rightarrow> (nat \<Rightarrow> 'c mobj_scheme) \<Rightarrow> 'm world \<Rightarrow> bool"
  for observe create update del env ep crs0 where
  start: "client_run observe create update del env ep crs0 crs0 init_world"
| observed: "client_run observe create update del env ep crs0 crs w \<Longrightarrow>
    client_run observe create update del env ep crs0
      (crs(i := fst (snd (observe env ep (crs i) w)))) (snd (snd (observe env ep (crs i) w)))"
| created: "client_run observe create update del env ep crs0 crs w \<Longrightarrow>
    client_run observe create update del env ep crs0
      (crs(i := fst (snd (create env ep (crs i) w)))) (snd (snd (create env ep (crs i) w)))"
| updated: "client_run observe create update del env ep crs0 crs w \<Longrightarrow>
    client_run observe create update del env ep crs0
      (crs(i := fst (snd (update env ep (crs i) w)))) (snd (snd (update env ep (crs i) w)))"
| deleted: "client_run observe create update del env ep crs0 crs w \<Longrightarrow>
    client_run observe create update del env ep crs0 crs (snd (del env ep (crs i) w))"
| edited: "client_run observe create update del env ep crs0 crs w \<Longrightarrow> mo_uid cr' = mo_uid (crs i) \<Longrightarrow>
    client_run observe create update del env ep crs0 (crs(i := cr')) w"

text \<open>
  A log is safe when each create and update carries the uid of a managed resource and each delete
  names an object that \<open>owned\<close>, of a uid, the log so far and a reference, says belongs to one.
\<close>

definition call_safe ::
  "(string \<Rightarrow> 'm wcall list \<Rightarrow> string \<Rightarrow> bool) \<Rightarrow> ('m \<Rightarrow> ea) \<Rightarrow> (string \<Rightarrow> bool) \<Rightarrow>
     'm wcall list \<Rightarrow> 'm wcall \<Rightarrow> bool" where
  "call_safe owned req_ea managed log c \<longleftrightarrow>
     (case c of
        CMutate m \<Rightarrow> (\<exists>uid. managed uid \<and> eaValue (req_ea m) EAKey = Some uid)
      | CDelete r \<Rightarrow> (\<exists>uid. managed uid \<and> owned uid log r)
      | _ \<Rightarrow> True)"

definition log_safe ::
  "(string \<Rightarrow> 'm wcall list \<Rightarrow> string \<Rightarrow> bool) \<Rightarrow> ('m \<Rightarrow> ea) \<Rightarrow> (string \<Rightarrow> bool) \<Rightarrow> 'm wcall list \<Rightarrow> bool" where
  "log_safe owned req_ea managed log \<longleftrightarrow>
     (\<forall>i < length log. call_safe owned req_ea managed (take i log) (log ! i))"

lemma log_safe_Nil [simp]: "log_safe owned req_ea U []"
  by (simp add: log_safe_def)

lemma log_safe_snoc [simp]:
  "log_safe owned req_ea U (log @ [c]) \<longleftrightarrow>
     log_safe owned req_ea U log \<and> call_safe owned req_ea U log c"
  by (auto simp: log_safe_def less_Suc_eq nth_append)

lemma call_safe_quiet: "\<not> mutating c \<Longrightarrow> call_safe owned req_ea U log c"
  by (cases c) (simp_all add: call_safe_def)

lemma log_safe_append_quiet:
  "list_all (\<lambda>c. \<not> mutating c) cs \<Longrightarrow> log_safe owned req_ea U log \<Longrightarrow>
     log_safe owned req_ea U (log @ cs)"
proof (induction cs rule: rev_induct)
  case (snoc c cs)
  then show ?case
    by (simp add: call_safe_quiet flip: append_assoc)
qed simp

lemma quiet_part:
  assumes "extends w w'" and "mutations w' = mutations w"
  obtains cs where "calls w' = calls w @ cs" "list_all (\<lambda>c. \<not> mutating c) cs"
proof -
  obtain cs where cs: "calls w' = calls w @ cs" using assms(1) by (auto simp: extends_def)
  with assms(2) have "filter mutating cs = []" by (simp add: mutations_def)
  with cs show ?thesis using that by (simp add: filter_empty_conv list_all_iff)
qed

lemma log_safe_quiet:
  assumes "extends w w'" and "mutations w' = mutations w" and "log_safe owned req_ea U (calls w)"
  shows "log_safe owned req_ea U (calls w')"
  using assms by (metis quiet_part log_safe_append_quiet)

lemma log_safe_one:
  assumes "extends w w1" and "mutations w1 = mutations w" and "log_safe owned req_ea U (calls w)"
    and "call_safe owned req_ea U (calls w1) c"
  shows "log_safe owned req_ea U (calls (log_call c w1))"
  using log_safe_quiet [OF assms(1-3)] assms(4) by simp

section \<open>Back-filling a part of a resource\<close>

text \<open>
  A package's lateInitialize gets pointers to some fields of the spec: it works on the
  tuple of those fields, which \<open>get\<close> reads and \<open>put\<close> writes back.
\<close>

definition lift_late :: "('l \<Rightarrow> 'o \<Rightarrow> 'l \<times> bool) \<Rightarrow> ('s \<Rightarrow> 'l) \<Rightarrow> ('s \<Rightarrow> 'l \<Rightarrow> 's) \<Rightarrow> 's \<Rightarrow> 'o \<Rightarrow> 's \<times> bool" where
  "lift_late late get put s x = (case late (get s) x of (l, c) \<Rightarrow> (put s l, c))"

locale late_lens =
  fixes late :: "'l \<Rightarrow> 'o \<Rightarrow> 'l \<times> bool" and keeps :: "'l \<Rightarrow> 'l \<Rightarrow> bool"
    and get :: "'s \<Rightarrow> 'l" and put :: "'s \<Rightarrow> 'l \<Rightarrow> 's" and utd :: "'s \<Rightarrow> 'o \<Rightarrow> bool"
  assumes part_idem: "late (fst (late l x)) x = (fst (late l x), False)"
    and part_flag: "snd (late l x) \<longleftrightarrow> fst (late l x) \<noteq> l"
    and part_keeps: "keeps l (fst (late l x))"
    and get_put: "get (put s l) = l" and put_get: "put s (get s) = s"
    and put_put: "put (put s l) l' = put s l'"
    and put_utd: "utd s x \<Longrightarrow> utd (put s (fst (late (get s) x))) x"
begin

lemma put_same: "put s l = s \<longleftrightarrow> l = get s"
  by (metis get_put put_get)

lemma lifted_simps:
  "fst (lift_late late get put s x) = put s (fst (late (get s) x))"
  "snd (lift_late late get put s x) = snd (late (get s) x)"
  by (simp_all add: lift_late_def split_beta)

end

sublocale late_lens \<subseteq> late_init "lift_late late get put" utd "\<lambda>s s'. keeps (get s) (get s')"
proof
  fix s x
  show "lift_late late get put (fst (lift_late late get put s x)) x = (fst (lift_late late get put s x), False)"
    by (simp add: lifted_simps) (simp add: lift_late_def get_put part_idem put_put)
  show "snd (lift_late late get put s x) \<longleftrightarrow> fst (lift_late late get put s x) \<noteq> s"
    by (simp add: lifted_simps part_flag put_same)
  show "keeps (get s) (get (fst (lift_late late get put s x)))"
    by (simp add: lifted_simps get_put part_keeps)
  show "utd (fst (lift_late late get put s x)) x" if "utd s x"
    using that by (simp add: lifted_simps put_utd)
qed

text \<open>
  Other packages work on a copy of the whole spec, in types of their own, and write it back only when
  something changed: \<open>get\<close> then loses nothing that the drift check looks at, but \<open>put\<close> may normalise
  the spec (an omitted flag becomes false), and only what was back-filled is read again as it was written.
\<close>

definition lift_view :: "('l \<Rightarrow> 'o \<Rightarrow> 'l \<times> bool) \<Rightarrow> ('s \<Rightarrow> 'l) \<Rightarrow> ('s \<Rightarrow> 'l \<Rightarrow> 's) \<Rightarrow> 's \<Rightarrow> 'o \<Rightarrow> 's \<times> bool" where
  "lift_view late get put s x = (case late (get s) x of (l, c) \<Rightarrow> (if c then put s l else s, c))"

locale late_view =
  fixes late :: "'l \<Rightarrow> 'o \<Rightarrow> 'l \<times> bool" and keeps :: "'l \<Rightarrow> 'l \<Rightarrow> bool"
    and get :: "'s \<Rightarrow> 'l" and put :: "'s \<Rightarrow> 'l \<Rightarrow> 's" and utd :: "'l \<Rightarrow> 'o \<Rightarrow> bool"
  assumes part_idem: "late (fst (late l x)) x = (fst (late l x), False)"
    and part_flag: "snd (late l x) \<longleftrightarrow> fst (late l x) \<noteq> l"
    and part_keeps: "keeps l (fst (late l x))"
    and part_utd: "utd l x \<Longrightarrow> utd (fst (late l x)) x"
    and get_put_late: "get (put s (fst (late (get s) x))) = fst (late (get s) x)"
begin

lemma lifted_simps:
  "get (fst (lift_view late get put s x)) = fst (late (get s) x)"
  "snd (lift_view late get put s x) = snd (late (get s) x)"
  using part_flag [of "get s" x] by (auto simp: lift_view_def split_beta get_put_late)

end

sublocale late_view \<subseteq> late_init "lift_view late get put" "\<lambda>s. utd (get s)" "\<lambda>s s'. keeps (get s) (get s')"
proof
  fix s x
  let ?s = "fst (lift_view late get put s x)"
  have "late (get ?s) x = (get ?s, False)" by (simp add: lifted_simps part_idem)
  then show "lift_view late get put ?s x = (?s, False)" by (simp add: lift_view_def)
  show "snd (lift_view late get put s x) \<longleftrightarrow> ?s \<noteq> s"
    using lifted_simps [of s x] part_flag [of "get s" x] by (auto simp: lift_view_def split_beta)
  show "keeps (get s) (get ?s)" by (simp add: lifted_simps part_keeps)
  show "utd (get ?s) x" if "utd (get s) x" using that by (simp add: lifted_simps part_utd)
qed

section \<open>The last write in a log\<close>

definition last_written :: "'m wcall list \<Rightarrow> 'm option" where
  "last_written h = (case rev (filter mutating h) of
     CMutate m # _ \<Rightarrow> Some m
   | _ \<Rightarrow> None)"

lemma last_written_latest [simp]:
  assumes "list_all (\<lambda>c. \<not> mutating c) cs"
  shows "last_written (h @ CMutate m # cs) = Some m"
proof -
  have "filter mutating cs = []" using assms by (simp add: filter_empty_conv list_all_iff)
  then show ?thesis by (simp add: last_written_def)
qed

end
