(* ===== verification/ResolvingClient.thy ===== *)
theory ResolvingClient
  imports HandlerShapes
begin

text \<open>
  What a controller promises whose handlers have the shape of theory HandlerShapes, over the way it
  finds its object: the identity ladder on one object type (theory LadderClient), on the type that the
  spec selects (FixedAddress), or on two types of which the spec may select one (Network and
  NetworkContainer). The locale \<open>resolving_client\<close> derives every promise from the shape of the handlers
  and the laws of the resolution.
\<close>

section \<open>Promises over a resolution\<close>

type_synonym ('o, 'm, 'c) resolve_op =
  "('o, 'm) wapi \<Rightarrow> 'c mobj_scheme \<Rightarrow> string \<Rightarrow> 'm world \<Rightarrow> (goerr + 'o option \<times> Outcome) \<times> 'm world"

text \<open>
  \<open>sound\<close> is what is asked of the Grid's searches, \<open>stamp\<close> reads the identity stamp of an object.
  Deletion: at most one mutating request, the deletion of the object the resolution found, which carries
  this resource's stamp; and success means that nothing was found or the object is gone.
\<close>

definition deletes_resolved ::
  "(('o, 'm) wapi \<Rightarrow> bool) \<Rightarrow> ('o \<Rightarrow> string option) \<Rightarrow> ('o, 'm, 'c) resolve_op \<Rightarrow> ('o \<Rightarrow> string) \<Rightarrow>
     ('o, 'm, 'c) delete_op \<Rightarrow> bool" where
  "deletes_resolved sound stamp resolve ref_of del \<longleftrightarrow>
     (\<forall>env ep cr w. sound env \<longrightarrow>
        mutations (snd (del env ep cr w)) = mutations w \<or>
        (\<exists>x out. fst (resolve env cr (GetExternalName cr) w) = Inr (Some x, out) \<and>
           stamp x = Some (trim_space (mo_uid cr)) \<and>
           mutations (snd (del env ep cr w)) = mutations w @ [CDelete (ref_of x)]))"

definition deleted_is_gone ::
  "(('o, 'm) wapi \<Rightarrow> bool) \<Rightarrow> ('o \<Rightarrow> string option) \<Rightarrow> ('o, 'm, 'c) resolve_op \<Rightarrow> ('o \<Rightarrow> string) \<Rightarrow>
     ('o, 'm, 'c) delete_op \<Rightarrow> bool" where
  "deleted_is_gone sound stamp resolve ref_of del \<longleftrightarrow>
     (\<forall>env ep cr w. sound env \<longrightarrow> fst (del env ep cr w) = None \<longrightarrow>
        (case resolve env cr (GetExternalName cr) w of (r, w1) \<Rightarrow>
           (\<exists>obj. r = Inr (obj, OutcomeNotFound)) \<or>
           (\<exists>x out. r = Inr (Some x, out) \<and> stamp x = Some (trim_space (mo_uid cr)) \<and>
              (let e = fst (issue_delete env (ref_of x) w1) in e = None \<or> isNotFound e))))"

text \<open>
  Observation: nothing is changed on the Grid; an existing object carries this resource's
  stamp, or none, and then it is never up to date and the recorded reference stays.
\<close>

definition observes_resolved ::
  "(('o, 'm) wapi \<Rightarrow> bool) \<Rightarrow> ('o \<Rightarrow> string option) \<Rightarrow> ('o, 'm, 'c) resolve_op \<Rightarrow> ('o, 'm, 'c) observe_op \<Rightarrow> bool" where
  "observes_resolved sound stamp resolve observe \<longleftrightarrow>
     (\<forall>env ep cr w obs cr' w'. sound env \<longrightarrow> observe env ep cr w = (Inr obs, cr', w') \<longrightarrow>
        mutations w' = mutations w \<and>
        (ResourceExists obs \<longrightarrow>
           (\<exists>x out. fst (resolve env cr (observeRefFor (mo_name cr) (GetExternalName cr)) w) = Inr (Some x, out) \<and>
              (stamp x = Some (trim_space (mo_uid cr)) \<or>
               stamp x = None \<and> \<not> ResourceUpToDate obs \<and> GetExternalName cr' = GetExternalName cr))))"

text \<open>
  "Does not exist" is answered only after a search for the uid under each of the resource's object
  types came back empty and, if a reference is recorded, after reading it gave a 404.
\<close>

definition searched_empty :: "('o, 'm) wapi \<Rightarrow> string \<Rightarrow> string \<Rightarrow> 'm wcall list \<Rightarrow> bool" where
  "searched_empty env ty uid log \<longleftrightarrow>
     (\<exists>h t. log = h @ CSearch ty (uid_query (trim_space uid)) # t \<and>
        (wapi_search env h ty (uid_query (trim_space uid)) = Inr [] \<or>
         (\<exists>err. wapi_search env h ty (uid_query (trim_space uid)) = Inl err \<and> isNotFound (Some err))))"

definition absent_when_searched ::
  "('c mobj_scheme \<Rightarrow> string set) \<Rightarrow> ('c mobj_scheme \<Rightarrow> string) \<Rightarrow> ('o, 'm, 'c) observe_op \<Rightarrow> bool" where
  "absent_when_searched types kind observe \<longleftrightarrow>
     (\<forall>env ep cr w obs cr' w'. observe env ep cr w = (Inr obs, cr', w') \<longrightarrow> \<not> ResourceExists obs \<longrightarrow>
        (\<forall>ty \<in> types cr. searched_empty env ty (mo_uid cr) (calls w')) \<and>
        (GetExternalName cr \<notin> {[], mo_name cr} \<longrightarrow>
           (\<exists>err. wapi_get env (calls w) (kind cr) (GetExternalName cr) = Inl err \<and> isNotFound (Some err))))"

text \<open>Creation: either no mutating request or exactly the request that the spec plans.\<close>

definition creates_planned ::
  "('c mobj_scheme \<Rightarrow> goerr option) \<Rightarrow> ('c mobj_scheme \<Rightarrow> goerr + 'm) \<Rightarrow> ('o \<Rightarrow> string) \<Rightarrow> string \<Rightarrow>
     ('o, 'm, 'c) write_op \<Rightarrow> bool" where
  "creates_planned valid plan ref_of errCreate create \<longleftrightarrow>
     (\<forall>env ep cr w. case create env ep cr w of (e, cr', w') \<Rightarrow>
        (case valid cr of
           Some err \<Rightarrow> e = Some err \<and> cr' = cr \<and> w' = w
         | None \<Rightarrow>
             (case fst (ensureIdentityPrerequisite env ep w) of
                Some err \<Rightarrow> e = Some err \<and> cr' = cr \<and> mutations w' = mutations w
              | None \<Rightarrow>
                  (case plan cr of
                     Inl err \<Rightarrow> e = Some (Wrapped errCreate err) \<and> cr' = cr \<and> mutations w' = mutations w
                   | Inr m \<Rightarrow>
                       mutations w' = mutations w @ [CMutate m] \<and>
                       (\<exists>h. case wapi_mutate env h m of
                          Inl err \<Rightarrow> e = Some (Wrapped errCreate err) \<and> cr' = cr
                        | Inr x \<Rightarrow> e = None \<and> cr' = SetExternalName (ref_of x) cr)))))"

text \<open>
  Update: exactly one request when the identity definition is there and the uid is not
  blank; on success the external name is the reference the Grid answered with, on an error
  the resource is left as it was.
\<close>

definition updates_as ::
  "('c mobj_scheme \<Rightarrow> 'm) \<Rightarrow> ('o \<Rightarrow> string) \<Rightarrow> ('o, 'm, 'c) write_op \<Rightarrow> bool" where
  "updates_as ureq ref_of update \<longleftrightarrow>
     (\<forall>env ep cr w. retry_documented env \<longrightarrow>
        (case update env ep cr w of (e, cr', w') \<Rightarrow>
          mutations w' = mutations w @
            (if fst (ensureIdentityPrerequisite env ep w) = None \<and> trim_space (mo_uid cr) \<noteq> []
             then [CMutate (ureq cr)] else []) \<and>
          (e \<noteq> None \<longrightarrow> cr' = cr) \<and>
          (e = None \<longrightarrow> (\<exists>h x. wapi_mutate env h (ureq cr) = Inr x \<and>
             cr' = (if ref_of x \<in> {[], GetExternalName cr} then cr else SetExternalName (ref_of x) cr)))))"

text \<open>
  What WAPI documents of a write: the object it answers with has a reference and holds
  what was sent, and reading that reference, under the object type \<open>ty\<close>, gives the object until the
  next write.
\<close>

definition echoes_as :: "('o, 'm) wapi \<Rightarrow> string \<Rightarrow> ('o \<Rightarrow> string) \<Rightarrow> ('m \<Rightarrow> 'o \<Rightarrow> bool) \<Rightarrow> bool" where
  "echoes_as env ty ref_of holds \<longleftrightarrow>
     (\<forall>h m x. wapi_mutate env h m = Inr x \<longrightarrow>
        ref_of x \<noteq> [] \<and> holds m x \<and>
        (\<forall>cs. list_all (\<lambda>c. \<not> mutating c) cs \<longrightarrow> wapi_get env (h @ CMutate m # cs) ty (ref_of x) = Inr x))"

text \<open>
  Convergence: against a Grid that echoes, the Observe right after a successful write
  reports the object up to date, under the reference the write recorded.
\<close>

definition written_is_observed ::
  "('c mobj_scheme \<Rightarrow> string) \<Rightarrow> ('o \<Rightarrow> string) \<Rightarrow> ('m \<Rightarrow> 'o \<Rightarrow> bool) \<Rightarrow> ('c mobj_scheme \<Rightarrow> bool) \<Rightarrow>
     ('o, 'm, 'c) write_op \<Rightarrow> ('o, 'm, 'c) observe_op \<Rightarrow> bool" where
  "written_is_observed kind ref_of holds spec_ok write observe \<longleftrightarrow>
     (\<forall>env ep cr w cr1 w1. retry_documented env \<longrightarrow> echoes_as env (kind cr) ref_of holds \<longrightarrow> spec_ok cr \<longrightarrow>
        trim_space (mo_uid cr) = mo_uid cr \<longrightarrow>
        write env ep cr w = (None, cr1, w1) \<longrightarrow> GetExternalName cr1 \<noteq> mo_name cr \<longrightarrow>
        (\<exists>obs cr2 w2. observe env ep cr1 w1 = (Inr obs, cr2, w2) \<and> ResourceExists obs \<and>
           ResourceUpToDate obs \<and> GetExternalName cr2 = GetExternalName cr1))"

text \<open>The Grid has shown, earlier in the log, an object with this reference and stamp.\<close>

definition shown_owned ::
  "('o, 'm) wapi \<Rightarrow> string set \<Rightarrow> ('o \<Rightarrow> string option) \<Rightarrow> ('o \<Rightarrow> string) \<Rightarrow> string \<Rightarrow> 'm wcall list \<Rightarrow> string \<Rightarrow> bool" where
  "shown_owned env tys stamp ref_of uid log r \<longleftrightarrow>
     (\<exists>h t x. log = h @ t \<and> ref_of x = r \<and> stamp x = Some (trim_space uid) \<and>
        (\<exists>ty \<in> tys. (\<exists>ref. wapi_get env h ty ref = Inr x) \<or>
           wapi_search env h ty (uid_query (trim_space uid)) = Inr [x]))"

text \<open>
  In every run each create and update carries the uid of one of the resources, and each
  delete names an object the Grid had shown with the stamp of one of them.
\<close>

definition resolving_runs_safely ::
  "(('o, 'm) wapi \<Rightarrow> bool) \<Rightarrow> string set \<Rightarrow> ('o \<Rightarrow> string option) \<Rightarrow> ('o \<Rightarrow> string) \<Rightarrow> ('m \<Rightarrow> ea) \<Rightarrow>
     ('o, 'm, 'c) observe_op \<Rightarrow> ('o, 'm, 'c) write_op \<Rightarrow> ('o, 'm, 'c) write_op \<Rightarrow> ('o, 'm, 'c) delete_op \<Rightarrow> bool" where
  "resolving_runs_safely sound tys stamp ref_of req_ea observe create update del \<longleftrightarrow>
     (\<forall>env ep crs0 crs w. sound env \<longrightarrow> retry_documented env \<longrightarrow>
        client_run observe create update del env ep crs0 crs w \<longrightarrow>
        log_safe (shown_owned env tys stamp ref_of) req_ea (\<lambda>uid. \<exists>i. uid = mo_uid (crs0 i)) (calls w))"

section \<open>The interface and what follows from it\<close>

text \<open>
  What is asked of a resolution: it changes nothing, it only appends to the log, what it answers with
  the Grid has shown under one of the object types \<open>tys\<close>, an answer other than "adopted" is stamped with
  the resource's uid, "not found" comes after the searches, and a recorded reference under which the Grid
  shows an owned object of the resource's type \<open>kind\<close> is enough.
\<close>

locale resolution =
  fixes resolve :: "('o, 'm, 'c) resolve_op" and sound :: "('o, 'm) wapi \<Rightarrow> bool" and stamp :: "'o \<Rightarrow> string option"
    and tys :: "string set" and types :: "'c mobj_scheme \<Rightarrow> string set" and kind :: "'c mobj_scheme \<Rightarrow> string"
  assumes resolve_quiet: "mutations (snd (resolve env cr ref w)) = mutations w"
    and resolve_extends: "extends w (snd (resolve env cr ref w))"
    and resolve_some: "resolve env cr ref w = (Inr (obj, out), w1) \<Longrightarrow> out \<noteq> OutcomeNotFound \<Longrightarrow> obj \<noteq> None"
    and resolve_owner: "resolve env cr ref w = (Inr (Some x, out), w1) \<Longrightarrow> sound env \<Longrightarrow>
      out = OutcomeAdopted \<and> stamp x = None \<or> stamp x = Some (trim_space (mo_uid cr))"
    and resolve_shown: "resolve env cr ref w = (Inr (Some x, out), w1) \<Longrightarrow>
      \<exists>h t. calls w1 = h @ t \<and> (\<exists>ty \<in> tys. (\<exists>r. wapi_get env h ty r = Inr x) \<or>
        wapi_search env h ty (uid_query (trim_space (mo_uid cr))) = Inr [x])"
    and resolve_absent: "resolve env cr ref w = (Inr (obj, OutcomeNotFound), w1) \<Longrightarrow>
      obj = None \<and> (\<forall>ty \<in> types cr. searched_empty env ty (mo_uid cr) (calls w1)) \<and>
      (ref \<noteq> [] \<longrightarrow> (\<exists>err. wapi_get env (calls w) (kind cr) ref = Inl err \<and> isNotFound (Some err)))"
    and resolve_read: "wapi_get env (calls w) (kind cr) ref = Inr x \<Longrightarrow> ref \<noteq> [] \<Longrightarrow> stamp x = Some (mo_uid cr) \<Longrightarrow>
      trim_space (mo_uid cr) = mo_uid cr \<Longrightarrow> mo_uid cr \<noteq> [] \<Longrightarrow>
      resolve env cr ref w = (Inr (Some x, OutcomeResolved), log_call (CGet (kind cr) ref) w)"

text \<open>
  \<open>plan\<close> is the request Create sends or the error it fails with, \<open>ureq\<close> the request of an update,
  \<open>req_ea\<close> the attributes a request carries, \<open>valid\<close> the checks Create makes before it talks to the Grid,
  \<open>holds\<close> what the Grid stores of a request and \<open>spec_ok\<close> the specs the convergence law is about.
\<close>

locale resolving_client = resolution resolve sound stamp tys types kind
  for resolve :: "('o, 'm, 'c) resolve_op" and sound :: "('o, 'm) wapi \<Rightarrow> bool" and stamp :: "'o \<Rightarrow> string option"
    and tys :: "string set" and types :: "'c mobj_scheme \<Rightarrow> string set" and kind :: "'c mobj_scheme \<Rightarrow> string" +
  fixes late :: "'c mobj_scheme \<Rightarrow> 'o \<Rightarrow> 'c mobj_scheme \<times> bool" and utd :: "'c mobj_scheme \<Rightarrow> 'o \<Rightarrow> bool"
    and ref_of :: "'o \<Rightarrow> string" and status :: "'o \<Rightarrow> 'c mobj_scheme \<Rightarrow> 'c mobj_scheme"
    and valid :: "'c mobj_scheme \<Rightarrow> goerr option"
    and plan :: "'c mobj_scheme \<Rightarrow> goerr + 'm" and ureq :: "'c mobj_scheme \<Rightarrow> 'm" and req_ea :: "'m \<Rightarrow> ea"
    and holds :: "'m \<Rightarrow> 'o \<Rightarrow> bool" and spec_ok :: "'c mobj_scheme \<Rightarrow> bool"
    and observe_error :: "goerr option \<Rightarrow> goerr \<Rightarrow> goerr" and takes flags :: "string \<Rightarrow> bool" and uref :: "'o \<Rightarrow> string"
    and errCreate errUpdate errDelete errUID :: string
    and observe :: "('o, 'm, 'c) observe_op" and create update :: "('o, 'm, 'c) write_op"
    and del :: "('o, 'm, 'c) delete_op"
  assumes observe_shape: "observe env ep cr w =
      ladder_observe_shape observe_error (\<lambda>ref uid. resolve env cr ref) (ensureIdentityPrerequisite env ep)
        takes flags late status utd ref_of cr w"
    and create_shape: "create env ep cr w =
      ladder_create_shape errCreate valid (ensureIdentityPrerequisite env ep) (send_planned env) plan ref_of cr w"
    and update_shape: "update env ep cr w =
      ladder_update_shape errUpdate errUID env (ensureIdentityPrerequisite env ep) ureq uref cr w"
    and delete_shape: "del env ep cr w =
      ladder_delete_shape errDelete errDeleteUnverifiedOwnership nilDereference
        (resolve env cr (GetExternalName cr)) (ensureIdentityPrerequisite env ep)
        (issue_delete env) ref_of w"
    and valid_uid: "valid cr = None \<Longrightarrow> trim_space (mo_uid cr) \<noteq> []"
    and late_meta: "mo_uid (fst (late cr x)) = mo_uid cr"
      "mo_annotations (fst (late cr x)) = mo_annotations cr"
    and status_meta: "mo_uid (status x cr) = mo_uid cr" "mo_annotations (status x cr) = mo_annotations cr"
    and plan_stamp: "plan cr = Inr m \<Longrightarrow> eaValue (req_ea m) EAKey = Some (mo_uid cr)"
    and ureq_stamp: "eaValue (req_ea (ureq cr)) EAKey = Some (mo_uid cr)"
    and rename: "kind (SetExternalName n cr) = kind cr"
      "utd (fst (late (SetExternalName n cr) x)) x = utd (fst (late cr x)) x"
    and created_utd: "valid cr = None \<Longrightarrow> plan cr = Inr m \<Longrightarrow> spec_ok cr \<Longrightarrow> holds m x \<Longrightarrow>
      utd (fst (late cr x)) x \<and> stamp x = Some (mo_uid cr)"
    and updated_utd: "spec_ok cr \<Longrightarrow> holds (ureq cr) x \<Longrightarrow>
      utd (fst (late cr x)) x \<and> stamp x = Some (mo_uid cr)"
begin

lemma late_name: "GetExternalName (fst (late cr x)) = GetExternalName cr"
  by (simp add: GetExternalName_def late_meta)

lemma status_name: "GetExternalName (status x cr) = GetExternalName cr"
  by (simp add: GetExternalName_def status_meta)

text \<open>Observe, along the ladder's answer.\<close>

lemma observe_found:
  assumes "resolve env cr (observeRefFor (mo_name cr) (GetExternalName cr)) w = (Inr (Some x, out), w1)"
    and "out \<noteq> OutcomeNotFound"
  shows "\<exists>obs cr'. observe env ep cr w = (Inr obs, cr', w1) \<and> ResourceExists obs \<and>
    (ResourceUpToDate obs \<longleftrightarrow> utd (fst (late cr x)) x \<and> out \<noteq> OutcomeAdopted) \<and>
    GetExternalName cr' = (if out \<in> {OutcomeRotated, OutcomeFoundByUID} \<and> takes (ref_of x)
       then ref_of x else GetExternalName cr)"
  using assms
  by (cases out) (simp_all add: observe_shape ladder_observe_shape_def split_beta Let_def late_name status_name)

lemma observe_cases:
  assumes "observe env ep cr w = (r, cr', w')"
  obtains (failed) err w1 where "r = Inl err" "cr' = cr"
  | (absent) "r = Inr notExists" "cr' = cr"
      "resolve env cr (observeRefFor (mo_name cr) (GetExternalName cr)) w = (Inr (None, OutcomeNotFound), w')"
  | (found) obs x out where "r = Inr obs" "ResourceExists obs" "out \<noteq> OutcomeNotFound"
      "resolve env cr (observeRefFor (mo_name cr) (GetExternalName cr)) w = (Inr (Some x, out), w')"
proof -
  obtain a w1 where r: "resolve env cr (observeRefFor (mo_name cr) (GetExternalName cr)) w = (a, w1)"
    by (cases "resolve env cr (observeRefFor (mo_name cr) (GetExternalName cr)) w")
  show ?thesis
  proof (cases a)
    case (Inl err)
    then show ?thesis
      using assms r failed by (auto simp: observe_shape ladder_observe_shape_def split_beta)
  next
    case (Inr p)
    obtain obj out where p: "p = (obj, out)" by (cases p)
    show ?thesis
    proof (cases "out = OutcomeNotFound")
      case True
      then have "obj = None" using resolve_absent r Inr p by metis
      then show ?thesis
        using absent assms r Inr p True by (simp add: observe_shape ladder_observe_shape_def)
    next
      case False
      then obtain x where x: "obj = Some x" using resolve_some r Inr p by (cases obj) metis+
      with r Inr p False obtain obs cr1 where "observe env ep cr w = (Inr obs, cr1, w1)" "ResourceExists obs"
        using observe_found [of env cr w x out w1 ep] by metis
      with assms x r Inr p False found [of obs out x] show ?thesis by simp
    qed
  qed
qed

lemma observe_quiet:
  "mutations (snd (snd (observe env ep cr w))) = mutations w"
  "extends w (snd (snd (observe env ep cr w)))"
  "mo_uid (fst (snd (observe env ep cr w))) = mo_uid cr"
proof -
  let ?R = "resolve env cr (observeRefFor (mo_name cr) (GetExternalName cr)) w"
  have R: "mutations (snd ?R) = mutations w" "extends w (snd ?R)"
    by (rule resolve_quiet, rule resolve_extends)
  have E: "extends w (snd (ensureIdentityPrerequisite env ep (snd ?R)))"
    using R(2) ensureIdentityPrerequisite_extends extends_trans by blast
  show "mutations (snd (snd (observe env ep cr w))) = mutations w"
    "extends w (snd (snd (observe env ep cr w)))"
    "mo_uid (fst (snd (observe env ep cr w))) = mo_uid cr"
    using R E
    by (simp_all add: observe_shape ladder_observe_shape_def split_beta Let_def late_meta status_meta
        split: sum.split option.split)
qed

text \<open>What Observe promises.\<close>

lemma observe_ownership: "observes_resolved sound stamp resolve observe"
  unfolding observes_resolved_def
proof (intro allI impI)
  fix env :: "('o, 'm) wapi" and ep and cr :: "'c mobj_scheme" and w obs cr' w'
  assume sound: "sound env" and o: "observe env ep cr w = (Inr obs, cr', w')"
  have q: "mutations w' = mutations w" using observe_quiet(1) [of env ep cr w] o by simp
  show "mutations w' = mutations w \<and>
    (ResourceExists obs \<longrightarrow>
       (\<exists>x out. fst (resolve env cr (observeRefFor (mo_name cr) (GetExternalName cr)) w) = Inr (Some x, out) \<and>
          (stamp x = Some (trim_space (mo_uid cr)) \<or>
           stamp x = None \<and> \<not> ResourceUpToDate obs \<and> GetExternalName cr' = GetExternalName cr)))"
    using o
  proof (cases rule: observe_cases)
    case (found obs1 x out)
    obtain obs2 cr2 where f: "observe env ep cr w = (Inr obs2, cr2, w')"
      "ResourceUpToDate obs2 \<longleftrightarrow> utd (fst (late cr x)) x \<and> out \<noteq> OutcomeAdopted"
      "GetExternalName cr2 = (if out \<in> {OutcomeRotated, OutcomeFoundByUID} \<and> takes (ref_of x)
         then ref_of x else GetExternalName cr)"
      using observe_found [OF found(4,3), of ep] by blast
    with o have "obs2 = obs" "cr2 = cr'" by simp_all
    with q f(2,3) resolve_owner [OF found(4) sound] found(4) show ?thesis by auto
  qed (use q in \<open>simp_all add: notExists_def\<close>)
qed

lemma observe_absent: "absent_when_searched types kind observe"
  unfolding absent_when_searched_def
proof (intro allI impI)
  fix env :: "('o, 'm) wapi" and ep and cr :: "'c mobj_scheme" and w obs cr' w'
  assume o: "observe env ep cr w = (Inr obs, cr', w')" and n: "\<not> ResourceExists obs"
  show "(\<forall>ty \<in> types cr. searched_empty env ty (mo_uid cr) (calls w')) \<and>
      (GetExternalName cr \<notin> {[], mo_name cr} \<longrightarrow>
         (\<exists>err. wapi_get env (calls w) (kind cr) (GetExternalName cr) = Inl err \<and> isNotFound (Some err)))"
    using o
  proof (cases rule: observe_cases)
    case absent
    then show ?thesis using resolve_absent [OF absent(3)] by (auto simp: observeRefFor_def)
  qed (use n in simp_all)
qed

text \<open>Deletion.\<close>

lemma delete_cases:
  assumes "del env ep cr w = (e, w')"
  obtains (quiet) "mutations w' = mutations w" "extends w w'"
  | (deleted) x out w1 where "resolve env cr (GetExternalName cr) w = (Inr (Some x, out), w1)"
      "out \<noteq> OutcomeAdopted" "out \<noteq> OutcomeNotFound" "w' = log_call (CDelete (ref_of x)) w1"
proof -
  obtain r w1 where r: "resolve env cr (GetExternalName cr) w = (r, w1)"
    by (cases "resolve env cr (GetExternalName cr) w")
  have q: "mutations w1 = mutations w" "extends w w1"
    using resolve_quiet [of env cr "GetExternalName cr" w] resolve_extends [of w env cr "GetExternalName cr"] r
    by simp_all
  show ?thesis
  proof (cases r)
    case (Inl err)
    have "extends w (snd (ensureIdentityPrerequisite env ep w1))"
      using q(2) ensureIdentityPrerequisite_extends extends_trans by blast
    with Inl show ?thesis
      using assms r q quiet ensureIdentityPrerequisite_mutations [of env ep w1]
      by (auto simp: delete_shape ladder_delete_shape_def split_beta split: if_splits option.splits)
  next
    case (Inr p)
    obtain obj out where p: "p = (obj, out)" by (cases p)
    show ?thesis
    proof (cases "out \<in> {OutcomeAdopted, OutcomeNotFound}")
      case True
      then show ?thesis
        using assms r q Inr p quiet by (auto simp: delete_shape ladder_delete_shape_def)
    next
      case False
      then obtain x where x: "obj = Some x" using resolve_some r Inr p by blast
      have "w' = log_call (CDelete (ref_of x)) w1"
        using assms r Inr p x False issue_delete_world [of env "ref_of x" w1]
        by (auto simp: delete_shape ladder_delete_shape_def split_beta
            split: Outcome.splits option.splits if_splits)
      with deleted [of x out w1] r Inr p x False show ?thesis by auto
    qed
  qed
qed

lemma delete_only_owned: "deletes_resolved sound stamp resolve ref_of del"
  unfolding deletes_resolved_def
proof (intro allI impI)
  fix env :: "('o, 'm) wapi" and ep and cr :: "'c mobj_scheme" and w
  assume sound: "sound env"
  obtain e w' where d: "del env ep cr w = (e, w')" by (cases "del env ep cr w")
  then show "mutations (snd (del env ep cr w)) = mutations w \<or>
    (\<exists>x out. fst (resolve env cr (GetExternalName cr) w) = Inr (Some x, out) \<and>
       stamp x = Some (trim_space (mo_uid cr)) \<and>
       mutations (snd (del env ep cr w)) = mutations w @ [CDelete (ref_of x)])"
  proof (cases rule: delete_cases)
    case (deleted x out w1)
    moreover have "mutations w1 = mutations w"
      using resolve_quiet [of env cr "GetExternalName cr" w] deleted(1) by simp
    ultimately show ?thesis using resolve_owner [OF deleted(1) sound] d by auto
  qed (use d in simp)
qed

lemma delete_success: "deleted_is_gone sound stamp resolve ref_of del"
  unfolding deleted_is_gone_def
proof (intro allI impI)
  fix env :: "('o, 'm) wapi" and ep and cr :: "'c mobj_scheme" and w
  assume sound: "sound env" and ok: "fst (del env ep cr w) = None"
  obtain r w1 where r: "resolve env cr (GetExternalName cr) w = (r, w1)"
    by (cases "resolve env cr (GetExternalName cr) w")
  show "case resolve env cr (GetExternalName cr) w of (r, w1) \<Rightarrow>
      (\<exists>obj. r = Inr (obj, OutcomeNotFound)) \<or>
      (\<exists>x out. r = Inr (Some x, out) \<and> stamp x = Some (trim_space (mo_uid cr)) \<and>
         (let e = fst (issue_delete env (ref_of x) w1) in e = None \<or> isNotFound e))"
  proof (cases r)
    case (Inl err)
    then show ?thesis
      using ok r by (simp add: delete_shape ladder_delete_shape_def split_beta split: if_splits option.splits)
  next
    case (Inr p)
    obtain obj out where p: "p = (obj, out)" by (cases p)
    show ?thesis
    proof (cases "out \<in> {OutcomeAdopted, OutcomeNotFound}")
      case True
      then show ?thesis using ok r Inr p by (auto simp: delete_shape ladder_delete_shape_def)
    next
      case False
      then obtain x where x: "obj = Some x" using resolve_some r Inr p by blast
      with r Inr p have "resolve env cr (GetExternalName cr) w = (Inr (Some x, out), w1)" by simp
      from resolve_owner [OF this sound] False have "stamp x = Some (trim_space (mo_uid cr))" by simp
      then show ?thesis
        using ok r Inr p x False
        by (auto simp: delete_shape ladder_delete_shape_def split_beta Let_def
            split: Outcome.splits option.splits if_splits)
    qed
  qed
qed

text \<open>Creation and update.\<close>

lemma create_planned: "creates_planned valid plan ref_of errCreate create"
  unfolding creates_planned_def
proof (intro allI)
  fix env :: "('o, 'm) wapi" and ep and cr :: "'c mobj_scheme" and w
  obtain e1 w1 where en: "ensureIdentityPrerequisite env ep w = (e1, w1)"
    by (cases "ensureIdentityPrerequisite env ep w")
  have m: "mutations w1 = mutations w"
    using ensureIdentityPrerequisite_mutations [of env ep w] en by simp
  show "case create env ep cr w of (e, cr', w') \<Rightarrow>
    (case valid cr of
       Some err \<Rightarrow> e = Some err \<and> cr' = cr \<and> w' = w
     | None \<Rightarrow>
         (case fst (ensureIdentityPrerequisite env ep w) of
            Some err \<Rightarrow> e = Some err \<and> cr' = cr \<and> mutations w' = mutations w
          | None \<Rightarrow>
              (case plan cr of
                 Inl err \<Rightarrow> e = Some (Wrapped errCreate err) \<and> cr' = cr \<and> mutations w' = mutations w
               | Inr m \<Rightarrow>
                   mutations w' = mutations w @ [CMutate m] \<and>
                   (\<exists>h. case wapi_mutate env h m of
                      Inl err \<Rightarrow> e = Some (Wrapped errCreate err) \<and> cr' = cr
                    | Inr x \<Rightarrow> e = None \<and> cr' = SetExternalName (ref_of x) cr))))"
    by (auto simp: create_shape ladder_create_shape_def send_planned_def mutate_object_def en m
        split: option.split sum.split intro!: exI [of _ "calls w1"])
qed

text \<open>One update, step by step.\<close>

lemma update_steps:
  assumes "update env ep cr w = (e, cr', w')" and "retry_documented env"
  obtains (none) "e \<noteq> None" "cr' = cr" "mutations w' = mutations w" "extends w w'"
      "fst (ensureIdentityPrerequisite env ep w) \<noteq> None \<or> trim_space (mo_uid cr) = []"
  | (sent) w1 cs where "ensureIdentityPrerequisite env ep w = (None, w1)" "trim_space (mo_uid cr) \<noteq> []"
      "calls w' = calls w1 @ CMutate (ureq cr) # cs" "list_all (\<lambda>c. \<not> mutating c) cs"
      "e \<noteq> None \<Longrightarrow> cr' = cr"
      "e = None \<Longrightarrow> \<exists>x. wapi_mutate env (calls w1) (ureq cr) = Inr x \<and>
         cr' = (if uref x \<in> {[], GetExternalName cr} then cr else SetExternalName (uref x) cr)"
proof -
  obtain e1 w1 where en: "ensureIdentityPrerequisite env ep w = (e1, w1)"
    by (cases "ensureIdentityPrerequisite env ep w")
  have m: "mutations w1 = mutations w" "extends w w1"
    using ensureIdentityPrerequisite_mutations [of env ep w] ensureIdentityPrerequisite_extends [of w env ep] en
    by simp_all
  show ?thesis
  proof (cases "e1 = None \<and> trim_space (mo_uid cr) \<noteq> []")
    case False
    then show ?thesis
      using none assms(1) en m
      by (auto simp: update_shape ladder_update_shape_def split: option.splits if_splits)
  next
    case True
    let ?w2 = "log_call (CMutate (ureq cr)) w1"
    show ?thesis
    proof (cases "wapi_mutate env (calls w1) (ureq cr)")
      case (Inl err)
      then show ?thesis
        using sent [of w1 "[]"] assms(1) en True
        by (auto simp: update_shape ladder_update_shape_def mutate_object_def)
    next
      case (Inr x)
      obtain e2 cr2 w3 where rf: "Refresh env cr (uref x) ?w2 = (e2, cr2, w3)"
        by (cases "Refresh env cr (uref x) ?w2") auto
      with Refresh_mutations [OF assms(2), of cr "uref x" ?w2] Refresh_extends [OF assms(2), of ?w2 cr "uref x"]
      obtain cs where cs: "calls w3 = calls ?w2 @ cs" "list_all (\<lambda>c. \<not> mutating c) cs"
        by (metis quiet_part snd_conv)
      have cr2: "cr2 = (if e2 = None then SetExternalName (uref x) cr else cr)"
        using Refresh_result [of env cr "uref x" ?w2] rf by simp
      show ?thesis
      proof (cases "uref x \<in> {[], GetExternalName cr}")
        case stay: True
        with assms(1) en True Inr have "e = None" "cr' = cr" "w' = ?w2"
          by (auto simp: update_shape ladder_update_shape_def mutate_object_def)
        with sent [of w1 "[]"] en True Inr stay show ?thesis by simp
      next
        case moved: False
        with assms(1) en True Inr rf have "w' = w3" "cr' = cr2" "e = None \<longleftrightarrow> e2 = None"
          by (auto simp: update_shape ladder_update_shape_def mutate_object_def split: option.splits)
        with sent [of w1 cs] en True Inr moved cs cr2 show ?thesis by (cases e2) simp_all
      qed
    qed
  qed
qed

lemma update_as: "updates_as ureq uref update"
  unfolding updates_as_def
proof (intro allI impI)
  fix env :: "('o, 'm) wapi" and ep and cr :: "'c mobj_scheme" and w
  assume retry: "retry_documented env"
  obtain e cr' w' where u: "update env ep cr w = (e, cr', w')" by (cases "update env ep cr w") auto
  then show "case update env ep cr w of (e, cr', w') \<Rightarrow>
      mutations w' = mutations w @
        (if fst (ensureIdentityPrerequisite env ep w) = None \<and> trim_space (mo_uid cr) \<noteq> []
         then [CMutate (ureq cr)] else []) \<and>
      (e \<noteq> None \<longrightarrow> cr' = cr) \<and>
      (e = None \<longrightarrow> (\<exists>h x. wapi_mutate env h (ureq cr) = Inr x \<and>
         cr' = (if uref x \<in> {[], GetExternalName cr} then cr else SetExternalName (uref x) cr)))"
    using retry
  proof (cases rule: update_steps)
    case none
    then show ?thesis using u by auto
  next
    case (sent w1 cs)
    then have "filter mutating cs = []" by (simp add: filter_empty_conv list_all_iff)
    moreover have "mutations w1 = mutations w"
      using ensureIdentityPrerequisite_mutations [of env ep w] sent(1) by simp
    ultimately have "mutations w' = mutations w @ [CMutate (ureq cr)]"
      using sent(3) by (simp add: mutations_def)
    moreover have "e = None \<longrightarrow> (\<exists>h x. wapi_mutate env h (ureq cr) = Inr x \<and>
        cr' = (if uref x \<in> {[], GetExternalName cr} then cr else SetExternalName (uref x) cr))"
      using sent(6) by blast
    ultimately show ?thesis using u sent(1,2,5) by (simp add: split_beta)
  qed
qed

text \<open>Convergence: what a write stored is observed as up to date.\<close>

lemma observe_written:
  assumes "wapi_get env (calls w1) (kind cr1) (GetExternalName cr1) = Inr x"
    and "GetExternalName cr1 \<noteq> []" and "GetExternalName cr1 \<noteq> mo_name cr1"
    and "stamp x = Some (mo_uid cr1)" and "trim_space (mo_uid cr1) = mo_uid cr1" and "mo_uid cr1 \<noteq> []"
    and "utd (fst (late cr1 x)) x"
  shows "\<exists>obs cr2 w2. observe env ep cr1 w1 = (Inr obs, cr2, w2) \<and> ResourceExists obs \<and>
    ResourceUpToDate obs \<and> GetExternalName cr2 = GetExternalName cr1"
proof -
  have r: "resolve env cr1 (observeRefFor (mo_name cr1) (GetExternalName cr1)) w1 =
      (Inr (Some x, OutcomeResolved), log_call (CGet (kind cr1) (GetExternalName cr1)) w1)"
    using resolve_read [OF assms(1)] assms(2-6) by (simp add: observeRefFor_def)
  show ?thesis
    using observe_found [OF r, of ep] assms(7) by auto
qed

lemma create_then_observe: "written_is_observed kind ref_of holds spec_ok create observe"
  unfolding written_is_observed_def
proof (intro allI impI)
  fix env :: "('o, 'm) wapi" and ep and cr :: "'c mobj_scheme" and w cr1 w1
  assume e: "echoes_as env (kind cr) ref_of holds" and ok: "spec_ok cr" and uid: "trim_space (mo_uid cr) = mo_uid cr"
    and c: "create env ep cr w = (None, cr1, w1)" and name: "GetExternalName cr1 \<noteq> mo_name cr"
  from c obtain w0 x m where v: "valid cr = None" and p: "plan cr = Inr m"
    and x: "wapi_mutate env (calls w0) m = Inr x" "cr1 = SetExternalName (ref_of x) cr" "w1 = log_call (CMutate m) w0"
    by (auto simp: create_shape ladder_create_shape_def send_planned_def mutate_object_def
        split: option.splits prod.splits sum.splits)
  have g: "ref_of x \<noteq> []" "holds m x" "wapi_get env (calls w1) (kind cr) (ref_of x) = Inr x"
    using e [unfolded echoes_as_def, rule_format, OF x(1)] x(3) by auto
  show "\<exists>obs cr2 w2. observe env ep cr1 w1 = (Inr obs, cr2, w2) \<and> ResourceExists obs \<and>
      ResourceUpToDate obs \<and> GetExternalName cr2 = GetExternalName cr1"
    by (rule observe_written [of env w1 cr1 x])
      (use g created_utd [OF v p ok g(2)] valid_uid [OF v] uid name in \<open>simp_all add: x(2) rename\<close>)
qed

text \<open>Every run is safe.\<close>

lemma create_steps:
  assumes "create env ep cr w = (e, cr', w')"
  shows "mo_uid cr' = mo_uid cr \<and>
    (mutations w' = mutations w \<and> extends w w' \<or>
     (\<exists>w1 m. plan cr = Inr m \<and> mutations w1 = mutations w \<and> extends w w1 \<and> w' = log_call (CMutate m) w1))"
proof -
  obtain e1 w1 where en: "ensureIdentityPrerequisite env ep w = (e1, w1)"
    by (cases "ensureIdentityPrerequisite env ep w")
  have m: "mutations w1 = mutations w" "extends w w1"
    using ensureIdentityPrerequisite_mutations [of env ep w] ensureIdentityPrerequisite_extends [of w env ep] en
    by simp_all
  then show ?thesis
    using assms en
    by (auto simp: create_shape ladder_create_shape_def send_planned_def mutate_object_def
        split: option.splits sum.splits)
qed

lemma created_safe:
  assumes "log_safe (shown_owned env tys stamp ref_of) req_ea U (calls w)" and "U (mo_uid cr)"
  shows "log_safe (shown_owned env tys stamp ref_of) req_ea U (calls (snd (snd (create env ep cr w)))) \<and>
    mo_uid (fst (snd (create env ep cr w))) = mo_uid cr"
proof -
  obtain e cr' w' where c: "create env ep cr w = (e, cr', w')" by (cases "create env ep cr w") auto
  have "call_safe (shown_owned env tys stamp ref_of) req_ea U log (CMutate m)" if "plan cr = Inr m" for log m
    using assms(2) plan_stamp [OF that] by (auto simp: call_safe_def)
  with create_steps [OF c] assms(1) have "log_safe (shown_owned env tys stamp ref_of) req_ea U (calls w')"
    using log_safe_quiet log_safe_one by metis
  with create_steps [OF c] c show ?thesis by auto
qed

lemma updated_safe:
  assumes "log_safe (shown_owned env tys stamp ref_of) req_ea U (calls w)" and "U (mo_uid cr)" and "retry_documented env"
  shows "log_safe (shown_owned env tys stamp ref_of) req_ea U (calls (snd (snd (update env ep cr w)))) \<and>
    mo_uid (fst (snd (update env ep cr w))) = mo_uid cr"
proof -
  obtain e cr' w' where u: "update env ep cr w = (e, cr', w')" by (cases "update env ep cr w") auto
  have safe: "call_safe (shown_owned env tys stamp ref_of) req_ea U log (CMutate (ureq cr))" for log
    using assms(2) ureq_stamp [of cr] by (auto simp: call_safe_def)
  from u assms(3) have "log_safe (shown_owned env tys stamp ref_of) req_ea U (calls w') \<and> mo_uid cr' = mo_uid cr"
  proof (cases rule: update_steps)
    case none
    then show ?thesis using assms(1) log_safe_quiet by blast
  next
    case (sent w1 cs)
    have m: "mutations w1 = mutations w" "extends w w1"
      using ensureIdentityPrerequisite_mutations [of env ep w] ensureIdentityPrerequisite_extends [of w env ep] sent(1)
      by simp_all
    have "log_safe (shown_owned env tys stamp ref_of) req_ea U (calls w1 @ [CMutate (ureq cr)])"
      using log_safe_one [OF m(2,1) assms(1) safe] by simp
    from log_safe_append_quiet [OF sent(4) this] have "log_safe (shown_owned env tys stamp ref_of) req_ea U (calls w')"
      by (simp add: sent(3))
    moreover have "mo_uid cr' = mo_uid cr" using sent(5,6) by (cases e) auto
    ultimately show ?thesis by simp
  qed
  with u show ?thesis by simp
qed

lemma deleted_safe:
  assumes "log_safe (shown_owned env tys stamp ref_of) req_ea U (calls w)" and "U (mo_uid cr)" and "sound env"
  shows "log_safe (shown_owned env tys stamp ref_of) req_ea U (calls (snd (del env ep cr w)))"
proof -
  obtain e w' where d: "del env ep cr w = (e, w')" by (cases "del env ep cr w")
  then have "log_safe (shown_owned env tys stamp ref_of) req_ea U (calls w')"
  proof (cases rule: delete_cases)
    case quiet
    then show ?thesis using assms(1) log_safe_quiet by blast
  next
    case (deleted x out w1)
    have m: "mutations w1 = mutations w" "extends w w1"
      using resolve_quiet [of env cr "GetExternalName cr" w] resolve_extends [of w env cr "GetExternalName cr"] deleted(1)
      by simp_all
    have "stamp x = Some (trim_space (mo_uid cr))"
      using resolve_owner [OF deleted(1) assms(3)] deleted(2) by simp
    with resolve_shown [OF deleted(1)]
    have "shown_owned env tys stamp ref_of (mo_uid cr) (calls w1) (ref_of x)"
      unfolding shown_owned_def by blast
    then have "call_safe (shown_owned env tys stamp ref_of) req_ea U (calls w1) (CDelete (ref_of x))"
      using assms(2) by (auto simp: call_safe_def)
    with log_safe_one [OF m(2,1) assms(1)] deleted(4) show ?thesis by blast
  qed
  with d show ?thesis by simp
qed

lemma run_safe: "resolving_runs_safely sound tys stamp ref_of req_ea observe create update del"
  unfolding resolving_runs_safely_def
proof (intro allI impI)
  fix env :: "('o, 'm) wapi" and ep crs0 crs and w :: "'m world"
  assume sound: "sound env" and retry: "retry_documented env"
    and run: "client_run observe create update del env ep crs0 crs w"
  let ?U = "\<lambda>uid. \<exists>i. uid = mo_uid (crs0 i)"
  from run have "log_safe (shown_owned env tys stamp ref_of) req_ea ?U (calls w) \<and> (\<forall>i. mo_uid (crs i) = mo_uid (crs0 i))"
  proof (induction rule: client_run.induct)
    case (observed crs w i)
    have "log_safe (shown_owned env tys stamp ref_of) req_ea ?U (calls (snd (snd (observe env ep (crs i) w))))"
      using observed log_safe_quiet [OF observe_quiet(2) observe_quiet(1)] by blast
    then show ?case using observed observe_quiet(3) [of env ep "crs i" w] by simp
  next
    case (created crs w i)
    then show ?case using created_safe [of env ?U w "crs i" ep] by auto
  next
    case (updated crs w i)
    then show ?case using updated_safe [of env ?U w "crs i" ep] retry by auto
  next
    case (deleted crs w i)
    then show ?case using deleted_safe [of env ?U w "crs i" ep] sound by auto
  qed (auto simp: init_world_def)
  then show "log_safe (shown_owned env tys stamp ref_of) req_ea ?U (calls w)" by blast
qed

end

text \<open>
  Most controllers record the reference an update answers with; those that do not rely on the Grid
  keeping it.
\<close>

locale refreshing_resolver = resolving_client +
  assumes refreshes: "holds (ureq cr) x \<Longrightarrow> uref x = ref_of x \<or> uref x = [] \<and> ref_of x = GetExternalName cr"
begin

lemma update_then_observe: "written_is_observed kind ref_of holds spec_ok update observe"
  unfolding written_is_observed_def
proof (intro allI impI)
  fix env :: "('a, 'b) wapi" and ep and cr :: "'c mobj_scheme" and w cr1 w1
  assume retry: "retry_documented env" and e: "echoes_as env (kind cr) ref_of holds" and ok: "spec_ok cr"
    and uid: "trim_space (mo_uid cr) = mo_uid cr"
    and u: "update env ep cr w = (None, cr1, w1)" and name: "GetExternalName cr1 \<noteq> mo_name cr"
  from u retry show "\<exists>obs cr2 w2. observe env ep cr1 w1 = (Inr obs, cr2, w2) \<and> ResourceExists obs \<and>
      ResourceUpToDate obs \<and> GetExternalName cr2 = GetExternalName cr1"
  proof (cases rule: update_steps)
    case (sent w0 cs)
    from sent(6) obtain x where x: "wapi_mutate env (calls w0) (ureq cr) = Inr x"
      "cr1 = (if uref x \<in> {[], GetExternalName cr} then cr else SetExternalName (uref x) cr)"
      by auto
    have g: "ref_of x \<noteq> []" "holds (ureq cr) x" "wapi_get env (calls w1) (kind cr) (ref_of x) = Inr x"
      using e [unfolded echoes_as_def, rule_format, OF x(1)] sent(3,4) by auto
    note refreshes [OF g(2)]
    with x(2) g(1) have "GetExternalName cr1 = ref_of x" "mo_uid cr1 = mo_uid cr" "mo_name cr1 = mo_name cr"
      "utd (fst (late cr1 x)) x = utd (fst (late cr x)) x" "kind cr1 = kind cr"
      by (auto simp: rename)
    then show ?thesis
      using observe_written [of env w1 cr1 x ep] g updated_utd [OF ok g(2)] sent(2) uid name by simp
  qed simp
qed

end

end

