(* ===== verification/LadderClient.thy ===== *)
theory LadderClient
  imports ResolvingClient
begin

text \<open>
  Controllers with one object type, which find their object with the identity ladder: what they promise
  (as predicates over their handlers) and the locale \<open>ladder_client\<close>, which theory ResolvingClient's
  locale gives. The controllers' theories transcribe their own handlers in full and interpret
  the locale on them.
\<close>

section \<open>What a controller promises\<close>

text \<open>
  Deletion: at most one mutating request, the deletion of the object the ladder found,
  which carries this resource's stamp.
\<close>

definition deletes_only_owned :: "'o objtype \<Rightarrow> ('o \<Rightarrow> string) \<Rightarrow> ('o, 'm, 'c) delete_op \<Rightarrow> bool" where
  "deletes_only_owned T ref_of del \<longleftrightarrow>
     (\<forall>env ep cr w. search_sound env T \<longrightarrow>
        mutations (snd (del env ep cr w)) = mutations w \<or>
        (\<exists>x out. fst (Resolve env T (GetExternalName cr) (mo_uid cr) w) = Inr (Some x, out) \<and>
           stamped T x = Some (trim_space (mo_uid cr)) \<and>
           mutations (snd (del env ep cr w)) = mutations w @ [CDelete (ref_of x)]))"

text \<open>
  A delete that reports success: the ladder found nothing, or an owned object was deleted
  or gone when the delete arrived.
\<close>

definition delete_success_justified :: "'o objtype \<Rightarrow> ('o \<Rightarrow> string) \<Rightarrow> ('o, 'm, 'c) delete_op \<Rightarrow> bool" where
  "delete_success_justified T ref_of del \<longleftrightarrow>
     (\<forall>env ep cr w. search_sound env T \<longrightarrow> fst (del env ep cr w) = None \<longrightarrow>
        (case Resolve env T (GetExternalName cr) (mo_uid cr) w of (r, w1) \<Rightarrow>
           (\<exists>obj. r = Inr (obj, OutcomeNotFound)) \<or>
           (\<exists>x out. r = Inr (Some x, out) \<and> stamped T x = Some (trim_space (mo_uid cr)) \<and>
              (let e = fst (issue_delete env (ref_of x) w1) in e = None \<or> isNotFound e))))"

text \<open>
  Observation: nothing is changed on the Grid; an existing object carries this resource's
  stamp, or none, and then it is never up to date and the recorded reference stays.
\<close>

definition observes_ownership ::
  "'o objtype \<Rightarrow> ('o, 'm, 'c) observe_op \<Rightarrow> bool" where
  "observes_ownership T observe \<longleftrightarrow>
     (\<forall>env ep cr w obs cr' w'. search_sound env T \<longrightarrow> observe env ep cr w = (Inr obs, cr', w') \<longrightarrow>
        mutations w' = mutations w \<and>
        (ResourceExists obs \<longrightarrow>
           (\<exists>x out. fst (Resolve env T (observeRefFor (mo_name cr) (GetExternalName cr)) (mo_uid cr) w) = Inr (Some x, out) \<and>
              (stamped T x = Some (trim_space (mo_uid cr)) \<or>
               stamped T x = None \<and> \<not> ResourceUpToDate obs \<and> GetExternalName cr' = GetExternalName cr))))"

text \<open>
  "Does not exist" is answered only after a search for the uid came back empty and, if a
  reference is recorded, after reading it gave a 404.
\<close>

definition absent_means_searched :: "'o objtype \<Rightarrow> ('o, 'm, 'c) observe_op \<Rightarrow> bool" where
  "absent_means_searched T observe \<longleftrightarrow>
     (\<forall>env ep cr w obs cr' w'. observe env ep cr w = (Inr obs, cr', w') \<longrightarrow> \<not> ResourceExists obs \<longrightarrow>
        (\<exists>h. calls w' = h @ [CSearch (ot_name T) (uid_query (trim_space (mo_uid cr)))] \<and>
           (wapi_search env h (ot_name T) (uid_query (trim_space (mo_uid cr))) = Inr [] \<or>
            (\<exists>err. wapi_search env h (ot_name T) (uid_query (trim_space (mo_uid cr))) = Inl err \<and> isNotFound (Some err)))) \<and>
        (GetExternalName cr \<notin> {[], mo_name cr} \<longrightarrow>
           (\<exists>err. wapi_get env (calls w) (ot_name T) (GetExternalName cr) = Inl err \<and> isNotFound (Some err))))"

text \<open>Creation: either no mutating request or exactly the create request of the spec.\<close>

definition creates_as ::
  "('c mobj_scheme \<Rightarrow> goerr option) \<Rightarrow> ('c mobj_scheme \<Rightarrow> 'm) \<Rightarrow> ('o \<Rightarrow> string) \<Rightarrow> string \<Rightarrow>
     ('o, 'm, 'c) write_op \<Rightarrow> bool" where
  "creates_as valid creq ref_of errCreate create \<longleftrightarrow>
     (\<forall>env ep cr w. case create env ep cr w of (e, cr', w') \<Rightarrow>
        (case valid cr of
           Some err \<Rightarrow> e = Some err \<and> cr' = cr \<and> w' = w
         | None \<Rightarrow>
             (case fst (ensureIdentityPrerequisite env ep w) of
                Some err \<Rightarrow> e = Some err \<and> cr' = cr \<and> mutations w' = mutations w
              | None \<Rightarrow>
                  mutations w' = mutations w @ [CMutate (creq cr)] \<and>
                  (\<exists>h. case wapi_mutate env h (creq cr) of
                     Inl err \<Rightarrow> e = Some (Wrapped errCreate err) \<and> cr' = cr
                   | Inr x \<Rightarrow> e = None \<and> cr' = SetExternalName (ref_of x) cr))))"

text \<open>
  What WAPI documents of a write: the object it answers with has a reference and holds
  what was sent, and reading that reference gives the object until the next write.
\<close>

definition echoes :: "('o, 'm) wapi \<Rightarrow> 'o objtype \<Rightarrow> ('o \<Rightarrow> string) \<Rightarrow> ('m \<Rightarrow> 'o \<Rightarrow> bool) \<Rightarrow> bool" where
  "echoes env T ref_of holds \<longleftrightarrow>
     (\<forall>h m x. wapi_mutate env h m = Inr x \<longrightarrow>
        ref_of x \<noteq> [] \<and> holds m x \<and>
        (\<forall>cs. list_all (\<lambda>c. \<not> mutating c) cs \<longrightarrow>
           wapi_get env (h @ CMutate m # cs) (ot_name T) (ref_of x) = Inr x))"

text \<open>
  Convergence: against a Grid that echoes, the Observe right after a successful write
  reports the object up to date, under the reference the write recorded.
\<close>

definition write_then_observe ::
  "'o objtype \<Rightarrow> ('o \<Rightarrow> string) \<Rightarrow> ('m \<Rightarrow> 'o \<Rightarrow> bool) \<Rightarrow> ('c mobj_scheme \<Rightarrow> bool) \<Rightarrow>
     ('o, 'm, 'c) write_op \<Rightarrow> ('o, 'm, 'c) observe_op \<Rightarrow> bool" where
  "write_then_observe T ref_of holds spec_ok write observe \<longleftrightarrow>
     (\<forall>env ep cr w cr1 w1. retry_documented env \<longrightarrow> echoes env T ref_of holds \<longrightarrow> spec_ok cr \<longrightarrow>
        trim_space (mo_uid cr) = mo_uid cr \<longrightarrow>
        write env ep cr w = (None, cr1, w1) \<longrightarrow> GetExternalName cr1 \<noteq> mo_name cr \<longrightarrow>
        (\<exists>obs cr2 w2. observe env ep cr1 w1 = (Inr obs, cr2, w2) \<and> ResourceExists obs \<and>
           ResourceUpToDate obs \<and> GetExternalName cr2 = GetExternalName cr1))"

text \<open>Objects a spec of the given kind never agrees with, however often it is written.\<close>

definition never_up_to_date ::
  "'o objtype \<Rightarrow> ('o, 'm, 'c) observe_op \<Rightarrow> ('c mobj_scheme \<Rightarrow> 'o \<Rightarrow> bool) \<Rightarrow> bool" where
  "never_up_to_date T observe P \<longleftrightarrow>
     (\<forall>env ep cr w x out w1.
        Resolve env T (observeRefFor (mo_name cr) (GetExternalName cr)) (mo_uid cr) w = (Inr (Some x, out), w1) \<longrightarrow>
        out \<noteq> OutcomeNotFound \<longrightarrow> P cr x \<longrightarrow>
        (\<exists>obs cr'. observe env ep cr w = (Inr obs, cr', w1) \<and> ResourceExists obs \<and> \<not> ResourceUpToDate obs))"

text \<open>The Grid has shown, earlier in the log, an object with this reference and stamp.\<close>

definition seen_owned ::
  "('o, 'm) wapi \<Rightarrow> 'o objtype \<Rightarrow> ('o \<Rightarrow> string) \<Rightarrow> string \<Rightarrow> 'm wcall list \<Rightarrow> string \<Rightarrow> bool" where
  "seen_owned env T ref_of uid log r \<longleftrightarrow>
     (\<exists>h t x. log = h @ t \<and> ref_of x = r \<and> stamped T x = Some (trim_space uid) \<and>
        ((\<exists>ref. wapi_get env h (ot_name T) ref = Inr x) \<or>
         wapi_search env h (ot_name T) (uid_query (trim_space uid)) = Inr [x]))"

text \<open>
  In every run each create and update carries the uid of one of the resources, and each
  delete names an object the Grid had shown with the stamp of one of them.
\<close>

definition runs_safely ::
  "'o objtype \<Rightarrow> ('o \<Rightarrow> string) \<Rightarrow> ('m \<Rightarrow> ea) \<Rightarrow>
     ('o, 'm, 'c) observe_op \<Rightarrow> ('o, 'm, 'c) write_op \<Rightarrow> ('o, 'm, 'c) write_op \<Rightarrow> ('o, 'm, 'c) delete_op \<Rightarrow> bool" where
  "runs_safely T ref_of req_ea observe create update del \<longleftrightarrow>
     (\<forall>env ep crs0 crs w. search_sound env T \<longrightarrow> retry_documented env \<longrightarrow>
        client_run observe create update del env ep crs0 crs w \<longrightarrow>
        log_safe (seen_owned env T ref_of) req_ea (\<lambda>uid. \<exists>i. uid = mo_uid (crs0 i)) (calls w))"

text \<open>What the ladder answers with, the Grid has shown.\<close>

lemma Resolve_seen:
  assumes "Resolve env T ref uid w = (Inr (Some x, out), w1)"
  obtains h t where "calls w1 = h @ t"
    "(\<exists>ref. wapi_get env h (ot_name T) ref = Inr x) \<or>
     wapi_search env h (ot_name T) (uid_query (trim_space uid)) = Inr [x]"
proof -
  note answer = that
  have search: thesis if "resolveBySearch env T ref (trim_space uid) w0 = (Inr (Some x, out), w1)" for w0
    using resolveBySearch_cases [OF that] resolveBySearch_calls [of env T ref "trim_space uid" w0] that
      answer [of "calls w0" "[CSearch (ot_name T) (uid_query (trim_space uid))]"] by auto
  show thesis
  proof (cases "ref = []")
    case True
    with assms search show ?thesis by (auto simp: Resolve_def Let_def split: sum.splits if_splits)
  next
    case False
    obtain r w2 where r: "resolveByRef env T ref (trim_space uid) w = (r, w2)"
      by (cases "resolveByRef env T ref (trim_space uid) w")
    show ?thesis
    proof (cases r)
      case None
      with assms False r search show ?thesis by (auto simp: Resolve_def Let_def split: sum.splits if_splits)
    next
      case (Some a)
      with assms False r have "w2 = w1" "a = Inr (Some x, out)"
        by (auto simp: Resolve_def Let_def split: sum.splits if_splits)
      with Some resolveByRef_cases [OF r] resolveByRef_calls [of env T ref "trim_space uid" w] r
      show ?thesis using that [of "calls w" "[CGet (ot_name T) ref]"] by auto
    qed
  qed
qed

text \<open>The promises of theory ResolvingClient, read for one object type.\<close>

lemma echoes_iff: "echoes env T ref_of holds \<longleftrightarrow> echoes_as env (ot_name T) ref_of holds"
  by (simp add: echoes_def echoes_as_def)

lemma shown_owned_type: "shown_owned env {ot_name T} (stamped T) ref_of = seen_owned env T ref_of"
  by (simp add: fun_eq_iff shown_owned_def seen_owned_def)

lemmas one_type_simps = deletes_only_owned_def deletes_resolved_def delete_success_justified_def deleted_is_gone_def
  observes_ownership_def observes_resolved_def creates_as_def creates_planned_def
  write_then_observe_def written_is_observed_def echoes_iff runs_safely_def resolving_runs_safely_def
  shown_owned_type

section \<open>The interface and what follows from it\<close>

text \<open>
  \<open>creq\<close> and \<open>ureq\<close> are the requests of a spec, \<open>req_ea\<close> the attributes a request
  carries, \<open>valid\<close> the checks Create makes before it talks to the Grid, \<open>holds\<close> what the
  Grid stores of a request and \<open>spec_ok\<close> the specs the convergence law is about.
\<close>

locale ladder_client = late_init late utd keeps
  for late :: "'c mobj_scheme \<Rightarrow> 'o \<Rightarrow> 'c mobj_scheme \<times> bool"
    and utd :: "'c mobj_scheme \<Rightarrow> 'o \<Rightarrow> bool"
    and keeps :: "'c mobj_scheme \<Rightarrow> 'c mobj_scheme \<Rightarrow> bool" +
  fixes T :: "'o objtype" and ref_of :: "'o \<Rightarrow> string"
    and status :: "'o \<Rightarrow> 'c mobj_scheme \<Rightarrow> 'c mobj_scheme"
    and valid :: "'c mobj_scheme \<Rightarrow> goerr option"
    and creq ureq :: "'c mobj_scheme \<Rightarrow> 'm" and req_ea :: "'m \<Rightarrow> ea"
    and holds :: "'m \<Rightarrow> 'o \<Rightarrow> bool" and spec_ok :: "'c mobj_scheme \<Rightarrow> bool"
    and observe_error :: "goerr option \<Rightarrow> goerr \<Rightarrow> goerr" and takes flags :: "string \<Rightarrow> bool" and uref :: "'o \<Rightarrow> string"
    and errCreate errUpdate errDelete errUID :: string
    and observe :: "('o, 'm, 'c) observe_op" and create update :: "('o, 'm, 'c) write_op"
    and del :: "('o, 'm, 'c) delete_op"
  assumes observe_shape: "observe env ep cr w =
      ladder_observe_shape observe_error (Resolve env T) (ensureIdentityPrerequisite env ep) takes flags late status utd ref_of cr w"
    and create_shape: "create env ep cr w =
      ladder_create_shape errCreate valid (ensureIdentityPrerequisite env ep) (mutate_object env) creq ref_of cr w"
    and update_shape: "update env ep cr w =
      ladder_update_shape errUpdate errUID env (ensureIdentityPrerequisite env ep) ureq uref cr w"
    and delete_shape: "del env ep cr w =
      ladder_delete_shape errDelete errDeleteUnverifiedOwnership nilDereference
        (Resolve env T (GetExternalName cr) (mo_uid cr)) (ensureIdentityPrerequisite env ep)
        (issue_delete env) ref_of w"
    and type_shape: "ref_ea_shape T"
    and valid_uid: "valid cr = None \<Longrightarrow> trim_space (mo_uid cr) \<noteq> []"
    and late_meta: "mo_uid (fst (late cr x)) = mo_uid cr"
      "mo_annotations (fst (late cr x)) = mo_annotations cr"
    and status_meta: "mo_uid (status x cr) = mo_uid cr" "mo_annotations (status x cr) = mo_annotations cr"
    and creq_stamp: "eaValue (req_ea (creq cr)) EAKey = Some (mo_uid cr)"
    and ureq_stamp: "eaValue (req_ea (ureq cr)) EAKey = Some (mo_uid cr)"
    and utd_rename: "utd (fst (late (SetExternalName n cr) x)) x = utd (fst (late cr x)) x"
    and created_utd: "valid cr = None \<Longrightarrow> spec_ok cr \<Longrightarrow> holds (creq cr) x \<Longrightarrow>
      utd (fst (late cr x)) x \<and> stamped T x = Some (mo_uid cr)"
    and updated_utd: "spec_ok cr \<Longrightarrow> holds (ureq cr) x \<Longrightarrow>
      utd (fst (late cr x)) x \<and> stamped T x = Some (mo_uid cr)"

sublocale ladder_client \<subseteq> by_type: resolving_client "\<lambda>env cr ref. Resolve env T ref (mo_uid cr)" "\<lambda>env. search_sound env T"
  "stamped T" "{ot_name T}" "\<lambda>cr. {ot_name T}" "\<lambda>cr. ot_name T" late utd ref_of status valid
  "\<lambda>cr. Inr (creq cr)" ureq req_ea holds spec_ok observe_error takes flags uref
  errCreate errUpdate errDelete errUID observe create update del
proof (unfold_locales, goal_cases)
  case (3 env cr ref w obj out w1)
  then show ?case using Resolve_Some [of env T] by blast
next
  case (4 env cr ref w x out w1)
  then show ?case using Resolve_owner [OF 4] by blast
next
  case (5 env cr ref w x out w1)
  obtain h t where "calls w1 = h @ t" "(\<exists>ref. wapi_get env h (ot_name T) ref = Inr x) \<or>
      wapi_search env h (ot_name T) (uid_query (trim_space (mo_uid cr))) = Inr [x]"
    using Resolve_seen [OF 5] .
  then show ?case by auto
next
  case (6 env cr ref w obj w1)
  then show ?case using Resolve_NotFound_search [OF 6] by (auto simp: searched_empty_def)
next
  case (7 env w cr ref x)
  have "resolveByRef env T ref (mo_uid cr) w =
      (Some (Inr (Some x, OutcomeResolved)), log_call (CGet (ot_name T) ref) w)"
    using 7 by (simp add: resolveByRef_def get_object_def stamped_def split: sum.splits)
  then show ?case using 7 type_shape by (simp add: Resolve_unfold)
next
  case (8 env ep cr w)
  show ?case unfolding observe_shape ladder_observe_shape_def ..
next
  case (9 env ep cr w)
  show ?case unfolding create_shape ladder_create_shape_def send_planned_Inr ..
qed (simp_all add: Resolve_extends update_shape delete_shape valid_uid late_meta status_meta
    creq_stamp ureq_stamp utd_rename created_utd updated_utd)

context ladder_client
begin

lemma observe_never:
  assumes "\<And>cr x. P cr x \<Longrightarrow> \<not> utd (fst (late cr x)) x"
  shows "never_up_to_date T observe P"
  unfolding never_up_to_date_def
proof (intro allI impI)
  fix env :: "('o, 'm) wapi" and ep and cr :: "'c mobj_scheme" and w x out w1
  assume r: "Resolve env T (observeRefFor (mo_name cr) (GetExternalName cr)) (mo_uid cr) w = (Inr (Some x, out), w1)"
    and out: "out \<noteq> OutcomeNotFound" and p: "P cr x"
  show "\<exists>obs cr'. observe env ep cr w = (Inr obs, cr', w1) \<and> ResourceExists obs \<and> \<not> ResourceUpToDate obs"
    using by_type.observe_found [OF r out, of ep] assms [OF p] by auto
qed

text \<open>What Observe promises.\<close>

lemma observe_ownership: "observes_ownership T observe"
  using by_type.observe_ownership by (simp only: one_type_simps)

lemma observe_absent: "absent_means_searched T observe"
  unfolding absent_means_searched_def
proof (intro allI impI)
  fix env :: "('o, 'm) wapi" and ep and cr :: "'c mobj_scheme" and w obs cr' w'
  assume o: "observe env ep cr w = (Inr obs, cr', w')" and n: "\<not> ResourceExists obs"
  show "(\<exists>h. calls w' = h @ [CSearch (ot_name T) (uid_query (trim_space (mo_uid cr)))] \<and>
         (wapi_search env h (ot_name T) (uid_query (trim_space (mo_uid cr))) = Inr [] \<or>
          (\<exists>err. wapi_search env h (ot_name T) (uid_query (trim_space (mo_uid cr))) = Inl err \<and> isNotFound (Some err)))) \<and>
      (GetExternalName cr \<notin> {[], mo_name cr} \<longrightarrow>
         (\<exists>err. wapi_get env (calls w) (ot_name T) (GetExternalName cr) = Inl err \<and> isNotFound (Some err)))"
    using o
  proof (cases rule: by_type.observe_cases)
    case absent
    then show ?thesis using Resolve_NotFound_search [OF absent(3)] by (auto simp: observeRefFor_def)
  qed (use n in simp_all)
qed

text \<open>Deletion, creation, convergence and runs.\<close>

lemma delete_only_owned: "deletes_only_owned T ref_of del"
  using by_type.delete_only_owned by (simp only: one_type_simps)

lemma delete_success: "delete_success_justified T ref_of del"
  using by_type.delete_success by (simp only: one_type_simps)

lemma create_as: "creates_as valid creq ref_of errCreate create"
  using by_type.create_planned by (simp only: one_type_simps sum.case simp_thms)

lemma update_as: "updates_as ureq uref update"
  by (rule by_type.update_as)

lemma create_then_observe: "write_then_observe T ref_of holds spec_ok create observe"
  using by_type.create_then_observe by (simp only: one_type_simps)

lemma run_safe: "runs_safely T ref_of req_ea observe create update del"
  using by_type.run_safe by (simp only: one_type_simps)

end

text \<open>
  Most controllers record the reference an update answers with; those that do not rely on the Grid
  keeping it.
\<close>

locale refreshing_client = ladder_client +
  assumes refreshes: "holds (ureq cr) x \<Longrightarrow> uref x = ref_of x \<or> uref x = [] \<and> ref_of x = GetExternalName cr"

sublocale refreshing_client \<subseteq> by_type: refreshing_resolver "\<lambda>env cr ref. Resolve env T ref (mo_uid cr)" "\<lambda>env. search_sound env T"
  "stamped T" "{ot_name T}" "\<lambda>cr. {ot_name T}" "\<lambda>cr. ot_name T" late utd ref_of status valid
  "\<lambda>cr. Inr (creq cr)" ureq req_ea holds spec_ok observe_error takes flags uref
  errCreate errUpdate errDelete errUID observe create update del
  by unfold_locales (rule refreshes)

context refreshing_client
begin

lemma update_then_observe: "write_then_observe T ref_of holds spec_ok update observe"
  using by_type.update_then_observe by (simp only: one_type_simps)

end

end
