(* ===== verification/ARecord.thy ===== *)
theory ARecord
  imports LadderClient
begin

text \<open>
  internal/controller/recorda: the ARecord controller. First the helpers of
  controller.go both scopes share, then the two external clients of
  namespaced.go and cluster.go, written out separately as the source has them.
  The generated API types keep only the fields the controller reads or writes.
\<close>

section \<open>Data\<close>

text \<open>ibclient.RecordA, as the provider requests it.\<close>

record RecordA =
  ra_Ref :: string
  ra_Name :: "string option"
  ra_Ipv4Addr :: "string option"
  ra_Comment :: "string option"
  ra_Ttl :: "32 word option"
  ra_UseTtl :: "bool option"
  ra_Ea :: ea
  ra_View :: string
  ra_Zone :: string

definition emptyRecordA :: RecordA where
  "emptyRecordA = \<lparr>ra_Ref = [], ra_Name = None, ra_Ipv4Addr = None, ra_Comment = None, ra_Ttl = None,
     ra_UseTtl = None, ra_Ea = fmempty, ra_View = [], ra_Zone = []\<rparr>"

definition reflectRecordA :: "RecordA \<Rightarrow> goany" where
  "reflectRecordA r = PtrTo ''*ibclient.RecordA''
     [(''Ref'', FString (ra_Ref r)), (''Name'', FOther), (''Ipv4Addr'', FOther), (''Comment'', FOther),
      (''Ttl'', FOther), (''UseTtl'', FOther), (''Ea'', FEA (ra_Ea r)), (''View'', FString (ra_View r)),
      (''Zone'', FString (ra_Zone r))]"

definition RecordA_type :: "RecordA objtype" where
  "RecordA_type = \<lparr>ot_name = ''record:a'', ot_empty = emptyRecordA, ot_reflect = reflectRecordA\<rparr>"

text \<open>The ObjectManager requests, with their arguments in call order.\<close>

datatype arecord_req =
    CreateARecord string string string string string "32 word" bool string ea
      \<comment> \<open>netView, dnsView, recordName, cidr, ipAddr, ttl, useTTL, comment, ea\<close>
  | UpdateARecord string string string string string "32 word" bool string ea
      \<comment> \<open>ref, recordName, ipAddr, cidr, netView, ttl, useTTL, comment, ea\<close>

record ARecordParameters =
  ap_Name :: "string option"
  ap_IPv4Addr :: "string option"
  ap_Comment :: "string option"
  ap_TTL :: "32 word option"
  ap_UseTTL :: "bool option"
  ap_ExtAttrs :: extattrs
  ap_View :: "string option"
  ap_Cidr :: "string option"
  ap_NetworkView :: "string option"
  ap_RemoveAssociatedPtr :: "bool option"

record ARecordObservation =
  ao_ID :: string
  ao_Name :: "string option"
  ao_IPv4Addr :: "string option"
  ao_Comment :: "string option"
  ao_TTL :: "32 word option"
  ao_UseTTL :: "bool option"
  ao_ExtAttrs :: extattrs
  ao_View :: "string option"
  ao_Cidr :: "string option"
  ao_NetworkView :: "string option"
  ao_Ref :: "string option"
  ao_Zone :: "string option"

record ARecordCR = mobj +
  ar_ForProvider :: ARecordParameters
  ar_AtProvider :: ARecordObservation

section \<open>Error messages\<close>

definition errObserveARecord :: string where "errObserveARecord = ''cannot observe ARecord''"
definition errCreateARecord :: string where "errCreateARecord = ''cannot create ARecord''"
definition errUpdateARecord :: string where "errUpdateARecord = ''cannot update ARecord''"
definition errDeleteARecord :: string where "errDeleteARecord = ''cannot delete ARecord''"
definition errCidrIPv4Mutex :: string where
  "errCidrIPv4Mutex = ''cidr and ipv4Addr are mutually exclusive''"
definition ARecord_errEmptyUID :: string where
  "ARecord_errEmptyUID = ''cannot stamp ARecord identity: managed resource's metadata.uid is empty''"
section \<open>Field comparison and late initialisation\<close>

definition ARecord_isUpToDate ::
  "string option \<Rightarrow> string option \<Rightarrow> string option \<Rightarrow> 32 word option \<Rightarrow> bool option \<Rightarrow> extattrs \<Rightarrow> RecordA \<Rightarrow> bool" where
  "ARecord_isUpToDate name ipv4Addr comment ttl useTTL extAttrs rec =
     (if strOrEmpty name \<noteq> strOrEmpty (ra_Name rec) then False
      else if strOrEmpty ipv4Addr \<noteq> strOrEmpty (ra_Ipv4Addr rec) then False
      else if strOrEmpty comment \<noteq> strOrEmpty (ra_Comment rec) then False
      else if boolOrFalse useTTL \<noteq> boolPtrOrFalse (ra_UseTtl rec) then False
      else if boolOrFalse useTTL \<and> ttlOrZero ttl \<noteq> ttlOrZero (ra_Ttl rec) then False
      else extAttrsEqual extAttrs (extAttrsFromEA (Strip (ra_Ea rec))))"

text \<open>The four ForProvider fields lateInitialize takes pointers to.\<close>

type_synonym arecord_late = "string option \<times> 32 word option \<times> bool option \<times> extattrs"

definition ARecord_lateInitialize :: "arecord_late \<Rightarrow> RecordA \<Rightarrow> arecord_late \<times> bool" where
  "ARecord_lateInitialize p rec =
     (case p of (comment, ttl, useTTL, extAttrs) \<Rightarrow>
       (let (comment1, c1) = (if comment = None \<and> ra_Comment rec \<noteq> None \<and> ra_Comment rec \<noteq> Some []
                              then (ra_Comment rec, True) else (comment, False));
            (useTTL1, c2) = (if useTTL = None \<and> ra_UseTtl rec \<noteq> None
                             then (ra_UseTtl rec, True) else (useTTL, c1));
            (ttl1, c3) = (if ttl = None \<and> ra_Ttl rec \<noteq> None \<and> boolOrFalse useTTL1
                          then (ra_Ttl rec, True) else (ttl, c2));
            fromRec = extAttrsFromEA (Strip (ra_Ea rec));
            (extAttrs1, c4) = (if extAttrs = fmempty \<and> fromRec \<noteq> fmempty
                               then (fromRec, True) else (extAttrs, c3))
        in ((comment1, ttl1, useTTL1, extAttrs1), c4)))"

record observedARecord =
  oa_ID :: string
  oa_Name :: "string option"
  oa_IPv4Addr :: "string option"
  oa_Comment :: "string option"
  oa_TTL :: "32 word option"
  oa_UseTTL :: "bool option"
  oa_ExtAttrs :: extattrs
  oa_View :: "string option"
  oa_Ref :: "string option"
  oa_Zone :: "string option"

definition observeFromRecordA :: "string \<Rightarrow> RecordA \<Rightarrow> observedARecord" where
  "observeFromRecordA externalID rec =
     \<lparr>oa_ID = externalID,
      oa_Name = ra_Name rec,
      oa_IPv4Addr = ra_Ipv4Addr rec,
      oa_Comment = ptrIfSet (ra_Comment rec),
      oa_TTL = ra_Ttl rec,
      oa_UseTTL = ra_UseTtl rec,
      oa_ExtAttrs = extAttrsFromEA (ra_Ea rec),
      oa_View = ptrIfNonEmpty (ra_View rec),
      oa_Ref = ptrIfNonEmpty (ra_Ref rec),
      oa_Zone = ptrIfNonEmpty (ra_Zone rec)\<rparr>"

section \<open>SDK calls\<close>

definition validateARecordCreateInputs :: "string option \<Rightarrow> string option \<Rightarrow> string \<Rightarrow> goerr option" where
  "validateARecordCreateInputs ipv4Addr cidr uid =
     (if trim_space uid = [] then Some (TextError ARecord_errEmptyUID)
      else if strOrEmpty cidr \<noteq> [] \<and> strOrEmpty ipv4Addr \<noteq> [] then Some (TextError errCidrIPv4Mutex)
      else None)"

definition defaultNetworkView :: string where "defaultNetworkView = ''default''"

definition createARecord ::
  "(RecordA, arecord_req) wapi \<Rightarrow> ARecordParameters \<Rightarrow> string \<Rightarrow> arecord_req world \<Rightarrow>
     (goerr + RecordA) \<times> arecord_req world" where
  "createARecord env p uid w =
     (case validateARecordCreateInputs (ap_IPv4Addr p) (ap_Cidr p) uid of
        Some err \<Rightarrow> (Inl err, w)
      | None \<Rightarrow>
          (let cidrVal = strOrEmpty (ap_Cidr p);
               netView0 = strOrEmpty (ap_NetworkView p);
               netView = (if cidrVal \<noteq> [] \<and> netView0 = [] then defaultNetworkView else netView0);
               e = Stamp (buildEA (ap_ExtAttrs p)) uid
           in mutate_object env
                (CreateARecord netView (strOrEmpty (ap_View p)) (strOrEmpty (ap_Name p)) cidrVal
                   (strOrEmpty (ap_IPv4Addr p)) (ttlOrZero (ap_TTL p)) (boolOrFalse (ap_UseTTL p))
                   (strOrEmpty (ap_Comment p)) e) w))"

definition updateARecord ::
  "(RecordA, arecord_req) wapi \<Rightarrow> string \<Rightarrow> ARecordParameters \<Rightarrow> string \<Rightarrow> arecord_req world \<Rightarrow>
     (goerr + RecordA) \<times> arecord_req world" where
  "updateARecord env ref p uid w =
     (if trim_space uid = [] then (Inl (TextError ARecord_errEmptyUID), w)
      else
        (let e = Stamp (buildEA (ap_ExtAttrs p)) uid
         in mutate_object env
              (UpdateARecord ref (strOrEmpty (ap_Name p)) (strOrEmpty (ap_IPv4Addr p)) [] []
                 (ttlOrZero (ap_TTL p)) (boolOrFalse (ap_UseTTL p)) (strOrEmpty (ap_Comment p)) e) w))"

definition deleteARecord ::
  "(RecordA, arecord_req) wapi \<Rightarrow> string \<Rightarrow> arecord_req world \<Rightarrow> goerr option \<times> arecord_req world" where
  "deleteARecord env ref w =
     (case delete_object env ref w of
        (Inl err, w1) \<Rightarrow> (Some err, w1)
      | (Inr _, w1) \<Rightarrow> (None, w1))"

section \<open>Identity resolution\<close>

definition resolveARecordIdentity ::
  "(RecordA, arecord_req) wapi \<Rightarrow> string \<Rightarrow> string \<Rightarrow> arecord_req world \<Rightarrow>
     (goerr + RecordA option \<times> Outcome) \<times> arecord_req world" where
  "resolveARecordIdentity env ref uid w = Resolve env RecordA_type ref uid w"

type_synonym ARecord_observeResult = "(RecordA, observedARecord) observeResult"

definition ARecord_notFoundResult :: ARecord_observeResult where
  "ARecord_notFoundResult =
     \<lparr>ores_exists = False, ores_rec = emptyRecordA, ores_obs = observeFromRecordA [] emptyRecordA,
      ores_lateInit = False, ores_refreshedRef = [], ores_adopted = False\<rparr>"

definition observeARecord ::
  "(RecordA, arecord_req) wapi \<Rightarrow> string \<Rightarrow> string \<Rightarrow> string \<Rightarrow> string \<Rightarrow> arecord_late \<Rightarrow> arecord_req world \<Rightarrow>
     (goerr + ARecord_observeResult) \<times> arecord_late \<times> arecord_req world" where
  "observeARecord env endpoint crName externalName uid p w =
     (let ref = observeRefFor crName externalName in
      case resolveARecordIdentity env ref uid w of
        (Inl err, w1) \<Rightarrow>
          if IsSearchFailure err then
            (case ensureIdentityPrerequisite env endpoint w1 of
               (Some prereqErr, w2) \<Rightarrow> (Inl prereqErr, p, w2)
             | (None, w2) \<Rightarrow> (Inl err, p, w2))
          else (Inl err, p, w1)
      | (Inr (obj, outcome), w1) \<Rightarrow>
          if outcome = OutcomeNotFound then (Inr ARecord_notFoundResult, p, w1)
          else
            (case obj of
               None \<Rightarrow> (Inl (TextError nilDereference), p, w1)
             | Some rec \<Rightarrow>
                 (case ARecord_lateInitialize p rec of (p1, changed) \<Rightarrow>
                    (let found = (outcome = OutcomeRotated \<or> outcome = OutcomeFoundByUID)
                     in (Inr \<lparr>ores_exists = True, ores_rec = rec,
                              ores_obs = observeFromRecordA (ra_Ref rec) rec,
                              ores_lateInit = (if found then True else changed),
                              ores_refreshedRef = (if found then ra_Ref rec else []),
                              ores_adopted = (outcome = OutcomeAdopted)\<rparr>, p1, w1)))))"

definition deleteARecordIdentity ::
  "(RecordA, arecord_req) wapi \<Rightarrow> string \<Rightarrow> string \<Rightarrow> string \<Rightarrow> arecord_req world \<Rightarrow>
     goerr option \<times> arecord_req world" where
  "deleteARecordIdentity env endpoint ref uid w =
     (case resolveARecordIdentity env ref uid w of
        (Inl err, w1) \<Rightarrow>
          if IsSearchFailure err then
            (case ensureIdentityPrerequisite env endpoint w1 of
               (Some prereqErr, w2) \<Rightarrow> (Some prereqErr, w2)
             | (None, w2) \<Rightarrow> (Some (Wrapped errDeleteARecord err), w2))
          else (Some (Wrapped errDeleteARecord err), w1)
      | (Inr (obj, outcome), w1) \<Rightarrow>
          (case outcome of
             OutcomeNotFound \<Rightarrow> (None, w1)
           | OutcomeAdopted \<Rightarrow> (Some (TextError errDeleteUnverifiedOwnership), w1)
           | _ \<Rightarrow>
               (case obj of
                  None \<Rightarrow> (Some (TextError nilDereference), w1)
                | Some rec \<Rightarrow>
                    (case deleteARecord env (ra_Ref rec) w1 of
                       (None, w2) \<Rightarrow> (None, w2)
                     | (Some delErr, w2) \<Rightarrow>
                         if isNotFound (Some delErr) then (None, w2)
                         else (Some (Wrapped errDeleteARecord delErr), w2)))))"

section \<open>The external clients\<close>

text \<open>The pointers to spec fields Observe hands to observeARecord, and their write-back.\<close>

definition ARecord_latePart :: "ARecordParameters \<Rightarrow> arecord_late" where
  "ARecord_latePart p = (ap_Comment p, ap_TTL p, ap_UseTTL p, ap_ExtAttrs p)"

definition ARecord_setLate :: "ARecordParameters \<Rightarrow> arecord_late \<Rightarrow> ARecordParameters" where
  "ARecord_setLate p l =
     (case l of (comment, ttl, useTTL, extAttrs) \<Rightarrow>
        p\<lparr>ap_Comment := comment, ap_TTL := ttl, ap_UseTTL := useTTL, ap_ExtAttrs := extAttrs\<rparr>)"

subsection \<open>namespaced.go\<close>

definition namespaced_ARecord_Observe ::
  "(RecordA, arecord_req) wapi \<Rightarrow> string \<Rightarrow> ARecordCR \<Rightarrow> arecord_req world \<Rightarrow>
     (goerr + ExternalObservation) \<times> ARecordCR \<times> arecord_req world" where
  "namespaced_ARecord_Observe env endpoint cr w =
     (case observeARecord env endpoint (mo_name cr) (GetExternalName cr) (mo_uid cr)
             (ARecord_latePart (ar_ForProvider cr)) w of
        (Inl err, l, w1) \<Rightarrow>
          (let cr1 = cr\<lparr>ar_ForProvider := ARecord_setLate (ar_ForProvider cr) l\<rparr> in
           if errors_as is_PrerequisiteError err then (Inl err, cr1, w1)
           else (Inl (Wrapped errObserveARecord err), cr1, w1))
      | (Inr res, l, w1) \<Rightarrow>
          (let p = ARecord_setLate (ar_ForProvider cr) l;
               cr1 = cr\<lparr>ar_ForProvider := p\<rparr> in
           if \<not> ores_exists res then (Inr notExists, cr1, w1)
           else
             (let o1 = ores_obs res;
                  cr2 = cr1\<lparr>ar_AtProvider :=
                    \<lparr>ao_ID = oa_ID o1, ao_Name = oa_Name o1, ao_IPv4Addr = oa_IPv4Addr o1,
                     ao_Comment = oa_Comment o1, ao_TTL = oa_TTL o1, ao_UseTTL = oa_UseTTL o1,
                     ao_ExtAttrs = oa_ExtAttrs o1, ao_View = oa_View o1, ao_Cidr = ap_Cidr p,
                     ao_NetworkView = ap_NetworkView p, ao_Ref = oa_Ref o1, ao_Zone = oa_Zone o1\<rparr>\<rparr>;
                  cr3 = (if ores_refreshedRef res \<noteq> [] then SetExternalName (ores_refreshedRef res) cr2 else cr2);
                  cr4 = SetAvailable cr3;
                  upToDate = (ARecord_isUpToDate (ap_Name p) (ap_IPv4Addr p) (ap_Comment p) (ap_TTL p)
                                (ap_UseTTL p) (ap_ExtAttrs p) (ores_rec res) \<and> \<not> ores_adopted res)
              in (Inr \<lparr>ResourceExists = True, ResourceUpToDate = upToDate,
                       ResourceLateInitialized = ores_lateInit res\<rparr>, cr4, w1))))"

definition namespaced_ARecord_Create ::
  "(RecordA, arecord_req) wapi \<Rightarrow> string \<Rightarrow> ARecordCR \<Rightarrow> arecord_req world \<Rightarrow>
     goerr option \<times> ARecordCR \<times> arecord_req world" where
  "namespaced_ARecord_Create env endpoint cr w =
     (let p = ar_ForProvider cr; uid = mo_uid cr in
      case validateARecordCreateInputs (ap_IPv4Addr p) (ap_Cidr p) uid of
        Some err \<Rightarrow> (Some err, cr, w)
      | None \<Rightarrow>
          (case ensureIdentityPrerequisite env endpoint w of
             (Some err, w1) \<Rightarrow> (Some err, cr, w1)
           | (None, w1) \<Rightarrow>
               (case createARecord env p uid w1 of
                  (Inl err, w2) \<Rightarrow> (Some (Wrapped errCreateARecord err), cr, w2)
                | (Inr rec, w2) \<Rightarrow> (None, SetExternalName (ra_Ref rec) cr, w2))))"

definition namespaced_ARecord_Update ::
  "(RecordA, arecord_req) wapi \<Rightarrow> string \<Rightarrow> ARecordCR \<Rightarrow> arecord_req world \<Rightarrow>
     goerr option \<times> ARecordCR \<times> arecord_req world" where
  "namespaced_ARecord_Update env endpoint cr w =
     (let p = ar_ForProvider cr; externalID = GetExternalName cr in
      case ensureIdentityPrerequisite env endpoint w of
        (Some err, w1) \<Rightarrow> (Some err, cr, w1)
      | (None, w1) \<Rightarrow>
          (case updateARecord env externalID p (mo_uid cr) w1 of
             (Inl err, w2) \<Rightarrow> (Some (Wrapped errUpdateARecord err), cr, w2)
           | (Inr rec, w2) \<Rightarrow>
               if ra_Ref rec \<noteq> [] \<and> ra_Ref rec \<noteq> externalID then
                 (case Refresh env cr (ra_Ref rec) w2 of
                    (Some err, cr1, w3) \<Rightarrow> (Some (Wrapped errPersistExternalName err), cr1, w3)
                  | (None, cr1, w3) \<Rightarrow> (None, cr1, w3))
               else (None, cr, w2)))"

definition namespaced_ARecord_Delete ::
  "(RecordA, arecord_req) wapi \<Rightarrow> string \<Rightarrow> ARecordCR \<Rightarrow> arecord_req world \<Rightarrow>
     goerr option \<times> arecord_req world" where
  "namespaced_ARecord_Delete env endpoint cr w =
     (let externalID = GetExternalName cr in
      case deleteARecordIdentity env endpoint externalID (mo_uid cr) w of
        (Some err, w1) \<Rightarrow> (Some err, w1)
      | (None, w1) \<Rightarrow> (None, w1))"

subsection \<open>cluster.go\<close>

definition cluster_ARecord_Observe ::
  "(RecordA, arecord_req) wapi \<Rightarrow> string \<Rightarrow> ARecordCR \<Rightarrow> arecord_req world \<Rightarrow>
     (goerr + ExternalObservation) \<times> ARecordCR \<times> arecord_req world" where
  "cluster_ARecord_Observe env endpoint cr w =
     (case observeARecord env endpoint (mo_name cr) (GetExternalName cr) (mo_uid cr)
             (ARecord_latePart (ar_ForProvider cr)) w of
        (Inl err, l, w1) \<Rightarrow>
          (let cr1 = cr\<lparr>ar_ForProvider := ARecord_setLate (ar_ForProvider cr) l\<rparr> in
           if errors_as is_PrerequisiteError err then (Inl err, cr1, w1)
           else (Inl (Wrapped errObserveARecord err), cr1, w1))
      | (Inr res, l, w1) \<Rightarrow>
          (let p = ARecord_setLate (ar_ForProvider cr) l;
               cr1 = cr\<lparr>ar_ForProvider := p\<rparr> in
           if \<not> ores_exists res then (Inr notExists, cr1, w1)
           else
             (let o1 = ores_obs res;
                  cr2 = cr1\<lparr>ar_AtProvider :=
                    \<lparr>ao_ID = oa_ID o1, ao_Name = oa_Name o1, ao_IPv4Addr = oa_IPv4Addr o1,
                     ao_Comment = oa_Comment o1, ao_TTL = oa_TTL o1, ao_UseTTL = oa_UseTTL o1,
                     ao_ExtAttrs = oa_ExtAttrs o1, ao_View = oa_View o1, ao_Cidr = ap_Cidr p,
                     ao_NetworkView = ap_NetworkView p, ao_Ref = oa_Ref o1, ao_Zone = oa_Zone o1\<rparr>\<rparr>;
                  cr3 = (if ores_refreshedRef res \<noteq> [] then SetExternalName (ores_refreshedRef res) cr2 else cr2);
                  cr4 = SetAvailable cr3;
                  upToDate = (ARecord_isUpToDate (ap_Name p) (ap_IPv4Addr p) (ap_Comment p) (ap_TTL p)
                                (ap_UseTTL p) (ap_ExtAttrs p) (ores_rec res) \<and> \<not> ores_adopted res)
              in (Inr \<lparr>ResourceExists = True, ResourceUpToDate = upToDate,
                       ResourceLateInitialized = ores_lateInit res\<rparr>, cr4, w1))))"

definition cluster_ARecord_Create ::
  "(RecordA, arecord_req) wapi \<Rightarrow> string \<Rightarrow> ARecordCR \<Rightarrow> arecord_req world \<Rightarrow>
     goerr option \<times> ARecordCR \<times> arecord_req world" where
  "cluster_ARecord_Create env endpoint cr w =
     (let p = ar_ForProvider cr; uid = mo_uid cr in
      case validateARecordCreateInputs (ap_IPv4Addr p) (ap_Cidr p) uid of
        Some err \<Rightarrow> (Some err, cr, w)
      | None \<Rightarrow>
          (case ensureIdentityPrerequisite env endpoint w of
             (Some err, w1) \<Rightarrow> (Some err, cr, w1)
           | (None, w1) \<Rightarrow>
               (case createARecord env p uid w1 of
                  (Inl err, w2) \<Rightarrow> (Some (Wrapped errCreateARecord err), cr, w2)
                | (Inr rec, w2) \<Rightarrow> (None, SetExternalName (ra_Ref rec) cr, w2))))"

definition cluster_ARecord_Update ::
  "(RecordA, arecord_req) wapi \<Rightarrow> string \<Rightarrow> ARecordCR \<Rightarrow> arecord_req world \<Rightarrow>
     goerr option \<times> ARecordCR \<times> arecord_req world" where
  "cluster_ARecord_Update env endpoint cr w =
     (let p = ar_ForProvider cr; externalID = GetExternalName cr in
      case ensureIdentityPrerequisite env endpoint w of
        (Some err, w1) \<Rightarrow> (Some err, cr, w1)
      | (None, w1) \<Rightarrow>
          (case updateARecord env externalID p (mo_uid cr) w1 of
             (Inl err, w2) \<Rightarrow> (Some (Wrapped errUpdateARecord err), cr, w2)
           | (Inr rec, w2) \<Rightarrow>
               if ra_Ref rec \<noteq> [] \<and> ra_Ref rec \<noteq> externalID then
                 (case Refresh env cr (ra_Ref rec) w2 of
                    (Some err, cr1, w3) \<Rightarrow> (Some (Wrapped errPersistExternalName err), cr1, w3)
                  | (None, cr1, w3) \<Rightarrow> (None, cr1, w3))
               else (None, cr, w2)))"

definition cluster_ARecord_Delete ::
  "(RecordA, arecord_req) wapi \<Rightarrow> string \<Rightarrow> ARecordCR \<Rightarrow> arecord_req world \<Rightarrow>
     goerr option \<times> arecord_req world" where
  "cluster_ARecord_Delete env endpoint cr w =
     (let externalID = GetExternalName cr in
      case deleteARecordIdentity env endpoint externalID (mo_uid cr) w of
        (Some err, w1) \<Rightarrow> (Some err, w1)
      | (None, w1) \<Rightarrow> (None, w1))"

section \<open>Late initialisation keeps its contract\<close>

definition ARecord_utd :: "arecord_late \<Rightarrow> (string option \<times> string option \<times> RecordA) \<Rightarrow> bool" where
  "ARecord_utd l x =
     (case (l, x) of ((comment, ttl, useTTL, extAttrs), (name, ip, rec)) \<Rightarrow>
        ARecord_isUpToDate name ip comment ttl useTTL extAttrs rec)"

definition ARecord_keeps :: "arecord_late \<Rightarrow> arecord_late \<Rightarrow> bool" where
  "ARecord_keeps l l' =
     (case (l, l') of ((c, t, u, a), (c', t', u', a')) \<Rightarrow>
        keeps_set c c' \<and> keeps_set t t' \<and> keeps_set u u' \<and> keeps_attrs a a')"

lemma ARecord_lateInitialize_eq:
  "ARecord_lateInitialize (c, t, u, a) rec =
     (let c1 = (if c = None then ptrIfSet (ra_Comment rec) else c);
          u1 = (if u = None then ra_UseTtl rec else u);
          t1 = (if t = None \<and> boolOrFalse u1 then ra_Ttl rec else t);
          a1 = (if a = fmempty then userAttrs (ra_Ea rec) else a)
      in ((c1, t1, u1, a1), (c1, t1, u1, a1) \<noteq> (c, t, u, a)))"
  by (simp only: ARecord_lateInitialize_def userAttrs_def [symmetric] Let_def case_prod_conv late_steps
      prod.inject late_changed simp_thms de_Morgan_conj disj_ac)

interpretation arecord_late: late_init
  "\<lambda>l (name, ip, rec). ARecord_lateInitialize l rec" ARecord_utd ARecord_keeps
proof
  fix l :: arecord_late and x :: "string option \<times> string option \<times> RecordA"
  obtain c t u a where l: "l = (c, t, u, a)" by (cases l) auto
  obtain n ip rec where x: "x = (n, ip, rec)" by (cases x) auto
  let ?late = "\<lambda>l (name, ip, rec). ARecord_lateInitialize l rec"
  show "?late (fst (?late l x)) x = (fst (?late l x), False)"
    by (simp add: l x ARecord_lateInitialize_eq Let_def)
  show "snd (?late l x) \<longleftrightarrow> fst (?late l x) \<noteq> l"
    by (simp add: l x ARecord_lateInitialize_eq Let_def)
  show "ARecord_keeps l (fst (?late l x))"
    by (simp add: l x ARecord_lateInitialize_eq Let_def ARecord_keeps_def keeps_set_def keeps_attrs_def)
  show "ARecord_utd (fst (?late l x)) x" if "ARecord_utd l x"
    using that
    by (auto simp: l x ARecord_lateInitialize_eq Let_def ARecord_utd_def ARecord_isUpToDate_def
        extAttrsEqual_iff userAttrs_def split: if_splits option.splits)
qed

end
