(* ===== verification/ARecordSpec.thy ===== *)
theory ARecordSpec
  imports ARecord
begin

text \<open>
  What the ARecord controller guarantees: its delete through the contract of
  the identity ladder, what Create and Update send, what Observe answers, and
  that a created record is observed as existing and up to date.
\<close>

section \<open>The two scopes agree\<close>

lemma cluster_ARecord_Observe_eq: "cluster_ARecord_Observe = namespaced_ARecord_Observe"
  by (intro ext) (simp only: cluster_ARecord_Observe_def namespaced_ARecord_Observe_def)

lemma cluster_ARecord_Create_eq: "cluster_ARecord_Create = namespaced_ARecord_Create"
  by (intro ext) (simp only: cluster_ARecord_Create_def namespaced_ARecord_Create_def)

lemma cluster_ARecord_Update_eq: "cluster_ARecord_Update = namespaced_ARecord_Update"
  by (intro ext) (simp only: cluster_ARecord_Update_def namespaced_ARecord_Update_def)

lemma cluster_ARecord_Delete_eq: "cluster_ARecord_Delete = namespaced_ARecord_Delete"
  by (intro ext) (simp only: cluster_ARecord_Delete_def namespaced_ARecord_Delete_def)

lemmas ARecord_scopes = cluster_ARecord_Observe_eq cluster_ARecord_Create_eq
  cluster_ARecord_Update_eq cluster_ARecord_Delete_eq

section \<open>The calls\<close>

lemma deleteARecord_snd [simp]: "snd (deleteARecord env r w) = log_call (CDelete r) w"
  by (simp add: deleteARecord_def delete_object_def split: sum.split)

lemma RecordA_shape [simp]: "ref_ea_shape RecordA_type"
  by (simp add: ref_ea_shape_def RecordA_type_def reflectRecordA_def getRef_def getEA_def)

lemma stamped_RecordA [simp]: "stamped RecordA_type rec = eaValue (ra_Ea rec) EAKey"
  by (simp add: stamped_def RecordA_type_def reflectRecordA_def getEA_def)

lemma RecordA_ot_name [simp]: "ot_name RecordA_type = ''record:a''"
  by (simp add: RecordA_type_def)

section \<open>Deletion\<close>

interpretation arecord_delete: ladder_delete
  "\<lambda>w. resolveARecordIdentity env ref uid w"
  "\<lambda>w. ensureIdentityPrerequisite env endpoint w"
  "\<lambda>r w. deleteARecord env r w" ra_Ref
  "\<lambda>rec. search_sound env RecordA_type \<longrightarrow> eaValue (ra_Ea rec) EAKey = Some (trim_space uid)"
  "\<lambda>w. deleteARecordIdentity env endpoint ref uid w"
  errDeleteARecord errDeleteUnverifiedOwnership nilDereference
  for env :: "(RecordA, arecord_req) wapi" and ref uid endpoint
proof
  show "deleteARecordIdentity env endpoint ref uid w =
    ladder_delete_shape errDeleteARecord errDeleteUnverifiedOwnership nilDereference
      (resolveARecordIdentity env ref uid) (ensureIdentityPrerequisite env endpoint)
      (deleteARecord env) ra_Ref w" for w
    by (simp only: deleteARecordIdentity_def ladder_delete_shape_def)
  show "search_sound env RecordA_type \<longrightarrow> eaValue (ra_Ea x) EAKey = Some (trim_space uid)"
    if "fst (resolveARecordIdentity env ref uid w) = Inr (Some x, out)"
      and "out \<noteq> OutcomeAdopted" for w x out
    using that Resolve_owner [of env RecordA_type ref uid w x out]
    by (cases "Resolve env RecordA_type ref uid w") (auto simp: resolveARecordIdentity_def)
  show "obj \<noteq> None" if "fst (resolveARecordIdentity env ref uid w) = Inr (obj, out)"
    and "out \<noteq> OutcomeNotFound" for w obj out
    using that Resolve_Some [of env RecordA_type ref uid w obj out]
    by (cases "Resolve env RecordA_type ref uid w") (auto simp: resolveARecordIdentity_def)
qed (simp_all add: resolveARecordIdentity_def)

lemma ARecord_Delete_unfold:
  "namespaced_ARecord_Delete env ep cr w =
     deleteARecordIdentity env ep (GetExternalName cr) (mo_uid cr) w"
  by (simp add: namespaced_ARecord_Delete_def Let_def split: prod.split option.split)

text \<open>
  Deleting an ARecord sends at most one mutating request to the Grid, and then it
  is the deletion of the object the identity ladder found, which is stamped with this
  resource's uid, by that object's current reference and not the external-name
  annotation's. This holds for both scopes.
\<close>

theorem ARecord_Delete_only_owned:
  assumes "search_sound env RecordA_type"
    and "del \<in> {namespaced_ARecord_Delete, cluster_ARecord_Delete}"
  shows "mutations (snd (del env ep cr w)) = mutations w \<or>
    (\<exists>rec out. fst (Resolve env RecordA_type (GetExternalName cr) (mo_uid cr) w) = Inr (Some rec, out) \<and>
       eaValue (ra_Ea rec) EAKey = Some (trim_space (mo_uid cr)) \<and>
       mutations (snd (del env ep cr w)) = mutations w @ [CDelete (ra_Ref rec)])"
proof -
  from assms(2) have del: "del = namespaced_ARecord_Delete"
    by (auto simp: ARecord_scopes)
  show ?thesis
    using arecord_delete.del_mutations [where env = env and endpoint = ep
        and ref = "GetExternalName cr" and uid = "mo_uid cr" and w = w] assms(1)
    unfolding del ARecord_Delete_unfold resolveARecordIdentity_def by blast
qed

text \<open>
  Delete reports success only when the identity ladder found no object, or the
  delete of an owned object succeeded, or that delete was answered with a 404. In
  particular an object without a stamp is never reported as deleted.
\<close>

theorem ARecord_Delete_success:
  assumes "search_sound env RecordA_type"
    and "fst (namespaced_ARecord_Delete env ep cr w) = None"
  shows "let (r, w1) = Resolve env RecordA_type (GetExternalName cr) (mo_uid cr) w in
    (\<exists>obj. r = Inr (obj, OutcomeNotFound)) \<or>
    (\<exists>rec out. r = Inr (Some rec, out) \<and>
       eaValue (ra_Ea rec) EAKey = Some (trim_space (mo_uid cr)) \<and>
       (let e = fst (deleteARecord env (ra_Ref rec) w1) in e = None \<or> isNotFound e))"
  using arecord_delete.del_success [where env = env and endpoint = ep and ref = "GetExternalName cr"
      and uid = "mo_uid cr" and w = w] assms
  by (auto simp: ARecord_Delete_unfold resolveARecordIdentity_def split_beta Let_def)

section \<open>Creation and update\<close>

text \<open>The create request for a spec.\<close>

definition arecord_create_request :: "ARecordParameters \<Rightarrow> string \<Rightarrow> arecord_req" where
  "arecord_create_request p uid =
     CreateARecord
       (if strOrEmpty (ap_Cidr p) \<noteq> [] \<and> strOrEmpty (ap_NetworkView p) = [] then ''default''
        else strOrEmpty (ap_NetworkView p))
       (strOrEmpty (ap_View p)) (strOrEmpty (ap_Name p)) (strOrEmpty (ap_Cidr p))
       (strOrEmpty (ap_IPv4Addr p)) (ttlOrZero (ap_TTL p)) (boolOrFalse (ap_UseTTL p))
       (strOrEmpty (ap_Comment p)) (Stamp (buildEA (ap_ExtAttrs p)) uid)"

lemma createARecord_valid:
  assumes "validateARecordCreateInputs (ap_IPv4Addr p) (ap_Cidr p) uid = None"
  shows "createARecord env p uid w =
    (wapi_mutate env (calls w) (arecord_create_request p uid),
     log_call (CMutate (arecord_create_request p uid)) w)"
  using assms
  by (simp add: createARecord_def arecord_create_request_def mutate_object_def Let_def
      defaultNetworkView_def)

lemma createARecord_invalid:
  assumes "validateARecordCreateInputs (ap_IPv4Addr p) (ap_Cidr p) uid = Some err"
  shows "createARecord env p uid w = (Inl err, w)"
  using assms by (simp add: createARecord_def)

lemma validate_None_iff:
  "validateARecordCreateInputs ip cidr uid = None \<longleftrightarrow>
     trim_space uid \<noteq> [] \<and> (strOrEmpty cidr = [] \<or> strOrEmpty ip = [])"
  by (auto simp: validateARecordCreateInputs_def)

text \<open>
  Create sends either no mutating request or exactly one, the create request of
  the spec stamped with the resource's uid; invalid inputs and a missing
  identity definition stop it before the Grid's objects are touched; and the
  external name changes exactly when it succeeds, to the new object's reference.
\<close>

theorem ARecord_Create_contract:
  "case namespaced_ARecord_Create env ep cr w of (e, cr', w') \<Rightarrow>
    (case validateARecordCreateInputs (ap_IPv4Addr (ar_ForProvider cr)) (ap_Cidr (ar_ForProvider cr)) (mo_uid cr) of
       Some err \<Rightarrow> e = Some err \<and> cr' = cr \<and> w' = w
     | None \<Rightarrow>
         (case fst (ensureIdentityPrerequisite env ep w) of
            Some err \<Rightarrow> e = Some err \<and> cr' = cr \<and> mutations w' = mutations w
          | None \<Rightarrow>
              (let req = arecord_create_request (ar_ForProvider cr) (mo_uid cr) in
               mutations w' = mutations w @ [CMutate req] \<and>
               (\<exists>h. case wapi_mutate env h req of
                  Inl err \<Rightarrow> e = Some (Wrapped errCreateARecord err) \<and> cr' = cr
                | Inr rec \<Rightarrow> e = None \<and> cr' = SetExternalName (ra_Ref rec) cr))))"
proof -
  obtain e1 w1 where en: "ensureIdentityPrerequisite env ep w = (e1, w1)"
    by (cases "ensureIdentityPrerequisite env ep w")
  have m: "mutations w1 = mutations w"
    using ensureIdentityPrerequisite_mutations [of env ep w] en by simp
  show ?thesis
    by (auto simp: namespaced_ARecord_Create_def Let_def en m createARecord_valid
        split: option.split sum.split intro!: exI [of _ "calls w1"])
qed

lemma updateARecord_snd:
  "mutations (snd (updateARecord env ref p uid w)) =
     (if trim_space uid = [] then mutations w
      else mutations w @ [CMutate (UpdateARecord ref (strOrEmpty (ap_Name p)) (strOrEmpty (ap_IPv4Addr p)) [] []
             (ttlOrZero (ap_TTL p)) (boolOrFalse (ap_UseTTL p)) (strOrEmpty (ap_Comment p))
             (Stamp (buildEA (ap_ExtAttrs p)) uid))])"
  by (simp add: updateARecord_def Let_def mutate_object_def)

section \<open>Observation\<close>

text \<open>Observe, spelled out along the ladder's result.\<close>

lemma ARecord_Observe_found:
  assumes "Resolve env RecordA_type (observeRefFor (mo_name cr) (GetExternalName cr)) (mo_uid cr) w
      = (Inr (Some rec, out), w1)"
    and "out \<noteq> OutcomeNotFound"
  shows "\<exists>cr'. namespaced_ARecord_Observe env ep cr w =
      (Inr \<lparr>ResourceExists = True,
            ResourceUpToDate =
              (ARecord_utd (fst (ARecord_lateInitialize (ARecord_latePart (ar_ForProvider cr)) rec))
                 (ap_Name (ar_ForProvider cr), ap_IPv4Addr (ar_ForProvider cr), rec) \<and> out \<noteq> OutcomeAdopted),
            ResourceLateInitialized =
              (out \<in> {OutcomeRotated, OutcomeFoundByUID}
               \<or> snd (ARecord_lateInitialize (ARecord_latePart (ar_ForProvider cr)) rec))\<rparr>, cr', w1) \<and>
      ao_ID (ar_AtProvider cr') = ra_Ref rec \<and>
      GetExternalName cr' = (if out \<in> {OutcomeRotated, OutcomeFoundByUID} \<and> ra_Ref rec \<noteq> []
                             then ra_Ref rec else GetExternalName cr) \<and>
      ar_ForProvider cr' = ARecord_setLate (ar_ForProvider cr)
        (fst (ARecord_lateInitialize (ARecord_latePart (ar_ForProvider cr)) rec))"
proof -
  obtain l c where l: "ARecord_lateInitialize (ARecord_latePart (ar_ForProvider cr)) rec = (l, c)"
    by (cases "ARecord_lateInitialize (ARecord_latePart (ar_ForProvider cr)) rec")
  obtain a t u e where l4: "l = (a, t, u, e)" by (cases l) auto
  show ?thesis
    using assms
    by (cases out)
      (simp_all add: namespaced_ARecord_Observe_def observeARecord_def Let_def
        resolveARecordIdentity_def l l4 ARecord_setLate_def ARecord_utd_def observeFromRecordA_def
        SetExternalName_def SetAvailable_def SetCondition_def GetExternalName_def)
qed

lemma ARecord_Observe_cases:
  assumes "namespaced_ARecord_Observe env ep cr w = (Inr obs, cr', w')"
  obtains (absent) "obs = notExists" "cr' = cr\<lparr>ar_ForProvider := ARecord_setLate (ar_ForProvider cr) (ARecord_latePart (ar_ForProvider cr))\<rparr>"
      "Resolve env RecordA_type (observeRefFor (mo_name cr) (GetExternalName cr)) (mo_uid cr) w = (Inr (None, OutcomeNotFound), w')"
  | (found) rec out where "out \<noteq> OutcomeNotFound"
      "Resolve env RecordA_type (observeRefFor (mo_name cr) (GetExternalName cr)) (mo_uid cr) w = (Inr (Some rec, out), w')"
proof -
  obtain r w1 where r: "Resolve env RecordA_type (observeRefFor (mo_name cr) (GetExternalName cr))
      (mo_uid cr) w = (r, w1)" by (cases "Resolve env RecordA_type (observeRefFor (mo_name cr)
      (GetExternalName cr)) (mo_uid cr) w")
  show ?thesis
  proof (cases r)
    case (Inl err)
    then show ?thesis
      using assms r
      by (cases "ensureIdentityPrerequisite env ep w1")
        (simp add: namespaced_ARecord_Observe_def observeARecord_def Let_def
          resolveARecordIdentity_def split: option.splits if_splits)
  next
    case (Inr p)
    obtain obj out where p: "p = (obj, out)" by (cases p)
    show ?thesis
    proof (cases "out = OutcomeNotFound")
      case True
      then have "obj = None" using Resolve_NotFound_search r Inr p by metis
      then show ?thesis
        using absent assms r Inr p True
        by (simp add: namespaced_ARecord_Observe_def observeARecord_def Let_def
            resolveARecordIdentity_def ARecord_notFoundResult_def)
    next
      case False
      then obtain rec where "obj = Some rec"
        using Resolve_Some [of env RecordA_type] r Inr p by metis
      then show ?thesis
        using found False r Inr p ARecord_Observe_found [of env cr w rec out w1 ep] assms by auto
    qed
  qed
qed

text \<open>
  When Observe answers that the record exists, it has looked at a Grid object that
  either carries this resource's uid or carries no stamp at all; an unstamped one is
  never reported up to date (so that Update claims it), the status names the object's
  reference, and nothing on the Grid was changed.
\<close>

theorem ARecord_Observe_ownership:
  assumes "search_sound env RecordA_type"
    and "namespaced_ARecord_Observe env ep cr w = (Inr obs, cr', w')"
    and "ResourceExists obs"
  shows "mutations w' = mutations w \<and>
    (\<exists>rec out.
       fst (Resolve env RecordA_type (observeRefFor (mo_name cr) (GetExternalName cr)) (mo_uid cr) w) = Inr (Some rec, out) \<and>
       ao_ID (ar_AtProvider cr') = ra_Ref rec \<and>
       (eaValue (ra_Ea rec) EAKey = Some (trim_space (mo_uid cr)) \<or>
        eaValue (ra_Ea rec) EAKey = None \<and> \<not> ResourceUpToDate obs \<and> GetExternalName cr' = GetExternalName cr))"
  using assms(2)
proof (cases rule: ARecord_Observe_cases)
  case absent
  with assms(3) show ?thesis by (simp add: notExists_def)
next
  case (found rec out)
  have "mutations w' = mutations w"
    using Resolve_mutations [of env RecordA_type _ "mo_uid cr" w] found(2) by (metis snd_conv)
  with Resolve_owner [OF found(2) assms(1)] ARecord_Observe_found [OF found(2,1), of ep] assms(2) found(2)
  show ?thesis by (intro conjI exI [of _ rec] exI [of _ out]) auto
qed

text \<open>
  Observe answers "does not exist" only after its last request, the search for the uid, came back
  empty, and, when the resource has a recorded reference, after reading that reference
  gave a 404; so a second object is not created while a stamped one is visible.
\<close>

theorem ARecord_Observe_absent:
  assumes "namespaced_ARecord_Observe env ep cr w = (Inr notExists, cr', w')"
  shows "(\<exists>h. calls w' = h @ [CSearch ''record:a'' (uid_query (trim_space (mo_uid cr)))] \<and>
       (wapi_search env h ''record:a'' (uid_query (trim_space (mo_uid cr))) = Inr [] \<or>
        (\<exists>err. wapi_search env h ''record:a'' (uid_query (trim_space (mo_uid cr))) = Inl err \<and> isNotFound (Some err)))) \<and>
    (GetExternalName cr \<notin> {[], mo_name cr} \<longrightarrow>
       (\<exists>err. wapi_get env (calls w) ''record:a'' (GetExternalName cr) = Inl err \<and> isNotFound (Some err)))"
  using assms
proof (cases rule: ARecord_Observe_cases)
  case absent
  then show ?thesis
    using Resolve_NotFound_search [OF absent(3)] by (auto simp: observeRefFor_def)
next
  case (found rec out)
  with ARecord_Observe_found [OF found(2,1), of ep] assms show ?thesis
    by (auto simp: notExists_def)
qed

section \<open>Create, then observe\<close>

text \<open>
  What WAPI documents of a create: the object it returns has the fields that were
  sent and a reference, and reading that reference right after gives the object.
\<close>

definition arecord_read_your_write :: "(RecordA, arecord_req) wapi \<Rightarrow> bool" where
  "arecord_read_your_write env \<longleftrightarrow>
     (\<forall>h netView dnsView name cidr ip ttl useTTL comment e rec.
        wapi_mutate env h (CreateARecord netView dnsView name cidr ip ttl useTTL comment e) = Inr rec \<longrightarrow>
        ra_Ref rec \<noteq> [] \<and> ra_Name rec = Some name \<and> ra_Comment rec = Some comment \<and>
        ra_Ttl rec = Some ttl \<and> ra_UseTtl rec = Some useTTL \<and> ra_Ea rec = e \<and>
        (ip \<noteq> [] \<longrightarrow> ra_Ipv4Addr rec = Some ip) \<and>
        (cidr \<noteq> [] \<longrightarrow> strOrEmpty (ra_Ipv4Addr rec) \<noteq> []) \<and>
        wapi_get env (h @ [CMutate (CreateARecord netView dnsView name cidr ip ttl useTTL comment e)])
          ''record:a'' (ra_Ref rec) = Inr rec)"

lemma ARecord_created:
  assumes "namespaced_ARecord_Create env ep cr w = (None, cr1, w1)"
    and "arecord_read_your_write env"
  obtains rec where "cr1 = SetExternalName (ra_Ref rec) cr" "ra_Ref rec \<noteq> []"
    "wapi_get env (calls w1) ''record:a'' (ra_Ref rec) = Inr rec"
    "trim_space (mo_uid cr) \<noteq> []"
    "ra_Name rec = Some (strOrEmpty (ap_Name (ar_ForProvider cr)))"
    "ra_Comment rec = Some (strOrEmpty (ap_Comment (ar_ForProvider cr)))"
    "ra_Ttl rec = Some (ttlOrZero (ap_TTL (ar_ForProvider cr)))"
    "ra_UseTtl rec = Some (boolOrFalse (ap_UseTTL (ar_ForProvider cr)))"
    "ra_Ea rec = Stamp (buildEA (ap_ExtAttrs (ar_ForProvider cr))) (mo_uid cr)"
    "strOrEmpty (ap_IPv4Addr (ar_ForProvider cr)) \<noteq> [] \<Longrightarrow>
       strOrEmpty (ra_Ipv4Addr rec) = strOrEmpty (ap_IPv4Addr (ar_ForProvider cr))"
    "strOrEmpty (ap_Cidr (ar_ForProvider cr)) \<noteq> [] \<Longrightarrow>
       strOrEmpty (ra_Ipv4Addr rec) \<noteq> [] \<and> strOrEmpty (ap_IPv4Addr (ar_ForProvider cr)) = []"
proof -
  let ?p = "ar_ForProvider cr"
  have v: "validateARecordCreateInputs (ap_IPv4Addr ?p) (ap_Cidr ?p) (mo_uid cr) = None"
    using assms(1) by (auto simp: namespaced_ARecord_Create_def Let_def split: option.splits)
  obtain e1 w0 where en: "ensureIdentityPrerequisite env ep w = (e1, w0)"
    by (cases "ensureIdentityPrerequisite env ep w")
  have e1: "e1 = None"
    using assms(1) v en by (auto simp: namespaced_ARecord_Create_def Let_def split: option.splits)
  obtain rec where m: "wapi_mutate env (calls w0) (arecord_create_request ?p (mo_uid cr)) = Inr rec"
    "cr1 = SetExternalName (ra_Ref rec) cr"
    "w1 = log_call (CMutate (arecord_create_request ?p (mo_uid cr))) w0"
    using assms(1) v en e1
    by (auto simp: namespaced_ARecord_Create_def Let_def createARecord_valid split: sum.splits)
  note stored = assms(2) [unfolded arecord_read_your_write_def, rule_format, OF m(1) [unfolded arecord_create_request_def]]
  show thesis
    by (rule that [of rec]) (use stored m v in \<open>auto simp: validate_None_iff arecord_create_request_def\<close>)
qed

lemma Resolve_by_ref:
  assumes "ref \<noteq> []" "trim_space uid \<noteq> []" "ref_ea_shape T"
    and "wapi_get env (calls w) (ot_name T) ref = Inr x" "stamped T x = Some (trim_space uid)"
  shows "fst (Resolve env T ref uid w) = Inr (Some x, OutcomeResolved)"
  using assms
  by (simp add: Resolve_unfold resolveByRef_def get_object_def stamped_def split: sum.splits)

text \<open>
  A record created from a spec with an address is observed, right after, as existing
  and up to date, with the external name Create recorded. (The uid has no surrounding blanks
  and the spec does not use the reserved attribute, which the CRD enforces.)
\<close>

theorem ARecord_create_then_observe:
  assumes "namespaced_ARecord_Create env ep cr w = (None, cr1, w1)"
    and "arecord_read_your_write env"
    and "trim_space (mo_uid cr) = mo_uid cr"
    and "reserved_free (ap_ExtAttrs (ar_ForProvider cr))"
    and "strOrEmpty (ap_IPv4Addr (ar_ForProvider cr)) \<noteq> []"
    and "GetExternalName cr1 \<noteq> mo_name cr"
  shows "\<exists>obs cr2 w2. namespaced_ARecord_Observe env ep cr1 w1 = (Inr obs, cr2, w2) \<and>
    ResourceExists obs \<and> ResourceUpToDate obs \<and> GetExternalName cr2 = GetExternalName cr1"
proof -
  from assms(1,2) obtain rec where c:
    "cr1 = SetExternalName (ra_Ref rec) cr" "ra_Ref rec \<noteq> []"
    "wapi_get env (calls w1) ''record:a'' (ra_Ref rec) = Inr rec" "trim_space (mo_uid cr) \<noteq> []"
    "ra_Name rec = Some (strOrEmpty (ap_Name (ar_ForProvider cr)))"
    "ra_Comment rec = Some (strOrEmpty (ap_Comment (ar_ForProvider cr)))"
    "ra_Ttl rec = Some (ttlOrZero (ap_TTL (ar_ForProvider cr)))"
    "ra_UseTtl rec = Some (boolOrFalse (ap_UseTTL (ar_ForProvider cr)))"
    "ra_Ea rec = Stamp (buildEA (ap_ExtAttrs (ar_ForProvider cr))) (mo_uid cr)"
    "strOrEmpty (ra_Ipv4Addr rec) = strOrEmpty (ap_IPv4Addr (ar_ForProvider cr))"
    using assms(5) by (elim ARecord_created) auto
  let ?p = "ar_ForProvider cr1"
  have cr1: "ar_ForProvider cr1 = ar_ForProvider cr" "mo_uid cr1 = mo_uid cr" "mo_name cr1 = mo_name cr"
    "GetExternalName cr1 = ra_Ref rec"
    by (simp_all add: c(1) SetExternalName_def GetExternalName_def)
  then have ref: "observeRefFor (mo_name cr1) (GetExternalName cr1) = ra_Ref rec"
    using assms(6) by (simp add: observeRefFor_def)
  obtain w2 where w2: "Resolve env RecordA_type (ra_Ref rec) (mo_uid cr1) w1 = (Inr (Some rec, OutcomeResolved), w2)"
    using Resolve_by_ref [of "ra_Ref rec" "mo_uid cr1" RecordA_type env w1 rec] c assms(3)
    by (cases "Resolve env RecordA_type (ra_Ref rec) (mo_uid cr1) w1") (auto simp: cr1)
  have "ARecord_utd (ARecord_latePart ?p) (ap_Name ?p, ap_IPv4Addr ?p, rec)"
    using assms(4) c(2-)
    by (simp add: ARecord_utd_def ARecord_latePart_def ARecord_isUpToDate_def cr1 extAttrsEqual_iff
        userAttrs_def [symmetric] userAttrs_buildEA reserved_free_fmdrop)
  then have "ARecord_utd (fst (ARecord_lateInitialize (ARecord_latePart ?p) rec)) (ap_Name ?p, ap_IPv4Addr ?p, rec)"
    using arecord_late.late_utd [of "ARecord_latePart ?p" "(ap_Name ?p, ap_IPv4Addr ?p, rec)"] by simp
  with ARecord_Observe_found [of env cr1 w1 rec OutcomeResolved w2 ep] w2 ref cr1
  show ?thesis by auto
qed

text \<open>
  A record created by cidr is never up to date: its spec has no address, the Grid
  object has the one it allocated, and late initialisation does not fill the address in.
  Every Observe asks for an Update, which sends an empty address.
\<close>

theorem ARecord_cidr_never_up_to_date:
  assumes "strOrEmpty (ap_IPv4Addr (ar_ForProvider cr)) = []"
    and "\<And>h ref rec. wapi_get env h ''record:a'' ref = Inr rec \<Longrightarrow> strOrEmpty (ra_Ipv4Addr rec) \<noteq> []"
    and "\<And>h q recs rec. wapi_search env h ''record:a'' q = Inr recs \<Longrightarrow> rec \<in> set recs \<Longrightarrow> strOrEmpty (ra_Ipv4Addr rec) \<noteq> []"
    and "namespaced_ARecord_Observe env ep cr w = (Inr obs, cr', w')"
  shows "\<not> ResourceUpToDate obs"
  using assms(4)
proof (cases rule: ARecord_Observe_cases)
  case (found rec out)
  have "strOrEmpty (ra_Ipv4Addr rec) \<noteq> []"
    using found(2) assms(2,3)
    by (fastforce simp: Resolve_def resolveByRef_def resolveBySearch_def searchByUID_def get_object_def
        search_objects_def Let_def split: sum.splits if_splits prod.splits option.splits list.splits)
  then have "\<not> ARecord_utd l (n, ap_IPv4Addr (ar_ForProvider cr), rec)" for l n
    using assms(1) by (auto simp: ARecord_utd_def ARecord_isUpToDate_def split: prod.split)
  with ARecord_Observe_found [OF found(2,1), of ep] assms(4) show ?thesis by auto
qed (simp add: notExists_def)

section \<open>Update\<close>

definition arecord_update_request :: "string \<Rightarrow> ARecordParameters \<Rightarrow> string \<Rightarrow> arecord_req" where
  "arecord_update_request ref p uid =
     UpdateARecord ref (strOrEmpty (ap_Name p)) (strOrEmpty (ap_IPv4Addr p)) [] []
       (ttlOrZero (ap_TTL p)) (boolOrFalse (ap_UseTTL p)) (strOrEmpty (ap_Comment p))
       (Stamp (buildEA (ap_ExtAttrs p)) uid)"

lemma updateARecord_eq:
  "updateARecord env ref p uid w =
     (if trim_space uid = [] then (Inl (TextError ARecord_errEmptyUID), w)
      else (wapi_mutate env (calls w) (arecord_update_request ref p uid),
            log_call (CMutate (arecord_update_request ref p uid)) w))"
  by (simp add: updateARecord_def arecord_update_request_def mutate_object_def Let_def)

lemma ARecord_Update_spec:
  assumes "retry_documented env"
  shows "case namespaced_ARecord_Update env ep cr w of (e, cr', w') \<Rightarrow>
    (let req = arecord_update_request (GetExternalName cr) (ar_ForProvider cr) (mo_uid cr) in
     mutations w' = mutations w @
       (if fst (ensureIdentityPrerequisite env ep w) = None \<and> trim_space (mo_uid cr) \<noteq> []
        then [CMutate req] else []) \<and>
     (e \<noteq> None \<longrightarrow> cr' = cr) \<and>
     (e = None \<longrightarrow> (\<exists>h rec. wapi_mutate env h req = Inr rec \<and>
        GetExternalName cr' = (if ra_Ref rec = [] then GetExternalName cr else ra_Ref rec) \<and>
        ar_ForProvider cr' = ar_ForProvider cr)))"
proof -
  obtain e1 w1 where en: "ensureIdentityPrerequisite env ep w = (e1, w1)"
    by (cases "ensureIdentityPrerequisite env ep w")
  have m: "mutations w1 = mutations w"
    using ensureIdentityPrerequisite_mutations [of env ep w] en by simp
  have sp: "ar_ForProvider (SetExternalName n cr) = ar_ForProvider cr" for n
    by (simp add: SetExternalName_def)
  let ?req = "arecord_update_request (GetExternalName cr) (ar_ForProvider cr) (mo_uid cr)"
  show ?thesis
  proof (cases "wapi_mutate env (calls w1) ?req")
    case (Inl err)
    then show ?thesis
      by (cases e1) (simp_all add: namespaced_ARecord_Update_def Let_def en m updateARecord_eq)
  next
    case (Inr rec)
    obtain e2 cr2 w2 where rf: "Refresh env cr (ra_Ref rec) (log_call (CMutate ?req) w1) = (e2, cr2, w2)"
      by (cases "Refresh env cr (ra_Ref rec) (log_call (CMutate ?req) w1)") auto
    with Refresh_mutations [OF assms, of cr "ra_Ref rec" "log_call (CMutate ?req) w1"]
      Refresh_result [of env cr "ra_Ref rec" "log_call (CMutate ?req) w1"]
    have "mutations w2 = mutations w @ [CMutate ?req]"
      "cr2 = (if e2 = None then SetExternalName (ra_Ref rec) cr else cr)"
      by (simp_all add: m)
    with Inr rf show ?thesis
      by (cases e1; cases e2)
        (auto simp: namespaced_ARecord_Update_def Let_def en m updateARecord_eq sp
          intro!: exI [of _ "calls w1"] exI [of _ rec])
  qed
qed

lemma ARecord_Update_requests:
  assumes "retry_documented env"
  shows "mutations (snd (snd (namespaced_ARecord_Update env ep cr w))) = mutations w @
    (if fst (ensureIdentityPrerequisite env ep w) = None \<and> trim_space (mo_uid cr) \<noteq> []
     then [CMutate (arecord_update_request (GetExternalName cr) (ar_ForProvider cr) (mo_uid cr))] else [])"
  using ARecord_Update_spec [OF assms, where ep = ep and cr = cr and w = w] by (simp add: split_beta Let_def)

text \<open>
  Update sends the update request of the spec (every field but view, cidr and network view) with the
  stamp, to the recorded reference, in exactly one mutating request (none when the uid is blank or the identity definition is missing);
  the external name follows the reference the Grid answered with, and on any error
  the resource is left as it was.
\<close>

theorem ARecord_Update_contract:
  assumes "retry_documented env"
  shows "case namespaced_ARecord_Update env ep cr w of (e, cr', w') \<Rightarrow>
    (let req = arecord_update_request (GetExternalName cr) (ar_ForProvider cr) (mo_uid cr) in
     mutations w' = mutations w @
       (if fst (ensureIdentityPrerequisite env ep w) = None \<and> trim_space (mo_uid cr) \<noteq> []
        then [CMutate req] else []) \<and>
     (e \<noteq> None \<longrightarrow> cr' = cr) \<and>
     (e = None \<longrightarrow> (\<exists>h rec. wapi_mutate env h req = Inr rec \<and>
        GetExternalName cr' = (if ra_Ref rec = [] then GetExternalName cr else ra_Ref rec) \<and>
        ar_ForProvider cr' = ar_ForProvider cr)))"
  by (rule ARecord_Update_spec [OF assms])

section \<open>The contract of the ladder client\<close>

fun arecord_req_ea :: "arecord_req \<Rightarrow> ea" where
  "arecord_req_ea (CreateARecord netView dnsView recordName cidr ipAddr ttl useTTL comment ea) = ea"
| "arecord_req_ea (UpdateARecord ref recordName ipAddr cidr netView ttl useTTL comment ea) = ea"

fun arecord_holds :: "arecord_req \<Rightarrow> RecordA \<Rightarrow> bool" where
  "arecord_holds (CreateARecord netView dnsView recordName cidr ipAddr ttl useTTL comment ea) rec \<longleftrightarrow>
     strOrEmpty (ra_Name rec) = recordName \<and> (ipAddr \<noteq> [] \<longrightarrow> strOrEmpty (ra_Ipv4Addr rec) = ipAddr) \<and>
     strOrEmpty (ra_Comment rec) = comment \<and> boolOrFalse (ra_UseTtl rec) = useTTL \<and>
     (useTTL \<longrightarrow> ttlOrZero (ra_Ttl rec) = ttl) \<and> ra_Ea rec = ea"
| "arecord_holds (UpdateARecord ref recordName ipAddr cidr netView ttl useTTL comment ea) rec \<longleftrightarrow>
     strOrEmpty (ra_Name rec) = recordName \<and> (ipAddr \<noteq> [] \<longrightarrow> strOrEmpty (ra_Ipv4Addr rec) = ipAddr) \<and>
     strOrEmpty (ra_Comment rec) = comment \<and> boolOrFalse (ra_UseTtl rec) = useTTL \<and>
     (useTTL \<longrightarrow> ttlOrZero (ra_Ttl rec) = ttl) \<and> ra_Ea rec = ea"

definition ARecord_drift :: "ARecordCR \<Rightarrow> RecordA \<Rightarrow> bool" where
  "ARecord_drift cr rec = ARecord_utd (ARecord_latePart (ar_ForProvider cr))
     (ap_Name (ar_ForProvider cr), ap_IPv4Addr (ar_ForProvider cr), rec)"

definition ARecord_spec_ok :: "ARecordCR \<Rightarrow> bool" where
  "ARecord_spec_ok cr \<longleftrightarrow>
     reserved_free (ap_ExtAttrs (ar_ForProvider cr)) \<and> strOrEmpty (ap_IPv4Addr (ar_ForProvider cr)) \<noteq> []"

definition ARecord_get :: "ARecordCR \<Rightarrow> arecord_late" where
  "ARecord_get cr = ARecord_latePart (ar_ForProvider cr)"

definition ARecord_put :: "ARecordCR \<Rightarrow> arecord_late \<Rightarrow> ARecordCR" where
  "ARecord_put cr l = cr\<lparr>ar_ForProvider := ARecord_setLate (ar_ForProvider cr) l\<rparr>"

definition ARecord_status :: "RecordA \<Rightarrow> ARecordCR \<Rightarrow> ARecordCR" where
  "ARecord_status rec cr = (let o1 = observeFromRecordA (ra_Ref rec) rec; p = ar_ForProvider cr in
     cr\<lparr>ar_AtProvider :=
       \<lparr>ao_ID = oa_ID o1, ao_Name = oa_Name o1, ao_IPv4Addr = oa_IPv4Addr o1,
        ao_Comment = oa_Comment o1, ao_TTL = oa_TTL o1, ao_UseTTL = oa_UseTTL o1,
        ao_ExtAttrs = oa_ExtAttrs o1, ao_View = oa_View o1, ao_Cidr = ap_Cidr p,
        ao_NetworkView = ap_NetworkView p, ao_Ref = oa_Ref o1, ao_Zone = oa_Zone o1\<rparr>\<rparr>)"

definition ARecord_valid :: "ARecordCR \<Rightarrow> goerr option" where
  "ARecord_valid cr = validateARecordCreateInputs (ap_IPv4Addr (ar_ForProvider cr)) (ap_Cidr (ar_ForProvider cr)) (mo_uid cr)"

interpretation arecord_lens: late_lens ARecord_lateInitialize ARecord_keeps ARecord_get ARecord_put ARecord_drift
proof
  fix l l' :: arecord_late and rec :: RecordA and cr :: ARecordCR
  show "ARecord_lateInitialize (fst (ARecord_lateInitialize l rec)) rec = (fst (ARecord_lateInitialize l rec), False)"
    using arecord_late.late_idem [of l "(None, None, rec)"] by simp
  show "snd (ARecord_lateInitialize l rec) \<longleftrightarrow> fst (ARecord_lateInitialize l rec) \<noteq> l"
    using arecord_late.late_flag [of l "(None, None, rec)"] by simp
  show "ARecord_keeps l (fst (ARecord_lateInitialize l rec))"
    using arecord_late.late_keeps [of l "(None, None, rec)"] by simp
  obtain c t u a where l: "l = (c, t, u, a)" by (cases l) auto
  show "ARecord_get (ARecord_put cr l) = l"
    by (simp add: l ARecord_get_def ARecord_put_def ARecord_latePart_def ARecord_setLate_def)
  show "ARecord_put cr (ARecord_get cr) = cr"
    by (simp add: ARecord_get_def ARecord_put_def ARecord_latePart_def ARecord_setLate_def)
  show "ARecord_put (ARecord_put cr l) l' = ARecord_put cr l'"
    by (simp add: ARecord_put_def ARecord_setLate_def split: prod.split)
  let ?l = "fst (ARecord_lateInitialize (ARecord_get cr) rec)"
  have "ARecord_drift (ARecord_put cr ?l) rec = ARecord_utd ?l (ap_Name (ar_ForProvider cr), ap_IPv4Addr (ar_ForProvider cr), rec)"
    by (cases ?l) (simp add: ARecord_drift_def ARecord_put_def ARecord_setLate_def ARecord_latePart_def)
  then show "ARecord_drift (ARecord_put cr ?l) rec" if "ARecord_drift cr rec"
    using that arecord_late.late_utd [of "ARecord_get cr" "(ap_Name (ar_ForProvider cr), ap_IPv4Addr (ar_ForProvider cr), rec)"]
    by (simp add: ARecord_drift_def ARecord_get_def)
qed

lemma ARecord_Observe_shape:
  "namespaced_ARecord_Observe env ep cr w =
     ladder_observe_shape (ladder_observe_error errObserveARecord) (Resolve env RecordA_type) (ensureIdentityPrerequisite env ep)
       (\<lambda>r. r \<noteq> []) (\<lambda>r. True)
       (lift_late ARecord_lateInitialize ARecord_get ARecord_put) ARecord_status ARecord_drift ra_Ref cr w"
proof -
  have same: "cr\<lparr>ar_ForProvider := ARecord_setLate (ar_ForProvider cr) (ARecord_latePart (ar_ForProvider cr))\<rparr> = cr"
    by (simp add: ARecord_latePart_def ARecord_setLate_def)
  obtain r w1 where r: "Resolve env RecordA_type (observeRefFor (mo_name cr) (GetExternalName cr)) (mo_uid cr) w = (r, w1)"
    by (cases "Resolve env RecordA_type (observeRefFor (mo_name cr) (GetExternalName cr)) (mo_uid cr) w")
  obtain e w2 where e: "ensureIdentityPrerequisite env ep w1 = (e, w2)"
    by (cases "ensureIdentityPrerequisite env ep w1")
  note defs = namespaced_ARecord_Observe_def observeARecord_def resolveARecordIdentity_def ladder_observe_shape_def ladder_observe_error_def
  show ?thesis
  proof (cases r)
    case (Inl err)
    then show ?thesis
      by (cases e) (simp_all add: defs Let_def r e same)
  next
    case (Inr a)
    obtain obj out where a: "a = (obj, out)" by (cases a)
    show ?thesis
    proof (cases obj)
      case None
      then show ?thesis
        by (simp add: defs Let_def r Inr a same ARecord_notFoundResult_def)
    next
      case (Some rec)
      obtain l c where "ARecord_lateInitialize (ARecord_latePart (ar_ForProvider cr)) rec = (l, c)"
        by (cases "ARecord_lateInitialize (ARecord_latePart (ar_ForProvider cr)) rec")
      moreover obtain a1 t u b where "l = (a1, t, u, b)" by (cases l) auto
      ultimately show ?thesis
        using Some
        by (simp add: defs Let_def r Inr a same lift_late_def ARecord_get_def ARecord_put_def
            ARecord_status_def ARecord_drift_def ARecord_utd_def ARecord_latePart_def ARecord_setLate_def
            ARecord_notFoundResult_def observeFromRecordA_def)
    qed
  qed
qed

lemma ARecord_Create_shape:
  "namespaced_ARecord_Create env ep cr w =
     ladder_create_shape errCreateARecord ARecord_valid (ensureIdentityPrerequisite env ep) (mutate_object env)
       (\<lambda>cr. arecord_create_request (ar_ForProvider cr) (mo_uid cr)) ra_Ref cr w"
  by (cases "ensureIdentityPrerequisite env ep w"; cases "fst (ensureIdentityPrerequisite env ep w)")
    (auto simp: namespaced_ARecord_Create_def ladder_create_shape_def ARecord_valid_def Let_def createARecord_valid
      mutate_object_def split: option.split)

lemma ARecord_Update_shape:
  "namespaced_ARecord_Update env ep cr w =
     ladder_update_shape errUpdateARecord ARecord_errEmptyUID env (ensureIdentityPrerequisite env ep)
       (\<lambda>cr. arecord_update_request (GetExternalName cr) (ar_ForProvider cr) (mo_uid cr)) ra_Ref cr w"
proof -
  obtain e w1 where e: "ensureIdentityPrerequisite env ep w = (e, w1)"
    by (cases "ensureIdentityPrerequisite env ep w")
  show ?thesis
    by (cases e; cases "wapi_mutate env (calls w1) (arecord_update_request (GetExternalName cr) (ar_ForProvider cr) (mo_uid cr))")
      (auto simp: namespaced_ARecord_Update_def ladder_update_shape_def updateARecord_eq Let_def e mutate_object_def)
qed

lemma ARecord_Delete_shape:
  "namespaced_ARecord_Delete env ep cr w =
     ladder_delete_shape errDeleteARecord errDeleteUnverifiedOwnership nilDereference
       (Resolve env RecordA_type (GetExternalName cr) (mo_uid cr)) (ensureIdentityPrerequisite env ep)
       (issue_delete env) ra_Ref w"
proof -
  have "deleteARecord env = issue_delete env"
    by (intro ext) (simp only: deleteARecord_def issue_delete_def)
  then show ?thesis
    by (simp only: ARecord_Delete_unfold deleteARecordIdentity_def ladder_delete_shape_def resolveARecordIdentity_def)
qed

lemma arecord_written_drift:
  assumes "ARecord_spec_ok cr"
    and "arecord_holds (arecord_create_request (ar_ForProvider cr) (mo_uid cr)) rec \<or>
      arecord_holds (arecord_update_request (GetExternalName cr) (ar_ForProvider cr) (mo_uid cr)) rec"
  shows "ARecord_drift (fst (lift_late ARecord_lateInitialize ARecord_get ARecord_put cr rec)) rec \<and>
    eaValue (ra_Ea rec) EAKey = Some (mo_uid cr)"
proof -
  note reqs = arecord_create_request_def arecord_update_request_def
  let ?p = "ar_ForProvider cr"
  have ok: "reserved_free (ap_ExtAttrs ?p)" "strOrEmpty (ap_IPv4Addr ?p) \<noteq> []"
    using assms(1) by (simp_all add: ARecord_spec_ok_def)
  have ea: "ra_Ea rec = Stamp (buildEA (ap_ExtAttrs ?p)) (mo_uid cr)"
    using assms(2) by (elim disjE) (simp_all add: reqs)
  have fields: "strOrEmpty (ap_Name ?p) = strOrEmpty (ra_Name rec)"
    "strOrEmpty (ap_IPv4Addr ?p) = strOrEmpty (ra_Ipv4Addr rec)"
    "strOrEmpty (ap_Comment ?p) = strOrEmpty (ra_Comment rec)"
    "boolOrFalse (ap_UseTTL ?p) = boolOrFalse (ra_UseTtl rec)"
    "boolOrFalse (ap_UseTTL ?p) \<Longrightarrow> ttlOrZero (ap_TTL ?p) = ttlOrZero (ra_Ttl rec)"
    using assms(2) ok by (elim disjE; simp add: reqs)+
  have "userAttrs (ra_Ea rec) = ap_ExtAttrs ?p"
    using ok(1) by (simp add: ea userAttrs_buildEA reserved_free_fmdrop)
  then have "ARecord_drift cr rec"
    using fields
    by (simp add: ARecord_drift_def ARecord_utd_def ARecord_latePart_def ARecord_isUpToDate_def extAttrsEqual_iff flip: userAttrs_def)
  with ea show ?thesis using arecord_lens.late_utd by simp
qed

interpretation arecord: refreshing_client "lift_late ARecord_lateInitialize ARecord_get ARecord_put" ARecord_drift
  "\<lambda>s s'. ARecord_keeps (ARecord_get s) (ARecord_get s')"
  RecordA_type ra_Ref ARecord_status ARecord_valid
  "\<lambda>cr. arecord_create_request (ar_ForProvider cr) (mo_uid cr)"
  "\<lambda>cr. arecord_update_request (GetExternalName cr) (ar_ForProvider cr) (mo_uid cr)"
  arecord_req_ea arecord_holds ARecord_spec_ok
  "ladder_observe_error errObserveARecord" "\<lambda>r. r \<noteq> []" "\<lambda>r. True" ra_Ref
  errCreateARecord errUpdateARecord errDeleteARecord ARecord_errEmptyUID
  namespaced_ARecord_Observe namespaced_ARecord_Create namespaced_ARecord_Update namespaced_ARecord_Delete
proof (unfold_locales, goal_cases)
  case (6 cr)
  then show ?case by (simp add: ARecord_valid_def validate_None_iff)
next
  case (13 n cr rec)
  have "ARecord_get (SetExternalName n cr) = ARecord_get cr"
    "ARecord_put (SetExternalName n cr) l = SetExternalName n (ARecord_put cr l)" for l
    by (simp_all add: ARecord_get_def ARecord_put_def SetExternalName_def)
  then show ?case
    by (simp add: arecord_lens.lifted_simps ARecord_drift_def SetExternalName_def)
next
  case (14 cr rec)
  then show ?case using arecord_written_drift [of cr rec] by simp
next
  case (15 cr rec)
  then show ?case using arecord_written_drift [of cr rec] by simp
qed (simp_all add: ARecord_Observe_shape ARecord_Create_shape ARecord_Update_shape ARecord_Delete_shape
    arecord_lens.lifted_simps ARecord_put_def ARecord_status_def Let_def
    arecord_create_request_def arecord_update_request_def)

section \<open>A Grid to apply the theorems to\<close>

text \<open>
  A Grid that holds one record stamped for the uid u-1, stores what it is asked
  to create under record:a/2, and answers every other reference with a 404.
\<close>

definition demo_rec :: RecordA where
  "demo_rec = emptyRecordA\<lparr>ra_Ref := ''record:a/1'', ra_Ipv4Addr := Some ''10.0.0.1'',
     ra_Ea := Stamp fmempty ''u-1''\<rparr>"

fun demo_store :: "arecord_req \<Rightarrow> RecordA" where
  "demo_store (CreateARecord netView dnsView name cidr ip ttl useTTL comment e) =
     \<lparr>ra_Ref = ''record:a/2'', ra_Name = Some name,
      ra_Ipv4Addr = Some (if ip = [] then ''10.0.0.9'' else ip), ra_Comment = Some comment,
      ra_Ttl = Some ttl, ra_UseTtl = Some useTTL, ra_Ea = e, ra_View = dnsView, ra_Zone = []\<rparr>"
| "demo_store (UpdateARecord ref name ip cidr netView ttl useTTL comment e) = demo_rec"

definition demo_env :: "(RecordA, arecord_req) wapi" where
  "demo_env =
     \<lparr>wapi_get = (\<lambda>h t r. if r = ''record:a/1'' then Inr demo_rec
        else if h \<noteq> [] \<and> r = ''record:a/2'' then
          (case last h of CMutate m \<Rightarrow> Inr (demo_store m) | _ \<Rightarrow> Inl (NotFoundError ''gone''))
        else Inl (NotFoundError ''gone'')),
      wapi_search = (\<lambda>h t q. if q = uid_query ''u-1'' then Inr [demo_rec] else Inr []),
      wapi_def_search = (\<lambda>h q. Inr [identityDefinition]),
      wapi_def_create = (\<lambda>h d. Inr []),
      wapi_mutate = (\<lambda>h m. Inr (demo_store m)),
      wapi_delete = (\<lambda>h r. Inr r),
      kube_patch = (\<lambda>h j. None),
      retry_on_conflict = (\<lambda>f w. f w),
      wall_clock = (\<lambda>n. 0)\<rparr>"

definition demo_cr :: "string \<Rightarrow> string \<Rightarrow> ARecordCR" where
  "demo_cr uid ref =
     \<lparr>mo_name = ''a'', mo_namespace = [], mo_uid = uid,
      mo_annotations = fmupd AnnotationKeyExternalName ref fmempty, mo_conditions = fmempty,
      ar_ForProvider = \<lparr>ap_Name = Some ''www.example.com'', ap_IPv4Addr = Some ''10.0.0.1'', ap_Comment = None,
        ap_TTL = None, ap_UseTTL = None, ap_ExtAttrs = fmempty, ap_View = None, ap_Cidr = None,
        ap_NetworkView = None, ap_RemoveAssociatedPtr = None\<rparr>,
      ar_AtProvider = \<lparr>ao_ID = [], ao_Name = None, ao_IPv4Addr = None, ao_Comment = None, ao_TTL = None,
        ao_UseTTL = None, ao_ExtAttrs = fmempty, ao_View = None, ao_Cidr = None, ao_NetworkView = None,
        ao_Ref = None, ao_Zone = None\<rparr>\<rparr>"

lemma demo_sound: "search_sound demo_env RecordA_type"
  by (auto simp: search_sound_def demo_env_def demo_rec_def uid_query_inj)

lemma demo_retry: "retry_documented demo_env"
  by (auto simp: retry_documented_def demo_env_def intro: exI [of _ 0])

lemma demo_read_your_write: "arecord_read_your_write demo_env"
  by (simp add: arecord_read_your_write_def demo_env_def strOrEmpty_def)

lemma demo_cr_simps [simp]:
  "GetExternalName (demo_cr uid ref) = ref" "mo_uid (demo_cr uid ref) = uid" "mo_name (demo_cr uid ref) = ''a''"
  by (simp_all add: demo_cr_def GetExternalName_def)

lemma trim_u1 [simp]: "trim_space ''u-1'' = ''u-1''"
  by (rule trim_space_visible) (simp add: visible_ascii_def)

lemma demo_get [simp]: "wapi_get demo_env h t ''record:a/1'' = Inr demo_rec"
  by (simp add: demo_env_def)

lemma demo_rec_simps [simp]: "eaValue (ra_Ea demo_rec) EAKey = Some ''u-1''" "ra_Ref demo_rec = ''record:a/1''"
  by (simp_all add: demo_rec_def)

lemma demo_resolve_ref:
  "Resolve demo_env RecordA_type ''record:a/1'' ''u-1'' w =
     (Inr (Some demo_rec, OutcomeResolved), log_call (CGet ''record:a'' ''record:a/1'') w)"
proof -
  have "fst (Resolve demo_env RecordA_type ''record:a/1'' ''u-1'' w) = Inr (Some demo_rec, OutcomeResolved)"
    by (rule Resolve_by_ref) simp_all
  moreover have "resolveByRef demo_env RecordA_type ''record:a/1'' ''u-1'' w =
      (Some (Inr (Some demo_rec, OutcomeResolved)), log_call (CGet ''record:a'' ''record:a/1'') w)"
    using stamped_RecordA [of demo_rec]
    by (simp add: resolveByRef_def get_object_def stamped_def split: sum.splits)
  ultimately show ?thesis
    by (simp add: Resolve_unfold)
qed

lemma demo_ensure: "fst (ensureIdentityPrerequisite demo_env ''grid'' w) = None"
  if "w = init_world"
  unfolding that
  by (simp add: ensureIdentityPrerequisite_def Ensure_def prober_lookup_def init_world_def probe_def
      definitionExists_def def_search_def demo_env_def trim_space_visible visible_ascii_def split_beta)

section \<open>The theorems on that Grid\<close>

abbreviation demo_owner :: ARecordCR where
  "demo_owner \<equiv> demo_cr ''u-1'' ''record:a/1''"

lemma demo_deletes:
  "namespaced_ARecord_Delete demo_env ''grid'' demo_owner init_world =
     (None, log_call (CDelete ''record:a/1'') (log_call (CGet ''record:a'' ''record:a/1'') init_world))"
  by (simp add: ARecord_Delete_unfold deleteARecordIdentity_def resolveARecordIdentity_def demo_resolve_ref
      deleteARecord_def delete_object_def) (simp add: demo_env_def)

lemma ARecord_Delete_only_owned_witness:
  "mutations (snd (namespaced_ARecord_Delete demo_env ''grid'' demo_owner init_world)) = [CDelete ''record:a/1''] \<and>
   (\<exists>rec out. fst (Resolve demo_env RecordA_type ''record:a/1'' ''u-1'' init_world) = Inr (Some rec, out) \<and>
       eaValue (ra_Ea rec) EAKey = Some ''u-1'' \<and> ra_Ref rec = ''record:a/1'')"
  using ARecord_Delete_only_owned [OF demo_sound, of namespaced_ARecord_Delete "''grid''" demo_owner init_world]
  by (simp add: demo_deletes) (metis)

lemma ARecord_Delete_success_witness:
  "\<exists>rec out. fst (Resolve demo_env RecordA_type ''record:a/1'' ''u-1'' init_world) = Inr (Some rec, out) \<and>
       eaValue (ra_Ea rec) EAKey = Some ''u-1''"
  using ARecord_Delete_success [OF demo_sound, of "''grid''" demo_owner init_world]
  by (simp add: demo_deletes demo_resolve_ref)

lemma demo_observes:
  "\<exists>obs cr' w'. namespaced_ARecord_Observe demo_env ''grid'' demo_owner init_world = (Inr obs, cr', w') \<and>
     ResourceExists obs"
  using ARecord_Observe_found [of demo_env demo_owner init_world demo_rec OutcomeResolved _ "''grid''"]
  by (force simp: observeRefFor_def demo_resolve_ref)

lemma ARecord_Observe_ownership_witness:
  "\<exists>obs cr' w'. namespaced_ARecord_Observe demo_env ''grid'' demo_owner init_world = (Inr obs, cr', w') \<and>
     mutations w' = [] \<and> ao_ID (ar_AtProvider cr') = ''record:a/1''"
proof -
  obtain obs cr' w' where o: "namespaced_ARecord_Observe demo_env ''grid'' demo_owner init_world = (Inr obs, cr', w')"
    "ResourceExists obs"
    using demo_observes by blast
  from ARecord_Observe_ownership [OF demo_sound o]
  have "mutations w' = []" "ao_ID (ar_AtProvider cr') = ''record:a/1''"
    by (auto simp: observeRefFor_def demo_resolve_ref)
  with o show ?thesis by blast
qed

lemma demo_update_accepted: "wapi_mutate demo_env h m = Inr (demo_store m)"
  by (simp add: demo_env_def)

lemma ARecord_Update_contract_witness:
  "mutations (snd (snd (namespaced_ARecord_Update demo_env ''grid'' demo_owner init_world))) =
     [CMutate (arecord_update_request ''record:a/1'' (ar_ForProvider demo_owner) ''u-1'')]"
  using ARecord_Update_contract [OF demo_retry, where ep = "''grid''" and cr = demo_owner and w = init_world]
  by (simp add: split_beta Let_def demo_ensure)

text \<open>A resource that is not on the Grid yet.\<close>

abbreviation demo_new :: ARecordCR where
  "demo_new \<equiv> demo_cr ''u-2'' []"

lemma trim_u2 [simp]: "trim_space ''u-2'' = ''u-2''"
  by (rule trim_space_visible) (simp add: visible_ascii_def)

lemma demo_absent:
  "\<exists>cr' w'. namespaced_ARecord_Observe demo_env ''grid'' demo_new init_world = (Inr notExists, cr', w')"
proof -
  have s: "wapi_search demo_env h t (uid_query ''u-2'') = Inr []" for h t
    by (simp add: demo_env_def uid_query_inj)
  show ?thesis
    by (simp add: namespaced_ARecord_Observe_def observeARecord_def Let_def resolveARecordIdentity_def
        observeRefFor_def Resolve_unfold resolveBySearch_def searchByUID_def search_objects_def s
        ARecord_notFoundResult_def)
qed

lemma ARecord_Observe_absent_witness:
  "\<exists>h. wapi_search demo_env h ''record:a'' (uid_query ''u-2'') = Inr [] \<or>
     (\<exists>err. wapi_search demo_env h ''record:a'' (uid_query ''u-2'') = Inl err \<and> isNotFound (Some err))"
proof -
  obtain cr' w' where o: "namespaced_ARecord_Observe demo_env ''grid'' demo_new init_world = (Inr notExists, cr', w')"
    using demo_absent by blast
  show ?thesis
    using ARecord_Observe_absent [OF o] by auto
qed

lemma demo_creates:
  "\<exists>cr1 w1. namespaced_ARecord_Create demo_env ''grid'' demo_new init_world = (None, cr1, w1) \<and>
     GetExternalName cr1 = ''record:a/2''"
proof -
  obtain w1 where en: "ensureIdentityPrerequisite demo_env ''grid'' init_world = (None, w1)"
    using demo_ensure [OF refl] by (cases "ensureIdentityPrerequisite demo_env ''grid'' init_world") auto
  have v: "validateARecordCreateInputs (ap_IPv4Addr (ar_ForProvider demo_new)) (ap_Cidr (ar_ForProvider demo_new)) ''u-2'' = None"
    by (simp add: validate_None_iff demo_cr_def strOrEmpty_def)
  from v show ?thesis
    by (simp add: namespaced_ARecord_Create_def Let_def en createARecord_valid demo_update_accepted)
      (simp add: arecord_create_request_def SetExternalName_def GetExternalName_def)
qed

lemma ARecord_create_then_observe_witness:
  "\<exists>cr1 w1 obs cr2 w2. namespaced_ARecord_Create demo_env ''grid'' demo_new init_world = (None, cr1, w1) \<and>
     namespaced_ARecord_Observe demo_env ''grid'' cr1 w1 = (Inr obs, cr2, w2) \<and>
     ResourceExists obs \<and> ResourceUpToDate obs \<and> GetExternalName cr2 = ''record:a/2''"
proof -
  obtain cr1 w1 where c: "namespaced_ARecord_Create demo_env ''grid'' demo_new init_world = (None, cr1, w1)"
    "GetExternalName cr1 = ''record:a/2''"
    using demo_creates by blast
  have "strOrEmpty (ap_IPv4Addr (ar_ForProvider demo_new)) \<noteq> []"
    and "reserved_free (ap_ExtAttrs (ar_ForProvider demo_new))"
    by (simp_all add: demo_cr_def strOrEmpty_def reserved_free_def)
  from ARecord_create_then_observe [OF c(1) demo_read_your_write _ this(2,1)] c show ?thesis by auto
qed

text \<open>An owned record and a spec without an address.\<close>

definition demo_cidr_cr :: ARecordCR where
  "demo_cidr_cr = demo_owner\<lparr>ar_ForProvider := (ar_ForProvider demo_owner)\<lparr>ap_IPv4Addr := None, ap_Cidr := Some ''10.0.0.0/24''\<rparr>\<rparr>"

lemma demo_store_address: "strOrEmpty (ra_Ipv4Addr (demo_store m)) \<noteq> []"
  by (cases m) (auto simp: strOrEmpty_def demo_rec_def)

lemma ARecord_cidr_never_up_to_date_witness:
  "\<exists>obs cr' w'. namespaced_ARecord_Observe demo_env ''grid'' demo_cidr_cr init_world = (Inr obs, cr', w') \<and>
     \<not> ResourceUpToDate obs"
proof -
  have cr: "GetExternalName demo_cidr_cr = ''record:a/1''" "mo_uid demo_cidr_cr = ''u-1''" "mo_name demo_cidr_cr = ''a''"
    by (simp_all add: demo_cidr_cr_def demo_cr_def GetExternalName_def)
  obtain obs cr' w' where o: "namespaced_ARecord_Observe demo_env ''grid'' demo_cidr_cr init_world = (Inr obs, cr', w')"
    using ARecord_Observe_found [of demo_env demo_cidr_cr init_world demo_rec OutcomeResolved _ "''grid''"]
    by (force simp: observeRefFor_def demo_resolve_ref cr)
  have "strOrEmpty (ap_IPv4Addr (ar_ForProvider demo_cidr_cr)) = []"
    by (simp add: demo_cidr_cr_def strOrEmpty_def)
  moreover have "strOrEmpty (ra_Ipv4Addr rec) \<noteq> []" if "wapi_get demo_env h t ref = Inr rec" for h t ref rec
    using that
    by (auto simp: demo_env_def demo_store_address split: if_splits wcall.splits) (simp add: demo_rec_def strOrEmpty_def)
  moreover have "strOrEmpty (ra_Ipv4Addr rec) \<noteq> []" if "wapi_search demo_env h t q = Inr recs" "rec \<in> set recs" for h t q recs rec
    using that by (auto simp: demo_env_def demo_rec_def strOrEmpty_def split: if_splits)
  ultimately have "\<not> ResourceUpToDate obs"
    using ARecord_cidr_never_up_to_date [of demo_cidr_cr demo_env, OF _ _ _ o] by blast
  with o show ?thesis by blast
qed

end
