(* ===== verification/AAAARecord.thy ===== *)
theory AAAARecord
  imports LadderClient
begin

text \<open>
  internal/controller/recordaaaa: the AAAARecord controller, a client of the identity ladder.
\<close>

section \<open>Data\<close>

text \<open>ibclient.RecordAAAA, as the provider requests it.\<close>

record RecordAAAA =
  aar_Ref :: string
  aar_Name :: "string option"
  aar_Ipv6Addr :: "string option"
  aar_Comment :: "string option"
  aar_Ttl :: "32 word option"
  aar_UseTtl :: "bool option"
  aar_Ea :: ea
  aar_View :: string
  aar_Zone :: string

definition emptyRecordAAAA :: RecordAAAA where
  "emptyRecordAAAA = \<lparr>aar_Ref = [], aar_Name = None, aar_Ipv6Addr = None, aar_Comment = None, aar_Ttl = None,
      aar_UseTtl = None, aar_Ea = fmempty, aar_View = [], aar_Zone = []\<rparr>"

definition reflectRecordAAAA :: "RecordAAAA \<Rightarrow> goany" where
  "reflectRecordAAAA r = PtrTo ''*ibclient.RecordAAAA''
     [(''Ref'', FString (aar_Ref r)),
      (''Name'', FOther),
      (''Ipv6Addr'', FOther),
      (''Comment'', FOther),
      (''Ttl'', FOther),
      (''UseTtl'', FOther),
      (''Ea'', FEA (aar_Ea r)),
      (''View'', FString (aar_View r)),
      (''Zone'', FString (aar_Zone r))]"

definition RecordAAAA_type :: "RecordAAAA objtype" where
  "RecordAAAA_type = \<lparr>ot_name = ''record:aaaa'', ot_empty = emptyRecordAAAA, ot_reflect = reflectRecordAAAA\<rparr>"

text \<open>The ObjectManager requests, with their arguments in call order.\<close>

datatype aaaa_req =
    CreateAAAARecord string string string string string bool "32 word" string ea
      \<comment> \<open>netView, dnsView, recordName, cidr, ipAddr, useTTL, ttl, comment, ea\<close>
  | UpdateAAAARecord string string string string string bool "32 word" string ea
      \<comment> \<open>ref, netView, recordName, ipAddr, cidr, useTTL, ttl, comment, ea\<close>

record AAAARecordParameters =
  aap_Name :: "string option"
  aap_IPv6Addr :: "string option"
  aap_Comment :: "string option"
  aap_TTL :: "32 word option"
  aap_UseTTL :: "bool option"
  aap_ExtAttrs :: extattrs
  aap_View :: "string option"
  aap_Cidr :: "string option"
  aap_NetworkView :: "string option"

record AAAARecordObservation =
  aas_ID :: string
  aas_Name :: "string option"
  aas_IPv6Addr :: "string option"
  aas_Comment :: "string option"
  aas_TTL :: "32 word option"
  aas_UseTTL :: "bool option"
  aas_ExtAttrs :: extattrs
  aas_View :: "string option"
  aas_Cidr :: "string option"
  aas_NetworkView :: "string option"
  aas_Ref :: "string option"
  aas_Zone :: "string option"

record AAAARecordCR = mobj +
  aa_ForProvider :: AAAARecordParameters
  aa_AtProvider :: AAAARecordObservation

section \<open>Error messages\<close>

definition errObserveAAAARecord :: string where "errObserveAAAARecord = ''cannot observe AAAARecord''"
definition errCreateAAAARecord :: string where "errCreateAAAARecord = ''cannot create AAAARecord''"
definition errUpdateAAAARecord :: string where "errUpdateAAAARecord = ''cannot update AAAARecord''"
definition errDeleteAAAARecord :: string where "errDeleteAAAARecord = ''cannot delete AAAARecord''"
definition AAAARecord_errEmptyUID :: string where
  "AAAARecord_errEmptyUID = ''cannot stamp AAAARecord identity: managed resource's metadata.uid is empty''"
definition errCidrIPv6Mutex :: string where "errCidrIPv6Mutex = ''cidr and ipv6Addr are mutually exclusive''"

section \<open>Field comparison and late initialisation\<close>

definition AAAARecord_isUpToDate ::
  "string option \<Rightarrow> string option \<Rightarrow> string option \<Rightarrow> 32 word option \<Rightarrow>
      bool option \<Rightarrow> extattrs \<Rightarrow> RecordAAAA \<Rightarrow> bool" where
  "AAAARecord_isUpToDate name ipv6Addr comment ttl useTTL extAttrs rec =
     (if strOrEmpty name \<noteq> strOrEmpty (aar_Name rec) then False
      else if strOrEmpty ipv6Addr \<noteq> strOrEmpty (aar_Ipv6Addr rec) then False
      else if strOrEmpty comment \<noteq> strOrEmpty (aar_Comment rec) then False
      else if boolOrFalse useTTL \<noteq> boolOrFalse (aar_UseTtl rec) then False
      else if boolOrFalse useTTL \<and> ttlOrZero ttl \<noteq> ttlOrZero (aar_Ttl rec) then False
      else extAttrsEqual extAttrs (extAttrsFromEA (Strip (aar_Ea rec))))"

text \<open>The ForProvider fields lateInitialize takes pointers to.\<close>

type_synonym aaaa_late = "string option \<times> 32 word option \<times> bool option \<times> extattrs"

definition AAAARecord_lateInitialize :: "aaaa_late \<Rightarrow> RecordAAAA \<Rightarrow> aaaa_late \<times> bool" where
  "AAAARecord_lateInitialize p rec =
     (case p of (comment, ttl, useTTL, extAttrs) \<Rightarrow>
       (let (comment1, c1) = (if comment = None \<and> aar_Comment rec \<noteq> None \<and> aar_Comment rec \<noteq> Some []
                             then (aar_Comment rec, True) else (comment, False));
            (useTTL1, c2) = (if useTTL = None \<and> aar_UseTtl rec \<noteq> None
                             then (aar_UseTtl rec, True) else (useTTL, c1));
            (ttl1, c3) = (if ttl = None \<and> aar_Ttl rec \<noteq> None \<and> boolOrFalse useTTL1
                             then (aar_Ttl rec, True) else (ttl, c2));
            fromRec = extAttrsFromEA (Strip (aar_Ea rec));
            (extAttrs1, c4) = (if extAttrs = fmempty \<and> fromRec \<noteq> fmempty
                             then (fromRec, True) else (extAttrs, c3))
        in ((comment1, ttl1, useTTL1, extAttrs1), c4)))"

record observedAAAARecord =
  aao_ID :: string
  aao_Name :: "string option"
  aao_IPv6Addr :: "string option"
  aao_Comment :: "string option"
  aao_TTL :: "32 word option"
  aao_UseTTL :: "bool option"
  aao_ExtAttrs :: extattrs
  aao_View :: "string option"
  aao_Ref :: "string option"
  aao_Zone :: "string option"

definition observeFromRecordAAAA :: "string \<Rightarrow> RecordAAAA \<Rightarrow> observedAAAARecord" where
  "observeFromRecordAAAA externalID rec =
     \<lparr>aao_ID = externalID,
      aao_Name = aar_Name rec,
      aao_IPv6Addr = aar_Ipv6Addr rec,
      aao_Comment = ptrIfSet (aar_Comment rec),
      aao_TTL = aar_Ttl rec,
      aao_UseTTL = aar_UseTtl rec,
      aao_ExtAttrs = extAttrsFromEA (aar_Ea rec),
      aao_View = ptrIfNonEmpty (aar_View rec),
      aao_Ref = ptrIfNonEmpty (aar_Ref rec),
      aao_Zone = ptrIfNonEmpty (aar_Zone rec)\<rparr>"

section \<open>SDK calls\<close>

definition validateAAAARecordCreateInputs :: "string option \<Rightarrow> string option \<Rightarrow> string \<Rightarrow> goerr option" where
  "validateAAAARecordCreateInputs ipv6Addr cidr uid =
     (if trim_space uid = [] then Some (TextError AAAARecord_errEmptyUID)
      else if strOrEmpty cidr \<noteq> [] \<and> strOrEmpty ipv6Addr \<noteq> [] then Some (TextError errCidrIPv6Mutex)
      else None)"

definition AAAARecord_defaultNetworkView :: string where "AAAARecord_defaultNetworkView = ''default''"

definition createAAAARecord ::
  "(RecordAAAA, aaaa_req) wapi \<Rightarrow> AAAARecordParameters \<Rightarrow> string \<Rightarrow> aaaa_req world
      \<Rightarrow> (goerr + RecordAAAA) \<times> aaaa_req world" where
  "createAAAARecord env p uid w =
     (case validateAAAARecordCreateInputs (aap_IPv6Addr p) (aap_Cidr p) uid of
        Some err \<Rightarrow> (Inl err, w)
      | None \<Rightarrow>
          (let cidrVal = strOrEmpty (aap_Cidr p);
               netView0 = strOrEmpty (aap_NetworkView p);
               netView = (if cidrVal \<noteq> [] \<and> netView0 = [] then AAAARecord_defaultNetworkView else netView0);
               e = Stamp (buildEA (aap_ExtAttrs p)) uid
           in mutate_object env
              (CreateAAAARecord netView (strOrEmpty (aap_View p)) (strOrEmpty (aap_Name p)) cidrVal (strOrEmpty
                  (aap_IPv6Addr p)) (boolOrFalse (aap_UseTTL p)) (ttlOrZero (aap_TTL p)) (strOrEmpty (aap_Comment p)) e)
                  w))"

definition updateAAAARecord ::
  "(RecordAAAA, aaaa_req) wapi \<Rightarrow> string \<Rightarrow> AAAARecordParameters \<Rightarrow> string
      \<Rightarrow> aaaa_req world \<Rightarrow> (goerr + RecordAAAA) \<times> aaaa_req world" where
  "updateAAAARecord env ref p uid w =
     (if trim_space uid = [] then (Inl (TextError AAAARecord_errEmptyUID), w)
      else
        (let e = Stamp (buildEA (aap_ExtAttrs p)) uid
         in mutate_object env
              (UpdateAAAARecord ref [] (strOrEmpty (aap_Name p)) (strOrEmpty (aap_IPv6Addr p)) [] (boolOrFalse
                  (aap_UseTTL p)) (ttlOrZero (aap_TTL p)) (strOrEmpty (aap_Comment p)) e) w))"

definition deleteAAAARecord :: "(RecordAAAA, aaaa_req) wapi \<Rightarrow> string \<Rightarrow> aaaa_req world
    \<Rightarrow> goerr option \<times> aaaa_req world" where
  "deleteAAAARecord env ref w =
     (case delete_object env ref w of
        (Inl err, w1) \<Rightarrow> (Some err, w1)
      | (Inr _, w1) \<Rightarrow> (None, w1))"

section \<open>Identity resolution\<close>

definition resolveAAAARecordIdentity ::
  "(RecordAAAA, aaaa_req) wapi \<Rightarrow> string \<Rightarrow> string \<Rightarrow> aaaa_req world \<Rightarrow>
      (goerr + RecordAAAA option \<times> Outcome) \<times> aaaa_req world" where
  "resolveAAAARecordIdentity env ref uid w = Resolve env RecordAAAA_type ref uid w"

type_synonym AAAARecord_observeResult = "(RecordAAAA, observedAAAARecord) observeResult"

definition AAAARecord_notFoundResult :: AAAARecord_observeResult where
  "AAAARecord_notFoundResult =
     \<lparr>ores_exists = False, ores_rec = emptyRecordAAAA, ores_obs = observeFromRecordAAAA [] emptyRecordAAAA,
      ores_lateInit = False, ores_refreshedRef = [], ores_adopted = False\<rparr>"

definition observeAAAARecord ::
  "(RecordAAAA, aaaa_req) wapi \<Rightarrow> string \<Rightarrow> string \<Rightarrow> string \<Rightarrow> string \<Rightarrow> aaaa_late \<Rightarrow> aaaa_req world \<Rightarrow>
     (goerr + AAAARecord_observeResult) \<times> aaaa_late \<times> aaaa_req world" where
  "observeAAAARecord env endpoint crName externalName uid p w =
     (let ref = observeRefFor crName externalName in
      case resolveAAAARecordIdentity env ref uid w of
        (Inl err, w1) \<Rightarrow>
          if IsSearchFailure err then
            (case ensureIdentityPrerequisite env endpoint w1 of
               (Some prereqErr, w2) \<Rightarrow> (Inl prereqErr, p, w2)
             | (None, w2) \<Rightarrow> (Inl err, p, w2))
          else (Inl err, p, w1)
      | (Inr (obj, outcome), w1) \<Rightarrow>
          if outcome = OutcomeNotFound then (Inr AAAARecord_notFoundResult, p, w1)
          else
            (case obj of
               None \<Rightarrow> (Inl (TextError nilDereference), p, w1)
             | Some rec \<Rightarrow>
                 (case AAAARecord_lateInitialize p rec of (p1, changed) \<Rightarrow>
                    (let found = (outcome = OutcomeRotated \<or> outcome = OutcomeFoundByUID)
                     in (Inr \<lparr>ores_exists = True, ores_rec = rec,
                              ores_obs = observeFromRecordAAAA (aar_Ref rec) rec,
                              ores_lateInit = (if found then True else changed),
                              ores_refreshedRef = (if found then aar_Ref rec else []),
                              ores_adopted = (outcome = OutcomeAdopted)\<rparr>, p1, w1)))))"

definition deleteAAAARecordIdentity ::
  "(RecordAAAA, aaaa_req) wapi \<Rightarrow> string \<Rightarrow> string \<Rightarrow> string \<Rightarrow> aaaa_req
      world \<Rightarrow> goerr option \<times> aaaa_req world" where
  "deleteAAAARecordIdentity env endpoint ref uid w =
     (case resolveAAAARecordIdentity env ref uid w of
        (Inl err, w1) \<Rightarrow>
          if IsSearchFailure err then
            (case ensureIdentityPrerequisite env endpoint w1 of
               (Some prereqErr, w2) \<Rightarrow> (Some prereqErr, w2)
             | (None, w2) \<Rightarrow> (Some (Wrapped errDeleteAAAARecord err), w2))
          else (Some (Wrapped errDeleteAAAARecord err), w1)
      | (Inr (obj, outcome), w1) \<Rightarrow>
          (case outcome of
             OutcomeNotFound \<Rightarrow> (None, w1)
           | OutcomeAdopted \<Rightarrow> (Some (TextError errDeleteUnverifiedOwnership), w1)
           | _ \<Rightarrow>
               (case obj of
                  None \<Rightarrow> (Some (TextError nilDereference), w1)
                | Some rec \<Rightarrow>
                    (case deleteAAAARecord env (aar_Ref rec) w1 of
                       (None, w2) \<Rightarrow> (None, w2)
                     | (Some delErr, w2) \<Rightarrow>
                         if isNotFound (Some delErr) then (None, w2)
                         else (Some (Wrapped errDeleteAAAARecord delErr), w2)))))"

section \<open>The external clients\<close>

text \<open>The pointers to spec fields Observe hands over, and their write-back.\<close>

definition AAAARecord_latePart :: "AAAARecordParameters \<Rightarrow> aaaa_late" where
  "AAAARecord_latePart p = (aap_Comment p, aap_TTL p, aap_UseTTL p, aap_ExtAttrs p)"

definition AAAARecord_setLate :: "AAAARecordParameters \<Rightarrow> aaaa_late \<Rightarrow> AAAARecordParameters" where
  "AAAARecord_setLate p l = (case l of (comment, ttl, useTTL, extAttrs) \<Rightarrow>
     p\<lparr>aap_Comment := comment, aap_TTL := ttl, aap_UseTTL := useTTL, aap_ExtAttrs := extAttrs\<rparr>)"

subsection \<open>namespaced.go\<close>

definition namespaced_AAAARecord_Observe ::
  "(RecordAAAA, aaaa_req) wapi \<Rightarrow> string \<Rightarrow> AAAARecordCR \<Rightarrow> aaaa_req world
      \<Rightarrow> (goerr + ExternalObservation) \<times> AAAARecordCR \<times> aaaa_req world" where
  "namespaced_AAAARecord_Observe env endpoint cr w =
     (case observeAAAARecord env endpoint (mo_name cr) (GetExternalName cr) (mo_uid cr)
             (AAAARecord_latePart (aa_ForProvider cr)) w of
        (Inl err, l, w1) \<Rightarrow>
          (let cr1 = cr\<lparr>aa_ForProvider := AAAARecord_setLate (aa_ForProvider cr) l\<rparr> in
           if errors_as is_PrerequisiteError err then (Inl err, cr1, w1)
           else (Inl (Wrapped errObserveAAAARecord err), cr1, w1))
      | (Inr res, l, w1) \<Rightarrow>
          (let p = AAAARecord_setLate (aa_ForProvider cr) l;
               cr1 = cr\<lparr>aa_ForProvider := p\<rparr> in
           if \<not> ores_exists res then (Inr notExists, cr1, w1)
           else
             (let o1 = ores_obs res;
                  cr2 = cr1\<lparr>aa_AtProvider :=
                    \<lparr>aas_ID = aao_ID o1, aas_Name = aao_Name o1, aas_IPv6Addr = aao_IPv6Addr o1,
                     aas_Comment = aao_Comment o1, aas_TTL = aao_TTL o1, aas_UseTTL = aao_UseTTL o1,
                     aas_ExtAttrs = aao_ExtAttrs o1, aas_View = aao_View o1, aas_Cidr = aap_Cidr p,
                     aas_NetworkView = aap_NetworkView p, aas_Ref = aao_Ref o1, aas_Zone = aao_Zone
                     o1\<rparr>\<rparr>;
                  cr3 = (if ores_refreshedRef res \<noteq> [] then SetExternalName (ores_refreshedRef res) cr2 else cr2);
                  cr4 = SetAvailable cr3;
                  upToDate = (AAAARecord_isUpToDate (aap_Name p) (aap_IPv6Addr p) (aap_Comment p) (aap_TTL p)
                                (aap_UseTTL p) (aap_ExtAttrs p) (ores_rec res)
                                \<and> \<not> ores_adopted res)
              in (Inr \<lparr>ResourceExists = True, ResourceUpToDate = upToDate,
                       ResourceLateInitialized = ores_lateInit res\<rparr>, cr4, w1))))"

definition namespaced_AAAARecord_Create ::
  "(RecordAAAA, aaaa_req) wapi \<Rightarrow> string \<Rightarrow> AAAARecordCR \<Rightarrow> aaaa_req world
      \<Rightarrow> goerr option \<times> AAAARecordCR \<times> aaaa_req world" where
  "namespaced_AAAARecord_Create env endpoint cr w =
     (let p = aa_ForProvider cr; uid = mo_uid cr in
      case validateAAAARecordCreateInputs (aap_IPv6Addr p) (aap_Cidr p) uid of
        Some err \<Rightarrow> (Some err, cr, w)
      | None \<Rightarrow>
          (case ensureIdentityPrerequisite env endpoint w of
             (Some err, w1) \<Rightarrow> (Some err, cr, w1)
           | (None, w1) \<Rightarrow>
               (case createAAAARecord env p uid w1 of
                  (Inl err, w2) \<Rightarrow> (Some (Wrapped errCreateAAAARecord err), cr, w2)
                | (Inr rec, w2) \<Rightarrow> (None, SetExternalName (aar_Ref rec) cr, w2))))"

definition namespaced_AAAARecord_Update ::
  "(RecordAAAA, aaaa_req) wapi \<Rightarrow> string \<Rightarrow> AAAARecordCR \<Rightarrow> aaaa_req world
      \<Rightarrow> goerr option \<times> AAAARecordCR \<times> aaaa_req world" where
  "namespaced_AAAARecord_Update env endpoint cr w =
     (let p = aa_ForProvider cr; externalID = GetExternalName cr in
      case ensureIdentityPrerequisite env endpoint w of
        (Some err, w1) \<Rightarrow> (Some err, cr, w1)
      | (None, w1) \<Rightarrow>
          (case updateAAAARecord env externalID p (mo_uid cr) w1 of
             (Inl err, w2) \<Rightarrow> (Some (Wrapped errUpdateAAAARecord err), cr, w2)
           | (Inr rec, w2) \<Rightarrow>
               if aar_Ref rec \<noteq> [] \<and> aar_Ref rec \<noteq> externalID then
                 (case Refresh env cr (aar_Ref rec) w2 of
                    (Some err, cr1, w3) \<Rightarrow> (Some (Wrapped errPersistExternalName err), cr1, w3)
                  | (None, cr1, w3) \<Rightarrow> (None, cr1, w3))
               else (None, cr, w2)))"

definition namespaced_AAAARecord_Delete ::
  "(RecordAAAA, aaaa_req) wapi \<Rightarrow> string \<Rightarrow> AAAARecordCR \<Rightarrow> aaaa_req world \<Rightarrow> goerr option \<times> aaaa_req world" where
  "namespaced_AAAARecord_Delete env endpoint cr w =
     (let externalID = GetExternalName cr in
      case deleteAAAARecordIdentity env endpoint externalID (mo_uid cr) w of
        (Some err, w1) \<Rightarrow> (Some err, w1)
      | (None, w1) \<Rightarrow> (None, w1))"

subsection \<open>cluster.go\<close>

definition cluster_AAAARecord_Observe ::
  "(RecordAAAA, aaaa_req) wapi \<Rightarrow> string \<Rightarrow> AAAARecordCR \<Rightarrow> aaaa_req world
      \<Rightarrow> (goerr + ExternalObservation) \<times> AAAARecordCR \<times> aaaa_req world" where
  "cluster_AAAARecord_Observe env endpoint cr w =
     (case observeAAAARecord env endpoint (mo_name cr) (GetExternalName cr) (mo_uid cr)
             (AAAARecord_latePart (aa_ForProvider cr)) w of
        (Inl err, l, w1) \<Rightarrow>
          (let cr1 = cr\<lparr>aa_ForProvider := AAAARecord_setLate (aa_ForProvider cr) l\<rparr> in
           if errors_as is_PrerequisiteError err then (Inl err, cr1, w1)
           else (Inl (Wrapped errObserveAAAARecord err), cr1, w1))
      | (Inr res, l, w1) \<Rightarrow>
          (let p = AAAARecord_setLate (aa_ForProvider cr) l;
               cr1 = cr\<lparr>aa_ForProvider := p\<rparr> in
           if \<not> ores_exists res then (Inr notExists, cr1, w1)
           else
             (let o1 = ores_obs res;
                  cr2 = cr1\<lparr>aa_AtProvider :=
                    \<lparr>aas_ID = aao_ID o1, aas_Name = aao_Name o1, aas_IPv6Addr = aao_IPv6Addr o1,
                     aas_Comment = aao_Comment o1, aas_TTL = aao_TTL o1, aas_UseTTL = aao_UseTTL o1,
                     aas_ExtAttrs = aao_ExtAttrs o1, aas_View = aao_View o1, aas_Cidr = aap_Cidr p,
                     aas_NetworkView = aap_NetworkView p, aas_Ref = aao_Ref o1, aas_Zone = aao_Zone
                     o1\<rparr>\<rparr>;
                  cr3 = (if ores_refreshedRef res \<noteq> [] then SetExternalName (ores_refreshedRef res) cr2 else cr2);
                  cr4 = SetAvailable cr3;
                  upToDate = (AAAARecord_isUpToDate (aap_Name p) (aap_IPv6Addr p) (aap_Comment p) (aap_TTL p)
                                (aap_UseTTL p) (aap_ExtAttrs p) (ores_rec res)
                                \<and> \<not> ores_adopted res)
              in (Inr \<lparr>ResourceExists = True, ResourceUpToDate = upToDate,
                       ResourceLateInitialized = ores_lateInit res\<rparr>, cr4, w1))))"

definition cluster_AAAARecord_Create ::
  "(RecordAAAA, aaaa_req) wapi \<Rightarrow> string \<Rightarrow> AAAARecordCR \<Rightarrow> aaaa_req world
      \<Rightarrow> goerr option \<times> AAAARecordCR \<times> aaaa_req world" where
  "cluster_AAAARecord_Create env endpoint cr w =
     (let p = aa_ForProvider cr; uid = mo_uid cr in
      case validateAAAARecordCreateInputs (aap_IPv6Addr p) (aap_Cidr p) uid of
        Some err \<Rightarrow> (Some err, cr, w)
      | None \<Rightarrow>
          (case ensureIdentityPrerequisite env endpoint w of
             (Some err, w1) \<Rightarrow> (Some err, cr, w1)
           | (None, w1) \<Rightarrow>
               (case createAAAARecord env p uid w1 of
                  (Inl err, w2) \<Rightarrow> (Some (Wrapped errCreateAAAARecord err), cr, w2)
                | (Inr rec, w2) \<Rightarrow> (None, SetExternalName (aar_Ref rec) cr, w2))))"

definition cluster_AAAARecord_Update ::
  "(RecordAAAA, aaaa_req) wapi \<Rightarrow> string \<Rightarrow> AAAARecordCR \<Rightarrow> aaaa_req world
      \<Rightarrow> goerr option \<times> AAAARecordCR \<times> aaaa_req world" where
  "cluster_AAAARecord_Update env endpoint cr w =
     (let p = aa_ForProvider cr; externalID = GetExternalName cr in
      case ensureIdentityPrerequisite env endpoint w of
        (Some err, w1) \<Rightarrow> (Some err, cr, w1)
      | (None, w1) \<Rightarrow>
          (case updateAAAARecord env externalID p (mo_uid cr) w1 of
             (Inl err, w2) \<Rightarrow> (Some (Wrapped errUpdateAAAARecord err), cr, w2)
           | (Inr rec, w2) \<Rightarrow>
               if aar_Ref rec \<noteq> [] \<and> aar_Ref rec \<noteq> externalID then
                 (case Refresh env cr (aar_Ref rec) w2 of
                    (Some err, cr1, w3) \<Rightarrow> (Some (Wrapped errPersistExternalName err), cr1, w3)
                  | (None, cr1, w3) \<Rightarrow> (None, cr1, w3))
               else (None, cr, w2)))"

definition cluster_AAAARecord_Delete ::
  "(RecordAAAA, aaaa_req) wapi \<Rightarrow> string \<Rightarrow> AAAARecordCR \<Rightarrow> aaaa_req world \<Rightarrow> goerr option \<times> aaaa_req world" where
  "cluster_AAAARecord_Delete env endpoint cr w =
     (let externalID = GetExternalName cr in
      case deleteAAAARecordIdentity env endpoint externalID (mo_uid cr) w of
        (Some err, w1) \<Rightarrow> (Some err, w1)
      | (None, w1) \<Rightarrow> (None, w1))"

section \<open>The contract of the ladder client\<close>

text \<open>The requests of a spec, what a Grid object holds of a request, and the drift check of a resource.\<close>

definition aaaa_create_request :: "AAAARecordParameters \<Rightarrow> string \<Rightarrow> aaaa_req" where
  "aaaa_create_request p uid = CreateAAAARecord
     ((if strOrEmpty (aap_Cidr p) \<noteq> [] \<and> strOrEmpty (aap_NetworkView p) = [] then ''default'' else
         strOrEmpty (aap_NetworkView p))) (strOrEmpty (aap_View p)) (strOrEmpty (aap_Name p)) (strOrEmpty (aap_Cidr p))
         (strOrEmpty (aap_IPv6Addr p)) (boolOrFalse (aap_UseTTL p)) (ttlOrZero (aap_TTL p)) (strOrEmpty (aap_Comment p))
         (Stamp (buildEA (aap_ExtAttrs p)) uid)"

definition aaaa_update_request :: "string \<Rightarrow> AAAARecordParameters \<Rightarrow> string \<Rightarrow> aaaa_req" where
  "aaaa_update_request ref p uid = UpdateAAAARecord ref
     [] (strOrEmpty (aap_Name p)) (strOrEmpty (aap_IPv6Addr p)) [] (boolOrFalse (aap_UseTTL p)) (ttlOrZero (aap_TTL
         p)) (strOrEmpty (aap_Comment p)) (Stamp (buildEA (aap_ExtAttrs p)) uid)"

fun aaaa_req_ea :: "aaaa_req \<Rightarrow> ea" where
  "aaaa_req_ea (CreateAAAARecord netView dnsView recordName cidr ipAddr useTTL ttl comment ea) = ea"
| "aaaa_req_ea (UpdateAAAARecord ref netView recordName ipAddr cidr useTTL ttl comment ea) = ea"

fun aaaa_holds :: "aaaa_req \<Rightarrow> RecordAAAA \<Rightarrow> bool" where
  "aaaa_holds (CreateAAAARecord netView dnsView recordName cidr ipAddr useTTL ttl comment ea) rec \<longleftrightarrow>
     strOrEmpty (aar_Name rec) = recordName \<and>
     (ipAddr \<noteq> [] \<longrightarrow> strOrEmpty (aar_Ipv6Addr rec) = ipAddr) \<and>
     strOrEmpty (aar_Comment rec) = comment \<and>
     boolOrFalse (aar_UseTtl rec) = useTTL \<and>
     (useTTL \<longrightarrow> ttlOrZero (aar_Ttl rec) = ttl) \<and>
     aar_Ea rec = ea"
| "aaaa_holds (UpdateAAAARecord ref netView recordName ipAddr cidr useTTL ttl comment ea) rec \<longleftrightarrow>
     strOrEmpty (aar_Name rec) = recordName \<and>
     (ipAddr \<noteq> [] \<longrightarrow> strOrEmpty (aar_Ipv6Addr rec) = ipAddr) \<and>
     strOrEmpty (aar_Comment rec) = comment \<and>
     boolOrFalse (aar_UseTtl rec) = useTTL \<and>
     (useTTL \<longrightarrow> ttlOrZero (aar_Ttl rec) = ttl) \<and>
     aar_Ea rec = ea"

definition AAAARecord_utd :: "AAAARecordCR \<Rightarrow> RecordAAAA \<Rightarrow> bool" where
  "AAAARecord_utd cr rec = (let p = aa_ForProvider cr in
     AAAARecord_isUpToDate (aap_Name p) (aap_IPv6Addr p) (aap_Comment p) (aap_TTL p)
                                (aap_UseTTL p) (aap_ExtAttrs p) rec)"

definition AAAARecord_spec_ok :: "AAAARecordCR \<Rightarrow> bool" where
  "AAAARecord_spec_ok cr \<longleftrightarrow> (let p = aa_ForProvider cr in reserved_free (aap_ExtAttrs p) \<and> strOrEmpty (aap_IPv6Addr p) \<noteq> [])"

definition AAAARecord_keeps :: "aaaa_late \<Rightarrow> aaaa_late \<Rightarrow> bool" where
  "AAAARecord_keeps l l' = (case (l, l') of ((comment, ttl, useTTL, extAttrs), (comment', ttl', useTTL', extAttrs'))
      \<Rightarrow>
     keeps_set comment comment' \<and> keeps_set ttl ttl' \<and> keeps_set useTTL useTTL' \<and> keeps_attrs extAttrs extAttrs')"

definition AAAARecord_get :: "AAAARecordCR \<Rightarrow> aaaa_late" where
  "AAAARecord_get cr = AAAARecord_latePart (aa_ForProvider cr)"

definition AAAARecord_put :: "AAAARecordCR \<Rightarrow> aaaa_late \<Rightarrow> AAAARecordCR" where
  "AAAARecord_put cr l = cr\<lparr>aa_ForProvider := AAAARecord_setLate (aa_ForProvider cr) l\<rparr>"

definition AAAARecord_status :: "RecordAAAA \<Rightarrow> AAAARecordCR \<Rightarrow> AAAARecordCR" where
  "AAAARecord_status rec cr =
     (let o1 = observeFromRecordAAAA (aar_Ref rec) rec; p = aa_ForProvider cr in
      cr\<lparr>aa_AtProvider :=
        \<lparr>aas_ID = aao_ID o1, aas_Name = aao_Name o1, aas_IPv6Addr = aao_IPv6Addr o1, aas_Comment =
        aao_Comment o1, aas_TTL = aao_TTL o1, aas_UseTTL = aao_UseTTL o1, aas_ExtAttrs =
        aao_ExtAttrs o1, aas_View = aao_View o1, aas_Cidr = aap_Cidr p, aas_NetworkView =
        aap_NetworkView p, aas_Ref = aao_Ref o1, aas_Zone = aao_Zone o1\<rparr>\<rparr>)"

definition AAAARecord_valid :: "AAAARecordCR \<Rightarrow> goerr option" where
  "AAAARecord_valid cr = (let p = aa_ForProvider cr; uid = mo_uid cr in validateAAAARecordCreateInputs (aap_IPv6Addr
      p) (aap_Cidr p) uid)"

lemma AAAARecord_lateInitialize_eq:
  "AAAARecord_lateInitialize (comment, ttl, useTTL, extAttrs) rec =
     (let comment1 = fill comment (ptrIfSet (aar_Comment rec));
          useTTL1 = fill useTTL (aar_UseTtl rec);
          ttl1 = fill_if ttl (boolOrFalse useTTL1) (aar_Ttl rec);
          extAttrs1 = fill_map extAttrs (userAttrs (aar_Ea rec))
      in ((comment1, ttl1, useTTL1, extAttrs1), (comment1, ttl1, useTTL1, extAttrs1) \<noteq> (comment, ttl, useTTL,
          extAttrs)))"
  by (simp only: AAAARecord_lateInitialize_def userAttrs_def [symmetric] Let_def case_prod_conv fill_steps
      prod.inject fill_changed ptrIfSet_set simp_thms de_Morgan_conj disj_ac)

interpretation aaaa_late: late_lens AAAARecord_lateInitialize AAAARecord_keeps AAAARecord_get AAAARecord_put AAAARecord_utd
proof
  fix l l' :: aaaa_late and rec :: RecordAAAA and cr :: AAAARecordCR
  obtain comment ttl useTTL extAttrs where l: "l = (comment, ttl, useTTL, extAttrs)" by (cases l) auto
  show "AAAARecord_lateInitialize (fst (AAAARecord_lateInitialize l rec)) rec = (fst (AAAARecord_lateInitialize l
      rec), False)"
    by (simp add: l AAAARecord_lateInitialize_eq Let_def)
  show "snd (AAAARecord_lateInitialize l rec) \<longleftrightarrow> fst (AAAARecord_lateInitialize l rec) \<noteq> l"
    by (simp add: l AAAARecord_lateInitialize_eq Let_def)
  show "AAAARecord_keeps l (fst (AAAARecord_lateInitialize l rec))"
    by (simp add: l AAAARecord_lateInitialize_eq Let_def AAAARecord_keeps_def keeps_fill)
  show "AAAARecord_get (AAAARecord_put cr l) = l"
    by (simp add: l AAAARecord_get_def AAAARecord_put_def AAAARecord_latePart_def AAAARecord_setLate_def)
  show "AAAARecord_put cr (AAAARecord_get cr) = cr"
    by (simp add: AAAARecord_get_def AAAARecord_put_def AAAARecord_latePart_def AAAARecord_setLate_def)
  show "AAAARecord_put (AAAARecord_put cr l) l' = AAAARecord_put cr l'"
    by (simp add: AAAARecord_put_def AAAARecord_setLate_def split: prod.split)
  show "AAAARecord_utd (AAAARecord_put cr (fst (AAAARecord_lateInitialize (AAAARecord_get cr) rec))) rec" if "AAAARecord_utd cr rec"
    using that
    by (auto simp: AAAARecord_get_def AAAARecord_put_def AAAARecord_latePart_def AAAARecord_setLate_def AAAARecord_lateInitialize_eq Let_def
        AAAARecord_utd_def AAAARecord_isUpToDate_def extAttrsEqual_iff simp flip: userAttrs_def split: if_splits)
qed

lemma RecordAAAA_type_simps [simp]:
  "ot_name RecordAAAA_type = ''record:aaaa''" "ref_ea_shape RecordAAAA_type"
  "stamped RecordAAAA_type rec = eaValue (aar_Ea rec) EAKey"
  by (simp_all add: ref_ea_shape_def stamped_def RecordAAAA_type_def reflectRecordAAAA_def getRef_def getEA_def)

lemma deleteAAAARecord_issue: "deleteAAAARecord env = issue_delete env"
  by (intro ext) (simp only: deleteAAAARecord_def issue_delete_def)

lemma createAAAARecord_valid:
  assumes "AAAARecord_valid cr = None"
  shows "createAAAARecord env (aa_ForProvider cr) (mo_uid cr) w = mutate_object env (aaaa_create_request
      (aa_ForProvider cr) (mo_uid cr)) w"
  using assms
  by (auto simp: createAAAARecord_def aaaa_create_request_def AAAARecord_valid_def Let_def validateAAAARecordCreateInputs_def AAAARecord_defaultNetworkView_def split: if_splits option.splits)


lemma AAAARecord_Observe_shape:
  "namespaced_AAAARecord_Observe env ep cr w =
     ladder_observe_shape (ladder_observe_error errObserveAAAARecord) (Resolve env RecordAAAA_type)
         (ensureIdentityPrerequisite env ep)
       (\<lambda>r. r \<noteq> []) (\<lambda>r. True) (lift_late AAAARecord_lateInitialize AAAARecord_get
           AAAARecord_put) AAAARecord_status AAAARecord_utd aar_Ref cr w"
proof -
  have same: "cr\<lparr>aa_ForProvider := AAAARecord_setLate (aa_ForProvider cr) (AAAARecord_latePart (aa_ForProvider cr))\<rparr> = cr"
    by (simp add: AAAARecord_latePart_def AAAARecord_setLate_def)
  obtain r w1 where r: "Resolve env RecordAAAA_type (observeRefFor (mo_name cr) (GetExternalName cr)) (mo_uid cr) w =
      (r, w1)"
    by (cases "Resolve env RecordAAAA_type (observeRefFor (mo_name cr) (GetExternalName cr)) (mo_uid cr) w")
  obtain e w2 where e: "ensureIdentityPrerequisite env ep w1 = (e, w2)"
    by (cases "ensureIdentityPrerequisite env ep w1")
  note defs = namespaced_AAAARecord_Observe_def observeAAAARecord_def resolveAAAARecordIdentity_def ladder_observe_shape_def ladder_observe_error_def
  show ?thesis
  proof (cases r)
    case (Inl err)
    then show ?thesis
      by (cases e) (simp_all add: defs Let_def r e same)
  next
    case (Inr a)
    obtain obj out where a: "a = (obj, out)" by (cases a)
    show ?thesis
    proof (cases obj)
      case None
      then show ?thesis
        by (simp add: defs Let_def r Inr a same AAAARecord_notFoundResult_def)
    next
      case (Some rec)
      obtain l c where "AAAARecord_lateInitialize (AAAARecord_latePart (aa_ForProvider cr)) rec = (l, c)"
        by (cases "AAAARecord_lateInitialize (AAAARecord_latePart (aa_ForProvider cr)) rec")
      with Some show ?thesis
        by (simp add: defs Let_def r Inr a same lift_late_def AAAARecord_get_def AAAARecord_put_def
            AAAARecord_status_def AAAARecord_utd_def AAAARecord_notFoundResult_def observeFromRecordAAAA_def)
    qed
  qed
qed

lemma AAAARecord_Create_shape:
  "namespaced_AAAARecord_Create env ep cr w =
     ladder_create_shape errCreateAAAARecord AAAARecord_valid (ensureIdentityPrerequisite env ep) (mutate_object env)
       (\<lambda>cr. aaaa_create_request (aa_ForProvider cr) (mo_uid cr)) aar_Ref cr w"
proof -
  obtain e w1 where e: "ensureIdentityPrerequisite env ep w = (e, w1)"
    by (cases "ensureIdentityPrerequisite env ep w")
  have v: "(let p = aa_ForProvider cr; uid = mo_uid cr in validateAAAARecordCreateInputs (aap_IPv6Addr p) (aap_Cidr p)
      uid) = AAAARecord_valid cr"
    by (simp only: AAAARecord_valid_def)
  show ?thesis
  proof (cases "AAAARecord_valid cr")
    case None
    then show ?thesis
      using createAAAARecord_valid [OF None, of env w1] v
      by (cases e) (simp_all add: namespaced_AAAARecord_Create_def ladder_create_shape_def Let_def e split: if_splits)
  next
    case (Some err)
    then show ?thesis
      using v by (simp add: namespaced_AAAARecord_Create_def ladder_create_shape_def Let_def split: if_splits)
  qed
qed

lemma AAAARecord_Update_shape:
  "namespaced_AAAARecord_Update env ep cr w =
     ladder_update_shape errUpdateAAAARecord AAAARecord_errEmptyUID env (ensureIdentityPrerequisite env ep)
       (\<lambda>cr. aaaa_update_request (GetExternalName cr) (aa_ForProvider cr) (mo_uid cr)) aar_Ref cr w"
proof -
  obtain e w1 where e: "ensureIdentityPrerequisite env ep w = (e, w1)"
    by (cases "ensureIdentityPrerequisite env ep w")
  show ?thesis
    by (cases e; cases "wapi_mutate env (calls w1) (aaaa_update_request (GetExternalName cr) (aa_ForProvider cr)
        (mo_uid cr))")
      (auto simp: namespaced_AAAARecord_Update_def ladder_update_shape_def updateAAAARecord_def aaaa_update_request_def
        Let_def e mutate_object_def)
qed

lemma AAAARecord_Delete_shape:
  "namespaced_AAAARecord_Delete env ep cr w =
     ladder_delete_shape errDeleteAAAARecord errDeleteUnverifiedOwnership nilDereference
       (Resolve env RecordAAAA_type (GetExternalName cr) (mo_uid cr)) (ensureIdentityPrerequisite env ep)
       (issue_delete env) aar_Ref w"
proof -
  have "namespaced_AAAARecord_Delete env ep cr w = deleteAAAARecordIdentity env ep (GetExternalName cr) (mo_uid cr) w"
    by (simp add: namespaced_AAAARecord_Delete_def Let_def split: prod.split option.split)
  then show ?thesis
    by (simp only: deleteAAAARecordIdentity_def ladder_delete_shape_def resolveAAAARecordIdentity_def deleteAAAARecord_issue)
qed

lemma AAAARecord_scopes:
  "cluster_AAAARecord_Observe = namespaced_AAAARecord_Observe" "cluster_AAAARecord_Create = namespaced_AAAARecord_Create"
  "cluster_AAAARecord_Update = namespaced_AAAARecord_Update" "cluster_AAAARecord_Delete = namespaced_AAAARecord_Delete"
  by (intro ext, simp only: cluster_AAAARecord_Observe_def namespaced_AAAARecord_Observe_def
      cluster_AAAARecord_Create_def
      namespaced_AAAARecord_Create_def cluster_AAAARecord_Update_def namespaced_AAAARecord_Update_def
      cluster_AAAARecord_Delete_def namespaced_AAAARecord_Delete_def)+

lemma aaaa_written_utd:
  assumes "AAAARecord_spec_ok cr"
    and "aaaa_holds (aaaa_create_request (aa_ForProvider cr) (mo_uid cr)) rec \<and> AAAARecord_valid cr = None \<or>
      aaaa_holds (aaaa_update_request (GetExternalName cr) (aa_ForProvider cr) (mo_uid cr)) rec"
  shows "AAAARecord_utd (fst (lift_late AAAARecord_lateInitialize AAAARecord_get AAAARecord_put cr rec)) rec \<and>
    eaValue (aar_Ea rec) EAKey = Some (mo_uid cr)"
proof -
  note reqs = aaaa_create_request_def aaaa_update_request_def
  have ok: "reserved_free (aap_ExtAttrs (aa_ForProvider cr))" "strOrEmpty (aap_IPv6Addr (aa_ForProvider cr)) \<noteq> []"
    using assms(1) by (simp_all add: AAAARecord_spec_ok_def Let_def)
  have ea: "aar_Ea rec = Stamp (buildEA (aap_ExtAttrs (aa_ForProvider cr))) (mo_uid cr)"
    using assms(2) by (elim disjE) (simp_all add: reqs)
  have fields: 
    "strOrEmpty (aap_Name (aa_ForProvider cr)) = strOrEmpty (aar_Name rec)" 
    "strOrEmpty (aap_IPv6Addr (aa_ForProvider cr)) = strOrEmpty (aar_Ipv6Addr rec)" 
    "strOrEmpty (aap_Comment (aa_ForProvider cr)) = strOrEmpty (aar_Comment rec)" 
    "boolOrFalse (aap_UseTTL (aa_ForProvider cr)) = boolOrFalse (aar_UseTtl rec)" 
    "boolOrFalse (aap_UseTTL (aa_ForProvider cr)) \<Longrightarrow> ttlOrZero (aap_TTL (aa_ForProvider cr)) = ttlOrZero (aar_Ttl rec)"
    using assms(2) ok by (elim disjE; simp add: reqs)+
  have "userAttrs (aar_Ea rec) = aap_ExtAttrs (aa_ForProvider cr)"
    using ok(1) by (simp add: ea userAttrs_buildEA reserved_free_fmdrop)
  then have "AAAARecord_utd cr rec"
    using fields
    by (simp add: AAAARecord_utd_def AAAARecord_isUpToDate_def Let_def extAttrsEqual_iff flip: userAttrs_def)
  with ea show ?thesis using aaaa_late.late_utd by simp
qed

interpretation aaaa: refreshing_client "lift_late AAAARecord_lateInitialize AAAARecord_get AAAARecord_put" AAAARecord_utd
  "\<lambda>s s'. AAAARecord_keeps (AAAARecord_get s) (AAAARecord_get s')"
  RecordAAAA_type aar_Ref AAAARecord_status AAAARecord_valid
  "\<lambda>cr. aaaa_create_request (aa_ForProvider cr) (mo_uid cr)"
  "\<lambda>cr. aaaa_update_request (GetExternalName cr) (aa_ForProvider cr) (mo_uid cr)"
  aaaa_req_ea aaaa_holds AAAARecord_spec_ok
  "ladder_observe_error errObserveAAAARecord" "\<lambda>r. r \<noteq> []" "\<lambda>r. True" aar_Ref errCreateAAAARecord errUpdateAAAARecord errDeleteAAAARecord AAAARecord_errEmptyUID
  namespaced_AAAARecord_Observe namespaced_AAAARecord_Create namespaced_AAAARecord_Update namespaced_AAAARecord_Delete
proof (unfold_locales, goal_cases)
  case (6 cr)
  then show ?case by (auto simp: AAAARecord_valid_def Let_def validateAAAARecordCreateInputs_def split: if_splits)
next
  case (13 n cr rec)
  have "AAAARecord_get (SetExternalName n cr) = AAAARecord_get cr"
    "AAAARecord_put (SetExternalName n cr) l = SetExternalName n (AAAARecord_put cr l)" for l
    by (simp_all add: AAAARecord_get_def AAAARecord_put_def SetExternalName_def)
  then show ?case
    by (simp add: aaaa_late.lifted_simps AAAARecord_utd_def SetExternalName_def)
next
  case (14 cr rec)
  then show ?case using aaaa_written_utd [of cr rec] by simp
next
  case (15 cr rec)
  then show ?case using aaaa_written_utd [of cr rec] by simp
qed (simp_all add: AAAARecord_Observe_shape AAAARecord_Create_shape AAAARecord_Update_shape AAAARecord_Delete_shape
    aaaa_late.lifted_simps AAAARecord_put_def AAAARecord_status_def Let_def
    aaaa_create_request_def aaaa_update_request_def)

end
