(* ===== verification/CNAMERecord.thy ===== *)
theory CNAMERecord
  imports LadderClient
begin

text \<open>
  internal/controller/recordcname: the CNAMERecord controller, a client of the identity ladder.
\<close>

section \<open>Data\<close>

text \<open>ibclient.RecordCNAME, as the provider requests it.\<close>

record RecordCNAME =
  cnr_Ref :: string
  cnr_Name :: "string option"
  cnr_Canonical :: "string option"
  cnr_Comment :: "string option"
  cnr_Ttl :: "32 word option"
  cnr_UseTtl :: "bool option"
  cnr_Ea :: ea
  cnr_View :: "string option"
  cnr_Zone :: string

definition emptyRecordCNAME :: RecordCNAME where
  "emptyRecordCNAME = \<lparr>cnr_Ref = [], cnr_Name = None, cnr_Canonical = None, cnr_Comment = None, cnr_Ttl = None,
      cnr_UseTtl = None, cnr_Ea = fmempty, cnr_View = None, cnr_Zone = []\<rparr>"

definition reflectRecordCNAME :: "RecordCNAME \<Rightarrow> goany" where
  "reflectRecordCNAME r = PtrTo ''*ibclient.RecordCNAME''
     [(''Ref'', FString (cnr_Ref r)),
      (''Name'', FOther),
      (''Canonical'', FOther),
      (''Comment'', FOther),
      (''Ttl'', FOther),
      (''UseTtl'', FOther),
      (''Ea'', FEA (cnr_Ea r)),
      (''View'', FOther),
      (''Zone'', FString (cnr_Zone r))]"

definition RecordCNAME_type :: "RecordCNAME objtype" where
  "RecordCNAME_type = \<lparr>ot_name = ''record:cname'', ot_empty = emptyRecordCNAME, ot_reflect =
      reflectRecordCNAME\<rparr>"

text \<open>The ObjectManager requests, with their arguments in call order.\<close>

datatype cname_req =
    CreateCNAMERecord string string string bool "32 word" string ea
      \<comment> \<open>dnsView, canonical, recordName, useTTL, ttl, comment, ea\<close>
  | UpdateCNAMERecord string string string bool "32 word" string ea
      \<comment> \<open>ref, canonical, recordName, useTTL, ttl, comment, ea\<close>

record CNAMERecordParameters =
  cnp_Name :: "string option"
  cnp_Canonical :: "string option"
  cnp_Comment :: "string option"
  cnp_TTL :: "32 word option"
  cnp_UseTTL :: "bool option"
  cnp_ExtAttrs :: extattrs
  cnp_View :: "string option"

record CNAMERecordObservation =
  cns_ID :: string
  cns_Name :: "string option"
  cns_Canonical :: "string option"
  cns_Comment :: "string option"
  cns_TTL :: "32 word option"
  cns_UseTTL :: "bool option"
  cns_ExtAttrs :: extattrs
  cns_View :: "string option"
  cns_Ref :: "string option"
  cns_Zone :: "string option"

record CNAMERecordCR = mobj +
  cn_ForProvider :: CNAMERecordParameters
  cn_AtProvider :: CNAMERecordObservation

section \<open>Error messages\<close>

definition errObserveCNAMERecord :: string where "errObserveCNAMERecord = ''cannot observe CNAMERecord''"
definition errCreateCNAMERecord :: string where "errCreateCNAMERecord = ''cannot create CNAMERecord''"
definition errUpdateCNAMERecord :: string where "errUpdateCNAMERecord = ''cannot update CNAMERecord''"
definition errDeleteCNAMERecord :: string where "errDeleteCNAMERecord = ''cannot delete CNAMERecord''"
definition CNAMERecord_errEmptyUID :: string where
  "CNAMERecord_errEmptyUID = ''cannot stamp CNAMERecord identity: managed resource's metadata.uid is empty''"

section \<open>Field comparison and late initialisation\<close>

definition CNAMERecord_isUpToDate ::
  "string option \<Rightarrow> string option \<Rightarrow> string option \<Rightarrow> 32 word option \<Rightarrow>
      bool option \<Rightarrow> extattrs \<Rightarrow> RecordCNAME \<Rightarrow> bool" where
  "CNAMERecord_isUpToDate name canonical comment ttl useTTL extAttrs rec =
     (if strOrEmpty name \<noteq> strOrEmpty (cnr_Name rec) then False
      else if strOrEmpty canonical \<noteq> strOrEmpty (cnr_Canonical rec) then False
      else if strOrEmpty comment \<noteq> strOrEmpty (cnr_Comment rec) then False
      else if boolOrFalse useTTL \<noteq> boolOrFalse (cnr_UseTtl rec) then False
      else if boolOrFalse useTTL \<and> ttlOrZero ttl \<noteq> ttlOrZero (cnr_Ttl rec) then False
      else extAttrsEqual extAttrs (extAttrsFromEA (Strip (cnr_Ea rec))))"

text \<open>The ForProvider fields lateInitialize takes pointers to.\<close>

type_synonym cname_late = "string option \<times> 32 word option \<times> bool option \<times> extattrs"

definition CNAMERecord_lateInitialize :: "cname_late \<Rightarrow> RecordCNAME \<Rightarrow> cname_late \<times> bool" where
  "CNAMERecord_lateInitialize p rec =
     (case p of (comment, ttl, useTTL, extAttrs) \<Rightarrow>
       (let (comment1, c1) = (if comment = None \<and> cnr_Comment rec \<noteq> None \<and> cnr_Comment rec \<noteq> Some []
                             then (cnr_Comment rec, True) else (comment, False));
            (useTTL1, c2) = (if useTTL = None \<and> cnr_UseTtl rec \<noteq> None
                             then (cnr_UseTtl rec, True) else (useTTL, c1));
            (ttl1, c3) = (if ttl = None \<and> cnr_Ttl rec \<noteq> None \<and> boolOrFalse useTTL1
                             then (cnr_Ttl rec, True) else (ttl, c2));
            fromRec = extAttrsFromEA (Strip (cnr_Ea rec));
            (extAttrs1, c4) = (if extAttrs = fmempty \<and> fromRec \<noteq> fmempty
                             then (fromRec, True) else (extAttrs, c3))
        in ((comment1, ttl1, useTTL1, extAttrs1), c4)))"

record observedCNAMERecord =
  cno_ID :: string
  cno_Name :: "string option"
  cno_Canonical :: "string option"
  cno_Comment :: "string option"
  cno_TTL :: "32 word option"
  cno_UseTTL :: "bool option"
  cno_ExtAttrs :: extattrs
  cno_View :: "string option"
  cno_Ref :: "string option"
  cno_Zone :: "string option"

definition observeFromRecordCNAME :: "string \<Rightarrow> RecordCNAME \<Rightarrow> observedCNAMERecord" where
  "observeFromRecordCNAME externalID rec =
     \<lparr>cno_ID = externalID,
      cno_Name = cnr_Name rec,
      cno_Canonical = cnr_Canonical rec,
      cno_Comment = ptrIfSet (cnr_Comment rec),
      cno_TTL = cnr_Ttl rec,
      cno_UseTTL = cnr_UseTtl rec,
      cno_ExtAttrs = extAttrsFromEA (cnr_Ea rec),
      cno_View = ptrIfSet (cnr_View rec),
      cno_Ref = ptrIfNonEmpty (cnr_Ref rec),
      cno_Zone = ptrIfNonEmpty (cnr_Zone rec)\<rparr>"

section \<open>SDK calls\<close>

definition createCNAMERecord ::
  "(RecordCNAME, cname_req) wapi \<Rightarrow> CNAMERecordParameters \<Rightarrow> string \<Rightarrow> cname_req
      world \<Rightarrow> (goerr + RecordCNAME) \<times> cname_req world" where
  "createCNAMERecord env p uid w =
     (if trim_space uid = [] then (Inl (TextError CNAMERecord_errEmptyUID), w)
      else
        (let e = Stamp (buildEA (cnp_ExtAttrs p)) uid
         in mutate_object env
              (CreateCNAMERecord (strOrEmpty (cnp_View p)) (strOrEmpty (cnp_Canonical p)) (strOrEmpty (cnp_Name p))
                  (boolOrFalse (cnp_UseTTL p)) (ttlOrZero (cnp_TTL p)) (strOrEmpty (cnp_Comment p)) e) w))"

definition updateCNAMERecord ::
  "(RecordCNAME, cname_req) wapi \<Rightarrow> string \<Rightarrow> CNAMERecordParameters \<Rightarrow> string
      \<Rightarrow> cname_req world \<Rightarrow> (goerr + RecordCNAME) \<times> cname_req world" where
  "updateCNAMERecord env ref p uid w =
     (if trim_space uid = [] then (Inl (TextError CNAMERecord_errEmptyUID), w)
      else
        (let e = Stamp (buildEA (cnp_ExtAttrs p)) uid
         in mutate_object env
              (UpdateCNAMERecord ref (strOrEmpty (cnp_Canonical p)) (strOrEmpty (cnp_Name p)) (boolOrFalse (cnp_UseTTL
                  p)) (ttlOrZero (cnp_TTL p)) (strOrEmpty (cnp_Comment p)) e) w))"

definition deleteCNAMERecord :: "(RecordCNAME, cname_req) wapi \<Rightarrow> string \<Rightarrow> cname_req world
    \<Rightarrow> goerr option \<times> cname_req world" where
  "deleteCNAMERecord env ref w =
     (case delete_object env ref w of
        (Inl err, w1) \<Rightarrow> (Some err, w1)
      | (Inr _, w1) \<Rightarrow> (None, w1))"

section \<open>Identity resolution\<close>

definition resolveCNAMERecordIdentity ::
  "(RecordCNAME, cname_req) wapi \<Rightarrow> string \<Rightarrow> string \<Rightarrow> cname_req world \<Rightarrow>
      (goerr + RecordCNAME option \<times> Outcome) \<times> cname_req world" where
  "resolveCNAMERecordIdentity env ref uid w = Resolve env RecordCNAME_type ref uid w"

type_synonym CNAMERecord_observeResult = "(RecordCNAME, observedCNAMERecord) observeResult"

definition CNAMERecord_notFoundResult :: CNAMERecord_observeResult where
  "CNAMERecord_notFoundResult =
     \<lparr>ores_exists = False, ores_rec = emptyRecordCNAME, ores_obs = observeFromRecordCNAME [] emptyRecordCNAME,
      ores_lateInit = False, ores_refreshedRef = [], ores_adopted = False\<rparr>"

definition observeCNAMERecord ::
  "(RecordCNAME, cname_req) wapi \<Rightarrow> string \<Rightarrow> string \<Rightarrow> string \<Rightarrow> string \<Rightarrow> cname_late \<Rightarrow> cname_req world \<Rightarrow>
     (goerr + CNAMERecord_observeResult) \<times> cname_late \<times> cname_req world" where
  "observeCNAMERecord env endpoint crName externalName uid p w =
     (let ref = observeRefFor crName externalName in
      case resolveCNAMERecordIdentity env ref uid w of
        (Inl err, w1) \<Rightarrow>
          if IsSearchFailure err then
            (case ensureIdentityPrerequisite env endpoint w1 of
               (Some prereqErr, w2) \<Rightarrow> (Inl prereqErr, p, w2)
             | (None, w2) \<Rightarrow> (Inl err, p, w2))
          else (Inl err, p, w1)
      | (Inr (obj, outcome), w1) \<Rightarrow>
          if outcome = OutcomeNotFound then (Inr CNAMERecord_notFoundResult, p, w1)
          else
            (case obj of
               None \<Rightarrow> (Inl (TextError nilDereference), p, w1)
             | Some rec \<Rightarrow>
                 (case CNAMERecord_lateInitialize p rec of (p1, changed) \<Rightarrow>
                    (let found = (outcome = OutcomeRotated \<or> outcome = OutcomeFoundByUID)
                     in (Inr \<lparr>ores_exists = True, ores_rec = rec,
                              ores_obs = observeFromRecordCNAME (cnr_Ref rec) rec,
                              ores_lateInit = (if found then True else changed),
                              ores_refreshedRef = (if found then cnr_Ref rec else []),
                              ores_adopted = (outcome = OutcomeAdopted)\<rparr>, p1, w1)))))"

definition deleteCNAMERecordIdentity ::
  "(RecordCNAME, cname_req) wapi \<Rightarrow> string \<Rightarrow> string \<Rightarrow> string \<Rightarrow>
      cname_req world \<Rightarrow> goerr option \<times> cname_req world" where
  "deleteCNAMERecordIdentity env endpoint ref uid w =
     (case resolveCNAMERecordIdentity env ref uid w of
        (Inl err, w1) \<Rightarrow>
          if IsSearchFailure err then
            (case ensureIdentityPrerequisite env endpoint w1 of
               (Some prereqErr, w2) \<Rightarrow> (Some prereqErr, w2)
             | (None, w2) \<Rightarrow> (Some (Wrapped errDeleteCNAMERecord err), w2))
          else (Some (Wrapped errDeleteCNAMERecord err), w1)
      | (Inr (obj, outcome), w1) \<Rightarrow>
          (case outcome of
             OutcomeNotFound \<Rightarrow> (None, w1)
           | OutcomeAdopted \<Rightarrow> (Some (TextError errDeleteUnverifiedOwnership), w1)
           | _ \<Rightarrow>
               (case obj of
                  None \<Rightarrow> (Some (TextError nilDereference), w1)
                | Some rec \<Rightarrow>
                    (case deleteCNAMERecord env (cnr_Ref rec) w1 of
                       (None, w2) \<Rightarrow> (None, w2)
                     | (Some delErr, w2) \<Rightarrow>
                         if isNotFound (Some delErr) then (None, w2)
                         else (Some (Wrapped errDeleteCNAMERecord delErr), w2)))))"

section \<open>The external clients\<close>

text \<open>The pointers to spec fields Observe hands over, and their write-back.\<close>

definition CNAMERecord_latePart :: "CNAMERecordParameters \<Rightarrow> cname_late" where
  "CNAMERecord_latePart p = (cnp_Comment p, cnp_TTL p, cnp_UseTTL p, cnp_ExtAttrs p)"

definition CNAMERecord_setLate :: "CNAMERecordParameters \<Rightarrow> cname_late \<Rightarrow> CNAMERecordParameters" where
  "CNAMERecord_setLate p l = (case l of (comment, ttl, useTTL, extAttrs) \<Rightarrow>
     p\<lparr>cnp_Comment := comment, cnp_TTL := ttl, cnp_UseTTL := useTTL, cnp_ExtAttrs := extAttrs\<rparr>)"

subsection \<open>namespaced.go\<close>

definition namespaced_CNAMERecord_Observe ::
  "(RecordCNAME, cname_req) wapi \<Rightarrow> string \<Rightarrow> CNAMERecordCR \<Rightarrow> cname_req world
      \<Rightarrow> (goerr + ExternalObservation) \<times> CNAMERecordCR \<times> cname_req world" where
  "namespaced_CNAMERecord_Observe env endpoint cr w =
     (case observeCNAMERecord env endpoint (mo_name cr) (GetExternalName cr) (mo_uid cr)
             (CNAMERecord_latePart (cn_ForProvider cr)) w of
        (Inl err, l, w1) \<Rightarrow>
          (let cr1 = cr\<lparr>cn_ForProvider := CNAMERecord_setLate (cn_ForProvider cr) l\<rparr> in
           if errors_as is_PrerequisiteError err then (Inl err, cr1, w1)
           else (Inl (Wrapped errObserveCNAMERecord err), cr1, w1))
      | (Inr res, l, w1) \<Rightarrow>
          (let p = CNAMERecord_setLate (cn_ForProvider cr) l;
               cr1 = cr\<lparr>cn_ForProvider := p\<rparr> in
           if \<not> ores_exists res then (Inr notExists, cr1, w1)
           else
             (let o1 = ores_obs res;
                  cr2 = cr1\<lparr>cn_AtProvider :=
                    \<lparr>cns_ID = cno_ID o1, cns_Name = cno_Name o1, cns_Canonical = cno_Canonical o1,
                     cns_Comment = cno_Comment o1, cns_TTL = cno_TTL o1, cns_UseTTL = cno_UseTTL o1,
                     cns_ExtAttrs = cno_ExtAttrs o1, cns_View = cno_View o1, cns_Ref = cno_Ref o1,
                     cns_Zone = cno_Zone o1\<rparr>\<rparr>;
                  cr3 = (if ores_refreshedRef res \<noteq> [] then SetExternalName (ores_refreshedRef res) cr2 else cr2);
                  cr4 = SetAvailable cr3;
                  upToDate = (CNAMERecord_isUpToDate (cnp_Name p) (cnp_Canonical p) (cnp_Comment p) (cnp_TTL p)
                                (cnp_UseTTL p) (cnp_ExtAttrs p) (ores_rec res)
                                \<and> \<not> ores_adopted res)
              in (Inr \<lparr>ResourceExists = True, ResourceUpToDate = upToDate,
                       ResourceLateInitialized = ores_lateInit res\<rparr>, cr4, w1))))"

definition namespaced_CNAMERecord_Create ::
  "(RecordCNAME, cname_req) wapi \<Rightarrow> string \<Rightarrow> CNAMERecordCR \<Rightarrow> cname_req world
      \<Rightarrow> goerr option \<times> CNAMERecordCR \<times> cname_req world" where
  "namespaced_CNAMERecord_Create env endpoint cr w =
     (let p = cn_ForProvider cr; uid = mo_uid cr in
      if trim_space uid = [] then (Some (TextError CNAMERecord_errEmptyUID), cr, w)
      else
          (case ensureIdentityPrerequisite env endpoint w of
             (Some err, w1) \<Rightarrow> (Some err, cr, w1)
           | (None, w1) \<Rightarrow>
               (case createCNAMERecord env p uid w1 of
                  (Inl err, w2) \<Rightarrow> (Some (Wrapped errCreateCNAMERecord err), cr, w2)
                | (Inr rec, w2) \<Rightarrow> (None, SetExternalName (cnr_Ref rec) cr, w2))))"

definition namespaced_CNAMERecord_Update ::
  "(RecordCNAME, cname_req) wapi \<Rightarrow> string \<Rightarrow> CNAMERecordCR \<Rightarrow> cname_req world
      \<Rightarrow> goerr option \<times> CNAMERecordCR \<times> cname_req world" where
  "namespaced_CNAMERecord_Update env endpoint cr w =
     (let p = cn_ForProvider cr; externalID = GetExternalName cr in
      case ensureIdentityPrerequisite env endpoint w of
        (Some err, w1) \<Rightarrow> (Some err, cr, w1)
      | (None, w1) \<Rightarrow>
          (case updateCNAMERecord env externalID p (mo_uid cr) w1 of
             (Inl err, w2) \<Rightarrow> (Some (Wrapped errUpdateCNAMERecord err), cr, w2)
           | (Inr rec, w2) \<Rightarrow>
               if cnr_Ref rec \<noteq> [] \<and> cnr_Ref rec \<noteq> externalID then
                 (case Refresh env cr (cnr_Ref rec) w2 of
                    (Some err, cr1, w3) \<Rightarrow> (Some (Wrapped errPersistExternalName err), cr1, w3)
                  | (None, cr1, w3) \<Rightarrow> (None, cr1, w3))
               else (None, cr, w2)))"

definition namespaced_CNAMERecord_Delete ::
  "(RecordCNAME, cname_req) wapi \<Rightarrow> string \<Rightarrow> CNAMERecordCR \<Rightarrow> cname_req world
      \<Rightarrow> goerr option \<times> cname_req world" where
  "namespaced_CNAMERecord_Delete env endpoint cr w =
     (let externalID = GetExternalName cr in
      case deleteCNAMERecordIdentity env endpoint externalID (mo_uid cr) w of
        (Some err, w1) \<Rightarrow> (Some err, w1)
      | (None, w1) \<Rightarrow> (None, w1))"

subsection \<open>cluster.go\<close>

definition cluster_CNAMERecord_Observe ::
  "(RecordCNAME, cname_req) wapi \<Rightarrow> string \<Rightarrow> CNAMERecordCR \<Rightarrow> cname_req world
      \<Rightarrow> (goerr + ExternalObservation) \<times> CNAMERecordCR \<times> cname_req world" where
  "cluster_CNAMERecord_Observe env endpoint cr w =
     (case observeCNAMERecord env endpoint (mo_name cr) (GetExternalName cr) (mo_uid cr)
             (CNAMERecord_latePart (cn_ForProvider cr)) w of
        (Inl err, l, w1) \<Rightarrow>
          (let cr1 = cr\<lparr>cn_ForProvider := CNAMERecord_setLate (cn_ForProvider cr) l\<rparr> in
           if errors_as is_PrerequisiteError err then (Inl err, cr1, w1)
           else (Inl (Wrapped errObserveCNAMERecord err), cr1, w1))
      | (Inr res, l, w1) \<Rightarrow>
          (let p = CNAMERecord_setLate (cn_ForProvider cr) l;
               cr1 = cr\<lparr>cn_ForProvider := p\<rparr> in
           if \<not> ores_exists res then (Inr notExists, cr1, w1)
           else
             (let o1 = ores_obs res;
                  cr2 = cr1\<lparr>cn_AtProvider :=
                    \<lparr>cns_ID = cno_ID o1, cns_Name = cno_Name o1, cns_Canonical = cno_Canonical o1,
                     cns_Comment = cno_Comment o1, cns_TTL = cno_TTL o1, cns_UseTTL = cno_UseTTL o1,
                     cns_ExtAttrs = cno_ExtAttrs o1, cns_View = cno_View o1, cns_Ref = cno_Ref o1,
                     cns_Zone = cno_Zone o1\<rparr>\<rparr>;
                  cr3 = (if ores_refreshedRef res \<noteq> [] then SetExternalName (ores_refreshedRef res) cr2 else cr2);
                  cr4 = SetAvailable cr3;
                  upToDate = (CNAMERecord_isUpToDate (cnp_Name p) (cnp_Canonical p) (cnp_Comment p) (cnp_TTL p)
                                (cnp_UseTTL p) (cnp_ExtAttrs p) (ores_rec res)
                                \<and> \<not> ores_adopted res)
              in (Inr \<lparr>ResourceExists = True, ResourceUpToDate = upToDate,
                       ResourceLateInitialized = ores_lateInit res\<rparr>, cr4, w1))))"

definition cluster_CNAMERecord_Create ::
  "(RecordCNAME, cname_req) wapi \<Rightarrow> string \<Rightarrow> CNAMERecordCR \<Rightarrow> cname_req world
      \<Rightarrow> goerr option \<times> CNAMERecordCR \<times> cname_req world" where
  "cluster_CNAMERecord_Create env endpoint cr w =
     (let p = cn_ForProvider cr; uid = mo_uid cr in
      if trim_space uid = [] then (Some (TextError CNAMERecord_errEmptyUID), cr, w)
      else
          (case ensureIdentityPrerequisite env endpoint w of
             (Some err, w1) \<Rightarrow> (Some err, cr, w1)
           | (None, w1) \<Rightarrow>
               (case createCNAMERecord env p uid w1 of
                  (Inl err, w2) \<Rightarrow> (Some (Wrapped errCreateCNAMERecord err), cr, w2)
                | (Inr rec, w2) \<Rightarrow> (None, SetExternalName (cnr_Ref rec) cr, w2))))"

definition cluster_CNAMERecord_Update ::
  "(RecordCNAME, cname_req) wapi \<Rightarrow> string \<Rightarrow> CNAMERecordCR \<Rightarrow> cname_req world
      \<Rightarrow> goerr option \<times> CNAMERecordCR \<times> cname_req world" where
  "cluster_CNAMERecord_Update env endpoint cr w =
     (let p = cn_ForProvider cr; externalID = GetExternalName cr in
      case ensureIdentityPrerequisite env endpoint w of
        (Some err, w1) \<Rightarrow> (Some err, cr, w1)
      | (None, w1) \<Rightarrow>
          (case updateCNAMERecord env externalID p (mo_uid cr) w1 of
             (Inl err, w2) \<Rightarrow> (Some (Wrapped errUpdateCNAMERecord err), cr, w2)
           | (Inr rec, w2) \<Rightarrow>
               if cnr_Ref rec \<noteq> [] \<and> cnr_Ref rec \<noteq> externalID then
                 (case Refresh env cr (cnr_Ref rec) w2 of
                    (Some err, cr1, w3) \<Rightarrow> (Some (Wrapped errPersistExternalName err), cr1, w3)
                  | (None, cr1, w3) \<Rightarrow> (None, cr1, w3))
               else (None, cr, w2)))"

definition cluster_CNAMERecord_Delete ::
  "(RecordCNAME, cname_req) wapi \<Rightarrow> string \<Rightarrow> CNAMERecordCR \<Rightarrow> cname_req world
      \<Rightarrow> goerr option \<times> cname_req world" where
  "cluster_CNAMERecord_Delete env endpoint cr w =
     (let externalID = GetExternalName cr in
      case deleteCNAMERecordIdentity env endpoint externalID (mo_uid cr) w of
        (Some err, w1) \<Rightarrow> (Some err, w1)
      | (None, w1) \<Rightarrow> (None, w1))"

section \<open>The contract of the ladder client\<close>

text \<open>The requests of a spec, what a Grid object holds of a request, and the drift check of a resource.\<close>

definition cname_create_request :: "CNAMERecordParameters \<Rightarrow> string \<Rightarrow> cname_req" where
  "cname_create_request p uid = CreateCNAMERecord
     (strOrEmpty (cnp_View p)) (strOrEmpty (cnp_Canonical p)) (strOrEmpty (cnp_Name p)) (boolOrFalse (cnp_UseTTL p))
         (ttlOrZero (cnp_TTL p)) (strOrEmpty (cnp_Comment p)) (Stamp (buildEA (cnp_ExtAttrs p)) uid)"

definition cname_update_request :: "string \<Rightarrow> CNAMERecordParameters \<Rightarrow> string \<Rightarrow> cname_req" where
  "cname_update_request ref p uid = UpdateCNAMERecord ref
     (strOrEmpty (cnp_Canonical p)) (strOrEmpty (cnp_Name p)) (boolOrFalse (cnp_UseTTL p)) (ttlOrZero (cnp_TTL p))
         (strOrEmpty (cnp_Comment p)) (Stamp (buildEA (cnp_ExtAttrs p)) uid)"

fun cname_req_ea :: "cname_req \<Rightarrow> ea" where
  "cname_req_ea (CreateCNAMERecord dnsView canonical recordName useTTL ttl comment ea) = ea"
| "cname_req_ea (UpdateCNAMERecord ref canonical recordName useTTL ttl comment ea) = ea"

fun cname_holds :: "cname_req \<Rightarrow> RecordCNAME \<Rightarrow> bool" where
  "cname_holds (CreateCNAMERecord dnsView canonical recordName useTTL ttl comment ea) rec \<longleftrightarrow>
     strOrEmpty (cnr_Name rec) = recordName \<and>
     strOrEmpty (cnr_Canonical rec) = canonical \<and>
     strOrEmpty (cnr_Comment rec) = comment \<and>
     boolOrFalse (cnr_UseTtl rec) = useTTL \<and>
     (useTTL \<longrightarrow> ttlOrZero (cnr_Ttl rec) = ttl) \<and>
     cnr_Ea rec = ea"
| "cname_holds (UpdateCNAMERecord ref canonical recordName useTTL ttl comment ea) rec \<longleftrightarrow>
     strOrEmpty (cnr_Name rec) = recordName \<and>
     strOrEmpty (cnr_Canonical rec) = canonical \<and>
     strOrEmpty (cnr_Comment rec) = comment \<and>
     boolOrFalse (cnr_UseTtl rec) = useTTL \<and>
     (useTTL \<longrightarrow> ttlOrZero (cnr_Ttl rec) = ttl) \<and>
     cnr_Ea rec = ea"

definition CNAMERecord_utd :: "CNAMERecordCR \<Rightarrow> RecordCNAME \<Rightarrow> bool" where
  "CNAMERecord_utd cr rec = (let p = cn_ForProvider cr in
     CNAMERecord_isUpToDate (cnp_Name p) (cnp_Canonical p) (cnp_Comment p) (cnp_TTL p)
                                (cnp_UseTTL p) (cnp_ExtAttrs p) rec)"

definition CNAMERecord_spec_ok :: "CNAMERecordCR \<Rightarrow> bool" where
  "CNAMERecord_spec_ok cr \<longleftrightarrow> (let p = cn_ForProvider cr in reserved_free (cnp_ExtAttrs p))"

definition CNAMERecord_keeps :: "cname_late \<Rightarrow> cname_late \<Rightarrow> bool" where
  "CNAMERecord_keeps l l' = (case (l, l') of ((comment, ttl, useTTL, extAttrs), (comment', ttl', useTTL', extAttrs'))
      \<Rightarrow>
     keeps_set comment comment' \<and> keeps_set ttl ttl' \<and> keeps_set useTTL useTTL' \<and> keeps_attrs extAttrs extAttrs')"

definition CNAMERecord_get :: "CNAMERecordCR \<Rightarrow> cname_late" where
  "CNAMERecord_get cr = CNAMERecord_latePart (cn_ForProvider cr)"

definition CNAMERecord_put :: "CNAMERecordCR \<Rightarrow> cname_late \<Rightarrow> CNAMERecordCR" where
  "CNAMERecord_put cr l = cr\<lparr>cn_ForProvider := CNAMERecord_setLate (cn_ForProvider cr) l\<rparr>"

definition CNAMERecord_status :: "RecordCNAME \<Rightarrow> CNAMERecordCR \<Rightarrow> CNAMERecordCR" where
  "CNAMERecord_status rec cr =
     (let o1 = observeFromRecordCNAME (cnr_Ref rec) rec; p = cn_ForProvider cr in
      cr\<lparr>cn_AtProvider :=
        \<lparr>cns_ID = cno_ID o1, cns_Name = cno_Name o1, cns_Canonical = cno_Canonical o1, cns_Comment =
        cno_Comment o1, cns_TTL = cno_TTL o1, cns_UseTTL = cno_UseTTL o1, cns_ExtAttrs =
        cno_ExtAttrs o1, cns_View = cno_View o1, cns_Ref = cno_Ref o1, cns_Zone = cno_Zone o1\<rparr>\<rparr>)"

definition CNAMERecord_valid :: "CNAMERecordCR \<Rightarrow> goerr option" where
  "CNAMERecord_valid cr = (let p = cn_ForProvider cr; uid = mo_uid cr in if trim_space uid = [] then Some (TextError CNAMERecord_errEmptyUID) else None)"

lemma CNAMERecord_lateInitialize_eq:
  "CNAMERecord_lateInitialize (comment, ttl, useTTL, extAttrs) rec =
     (let comment1 = fill comment (ptrIfSet (cnr_Comment rec));
          useTTL1 = fill useTTL (cnr_UseTtl rec);
          ttl1 = fill_if ttl (boolOrFalse useTTL1) (cnr_Ttl rec);
          extAttrs1 = fill_map extAttrs (userAttrs (cnr_Ea rec))
      in ((comment1, ttl1, useTTL1, extAttrs1), (comment1, ttl1, useTTL1, extAttrs1) \<noteq> (comment, ttl, useTTL,
          extAttrs)))"
  by (simp only: CNAMERecord_lateInitialize_def userAttrs_def [symmetric] Let_def case_prod_conv fill_steps
      prod.inject fill_changed ptrIfSet_set simp_thms de_Morgan_conj disj_ac)

interpretation cname_late: late_lens CNAMERecord_lateInitialize CNAMERecord_keeps CNAMERecord_get CNAMERecord_put CNAMERecord_utd
proof
  fix l l' :: cname_late and rec :: RecordCNAME and cr :: CNAMERecordCR
  obtain comment ttl useTTL extAttrs where l: "l = (comment, ttl, useTTL, extAttrs)" by (cases l) auto
  show "CNAMERecord_lateInitialize (fst (CNAMERecord_lateInitialize l rec)) rec = (fst (CNAMERecord_lateInitialize l
      rec), False)"
    by (simp add: l CNAMERecord_lateInitialize_eq Let_def)
  show "snd (CNAMERecord_lateInitialize l rec) \<longleftrightarrow> fst (CNAMERecord_lateInitialize l rec) \<noteq> l"
    by (simp add: l CNAMERecord_lateInitialize_eq Let_def)
  show "CNAMERecord_keeps l (fst (CNAMERecord_lateInitialize l rec))"
    by (simp add: l CNAMERecord_lateInitialize_eq Let_def CNAMERecord_keeps_def keeps_fill)
  show "CNAMERecord_get (CNAMERecord_put cr l) = l"
    by (simp add: l CNAMERecord_get_def CNAMERecord_put_def CNAMERecord_latePart_def CNAMERecord_setLate_def)
  show "CNAMERecord_put cr (CNAMERecord_get cr) = cr"
    by (simp add: CNAMERecord_get_def CNAMERecord_put_def CNAMERecord_latePart_def CNAMERecord_setLate_def)
  show "CNAMERecord_put (CNAMERecord_put cr l) l' = CNAMERecord_put cr l'"
    by (simp add: CNAMERecord_put_def CNAMERecord_setLate_def split: prod.split)
  show "CNAMERecord_utd (CNAMERecord_put cr (fst (CNAMERecord_lateInitialize (CNAMERecord_get cr) rec))) rec" if "CNAMERecord_utd cr rec"
    using that
    by (auto simp: CNAMERecord_get_def CNAMERecord_put_def CNAMERecord_latePart_def CNAMERecord_setLate_def CNAMERecord_lateInitialize_eq Let_def
        CNAMERecord_utd_def CNAMERecord_isUpToDate_def extAttrsEqual_iff simp flip: userAttrs_def split: if_splits)
qed

lemma RecordCNAME_type_simps [simp]:
  "ot_name RecordCNAME_type = ''record:cname''" "ref_ea_shape RecordCNAME_type"
  "stamped RecordCNAME_type rec = eaValue (cnr_Ea rec) EAKey"
  by (simp_all add: ref_ea_shape_def stamped_def RecordCNAME_type_def reflectRecordCNAME_def getRef_def getEA_def)

lemma deleteCNAMERecord_issue: "deleteCNAMERecord env = issue_delete env"
  by (intro ext) (simp only: deleteCNAMERecord_def issue_delete_def)

lemma createCNAMERecord_valid:
  assumes "CNAMERecord_valid cr = None"
  shows "createCNAMERecord env (cn_ForProvider cr) (mo_uid cr) w = mutate_object env (cname_create_request
      (cn_ForProvider cr) (mo_uid cr)) w"
  using assms
  by (auto simp: createCNAMERecord_def cname_create_request_def CNAMERecord_valid_def Let_def split: if_splits option.splits)


lemma CNAMERecord_Observe_shape:
  "namespaced_CNAMERecord_Observe env ep cr w =
     ladder_observe_shape (ladder_observe_error errObserveCNAMERecord) (Resolve env RecordCNAME_type)
         (ensureIdentityPrerequisite env ep)
       (\<lambda>r. r \<noteq> []) (\<lambda>r. True) (lift_late CNAMERecord_lateInitialize CNAMERecord_get
           CNAMERecord_put) CNAMERecord_status CNAMERecord_utd cnr_Ref cr w"
proof -
  have same: "cr\<lparr>cn_ForProvider := CNAMERecord_setLate (cn_ForProvider cr) (CNAMERecord_latePart (cn_ForProvider cr))\<rparr> = cr"
    by (simp add: CNAMERecord_latePart_def CNAMERecord_setLate_def)
  obtain r w1 where r: "Resolve env RecordCNAME_type (observeRefFor (mo_name cr) (GetExternalName cr)) (mo_uid cr) w =
      (r, w1)"
    by (cases "Resolve env RecordCNAME_type (observeRefFor (mo_name cr) (GetExternalName cr)) (mo_uid cr) w")
  obtain e w2 where e: "ensureIdentityPrerequisite env ep w1 = (e, w2)"
    by (cases "ensureIdentityPrerequisite env ep w1")
  note defs = namespaced_CNAMERecord_Observe_def observeCNAMERecord_def resolveCNAMERecordIdentity_def ladder_observe_shape_def ladder_observe_error_def
  show ?thesis
  proof (cases r)
    case (Inl err)
    then show ?thesis
      by (cases e) (simp_all add: defs Let_def r e same)
  next
    case (Inr a)
    obtain obj out where a: "a = (obj, out)" by (cases a)
    show ?thesis
    proof (cases obj)
      case None
      then show ?thesis
        by (simp add: defs Let_def r Inr a same CNAMERecord_notFoundResult_def)
    next
      case (Some rec)
      obtain l c where "CNAMERecord_lateInitialize (CNAMERecord_latePart (cn_ForProvider cr)) rec = (l, c)"
        by (cases "CNAMERecord_lateInitialize (CNAMERecord_latePart (cn_ForProvider cr)) rec")
      with Some show ?thesis
        by (simp add: defs Let_def r Inr a same lift_late_def CNAMERecord_get_def CNAMERecord_put_def
            CNAMERecord_status_def CNAMERecord_utd_def CNAMERecord_notFoundResult_def observeFromRecordCNAME_def)
    qed
  qed
qed

lemma CNAMERecord_Create_shape:
  "namespaced_CNAMERecord_Create env ep cr w =
     ladder_create_shape errCreateCNAMERecord CNAMERecord_valid (ensureIdentityPrerequisite env ep) (mutate_object env)
       (\<lambda>cr. cname_create_request (cn_ForProvider cr) (mo_uid cr)) cnr_Ref cr w"
proof -
  obtain e w1 where e: "ensureIdentityPrerequisite env ep w = (e, w1)"
    by (cases "ensureIdentityPrerequisite env ep w")
  have v: "(let p = cn_ForProvider cr; uid = mo_uid cr in if trim_space uid = [] then Some (TextError CNAMERecord_errEmptyUID) else None) = CNAMERecord_valid cr"
    by (simp only: CNAMERecord_valid_def)
  show ?thesis
  proof (cases "CNAMERecord_valid cr")
    case None
    then show ?thesis
      using createCNAMERecord_valid [OF None, of env w1] v
      by (cases e) (simp_all add: namespaced_CNAMERecord_Create_def ladder_create_shape_def Let_def e split: if_splits)
  next
    case (Some err)
    then show ?thesis
      using v by (simp add: namespaced_CNAMERecord_Create_def ladder_create_shape_def Let_def split: if_splits)
  qed
qed

lemma CNAMERecord_Update_shape:
  "namespaced_CNAMERecord_Update env ep cr w =
     ladder_update_shape errUpdateCNAMERecord CNAMERecord_errEmptyUID env (ensureIdentityPrerequisite env ep)
       (\<lambda>cr. cname_update_request (GetExternalName cr) (cn_ForProvider cr) (mo_uid cr)) cnr_Ref cr w"
proof -
  obtain e w1 where e: "ensureIdentityPrerequisite env ep w = (e, w1)"
    by (cases "ensureIdentityPrerequisite env ep w")
  show ?thesis
    by (cases e; cases "wapi_mutate env (calls w1) (cname_update_request (GetExternalName cr) (cn_ForProvider cr)
        (mo_uid cr))")
      (auto simp: namespaced_CNAMERecord_Update_def ladder_update_shape_def updateCNAMERecord_def cname_update_request_def
        Let_def e mutate_object_def)
qed

lemma CNAMERecord_Delete_shape:
  "namespaced_CNAMERecord_Delete env ep cr w =
     ladder_delete_shape errDeleteCNAMERecord errDeleteUnverifiedOwnership nilDereference
       (Resolve env RecordCNAME_type (GetExternalName cr) (mo_uid cr)) (ensureIdentityPrerequisite env ep)
       (issue_delete env) cnr_Ref w"
proof -
  have "namespaced_CNAMERecord_Delete env ep cr w = deleteCNAMERecordIdentity env ep (GetExternalName cr) (mo_uid cr) w"
    by (simp add: namespaced_CNAMERecord_Delete_def Let_def split: prod.split option.split)
  then show ?thesis
    by (simp only: deleteCNAMERecordIdentity_def ladder_delete_shape_def resolveCNAMERecordIdentity_def deleteCNAMERecord_issue)
qed

lemma CNAMERecord_scopes:
  "cluster_CNAMERecord_Observe = namespaced_CNAMERecord_Observe" "cluster_CNAMERecord_Create = namespaced_CNAMERecord_Create"
  "cluster_CNAMERecord_Update = namespaced_CNAMERecord_Update" "cluster_CNAMERecord_Delete = namespaced_CNAMERecord_Delete"
  by (intro ext, simp only: cluster_CNAMERecord_Observe_def namespaced_CNAMERecord_Observe_def
      cluster_CNAMERecord_Create_def
      namespaced_CNAMERecord_Create_def cluster_CNAMERecord_Update_def namespaced_CNAMERecord_Update_def
      cluster_CNAMERecord_Delete_def namespaced_CNAMERecord_Delete_def)+

lemma cname_written_utd:
  assumes "CNAMERecord_spec_ok cr"
    and "cname_holds (cname_create_request (cn_ForProvider cr) (mo_uid cr)) rec \<and> CNAMERecord_valid cr = None \<or>
      cname_holds (cname_update_request (GetExternalName cr) (cn_ForProvider cr) (mo_uid cr)) rec"
  shows "CNAMERecord_utd (fst (lift_late CNAMERecord_lateInitialize CNAMERecord_get CNAMERecord_put cr rec)) rec \<and>
    eaValue (cnr_Ea rec) EAKey = Some (mo_uid cr)"
proof -
  note reqs = cname_create_request_def cname_update_request_def
  have ok: "reserved_free (cnp_ExtAttrs (cn_ForProvider cr))"
    using assms(1) by (simp_all add: CNAMERecord_spec_ok_def Let_def)
  have ea: "cnr_Ea rec = Stamp (buildEA (cnp_ExtAttrs (cn_ForProvider cr))) (mo_uid cr)"
    using assms(2) by (elim disjE) (simp_all add: reqs)
  have fields: 
    "strOrEmpty (cnp_Name (cn_ForProvider cr)) = strOrEmpty (cnr_Name rec)" 
    "strOrEmpty (cnp_Canonical (cn_ForProvider cr)) = strOrEmpty (cnr_Canonical rec)" 
    "strOrEmpty (cnp_Comment (cn_ForProvider cr)) = strOrEmpty (cnr_Comment rec)" 
    "boolOrFalse (cnp_UseTTL (cn_ForProvider cr)) = boolOrFalse (cnr_UseTtl rec)" 
    "boolOrFalse (cnp_UseTTL (cn_ForProvider cr)) \<Longrightarrow> ttlOrZero (cnp_TTL (cn_ForProvider cr)) = ttlOrZero (cnr_Ttl rec)"
    using assms(2) ok by (elim disjE; simp add: reqs)+
  have "userAttrs (cnr_Ea rec) = cnp_ExtAttrs (cn_ForProvider cr)"
    using ok(1) by (simp add: ea userAttrs_buildEA reserved_free_fmdrop)
  then have "CNAMERecord_utd cr rec"
    using fields
    by (simp add: CNAMERecord_utd_def CNAMERecord_isUpToDate_def Let_def extAttrsEqual_iff flip: userAttrs_def)
  with ea show ?thesis using cname_late.late_utd by simp
qed

interpretation cname: refreshing_client "lift_late CNAMERecord_lateInitialize CNAMERecord_get CNAMERecord_put" CNAMERecord_utd
  "\<lambda>s s'. CNAMERecord_keeps (CNAMERecord_get s) (CNAMERecord_get s')"
  RecordCNAME_type cnr_Ref CNAMERecord_status CNAMERecord_valid
  "\<lambda>cr. cname_create_request (cn_ForProvider cr) (mo_uid cr)"
  "\<lambda>cr. cname_update_request (GetExternalName cr) (cn_ForProvider cr) (mo_uid cr)"
  cname_req_ea cname_holds CNAMERecord_spec_ok
  "ladder_observe_error errObserveCNAMERecord" "\<lambda>r. r \<noteq> []" "\<lambda>r. True" cnr_Ref errCreateCNAMERecord errUpdateCNAMERecord errDeleteCNAMERecord CNAMERecord_errEmptyUID
  namespaced_CNAMERecord_Observe namespaced_CNAMERecord_Create namespaced_CNAMERecord_Update namespaced_CNAMERecord_Delete
proof (unfold_locales, goal_cases)
  case (6 cr)
  then show ?case by (auto simp: CNAMERecord_valid_def Let_def split: if_splits)
next
  case (13 n cr rec)
  have "CNAMERecord_get (SetExternalName n cr) = CNAMERecord_get cr"
    "CNAMERecord_put (SetExternalName n cr) l = SetExternalName n (CNAMERecord_put cr l)" for l
    by (simp_all add: CNAMERecord_get_def CNAMERecord_put_def SetExternalName_def)
  then show ?case
    by (simp add: cname_late.lifted_simps CNAMERecord_utd_def SetExternalName_def)
next
  case (14 cr rec)
  then show ?case using cname_written_utd [of cr rec] by simp
next
  case (15 cr rec)
  then show ?case using cname_written_utd [of cr rec] by simp
qed (simp_all add: CNAMERecord_Observe_shape CNAMERecord_Create_shape CNAMERecord_Update_shape CNAMERecord_Delete_shape
    cname_late.lifted_simps CNAMERecord_put_def CNAMERecord_status_def Let_def
    cname_create_request_def cname_update_request_def)

end
