(* ===== verification/TXTRecord.thy ===== *)
theory TXTRecord
  imports LadderClient
begin

text \<open>
  internal/controller/recordtxt: the TXTRecord controller, a client of the identity ladder.
\<close>

section \<open>Data\<close>

text \<open>ibclient.RecordTXT, as the provider requests it.\<close>

record RecordTXT =
  txr_Ref :: string
  txr_Name :: "string option"
  txr_Text :: "string option"
  txr_Comment :: "string option"
  txr_Ttl :: "32 word option"
  txr_UseTtl :: "bool option"
  txr_Ea :: ea
  txr_View :: "string option"
  txr_Zone :: string

definition emptyRecordTXT :: RecordTXT where
  "emptyRecordTXT = \<lparr>txr_Ref = [], txr_Name = None, txr_Text = None, txr_Comment = None, txr_Ttl = None,
      txr_UseTtl = None, txr_Ea = fmempty, txr_View = None, txr_Zone = []\<rparr>"

definition reflectRecordTXT :: "RecordTXT \<Rightarrow> goany" where
  "reflectRecordTXT r = PtrTo ''*ibclient.RecordTXT''
     [(''Ref'', FString (txr_Ref r)),
      (''Name'', FOther),
      (''Text'', FOther),
      (''Comment'', FOther),
      (''Ttl'', FOther),
      (''UseTtl'', FOther),
      (''Ea'', FEA (txr_Ea r)),
      (''View'', FOther),
      (''Zone'', FString (txr_Zone r))]"

definition RecordTXT_type :: "RecordTXT objtype" where
  "RecordTXT_type = \<lparr>ot_name = ''record:txt'', ot_empty = emptyRecordTXT, ot_reflect = reflectRecordTXT\<rparr>"

text \<open>The ObjectManager requests, with their arguments in call order.\<close>

datatype txtrec_req =
    CreateTXTRecord string string string "32 word" bool string ea
      \<comment> \<open>dnsView, recordName, text, ttl, useTTL, comment, ea\<close>
  | UpdateTXTRecord string string string "32 word" bool string ea
      \<comment> \<open>ref, recordName, text, ttl, useTTL, comment, ea\<close>

record TXTRecordParameters =
  txp_Name :: "string option"
  txp_Text :: "string option"
  txp_Comment :: "string option"
  txp_TTL :: "32 word option"
  txp_UseTTL :: "bool option"
  txp_ExtAttrs :: extattrs
  txp_View :: "string option"

record TXTRecordObservation =
  txs_ID :: string
  txs_Name :: "string option"
  txs_Text :: "string option"
  txs_Comment :: "string option"
  txs_TTL :: "32 word option"
  txs_UseTTL :: "bool option"
  txs_ExtAttrs :: extattrs
  txs_View :: "string option"
  txs_Ref :: "string option"
  txs_Zone :: "string option"

record TXTRecordCR = mobj +
  tx_ForProvider :: TXTRecordParameters
  tx_AtProvider :: TXTRecordObservation

section \<open>Error messages\<close>

definition errObserveTXTRecord :: string where "errObserveTXTRecord = ''cannot observe TXTRecord''"
definition errCreateTXTRecord :: string where "errCreateTXTRecord = ''cannot create TXTRecord''"
definition errUpdateTXTRecord :: string where "errUpdateTXTRecord = ''cannot update TXTRecord''"
definition errDeleteTXTRecord :: string where "errDeleteTXTRecord = ''cannot delete TXTRecord''"
definition TXTRecord_errEmptyUID :: string where
  "TXTRecord_errEmptyUID = ''cannot stamp TXTRecord identity: managed resource's metadata.uid is empty''"

section \<open>Field comparison and late initialisation\<close>

definition TXTRecord_isUpToDate ::
  "string option \<Rightarrow> string option \<Rightarrow> string option \<Rightarrow> 32 word option \<Rightarrow>
      bool option \<Rightarrow> extattrs \<Rightarrow> RecordTXT \<Rightarrow> bool" where
  "TXTRecord_isUpToDate name text comment ttl useTTL extAttrs rec =
     (if strOrEmpty name \<noteq> strOrEmpty (txr_Name rec) then False
      else if strOrEmpty text \<noteq> strOrEmpty (txr_Text rec) then False
      else if strOrEmpty comment \<noteq> strOrEmpty (txr_Comment rec) then False
      else if boolOrFalse useTTL \<noteq> boolOrFalse (txr_UseTtl rec) then False
      else if boolOrFalse useTTL \<and> uint32OrZero ttl \<noteq> uint32OrZero (txr_Ttl rec) then False
      else extAttrsEqual extAttrs (extAttrsFromEA (Strip (txr_Ea rec))))"

text \<open>The ForProvider fields lateInitialize takes pointers to.\<close>

type_synonym txtrec_late = "string option \<times> 32 word option \<times> bool option \<times> extattrs"

definition TXTRecord_lateInitialize :: "txtrec_late \<Rightarrow> RecordTXT \<Rightarrow> txtrec_late \<times> bool" where
  "TXTRecord_lateInitialize p rec =
     (case p of (comment, ttl, useTTL, extAttrs) \<Rightarrow>
       (let (comment1, c1) = (if comment = None \<and> txr_Comment rec \<noteq> None \<and> txr_Comment rec \<noteq> Some []
                             then (txr_Comment rec, True) else (comment, False));
            (useTTL1, c2) = (if useTTL = None \<and> txr_UseTtl rec \<noteq> None
                             then (txr_UseTtl rec, True) else (useTTL, c1));
            (ttl1, c3) = (if ttl = None \<and> txr_Ttl rec \<noteq> None \<and> boolOrFalse useTTL1
                             then (txr_Ttl rec, True) else (ttl, c2));
            fromRec = extAttrsFromEA (Strip (txr_Ea rec));
            (extAttrs1, c4) = (if extAttrs = fmempty \<and> fromRec \<noteq> fmempty
                             then (fromRec, True) else (extAttrs, c3))
        in ((comment1, ttl1, useTTL1, extAttrs1), c4)))"

record observedTXTRecord =
  txo_ID :: string
  txo_Name :: "string option"
  txo_Text :: "string option"
  txo_Comment :: "string option"
  txo_TTL :: "32 word option"
  txo_UseTTL :: "bool option"
  txo_ExtAttrs :: extattrs
  txo_View :: "string option"
  txo_Ref :: "string option"
  txo_Zone :: "string option"

definition observeFromRecordTXT :: "string \<Rightarrow> RecordTXT \<Rightarrow> observedTXTRecord" where
  "observeFromRecordTXT externalID rec =
     \<lparr>txo_ID = externalID,
      txo_Name = txr_Name rec,
      txo_Text = txr_Text rec,
      txo_Comment = ptrIfSet (txr_Comment rec),
      txo_TTL = txr_Ttl rec,
      txo_UseTTL = txr_UseTtl rec,
      txo_ExtAttrs = extAttrsFromEA (txr_Ea rec),
      txo_View = ptrIfSet (txr_View rec),
      txo_Ref = ptrIfNonEmpty (txr_Ref rec),
      txo_Zone = ptrIfNonEmpty (txr_Zone rec)\<rparr>"

section \<open>SDK calls\<close>

definition createTXTRecord ::
  "(RecordTXT, txtrec_req) wapi \<Rightarrow> TXTRecordParameters \<Rightarrow> string \<Rightarrow> txtrec_req world
      \<Rightarrow> (goerr + RecordTXT) \<times> txtrec_req world" where
  "createTXTRecord env p uid w =
     (if trim_space uid = [] then (Inl (TextError TXTRecord_errEmptyUID), w)
      else
        (let e = Stamp (buildEA (txp_ExtAttrs p)) uid
         in mutate_object env
              (CreateTXTRecord (strOrEmpty (txp_View p)) (strOrEmpty (txp_Name p)) (strOrEmpty (txp_Text p))
                  (uint32OrZero (txp_TTL p)) (boolOrFalse (txp_UseTTL p)) (strOrEmpty (txp_Comment p)) e) w))"

definition updateTXTRecord ::
  "(RecordTXT, txtrec_req) wapi \<Rightarrow> string \<Rightarrow> TXTRecordParameters \<Rightarrow> string
      \<Rightarrow> txtrec_req world \<Rightarrow> (goerr + RecordTXT) \<times> txtrec_req world" where
  "updateTXTRecord env ref p uid w =
     (if trim_space uid = [] then (Inl (TextError TXTRecord_errEmptyUID), w)
      else
        (let e = Stamp (buildEA (txp_ExtAttrs p)) uid
         in mutate_object env
              (UpdateTXTRecord ref (strOrEmpty (txp_Name p)) (strOrEmpty (txp_Text p)) (uint32OrZero (txp_TTL p))
                  (boolOrFalse (txp_UseTTL p)) (strOrEmpty (txp_Comment p)) e) w))"

definition deleteTXTRecord :: "(RecordTXT, txtrec_req) wapi \<Rightarrow> string \<Rightarrow> txtrec_req world
    \<Rightarrow> goerr option \<times> txtrec_req world" where
  "deleteTXTRecord env ref w =
     (case delete_object env ref w of
        (Inl err, w1) \<Rightarrow> (Some err, w1)
      | (Inr _, w1) \<Rightarrow> (None, w1))"

section \<open>Identity resolution\<close>

definition resolveTXTRecordIdentity ::
  "(RecordTXT, txtrec_req) wapi \<Rightarrow> string \<Rightarrow> string \<Rightarrow> txtrec_req world \<Rightarrow>
      (goerr + RecordTXT option \<times> Outcome) \<times> txtrec_req world" where
  "resolveTXTRecordIdentity env ref uid w = Resolve env RecordTXT_type ref uid w"

type_synonym TXTRecord_observeResult = "(RecordTXT, observedTXTRecord) observeResult"

definition TXTRecord_notFoundResult :: TXTRecord_observeResult where
  "TXTRecord_notFoundResult =
     \<lparr>ores_exists = False, ores_rec = emptyRecordTXT, ores_obs = observeFromRecordTXT [] emptyRecordTXT,
      ores_lateInit = False, ores_refreshedRef = [], ores_adopted = False\<rparr>"

definition observeTXTRecord ::
  "(RecordTXT, txtrec_req) wapi \<Rightarrow> string \<Rightarrow> string \<Rightarrow> string \<Rightarrow> string \<Rightarrow> txtrec_late \<Rightarrow> txtrec_req world \<Rightarrow>
     (goerr + TXTRecord_observeResult) \<times> txtrec_late \<times> txtrec_req world" where
  "observeTXTRecord env endpoint crName externalName uid p w =
     (let ref = observeRefFor crName externalName in
      case resolveTXTRecordIdentity env ref uid w of
        (Inl err, w1) \<Rightarrow>
          if IsSearchFailure err then
            (case ensureIdentityPrerequisite env endpoint w1 of
               (Some prereqErr, w2) \<Rightarrow> (Inl prereqErr, p, w2)
             | (None, w2) \<Rightarrow> (Inl err, p, w2))
          else (Inl err, p, w1)
      | (Inr (obj, outcome), w1) \<Rightarrow>
          if outcome = OutcomeNotFound then (Inr TXTRecord_notFoundResult, p, w1)
          else
            (case obj of
               None \<Rightarrow> (Inl (TextError nilDereference), p, w1)
             | Some rec \<Rightarrow>
                 (case TXTRecord_lateInitialize p rec of (p1, changed) \<Rightarrow>
                    (let found = (outcome = OutcomeRotated \<or> outcome = OutcomeFoundByUID)
                     in (Inr \<lparr>ores_exists = True, ores_rec = rec,
                              ores_obs = observeFromRecordTXT (txr_Ref rec) rec,
                              ores_lateInit = (if found then True else changed),
                              ores_refreshedRef = (if found then txr_Ref rec else []),
                              ores_adopted = (outcome = OutcomeAdopted)\<rparr>, p1, w1)))))"

definition deleteTXTRecordIdentity ::
  "(RecordTXT, txtrec_req) wapi \<Rightarrow> string \<Rightarrow> string \<Rightarrow> string \<Rightarrow>
      txtrec_req world \<Rightarrow> goerr option \<times> txtrec_req world" where
  "deleteTXTRecordIdentity env endpoint ref uid w =
     (case resolveTXTRecordIdentity env ref uid w of
        (Inl err, w1) \<Rightarrow>
          if IsSearchFailure err then
            (case ensureIdentityPrerequisite env endpoint w1 of
               (Some prereqErr, w2) \<Rightarrow> (Some prereqErr, w2)
             | (None, w2) \<Rightarrow> (Some (Wrapped errDeleteTXTRecord err), w2))
          else (Some (Wrapped errDeleteTXTRecord err), w1)
      | (Inr (obj, outcome), w1) \<Rightarrow>
          (case outcome of
             OutcomeNotFound \<Rightarrow> (None, w1)
           | OutcomeAdopted \<Rightarrow> (Some (TextError errDeleteUnverifiedOwnership), w1)
           | _ \<Rightarrow>
               (case obj of
                  None \<Rightarrow> (Some (TextError nilDereference), w1)
                | Some rec \<Rightarrow>
                    (case deleteTXTRecord env (txr_Ref rec) w1 of
                       (None, w2) \<Rightarrow> (None, w2)
                     | (Some delErr, w2) \<Rightarrow>
                         if isNotFound (Some delErr) then (None, w2)
                         else (Some (Wrapped errDeleteTXTRecord delErr), w2)))))"

section \<open>The external clients\<close>

text \<open>The pointers to spec fields Observe hands over, and their write-back.\<close>

definition TXTRecord_latePart :: "TXTRecordParameters \<Rightarrow> txtrec_late" where
  "TXTRecord_latePart p = (txp_Comment p, txp_TTL p, txp_UseTTL p, txp_ExtAttrs p)"

definition TXTRecord_setLate :: "TXTRecordParameters \<Rightarrow> txtrec_late \<Rightarrow> TXTRecordParameters" where
  "TXTRecord_setLate p l = (case l of (comment, ttl, useTTL, extAttrs) \<Rightarrow>
     p\<lparr>txp_Comment := comment, txp_TTL := ttl, txp_UseTTL := useTTL, txp_ExtAttrs := extAttrs\<rparr>)"

subsection \<open>namespaced.go\<close>

definition namespaced_TXTRecord_Observe ::
  "(RecordTXT, txtrec_req) wapi \<Rightarrow> string \<Rightarrow> TXTRecordCR \<Rightarrow> txtrec_req world
      \<Rightarrow> (goerr + ExternalObservation) \<times> TXTRecordCR \<times> txtrec_req world" where
  "namespaced_TXTRecord_Observe env endpoint cr w =
     (case observeTXTRecord env endpoint (mo_name cr) (GetExternalName cr) (mo_uid cr)
             (TXTRecord_latePart (tx_ForProvider cr)) w of
        (Inl err, l, w1) \<Rightarrow>
          (let cr1 = cr\<lparr>tx_ForProvider := TXTRecord_setLate (tx_ForProvider cr) l\<rparr> in
           if errors_as is_PrerequisiteError err then (Inl err, cr1, w1)
           else (Inl (Wrapped errObserveTXTRecord err), cr1, w1))
      | (Inr res, l, w1) \<Rightarrow>
          (let p = TXTRecord_setLate (tx_ForProvider cr) l;
               cr1 = cr\<lparr>tx_ForProvider := p\<rparr> in
           if \<not> ores_exists res then (Inr notExists, cr1, w1)
           else
             (let o1 = ores_obs res;
                  cr2 = cr1\<lparr>tx_AtProvider :=
                    \<lparr>txs_ID = txo_ID o1, txs_Name = txo_Name o1, txs_Text = txo_Text o1, txs_Comment
                     = txo_Comment o1, txs_TTL = txo_TTL o1, txs_UseTTL = txo_UseTTL o1,
                     txs_ExtAttrs = txo_ExtAttrs o1, txs_View = txo_View o1, txs_Ref = txo_Ref o1,
                     txs_Zone = txo_Zone o1\<rparr>\<rparr>;
                  cr3 = (if ores_refreshedRef res \<noteq> [] then SetExternalName (ores_refreshedRef res) cr2 else cr2);
                  cr4 = SetAvailable cr3;
                  upToDate = (TXTRecord_isUpToDate (txp_Name p) (txp_Text p) (txp_Comment p) (txp_TTL p) (txp_UseTTL p)
                                (txp_ExtAttrs p) (ores_rec res)
                                \<and> \<not> ores_adopted res)
              in (Inr \<lparr>ResourceExists = True, ResourceUpToDate = upToDate,
                       ResourceLateInitialized = ores_lateInit res\<rparr>, cr4, w1))))"

definition namespaced_TXTRecord_Create ::
  "(RecordTXT, txtrec_req) wapi \<Rightarrow> string \<Rightarrow> TXTRecordCR \<Rightarrow> txtrec_req world
      \<Rightarrow> goerr option \<times> TXTRecordCR \<times> txtrec_req world" where
  "namespaced_TXTRecord_Create env endpoint cr w =
     (let p = tx_ForProvider cr; uid = mo_uid cr in
      if trim_space uid = [] then (Some (TextError TXTRecord_errEmptyUID), cr, w)
      else
          (case ensureIdentityPrerequisite env endpoint w of
             (Some err, w1) \<Rightarrow> (Some err, cr, w1)
           | (None, w1) \<Rightarrow>
               (case createTXTRecord env p uid w1 of
                  (Inl err, w2) \<Rightarrow> (Some (Wrapped errCreateTXTRecord err), cr, w2)
                | (Inr rec, w2) \<Rightarrow> (None, SetExternalName (txr_Ref rec) cr, w2))))"

definition namespaced_TXTRecord_Update ::
  "(RecordTXT, txtrec_req) wapi \<Rightarrow> string \<Rightarrow> TXTRecordCR \<Rightarrow> txtrec_req world
      \<Rightarrow> goerr option \<times> TXTRecordCR \<times> txtrec_req world" where
  "namespaced_TXTRecord_Update env endpoint cr w =
     (let p = tx_ForProvider cr; externalID = GetExternalName cr in
      case ensureIdentityPrerequisite env endpoint w of
        (Some err, w1) \<Rightarrow> (Some err, cr, w1)
      | (None, w1) \<Rightarrow>
          (case updateTXTRecord env externalID p (mo_uid cr) w1 of
             (Inl err, w2) \<Rightarrow> (Some (Wrapped errUpdateTXTRecord err), cr, w2)
           | (Inr rec, w2) \<Rightarrow>
               if txr_Ref rec \<noteq> [] \<and> txr_Ref rec \<noteq> externalID then
                 (case Refresh env cr (txr_Ref rec) w2 of
                    (Some err, cr1, w3) \<Rightarrow> (Some (Wrapped errPersistExternalName err), cr1, w3)
                  | (None, cr1, w3) \<Rightarrow> (None, cr1, w3))
               else (None, cr, w2)))"

definition namespaced_TXTRecord_Delete ::
  "(RecordTXT, txtrec_req) wapi \<Rightarrow> string \<Rightarrow> TXTRecordCR \<Rightarrow> txtrec_req world
      \<Rightarrow> goerr option \<times> txtrec_req world" where
  "namespaced_TXTRecord_Delete env endpoint cr w =
     (let externalID = GetExternalName cr in
      case deleteTXTRecordIdentity env endpoint externalID (mo_uid cr) w of
        (Some err, w1) \<Rightarrow> (Some err, w1)
      | (None, w1) \<Rightarrow> (None, w1))"

subsection \<open>cluster.go\<close>

definition cluster_TXTRecord_Observe ::
  "(RecordTXT, txtrec_req) wapi \<Rightarrow> string \<Rightarrow> TXTRecordCR \<Rightarrow> txtrec_req world
      \<Rightarrow> (goerr + ExternalObservation) \<times> TXTRecordCR \<times> txtrec_req world" where
  "cluster_TXTRecord_Observe env endpoint cr w =
     (case observeTXTRecord env endpoint (mo_name cr) (GetExternalName cr) (mo_uid cr)
             (TXTRecord_latePart (tx_ForProvider cr)) w of
        (Inl err, l, w1) \<Rightarrow>
          (let cr1 = cr\<lparr>tx_ForProvider := TXTRecord_setLate (tx_ForProvider cr) l\<rparr> in
           if errors_as is_PrerequisiteError err then (Inl err, cr1, w1)
           else (Inl (Wrapped errObserveTXTRecord err), cr1, w1))
      | (Inr res, l, w1) \<Rightarrow>
          (let p = TXTRecord_setLate (tx_ForProvider cr) l;
               cr1 = cr\<lparr>tx_ForProvider := p\<rparr> in
           if \<not> ores_exists res then (Inr notExists, cr1, w1)
           else
             (let o1 = ores_obs res;
                  cr2 = cr1\<lparr>tx_AtProvider :=
                    \<lparr>txs_ID = txo_ID o1, txs_Name = txo_Name o1, txs_Text = txo_Text o1, txs_Comment
                     = txo_Comment o1, txs_TTL = txo_TTL o1, txs_UseTTL = txo_UseTTL o1,
                     txs_ExtAttrs = txo_ExtAttrs o1, txs_View = txo_View o1, txs_Ref = txo_Ref o1,
                     txs_Zone = txo_Zone o1\<rparr>\<rparr>;
                  cr3 = (if ores_refreshedRef res \<noteq> [] then SetExternalName (ores_refreshedRef res) cr2 else cr2);
                  cr4 = SetAvailable cr3;
                  upToDate = (TXTRecord_isUpToDate (txp_Name p) (txp_Text p) (txp_Comment p) (txp_TTL p) (txp_UseTTL p)
                                (txp_ExtAttrs p) (ores_rec res)
                                \<and> \<not> ores_adopted res)
              in (Inr \<lparr>ResourceExists = True, ResourceUpToDate = upToDate,
                       ResourceLateInitialized = ores_lateInit res\<rparr>, cr4, w1))))"

definition cluster_TXTRecord_Create ::
  "(RecordTXT, txtrec_req) wapi \<Rightarrow> string \<Rightarrow> TXTRecordCR \<Rightarrow> txtrec_req world
      \<Rightarrow> goerr option \<times> TXTRecordCR \<times> txtrec_req world" where
  "cluster_TXTRecord_Create env endpoint cr w =
     (let p = tx_ForProvider cr; uid = mo_uid cr in
      if trim_space uid = [] then (Some (TextError TXTRecord_errEmptyUID), cr, w)
      else
          (case ensureIdentityPrerequisite env endpoint w of
             (Some err, w1) \<Rightarrow> (Some err, cr, w1)
           | (None, w1) \<Rightarrow>
               (case createTXTRecord env p uid w1 of
                  (Inl err, w2) \<Rightarrow> (Some (Wrapped errCreateTXTRecord err), cr, w2)
                | (Inr rec, w2) \<Rightarrow> (None, SetExternalName (txr_Ref rec) cr, w2))))"

definition cluster_TXTRecord_Update ::
  "(RecordTXT, txtrec_req) wapi \<Rightarrow> string \<Rightarrow> TXTRecordCR \<Rightarrow> txtrec_req world
      \<Rightarrow> goerr option \<times> TXTRecordCR \<times> txtrec_req world" where
  "cluster_TXTRecord_Update env endpoint cr w =
     (let p = tx_ForProvider cr; externalID = GetExternalName cr in
      case ensureIdentityPrerequisite env endpoint w of
        (Some err, w1) \<Rightarrow> (Some err, cr, w1)
      | (None, w1) \<Rightarrow>
          (case updateTXTRecord env externalID p (mo_uid cr) w1 of
             (Inl err, w2) \<Rightarrow> (Some (Wrapped errUpdateTXTRecord err), cr, w2)
           | (Inr rec, w2) \<Rightarrow>
               if txr_Ref rec \<noteq> [] \<and> txr_Ref rec \<noteq> externalID then
                 (case Refresh env cr (txr_Ref rec) w2 of
                    (Some err, cr1, w3) \<Rightarrow> (Some (Wrapped errPersistExternalName err), cr1, w3)
                  | (None, cr1, w3) \<Rightarrow> (None, cr1, w3))
               else (None, cr, w2)))"

definition cluster_TXTRecord_Delete ::
  "(RecordTXT, txtrec_req) wapi \<Rightarrow> string \<Rightarrow> TXTRecordCR \<Rightarrow> txtrec_req world
      \<Rightarrow> goerr option \<times> txtrec_req world" where
  "cluster_TXTRecord_Delete env endpoint cr w =
     (let externalID = GetExternalName cr in
      case deleteTXTRecordIdentity env endpoint externalID (mo_uid cr) w of
        (Some err, w1) \<Rightarrow> (Some err, w1)
      | (None, w1) \<Rightarrow> (None, w1))"

section \<open>The contract of the ladder client\<close>

text \<open>The requests of a spec, what a Grid object holds of a request, and the drift check of a resource.\<close>

definition txtrec_create_request :: "TXTRecordParameters \<Rightarrow> string \<Rightarrow> txtrec_req" where
  "txtrec_create_request p uid = CreateTXTRecord
     (strOrEmpty (txp_View p)) (strOrEmpty (txp_Name p)) (strOrEmpty (txp_Text p)) (uint32OrZero (txp_TTL p))
         (boolOrFalse (txp_UseTTL p)) (strOrEmpty (txp_Comment p)) (Stamp (buildEA (txp_ExtAttrs p)) uid)"

definition txtrec_update_request :: "string \<Rightarrow> TXTRecordParameters \<Rightarrow> string \<Rightarrow> txtrec_req" where
  "txtrec_update_request ref p uid = UpdateTXTRecord ref
     (strOrEmpty (txp_Name p)) (strOrEmpty (txp_Text p)) (uint32OrZero (txp_TTL p)) (boolOrFalse (txp_UseTTL p))
         (strOrEmpty (txp_Comment p)) (Stamp (buildEA (txp_ExtAttrs p)) uid)"

fun txtrec_req_ea :: "txtrec_req \<Rightarrow> ea" where
  "txtrec_req_ea (CreateTXTRecord dnsView recordName text ttl useTTL comment ea) = ea"
| "txtrec_req_ea (UpdateTXTRecord ref recordName text ttl useTTL comment ea) = ea"

fun txtrec_holds :: "txtrec_req \<Rightarrow> RecordTXT \<Rightarrow> bool" where
  "txtrec_holds (CreateTXTRecord dnsView recordName text ttl useTTL comment ea) rec \<longleftrightarrow>
     strOrEmpty (txr_Name rec) = recordName \<and>
     strOrEmpty (txr_Text rec) = text \<and>
     strOrEmpty (txr_Comment rec) = comment \<and>
     boolOrFalse (txr_UseTtl rec) = useTTL \<and>
     (useTTL \<longrightarrow> ttlOrZero (txr_Ttl rec) = ttl) \<and>
     txr_Ea rec = ea"
| "txtrec_holds (UpdateTXTRecord ref recordName text ttl useTTL comment ea) rec \<longleftrightarrow>
     strOrEmpty (txr_Name rec) = recordName \<and>
     strOrEmpty (txr_Text rec) = text \<and>
     strOrEmpty (txr_Comment rec) = comment \<and>
     boolOrFalse (txr_UseTtl rec) = useTTL \<and>
     (useTTL \<longrightarrow> ttlOrZero (txr_Ttl rec) = ttl) \<and>
     txr_Ea rec = ea"

definition TXTRecord_utd :: "TXTRecordCR \<Rightarrow> RecordTXT \<Rightarrow> bool" where
  "TXTRecord_utd cr rec = (let p = tx_ForProvider cr in
     TXTRecord_isUpToDate (txp_Name p) (txp_Text p) (txp_Comment p) (txp_TTL p) (txp_UseTTL p)
                                (txp_ExtAttrs p) rec)"

definition TXTRecord_spec_ok :: "TXTRecordCR \<Rightarrow> bool" where
  "TXTRecord_spec_ok cr \<longleftrightarrow> (let p = tx_ForProvider cr in reserved_free (txp_ExtAttrs p))"

definition TXTRecord_keeps :: "txtrec_late \<Rightarrow> txtrec_late \<Rightarrow> bool" where
  "TXTRecord_keeps l l' = (case (l, l') of ((comment, ttl, useTTL, extAttrs), (comment', ttl', useTTL', extAttrs'))
      \<Rightarrow>
     keeps_set comment comment' \<and> keeps_set ttl ttl' \<and> keeps_set useTTL useTTL' \<and> keeps_attrs extAttrs extAttrs')"

definition TXTRecord_get :: "TXTRecordCR \<Rightarrow> txtrec_late" where
  "TXTRecord_get cr = TXTRecord_latePart (tx_ForProvider cr)"

definition TXTRecord_put :: "TXTRecordCR \<Rightarrow> txtrec_late \<Rightarrow> TXTRecordCR" where
  "TXTRecord_put cr l = cr\<lparr>tx_ForProvider := TXTRecord_setLate (tx_ForProvider cr) l\<rparr>"

definition TXTRecord_status :: "RecordTXT \<Rightarrow> TXTRecordCR \<Rightarrow> TXTRecordCR" where
  "TXTRecord_status rec cr =
     (let o1 = observeFromRecordTXT (txr_Ref rec) rec; p = tx_ForProvider cr in
      cr\<lparr>tx_AtProvider :=
        \<lparr>txs_ID = txo_ID o1, txs_Name = txo_Name o1, txs_Text = txo_Text o1, txs_Comment =
        txo_Comment o1, txs_TTL = txo_TTL o1, txs_UseTTL = txo_UseTTL o1, txs_ExtAttrs =
        txo_ExtAttrs o1, txs_View = txo_View o1, txs_Ref = txo_Ref o1, txs_Zone = txo_Zone o1\<rparr>\<rparr>)"

definition TXTRecord_valid :: "TXTRecordCR \<Rightarrow> goerr option" where
  "TXTRecord_valid cr = (let p = tx_ForProvider cr; uid = mo_uid cr in if trim_space uid = [] then Some (TextError TXTRecord_errEmptyUID) else None)"

lemma TXTRecord_lateInitialize_eq:
  "TXTRecord_lateInitialize (comment, ttl, useTTL, extAttrs) rec =
     (let comment1 = fill comment (ptrIfSet (txr_Comment rec));
          useTTL1 = fill useTTL (txr_UseTtl rec);
          ttl1 = fill_if ttl (boolOrFalse useTTL1) (txr_Ttl rec);
          extAttrs1 = fill_map extAttrs (userAttrs (txr_Ea rec))
      in ((comment1, ttl1, useTTL1, extAttrs1), (comment1, ttl1, useTTL1, extAttrs1) \<noteq> (comment, ttl, useTTL,
          extAttrs)))"
  by (simp only: TXTRecord_lateInitialize_def userAttrs_def [symmetric] Let_def case_prod_conv fill_steps
      prod.inject fill_changed ptrIfSet_set simp_thms de_Morgan_conj disj_ac)

interpretation txtrec_late: late_lens TXTRecord_lateInitialize TXTRecord_keeps TXTRecord_get TXTRecord_put TXTRecord_utd
proof
  fix l l' :: txtrec_late and rec :: RecordTXT and cr :: TXTRecordCR
  obtain comment ttl useTTL extAttrs where l: "l = (comment, ttl, useTTL, extAttrs)" by (cases l) auto
  show "TXTRecord_lateInitialize (fst (TXTRecord_lateInitialize l rec)) rec = (fst (TXTRecord_lateInitialize l rec),
      False)"
    by (simp add: l TXTRecord_lateInitialize_eq Let_def)
  show "snd (TXTRecord_lateInitialize l rec) \<longleftrightarrow> fst (TXTRecord_lateInitialize l rec) \<noteq> l"
    by (simp add: l TXTRecord_lateInitialize_eq Let_def)
  show "TXTRecord_keeps l (fst (TXTRecord_lateInitialize l rec))"
    by (simp add: l TXTRecord_lateInitialize_eq Let_def TXTRecord_keeps_def keeps_fill)
  show "TXTRecord_get (TXTRecord_put cr l) = l"
    by (simp add: l TXTRecord_get_def TXTRecord_put_def TXTRecord_latePart_def TXTRecord_setLate_def)
  show "TXTRecord_put cr (TXTRecord_get cr) = cr"
    by (simp add: TXTRecord_get_def TXTRecord_put_def TXTRecord_latePart_def TXTRecord_setLate_def)
  show "TXTRecord_put (TXTRecord_put cr l) l' = TXTRecord_put cr l'"
    by (simp add: TXTRecord_put_def TXTRecord_setLate_def split: prod.split)
  show "TXTRecord_utd (TXTRecord_put cr (fst (TXTRecord_lateInitialize (TXTRecord_get cr) rec))) rec" if "TXTRecord_utd cr rec"
    using that
    by (auto simp: TXTRecord_get_def TXTRecord_put_def TXTRecord_latePart_def TXTRecord_setLate_def TXTRecord_lateInitialize_eq Let_def
        TXTRecord_utd_def TXTRecord_isUpToDate_def extAttrsEqual_iff simp flip: userAttrs_def split: if_splits)
qed

lemma RecordTXT_type_simps [simp]:
  "ot_name RecordTXT_type = ''record:txt''" "ref_ea_shape RecordTXT_type"
  "stamped RecordTXT_type rec = eaValue (txr_Ea rec) EAKey"
  by (simp_all add: ref_ea_shape_def stamped_def RecordTXT_type_def reflectRecordTXT_def getRef_def getEA_def)

lemma deleteTXTRecord_issue: "deleteTXTRecord env = issue_delete env"
  by (intro ext) (simp only: deleteTXTRecord_def issue_delete_def)

lemma createTXTRecord_valid:
  assumes "TXTRecord_valid cr = None"
  shows "createTXTRecord env (tx_ForProvider cr) (mo_uid cr) w = mutate_object env (txtrec_create_request
      (tx_ForProvider cr) (mo_uid cr)) w"
  using assms
  by (auto simp: createTXTRecord_def txtrec_create_request_def TXTRecord_valid_def Let_def split: if_splits option.splits)


lemma TXTRecord_Observe_shape:
  "namespaced_TXTRecord_Observe env ep cr w =
     ladder_observe_shape (ladder_observe_error errObserveTXTRecord) (Resolve env RecordTXT_type)
         (ensureIdentityPrerequisite env ep)
       (\<lambda>r. r \<noteq> []) (\<lambda>r. True) (lift_late TXTRecord_lateInitialize TXTRecord_get TXTRecord_put)
           TXTRecord_status TXTRecord_utd txr_Ref cr w"
proof -
  have same: "cr\<lparr>tx_ForProvider := TXTRecord_setLate (tx_ForProvider cr) (TXTRecord_latePart (tx_ForProvider cr))\<rparr> = cr"
    by (simp add: TXTRecord_latePart_def TXTRecord_setLate_def)
  obtain r w1 where r: "Resolve env RecordTXT_type (observeRefFor (mo_name cr) (GetExternalName cr)) (mo_uid cr) w =
      (r, w1)"
    by (cases "Resolve env RecordTXT_type (observeRefFor (mo_name cr) (GetExternalName cr)) (mo_uid cr) w")
  obtain e w2 where e: "ensureIdentityPrerequisite env ep w1 = (e, w2)"
    by (cases "ensureIdentityPrerequisite env ep w1")
  note defs = namespaced_TXTRecord_Observe_def observeTXTRecord_def resolveTXTRecordIdentity_def ladder_observe_shape_def ladder_observe_error_def
  show ?thesis
  proof (cases r)
    case (Inl err)
    then show ?thesis
      by (cases e) (simp_all add: defs Let_def r e same)
  next
    case (Inr a)
    obtain obj out where a: "a = (obj, out)" by (cases a)
    show ?thesis
    proof (cases obj)
      case None
      then show ?thesis
        by (simp add: defs Let_def r Inr a same TXTRecord_notFoundResult_def)
    next
      case (Some rec)
      obtain l c where "TXTRecord_lateInitialize (TXTRecord_latePart (tx_ForProvider cr)) rec = (l, c)"
        by (cases "TXTRecord_lateInitialize (TXTRecord_latePart (tx_ForProvider cr)) rec")
      with Some show ?thesis
        by (simp add: defs Let_def r Inr a same lift_late_def TXTRecord_get_def TXTRecord_put_def
            TXTRecord_status_def TXTRecord_utd_def TXTRecord_notFoundResult_def observeFromRecordTXT_def)
    qed
  qed
qed

lemma TXTRecord_Create_shape:
  "namespaced_TXTRecord_Create env ep cr w =
     ladder_create_shape errCreateTXTRecord TXTRecord_valid (ensureIdentityPrerequisite env ep) (mutate_object env)
       (\<lambda>cr. txtrec_create_request (tx_ForProvider cr) (mo_uid cr)) txr_Ref cr w"
proof -
  obtain e w1 where e: "ensureIdentityPrerequisite env ep w = (e, w1)"
    by (cases "ensureIdentityPrerequisite env ep w")
  have v: "(let p = tx_ForProvider cr; uid = mo_uid cr in if trim_space uid = [] then Some (TextError TXTRecord_errEmptyUID) else None) = TXTRecord_valid cr"
    by (simp only: TXTRecord_valid_def)
  show ?thesis
  proof (cases "TXTRecord_valid cr")
    case None
    then show ?thesis
      using createTXTRecord_valid [OF None, of env w1] v
      by (cases e) (simp_all add: namespaced_TXTRecord_Create_def ladder_create_shape_def Let_def e split: if_splits)
  next
    case (Some err)
    then show ?thesis
      using v by (simp add: namespaced_TXTRecord_Create_def ladder_create_shape_def Let_def split: if_splits)
  qed
qed

lemma TXTRecord_Update_shape:
  "namespaced_TXTRecord_Update env ep cr w =
     ladder_update_shape errUpdateTXTRecord TXTRecord_errEmptyUID env (ensureIdentityPrerequisite env ep)
       (\<lambda>cr. txtrec_update_request (GetExternalName cr) (tx_ForProvider cr) (mo_uid cr)) txr_Ref cr w"
proof -
  obtain e w1 where e: "ensureIdentityPrerequisite env ep w = (e, w1)"
    by (cases "ensureIdentityPrerequisite env ep w")
  show ?thesis
    by (cases e; cases "wapi_mutate env (calls w1) (txtrec_update_request (GetExternalName cr) (tx_ForProvider cr)
        (mo_uid cr))")
      (auto simp: namespaced_TXTRecord_Update_def ladder_update_shape_def updateTXTRecord_def txtrec_update_request_def
        Let_def e mutate_object_def)
qed

lemma TXTRecord_Delete_shape:
  "namespaced_TXTRecord_Delete env ep cr w =
     ladder_delete_shape errDeleteTXTRecord errDeleteUnverifiedOwnership nilDereference
       (Resolve env RecordTXT_type (GetExternalName cr) (mo_uid cr)) (ensureIdentityPrerequisite env ep)
       (issue_delete env) txr_Ref w"
proof -
  have "namespaced_TXTRecord_Delete env ep cr w = deleteTXTRecordIdentity env ep (GetExternalName cr) (mo_uid cr) w"
    by (simp add: namespaced_TXTRecord_Delete_def Let_def split: prod.split option.split)
  then show ?thesis
    by (simp only: deleteTXTRecordIdentity_def ladder_delete_shape_def resolveTXTRecordIdentity_def deleteTXTRecord_issue)
qed

lemma TXTRecord_scopes:
  "cluster_TXTRecord_Observe = namespaced_TXTRecord_Observe" "cluster_TXTRecord_Create = namespaced_TXTRecord_Create"
  "cluster_TXTRecord_Update = namespaced_TXTRecord_Update" "cluster_TXTRecord_Delete = namespaced_TXTRecord_Delete"
  by (intro ext, simp only: cluster_TXTRecord_Observe_def namespaced_TXTRecord_Observe_def
      cluster_TXTRecord_Create_def
      namespaced_TXTRecord_Create_def cluster_TXTRecord_Update_def namespaced_TXTRecord_Update_def
      cluster_TXTRecord_Delete_def namespaced_TXTRecord_Delete_def)+

lemma txtrec_written_utd:
  assumes "TXTRecord_spec_ok cr"
    and "txtrec_holds (txtrec_create_request (tx_ForProvider cr) (mo_uid cr)) rec \<and> TXTRecord_valid cr = None \<or>
      txtrec_holds (txtrec_update_request (GetExternalName cr) (tx_ForProvider cr) (mo_uid cr)) rec"
  shows "TXTRecord_utd (fst (lift_late TXTRecord_lateInitialize TXTRecord_get TXTRecord_put cr rec)) rec \<and>
    eaValue (txr_Ea rec) EAKey = Some (mo_uid cr)"
proof -
  note reqs = txtrec_create_request_def txtrec_update_request_def
  have ok: "reserved_free (txp_ExtAttrs (tx_ForProvider cr))"
    using assms(1) by (simp_all add: TXTRecord_spec_ok_def Let_def)
  have ea: "txr_Ea rec = Stamp (buildEA (txp_ExtAttrs (tx_ForProvider cr))) (mo_uid cr)"
    using assms(2) by (elim disjE) (simp_all add: reqs)
  have fields: 
    "strOrEmpty (txp_Name (tx_ForProvider cr)) = strOrEmpty (txr_Name rec)" 
    "strOrEmpty (txp_Text (tx_ForProvider cr)) = strOrEmpty (txr_Text rec)" 
    "strOrEmpty (txp_Comment (tx_ForProvider cr)) = strOrEmpty (txr_Comment rec)" 
    "boolOrFalse (txp_UseTTL (tx_ForProvider cr)) = boolOrFalse (txr_UseTtl rec)" 
    "boolOrFalse (txp_UseTTL (tx_ForProvider cr)) \<Longrightarrow> ttlOrZero (txp_TTL (tx_ForProvider cr)) = ttlOrZero (txr_Ttl rec)"
    using assms(2) ok by (elim disjE; simp add: reqs)+
  have "userAttrs (txr_Ea rec) = txp_ExtAttrs (tx_ForProvider cr)"
    using ok(1) by (simp add: ea userAttrs_buildEA reserved_free_fmdrop)
  then have "TXTRecord_utd cr rec"
    using fields
    by (simp add: TXTRecord_utd_def TXTRecord_isUpToDate_def Let_def extAttrsEqual_iff flip: userAttrs_def)
  with ea show ?thesis using txtrec_late.late_utd by simp
qed

interpretation txtrec: refreshing_client "lift_late TXTRecord_lateInitialize TXTRecord_get TXTRecord_put" TXTRecord_utd
  "\<lambda>s s'. TXTRecord_keeps (TXTRecord_get s) (TXTRecord_get s')"
  RecordTXT_type txr_Ref TXTRecord_status TXTRecord_valid
  "\<lambda>cr. txtrec_create_request (tx_ForProvider cr) (mo_uid cr)"
  "\<lambda>cr. txtrec_update_request (GetExternalName cr) (tx_ForProvider cr) (mo_uid cr)"
  txtrec_req_ea txtrec_holds TXTRecord_spec_ok
  "ladder_observe_error errObserveTXTRecord" "\<lambda>r. r \<noteq> []" "\<lambda>r. True" txr_Ref errCreateTXTRecord errUpdateTXTRecord errDeleteTXTRecord TXTRecord_errEmptyUID
  namespaced_TXTRecord_Observe namespaced_TXTRecord_Create namespaced_TXTRecord_Update namespaced_TXTRecord_Delete
proof (unfold_locales, goal_cases)
  case (6 cr)
  then show ?case by (auto simp: TXTRecord_valid_def Let_def split: if_splits)
next
  case (13 n cr rec)
  have "TXTRecord_get (SetExternalName n cr) = TXTRecord_get cr"
    "TXTRecord_put (SetExternalName n cr) l = SetExternalName n (TXTRecord_put cr l)" for l
    by (simp_all add: TXTRecord_get_def TXTRecord_put_def SetExternalName_def)
  then show ?case
    by (simp add: txtrec_late.lifted_simps TXTRecord_utd_def SetExternalName_def)
next
  case (14 cr rec)
  then show ?case using txtrec_written_utd [of cr rec] by simp
next
  case (15 cr rec)
  then show ?case using txtrec_written_utd [of cr rec] by simp
qed (simp_all add: TXTRecord_Observe_shape TXTRecord_Create_shape TXTRecord_Update_shape TXTRecord_Delete_shape
    txtrec_late.lifted_simps TXTRecord_put_def TXTRecord_status_def Let_def
    txtrec_create_request_def txtrec_update_request_def)

end
