(* ===== verification/MXRecord.thy ===== *)
theory MXRecord
  imports LadderClient
begin

text \<open>
  internal/controller/recordmx: the MXRecord controller, a client of the identity ladder. The preference
  of the spec is a 64-bit integer; the WAPI field has 32 bits.
\<close>

section \<open>Data\<close>

text \<open>ibclient.RecordMX, as the provider requests it.\<close>

record RecordMX =
  mxr_Ref :: string
  mxr_Name :: "string option"
  mxr_MailExchanger :: "string option"
  mxr_Preference :: "32 word option"
  mxr_Comment :: "string option"
  mxr_Ttl :: "32 word option"
  mxr_UseTtl :: "bool option"
  mxr_Ea :: ea
  mxr_View :: "string option"
  mxr_Zone :: string

definition emptyRecordMX :: RecordMX where
  "emptyRecordMX = \<lparr>mxr_Ref = [], mxr_Name = None, mxr_MailExchanger = None, mxr_Preference = None, mxr_Comment
      = None, mxr_Ttl = None, mxr_UseTtl = None, mxr_Ea = fmempty, mxr_View = None, mxr_Zone = []\<rparr>"

definition reflectRecordMX :: "RecordMX \<Rightarrow> goany" where
  "reflectRecordMX r = PtrTo ''*ibclient.RecordMX''
     [(''Ref'', FString (mxr_Ref r)),
      (''Name'', FOther),
      (''MailExchanger'', FOther),
      (''Preference'', FOther),
      (''Comment'', FOther),
      (''Ttl'', FOther),
      (''UseTtl'', FOther),
      (''Ea'', FEA (mxr_Ea r)),
      (''View'', FOther),
      (''Zone'', FString (mxr_Zone r))]"

definition RecordMX_type :: "RecordMX objtype" where
  "RecordMX_type = \<lparr>ot_name = ''record:mx'', ot_empty = emptyRecordMX, ot_reflect = reflectRecordMX\<rparr>"

text \<open>The ObjectManager requests, with their arguments in call order.\<close>

datatype mx_req =
    CreateMXRecord string string string "32 word" "32 word" bool string ea
      \<comment> \<open>dnsView, recordName, mx, preference, ttl, useTTL, comment, ea\<close>
  | UpdateMXRecord string string string string "32 word" "32 word" bool string ea
      \<comment> \<open>ref, dnsView, recordName, mx, preference, ttl, useTTL, comment, ea\<close>

record MXRecordParameters =
  mxp_Name :: "string option"
  mxp_MailExchanger :: "string option"
  mxp_Preference :: "int option"
  mxp_Comment :: "string option"
  mxp_TTL :: "32 word option"
  mxp_UseTTL :: "bool option"
  mxp_ExtAttrs :: extattrs
  mxp_View :: "string option"

record MXRecordObservation =
  mxs_ID :: string
  mxs_Name :: "string option"
  mxs_MailExchanger :: "string option"
  mxs_Preference :: "int option"
  mxs_Comment :: "string option"
  mxs_TTL :: "32 word option"
  mxs_UseTTL :: "bool option"
  mxs_ExtAttrs :: extattrs
  mxs_View :: "string option"
  mxs_Ref :: "string option"
  mxs_Zone :: "string option"

record MXRecordCR = mobj +
  mx_ForProvider :: MXRecordParameters
  mx_AtProvider :: MXRecordObservation

section \<open>Error messages\<close>

definition errObserveMXRecord :: string where "errObserveMXRecord = ''cannot observe MXRecord''"
definition errCreateMXRecord :: string where "errCreateMXRecord = ''cannot create MXRecord''"
definition errUpdateMXRecord :: string where "errUpdateMXRecord = ''cannot update MXRecord''"
definition errDeleteMXRecord :: string where "errDeleteMXRecord = ''cannot delete MXRecord''"
definition MXRecord_errEmptyUID :: string where
  "MXRecord_errEmptyUID = ''cannot stamp MXRecord identity: managed resource's metadata.uid is empty''"

text \<open>An unset or out-of-range preference becomes 0.\<close>

definition preferenceOrZero :: "int option \<Rightarrow> 32 word" where
  "preferenceOrZero preference =
     (case preference of
        None \<Rightarrow> 0
      | Some n \<Rightarrow> if n < 0 \<or> n > 65535 then 0 else word_of_int n)"

section \<open>Field comparison and late initialisation\<close>

definition MXRecord_isUpToDate ::
  "string option \<Rightarrow> string option \<Rightarrow> int option \<Rightarrow> string option \<Rightarrow> 32
      word option \<Rightarrow> bool option \<Rightarrow> extattrs \<Rightarrow> RecordMX \<Rightarrow> bool" where
  "MXRecord_isUpToDate name mailExchanger preference comment ttl useTTL extAttrs rec =
     (if strOrEmpty name \<noteq> strOrEmpty (mxr_Name rec) then False
      else if strOrEmpty mailExchanger \<noteq> strOrEmpty (mxr_MailExchanger rec) then False
      else if preferenceOrZero preference \<noteq> uint32PtrOrZero (mxr_Preference rec) then False
      else if strOrEmpty comment \<noteq> strOrEmpty (mxr_Comment rec) then False
      else if boolOrFalse useTTL \<noteq> boolPtrOrFalse (mxr_UseTtl rec) then False
      else if boolOrFalse useTTL \<and> uint32PtrOrZero ttl \<noteq> uint32PtrOrZero (mxr_Ttl rec) then False
      else extAttrsEqual extAttrs (extAttrsFromEA (Strip (mxr_Ea rec))))"

text \<open>The ForProvider fields lateInitialize takes pointers to.\<close>

type_synonym mx_late = "string option \<times> 32 word option \<times> bool option \<times> extattrs"

definition MXRecord_lateInitialize :: "mx_late \<Rightarrow> RecordMX \<Rightarrow> mx_late \<times> bool" where
  "MXRecord_lateInitialize p rec =
     (case p of (comment, ttl, useTTL, extAttrs) \<Rightarrow>
       (let (comment1, c1) = (if comment = None \<and> mxr_Comment rec \<noteq> None \<and> mxr_Comment rec \<noteq> Some []
                             then (mxr_Comment rec, True) else (comment, False));
            (useTTL1, c2) = (if useTTL = None \<and> mxr_UseTtl rec \<noteq> None
                             then (mxr_UseTtl rec, True) else (useTTL, c1));
            (ttl1, c3) = (if ttl = None \<and> mxr_Ttl rec \<noteq> None \<and> boolOrFalse useTTL1
                             then (mxr_Ttl rec, True) else (ttl, c2));
            fromRec = extAttrsFromEA (Strip (mxr_Ea rec));
            (extAttrs1, c4) = (if extAttrs = fmempty \<and> fromRec \<noteq> fmempty
                             then (fromRec, True) else (extAttrs, c3))
        in ((comment1, ttl1, useTTL1, extAttrs1), c4)))"

record observedMXRecord =
  mxo_ID :: string
  mxo_Name :: "string option"
  mxo_MailExchanger :: "string option"
  mxo_Preference :: "int option"
  mxo_Comment :: "string option"
  mxo_TTL :: "32 word option"
  mxo_UseTTL :: "bool option"
  mxo_ExtAttrs :: extattrs
  mxo_View :: "string option"
  mxo_Ref :: "string option"
  mxo_Zone :: "string option"

definition observeFromRecordMX :: "string \<Rightarrow> RecordMX \<Rightarrow> observedMXRecord" where
  "observeFromRecordMX externalID rec =
     \<lparr>mxo_ID = externalID,
      mxo_Name = mxr_Name rec,
      mxo_MailExchanger = mxr_MailExchanger rec,
      mxo_Preference = map_option uint (mxr_Preference rec),
      mxo_Comment = ptrIfSet (mxr_Comment rec),
      mxo_TTL = mxr_Ttl rec,
      mxo_UseTTL = mxr_UseTtl rec,
      mxo_ExtAttrs = extAttrsFromEA (mxr_Ea rec),
      mxo_View = ptrIfSet (mxr_View rec),
      mxo_Ref = ptrIfNonEmpty (mxr_Ref rec),
      mxo_Zone = ptrIfNonEmpty (mxr_Zone rec)\<rparr>"

section \<open>SDK calls\<close>

definition createMXRecord ::
  "(RecordMX, mx_req) wapi \<Rightarrow> MXRecordParameters \<Rightarrow> string \<Rightarrow> mx_req world
      \<Rightarrow> (goerr + RecordMX) \<times> mx_req world" where
  "createMXRecord env p uid w =
     (if trim_space uid = [] then (Inl (TextError MXRecord_errEmptyUID), w)
      else
        (let e = Stamp (buildEA (mxp_ExtAttrs p)) uid
         in mutate_object env
              (CreateMXRecord (strOrEmpty (mxp_View p)) (strOrEmpty (mxp_Name p)) (strOrEmpty (mxp_MailExchanger p))
                  (preferenceOrZero (mxp_Preference p)) (uint32PtrOrZero (mxp_TTL p)) (boolOrFalse (mxp_UseTTL p))
                  (strOrEmpty (mxp_Comment p)) e) w))"

definition updateMXRecord ::
  "(RecordMX, mx_req) wapi \<Rightarrow> string \<Rightarrow> MXRecordParameters \<Rightarrow> string \<Rightarrow>
      mx_req world \<Rightarrow> (goerr + RecordMX) \<times> mx_req world" where
  "updateMXRecord env ref p uid w =
     (if trim_space uid = [] then (Inl (TextError MXRecord_errEmptyUID), w)
      else
        (let e = Stamp (buildEA (mxp_ExtAttrs p)) uid
         in mutate_object env
              (UpdateMXRecord ref (strOrEmpty (mxp_View p)) (strOrEmpty (mxp_Name p)) (strOrEmpty (mxp_MailExchanger
                  p)) (preferenceOrZero (mxp_Preference p)) (uint32PtrOrZero (mxp_TTL p)) (boolOrFalse (mxp_UseTTL p))
                  (strOrEmpty (mxp_Comment p)) e) w))"

definition deleteMXRecord :: "(RecordMX, mx_req) wapi \<Rightarrow> string \<Rightarrow> mx_req world \<Rightarrow>
    goerr option \<times> mx_req world" where
  "deleteMXRecord env ref w =
     (case delete_object env ref w of
        (Inl err, w1) \<Rightarrow> (Some err, w1)
      | (Inr _, w1) \<Rightarrow> (None, w1))"

section \<open>Identity resolution\<close>

definition resolveMXRecordIdentity ::
  "(RecordMX, mx_req) wapi \<Rightarrow> string \<Rightarrow> string \<Rightarrow> mx_req world \<Rightarrow> (goerr +
      RecordMX option \<times> Outcome) \<times> mx_req world" where
  "resolveMXRecordIdentity env ref uid w = Resolve env RecordMX_type ref uid w"

type_synonym MXRecord_observeResult = "(RecordMX, observedMXRecord) observeResult"

definition MXRecord_notFoundResult :: MXRecord_observeResult where
  "MXRecord_notFoundResult =
     \<lparr>ores_exists = False, ores_rec = emptyRecordMX, ores_obs = observeFromRecordMX [] emptyRecordMX,
      ores_lateInit = False, ores_refreshedRef = [], ores_adopted = False\<rparr>"

definition observeMXRecord ::
  "(RecordMX, mx_req) wapi \<Rightarrow> string \<Rightarrow> string \<Rightarrow> string \<Rightarrow> string \<Rightarrow> mx_late \<Rightarrow> mx_req world \<Rightarrow>
     (goerr + MXRecord_observeResult) \<times> mx_late \<times> mx_req world" where
  "observeMXRecord env endpoint crName externalName uid p w =
     (let ref = observeRefFor crName externalName in
      case resolveMXRecordIdentity env ref uid w of
        (Inl err, w1) \<Rightarrow>
          if IsSearchFailure err then
            (case ensureIdentityPrerequisite env endpoint w1 of
               (Some prereqErr, w2) \<Rightarrow> (Inl prereqErr, p, w2)
             | (None, w2) \<Rightarrow> (Inl err, p, w2))
          else (Inl err, p, w1)
      | (Inr (obj, outcome), w1) \<Rightarrow>
          if outcome = OutcomeNotFound then (Inr MXRecord_notFoundResult, p, w1)
          else
            (case obj of
               None \<Rightarrow> (Inl (TextError nilDereference), p, w1)
             | Some rec \<Rightarrow>
                 (case MXRecord_lateInitialize p rec of (p1, changed) \<Rightarrow>
                    (let found = (outcome = OutcomeRotated \<or> outcome = OutcomeFoundByUID)
                     in (Inr \<lparr>ores_exists = True, ores_rec = rec,
                              ores_obs = observeFromRecordMX (mxr_Ref rec) rec,
                              ores_lateInit = (if found then True else changed),
                              ores_refreshedRef = (if found then mxr_Ref rec else []),
                              ores_adopted = (outcome = OutcomeAdopted)\<rparr>, p1, w1)))))"

definition deleteMXRecordIdentity ::
  "(RecordMX, mx_req) wapi \<Rightarrow> string \<Rightarrow> string \<Rightarrow> string \<Rightarrow> mx_req world \<Rightarrow> goerr option \<times> mx_req world" where
  "deleteMXRecordIdentity env endpoint ref uid w =
     (case resolveMXRecordIdentity env ref uid w of
        (Inl err, w1) \<Rightarrow>
          if IsSearchFailure err then
            (case ensureIdentityPrerequisite env endpoint w1 of
               (Some prereqErr, w2) \<Rightarrow> (Some prereqErr, w2)
             | (None, w2) \<Rightarrow> (Some (Wrapped errDeleteMXRecord err), w2))
          else (Some (Wrapped errDeleteMXRecord err), w1)
      | (Inr (obj, outcome), w1) \<Rightarrow>
          (case outcome of
             OutcomeNotFound \<Rightarrow> (None, w1)
           | OutcomeAdopted \<Rightarrow> (Some (TextError errDeleteUnverifiedOwnership), w1)
           | _ \<Rightarrow>
               (case obj of
                  None \<Rightarrow> (Some (TextError nilDereference), w1)
                | Some rec \<Rightarrow>
                    (case deleteMXRecord env (mxr_Ref rec) w1 of
                       (None, w2) \<Rightarrow> (None, w2)
                     | (Some delErr, w2) \<Rightarrow>
                         if isNotFound (Some delErr) then (None, w2)
                         else (Some (Wrapped errDeleteMXRecord delErr), w2)))))"

section \<open>The external clients\<close>

text \<open>The pointers to spec fields Observe hands over, and their write-back.\<close>

definition MXRecord_latePart :: "MXRecordParameters \<Rightarrow> mx_late" where
  "MXRecord_latePart p = (mxp_Comment p, mxp_TTL p, mxp_UseTTL p, mxp_ExtAttrs p)"

definition MXRecord_setLate :: "MXRecordParameters \<Rightarrow> mx_late \<Rightarrow> MXRecordParameters" where
  "MXRecord_setLate p l = (case l of (comment, ttl, useTTL, extAttrs) \<Rightarrow>
     p\<lparr>mxp_Comment := comment, mxp_TTL := ttl, mxp_UseTTL := useTTL, mxp_ExtAttrs := extAttrs\<rparr>)"

subsection \<open>namespaced.go\<close>

definition namespaced_MXRecord_Observe ::
  "(RecordMX, mx_req) wapi \<Rightarrow> string \<Rightarrow> MXRecordCR \<Rightarrow> mx_req world \<Rightarrow>
      (goerr + ExternalObservation) \<times> MXRecordCR \<times> mx_req world" where
  "namespaced_MXRecord_Observe env endpoint cr w =
     (case observeMXRecord env endpoint (mo_name cr) (GetExternalName cr) (mo_uid cr)
             (MXRecord_latePart (mx_ForProvider cr)) w of
        (Inl err, l, w1) \<Rightarrow>
          (let cr1 = cr\<lparr>mx_ForProvider := MXRecord_setLate (mx_ForProvider cr) l\<rparr> in
           if errors_as is_PrerequisiteError err then (Inl err, cr1, w1)
           else (Inl (Wrapped errObserveMXRecord err), cr1, w1))
      | (Inr res, l, w1) \<Rightarrow>
          (let p = MXRecord_setLate (mx_ForProvider cr) l;
               cr1 = cr\<lparr>mx_ForProvider := p\<rparr> in
           if \<not> ores_exists res then (Inr notExists, cr1, w1)
           else
             (let o1 = ores_obs res;
                  cr2 = cr1\<lparr>mx_AtProvider :=
                    \<lparr>mxs_ID = mxo_ID o1, mxs_Name = mxo_Name o1, mxs_MailExchanger =
                     mxo_MailExchanger o1, mxs_Preference = mxo_Preference o1, mxs_Comment =
                     mxo_Comment o1, mxs_TTL = mxo_TTL o1, mxs_UseTTL = mxo_UseTTL o1, mxs_ExtAttrs
                     = mxo_ExtAttrs o1, mxs_View = mxo_View o1, mxs_Ref = mxo_Ref o1, mxs_Zone =
                     mxo_Zone o1\<rparr>\<rparr>;
                  cr3 = (if ores_refreshedRef res \<noteq> [] then SetExternalName (ores_refreshedRef res) cr2 else cr2);
                  cr4 = SetAvailable cr3;
                  upToDate = (MXRecord_isUpToDate (mxp_Name p) (mxp_MailExchanger p) (mxp_Preference p) (mxp_Comment
                                p) (mxp_TTL p) (mxp_UseTTL p) (mxp_ExtAttrs p) (ores_rec res)
                                \<and> \<not> ores_adopted res)
              in (Inr \<lparr>ResourceExists = True, ResourceUpToDate = upToDate,
                       ResourceLateInitialized = ores_lateInit res\<rparr>, cr4, w1))))"

definition namespaced_MXRecord_Create ::
  "(RecordMX, mx_req) wapi \<Rightarrow> string \<Rightarrow> MXRecordCR \<Rightarrow> mx_req world \<Rightarrow>
      goerr option \<times> MXRecordCR \<times> mx_req world" where
  "namespaced_MXRecord_Create env endpoint cr w =
     (let p = mx_ForProvider cr; uid = mo_uid cr in
      if trim_space uid = [] then (Some (TextError MXRecord_errEmptyUID), cr, w)
      else
          (case ensureIdentityPrerequisite env endpoint w of
             (Some err, w1) \<Rightarrow> (Some err, cr, w1)
           | (None, w1) \<Rightarrow>
               (case createMXRecord env p uid w1 of
                  (Inl err, w2) \<Rightarrow> (Some (Wrapped errCreateMXRecord err), cr, w2)
                | (Inr rec, w2) \<Rightarrow> (None, SetExternalName (mxr_Ref rec) cr, w2))))"

definition namespaced_MXRecord_Update ::
  "(RecordMX, mx_req) wapi \<Rightarrow> string \<Rightarrow> MXRecordCR \<Rightarrow> mx_req world \<Rightarrow>
      goerr option \<times> MXRecordCR \<times> mx_req world" where
  "namespaced_MXRecord_Update env endpoint cr w =
     (let p = mx_ForProvider cr; externalID = GetExternalName cr in
      case ensureIdentityPrerequisite env endpoint w of
        (Some err, w1) \<Rightarrow> (Some err, cr, w1)
      | (None, w1) \<Rightarrow>
          (case updateMXRecord env externalID p (mo_uid cr) w1 of
             (Inl err, w2) \<Rightarrow> (Some (Wrapped errUpdateMXRecord err), cr, w2)
           | (Inr rec, w2) \<Rightarrow>
               if mxr_Ref rec \<noteq> [] \<and> mxr_Ref rec \<noteq> externalID then
                 (case Refresh env cr (mxr_Ref rec) w2 of
                    (Some err, cr1, w3) \<Rightarrow> (Some (Wrapped errPersistExternalName err), cr1, w3)
                  | (None, cr1, w3) \<Rightarrow> (None, cr1, w3))
               else (None, cr, w2)))"

definition namespaced_MXRecord_Delete ::
  "(RecordMX, mx_req) wapi \<Rightarrow> string \<Rightarrow> MXRecordCR \<Rightarrow> mx_req world \<Rightarrow> goerr option \<times> mx_req world" where
  "namespaced_MXRecord_Delete env endpoint cr w =
     (let externalID = GetExternalName cr in
      case deleteMXRecordIdentity env endpoint externalID (mo_uid cr) w of
        (Some err, w1) \<Rightarrow> (Some err, w1)
      | (None, w1) \<Rightarrow> (None, w1))"

subsection \<open>cluster.go\<close>

definition cluster_MXRecord_Observe ::
  "(RecordMX, mx_req) wapi \<Rightarrow> string \<Rightarrow> MXRecordCR \<Rightarrow> mx_req world \<Rightarrow>
      (goerr + ExternalObservation) \<times> MXRecordCR \<times> mx_req world" where
  "cluster_MXRecord_Observe env endpoint cr w =
     (case observeMXRecord env endpoint (mo_name cr) (GetExternalName cr) (mo_uid cr)
             (MXRecord_latePart (mx_ForProvider cr)) w of
        (Inl err, l, w1) \<Rightarrow>
          (let cr1 = cr\<lparr>mx_ForProvider := MXRecord_setLate (mx_ForProvider cr) l\<rparr> in
           if errors_as is_PrerequisiteError err then (Inl err, cr1, w1)
           else (Inl (Wrapped errObserveMXRecord err), cr1, w1))
      | (Inr res, l, w1) \<Rightarrow>
          (let p = MXRecord_setLate (mx_ForProvider cr) l;
               cr1 = cr\<lparr>mx_ForProvider := p\<rparr> in
           if \<not> ores_exists res then (Inr notExists, cr1, w1)
           else
             (let o1 = ores_obs res;
                  cr2 = cr1\<lparr>mx_AtProvider :=
                    \<lparr>mxs_ID = mxo_ID o1, mxs_Name = mxo_Name o1, mxs_MailExchanger =
                     mxo_MailExchanger o1, mxs_Preference = mxo_Preference o1, mxs_Comment =
                     mxo_Comment o1, mxs_TTL = mxo_TTL o1, mxs_UseTTL = mxo_UseTTL o1, mxs_ExtAttrs
                     = mxo_ExtAttrs o1, mxs_View = mxo_View o1, mxs_Ref = mxo_Ref o1, mxs_Zone =
                     mxo_Zone o1\<rparr>\<rparr>;
                  cr3 = (if ores_refreshedRef res \<noteq> [] then SetExternalName (ores_refreshedRef res) cr2 else cr2);
                  cr4 = SetAvailable cr3;
                  upToDate = (MXRecord_isUpToDate (mxp_Name p) (mxp_MailExchanger p) (mxp_Preference p) (mxp_Comment
                                p) (mxp_TTL p) (mxp_UseTTL p) (mxp_ExtAttrs p) (ores_rec res)
                                \<and> \<not> ores_adopted res)
              in (Inr \<lparr>ResourceExists = True, ResourceUpToDate = upToDate,
                       ResourceLateInitialized = ores_lateInit res\<rparr>, cr4, w1))))"

definition cluster_MXRecord_Create ::
  "(RecordMX, mx_req) wapi \<Rightarrow> string \<Rightarrow> MXRecordCR \<Rightarrow> mx_req world \<Rightarrow>
      goerr option \<times> MXRecordCR \<times> mx_req world" where
  "cluster_MXRecord_Create env endpoint cr w =
     (let p = mx_ForProvider cr; uid = mo_uid cr in
      if trim_space uid = [] then (Some (TextError MXRecord_errEmptyUID), cr, w)
      else
          (case ensureIdentityPrerequisite env endpoint w of
             (Some err, w1) \<Rightarrow> (Some err, cr, w1)
           | (None, w1) \<Rightarrow>
               (case createMXRecord env p uid w1 of
                  (Inl err, w2) \<Rightarrow> (Some (Wrapped errCreateMXRecord err), cr, w2)
                | (Inr rec, w2) \<Rightarrow> (None, SetExternalName (mxr_Ref rec) cr, w2))))"

definition cluster_MXRecord_Update ::
  "(RecordMX, mx_req) wapi \<Rightarrow> string \<Rightarrow> MXRecordCR \<Rightarrow> mx_req world \<Rightarrow>
      goerr option \<times> MXRecordCR \<times> mx_req world" where
  "cluster_MXRecord_Update env endpoint cr w =
     (let p = mx_ForProvider cr; externalID = GetExternalName cr in
      case ensureIdentityPrerequisite env endpoint w of
        (Some err, w1) \<Rightarrow> (Some err, cr, w1)
      | (None, w1) \<Rightarrow>
          (case updateMXRecord env externalID p (mo_uid cr) w1 of
             (Inl err, w2) \<Rightarrow> (Some (Wrapped errUpdateMXRecord err), cr, w2)
           | (Inr rec, w2) \<Rightarrow>
               if mxr_Ref rec \<noteq> [] \<and> mxr_Ref rec \<noteq> externalID then
                 (case Refresh env cr (mxr_Ref rec) w2 of
                    (Some err, cr1, w3) \<Rightarrow> (Some (Wrapped errPersistExternalName err), cr1, w3)
                  | (None, cr1, w3) \<Rightarrow> (None, cr1, w3))
               else (None, cr, w2)))"

definition cluster_MXRecord_Delete ::
  "(RecordMX, mx_req) wapi \<Rightarrow> string \<Rightarrow> MXRecordCR \<Rightarrow> mx_req world \<Rightarrow> goerr option \<times> mx_req world" where
  "cluster_MXRecord_Delete env endpoint cr w =
     (let externalID = GetExternalName cr in
      case deleteMXRecordIdentity env endpoint externalID (mo_uid cr) w of
        (Some err, w1) \<Rightarrow> (Some err, w1)
      | (None, w1) \<Rightarrow> (None, w1))"

section \<open>The contract of the ladder client\<close>

text \<open>The requests of a spec, what a Grid object holds of a request, and the drift check of a resource.\<close>

definition mx_create_request :: "MXRecordParameters \<Rightarrow> string \<Rightarrow> mx_req" where
  "mx_create_request p uid = CreateMXRecord
     (strOrEmpty (mxp_View p)) (strOrEmpty (mxp_Name p)) (strOrEmpty (mxp_MailExchanger p)) (preferenceOrZero
         (mxp_Preference p)) (uint32PtrOrZero (mxp_TTL p)) (boolOrFalse (mxp_UseTTL p)) (strOrEmpty (mxp_Comment p))
         (Stamp (buildEA (mxp_ExtAttrs p)) uid)"

definition mx_update_request :: "string \<Rightarrow> MXRecordParameters \<Rightarrow> string \<Rightarrow> mx_req" where
  "mx_update_request ref p uid = UpdateMXRecord ref
     (strOrEmpty (mxp_View p)) (strOrEmpty (mxp_Name p)) (strOrEmpty (mxp_MailExchanger p)) (preferenceOrZero
         (mxp_Preference p)) (uint32PtrOrZero (mxp_TTL p)) (boolOrFalse (mxp_UseTTL p)) (strOrEmpty (mxp_Comment p))
         (Stamp (buildEA (mxp_ExtAttrs p)) uid)"

fun mx_req_ea :: "mx_req \<Rightarrow> ea" where
  "mx_req_ea (CreateMXRecord dnsView recordName mx preference ttl useTTL comment ea) = ea"
| "mx_req_ea (UpdateMXRecord ref dnsView recordName mx preference ttl useTTL comment ea) = ea"

fun mx_holds :: "mx_req \<Rightarrow> RecordMX \<Rightarrow> bool" where
  "mx_holds (CreateMXRecord dnsView recordName mx preference ttl useTTL comment ea) rec \<longleftrightarrow>
     strOrEmpty (mxr_Name rec) = recordName \<and>
     strOrEmpty (mxr_MailExchanger rec) = mx \<and>
     ttlOrZero (mxr_Preference rec) = preference \<and>
     strOrEmpty (mxr_Comment rec) = comment \<and>
     boolOrFalse (mxr_UseTtl rec) = useTTL \<and>
     (useTTL \<longrightarrow> ttlOrZero (mxr_Ttl rec) = ttl) \<and>
     mxr_Ea rec = ea"
| "mx_holds (UpdateMXRecord ref dnsView recordName mx preference ttl useTTL comment ea) rec \<longleftrightarrow>
     strOrEmpty (mxr_Name rec) = recordName \<and>
     strOrEmpty (mxr_MailExchanger rec) = mx \<and>
     ttlOrZero (mxr_Preference rec) = preference \<and>
     strOrEmpty (mxr_Comment rec) = comment \<and>
     boolOrFalse (mxr_UseTtl rec) = useTTL \<and>
     (useTTL \<longrightarrow> ttlOrZero (mxr_Ttl rec) = ttl) \<and>
     mxr_Ea rec = ea"

definition MXRecord_utd :: "MXRecordCR \<Rightarrow> RecordMX \<Rightarrow> bool" where
  "MXRecord_utd cr rec = (let p = mx_ForProvider cr in
     MXRecord_isUpToDate (mxp_Name p) (mxp_MailExchanger p) (mxp_Preference p) (mxp_Comment
                                p) (mxp_TTL p) (mxp_UseTTL p) (mxp_ExtAttrs p) rec)"

definition MXRecord_spec_ok :: "MXRecordCR \<Rightarrow> bool" where
  "MXRecord_spec_ok cr \<longleftrightarrow> (let p = mx_ForProvider cr in reserved_free (mxp_ExtAttrs p))"

definition MXRecord_keeps :: "mx_late \<Rightarrow> mx_late \<Rightarrow> bool" where
  "MXRecord_keeps l l' = (case (l, l') of ((comment, ttl, useTTL, extAttrs), (comment', ttl', useTTL', extAttrs'))
      \<Rightarrow>
     keeps_set comment comment' \<and> keeps_set ttl ttl' \<and> keeps_set useTTL useTTL' \<and> keeps_attrs extAttrs extAttrs')"

definition MXRecord_get :: "MXRecordCR \<Rightarrow> mx_late" where
  "MXRecord_get cr = MXRecord_latePart (mx_ForProvider cr)"

definition MXRecord_put :: "MXRecordCR \<Rightarrow> mx_late \<Rightarrow> MXRecordCR" where
  "MXRecord_put cr l = cr\<lparr>mx_ForProvider := MXRecord_setLate (mx_ForProvider cr) l\<rparr>"

definition MXRecord_status :: "RecordMX \<Rightarrow> MXRecordCR \<Rightarrow> MXRecordCR" where
  "MXRecord_status rec cr =
     (let o1 = observeFromRecordMX (mxr_Ref rec) rec; p = mx_ForProvider cr in
      cr\<lparr>mx_AtProvider :=
        \<lparr>mxs_ID = mxo_ID o1, mxs_Name = mxo_Name o1, mxs_MailExchanger = mxo_MailExchanger o1,
        mxs_Preference = mxo_Preference o1, mxs_Comment = mxo_Comment o1, mxs_TTL = mxo_TTL o1,
        mxs_UseTTL = mxo_UseTTL o1, mxs_ExtAttrs = mxo_ExtAttrs o1, mxs_View = mxo_View o1, mxs_Ref
        = mxo_Ref o1, mxs_Zone = mxo_Zone o1\<rparr>\<rparr>)"

definition MXRecord_valid :: "MXRecordCR \<Rightarrow> goerr option" where
  "MXRecord_valid cr = (let p = mx_ForProvider cr; uid = mo_uid cr in if trim_space uid = [] then Some (TextError MXRecord_errEmptyUID) else None)"

lemma MXRecord_lateInitialize_eq:
  "MXRecord_lateInitialize (comment, ttl, useTTL, extAttrs) rec =
     (let comment1 = fill comment (ptrIfSet (mxr_Comment rec));
          useTTL1 = fill useTTL (mxr_UseTtl rec);
          ttl1 = fill_if ttl (boolOrFalse useTTL1) (mxr_Ttl rec);
          extAttrs1 = fill_map extAttrs (userAttrs (mxr_Ea rec))
      in ((comment1, ttl1, useTTL1, extAttrs1), (comment1, ttl1, useTTL1, extAttrs1) \<noteq> (comment, ttl, useTTL,
          extAttrs)))"
  by (simp only: MXRecord_lateInitialize_def userAttrs_def [symmetric] Let_def case_prod_conv fill_steps
      prod.inject fill_changed ptrIfSet_set simp_thms de_Morgan_conj disj_ac)

interpretation mx_late: late_lens MXRecord_lateInitialize MXRecord_keeps MXRecord_get MXRecord_put MXRecord_utd
proof
  fix l l' :: mx_late and rec :: RecordMX and cr :: MXRecordCR
  obtain comment ttl useTTL extAttrs where l: "l = (comment, ttl, useTTL, extAttrs)" by (cases l) auto
  show "MXRecord_lateInitialize (fst (MXRecord_lateInitialize l rec)) rec = (fst (MXRecord_lateInitialize l rec),
      False)"
    by (simp add: l MXRecord_lateInitialize_eq Let_def)
  show "snd (MXRecord_lateInitialize l rec) \<longleftrightarrow> fst (MXRecord_lateInitialize l rec) \<noteq> l"
    by (simp add: l MXRecord_lateInitialize_eq Let_def)
  show "MXRecord_keeps l (fst (MXRecord_lateInitialize l rec))"
    by (simp add: l MXRecord_lateInitialize_eq Let_def MXRecord_keeps_def keeps_fill)
  show "MXRecord_get (MXRecord_put cr l) = l"
    by (simp add: l MXRecord_get_def MXRecord_put_def MXRecord_latePart_def MXRecord_setLate_def)
  show "MXRecord_put cr (MXRecord_get cr) = cr"
    by (simp add: MXRecord_get_def MXRecord_put_def MXRecord_latePart_def MXRecord_setLate_def)
  show "MXRecord_put (MXRecord_put cr l) l' = MXRecord_put cr l'"
    by (simp add: MXRecord_put_def MXRecord_setLate_def split: prod.split)
  show "MXRecord_utd (MXRecord_put cr (fst (MXRecord_lateInitialize (MXRecord_get cr) rec))) rec" if "MXRecord_utd cr rec"
    using that
    by (auto simp: MXRecord_get_def MXRecord_put_def MXRecord_latePart_def MXRecord_setLate_def MXRecord_lateInitialize_eq Let_def
        MXRecord_utd_def MXRecord_isUpToDate_def extAttrsEqual_iff simp flip: userAttrs_def split: if_splits)
qed

lemma RecordMX_type_simps [simp]:
  "ot_name RecordMX_type = ''record:mx''" "ref_ea_shape RecordMX_type"
  "stamped RecordMX_type rec = eaValue (mxr_Ea rec) EAKey"
  by (simp_all add: ref_ea_shape_def stamped_def RecordMX_type_def reflectRecordMX_def getRef_def getEA_def)

lemma deleteMXRecord_issue: "deleteMXRecord env = issue_delete env"
  by (intro ext) (simp only: deleteMXRecord_def issue_delete_def)

lemma createMXRecord_valid:
  assumes "MXRecord_valid cr = None"
  shows "createMXRecord env (mx_ForProvider cr) (mo_uid cr) w = mutate_object env (mx_create_request (mx_ForProvider
      cr) (mo_uid cr)) w"
  using assms
  by (auto simp: createMXRecord_def mx_create_request_def MXRecord_valid_def Let_def split: if_splits option.splits)


lemma MXRecord_Observe_shape:
  "namespaced_MXRecord_Observe env ep cr w =
     ladder_observe_shape (ladder_observe_error errObserveMXRecord) (Resolve env RecordMX_type)
         (ensureIdentityPrerequisite env ep)
       (\<lambda>r. r \<noteq> []) (\<lambda>r. True) (lift_late MXRecord_lateInitialize MXRecord_get MXRecord_put)
           MXRecord_status MXRecord_utd mxr_Ref cr w"
proof -
  have same: "cr\<lparr>mx_ForProvider := MXRecord_setLate (mx_ForProvider cr) (MXRecord_latePart (mx_ForProvider cr))\<rparr> = cr"
    by (simp add: MXRecord_latePart_def MXRecord_setLate_def)
  obtain r w1 where r: "Resolve env RecordMX_type (observeRefFor (mo_name cr) (GetExternalName cr)) (mo_uid cr) w =
      (r, w1)"
    by (cases "Resolve env RecordMX_type (observeRefFor (mo_name cr) (GetExternalName cr)) (mo_uid cr) w")
  obtain e w2 where e: "ensureIdentityPrerequisite env ep w1 = (e, w2)"
    by (cases "ensureIdentityPrerequisite env ep w1")
  note defs = namespaced_MXRecord_Observe_def observeMXRecord_def resolveMXRecordIdentity_def ladder_observe_shape_def ladder_observe_error_def
  show ?thesis
  proof (cases r)
    case (Inl err)
    then show ?thesis
      by (cases e) (simp_all add: defs Let_def r e same)
  next
    case (Inr a)
    obtain obj out where a: "a = (obj, out)" by (cases a)
    show ?thesis
    proof (cases obj)
      case None
      then show ?thesis
        by (simp add: defs Let_def r Inr a same MXRecord_notFoundResult_def)
    next
      case (Some rec)
      obtain l c where "MXRecord_lateInitialize (MXRecord_latePart (mx_ForProvider cr)) rec = (l, c)"
        by (cases "MXRecord_lateInitialize (MXRecord_latePart (mx_ForProvider cr)) rec")
      with Some show ?thesis
        by (simp add: defs Let_def r Inr a same lift_late_def MXRecord_get_def MXRecord_put_def
            MXRecord_status_def MXRecord_utd_def MXRecord_notFoundResult_def observeFromRecordMX_def)
    qed
  qed
qed

lemma MXRecord_Create_shape:
  "namespaced_MXRecord_Create env ep cr w =
     ladder_create_shape errCreateMXRecord MXRecord_valid (ensureIdentityPrerequisite env ep) (mutate_object env)
       (\<lambda>cr. mx_create_request (mx_ForProvider cr) (mo_uid cr)) mxr_Ref cr w"
proof -
  obtain e w1 where e: "ensureIdentityPrerequisite env ep w = (e, w1)"
    by (cases "ensureIdentityPrerequisite env ep w")
  have v: "(let p = mx_ForProvider cr; uid = mo_uid cr in if trim_space uid = [] then Some (TextError MXRecord_errEmptyUID) else None) = MXRecord_valid cr"
    by (simp only: MXRecord_valid_def)
  show ?thesis
  proof (cases "MXRecord_valid cr")
    case None
    then show ?thesis
      using createMXRecord_valid [OF None, of env w1] v
      by (cases e) (simp_all add: namespaced_MXRecord_Create_def ladder_create_shape_def Let_def e split: if_splits)
  next
    case (Some err)
    then show ?thesis
      using v by (simp add: namespaced_MXRecord_Create_def ladder_create_shape_def Let_def split: if_splits)
  qed
qed

lemma MXRecord_Update_shape:
  "namespaced_MXRecord_Update env ep cr w =
     ladder_update_shape errUpdateMXRecord MXRecord_errEmptyUID env (ensureIdentityPrerequisite env ep)
       (\<lambda>cr. mx_update_request (GetExternalName cr) (mx_ForProvider cr) (mo_uid cr)) mxr_Ref cr w"
proof -
  obtain e w1 where e: "ensureIdentityPrerequisite env ep w = (e, w1)"
    by (cases "ensureIdentityPrerequisite env ep w")
  show ?thesis
    by (cases e; cases "wapi_mutate env (calls w1) (mx_update_request (GetExternalName cr) (mx_ForProvider cr) (mo_uid cr))")
      (auto simp: namespaced_MXRecord_Update_def ladder_update_shape_def updateMXRecord_def mx_update_request_def
        Let_def e mutate_object_def)
qed

lemma MXRecord_Delete_shape:
  "namespaced_MXRecord_Delete env ep cr w =
     ladder_delete_shape errDeleteMXRecord errDeleteUnverifiedOwnership nilDereference
       (Resolve env RecordMX_type (GetExternalName cr) (mo_uid cr)) (ensureIdentityPrerequisite env ep)
       (issue_delete env) mxr_Ref w"
proof -
  have "namespaced_MXRecord_Delete env ep cr w = deleteMXRecordIdentity env ep (GetExternalName cr) (mo_uid cr) w"
    by (simp add: namespaced_MXRecord_Delete_def Let_def split: prod.split option.split)
  then show ?thesis
    by (simp only: deleteMXRecordIdentity_def ladder_delete_shape_def resolveMXRecordIdentity_def deleteMXRecord_issue)
qed

lemma MXRecord_scopes:
  "cluster_MXRecord_Observe = namespaced_MXRecord_Observe" "cluster_MXRecord_Create = namespaced_MXRecord_Create"
  "cluster_MXRecord_Update = namespaced_MXRecord_Update" "cluster_MXRecord_Delete = namespaced_MXRecord_Delete"
  by (intro ext, simp only: cluster_MXRecord_Observe_def namespaced_MXRecord_Observe_def cluster_MXRecord_Create_def
      namespaced_MXRecord_Create_def cluster_MXRecord_Update_def namespaced_MXRecord_Update_def
      cluster_MXRecord_Delete_def namespaced_MXRecord_Delete_def)+

lemma mx_written_utd:
  assumes "MXRecord_spec_ok cr"
    and "mx_holds (mx_create_request (mx_ForProvider cr) (mo_uid cr)) rec \<and> MXRecord_valid cr = None \<or>
      mx_holds (mx_update_request (GetExternalName cr) (mx_ForProvider cr) (mo_uid cr)) rec"
  shows "MXRecord_utd (fst (lift_late MXRecord_lateInitialize MXRecord_get MXRecord_put cr rec)) rec \<and>
    eaValue (mxr_Ea rec) EAKey = Some (mo_uid cr)"
proof -
  note reqs = mx_create_request_def mx_update_request_def
  have ok: "reserved_free (mxp_ExtAttrs (mx_ForProvider cr))"
    using assms(1) by (simp_all add: MXRecord_spec_ok_def Let_def)
  have ea: "mxr_Ea rec = Stamp (buildEA (mxp_ExtAttrs (mx_ForProvider cr))) (mo_uid cr)"
    using assms(2) by (elim disjE) (simp_all add: reqs)
  have fields: 
    "strOrEmpty (mxp_Name (mx_ForProvider cr)) = strOrEmpty (mxr_Name rec)" 
    "strOrEmpty (mxp_MailExchanger (mx_ForProvider cr)) = strOrEmpty (mxr_MailExchanger rec)" 
    "preferenceOrZero (mxp_Preference (mx_ForProvider cr)) = uint32PtrOrZero (mxr_Preference rec)" 
    "strOrEmpty (mxp_Comment (mx_ForProvider cr)) = strOrEmpty (mxr_Comment rec)" 
    "boolOrFalse (mxp_UseTTL (mx_ForProvider cr)) = boolPtrOrFalse (mxr_UseTtl rec)" 
    "boolOrFalse (mxp_UseTTL (mx_ForProvider cr)) \<Longrightarrow> ttlOrZero (mxp_TTL (mx_ForProvider cr)) = ttlOrZero (mxr_Ttl rec)"
    using assms(2) ok by (elim disjE; simp add: reqs)+
  have "userAttrs (mxr_Ea rec) = mxp_ExtAttrs (mx_ForProvider cr)"
    using ok(1) by (simp add: ea userAttrs_buildEA reserved_free_fmdrop)
  then have "MXRecord_utd cr rec"
    using fields
    by (simp add: MXRecord_utd_def MXRecord_isUpToDate_def Let_def extAttrsEqual_iff flip: userAttrs_def)
  with ea show ?thesis using mx_late.late_utd by simp
qed

interpretation mx: refreshing_client "lift_late MXRecord_lateInitialize MXRecord_get MXRecord_put" MXRecord_utd
  "\<lambda>s s'. MXRecord_keeps (MXRecord_get s) (MXRecord_get s')"
  RecordMX_type mxr_Ref MXRecord_status MXRecord_valid
  "\<lambda>cr. mx_create_request (mx_ForProvider cr) (mo_uid cr)"
  "\<lambda>cr. mx_update_request (GetExternalName cr) (mx_ForProvider cr) (mo_uid cr)"
  mx_req_ea mx_holds MXRecord_spec_ok
  "ladder_observe_error errObserveMXRecord" "\<lambda>r. r \<noteq> []" "\<lambda>r. True" mxr_Ref errCreateMXRecord errUpdateMXRecord errDeleteMXRecord MXRecord_errEmptyUID
  namespaced_MXRecord_Observe namespaced_MXRecord_Create namespaced_MXRecord_Update namespaced_MXRecord_Delete
proof (unfold_locales, goal_cases)
  case (6 cr)
  then show ?case by (auto simp: MXRecord_valid_def Let_def split: if_splits)
next
  case (13 n cr rec)
  have "MXRecord_get (SetExternalName n cr) = MXRecord_get cr"
    "MXRecord_put (SetExternalName n cr) l = SetExternalName n (MXRecord_put cr l)" for l
    by (simp_all add: MXRecord_get_def MXRecord_put_def SetExternalName_def)
  then show ?case
    by (simp add: mx_late.lifted_simps MXRecord_utd_def SetExternalName_def)
next
  case (14 cr rec)
  then show ?case using mx_written_utd [of cr rec] by simp
next
  case (15 cr rec)
  then show ?case using mx_written_utd [of cr rec] by simp
qed (simp_all add: MXRecord_Observe_shape MXRecord_Create_shape MXRecord_Update_shape MXRecord_Delete_shape
    mx_late.lifted_simps MXRecord_put_def MXRecord_status_def Let_def
    mx_create_request_def mx_update_request_def)

end
