(* ===== verification/SRVRecord.thy ===== *)
theory SRVRecord
  imports LadderClient
begin

text \<open>
  internal/controller/recordsrv: the SRVRecord controller, a client of the identity ladder.
\<close>

section \<open>Data\<close>

text \<open>ibclient.RecordSRV, as the provider requests it.\<close>

record RecordSRV =
  svr_Ref :: string
  svr_Name :: "string option"
  svr_Target :: "string option"
  svr_Priority :: "32 word option"
  svr_Weight :: "32 word option"
  svr_Port :: "32 word option"
  svr_Comment :: "string option"
  svr_Ttl :: "32 word option"
  svr_UseTtl :: "bool option"
  svr_Ea :: ea
  svr_View :: string
  svr_Zone :: string

definition emptyRecordSRV :: RecordSRV where
  "emptyRecordSRV = \<lparr>svr_Ref = [], svr_Name = None, svr_Target = None, svr_Priority = None, svr_Weight = None,
      svr_Port = None, svr_Comment = None, svr_Ttl = None, svr_UseTtl = None, svr_Ea = fmempty, svr_View = [], svr_Zone =
      []\<rparr>"

definition reflectRecordSRV :: "RecordSRV \<Rightarrow> goany" where
  "reflectRecordSRV r = PtrTo ''*ibclient.RecordSRV''
     [(''Ref'', FString (svr_Ref r)),
      (''Name'', FOther),
      (''Target'', FOther),
      (''Priority'', FOther),
      (''Weight'', FOther),
      (''Port'', FOther),
      (''Comment'', FOther),
      (''Ttl'', FOther),
      (''UseTtl'', FOther),
      (''Ea'', FEA (svr_Ea r)),
      (''View'', FString (svr_View r)),
      (''Zone'', FString (svr_Zone r))]"

definition RecordSRV_type :: "RecordSRV objtype" where
  "RecordSRV_type = \<lparr>ot_name = ''record:srv'', ot_empty = emptyRecordSRV, ot_reflect = reflectRecordSRV\<rparr>"

text \<open>The ObjectManager requests, with their arguments in call order.\<close>

datatype srv_req =
    CreateSRVRecord string string "32 word" "32 word" "32 word" string "32 word" bool string ea
      \<comment> \<open>dnsView, recordName, priority, weight, port, tgt, ttl, useTTL, comment, ea\<close>
  | UpdateSRVRecord string string "32 word" "32 word" "32 word" string "32 word" bool string ea
      \<comment> \<open>ref, recordName, priority, weight, port, tgt, ttl, useTTL, comment, ea\<close>

record SRVRecordParameters =
  svp_Name :: "string option"
  svp_Target :: "string option"
  svp_Priority :: "32 word option"
  svp_Weight :: "32 word option"
  svp_Port :: "32 word option"
  svp_Comment :: "string option"
  svp_TTL :: "32 word option"
  svp_UseTTL :: "bool option"
  svp_ExtAttrs :: extattrs
  svp_View :: "string option"

record SRVRecordObservation =
  svs_ID :: string
  svs_Name :: "string option"
  svs_Target :: "string option"
  svs_Priority :: "32 word option"
  svs_Weight :: "32 word option"
  svs_Port :: "32 word option"
  svs_Comment :: "string option"
  svs_TTL :: "32 word option"
  svs_UseTTL :: "bool option"
  svs_ExtAttrs :: extattrs
  svs_View :: "string option"
  svs_Ref :: "string option"
  svs_Zone :: "string option"

record SRVRecordCR = mobj +
  sv_ForProvider :: SRVRecordParameters
  sv_AtProvider :: SRVRecordObservation

section \<open>Error messages\<close>

definition errObserveSRVRecord :: string where "errObserveSRVRecord = ''cannot observe SRVRecord''"
definition errCreateSRVRecord :: string where "errCreateSRVRecord = ''cannot create SRVRecord''"
definition errUpdateSRVRecord :: string where "errUpdateSRVRecord = ''cannot update SRVRecord''"
definition errDeleteSRVRecord :: string where "errDeleteSRVRecord = ''cannot delete SRVRecord''"
definition SRVRecord_errEmptyUID :: string where
  "SRVRecord_errEmptyUID = ''cannot stamp SRVRecord identity: managed resource's metadata.uid is empty''"

section \<open>Field comparison and late initialisation\<close>

definition SRVRecord_isUpToDate ::
  "string option \<Rightarrow> string option \<Rightarrow> string option \<Rightarrow> 32 word option \<Rightarrow> 32
      word option \<Rightarrow> 32 word option \<Rightarrow> 32 word option \<Rightarrow> bool option \<Rightarrow>
      extattrs \<Rightarrow> RecordSRV \<Rightarrow> bool" where
  "SRVRecord_isUpToDate name target comment priority weight port ttl useTTL extAttrs rec =
     (if strOrEmpty name \<noteq> strOrEmpty (svr_Name rec) then False
      else if strOrEmpty target \<noteq> strOrEmpty (svr_Target rec) then False
      else if uint32PtrOrZero priority \<noteq> uint32PtrOrZero (svr_Priority rec) then False
      else if uint32PtrOrZero weight \<noteq> uint32PtrOrZero (svr_Weight rec) then False
      else if uint32PtrOrZero port \<noteq> uint32PtrOrZero (svr_Port rec) then False
      else if strOrEmpty comment \<noteq> strOrEmpty (svr_Comment rec) then False
      else if boolOrFalse useTTL \<noteq> boolPtrOrFalse (svr_UseTtl rec) then False
      else if boolOrFalse useTTL \<and> uint32PtrOrZero ttl \<noteq> uint32PtrOrZero (svr_Ttl rec) then False
      else extAttrsEqual extAttrs (extAttrsFromEA (Strip (svr_Ea rec))))"

text \<open>The ForProvider fields lateInitialize takes pointers to.\<close>

type_synonym srv_late = "string option \<times> 32 word option \<times> bool option \<times> extattrs"

definition SRVRecord_lateInitialize :: "srv_late \<Rightarrow> RecordSRV \<Rightarrow> srv_late \<times> bool" where
  "SRVRecord_lateInitialize p rec =
     (case p of (comment, ttl, useTTL, extAttrs) \<Rightarrow>
       (let (comment1, c1) = (if comment = None \<and> svr_Comment rec \<noteq> None \<and> svr_Comment rec \<noteq> Some []
                             then (svr_Comment rec, True) else (comment, False));
            (useTTL1, c2) = (if useTTL = None \<and> svr_UseTtl rec \<noteq> None
                             then (svr_UseTtl rec, True) else (useTTL, c1));
            (ttl1, c3) = (if ttl = None \<and> svr_Ttl rec \<noteq> None \<and> boolOrFalse useTTL1
                             then (svr_Ttl rec, True) else (ttl, c2));
            fromRec = extAttrsFromEA (Strip (svr_Ea rec));
            (extAttrs1, c4) = (if extAttrs = fmempty \<and> fromRec \<noteq> fmempty
                             then (fromRec, True) else (extAttrs, c3))
        in ((comment1, ttl1, useTTL1, extAttrs1), c4)))"

record observedSRVRecord =
  svo_ID :: string
  svo_Name :: "string option"
  svo_Target :: "string option"
  svo_Priority :: "32 word option"
  svo_Weight :: "32 word option"
  svo_Port :: "32 word option"
  svo_Comment :: "string option"
  svo_TTL :: "32 word option"
  svo_UseTTL :: "bool option"
  svo_ExtAttrs :: extattrs
  svo_View :: "string option"
  svo_Ref :: "string option"
  svo_Zone :: "string option"

definition observeFromRecordSRV :: "string \<Rightarrow> RecordSRV \<Rightarrow> observedSRVRecord" where
  "observeFromRecordSRV externalID rec =
     \<lparr>svo_ID = externalID,
      svo_Name = svr_Name rec,
      svo_Target = svr_Target rec,
      svo_Priority = svr_Priority rec,
      svo_Weight = svr_Weight rec,
      svo_Port = svr_Port rec,
      svo_Comment = ptrIfSet (svr_Comment rec),
      svo_TTL = svr_Ttl rec,
      svo_UseTTL = svr_UseTtl rec,
      svo_ExtAttrs = extAttrsFromEA (svr_Ea rec),
      svo_View = ptrIfNonEmpty (svr_View rec),
      svo_Ref = ptrIfNonEmpty (svr_Ref rec),
      svo_Zone = ptrIfNonEmpty (svr_Zone rec)\<rparr>"

section \<open>SDK calls\<close>

definition createSRVRecord ::
  "(RecordSRV, srv_req) wapi \<Rightarrow> SRVRecordParameters \<Rightarrow> string \<Rightarrow> srv_req world
      \<Rightarrow> (goerr + RecordSRV) \<times> srv_req world" where
  "createSRVRecord env p uid w =
     (if trim_space uid = [] then (Inl (TextError SRVRecord_errEmptyUID), w)
      else
        (let e = Stamp (buildEA (svp_ExtAttrs p)) uid
         in mutate_object env
              (CreateSRVRecord (strOrEmpty (svp_View p)) (strOrEmpty (svp_Name p)) (uint32PtrOrZero (svp_Priority p))
                  (uint32PtrOrZero (svp_Weight p)) (uint32PtrOrZero (svp_Port p)) (strOrEmpty (svp_Target p))
                  (uint32PtrOrZero (svp_TTL p)) (boolOrFalse (svp_UseTTL p)) (strOrEmpty (svp_Comment p)) e) w))"

definition updateSRVRecord ::
  "(RecordSRV, srv_req) wapi \<Rightarrow> string \<Rightarrow> SRVRecordParameters \<Rightarrow> string \<Rightarrow>
      srv_req world \<Rightarrow> (goerr + RecordSRV) \<times> srv_req world" where
  "updateSRVRecord env ref p uid w =
     (if trim_space uid = [] then (Inl (TextError SRVRecord_errEmptyUID), w)
      else
        (let e = Stamp (buildEA (svp_ExtAttrs p)) uid
         in mutate_object env
              (UpdateSRVRecord ref (strOrEmpty (svp_Name p)) (uint32PtrOrZero (svp_Priority p)) (uint32PtrOrZero
                  (svp_Weight p)) (uint32PtrOrZero (svp_Port p)) (strOrEmpty (svp_Target p)) (uint32PtrOrZero (svp_TTL p))
                  (boolOrFalse (svp_UseTTL p)) (strOrEmpty (svp_Comment p)) e) w))"

definition deleteSRVRecord :: "(RecordSRV, srv_req) wapi \<Rightarrow> string \<Rightarrow> srv_req world
    \<Rightarrow> goerr option \<times> srv_req world" where
  "deleteSRVRecord env ref w =
     (case delete_object env ref w of
        (Inl err, w1) \<Rightarrow> (Some err, w1)
      | (Inr _, w1) \<Rightarrow> (None, w1))"

section \<open>Identity resolution\<close>

definition resolveSRVRecordIdentity ::
  "(RecordSRV, srv_req) wapi \<Rightarrow> string \<Rightarrow> string \<Rightarrow> srv_req world \<Rightarrow>
      (goerr + RecordSRV option \<times> Outcome) \<times> srv_req world" where
  "resolveSRVRecordIdentity env ref uid w = Resolve env RecordSRV_type ref uid w"

type_synonym SRVRecord_observeResult = "(RecordSRV, observedSRVRecord) observeResult"

definition SRVRecord_notFoundResult :: SRVRecord_observeResult where
  "SRVRecord_notFoundResult =
     \<lparr>ores_exists = False, ores_rec = emptyRecordSRV, ores_obs = observeFromRecordSRV [] emptyRecordSRV,
      ores_lateInit = False, ores_refreshedRef = [], ores_adopted = False\<rparr>"

definition observeSRVRecord ::
  "(RecordSRV, srv_req) wapi \<Rightarrow> string \<Rightarrow> string \<Rightarrow> string \<Rightarrow> string \<Rightarrow> srv_late \<Rightarrow> srv_req world \<Rightarrow>
     (goerr + SRVRecord_observeResult) \<times> srv_late \<times> srv_req world" where
  "observeSRVRecord env endpoint crName externalName uid p w =
     (let ref = observeRefFor crName externalName in
      case resolveSRVRecordIdentity env ref uid w of
        (Inl err, w1) \<Rightarrow>
          if IsSearchFailure err then
            (case ensureIdentityPrerequisite env endpoint w1 of
               (Some prereqErr, w2) \<Rightarrow> (Inl prereqErr, p, w2)
             | (None, w2) \<Rightarrow> (Inl err, p, w2))
          else (Inl err, p, w1)
      | (Inr (obj, outcome), w1) \<Rightarrow>
          if outcome = OutcomeNotFound then (Inr SRVRecord_notFoundResult, p, w1)
          else
            (case obj of
               None \<Rightarrow> (Inl (TextError nilDereference), p, w1)
             | Some rec \<Rightarrow>
                 (case SRVRecord_lateInitialize p rec of (p1, changed) \<Rightarrow>
                    (let found = (outcome = OutcomeRotated \<or> outcome = OutcomeFoundByUID)
                     in (Inr \<lparr>ores_exists = True, ores_rec = rec,
                              ores_obs = observeFromRecordSRV (svr_Ref rec) rec,
                              ores_lateInit = (if found then True else changed),
                              ores_refreshedRef = (if found then svr_Ref rec else []),
                              ores_adopted = (outcome = OutcomeAdopted)\<rparr>, p1, w1)))))"

definition deleteSRVRecordIdentity ::
  "(RecordSRV, srv_req) wapi \<Rightarrow> string \<Rightarrow> string \<Rightarrow> string \<Rightarrow> srv_req world \<Rightarrow> goerr option \<times> srv_req world" where
  "deleteSRVRecordIdentity env endpoint ref uid w =
     (case resolveSRVRecordIdentity env ref uid w of
        (Inl err, w1) \<Rightarrow>
          if IsSearchFailure err then
            (case ensureIdentityPrerequisite env endpoint w1 of
               (Some prereqErr, w2) \<Rightarrow> (Some prereqErr, w2)
             | (None, w2) \<Rightarrow> (Some (Wrapped errDeleteSRVRecord err), w2))
          else (Some (Wrapped errDeleteSRVRecord err), w1)
      | (Inr (obj, outcome), w1) \<Rightarrow>
          (case outcome of
             OutcomeNotFound \<Rightarrow> (None, w1)
           | OutcomeAdopted \<Rightarrow> (Some (TextError errDeleteUnverifiedOwnership), w1)
           | _ \<Rightarrow>
               (case obj of
                  None \<Rightarrow> (Some (TextError nilDereference), w1)
                | Some rec \<Rightarrow>
                    (case deleteSRVRecord env (svr_Ref rec) w1 of
                       (None, w2) \<Rightarrow> (None, w2)
                     | (Some delErr, w2) \<Rightarrow>
                         if isNotFound (Some delErr) then (None, w2)
                         else (Some (Wrapped errDeleteSRVRecord delErr), w2)))))"

section \<open>The external clients\<close>

text \<open>The pointers to spec fields Observe hands over, and their write-back.\<close>

definition SRVRecord_latePart :: "SRVRecordParameters \<Rightarrow> srv_late" where
  "SRVRecord_latePart p = (svp_Comment p, svp_TTL p, svp_UseTTL p, svp_ExtAttrs p)"

definition SRVRecord_setLate :: "SRVRecordParameters \<Rightarrow> srv_late \<Rightarrow> SRVRecordParameters" where
  "SRVRecord_setLate p l = (case l of (comment, ttl, useTTL, extAttrs) \<Rightarrow>
     p\<lparr>svp_Comment := comment, svp_TTL := ttl, svp_UseTTL := useTTL, svp_ExtAttrs := extAttrs\<rparr>)"

subsection \<open>namespaced.go\<close>

definition namespaced_SRVRecord_Observe ::
  "(RecordSRV, srv_req) wapi \<Rightarrow> string \<Rightarrow> SRVRecordCR \<Rightarrow> srv_req world \<Rightarrow>
      (goerr + ExternalObservation) \<times> SRVRecordCR \<times> srv_req world" where
  "namespaced_SRVRecord_Observe env endpoint cr w =
     (case observeSRVRecord env endpoint (mo_name cr) (GetExternalName cr) (mo_uid cr)
             (SRVRecord_latePart (sv_ForProvider cr)) w of
        (Inl err, l, w1) \<Rightarrow>
          (let cr1 = cr\<lparr>sv_ForProvider := SRVRecord_setLate (sv_ForProvider cr) l\<rparr> in
           if errors_as is_PrerequisiteError err then (Inl err, cr1, w1)
           else (Inl (Wrapped errObserveSRVRecord err), cr1, w1))
      | (Inr res, l, w1) \<Rightarrow>
          (let p = SRVRecord_setLate (sv_ForProvider cr) l;
               cr1 = cr\<lparr>sv_ForProvider := p\<rparr> in
           if \<not> ores_exists res then (Inr notExists, cr1, w1)
           else
             (let o1 = ores_obs res;
                  cr2 = cr1\<lparr>sv_AtProvider :=
                    \<lparr>svs_ID = svo_ID o1, svs_Name = svo_Name o1, svs_Target = svo_Target o1,
                     svs_Priority = svo_Priority o1, svs_Weight = svo_Weight o1, svs_Port = svo_Port
                     o1, svs_Comment = svo_Comment o1, svs_TTL = svo_TTL o1, svs_UseTTL = svo_UseTTL
                     o1, svs_ExtAttrs = svo_ExtAttrs o1, svs_View = svo_View o1, svs_Ref = svo_Ref
                     o1, svs_Zone = svo_Zone o1\<rparr>\<rparr>;
                  cr3 = (if ores_refreshedRef res \<noteq> [] then SetExternalName (ores_refreshedRef res) cr2 else cr2);
                  cr4 = SetAvailable cr3;
                  upToDate = (SRVRecord_isUpToDate (svp_Name p) (svp_Target p) (svp_Comment p) (svp_Priority p)
                                (svp_Weight p) (svp_Port p) (svp_TTL p) (svp_UseTTL p) (svp_ExtAttrs
                                p) (ores_rec res)
                                \<and> \<not> ores_adopted res)
              in (Inr \<lparr>ResourceExists = True, ResourceUpToDate = upToDate,
                       ResourceLateInitialized = ores_lateInit res\<rparr>, cr4, w1))))"

definition namespaced_SRVRecord_Create ::
  "(RecordSRV, srv_req) wapi \<Rightarrow> string \<Rightarrow> SRVRecordCR \<Rightarrow> srv_req world \<Rightarrow>
      goerr option \<times> SRVRecordCR \<times> srv_req world" where
  "namespaced_SRVRecord_Create env endpoint cr w =
     (let p = sv_ForProvider cr; uid = mo_uid cr in
      if trim_space uid = [] then (Some (TextError SRVRecord_errEmptyUID), cr, w)
      else
          (case ensureIdentityPrerequisite env endpoint w of
             (Some err, w1) \<Rightarrow> (Some err, cr, w1)
           | (None, w1) \<Rightarrow>
               (case createSRVRecord env p uid w1 of
                  (Inl err, w2) \<Rightarrow> (Some (Wrapped errCreateSRVRecord err), cr, w2)
                | (Inr rec, w2) \<Rightarrow> (None, SetExternalName (svr_Ref rec) cr, w2))))"

definition namespaced_SRVRecord_Update ::
  "(RecordSRV, srv_req) wapi \<Rightarrow> string \<Rightarrow> SRVRecordCR \<Rightarrow> srv_req world \<Rightarrow>
      goerr option \<times> SRVRecordCR \<times> srv_req world" where
  "namespaced_SRVRecord_Update env endpoint cr w =
     (let p = sv_ForProvider cr; externalID = GetExternalName cr in
      case ensureIdentityPrerequisite env endpoint w of
        (Some err, w1) \<Rightarrow> (Some err, cr, w1)
      | (None, w1) \<Rightarrow>
          (case updateSRVRecord env externalID p (mo_uid cr) w1 of
             (Inl err, w2) \<Rightarrow> (Some (Wrapped errUpdateSRVRecord err), cr, w2)
           | (Inr rec, w2) \<Rightarrow>
               if svr_Ref rec \<noteq> [] \<and> svr_Ref rec \<noteq> externalID then
                 (case Refresh env cr (svr_Ref rec) w2 of
                    (Some err, cr1, w3) \<Rightarrow> (Some (Wrapped errPersistExternalName err), cr1, w3)
                  | (None, cr1, w3) \<Rightarrow> (None, cr1, w3))
               else (None, cr, w2)))"

definition namespaced_SRVRecord_Delete ::
  "(RecordSRV, srv_req) wapi \<Rightarrow> string \<Rightarrow> SRVRecordCR \<Rightarrow> srv_req world \<Rightarrow> goerr option \<times> srv_req world" where
  "namespaced_SRVRecord_Delete env endpoint cr w =
     (let externalID = GetExternalName cr in
      case deleteSRVRecordIdentity env endpoint externalID (mo_uid cr) w of
        (Some err, w1) \<Rightarrow> (Some err, w1)
      | (None, w1) \<Rightarrow> (None, w1))"

subsection \<open>cluster.go\<close>

definition cluster_SRVRecord_Observe ::
  "(RecordSRV, srv_req) wapi \<Rightarrow> string \<Rightarrow> SRVRecordCR \<Rightarrow> srv_req world \<Rightarrow>
      (goerr + ExternalObservation) \<times> SRVRecordCR \<times> srv_req world" where
  "cluster_SRVRecord_Observe env endpoint cr w =
     (case observeSRVRecord env endpoint (mo_name cr) (GetExternalName cr) (mo_uid cr)
             (SRVRecord_latePart (sv_ForProvider cr)) w of
        (Inl err, l, w1) \<Rightarrow>
          (let cr1 = cr\<lparr>sv_ForProvider := SRVRecord_setLate (sv_ForProvider cr) l\<rparr> in
           if errors_as is_PrerequisiteError err then (Inl err, cr1, w1)
           else (Inl (Wrapped errObserveSRVRecord err), cr1, w1))
      | (Inr res, l, w1) \<Rightarrow>
          (let p = SRVRecord_setLate (sv_ForProvider cr) l;
               cr1 = cr\<lparr>sv_ForProvider := p\<rparr> in
           if \<not> ores_exists res then (Inr notExists, cr1, w1)
           else
             (let o1 = ores_obs res;
                  cr2 = cr1\<lparr>sv_AtProvider :=
                    \<lparr>svs_ID = svo_ID o1, svs_Name = svo_Name o1, svs_Target = svo_Target o1,
                     svs_Priority = svo_Priority o1, svs_Weight = svo_Weight o1, svs_Port = svo_Port
                     o1, svs_Comment = svo_Comment o1, svs_TTL = svo_TTL o1, svs_UseTTL = svo_UseTTL
                     o1, svs_ExtAttrs = svo_ExtAttrs o1, svs_View = svo_View o1, svs_Ref = svo_Ref
                     o1, svs_Zone = svo_Zone o1\<rparr>\<rparr>;
                  cr3 = (if ores_refreshedRef res \<noteq> [] then SetExternalName (ores_refreshedRef res) cr2 else cr2);
                  cr4 = SetAvailable cr3;
                  upToDate = (SRVRecord_isUpToDate (svp_Name p) (svp_Target p) (svp_Comment p) (svp_Priority p)
                                (svp_Weight p) (svp_Port p) (svp_TTL p) (svp_UseTTL p) (svp_ExtAttrs
                                p) (ores_rec res)
                                \<and> \<not> ores_adopted res)
              in (Inr \<lparr>ResourceExists = True, ResourceUpToDate = upToDate,
                       ResourceLateInitialized = ores_lateInit res\<rparr>, cr4, w1))))"

definition cluster_SRVRecord_Create ::
  "(RecordSRV, srv_req) wapi \<Rightarrow> string \<Rightarrow> SRVRecordCR \<Rightarrow> srv_req world \<Rightarrow>
      goerr option \<times> SRVRecordCR \<times> srv_req world" where
  "cluster_SRVRecord_Create env endpoint cr w =
     (let p = sv_ForProvider cr; uid = mo_uid cr in
      if trim_space uid = [] then (Some (TextError SRVRecord_errEmptyUID), cr, w)
      else
          (case ensureIdentityPrerequisite env endpoint w of
             (Some err, w1) \<Rightarrow> (Some err, cr, w1)
           | (None, w1) \<Rightarrow>
               (case createSRVRecord env p uid w1 of
                  (Inl err, w2) \<Rightarrow> (Some (Wrapped errCreateSRVRecord err), cr, w2)
                | (Inr rec, w2) \<Rightarrow> (None, SetExternalName (svr_Ref rec) cr, w2))))"

definition cluster_SRVRecord_Update ::
  "(RecordSRV, srv_req) wapi \<Rightarrow> string \<Rightarrow> SRVRecordCR \<Rightarrow> srv_req world \<Rightarrow>
      goerr option \<times> SRVRecordCR \<times> srv_req world" where
  "cluster_SRVRecord_Update env endpoint cr w =
     (let p = sv_ForProvider cr; externalID = GetExternalName cr in
      case ensureIdentityPrerequisite env endpoint w of
        (Some err, w1) \<Rightarrow> (Some err, cr, w1)
      | (None, w1) \<Rightarrow>
          (case updateSRVRecord env externalID p (mo_uid cr) w1 of
             (Inl err, w2) \<Rightarrow> (Some (Wrapped errUpdateSRVRecord err), cr, w2)
           | (Inr rec, w2) \<Rightarrow>
               if svr_Ref rec \<noteq> [] \<and> svr_Ref rec \<noteq> externalID then
                 (case Refresh env cr (svr_Ref rec) w2 of
                    (Some err, cr1, w3) \<Rightarrow> (Some (Wrapped errPersistExternalName err), cr1, w3)
                  | (None, cr1, w3) \<Rightarrow> (None, cr1, w3))
               else (None, cr, w2)))"

definition cluster_SRVRecord_Delete ::
  "(RecordSRV, srv_req) wapi \<Rightarrow> string \<Rightarrow> SRVRecordCR \<Rightarrow> srv_req world \<Rightarrow> goerr option \<times> srv_req world" where
  "cluster_SRVRecord_Delete env endpoint cr w =
     (let externalID = GetExternalName cr in
      case deleteSRVRecordIdentity env endpoint externalID (mo_uid cr) w of
        (Some err, w1) \<Rightarrow> (Some err, w1)
      | (None, w1) \<Rightarrow> (None, w1))"

section \<open>The contract of the ladder client\<close>

text \<open>The requests of a spec, what a Grid object holds of a request, and the drift check of a resource.\<close>

definition srv_create_request :: "SRVRecordParameters \<Rightarrow> string \<Rightarrow> srv_req" where
  "srv_create_request p uid = CreateSRVRecord
     (strOrEmpty (svp_View p)) (strOrEmpty (svp_Name p)) (uint32PtrOrZero (svp_Priority p)) (uint32PtrOrZero
         (svp_Weight p)) (uint32PtrOrZero (svp_Port p)) (strOrEmpty (svp_Target p)) (uint32PtrOrZero (svp_TTL p))
         (boolOrFalse (svp_UseTTL p)) (strOrEmpty (svp_Comment p)) (Stamp (buildEA (svp_ExtAttrs p)) uid)"

definition srv_update_request :: "string \<Rightarrow> SRVRecordParameters \<Rightarrow> string \<Rightarrow> srv_req" where
  "srv_update_request ref p uid = UpdateSRVRecord ref
     (strOrEmpty (svp_Name p)) (uint32PtrOrZero (svp_Priority p)) (uint32PtrOrZero (svp_Weight p)) (uint32PtrOrZero
         (svp_Port p)) (strOrEmpty (svp_Target p)) (uint32PtrOrZero (svp_TTL p)) (boolOrFalse (svp_UseTTL p)) (strOrEmpty
         (svp_Comment p)) (Stamp (buildEA (svp_ExtAttrs p)) uid)"

fun srv_req_ea :: "srv_req \<Rightarrow> ea" where
  "srv_req_ea (CreateSRVRecord dnsView recordName priority weight port tgt ttl useTTL comment ea) = ea"
| "srv_req_ea (UpdateSRVRecord ref recordName priority weight port tgt ttl useTTL comment ea) = ea"

fun srv_holds :: "srv_req \<Rightarrow> RecordSRV \<Rightarrow> bool" where
  "srv_holds (CreateSRVRecord dnsView recordName priority weight port tgt ttl useTTL comment ea) rec \<longleftrightarrow>
     strOrEmpty (svr_Name rec) = recordName \<and>
     strOrEmpty (svr_Target rec) = tgt \<and>
     ttlOrZero (svr_Priority rec) = priority \<and>
     ttlOrZero (svr_Weight rec) = weight \<and>
     ttlOrZero (svr_Port rec) = port \<and>
     strOrEmpty (svr_Comment rec) = comment \<and>
     boolOrFalse (svr_UseTtl rec) = useTTL \<and>
     (useTTL \<longrightarrow> ttlOrZero (svr_Ttl rec) = ttl) \<and>
     svr_Ea rec = ea"
| "srv_holds (UpdateSRVRecord ref recordName priority weight port tgt ttl useTTL comment ea) rec \<longleftrightarrow>
     strOrEmpty (svr_Name rec) = recordName \<and>
     strOrEmpty (svr_Target rec) = tgt \<and>
     ttlOrZero (svr_Priority rec) = priority \<and>
     ttlOrZero (svr_Weight rec) = weight \<and>
     ttlOrZero (svr_Port rec) = port \<and>
     strOrEmpty (svr_Comment rec) = comment \<and>
     boolOrFalse (svr_UseTtl rec) = useTTL \<and>
     (useTTL \<longrightarrow> ttlOrZero (svr_Ttl rec) = ttl) \<and>
     svr_Ea rec = ea"

definition SRVRecord_utd :: "SRVRecordCR \<Rightarrow> RecordSRV \<Rightarrow> bool" where
  "SRVRecord_utd cr rec = (let p = sv_ForProvider cr in
     SRVRecord_isUpToDate (svp_Name p) (svp_Target p) (svp_Comment p) (svp_Priority p)
                                (svp_Weight p) (svp_Port p) (svp_TTL p) (svp_UseTTL p) (svp_ExtAttrs
                                p) rec)"

definition SRVRecord_spec_ok :: "SRVRecordCR \<Rightarrow> bool" where
  "SRVRecord_spec_ok cr \<longleftrightarrow> (let p = sv_ForProvider cr in reserved_free (svp_ExtAttrs p))"

definition SRVRecord_keeps :: "srv_late \<Rightarrow> srv_late \<Rightarrow> bool" where
  "SRVRecord_keeps l l' = (case (l, l') of ((comment, ttl, useTTL, extAttrs), (comment', ttl', useTTL', extAttrs'))
      \<Rightarrow>
     keeps_set comment comment' \<and> keeps_set ttl ttl' \<and> keeps_set useTTL useTTL' \<and> keeps_attrs extAttrs extAttrs')"

definition SRVRecord_get :: "SRVRecordCR \<Rightarrow> srv_late" where
  "SRVRecord_get cr = SRVRecord_latePart (sv_ForProvider cr)"

definition SRVRecord_put :: "SRVRecordCR \<Rightarrow> srv_late \<Rightarrow> SRVRecordCR" where
  "SRVRecord_put cr l = cr\<lparr>sv_ForProvider := SRVRecord_setLate (sv_ForProvider cr) l\<rparr>"

definition SRVRecord_status :: "RecordSRV \<Rightarrow> SRVRecordCR \<Rightarrow> SRVRecordCR" where
  "SRVRecord_status rec cr =
     (let o1 = observeFromRecordSRV (svr_Ref rec) rec; p = sv_ForProvider cr in
      cr\<lparr>sv_AtProvider :=
        \<lparr>svs_ID = svo_ID o1, svs_Name = svo_Name o1, svs_Target = svo_Target o1, svs_Priority =
        svo_Priority o1, svs_Weight = svo_Weight o1, svs_Port = svo_Port o1, svs_Comment =
        svo_Comment o1, svs_TTL = svo_TTL o1, svs_UseTTL = svo_UseTTL o1, svs_ExtAttrs =
        svo_ExtAttrs o1, svs_View = svo_View o1, svs_Ref = svo_Ref o1, svs_Zone = svo_Zone o1\<rparr>\<rparr>)"

definition SRVRecord_valid :: "SRVRecordCR \<Rightarrow> goerr option" where
  "SRVRecord_valid cr = (let p = sv_ForProvider cr; uid = mo_uid cr in if trim_space uid = [] then Some (TextError SRVRecord_errEmptyUID) else None)"

lemma SRVRecord_lateInitialize_eq:
  "SRVRecord_lateInitialize (comment, ttl, useTTL, extAttrs) rec =
     (let comment1 = fill comment (ptrIfSet (svr_Comment rec));
          useTTL1 = fill useTTL (svr_UseTtl rec);
          ttl1 = fill_if ttl (boolOrFalse useTTL1) (svr_Ttl rec);
          extAttrs1 = fill_map extAttrs (userAttrs (svr_Ea rec))
      in ((comment1, ttl1, useTTL1, extAttrs1), (comment1, ttl1, useTTL1, extAttrs1) \<noteq> (comment, ttl, useTTL,
          extAttrs)))"
  by (simp only: SRVRecord_lateInitialize_def userAttrs_def [symmetric] Let_def case_prod_conv fill_steps
      prod.inject fill_changed ptrIfSet_set simp_thms de_Morgan_conj disj_ac)

interpretation srv_late: late_lens SRVRecord_lateInitialize SRVRecord_keeps SRVRecord_get SRVRecord_put SRVRecord_utd
proof
  fix l l' :: srv_late and rec :: RecordSRV and cr :: SRVRecordCR
  obtain comment ttl useTTL extAttrs where l: "l = (comment, ttl, useTTL, extAttrs)" by (cases l) auto
  show "SRVRecord_lateInitialize (fst (SRVRecord_lateInitialize l rec)) rec = (fst (SRVRecord_lateInitialize l rec),
      False)"
    by (simp add: l SRVRecord_lateInitialize_eq Let_def)
  show "snd (SRVRecord_lateInitialize l rec) \<longleftrightarrow> fst (SRVRecord_lateInitialize l rec) \<noteq> l"
    by (simp add: l SRVRecord_lateInitialize_eq Let_def)
  show "SRVRecord_keeps l (fst (SRVRecord_lateInitialize l rec))"
    by (simp add: l SRVRecord_lateInitialize_eq Let_def SRVRecord_keeps_def keeps_fill)
  show "SRVRecord_get (SRVRecord_put cr l) = l"
    by (simp add: l SRVRecord_get_def SRVRecord_put_def SRVRecord_latePart_def SRVRecord_setLate_def)
  show "SRVRecord_put cr (SRVRecord_get cr) = cr"
    by (simp add: SRVRecord_get_def SRVRecord_put_def SRVRecord_latePart_def SRVRecord_setLate_def)
  show "SRVRecord_put (SRVRecord_put cr l) l' = SRVRecord_put cr l'"
    by (simp add: SRVRecord_put_def SRVRecord_setLate_def split: prod.split)
  show "SRVRecord_utd (SRVRecord_put cr (fst (SRVRecord_lateInitialize (SRVRecord_get cr) rec))) rec" if "SRVRecord_utd cr rec"
    using that
    by (auto simp: SRVRecord_get_def SRVRecord_put_def SRVRecord_latePart_def SRVRecord_setLate_def SRVRecord_lateInitialize_eq Let_def
        SRVRecord_utd_def SRVRecord_isUpToDate_def extAttrsEqual_iff simp flip: userAttrs_def split: if_splits)
qed

lemma RecordSRV_type_simps [simp]:
  "ot_name RecordSRV_type = ''record:srv''" "ref_ea_shape RecordSRV_type"
  "stamped RecordSRV_type rec = eaValue (svr_Ea rec) EAKey"
  by (simp_all add: ref_ea_shape_def stamped_def RecordSRV_type_def reflectRecordSRV_def getRef_def getEA_def)

lemma deleteSRVRecord_issue: "deleteSRVRecord env = issue_delete env"
  by (intro ext) (simp only: deleteSRVRecord_def issue_delete_def)

lemma createSRVRecord_valid:
  assumes "SRVRecord_valid cr = None"
  shows "createSRVRecord env (sv_ForProvider cr) (mo_uid cr) w = mutate_object env (srv_create_request (sv_ForProvider
      cr) (mo_uid cr)) w"
  using assms
  by (auto simp: createSRVRecord_def srv_create_request_def SRVRecord_valid_def Let_def split: if_splits option.splits)


lemma SRVRecord_Observe_shape:
  "namespaced_SRVRecord_Observe env ep cr w =
     ladder_observe_shape (ladder_observe_error errObserveSRVRecord) (Resolve env RecordSRV_type)
         (ensureIdentityPrerequisite env ep)
       (\<lambda>r. r \<noteq> []) (\<lambda>r. True) (lift_late SRVRecord_lateInitialize SRVRecord_get SRVRecord_put)
           SRVRecord_status SRVRecord_utd svr_Ref cr w"
proof -
  have same: "cr\<lparr>sv_ForProvider := SRVRecord_setLate (sv_ForProvider cr) (SRVRecord_latePart (sv_ForProvider cr))\<rparr> = cr"
    by (simp add: SRVRecord_latePart_def SRVRecord_setLate_def)
  obtain r w1 where r: "Resolve env RecordSRV_type (observeRefFor (mo_name cr) (GetExternalName cr)) (mo_uid cr) w =
      (r, w1)"
    by (cases "Resolve env RecordSRV_type (observeRefFor (mo_name cr) (GetExternalName cr)) (mo_uid cr) w")
  obtain e w2 where e: "ensureIdentityPrerequisite env ep w1 = (e, w2)"
    by (cases "ensureIdentityPrerequisite env ep w1")
  note defs = namespaced_SRVRecord_Observe_def observeSRVRecord_def resolveSRVRecordIdentity_def ladder_observe_shape_def ladder_observe_error_def
  show ?thesis
  proof (cases r)
    case (Inl err)
    then show ?thesis
      by (cases e) (simp_all add: defs Let_def r e same)
  next
    case (Inr a)
    obtain obj out where a: "a = (obj, out)" by (cases a)
    show ?thesis
    proof (cases obj)
      case None
      then show ?thesis
        by (simp add: defs Let_def r Inr a same SRVRecord_notFoundResult_def)
    next
      case (Some rec)
      obtain l c where "SRVRecord_lateInitialize (SRVRecord_latePart (sv_ForProvider cr)) rec = (l, c)"
        by (cases "SRVRecord_lateInitialize (SRVRecord_latePart (sv_ForProvider cr)) rec")
      with Some show ?thesis
        by (simp add: defs Let_def r Inr a same lift_late_def SRVRecord_get_def SRVRecord_put_def
            SRVRecord_status_def SRVRecord_utd_def SRVRecord_notFoundResult_def observeFromRecordSRV_def)
    qed
  qed
qed

lemma SRVRecord_Create_shape:
  "namespaced_SRVRecord_Create env ep cr w =
     ladder_create_shape errCreateSRVRecord SRVRecord_valid (ensureIdentityPrerequisite env ep) (mutate_object env)
       (\<lambda>cr. srv_create_request (sv_ForProvider cr) (mo_uid cr)) svr_Ref cr w"
proof -
  obtain e w1 where e: "ensureIdentityPrerequisite env ep w = (e, w1)"
    by (cases "ensureIdentityPrerequisite env ep w")
  have v: "(let p = sv_ForProvider cr; uid = mo_uid cr in if trim_space uid = [] then Some (TextError SRVRecord_errEmptyUID) else None) = SRVRecord_valid cr"
    by (simp only: SRVRecord_valid_def)
  show ?thesis
  proof (cases "SRVRecord_valid cr")
    case None
    then show ?thesis
      using createSRVRecord_valid [OF None, of env w1] v
      by (cases e) (simp_all add: namespaced_SRVRecord_Create_def ladder_create_shape_def Let_def e split: if_splits)
  next
    case (Some err)
    then show ?thesis
      using v by (simp add: namespaced_SRVRecord_Create_def ladder_create_shape_def Let_def split: if_splits)
  qed
qed

lemma SRVRecord_Update_shape:
  "namespaced_SRVRecord_Update env ep cr w =
     ladder_update_shape errUpdateSRVRecord SRVRecord_errEmptyUID env (ensureIdentityPrerequisite env ep)
       (\<lambda>cr. srv_update_request (GetExternalName cr) (sv_ForProvider cr) (mo_uid cr)) svr_Ref cr w"
proof -
  obtain e w1 where e: "ensureIdentityPrerequisite env ep w = (e, w1)"
    by (cases "ensureIdentityPrerequisite env ep w")
  show ?thesis
    by (cases e; cases "wapi_mutate env (calls w1) (srv_update_request (GetExternalName cr) (sv_ForProvider cr)
        (mo_uid cr))")
      (auto simp: namespaced_SRVRecord_Update_def ladder_update_shape_def updateSRVRecord_def srv_update_request_def
        Let_def e mutate_object_def)
qed

lemma SRVRecord_Delete_shape:
  "namespaced_SRVRecord_Delete env ep cr w =
     ladder_delete_shape errDeleteSRVRecord errDeleteUnverifiedOwnership nilDereference
       (Resolve env RecordSRV_type (GetExternalName cr) (mo_uid cr)) (ensureIdentityPrerequisite env ep)
       (issue_delete env) svr_Ref w"
proof -
  have "namespaced_SRVRecord_Delete env ep cr w = deleteSRVRecordIdentity env ep (GetExternalName cr) (mo_uid cr) w"
    by (simp add: namespaced_SRVRecord_Delete_def Let_def split: prod.split option.split)
  then show ?thesis
    by (simp only: deleteSRVRecordIdentity_def ladder_delete_shape_def resolveSRVRecordIdentity_def deleteSRVRecord_issue)
qed

lemma SRVRecord_scopes:
  "cluster_SRVRecord_Observe = namespaced_SRVRecord_Observe" "cluster_SRVRecord_Create = namespaced_SRVRecord_Create"
  "cluster_SRVRecord_Update = namespaced_SRVRecord_Update" "cluster_SRVRecord_Delete = namespaced_SRVRecord_Delete"
  by (intro ext, simp only: cluster_SRVRecord_Observe_def namespaced_SRVRecord_Observe_def
      cluster_SRVRecord_Create_def
      namespaced_SRVRecord_Create_def cluster_SRVRecord_Update_def namespaced_SRVRecord_Update_def
      cluster_SRVRecord_Delete_def namespaced_SRVRecord_Delete_def)+

lemma srv_written_utd:
  assumes "SRVRecord_spec_ok cr"
    and "srv_holds (srv_create_request (sv_ForProvider cr) (mo_uid cr)) rec \<and> SRVRecord_valid cr = None \<or>
      srv_holds (srv_update_request (GetExternalName cr) (sv_ForProvider cr) (mo_uid cr)) rec"
  shows "SRVRecord_utd (fst (lift_late SRVRecord_lateInitialize SRVRecord_get SRVRecord_put cr rec)) rec \<and>
    eaValue (svr_Ea rec) EAKey = Some (mo_uid cr)"
proof -
  note reqs = srv_create_request_def srv_update_request_def
  have ok: "reserved_free (svp_ExtAttrs (sv_ForProvider cr))"
    using assms(1) by (simp_all add: SRVRecord_spec_ok_def Let_def)
  have ea: "svr_Ea rec = Stamp (buildEA (svp_ExtAttrs (sv_ForProvider cr))) (mo_uid cr)"
    using assms(2) by (elim disjE) (simp_all add: reqs)
  have fields: 
    "strOrEmpty (svp_Name (sv_ForProvider cr)) = strOrEmpty (svr_Name rec)" 
    "strOrEmpty (svp_Target (sv_ForProvider cr)) = strOrEmpty (svr_Target rec)" 
    "uint32PtrOrZero (svp_Priority (sv_ForProvider cr)) = uint32PtrOrZero (svr_Priority rec)" 
    "uint32PtrOrZero (svp_Weight (sv_ForProvider cr)) = uint32PtrOrZero (svr_Weight rec)" 
    "uint32PtrOrZero (svp_Port (sv_ForProvider cr)) = uint32PtrOrZero (svr_Port rec)" 
    "strOrEmpty (svp_Comment (sv_ForProvider cr)) = strOrEmpty (svr_Comment rec)" 
    "boolOrFalse (svp_UseTTL (sv_ForProvider cr)) = boolPtrOrFalse (svr_UseTtl rec)" 
    "boolOrFalse (svp_UseTTL (sv_ForProvider cr)) \<Longrightarrow> ttlOrZero (svp_TTL (sv_ForProvider cr)) = ttlOrZero (svr_Ttl rec)"
    using assms(2) ok by (elim disjE; simp add: reqs)+
  have "userAttrs (svr_Ea rec) = svp_ExtAttrs (sv_ForProvider cr)"
    using ok(1) by (simp add: ea userAttrs_buildEA reserved_free_fmdrop)
  then have "SRVRecord_utd cr rec"
    using fields
    by (simp add: SRVRecord_utd_def SRVRecord_isUpToDate_def Let_def extAttrsEqual_iff flip: userAttrs_def)
  with ea show ?thesis using srv_late.late_utd by simp
qed

interpretation srv: refreshing_client "lift_late SRVRecord_lateInitialize SRVRecord_get SRVRecord_put" SRVRecord_utd
  "\<lambda>s s'. SRVRecord_keeps (SRVRecord_get s) (SRVRecord_get s')"
  RecordSRV_type svr_Ref SRVRecord_status SRVRecord_valid
  "\<lambda>cr. srv_create_request (sv_ForProvider cr) (mo_uid cr)"
  "\<lambda>cr. srv_update_request (GetExternalName cr) (sv_ForProvider cr) (mo_uid cr)"
  srv_req_ea srv_holds SRVRecord_spec_ok
  "ladder_observe_error errObserveSRVRecord" "\<lambda>r. r \<noteq> []" "\<lambda>r. True" svr_Ref errCreateSRVRecord errUpdateSRVRecord errDeleteSRVRecord SRVRecord_errEmptyUID
  namespaced_SRVRecord_Observe namespaced_SRVRecord_Create namespaced_SRVRecord_Update namespaced_SRVRecord_Delete
proof (unfold_locales, goal_cases)
  case (6 cr)
  then show ?case by (auto simp: SRVRecord_valid_def Let_def split: if_splits)
next
  case (13 n cr rec)
  have "SRVRecord_get (SetExternalName n cr) = SRVRecord_get cr"
    "SRVRecord_put (SetExternalName n cr) l = SetExternalName n (SRVRecord_put cr l)" for l
    by (simp_all add: SRVRecord_get_def SRVRecord_put_def SetExternalName_def)
  then show ?case
    by (simp add: srv_late.lifted_simps SRVRecord_utd_def SetExternalName_def)
next
  case (14 cr rec)
  then show ?case using srv_written_utd [of cr rec] by simp
next
  case (15 cr rec)
  then show ?case using srv_written_utd [of cr rec] by simp
qed (simp_all add: SRVRecord_Observe_shape SRVRecord_Create_shape SRVRecord_Update_shape SRVRecord_Delete_shape
    srv_late.lifted_simps SRVRecord_put_def SRVRecord_status_def Let_def
    srv_create_request_def srv_update_request_def)

end
