(* ===== verification/PTRRecord.thy ===== *)
theory PTRRecord
  imports LadderClient
begin

text \<open>
  internal/controller/recordptr: the PTRRecord controller, a client of the identity ladder. Besides the
  fields every record controller back-fills, the reverse name is derived by the Grid when the spec has none.
\<close>

section \<open>Data\<close>

text \<open>ibclient.RecordPTR, as the provider requests it.\<close>

record RecordPTR =
  ptr_Ref :: string
  ptr_PtrdName :: "string option"
  ptr_Name :: "string option"
  ptr_Ipv4Addr :: "string option"
  ptr_Ipv6Addr :: "string option"
  ptr_Comment :: "string option"
  ptr_Ttl :: "32 word option"
  ptr_UseTtl :: "bool option"
  ptr_Ea :: ea
  ptr_View :: string
  ptr_Zone :: string

definition emptyRecordPTR :: RecordPTR where
  "emptyRecordPTR = \<lparr>ptr_Ref = [], ptr_PtrdName = None, ptr_Name = None, ptr_Ipv4Addr = None, ptr_Ipv6Addr =
      None, ptr_Comment = None, ptr_Ttl = None, ptr_UseTtl = None, ptr_Ea = fmempty, ptr_View = [], ptr_Zone = []\<rparr>"

definition reflectRecordPTR :: "RecordPTR \<Rightarrow> goany" where
  "reflectRecordPTR r = PtrTo ''*ibclient.RecordPTR''
     [(''Ref'', FString (ptr_Ref r)),
      (''PtrdName'', FOther),
      (''Name'', FOther),
      (''Ipv4Addr'', FOther),
      (''Ipv6Addr'', FOther),
      (''Comment'', FOther),
      (''Ttl'', FOther),
      (''UseTtl'', FOther),
      (''Ea'', FEA (ptr_Ea r)),
      (''View'', FString (ptr_View r)),
      (''Zone'', FString (ptr_Zone r))]"

definition RecordPTR_type :: "RecordPTR objtype" where
  "RecordPTR_type = \<lparr>ot_name = ''record:ptr'', ot_empty = emptyRecordPTR, ot_reflect = reflectRecordPTR\<rparr>"

text \<open>The ObjectManager requests, with their arguments in call order.\<close>

datatype ptr_req =
    CreatePTRRecord string string string string string string bool "32 word" string ea
      \<comment> \<open>netView, dnsView, ptrdname, recordName, cidr, ipAddr, useTTL, ttl, comment, ea\<close>
  | UpdatePTRRecord string string string string string string bool "32 word" string ea
      \<comment> \<open>ref, netView, ptrdname, recordName, cidr, ipAddr, useTTL, ttl, comment, ea\<close>

record PTRRecordParameters =
  ptp_Ptrdname :: "string option"
  ptp_Name :: "string option"
  ptp_IPv4Addr :: "string option"
  ptp_IPv6Addr :: "string option"
  ptp_View :: "string option"
  ptp_Comment :: "string option"
  ptp_TTL :: "32 word option"
  ptp_UseTTL :: "bool option"
  ptp_ExtAttrs :: extattrs
  ptp_Cidr :: "string option"
  ptp_NetworkView :: "string option"

record PTRRecordObservation =
  pts_ID :: string
  pts_Ptrdname :: "string option"
  pts_Name :: "string option"
  pts_IPv4Addr :: "string option"
  pts_IPv6Addr :: "string option"
  pts_View :: "string option"
  pts_Comment :: "string option"
  pts_TTL :: "32 word option"
  pts_UseTTL :: "bool option"
  pts_ExtAttrs :: extattrs
  pts_Cidr :: "string option"
  pts_NetworkView :: "string option"
  pts_Ref :: "string option"
  pts_Zone :: "string option"

record PTRRecordCR = mobj +
  pt_ForProvider :: PTRRecordParameters
  pt_AtProvider :: PTRRecordObservation

section \<open>Error messages\<close>

definition errObservePTRRecord :: string where "errObservePTRRecord = ''cannot observe PTRRecord''"
definition errCreatePTRRecord :: string where "errCreatePTRRecord = ''cannot create PTRRecord''"
definition errUpdatePTRRecord :: string where "errUpdatePTRRecord = ''cannot update PTRRecord''"
definition errDeletePTRRecord :: string where "errDeletePTRRecord = ''cannot delete PTRRecord''"
definition PTRRecord_errEmptyUID :: string where
  "PTRRecord_errEmptyUID = ''cannot stamp PTRRecord identity: managed resource's metadata.uid is empty''"
definition errCidrIPMutex :: string where "errCidrIPMutex = ''cidr and ipv4Addr/ipv6Addr are mutually exclusive''"

section \<open>Field comparison and late initialisation\<close>

definition PTRRecord_isUpToDate ::
  "string option \<Rightarrow> string option \<Rightarrow> string option \<Rightarrow> string option \<Rightarrow>
      string option \<Rightarrow> 32 word option \<Rightarrow> bool option \<Rightarrow> extattrs \<Rightarrow> RecordPTR
      \<Rightarrow> bool" where
  "PTRRecord_isUpToDate ptrdname name ipv4Addr ipv6Addr comment ttl useTTL extAttrs rec =
     (if strOrEmpty ptrdname \<noteq> strOrEmpty (ptr_PtrdName rec) then False
      else if strOrEmpty name \<noteq> strOrEmpty (ptr_Name rec) then False
      else if strOrEmpty ipv4Addr \<noteq> strOrEmpty (ptr_Ipv4Addr rec) then False
      else if strOrEmpty ipv6Addr \<noteq> strOrEmpty (ptr_Ipv6Addr rec) then False
      else if strOrEmpty comment \<noteq> strOrEmpty (ptr_Comment rec) then False
      else if boolOrFalse useTTL \<noteq> boolOrFalse (ptr_UseTtl rec) then False
      else if boolOrFalse useTTL \<and> ttlOrZero ttl \<noteq> ttlOrZero (ptr_Ttl rec) then False
      else extAttrsEqual extAttrs (extAttrsFromEA (Strip (ptr_Ea rec))))"

text \<open>The ForProvider fields lateInitialize takes pointers to.\<close>

type_synonym ptr_late = "string option \<times> string option \<times> 32 word option \<times> bool option \<times> extattrs"

definition PTRRecord_lateInitialize :: "ptr_late \<Rightarrow> RecordPTR \<Rightarrow> ptr_late \<times> bool" where
  "PTRRecord_lateInitialize p rec =
     (case p of (name, comment, ttl, useTTL, extAttrs) \<Rightarrow>
       (let (name1, c1) = (if name = None \<and> ptr_Name rec \<noteq> None \<and> ptr_Name rec \<noteq> Some []
                             then (ptr_Name rec, True) else (name, False));
            (comment1, c2) = (if comment = None \<and> ptr_Comment rec \<noteq> None \<and> ptr_Comment rec \<noteq> Some []
                             then (ptr_Comment rec, True) else (comment, c1));
            (useTTL1, c3) = (if useTTL = None \<and> ptr_UseTtl rec \<noteq> None
                             then (ptr_UseTtl rec, True) else (useTTL, c2));
            (ttl1, c4) = (if ttl = None \<and> ptr_Ttl rec \<noteq> None \<and> boolOrFalse useTTL1
                             then (ptr_Ttl rec, True) else (ttl, c3));
            fromRec = extAttrsFromEA (Strip (ptr_Ea rec));
            (extAttrs1, c5) = (if extAttrs = fmempty \<and> fromRec \<noteq> fmempty
                             then (fromRec, True) else (extAttrs, c4))
        in ((name1, comment1, ttl1, useTTL1, extAttrs1), c5)))"

record observedRecordPTR =
  pto_ID :: string
  pto_Ptrdname :: "string option"
  pto_Name :: "string option"
  pto_IPv4Addr :: "string option"
  pto_IPv6Addr :: "string option"
  pto_View :: "string option"
  pto_Comment :: "string option"
  pto_TTL :: "32 word option"
  pto_UseTTL :: "bool option"
  pto_ExtAttrs :: extattrs
  pto_Ref :: "string option"
  pto_Zone :: "string option"

definition observeFromRecordPTR :: "string \<Rightarrow> RecordPTR \<Rightarrow> observedRecordPTR" where
  "observeFromRecordPTR externalID rec =
     \<lparr>pto_ID = externalID,
      pto_Ptrdname = ptr_PtrdName rec,
      pto_Name = ptr_Name rec,
      pto_IPv4Addr = ptr_Ipv4Addr rec,
      pto_IPv6Addr = ptr_Ipv6Addr rec,
      pto_View = ptrIfNonEmpty (ptr_View rec),
      pto_Comment = ptrIfSet (ptr_Comment rec),
      pto_TTL = ptr_Ttl rec,
      pto_UseTTL = ptr_UseTtl rec,
      pto_ExtAttrs = extAttrsFromEA (ptr_Ea rec),
      pto_Ref = ptrIfNonEmpty (ptr_Ref rec),
      pto_Zone = ptrIfNonEmpty (ptr_Zone rec)\<rparr>"

section \<open>SDK calls\<close>

definition validatePTRRecordCreateInputs ::
  "string option \<Rightarrow> string option \<Rightarrow> string option \<Rightarrow> string \<Rightarrow> goerr option" where
  "validatePTRRecordCreateInputs ipv4Addr ipv6Addr cidr uid =
     (if trim_space uid = [] then Some (TextError PTRRecord_errEmptyUID)
      else if strOrEmpty cidr \<noteq> [] \<and> (strOrEmpty ipv4Addr \<noteq> [] \<or> strOrEmpty ipv6Addr \<noteq> []) then
        Some (TextError errCidrIPMutex)
      else None)"

definition PTRRecord_defaultNetworkView :: string where "PTRRecord_defaultNetworkView = ''default''"

definition createPTRRecord ::
  "(RecordPTR, ptr_req) wapi \<Rightarrow> PTRRecordParameters \<Rightarrow> string \<Rightarrow> ptr_req world
      \<Rightarrow> (goerr + RecordPTR) \<times> ptr_req world" where
  "createPTRRecord env p uid w =
     (case validatePTRRecordCreateInputs (ptp_IPv4Addr p) (ptp_IPv6Addr p) (ptp_Cidr p) uid of
        Some err \<Rightarrow> (Inl err, w)
      | None \<Rightarrow>
          (let cidrVal = strOrEmpty (ptp_Cidr p);
               ipAddr0 = strOrEmpty (ptp_IPv4Addr p);
               ipAddr = (if ipAddr0 = [] then strOrEmpty (ptp_IPv6Addr p) else ipAddr0);
               netView0 = strOrEmpty (ptp_NetworkView p);
               netView = (if cidrVal \<noteq> [] \<and> netView0 = [] then PTRRecord_defaultNetworkView else netView0);
               e = Stamp (buildEA (ptp_ExtAttrs p)) uid
           in mutate_object env
              (CreatePTRRecord netView (strOrEmpty (ptp_View p)) (strOrEmpty (ptp_Ptrdname p)) (strOrEmpty (ptp_Name
                  p)) cidrVal ipAddr (boolOrFalse (ptp_UseTTL p)) (ttlOrZero (ptp_TTL p)) (strOrEmpty (ptp_Comment p)) e)
                  w))"

definition updatePTRRecord ::
  "(RecordPTR, ptr_req) wapi \<Rightarrow> string \<Rightarrow> PTRRecordParameters \<Rightarrow> string \<Rightarrow>
      ptr_req world \<Rightarrow> (goerr + RecordPTR) \<times> ptr_req world" where
  "updatePTRRecord env ref p uid w =
     (if trim_space uid = [] then (Inl (TextError PTRRecord_errEmptyUID), w)
      else
        (let ipAddr0 = strOrEmpty (ptp_IPv4Addr p);
             ipAddr = (if ipAddr0 = [] then strOrEmpty (ptp_IPv6Addr p) else ipAddr0);
             e = Stamp (buildEA (ptp_ExtAttrs p)) uid
         in mutate_object env
              (UpdatePTRRecord ref [] (strOrEmpty (ptp_Ptrdname p)) (strOrEmpty (ptp_Name p)) [] ipAddr (boolOrFalse
                  (ptp_UseTTL p)) (ttlOrZero (ptp_TTL p)) (strOrEmpty (ptp_Comment p)) e) w))"

definition deletePTRRecord :: "(RecordPTR, ptr_req) wapi \<Rightarrow> string \<Rightarrow> ptr_req world
    \<Rightarrow> goerr option \<times> ptr_req world" where
  "deletePTRRecord env ref w =
     (case delete_object env ref w of
        (Inl err, w1) \<Rightarrow> (Some err, w1)
      | (Inr _, w1) \<Rightarrow> (None, w1))"

section \<open>Identity resolution\<close>

definition resolvePTRRecordIdentity ::
  "(RecordPTR, ptr_req) wapi \<Rightarrow> string \<Rightarrow> string \<Rightarrow> ptr_req world \<Rightarrow>
      (goerr + RecordPTR option \<times> Outcome) \<times> ptr_req world" where
  "resolvePTRRecordIdentity env ref uid w = Resolve env RecordPTR_type ref uid w"

type_synonym PTRRecord_observeResult = "(RecordPTR, observedRecordPTR) observeResult"

definition PTRRecord_notFoundResult :: PTRRecord_observeResult where
  "PTRRecord_notFoundResult =
     \<lparr>ores_exists = False, ores_rec = emptyRecordPTR, ores_obs = observeFromRecordPTR [] emptyRecordPTR,
      ores_lateInit = False, ores_refreshedRef = [], ores_adopted = False\<rparr>"

definition observePTRRecord ::
  "(RecordPTR, ptr_req) wapi \<Rightarrow> string \<Rightarrow> string \<Rightarrow> string \<Rightarrow> string \<Rightarrow> ptr_late \<Rightarrow> ptr_req world \<Rightarrow>
     (goerr + PTRRecord_observeResult) \<times> ptr_late \<times> ptr_req world" where
  "observePTRRecord env endpoint crName externalName uid p w =
     (let ref = observeRefFor crName externalName in
      case resolvePTRRecordIdentity env ref uid w of
        (Inl err, w1) \<Rightarrow>
          if IsSearchFailure err then
            (case ensureIdentityPrerequisite env endpoint w1 of
               (Some prereqErr, w2) \<Rightarrow> (Inl prereqErr, p, w2)
             | (None, w2) \<Rightarrow> (Inl err, p, w2))
          else (Inl err, p, w1)
      | (Inr (obj, outcome), w1) \<Rightarrow>
          if outcome = OutcomeNotFound then (Inr PTRRecord_notFoundResult, p, w1)
          else
            (case obj of
               None \<Rightarrow> (Inl (TextError nilDereference), p, w1)
             | Some rec \<Rightarrow>
                 (case PTRRecord_lateInitialize p rec of (p1, changed) \<Rightarrow>
                    (let found = (outcome = OutcomeRotated \<or> outcome = OutcomeFoundByUID)
                     in (Inr \<lparr>ores_exists = True, ores_rec = rec,
                              ores_obs = observeFromRecordPTR (ptr_Ref rec) rec,
                              ores_lateInit = (if found then True else changed),
                              ores_refreshedRef = (if found then ptr_Ref rec else []),
                              ores_adopted = (outcome = OutcomeAdopted)\<rparr>, p1, w1)))))"

definition deletePTRRecordIdentity ::
  "(RecordPTR, ptr_req) wapi \<Rightarrow> string \<Rightarrow> string \<Rightarrow> string \<Rightarrow> ptr_req world \<Rightarrow> goerr option \<times> ptr_req world" where
  "deletePTRRecordIdentity env endpoint ref uid w =
     (case resolvePTRRecordIdentity env ref uid w of
        (Inl err, w1) \<Rightarrow>
          if IsSearchFailure err then
            (case ensureIdentityPrerequisite env endpoint w1 of
               (Some prereqErr, w2) \<Rightarrow> (Some prereqErr, w2)
             | (None, w2) \<Rightarrow> (Some (Wrapped errDeletePTRRecord err), w2))
          else (Some (Wrapped errDeletePTRRecord err), w1)
      | (Inr (obj, outcome), w1) \<Rightarrow>
          (case outcome of
             OutcomeNotFound \<Rightarrow> (None, w1)
           | OutcomeAdopted \<Rightarrow> (Some (TextError errDeleteUnverifiedOwnership), w1)
           | _ \<Rightarrow>
               (case obj of
                  None \<Rightarrow> (Some (TextError nilDereference), w1)
                | Some rec \<Rightarrow>
                    (case deletePTRRecord env (ptr_Ref rec) w1 of
                       (None, w2) \<Rightarrow> (None, w2)
                     | (Some delErr, w2) \<Rightarrow>
                         if isNotFound (Some delErr) then (None, w2)
                         else (Some (Wrapped errDeletePTRRecord delErr), w2)))))"

section \<open>The external clients\<close>

text \<open>The pointers to spec fields Observe hands over, and their write-back.\<close>

definition PTRRecord_latePart :: "PTRRecordParameters \<Rightarrow> ptr_late" where
  "PTRRecord_latePart p = (ptp_Name p, ptp_Comment p, ptp_TTL p, ptp_UseTTL p, ptp_ExtAttrs p)"

definition PTRRecord_setLate :: "PTRRecordParameters \<Rightarrow> ptr_late \<Rightarrow> PTRRecordParameters" where
  "PTRRecord_setLate p l = (case l of (name, comment, ttl, useTTL, extAttrs) \<Rightarrow>
     p\<lparr>ptp_Name := name, ptp_Comment := comment, ptp_TTL := ttl, ptp_UseTTL := useTTL, ptp_ExtAttrs :=
         extAttrs\<rparr>)"

subsection \<open>namespaced.go\<close>

definition namespaced_PTRRecord_Observe ::
  "(RecordPTR, ptr_req) wapi \<Rightarrow> string \<Rightarrow> PTRRecordCR \<Rightarrow> ptr_req world \<Rightarrow>
      (goerr + ExternalObservation) \<times> PTRRecordCR \<times> ptr_req world" where
  "namespaced_PTRRecord_Observe env endpoint cr w =
     (case observePTRRecord env endpoint (mo_name cr) (GetExternalName cr) (mo_uid cr)
             (PTRRecord_latePart (pt_ForProvider cr)) w of
        (Inl err, l, w1) \<Rightarrow>
          (let cr1 = cr\<lparr>pt_ForProvider := PTRRecord_setLate (pt_ForProvider cr) l\<rparr> in
           if errors_as is_PrerequisiteError err then (Inl err, cr1, w1)
           else (Inl (Wrapped errObservePTRRecord err), cr1, w1))
      | (Inr res, l, w1) \<Rightarrow>
          (let p = PTRRecord_setLate (pt_ForProvider cr) l;
               cr1 = cr\<lparr>pt_ForProvider := p\<rparr> in
           if \<not> ores_exists res then (Inr notExists, cr1, w1)
           else
             (let o1 = ores_obs res;
                  cr2 = cr1\<lparr>pt_AtProvider :=
                    \<lparr>pts_ID = pto_ID o1, pts_Ptrdname = pto_Ptrdname o1, pts_Name = pto_Name o1,
                     pts_IPv4Addr = pto_IPv4Addr o1, pts_IPv6Addr = pto_IPv6Addr o1, pts_View =
                     pto_View o1, pts_Comment = pto_Comment o1, pts_TTL = pto_TTL o1, pts_UseTTL =
                     pto_UseTTL o1, pts_ExtAttrs = pto_ExtAttrs o1, pts_Cidr = ptp_Cidr p,
                     pts_NetworkView = ptp_NetworkView p, pts_Ref = pto_Ref o1, pts_Zone = pto_Zone
                     o1\<rparr>\<rparr>;
                  cr3 = (if ores_refreshedRef res \<noteq> [] then SetExternalName (ores_refreshedRef res) cr2 else cr2);
                  cr4 = SetAvailable cr3;
                  upToDate = (PTRRecord_isUpToDate (ptp_Ptrdname p) (ptp_Name p) (ptp_IPv4Addr p) (ptp_IPv6Addr p)
                                (ptp_Comment p) (ptp_TTL p) (ptp_UseTTL p) (ptp_ExtAttrs p) (ores_rec res)
                                \<and> \<not> ores_adopted res)
              in (Inr \<lparr>ResourceExists = True, ResourceUpToDate = upToDate,
                       ResourceLateInitialized = ores_lateInit res\<rparr>, cr4, w1))))"

definition namespaced_PTRRecord_Create ::
  "(RecordPTR, ptr_req) wapi \<Rightarrow> string \<Rightarrow> PTRRecordCR \<Rightarrow> ptr_req world \<Rightarrow>
      goerr option \<times> PTRRecordCR \<times> ptr_req world" where
  "namespaced_PTRRecord_Create env endpoint cr w =
     (let p = pt_ForProvider cr; uid = mo_uid cr in
      case validatePTRRecordCreateInputs (ptp_IPv4Addr p) (ptp_IPv6Addr p) (ptp_Cidr p) uid of
        Some err \<Rightarrow> (Some err, cr, w)
      | None \<Rightarrow>
          (case ensureIdentityPrerequisite env endpoint w of
             (Some err, w1) \<Rightarrow> (Some err, cr, w1)
           | (None, w1) \<Rightarrow>
               (case createPTRRecord env p uid w1 of
                  (Inl err, w2) \<Rightarrow> (Some (Wrapped errCreatePTRRecord err), cr, w2)
                | (Inr rec, w2) \<Rightarrow> (None, SetExternalName (ptr_Ref rec) cr, w2))))"

definition namespaced_PTRRecord_Update ::
  "(RecordPTR, ptr_req) wapi \<Rightarrow> string \<Rightarrow> PTRRecordCR \<Rightarrow> ptr_req world \<Rightarrow>
      goerr option \<times> PTRRecordCR \<times> ptr_req world" where
  "namespaced_PTRRecord_Update env endpoint cr w =
     (let p = pt_ForProvider cr; externalID = GetExternalName cr in
      case ensureIdentityPrerequisite env endpoint w of
        (Some err, w1) \<Rightarrow> (Some err, cr, w1)
      | (None, w1) \<Rightarrow>
          (case updatePTRRecord env externalID p (mo_uid cr) w1 of
             (Inl err, w2) \<Rightarrow> (Some (Wrapped errUpdatePTRRecord err), cr, w2)
           | (Inr rec, w2) \<Rightarrow>
               if ptr_Ref rec \<noteq> [] \<and> ptr_Ref rec \<noteq> externalID then
                 (case Refresh env cr (ptr_Ref rec) w2 of
                    (Some err, cr1, w3) \<Rightarrow> (Some (Wrapped errPersistExternalName err), cr1, w3)
                  | (None, cr1, w3) \<Rightarrow> (None, cr1, w3))
               else (None, cr, w2)))"

definition namespaced_PTRRecord_Delete ::
  "(RecordPTR, ptr_req) wapi \<Rightarrow> string \<Rightarrow> PTRRecordCR \<Rightarrow> ptr_req world \<Rightarrow> goerr option \<times> ptr_req world" where
  "namespaced_PTRRecord_Delete env endpoint cr w =
     (let externalID = GetExternalName cr in
      case deletePTRRecordIdentity env endpoint externalID (mo_uid cr) w of
        (Some err, w1) \<Rightarrow> (Some err, w1)
      | (None, w1) \<Rightarrow> (None, w1))"

subsection \<open>cluster.go\<close>

definition cluster_PTRRecord_Observe ::
  "(RecordPTR, ptr_req) wapi \<Rightarrow> string \<Rightarrow> PTRRecordCR \<Rightarrow> ptr_req world \<Rightarrow>
      (goerr + ExternalObservation) \<times> PTRRecordCR \<times> ptr_req world" where
  "cluster_PTRRecord_Observe env endpoint cr w =
     (case observePTRRecord env endpoint (mo_name cr) (GetExternalName cr) (mo_uid cr)
             (PTRRecord_latePart (pt_ForProvider cr)) w of
        (Inl err, l, w1) \<Rightarrow>
          (let cr1 = cr\<lparr>pt_ForProvider := PTRRecord_setLate (pt_ForProvider cr) l\<rparr> in
           if errors_as is_PrerequisiteError err then (Inl err, cr1, w1)
           else (Inl (Wrapped errObservePTRRecord err), cr1, w1))
      | (Inr res, l, w1) \<Rightarrow>
          (let p = PTRRecord_setLate (pt_ForProvider cr) l;
               cr1 = cr\<lparr>pt_ForProvider := p\<rparr> in
           if \<not> ores_exists res then (Inr notExists, cr1, w1)
           else
             (let o1 = ores_obs res;
                  cr2 = cr1\<lparr>pt_AtProvider :=
                    \<lparr>pts_ID = pto_ID o1, pts_Ptrdname = pto_Ptrdname o1, pts_Name = pto_Name o1,
                     pts_IPv4Addr = pto_IPv4Addr o1, pts_IPv6Addr = pto_IPv6Addr o1, pts_View =
                     pto_View o1, pts_Comment = pto_Comment o1, pts_TTL = pto_TTL o1, pts_UseTTL =
                     pto_UseTTL o1, pts_ExtAttrs = pto_ExtAttrs o1, pts_Cidr = ptp_Cidr p,
                     pts_NetworkView = ptp_NetworkView p, pts_Ref = pto_Ref o1, pts_Zone = pto_Zone
                     o1\<rparr>\<rparr>;
                  cr3 = (if ores_refreshedRef res \<noteq> [] then SetExternalName (ores_refreshedRef res) cr2 else cr2);
                  cr4 = SetAvailable cr3;
                  upToDate = (PTRRecord_isUpToDate (ptp_Ptrdname p) (ptp_Name p) (ptp_IPv4Addr p) (ptp_IPv6Addr p)
                                (ptp_Comment p) (ptp_TTL p) (ptp_UseTTL p) (ptp_ExtAttrs p) (ores_rec res)
                                \<and> \<not> ores_adopted res)
              in (Inr \<lparr>ResourceExists = True, ResourceUpToDate = upToDate,
                       ResourceLateInitialized = ores_lateInit res\<rparr>, cr4, w1))))"

definition cluster_PTRRecord_Create ::
  "(RecordPTR, ptr_req) wapi \<Rightarrow> string \<Rightarrow> PTRRecordCR \<Rightarrow> ptr_req world \<Rightarrow>
      goerr option \<times> PTRRecordCR \<times> ptr_req world" where
  "cluster_PTRRecord_Create env endpoint cr w =
     (let p = pt_ForProvider cr; uid = mo_uid cr in
      case validatePTRRecordCreateInputs (ptp_IPv4Addr p) (ptp_IPv6Addr p) (ptp_Cidr p) uid of
        Some err \<Rightarrow> (Some err, cr, w)
      | None \<Rightarrow>
          (case ensureIdentityPrerequisite env endpoint w of
             (Some err, w1) \<Rightarrow> (Some err, cr, w1)
           | (None, w1) \<Rightarrow>
               (case createPTRRecord env p uid w1 of
                  (Inl err, w2) \<Rightarrow> (Some (Wrapped errCreatePTRRecord err), cr, w2)
                | (Inr rec, w2) \<Rightarrow> (None, SetExternalName (ptr_Ref rec) cr, w2))))"

definition cluster_PTRRecord_Update ::
  "(RecordPTR, ptr_req) wapi \<Rightarrow> string \<Rightarrow> PTRRecordCR \<Rightarrow> ptr_req world \<Rightarrow>
      goerr option \<times> PTRRecordCR \<times> ptr_req world" where
  "cluster_PTRRecord_Update env endpoint cr w =
     (let p = pt_ForProvider cr; externalID = GetExternalName cr in
      case ensureIdentityPrerequisite env endpoint w of
        (Some err, w1) \<Rightarrow> (Some err, cr, w1)
      | (None, w1) \<Rightarrow>
          (case updatePTRRecord env externalID p (mo_uid cr) w1 of
             (Inl err, w2) \<Rightarrow> (Some (Wrapped errUpdatePTRRecord err), cr, w2)
           | (Inr rec, w2) \<Rightarrow>
               if ptr_Ref rec \<noteq> [] \<and> ptr_Ref rec \<noteq> externalID then
                 (case Refresh env cr (ptr_Ref rec) w2 of
                    (Some err, cr1, w3) \<Rightarrow> (Some (Wrapped errPersistExternalName err), cr1, w3)
                  | (None, cr1, w3) \<Rightarrow> (None, cr1, w3))
               else (None, cr, w2)))"

definition cluster_PTRRecord_Delete ::
  "(RecordPTR, ptr_req) wapi \<Rightarrow> string \<Rightarrow> PTRRecordCR \<Rightarrow> ptr_req world \<Rightarrow> goerr option \<times> ptr_req world" where
  "cluster_PTRRecord_Delete env endpoint cr w =
     (let externalID = GetExternalName cr in
      case deletePTRRecordIdentity env endpoint externalID (mo_uid cr) w of
        (Some err, w1) \<Rightarrow> (Some err, w1)
      | (None, w1) \<Rightarrow> (None, w1))"

section \<open>The contract of the ladder client\<close>

text \<open>The requests of a spec, what a Grid object holds of a request, and the drift check of a resource.\<close>

definition ptr_create_request :: "PTRRecordParameters \<Rightarrow> string \<Rightarrow> ptr_req" where
  "ptr_create_request p uid = CreatePTRRecord
     ((if strOrEmpty (ptp_Cidr p) \<noteq> [] \<and> strOrEmpty (ptp_NetworkView p) = [] then ''default'' else
         strOrEmpty (ptp_NetworkView p))) (strOrEmpty (ptp_View p)) (strOrEmpty (ptp_Ptrdname p)) (strOrEmpty (ptp_Name
         p)) (strOrEmpty (ptp_Cidr p)) ((if strOrEmpty (ptp_IPv4Addr p) = [] then strOrEmpty (ptp_IPv6Addr p) else
         strOrEmpty (ptp_IPv4Addr p))) (boolOrFalse (ptp_UseTTL p)) (ttlOrZero (ptp_TTL p)) (strOrEmpty (ptp_Comment p))
         (Stamp (buildEA (ptp_ExtAttrs p)) uid)"

definition ptr_update_request :: "string \<Rightarrow> PTRRecordParameters \<Rightarrow> string \<Rightarrow> ptr_req" where
  "ptr_update_request ref p uid = UpdatePTRRecord ref
     [] (strOrEmpty (ptp_Ptrdname p)) (strOrEmpty (ptp_Name p)) [] ((if strOrEmpty (ptp_IPv4Addr p) = [] then
         strOrEmpty (ptp_IPv6Addr p) else strOrEmpty (ptp_IPv4Addr p))) (boolOrFalse (ptp_UseTTL p)) (ttlOrZero (ptp_TTL
         p)) (strOrEmpty (ptp_Comment p)) (Stamp (buildEA (ptp_ExtAttrs p)) uid)"

fun ptr_req_ea :: "ptr_req \<Rightarrow> ea" where
  "ptr_req_ea (CreatePTRRecord netView dnsView ptrdname recordName cidr ipAddr useTTL ttl comment ea) = ea"
| "ptr_req_ea (UpdatePTRRecord ref netView ptrdname recordName cidr ipAddr useTTL ttl comment ea) = ea"

fun ptr_holds :: "ptr_req \<Rightarrow> RecordPTR \<Rightarrow> bool" where
  "ptr_holds (CreatePTRRecord netView dnsView ptrdname recordName cidr ipAddr useTTL ttl comment ea) rec \<longleftrightarrow>
     strOrEmpty (ptr_PtrdName rec) = ptrdname \<and>
     (recordName \<noteq> [] \<longrightarrow> strOrEmpty (ptr_Name rec) = recordName) \<and>
     (ipAddr \<noteq> [] \<longrightarrow> (if CHR '':'' \<in> set ipAddr
        then strOrEmpty (ptr_Ipv6Addr rec) = ipAddr \<and> strOrEmpty (ptr_Ipv4Addr rec) = []
        else strOrEmpty (ptr_Ipv4Addr rec) = ipAddr \<and> strOrEmpty (ptr_Ipv6Addr rec) = [])) \<and>
     strOrEmpty (ptr_Comment rec) = comment \<and>
     boolOrFalse (ptr_UseTtl rec) = useTTL \<and>
     (useTTL \<longrightarrow> ttlOrZero (ptr_Ttl rec) = ttl) \<and>
     ptr_Ea rec = ea"
| "ptr_holds (UpdatePTRRecord ref netView ptrdname recordName cidr ipAddr useTTL ttl comment ea) rec \<longleftrightarrow>
     strOrEmpty (ptr_PtrdName rec) = ptrdname \<and>
     (recordName \<noteq> [] \<longrightarrow> strOrEmpty (ptr_Name rec) = recordName) \<and>
     (ipAddr \<noteq> [] \<longrightarrow> (if CHR '':'' \<in> set ipAddr
        then strOrEmpty (ptr_Ipv6Addr rec) = ipAddr \<and> strOrEmpty (ptr_Ipv4Addr rec) = []
        else strOrEmpty (ptr_Ipv4Addr rec) = ipAddr \<and> strOrEmpty (ptr_Ipv6Addr rec) = [])) \<and>
     strOrEmpty (ptr_Comment rec) = comment \<and>
     boolOrFalse (ptr_UseTtl rec) = useTTL \<and>
     (useTTL \<longrightarrow> ttlOrZero (ptr_Ttl rec) = ttl) \<and>
     ptr_Ea rec = ea"

text \<open>One address, in the field of its family.\<close>

definition ptr_address_ok :: "string option \<Rightarrow> string option \<Rightarrow> bool" where
  "ptr_address_ok ipv4Addr ipv6Addr \<longleftrightarrow>
     strOrEmpty ipv4Addr \<noteq> [] \<and> CHR '':'' \<notin> set (strOrEmpty ipv4Addr) \<and> strOrEmpty ipv6Addr = [] \<or>
     strOrEmpty ipv4Addr = [] \<and> strOrEmpty ipv6Addr \<noteq> [] \<and> CHR '':'' \<in> set (strOrEmpty ipv6Addr)"

definition PTRRecord_utd :: "PTRRecordCR \<Rightarrow> RecordPTR \<Rightarrow> bool" where
  "PTRRecord_utd cr rec = (let p = pt_ForProvider cr in
     PTRRecord_isUpToDate (ptp_Ptrdname p) (ptp_Name p) (ptp_IPv4Addr p) (ptp_IPv6Addr p)
                                (ptp_Comment p) (ptp_TTL p) (ptp_UseTTL p) (ptp_ExtAttrs p) rec)"

definition PTRRecord_spec_ok :: "PTRRecordCR \<Rightarrow> bool" where
  "PTRRecord_spec_ok cr \<longleftrightarrow> (let p = pt_ForProvider cr in reserved_free (ptp_ExtAttrs p) \<and>
      ptp_Name p \<noteq> Some [] \<and> ptr_address_ok (ptp_IPv4Addr p) (ptp_IPv6Addr p))"

definition PTRRecord_keeps :: "ptr_late \<Rightarrow> ptr_late \<Rightarrow> bool" where
  "PTRRecord_keeps l l' = (case (l, l') of ((name, comment, ttl, useTTL, extAttrs), (name', comment', ttl', useTTL',
      extAttrs')) \<Rightarrow>
     keeps_set name name' \<and> keeps_set comment comment' \<and> keeps_set ttl ttl' \<and> keeps_set useTTL useTTL' \<and> keeps_attrs extAttrs extAttrs')"

definition PTRRecord_get :: "PTRRecordCR \<Rightarrow> ptr_late" where
  "PTRRecord_get cr = PTRRecord_latePart (pt_ForProvider cr)"

definition PTRRecord_put :: "PTRRecordCR \<Rightarrow> ptr_late \<Rightarrow> PTRRecordCR" where
  "PTRRecord_put cr l = cr\<lparr>pt_ForProvider := PTRRecord_setLate (pt_ForProvider cr) l\<rparr>"

definition PTRRecord_status :: "RecordPTR \<Rightarrow> PTRRecordCR \<Rightarrow> PTRRecordCR" where
  "PTRRecord_status rec cr =
     (let o1 = observeFromRecordPTR (ptr_Ref rec) rec; p = pt_ForProvider cr in
      cr\<lparr>pt_AtProvider :=
        \<lparr>pts_ID = pto_ID o1, pts_Ptrdname = pto_Ptrdname o1, pts_Name = pto_Name o1, pts_IPv4Addr =
        pto_IPv4Addr o1, pts_IPv6Addr = pto_IPv6Addr o1, pts_View = pto_View o1, pts_Comment =
        pto_Comment o1, pts_TTL = pto_TTL o1, pts_UseTTL = pto_UseTTL o1, pts_ExtAttrs =
        pto_ExtAttrs o1, pts_Cidr = ptp_Cidr p, pts_NetworkView = ptp_NetworkView p, pts_Ref =
        pto_Ref o1, pts_Zone = pto_Zone o1\<rparr>\<rparr>)"

definition PTRRecord_valid :: "PTRRecordCR \<Rightarrow> goerr option" where
  "PTRRecord_valid cr = (let p = pt_ForProvider cr; uid = mo_uid cr in validatePTRRecordCreateInputs (ptp_IPv4Addr p)
      (ptp_IPv6Addr p) (ptp_Cidr p) uid)"

lemma PTRRecord_lateInitialize_eq:
  "PTRRecord_lateInitialize (name, comment, ttl, useTTL, extAttrs) rec =
     (let name1 = fill name (ptrIfSet (ptr_Name rec));
          comment1 = fill comment (ptrIfSet (ptr_Comment rec));
          useTTL1 = fill useTTL (ptr_UseTtl rec);
          ttl1 = fill_if ttl (boolOrFalse useTTL1) (ptr_Ttl rec);
          extAttrs1 = fill_map extAttrs (userAttrs (ptr_Ea rec))
      in ((name1, comment1, ttl1, useTTL1, extAttrs1), (name1, comment1, ttl1, useTTL1, extAttrs1) \<noteq> (name,
          comment, ttl, useTTL, extAttrs)))"
  by (simp only: PTRRecord_lateInitialize_def userAttrs_def [symmetric] Let_def case_prod_conv fill_steps
      prod.inject fill_changed ptrIfSet_set simp_thms de_Morgan_conj disj_ac)

interpretation ptr_late: late_lens PTRRecord_lateInitialize PTRRecord_keeps PTRRecord_get PTRRecord_put PTRRecord_utd
proof
  fix l l' :: ptr_late and rec :: RecordPTR and cr :: PTRRecordCR
  obtain name comment ttl useTTL extAttrs where l: "l = (name, comment, ttl, useTTL, extAttrs)" by (cases l) auto
  show "PTRRecord_lateInitialize (fst (PTRRecord_lateInitialize l rec)) rec = (fst (PTRRecord_lateInitialize l rec),
      False)"
    by (simp add: l PTRRecord_lateInitialize_eq Let_def)
  show "snd (PTRRecord_lateInitialize l rec) \<longleftrightarrow> fst (PTRRecord_lateInitialize l rec) \<noteq> l"
    by (simp add: l PTRRecord_lateInitialize_eq Let_def)
  show "PTRRecord_keeps l (fst (PTRRecord_lateInitialize l rec))"
    by (simp add: l PTRRecord_lateInitialize_eq Let_def PTRRecord_keeps_def keeps_fill)
  show "PTRRecord_get (PTRRecord_put cr l) = l"
    by (simp add: l PTRRecord_get_def PTRRecord_put_def PTRRecord_latePart_def PTRRecord_setLate_def)
  show "PTRRecord_put cr (PTRRecord_get cr) = cr"
    by (simp add: PTRRecord_get_def PTRRecord_put_def PTRRecord_latePart_def PTRRecord_setLate_def)
  show "PTRRecord_put (PTRRecord_put cr l) l' = PTRRecord_put cr l'"
    by (simp add: PTRRecord_put_def PTRRecord_setLate_def split: prod.split)
  show "PTRRecord_utd (PTRRecord_put cr (fst (PTRRecord_lateInitialize (PTRRecord_get cr) rec))) rec" if "PTRRecord_utd cr rec"
    using that
    by (auto simp: PTRRecord_get_def PTRRecord_put_def PTRRecord_latePart_def PTRRecord_setLate_def PTRRecord_lateInitialize_eq Let_def
        PTRRecord_utd_def PTRRecord_isUpToDate_def extAttrsEqual_iff simp flip: userAttrs_def split: if_splits)
qed

lemma RecordPTR_type_simps [simp]:
  "ot_name RecordPTR_type = ''record:ptr''" "ref_ea_shape RecordPTR_type"
  "stamped RecordPTR_type rec = eaValue (ptr_Ea rec) EAKey"
  by (simp_all add: ref_ea_shape_def stamped_def RecordPTR_type_def reflectRecordPTR_def getRef_def getEA_def)

lemma deletePTRRecord_issue: "deletePTRRecord env = issue_delete env"
  by (intro ext) (simp only: deletePTRRecord_def issue_delete_def)

lemma createPTRRecord_valid:
  assumes "PTRRecord_valid cr = None"
  shows "createPTRRecord env (pt_ForProvider cr) (mo_uid cr) w = mutate_object env (ptr_create_request (pt_ForProvider
      cr) (mo_uid cr)) w"
  using assms
  by (auto simp: createPTRRecord_def ptr_create_request_def PTRRecord_valid_def Let_def validatePTRRecordCreateInputs_def PTRRecord_defaultNetworkView_def split: if_splits option.splits)


lemma PTRRecord_Observe_shape:
  "namespaced_PTRRecord_Observe env ep cr w =
     ladder_observe_shape (ladder_observe_error errObservePTRRecord) (Resolve env RecordPTR_type)
         (ensureIdentityPrerequisite env ep)
       (\<lambda>r. r \<noteq> []) (\<lambda>r. True) (lift_late PTRRecord_lateInitialize PTRRecord_get PTRRecord_put)
           PTRRecord_status PTRRecord_utd ptr_Ref cr w"
proof -
  have same: "cr\<lparr>pt_ForProvider := PTRRecord_setLate (pt_ForProvider cr) (PTRRecord_latePart (pt_ForProvider cr))\<rparr> = cr"
    by (simp add: PTRRecord_latePart_def PTRRecord_setLate_def)
  obtain r w1 where r: "Resolve env RecordPTR_type (observeRefFor (mo_name cr) (GetExternalName cr)) (mo_uid cr) w =
      (r, w1)"
    by (cases "Resolve env RecordPTR_type (observeRefFor (mo_name cr) (GetExternalName cr)) (mo_uid cr) w")
  obtain e w2 where e: "ensureIdentityPrerequisite env ep w1 = (e, w2)"
    by (cases "ensureIdentityPrerequisite env ep w1")
  note defs = namespaced_PTRRecord_Observe_def observePTRRecord_def resolvePTRRecordIdentity_def ladder_observe_shape_def ladder_observe_error_def
  show ?thesis
  proof (cases r)
    case (Inl err)
    then show ?thesis
      by (cases e) (simp_all add: defs Let_def r e same)
  next
    case (Inr a)
    obtain obj out where a: "a = (obj, out)" by (cases a)
    show ?thesis
    proof (cases obj)
      case None
      then show ?thesis
        by (simp add: defs Let_def r Inr a same PTRRecord_notFoundResult_def)
    next
      case (Some rec)
      obtain l c where "PTRRecord_lateInitialize (PTRRecord_latePart (pt_ForProvider cr)) rec = (l, c)"
        by (cases "PTRRecord_lateInitialize (PTRRecord_latePart (pt_ForProvider cr)) rec")
      with Some show ?thesis
        by (simp add: defs Let_def r Inr a same lift_late_def PTRRecord_get_def PTRRecord_put_def
            PTRRecord_status_def PTRRecord_utd_def PTRRecord_notFoundResult_def observeFromRecordPTR_def)
    qed
  qed
qed

lemma PTRRecord_Create_shape:
  "namespaced_PTRRecord_Create env ep cr w =
     ladder_create_shape errCreatePTRRecord PTRRecord_valid (ensureIdentityPrerequisite env ep) (mutate_object env)
       (\<lambda>cr. ptr_create_request (pt_ForProvider cr) (mo_uid cr)) ptr_Ref cr w"
proof -
  obtain e w1 where e: "ensureIdentityPrerequisite env ep w = (e, w1)"
    by (cases "ensureIdentityPrerequisite env ep w")
  have v: "(let p = pt_ForProvider cr; uid = mo_uid cr in validatePTRRecordCreateInputs (ptp_IPv4Addr p) (ptp_IPv6Addr
      p) (ptp_Cidr p) uid) = PTRRecord_valid cr"
    by (simp only: PTRRecord_valid_def)
  show ?thesis
  proof (cases "PTRRecord_valid cr")
    case None
    then show ?thesis
      using createPTRRecord_valid [OF None, of env w1] v
      by (cases e) (simp_all add: namespaced_PTRRecord_Create_def ladder_create_shape_def Let_def e split: if_splits)
  next
    case (Some err)
    then show ?thesis
      using v by (simp add: namespaced_PTRRecord_Create_def ladder_create_shape_def Let_def split: if_splits)
  qed
qed

lemma PTRRecord_Update_shape:
  "namespaced_PTRRecord_Update env ep cr w =
     ladder_update_shape errUpdatePTRRecord PTRRecord_errEmptyUID env (ensureIdentityPrerequisite env ep)
       (\<lambda>cr. ptr_update_request (GetExternalName cr) (pt_ForProvider cr) (mo_uid cr)) ptr_Ref cr w"
proof -
  obtain e w1 where e: "ensureIdentityPrerequisite env ep w = (e, w1)"
    by (cases "ensureIdentityPrerequisite env ep w")
  show ?thesis
    by (cases e; cases "wapi_mutate env (calls w1) (ptr_update_request (GetExternalName cr) (pt_ForProvider cr)
        (mo_uid cr))")
      (auto simp: namespaced_PTRRecord_Update_def ladder_update_shape_def updatePTRRecord_def ptr_update_request_def
        Let_def e mutate_object_def)
qed

lemma PTRRecord_Delete_shape:
  "namespaced_PTRRecord_Delete env ep cr w =
     ladder_delete_shape errDeletePTRRecord errDeleteUnverifiedOwnership nilDereference
       (Resolve env RecordPTR_type (GetExternalName cr) (mo_uid cr)) (ensureIdentityPrerequisite env ep)
       (issue_delete env) ptr_Ref w"
proof -
  have "namespaced_PTRRecord_Delete env ep cr w = deletePTRRecordIdentity env ep (GetExternalName cr) (mo_uid cr) w"
    by (simp add: namespaced_PTRRecord_Delete_def Let_def split: prod.split option.split)
  then show ?thesis
    by (simp only: deletePTRRecordIdentity_def ladder_delete_shape_def resolvePTRRecordIdentity_def deletePTRRecord_issue)
qed

lemma PTRRecord_scopes:
  "cluster_PTRRecord_Observe = namespaced_PTRRecord_Observe" "cluster_PTRRecord_Create = namespaced_PTRRecord_Create"
  "cluster_PTRRecord_Update = namespaced_PTRRecord_Update" "cluster_PTRRecord_Delete = namespaced_PTRRecord_Delete"
  by (intro ext, simp only: cluster_PTRRecord_Observe_def namespaced_PTRRecord_Observe_def
      cluster_PTRRecord_Create_def
      namespaced_PTRRecord_Create_def cluster_PTRRecord_Update_def namespaced_PTRRecord_Update_def
      cluster_PTRRecord_Delete_def namespaced_PTRRecord_Delete_def)+

lemma ptr_written_utd:
  assumes "PTRRecord_spec_ok cr"
    and "ptr_holds (ptr_create_request (pt_ForProvider cr) (mo_uid cr)) rec \<and> PTRRecord_valid cr = None \<or>
      ptr_holds (ptr_update_request (GetExternalName cr) (pt_ForProvider cr) (mo_uid cr)) rec"
  shows "PTRRecord_utd (fst (lift_late PTRRecord_lateInitialize PTRRecord_get PTRRecord_put cr rec)) rec \<and>
    eaValue (ptr_Ea rec) EAKey = Some (mo_uid cr)"
proof -
  note reqs = ptr_create_request_def ptr_update_request_def
  let ?p = "pt_ForProvider cr"
  have ok: "reserved_free (ptp_ExtAttrs ?p)" "ptp_Name ?p \<noteq> Some []" "ptr_address_ok (ptp_IPv4Addr ?p) (ptp_IPv6Addr ?p)"
    using assms(1) by (simp_all add: PTRRecord_spec_ok_def Let_def)
  have ea: "ptr_Ea rec = Stamp (buildEA (ptp_ExtAttrs ?p)) (mo_uid cr)"
    using assms(2) by (elim disjE) (simp_all add: reqs)
  have fields: "strOrEmpty (ptp_Ptrdname ?p) = strOrEmpty (ptr_PtrdName rec)"
    "strOrEmpty (ptp_Comment ?p) = strOrEmpty (ptr_Comment rec)"
    "boolOrFalse (ptp_UseTTL ?p) = boolOrFalse (ptr_UseTtl rec)"
    "boolOrFalse (ptp_UseTTL ?p) \<Longrightarrow> ttlOrZero (ptp_TTL ?p) = ttlOrZero (ptr_Ttl rec)"
    "strOrEmpty (ptp_Name ?p) \<noteq> [] \<Longrightarrow> strOrEmpty (ptr_Name rec) = strOrEmpty (ptp_Name ?p)"
    using assms(2) by (elim disjE; simp add: reqs)+
  have addr: "strOrEmpty (ptp_IPv4Addr ?p) = strOrEmpty (ptr_Ipv4Addr rec) \<and>
      strOrEmpty (ptp_IPv6Addr ?p) = strOrEmpty (ptr_Ipv6Addr rec)"
    using assms(2) ok(3) unfolding ptr_address_ok_def by (elim disjE; simp add: reqs)
  have attrs: "userAttrs (ptr_Ea rec) = ptp_ExtAttrs ?p"
    using ok(1) by (simp add: ea userAttrs_buildEA reserved_free_fmdrop)
  define name1 where "name1 = fill (ptp_Name ?p) (ptrIfSet (ptr_Name rec))"
  define cr' where "cr' = cr\<lparr>pt_ForProvider := ?p\<lparr>ptp_Name := name1\<rparr>\<rparr>"
  have "strOrEmpty name1 = strOrEmpty (ptr_Name rec)"
    using ok(2) fields(5) by (cases "ptp_Name ?p") (auto simp: name1_def)
  with fields(1-4) addr attrs have "PTRRecord_utd cr' rec"
    by (simp add: PTRRecord_utd_def PTRRecord_isUpToDate_def Let_def extAttrsEqual_iff cr'_def flip: userAttrs_def)
  moreover have "fst (lift_late PTRRecord_lateInitialize PTRRecord_get PTRRecord_put cr rec) =
      fst (lift_late PTRRecord_lateInitialize PTRRecord_get PTRRecord_put cr' rec)"
    by (auto simp: ptr_late.lifted_simps PTRRecord_get_def PTRRecord_put_def PTRRecord_latePart_def PTRRecord_setLate_def
        PTRRecord_lateInitialize_eq Let_def cr'_def name1_def)
  ultimately show ?thesis using ea ptr_late.late_utd by simp
qed

interpretation ptr: refreshing_client "lift_late PTRRecord_lateInitialize PTRRecord_get PTRRecord_put" PTRRecord_utd
  "\<lambda>s s'. PTRRecord_keeps (PTRRecord_get s) (PTRRecord_get s')"
  RecordPTR_type ptr_Ref PTRRecord_status PTRRecord_valid
  "\<lambda>cr. ptr_create_request (pt_ForProvider cr) (mo_uid cr)"
  "\<lambda>cr. ptr_update_request (GetExternalName cr) (pt_ForProvider cr) (mo_uid cr)"
  ptr_req_ea ptr_holds PTRRecord_spec_ok
  "ladder_observe_error errObservePTRRecord" "\<lambda>r. r \<noteq> []" "\<lambda>r. True" ptr_Ref errCreatePTRRecord errUpdatePTRRecord errDeletePTRRecord PTRRecord_errEmptyUID
  namespaced_PTRRecord_Observe namespaced_PTRRecord_Create namespaced_PTRRecord_Update namespaced_PTRRecord_Delete
proof (unfold_locales, goal_cases)
  case (6 cr)
  then show ?case by (auto simp: PTRRecord_valid_def Let_def validatePTRRecordCreateInputs_def split: if_splits)
next
  case (13 n cr rec)
  have "PTRRecord_get (SetExternalName n cr) = PTRRecord_get cr"
    "PTRRecord_put (SetExternalName n cr) l = SetExternalName n (PTRRecord_put cr l)" for l
    by (simp_all add: PTRRecord_get_def PTRRecord_put_def SetExternalName_def)
  then show ?case
    by (simp add: ptr_late.lifted_simps PTRRecord_utd_def SetExternalName_def)
next
  case (14 cr rec)
  then show ?case using ptr_written_utd [of cr rec] by simp
next
  case (15 cr rec)
  then show ?case using ptr_written_utd [of cr rec] by simp
qed (simp_all add: PTRRecord_Observe_shape PTRRecord_Create_shape PTRRecord_Update_shape PTRRecord_Delete_shape
    ptr_late.lifted_simps PTRRecord_put_def PTRRecord_status_def Let_def
    ptr_create_request_def ptr_update_request_def)

end
