(* ===== verification/AliasRecord.thy ===== *)
theory AliasRecord
  imports LadderClient
begin

text \<open>
  internal/controller/recordalias: the AliasRecord controller, a client of the identity ladder. The SDK has
  no typed update for aliases: the package fills in the object and calls UpdateObject, which answers
  with the reference only.
\<close>

section \<open>Data\<close>

text \<open>ibclient.RecordAlias, as the provider requests it.\<close>

record RecordAlias =
  alr_Ref :: string
  alr_Name :: "string option"
  alr_TargetName :: "string option"
  alr_TargetType :: string
  alr_Comment :: "string option"
  alr_Disable :: "bool option"
  alr_Ttl :: "32 word option"
  alr_UseTtl :: "bool option"
  alr_Ea :: ea
  alr_View :: "string option"
  alr_Zone :: string

definition emptyRecordAlias :: RecordAlias where
  "emptyRecordAlias = \<lparr>alr_Ref = [], alr_Name = None, alr_TargetName = None, alr_TargetType = [], alr_Comment =
      None, alr_Disable = None, alr_Ttl = None, alr_UseTtl = None, alr_Ea = fmempty, alr_View = None, alr_Zone =
      []\<rparr>"

definition reflectRecordAlias :: "RecordAlias \<Rightarrow> goany" where
  "reflectRecordAlias r = PtrTo ''*ibclient.RecordAlias''
     [(''Ref'', FString (alr_Ref r)),
      (''Name'', FOther),
      (''TargetName'', FOther),
      (''TargetType'', FString (alr_TargetType r)),
      (''Comment'', FOther),
      (''Disable'', FOther),
      (''Ttl'', FOther),
      (''UseTtl'', FOther),
      (''Ea'', FEA (alr_Ea r)),
      (''View'', FOther),
      (''Zone'', FString (alr_Zone r))]"

definition RecordAlias_type :: "RecordAlias objtype" where
  "RecordAlias_type = \<lparr>ot_name = ''record:alias'', ot_empty = emptyRecordAlias, ot_reflect =
      reflectRecordAlias\<rparr>"

text \<open>CreateAliasRecord of the object manager, and UpdateObject of the connector on an alias, with
  the fields the source fills in.\<close>

datatype aliasrec_req =
    CreateAliasRecord string string string string string bool ea "32 word" bool
      \<comment> \<open>recordName, dnsView, tgtName, tgtType, comment, disable, ea, ttl, useTTL\<close>
  | UpdateAliasObject string string string string string bool "32 word" bool ea
      \<comment> \<open>ref, recordName, tgtName, tgtType, comment, disable, ttl, useTTL, ea\<close>

record AliasRecordParameters =
  alp_Name :: "string option"
  alp_TargetName :: "string option"
  alp_TargetType :: "string option"
  alp_View :: "string option"
  alp_Comment :: "string option"
  alp_Disable :: "bool option"
  alp_TTL :: "32 word option"
  alp_UseTTL :: "bool option"
  alp_ExtAttrs :: extattrs

record AliasRecordObservation =
  als_ID :: string
  als_Name :: "string option"
  als_TargetName :: "string option"
  als_TargetType :: "string option"
  als_View :: "string option"
  als_Comment :: "string option"
  als_Disable :: "bool option"
  als_TTL :: "32 word option"
  als_UseTTL :: "bool option"
  als_ExtAttrs :: extattrs
  als_Ref :: "string option"
  als_Zone :: "string option"

record AliasRecordCR = mobj +
  al_ForProvider :: AliasRecordParameters
  al_AtProvider :: AliasRecordObservation

section \<open>Error messages\<close>

definition errObserveAliasRec :: string where "errObserveAliasRec = ''cannot observe AliasRecord''"
definition errCreateAliasRecord :: string where "errCreateAliasRecord = ''cannot create AliasRecord''"
definition errUpdateAliasRecord :: string where "errUpdateAliasRecord = ''cannot update AliasRecord''"
definition errDeleteAliasRecord :: string where "errDeleteAliasRecord = ''cannot delete AliasRecord''"
definition AliasRecord_errEmptyUID :: string where
  "AliasRecord_errEmptyUID = ''cannot stamp AliasRecord identity: managed resource's metadata.uid is empty''"

section \<open>Field comparison and late initialisation\<close>

definition AliasRecord_isUpToDate ::
  "string option \<Rightarrow> string option \<Rightarrow> string option \<Rightarrow> string option \<Rightarrow>
      bool option \<Rightarrow> 32 word option \<Rightarrow> bool option \<Rightarrow> extattrs \<Rightarrow> RecordAlias
      \<Rightarrow> bool" where
  "AliasRecord_isUpToDate name targetName targetType comment disable ttl useTTL extAttrs rec =
     (if strOrEmpty name \<noteq> strOrEmpty (alr_Name rec) then False
      else if strOrEmpty targetName \<noteq> strOrEmpty (alr_TargetName rec) then False
      else if strOrEmpty targetType \<noteq> alr_TargetType rec then False
      else if strOrEmpty comment \<noteq> strOrEmpty (alr_Comment rec) then False
      else if boolOrFalse disable \<noteq> boolOrFalse (alr_Disable rec) then False
      else if boolOrFalse useTTL \<noteq> boolOrFalse (alr_UseTtl rec) then False
      else if boolOrFalse useTTL \<and> uint32OrZero ttl \<noteq> uint32OrZero (alr_Ttl rec) then False
      else extAttrsEqual extAttrs (extAttrsFromEA (Strip (alr_Ea rec))))"

text \<open>The ForProvider fields lateInitialize takes pointers to.\<close>

type_synonym aliasrec_late = "string option \<times> bool option \<times> 32 word option \<times> bool option \<times> extattrs"

definition AliasRecord_lateInitialize :: "aliasrec_late \<Rightarrow> RecordAlias \<Rightarrow> aliasrec_late \<times> bool" where
  "AliasRecord_lateInitialize p rec =
     (case p of (comment, disable, ttl, useTTL, extAttrs) \<Rightarrow>
       (let (comment1, c1) = (if comment = None \<and> alr_Comment rec \<noteq> None \<and> alr_Comment rec \<noteq> Some []
                             then (alr_Comment rec, True) else (comment, False));
            (disable1, c2) = (if disable = None \<and> alr_Disable rec \<noteq> None
                             then (alr_Disable rec, True) else (disable, c1));
            (useTTL1, c3) = (if useTTL = None \<and> alr_UseTtl rec \<noteq> None
                             then (alr_UseTtl rec, True) else (useTTL, c2));
            (ttl1, c4) = (if ttl = None \<and> alr_Ttl rec \<noteq> None \<and> boolOrFalse useTTL1
                             then (alr_Ttl rec, True) else (ttl, c3));
            fromRec = extAttrsFromEA (Strip (alr_Ea rec));
            (extAttrs1, c5) = (if extAttrs = fmempty \<and> fromRec \<noteq> fmempty
                             then (fromRec, True) else (extAttrs, c4))
        in ((comment1, disable1, ttl1, useTTL1, extAttrs1), c5)))"

record observedAliasRecord =
  alo_ID :: string
  alo_Name :: "string option"
  alo_TargetName :: "string option"
  alo_TargetType :: "string option"
  alo_View :: "string option"
  alo_Comment :: "string option"
  alo_Disable :: "bool option"
  alo_TTL :: "32 word option"
  alo_UseTTL :: "bool option"
  alo_ExtAttrs :: extattrs
  alo_Ref :: "string option"
  alo_Zone :: "string option"

definition observeFromRecordAlias :: "string \<Rightarrow> RecordAlias \<Rightarrow> observedAliasRecord" where
  "observeFromRecordAlias externalID rec =
     \<lparr>alo_ID = externalID,
      alo_Name = alr_Name rec,
      alo_TargetName = alr_TargetName rec,
      alo_TargetType = ptrIfNonEmpty (alr_TargetType rec),
      alo_View = ptrIfSet (alr_View rec),
      alo_Comment = ptrIfSet (alr_Comment rec),
      alo_Disable = alr_Disable rec,
      alo_TTL = alr_Ttl rec,
      alo_UseTTL = alr_UseTtl rec,
      alo_ExtAttrs = extAttrsFromEA (alr_Ea rec),
      alo_Ref = ptrIfNonEmpty (alr_Ref rec),
      alo_Zone = ptrIfNonEmpty (alr_Zone rec)\<rparr>"

section \<open>SDK calls\<close>

definition createAliasRecord ::
  "(RecordAlias, aliasrec_req) wapi \<Rightarrow> AliasRecordParameters \<Rightarrow> string \<Rightarrow>
      aliasrec_req world \<Rightarrow> (goerr + RecordAlias) \<times> aliasrec_req world" where
  "createAliasRecord env p uid w =
     (if trim_space uid = [] then (Inl (TextError AliasRecord_errEmptyUID), w)
      else
        (let e = Stamp (buildEA (alp_ExtAttrs p)) uid
         in mutate_object env
              (CreateAliasRecord (strOrEmpty (alp_Name p)) (strOrEmpty (alp_View p)) (strOrEmpty (alp_TargetName p))
                  (strOrEmpty (alp_TargetType p)) (strOrEmpty (alp_Comment p)) (boolOrFalse (alp_Disable p)) e
                  (uint32OrZero (alp_TTL p)) (boolOrFalse (alp_UseTTL p))) w))"

text \<open>The model asks the environment for the updated object and keeps its reference, which is all UpdateObject answers.\<close>

definition updateAliasRecord ::
  "(RecordAlias, aliasrec_req) wapi \<Rightarrow> string \<Rightarrow> AliasRecordParameters \<Rightarrow> string
      \<Rightarrow> aliasrec_req world \<Rightarrow> (goerr + string) \<times> aliasrec_req world" where
  "updateAliasRecord env ref p uid w =
     (if trim_space uid = [] then (Inl (TextError AliasRecord_errEmptyUID), w)
      else
        (let e = Stamp (buildEA (alp_ExtAttrs p)) uid
         in (case mutate_object env
              (UpdateAliasObject ref (strOrEmpty (alp_Name p)) (strOrEmpty (alp_TargetName p)) (strOrEmpty
                  (alp_TargetType p)) (strOrEmpty (alp_Comment p)) (boolOrFalse (alp_Disable p)) (uint32OrZero (alp_TTL
                  p)) (boolOrFalse (alp_UseTTL p)) e) w of
               (Inl err, w1) \<Rightarrow> (Inl err, w1)
             | (Inr rec, w1) \<Rightarrow> (Inr (alr_Ref rec), w1))))"

definition deleteAliasRecord :: "(RecordAlias, aliasrec_req) wapi \<Rightarrow> string \<Rightarrow> aliasrec_req
    world \<Rightarrow> goerr option \<times> aliasrec_req world" where
  "deleteAliasRecord env ref w =
     (case delete_object env ref w of
        (Inl err, w1) \<Rightarrow> (Some err, w1)
      | (Inr _, w1) \<Rightarrow> (None, w1))"

section \<open>Identity resolution\<close>

definition resolveAliasRecordIdentity ::
  "(RecordAlias, aliasrec_req) wapi \<Rightarrow> string \<Rightarrow> string \<Rightarrow> aliasrec_req world
      \<Rightarrow> (goerr + RecordAlias option \<times> Outcome) \<times> aliasrec_req world" where
  "resolveAliasRecordIdentity env ref uid w = Resolve env RecordAlias_type ref uid w"

type_synonym AliasRecord_observeResult = "(RecordAlias, observedAliasRecord) observeResult"

definition AliasRecord_notFoundResult :: AliasRecord_observeResult where
  "AliasRecord_notFoundResult =
     \<lparr>ores_exists = False, ores_rec = emptyRecordAlias, ores_obs = observeFromRecordAlias [] emptyRecordAlias,
      ores_lateInit = False, ores_refreshedRef = [], ores_adopted = False\<rparr>"

definition observeAliasRecord ::
  "(RecordAlias, aliasrec_req) wapi \<Rightarrow> string \<Rightarrow> string \<Rightarrow> string \<Rightarrow> string \<Rightarrow> aliasrec_late \<Rightarrow> aliasrec_req world \<Rightarrow>
     (goerr + AliasRecord_observeResult) \<times> aliasrec_late \<times> aliasrec_req world" where
  "observeAliasRecord env endpoint crName externalName uid p w =
     (let ref = observeRefFor crName externalName in
      case resolveAliasRecordIdentity env ref uid w of
        (Inl err, w1) \<Rightarrow>
          if IsSearchFailure err then
            (case ensureIdentityPrerequisite env endpoint w1 of
               (Some prereqErr, w2) \<Rightarrow> (Inl prereqErr, p, w2)
             | (None, w2) \<Rightarrow> (Inl err, p, w2))
          else (Inl err, p, w1)
      | (Inr (obj, outcome), w1) \<Rightarrow>
          if outcome = OutcomeNotFound then (Inr AliasRecord_notFoundResult, p, w1)
          else
            (case obj of
               None \<Rightarrow> (Inl (TextError nilDereference), p, w1)
             | Some rec \<Rightarrow>
                 (case AliasRecord_lateInitialize p rec of (p1, changed) \<Rightarrow>
                    (let found = (outcome = OutcomeRotated \<or> outcome = OutcomeFoundByUID)
                     in (Inr \<lparr>ores_exists = True, ores_rec = rec,
                              ores_obs = observeFromRecordAlias (alr_Ref rec) rec,
                              ores_lateInit = (if found then True else changed),
                              ores_refreshedRef = (if found then alr_Ref rec else []),
                              ores_adopted = (outcome = OutcomeAdopted)\<rparr>, p1, w1)))))"

definition deleteAliasRecordIdentity ::
  "(RecordAlias, aliasrec_req) wapi \<Rightarrow> string \<Rightarrow> string \<Rightarrow> string \<Rightarrow>
      aliasrec_req world \<Rightarrow> goerr option \<times> aliasrec_req world" where
  "deleteAliasRecordIdentity env endpoint ref uid w =
     (case resolveAliasRecordIdentity env ref uid w of
        (Inl err, w1) \<Rightarrow>
          if IsSearchFailure err then
            (case ensureIdentityPrerequisite env endpoint w1 of
               (Some prereqErr, w2) \<Rightarrow> (Some prereqErr, w2)
             | (None, w2) \<Rightarrow> (Some (Wrapped errDeleteAliasRecord err), w2))
          else (Some (Wrapped errDeleteAliasRecord err), w1)
      | (Inr (obj, outcome), w1) \<Rightarrow>
          (case outcome of
             OutcomeNotFound \<Rightarrow> (None, w1)
           | OutcomeAdopted \<Rightarrow> (Some (TextError errDeleteUnverifiedOwnership), w1)
           | _ \<Rightarrow>
               (case obj of
                  None \<Rightarrow> (Some (TextError nilDereference), w1)
                | Some rec \<Rightarrow>
                    (case deleteAliasRecord env (alr_Ref rec) w1 of
                       (None, w2) \<Rightarrow> (None, w2)
                     | (Some delErr, w2) \<Rightarrow>
                         if isNotFound (Some delErr) then (None, w2)
                         else (Some (Wrapped errDeleteAliasRecord delErr), w2)))))"

section \<open>The external clients\<close>

text \<open>The pointers to spec fields Observe hands over, and their write-back.\<close>

definition AliasRecord_latePart :: "AliasRecordParameters \<Rightarrow> aliasrec_late" where
  "AliasRecord_latePart p = (alp_Comment p, alp_Disable p, alp_TTL p, alp_UseTTL p, alp_ExtAttrs p)"

definition AliasRecord_setLate :: "AliasRecordParameters \<Rightarrow> aliasrec_late \<Rightarrow> AliasRecordParameters" where
  "AliasRecord_setLate p l = (case l of (comment, disable, ttl, useTTL, extAttrs) \<Rightarrow>
     p\<lparr>alp_Comment := comment, alp_Disable := disable, alp_TTL := ttl, alp_UseTTL := useTTL, alp_ExtAttrs :=
         extAttrs\<rparr>)"

subsection \<open>namespaced.go\<close>

definition namespaced_AliasRecord_Observe ::
  "(RecordAlias, aliasrec_req) wapi \<Rightarrow> string \<Rightarrow> AliasRecordCR \<Rightarrow> aliasrec_req world
      \<Rightarrow> (goerr + ExternalObservation) \<times> AliasRecordCR \<times> aliasrec_req world" where
  "namespaced_AliasRecord_Observe env endpoint cr w =
     (case observeAliasRecord env endpoint (mo_name cr) (GetExternalName cr) (mo_uid cr)
             (AliasRecord_latePart (al_ForProvider cr)) w of
        (Inl err, l, w1) \<Rightarrow>
          (let cr1 = cr\<lparr>al_ForProvider := AliasRecord_setLate (al_ForProvider cr) l\<rparr> in
           if errors_as is_PrerequisiteError err then (Inl err, cr1, w1)
           else (Inl (Wrapped errObserveAliasRec err), cr1, w1))
      | (Inr res, l, w1) \<Rightarrow>
          (let p = AliasRecord_setLate (al_ForProvider cr) l;
               cr1 = cr\<lparr>al_ForProvider := p\<rparr> in
           if \<not> ores_exists res then (Inr notExists, cr1, w1)
           else
             (let o1 = ores_obs res;
                  cr2 = cr1\<lparr>al_AtProvider :=
                    \<lparr>als_ID = alo_ID o1, als_Name = alo_Name o1, als_TargetName = alo_TargetName o1,
                     als_TargetType = alo_TargetType o1, als_View = alo_View o1, als_Comment =
                     alo_Comment o1, als_Disable = alo_Disable o1, als_TTL = alo_TTL o1, als_UseTTL
                     = alo_UseTTL o1, als_ExtAttrs = alo_ExtAttrs o1, als_Ref = alo_Ref o1, als_Zone
                     = alo_Zone o1\<rparr>\<rparr>;
                  cr3 = (if ores_refreshedRef res \<noteq> [] then SetExternalName (ores_refreshedRef res) cr2 else cr2);
                  cr4 = SetAvailable cr3;
                  upToDate = (AliasRecord_isUpToDate (alp_Name p) (alp_TargetName p) (alp_TargetType p) (alp_Comment p)
                                (alp_Disable p) (alp_TTL p) (alp_UseTTL p) (alp_ExtAttrs p) (ores_rec res)
                                \<and> \<not> ores_adopted res)
              in (Inr \<lparr>ResourceExists = True, ResourceUpToDate = upToDate,
                       ResourceLateInitialized = ores_lateInit res\<rparr>, cr4, w1))))"

definition namespaced_AliasRecord_Create ::
  "(RecordAlias, aliasrec_req) wapi \<Rightarrow> string \<Rightarrow> AliasRecordCR \<Rightarrow> aliasrec_req world
      \<Rightarrow> goerr option \<times> AliasRecordCR \<times> aliasrec_req world" where
  "namespaced_AliasRecord_Create env endpoint cr w =
     (let p = al_ForProvider cr; uid = mo_uid cr in
      if trim_space uid = [] then (Some (TextError AliasRecord_errEmptyUID), cr, w)
      else
          (case ensureIdentityPrerequisite env endpoint w of
             (Some err, w1) \<Rightarrow> (Some err, cr, w1)
           | (None, w1) \<Rightarrow>
               (case createAliasRecord env p uid w1 of
                  (Inl err, w2) \<Rightarrow> (Some (Wrapped errCreateAliasRecord err), cr, w2)
                | (Inr rec, w2) \<Rightarrow> (None, SetExternalName (alr_Ref rec) cr, w2))))"

definition namespaced_AliasRecord_Update ::
  "(RecordAlias, aliasrec_req) wapi \<Rightarrow> string \<Rightarrow> AliasRecordCR \<Rightarrow> aliasrec_req world
      \<Rightarrow> goerr option \<times> AliasRecordCR \<times> aliasrec_req world" where
  "namespaced_AliasRecord_Update env endpoint cr w =
     (let p = al_ForProvider cr; externalID = GetExternalName cr in
      case ensureIdentityPrerequisite env endpoint w of
        (Some err, w1) \<Rightarrow> (Some err, cr, w1)
      | (None, w1) \<Rightarrow>
          (case updateAliasRecord env externalID p (mo_uid cr) w1 of
             (Inl err, w2) \<Rightarrow> (Some (Wrapped errUpdateAliasRecord err), cr, w2)
           | (Inr newRef, w2) \<Rightarrow>
               if newRef \<noteq> [] \<and> newRef \<noteq> externalID then
                 (case Refresh env cr newRef w2 of
                    (Some err, cr1, w3) \<Rightarrow> (Some (Wrapped errPersistExternalName err), cr1, w3)
                  | (None, cr1, w3) \<Rightarrow> (None, cr1, w3))
               else (None, cr, w2)))"

definition namespaced_AliasRecord_Delete ::
  "(RecordAlias, aliasrec_req) wapi \<Rightarrow> string \<Rightarrow> AliasRecordCR \<Rightarrow> aliasrec_req world
      \<Rightarrow> goerr option \<times> aliasrec_req world" where
  "namespaced_AliasRecord_Delete env endpoint cr w =
     (let externalID = GetExternalName cr in
      case deleteAliasRecordIdentity env endpoint externalID (mo_uid cr) w of
        (Some err, w1) \<Rightarrow> (Some err, w1)
      | (None, w1) \<Rightarrow> (None, w1))"

subsection \<open>cluster.go\<close>

definition cluster_AliasRecord_Observe ::
  "(RecordAlias, aliasrec_req) wapi \<Rightarrow> string \<Rightarrow> AliasRecordCR \<Rightarrow> aliasrec_req world
      \<Rightarrow> (goerr + ExternalObservation) \<times> AliasRecordCR \<times> aliasrec_req world" where
  "cluster_AliasRecord_Observe env endpoint cr w =
     (case observeAliasRecord env endpoint (mo_name cr) (GetExternalName cr) (mo_uid cr)
             (AliasRecord_latePart (al_ForProvider cr)) w of
        (Inl err, l, w1) \<Rightarrow>
          (let cr1 = cr\<lparr>al_ForProvider := AliasRecord_setLate (al_ForProvider cr) l\<rparr> in
           if errors_as is_PrerequisiteError err then (Inl err, cr1, w1)
           else (Inl (Wrapped errObserveAliasRec err), cr1, w1))
      | (Inr res, l, w1) \<Rightarrow>
          (let p = AliasRecord_setLate (al_ForProvider cr) l;
               cr1 = cr\<lparr>al_ForProvider := p\<rparr> in
           if \<not> ores_exists res then (Inr notExists, cr1, w1)
           else
             (let o1 = ores_obs res;
                  cr2 = cr1\<lparr>al_AtProvider :=
                    \<lparr>als_ID = alo_ID o1, als_Name = alo_Name o1, als_TargetName = alo_TargetName o1,
                     als_TargetType = alo_TargetType o1, als_View = alo_View o1, als_Comment =
                     alo_Comment o1, als_Disable = alo_Disable o1, als_TTL = alo_TTL o1, als_UseTTL
                     = alo_UseTTL o1, als_ExtAttrs = alo_ExtAttrs o1, als_Ref = alo_Ref o1, als_Zone
                     = alo_Zone o1\<rparr>\<rparr>;
                  cr3 = (if ores_refreshedRef res \<noteq> [] then SetExternalName (ores_refreshedRef res) cr2 else cr2);
                  cr4 = SetAvailable cr3;
                  upToDate = (AliasRecord_isUpToDate (alp_Name p) (alp_TargetName p) (alp_TargetType p) (alp_Comment p)
                                (alp_Disable p) (alp_TTL p) (alp_UseTTL p) (alp_ExtAttrs p) (ores_rec res)
                                \<and> \<not> ores_adopted res)
              in (Inr \<lparr>ResourceExists = True, ResourceUpToDate = upToDate,
                       ResourceLateInitialized = ores_lateInit res\<rparr>, cr4, w1))))"

definition cluster_AliasRecord_Create ::
  "(RecordAlias, aliasrec_req) wapi \<Rightarrow> string \<Rightarrow> AliasRecordCR \<Rightarrow> aliasrec_req world
      \<Rightarrow> goerr option \<times> AliasRecordCR \<times> aliasrec_req world" where
  "cluster_AliasRecord_Create env endpoint cr w =
     (let p = al_ForProvider cr; uid = mo_uid cr in
      if trim_space uid = [] then (Some (TextError AliasRecord_errEmptyUID), cr, w)
      else
          (case ensureIdentityPrerequisite env endpoint w of
             (Some err, w1) \<Rightarrow> (Some err, cr, w1)
           | (None, w1) \<Rightarrow>
               (case createAliasRecord env p uid w1 of
                  (Inl err, w2) \<Rightarrow> (Some (Wrapped errCreateAliasRecord err), cr, w2)
                | (Inr rec, w2) \<Rightarrow> (None, SetExternalName (alr_Ref rec) cr, w2))))"

definition cluster_AliasRecord_Update ::
  "(RecordAlias, aliasrec_req) wapi \<Rightarrow> string \<Rightarrow> AliasRecordCR \<Rightarrow> aliasrec_req world
      \<Rightarrow> goerr option \<times> AliasRecordCR \<times> aliasrec_req world" where
  "cluster_AliasRecord_Update env endpoint cr w =
     (let p = al_ForProvider cr; externalID = GetExternalName cr in
      case ensureIdentityPrerequisite env endpoint w of
        (Some err, w1) \<Rightarrow> (Some err, cr, w1)
      | (None, w1) \<Rightarrow>
          (case updateAliasRecord env externalID p (mo_uid cr) w1 of
             (Inl err, w2) \<Rightarrow> (Some (Wrapped errUpdateAliasRecord err), cr, w2)
           | (Inr newRef, w2) \<Rightarrow>
               if newRef \<noteq> [] \<and> newRef \<noteq> externalID then
                 (case Refresh env cr newRef w2 of
                    (Some err, cr1, w3) \<Rightarrow> (Some (Wrapped errPersistExternalName err), cr1, w3)
                  | (None, cr1, w3) \<Rightarrow> (None, cr1, w3))
               else (None, cr, w2)))"

definition cluster_AliasRecord_Delete ::
  "(RecordAlias, aliasrec_req) wapi \<Rightarrow> string \<Rightarrow> AliasRecordCR \<Rightarrow> aliasrec_req world
      \<Rightarrow> goerr option \<times> aliasrec_req world" where
  "cluster_AliasRecord_Delete env endpoint cr w =
     (let externalID = GetExternalName cr in
      case deleteAliasRecordIdentity env endpoint externalID (mo_uid cr) w of
        (Some err, w1) \<Rightarrow> (Some err, w1)
      | (None, w1) \<Rightarrow> (None, w1))"

section \<open>The contract of the ladder client\<close>

text \<open>The requests of a spec, what a Grid object holds of a request, and the drift check of a resource.\<close>

definition aliasrec_create_request :: "AliasRecordParameters \<Rightarrow> string \<Rightarrow> aliasrec_req" where
  "aliasrec_create_request p uid = CreateAliasRecord
     (strOrEmpty (alp_Name p)) (strOrEmpty (alp_View p)) (strOrEmpty (alp_TargetName p)) (strOrEmpty (alp_TargetType
         p)) (strOrEmpty (alp_Comment p)) (boolOrFalse (alp_Disable p)) (Stamp (buildEA (alp_ExtAttrs p)) uid)
         (uint32OrZero (alp_TTL p)) (boolOrFalse (alp_UseTTL p))"

definition aliasrec_update_request :: "string \<Rightarrow> AliasRecordParameters \<Rightarrow> string \<Rightarrow> aliasrec_req" where
  "aliasrec_update_request ref p uid = UpdateAliasObject ref
     (strOrEmpty (alp_Name p)) (strOrEmpty (alp_TargetName p)) (strOrEmpty (alp_TargetType p)) (strOrEmpty
         (alp_Comment p)) (boolOrFalse (alp_Disable p)) (uint32OrZero (alp_TTL p)) (boolOrFalse (alp_UseTTL p)) (Stamp
         (buildEA (alp_ExtAttrs p)) uid)"

fun aliasrec_req_ea :: "aliasrec_req \<Rightarrow> ea" where
  "aliasrec_req_ea (CreateAliasRecord recordName dnsView tgtName tgtType comment disable ea ttl useTTL) = ea"
| "aliasrec_req_ea (UpdateAliasObject ref recordName tgtName tgtType comment disable ttl useTTL ea) = ea"

fun aliasrec_holds :: "aliasrec_req \<Rightarrow> RecordAlias \<Rightarrow> bool" where
  "aliasrec_holds (CreateAliasRecord recordName dnsView tgtName tgtType comment disable ea ttl useTTL) rec \<longleftrightarrow>
     strOrEmpty (alr_Name rec) = recordName \<and>
     strOrEmpty (alr_TargetName rec) = tgtName \<and>
     alr_TargetType rec = tgtType \<and>
     boolOrFalse (alr_Disable rec) = disable \<and>
     strOrEmpty (alr_Comment rec) = comment \<and>
     boolOrFalse (alr_UseTtl rec) = useTTL \<and>
     (useTTL \<longrightarrow> ttlOrZero (alr_Ttl rec) = ttl) \<and>
     alr_Ea rec = ea"
| "aliasrec_holds (UpdateAliasObject ref recordName tgtName tgtType comment disable ttl useTTL ea) rec \<longleftrightarrow>
     strOrEmpty (alr_Name rec) = recordName \<and>
     strOrEmpty (alr_TargetName rec) = tgtName \<and>
     alr_TargetType rec = tgtType \<and>
     boolOrFalse (alr_Disable rec) = disable \<and>
     strOrEmpty (alr_Comment rec) = comment \<and>
     boolOrFalse (alr_UseTtl rec) = useTTL \<and>
     (useTTL \<longrightarrow> ttlOrZero (alr_Ttl rec) = ttl) \<and>
     alr_Ea rec = ea"

definition AliasRecord_utd :: "AliasRecordCR \<Rightarrow> RecordAlias \<Rightarrow> bool" where
  "AliasRecord_utd cr rec = (let p = al_ForProvider cr in
     AliasRecord_isUpToDate (alp_Name p) (alp_TargetName p) (alp_TargetType p) (alp_Comment p)
                                (alp_Disable p) (alp_TTL p) (alp_UseTTL p) (alp_ExtAttrs p) rec)"

definition AliasRecord_spec_ok :: "AliasRecordCR \<Rightarrow> bool" where
  "AliasRecord_spec_ok cr \<longleftrightarrow> (let p = al_ForProvider cr in reserved_free (alp_ExtAttrs p))"

definition AliasRecord_keeps :: "aliasrec_late \<Rightarrow> aliasrec_late \<Rightarrow> bool" where
  "AliasRecord_keeps l l' = (case (l, l') of ((comment, disable, ttl, useTTL, extAttrs), (comment', disable', ttl',
      useTTL', extAttrs')) \<Rightarrow>
     keeps_set comment comment' \<and> keeps_set disable disable' \<and> keeps_set ttl ttl' \<and> keeps_set useTTL useTTL' \<and> keeps_attrs extAttrs extAttrs')"

definition AliasRecord_get :: "AliasRecordCR \<Rightarrow> aliasrec_late" where
  "AliasRecord_get cr = AliasRecord_latePart (al_ForProvider cr)"

definition AliasRecord_put :: "AliasRecordCR \<Rightarrow> aliasrec_late \<Rightarrow> AliasRecordCR" where
  "AliasRecord_put cr l = cr\<lparr>al_ForProvider := AliasRecord_setLate (al_ForProvider cr) l\<rparr>"

definition AliasRecord_status :: "RecordAlias \<Rightarrow> AliasRecordCR \<Rightarrow> AliasRecordCR" where
  "AliasRecord_status rec cr =
     (let o1 = observeFromRecordAlias (alr_Ref rec) rec; p = al_ForProvider cr in
      cr\<lparr>al_AtProvider :=
        \<lparr>als_ID = alo_ID o1, als_Name = alo_Name o1, als_TargetName = alo_TargetName o1,
        als_TargetType = alo_TargetType o1, als_View = alo_View o1, als_Comment = alo_Comment o1,
        als_Disable = alo_Disable o1, als_TTL = alo_TTL o1, als_UseTTL = alo_UseTTL o1, als_ExtAttrs
        = alo_ExtAttrs o1, als_Ref = alo_Ref o1, als_Zone = alo_Zone o1\<rparr>\<rparr>)"

definition AliasRecord_valid :: "AliasRecordCR \<Rightarrow> goerr option" where
  "AliasRecord_valid cr = (let p = al_ForProvider cr; uid = mo_uid cr in if trim_space uid = [] then Some (TextError AliasRecord_errEmptyUID) else None)"

lemma AliasRecord_lateInitialize_eq:
  "AliasRecord_lateInitialize (comment, disable, ttl, useTTL, extAttrs) rec =
     (let comment1 = fill comment (ptrIfSet (alr_Comment rec));
          disable1 = fill disable (alr_Disable rec);
          useTTL1 = fill useTTL (alr_UseTtl rec);
          ttl1 = fill_if ttl (boolOrFalse useTTL1) (alr_Ttl rec);
          extAttrs1 = fill_map extAttrs (userAttrs (alr_Ea rec))
      in ((comment1, disable1, ttl1, useTTL1, extAttrs1), (comment1, disable1, ttl1, useTTL1, extAttrs1) \<noteq>
          (comment, disable, ttl, useTTL, extAttrs)))"
  by (simp only: AliasRecord_lateInitialize_def userAttrs_def [symmetric] Let_def case_prod_conv fill_steps
      prod.inject fill_changed ptrIfSet_set simp_thms de_Morgan_conj disj_ac)

interpretation aliasrec_late: late_lens AliasRecord_lateInitialize AliasRecord_keeps AliasRecord_get AliasRecord_put AliasRecord_utd
proof
  fix l l' :: aliasrec_late and rec :: RecordAlias and cr :: AliasRecordCR
  obtain comment disable ttl useTTL extAttrs where l: "l = (comment, disable, ttl, useTTL, extAttrs)" by (cases l)
      auto
  show "AliasRecord_lateInitialize (fst (AliasRecord_lateInitialize l rec)) rec = (fst (AliasRecord_lateInitialize l
      rec), False)"
    by (simp add: l AliasRecord_lateInitialize_eq Let_def)
  show "snd (AliasRecord_lateInitialize l rec) \<longleftrightarrow> fst (AliasRecord_lateInitialize l rec) \<noteq> l"
    by (simp add: l AliasRecord_lateInitialize_eq Let_def)
  show "AliasRecord_keeps l (fst (AliasRecord_lateInitialize l rec))"
    by (simp add: l AliasRecord_lateInitialize_eq Let_def AliasRecord_keeps_def keeps_fill)
  show "AliasRecord_get (AliasRecord_put cr l) = l"
    by (simp add: l AliasRecord_get_def AliasRecord_put_def AliasRecord_latePart_def AliasRecord_setLate_def)
  show "AliasRecord_put cr (AliasRecord_get cr) = cr"
    by (simp add: AliasRecord_get_def AliasRecord_put_def AliasRecord_latePart_def AliasRecord_setLate_def)
  show "AliasRecord_put (AliasRecord_put cr l) l' = AliasRecord_put cr l'"
    by (simp add: AliasRecord_put_def AliasRecord_setLate_def split: prod.split)
  show "AliasRecord_utd (AliasRecord_put cr (fst (AliasRecord_lateInitialize (AliasRecord_get cr) rec))) rec" if "AliasRecord_utd cr rec"
    using that
    by (auto simp: AliasRecord_get_def AliasRecord_put_def AliasRecord_latePart_def AliasRecord_setLate_def AliasRecord_lateInitialize_eq Let_def
        AliasRecord_utd_def AliasRecord_isUpToDate_def extAttrsEqual_iff simp flip: userAttrs_def split: if_splits)
qed

lemma RecordAlias_type_simps [simp]:
  "ot_name RecordAlias_type = ''record:alias''" "ref_ea_shape RecordAlias_type"
  "stamped RecordAlias_type rec = eaValue (alr_Ea rec) EAKey"
  by (simp_all add: ref_ea_shape_def stamped_def RecordAlias_type_def reflectRecordAlias_def getRef_def getEA_def)

lemma deleteAliasRecord_issue: "deleteAliasRecord env = issue_delete env"
  by (intro ext) (simp only: deleteAliasRecord_def issue_delete_def)

lemma createAliasRecord_valid:
  assumes "AliasRecord_valid cr = None"
  shows "createAliasRecord env (al_ForProvider cr) (mo_uid cr) w = mutate_object env (aliasrec_create_request
      (al_ForProvider cr) (mo_uid cr)) w"
  using assms
  by (auto simp: createAliasRecord_def aliasrec_create_request_def AliasRecord_valid_def Let_def split: if_splits option.splits)


lemma AliasRecord_Observe_shape:
  "namespaced_AliasRecord_Observe env ep cr w =
     ladder_observe_shape (ladder_observe_error errObserveAliasRec) (Resolve env RecordAlias_type)
         (ensureIdentityPrerequisite env ep)
       (\<lambda>r. r \<noteq> []) (\<lambda>r. True) (lift_late AliasRecord_lateInitialize AliasRecord_get
           AliasRecord_put) AliasRecord_status AliasRecord_utd alr_Ref cr w"
proof -
  have same: "cr\<lparr>al_ForProvider := AliasRecord_setLate (al_ForProvider cr) (AliasRecord_latePart (al_ForProvider cr))\<rparr> = cr"
    by (simp add: AliasRecord_latePart_def AliasRecord_setLate_def)
  obtain r w1 where r: "Resolve env RecordAlias_type (observeRefFor (mo_name cr) (GetExternalName cr)) (mo_uid cr) w =
      (r, w1)"
    by (cases "Resolve env RecordAlias_type (observeRefFor (mo_name cr) (GetExternalName cr)) (mo_uid cr) w")
  obtain e w2 where e: "ensureIdentityPrerequisite env ep w1 = (e, w2)"
    by (cases "ensureIdentityPrerequisite env ep w1")
  note defs = namespaced_AliasRecord_Observe_def observeAliasRecord_def resolveAliasRecordIdentity_def ladder_observe_shape_def ladder_observe_error_def
  show ?thesis
  proof (cases r)
    case (Inl err)
    then show ?thesis
      by (cases e) (simp_all add: defs Let_def r e same)
  next
    case (Inr a)
    obtain obj out where a: "a = (obj, out)" by (cases a)
    show ?thesis
    proof (cases obj)
      case None
      then show ?thesis
        by (simp add: defs Let_def r Inr a same AliasRecord_notFoundResult_def)
    next
      case (Some rec)
      obtain l c where "AliasRecord_lateInitialize (AliasRecord_latePart (al_ForProvider cr)) rec = (l, c)"
        by (cases "AliasRecord_lateInitialize (AliasRecord_latePart (al_ForProvider cr)) rec")
      with Some show ?thesis
        by (simp add: defs Let_def r Inr a same lift_late_def AliasRecord_get_def AliasRecord_put_def
            AliasRecord_status_def AliasRecord_utd_def AliasRecord_notFoundResult_def observeFromRecordAlias_def)
    qed
  qed
qed

lemma AliasRecord_Create_shape:
  "namespaced_AliasRecord_Create env ep cr w =
     ladder_create_shape errCreateAliasRecord AliasRecord_valid (ensureIdentityPrerequisite env ep) (mutate_object env)
       (\<lambda>cr. aliasrec_create_request (al_ForProvider cr) (mo_uid cr)) alr_Ref cr w"
proof -
  obtain e w1 where e: "ensureIdentityPrerequisite env ep w = (e, w1)"
    by (cases "ensureIdentityPrerequisite env ep w")
  have v: "(let p = al_ForProvider cr; uid = mo_uid cr in if trim_space uid = [] then Some (TextError AliasRecord_errEmptyUID) else None) = AliasRecord_valid cr"
    by (simp only: AliasRecord_valid_def)
  show ?thesis
  proof (cases "AliasRecord_valid cr")
    case None
    then show ?thesis
      using createAliasRecord_valid [OF None, of env w1] v
      by (cases e) (simp_all add: namespaced_AliasRecord_Create_def ladder_create_shape_def Let_def e split: if_splits)
  next
    case (Some err)
    then show ?thesis
      using v by (simp add: namespaced_AliasRecord_Create_def ladder_create_shape_def Let_def split: if_splits)
  qed
qed

lemma AliasRecord_Update_shape:
  "namespaced_AliasRecord_Update env ep cr w =
     ladder_update_shape errUpdateAliasRecord AliasRecord_errEmptyUID env (ensureIdentityPrerequisite env ep)
       (\<lambda>cr. aliasrec_update_request (GetExternalName cr) (al_ForProvider cr) (mo_uid cr)) alr_Ref cr w"
proof -
  obtain e w1 where e: "ensureIdentityPrerequisite env ep w = (e, w1)"
    by (cases "ensureIdentityPrerequisite env ep w")
  show ?thesis
    by (cases e; cases "wapi_mutate env (calls w1) (aliasrec_update_request (GetExternalName cr) (al_ForProvider cr)
        (mo_uid cr))")
      (auto simp: namespaced_AliasRecord_Update_def ladder_update_shape_def updateAliasRecord_def aliasrec_update_request_def
        Let_def e mutate_object_def)
qed

lemma AliasRecord_Delete_shape:
  "namespaced_AliasRecord_Delete env ep cr w =
     ladder_delete_shape errDeleteAliasRecord errDeleteUnverifiedOwnership nilDereference
       (Resolve env RecordAlias_type (GetExternalName cr) (mo_uid cr)) (ensureIdentityPrerequisite env ep)
       (issue_delete env) alr_Ref w"
proof -
  have "namespaced_AliasRecord_Delete env ep cr w = deleteAliasRecordIdentity env ep (GetExternalName cr) (mo_uid cr) w"
    by (simp add: namespaced_AliasRecord_Delete_def Let_def split: prod.split option.split)
  then show ?thesis
    by (simp only: deleteAliasRecordIdentity_def ladder_delete_shape_def resolveAliasRecordIdentity_def deleteAliasRecord_issue)
qed

lemma AliasRecord_scopes:
  "cluster_AliasRecord_Observe = namespaced_AliasRecord_Observe" "cluster_AliasRecord_Create = namespaced_AliasRecord_Create"
  "cluster_AliasRecord_Update = namespaced_AliasRecord_Update" "cluster_AliasRecord_Delete = namespaced_AliasRecord_Delete"
  by (intro ext, simp only: cluster_AliasRecord_Observe_def namespaced_AliasRecord_Observe_def
      cluster_AliasRecord_Create_def
      namespaced_AliasRecord_Create_def cluster_AliasRecord_Update_def namespaced_AliasRecord_Update_def
      cluster_AliasRecord_Delete_def namespaced_AliasRecord_Delete_def)+

lemma aliasrec_written_utd:
  assumes "AliasRecord_spec_ok cr"
    and "aliasrec_holds (aliasrec_create_request (al_ForProvider cr) (mo_uid cr)) rec \<and> AliasRecord_valid cr = None \<or>
      aliasrec_holds (aliasrec_update_request (GetExternalName cr) (al_ForProvider cr) (mo_uid cr)) rec"
  shows "AliasRecord_utd (fst (lift_late AliasRecord_lateInitialize AliasRecord_get AliasRecord_put cr rec)) rec \<and>
    eaValue (alr_Ea rec) EAKey = Some (mo_uid cr)"
proof -
  note reqs = aliasrec_create_request_def aliasrec_update_request_def
  have ok: "reserved_free (alp_ExtAttrs (al_ForProvider cr))"
    using assms(1) by (simp_all add: AliasRecord_spec_ok_def Let_def)
  have ea: "alr_Ea rec = Stamp (buildEA (alp_ExtAttrs (al_ForProvider cr))) (mo_uid cr)"
    using assms(2) by (elim disjE) (simp_all add: reqs)
  have fields: 
    "strOrEmpty (alp_Name (al_ForProvider cr)) = strOrEmpty (alr_Name rec)" 
    "strOrEmpty (alp_TargetName (al_ForProvider cr)) = strOrEmpty (alr_TargetName rec)" 
    "strOrEmpty (alp_TargetType (al_ForProvider cr)) = alr_TargetType rec" 
    "strOrEmpty (alp_Comment (al_ForProvider cr)) = strOrEmpty (alr_Comment rec)" 
    "boolOrFalse (alp_Disable (al_ForProvider cr)) = boolOrFalse (alr_Disable rec)" 
    "boolOrFalse (alp_UseTTL (al_ForProvider cr)) = boolOrFalse (alr_UseTtl rec)" 
    "boolOrFalse (alp_UseTTL (al_ForProvider cr)) \<Longrightarrow> ttlOrZero (alp_TTL (al_ForProvider cr)) = ttlOrZero (alr_Ttl rec)"
    using assms(2) ok by (elim disjE; simp add: reqs)+
  have "userAttrs (alr_Ea rec) = alp_ExtAttrs (al_ForProvider cr)"
    using ok(1) by (simp add: ea userAttrs_buildEA reserved_free_fmdrop)
  then have "AliasRecord_utd cr rec"
    using fields
    by (simp add: AliasRecord_utd_def AliasRecord_isUpToDate_def Let_def extAttrsEqual_iff flip: userAttrs_def)
  with ea show ?thesis using aliasrec_late.late_utd by simp
qed

interpretation aliasrec: refreshing_client "lift_late AliasRecord_lateInitialize AliasRecord_get AliasRecord_put" AliasRecord_utd
  "\<lambda>s s'. AliasRecord_keeps (AliasRecord_get s) (AliasRecord_get s')"
  RecordAlias_type alr_Ref AliasRecord_status AliasRecord_valid
  "\<lambda>cr. aliasrec_create_request (al_ForProvider cr) (mo_uid cr)"
  "\<lambda>cr. aliasrec_update_request (GetExternalName cr) (al_ForProvider cr) (mo_uid cr)"
  aliasrec_req_ea aliasrec_holds AliasRecord_spec_ok
  "ladder_observe_error errObserveAliasRec" "\<lambda>r. r \<noteq> []" "\<lambda>r. True" alr_Ref errCreateAliasRecord errUpdateAliasRecord errDeleteAliasRecord AliasRecord_errEmptyUID
  namespaced_AliasRecord_Observe namespaced_AliasRecord_Create namespaced_AliasRecord_Update namespaced_AliasRecord_Delete
proof (unfold_locales, goal_cases)
  case (6 cr)
  then show ?case by (auto simp: AliasRecord_valid_def Let_def split: if_splits)
next
  case (13 n cr rec)
  have "AliasRecord_get (SetExternalName n cr) = AliasRecord_get cr"
    "AliasRecord_put (SetExternalName n cr) l = SetExternalName n (AliasRecord_put cr l)" for l
    by (simp_all add: AliasRecord_get_def AliasRecord_put_def SetExternalName_def)
  then show ?case
    by (simp add: aliasrec_late.lifted_simps AliasRecord_utd_def SetExternalName_def)
next
  case (14 cr rec)
  then show ?case using aliasrec_written_utd [of cr rec] by simp
next
  case (15 cr rec)
  then show ?case using aliasrec_written_utd [of cr rec] by simp
qed (simp_all add: AliasRecord_Observe_shape AliasRecord_Create_shape AliasRecord_Update_shape AliasRecord_Delete_shape
    aliasrec_late.lifted_simps AliasRecord_put_def AliasRecord_status_def Let_def
    aliasrec_create_request_def aliasrec_update_request_def)

end
