(* ===== verification/RecordFamily.thy ===== *)
theory RecordFamily
  imports ARecordSpec AAAARecord CNAMERecord TXTRecord MXRecord SRVRecord PTRRecord AliasRecord
begin

text \<open>
  What the eight record controllers on the identity ladder promise in both scopes. Every
  conjunct comes from the interpretation of the locale \<open>ladder_client\<close> on the controller's own
  handlers; the promises themselves are the predicates of theory LadderClient.
\<close>

lemmas scopes = ARecord_scopes AAAARecord_scopes CNAMERecord_scopes TXTRecord_scopes MXRecord_scopes
  SRVRecord_scopes PTRRecord_scopes AliasRecord_scopes

section \<open>Deletion\<close>

text \<open>
  C1: deleting a record of any of the eight kinds, in both scopes, sends at most one
  mutating request to the Grid, and then it is the deletion of the object the identity ladder
  found, which is stamped with this resource's uid, by that object's current reference and not
  by the recorded one.
\<close>

theorem controllers_delete_only_owned:
  "deletes_only_owned RecordA_type ra_Ref namespaced_ARecord_Delete \<and>
   deletes_only_owned RecordA_type ra_Ref cluster_ARecord_Delete \<and>
   deletes_only_owned RecordAAAA_type aar_Ref namespaced_AAAARecord_Delete \<and>
   deletes_only_owned RecordAAAA_type aar_Ref cluster_AAAARecord_Delete \<and>
   deletes_only_owned RecordCNAME_type cnr_Ref namespaced_CNAMERecord_Delete \<and>
   deletes_only_owned RecordCNAME_type cnr_Ref cluster_CNAMERecord_Delete \<and>
   deletes_only_owned RecordTXT_type txr_Ref namespaced_TXTRecord_Delete \<and>
   deletes_only_owned RecordTXT_type txr_Ref cluster_TXTRecord_Delete \<and>
   deletes_only_owned RecordMX_type mxr_Ref namespaced_MXRecord_Delete \<and>
   deletes_only_owned RecordMX_type mxr_Ref cluster_MXRecord_Delete \<and>
   deletes_only_owned RecordSRV_type svr_Ref namespaced_SRVRecord_Delete \<and>
   deletes_only_owned RecordSRV_type svr_Ref cluster_SRVRecord_Delete \<and>
   deletes_only_owned RecordPTR_type ptr_Ref namespaced_PTRRecord_Delete \<and>
   deletes_only_owned RecordPTR_type ptr_Ref cluster_PTRRecord_Delete \<and>
   deletes_only_owned RecordAlias_type alr_Ref namespaced_AliasRecord_Delete \<and>
   deletes_only_owned RecordAlias_type alr_Ref cluster_AliasRecord_Delete"
  by (simp only: scopes simp_thms arecord.delete_only_owned aaaa.delete_only_owned cname.delete_only_owned txtrec.delete_only_owned mx.delete_only_owned srv.delete_only_owned ptr.delete_only_owned aliasrec.delete_only_owned)

text \<open>
  Delete of a record reports success only when the ladder found no object, or the delete
  of an owned object succeeded or was answered with a 404; an object without a stamp is never
  reported as deleted.
\<close>

theorem controllers_delete_success:
  "delete_success_justified RecordA_type ra_Ref namespaced_ARecord_Delete \<and>
   delete_success_justified RecordA_type ra_Ref cluster_ARecord_Delete \<and>
   delete_success_justified RecordAAAA_type aar_Ref namespaced_AAAARecord_Delete \<and>
   delete_success_justified RecordAAAA_type aar_Ref cluster_AAAARecord_Delete \<and>
   delete_success_justified RecordCNAME_type cnr_Ref namespaced_CNAMERecord_Delete \<and>
   delete_success_justified RecordCNAME_type cnr_Ref cluster_CNAMERecord_Delete \<and>
   delete_success_justified RecordTXT_type txr_Ref namespaced_TXTRecord_Delete \<and>
   delete_success_justified RecordTXT_type txr_Ref cluster_TXTRecord_Delete \<and>
   delete_success_justified RecordMX_type mxr_Ref namespaced_MXRecord_Delete \<and>
   delete_success_justified RecordMX_type mxr_Ref cluster_MXRecord_Delete \<and>
   delete_success_justified RecordSRV_type svr_Ref namespaced_SRVRecord_Delete \<and>
   delete_success_justified RecordSRV_type svr_Ref cluster_SRVRecord_Delete \<and>
   delete_success_justified RecordPTR_type ptr_Ref namespaced_PTRRecord_Delete \<and>
   delete_success_justified RecordPTR_type ptr_Ref cluster_PTRRecord_Delete \<and>
   delete_success_justified RecordAlias_type alr_Ref namespaced_AliasRecord_Delete \<and>
   delete_success_justified RecordAlias_type alr_Ref cluster_AliasRecord_Delete"
  by (simp only: scopes simp_thms arecord.delete_success aaaa.delete_success cname.delete_success txtrec.delete_success mx.delete_success srv.delete_success ptr.delete_success aliasrec.delete_success)

section \<open>Observation\<close>

text \<open>
  C37: when Observe of a record answers that it exists, the object carries this resource's
  uid or no stamp at all; an unstamped one is never up to date (so that Update claims it) and
  leaves the recorded reference alone. Observe never changes the Grid.
\<close>

theorem controllers_observe_ownership:
  "observes_ownership RecordA_type namespaced_ARecord_Observe \<and>
   observes_ownership RecordA_type cluster_ARecord_Observe \<and>
   observes_ownership RecordAAAA_type namespaced_AAAARecord_Observe \<and>
   observes_ownership RecordAAAA_type cluster_AAAARecord_Observe \<and>
   observes_ownership RecordCNAME_type namespaced_CNAMERecord_Observe \<and>
   observes_ownership RecordCNAME_type cluster_CNAMERecord_Observe \<and>
   observes_ownership RecordTXT_type namespaced_TXTRecord_Observe \<and>
   observes_ownership RecordTXT_type cluster_TXTRecord_Observe \<and>
   observes_ownership RecordMX_type namespaced_MXRecord_Observe \<and>
   observes_ownership RecordMX_type cluster_MXRecord_Observe \<and>
   observes_ownership RecordSRV_type namespaced_SRVRecord_Observe \<and>
   observes_ownership RecordSRV_type cluster_SRVRecord_Observe \<and>
   observes_ownership RecordPTR_type namespaced_PTRRecord_Observe \<and>
   observes_ownership RecordPTR_type cluster_PTRRecord_Observe \<and>
   observes_ownership RecordAlias_type namespaced_AliasRecord_Observe \<and>
   observes_ownership RecordAlias_type cluster_AliasRecord_Observe"
  by (simp only: scopes simp_thms arecord.observe_ownership aaaa.observe_ownership cname.observe_ownership txtrec.observe_ownership mx.observe_ownership srv.observe_ownership ptr.observe_ownership aliasrec.observe_ownership)

text \<open>
  Observe of a record answers "does not exist" only after its last request, the search
  for the uid, came back empty, and, when a reference is recorded, after reading that gave a 404;
  so no second object is created while a stamped one is visible.
\<close>

theorem controllers_observe_absent:
  "absent_means_searched RecordA_type namespaced_ARecord_Observe \<and>
   absent_means_searched RecordA_type cluster_ARecord_Observe \<and>
   absent_means_searched RecordAAAA_type namespaced_AAAARecord_Observe \<and>
   absent_means_searched RecordAAAA_type cluster_AAAARecord_Observe \<and>
   absent_means_searched RecordCNAME_type namespaced_CNAMERecord_Observe \<and>
   absent_means_searched RecordCNAME_type cluster_CNAMERecord_Observe \<and>
   absent_means_searched RecordTXT_type namespaced_TXTRecord_Observe \<and>
   absent_means_searched RecordTXT_type cluster_TXTRecord_Observe \<and>
   absent_means_searched RecordMX_type namespaced_MXRecord_Observe \<and>
   absent_means_searched RecordMX_type cluster_MXRecord_Observe \<and>
   absent_means_searched RecordSRV_type namespaced_SRVRecord_Observe \<and>
   absent_means_searched RecordSRV_type cluster_SRVRecord_Observe \<and>
   absent_means_searched RecordPTR_type namespaced_PTRRecord_Observe \<and>
   absent_means_searched RecordPTR_type cluster_PTRRecord_Observe \<and>
   absent_means_searched RecordAlias_type namespaced_AliasRecord_Observe \<and>
   absent_means_searched RecordAlias_type cluster_AliasRecord_Observe"
  by (simp only: scopes simp_thms arecord.observe_absent aaaa.observe_absent cname.observe_absent txtrec.observe_absent mx.observe_absent srv.observe_absent ptr.observe_absent aliasrec.observe_absent)

section \<open>Creation and update\<close>

text \<open>
  C38: Create of a record sends no mutating request or exactly one, the create request of the
  spec stamped with the resource's uid; invalid inputs and a missing identity definition stop it
  before; the external name changes exactly when it succeeds, to the new object's reference.
\<close>

theorem controllers_create_contract:
  "creates_as ARecord_valid (\<lambda>cr. arecord_create_request (ar_ForProvider cr) (mo_uid cr)) ra_Ref errCreateARecord namespaced_ARecord_Create \<and>
   creates_as ARecord_valid (\<lambda>cr. arecord_create_request (ar_ForProvider cr) (mo_uid cr)) ra_Ref errCreateARecord cluster_ARecord_Create \<and>
   creates_as AAAARecord_valid (\<lambda>cr. aaaa_create_request (aa_ForProvider cr) (mo_uid cr)) aar_Ref errCreateAAAARecord namespaced_AAAARecord_Create \<and>
   creates_as AAAARecord_valid (\<lambda>cr. aaaa_create_request (aa_ForProvider cr) (mo_uid cr)) aar_Ref errCreateAAAARecord cluster_AAAARecord_Create \<and>
   creates_as CNAMERecord_valid (\<lambda>cr. cname_create_request (cn_ForProvider cr) (mo_uid cr)) cnr_Ref errCreateCNAMERecord namespaced_CNAMERecord_Create \<and>
   creates_as CNAMERecord_valid (\<lambda>cr. cname_create_request (cn_ForProvider cr) (mo_uid cr)) cnr_Ref errCreateCNAMERecord cluster_CNAMERecord_Create \<and>
   creates_as TXTRecord_valid (\<lambda>cr. txtrec_create_request (tx_ForProvider cr) (mo_uid cr)) txr_Ref errCreateTXTRecord namespaced_TXTRecord_Create \<and>
   creates_as TXTRecord_valid (\<lambda>cr. txtrec_create_request (tx_ForProvider cr) (mo_uid cr)) txr_Ref errCreateTXTRecord cluster_TXTRecord_Create \<and>
   creates_as MXRecord_valid (\<lambda>cr. mx_create_request (mx_ForProvider cr) (mo_uid cr)) mxr_Ref errCreateMXRecord namespaced_MXRecord_Create \<and>
   creates_as MXRecord_valid (\<lambda>cr. mx_create_request (mx_ForProvider cr) (mo_uid cr)) mxr_Ref errCreateMXRecord cluster_MXRecord_Create \<and>
   creates_as SRVRecord_valid (\<lambda>cr. srv_create_request (sv_ForProvider cr) (mo_uid cr)) svr_Ref errCreateSRVRecord namespaced_SRVRecord_Create \<and>
   creates_as SRVRecord_valid (\<lambda>cr. srv_create_request (sv_ForProvider cr) (mo_uid cr)) svr_Ref errCreateSRVRecord cluster_SRVRecord_Create \<and>
   creates_as PTRRecord_valid (\<lambda>cr. ptr_create_request (pt_ForProvider cr) (mo_uid cr)) ptr_Ref errCreatePTRRecord namespaced_PTRRecord_Create \<and>
   creates_as PTRRecord_valid (\<lambda>cr. ptr_create_request (pt_ForProvider cr) (mo_uid cr)) ptr_Ref errCreatePTRRecord cluster_PTRRecord_Create \<and>
   creates_as AliasRecord_valid (\<lambda>cr. aliasrec_create_request (al_ForProvider cr) (mo_uid cr)) alr_Ref errCreateAliasRecord namespaced_AliasRecord_Create \<and>
   creates_as AliasRecord_valid (\<lambda>cr. aliasrec_create_request (al_ForProvider cr) (mo_uid cr)) alr_Ref errCreateAliasRecord cluster_AliasRecord_Create"
  by (simp only: scopes simp_thms arecord.create_as aaaa.create_as cname.create_as txtrec.create_as mx.create_as srv.create_as ptr.create_as aliasrec.create_as)

text \<open>
  C39: Update of a record sends exactly one update request, to the recorded reference: the one that
  <kind>_update_request computes from the spec, with the stamp of the uid (none when the uid is blank or
  the identity definition is missing). It carries the name, the data, the TTL, the comment and the
  attributes of the spec, but neither the network view nor the cidr, and the DNS view only for an MX
  record; of a PTR with two addresses it carries the IPv4 one, and an MX preference outside 0..65535
  as 0. On success the external name becomes the reference the Grid answers with, if it answers with
  one, and on an error the resource is left as it was.
\<close>

theorem controllers_update_contract:
  "updates_as (\<lambda>cr. arecord_update_request (GetExternalName cr) (ar_ForProvider cr) (mo_uid cr)) ra_Ref namespaced_ARecord_Update \<and>
   updates_as (\<lambda>cr. arecord_update_request (GetExternalName cr) (ar_ForProvider cr) (mo_uid cr)) ra_Ref cluster_ARecord_Update \<and>
   updates_as (\<lambda>cr. aaaa_update_request (GetExternalName cr) (aa_ForProvider cr) (mo_uid cr)) aar_Ref namespaced_AAAARecord_Update \<and>
   updates_as (\<lambda>cr. aaaa_update_request (GetExternalName cr) (aa_ForProvider cr) (mo_uid cr)) aar_Ref cluster_AAAARecord_Update \<and>
   updates_as (\<lambda>cr. cname_update_request (GetExternalName cr) (cn_ForProvider cr) (mo_uid cr)) cnr_Ref namespaced_CNAMERecord_Update \<and>
   updates_as (\<lambda>cr. cname_update_request (GetExternalName cr) (cn_ForProvider cr) (mo_uid cr)) cnr_Ref cluster_CNAMERecord_Update \<and>
   updates_as (\<lambda>cr. txtrec_update_request (GetExternalName cr) (tx_ForProvider cr) (mo_uid cr)) txr_Ref namespaced_TXTRecord_Update \<and>
   updates_as (\<lambda>cr. txtrec_update_request (GetExternalName cr) (tx_ForProvider cr) (mo_uid cr)) txr_Ref cluster_TXTRecord_Update \<and>
   updates_as (\<lambda>cr. mx_update_request (GetExternalName cr) (mx_ForProvider cr) (mo_uid cr)) mxr_Ref namespaced_MXRecord_Update \<and>
   updates_as (\<lambda>cr. mx_update_request (GetExternalName cr) (mx_ForProvider cr) (mo_uid cr)) mxr_Ref cluster_MXRecord_Update \<and>
   updates_as (\<lambda>cr. srv_update_request (GetExternalName cr) (sv_ForProvider cr) (mo_uid cr)) svr_Ref namespaced_SRVRecord_Update \<and>
   updates_as (\<lambda>cr. srv_update_request (GetExternalName cr) (sv_ForProvider cr) (mo_uid cr)) svr_Ref cluster_SRVRecord_Update \<and>
   updates_as (\<lambda>cr. ptr_update_request (GetExternalName cr) (pt_ForProvider cr) (mo_uid cr)) ptr_Ref namespaced_PTRRecord_Update \<and>
   updates_as (\<lambda>cr. ptr_update_request (GetExternalName cr) (pt_ForProvider cr) (mo_uid cr)) ptr_Ref cluster_PTRRecord_Update \<and>
   updates_as (\<lambda>cr. aliasrec_update_request (GetExternalName cr) (al_ForProvider cr) (mo_uid cr)) alr_Ref namespaced_AliasRecord_Update \<and>
   updates_as (\<lambda>cr. aliasrec_update_request (GetExternalName cr) (al_ForProvider cr) (mo_uid cr)) alr_Ref cluster_AliasRecord_Update"
  by (simp only: scopes simp_thms arecord.update_as aaaa.update_as cname.update_as txtrec.update_as mx.update_as srv.update_as ptr.update_as aliasrec.update_as)

section \<open>Runs and convergence\<close>

text \<open>
  C5: in every interleaving of the handlers of any number of records of one kind, with
  arbitrary edits of specs, names and annotations in between, each create or update request in
  the log carries the uid of one of the resources, and each delete names an object that the Grid
  had shown before with the stamp of one of them.
\<close>

theorem controllers_run_safely:
  "runs_safely RecordA_type ra_Ref arecord_req_ea namespaced_ARecord_Observe namespaced_ARecord_Create namespaced_ARecord_Update namespaced_ARecord_Delete \<and>
   runs_safely RecordA_type ra_Ref arecord_req_ea cluster_ARecord_Observe cluster_ARecord_Create cluster_ARecord_Update cluster_ARecord_Delete \<and>
   runs_safely RecordAAAA_type aar_Ref aaaa_req_ea namespaced_AAAARecord_Observe namespaced_AAAARecord_Create namespaced_AAAARecord_Update namespaced_AAAARecord_Delete \<and>
   runs_safely RecordAAAA_type aar_Ref aaaa_req_ea cluster_AAAARecord_Observe cluster_AAAARecord_Create cluster_AAAARecord_Update cluster_AAAARecord_Delete \<and>
   runs_safely RecordCNAME_type cnr_Ref cname_req_ea namespaced_CNAMERecord_Observe namespaced_CNAMERecord_Create namespaced_CNAMERecord_Update namespaced_CNAMERecord_Delete \<and>
   runs_safely RecordCNAME_type cnr_Ref cname_req_ea cluster_CNAMERecord_Observe cluster_CNAMERecord_Create cluster_CNAMERecord_Update cluster_CNAMERecord_Delete \<and>
   runs_safely RecordTXT_type txr_Ref txtrec_req_ea namespaced_TXTRecord_Observe namespaced_TXTRecord_Create namespaced_TXTRecord_Update namespaced_TXTRecord_Delete \<and>
   runs_safely RecordTXT_type txr_Ref txtrec_req_ea cluster_TXTRecord_Observe cluster_TXTRecord_Create cluster_TXTRecord_Update cluster_TXTRecord_Delete \<and>
   runs_safely RecordMX_type mxr_Ref mx_req_ea namespaced_MXRecord_Observe namespaced_MXRecord_Create namespaced_MXRecord_Update namespaced_MXRecord_Delete \<and>
   runs_safely RecordMX_type mxr_Ref mx_req_ea cluster_MXRecord_Observe cluster_MXRecord_Create cluster_MXRecord_Update cluster_MXRecord_Delete \<and>
   runs_safely RecordSRV_type svr_Ref srv_req_ea namespaced_SRVRecord_Observe namespaced_SRVRecord_Create namespaced_SRVRecord_Update namespaced_SRVRecord_Delete \<and>
   runs_safely RecordSRV_type svr_Ref srv_req_ea cluster_SRVRecord_Observe cluster_SRVRecord_Create cluster_SRVRecord_Update cluster_SRVRecord_Delete \<and>
   runs_safely RecordPTR_type ptr_Ref ptr_req_ea namespaced_PTRRecord_Observe namespaced_PTRRecord_Create namespaced_PTRRecord_Update namespaced_PTRRecord_Delete \<and>
   runs_safely RecordPTR_type ptr_Ref ptr_req_ea cluster_PTRRecord_Observe cluster_PTRRecord_Create cluster_PTRRecord_Update cluster_PTRRecord_Delete \<and>
   runs_safely RecordAlias_type alr_Ref aliasrec_req_ea namespaced_AliasRecord_Observe namespaced_AliasRecord_Create namespaced_AliasRecord_Update namespaced_AliasRecord_Delete \<and>
   runs_safely RecordAlias_type alr_Ref aliasrec_req_ea cluster_AliasRecord_Observe cluster_AliasRecord_Create cluster_AliasRecord_Update cluster_AliasRecord_Delete"
  by (simp only: scopes simp_thms arecord.run_safe aaaa.run_safe cname.run_safe txtrec.run_safe mx.run_safe srv.run_safe ptr.run_safe aliasrec.run_safe)

text \<open>
  C6: on a Grid that stores what it is sent and returns it until the next write, the Observe right after a
  successful Create or Update of a record reports it as existing and up to date under the
  reference the write recorded, so the controller stops writing. The spec leaves the reserved
  attribute alone; an A or AAAA spec gives its address; a PTR spec gives exactly one address, in the
  field of its family, and a name that is not the empty text, or none; the uid has no surrounding
  blanks and the recorded reference is not the resource's name.
\<close>

theorem controllers_converge:
  "write_then_observe RecordA_type ra_Ref arecord_holds ARecord_spec_ok namespaced_ARecord_Create namespaced_ARecord_Observe \<and>
   write_then_observe RecordA_type ra_Ref arecord_holds ARecord_spec_ok namespaced_ARecord_Update namespaced_ARecord_Observe \<and>
   write_then_observe RecordA_type ra_Ref arecord_holds ARecord_spec_ok cluster_ARecord_Create cluster_ARecord_Observe \<and>
   write_then_observe RecordA_type ra_Ref arecord_holds ARecord_spec_ok cluster_ARecord_Update cluster_ARecord_Observe \<and>
   write_then_observe RecordAAAA_type aar_Ref aaaa_holds AAAARecord_spec_ok namespaced_AAAARecord_Create namespaced_AAAARecord_Observe \<and>
   write_then_observe RecordAAAA_type aar_Ref aaaa_holds AAAARecord_spec_ok namespaced_AAAARecord_Update namespaced_AAAARecord_Observe \<and>
   write_then_observe RecordAAAA_type aar_Ref aaaa_holds AAAARecord_spec_ok cluster_AAAARecord_Create cluster_AAAARecord_Observe \<and>
   write_then_observe RecordAAAA_type aar_Ref aaaa_holds AAAARecord_spec_ok cluster_AAAARecord_Update cluster_AAAARecord_Observe \<and>
   write_then_observe RecordCNAME_type cnr_Ref cname_holds CNAMERecord_spec_ok namespaced_CNAMERecord_Create namespaced_CNAMERecord_Observe \<and>
   write_then_observe RecordCNAME_type cnr_Ref cname_holds CNAMERecord_spec_ok namespaced_CNAMERecord_Update namespaced_CNAMERecord_Observe \<and>
   write_then_observe RecordCNAME_type cnr_Ref cname_holds CNAMERecord_spec_ok cluster_CNAMERecord_Create cluster_CNAMERecord_Observe \<and>
   write_then_observe RecordCNAME_type cnr_Ref cname_holds CNAMERecord_spec_ok cluster_CNAMERecord_Update cluster_CNAMERecord_Observe \<and>
   write_then_observe RecordTXT_type txr_Ref txtrec_holds TXTRecord_spec_ok namespaced_TXTRecord_Create namespaced_TXTRecord_Observe \<and>
   write_then_observe RecordTXT_type txr_Ref txtrec_holds TXTRecord_spec_ok namespaced_TXTRecord_Update namespaced_TXTRecord_Observe \<and>
   write_then_observe RecordTXT_type txr_Ref txtrec_holds TXTRecord_spec_ok cluster_TXTRecord_Create cluster_TXTRecord_Observe \<and>
   write_then_observe RecordTXT_type txr_Ref txtrec_holds TXTRecord_spec_ok cluster_TXTRecord_Update cluster_TXTRecord_Observe \<and>
   write_then_observe RecordMX_type mxr_Ref mx_holds MXRecord_spec_ok namespaced_MXRecord_Create namespaced_MXRecord_Observe \<and>
   write_then_observe RecordMX_type mxr_Ref mx_holds MXRecord_spec_ok namespaced_MXRecord_Update namespaced_MXRecord_Observe \<and>
   write_then_observe RecordMX_type mxr_Ref mx_holds MXRecord_spec_ok cluster_MXRecord_Create cluster_MXRecord_Observe \<and>
   write_then_observe RecordMX_type mxr_Ref mx_holds MXRecord_spec_ok cluster_MXRecord_Update cluster_MXRecord_Observe \<and>
   write_then_observe RecordSRV_type svr_Ref srv_holds SRVRecord_spec_ok namespaced_SRVRecord_Create namespaced_SRVRecord_Observe \<and>
   write_then_observe RecordSRV_type svr_Ref srv_holds SRVRecord_spec_ok namespaced_SRVRecord_Update namespaced_SRVRecord_Observe \<and>
   write_then_observe RecordSRV_type svr_Ref srv_holds SRVRecord_spec_ok cluster_SRVRecord_Create cluster_SRVRecord_Observe \<and>
   write_then_observe RecordSRV_type svr_Ref srv_holds SRVRecord_spec_ok cluster_SRVRecord_Update cluster_SRVRecord_Observe \<and>
   write_then_observe RecordPTR_type ptr_Ref ptr_holds PTRRecord_spec_ok namespaced_PTRRecord_Create namespaced_PTRRecord_Observe \<and>
   write_then_observe RecordPTR_type ptr_Ref ptr_holds PTRRecord_spec_ok namespaced_PTRRecord_Update namespaced_PTRRecord_Observe \<and>
   write_then_observe RecordPTR_type ptr_Ref ptr_holds PTRRecord_spec_ok cluster_PTRRecord_Create cluster_PTRRecord_Observe \<and>
   write_then_observe RecordPTR_type ptr_Ref ptr_holds PTRRecord_spec_ok cluster_PTRRecord_Update cluster_PTRRecord_Observe \<and>
   write_then_observe RecordAlias_type alr_Ref aliasrec_holds AliasRecord_spec_ok namespaced_AliasRecord_Create namespaced_AliasRecord_Observe \<and>
   write_then_observe RecordAlias_type alr_Ref aliasrec_holds AliasRecord_spec_ok namespaced_AliasRecord_Update namespaced_AliasRecord_Observe \<and>
   write_then_observe RecordAlias_type alr_Ref aliasrec_holds AliasRecord_spec_ok cluster_AliasRecord_Create cluster_AliasRecord_Observe \<and>
   write_then_observe RecordAlias_type alr_Ref aliasrec_holds AliasRecord_spec_ok cluster_AliasRecord_Update cluster_AliasRecord_Observe"
  by (simp only: scopes simp_thms arecord.create_then_observe aaaa.create_then_observe cname.create_then_observe txtrec.create_then_observe mx.create_then_observe srv.create_then_observe ptr.create_then_observe aliasrec.create_then_observe arecord.update_then_observe aaaa.update_then_observe cname.update_then_observe txtrec.update_then_observe mx.update_then_observe srv.update_then_observe ptr.update_then_observe aliasrec.update_then_observe)


section \<open>Specs that never settle\<close>

text \<open>The address of a spec that leaves the choice to the Grid, and of the object it allocated.\<close>

definition a_unaddressed :: "ARecordCR \<Rightarrow> RecordA \<Rightarrow> bool" where
  "a_unaddressed cr rec \<longleftrightarrow>
     strOrEmpty (ap_IPv4Addr (ar_ForProvider cr)) = [] \<and> strOrEmpty (ra_Ipv4Addr rec) \<noteq> []"

definition aaaa_unaddressed :: "AAAARecordCR \<Rightarrow> RecordAAAA \<Rightarrow> bool" where
  "aaaa_unaddressed cr rec \<longleftrightarrow>
     strOrEmpty (aap_IPv6Addr (aa_ForProvider cr)) = [] \<and> strOrEmpty (aar_Ipv6Addr rec) \<noteq> []"

definition ptr_unaddressed :: "PTRRecordCR \<Rightarrow> RecordPTR \<Rightarrow> bool" where
  "ptr_unaddressed cr rec \<longleftrightarrow>
     strOrEmpty (ptp_IPv4Addr (pt_ForProvider cr)) = [] \<and> strOrEmpty (ptr_Ipv4Addr rec) \<noteq> [] \<or>
     strOrEmpty (ptp_IPv6Addr (pt_ForProvider cr)) = [] \<and> strOrEmpty (ptr_Ipv6Addr rec) \<noteq> []"

text \<open>A PTR spec with an address of each family, and an object with one.\<close>

definition ptr_overaddressed :: "PTRRecordCR \<Rightarrow> RecordPTR \<Rightarrow> bool" where
  "ptr_overaddressed cr rec \<longleftrightarrow>
     strOrEmpty (ptp_IPv4Addr (pt_ForProvider cr)) \<noteq> [] \<and> strOrEmpty (ptp_IPv6Addr (pt_ForProvider cr)) \<noteq> [] \<and>
     (strOrEmpty (ptr_Ipv4Addr rec) = [] \<or> strOrEmpty (ptr_Ipv6Addr rec) = [])"

text \<open>
  A record whose address the Grid chose (created by cidr, or a PTR by its reverse name) is
  observed as out of date every time: the spec has no address, the object has one, and late
  initialisation does not fill it in. Every reconcile sends another update with an empty address.
\<close>

theorem allocated_address_never_up_to_date:
  "never_up_to_date RecordA_type namespaced_ARecord_Observe a_unaddressed \<and>
   never_up_to_date RecordAAAA_type namespaced_AAAARecord_Observe aaaa_unaddressed \<and>
   never_up_to_date RecordPTR_type namespaced_PTRRecord_Observe ptr_unaddressed"
proof (intro conjI arecord.observe_never aaaa.observe_never ptr.observe_never)
  fix cr :: ARecordCR and rec
  assume "a_unaddressed cr rec"
  then show "\<not> ARecord_drift (fst (lift_late ARecord_lateInitialize ARecord_get ARecord_put cr rec)) rec"
    by (auto simp: a_unaddressed_def arecord_lens.lifted_simps ARecord_drift_def ARecord_utd_def ARecord_isUpToDate_def
        ARecord_put_def ARecord_setLate_def ARecord_latePart_def split: prod.splits)
next
  fix cr :: AAAARecordCR and rec
  assume "aaaa_unaddressed cr rec"
  then show "\<not> AAAARecord_utd (fst (lift_late AAAARecord_lateInitialize AAAARecord_get AAAARecord_put cr rec)) rec"
    by (auto simp: aaaa_unaddressed_def aaaa_late.lifted_simps AAAARecord_utd_def AAAARecord_isUpToDate_def
        AAAARecord_put_def AAAARecord_setLate_def Let_def split: prod.splits)
next
  fix cr :: PTRRecordCR and rec
  assume "ptr_unaddressed cr rec"
  then show "\<not> PTRRecord_utd (fst (lift_late PTRRecord_lateInitialize PTRRecord_get PTRRecord_put cr rec)) rec"
    by (auto simp: ptr_unaddressed_def ptr_late.lifted_simps PTRRecord_utd_def PTRRecord_isUpToDate_def
        PTRRecord_put_def PTRRecord_setLate_def Let_def split: prod.splits)
qed

text \<open>
  The CRD calls a PTRRecord's two addresses mutually exclusive, but nothing rejects a
  spec with both: the requests carry the IPv4 address only, and since a PTR object has one
  address, Observe reports it as out of date for ever.
\<close>

theorem ptr_two_addresses:
  assumes "strOrEmpty (ptp_IPv4Addr p) \<noteq> []" and "strOrEmpty (ptp_IPv6Addr p) \<noteq> []"
    and "strOrEmpty (ptp_Cidr p) = []" and "trim_space uid \<noteq> []"
  shows "validatePTRRecordCreateInputs (ptp_IPv4Addr p) (ptp_IPv6Addr p) (ptp_Cidr p) uid = None \<and>
    (\<exists>netView dnsView ptrdname name useTTL ttl comment attrs.
       ptr_create_request p uid = CreatePTRRecord netView dnsView ptrdname name [] (strOrEmpty (ptp_IPv4Addr p)) useTTL ttl comment attrs) \<and>
    never_up_to_date RecordPTR_type namespaced_PTRRecord_Observe ptr_overaddressed"
proof (intro conjI ptr.observe_never)
  fix cr :: PTRRecordCR and rec
  assume "ptr_overaddressed cr rec"
  then show "\<not> PTRRecord_utd (fst (lift_late PTRRecord_lateInitialize PTRRecord_get PTRRecord_put cr rec)) rec"
    by (auto simp: ptr_overaddressed_def ptr_late.lifted_simps PTRRecord_utd_def PTRRecord_isUpToDate_def
        PTRRecord_put_def PTRRecord_setLate_def Let_def split: prod.splits)
qed (use assms in \<open>simp_all add: validatePTRRecordCreateInputs_def ptr_create_request_def\<close>)

lemma ptr_two_addresses_witness:
  "validatePTRRecordCreateInputs (Some ''10.0.0.1'') (Some ''fd00::1'') None ''u-1'' = None"
proof -
  define p :: PTRRecordParameters where
    "p = \<lparr>ptp_Ptrdname = Some ''host.example.com'', ptp_Name = None, ptp_IPv4Addr = Some ''10.0.0.1'',
      ptp_IPv6Addr = Some ''fd00::1'', ptp_View = None, ptp_Comment = None, ptp_TTL = None, ptp_UseTTL = None,
      ptp_ExtAttrs = fmempty, ptp_Cidr = None, ptp_NetworkView = None\<rparr>"
  show ?thesis
    using ptr_two_addresses [of p "''u-1''"] by (simp add: p_def)
qed

text \<open>
  An MX preference inside 0..65535 is sent as it is; anything else is sent as 0, and the
  drift check reads it as 0 too, so the resource settles on a preference the spec does not
  ask for, without an error.
\<close>

theorem MX_preference:
  "(if 0 \<le> n \<and> n \<le> 65535 then uint (preferenceOrZero (Some n)) = n
    else mx_create_request (p\<lparr>mxp_Preference := Some n\<rparr>) uid = mx_create_request (p\<lparr>mxp_Preference := Some 0\<rparr>) uid \<and>
      mx_update_request ref (p\<lparr>mxp_Preference := Some n\<rparr>) uid = mx_update_request ref (p\<lparr>mxp_Preference := Some 0\<rparr>) uid \<and>
      MXRecord_isUpToDate name mailExchanger (Some n) comment ttl useTTL extAttrs rec =
        MXRecord_isUpToDate name mailExchanger (Some 0) comment ttl useTTL extAttrs rec)"
proof (cases "0 \<le> n \<and> n \<le> 65535")
  case True
  then show ?thesis
    by (simp add: preferenceOrZero_def uint_word_of_int take_bit_int_eq_self)
next
  case False
  then have "preferenceOrZero (Some n) = preferenceOrZero (Some 0)"
    by (auto simp: preferenceOrZero_def)
  then show ?thesis
    unfolding if_not_P [OF False]
    by (simp add: mx_create_request_def mx_update_request_def MXRecord_isUpToDate_def)
qed

section \<open>Grids to apply the theorems to\<close>

text \<open>On the Grid of theory ARecordSpec, whose only record is stamped for u-1.\<close>

lemma controllers_delete_only_owned_witness:
  "mutations (snd (namespaced_ARecord_Delete demo_env ''grid'' demo_owner init_world)) = [CDelete ''record:a/1''] \<and>
   (\<exists>rec out. fst (Resolve demo_env RecordA_type ''record:a/1'' ''u-1'' init_world) = Inr (Some rec, out) \<and>
      eaValue (ra_Ea rec) EAKey = Some ''u-1'' \<and> ra_Ref rec = ''record:a/1'')"
proof -
  have "deletes_only_owned RecordA_type ra_Ref namespaced_ARecord_Delete"
    using controllers_delete_only_owned by blast
  from this [unfolded deletes_only_owned_def, rule_format, OF demo_sound, of "''grid''" demo_owner init_world]
  show ?thesis by (auto simp: demo_deletes)
qed

lemma controllers_delete_success_witness:
  "\<exists>rec out. fst (Resolve demo_env RecordA_type ''record:a/1'' ''u-1'' init_world) = Inr (Some rec, out) \<and>
     eaValue (ra_Ea rec) EAKey = Some ''u-1''"
proof -
  have "delete_success_justified RecordA_type ra_Ref namespaced_ARecord_Delete"
    using controllers_delete_success by blast
  from this [unfolded delete_success_justified_def, rule_format, OF demo_sound, of "''grid''" demo_owner init_world]
  show ?thesis by (simp add: demo_deletes demo_resolve_ref)
qed

lemma controllers_observe_ownership_witness:
  "\<exists>obs cr' w'. namespaced_ARecord_Observe demo_env ''grid'' demo_owner init_world = (Inr obs, cr', w') \<and>
     ResourceExists obs \<and> mutations w' = []"
proof -
  have o: "observes_ownership RecordA_type namespaced_ARecord_Observe"
    using controllers_observe_ownership by blast
  obtain obs cr' w' where "namespaced_ARecord_Observe demo_env ''grid'' demo_owner init_world = (Inr obs, cr', w')"
    "ResourceExists obs"
    using demo_observes by blast
  with o [unfolded observes_ownership_def, rule_format, OF demo_sound this(1)] show ?thesis by auto
qed

lemma controllers_observe_absent_witness:
  "\<exists>h. wapi_search demo_env h ''record:a'' (uid_query ''u-2'') = Inr [] \<or>
     (\<exists>err. wapi_search demo_env h ''record:a'' (uid_query ''u-2'') = Inl err \<and> isNotFound (Some err))"
proof -
  have o: "absent_means_searched RecordA_type namespaced_ARecord_Observe"
    using controllers_observe_absent by blast
  obtain cr' w' where "namespaced_ARecord_Observe demo_env ''grid'' demo_new init_world = (Inr notExists, cr', w')"
    using demo_absent by blast
  from o [unfolded absent_means_searched_def, rule_format, OF this] show ?thesis
    by (auto simp: notExists_def)
qed

lemma controllers_create_contract_witness:
  "mutations (snd (snd (namespaced_ARecord_Create demo_env ''grid'' demo_new init_world))) =
     [CMutate (arecord_create_request (ar_ForProvider demo_new) ''u-2'')]"
proof -
  have "creates_as ARecord_valid (\<lambda>cr. arecord_create_request (ar_ForProvider cr) (mo_uid cr)) ra_Ref
      errCreateARecord namespaced_ARecord_Create"
    using controllers_create_contract by blast
  moreover have "ARecord_valid demo_new = None"
    by (simp add: ARecord_valid_def validate_None_iff) (simp add: demo_cr_def)
  ultimately show ?thesis
    by (auto simp: creates_as_def demo_ensure split_beta dest!: spec [of _ demo_env] spec [of _ "''grid''"]
        spec [of _ demo_new] spec [of _ init_world])
qed

lemma controllers_update_contract_witness:
  "mutations (snd (snd (namespaced_ARecord_Update demo_env ''grid'' demo_owner init_world))) =
     [CMutate (arecord_update_request ''record:a/1'' (ar_ForProvider demo_owner) ''u-1'')]"
proof -
  have "updates_as (\<lambda>cr. arecord_update_request (GetExternalName cr) (ar_ForProvider cr) (mo_uid cr)) ra_Ref
      namespaced_ARecord_Update"
    using controllers_update_contract by blast
  from this [unfolded updates_as_def, rule_format, OF demo_retry, where ep = "''grid''" and cr = demo_owner and w = init_world]
  show ?thesis by (simp add: split_beta demo_ensure)
qed

lemma controllers_run_safely_witness:
  "log_safe (seen_owned demo_env RecordA_type ra_Ref) arecord_req_ea (\<lambda>uid. \<exists>i :: nat. uid = ''u-1'')
     (calls (snd (namespaced_ARecord_Delete demo_env ''grid'' demo_owner init_world)))"
proof -
  have "runs_safely RecordA_type ra_Ref arecord_req_ea namespaced_ARecord_Observe namespaced_ARecord_Create
      namespaced_ARecord_Update namespaced_ARecord_Delete"
    using controllers_run_safely by blast
  moreover have "client_run namespaced_ARecord_Observe namespaced_ARecord_Create namespaced_ARecord_Update
      namespaced_ARecord_Delete demo_env ''grid'' (\<lambda>i. demo_owner) (\<lambda>i. demo_owner)
      (snd (namespaced_ARecord_Delete demo_env ''grid'' demo_owner init_world))"
    by (rule client_run.deleted [where i = 0 and crs = "\<lambda>i. demo_owner", OF client_run.start])
  ultimately show ?thesis
    using demo_sound demo_retry unfolding runs_safely_def by fastforce
qed

lemma allocated_address_never_up_to_date_witness:
  "\<exists>obs cr' w'. namespaced_ARecord_Observe demo_env ''grid'' demo_cidr_cr init_world = (Inr obs, cr', w') \<and>
     \<not> ResourceUpToDate obs"
proof -
  have n: "never_up_to_date RecordA_type namespaced_ARecord_Observe a_unaddressed"
    using allocated_address_never_up_to_date by blast
  have cr: "GetExternalName demo_cidr_cr = ''record:a/1''" "mo_uid demo_cidr_cr = ''u-1''" "mo_name demo_cidr_cr = ''a''"
    by (simp_all add: demo_cidr_cr_def demo_cr_def GetExternalName_def)
  have "a_unaddressed demo_cidr_cr demo_rec"
    by (simp add: a_unaddressed_def demo_cidr_cr_def demo_rec_def)
  with n [unfolded never_up_to_date_def, rule_format, where env = demo_env and ep = "''grid''" and cr = demo_cidr_cr
      and w = init_world and x = demo_rec and out = OutcomeResolved]
  show ?thesis by (auto simp: observeRefFor_def demo_resolve_ref cr)
qed

text \<open>A Grid with the CNAME record it was last asked to write.\<close>

fun cname_store :: "cname_req \<Rightarrow> RecordCNAME" where
  "cname_store (CreateCNAMERecord view canonical name useTTL ttl comment e) =
     \<lparr>cnr_Ref = ''record:cname/1'', cnr_Name = Some name, cnr_Canonical = Some canonical, cnr_Comment = Some comment,
      cnr_Ttl = Some ttl, cnr_UseTtl = Some useTTL, cnr_Ea = e, cnr_View = Some view, cnr_Zone = []\<rparr>"
| "cname_store (UpdateCNAMERecord ref canonical name useTTL ttl comment e) =
     \<lparr>cnr_Ref = ''record:cname/1'', cnr_Name = Some name, cnr_Canonical = Some canonical, cnr_Comment = Some comment,
      cnr_Ttl = Some ttl, cnr_UseTtl = Some useTTL, cnr_Ea = e, cnr_View = None, cnr_Zone = []\<rparr>"

definition cname_env :: "(RecordCNAME, cname_req) wapi" where
  "cname_env =
     \<lparr>wapi_get = (\<lambda>h t r. case last_written h of
        None \<Rightarrow> Inl (NotFoundError ''gone'') | Some m \<Rightarrow> Inr (cname_store m)),
      wapi_search = (\<lambda>h t q. Inr []),
      wapi_def_search = (\<lambda>h q. Inr [identityDefinition]),
      wapi_def_create = (\<lambda>h d. Inr []),
      wapi_mutate = (\<lambda>h m. Inr (cname_store m)),
      wapi_delete = (\<lambda>h r. Inr r),
      kube_patch = (\<lambda>h j. None),
      retry_on_conflict = (\<lambda>f w. f w),
      wall_clock = (\<lambda>n. 0)\<rparr>"

definition cname_cr :: CNAMERecordCR where
  "cname_cr =
     \<lparr>mo_name = ''c'', mo_namespace = [], mo_uid = ''u-1'', mo_annotations = fmempty, mo_conditions = fmempty,
      cn_ForProvider = \<lparr>cnp_Name = Some ''www.example.com'', cnp_Canonical = Some ''host.example.com'', cnp_Comment = None,
        cnp_TTL = None, cnp_UseTTL = None, cnp_ExtAttrs = fmempty, cnp_View = Some ''default''\<rparr>,
      cn_AtProvider = \<lparr>cns_ID = [], cns_Name = None, cns_Canonical = None, cns_Comment = None, cns_TTL = None,
        cns_UseTTL = None, cns_ExtAttrs = fmempty, cns_View = None, cns_Ref = None, cns_Zone = None\<rparr>\<rparr>"

lemma cname_env_echoes: "echoes cname_env RecordCNAME_type cnr_Ref cname_holds"
proof -
  have "cnr_Ref (cname_store m) \<noteq> [] \<and> cname_holds m (cname_store m)" for m
    by (cases m) simp_all
  then show ?thesis
    by (simp add: echoes_def cname_env_def)
qed

lemma controllers_converge_witness:
  "\<exists>cr1 w1 obs cr2 w2. namespaced_CNAMERecord_Create cname_env ''grid'' cname_cr init_world = (None, cr1, w1) \<and>
     namespaced_CNAMERecord_Observe cname_env ''grid'' cr1 w1 = (Inr obs, cr2, w2) \<and> ResourceUpToDate obs"
proof -
  have retry: "retry_documented cname_env"
    by (auto simp: retry_documented_def cname_env_def intro: exI [of _ 0])
  have uid: "mo_uid cname_cr = ''u-1''" "mo_name cname_cr = ''c''" "CNAMERecord_spec_ok cname_cr"
    by (simp_all add: cname_cr_def CNAMERecord_spec_ok_def reserved_free_def)
  have "fst (ensureIdentityPrerequisite cname_env ''grid'' init_world) = None"
    by (simp add: ensureIdentityPrerequisite_def Ensure_def prober_lookup_def init_world_def probe_def
      definitionExists_def def_search_def cname_env_def trim_space_visible visible_ascii_def split_beta)
  then obtain w0 where en: "ensureIdentityPrerequisite cname_env ''grid'' init_world = (None, w0)"
    by (cases "ensureIdentityPrerequisite cname_env ''grid'' init_world") auto
  have m: "wapi_mutate cname_env h r = Inr (cname_store r)" for h r
    by (simp add: cname_env_def)
  have ref: "cnr_Ref (cname_store r) = ''record:cname/1''" for r
    by (cases r) simp_all
  have c: "namespaced_CNAMERecord_Create cname_env ''grid'' cname_cr init_world =
      (None, SetExternalName ''record:cname/1'' cname_cr, snd (mutate_object cname_env (cname_create_request (cn_ForProvider cname_cr) ''u-1'') w0))"
    by (simp add: cname.create_shape ladder_create_shape_def CNAMERecord_valid_def uid en mutate_object_def m ref)
  have "write_then_observe RecordCNAME_type cnr_Ref cname_holds CNAMERecord_spec_ok
      namespaced_CNAMERecord_Create namespaced_CNAMERecord_Observe"
    using controllers_converge by blast
  from this [unfolded write_then_observe_def, rule_format, OF retry cname_env_echoes uid(3) _ c] c
  show ?thesis by (simp add: uid) blast
qed
end
