(* ===== verification/NetworkView.thy ===== *)
theory NetworkView
  imports LadderClient
begin

text \<open>
  internal/controller/networkview: the NetworkView controller, a client of the identity ladder.
  ibclient.NetworkView is the record NetworkViewObj here. is_default is reported, never compared or sent.
\<close>

section \<open>Data\<close>

text \<open>ibclient.NetworkView, as the provider requests it.\<close>

record NetworkViewObj =
  nvwr_Ref :: string
  nvwr_Name :: "string option"
  nvwr_Comment :: "string option"
  nvwr_IsDefault :: bool
  nvwr_Ea :: ea

definition emptyNetworkViewObj :: NetworkViewObj where
  "emptyNetworkViewObj = \<lparr>nvwr_Ref = [], nvwr_Name = None, nvwr_Comment = None, nvwr_IsDefault = False, nvwr_Ea
      = fmempty\<rparr>"

definition reflectNetworkViewObj :: "NetworkViewObj \<Rightarrow> goany" where
  "reflectNetworkViewObj r = PtrTo ''*ibclient.NetworkView''
     [(''Ref'', FString (nvwr_Ref r)),
      (''Name'', FOther),
      (''Comment'', FOther),
      (''IsDefault'', FOther),
      (''Ea'', FEA (nvwr_Ea r))]"

definition NetworkViewObj_type :: "NetworkViewObj objtype" where
  "NetworkViewObj_type = \<lparr>ot_name = ''networkview'', ot_empty = emptyNetworkViewObj, ot_reflect =
      reflectNetworkViewObj\<rparr>"

text \<open>The ObjectManager requests, with their arguments in call order.\<close>

datatype netview_req =
    CreateNetworkView string string ea
      \<comment> \<open>name, comment, ea\<close>
  | UpdateNetworkView string string string ea
      \<comment> \<open>ref, name, comment, ea\<close>

record NetworkViewParameters =
  nvwp_Name :: "string option"
  nvwp_Comment :: "string option"
  nvwp_ExtAttrs :: extattrs

record NetworkViewObservation =
  nvws_ID :: string
  nvws_Name :: "string option"
  nvws_Comment :: "string option"
  nvws_ExtAttrs :: extattrs
  nvws_Ref :: "string option"
  nvws_IsDefault :: "bool option"

record NetworkViewCR = mobj +
  nvw_ForProvider :: NetworkViewParameters
  nvw_AtProvider :: NetworkViewObservation

section \<open>Error messages\<close>

definition errObserveNetworkView :: string where "errObserveNetworkView = ''cannot observe NetworkView''"
definition errCreateNetworkView :: string where "errCreateNetworkView = ''cannot create NetworkView''"
definition errUpdateNetworkView :: string where "errUpdateNetworkView = ''cannot update NetworkView''"
definition errDeleteNetworkView :: string where "errDeleteNetworkView = ''cannot delete NetworkView''"
definition NetworkView_errEmptyUID :: string where
  "NetworkView_errEmptyUID = ''cannot stamp NetworkView identity: managed resource's metadata.uid is empty''"

section \<open>Field comparison and late initialisation\<close>

definition NetworkView_isUpToDate ::
  "string option \<Rightarrow> string option \<Rightarrow> extattrs \<Rightarrow> NetworkViewObj \<Rightarrow> bool" where
  "NetworkView_isUpToDate name comment extAttrs rec =
     (if strOrEmpty name \<noteq> strOrEmpty (nvwr_Name rec) then False
      else if strOrEmpty comment \<noteq> strOrEmpty (nvwr_Comment rec) then False
      else extAttrsEqual extAttrs (extAttrsFromEA (Strip (nvwr_Ea rec))))"

text \<open>The ForProvider fields lateInitialize takes pointers to.\<close>

type_synonym netview_late = "string option \<times> extattrs"

definition NetworkView_lateInitialize :: "netview_late \<Rightarrow> NetworkViewObj \<Rightarrow> netview_late \<times> bool" where
  "NetworkView_lateInitialize p rec =
     (case p of (comment, extAttrs) \<Rightarrow>
       (let (comment1, c1) = (if comment = None \<and> nvwr_Comment rec \<noteq> None \<and> nvwr_Comment rec \<noteq> Some []
                             then (nvwr_Comment rec, True) else (comment, False));
            fromRec = extAttrsFromEA (Strip (nvwr_Ea rec));
            (extAttrs1, c2) = (if extAttrs = fmempty \<and> fromRec \<noteq> fmempty
                             then (fromRec, True) else (extAttrs, c1))
        in ((comment1, extAttrs1), c2)))"

record observedNetworkView =
  nvwo_ID :: string
  nvwo_Name :: "string option"
  nvwo_Comment :: "string option"
  nvwo_ExtAttrs :: extattrs
  nvwo_Ref :: "string option"
  nvwo_IsDefault :: "bool option"

definition observeFromNetworkView :: "string \<Rightarrow> NetworkViewObj \<Rightarrow> observedNetworkView" where
  "observeFromNetworkView externalID rec =
     \<lparr>nvwo_ID = externalID,
      nvwo_Name = nvwr_Name rec,
      nvwo_Comment = ptrIfSet (nvwr_Comment rec),
      nvwo_ExtAttrs = extAttrsFromEA (nvwr_Ea rec),
      nvwo_Ref = ptrIfNonEmpty (nvwr_Ref rec),
      nvwo_IsDefault = Some (nvwr_IsDefault rec)\<rparr>"

section \<open>SDK calls\<close>

definition createNetworkView ::
  "(NetworkViewObj, netview_req) wapi \<Rightarrow> NetworkViewParameters \<Rightarrow> string \<Rightarrow>
      netview_req world \<Rightarrow> (goerr + NetworkViewObj) \<times> netview_req world" where
  "createNetworkView env p uid w =
     (if trim_space uid = [] then (Inl (TextError NetworkView_errEmptyUID), w)
      else
        (let e = Stamp (buildEA (nvwp_ExtAttrs p)) uid
         in mutate_object env
              (CreateNetworkView (strOrEmpty (nvwp_Name p)) (strOrEmpty (nvwp_Comment p)) e) w))"

definition updateNetworkView ::
  "(NetworkViewObj, netview_req) wapi \<Rightarrow> string \<Rightarrow> NetworkViewParameters \<Rightarrow> string
      \<Rightarrow> netview_req world \<Rightarrow> (goerr + NetworkViewObj) \<times> netview_req world" where
  "updateNetworkView env ref p uid w =
     (if trim_space uid = [] then (Inl (TextError NetworkView_errEmptyUID), w)
      else
        (let e = Stamp (buildEA (nvwp_ExtAttrs p)) uid
         in mutate_object env
              (UpdateNetworkView ref (strOrEmpty (nvwp_Name p)) (strOrEmpty (nvwp_Comment p)) e) w))"

definition deleteNetworkView :: "(NetworkViewObj, netview_req) wapi \<Rightarrow> string \<Rightarrow> netview_req
    world \<Rightarrow> goerr option \<times> netview_req world" where
  "deleteNetworkView env ref w =
     (case delete_object env ref w of
        (Inl err, w1) \<Rightarrow> (Some err, w1)
      | (Inr _, w1) \<Rightarrow> (None, w1))"

section \<open>Identity resolution\<close>

definition resolveNetworkViewIdentity ::
  "(NetworkViewObj, netview_req) wapi \<Rightarrow> string \<Rightarrow> string \<Rightarrow> netview_req world
      \<Rightarrow> (goerr + NetworkViewObj option \<times> Outcome) \<times> netview_req world" where
  "resolveNetworkViewIdentity env ref uid w = Resolve env NetworkViewObj_type ref uid w"

type_synonym NetworkView_observeResult = "(NetworkViewObj, observedNetworkView) observeResult"

definition NetworkView_notFoundResult :: NetworkView_observeResult where
  "NetworkView_notFoundResult =
     \<lparr>ores_exists = False, ores_rec = emptyNetworkViewObj, ores_obs = observeFromNetworkView []
         emptyNetworkViewObj,
      ores_lateInit = False, ores_refreshedRef = [], ores_adopted = False\<rparr>"

definition observeNetworkView ::
  "(NetworkViewObj, netview_req) wapi \<Rightarrow> string \<Rightarrow> string \<Rightarrow> string \<Rightarrow> string \<Rightarrow> netview_late \<Rightarrow> netview_req world \<Rightarrow>
     (goerr + NetworkView_observeResult) \<times> netview_late \<times> netview_req world" where
  "observeNetworkView env endpoint crName externalName uid p w =
     (let ref = observeRefFor crName externalName in
      case resolveNetworkViewIdentity env ref uid w of
        (Inl err, w1) \<Rightarrow>
          if IsSearchFailure err then
            (case ensureIdentityPrerequisite env endpoint w1 of
               (Some prereqErr, w2) \<Rightarrow> (Inl prereqErr, p, w2)
             | (None, w2) \<Rightarrow> (Inl err, p, w2))
          else (Inl err, p, w1)
      | (Inr (obj, outcome), w1) \<Rightarrow>
          if outcome = OutcomeNotFound then (Inr NetworkView_notFoundResult, p, w1)
          else
            (case obj of
               None \<Rightarrow> (Inl (TextError nilDereference), p, w1)
             | Some rec \<Rightarrow>
                 (case NetworkView_lateInitialize p rec of (p1, changed) \<Rightarrow>
                    (let found = (outcome = OutcomeRotated \<or> outcome = OutcomeFoundByUID)
                     in (Inr \<lparr>ores_exists = True, ores_rec = rec,
                              ores_obs = observeFromNetworkView (nvwr_Ref rec) rec,
                              ores_lateInit = (if found then True else changed),
                              ores_refreshedRef = (if found then nvwr_Ref rec else []),
                              ores_adopted = (outcome = OutcomeAdopted)\<rparr>, p1, w1)))))"

definition deleteNetworkViewIdentity ::
  "(NetworkViewObj, netview_req) wapi \<Rightarrow> string \<Rightarrow> string \<Rightarrow> string \<Rightarrow>
      netview_req world \<Rightarrow> goerr option \<times> netview_req world" where
  "deleteNetworkViewIdentity env endpoint ref uid w =
     (case resolveNetworkViewIdentity env ref uid w of
        (Inl err, w1) \<Rightarrow>
          if IsSearchFailure err then
            (case ensureIdentityPrerequisite env endpoint w1 of
               (Some prereqErr, w2) \<Rightarrow> (Some prereqErr, w2)
             | (None, w2) \<Rightarrow> (Some (Wrapped errDeleteNetworkView err), w2))
          else (Some (Wrapped errDeleteNetworkView err), w1)
      | (Inr (obj, outcome), w1) \<Rightarrow>
          (case outcome of
             OutcomeNotFound \<Rightarrow> (None, w1)
           | OutcomeAdopted \<Rightarrow> (Some (TextError errDeleteUnverifiedOwnership), w1)
           | _ \<Rightarrow>
               (case obj of
                  None \<Rightarrow> (Some (TextError nilDereference), w1)
                | Some rec \<Rightarrow>
                    (case deleteNetworkView env (nvwr_Ref rec) w1 of
                       (None, w2) \<Rightarrow> (None, w2)
                     | (Some delErr, w2) \<Rightarrow>
                         if isNotFound (Some delErr) then (None, w2)
                         else (Some (Wrapped errDeleteNetworkView delErr), w2)))))"

section \<open>The external clients\<close>

text \<open>The pointers to spec fields Observe hands over, and their write-back.\<close>

definition NetworkView_latePart :: "NetworkViewParameters \<Rightarrow> netview_late" where
  "NetworkView_latePart p = (nvwp_Comment p, nvwp_ExtAttrs p)"

definition NetworkView_setLate :: "NetworkViewParameters \<Rightarrow> netview_late \<Rightarrow> NetworkViewParameters" where
  "NetworkView_setLate p l = (case l of (comment, extAttrs) \<Rightarrow>
     p\<lparr>nvwp_Comment := comment, nvwp_ExtAttrs := extAttrs\<rparr>)"

subsection \<open>namespaced.go\<close>

definition namespaced_NetworkView_Observe ::
  "(NetworkViewObj, netview_req) wapi \<Rightarrow> string \<Rightarrow> NetworkViewCR \<Rightarrow> netview_req world
      \<Rightarrow> (goerr + ExternalObservation) \<times> NetworkViewCR \<times> netview_req world" where
  "namespaced_NetworkView_Observe env endpoint cr w =
     (case observeNetworkView env endpoint (mo_name cr) (GetExternalName cr) (mo_uid cr)
             (NetworkView_latePart (nvw_ForProvider cr)) w of
        (Inl err, l, w1) \<Rightarrow>
          (let cr1 = cr\<lparr>nvw_ForProvider := NetworkView_setLate (nvw_ForProvider cr) l\<rparr> in
           if errors_as is_PrerequisiteError err then (Inl err, cr1, w1)
           else (Inl (Wrapped errObserveNetworkView err), cr1, w1))
      | (Inr res, l, w1) \<Rightarrow>
          (let p = NetworkView_setLate (nvw_ForProvider cr) l;
               cr1 = cr\<lparr>nvw_ForProvider := p\<rparr> in
           if \<not> ores_exists res then (Inr notExists, cr1, w1)
           else
             (let o1 = ores_obs res;
                  cr2 = cr1\<lparr>nvw_AtProvider :=
                    \<lparr>nvws_ID = nvwo_ID o1, nvws_Name = nvwo_Name o1, nvws_Comment = nvwo_Comment o1,
                     nvws_ExtAttrs = nvwo_ExtAttrs o1, nvws_Ref = nvwo_Ref o1, nvws_IsDefault =
                     nvwo_IsDefault o1\<rparr>\<rparr>;
                  cr3 = (if ores_refreshedRef res \<noteq> [] then SetExternalName (ores_refreshedRef res) cr2 else cr2);
                  cr4 = SetAvailable cr3;
                  upToDate = (NetworkView_isUpToDate (nvwp_Name p) (nvwp_Comment p) (nvwp_ExtAttrs p) (ores_rec res)
                                \<and> \<not> ores_adopted res)
              in (Inr \<lparr>ResourceExists = True, ResourceUpToDate = upToDate,
                       ResourceLateInitialized = ores_lateInit res\<rparr>, cr4, w1))))"

definition namespaced_NetworkView_Create ::
  "(NetworkViewObj, netview_req) wapi \<Rightarrow> string \<Rightarrow> NetworkViewCR \<Rightarrow> netview_req world
      \<Rightarrow> goerr option \<times> NetworkViewCR \<times> netview_req world" where
  "namespaced_NetworkView_Create env endpoint cr w =
     (let p = nvw_ForProvider cr; uid = mo_uid cr in
      if trim_space uid = [] then (Some (TextError NetworkView_errEmptyUID), cr, w)
      else
          (case ensureIdentityPrerequisite env endpoint w of
             (Some err, w1) \<Rightarrow> (Some err, cr, w1)
           | (None, w1) \<Rightarrow>
               (case createNetworkView env p uid w1 of
                  (Inl err, w2) \<Rightarrow> (Some (Wrapped errCreateNetworkView err), cr, w2)
                | (Inr rec, w2) \<Rightarrow> (None, SetExternalName (nvwr_Ref rec) cr, w2))))"

definition namespaced_NetworkView_Update ::
  "(NetworkViewObj, netview_req) wapi \<Rightarrow> string \<Rightarrow> NetworkViewCR \<Rightarrow> netview_req world
      \<Rightarrow> goerr option \<times> NetworkViewCR \<times> netview_req world" where
  "namespaced_NetworkView_Update env endpoint cr w =
     (let p = nvw_ForProvider cr; externalID = GetExternalName cr in
      case ensureIdentityPrerequisite env endpoint w of
        (Some err, w1) \<Rightarrow> (Some err, cr, w1)
      | (None, w1) \<Rightarrow>
          (case updateNetworkView env externalID p (mo_uid cr) w1 of
             (Inl err, w2) \<Rightarrow> (Some (Wrapped errUpdateNetworkView err), cr, w2)
           | (Inr rec, w2) \<Rightarrow>
               if nvwr_Ref rec \<noteq> [] \<and> nvwr_Ref rec \<noteq> externalID then
                 (case Refresh env cr (nvwr_Ref rec) w2 of
                    (Some err, cr1, w3) \<Rightarrow> (Some (Wrapped errPersistExternalName err), cr1, w3)
                  | (None, cr1, w3) \<Rightarrow> (None, cr1, w3))
               else (None, cr, w2)))"

definition namespaced_NetworkView_Delete ::
  "(NetworkViewObj, netview_req) wapi \<Rightarrow> string \<Rightarrow> NetworkViewCR \<Rightarrow> netview_req world
      \<Rightarrow> goerr option \<times> netview_req world" where
  "namespaced_NetworkView_Delete env endpoint cr w =
     (let externalID = GetExternalName cr in
      case deleteNetworkViewIdentity env endpoint externalID (mo_uid cr) w of
        (Some err, w1) \<Rightarrow> (Some err, w1)
      | (None, w1) \<Rightarrow> (None, w1))"

subsection \<open>cluster.go\<close>

definition cluster_NetworkView_Observe ::
  "(NetworkViewObj, netview_req) wapi \<Rightarrow> string \<Rightarrow> NetworkViewCR \<Rightarrow> netview_req world
      \<Rightarrow> (goerr + ExternalObservation) \<times> NetworkViewCR \<times> netview_req world" where
  "cluster_NetworkView_Observe env endpoint cr w =
     (case observeNetworkView env endpoint (mo_name cr) (GetExternalName cr) (mo_uid cr)
             (NetworkView_latePart (nvw_ForProvider cr)) w of
        (Inl err, l, w1) \<Rightarrow>
          (let cr1 = cr\<lparr>nvw_ForProvider := NetworkView_setLate (nvw_ForProvider cr) l\<rparr> in
           if errors_as is_PrerequisiteError err then (Inl err, cr1, w1)
           else (Inl (Wrapped errObserveNetworkView err), cr1, w1))
      | (Inr res, l, w1) \<Rightarrow>
          (let p = NetworkView_setLate (nvw_ForProvider cr) l;
               cr1 = cr\<lparr>nvw_ForProvider := p\<rparr> in
           if \<not> ores_exists res then (Inr notExists, cr1, w1)
           else
             (let o1 = ores_obs res;
                  cr2 = cr1\<lparr>nvw_AtProvider :=
                    \<lparr>nvws_ID = nvwo_ID o1, nvws_Name = nvwo_Name o1, nvws_Comment = nvwo_Comment o1,
                     nvws_ExtAttrs = nvwo_ExtAttrs o1, nvws_Ref = nvwo_Ref o1, nvws_IsDefault =
                     nvwo_IsDefault o1\<rparr>\<rparr>;
                  cr3 = (if ores_refreshedRef res \<noteq> [] then SetExternalName (ores_refreshedRef res) cr2 else cr2);
                  cr4 = SetAvailable cr3;
                  upToDate = (NetworkView_isUpToDate (nvwp_Name p) (nvwp_Comment p) (nvwp_ExtAttrs p) (ores_rec res)
                                \<and> \<not> ores_adopted res)
              in (Inr \<lparr>ResourceExists = True, ResourceUpToDate = upToDate,
                       ResourceLateInitialized = ores_lateInit res\<rparr>, cr4, w1))))"

definition cluster_NetworkView_Create ::
  "(NetworkViewObj, netview_req) wapi \<Rightarrow> string \<Rightarrow> NetworkViewCR \<Rightarrow> netview_req world
      \<Rightarrow> goerr option \<times> NetworkViewCR \<times> netview_req world" where
  "cluster_NetworkView_Create env endpoint cr w =
     (let p = nvw_ForProvider cr; uid = mo_uid cr in
      if trim_space uid = [] then (Some (TextError NetworkView_errEmptyUID), cr, w)
      else
          (case ensureIdentityPrerequisite env endpoint w of
             (Some err, w1) \<Rightarrow> (Some err, cr, w1)
           | (None, w1) \<Rightarrow>
               (case createNetworkView env p uid w1 of
                  (Inl err, w2) \<Rightarrow> (Some (Wrapped errCreateNetworkView err), cr, w2)
                | (Inr rec, w2) \<Rightarrow> (None, SetExternalName (nvwr_Ref rec) cr, w2))))"

definition cluster_NetworkView_Update ::
  "(NetworkViewObj, netview_req) wapi \<Rightarrow> string \<Rightarrow> NetworkViewCR \<Rightarrow> netview_req world
      \<Rightarrow> goerr option \<times> NetworkViewCR \<times> netview_req world" where
  "cluster_NetworkView_Update env endpoint cr w =
     (let p = nvw_ForProvider cr; externalID = GetExternalName cr in
      case ensureIdentityPrerequisite env endpoint w of
        (Some err, w1) \<Rightarrow> (Some err, cr, w1)
      | (None, w1) \<Rightarrow>
          (case updateNetworkView env externalID p (mo_uid cr) w1 of
             (Inl err, w2) \<Rightarrow> (Some (Wrapped errUpdateNetworkView err), cr, w2)
           | (Inr rec, w2) \<Rightarrow>
               if nvwr_Ref rec \<noteq> [] \<and> nvwr_Ref rec \<noteq> externalID then
                 (case Refresh env cr (nvwr_Ref rec) w2 of
                    (Some err, cr1, w3) \<Rightarrow> (Some (Wrapped errPersistExternalName err), cr1, w3)
                  | (None, cr1, w3) \<Rightarrow> (None, cr1, w3))
               else (None, cr, w2)))"

definition cluster_NetworkView_Delete ::
  "(NetworkViewObj, netview_req) wapi \<Rightarrow> string \<Rightarrow> NetworkViewCR \<Rightarrow> netview_req world
      \<Rightarrow> goerr option \<times> netview_req world" where
  "cluster_NetworkView_Delete env endpoint cr w =
     (let externalID = GetExternalName cr in
      case deleteNetworkViewIdentity env endpoint externalID (mo_uid cr) w of
        (Some err, w1) \<Rightarrow> (Some err, w1)
      | (None, w1) \<Rightarrow> (None, w1))"

section \<open>The contract of the ladder client\<close>

text \<open>The requests of a spec, what a Grid object holds of a request, and the drift check of a resource.\<close>

definition netview_create_request :: "NetworkViewParameters \<Rightarrow> string \<Rightarrow> netview_req" where
  "netview_create_request p uid = CreateNetworkView
     (strOrEmpty (nvwp_Name p)) (strOrEmpty (nvwp_Comment p)) (Stamp (buildEA (nvwp_ExtAttrs p)) uid)"

definition netview_update_request :: "string \<Rightarrow> NetworkViewParameters \<Rightarrow> string \<Rightarrow> netview_req" where
  "netview_update_request ref p uid = UpdateNetworkView ref
     (strOrEmpty (nvwp_Name p)) (strOrEmpty (nvwp_Comment p)) (Stamp (buildEA (nvwp_ExtAttrs p)) uid)"

fun netview_req_ea :: "netview_req \<Rightarrow> ea" where
  "netview_req_ea (CreateNetworkView name comment ea) = ea"
| "netview_req_ea (UpdateNetworkView ref name comment ea) = ea"

fun netview_holds :: "netview_req \<Rightarrow> NetworkViewObj \<Rightarrow> bool" where
  "netview_holds (CreateNetworkView name comment ea) rec \<longleftrightarrow>
     strOrEmpty (nvwr_Name rec) = name \<and>
     strOrEmpty (nvwr_Comment rec) = comment \<and>
     nvwr_Ea rec = ea"
| "netview_holds (UpdateNetworkView ref name comment ea) rec \<longleftrightarrow>
     strOrEmpty (nvwr_Name rec) = name \<and>
     strOrEmpty (nvwr_Comment rec) = comment \<and>
     nvwr_Ea rec = ea"

definition NetworkView_utd :: "NetworkViewCR \<Rightarrow> NetworkViewObj \<Rightarrow> bool" where
  "NetworkView_utd cr rec = (let p = nvw_ForProvider cr in
     NetworkView_isUpToDate (nvwp_Name p) (nvwp_Comment p) (nvwp_ExtAttrs p) rec)"

definition NetworkView_spec_ok :: "NetworkViewCR \<Rightarrow> bool" where
  "NetworkView_spec_ok cr \<longleftrightarrow> (let p = nvw_ForProvider cr in reserved_free (nvwp_ExtAttrs p))"

definition NetworkView_keeps :: "netview_late \<Rightarrow> netview_late \<Rightarrow> bool" where
  "NetworkView_keeps l l' = (case (l, l') of ((comment, extAttrs), (comment', extAttrs')) \<Rightarrow>
     keeps_set comment comment' \<and> keeps_attrs extAttrs extAttrs')"

definition NetworkView_get :: "NetworkViewCR \<Rightarrow> netview_late" where
  "NetworkView_get cr = NetworkView_latePart (nvw_ForProvider cr)"

definition NetworkView_put :: "NetworkViewCR \<Rightarrow> netview_late \<Rightarrow> NetworkViewCR" where
  "NetworkView_put cr l = cr\<lparr>nvw_ForProvider := NetworkView_setLate (nvw_ForProvider cr) l\<rparr>"

definition NetworkView_status :: "NetworkViewObj \<Rightarrow> NetworkViewCR \<Rightarrow> NetworkViewCR" where
  "NetworkView_status rec cr =
     (let o1 = observeFromNetworkView (nvwr_Ref rec) rec; p = nvw_ForProvider cr in
      cr\<lparr>nvw_AtProvider :=
        \<lparr>nvws_ID = nvwo_ID o1, nvws_Name = nvwo_Name o1, nvws_Comment = nvwo_Comment o1,
        nvws_ExtAttrs = nvwo_ExtAttrs o1, nvws_Ref = nvwo_Ref o1, nvws_IsDefault = nvwo_IsDefault o1\<rparr>\<rparr>)"

definition NetworkView_valid :: "NetworkViewCR \<Rightarrow> goerr option" where
  "NetworkView_valid cr = (let p = nvw_ForProvider cr; uid = mo_uid cr in if trim_space uid = [] then Some (TextError NetworkView_errEmptyUID) else None)"

lemma NetworkView_lateInitialize_eq:
  "NetworkView_lateInitialize (comment, extAttrs) rec =
     (let comment1 = fill comment (ptrIfSet (nvwr_Comment rec));
          extAttrs1 = fill_map extAttrs (userAttrs (nvwr_Ea rec))
      in ((comment1, extAttrs1), (comment1, extAttrs1) \<noteq> (comment, extAttrs)))"
  by (simp only: NetworkView_lateInitialize_def userAttrs_def [symmetric] Let_def case_prod_conv fill_steps
      prod.inject fill_changed ptrIfSet_set simp_thms de_Morgan_conj disj_ac)

interpretation netview_late: late_lens NetworkView_lateInitialize NetworkView_keeps NetworkView_get NetworkView_put NetworkView_utd
proof
  fix l l' :: netview_late and rec :: NetworkViewObj and cr :: NetworkViewCR
  obtain comment extAttrs where l: "l = (comment, extAttrs)" by (cases l) auto
  show "NetworkView_lateInitialize (fst (NetworkView_lateInitialize l rec)) rec = (fst (NetworkView_lateInitialize l
      rec), False)"
    by (simp add: l NetworkView_lateInitialize_eq Let_def)
  show "snd (NetworkView_lateInitialize l rec) \<longleftrightarrow> fst (NetworkView_lateInitialize l rec) \<noteq> l"
    by (simp add: l NetworkView_lateInitialize_eq Let_def)
  show "NetworkView_keeps l (fst (NetworkView_lateInitialize l rec))"
    by (simp add: l NetworkView_lateInitialize_eq Let_def NetworkView_keeps_def keeps_fill)
  show "NetworkView_get (NetworkView_put cr l) = l"
    by (simp add: l NetworkView_get_def NetworkView_put_def NetworkView_latePart_def NetworkView_setLate_def)
  show "NetworkView_put cr (NetworkView_get cr) = cr"
    by (simp add: NetworkView_get_def NetworkView_put_def NetworkView_latePart_def NetworkView_setLate_def)
  show "NetworkView_put (NetworkView_put cr l) l' = NetworkView_put cr l'"
    by (simp add: NetworkView_put_def NetworkView_setLate_def split: prod.split)
  show "NetworkView_utd (NetworkView_put cr (fst (NetworkView_lateInitialize (NetworkView_get cr) rec))) rec" if "NetworkView_utd cr rec"
    using that
    by (auto simp: NetworkView_get_def NetworkView_put_def NetworkView_latePart_def NetworkView_setLate_def NetworkView_lateInitialize_eq Let_def
        NetworkView_utd_def NetworkView_isUpToDate_def extAttrsEqual_iff simp flip: userAttrs_def split: if_splits)
qed

lemma NetworkViewObj_type_simps [simp]:
  "ot_name NetworkViewObj_type = ''networkview''" "ref_ea_shape NetworkViewObj_type"
  "stamped NetworkViewObj_type rec = eaValue (nvwr_Ea rec) EAKey"
  by (simp_all add: ref_ea_shape_def stamped_def NetworkViewObj_type_def reflectNetworkViewObj_def getRef_def getEA_def)

lemma deleteNetworkView_issue: "deleteNetworkView env = issue_delete env"
  by (intro ext) (simp only: deleteNetworkView_def issue_delete_def)

lemma createNetworkView_valid:
  assumes "NetworkView_valid cr = None"
  shows "createNetworkView env (nvw_ForProvider cr) (mo_uid cr) w = mutate_object env (netview_create_request
      (nvw_ForProvider cr) (mo_uid cr)) w"
  using assms
  by (auto simp: createNetworkView_def netview_create_request_def NetworkView_valid_def Let_def split: if_splits option.splits)


lemma NetworkView_Observe_shape:
  "namespaced_NetworkView_Observe env ep cr w =
     ladder_observe_shape (ladder_observe_error errObserveNetworkView) (Resolve env NetworkViewObj_type)
         (ensureIdentityPrerequisite env ep)
       (\<lambda>r. r \<noteq> []) (\<lambda>r. True) (lift_late NetworkView_lateInitialize NetworkView_get
           NetworkView_put) NetworkView_status NetworkView_utd nvwr_Ref cr w"
proof -
  have same: "cr\<lparr>nvw_ForProvider := NetworkView_setLate (nvw_ForProvider cr) (NetworkView_latePart
      (nvw_ForProvider cr))\<rparr> = cr"
    by (simp add: NetworkView_latePart_def NetworkView_setLate_def)
  obtain r w1 where r: "Resolve env NetworkViewObj_type (observeRefFor (mo_name cr) (GetExternalName cr)) (mo_uid cr)
      w = (r, w1)"
    by (cases "Resolve env NetworkViewObj_type (observeRefFor (mo_name cr) (GetExternalName cr)) (mo_uid cr) w")
  obtain e w2 where e: "ensureIdentityPrerequisite env ep w1 = (e, w2)"
    by (cases "ensureIdentityPrerequisite env ep w1")
  note defs = namespaced_NetworkView_Observe_def observeNetworkView_def resolveNetworkViewIdentity_def ladder_observe_shape_def ladder_observe_error_def
  show ?thesis
  proof (cases r)
    case (Inl err)
    then show ?thesis
      by (cases e) (simp_all add: defs Let_def r e same)
  next
    case (Inr a)
    obtain obj out where a: "a = (obj, out)" by (cases a)
    show ?thesis
    proof (cases obj)
      case None
      then show ?thesis
        by (simp add: defs Let_def r Inr a same NetworkView_notFoundResult_def)
    next
      case (Some rec)
      obtain l c where "NetworkView_lateInitialize (NetworkView_latePart (nvw_ForProvider cr)) rec = (l, c)"
        by (cases "NetworkView_lateInitialize (NetworkView_latePart (nvw_ForProvider cr)) rec")
      with Some show ?thesis
        by (simp add: defs Let_def r Inr a same lift_late_def NetworkView_get_def NetworkView_put_def
            NetworkView_status_def NetworkView_utd_def NetworkView_notFoundResult_def observeFromNetworkView_def)
    qed
  qed
qed

lemma NetworkView_Create_shape:
  "namespaced_NetworkView_Create env ep cr w =
     ladder_create_shape errCreateNetworkView NetworkView_valid (ensureIdentityPrerequisite env ep) (mutate_object env)
       (\<lambda>cr. netview_create_request (nvw_ForProvider cr) (mo_uid cr)) nvwr_Ref cr w"
proof -
  obtain e w1 where e: "ensureIdentityPrerequisite env ep w = (e, w1)"
    by (cases "ensureIdentityPrerequisite env ep w")
  have v: "(let p = nvw_ForProvider cr; uid = mo_uid cr in if trim_space uid = [] then Some (TextError NetworkView_errEmptyUID) else None) = NetworkView_valid cr"
    by (simp only: NetworkView_valid_def)
  show ?thesis
  proof (cases "NetworkView_valid cr")
    case None
    then show ?thesis
      using createNetworkView_valid [OF None, of env w1] v
      by (cases e) (simp_all add: namespaced_NetworkView_Create_def ladder_create_shape_def Let_def e split: if_splits)
  next
    case (Some err)
    then show ?thesis
      using v by (simp add: namespaced_NetworkView_Create_def ladder_create_shape_def Let_def split: if_splits)
  qed
qed

lemma NetworkView_Update_shape:
  "namespaced_NetworkView_Update env ep cr w =
     ladder_update_shape errUpdateNetworkView NetworkView_errEmptyUID env (ensureIdentityPrerequisite env ep)
       (\<lambda>cr. netview_update_request (GetExternalName cr) (nvw_ForProvider cr) (mo_uid cr)) nvwr_Ref cr w"
proof -
  obtain e w1 where e: "ensureIdentityPrerequisite env ep w = (e, w1)"
    by (cases "ensureIdentityPrerequisite env ep w")
  show ?thesis
    by (cases e; cases "wapi_mutate env (calls w1) (netview_update_request (GetExternalName cr) (nvw_ForProvider cr)
        (mo_uid cr))")
      (auto simp: namespaced_NetworkView_Update_def ladder_update_shape_def updateNetworkView_def netview_update_request_def
        Let_def e mutate_object_def)
qed

lemma NetworkView_Delete_shape:
  "namespaced_NetworkView_Delete env ep cr w =
     ladder_delete_shape errDeleteNetworkView errDeleteUnverifiedOwnership nilDereference
       (Resolve env NetworkViewObj_type (GetExternalName cr) (mo_uid cr)) (ensureIdentityPrerequisite env ep)
       (issue_delete env) nvwr_Ref w"
proof -
  have "namespaced_NetworkView_Delete env ep cr w = deleteNetworkViewIdentity env ep (GetExternalName cr) (mo_uid cr) w"
    by (simp add: namespaced_NetworkView_Delete_def Let_def split: prod.split option.split)
  then show ?thesis
    by (simp only: deleteNetworkViewIdentity_def ladder_delete_shape_def resolveNetworkViewIdentity_def deleteNetworkView_issue)
qed

lemma NetworkView_scopes:
  "cluster_NetworkView_Observe = namespaced_NetworkView_Observe" "cluster_NetworkView_Create = namespaced_NetworkView_Create"
  "cluster_NetworkView_Update = namespaced_NetworkView_Update" "cluster_NetworkView_Delete = namespaced_NetworkView_Delete"
  by (intro ext, simp only: cluster_NetworkView_Observe_def namespaced_NetworkView_Observe_def
      cluster_NetworkView_Create_def
      namespaced_NetworkView_Create_def cluster_NetworkView_Update_def namespaced_NetworkView_Update_def
      cluster_NetworkView_Delete_def namespaced_NetworkView_Delete_def)+

lemma netview_written_utd:
  assumes "NetworkView_spec_ok cr"
    and "netview_holds (netview_create_request (nvw_ForProvider cr) (mo_uid cr)) rec \<and> NetworkView_valid cr = None \<or>
      netview_holds (netview_update_request (GetExternalName cr) (nvw_ForProvider cr) (mo_uid cr)) rec"
  shows "NetworkView_utd (fst (lift_late NetworkView_lateInitialize NetworkView_get NetworkView_put cr rec)) rec \<and>
    eaValue (nvwr_Ea rec) EAKey = Some (mo_uid cr)"
proof -
  note reqs = netview_create_request_def netview_update_request_def
  have ok: "reserved_free (nvwp_ExtAttrs (nvw_ForProvider cr))"
    using assms(1) by (simp_all add: NetworkView_spec_ok_def Let_def)
  have ea: "nvwr_Ea rec = Stamp (buildEA (nvwp_ExtAttrs (nvw_ForProvider cr))) (mo_uid cr)"
    using assms(2) by (elim disjE) (simp_all add: reqs)
  have fields: 
    "strOrEmpty (nvwp_Name (nvw_ForProvider cr)) = strOrEmpty (nvwr_Name rec)" 
    "strOrEmpty (nvwp_Comment (nvw_ForProvider cr)) = strOrEmpty (nvwr_Comment rec)"
    using assms(2) ok by (elim disjE; simp add: reqs)+
  have "userAttrs (nvwr_Ea rec) = nvwp_ExtAttrs (nvw_ForProvider cr)"
    using ok(1) by (simp add: ea userAttrs_buildEA reserved_free_fmdrop)
  then have "NetworkView_utd cr rec"
    using fields
    by (simp add: NetworkView_utd_def NetworkView_isUpToDate_def Let_def extAttrsEqual_iff flip: userAttrs_def)
  with ea show ?thesis using netview_late.late_utd by simp
qed

interpretation netview: refreshing_client "lift_late NetworkView_lateInitialize NetworkView_get NetworkView_put" NetworkView_utd
  "\<lambda>s s'. NetworkView_keeps (NetworkView_get s) (NetworkView_get s')"
  NetworkViewObj_type nvwr_Ref NetworkView_status NetworkView_valid
  "\<lambda>cr. netview_create_request (nvw_ForProvider cr) (mo_uid cr)"
  "\<lambda>cr. netview_update_request (GetExternalName cr) (nvw_ForProvider cr) (mo_uid cr)"
  netview_req_ea netview_holds NetworkView_spec_ok
  "ladder_observe_error errObserveNetworkView" "\<lambda>r. r \<noteq> []" "\<lambda>r. True" nvwr_Ref errCreateNetworkView errUpdateNetworkView errDeleteNetworkView NetworkView_errEmptyUID
  namespaced_NetworkView_Observe namespaced_NetworkView_Create namespaced_NetworkView_Update namespaced_NetworkView_Delete
proof (unfold_locales, goal_cases)
  case (6 cr)
  then show ?case by (auto simp: NetworkView_valid_def Let_def split: if_splits)
next
  case (13 n cr rec)
  have "NetworkView_get (SetExternalName n cr) = NetworkView_get cr"
    "NetworkView_put (SetExternalName n cr) l = SetExternalName n (NetworkView_put cr l)" for l
    by (simp_all add: NetworkView_get_def NetworkView_put_def SetExternalName_def)
  then show ?case
    by (simp add: netview_late.lifted_simps NetworkView_utd_def SetExternalName_def)
next
  case (14 cr rec)
  then show ?case using netview_written_utd [of cr rec] by simp
next
  case (15 cr rec)
  then show ?case using netview_written_utd [of cr rec] by simp
qed (simp_all add: NetworkView_Observe_shape NetworkView_Create_shape NetworkView_Update_shape NetworkView_Delete_shape
    netview_late.lifted_simps NetworkView_put_def NetworkView_status_def Let_def
    netview_create_request_def netview_update_request_def)

end
