(* ===== verification/Range.thy ===== *)
theory Range
  imports LadderClient
begin

text \<open>
  internal/controller/range: the Range controller (DHCP ranges), a client of the identity ladder.
  ibclient.Range is the record RangeObj here. The template goes into the create request only.
\<close>

section \<open>Data\<close>

text \<open>ibclient.Range, as the provider requests it.\<close>

record RangeObj =
  rgr_Ref :: string
  rgr_StartAddr :: "string option"
  rgr_EndAddr :: "string option"
  rgr_NetworkView :: "string option"
  rgr_Network :: "string option"
  rgr_Comment :: "string option"
  rgr_Ea :: ea

definition emptyRangeObj :: RangeObj where
  "emptyRangeObj = \<lparr>rgr_Ref = [], rgr_StartAddr = None, rgr_EndAddr = None, rgr_NetworkView = None, rgr_Network
      = None, rgr_Comment = None, rgr_Ea = fmempty\<rparr>"

definition reflectRangeObj :: "RangeObj \<Rightarrow> goany" where
  "reflectRangeObj r = PtrTo ''*ibclient.Range''
     [(''Ref'', FString (rgr_Ref r)),
      (''StartAddr'', FOther),
      (''EndAddr'', FOther),
      (''NetworkView'', FOther),
      (''Network'', FOther),
      (''Comment'', FOther),
      (''Ea'', FEA (rgr_Ea r))]"

definition RangeObj_type :: "RangeObj objtype" where
  "RangeObj_type = \<lparr>ot_name = ''range'', ot_empty = emptyRangeObj, ot_reflect = reflectRangeObj\<rparr>"

text \<open>The ObjectManager requests, with their arguments in call order, less the nil ones (member, options).\<close>

datatype range_req =
    CreateNetworkRange string string string string string string bool ea string bool string string string
      \<comment> \<open>comment, rangeName, network, networkView, startAddr, endAddr, disable, ea, failOverAssociation, useOptions, serverAssociation, rangeTemplate, msServer\<close>
  | UpdateNetworkRange string string string string string string bool ea string bool string string string
      \<comment> \<open>ref, comment, rangeName, network, startAddr, endAddr, disable, ea, failOverAssociation, useOptions, serverAssociation, networkView, msServer\<close>

record RangeParameters =
  rgp_StartAddr :: "string option"
  rgp_EndAddr :: "string option"
  rgp_NetworkView :: "string option"
  rgp_Network :: "string option"
  rgp_Template :: "string option"
  rgp_Comment :: "string option"
  rgp_ExtAttrs :: extattrs

record RangeObservation =
  rgs_ID :: string
  rgs_StartAddr :: "string option"
  rgs_EndAddr :: "string option"
  rgs_NetworkView :: "string option"
  rgs_Network :: "string option"
  rgs_Comment :: "string option"
  rgs_ExtAttrs :: extattrs
  rgs_Ref :: "string option"
  rgs_Template :: "string option"

record RangeCR = mobj +
  rg_ForProvider :: RangeParameters
  rg_AtProvider :: RangeObservation

section \<open>Error messages\<close>

definition errObserveRange :: string where "errObserveRange = ''cannot observe Range''"
definition errCreateRange :: string where "errCreateRange = ''cannot create Range''"
definition errUpdateRange :: string where "errUpdateRange = ''cannot update Range''"
definition errDeleteRange :: string where "errDeleteRange = ''cannot delete Range''"
definition Range_errEmptyUID :: string where
  "Range_errEmptyUID = ''cannot stamp Range identity: managed resource's metadata.uid is empty''"

section \<open>Field comparison and late initialisation\<close>

definition Range_isUpToDate ::
  "string option \<Rightarrow> string option \<Rightarrow> string option \<Rightarrow> string option \<Rightarrow>
      string option \<Rightarrow> extattrs \<Rightarrow> RangeObj \<Rightarrow> bool" where
  "Range_isUpToDate startAddr endAddr networkView network comment extAttrs rec =
     (if strOrEmpty startAddr \<noteq> strOrEmpty (rgr_StartAddr rec) then False
      else if strOrEmpty endAddr \<noteq> strOrEmpty (rgr_EndAddr rec) then False
      else if strOrEmpty networkView \<noteq> strOrEmpty (rgr_NetworkView rec) then False
      else if strOrEmpty network \<noteq> strOrEmpty (rgr_Network rec) then False
      else if strOrEmpty comment \<noteq> strOrEmpty (rgr_Comment rec) then False
      else extAttrsEqual extAttrs (extAttrsFromEA (Strip (rgr_Ea rec))))"

text \<open>The ForProvider fields lateInitialize takes pointers to.\<close>

type_synonym range_late = "string option \<times> string option \<times> string option \<times> extattrs"

definition Range_lateInitialize :: "range_late \<Rightarrow> RangeObj \<Rightarrow> range_late \<times> bool" where
  "Range_lateInitialize p rec =
     (case p of (networkView, network, comment, extAttrs) \<Rightarrow>
       (let (networkView1, c1) = (if networkView = None \<and> rgr_NetworkView rec \<noteq> None \<and>
           rgr_NetworkView rec \<noteq> Some []
                             then (rgr_NetworkView rec, True) else (networkView, False));
            (network1, c2) = (if network = None \<and> rgr_Network rec \<noteq> None \<and> rgr_Network rec \<noteq> Some []
                             then (rgr_Network rec, True) else (network, c1));
            (comment1, c3) = (if comment = None \<and> rgr_Comment rec \<noteq> None \<and> rgr_Comment rec \<noteq> Some []
                             then (rgr_Comment rec, True) else (comment, c2));
            fromRec = extAttrsFromEA (Strip (rgr_Ea rec));
            (extAttrs1, c4) = (if extAttrs = fmempty \<and> fromRec \<noteq> fmempty
                             then (fromRec, True) else (extAttrs, c3))
        in ((networkView1, network1, comment1, extAttrs1), c4)))"

record observedRange =
  rgo_ID :: string
  rgo_StartAddr :: "string option"
  rgo_EndAddr :: "string option"
  rgo_NetworkView :: "string option"
  rgo_Network :: "string option"
  rgo_Comment :: "string option"
  rgo_ExtAttrs :: extattrs
  rgo_Ref :: "string option"

definition observeFromRange :: "string \<Rightarrow> RangeObj \<Rightarrow> observedRange" where
  "observeFromRange externalID rec =
     \<lparr>rgo_ID = externalID,
      rgo_StartAddr = ptrIfSet (rgr_StartAddr rec),
      rgo_EndAddr = ptrIfSet (rgr_EndAddr rec),
      rgo_NetworkView = ptrIfSet (rgr_NetworkView rec),
      rgo_Network = ptrIfSet (rgr_Network rec),
      rgo_Comment = ptrIfSet (rgr_Comment rec),
      rgo_ExtAttrs = extAttrsFromEA (rgr_Ea rec),
      rgo_Ref = ptrIfNonEmpty (rgr_Ref rec)\<rparr>"

section \<open>SDK calls\<close>

definition createRange ::
  "(RangeObj, range_req) wapi \<Rightarrow> RangeParameters \<Rightarrow> string \<Rightarrow> range_req world
      \<Rightarrow> (goerr + RangeObj) \<times> range_req world" where
  "createRange env p uid w =
     (if trim_space uid = [] then (Inl (TextError Range_errEmptyUID), w)
      else
        (let e = Stamp (buildEA (rgp_ExtAttrs p)) uid
         in mutate_object env
              (CreateNetworkRange (strOrEmpty (rgp_Comment p)) [] (strOrEmpty (rgp_Network p)) (strOrEmpty
                  (rgp_NetworkView p)) (strOrEmpty (rgp_StartAddr p)) (strOrEmpty (rgp_EndAddr p)) False e [] False []
                  (strOrEmpty (rgp_Template p)) []) w))"

definition updateRange ::
  "(RangeObj, range_req) wapi \<Rightarrow> string \<Rightarrow> RangeParameters \<Rightarrow> string \<Rightarrow>
      range_req world \<Rightarrow> (goerr + RangeObj) \<times> range_req world" where
  "updateRange env ref p uid w =
     (if trim_space uid = [] then (Inl (TextError Range_errEmptyUID), w)
      else
        (let e = Stamp (buildEA (rgp_ExtAttrs p)) uid
         in mutate_object env
              (UpdateNetworkRange ref (strOrEmpty (rgp_Comment p)) [] (strOrEmpty (rgp_Network p)) (strOrEmpty
                  (rgp_StartAddr p)) (strOrEmpty (rgp_EndAddr p)) False e [] False [] (strOrEmpty (rgp_NetworkView p)) [])
                  w))"

definition deleteRange :: "(RangeObj, range_req) wapi \<Rightarrow> string \<Rightarrow> range_req world \<Rightarrow>
    goerr option \<times> range_req world" where
  "deleteRange env ref w =
     (case delete_object env ref w of
        (Inl err, w1) \<Rightarrow> (Some err, w1)
      | (Inr _, w1) \<Rightarrow> (None, w1))"

section \<open>Identity resolution\<close>

definition resolveRangeIdentity ::
  "(RangeObj, range_req) wapi \<Rightarrow> string \<Rightarrow> string \<Rightarrow> range_req world \<Rightarrow>
      (goerr + RangeObj option \<times> Outcome) \<times> range_req world" where
  "resolveRangeIdentity env ref uid w = Resolve env RangeObj_type ref uid w"

type_synonym Range_observeResult = "(RangeObj, observedRange) observeResult"

definition Range_notFoundResult :: Range_observeResult where
  "Range_notFoundResult =
     \<lparr>ores_exists = False, ores_rec = emptyRangeObj, ores_obs = observeFromRange [] emptyRangeObj,
      ores_lateInit = False, ores_refreshedRef = [], ores_adopted = False\<rparr>"

definition observeRange ::
  "(RangeObj, range_req) wapi \<Rightarrow> string \<Rightarrow> string \<Rightarrow> string \<Rightarrow> string \<Rightarrow> range_late \<Rightarrow> range_req world \<Rightarrow>
     (goerr + Range_observeResult) \<times> range_late \<times> range_req world" where
  "observeRange env endpoint crName externalName uid p w =
     (let ref = observeRefFor crName externalName in
      case resolveRangeIdentity env ref uid w of
        (Inl err, w1) \<Rightarrow>
          if IsSearchFailure err then
            (case ensureIdentityPrerequisite env endpoint w1 of
               (Some prereqErr, w2) \<Rightarrow> (Inl prereqErr, p, w2)
             | (None, w2) \<Rightarrow> (Inl err, p, w2))
          else (Inl err, p, w1)
      | (Inr (obj, outcome), w1) \<Rightarrow>
          if outcome = OutcomeNotFound then (Inr Range_notFoundResult, p, w1)
          else
            (case obj of
               None \<Rightarrow> (Inl (TextError nilDereference), p, w1)
             | Some rec \<Rightarrow>
                 (case Range_lateInitialize p rec of (p1, changed) \<Rightarrow>
                    (let found = (outcome = OutcomeRotated \<or> outcome = OutcomeFoundByUID)
                     in (Inr \<lparr>ores_exists = True, ores_rec = rec,
                              ores_obs = observeFromRange (rgr_Ref rec) rec,
                              ores_lateInit = (if found then True else changed),
                              ores_refreshedRef = (if found then rgr_Ref rec else []),
                              ores_adopted = (outcome = OutcomeAdopted)\<rparr>, p1, w1)))))"

definition deleteRangeIdentity ::
  "(RangeObj, range_req) wapi \<Rightarrow> string \<Rightarrow> string \<Rightarrow> string \<Rightarrow> range_req
      world \<Rightarrow> goerr option \<times> range_req world" where
  "deleteRangeIdentity env endpoint ref uid w =
     (case resolveRangeIdentity env ref uid w of
        (Inl err, w1) \<Rightarrow>
          if IsSearchFailure err then
            (case ensureIdentityPrerequisite env endpoint w1 of
               (Some prereqErr, w2) \<Rightarrow> (Some prereqErr, w2)
             | (None, w2) \<Rightarrow> (Some (Wrapped errDeleteRange err), w2))
          else (Some (Wrapped errDeleteRange err), w1)
      | (Inr (obj, outcome), w1) \<Rightarrow>
          (case outcome of
             OutcomeNotFound \<Rightarrow> (None, w1)
           | OutcomeAdopted \<Rightarrow> (Some (TextError errDeleteUnverifiedOwnership), w1)
           | _ \<Rightarrow>
               (case obj of
                  None \<Rightarrow> (Some (TextError nilDereference), w1)
                | Some rec \<Rightarrow>
                    (case deleteRange env (rgr_Ref rec) w1 of
                       (None, w2) \<Rightarrow> (None, w2)
                     | (Some delErr, w2) \<Rightarrow>
                         if isNotFound (Some delErr) then (None, w2)
                         else (Some (Wrapped errDeleteRange delErr), w2)))))"

section \<open>The external clients\<close>

text \<open>The pointers to spec fields Observe hands over, and their write-back.\<close>

definition Range_latePart :: "RangeParameters \<Rightarrow> range_late" where
  "Range_latePart p = (rgp_NetworkView p, rgp_Network p, rgp_Comment p, rgp_ExtAttrs p)"

definition Range_setLate :: "RangeParameters \<Rightarrow> range_late \<Rightarrow> RangeParameters" where
  "Range_setLate p l = (case l of (networkView, network, comment, extAttrs) \<Rightarrow>
     p\<lparr>rgp_NetworkView := networkView, rgp_Network := network, rgp_Comment := comment, rgp_ExtAttrs :=
         extAttrs\<rparr>)"

subsection \<open>namespaced.go\<close>

definition namespaced_Range_Observe ::
  "(RangeObj, range_req) wapi \<Rightarrow> string \<Rightarrow> RangeCR \<Rightarrow> range_req world \<Rightarrow>
      (goerr + ExternalObservation) \<times> RangeCR \<times> range_req world" where
  "namespaced_Range_Observe env endpoint cr w =
     (case observeRange env endpoint (mo_name cr) (GetExternalName cr) (mo_uid cr)
             (Range_latePart (rg_ForProvider cr)) w of
        (Inl err, l, w1) \<Rightarrow>
          (let cr1 = cr\<lparr>rg_ForProvider := Range_setLate (rg_ForProvider cr) l\<rparr> in
           if errors_as is_PrerequisiteError err then (Inl err, cr1, w1)
           else (Inl (Wrapped errObserveRange err), cr1, w1))
      | (Inr res, l, w1) \<Rightarrow>
          (let p = Range_setLate (rg_ForProvider cr) l;
               cr1 = cr\<lparr>rg_ForProvider := p\<rparr> in
           if \<not> ores_exists res then (Inr notExists, cr1, w1)
           else
             (let o1 = ores_obs res;
                  cr2 = cr1\<lparr>rg_AtProvider :=
                    \<lparr>rgs_ID = rgo_ID o1, rgs_StartAddr = rgo_StartAddr o1, rgs_EndAddr = rgo_EndAddr
                     o1, rgs_NetworkView = rgo_NetworkView o1, rgs_Network = rgo_Network o1,
                     rgs_Comment = rgo_Comment o1, rgs_ExtAttrs = rgo_ExtAttrs o1, rgs_Ref = rgo_Ref
                     o1, rgs_Template = rgp_Template p\<rparr>\<rparr>;
                  cr3 = (if ores_refreshedRef res \<noteq> [] then SetExternalName (ores_refreshedRef res) cr2 else cr2);
                  cr4 = SetAvailable cr3;
                  upToDate = (Range_isUpToDate (rgp_StartAddr p) (rgp_EndAddr p) (rgp_NetworkView p) (rgp_Network
                                p) (rgp_Comment p) (rgp_ExtAttrs p) (ores_rec res)
                                \<and> \<not> ores_adopted res)
              in (Inr \<lparr>ResourceExists = True, ResourceUpToDate = upToDate,
                       ResourceLateInitialized = ores_lateInit res\<rparr>, cr4, w1))))"

definition namespaced_Range_Create ::
  "(RangeObj, range_req) wapi \<Rightarrow> string \<Rightarrow> RangeCR \<Rightarrow> range_req world \<Rightarrow>
      goerr option \<times> RangeCR \<times> range_req world" where
  "namespaced_Range_Create env endpoint cr w =
     (let p = rg_ForProvider cr; uid = mo_uid cr in
      if trim_space uid = [] then (Some (TextError Range_errEmptyUID), cr, w)
      else
          (case ensureIdentityPrerequisite env endpoint w of
             (Some err, w1) \<Rightarrow> (Some err, cr, w1)
           | (None, w1) \<Rightarrow>
               (case createRange env p uid w1 of
                  (Inl err, w2) \<Rightarrow> (Some (Wrapped errCreateRange err), cr, w2)
                | (Inr rec, w2) \<Rightarrow> (None, SetExternalName (rgr_Ref rec) cr, w2))))"

definition namespaced_Range_Update ::
  "(RangeObj, range_req) wapi \<Rightarrow> string \<Rightarrow> RangeCR \<Rightarrow> range_req world \<Rightarrow>
      goerr option \<times> RangeCR \<times> range_req world" where
  "namespaced_Range_Update env endpoint cr w =
     (let p = rg_ForProvider cr; externalID = GetExternalName cr in
      case ensureIdentityPrerequisite env endpoint w of
        (Some err, w1) \<Rightarrow> (Some err, cr, w1)
      | (None, w1) \<Rightarrow>
          (case updateRange env externalID p (mo_uid cr) w1 of
             (Inl err, w2) \<Rightarrow> (Some (Wrapped errUpdateRange err), cr, w2)
           | (Inr rec, w2) \<Rightarrow>
               if rgr_Ref rec \<noteq> [] \<and> rgr_Ref rec \<noteq> externalID then
                 (case Refresh env cr (rgr_Ref rec) w2 of
                    (Some err, cr1, w3) \<Rightarrow> (Some (Wrapped errPersistExternalName err), cr1, w3)
                  | (None, cr1, w3) \<Rightarrow> (None, cr1, w3))
               else (None, cr, w2)))"

definition namespaced_Range_Delete ::
  "(RangeObj, range_req) wapi \<Rightarrow> string \<Rightarrow> RangeCR \<Rightarrow> range_req world \<Rightarrow> goerr option \<times> range_req world" where
  "namespaced_Range_Delete env endpoint cr w =
     (let externalID = GetExternalName cr in
      case deleteRangeIdentity env endpoint externalID (mo_uid cr) w of
        (Some err, w1) \<Rightarrow> (Some err, w1)
      | (None, w1) \<Rightarrow> (None, w1))"

subsection \<open>cluster.go\<close>

definition cluster_Range_Observe ::
  "(RangeObj, range_req) wapi \<Rightarrow> string \<Rightarrow> RangeCR \<Rightarrow> range_req world \<Rightarrow>
      (goerr + ExternalObservation) \<times> RangeCR \<times> range_req world" where
  "cluster_Range_Observe env endpoint cr w =
     (case observeRange env endpoint (mo_name cr) (GetExternalName cr) (mo_uid cr)
             (Range_latePart (rg_ForProvider cr)) w of
        (Inl err, l, w1) \<Rightarrow>
          (let cr1 = cr\<lparr>rg_ForProvider := Range_setLate (rg_ForProvider cr) l\<rparr> in
           if errors_as is_PrerequisiteError err then (Inl err, cr1, w1)
           else (Inl (Wrapped errObserveRange err), cr1, w1))
      | (Inr res, l, w1) \<Rightarrow>
          (let p = Range_setLate (rg_ForProvider cr) l;
               cr1 = cr\<lparr>rg_ForProvider := p\<rparr> in
           if \<not> ores_exists res then (Inr notExists, cr1, w1)
           else
             (let o1 = ores_obs res;
                  cr2 = cr1\<lparr>rg_AtProvider :=
                    \<lparr>rgs_ID = rgo_ID o1, rgs_StartAddr = rgo_StartAddr o1, rgs_EndAddr = rgo_EndAddr
                     o1, rgs_NetworkView = rgo_NetworkView o1, rgs_Network = rgo_Network o1,
                     rgs_Comment = rgo_Comment o1, rgs_ExtAttrs = rgo_ExtAttrs o1, rgs_Ref = rgo_Ref
                     o1, rgs_Template = rgp_Template p\<rparr>\<rparr>;
                  cr3 = (if ores_refreshedRef res \<noteq> [] then SetExternalName (ores_refreshedRef res) cr2 else cr2);
                  cr4 = SetAvailable cr3;
                  upToDate = (Range_isUpToDate (rgp_StartAddr p) (rgp_EndAddr p) (rgp_NetworkView p) (rgp_Network
                                p) (rgp_Comment p) (rgp_ExtAttrs p) (ores_rec res)
                                \<and> \<not> ores_adopted res)
              in (Inr \<lparr>ResourceExists = True, ResourceUpToDate = upToDate,
                       ResourceLateInitialized = ores_lateInit res\<rparr>, cr4, w1))))"

definition cluster_Range_Create ::
  "(RangeObj, range_req) wapi \<Rightarrow> string \<Rightarrow> RangeCR \<Rightarrow> range_req world \<Rightarrow>
      goerr option \<times> RangeCR \<times> range_req world" where
  "cluster_Range_Create env endpoint cr w =
     (let p = rg_ForProvider cr; uid = mo_uid cr in
      if trim_space uid = [] then (Some (TextError Range_errEmptyUID), cr, w)
      else
          (case ensureIdentityPrerequisite env endpoint w of
             (Some err, w1) \<Rightarrow> (Some err, cr, w1)
           | (None, w1) \<Rightarrow>
               (case createRange env p uid w1 of
                  (Inl err, w2) \<Rightarrow> (Some (Wrapped errCreateRange err), cr, w2)
                | (Inr rec, w2) \<Rightarrow> (None, SetExternalName (rgr_Ref rec) cr, w2))))"

definition cluster_Range_Update ::
  "(RangeObj, range_req) wapi \<Rightarrow> string \<Rightarrow> RangeCR \<Rightarrow> range_req world \<Rightarrow>
      goerr option \<times> RangeCR \<times> range_req world" where
  "cluster_Range_Update env endpoint cr w =
     (let p = rg_ForProvider cr; externalID = GetExternalName cr in
      case ensureIdentityPrerequisite env endpoint w of
        (Some err, w1) \<Rightarrow> (Some err, cr, w1)
      | (None, w1) \<Rightarrow>
          (case updateRange env externalID p (mo_uid cr) w1 of
             (Inl err, w2) \<Rightarrow> (Some (Wrapped errUpdateRange err), cr, w2)
           | (Inr rec, w2) \<Rightarrow>
               if rgr_Ref rec \<noteq> [] \<and> rgr_Ref rec \<noteq> externalID then
                 (case Refresh env cr (rgr_Ref rec) w2 of
                    (Some err, cr1, w3) \<Rightarrow> (Some (Wrapped errPersistExternalName err), cr1, w3)
                  | (None, cr1, w3) \<Rightarrow> (None, cr1, w3))
               else (None, cr, w2)))"

definition cluster_Range_Delete ::
  "(RangeObj, range_req) wapi \<Rightarrow> string \<Rightarrow> RangeCR \<Rightarrow> range_req world \<Rightarrow> goerr option \<times> range_req world" where
  "cluster_Range_Delete env endpoint cr w =
     (let externalID = GetExternalName cr in
      case deleteRangeIdentity env endpoint externalID (mo_uid cr) w of
        (Some err, w1) \<Rightarrow> (Some err, w1)
      | (None, w1) \<Rightarrow> (None, w1))"

section \<open>The contract of the ladder client\<close>

text \<open>The requests of a spec, what a Grid object holds of a request, and the drift check of a resource.\<close>

definition range_create_request :: "RangeParameters \<Rightarrow> string \<Rightarrow> range_req" where
  "range_create_request p uid = CreateNetworkRange
     (strOrEmpty (rgp_Comment p)) [] (strOrEmpty (rgp_Network p)) (strOrEmpty (rgp_NetworkView p)) (strOrEmpty
         (rgp_StartAddr p)) (strOrEmpty (rgp_EndAddr p)) False (Stamp (buildEA (rgp_ExtAttrs p)) uid) [] False []
         (strOrEmpty (rgp_Template p)) []"

definition range_update_request :: "string \<Rightarrow> RangeParameters \<Rightarrow> string \<Rightarrow> range_req" where
  "range_update_request ref p uid = UpdateNetworkRange ref
     (strOrEmpty (rgp_Comment p)) [] (strOrEmpty (rgp_Network p)) (strOrEmpty (rgp_StartAddr p)) (strOrEmpty
         (rgp_EndAddr p)) False (Stamp (buildEA (rgp_ExtAttrs p)) uid) [] False [] (strOrEmpty (rgp_NetworkView p)) []"

fun range_req_ea :: "range_req \<Rightarrow> ea" where
  "range_req_ea (CreateNetworkRange comment rangeName network networkView startAddr endAddr disable ea failOverAssociation useOptions serverAssociation rangeTemplate msServer) = ea"
| "range_req_ea (UpdateNetworkRange ref comment rangeName network startAddr endAddr disable ea failOverAssociation useOptions serverAssociation networkView msServer) = ea"

fun range_holds :: "range_req \<Rightarrow> RangeObj \<Rightarrow> bool" where
  "range_holds (CreateNetworkRange comment rangeName network networkView startAddr endAddr disable ea failOverAssociation useOptions serverAssociation rangeTemplate msServer) rec \<longleftrightarrow>
     strOrEmpty (rgr_StartAddr rec) = startAddr \<and>
     strOrEmpty (rgr_EndAddr rec) = endAddr \<and>
     (networkView \<noteq> [] \<longrightarrow> strOrEmpty (rgr_NetworkView rec) = networkView) \<and>
     (network \<noteq> [] \<longrightarrow> strOrEmpty (rgr_Network rec) = network) \<and>
     strOrEmpty (rgr_Comment rec) = comment \<and>
     rgr_Ea rec = ea"
| "range_holds (UpdateNetworkRange ref comment rangeName network startAddr endAddr disable ea failOverAssociation useOptions serverAssociation networkView msServer) rec \<longleftrightarrow>
     strOrEmpty (rgr_StartAddr rec) = startAddr \<and>
     strOrEmpty (rgr_EndAddr rec) = endAddr \<and>
     (networkView \<noteq> [] \<longrightarrow> strOrEmpty (rgr_NetworkView rec) = networkView) \<and>
     (network \<noteq> [] \<longrightarrow> strOrEmpty (rgr_Network rec) = network) \<and>
     strOrEmpty (rgr_Comment rec) = comment \<and>
     rgr_Ea rec = ea"

definition Range_utd :: "RangeCR \<Rightarrow> RangeObj \<Rightarrow> bool" where
  "Range_utd cr rec = (let p = rg_ForProvider cr in
     Range_isUpToDate (rgp_StartAddr p) (rgp_EndAddr p) (rgp_NetworkView p) (rgp_Network
                                p) (rgp_Comment p) (rgp_ExtAttrs p) rec)"

definition Range_spec_ok :: "RangeCR \<Rightarrow> bool" where
  "Range_spec_ok cr \<longleftrightarrow> (let p = rg_ForProvider cr in reserved_free (rgp_ExtAttrs p) \<and> rgp_NetworkView p \<noteq> Some [] \<and> rgp_Network p \<noteq> Some [])"

definition Range_keeps :: "range_late \<Rightarrow> range_late \<Rightarrow> bool" where
  "Range_keeps l l' = (case (l, l') of ((networkView, network, comment, extAttrs), (networkView', network', comment',
      extAttrs')) \<Rightarrow>
     keeps_set networkView networkView' \<and> keeps_set network network' \<and> keeps_set comment comment' \<and> keeps_attrs extAttrs extAttrs')"

definition Range_get :: "RangeCR \<Rightarrow> range_late" where
  "Range_get cr = Range_latePart (rg_ForProvider cr)"

definition Range_put :: "RangeCR \<Rightarrow> range_late \<Rightarrow> RangeCR" where
  "Range_put cr l = cr\<lparr>rg_ForProvider := Range_setLate (rg_ForProvider cr) l\<rparr>"

definition Range_status :: "RangeObj \<Rightarrow> RangeCR \<Rightarrow> RangeCR" where
  "Range_status rec cr =
     (let o1 = observeFromRange (rgr_Ref rec) rec; p = rg_ForProvider cr in
      cr\<lparr>rg_AtProvider :=
        \<lparr>rgs_ID = rgo_ID o1, rgs_StartAddr = rgo_StartAddr o1, rgs_EndAddr = rgo_EndAddr o1,
        rgs_NetworkView = rgo_NetworkView o1, rgs_Network = rgo_Network o1, rgs_Comment =
        rgo_Comment o1, rgs_ExtAttrs = rgo_ExtAttrs o1, rgs_Ref = rgo_Ref o1, rgs_Template =
        rgp_Template p\<rparr>\<rparr>)"

definition Range_valid :: "RangeCR \<Rightarrow> goerr option" where
  "Range_valid cr = (let p = rg_ForProvider cr; uid = mo_uid cr in if trim_space uid = [] then Some (TextError Range_errEmptyUID) else None)"

lemma Range_lateInitialize_eq:
  "Range_lateInitialize (networkView, network, comment, extAttrs) rec =
     (let networkView1 = fill networkView (ptrIfSet (rgr_NetworkView rec));
          network1 = fill network (ptrIfSet (rgr_Network rec));
          comment1 = fill comment (ptrIfSet (rgr_Comment rec));
          extAttrs1 = fill_map extAttrs (userAttrs (rgr_Ea rec))
      in ((networkView1, network1, comment1, extAttrs1), (networkView1, network1, comment1, extAttrs1) \<noteq>
          (networkView, network, comment, extAttrs)))"
  by (simp only: Range_lateInitialize_def userAttrs_def [symmetric] Let_def case_prod_conv fill_steps
      prod.inject fill_changed ptrIfSet_set simp_thms de_Morgan_conj disj_ac)

interpretation range_late: late_lens Range_lateInitialize Range_keeps Range_get Range_put Range_utd
proof
  fix l l' :: range_late and rec :: RangeObj and cr :: RangeCR
  obtain networkView network comment extAttrs where l: "l = (networkView, network, comment, extAttrs)" by (cases l)
      auto
  show "Range_lateInitialize (fst (Range_lateInitialize l rec)) rec = (fst (Range_lateInitialize l rec), False)"
    by (simp add: l Range_lateInitialize_eq Let_def)
  show "snd (Range_lateInitialize l rec) \<longleftrightarrow> fst (Range_lateInitialize l rec) \<noteq> l"
    by (simp add: l Range_lateInitialize_eq Let_def)
  show "Range_keeps l (fst (Range_lateInitialize l rec))"
    by (simp add: l Range_lateInitialize_eq Let_def Range_keeps_def keeps_fill)
  show "Range_get (Range_put cr l) = l"
    by (simp add: l Range_get_def Range_put_def Range_latePart_def Range_setLate_def)
  show "Range_put cr (Range_get cr) = cr"
    by (simp add: Range_get_def Range_put_def Range_latePart_def Range_setLate_def)
  show "Range_put (Range_put cr l) l' = Range_put cr l'"
    by (simp add: Range_put_def Range_setLate_def split: prod.split)
  show "Range_utd (Range_put cr (fst (Range_lateInitialize (Range_get cr) rec))) rec" if "Range_utd cr rec"
    using that
    by (auto simp: Range_get_def Range_put_def Range_latePart_def Range_setLate_def Range_lateInitialize_eq Let_def
        Range_utd_def Range_isUpToDate_def extAttrsEqual_iff simp flip: userAttrs_def split: if_splits)
qed

lemma RangeObj_type_simps [simp]:
  "ot_name RangeObj_type = ''range''" "ref_ea_shape RangeObj_type"
  "stamped RangeObj_type rec = eaValue (rgr_Ea rec) EAKey"
  by (simp_all add: ref_ea_shape_def stamped_def RangeObj_type_def reflectRangeObj_def getRef_def getEA_def)

lemma deleteRange_issue: "deleteRange env = issue_delete env"
  by (intro ext) (simp only: deleteRange_def issue_delete_def)

lemma createRange_valid:
  assumes "Range_valid cr = None"
  shows "createRange env (rg_ForProvider cr) (mo_uid cr) w = mutate_object env (range_create_request (rg_ForProvider
      cr) (mo_uid cr)) w"
  using assms
  by (auto simp: createRange_def range_create_request_def Range_valid_def Let_def split: if_splits option.splits)


lemma Range_Observe_shape:
  "namespaced_Range_Observe env ep cr w =
     ladder_observe_shape (ladder_observe_error errObserveRange) (Resolve env RangeObj_type)
         (ensureIdentityPrerequisite env ep)
       (\<lambda>r. r \<noteq> []) (\<lambda>r. True) (lift_late Range_lateInitialize Range_get Range_put)
           Range_status Range_utd rgr_Ref cr w"
proof -
  have same: "cr\<lparr>rg_ForProvider := Range_setLate (rg_ForProvider cr) (Range_latePart (rg_ForProvider cr))\<rparr> = cr"
    by (simp add: Range_latePart_def Range_setLate_def)
  obtain r w1 where r: "Resolve env RangeObj_type (observeRefFor (mo_name cr) (GetExternalName cr)) (mo_uid cr) w =
      (r, w1)"
    by (cases "Resolve env RangeObj_type (observeRefFor (mo_name cr) (GetExternalName cr)) (mo_uid cr) w")
  obtain e w2 where e: "ensureIdentityPrerequisite env ep w1 = (e, w2)"
    by (cases "ensureIdentityPrerequisite env ep w1")
  note defs = namespaced_Range_Observe_def observeRange_def resolveRangeIdentity_def ladder_observe_shape_def ladder_observe_error_def
  show ?thesis
  proof (cases r)
    case (Inl err)
    then show ?thesis
      by (cases e) (simp_all add: defs Let_def r e same)
  next
    case (Inr a)
    obtain obj out where a: "a = (obj, out)" by (cases a)
    show ?thesis
    proof (cases obj)
      case None
      then show ?thesis
        by (simp add: defs Let_def r Inr a same Range_notFoundResult_def)
    next
      case (Some rec)
      obtain l c where "Range_lateInitialize (Range_latePart (rg_ForProvider cr)) rec = (l, c)"
        by (cases "Range_lateInitialize (Range_latePart (rg_ForProvider cr)) rec")
      with Some show ?thesis
        by (simp add: defs Let_def r Inr a same lift_late_def Range_get_def Range_put_def
            Range_status_def Range_utd_def Range_notFoundResult_def observeFromRange_def)
    qed
  qed
qed

lemma Range_Create_shape:
  "namespaced_Range_Create env ep cr w =
     ladder_create_shape errCreateRange Range_valid (ensureIdentityPrerequisite env ep) (mutate_object env)
       (\<lambda>cr. range_create_request (rg_ForProvider cr) (mo_uid cr)) rgr_Ref cr w"
proof -
  obtain e w1 where e: "ensureIdentityPrerequisite env ep w = (e, w1)"
    by (cases "ensureIdentityPrerequisite env ep w")
  have v: "(let p = rg_ForProvider cr; uid = mo_uid cr in if trim_space uid = [] then Some (TextError Range_errEmptyUID) else None) = Range_valid cr"
    by (simp only: Range_valid_def)
  show ?thesis
  proof (cases "Range_valid cr")
    case None
    then show ?thesis
      using createRange_valid [OF None, of env w1] v
      by (cases e) (simp_all add: namespaced_Range_Create_def ladder_create_shape_def Let_def e split: if_splits)
  next
    case (Some err)
    then show ?thesis
      using v by (simp add: namespaced_Range_Create_def ladder_create_shape_def Let_def split: if_splits)
  qed
qed

lemma Range_Update_shape:
  "namespaced_Range_Update env ep cr w =
     ladder_update_shape errUpdateRange Range_errEmptyUID env (ensureIdentityPrerequisite env ep)
       (\<lambda>cr. range_update_request (GetExternalName cr) (rg_ForProvider cr) (mo_uid cr)) rgr_Ref cr w"
proof -
  obtain e w1 where e: "ensureIdentityPrerequisite env ep w = (e, w1)"
    by (cases "ensureIdentityPrerequisite env ep w")
  show ?thesis
    by (cases e; cases "wapi_mutate env (calls w1) (range_update_request (GetExternalName cr) (rg_ForProvider cr)
        (mo_uid cr))")
      (auto simp: namespaced_Range_Update_def ladder_update_shape_def updateRange_def range_update_request_def
        Let_def e mutate_object_def)
qed

lemma Range_Delete_shape:
  "namespaced_Range_Delete env ep cr w =
     ladder_delete_shape errDeleteRange errDeleteUnverifiedOwnership nilDereference
       (Resolve env RangeObj_type (GetExternalName cr) (mo_uid cr)) (ensureIdentityPrerequisite env ep)
       (issue_delete env) rgr_Ref w"
proof -
  have "namespaced_Range_Delete env ep cr w = deleteRangeIdentity env ep (GetExternalName cr) (mo_uid cr) w"
    by (simp add: namespaced_Range_Delete_def Let_def split: prod.split option.split)
  then show ?thesis
    by (simp only: deleteRangeIdentity_def ladder_delete_shape_def resolveRangeIdentity_def deleteRange_issue)
qed

lemma Range_scopes:
  "cluster_Range_Observe = namespaced_Range_Observe" "cluster_Range_Create = namespaced_Range_Create"
  "cluster_Range_Update = namespaced_Range_Update" "cluster_Range_Delete = namespaced_Range_Delete"
  by (intro ext, simp only: cluster_Range_Observe_def namespaced_Range_Observe_def cluster_Range_Create_def
      namespaced_Range_Create_def cluster_Range_Update_def namespaced_Range_Update_def
      cluster_Range_Delete_def namespaced_Range_Delete_def)+

lemma range_written_utd:
  assumes "Range_spec_ok cr"
    and "range_holds (range_create_request (rg_ForProvider cr) (mo_uid cr)) rec \<and> Range_valid cr = None \<or>
      range_holds (range_update_request (GetExternalName cr) (rg_ForProvider cr) (mo_uid cr)) rec"
  shows "Range_utd (fst (lift_late Range_lateInitialize Range_get Range_put cr rec)) rec \<and>
    eaValue (rgr_Ea rec) EAKey = Some (mo_uid cr)"
proof -
  note reqs = range_create_request_def range_update_request_def
  have ok: "reserved_free (rgp_ExtAttrs (rg_ForProvider cr))" "rgp_NetworkView (rg_ForProvider cr) \<noteq> Some []" "rgp_Network (rg_ForProvider cr) \<noteq> Some []"
    using assms(1) by (simp_all add: Range_spec_ok_def Let_def)
  have ea: "rgr_Ea rec = Stamp (buildEA (rgp_ExtAttrs (rg_ForProvider cr))) (mo_uid cr)"
    using assms(2) by (elim disjE) (simp_all add: reqs)
  have fields: 
    "strOrEmpty (rgp_StartAddr (rg_ForProvider cr)) = strOrEmpty (rgr_StartAddr rec)" 
    "strOrEmpty (rgp_EndAddr (rg_ForProvider cr)) = strOrEmpty (rgr_EndAddr rec)" 
    "(rgp_NetworkView (rg_ForProvider cr)) \<noteq> None \<Longrightarrow> strOrEmpty (rgp_NetworkView (rg_ForProvider cr)) = strOrEmpty (rgr_NetworkView rec)" 
    "(rgp_Network (rg_ForProvider cr)) \<noteq> None \<Longrightarrow> strOrEmpty (rgp_Network (rg_ForProvider cr)) = strOrEmpty (rgr_Network rec)" 
    "strOrEmpty (rgp_Comment (rg_ForProvider cr)) = strOrEmpty (rgr_Comment rec)"
    using assms(2) ok by (elim disjE; auto simp: reqs dest: strOrEmpty_set)+
  have attrs: "userAttrs (rgr_Ea rec) = rgp_ExtAttrs (rg_ForProvider cr)"
    using ok(1) by (simp add: ea userAttrs_buildEA reserved_free_fmdrop)
  define networkView1 where "networkView1 = fill (rgp_NetworkView (rg_ForProvider cr)) (ptrIfSet (rgr_NetworkView rec))"
  define network1 where "network1 = fill (rgp_Network (rg_ForProvider cr)) (ptrIfSet (rgr_Network rec))"
  define cr' where "cr' = cr\<lparr>rg_ForProvider := (rg_ForProvider cr)\<lparr>rgp_NetworkView := networkView1,
      rgp_Network := network1\<rparr>\<rparr>"
  have f_networkView: "strOrEmpty networkView1 = strOrEmpty (rgr_NetworkView rec)"
    unfolding networkView1_def by (rule strOrEmpty_filled) (rule fields(3))
  have f_network: "strOrEmpty network1 = strOrEmpty (rgr_Network rec)"
    unfolding network1_def by (rule strOrEmpty_filled) (rule fields(4))
  have "Range_utd cr' rec"
    using fields(1,2,5) f_networkView f_network attrs
    by (simp add: Range_utd_def Range_isUpToDate_def Let_def extAttrsEqual_iff cr'_def flip: userAttrs_def)
  moreover have "fst (lift_late Range_lateInitialize Range_get Range_put cr rec) =
      fst (lift_late Range_lateInitialize Range_get Range_put cr' rec)"
    by (auto simp: range_late.lifted_simps Range_get_def Range_put_def Range_latePart_def Range_setLate_def
        Range_lateInitialize_eq Let_def cr'_def networkView1_def network1_def)
  ultimately show ?thesis using ea range_late.late_utd by simp
qed

interpretation range: refreshing_client "lift_late Range_lateInitialize Range_get Range_put" Range_utd
  "\<lambda>s s'. Range_keeps (Range_get s) (Range_get s')"
  RangeObj_type rgr_Ref Range_status Range_valid
  "\<lambda>cr. range_create_request (rg_ForProvider cr) (mo_uid cr)"
  "\<lambda>cr. range_update_request (GetExternalName cr) (rg_ForProvider cr) (mo_uid cr)"
  range_req_ea range_holds Range_spec_ok
  "ladder_observe_error errObserveRange" "\<lambda>r. r \<noteq> []" "\<lambda>r. True" rgr_Ref errCreateRange errUpdateRange errDeleteRange Range_errEmptyUID
  namespaced_Range_Observe namespaced_Range_Create namespaced_Range_Update namespaced_Range_Delete
proof (unfold_locales, goal_cases)
  case (6 cr)
  then show ?case by (auto simp: Range_valid_def Let_def split: if_splits)
next
  case (13 n cr rec)
  have "Range_get (SetExternalName n cr) = Range_get cr"
    "Range_put (SetExternalName n cr) l = SetExternalName n (Range_put cr l)" for l
    by (simp_all add: Range_get_def Range_put_def SetExternalName_def)
  then show ?case
    by (simp add: range_late.lifted_simps Range_utd_def SetExternalName_def)
next
  case (14 cr rec)
  then show ?case using range_written_utd [of cr rec] by simp
next
  case (15 cr rec)
  then show ?case using range_written_utd [of cr rec] by simp
qed (simp_all add: Range_Observe_shape Range_Create_shape Range_Update_shape Range_Delete_shape
    range_late.lifted_simps Range_put_def Range_status_def Let_def
    range_create_request_def range_update_request_def)

end
