(* ===== verification/NameServers.thy ===== *)
theory NameServers
  imports LadderClient
begin

text \<open>
  The name servers of a zone, as the SDK has them and as the CRDs do, and the
  comparison that zonedelegated and zoneforward each declare.
\<close>

text \<open>ibclient.NameServer, as the provider uses it.\<close>

record NameServer =
  ns_Name :: string
  ns_Address :: string

record crdNameServer =
  cns_Name :: "string option"
  cns_Address :: "string option"

fun nameServersLoop :: "NameServer list \<Rightarrow> NameServer list \<Rightarrow> bool" where
  "nameServersLoop (x # a) (y # b) =
     (if ns_Name x \<noteq> ns_Name y \<or> ns_Address x \<noteq> ns_Address y then False else nameServersLoop a b)"
| "nameServersLoop _ _ = True"

definition nameServersEqual :: "NameServer list \<Rightarrow> NameServer list \<Rightarrow> bool" where
  "nameServersEqual a b = (if length a \<noteq> length b then False else nameServersLoop a b)"

lemma nameServersEqual_iff [simp]: "nameServersEqual a b \<longleftrightarrow> a = b"
proof -
  have "length a = length b \<Longrightarrow> nameServersLoop a b \<longleftrightarrow> a = b"
    by (induction a b rule: nameServersLoop.induct) auto
  then show ?thesis by (auto simp: nameServersEqual_def)
qed

end
