(* ===== verification/ZoneDelegated.thy ===== *)
theory ZoneDelegated
  imports NameServers
begin

text \<open>
  internal/controller/zonedelegated: the ZoneDelegated controller, a client of the identity ladder.
  ibclient.ZoneDelegated is the record ZoneDelegatedObj here; its NullableNameServers is the list in it.
\<close>

section \<open>Data\<close>

text \<open>ibclient.ZoneDelegated, as the provider requests it.\<close>

record ZoneDelegatedObj =
  zdr_Ref :: string
  zdr_Fqdn :: string
  zdr_DelegateTo :: "NameServer list"
  zdr_View :: "string option"
  zdr_ZoneFormat :: string
  zdr_Comment :: "string option"
  zdr_Disable :: "bool option"
  zdr_Locked :: "bool option"
  zdr_NsGroup :: "string option"
  zdr_DelegatedTtl :: "32 word option"
  zdr_UseDelegatedTtl :: "bool option"
  zdr_Ea :: ea

definition emptyZoneDelegatedObj :: ZoneDelegatedObj where
  "emptyZoneDelegatedObj = \<lparr>zdr_Ref = [], zdr_Fqdn = [], zdr_DelegateTo = [], zdr_View = None, zdr_ZoneFormat =
      [], zdr_Comment = None, zdr_Disable = None, zdr_Locked = None, zdr_NsGroup = None, zdr_DelegatedTtl = None,
      zdr_UseDelegatedTtl = None, zdr_Ea = fmempty\<rparr>"

definition reflectZoneDelegatedObj :: "ZoneDelegatedObj \<Rightarrow> goany" where
  "reflectZoneDelegatedObj r = PtrTo ''*ibclient.ZoneDelegated''
     [(''Ref'', FString (zdr_Ref r)),
      (''Fqdn'', FString (zdr_Fqdn r)),
      (''DelegateTo'', FOther),
      (''View'', FOther),
      (''ZoneFormat'', FString (zdr_ZoneFormat r)),
      (''Comment'', FOther),
      (''Disable'', FOther),
      (''Locked'', FOther),
      (''NsGroup'', FOther),
      (''DelegatedTtl'', FOther),
      (''UseDelegatedTtl'', FOther),
      (''Ea'', FEA (zdr_Ea r))]"

definition ZoneDelegatedObj_type :: "ZoneDelegatedObj objtype" where
  "ZoneDelegatedObj_type = \<lparr>ot_name = ''zone_delegated'', ot_empty = emptyZoneDelegatedObj, ot_reflect =
      reflectZoneDelegatedObj\<rparr>"

text \<open>The ObjectManager requests, with their arguments in call order.\<close>

datatype zonedelegated_req =
    CreateZoneDelegated string "NameServer list" string bool bool string "32 word" bool ea string string
      \<comment> \<open>fqdn, delegateTo, comment, disable, locked, nsGroup, delegatedTTL, useDelegatedTTL, ea, view, zoneFormat\<close>
  | UpdateZoneDelegated string "NameServer list" string bool bool string "32 word" bool ea
      \<comment> \<open>ref, delegateTo, comment, disable, locked, nsGroup, delegatedTTL, useDelegatedTTL, ea\<close>

record ZoneDelegatedParameters =
  zdp_Fqdn :: "string option"
  zdp_DelegateTo :: "crdNameServer list"
  zdp_View :: "string option"
  zdp_ZoneFormat :: "string option"
  zdp_Comment :: "string option"
  zdp_Disable :: "bool option"
  zdp_Locked :: "bool option"
  zdp_NsGroup :: "string option"
  zdp_DelegatedTTL :: "32 word option"
  zdp_UseDelegatedTTL :: "bool option"
  zdp_ExtAttrs :: extattrs

record ZoneDelegatedObservation =
  zds_ID :: string
  zds_Fqdn :: "string option"
  zds_DelegateTo :: "crdNameServer list"
  zds_View :: "string option"
  zds_ZoneFormat :: "string option"
  zds_Comment :: "string option"
  zds_Disable :: "bool option"
  zds_Locked :: "bool option"
  zds_NsGroup :: "string option"
  zds_DelegatedTTL :: "32 word option"
  zds_UseDelegatedTTL :: "bool option"
  zds_ExtAttrs :: extattrs
  zds_Ref :: "string option"

record ZoneDelegatedCR = mobj +
  zd_ForProvider :: ZoneDelegatedParameters
  zd_AtProvider :: ZoneDelegatedObservation

section \<open>Error messages\<close>

definition errObserveZoneDelegated :: string where "errObserveZoneDelegated = ''cannot observe ZoneDelegated''"
definition errCreateZoneDelegated :: string where "errCreateZoneDelegated = ''cannot create ZoneDelegated''"
definition errUpdateZoneDelegated :: string where "errUpdateZoneDelegated = ''cannot update ZoneDelegated''"
definition errDeleteZoneDelegated :: string where "errDeleteZoneDelegated = ''cannot delete ZoneDelegated''"
definition ZoneDelegated_errEmptyUID :: string where
  "ZoneDelegated_errEmptyUID = ''cannot stamp ZoneDelegated identity: managed resource's metadata.uid is empty''"

section \<open>Field comparison and late initialisation\<close>

definition ZoneDelegated_isUpToDate ::
  "NameServer list \<Rightarrow> string option \<Rightarrow> string option \<Rightarrow> bool option \<Rightarrow>
      bool option \<Rightarrow> bool option \<Rightarrow> 32 word option \<Rightarrow> extattrs \<Rightarrow>
      ZoneDelegatedObj \<Rightarrow> bool" where
  "ZoneDelegated_isUpToDate delegateTo comment nsGroup disable locked useDelegatedTTL delegatedTTL extAttrs rec =
     (if \<not> nameServersEqual delegateTo (zdr_DelegateTo rec) then False
      else if strOrEmpty comment \<noteq> strOrEmpty (zdr_Comment rec) then False
      else if boolOrFalse disable \<noteq> boolOrFalse (zdr_Disable rec) then False
      else if boolOrFalse locked \<noteq> boolOrFalse (zdr_Locked rec) then False
      else if strOrEmpty nsGroup \<noteq> strOrEmpty (zdr_NsGroup rec) then False
      else if boolOrFalse useDelegatedTTL \<noteq> boolOrFalse (zdr_UseDelegatedTtl rec) then False
      else if boolOrFalse useDelegatedTTL \<and> uint32OrZero delegatedTTL \<noteq> uint32OrZero (zdr_DelegatedTtl rec) then False
      else extAttrsEqual extAttrs (extAttrsFromEA (Strip (zdr_Ea rec))))"

text \<open>The ForProvider fields lateInitialize takes pointers to.\<close>

type_synonym zonedelegated_late = "string option \<times> string option \<times> bool option \<times> bool option \<times> bool option \<times> 32 word option \<times> extattrs \<times> string option \<times> string option"

definition ZoneDelegated_lateInitializeStrings ::
  "string option \<Rightarrow> string option \<Rightarrow> ZoneDelegatedObj \<Rightarrow> (string option \<times> string option) \<times> bool" where
  "ZoneDelegated_lateInitializeStrings comment nsGroup rec =
     (let (comment1, c1) = (if comment = None \<and> zdr_Comment rec \<noteq> None \<and> zdr_Comment rec \<noteq> Some []
                             then (zdr_Comment rec, True) else (comment, False));
            (nsGroup1, c2) = (if nsGroup = None \<and> zdr_NsGroup rec \<noteq> None \<and> zdr_NsGroup rec \<noteq> Some []
                             then (zdr_NsGroup rec, True) else (nsGroup, c1))
      in ((comment1, nsGroup1), c2))"

definition ZoneDelegated_lateInitializeFlags ::
  "bool option \<Rightarrow> bool option \<Rightarrow> bool option \<Rightarrow> ZoneDelegatedObj \<Rightarrow> (bool
      option \<times> bool option \<times> bool option) \<times> bool" where
  "ZoneDelegated_lateInitializeFlags disable locked useDelegatedTTL rec =
     (let (disable1, c1) = (if disable = None \<and> zdr_Disable rec \<noteq> None
                             then (zdr_Disable rec, True) else (disable, False));
            (locked1, c2) = (if locked = None \<and> zdr_Locked rec \<noteq> None
                             then (zdr_Locked rec, True) else (locked, c1));
            (useDelegatedTTL1, c3) = (if useDelegatedTTL = None \<and> zdr_UseDelegatedTtl rec \<noteq> None
                             then (zdr_UseDelegatedTtl rec, True) else (useDelegatedTTL, c2))
      in ((disable1, locked1, useDelegatedTTL1), c3))"

definition ZoneDelegated_lateInitializeTTLAndExtAttrs ::
  "32 word option \<Rightarrow> bool option \<Rightarrow> extattrs \<Rightarrow> ZoneDelegatedObj \<Rightarrow> (32 word option \<times> extattrs) \<times> bool" where
  "ZoneDelegated_lateInitializeTTLAndExtAttrs delegatedTTL useDelegatedTTL extAttrs rec =
     (let (delegatedTTL1, c1) = (if delegatedTTL = None \<and> zdr_DelegatedTtl rec \<noteq> None \<and> boolOrFalse
         useDelegatedTTL
                             then (zdr_DelegatedTtl rec, True) else (delegatedTTL, False));
            fromRec = extAttrsFromEA (Strip (zdr_Ea rec));
            (extAttrs1, c2) = (if extAttrs = fmempty \<and> fromRec \<noteq> fmempty
                             then (fromRec, True) else (extAttrs, c1))
      in ((delegatedTTL1, extAttrs1), c2))"

definition ZoneDelegated_lateInitializeImmutableDefaults ::
  "string option \<Rightarrow> string option \<Rightarrow> ZoneDelegatedObj \<Rightarrow> (string option \<times> string option) \<times> bool" where
  "ZoneDelegated_lateInitializeImmutableDefaults view zoneFormat rec =
     (let (view1, c1) = (if view = None \<and> zdr_View rec \<noteq> None \<and> zdr_View rec \<noteq> Some []
                             then (zdr_View rec, True) else (view, False));
            (zoneFormat1, c2) = (if zoneFormat = None \<and> zdr_ZoneFormat rec \<noteq> []
                             then (Some (zdr_ZoneFormat rec), True) else (zoneFormat, c1))
      in ((view1, zoneFormat1), c2))"

definition ZoneDelegated_lateInitialize :: "zonedelegated_late \<Rightarrow> ZoneDelegatedObj \<Rightarrow>
    zonedelegated_late \<times> bool" where
  "ZoneDelegated_lateInitialize p rec =
     (case p of (comment, nsGroup, disable, locked, useDelegatedTTL, delegatedTTL, extAttrs, view, zoneFormat) \<Rightarrow>
       (let ((comment1, nsGroup1), d1) = ZoneDelegated_lateInitializeStrings comment nsGroup rec;
            ((disable1, locked1, useDelegatedTTL1), c2) = ZoneDelegated_lateInitializeFlags disable locked
                useDelegatedTTL rec;
            d2 = (if c2 then True else d1);
            ((delegatedTTL1, extAttrs1), c3) = ZoneDelegated_lateInitializeTTLAndExtAttrs delegatedTTL
                useDelegatedTTL1 extAttrs rec;
            d3 = (if c3 then True else d2);
            ((view1, zoneFormat1), c4) = ZoneDelegated_lateInitializeImmutableDefaults view zoneFormat rec;
            d4 = (if c4 then True else d3)
        in ((comment1, nsGroup1, disable1, locked1, useDelegatedTTL1, delegatedTTL1, extAttrs1, view1, zoneFormat1),
            d4)))"

record observedZoneDelegated =
  zdo_ID :: string
  zdo_Fqdn :: "string option"
  zdo_View :: "string option"
  zdo_ZoneFormat :: "string option"
  zdo_Comment :: "string option"
  zdo_Disable :: "bool option"
  zdo_Locked :: "bool option"
  zdo_NsGroup :: "string option"
  zdo_DelegatedTTL :: "32 word option"
  zdo_UseDelegatedTTL :: "bool option"
  zdo_ExtAttrs :: extattrs
  zdo_Ref :: "string option"

definition observeFromZoneDelegated :: "string \<Rightarrow> ZoneDelegatedObj \<Rightarrow> observedZoneDelegated" where
  "observeFromZoneDelegated externalID rec =
     \<lparr>zdo_ID = externalID,
      zdo_Fqdn = ptrIfNonEmpty (zdr_Fqdn rec),
      zdo_View = ptrIfSet (zdr_View rec),
      zdo_ZoneFormat = ptrIfNonEmpty (zdr_ZoneFormat rec),
      zdo_Comment = ptrIfSet (zdr_Comment rec),
      zdo_Disable = zdr_Disable rec,
      zdo_Locked = zdr_Locked rec,
      zdo_NsGroup = ptrIfSet (zdr_NsGroup rec),
      zdo_DelegatedTTL = zdr_DelegatedTtl rec,
      zdo_UseDelegatedTTL = zdr_UseDelegatedTtl rec,
      zdo_ExtAttrs = extAttrsFromEA (zdr_Ea rec),
      zdo_Ref = ptrIfNonEmpty (zdr_Ref rec)\<rparr>"

section \<open>SDK calls\<close>

definition createZoneDelegated ::
  "(ZoneDelegatedObj, zonedelegated_req) wapi \<Rightarrow> ZoneDelegatedParameters \<Rightarrow> NameServer list
      \<Rightarrow> string \<Rightarrow> zonedelegated_req world \<Rightarrow> (goerr + ZoneDelegatedObj) \<times>
      zonedelegated_req world" where
  "createZoneDelegated env p delegateTo uid w =
     (if trim_space uid = [] then (Inl (TextError ZoneDelegated_errEmptyUID), w)
      else
        (let e = Stamp (buildEA (zdp_ExtAttrs p)) uid
         in mutate_object env
              (CreateZoneDelegated (strOrEmpty (zdp_Fqdn p)) delegateTo (strOrEmpty (zdp_Comment p)) (boolOrFalse
                  (zdp_Disable p)) (boolOrFalse (zdp_Locked p)) (strOrEmpty (zdp_NsGroup p)) (uint32OrZero
                  (zdp_DelegatedTTL p)) (boolOrFalse (zdp_UseDelegatedTTL p)) e (strOrEmpty (zdp_View p)) (strOrEmpty
                  (zdp_ZoneFormat p))) w))"

definition updateZoneDelegated ::
  "(ZoneDelegatedObj, zonedelegated_req) wapi \<Rightarrow> string \<Rightarrow> ZoneDelegatedParameters \<Rightarrow>
      NameServer list \<Rightarrow> string \<Rightarrow> zonedelegated_req world \<Rightarrow> (goerr + ZoneDelegatedObj)
      \<times> zonedelegated_req world" where
  "updateZoneDelegated env ref p delegateTo uid w =
     (if trim_space uid = [] then (Inl (TextError ZoneDelegated_errEmptyUID), w)
      else
        (let e = Stamp (buildEA (zdp_ExtAttrs p)) uid
         in mutate_object env
              (UpdateZoneDelegated ref delegateTo (strOrEmpty (zdp_Comment p)) (boolOrFalse (zdp_Disable p))
                  (boolOrFalse (zdp_Locked p)) (strOrEmpty (zdp_NsGroup p)) (uint32OrZero (zdp_DelegatedTTL p))
                  (boolOrFalse (zdp_UseDelegatedTTL p)) e) w))"

definition deleteZoneDelegated :: "(ZoneDelegatedObj, zonedelegated_req) wapi \<Rightarrow> string \<Rightarrow>
    zonedelegated_req world \<Rightarrow> goerr option \<times> zonedelegated_req world" where
  "deleteZoneDelegated env ref w =
     (case delete_object env ref w of
        (Inl err, w1) \<Rightarrow> (Some err, w1)
      | (Inr _, w1) \<Rightarrow> (None, w1))"

section \<open>Identity resolution\<close>

definition resolveZoneDelegatedIdentity ::
  "(ZoneDelegatedObj, zonedelegated_req) wapi \<Rightarrow> string \<Rightarrow> string \<Rightarrow>
      zonedelegated_req world \<Rightarrow> (goerr + ZoneDelegatedObj option \<times> Outcome) \<times> zonedelegated_req
      world" where
  "resolveZoneDelegatedIdentity env ref uid w = Resolve env ZoneDelegatedObj_type ref uid w"

type_synonym ZoneDelegated_observeResult = "(ZoneDelegatedObj, observedZoneDelegated) observeResult"

definition ZoneDelegated_notFoundResult :: ZoneDelegated_observeResult where
  "ZoneDelegated_notFoundResult =
     \<lparr>ores_exists = False, ores_rec = emptyZoneDelegatedObj, ores_obs = observeFromZoneDelegated []
         emptyZoneDelegatedObj,
      ores_lateInit = False, ores_refreshedRef = [], ores_adopted = False\<rparr>"

definition observeZoneDelegated ::
  "(ZoneDelegatedObj, zonedelegated_req) wapi \<Rightarrow> string \<Rightarrow> string \<Rightarrow> string
      \<Rightarrow> string \<Rightarrow> zonedelegated_late \<Rightarrow> zonedelegated_req world \<Rightarrow>
     (goerr + ZoneDelegated_observeResult) \<times> zonedelegated_late \<times> zonedelegated_req world" where
  "observeZoneDelegated env endpoint crName externalName uid p w =
     (let ref = observeRefFor crName externalName in
      case resolveZoneDelegatedIdentity env ref uid w of
        (Inl err, w1) \<Rightarrow>
          if IsSearchFailure err then
            (case ensureIdentityPrerequisite env endpoint w1 of
               (Some prereqErr, w2) \<Rightarrow> (Inl prereqErr, p, w2)
             | (None, w2) \<Rightarrow> (Inl err, p, w2))
          else (Inl err, p, w1)
      | (Inr (obj, outcome), w1) \<Rightarrow>
          if outcome = OutcomeNotFound then (Inr ZoneDelegated_notFoundResult, p, w1)
          else
            (case obj of
               None \<Rightarrow> (Inl (TextError nilDereference), p, w1)
             | Some rec \<Rightarrow>
                 (case ZoneDelegated_lateInitialize p rec of (p1, changed) \<Rightarrow>
                    (let found = (outcome = OutcomeRotated \<or> outcome = OutcomeFoundByUID)
                     in (Inr \<lparr>ores_exists = True, ores_rec = rec,
                              ores_obs = observeFromZoneDelegated (zdr_Ref rec) rec,
                              ores_lateInit = (if found then True else changed),
                              ores_refreshedRef = (if found then zdr_Ref rec else []),
                              ores_adopted = (outcome = OutcomeAdopted)\<rparr>, p1, w1)))))"

definition deleteZoneDelegatedIdentity ::
  "(ZoneDelegatedObj, zonedelegated_req) wapi \<Rightarrow> string \<Rightarrow> string \<Rightarrow> string
      \<Rightarrow> zonedelegated_req world \<Rightarrow> goerr option \<times> zonedelegated_req world" where
  "deleteZoneDelegatedIdentity env endpoint ref uid w =
     (case resolveZoneDelegatedIdentity env ref uid w of
        (Inl err, w1) \<Rightarrow>
          if IsSearchFailure err then
            (case ensureIdentityPrerequisite env endpoint w1 of
               (Some prereqErr, w2) \<Rightarrow> (Some prereqErr, w2)
             | (None, w2) \<Rightarrow> (Some (Wrapped errDeleteZoneDelegated err), w2))
          else (Some (Wrapped errDeleteZoneDelegated err), w1)
      | (Inr (obj, outcome), w1) \<Rightarrow>
          (case outcome of
             OutcomeNotFound \<Rightarrow> (None, w1)
           | OutcomeAdopted \<Rightarrow> (Some (TextError errDeleteUnverifiedOwnership), w1)
           | _ \<Rightarrow>
               (case obj of
                  None \<Rightarrow> (Some (TextError nilDereference), w1)
                | Some rec \<Rightarrow>
                    (case deleteZoneDelegated env (zdr_Ref rec) w1 of
                       (None, w2) \<Rightarrow> (None, w2)
                     | (Some delErr, w2) \<Rightarrow>
                         if isNotFound (Some delErr) then (None, w2)
                         else (Some (Wrapped errDeleteZoneDelegated delErr), w2)))))"

section \<open>The external clients\<close>

text \<open>The pointers to spec fields Observe hands over, and their write-back.\<close>

definition ZoneDelegated_latePart :: "ZoneDelegatedParameters \<Rightarrow> zonedelegated_late" where
  "ZoneDelegated_latePart p = (zdp_Comment p, zdp_NsGroup p, zdp_Disable p, zdp_Locked p, zdp_UseDelegatedTTL p,
      zdp_DelegatedTTL p, zdp_ExtAttrs p, zdp_View p, zdp_ZoneFormat p)"

definition ZoneDelegated_setLate :: "ZoneDelegatedParameters \<Rightarrow> zonedelegated_late \<Rightarrow>
    ZoneDelegatedParameters" where
  "ZoneDelegated_setLate p l = (case l of (comment, nsGroup, disable, locked, useDelegatedTTL, delegatedTTL, extAttrs,
      view, zoneFormat) \<Rightarrow>
     p\<lparr>zdp_Comment := comment, zdp_NsGroup := nsGroup, zdp_Disable := disable, zdp_Locked := locked,
         zdp_UseDelegatedTTL := useDelegatedTTL, zdp_DelegatedTTL := delegatedTTL, zdp_ExtAttrs := extAttrs, zdp_View :=
         view, zdp_ZoneFormat := zoneFormat\<rparr>)"

subsection \<open>namespaced.go\<close>

definition namespacedDelegateToSDK :: "crdNameServer list \<Rightarrow> NameServer list" where
  "namespacedDelegateToSDK xs =
     (if xs = [] then []
      else map (\<lambda>ns. \<lparr>ns_Name = strOrEmpty (cns_Name ns), ns_Address = strOrEmpty (cns_Address
          ns)\<rparr>) xs)"

definition namespacedDelegateFromSDK :: "NameServer list \<Rightarrow> crdNameServer list" where
  "namespacedDelegateFromSDK xs =
     (if xs = [] then []
      else map (\<lambda>ns. \<lparr>cns_Name = Some (ns_Name ns), cns_Address = Some (ns_Address ns)\<rparr>) xs)"

definition namespaced_ZoneDelegated_Observe ::
  "(ZoneDelegatedObj, zonedelegated_req) wapi \<Rightarrow> string \<Rightarrow> ZoneDelegatedCR \<Rightarrow>
      zonedelegated_req world \<Rightarrow> (goerr + ExternalObservation) \<times> ZoneDelegatedCR \<times>
      zonedelegated_req world" where
  "namespaced_ZoneDelegated_Observe env endpoint cr w =
     (case observeZoneDelegated env endpoint (mo_name cr) (GetExternalName cr) (mo_uid cr)
             (ZoneDelegated_latePart (zd_ForProvider cr)) w of
        (Inl err, l, w1) \<Rightarrow>
          (let cr1 = cr\<lparr>zd_ForProvider := ZoneDelegated_setLate (zd_ForProvider cr) l\<rparr> in
           if errors_as is_PrerequisiteError err then (Inl err, cr1, w1)
           else (Inl (Wrapped errObserveZoneDelegated err), cr1, w1))
      | (Inr res, l, w1) \<Rightarrow>
          (let p = ZoneDelegated_setLate (zd_ForProvider cr) l;
               cr1 = cr\<lparr>zd_ForProvider := p\<rparr> in
           if \<not> ores_exists res then (Inr notExists, cr1, w1)
           else
             (let rec = ores_rec res; o1 = ores_obs res;
                  cr2 = cr1\<lparr>zd_AtProvider :=
                    \<lparr>zds_ID = zdo_ID o1, zds_Fqdn = zdo_Fqdn o1, zds_DelegateTo = namespacedDelegateFromSDK
                     (zdr_DelegateTo rec), zds_View = zdo_View o1, zds_ZoneFormat = zdo_ZoneFormat
                     o1, zds_Comment = zdo_Comment o1, zds_Disable = zdo_Disable o1, zds_Locked =
                     zdo_Locked o1, zds_NsGroup = zdo_NsGroup o1, zds_DelegatedTTL =
                     zdo_DelegatedTTL o1, zds_UseDelegatedTTL = zdo_UseDelegatedTTL o1, zds_ExtAttrs
                     = zdo_ExtAttrs o1, zds_Ref = zdo_Ref o1\<rparr>\<rparr>;
                  cr3 = (if ores_refreshedRef res \<noteq> [] then SetExternalName (ores_refreshedRef res) cr2 else cr2);
                  cr4 = SetAvailable cr3;
                  upToDate = (ZoneDelegated_isUpToDate (namespacedDelegateToSDK (zdp_DelegateTo p)) (zdp_Comment p)
                      (zdp_NsGroup p)
                                (zdp_Disable p) (zdp_Locked p) (zdp_UseDelegatedTTL p)
                                (zdp_DelegatedTTL p) (zdp_ExtAttrs p) rec
                                \<and> \<not> ores_adopted res)
              in (Inr \<lparr>ResourceExists = True, ResourceUpToDate = upToDate,
                       ResourceLateInitialized = ores_lateInit res\<rparr>, cr4, w1))))"

definition namespaced_ZoneDelegated_Create ::
  "(ZoneDelegatedObj, zonedelegated_req) wapi \<Rightarrow> string \<Rightarrow> ZoneDelegatedCR \<Rightarrow>
      zonedelegated_req world \<Rightarrow> goerr option \<times> ZoneDelegatedCR \<times> zonedelegated_req world" where
  "namespaced_ZoneDelegated_Create env endpoint cr w =
     (let p = zd_ForProvider cr; uid = mo_uid cr in
      if trim_space uid = [] then (Some (TextError ZoneDelegated_errEmptyUID), cr, w)
      else
          (case ensureIdentityPrerequisite env endpoint w of
             (Some err, w1) \<Rightarrow> (Some err, cr, w1)
           | (None, w1) \<Rightarrow>
               (case createZoneDelegated env p (namespacedDelegateToSDK (zdp_DelegateTo p)) uid w1 of
                  (Inl err, w2) \<Rightarrow> (Some (Wrapped errCreateZoneDelegated err), cr, w2)
                | (Inr rec, w2) \<Rightarrow> (None, SetExternalName (zdr_Ref rec) cr, w2))))"

definition namespaced_ZoneDelegated_Update ::
  "(ZoneDelegatedObj, zonedelegated_req) wapi \<Rightarrow> string \<Rightarrow> ZoneDelegatedCR \<Rightarrow>
      zonedelegated_req world \<Rightarrow> goerr option \<times> ZoneDelegatedCR \<times> zonedelegated_req world" where
  "namespaced_ZoneDelegated_Update env endpoint cr w =
     (let p = zd_ForProvider cr; externalID = GetExternalName cr in
      case ensureIdentityPrerequisite env endpoint w of
        (Some err, w1) \<Rightarrow> (Some err, cr, w1)
      | (None, w1) \<Rightarrow>
          (case updateZoneDelegated env externalID p (namespacedDelegateToSDK (zdp_DelegateTo p)) (mo_uid cr) w1 of
             (Inl err, w2) \<Rightarrow> (Some (Wrapped errUpdateZoneDelegated err), cr, w2)
           | (Inr rec, w2) \<Rightarrow>
               if zdr_Ref rec \<noteq> [] \<and> zdr_Ref rec \<noteq> externalID then
                 (case Refresh env cr (zdr_Ref rec) w2 of
                    (Some err, cr1, w3) \<Rightarrow> (Some (Wrapped errPersistExternalName err), cr1, w3)
                  | (None, cr1, w3) \<Rightarrow> (None, cr1, w3))
               else (None, cr, w2)))"

definition namespaced_ZoneDelegated_Delete ::
  "(ZoneDelegatedObj, zonedelegated_req) wapi \<Rightarrow> string \<Rightarrow> ZoneDelegatedCR \<Rightarrow>
      zonedelegated_req world \<Rightarrow> goerr option \<times> zonedelegated_req world" where
  "namespaced_ZoneDelegated_Delete env endpoint cr w =
     (let externalID = GetExternalName cr in
      case deleteZoneDelegatedIdentity env endpoint externalID (mo_uid cr) w of
        (Some err, w1) \<Rightarrow> (Some err, w1)
      | (None, w1) \<Rightarrow> (None, w1))"

subsection \<open>cluster.go\<close>

definition clusterDelegateToSDK :: "crdNameServer list \<Rightarrow> NameServer list" where
  "clusterDelegateToSDK xs =
     (if xs = [] then []
      else map (\<lambda>ns. \<lparr>ns_Name = strOrEmpty (cns_Name ns), ns_Address = strOrEmpty (cns_Address
          ns)\<rparr>) xs)"

definition clusterDelegateFromSDK :: "NameServer list \<Rightarrow> crdNameServer list" where
  "clusterDelegateFromSDK xs =
     (if xs = [] then []
      else map (\<lambda>ns. \<lparr>cns_Name = Some (ns_Name ns), cns_Address = Some (ns_Address ns)\<rparr>) xs)"

definition cluster_ZoneDelegated_Observe ::
  "(ZoneDelegatedObj, zonedelegated_req) wapi \<Rightarrow> string \<Rightarrow> ZoneDelegatedCR \<Rightarrow>
      zonedelegated_req world \<Rightarrow> (goerr + ExternalObservation) \<times> ZoneDelegatedCR \<times>
      zonedelegated_req world" where
  "cluster_ZoneDelegated_Observe env endpoint cr w =
     (case observeZoneDelegated env endpoint (mo_name cr) (GetExternalName cr) (mo_uid cr)
             (ZoneDelegated_latePart (zd_ForProvider cr)) w of
        (Inl err, l, w1) \<Rightarrow>
          (let cr1 = cr\<lparr>zd_ForProvider := ZoneDelegated_setLate (zd_ForProvider cr) l\<rparr> in
           if errors_as is_PrerequisiteError err then (Inl err, cr1, w1)
           else (Inl (Wrapped errObserveZoneDelegated err), cr1, w1))
      | (Inr res, l, w1) \<Rightarrow>
          (let p = ZoneDelegated_setLate (zd_ForProvider cr) l;
               cr1 = cr\<lparr>zd_ForProvider := p\<rparr> in
           if \<not> ores_exists res then (Inr notExists, cr1, w1)
           else
             (let rec = ores_rec res; o1 = ores_obs res;
                  cr2 = cr1\<lparr>zd_AtProvider :=
                    \<lparr>zds_ID = zdo_ID o1, zds_Fqdn = zdo_Fqdn o1, zds_DelegateTo = clusterDelegateFromSDK
                     (zdr_DelegateTo rec), zds_View = zdo_View o1, zds_ZoneFormat = zdo_ZoneFormat
                     o1, zds_Comment = zdo_Comment o1, zds_Disable = zdo_Disable o1, zds_Locked =
                     zdo_Locked o1, zds_NsGroup = zdo_NsGroup o1, zds_DelegatedTTL =
                     zdo_DelegatedTTL o1, zds_UseDelegatedTTL = zdo_UseDelegatedTTL o1, zds_ExtAttrs
                     = zdo_ExtAttrs o1, zds_Ref = zdo_Ref o1\<rparr>\<rparr>;
                  cr3 = (if ores_refreshedRef res \<noteq> [] then SetExternalName (ores_refreshedRef res) cr2 else cr2);
                  cr4 = SetAvailable cr3;
                  upToDate = (ZoneDelegated_isUpToDate (clusterDelegateToSDK (zdp_DelegateTo p)) (zdp_Comment p)
                      (zdp_NsGroup p)
                                (zdp_Disable p) (zdp_Locked p) (zdp_UseDelegatedTTL p)
                                (zdp_DelegatedTTL p) (zdp_ExtAttrs p) rec
                                \<and> \<not> ores_adopted res)
              in (Inr \<lparr>ResourceExists = True, ResourceUpToDate = upToDate,
                       ResourceLateInitialized = ores_lateInit res\<rparr>, cr4, w1))))"

definition cluster_ZoneDelegated_Create ::
  "(ZoneDelegatedObj, zonedelegated_req) wapi \<Rightarrow> string \<Rightarrow> ZoneDelegatedCR \<Rightarrow>
      zonedelegated_req world \<Rightarrow> goerr option \<times> ZoneDelegatedCR \<times> zonedelegated_req world" where
  "cluster_ZoneDelegated_Create env endpoint cr w =
     (let p = zd_ForProvider cr; uid = mo_uid cr in
      if trim_space uid = [] then (Some (TextError ZoneDelegated_errEmptyUID), cr, w)
      else
          (case ensureIdentityPrerequisite env endpoint w of
             (Some err, w1) \<Rightarrow> (Some err, cr, w1)
           | (None, w1) \<Rightarrow>
               (case createZoneDelegated env p (clusterDelegateToSDK (zdp_DelegateTo p)) uid w1 of
                  (Inl err, w2) \<Rightarrow> (Some (Wrapped errCreateZoneDelegated err), cr, w2)
                | (Inr rec, w2) \<Rightarrow> (None, SetExternalName (zdr_Ref rec) cr, w2))))"

definition cluster_ZoneDelegated_Update ::
  "(ZoneDelegatedObj, zonedelegated_req) wapi \<Rightarrow> string \<Rightarrow> ZoneDelegatedCR \<Rightarrow>
      zonedelegated_req world \<Rightarrow> goerr option \<times> ZoneDelegatedCR \<times> zonedelegated_req world" where
  "cluster_ZoneDelegated_Update env endpoint cr w =
     (let p = zd_ForProvider cr; externalID = GetExternalName cr in
      case ensureIdentityPrerequisite env endpoint w of
        (Some err, w1) \<Rightarrow> (Some err, cr, w1)
      | (None, w1) \<Rightarrow>
          (case updateZoneDelegated env externalID p (clusterDelegateToSDK (zdp_DelegateTo p)) (mo_uid cr) w1 of
             (Inl err, w2) \<Rightarrow> (Some (Wrapped errUpdateZoneDelegated err), cr, w2)
           | (Inr rec, w2) \<Rightarrow>
               if zdr_Ref rec \<noteq> [] \<and> zdr_Ref rec \<noteq> externalID then
                 (case Refresh env cr (zdr_Ref rec) w2 of
                    (Some err, cr1, w3) \<Rightarrow> (Some (Wrapped errPersistExternalName err), cr1, w3)
                  | (None, cr1, w3) \<Rightarrow> (None, cr1, w3))
               else (None, cr, w2)))"

definition cluster_ZoneDelegated_Delete ::
  "(ZoneDelegatedObj, zonedelegated_req) wapi \<Rightarrow> string \<Rightarrow> ZoneDelegatedCR \<Rightarrow>
      zonedelegated_req world \<Rightarrow> goerr option \<times> zonedelegated_req world" where
  "cluster_ZoneDelegated_Delete env endpoint cr w =
     (let externalID = GetExternalName cr in
      case deleteZoneDelegatedIdentity env endpoint externalID (mo_uid cr) w of
        (Some err, w1) \<Rightarrow> (Some err, w1)
      | (None, w1) \<Rightarrow> (None, w1))"

section \<open>The contract of the ladder client\<close>

text \<open>The requests of a spec, what a Grid object holds of a request, and the drift check of a resource.\<close>

definition zonedelegated_create_request :: "ZoneDelegatedParameters \<Rightarrow> string \<Rightarrow> zonedelegated_req" where
  "zonedelegated_create_request p uid = CreateZoneDelegated
     (strOrEmpty (zdp_Fqdn p)) (namespacedDelegateToSDK (zdp_DelegateTo p)) (strOrEmpty (zdp_Comment p)) (boolOrFalse
         (zdp_Disable p)) (boolOrFalse (zdp_Locked p)) (strOrEmpty (zdp_NsGroup p)) (uint32OrZero (zdp_DelegatedTTL p))
         (boolOrFalse (zdp_UseDelegatedTTL p)) (Stamp (buildEA (zdp_ExtAttrs p)) uid) (strOrEmpty (zdp_View p))
         (strOrEmpty (zdp_ZoneFormat p))"

definition zonedelegated_update_request :: "string \<Rightarrow> ZoneDelegatedParameters \<Rightarrow> string \<Rightarrow> zonedelegated_req" where
  "zonedelegated_update_request ref p uid = UpdateZoneDelegated ref
     (namespacedDelegateToSDK (zdp_DelegateTo p)) (strOrEmpty (zdp_Comment p)) (boolOrFalse (zdp_Disable p))
         (boolOrFalse (zdp_Locked p)) (strOrEmpty (zdp_NsGroup p)) (uint32OrZero (zdp_DelegatedTTL p)) (boolOrFalse
         (zdp_UseDelegatedTTL p)) (Stamp (buildEA (zdp_ExtAttrs p)) uid)"

fun zonedelegated_req_ea :: "zonedelegated_req \<Rightarrow> ea" where
  "zonedelegated_req_ea (CreateZoneDelegated fqdn delegateTo comment disable locked nsGroup delegatedTTL useDelegatedTTL ea view zoneFormat) = ea"
| "zonedelegated_req_ea (UpdateZoneDelegated ref delegateTo comment disable locked nsGroup delegatedTTL useDelegatedTTL ea) = ea"

fun zonedelegated_holds :: "zonedelegated_req \<Rightarrow> ZoneDelegatedObj \<Rightarrow> bool" where
  "zonedelegated_holds (CreateZoneDelegated fqdn delegateTo comment disable locked nsGroup delegatedTTL useDelegatedTTL ea view zoneFormat) rec \<longleftrightarrow>
     nameServersEqual delegateTo (zdr_DelegateTo rec) \<and>
     strOrEmpty (zdr_Comment rec) = comment \<and>
     boolOrFalse (zdr_Disable rec) = disable \<and>
     boolOrFalse (zdr_Locked rec) = locked \<and>
     strOrEmpty (zdr_NsGroup rec) = nsGroup \<and>
     boolOrFalse (zdr_UseDelegatedTtl rec) = useDelegatedTTL \<and>
     (useDelegatedTTL \<longrightarrow> uint32OrZero (zdr_DelegatedTtl rec) = delegatedTTL) \<and>
     zdr_Ea rec = ea"
| "zonedelegated_holds (UpdateZoneDelegated ref delegateTo comment disable locked nsGroup delegatedTTL useDelegatedTTL ea) rec \<longleftrightarrow>
     nameServersEqual delegateTo (zdr_DelegateTo rec) \<and>
     strOrEmpty (zdr_Comment rec) = comment \<and>
     boolOrFalse (zdr_Disable rec) = disable \<and>
     boolOrFalse (zdr_Locked rec) = locked \<and>
     strOrEmpty (zdr_NsGroup rec) = nsGroup \<and>
     boolOrFalse (zdr_UseDelegatedTtl rec) = useDelegatedTTL \<and>
     (useDelegatedTTL \<longrightarrow> uint32OrZero (zdr_DelegatedTtl rec) = delegatedTTL) \<and>
     zdr_Ea rec = ea"

definition ZoneDelegated_utd :: "ZoneDelegatedCR \<Rightarrow> ZoneDelegatedObj \<Rightarrow> bool" where
  "ZoneDelegated_utd cr rec = (let p = zd_ForProvider cr in
     ZoneDelegated_isUpToDate (namespacedDelegateToSDK (zdp_DelegateTo p)) (zdp_Comment p) (zdp_NsGroup p)
                                (zdp_Disable p) (zdp_Locked p) (zdp_UseDelegatedTTL p)
                                (zdp_DelegatedTTL p) (zdp_ExtAttrs p) rec)"

definition ZoneDelegated_spec_ok :: "ZoneDelegatedCR \<Rightarrow> bool" where
  "ZoneDelegated_spec_ok cr \<longleftrightarrow> (let p = zd_ForProvider cr in reserved_free (zdp_ExtAttrs p))"

definition ZoneDelegated_keeps :: "zonedelegated_late \<Rightarrow> zonedelegated_late \<Rightarrow> bool" where
  "ZoneDelegated_keeps l l' = (case (l, l') of ((comment, nsGroup, disable, locked, useDelegatedTTL, delegatedTTL,
      extAttrs, view, zoneFormat), (comment', nsGroup', disable', locked', useDelegatedTTL', delegatedTTL', extAttrs',
      view', zoneFormat')) \<Rightarrow>
     keeps_set comment comment' \<and> keeps_set nsGroup nsGroup' \<and> keeps_set disable disable' \<and> keeps_set locked locked' \<and> keeps_set useDelegatedTTL useDelegatedTTL' \<and> keeps_set delegatedTTL delegatedTTL' \<and> keeps_attrs extAttrs extAttrs' \<and> keeps_set view view' \<and> keeps_set zoneFormat zoneFormat')"

definition ZoneDelegated_get :: "ZoneDelegatedCR \<Rightarrow> zonedelegated_late" where
  "ZoneDelegated_get cr = ZoneDelegated_latePart (zd_ForProvider cr)"

definition ZoneDelegated_put :: "ZoneDelegatedCR \<Rightarrow> zonedelegated_late \<Rightarrow> ZoneDelegatedCR" where
  "ZoneDelegated_put cr l = cr\<lparr>zd_ForProvider := ZoneDelegated_setLate (zd_ForProvider cr) l\<rparr>"

definition ZoneDelegated_status :: "ZoneDelegatedObj \<Rightarrow> ZoneDelegatedCR \<Rightarrow> ZoneDelegatedCR" where
  "ZoneDelegated_status rec cr =
     (let o1 = observeFromZoneDelegated (zdr_Ref rec) rec; p = zd_ForProvider cr in
      cr\<lparr>zd_AtProvider :=
        \<lparr>zds_ID = zdo_ID o1, zds_Fqdn = zdo_Fqdn o1, zds_DelegateTo = namespacedDelegateFromSDK
        (zdr_DelegateTo rec), zds_View = zdo_View o1, zds_ZoneFormat = zdo_ZoneFormat o1,
        zds_Comment = zdo_Comment o1, zds_Disable = zdo_Disable o1, zds_Locked = zdo_Locked o1,
        zds_NsGroup = zdo_NsGroup o1, zds_DelegatedTTL = zdo_DelegatedTTL o1, zds_UseDelegatedTTL =
        zdo_UseDelegatedTTL o1, zds_ExtAttrs = zdo_ExtAttrs o1, zds_Ref = zdo_Ref o1\<rparr>\<rparr>)"

definition ZoneDelegated_valid :: "ZoneDelegatedCR \<Rightarrow> goerr option" where
  "ZoneDelegated_valid cr = (let p = zd_ForProvider cr; uid = mo_uid cr in if trim_space uid = [] then Some (TextError ZoneDelegated_errEmptyUID) else None)"

lemma ZoneDelegated_lateInitializeStrings_eq:
  "ZoneDelegated_lateInitializeStrings comment nsGroup rec =
     (let comment1 = fill comment (ptrIfSet (zdr_Comment rec));
          nsGroup1 = fill nsGroup (ptrIfSet (zdr_NsGroup rec))
      in ((comment1, nsGroup1), (comment1, nsGroup1) \<noteq> (comment, nsGroup)))"
  by (simp only: ZoneDelegated_lateInitializeStrings_def userAttrs_def [symmetric] Let_def case_prod_conv fill_steps
      prod.inject fill_changed ptrIfSet_set simp_thms de_Morgan_conj disj_ac)

lemma ZoneDelegated_lateInitializeFlags_eq:
  "ZoneDelegated_lateInitializeFlags disable locked useDelegatedTTL rec =
     (let disable1 = fill disable (zdr_Disable rec);
          locked1 = fill locked (zdr_Locked rec);
          useDelegatedTTL1 = fill useDelegatedTTL (zdr_UseDelegatedTtl rec)
      in ((disable1, locked1, useDelegatedTTL1), (disable1, locked1, useDelegatedTTL1) \<noteq> (disable, locked,
          useDelegatedTTL)))"
  by (simp only: ZoneDelegated_lateInitializeFlags_def userAttrs_def [symmetric] Let_def case_prod_conv fill_steps
      prod.inject fill_changed ptrIfSet_set simp_thms de_Morgan_conj disj_ac)

lemma ZoneDelegated_lateInitializeTTLAndExtAttrs_eq:
  "ZoneDelegated_lateInitializeTTLAndExtAttrs delegatedTTL useDelegatedTTL extAttrs rec =
     (let delegatedTTL1 = fill_if delegatedTTL (boolOrFalse useDelegatedTTL) (zdr_DelegatedTtl rec);
          extAttrs1 = fill_map extAttrs (userAttrs (zdr_Ea rec))
      in ((delegatedTTL1, extAttrs1), (delegatedTTL1, extAttrs1) \<noteq> (delegatedTTL, extAttrs)))"
  by (simp only: ZoneDelegated_lateInitializeTTLAndExtAttrs_def userAttrs_def [symmetric] Let_def case_prod_conv fill_steps
      prod.inject fill_changed ptrIfSet_set simp_thms de_Morgan_conj disj_ac)

lemma ZoneDelegated_lateInitializeImmutableDefaults_eq:
  "ZoneDelegated_lateInitializeImmutableDefaults view zoneFormat rec =
     (let view1 = fill view (ptrIfSet (zdr_View rec));
          zoneFormat1 = fill zoneFormat (ptrIfNonEmpty (zdr_ZoneFormat rec))
      in ((view1, zoneFormat1), (view1, zoneFormat1) \<noteq> (view, zoneFormat)))"
  by (simp only: ZoneDelegated_lateInitializeImmutableDefaults_def userAttrs_def [symmetric] Let_def case_prod_conv fill_steps
      prod.inject fill_changed ptrIfSet_set simp_thms de_Morgan_conj disj_ac)

lemma ZoneDelegated_lateInitialize_eq:
  "ZoneDelegated_lateInitialize (comment, nsGroup, disable, locked, useDelegatedTTL, delegatedTTL, extAttrs, view,
      zoneFormat) rec =
     (let comment1 = fill comment (ptrIfSet (zdr_Comment rec));
          nsGroup1 = fill nsGroup (ptrIfSet (zdr_NsGroup rec));
          disable1 = fill disable (zdr_Disable rec);
          locked1 = fill locked (zdr_Locked rec);
          useDelegatedTTL1 = fill useDelegatedTTL (zdr_UseDelegatedTtl rec);
          delegatedTTL1 = fill_if delegatedTTL (boolOrFalse useDelegatedTTL1) (zdr_DelegatedTtl rec);
          extAttrs1 = fill_map extAttrs (userAttrs (zdr_Ea rec));
          view1 = fill view (ptrIfSet (zdr_View rec));
          zoneFormat1 = fill zoneFormat (ptrIfNonEmpty (zdr_ZoneFormat rec))
      in ((comment1, nsGroup1, disable1, locked1, useDelegatedTTL1, delegatedTTL1, extAttrs1, view1, zoneFormat1),
          (comment1, nsGroup1, disable1, locked1, useDelegatedTTL1, delegatedTTL1, extAttrs1, view1, zoneFormat1) \<noteq>
          (comment, nsGroup, disable, locked, useDelegatedTTL, delegatedTTL, extAttrs, view, zoneFormat)))"
  by (simp only: ZoneDelegated_lateInitialize_def Let_def case_prod_conv ZoneDelegated_lateInitializeStrings_eq ZoneDelegated_lateInitializeFlags_eq ZoneDelegated_lateInitializeTTLAndExtAttrs_eq ZoneDelegated_lateInitializeImmutableDefaults_eq prod.inject
      fill_steps simp_thms de_Morgan_conj disj_ac)

interpretation zonedelegated_late: late_lens ZoneDelegated_lateInitialize ZoneDelegated_keeps ZoneDelegated_get ZoneDelegated_put ZoneDelegated_utd
proof
  fix l l' :: zonedelegated_late and rec :: ZoneDelegatedObj and cr :: ZoneDelegatedCR
  obtain comment nsGroup disable locked useDelegatedTTL delegatedTTL extAttrs view zoneFormat where l: "l = (comment,
      nsGroup, disable, locked, useDelegatedTTL, delegatedTTL, extAttrs, view, zoneFormat)" by (cases l) auto
  show "ZoneDelegated_lateInitialize (fst (ZoneDelegated_lateInitialize l rec)) rec = (fst
      (ZoneDelegated_lateInitialize l rec), False)"
    by (simp add: l ZoneDelegated_lateInitialize_eq Let_def)
  show "snd (ZoneDelegated_lateInitialize l rec) \<longleftrightarrow> fst (ZoneDelegated_lateInitialize l rec) \<noteq> l"
    by (simp add: l ZoneDelegated_lateInitialize_eq Let_def)
  show "ZoneDelegated_keeps l (fst (ZoneDelegated_lateInitialize l rec))"
    by (simp add: l ZoneDelegated_lateInitialize_eq Let_def ZoneDelegated_keeps_def keeps_fill)
  show "ZoneDelegated_get (ZoneDelegated_put cr l) = l"
    by (simp add: l ZoneDelegated_get_def ZoneDelegated_put_def ZoneDelegated_latePart_def ZoneDelegated_setLate_def)
  show "ZoneDelegated_put cr (ZoneDelegated_get cr) = cr"
    by (simp add: ZoneDelegated_get_def ZoneDelegated_put_def ZoneDelegated_latePart_def ZoneDelegated_setLate_def)
  show "ZoneDelegated_put (ZoneDelegated_put cr l) l' = ZoneDelegated_put cr l'"
    by (simp add: ZoneDelegated_put_def ZoneDelegated_setLate_def split: prod.split)
  show "ZoneDelegated_utd (ZoneDelegated_put cr (fst (ZoneDelegated_lateInitialize (ZoneDelegated_get cr) rec))) rec" if "ZoneDelegated_utd cr rec"
    using that
    by (auto simp: ZoneDelegated_get_def ZoneDelegated_put_def ZoneDelegated_latePart_def ZoneDelegated_setLate_def ZoneDelegated_lateInitialize_eq Let_def
        ZoneDelegated_utd_def ZoneDelegated_isUpToDate_def extAttrsEqual_iff simp flip: userAttrs_def split: if_splits)
qed

lemma ZoneDelegatedObj_type_simps [simp]:
  "ot_name ZoneDelegatedObj_type = ''zone_delegated''" "ref_ea_shape ZoneDelegatedObj_type"
  "stamped ZoneDelegatedObj_type rec = eaValue (zdr_Ea rec) EAKey"
  by (simp_all add: ref_ea_shape_def stamped_def ZoneDelegatedObj_type_def reflectZoneDelegatedObj_def getRef_def getEA_def)

lemma deleteZoneDelegated_issue: "deleteZoneDelegated env = issue_delete env"
  by (intro ext) (simp only: deleteZoneDelegated_def issue_delete_def)

lemma createZoneDelegated_valid:
  assumes "ZoneDelegated_valid cr = None"
  shows "createZoneDelegated env (zd_ForProvider cr) (namespacedDelegateToSDK (zdp_DelegateTo (zd_ForProvider cr)))
      (mo_uid cr) w = mutate_object env (zonedelegated_create_request (zd_ForProvider cr) (mo_uid cr)) w"
  using assms
  by (auto simp: createZoneDelegated_def zonedelegated_create_request_def ZoneDelegated_valid_def Let_def split: if_splits option.splits)


lemma ZoneDelegated_Observe_shape:
  "namespaced_ZoneDelegated_Observe env ep cr w =
     ladder_observe_shape (ladder_observe_error errObserveZoneDelegated) (Resolve env ZoneDelegatedObj_type)
         (ensureIdentityPrerequisite env ep)
       (\<lambda>r. r \<noteq> []) (\<lambda>r. True) (lift_late ZoneDelegated_lateInitialize ZoneDelegated_get
           ZoneDelegated_put) ZoneDelegated_status ZoneDelegated_utd zdr_Ref cr w"
proof -
  have same: "cr\<lparr>zd_ForProvider := ZoneDelegated_setLate (zd_ForProvider cr) (ZoneDelegated_latePart
      (zd_ForProvider cr))\<rparr> = cr"
    by (simp add: ZoneDelegated_latePart_def ZoneDelegated_setLate_def)
  obtain r w1 where r: "Resolve env ZoneDelegatedObj_type (observeRefFor (mo_name cr) (GetExternalName cr)) (mo_uid
      cr) w = (r, w1)"
    by (cases "Resolve env ZoneDelegatedObj_type (observeRefFor (mo_name cr) (GetExternalName cr)) (mo_uid cr) w")
  obtain e w2 where e: "ensureIdentityPrerequisite env ep w1 = (e, w2)"
    by (cases "ensureIdentityPrerequisite env ep w1")
  note defs = namespaced_ZoneDelegated_Observe_def observeZoneDelegated_def resolveZoneDelegatedIdentity_def ladder_observe_shape_def ladder_observe_error_def
  show ?thesis
  proof (cases r)
    case (Inl err)
    then show ?thesis
      by (cases e) (simp_all add: defs Let_def r e same)
  next
    case (Inr a)
    obtain obj out where a: "a = (obj, out)" by (cases a)
    show ?thesis
    proof (cases obj)
      case None
      then show ?thesis
        by (simp add: defs Let_def r Inr a same ZoneDelegated_notFoundResult_def)
    next
      case (Some rec)
      obtain l c where "ZoneDelegated_lateInitialize (ZoneDelegated_latePart (zd_ForProvider cr)) rec = (l, c)"
        by (cases "ZoneDelegated_lateInitialize (ZoneDelegated_latePart (zd_ForProvider cr)) rec")
      with Some show ?thesis
        by (simp add: defs Let_def r Inr a same lift_late_def ZoneDelegated_get_def ZoneDelegated_put_def
            ZoneDelegated_status_def ZoneDelegated_utd_def ZoneDelegated_notFoundResult_def observeFromZoneDelegated_def)
    qed
  qed
qed

lemma ZoneDelegated_Create_shape:
  "namespaced_ZoneDelegated_Create env ep cr w =
     ladder_create_shape errCreateZoneDelegated ZoneDelegated_valid (ensureIdentityPrerequisite env ep) (mutate_object env)
       (\<lambda>cr. zonedelegated_create_request (zd_ForProvider cr) (mo_uid cr)) zdr_Ref cr w"
proof -
  obtain e w1 where e: "ensureIdentityPrerequisite env ep w = (e, w1)"
    by (cases "ensureIdentityPrerequisite env ep w")
  have v: "(let p = zd_ForProvider cr; uid = mo_uid cr in if trim_space uid = [] then Some (TextError ZoneDelegated_errEmptyUID) else None) = ZoneDelegated_valid cr"
    by (simp only: ZoneDelegated_valid_def)
  show ?thesis
  proof (cases "ZoneDelegated_valid cr")
    case None
    then show ?thesis
      using createZoneDelegated_valid [OF None, of env w1] v
      by (cases e) (simp_all add: namespaced_ZoneDelegated_Create_def ladder_create_shape_def Let_def e split: if_splits)
  next
    case (Some err)
    then show ?thesis
      using v by (simp add: namespaced_ZoneDelegated_Create_def ladder_create_shape_def Let_def split: if_splits)
  qed
qed

lemma ZoneDelegated_Update_shape:
  "namespaced_ZoneDelegated_Update env ep cr w =
     ladder_update_shape errUpdateZoneDelegated ZoneDelegated_errEmptyUID env (ensureIdentityPrerequisite env ep)
       (\<lambda>cr. zonedelegated_update_request (GetExternalName cr) (zd_ForProvider cr) (mo_uid cr)) zdr_Ref cr w"
proof -
  obtain e w1 where e: "ensureIdentityPrerequisite env ep w = (e, w1)"
    by (cases "ensureIdentityPrerequisite env ep w")
  show ?thesis
    by (cases e; cases "wapi_mutate env (calls w1) (zonedelegated_update_request (GetExternalName cr) (zd_ForProvider
        cr) (mo_uid cr))")
      (auto simp: namespaced_ZoneDelegated_Update_def ladder_update_shape_def updateZoneDelegated_def zonedelegated_update_request_def
        Let_def e mutate_object_def)
qed

lemma ZoneDelegated_Delete_shape:
  "namespaced_ZoneDelegated_Delete env ep cr w =
     ladder_delete_shape errDeleteZoneDelegated errDeleteUnverifiedOwnership nilDereference
       (Resolve env ZoneDelegatedObj_type (GetExternalName cr) (mo_uid cr)) (ensureIdentityPrerequisite env ep)
       (issue_delete env) zdr_Ref w"
proof -
  have "namespaced_ZoneDelegated_Delete env ep cr w = deleteZoneDelegatedIdentity env ep (GetExternalName cr) (mo_uid cr) w"
    by (simp add: namespaced_ZoneDelegated_Delete_def Let_def split: prod.split option.split)
  then show ?thesis
    by (simp only: deleteZoneDelegatedIdentity_def ladder_delete_shape_def resolveZoneDelegatedIdentity_def deleteZoneDelegated_issue)
qed

lemma ZoneDelegated_DelegateToSDK_scopes: "clusterDelegateToSDK = namespacedDelegateToSDK"
  by (intro ext) (simp only: clusterDelegateToSDK_def namespacedDelegateToSDK_def)

lemma ZoneDelegated_DelegateFromSDK_scopes: "clusterDelegateFromSDK = namespacedDelegateFromSDK"
  by (intro ext) (simp only: clusterDelegateFromSDK_def namespacedDelegateFromSDK_def ZoneDelegated_DelegateToSDK_scopes)

lemma ZoneDelegated_scopes:
  "cluster_ZoneDelegated_Observe = namespaced_ZoneDelegated_Observe" "cluster_ZoneDelegated_Create = namespaced_ZoneDelegated_Create"
  "cluster_ZoneDelegated_Update = namespaced_ZoneDelegated_Update" "cluster_ZoneDelegated_Delete = namespaced_ZoneDelegated_Delete"
  by (intro ext, simp only: cluster_ZoneDelegated_Observe_def namespaced_ZoneDelegated_Observe_def
      cluster_ZoneDelegated_Create_def
      namespaced_ZoneDelegated_Create_def cluster_ZoneDelegated_Update_def namespaced_ZoneDelegated_Update_def
      cluster_ZoneDelegated_Delete_def namespaced_ZoneDelegated_Delete_def ZoneDelegated_DelegateToSDK_scopes ZoneDelegated_DelegateFromSDK_scopes)+

lemma zonedelegated_written_utd:
  assumes "ZoneDelegated_spec_ok cr"
    and "zonedelegated_holds (zonedelegated_create_request (zd_ForProvider cr) (mo_uid cr)) rec \<and>
        ZoneDelegated_valid cr = None \<or>
      zonedelegated_holds (zonedelegated_update_request (GetExternalName cr) (zd_ForProvider cr) (mo_uid cr)) rec"
  shows "ZoneDelegated_utd (fst (lift_late ZoneDelegated_lateInitialize ZoneDelegated_get ZoneDelegated_put cr rec)) rec \<and>
    eaValue (zdr_Ea rec) EAKey = Some (mo_uid cr)"
proof -
  note reqs = zonedelegated_create_request_def zonedelegated_update_request_def
  have ok: "reserved_free (zdp_ExtAttrs (zd_ForProvider cr))"
    using assms(1) by (simp_all add: ZoneDelegated_spec_ok_def Let_def)
  have ea: "zdr_Ea rec = Stamp (buildEA (zdp_ExtAttrs (zd_ForProvider cr))) (mo_uid cr)"
    using assms(2) by (elim disjE) (simp_all add: reqs)
  have fields: 
    "nameServersEqual (namespacedDelegateToSDK (zdp_DelegateTo (zd_ForProvider cr))) (zdr_DelegateTo rec)" 
    "strOrEmpty (zdp_Comment (zd_ForProvider cr)) = strOrEmpty (zdr_Comment rec)" 
    "boolOrFalse (zdp_Disable (zd_ForProvider cr)) = boolOrFalse (zdr_Disable rec)" 
    "boolOrFalse (zdp_Locked (zd_ForProvider cr)) = boolOrFalse (zdr_Locked rec)" 
    "strOrEmpty (zdp_NsGroup (zd_ForProvider cr)) = strOrEmpty (zdr_NsGroup rec)" 
    "boolOrFalse (zdp_UseDelegatedTTL (zd_ForProvider cr)) = boolOrFalse (zdr_UseDelegatedTtl rec)" 
    "boolOrFalse (zdp_UseDelegatedTTL (zd_ForProvider cr)) \<Longrightarrow> uint32OrZero (zdp_DelegatedTTL (zd_ForProvider cr)) = uint32OrZero (zdr_DelegatedTtl rec)"
    using assms(2) ok by (elim disjE; simp add: reqs)+
  have "userAttrs (zdr_Ea rec) = zdp_ExtAttrs (zd_ForProvider cr)"
    using ok(1) by (simp add: ea userAttrs_buildEA reserved_free_fmdrop)
  then have "ZoneDelegated_utd cr rec"
    using fields
    by (simp add: ZoneDelegated_utd_def ZoneDelegated_isUpToDate_def Let_def extAttrsEqual_iff flip: userAttrs_def)
  with ea show ?thesis using zonedelegated_late.late_utd by simp
qed

interpretation zonedelegated: refreshing_client "lift_late ZoneDelegated_lateInitialize ZoneDelegated_get ZoneDelegated_put" ZoneDelegated_utd
  "\<lambda>s s'. ZoneDelegated_keeps (ZoneDelegated_get s) (ZoneDelegated_get s')"
  ZoneDelegatedObj_type zdr_Ref ZoneDelegated_status ZoneDelegated_valid
  "\<lambda>cr. zonedelegated_create_request (zd_ForProvider cr) (mo_uid cr)"
  "\<lambda>cr. zonedelegated_update_request (GetExternalName cr) (zd_ForProvider cr) (mo_uid cr)"
  zonedelegated_req_ea zonedelegated_holds ZoneDelegated_spec_ok
  "ladder_observe_error errObserveZoneDelegated" "\<lambda>r. r \<noteq> []" "\<lambda>r. True" zdr_Ref errCreateZoneDelegated errUpdateZoneDelegated errDeleteZoneDelegated ZoneDelegated_errEmptyUID
  namespaced_ZoneDelegated_Observe namespaced_ZoneDelegated_Create namespaced_ZoneDelegated_Update namespaced_ZoneDelegated_Delete
proof (unfold_locales, goal_cases)
  case (6 cr)
  then show ?case by (auto simp: ZoneDelegated_valid_def Let_def split: if_splits)
next
  case (13 n cr rec)
  have "ZoneDelegated_get (SetExternalName n cr) = ZoneDelegated_get cr"
    "ZoneDelegated_put (SetExternalName n cr) l = SetExternalName n (ZoneDelegated_put cr l)" for l
    by (simp_all add: ZoneDelegated_get_def ZoneDelegated_put_def SetExternalName_def)
  then show ?case
    by (simp add: zonedelegated_late.lifted_simps ZoneDelegated_utd_def SetExternalName_def)
next
  case (14 cr rec)
  then show ?case using zonedelegated_written_utd [of cr rec] by simp
next
  case (15 cr rec)
  then show ?case using zonedelegated_written_utd [of cr rec] by simp
qed (simp_all add: ZoneDelegated_Observe_shape ZoneDelegated_Create_shape ZoneDelegated_Update_shape ZoneDelegated_Delete_shape
    zonedelegated_late.lifted_simps ZoneDelegated_put_def ZoneDelegated_status_def Let_def
    zonedelegated_create_request_def zonedelegated_update_request_def)

end
