(* ===== verification/ZoneForward.thy ===== *)
theory ZoneForward
  imports NameServers
begin

text \<open>
  internal/controller/zoneforward: the ZoneForward controller, a client of the identity ladder.
  ibclient.ZoneForward is the record ZoneForwardObj here.
\<close>

section \<open>Data\<close>

text \<open>A member that forwards queries, of the SDK and of the CRD.\<close>

record Forwardingmemberserver =
  fm_Name :: string
  fm_ForwardersOnly :: bool
  fm_ForwardTo :: "NameServer list"
  fm_UseOverrideForwarders :: bool

record ForwardingServer =
  cfs_Name :: "string option"
  cfs_ForwardersOnly :: "bool option"
  cfs_ForwardTo :: "crdNameServer list"
  cfs_UseOverrideForwarders :: "bool option"

text \<open>The loop over two slices of pointers of one length.\<close>

fun forwardingServersLoop ::
  "Forwardingmemberserver option list \<Rightarrow> Forwardingmemberserver option list \<Rightarrow> bool" where
  "forwardingServersLoop (av # a) (bv # b) =
     (case (av, bv) of
        (None, None) \<Rightarrow> forwardingServersLoop a b
      | (Some x, Some y) \<Rightarrow>
          if fm_Name x \<noteq> fm_Name y then False
          else if fm_ForwardersOnly x \<noteq> fm_ForwardersOnly y then False
          else if fm_UseOverrideForwarders x \<noteq> fm_UseOverrideForwarders y then False
          else if \<not> nameServersEqual (fm_ForwardTo x) (fm_ForwardTo y) then False
          else forwardingServersLoop a b
      | _ \<Rightarrow> False)"
| "forwardingServersLoop _ _ = True"

definition forwardingServersEqual ::
  "Forwardingmemberserver option list \<Rightarrow> Forwardingmemberserver option list \<Rightarrow> bool" where
  "forwardingServersEqual a b = (if length a \<noteq> length b then False else forwardingServersLoop a b)"

definition nullableForwardingServersSlice ::
  "Forwardingmemberserver option list option \<Rightarrow> Forwardingmemberserver option list" where
  "nullableForwardingServersSlice n = (case n of None \<Rightarrow> [] | Some servers \<Rightarrow> servers)"

text \<open>Element by element comparison is equality.\<close>

lemma Forwardingmemberserver_eq_iff:
  "(x :: Forwardingmemberserver) = y \<longleftrightarrow>
     fm_Name x = fm_Name y \<and> fm_ForwardersOnly x = fm_ForwardersOnly y \<and>
     fm_UseOverrideForwarders x = fm_UseOverrideForwarders y \<and> fm_ForwardTo x = fm_ForwardTo y"
  by (cases x; cases y) auto

lemma forwardingServersEqual_iff [simp]: "forwardingServersEqual a b \<longleftrightarrow> a = b"
proof -
  have "length a = length b \<Longrightarrow> forwardingServersLoop a b \<longleftrightarrow> a = b"
    by (induction a b rule: forwardingServersLoop.induct)
      (auto simp: Forwardingmemberserver_eq_iff split: option.splits)
  then show ?thesis by (auto simp: forwardingServersEqual_def)
qed

text \<open>ibclient.ZoneForward, as the provider requests it.\<close>

record ZoneForwardObj =
  zfr_Ref :: string
  zfr_Fqdn :: string
  zfr_ForwardTo :: "NameServer list"
  zfr_View :: "string option"
  zfr_ZoneFormat :: string
  zfr_Comment :: "string option"
  zfr_Disable :: "bool option"
  zfr_ForwardersOnly :: "bool option"
  zfr_NsGroup :: "string option"
  zfr_ExternalNsGroup :: "string option"
  zfr_ForwardingServers :: "Forwardingmemberserver option list option"
  zfr_Ea :: ea

definition emptyZoneForwardObj :: ZoneForwardObj where
  "emptyZoneForwardObj = \<lparr>zfr_Ref = [], zfr_Fqdn = [], zfr_ForwardTo = [], zfr_View = None, zfr_ZoneFormat =
      [], zfr_Comment = None, zfr_Disable = None, zfr_ForwardersOnly = None, zfr_NsGroup = None, zfr_ExternalNsGroup =
      None, zfr_ForwardingServers = None, zfr_Ea = fmempty\<rparr>"

definition reflectZoneForwardObj :: "ZoneForwardObj \<Rightarrow> goany" where
  "reflectZoneForwardObj r = PtrTo ''*ibclient.ZoneForward''
     [(''Ref'', FString (zfr_Ref r)),
      (''Fqdn'', FString (zfr_Fqdn r)),
      (''ForwardTo'', FOther),
      (''View'', FOther),
      (''ZoneFormat'', FString (zfr_ZoneFormat r)),
      (''Comment'', FOther),
      (''Disable'', FOther),
      (''ForwardersOnly'', FOther),
      (''NsGroup'', FOther),
      (''ExternalNsGroup'', FOther),
      (''ForwardingServers'', FOther),
      (''Ea'', FEA (zfr_Ea r))]"

definition ZoneForwardObj_type :: "ZoneForwardObj objtype" where
  "ZoneForwardObj_type = \<lparr>ot_name = ''zone_forward'', ot_empty = emptyZoneForwardObj, ot_reflect =
      reflectZoneForwardObj\<rparr>"

text \<open>The ObjectManager requests, with their arguments in call order.\<close>

datatype zoneforward_req =
    CreateZoneForward string bool ea "NameServer list" bool "Forwardingmemberserver option list" string string string string string
      \<comment> \<open>comment, disable, ea, forwardTo, forwardersOnly, forwardingServers, fqdn, nsGroup, view, zoneFormat, externalNsGroup\<close>
  | UpdateZoneForward string string bool ea "NameServer list" bool "Forwardingmemberserver option list" string string
      \<comment> \<open>ref, comment, disable, ea, forwardTo, forwardersOnly, forwardingServers, nsGroup, externalNsGroup\<close>

record ZoneForwardParameters =
  zfp_Fqdn :: "string option"
  zfp_ForwardTo :: "crdNameServer list"
  zfp_View :: "string option"
  zfp_ZoneFormat :: "string option"
  zfp_Comment :: "string option"
  zfp_Disable :: "bool option"
  zfp_ForwardersOnly :: "bool option"
  zfp_NsGroup :: "string option"
  zfp_ExternalNsGroup :: "string option"
  zfp_ForwardingServers :: "ForwardingServer list"
  zfp_ExtAttrs :: extattrs

record ZoneForwardObservation =
  zfs_ID :: string
  zfs_Fqdn :: "string option"
  zfs_ForwardTo :: "crdNameServer list"
  zfs_View :: "string option"
  zfs_ZoneFormat :: "string option"
  zfs_Comment :: "string option"
  zfs_Disable :: "bool option"
  zfs_ForwardersOnly :: "bool option"
  zfs_NsGroup :: "string option"
  zfs_ExternalNsGroup :: "string option"
  zfs_ForwardingServers :: "ForwardingServer list"
  zfs_ExtAttrs :: extattrs
  zfs_Ref :: "string option"

record ZoneForwardCR = mobj +
  zf_ForProvider :: ZoneForwardParameters
  zf_AtProvider :: ZoneForwardObservation

section \<open>Error messages\<close>

definition errObserveZoneForward :: string where "errObserveZoneForward = ''cannot observe ZoneForward''"
definition errCreateZoneForward :: string where "errCreateZoneForward = ''cannot create ZoneForward''"
definition errUpdateZoneForward :: string where "errUpdateZoneForward = ''cannot update ZoneForward''"
definition errDeleteZoneForward :: string where "errDeleteZoneForward = ''cannot delete ZoneForward''"
definition ZoneForward_errEmptyUID :: string where
  "ZoneForward_errEmptyUID = ''cannot stamp ZoneForward identity: managed resource's metadata.uid is empty''"

section \<open>Field comparison and late initialisation\<close>

definition ZoneForward_isUpToDate ::
  "NameServer list \<Rightarrow> Forwardingmemberserver option list \<Rightarrow> string option \<Rightarrow> string
      option \<Rightarrow> string option \<Rightarrow> bool option \<Rightarrow> bool option \<Rightarrow> extattrs
      \<Rightarrow> ZoneForwardObj \<Rightarrow> bool" where
  "ZoneForward_isUpToDate forwardTo forwardingServers comment nsGroup externalNsGroup disable forwardersOnly extAttrs rec =
     (if \<not> nameServersEqual forwardTo (zfr_ForwardTo rec) then False
      else if \<not> forwardingServersEqual forwardingServers (nullableForwardingServersSlice (zfr_ForwardingServers rec)) then False
      else if strOrEmpty comment \<noteq> strOrEmpty (zfr_Comment rec) then False
      else if boolOrFalse disable \<noteq> boolOrFalse (zfr_Disable rec) then False
      else if boolOrFalse forwardersOnly \<noteq> boolOrFalse (zfr_ForwardersOnly rec) then False
      else if strOrEmpty nsGroup \<noteq> strOrEmpty (zfr_NsGroup rec) then False
      else if strOrEmpty externalNsGroup \<noteq> strOrEmpty (zfr_ExternalNsGroup rec) then False
      else extAttrsEqual extAttrs (extAttrsFromEA (Strip (zfr_Ea rec))))"

text \<open>The ForProvider fields lateInitialize takes pointers to.\<close>

type_synonym zoneforward_late = "string option \<times> string option \<times> string option \<times> bool option \<times> bool option \<times> extattrs \<times> string option \<times> string option"

definition ZoneForward_lateInitializeStrings ::
  "string option \<Rightarrow> string option \<Rightarrow> string option \<Rightarrow> ZoneForwardObj \<Rightarrow>
      (string option \<times> string option \<times> string option) \<times> bool" where
  "ZoneForward_lateInitializeStrings comment nsGroup externalNsGroup rec =
     (let (comment1, c1) = (if comment = None \<and> zfr_Comment rec \<noteq> None \<and> zfr_Comment rec \<noteq> Some []
                             then (zfr_Comment rec, True) else (comment, False));
            (nsGroup1, c2) = (if nsGroup = None \<and> zfr_NsGroup rec \<noteq> None \<and> zfr_NsGroup rec \<noteq> Some []
                             then (zfr_NsGroup rec, True) else (nsGroup, c1));
            (externalNsGroup1, c3) = (if externalNsGroup = None \<and> zfr_ExternalNsGroup rec \<noteq> None \<and>
                zfr_ExternalNsGroup rec \<noteq> Some []
                             then (zfr_ExternalNsGroup rec, True) else (externalNsGroup, c2))
      in ((comment1, nsGroup1, externalNsGroup1), c3))"

definition ZoneForward_lateInitializeFlags ::
  "bool option \<Rightarrow> bool option \<Rightarrow> ZoneForwardObj \<Rightarrow> (bool option \<times> bool option) \<times> bool" where
  "ZoneForward_lateInitializeFlags disable forwardersOnly rec =
     (let (disable1, c1) = (if disable = None \<and> zfr_Disable rec \<noteq> None
                             then (zfr_Disable rec, True) else (disable, False));
            (forwardersOnly1, c2) = (if forwardersOnly = None \<and> zfr_ForwardersOnly rec \<noteq> None
                             then (zfr_ForwardersOnly rec, True) else (forwardersOnly, c1))
      in ((disable1, forwardersOnly1), c2))"

definition ZoneForward_lateInitializeExtAttrs ::
  "extattrs \<Rightarrow> ZoneForwardObj \<Rightarrow> extattrs \<times> bool" where
  "ZoneForward_lateInitializeExtAttrs extAttrs rec =
     (let fromRec = extAttrsFromEA (Strip (zfr_Ea rec));
            (extAttrs1, c1) = (if extAttrs = fmempty \<and> fromRec \<noteq> fmempty
                             then (fromRec, True) else (extAttrs, False))
      in (extAttrs1, c1))"

definition ZoneForward_lateInitializeImmutableDefaults ::
  "string option \<Rightarrow> string option \<Rightarrow> ZoneForwardObj \<Rightarrow> (string option \<times> string option) \<times> bool" where
  "ZoneForward_lateInitializeImmutableDefaults view zoneFormat rec =
     (let (view1, c1) = (if view = None \<and> zfr_View rec \<noteq> None \<and> zfr_View rec \<noteq> Some []
                             then (zfr_View rec, True) else (view, False));
            (zoneFormat1, c2) = (if zoneFormat = None \<and> zfr_ZoneFormat rec \<noteq> []
                             then (Some (zfr_ZoneFormat rec), True) else (zoneFormat, c1))
      in ((view1, zoneFormat1), c2))"

definition ZoneForward_lateInitialize :: "zoneforward_late \<Rightarrow> ZoneForwardObj \<Rightarrow> zoneforward_late \<times> bool" where
  "ZoneForward_lateInitialize p rec =
     (case p of (comment, nsGroup, externalNsGroup, disable, forwardersOnly, extAttrs, view, zoneFormat) \<Rightarrow>
       (let ((comment1, nsGroup1, externalNsGroup1), d1) = ZoneForward_lateInitializeStrings comment nsGroup
           externalNsGroup rec;
            ((disable1, forwardersOnly1), c2) = ZoneForward_lateInitializeFlags disable forwardersOnly rec;
            d2 = (if c2 then True else d1);
            (extAttrs1, c3) = ZoneForward_lateInitializeExtAttrs extAttrs rec;
            d3 = (if c3 then True else d2);
            ((view1, zoneFormat1), c4) = ZoneForward_lateInitializeImmutableDefaults view zoneFormat rec;
            d4 = (if c4 then True else d3)
        in ((comment1, nsGroup1, externalNsGroup1, disable1, forwardersOnly1, extAttrs1, view1, zoneFormat1), d4)))"

record observedZoneForward =
  zfo_ID :: string
  zfo_Fqdn :: "string option"
  zfo_View :: "string option"
  zfo_ZoneFormat :: "string option"
  zfo_Comment :: "string option"
  zfo_Disable :: "bool option"
  zfo_ForwardersOnly :: "bool option"
  zfo_NsGroup :: "string option"
  zfo_ExternalNsGroup :: "string option"
  zfo_ExtAttrs :: extattrs
  zfo_Ref :: "string option"

definition observeFromZoneForward :: "string \<Rightarrow> ZoneForwardObj \<Rightarrow> observedZoneForward" where
  "observeFromZoneForward externalID rec =
     \<lparr>zfo_ID = externalID,
      zfo_Fqdn = ptrIfNonEmpty (zfr_Fqdn rec),
      zfo_View = ptrIfSet (zfr_View rec),
      zfo_ZoneFormat = ptrIfNonEmpty (zfr_ZoneFormat rec),
      zfo_Comment = ptrIfSet (zfr_Comment rec),
      zfo_Disable = zfr_Disable rec,
      zfo_ForwardersOnly = zfr_ForwardersOnly rec,
      zfo_NsGroup = ptrIfSet (zfr_NsGroup rec),
      zfo_ExternalNsGroup = ptrIfSet (zfr_ExternalNsGroup rec),
      zfo_ExtAttrs = extAttrsFromEA (zfr_Ea rec),
      zfo_Ref = ptrIfNonEmpty (zfr_Ref rec)\<rparr>"

section \<open>SDK calls\<close>

definition createZoneForward ::
  "(ZoneForwardObj, zoneforward_req) wapi \<Rightarrow> ZoneForwardParameters \<Rightarrow> NameServer list
      \<Rightarrow> Forwardingmemberserver option list \<Rightarrow> string \<Rightarrow> zoneforward_req world
      \<Rightarrow> (goerr + ZoneForwardObj) \<times> zoneforward_req world" where
  "createZoneForward env p forwardTo forwardingServers uid w =
     (if trim_space uid = [] then (Inl (TextError ZoneForward_errEmptyUID), w)
      else
        (let e = Stamp (buildEA (zfp_ExtAttrs p)) uid
         in mutate_object env
              (CreateZoneForward (strOrEmpty (zfp_Comment p)) (boolOrFalse (zfp_Disable p)) e forwardTo (boolOrFalse
                  (zfp_ForwardersOnly p)) forwardingServers (strOrEmpty (zfp_Fqdn p)) (strOrEmpty (zfp_NsGroup p))
                  (strOrEmpty (zfp_View p)) (strOrEmpty (zfp_ZoneFormat p)) (strOrEmpty (zfp_ExternalNsGroup p))) w))"

definition updateZoneForward ::
  "(ZoneForwardObj, zoneforward_req) wapi \<Rightarrow> string \<Rightarrow> ZoneForwardParameters \<Rightarrow>
      NameServer list \<Rightarrow> Forwardingmemberserver option list \<Rightarrow> string \<Rightarrow> zoneforward_req
      world \<Rightarrow> (goerr + ZoneForwardObj) \<times> zoneforward_req world" where
  "updateZoneForward env ref p forwardTo forwardingServers uid w =
     (if trim_space uid = [] then (Inl (TextError ZoneForward_errEmptyUID), w)
      else
        (let e = Stamp (buildEA (zfp_ExtAttrs p)) uid
         in mutate_object env
              (UpdateZoneForward ref (strOrEmpty (zfp_Comment p)) (boolOrFalse (zfp_Disable p)) e forwardTo
                  (boolOrFalse (zfp_ForwardersOnly p)) forwardingServers (strOrEmpty (zfp_NsGroup p)) (strOrEmpty
                  (zfp_ExternalNsGroup p))) w))"

definition deleteZoneForward :: "(ZoneForwardObj, zoneforward_req) wapi \<Rightarrow> string \<Rightarrow>
    zoneforward_req world \<Rightarrow> goerr option \<times> zoneforward_req world" where
  "deleteZoneForward env ref w =
     (case delete_object env ref w of
        (Inl err, w1) \<Rightarrow> (Some err, w1)
      | (Inr _, w1) \<Rightarrow> (None, w1))"

section \<open>Identity resolution\<close>

definition resolveZoneForwardIdentity ::
  "(ZoneForwardObj, zoneforward_req) wapi \<Rightarrow> string \<Rightarrow> string \<Rightarrow> zoneforward_req
      world \<Rightarrow> (goerr + ZoneForwardObj option \<times> Outcome) \<times> zoneforward_req world" where
  "resolveZoneForwardIdentity env ref uid w = Resolve env ZoneForwardObj_type ref uid w"

type_synonym ZoneForward_observeResult = "(ZoneForwardObj, observedZoneForward) observeResult"

definition ZoneForward_notFoundResult :: ZoneForward_observeResult where
  "ZoneForward_notFoundResult =
     \<lparr>ores_exists = False, ores_rec = emptyZoneForwardObj, ores_obs = observeFromZoneForward []
         emptyZoneForwardObj,
      ores_lateInit = False, ores_refreshedRef = [], ores_adopted = False\<rparr>"

definition observeZoneForward ::
  "(ZoneForwardObj, zoneforward_req) wapi \<Rightarrow> string \<Rightarrow> string \<Rightarrow> string \<Rightarrow>
      string \<Rightarrow> zoneforward_late \<Rightarrow> zoneforward_req world \<Rightarrow>
     (goerr + ZoneForward_observeResult) \<times> zoneforward_late \<times> zoneforward_req world" where
  "observeZoneForward env endpoint crName externalName uid p w =
     (let ref = observeRefFor crName externalName in
      case resolveZoneForwardIdentity env ref uid w of
        (Inl err, w1) \<Rightarrow>
          if IsSearchFailure err then
            (case ensureIdentityPrerequisite env endpoint w1 of
               (Some prereqErr, w2) \<Rightarrow> (Inl prereqErr, p, w2)
             | (None, w2) \<Rightarrow> (Inl err, p, w2))
          else (Inl err, p, w1)
      | (Inr (obj, outcome), w1) \<Rightarrow>
          if outcome = OutcomeNotFound then (Inr ZoneForward_notFoundResult, p, w1)
          else
            (case obj of
               None \<Rightarrow> (Inl (TextError nilDereference), p, w1)
             | Some rec \<Rightarrow>
                 (case ZoneForward_lateInitialize p rec of (p1, changed) \<Rightarrow>
                    (let found = (outcome = OutcomeRotated \<or> outcome = OutcomeFoundByUID)
                     in (Inr \<lparr>ores_exists = True, ores_rec = rec,
                              ores_obs = observeFromZoneForward (zfr_Ref rec) rec,
                              ores_lateInit = (if found then True else changed),
                              ores_refreshedRef = (if found then zfr_Ref rec else []),
                              ores_adopted = (outcome = OutcomeAdopted)\<rparr>, p1, w1)))))"

definition deleteZoneForwardIdentity ::
  "(ZoneForwardObj, zoneforward_req) wapi \<Rightarrow> string \<Rightarrow> string \<Rightarrow> string \<Rightarrow>
      zoneforward_req world \<Rightarrow> goerr option \<times> zoneforward_req world" where
  "deleteZoneForwardIdentity env endpoint ref uid w =
     (case resolveZoneForwardIdentity env ref uid w of
        (Inl err, w1) \<Rightarrow>
          if IsSearchFailure err then
            (case ensureIdentityPrerequisite env endpoint w1 of
               (Some prereqErr, w2) \<Rightarrow> (Some prereqErr, w2)
             | (None, w2) \<Rightarrow> (Some (Wrapped errDeleteZoneForward err), w2))
          else (Some (Wrapped errDeleteZoneForward err), w1)
      | (Inr (obj, outcome), w1) \<Rightarrow>
          (case outcome of
             OutcomeNotFound \<Rightarrow> (None, w1)
           | OutcomeAdopted \<Rightarrow> (Some (TextError errDeleteUnverifiedOwnership), w1)
           | _ \<Rightarrow>
               (case obj of
                  None \<Rightarrow> (Some (TextError nilDereference), w1)
                | Some rec \<Rightarrow>
                    (case deleteZoneForward env (zfr_Ref rec) w1 of
                       (None, w2) \<Rightarrow> (None, w2)
                     | (Some delErr, w2) \<Rightarrow>
                         if isNotFound (Some delErr) then (None, w2)
                         else (Some (Wrapped errDeleteZoneForward delErr), w2)))))"

section \<open>The external clients\<close>

text \<open>The pointers to spec fields Observe hands over, and their write-back.\<close>

definition ZoneForward_latePart :: "ZoneForwardParameters \<Rightarrow> zoneforward_late" where
  "ZoneForward_latePart p = (zfp_Comment p, zfp_NsGroup p, zfp_ExternalNsGroup p, zfp_Disable p, zfp_ForwardersOnly p,
      zfp_ExtAttrs p, zfp_View p, zfp_ZoneFormat p)"

definition ZoneForward_setLate :: "ZoneForwardParameters \<Rightarrow> zoneforward_late \<Rightarrow> ZoneForwardParameters" where
  "ZoneForward_setLate p l = (case l of (comment, nsGroup, externalNsGroup, disable, forwardersOnly, extAttrs, view,
      zoneFormat) \<Rightarrow>
     p\<lparr>zfp_Comment := comment, zfp_NsGroup := nsGroup, zfp_ExternalNsGroup := externalNsGroup, zfp_Disable :=
         disable, zfp_ForwardersOnly := forwardersOnly, zfp_ExtAttrs := extAttrs, zfp_View := view, zfp_ZoneFormat :=
         zoneFormat\<rparr>)"

subsection \<open>namespaced.go\<close>

definition namespacedNameServersToSDK :: "crdNameServer list \<Rightarrow> NameServer list" where
  "namespacedNameServersToSDK xs =
     (if xs = [] then []
      else map (\<lambda>ns. \<lparr>ns_Name = strOrEmpty (cns_Name ns), ns_Address = strOrEmpty (cns_Address
          ns)\<rparr>) xs)"

definition namespacedNameServersFromSDK :: "NameServer list \<Rightarrow> crdNameServer list" where
  "namespacedNameServersFromSDK xs =
     (if xs = [] then []
      else map (\<lambda>ns. \<lparr>cns_Name = Some (ns_Name ns), cns_Address = Some (ns_Address ns)\<rparr>) xs)"

definition namespacedForwardingServersToSDK :: "ForwardingServer list \<Rightarrow> Forwardingmemberserver option
    list" where
  "namespacedForwardingServersToSDK xs =
     (if xs = [] then []
      else map (\<lambda>fs. Some \<lparr>fm_Name = strOrEmpty (cfs_Name fs), fm_ForwardersOnly = boolOrFalse
          (cfs_ForwardersOnly fs),
             fm_ForwardTo = namespacedNameServersToSDK (cfs_ForwardTo fs),
             fm_UseOverrideForwarders = boolOrFalse (cfs_UseOverrideForwarders fs)\<rparr>) xs)"

definition namespacedForwardingServersFromSDK :: "Forwardingmemberserver option list \<Rightarrow> ForwardingServer
    list" where
  "namespacedForwardingServersFromSDK xs =
     (if xs = [] then []
      else List.map_filter (map_option (\<lambda>fs. \<lparr>cfs_Name = Some (fm_Name fs), cfs_ForwardersOnly = Some
          (fm_ForwardersOnly fs),
             cfs_ForwardTo = namespacedNameServersFromSDK (fm_ForwardTo fs),
             cfs_UseOverrideForwarders = Some (fm_UseOverrideForwarders fs)\<rparr>)) xs)"

definition namespaced_ZoneForward_Observe ::
  "(ZoneForwardObj, zoneforward_req) wapi \<Rightarrow> string \<Rightarrow> ZoneForwardCR \<Rightarrow>
      zoneforward_req world \<Rightarrow> (goerr + ExternalObservation) \<times> ZoneForwardCR \<times> zoneforward_req
      world" where
  "namespaced_ZoneForward_Observe env endpoint cr w =
     (case observeZoneForward env endpoint (mo_name cr) (GetExternalName cr) (mo_uid cr)
             (ZoneForward_latePart (zf_ForProvider cr)) w of
        (Inl err, l, w1) \<Rightarrow>
          (let cr1 = cr\<lparr>zf_ForProvider := ZoneForward_setLate (zf_ForProvider cr) l\<rparr> in
           if errors_as is_PrerequisiteError err then (Inl err, cr1, w1)
           else (Inl (Wrapped errObserveZoneForward err), cr1, w1))
      | (Inr res, l, w1) \<Rightarrow>
          (let p = ZoneForward_setLate (zf_ForProvider cr) l;
               cr1 = cr\<lparr>zf_ForProvider := p\<rparr> in
           if \<not> ores_exists res then (Inr notExists, cr1, w1)
           else
             (let rec = ores_rec res; o1 = ores_obs res;
                  cr2 = cr1\<lparr>zf_AtProvider :=
                    \<lparr>zfs_ID = zfo_ID o1, zfs_Fqdn = zfo_Fqdn o1, zfs_ForwardTo = namespacedNameServersFromSDK
                     (zfr_ForwardTo rec), zfs_View = zfo_View o1, zfs_ZoneFormat = zfo_ZoneFormat
                     o1, zfs_Comment = zfo_Comment o1, zfs_Disable = zfo_Disable o1,
                     zfs_ForwardersOnly = zfo_ForwardersOnly o1, zfs_NsGroup = zfo_NsGroup o1,
                     zfs_ExternalNsGroup = zfo_ExternalNsGroup o1, zfs_ForwardingServers =
                     namespacedForwardingServersFromSDK (nullableForwardingServersSlice
                     (zfr_ForwardingServers rec)), zfs_ExtAttrs = zfo_ExtAttrs o1, zfs_Ref = zfo_Ref
                     o1\<rparr>\<rparr>;
                  cr3 = (if ores_refreshedRef res \<noteq> [] then SetExternalName (ores_refreshedRef res) cr2 else cr2);
                  cr4 = SetAvailable cr3;
                  upToDate = (ZoneForward_isUpToDate (namespacedNameServersToSDK (zfp_ForwardTo p))
                      (namespacedForwardingServersToSDK
                                (zfp_ForwardingServers p)) (zfp_Comment p) (zfp_NsGroup p)
                                (zfp_ExternalNsGroup p) (zfp_Disable p) (zfp_ForwardersOnly p)
                                (zfp_ExtAttrs p) rec
                                \<and> \<not> ores_adopted res)
              in (Inr \<lparr>ResourceExists = True, ResourceUpToDate = upToDate,
                       ResourceLateInitialized = ores_lateInit res\<rparr>, cr4, w1))))"

definition namespaced_ZoneForward_Create ::
  "(ZoneForwardObj, zoneforward_req) wapi \<Rightarrow> string \<Rightarrow> ZoneForwardCR \<Rightarrow>
      zoneforward_req world \<Rightarrow> goerr option \<times> ZoneForwardCR \<times> zoneforward_req world" where
  "namespaced_ZoneForward_Create env endpoint cr w =
     (let p = zf_ForProvider cr; uid = mo_uid cr in
      if trim_space uid = [] then (Some (TextError ZoneForward_errEmptyUID), cr, w)
      else
          (case ensureIdentityPrerequisite env endpoint w of
             (Some err, w1) \<Rightarrow> (Some err, cr, w1)
           | (None, w1) \<Rightarrow>
               (case createZoneForward env p (namespacedNameServersToSDK (zfp_ForwardTo p))
                   (namespacedForwardingServersToSDK (zfp_ForwardingServers p)) uid w1 of
                  (Inl err, w2) \<Rightarrow> (Some (Wrapped errCreateZoneForward err), cr, w2)
                | (Inr rec, w2) \<Rightarrow> (None, SetExternalName (zfr_Ref rec) cr, w2))))"

definition namespaced_ZoneForward_Update ::
  "(ZoneForwardObj, zoneforward_req) wapi \<Rightarrow> string \<Rightarrow> ZoneForwardCR \<Rightarrow>
      zoneforward_req world \<Rightarrow> goerr option \<times> ZoneForwardCR \<times> zoneforward_req world" where
  "namespaced_ZoneForward_Update env endpoint cr w =
     (let p = zf_ForProvider cr; externalID = GetExternalName cr in
      case ensureIdentityPrerequisite env endpoint w of
        (Some err, w1) \<Rightarrow> (Some err, cr, w1)
      | (None, w1) \<Rightarrow>
          (case updateZoneForward env externalID p (namespacedNameServersToSDK (zfp_ForwardTo p))
              (namespacedForwardingServersToSDK (zfp_ForwardingServers p)) (mo_uid cr) w1 of
             (Inl err, w2) \<Rightarrow> (Some (Wrapped errUpdateZoneForward err), cr, w2)
           | (Inr rec, w2) \<Rightarrow>
               if zfr_Ref rec \<noteq> [] \<and> zfr_Ref rec \<noteq> externalID then
                 (case Refresh env cr (zfr_Ref rec) w2 of
                    (Some err, cr1, w3) \<Rightarrow> (Some (Wrapped errPersistExternalName err), cr1, w3)
                  | (None, cr1, w3) \<Rightarrow> (None, cr1, w3))
               else (None, cr, w2)))"

definition namespaced_ZoneForward_Delete ::
  "(ZoneForwardObj, zoneforward_req) wapi \<Rightarrow> string \<Rightarrow> ZoneForwardCR \<Rightarrow>
      zoneforward_req world \<Rightarrow> goerr option \<times> zoneforward_req world" where
  "namespaced_ZoneForward_Delete env endpoint cr w =
     (let externalID = GetExternalName cr in
      case deleteZoneForwardIdentity env endpoint externalID (mo_uid cr) w of
        (Some err, w1) \<Rightarrow> (Some err, w1)
      | (None, w1) \<Rightarrow> (None, w1))"

subsection \<open>cluster.go\<close>

definition clusterNameServersToSDK :: "crdNameServer list \<Rightarrow> NameServer list" where
  "clusterNameServersToSDK xs =
     (if xs = [] then []
      else map (\<lambda>ns. \<lparr>ns_Name = strOrEmpty (cns_Name ns), ns_Address = strOrEmpty (cns_Address
          ns)\<rparr>) xs)"

definition clusterNameServersFromSDK :: "NameServer list \<Rightarrow> crdNameServer list" where
  "clusterNameServersFromSDK xs =
     (if xs = [] then []
      else map (\<lambda>ns. \<lparr>cns_Name = Some (ns_Name ns), cns_Address = Some (ns_Address ns)\<rparr>) xs)"

definition clusterForwardingServersToSDK :: "ForwardingServer list \<Rightarrow> Forwardingmemberserver option list" where
  "clusterForwardingServersToSDK xs =
     (if xs = [] then []
      else map (\<lambda>fs. Some \<lparr>fm_Name = strOrEmpty (cfs_Name fs), fm_ForwardersOnly = boolOrFalse
          (cfs_ForwardersOnly fs),
             fm_ForwardTo = clusterNameServersToSDK (cfs_ForwardTo fs),
             fm_UseOverrideForwarders = boolOrFalse (cfs_UseOverrideForwarders fs)\<rparr>) xs)"

definition clusterForwardingServersFromSDK :: "Forwardingmemberserver option list \<Rightarrow> ForwardingServer list" where
  "clusterForwardingServersFromSDK xs =
     (if xs = [] then []
      else List.map_filter (map_option (\<lambda>fs. \<lparr>cfs_Name = Some (fm_Name fs), cfs_ForwardersOnly = Some
          (fm_ForwardersOnly fs),
             cfs_ForwardTo = clusterNameServersFromSDK (fm_ForwardTo fs),
             cfs_UseOverrideForwarders = Some (fm_UseOverrideForwarders fs)\<rparr>)) xs)"

definition cluster_ZoneForward_Observe ::
  "(ZoneForwardObj, zoneforward_req) wapi \<Rightarrow> string \<Rightarrow> ZoneForwardCR \<Rightarrow>
      zoneforward_req world \<Rightarrow> (goerr + ExternalObservation) \<times> ZoneForwardCR \<times> zoneforward_req
      world" where
  "cluster_ZoneForward_Observe env endpoint cr w =
     (case observeZoneForward env endpoint (mo_name cr) (GetExternalName cr) (mo_uid cr)
             (ZoneForward_latePart (zf_ForProvider cr)) w of
        (Inl err, l, w1) \<Rightarrow>
          (let cr1 = cr\<lparr>zf_ForProvider := ZoneForward_setLate (zf_ForProvider cr) l\<rparr> in
           if errors_as is_PrerequisiteError err then (Inl err, cr1, w1)
           else (Inl (Wrapped errObserveZoneForward err), cr1, w1))
      | (Inr res, l, w1) \<Rightarrow>
          (let p = ZoneForward_setLate (zf_ForProvider cr) l;
               cr1 = cr\<lparr>zf_ForProvider := p\<rparr> in
           if \<not> ores_exists res then (Inr notExists, cr1, w1)
           else
             (let rec = ores_rec res; o1 = ores_obs res;
                  cr2 = cr1\<lparr>zf_AtProvider :=
                    \<lparr>zfs_ID = zfo_ID o1, zfs_Fqdn = zfo_Fqdn o1, zfs_ForwardTo = clusterNameServersFromSDK
                     (zfr_ForwardTo rec), zfs_View = zfo_View o1, zfs_ZoneFormat = zfo_ZoneFormat
                     o1, zfs_Comment = zfo_Comment o1, zfs_Disable = zfo_Disable o1,
                     zfs_ForwardersOnly = zfo_ForwardersOnly o1, zfs_NsGroup = zfo_NsGroup o1,
                     zfs_ExternalNsGroup = zfo_ExternalNsGroup o1, zfs_ForwardingServers =
                     clusterForwardingServersFromSDK (nullableForwardingServersSlice
                     (zfr_ForwardingServers rec)), zfs_ExtAttrs = zfo_ExtAttrs o1, zfs_Ref = zfo_Ref
                     o1\<rparr>\<rparr>;
                  cr3 = (if ores_refreshedRef res \<noteq> [] then SetExternalName (ores_refreshedRef res) cr2 else cr2);
                  cr4 = SetAvailable cr3;
                  upToDate = (ZoneForward_isUpToDate (clusterNameServersToSDK (zfp_ForwardTo p))
                      (clusterForwardingServersToSDK
                                (zfp_ForwardingServers p)) (zfp_Comment p) (zfp_NsGroup p)
                                (zfp_ExternalNsGroup p) (zfp_Disable p) (zfp_ForwardersOnly p)
                                (zfp_ExtAttrs p) rec
                                \<and> \<not> ores_adopted res)
              in (Inr \<lparr>ResourceExists = True, ResourceUpToDate = upToDate,
                       ResourceLateInitialized = ores_lateInit res\<rparr>, cr4, w1))))"

definition cluster_ZoneForward_Create ::
  "(ZoneForwardObj, zoneforward_req) wapi \<Rightarrow> string \<Rightarrow> ZoneForwardCR \<Rightarrow>
      zoneforward_req world \<Rightarrow> goerr option \<times> ZoneForwardCR \<times> zoneforward_req world" where
  "cluster_ZoneForward_Create env endpoint cr w =
     (let p = zf_ForProvider cr; uid = mo_uid cr in
      if trim_space uid = [] then (Some (TextError ZoneForward_errEmptyUID), cr, w)
      else
          (case ensureIdentityPrerequisite env endpoint w of
             (Some err, w1) \<Rightarrow> (Some err, cr, w1)
           | (None, w1) \<Rightarrow>
               (case createZoneForward env p (clusterNameServersToSDK (zfp_ForwardTo p))
                   (clusterForwardingServersToSDK (zfp_ForwardingServers p)) uid w1 of
                  (Inl err, w2) \<Rightarrow> (Some (Wrapped errCreateZoneForward err), cr, w2)
                | (Inr rec, w2) \<Rightarrow> (None, SetExternalName (zfr_Ref rec) cr, w2))))"

definition cluster_ZoneForward_Update ::
  "(ZoneForwardObj, zoneforward_req) wapi \<Rightarrow> string \<Rightarrow> ZoneForwardCR \<Rightarrow>
      zoneforward_req world \<Rightarrow> goerr option \<times> ZoneForwardCR \<times> zoneforward_req world" where
  "cluster_ZoneForward_Update env endpoint cr w =
     (let p = zf_ForProvider cr; externalID = GetExternalName cr in
      case ensureIdentityPrerequisite env endpoint w of
        (Some err, w1) \<Rightarrow> (Some err, cr, w1)
      | (None, w1) \<Rightarrow>
          (case updateZoneForward env externalID p (clusterNameServersToSDK (zfp_ForwardTo p))
              (clusterForwardingServersToSDK (zfp_ForwardingServers p)) (mo_uid cr) w1 of
             (Inl err, w2) \<Rightarrow> (Some (Wrapped errUpdateZoneForward err), cr, w2)
           | (Inr rec, w2) \<Rightarrow>
               if zfr_Ref rec \<noteq> [] \<and> zfr_Ref rec \<noteq> externalID then
                 (case Refresh env cr (zfr_Ref rec) w2 of
                    (Some err, cr1, w3) \<Rightarrow> (Some (Wrapped errPersistExternalName err), cr1, w3)
                  | (None, cr1, w3) \<Rightarrow> (None, cr1, w3))
               else (None, cr, w2)))"

definition cluster_ZoneForward_Delete ::
  "(ZoneForwardObj, zoneforward_req) wapi \<Rightarrow> string \<Rightarrow> ZoneForwardCR \<Rightarrow>
      zoneforward_req world \<Rightarrow> goerr option \<times> zoneforward_req world" where
  "cluster_ZoneForward_Delete env endpoint cr w =
     (let externalID = GetExternalName cr in
      case deleteZoneForwardIdentity env endpoint externalID (mo_uid cr) w of
        (Some err, w1) \<Rightarrow> (Some err, w1)
      | (None, w1) \<Rightarrow> (None, w1))"

section \<open>The contract of the ladder client\<close>

text \<open>The requests of a spec, what a Grid object holds of a request, and the drift check of a resource.\<close>

definition zoneforward_create_request :: "ZoneForwardParameters \<Rightarrow> string \<Rightarrow> zoneforward_req" where
  "zoneforward_create_request p uid = CreateZoneForward
     (strOrEmpty (zfp_Comment p)) (boolOrFalse (zfp_Disable p)) (Stamp (buildEA (zfp_ExtAttrs p)) uid)
         (namespacedNameServersToSDK (zfp_ForwardTo p)) (boolOrFalse (zfp_ForwardersOnly p))
         (namespacedForwardingServersToSDK (zfp_ForwardingServers p)) (strOrEmpty (zfp_Fqdn p)) (strOrEmpty (zfp_NsGroup
         p)) (strOrEmpty (zfp_View p)) (strOrEmpty (zfp_ZoneFormat p)) (strOrEmpty (zfp_ExternalNsGroup p))"

definition zoneforward_update_request :: "string \<Rightarrow> ZoneForwardParameters \<Rightarrow> string \<Rightarrow> zoneforward_req" where
  "zoneforward_update_request ref p uid = UpdateZoneForward ref
     (strOrEmpty (zfp_Comment p)) (boolOrFalse (zfp_Disable p)) (Stamp (buildEA (zfp_ExtAttrs p)) uid)
         (namespacedNameServersToSDK (zfp_ForwardTo p)) (boolOrFalse (zfp_ForwardersOnly p))
         (namespacedForwardingServersToSDK (zfp_ForwardingServers p)) (strOrEmpty (zfp_NsGroup p)) (strOrEmpty
         (zfp_ExternalNsGroup p))"

fun zoneforward_req_ea :: "zoneforward_req \<Rightarrow> ea" where
  "zoneforward_req_ea (CreateZoneForward comment disable ea forwardTo forwardersOnly forwardingServers fqdn nsGroup view zoneFormat externalNsGroup) = ea"
| "zoneforward_req_ea (UpdateZoneForward ref comment disable ea forwardTo forwardersOnly forwardingServers nsGroup externalNsGroup) = ea"

fun zoneforward_holds :: "zoneforward_req \<Rightarrow> ZoneForwardObj \<Rightarrow> bool" where
  "zoneforward_holds (CreateZoneForward comment disable ea forwardTo forwardersOnly forwardingServers fqdn nsGroup view zoneFormat externalNsGroup) rec \<longleftrightarrow>
     nameServersEqual forwardTo (zfr_ForwardTo rec) \<and>
     forwardingServersEqual forwardingServers (nullableForwardingServersSlice (zfr_ForwardingServers rec)) \<and>
     strOrEmpty (zfr_Comment rec) = comment \<and>
     boolOrFalse (zfr_Disable rec) = disable \<and>
     boolOrFalse (zfr_ForwardersOnly rec) = forwardersOnly \<and>
     strOrEmpty (zfr_NsGroup rec) = nsGroup \<and>
     strOrEmpty (zfr_ExternalNsGroup rec) = externalNsGroup \<and>
     zfr_Ea rec = ea"
| "zoneforward_holds (UpdateZoneForward ref comment disable ea forwardTo forwardersOnly forwardingServers nsGroup externalNsGroup) rec \<longleftrightarrow>
     nameServersEqual forwardTo (zfr_ForwardTo rec) \<and>
     forwardingServersEqual forwardingServers (nullableForwardingServersSlice (zfr_ForwardingServers rec)) \<and>
     strOrEmpty (zfr_Comment rec) = comment \<and>
     boolOrFalse (zfr_Disable rec) = disable \<and>
     boolOrFalse (zfr_ForwardersOnly rec) = forwardersOnly \<and>
     strOrEmpty (zfr_NsGroup rec) = nsGroup \<and>
     strOrEmpty (zfr_ExternalNsGroup rec) = externalNsGroup \<and>
     zfr_Ea rec = ea"

definition ZoneForward_utd :: "ZoneForwardCR \<Rightarrow> ZoneForwardObj \<Rightarrow> bool" where
  "ZoneForward_utd cr rec = (let p = zf_ForProvider cr in
     ZoneForward_isUpToDate (namespacedNameServersToSDK (zfp_ForwardTo p)) (namespacedForwardingServersToSDK
                                (zfp_ForwardingServers p)) (zfp_Comment p) (zfp_NsGroup p)
                                (zfp_ExternalNsGroup p) (zfp_Disable p) (zfp_ForwardersOnly p)
                                (zfp_ExtAttrs p) rec)"

definition ZoneForward_spec_ok :: "ZoneForwardCR \<Rightarrow> bool" where
  "ZoneForward_spec_ok cr \<longleftrightarrow> (let p = zf_ForProvider cr in reserved_free (zfp_ExtAttrs p))"

definition ZoneForward_keeps :: "zoneforward_late \<Rightarrow> zoneforward_late \<Rightarrow> bool" where
  "ZoneForward_keeps l l' = (case (l, l') of ((comment, nsGroup, externalNsGroup, disable, forwardersOnly, extAttrs,
      view, zoneFormat), (comment', nsGroup', externalNsGroup', disable', forwardersOnly', extAttrs', view', zoneFormat'))
      \<Rightarrow>
     keeps_set comment comment' \<and> keeps_set nsGroup nsGroup' \<and> keeps_set externalNsGroup externalNsGroup' \<and> keeps_set disable disable' \<and> keeps_set forwardersOnly forwardersOnly' \<and> keeps_attrs extAttrs extAttrs' \<and> keeps_set view view' \<and> keeps_set zoneFormat zoneFormat')"

definition ZoneForward_get :: "ZoneForwardCR \<Rightarrow> zoneforward_late" where
  "ZoneForward_get cr = ZoneForward_latePart (zf_ForProvider cr)"

definition ZoneForward_put :: "ZoneForwardCR \<Rightarrow> zoneforward_late \<Rightarrow> ZoneForwardCR" where
  "ZoneForward_put cr l = cr\<lparr>zf_ForProvider := ZoneForward_setLate (zf_ForProvider cr) l\<rparr>"

definition ZoneForward_status :: "ZoneForwardObj \<Rightarrow> ZoneForwardCR \<Rightarrow> ZoneForwardCR" where
  "ZoneForward_status rec cr =
     (let o1 = observeFromZoneForward (zfr_Ref rec) rec; p = zf_ForProvider cr in
      cr\<lparr>zf_AtProvider :=
        \<lparr>zfs_ID = zfo_ID o1, zfs_Fqdn = zfo_Fqdn o1, zfs_ForwardTo = namespacedNameServersFromSDK
        (zfr_ForwardTo rec), zfs_View = zfo_View o1, zfs_ZoneFormat = zfo_ZoneFormat o1, zfs_Comment
        = zfo_Comment o1, zfs_Disable = zfo_Disable o1, zfs_ForwardersOnly = zfo_ForwardersOnly o1,
        zfs_NsGroup = zfo_NsGroup o1, zfs_ExternalNsGroup = zfo_ExternalNsGroup o1,
        zfs_ForwardingServers = namespacedForwardingServersFromSDK (nullableForwardingServersSlice
        (zfr_ForwardingServers rec)), zfs_ExtAttrs = zfo_ExtAttrs o1, zfs_Ref = zfo_Ref o1\<rparr>\<rparr>)"

definition ZoneForward_valid :: "ZoneForwardCR \<Rightarrow> goerr option" where
  "ZoneForward_valid cr = (let p = zf_ForProvider cr; uid = mo_uid cr in if trim_space uid = [] then Some (TextError ZoneForward_errEmptyUID) else None)"

lemma ZoneForward_lateInitializeStrings_eq:
  "ZoneForward_lateInitializeStrings comment nsGroup externalNsGroup rec =
     (let comment1 = fill comment (ptrIfSet (zfr_Comment rec));
          nsGroup1 = fill nsGroup (ptrIfSet (zfr_NsGroup rec));
          externalNsGroup1 = fill externalNsGroup (ptrIfSet (zfr_ExternalNsGroup rec))
      in ((comment1, nsGroup1, externalNsGroup1), (comment1, nsGroup1, externalNsGroup1) \<noteq> (comment, nsGroup,
          externalNsGroup)))"
  by (simp only: ZoneForward_lateInitializeStrings_def userAttrs_def [symmetric] Let_def case_prod_conv fill_steps
      prod.inject fill_changed ptrIfSet_set simp_thms de_Morgan_conj disj_ac)

lemma ZoneForward_lateInitializeFlags_eq:
  "ZoneForward_lateInitializeFlags disable forwardersOnly rec =
     (let disable1 = fill disable (zfr_Disable rec);
          forwardersOnly1 = fill forwardersOnly (zfr_ForwardersOnly rec)
      in ((disable1, forwardersOnly1), (disable1, forwardersOnly1) \<noteq> (disable, forwardersOnly)))"
  by (simp only: ZoneForward_lateInitializeFlags_def userAttrs_def [symmetric] Let_def case_prod_conv fill_steps
      prod.inject fill_changed ptrIfSet_set simp_thms de_Morgan_conj disj_ac)

lemma ZoneForward_lateInitializeExtAttrs_eq:
  "ZoneForward_lateInitializeExtAttrs extAttrs rec =
     (let extAttrs1 = fill_map extAttrs (userAttrs (zfr_Ea rec))
      in (extAttrs1, extAttrs1 \<noteq> extAttrs))"
  by (simp only: ZoneForward_lateInitializeExtAttrs_def userAttrs_def [symmetric] Let_def case_prod_conv fill_steps
      prod.inject fill_changed ptrIfSet_set simp_thms de_Morgan_conj disj_ac)

lemma ZoneForward_lateInitializeImmutableDefaults_eq:
  "ZoneForward_lateInitializeImmutableDefaults view zoneFormat rec =
     (let view1 = fill view (ptrIfSet (zfr_View rec));
          zoneFormat1 = fill zoneFormat (ptrIfNonEmpty (zfr_ZoneFormat rec))
      in ((view1, zoneFormat1), (view1, zoneFormat1) \<noteq> (view, zoneFormat)))"
  by (simp only: ZoneForward_lateInitializeImmutableDefaults_def userAttrs_def [symmetric] Let_def case_prod_conv fill_steps
      prod.inject fill_changed ptrIfSet_set simp_thms de_Morgan_conj disj_ac)

lemma ZoneForward_lateInitialize_eq:
  "ZoneForward_lateInitialize (comment, nsGroup, externalNsGroup, disable, forwardersOnly, extAttrs, view, zoneFormat)
      rec =
     (let comment1 = fill comment (ptrIfSet (zfr_Comment rec));
          nsGroup1 = fill nsGroup (ptrIfSet (zfr_NsGroup rec));
          externalNsGroup1 = fill externalNsGroup (ptrIfSet (zfr_ExternalNsGroup rec));
          disable1 = fill disable (zfr_Disable rec);
          forwardersOnly1 = fill forwardersOnly (zfr_ForwardersOnly rec);
          extAttrs1 = fill_map extAttrs (userAttrs (zfr_Ea rec));
          view1 = fill view (ptrIfSet (zfr_View rec));
          zoneFormat1 = fill zoneFormat (ptrIfNonEmpty (zfr_ZoneFormat rec))
      in ((comment1, nsGroup1, externalNsGroup1, disable1, forwardersOnly1, extAttrs1, view1, zoneFormat1), (comment1,
          nsGroup1, externalNsGroup1, disable1, forwardersOnly1, extAttrs1, view1, zoneFormat1) \<noteq> (comment,
          nsGroup, externalNsGroup, disable, forwardersOnly, extAttrs, view, zoneFormat)))"
  by (simp only: ZoneForward_lateInitialize_def Let_def case_prod_conv ZoneForward_lateInitializeStrings_eq ZoneForward_lateInitializeFlags_eq ZoneForward_lateInitializeExtAttrs_eq ZoneForward_lateInitializeImmutableDefaults_eq prod.inject
      fill_steps simp_thms de_Morgan_conj disj_ac)

interpretation zoneforward_late: late_lens ZoneForward_lateInitialize ZoneForward_keeps ZoneForward_get ZoneForward_put ZoneForward_utd
proof
  fix l l' :: zoneforward_late and rec :: ZoneForwardObj and cr :: ZoneForwardCR
  obtain comment nsGroup externalNsGroup disable forwardersOnly extAttrs view zoneFormat where l: "l = (comment,
      nsGroup, externalNsGroup, disable, forwardersOnly, extAttrs, view, zoneFormat)" by (cases l) auto
  show "ZoneForward_lateInitialize (fst (ZoneForward_lateInitialize l rec)) rec = (fst (ZoneForward_lateInitialize l
      rec), False)"
    by (simp add: l ZoneForward_lateInitialize_eq Let_def)
  show "snd (ZoneForward_lateInitialize l rec) \<longleftrightarrow> fst (ZoneForward_lateInitialize l rec) \<noteq> l"
    by (simp add: l ZoneForward_lateInitialize_eq Let_def)
  show "ZoneForward_keeps l (fst (ZoneForward_lateInitialize l rec))"
    by (simp add: l ZoneForward_lateInitialize_eq Let_def ZoneForward_keeps_def keeps_fill)
  show "ZoneForward_get (ZoneForward_put cr l) = l"
    by (simp add: l ZoneForward_get_def ZoneForward_put_def ZoneForward_latePart_def ZoneForward_setLate_def)
  show "ZoneForward_put cr (ZoneForward_get cr) = cr"
    by (simp add: ZoneForward_get_def ZoneForward_put_def ZoneForward_latePart_def ZoneForward_setLate_def)
  show "ZoneForward_put (ZoneForward_put cr l) l' = ZoneForward_put cr l'"
    by (simp add: ZoneForward_put_def ZoneForward_setLate_def split: prod.split)
  show "ZoneForward_utd (ZoneForward_put cr (fst (ZoneForward_lateInitialize (ZoneForward_get cr) rec))) rec" if "ZoneForward_utd cr rec"
    using that
    by (auto simp: ZoneForward_get_def ZoneForward_put_def ZoneForward_latePart_def ZoneForward_setLate_def ZoneForward_lateInitialize_eq Let_def
        ZoneForward_utd_def ZoneForward_isUpToDate_def extAttrsEqual_iff simp flip: userAttrs_def split: if_splits)
qed

lemma ZoneForwardObj_type_simps [simp]:
  "ot_name ZoneForwardObj_type = ''zone_forward''" "ref_ea_shape ZoneForwardObj_type"
  "stamped ZoneForwardObj_type rec = eaValue (zfr_Ea rec) EAKey"
  by (simp_all add: ref_ea_shape_def stamped_def ZoneForwardObj_type_def reflectZoneForwardObj_def getRef_def getEA_def)

lemma deleteZoneForward_issue: "deleteZoneForward env = issue_delete env"
  by (intro ext) (simp only: deleteZoneForward_def issue_delete_def)

lemma createZoneForward_valid:
  assumes "ZoneForward_valid cr = None"
  shows "createZoneForward env (zf_ForProvider cr) (namespacedNameServersToSDK (zfp_ForwardTo (zf_ForProvider cr)))
      (namespacedForwardingServersToSDK (zfp_ForwardingServers (zf_ForProvider cr))) (mo_uid cr) w = mutate_object env
      (zoneforward_create_request (zf_ForProvider cr) (mo_uid cr)) w"
  using assms
  by (auto simp: createZoneForward_def zoneforward_create_request_def ZoneForward_valid_def Let_def split: if_splits option.splits)


lemma ZoneForward_Observe_shape:
  "namespaced_ZoneForward_Observe env ep cr w =
     ladder_observe_shape (ladder_observe_error errObserveZoneForward) (Resolve env ZoneForwardObj_type)
         (ensureIdentityPrerequisite env ep)
       (\<lambda>r. r \<noteq> []) (\<lambda>r. True) (lift_late ZoneForward_lateInitialize ZoneForward_get
           ZoneForward_put) ZoneForward_status ZoneForward_utd zfr_Ref cr w"
proof -
  have same: "cr\<lparr>zf_ForProvider := ZoneForward_setLate (zf_ForProvider cr) (ZoneForward_latePart (zf_ForProvider cr))\<rparr> = cr"
    by (simp add: ZoneForward_latePart_def ZoneForward_setLate_def)
  obtain r w1 where r: "Resolve env ZoneForwardObj_type (observeRefFor (mo_name cr) (GetExternalName cr)) (mo_uid cr)
      w = (r, w1)"
    by (cases "Resolve env ZoneForwardObj_type (observeRefFor (mo_name cr) (GetExternalName cr)) (mo_uid cr) w")
  obtain e w2 where e: "ensureIdentityPrerequisite env ep w1 = (e, w2)"
    by (cases "ensureIdentityPrerequisite env ep w1")
  note defs = namespaced_ZoneForward_Observe_def observeZoneForward_def resolveZoneForwardIdentity_def ladder_observe_shape_def ladder_observe_error_def
  show ?thesis
  proof (cases r)
    case (Inl err)
    then show ?thesis
      by (cases e) (simp_all add: defs Let_def r e same)
  next
    case (Inr a)
    obtain obj out where a: "a = (obj, out)" by (cases a)
    show ?thesis
    proof (cases obj)
      case None
      then show ?thesis
        by (simp add: defs Let_def r Inr a same ZoneForward_notFoundResult_def)
    next
      case (Some rec)
      obtain l c where "ZoneForward_lateInitialize (ZoneForward_latePart (zf_ForProvider cr)) rec = (l, c)"
        by (cases "ZoneForward_lateInitialize (ZoneForward_latePart (zf_ForProvider cr)) rec")
      with Some show ?thesis
        by (simp add: defs Let_def r Inr a same lift_late_def ZoneForward_get_def ZoneForward_put_def
            ZoneForward_status_def ZoneForward_utd_def ZoneForward_notFoundResult_def observeFromZoneForward_def)
    qed
  qed
qed

lemma ZoneForward_Create_shape:
  "namespaced_ZoneForward_Create env ep cr w =
     ladder_create_shape errCreateZoneForward ZoneForward_valid (ensureIdentityPrerequisite env ep) (mutate_object env)
       (\<lambda>cr. zoneforward_create_request (zf_ForProvider cr) (mo_uid cr)) zfr_Ref cr w"
proof -
  obtain e w1 where e: "ensureIdentityPrerequisite env ep w = (e, w1)"
    by (cases "ensureIdentityPrerequisite env ep w")
  have v: "(let p = zf_ForProvider cr; uid = mo_uid cr in if trim_space uid = [] then Some (TextError ZoneForward_errEmptyUID) else None) = ZoneForward_valid cr"
    by (simp only: ZoneForward_valid_def)
  show ?thesis
  proof (cases "ZoneForward_valid cr")
    case None
    then show ?thesis
      using createZoneForward_valid [OF None, of env w1] v
      by (cases e) (simp_all add: namespaced_ZoneForward_Create_def ladder_create_shape_def Let_def e split: if_splits)
  next
    case (Some err)
    then show ?thesis
      using v by (simp add: namespaced_ZoneForward_Create_def ladder_create_shape_def Let_def split: if_splits)
  qed
qed

lemma ZoneForward_Update_shape:
  "namespaced_ZoneForward_Update env ep cr w =
     ladder_update_shape errUpdateZoneForward ZoneForward_errEmptyUID env (ensureIdentityPrerequisite env ep)
       (\<lambda>cr. zoneforward_update_request (GetExternalName cr) (zf_ForProvider cr) (mo_uid cr)) zfr_Ref cr w"
proof -
  obtain e w1 where e: "ensureIdentityPrerequisite env ep w = (e, w1)"
    by (cases "ensureIdentityPrerequisite env ep w")
  show ?thesis
    by (cases e; cases "wapi_mutate env (calls w1) (zoneforward_update_request (GetExternalName cr) (zf_ForProvider
        cr) (mo_uid cr))")
      (auto simp: namespaced_ZoneForward_Update_def ladder_update_shape_def updateZoneForward_def zoneforward_update_request_def
        Let_def e mutate_object_def)
qed

lemma ZoneForward_Delete_shape:
  "namespaced_ZoneForward_Delete env ep cr w =
     ladder_delete_shape errDeleteZoneForward errDeleteUnverifiedOwnership nilDereference
       (Resolve env ZoneForwardObj_type (GetExternalName cr) (mo_uid cr)) (ensureIdentityPrerequisite env ep)
       (issue_delete env) zfr_Ref w"
proof -
  have "namespaced_ZoneForward_Delete env ep cr w = deleteZoneForwardIdentity env ep (GetExternalName cr) (mo_uid cr) w"
    by (simp add: namespaced_ZoneForward_Delete_def Let_def split: prod.split option.split)
  then show ?thesis
    by (simp only: deleteZoneForwardIdentity_def ladder_delete_shape_def resolveZoneForwardIdentity_def deleteZoneForward_issue)
qed

lemma ZoneForward_NameServersToSDK_scopes: "clusterNameServersToSDK = namespacedNameServersToSDK"
  by (intro ext) (simp only: clusterNameServersToSDK_def namespacedNameServersToSDK_def)

lemma ZoneForward_NameServersFromSDK_scopes: "clusterNameServersFromSDK = namespacedNameServersFromSDK"
  by (intro ext) (simp only: clusterNameServersFromSDK_def namespacedNameServersFromSDK_def
      ZoneForward_NameServersToSDK_scopes)

lemma ZoneForward_ForwardingServersToSDK_scopes: "clusterForwardingServersToSDK = namespacedForwardingServersToSDK"
  by (intro ext) (simp only: clusterForwardingServersToSDK_def namespacedForwardingServersToSDK_def
      ZoneForward_NameServersToSDK_scopes ZoneForward_NameServersFromSDK_scopes)

lemma ZoneForward_ForwardingServersFromSDK_scopes: "clusterForwardingServersFromSDK = namespacedForwardingServersFromSDK"
  by (intro ext) (simp only: clusterForwardingServersFromSDK_def namespacedForwardingServersFromSDK_def
      ZoneForward_NameServersToSDK_scopes ZoneForward_NameServersFromSDK_scopes ZoneForward_ForwardingServersToSDK_scopes)

lemma ZoneForward_scopes:
  "cluster_ZoneForward_Observe = namespaced_ZoneForward_Observe" "cluster_ZoneForward_Create = namespaced_ZoneForward_Create"
  "cluster_ZoneForward_Update = namespaced_ZoneForward_Update" "cluster_ZoneForward_Delete = namespaced_ZoneForward_Delete"
  by (intro ext, simp only: cluster_ZoneForward_Observe_def namespaced_ZoneForward_Observe_def
      cluster_ZoneForward_Create_def
      namespaced_ZoneForward_Create_def cluster_ZoneForward_Update_def namespaced_ZoneForward_Update_def
      cluster_ZoneForward_Delete_def namespaced_ZoneForward_Delete_def ZoneForward_NameServersToSDK_scopes ZoneForward_NameServersFromSDK_scopes ZoneForward_ForwardingServersToSDK_scopes ZoneForward_ForwardingServersFromSDK_scopes)+

lemma zoneforward_written_utd:
  assumes "ZoneForward_spec_ok cr"
    and "zoneforward_holds (zoneforward_create_request (zf_ForProvider cr) (mo_uid cr)) rec \<and> ZoneForward_valid
        cr = None \<or>
      zoneforward_holds (zoneforward_update_request (GetExternalName cr) (zf_ForProvider cr) (mo_uid cr)) rec"
  shows "ZoneForward_utd (fst (lift_late ZoneForward_lateInitialize ZoneForward_get ZoneForward_put cr rec)) rec \<and>
    eaValue (zfr_Ea rec) EAKey = Some (mo_uid cr)"
proof -
  note reqs = zoneforward_create_request_def zoneforward_update_request_def
  have ok: "reserved_free (zfp_ExtAttrs (zf_ForProvider cr))"
    using assms(1) by (simp_all add: ZoneForward_spec_ok_def Let_def)
  have ea: "zfr_Ea rec = Stamp (buildEA (zfp_ExtAttrs (zf_ForProvider cr))) (mo_uid cr)"
    using assms(2) by (elim disjE) (simp_all add: reqs)
  have fields: 
    "nameServersEqual (namespacedNameServersToSDK (zfp_ForwardTo (zf_ForProvider cr))) (zfr_ForwardTo rec)" 
    "forwardingServersEqual (namespacedForwardingServersToSDK (zfp_ForwardingServers (zf_ForProvider cr)))
        (nullableForwardingServersSlice (zfr_ForwardingServers rec))"
    "strOrEmpty (zfp_Comment (zf_ForProvider cr)) = strOrEmpty (zfr_Comment rec)" 
    "boolOrFalse (zfp_Disable (zf_ForProvider cr)) = boolOrFalse (zfr_Disable rec)" 
    "boolOrFalse (zfp_ForwardersOnly (zf_ForProvider cr)) = boolOrFalse (zfr_ForwardersOnly rec)" 
    "strOrEmpty (zfp_NsGroup (zf_ForProvider cr)) = strOrEmpty (zfr_NsGroup rec)" 
    "strOrEmpty (zfp_ExternalNsGroup (zf_ForProvider cr)) = strOrEmpty (zfr_ExternalNsGroup rec)"
    using assms(2) ok by (elim disjE; simp add: reqs)+
  have "userAttrs (zfr_Ea rec) = zfp_ExtAttrs (zf_ForProvider cr)"
    using ok(1) by (simp add: ea userAttrs_buildEA reserved_free_fmdrop)
  then have "ZoneForward_utd cr rec"
    using fields
    by (simp add: ZoneForward_utd_def ZoneForward_isUpToDate_def Let_def extAttrsEqual_iff flip: userAttrs_def)
  with ea show ?thesis using zoneforward_late.late_utd by simp
qed

interpretation zoneforward: refreshing_client "lift_late ZoneForward_lateInitialize ZoneForward_get ZoneForward_put" ZoneForward_utd
  "\<lambda>s s'. ZoneForward_keeps (ZoneForward_get s) (ZoneForward_get s')"
  ZoneForwardObj_type zfr_Ref ZoneForward_status ZoneForward_valid
  "\<lambda>cr. zoneforward_create_request (zf_ForProvider cr) (mo_uid cr)"
  "\<lambda>cr. zoneforward_update_request (GetExternalName cr) (zf_ForProvider cr) (mo_uid cr)"
  zoneforward_req_ea zoneforward_holds ZoneForward_spec_ok
  "ladder_observe_error errObserveZoneForward" "\<lambda>r. r \<noteq> []" "\<lambda>r. True" zfr_Ref errCreateZoneForward errUpdateZoneForward errDeleteZoneForward ZoneForward_errEmptyUID
  namespaced_ZoneForward_Observe namespaced_ZoneForward_Create namespaced_ZoneForward_Update namespaced_ZoneForward_Delete
proof (unfold_locales, goal_cases)
  case (6 cr)
  then show ?case by (auto simp: ZoneForward_valid_def Let_def split: if_splits)
next
  case (13 n cr rec)
  have "ZoneForward_get (SetExternalName n cr) = ZoneForward_get cr"
    "ZoneForward_put (SetExternalName n cr) l = SetExternalName n (ZoneForward_put cr l)" for l
    by (simp_all add: ZoneForward_get_def ZoneForward_put_def SetExternalName_def)
  then show ?case
    by (simp add: zoneforward_late.lifted_simps ZoneForward_utd_def SetExternalName_def)
next
  case (14 cr rec)
  then show ?case using zoneforward_written_utd [of cr rec] by simp
next
  case (15 cr rec)
  then show ?case using zoneforward_written_utd [of cr rec] by simp
qed (simp_all add: ZoneForward_Observe_shape ZoneForward_Create_shape ZoneForward_Update_shape ZoneForward_Delete_shape
    zoneforward_late.lifted_simps ZoneForward_put_def ZoneForward_status_def Let_def
    zoneforward_create_request_def zoneforward_update_request_def)

end
