(* ===== verification/DTC.thy ===== *)
theory DTC
  imports LadderClient
begin

text \<open>
  What the DTC controllers (dtcserver, dtclbdn, dtcpool) and hostrecord each declare with the same bodies:
  the late-initialisation helpers and the health of an object.
\<close>

definition lateInitString :: "string option \<Rightarrow> string option \<Rightarrow> string option \<times> bool" where
  "lateInitString field observed =
     (if field \<noteq> None \<or> observed = None \<or> observed = Some [] then (field, False) else (observed, True))"

definition lateInitBool :: "bool option \<Rightarrow> bool option \<Rightarrow> bool option \<times> bool" where
  "lateInitBool field observed =
     (if field \<noteq> None \<or> observed = None then (field, False) else (observed, True))"

definition lateInitUint32 :: "32 word option \<Rightarrow> 32 word option \<Rightarrow> 32 word option \<times> bool" where
  "lateInitUint32 field observed =
     (if field \<noteq> None \<or> observed = None then (field, False) else (observed, True))"

definition lateInitExtAttrs :: "extattrs \<Rightarrow> ea \<Rightarrow> extattrs \<times> bool" where
  "lateInitExtAttrs field observed =
     (if field \<noteq> fmempty then (field, False)
      else
        (let fromRec = extAttrsFromEA (Strip observed) in
         if fromRec = fmempty then (field, False) else (fromRec, True)))"

text \<open>In terms of the functions that overwrite what is unset.\<close>

lemma lateInit_eqs:
  "lateInitString s t = (fill s (ptrIfSet t), fill s (ptrIfSet t) \<noteq> s)"
  "lateInitBool b c = (fill b c, fill b c \<noteq> b)"
  "lateInitUint32 v w = (fill v w, fill v w \<noteq> v)"
  "lateInitExtAttrs m e = (fill_map m (userAttrs e), fill_map m (userAttrs e) \<noteq> m)"
  by (auto simp: lateInitString_def lateInitBool_def lateInitUint32_def lateInitExtAttrs_def fill_def
      fill_map_def userAttrs_def extAttrsFromEA_def ptrIfSet_def ptrIfNonEmpty_def Let_def split: option.splits)

lemma guarded_late:
  "(if g then (fill x y, fill x y \<noteq> x) else (x, False)) = (fill_if x g y, fill_if x g y \<noteq> x)"
  "(if g then (fill_list xs ys, fill_list xs ys \<noteq> xs) else (xs, False)) =
     ((if g then fill_list xs ys else xs), (if g then fill_list xs ys else xs) \<noteq> xs)"
  by (simp_all add: fill_def fill_if_def)

text \<open>ibclient.DtcHealth, the package's dtcHealth and the CRD's health.\<close>

record DtcHealth =
  dh_Availability :: string
  dh_Description :: string
  dh_EnabledState :: string

record dtcHealth =
  dth_Availability :: "string option"
  dth_Description :: "string option"
  dth_EnabledState :: "string option"

record crdHealth =
  crh_Availability :: "string option"
  crh_Description :: "string option"
  crh_EnabledState :: "string option"

definition healthFromSDK :: "DtcHealth option \<Rightarrow> dtcHealth option" where
  "healthFromSDK h =
     (case h of
        None \<Rightarrow> None
      | Some x \<Rightarrow> Some \<lparr>dth_Availability = ptrIfNonEmpty (dh_Availability x),
                        dth_Description = ptrIfNonEmpty (dh_Description x),
                        dth_EnabledState = ptrIfNonEmpty (dh_EnabledState x)\<rparr>)"

definition healthToNamespaced :: "dtcHealth option \<Rightarrow> crdHealth option" where
  "healthToNamespaced h =
     (case h of
        None \<Rightarrow> None
      | Some x \<Rightarrow> Some \<lparr>crh_Availability = dth_Availability x, crh_Description = dth_Description x,
                        crh_EnabledState = dth_EnabledState x\<rparr>)"

definition healthToCluster :: "dtcHealth option \<Rightarrow> crdHealth option" where
  "healthToCluster h =
     (case h of
        None \<Rightarrow> None
      | Some x \<Rightarrow> Some \<lparr>crh_Availability = dth_Availability x, crh_Description = dth_Description x,
                        crh_EnabledState = dth_EnabledState x\<rparr>)"

lemma healthTo_scopes: "healthToCluster = healthToNamespaced"
  by (intro ext) (simp only: healthToCluster_def healthToNamespaced_def)

end
