(* ===== verification/DTCServer.thy ===== *)
theory DTCServer
  imports DTC
begin

text \<open>
  internal/controller/dtcserver: the DTCServer controller, a client of the identity ladder. It builds the
  object itself and calls CreateObject and UpdateObject, which answer with a reference. ibclient.DtcServer
  is the record DtcServerObj here.
\<close>

section \<open>Data\<close>

text \<open>ibclient.DtcServerMonitor, the package's monitorPair and the CRD's monitor.\<close>

record DtcServerMonitor =
  dm_Monitor :: string
  dm_Host :: string

record monitorPair =
  mp_Monitor :: "string option"
  mp_Host :: "string option"

record DTCServerMonitor =
  csm_Monitor :: "string option"
  csm_Host :: "string option"

definition buildMonitors :: "monitorPair list \<Rightarrow> DtcServerMonitor option list" where
  "buildMonitors monitors =
     (if monitors = [] then []
      else map (\<lambda>m. Some \<lparr>dm_Monitor = strOrEmpty (mp_Monitor m), dm_Host = strOrEmpty (mp_Host
          m)\<rparr>) monitors)"

definition monitorPairsFromSDK :: "DtcServerMonitor option list \<Rightarrow> monitorPair list" where
  "monitorPairsFromSDK monitors =
     (if monitors = [] then []
      else List.map_filter (map_option (\<lambda>m. \<lparr>mp_Monitor = ptrIfNonEmpty (dm_Monitor m),
             mp_Host = ptrIfNonEmpty (dm_Host m)\<rparr>)) monitors)"

fun monitorsLoop :: "monitorPair list \<Rightarrow> monitorPair list \<Rightarrow> bool" where
  "monitorsLoop (x # a) (y # b) =
     (if strOrEmpty (mp_Monitor x) \<noteq> strOrEmpty (mp_Monitor y) then False
      else if strOrEmpty (mp_Host x) \<noteq> strOrEmpty (mp_Host y) then False
      else monitorsLoop a b)"
| "monitorsLoop _ _ = True"

definition monitorsEqual :: "monitorPair list \<Rightarrow> monitorPair list \<Rightarrow> bool" where
  "monitorsEqual a b = (if length a \<noteq> length b then False else monitorsLoop a b)"

text \<open>Two lists of monitors are equal to the drift check when they build the same request.\<close>

lemma monitorsEqual_iff: "monitorsEqual a b \<longleftrightarrow> buildMonitors a = buildMonitors b"
proof -
  have "length a = length b \<Longrightarrow> monitorsLoop a b \<longleftrightarrow> buildMonitors a = buildMonitors b"
    by (induction a b rule: monitorsLoop.induct) (auto simp: buildMonitors_def)
  moreover have "buildMonitors a = buildMonitors b \<Longrightarrow> length a = length b"
    by (auto simp: buildMonitors_def dest: map_eq_imp_length_eq split: if_splits)
  ultimately show ?thesis by (auto simp: monitorsEqual_def)
qed

lemma monitorsEqual_refl [simp]: "monitorsEqual a a"
  by (simp add: monitorsEqual_iff)

lemma buildMonitors_fromSDK: "None \<notin> set ms \<Longrightarrow> buildMonitors (monitorPairsFromSDK ms) = ms"
  by (simp only: buildMonitors_def monitorPairsFromSDK_def conv_simps)
    (simp add: map_filter_the comp_def map_the_idI [where f = "\<lambda>m. Some \<lparr>dm_Monitor = dm_Monitor m,
        dm_Host = dm_Host m\<rparr>"])

text \<open>Monitors read back from the Grid are the ones that were sent.\<close>

lemma monitors_roundtrip [simp]: "monitorsEqual ms (monitorPairsFromSDK (buildMonitors ms))"
proof -
  have "None \<notin> set (buildMonitors ms)" by (auto simp: buildMonitors_def)
  then show ?thesis by (simp add: monitorsEqual_iff buildMonitors_fromSDK)
qed

text \<open>ibclient.DtcServer, as the provider requests it.\<close>

record DtcServerObj =
  dsr_Ref :: string
  dsr_Name :: "string option"
  dsr_Host :: "string option"
  dsr_Comment :: "string option"
  dsr_Disable :: "bool option"
  dsr_AutoCreateHostRecord :: "bool option"
  dsr_SniHostname :: "string option"
  dsr_UseSniHostname :: "bool option"
  dsr_Monitors :: "DtcServerMonitor option list"
  dsr_Health :: "DtcHealth option"
  dsr_Ea :: ea

definition emptyDtcServerObj :: DtcServerObj where
  "emptyDtcServerObj = \<lparr>dsr_Ref = [], dsr_Name = None, dsr_Host = None, dsr_Comment = None, dsr_Disable = None,
      dsr_AutoCreateHostRecord = None, dsr_SniHostname = None, dsr_UseSniHostname = None, dsr_Monitors = [], dsr_Health =
      None, dsr_Ea = fmempty\<rparr>"

definition reflectDtcServerObj :: "DtcServerObj \<Rightarrow> goany" where
  "reflectDtcServerObj r = PtrTo ''*ibclient.DtcServer''
     [(''Ref'', FString (dsr_Ref r)),
      (''Name'', FOther),
      (''Host'', FOther),
      (''Comment'', FOther),
      (''Disable'', FOther),
      (''AutoCreateHostRecord'', FOther),
      (''SniHostname'', FOther),
      (''UseSniHostname'', FOther),
      (''Monitors'', FOther),
      (''Health'', FOther),
      (''Ea'', FEA (dsr_Ea r))]"

definition DtcServerObj_type :: "DtcServerObj objtype" where
  "DtcServerObj_type = \<lparr>ot_name = ''dtc:server'', ot_empty = emptyDtcServerObj, ot_reflect =
      reflectDtcServerObj\<rparr>"

text \<open>CreateObject and UpdateObject of the connector on a server object, by the arguments of NewDtcServer.\<close>

datatype dtcserver_req =
    CreateDtcServerObject string string string bool bool ea "DtcServerMonitor option list" string bool
      \<comment> \<open>comment, name, host, autoCreateHostRecord, disable, ea, monitors, sniHostname, useSniHostname\<close>
  | UpdateDtcServerObject string string string string bool bool ea "DtcServerMonitor option list" string bool
      \<comment> \<open>ref, comment, name, host, autoCreateHostRecord, disable, ea, monitors, sniHostname, useSniHostname\<close>

record DTCServerParameters =
  dsp_Name :: "string option"
  dsp_Host :: "string option"
  dsp_Comment :: "string option"
  dsp_Disable :: "bool option"
  dsp_AutoCreateHostRecord :: "bool option"
  dsp_SniHostname :: "string option"
  dsp_UseSniHostname :: "bool option"
  dsp_Monitors :: "DTCServerMonitor list"
  dsp_ExtAttrs :: extattrs

record DTCServerObservation =
  dss_ID :: string
  dss_Name :: "string option"
  dss_Host :: "string option"
  dss_Comment :: "string option"
  dss_Disable :: "bool option"
  dss_AutoCreateHostRecord :: "bool option"
  dss_SniHostname :: "string option"
  dss_UseSniHostname :: "bool option"
  dss_ExtAttrs :: extattrs
  dss_Ref :: "string option"
  dss_Monitors :: "DTCServerMonitor list"
  dss_Health :: "crdHealth option"

record DTCServerCR = mobj +
  ds_ForProvider :: DTCServerParameters
  ds_AtProvider :: DTCServerObservation

section \<open>Error messages\<close>

definition errObserveDTCServer :: string where "errObserveDTCServer = ''cannot observe DTCServer''"
definition errCreateDTCServer :: string where "errCreateDTCServer = ''cannot create DTCServer''"
definition errUpdateDTCServer :: string where "errUpdateDTCServer = ''cannot update DTCServer''"
definition errDeleteDTCServer :: string where "errDeleteDTCServer = ''cannot delete DTCServer''"
definition DTCServer_errEmptyUID :: string where
  "DTCServer_errEmptyUID = ''cannot stamp DTCServer identity: managed resource's metadata.uid is empty''"

section \<open>Field comparison and late initialisation\<close>

definition DTCServer_isUpToDate ::
  "string option \<Rightarrow> string option \<Rightarrow> string option \<Rightarrow> bool option \<Rightarrow> bool
      option \<Rightarrow> bool option \<Rightarrow> string option \<Rightarrow> monitorPair list \<Rightarrow> extattrs
      \<Rightarrow> DtcServerObj \<Rightarrow> bool" where
  "DTCServer_isUpToDate name host comment disable autoCreateHostRecord useSniHostname sniHostname monitors extAttrs rec =
     (if strOrEmpty name \<noteq> strOrEmpty (dsr_Name rec) then False
      else if strOrEmpty host \<noteq> strOrEmpty (dsr_Host rec) then False
      else if strOrEmpty comment \<noteq> strOrEmpty (dsr_Comment rec) then False
      else if boolOrFalse disable \<noteq> boolOrFalse (dsr_Disable rec) then False
      else if boolOrFalse autoCreateHostRecord \<noteq> boolOrFalse (dsr_AutoCreateHostRecord rec) then False
      else if boolOrFalse useSniHostname \<noteq> boolOrFalse (dsr_UseSniHostname rec) then False
      else if boolOrFalse useSniHostname \<and> strOrEmpty sniHostname \<noteq> strOrEmpty (dsr_SniHostname rec) then False
      else if \<not> monitorsEqual monitors (monitorPairsFromSDK (dsr_Monitors rec)) then False
      else extAttrsEqual extAttrs (extAttrsFromEA (Strip (dsr_Ea rec))))"

text \<open>The ForProvider fields lateInitialize takes pointers to.\<close>

type_synonym dtcserver_late = "string option \<times> bool option \<times> bool option \<times> bool option \<times> string option \<times> monitorPair list \<times> extattrs"

text \<open>lateInitialize's helper for the monitors; the others are in theory DTC.\<close>

definition lateInitMonitors :: "monitorPair list \<Rightarrow> DtcServerMonitor option list \<Rightarrow> monitorPair list \<times> bool" where
  "lateInitMonitors field observed =
     (if field \<noteq> [] then (field, False)
      else
        (let fromRec = monitorPairsFromSDK observed in
         if fromRec = [] then (field, False) else (fromRec, True)))"

lemma lateInitMonitors_eq:
  "lateInitMonitors ms os = (fill_list ms (monitorPairsFromSDK os), fill_list ms (monitorPairsFromSDK os) \<noteq> ms)"
  by (auto simp: lateInitMonitors_def fill_list_def Let_def)

definition DTCServer_lateInitialize :: "dtcserver_late \<Rightarrow> DtcServerObj \<Rightarrow> dtcserver_late \<times> bool" where
  "DTCServer_lateInitialize p rec =
     (case p of (comment, disable, autoCreateHostRecord, useSniHostname, sniHostname, monitors, extAttrs) \<Rightarrow>
       (let (comment1, c1) = lateInitString comment (dsr_Comment rec);
            (disable1, b2) = lateInitBool disable (dsr_Disable rec);
            c2 = (b2 \<or> c1);
            (autoCreateHostRecord1, b3) = lateInitBool autoCreateHostRecord (dsr_AutoCreateHostRecord rec);
            c3 = (b3 \<or> c2);
            (useSniHostname1, b4) = lateInitBool useSniHostname (dsr_UseSniHostname rec);
            c4 = (b4 \<or> c3);
            (sniHostname1, b5) = (if boolOrFalse useSniHostname1 then lateInitString sniHostname (dsr_SniHostname rec)
                else (sniHostname, False));
            c5 = (b5 \<or> c4);
            (monitors1, b6) = lateInitMonitors monitors (dsr_Monitors rec);
            c6 = (b6 \<or> c5);
            (extAttrs1, b7) = lateInitExtAttrs extAttrs (dsr_Ea rec);
            c7 = (b7 \<or> c6)
        in ((comment1, disable1, autoCreateHostRecord1, useSniHostname1, sniHostname1, monitors1, extAttrs1), c7)))"

record observedDTCServer =
  dso_ID :: string
  dso_Name :: "string option"
  dso_Host :: "string option"
  dso_Comment :: "string option"
  dso_Disable :: "bool option"
  dso_AutoCreateHostRecord :: "bool option"
  dso_SniHostname :: "string option"
  dso_UseSniHostname :: "bool option"
  dso_Monitors :: "monitorPair list"
  dso_ExtAttrs :: extattrs
  dso_Ref :: "string option"
  dso_Health :: "dtcHealth option"

definition observeFromDtcServer :: "string \<Rightarrow> DtcServerObj \<Rightarrow> observedDTCServer" where
  "observeFromDtcServer externalID rec =
     \<lparr>dso_ID = externalID,
      dso_Name = dsr_Name rec,
      dso_Host = dsr_Host rec,
      dso_Comment = ptrIfSet (dsr_Comment rec),
      dso_Disable = dsr_Disable rec,
      dso_AutoCreateHostRecord = dsr_AutoCreateHostRecord rec,
      dso_SniHostname = ptrIfSet (dsr_SniHostname rec),
      dso_UseSniHostname = dsr_UseSniHostname rec,
      dso_Monitors = monitorPairsFromSDK (dsr_Monitors rec),
      dso_ExtAttrs = extAttrsFromEA (dsr_Ea rec),
      dso_Ref = ptrIfNonEmpty (dsr_Ref rec),
      dso_Health = healthFromSDK (dsr_Health rec)\<rparr>"

section \<open>SDK calls\<close>

definition createDtcServer ::
  "(DtcServerObj, dtcserver_req) wapi \<Rightarrow> DTCServerParameters \<Rightarrow> monitorPair list \<Rightarrow>
      string \<Rightarrow> dtcserver_req world \<Rightarrow> (goerr + string) \<times> dtcserver_req world" where
  "createDtcServer env p monitors uid w =
     (if trim_space uid = [] then (Inl (TextError DTCServer_errEmptyUID), w)
      else
        (let e = Stamp (buildEA (dsp_ExtAttrs p)) uid
         in (case mutate_object env
              (CreateDtcServerObject (strOrEmpty (dsp_Comment p)) (strOrEmpty (dsp_Name p)) (strOrEmpty (dsp_Host p))
                  (boolOrFalse (dsp_AutoCreateHostRecord p)) (boolOrFalse (dsp_Disable p)) e (buildMonitors monitors)
                  (strOrEmpty (dsp_SniHostname p)) (boolOrFalse (dsp_UseSniHostname p))) w of
               (Inl err, w1) \<Rightarrow> (Inl err, w1)
             | (Inr rec, w1) \<Rightarrow> (Inr (dsr_Ref rec), w1))))"

text \<open>The model asks the environment for the stored object and keeps its reference, which is all that CreateObject and UpdateObject answer.\<close>

definition updateDtcServer ::
  "(DtcServerObj, dtcserver_req) wapi \<Rightarrow> string \<Rightarrow> DTCServerParameters \<Rightarrow> monitorPair
      list \<Rightarrow> string \<Rightarrow> dtcserver_req world \<Rightarrow> (goerr + string) \<times> dtcserver_req
      world" where
  "updateDtcServer env ref p monitors uid w =
     (if trim_space uid = [] then (Inl (TextError DTCServer_errEmptyUID), w)
      else
        (let e = Stamp (buildEA (dsp_ExtAttrs p)) uid
         in (case mutate_object env
              (UpdateDtcServerObject ref (strOrEmpty (dsp_Comment p)) (strOrEmpty (dsp_Name p)) (strOrEmpty (dsp_Host
                  p)) (boolOrFalse (dsp_AutoCreateHostRecord p)) (boolOrFalse (dsp_Disable p)) e (buildMonitors monitors)
                  (strOrEmpty (dsp_SniHostname p)) (boolOrFalse (dsp_UseSniHostname p))) w of
               (Inl err, w1) \<Rightarrow> (Inl err, w1)
             | (Inr rec, w1) \<Rightarrow> (Inr (dsr_Ref rec), w1))))"

definition deleteDtcServer :: "(DtcServerObj, dtcserver_req) wapi \<Rightarrow> string \<Rightarrow> dtcserver_req
    world \<Rightarrow> goerr option \<times> dtcserver_req world" where
  "deleteDtcServer env ref w =
     (case delete_object env ref w of
        (Inl err, w1) \<Rightarrow> (Some err, w1)
      | (Inr _, w1) \<Rightarrow> (None, w1))"

section \<open>Identity resolution\<close>

definition resolveDtcServerIdentity ::
  "(DtcServerObj, dtcserver_req) wapi \<Rightarrow> string \<Rightarrow> string \<Rightarrow> dtcserver_req world
      \<Rightarrow> (goerr + DtcServerObj option \<times> Outcome) \<times> dtcserver_req world" where
  "resolveDtcServerIdentity env ref uid w = Resolve env DtcServerObj_type ref uid w"

type_synonym DTCServer_observeResult = "(DtcServerObj, observedDTCServer) observeResult"

definition DTCServer_notFoundResult :: DTCServer_observeResult where
  "DTCServer_notFoundResult =
     \<lparr>ores_exists = False, ores_rec = emptyDtcServerObj, ores_obs = observeFromDtcServer [] emptyDtcServerObj,
      ores_lateInit = False, ores_refreshedRef = [], ores_adopted = False\<rparr>"

definition observeDtcServer ::
  "(DtcServerObj, dtcserver_req) wapi \<Rightarrow> string \<Rightarrow> string \<Rightarrow> string \<Rightarrow>
      string \<Rightarrow> dtcserver_late \<Rightarrow> dtcserver_req world \<Rightarrow>
     (goerr + DTCServer_observeResult) \<times> dtcserver_late \<times> dtcserver_req world" where
  "observeDtcServer env endpoint crName externalName uid p w =
     (let ref = observeRefFor crName externalName in
      case resolveDtcServerIdentity env ref uid w of
        (Inl err, w1) \<Rightarrow>
          if IsSearchFailure err then
            (case ensureIdentityPrerequisite env endpoint w1 of
               (Some prereqErr, w2) \<Rightarrow> (Inl prereqErr, p, w2)
             | (None, w2) \<Rightarrow> (Inl err, p, w2))
          else (Inl err, p, w1)
      | (Inr (obj, outcome), w1) \<Rightarrow>
          if outcome = OutcomeNotFound then (Inr DTCServer_notFoundResult, p, w1)
          else
            (case obj of
               None \<Rightarrow> (Inl (TextError nilDereference), p, w1)
             | Some rec \<Rightarrow>
                 (case DTCServer_lateInitialize p rec of (p1, changed) \<Rightarrow>
                    (let found = (outcome = OutcomeRotated \<or> outcome = OutcomeFoundByUID)
                     in (Inr \<lparr>ores_exists = True, ores_rec = rec,
                              ores_obs = observeFromDtcServer (dsr_Ref rec) rec,
                              ores_lateInit = (if found then True else changed),
                              ores_refreshedRef = (if found then dsr_Ref rec else []),
                              ores_adopted = (outcome = OutcomeAdopted)\<rparr>, p1, w1)))))"

definition deleteDtcServerIdentity ::
  "(DtcServerObj, dtcserver_req) wapi \<Rightarrow> string \<Rightarrow> string \<Rightarrow> string \<Rightarrow>
      dtcserver_req world \<Rightarrow> goerr option \<times> dtcserver_req world" where
  "deleteDtcServerIdentity env endpoint ref uid w =
     (case resolveDtcServerIdentity env ref uid w of
        (Inl err, w1) \<Rightarrow>
          if IsSearchFailure err then
            (case ensureIdentityPrerequisite env endpoint w1 of
               (Some prereqErr, w2) \<Rightarrow> (Some prereqErr, w2)
             | (None, w2) \<Rightarrow> (Some (Wrapped errDeleteDTCServer err), w2))
          else (Some (Wrapped errDeleteDTCServer err), w1)
      | (Inr (obj, outcome), w1) \<Rightarrow>
          (case outcome of
             OutcomeNotFound \<Rightarrow> (None, w1)
           | OutcomeAdopted \<Rightarrow> (Some (TextError errDeleteUnverifiedOwnership), w1)
           | _ \<Rightarrow>
               (case obj of
                  None \<Rightarrow> (Some (TextError nilDereference), w1)
                | Some rec \<Rightarrow>
                    (case deleteDtcServer env (dsr_Ref rec) w1 of
                       (None, w2) \<Rightarrow> (None, w2)
                     | (Some delErr, w2) \<Rightarrow>
                         if isNotFound (Some delErr) then (None, w2)
                         else (Some (Wrapped errDeleteDTCServer delErr), w2)))))"

section \<open>The external clients\<close>

text \<open>The pointers to spec fields Observe hands over, and their write-back.\<close>

definition DTCServer_latePart :: "DTCServerParameters \<Rightarrow> monitorPair list \<Rightarrow> dtcserver_late" where
  "DTCServer_latePart p monitors = (dsp_Comment p, dsp_Disable p, dsp_AutoCreateHostRecord p, dsp_UseSniHostname p,
      dsp_SniHostname p, monitors, dsp_ExtAttrs p)"

definition DTCServer_setLate :: "DTCServerParameters \<Rightarrow> dtcserver_late \<Rightarrow> DTCServerParameters" where
  "DTCServer_setLate p l = (case l of (comment, disable, autoCreateHostRecord, useSniHostname, sniHostname, monitors,
      extAttrs) \<Rightarrow>
     p\<lparr>dsp_Comment := comment, dsp_Disable := disable, dsp_AutoCreateHostRecord := autoCreateHostRecord,
         dsp_UseSniHostname := useSniHostname, dsp_SniHostname := sniHostname, dsp_ExtAttrs := extAttrs\<rparr>)"

text \<open>The local copy of the monitors that lateInitialize fills.\<close>

definition DTCServer_lateMonitors :: "dtcserver_late \<Rightarrow> monitorPair list" where
  "DTCServer_lateMonitors l =
     (case l of (comment, disable, autoCreateHostRecord, useSniHostname, sniHostname, monitors, extAttrs)
         \<Rightarrow> monitors)"

subsection \<open>namespaced.go\<close>

definition monitorsFromNamespaced :: "DTCServerMonitor list \<Rightarrow> monitorPair list" where
  "monitorsFromNamespaced monitors =
     (if monitors = [] then []
      else map (\<lambda>m. \<lparr>mp_Monitor = csm_Monitor m, mp_Host = csm_Host m\<rparr>) monitors)"

definition monitorPairsToNamespaced :: "monitorPair list \<Rightarrow> DTCServerMonitor list" where
  "monitorPairsToNamespaced monitors =
     (if monitors = [] then []
      else map (\<lambda>m. \<lparr>csm_Monitor = mp_Monitor m, csm_Host = mp_Host m\<rparr>) monitors)"

definition namespaced_DTCServer_Observe ::
  "(DtcServerObj, dtcserver_req) wapi \<Rightarrow> string \<Rightarrow> DTCServerCR \<Rightarrow> dtcserver_req world
      \<Rightarrow> (goerr + ExternalObservation) \<times> DTCServerCR \<times> dtcserver_req world" where
  "namespaced_DTCServer_Observe env endpoint cr w =
     (case observeDtcServer env endpoint (mo_name cr) (GetExternalName cr) (mo_uid cr)
             (DTCServer_latePart (ds_ForProvider cr) (monitorsFromNamespaced (dsp_Monitors (ds_ForProvider cr)))) w of
        (Inl err, l, w1) \<Rightarrow>
          (let cr1 = cr\<lparr>ds_ForProvider := DTCServer_setLate (ds_ForProvider cr) l\<rparr> in
           if errors_as is_PrerequisiteError err then (Inl err, cr1, w1)
           else (Inl (Wrapped errObserveDTCServer err), cr1, w1))
      | (Inr res, l, w1) \<Rightarrow>
          (let p = DTCServer_setLate (ds_ForProvider cr) l;
               monitors = DTCServer_lateMonitors l;
               cr1 = cr\<lparr>ds_ForProvider := p\<rparr> in
           if \<not> ores_exists res then (Inr notExists, cr1, w1)
           else
             (let rec = ores_rec res; o1 = ores_obs res;
                  cr2 = cr1\<lparr>ds_AtProvider :=
                    \<lparr>dss_ID = dso_ID o1, dss_Name = dso_Name o1, dss_Host = dso_Host o1, dss_Comment
                     = dso_Comment o1, dss_Disable = dso_Disable o1, dss_AutoCreateHostRecord =
                     dso_AutoCreateHostRecord o1, dss_SniHostname = dso_SniHostname o1,
                     dss_UseSniHostname = dso_UseSniHostname o1, dss_ExtAttrs = dso_ExtAttrs o1,
                     dss_Ref = dso_Ref o1, dss_Monitors = monitorPairsToNamespaced (dso_Monitors o1),
                     dss_Health = healthToNamespaced (dso_Health o1)\<rparr>\<rparr>;
                  p1 = (if ores_lateInit res then p\<lparr>dsp_Monitors := monitorPairsToNamespaced monitors\<rparr> else p);
                  cr3 = cr2\<lparr>ds_ForProvider := p1\<rparr>;
                  cr4 = (if ores_refreshedRef res \<noteq> [] then SetExternalName (ores_refreshedRef res) cr3 else cr3);
                  cr5 = SetAvailable cr4;
                  upToDate = (DTCServer_isUpToDate (dsp_Name p1) (dsp_Host p1) (dsp_Comment p1) (dsp_Disable p1)
                                (dsp_AutoCreateHostRecord p1) (dsp_UseSniHostname p1) (dsp_SniHostname p1) monitors
                                (dsp_ExtAttrs p1) rec \<and> \<not> ores_adopted res)
              in (Inr \<lparr>ResourceExists = True, ResourceUpToDate = upToDate,
                       ResourceLateInitialized = ores_lateInit res\<rparr>, cr5, w1))))"

definition namespaced_DTCServer_Create ::
  "(DtcServerObj, dtcserver_req) wapi \<Rightarrow> string \<Rightarrow> DTCServerCR \<Rightarrow> dtcserver_req world
      \<Rightarrow> goerr option \<times> DTCServerCR \<times> dtcserver_req world" where
  "namespaced_DTCServer_Create env endpoint cr w =
     (let p = ds_ForProvider cr; uid = mo_uid cr in
      if trim_space uid = [] then (Some (TextError DTCServer_errEmptyUID), cr, w)
      else
          (case ensureIdentityPrerequisite env endpoint w of
             (Some err, w1) \<Rightarrow> (Some err, cr, w1)
           | (None, w1) \<Rightarrow>
               (case createDtcServer env p (monitorsFromNamespaced (dsp_Monitors p)) uid w1 of
                  (Inl err, w2) \<Rightarrow> (Some (Wrapped errCreateDTCServer err), cr, w2)
                | (Inr newRef, w2) \<Rightarrow> (None, SetExternalName newRef cr, w2))))"

definition namespaced_DTCServer_Update ::
  "(DtcServerObj, dtcserver_req) wapi \<Rightarrow> string \<Rightarrow> DTCServerCR \<Rightarrow> dtcserver_req world
      \<Rightarrow> goerr option \<times> DTCServerCR \<times> dtcserver_req world" where
  "namespaced_DTCServer_Update env endpoint cr w =
     (let p = ds_ForProvider cr; externalID = GetExternalName cr in
      case ensureIdentityPrerequisite env endpoint w of
        (Some err, w1) \<Rightarrow> (Some err, cr, w1)
      | (None, w1) \<Rightarrow>
          (case updateDtcServer env externalID p (monitorsFromNamespaced (dsp_Monitors p)) (mo_uid cr) w1 of
             (Inl err, w2) \<Rightarrow> (Some (Wrapped errUpdateDTCServer err), cr, w2)
           | (Inr newRef, w2) \<Rightarrow>
               if newRef \<noteq> [] \<and> newRef \<noteq> externalID then
                 (case Refresh env cr newRef w2 of
                    (Some err, cr1, w3) \<Rightarrow> (Some (Wrapped errPersistExternalName err), cr1, w3)
                  | (None, cr1, w3) \<Rightarrow> (None, cr1, w3))
               else (None, cr, w2)))"

definition namespaced_DTCServer_Delete ::
  "(DtcServerObj, dtcserver_req) wapi \<Rightarrow> string \<Rightarrow> DTCServerCR \<Rightarrow> dtcserver_req world
      \<Rightarrow> goerr option \<times> dtcserver_req world" where
  "namespaced_DTCServer_Delete env endpoint cr w =
     (let externalID = GetExternalName cr in
      case deleteDtcServerIdentity env endpoint externalID (mo_uid cr) w of
        (Some err, w1) \<Rightarrow> (Some err, w1)
      | (None, w1) \<Rightarrow> (None, w1))"

subsection \<open>cluster.go\<close>

definition monitorsFromCluster :: "DTCServerMonitor list \<Rightarrow> monitorPair list" where
  "monitorsFromCluster monitors =
     (if monitors = [] then []
      else map (\<lambda>m. \<lparr>mp_Monitor = csm_Monitor m, mp_Host = csm_Host m\<rparr>) monitors)"

definition monitorPairsToCluster :: "monitorPair list \<Rightarrow> DTCServerMonitor list" where
  "monitorPairsToCluster monitors =
     (if monitors = [] then []
      else map (\<lambda>m. \<lparr>csm_Monitor = mp_Monitor m, csm_Host = mp_Host m\<rparr>) monitors)"

definition cluster_DTCServer_Observe ::
  "(DtcServerObj, dtcserver_req) wapi \<Rightarrow> string \<Rightarrow> DTCServerCR \<Rightarrow> dtcserver_req world
      \<Rightarrow> (goerr + ExternalObservation) \<times> DTCServerCR \<times> dtcserver_req world" where
  "cluster_DTCServer_Observe env endpoint cr w =
     (case observeDtcServer env endpoint (mo_name cr) (GetExternalName cr) (mo_uid cr)
             (DTCServer_latePart (ds_ForProvider cr) (monitorsFromCluster (dsp_Monitors (ds_ForProvider cr)))) w of
        (Inl err, l, w1) \<Rightarrow>
          (let cr1 = cr\<lparr>ds_ForProvider := DTCServer_setLate (ds_ForProvider cr) l\<rparr> in
           if errors_as is_PrerequisiteError err then (Inl err, cr1, w1)
           else (Inl (Wrapped errObserveDTCServer err), cr1, w1))
      | (Inr res, l, w1) \<Rightarrow>
          (let p = DTCServer_setLate (ds_ForProvider cr) l;
               monitors = DTCServer_lateMonitors l;
               cr1 = cr\<lparr>ds_ForProvider := p\<rparr> in
           if \<not> ores_exists res then (Inr notExists, cr1, w1)
           else
             (let rec = ores_rec res; o1 = ores_obs res;
                  cr2 = cr1\<lparr>ds_AtProvider :=
                    \<lparr>dss_ID = dso_ID o1, dss_Name = dso_Name o1, dss_Host = dso_Host o1, dss_Comment
                     = dso_Comment o1, dss_Disable = dso_Disable o1, dss_AutoCreateHostRecord =
                     dso_AutoCreateHostRecord o1, dss_SniHostname = dso_SniHostname o1,
                     dss_UseSniHostname = dso_UseSniHostname o1, dss_ExtAttrs = dso_ExtAttrs o1,
                     dss_Ref = dso_Ref o1, dss_Monitors = monitorPairsToCluster (dso_Monitors o1),
                     dss_Health = healthToCluster (dso_Health o1)\<rparr>\<rparr>;
                  p1 = (if ores_lateInit res then p\<lparr>dsp_Monitors := monitorPairsToCluster monitors\<rparr> else p);
                  cr3 = cr2\<lparr>ds_ForProvider := p1\<rparr>;
                  cr4 = (if ores_refreshedRef res \<noteq> [] then SetExternalName (ores_refreshedRef res) cr3 else cr3);
                  cr5 = SetAvailable cr4;
                  upToDate = (DTCServer_isUpToDate (dsp_Name p1) (dsp_Host p1) (dsp_Comment p1) (dsp_Disable p1)
                                (dsp_AutoCreateHostRecord p1) (dsp_UseSniHostname p1) (dsp_SniHostname p1) monitors
                                (dsp_ExtAttrs p1) rec \<and> \<not> ores_adopted res)
              in (Inr \<lparr>ResourceExists = True, ResourceUpToDate = upToDate,
                       ResourceLateInitialized = ores_lateInit res\<rparr>, cr5, w1))))"

definition cluster_DTCServer_Create ::
  "(DtcServerObj, dtcserver_req) wapi \<Rightarrow> string \<Rightarrow> DTCServerCR \<Rightarrow> dtcserver_req world
      \<Rightarrow> goerr option \<times> DTCServerCR \<times> dtcserver_req world" where
  "cluster_DTCServer_Create env endpoint cr w =
     (let p = ds_ForProvider cr; uid = mo_uid cr in
      if trim_space uid = [] then (Some (TextError DTCServer_errEmptyUID), cr, w)
      else
          (case ensureIdentityPrerequisite env endpoint w of
             (Some err, w1) \<Rightarrow> (Some err, cr, w1)
           | (None, w1) \<Rightarrow>
               (case createDtcServer env p (monitorsFromCluster (dsp_Monitors p)) uid w1 of
                  (Inl err, w2) \<Rightarrow> (Some (Wrapped errCreateDTCServer err), cr, w2)
                | (Inr newRef, w2) \<Rightarrow> (None, SetExternalName newRef cr, w2))))"

definition cluster_DTCServer_Update ::
  "(DtcServerObj, dtcserver_req) wapi \<Rightarrow> string \<Rightarrow> DTCServerCR \<Rightarrow> dtcserver_req world
      \<Rightarrow> goerr option \<times> DTCServerCR \<times> dtcserver_req world" where
  "cluster_DTCServer_Update env endpoint cr w =
     (let p = ds_ForProvider cr; externalID = GetExternalName cr in
      case ensureIdentityPrerequisite env endpoint w of
        (Some err, w1) \<Rightarrow> (Some err, cr, w1)
      | (None, w1) \<Rightarrow>
          (case updateDtcServer env externalID p (monitorsFromCluster (dsp_Monitors p)) (mo_uid cr) w1 of
             (Inl err, w2) \<Rightarrow> (Some (Wrapped errUpdateDTCServer err), cr, w2)
           | (Inr newRef, w2) \<Rightarrow>
               if newRef \<noteq> [] \<and> newRef \<noteq> externalID then
                 (case Refresh env cr newRef w2 of
                    (Some err, cr1, w3) \<Rightarrow> (Some (Wrapped errPersistExternalName err), cr1, w3)
                  | (None, cr1, w3) \<Rightarrow> (None, cr1, w3))
               else (None, cr, w2)))"

definition cluster_DTCServer_Delete ::
  "(DtcServerObj, dtcserver_req) wapi \<Rightarrow> string \<Rightarrow> DTCServerCR \<Rightarrow> dtcserver_req world
      \<Rightarrow> goerr option \<times> dtcserver_req world" where
  "cluster_DTCServer_Delete env endpoint cr w =
     (let externalID = GetExternalName cr in
      case deleteDtcServerIdentity env endpoint externalID (mo_uid cr) w of
        (Some err, w1) \<Rightarrow> (Some err, w1)
      | (None, w1) \<Rightarrow> (None, w1))"

section \<open>The contract of the ladder client\<close>

text \<open>The requests of a spec, what a Grid object holds of a request, and the drift check of a resource.\<close>

definition dtcserver_create_request :: "DTCServerParameters \<Rightarrow> string \<Rightarrow> dtcserver_req" where
  "dtcserver_create_request p uid = CreateDtcServerObject
     (strOrEmpty (dsp_Comment p)) (strOrEmpty (dsp_Name p)) (strOrEmpty (dsp_Host p)) (boolOrFalse
         (dsp_AutoCreateHostRecord p)) (boolOrFalse (dsp_Disable p)) (Stamp (buildEA (dsp_ExtAttrs p)) uid) (buildMonitors
         (monitorsFromNamespaced (dsp_Monitors p))) (strOrEmpty (dsp_SniHostname p)) (boolOrFalse (dsp_UseSniHostname p))"

definition dtcserver_update_request :: "string \<Rightarrow> DTCServerParameters \<Rightarrow> string \<Rightarrow> dtcserver_req" where
  "dtcserver_update_request ref p uid = UpdateDtcServerObject ref
     (strOrEmpty (dsp_Comment p)) (strOrEmpty (dsp_Name p)) (strOrEmpty (dsp_Host p)) (boolOrFalse
         (dsp_AutoCreateHostRecord p)) (boolOrFalse (dsp_Disable p)) (Stamp (buildEA (dsp_ExtAttrs p)) uid) (buildMonitors
         (monitorsFromNamespaced (dsp_Monitors p))) (strOrEmpty (dsp_SniHostname p)) (boolOrFalse (dsp_UseSniHostname p))"

fun dtcserver_req_ea :: "dtcserver_req \<Rightarrow> ea" where
  "dtcserver_req_ea (CreateDtcServerObject comment name host autoCreateHostRecord disable ea monitors sniHostname useSniHostname) = ea"
| "dtcserver_req_ea (UpdateDtcServerObject ref comment name host autoCreateHostRecord disable ea monitors sniHostname useSniHostname) = ea"

fun dtcserver_holds :: "dtcserver_req \<Rightarrow> DtcServerObj \<Rightarrow> bool" where
  "dtcserver_holds (CreateDtcServerObject comment name host autoCreateHostRecord disable ea monitors sniHostname useSniHostname) rec \<longleftrightarrow>
     strOrEmpty (dsr_Comment rec) = comment \<and>
     strOrEmpty (dsr_Name rec) = name \<and>
     strOrEmpty (dsr_Host rec) = host \<and>
     boolOrFalse (dsr_AutoCreateHostRecord rec) = autoCreateHostRecord \<and>
     boolOrFalse (dsr_Disable rec) = disable \<and>
     dsr_Ea rec = ea \<and>
     dsr_Monitors rec = monitors \<and>
     (useSniHostname \<longrightarrow> strOrEmpty (dsr_SniHostname rec) = sniHostname) \<and>
     boolOrFalse (dsr_UseSniHostname rec) = useSniHostname"
| "dtcserver_holds (UpdateDtcServerObject ref comment name host autoCreateHostRecord disable ea monitors sniHostname useSniHostname) rec \<longleftrightarrow>
     strOrEmpty (dsr_Comment rec) = comment \<and>
     strOrEmpty (dsr_Name rec) = name \<and>
     strOrEmpty (dsr_Host rec) = host \<and>
     boolOrFalse (dsr_AutoCreateHostRecord rec) = autoCreateHostRecord \<and>
     boolOrFalse (dsr_Disable rec) = disable \<and>
     dsr_Ea rec = ea \<and>
     dsr_Monitors rec = monitors \<and>
     (useSniHostname \<longrightarrow> strOrEmpty (dsr_SniHostname rec) = sniHostname) \<and>
     boolOrFalse (dsr_UseSniHostname rec) = useSniHostname"

definition DTCServer_utd :: "DTCServerCR \<Rightarrow> DtcServerObj \<Rightarrow> bool" where
  "DTCServer_utd cr rec = (let p = ds_ForProvider cr in
     DTCServer_isUpToDate (dsp_Name p) (dsp_Host p) (dsp_Comment p) (dsp_Disable p)
                                (dsp_AutoCreateHostRecord p) (dsp_UseSniHostname p) (dsp_SniHostname
                                p) (monitorsFromNamespaced (dsp_Monitors p)) (dsp_ExtAttrs p) rec)"

definition DTCServer_spec_ok :: "DTCServerCR \<Rightarrow> bool" where
  "DTCServer_spec_ok cr \<longleftrightarrow> (let p = ds_ForProvider cr in reserved_free (dsp_ExtAttrs p))"

text \<open>What Observe makes of the spec, and that it keeps what the user set.\<close>

definition DTCServer_backfill :: "DTCServerParameters \<Rightarrow> DtcServerObj \<Rightarrow> DTCServerParameters \<times> bool" where
  "DTCServer_backfill p rec =
     (case DTCServer_lateInitialize (DTCServer_latePart p (monitorsFromNamespaced (dsp_Monitors p))) rec of
        (l, c) \<Rightarrow>
          (if c then (DTCServer_setLate p l)\<lparr>dsp_Monitors := monitorPairsToNamespaced (DTCServer_lateMonitors
              l)\<rparr> else p, c))"

lemma monitors_conv [simp]:
  "monitorPairsToNamespaced (monitorsFromNamespaced ms) = ms" "monitorsFromNamespaced (monitorPairsToNamespaced ps) = ps"
  by (auto simp: monitorPairsToNamespaced_def monitorsFromNamespaced_def comp_def intro!: map_idI)

lemma monitors_conv_eq:
  "monitorPairsToNamespaced ps = ms \<longleftrightarrow> ps = monitorsFromNamespaced ms" "ms = monitorPairsToNamespaced ps \<longleftrightarrow> ps = monitorsFromNamespaced ms"
  by auto

lemma DTCServer_latePart_simps [simp]:
  "DTCServer_lateMonitors (DTCServer_latePart p ms) = ms"
  by (simp add: DTCServer_latePart_def DTCServer_lateMonitors_def)

lemma monitorsFrom_Nil [simp]: "monitorsFromNamespaced ms = [] \<longleftrightarrow> ms = []"
  by (simp add: monitorsFromNamespaced_def)

definition DTCServer_keeps :: "DTCServerParameters \<Rightarrow> DTCServerParameters \<Rightarrow> bool" where
  "DTCServer_keeps p p' \<longleftrightarrow>
     keeps_set (dsp_Comment p) (dsp_Comment p') \<and>
     keeps_set (dsp_Disable p) (dsp_Disable p') \<and>
     keeps_set (dsp_AutoCreateHostRecord p) (dsp_AutoCreateHostRecord p') \<and>
     keeps_set (dsp_UseSniHostname p) (dsp_UseSniHostname p') \<and>
     keeps_set (dsp_SniHostname p) (dsp_SniHostname p') \<and>
     (dsp_Monitors p = [] \<or> dsp_Monitors p' = dsp_Monitors p) \<and>
     keeps_attrs (dsp_ExtAttrs p) (dsp_ExtAttrs p')"

definition DTCServer_get :: "DTCServerCR \<Rightarrow> DTCServerParameters" where
  "DTCServer_get cr = ds_ForProvider cr"

definition DTCServer_put :: "DTCServerCR \<Rightarrow> DTCServerParameters \<Rightarrow> DTCServerCR" where
  "DTCServer_put cr p = cr\<lparr>ds_ForProvider := p\<rparr>"

definition DTCServer_status :: "DtcServerObj \<Rightarrow> DTCServerCR \<Rightarrow> DTCServerCR" where
  "DTCServer_status rec cr =
     (let o1 = observeFromDtcServer (dsr_Ref rec) rec; p = ds_ForProvider cr in
      cr\<lparr>ds_AtProvider :=
        \<lparr>dss_ID = dso_ID o1, dss_Name = dso_Name o1, dss_Host = dso_Host o1, dss_Comment =
        dso_Comment o1, dss_Disable = dso_Disable o1, dss_AutoCreateHostRecord =
        dso_AutoCreateHostRecord o1, dss_SniHostname = dso_SniHostname o1, dss_UseSniHostname =
        dso_UseSniHostname o1, dss_ExtAttrs = dso_ExtAttrs o1, dss_Ref = dso_Ref o1, dss_Monitors =
        monitorPairsToNamespaced (dso_Monitors o1), dss_Health = healthToNamespaced (dso_Health o1)\<rparr>\<rparr>)"

definition DTCServer_valid :: "DTCServerCR \<Rightarrow> goerr option" where
  "DTCServer_valid cr = (let p = ds_ForProvider cr; uid = mo_uid cr in if trim_space uid = [] then Some (TextError DTCServer_errEmptyUID) else None)"

lemma DTCServer_lateInitialize_eq:
  "DTCServer_lateInitialize (comment, disable, autoCreateHostRecord, useSniHostname, sniHostname, monitors, extAttrs)
      rec =
     (let comment1 = fill comment (ptrIfSet (dsr_Comment rec));
          disable1 = fill disable (dsr_Disable rec);
          autoCreateHostRecord1 = fill autoCreateHostRecord (dsr_AutoCreateHostRecord rec);
          useSniHostname1 = fill useSniHostname (dsr_UseSniHostname rec);
          sniHostname1 = fill_if sniHostname (boolOrFalse useSniHostname1) (ptrIfSet (dsr_SniHostname rec));
          monitors1 = fill_list monitors (monitorPairsFromSDK (dsr_Monitors rec));
          extAttrs1 = fill_map extAttrs (userAttrs (dsr_Ea rec))
      in ((comment1, disable1, autoCreateHostRecord1, useSniHostname1, sniHostname1, monitors1, extAttrs1), (comment1,
          disable1, autoCreateHostRecord1, useSniHostname1, sniHostname1, monitors1, extAttrs1) \<noteq> (comment,
          disable, autoCreateHostRecord, useSniHostname, sniHostname, monitors, extAttrs)))"
  by (simp only: DTCServer_lateInitialize_def userAttrs_def Let_def case_prod_conv lateInit_eqs lateInitMonitors_eq
      guarded_late prod.inject simp_thms de_Morgan_conj disj_ac)

lemma DTCServer_setLate_latePart [simp]: "DTCServer_setLate p (DTCServer_latePart p monitors) = p"
  by (simp add: DTCServer_setLate_def DTCServer_latePart_def)

lemma DTCServer_CR_commute: "cr\<lparr>ds_AtProvider := a, ds_ForProvider := p\<rparr> = cr\<lparr>ds_ForProvider :=
    p, ds_AtProvider := a\<rparr>"
  by simp

lemma DTCServer_lateInitialize_flag: "snd (DTCServer_lateInitialize l rec) \<longleftrightarrow> fst (DTCServer_lateInitialize l rec) \<noteq> l"
  by (cases l) (simp add: DTCServer_lateInitialize_eq Let_def)

lemma DTCServer_backfill_eq:
  "DTCServer_backfill p rec =
     (let comment1 = fill (dsp_Comment p) (ptrIfSet (dsr_Comment rec));
          disable1 = fill (dsp_Disable p) (dsr_Disable rec);
          autoCreateHostRecord1 = fill (dsp_AutoCreateHostRecord p) (dsr_AutoCreateHostRecord rec);
          useSniHostname1 = fill (dsp_UseSniHostname p) (dsr_UseSniHostname rec);
          sniHostname1 = fill_if (dsp_SniHostname p) (boolOrFalse useSniHostname1) (ptrIfSet (dsr_SniHostname rec));
          monitors1 = fill_list (monitorsFromNamespaced (dsp_Monitors p)) (monitorPairsFromSDK (dsr_Monitors rec));
          extAttrs1 = fill_map (dsp_ExtAttrs p) (userAttrs (dsr_Ea rec));
          p' = p\<lparr>dsp_Comment := comment1, dsp_Disable := disable1, dsp_AutoCreateHostRecord :=
              autoCreateHostRecord1, dsp_UseSniHostname := useSniHostname1, dsp_SniHostname := sniHostname1, dsp_Monitors
              := monitorPairsToNamespaced monitors1, dsp_ExtAttrs := extAttrs1\<rparr>
      in (p', p' \<noteq> p))"
  by (cases p)
    (auto simp: DTCServer_backfill_def DTCServer_latePart_def DTCServer_setLate_def DTCServer_lateInitialize_eq Let_def DTCServer_lateMonitors_def monitors_conv_eq fill_list_def monitorsEqual_iff)

interpretation dtcserver_late: late_lens DTCServer_backfill DTCServer_keeps DTCServer_get DTCServer_put DTCServer_utd
proof
  fix l l' :: DTCServerParameters and rec :: DtcServerObj and cr :: DTCServerCR
  show "DTCServer_backfill (fst (DTCServer_backfill l rec)) rec = (fst (DTCServer_backfill l rec), False)"
    by (simp add: DTCServer_backfill_eq Let_def DTCServer_lateMonitors_def monitors_conv_eq fill_list_def monitorsEqual_iff)
  show "snd (DTCServer_backfill l rec) \<longleftrightarrow> fst (DTCServer_backfill l rec) \<noteq> l"
    by (simp add: DTCServer_backfill_eq Let_def)
  show "DTCServer_keeps l (fst (DTCServer_backfill l rec))"
    by (simp add: DTCServer_backfill_eq Let_def DTCServer_keeps_def DTCServer_lateMonitors_def monitors_conv_eq fill_list_def monitorsEqual_iff)
  show "DTCServer_get (DTCServer_put cr l) = l" "DTCServer_put cr (DTCServer_get cr) = cr" "DTCServer_put (DTCServer_put cr l) l' = DTCServer_put cr l'"
    by (simp_all add: DTCServer_get_def DTCServer_put_def)
  show "DTCServer_utd (DTCServer_put cr (fst (DTCServer_backfill (DTCServer_get cr) rec))) rec" if "DTCServer_utd cr rec"
    using that
    by (auto simp: DTCServer_get_def DTCServer_put_def DTCServer_backfill_eq Let_def
        DTCServer_utd_def DTCServer_isUpToDate_def extAttrsEqual_iff DTCServer_lateMonitors_def monitors_conv_eq fill_list_def monitorsEqual_iff simp flip: userAttrs_def split: if_splits)
qed

lemma DtcServerObj_type_simps [simp]:
  "ot_name DtcServerObj_type = ''dtc:server''" "ref_ea_shape DtcServerObj_type"
  "stamped DtcServerObj_type rec = eaValue (dsr_Ea rec) EAKey"
  by (simp_all add: ref_ea_shape_def stamped_def DtcServerObj_type_def reflectDtcServerObj_def getRef_def getEA_def)

lemma deleteDtcServer_issue: "deleteDtcServer env = issue_delete env"
  by (intro ext) (simp only: deleteDtcServer_def issue_delete_def)

lemma createDtcServer_valid:
  assumes "DTCServer_valid cr = None"
  shows "createDtcServer env (ds_ForProvider cr) (monitorsFromNamespaced (dsp_Monitors (ds_ForProvider cr))) (mo_uid
      cr) w = (case mutate_object env (dtcserver_create_request (ds_ForProvider cr) (mo_uid cr)) w of
      (Inl err, w1) \<Rightarrow> (Inl err, w1) | (Inr rec, w1) \<Rightarrow> (Inr (dsr_Ref rec), w1))"
  using assms
  by (auto simp: createDtcServer_def dtcserver_create_request_def DTCServer_valid_def Let_def split: if_splits option.splits)


lemma DTCServer_Observe_shape:
  "namespaced_DTCServer_Observe env ep cr w =
     ladder_observe_shape (ladder_observe_error errObserveDTCServer) (Resolve env DtcServerObj_type)
         (ensureIdentityPrerequisite env ep)
       (\<lambda>r. r \<noteq> []) (\<lambda>r. True) (lift_late DTCServer_backfill DTCServer_get DTCServer_put)
           DTCServer_status DTCServer_utd dsr_Ref cr w"
proof -
  have same: "cr\<lparr>ds_ForProvider := DTCServer_setLate (ds_ForProvider cr) (DTCServer_latePart (ds_ForProvider
      cr) (monitorsFromNamespaced (dsp_Monitors (ds_ForProvider cr))))\<rparr> = cr"
    by (simp add: DTCServer_latePart_def DTCServer_setLate_def)
  obtain r w1 where r: "Resolve env DtcServerObj_type (observeRefFor (mo_name cr) (GetExternalName cr)) (mo_uid cr) w
      = (r, w1)"
    by (cases "Resolve env DtcServerObj_type (observeRefFor (mo_name cr) (GetExternalName cr)) (mo_uid cr) w")
  obtain e w2 where e: "ensureIdentityPrerequisite env ep w1 = (e, w2)"
    by (cases "ensureIdentityPrerequisite env ep w1")
  note defs = namespaced_DTCServer_Observe_def observeDtcServer_def resolveDtcServerIdentity_def ladder_observe_shape_def ladder_observe_error_def
  show ?thesis
  proof (cases r)
    case (Inl err)
    then show ?thesis
      by (cases e) (simp_all add: defs Let_def r e same)
  next
    case (Inr a)
    obtain obj out where a: "a = (obj, out)" by (cases a)
    show ?thesis
    proof (cases obj)
      case None
      then show ?thesis
        by (simp add: defs Let_def r Inr a same DTCServer_notFoundResult_def)
    next
      case (Some rec)
      obtain l c where lc: "DTCServer_lateInitialize (DTCServer_latePart (ds_ForProvider cr) (monitorsFromNamespaced
          (dsp_Monitors (ds_ForProvider cr)))) rec = (l, c)"
        by (cases "DTCServer_lateInitialize (DTCServer_latePart (ds_ForProvider cr) (monitorsFromNamespaced
            (dsp_Monitors (ds_ForProvider cr)))) rec")
      have nc: "\<not> c \<Longrightarrow> l = DTCServer_latePart (ds_ForProvider cr) (monitorsFromNamespaced
          (dsp_Monitors (ds_ForProvider cr)))"
        using DTCServer_lateInitialize_flag [of "DTCServer_latePart (ds_ForProvider cr) (monitorsFromNamespaced
            (dsp_Monitors (ds_ForProvider cr)))" rec] lc by simp
      show ?thesis
        using nc same
        by (cases c) (simp_all add: defs Let_def r Inr a Some lc lift_late_def DTCServer_get_def DTCServer_put_def
            DTCServer_status_def DTCServer_utd_def DTCServer_notFoundResult_def observeFromDtcServer_def DTCServer_backfill_def DTCServer_CR_commute )
    qed
  qed
qed

lemma DTCServer_Create_shape:
  "namespaced_DTCServer_Create env ep cr w =
     ladder_create_shape errCreateDTCServer DTCServer_valid (ensureIdentityPrerequisite env ep) (mutate_object env)
       (\<lambda>cr. dtcserver_create_request (ds_ForProvider cr) (mo_uid cr)) dsr_Ref cr w"
proof -
  obtain e w1 where e: "ensureIdentityPrerequisite env ep w = (e, w1)"
    by (cases "ensureIdentityPrerequisite env ep w")
  have v: "(let p = ds_ForProvider cr; uid = mo_uid cr in if trim_space uid = [] then Some (TextError DTCServer_errEmptyUID) else None) = DTCServer_valid cr"
    by (simp only: DTCServer_valid_def)
  obtain m w2 where m: "mutate_object env (dtcserver_create_request (ds_ForProvider cr) (mo_uid cr)) w1 = (m, w2)"
    by (cases "mutate_object env (dtcserver_create_request (ds_ForProvider cr) (mo_uid cr)) w1")
  show ?thesis
  proof (cases "DTCServer_valid cr")
    case None
    then show ?thesis
      using createDtcServer_valid [OF None, of env w1] v
      by (cases e; cases m) (simp_all add: namespaced_DTCServer_Create_def ladder_create_shape_def Let_def e m split:
          if_splits)
  next
    case (Some err)
    then show ?thesis
      using v by (simp add: namespaced_DTCServer_Create_def ladder_create_shape_def Let_def split: if_splits)
  qed
qed

lemma DTCServer_Update_shape:
  "namespaced_DTCServer_Update env ep cr w =
     ladder_update_shape errUpdateDTCServer DTCServer_errEmptyUID env (ensureIdentityPrerequisite env ep)
       (\<lambda>cr. dtcserver_update_request (GetExternalName cr) (ds_ForProvider cr) (mo_uid cr)) dsr_Ref cr w"
proof -
  obtain e w1 where e: "ensureIdentityPrerequisite env ep w = (e, w1)"
    by (cases "ensureIdentityPrerequisite env ep w")
  show ?thesis
    by (cases e; cases "wapi_mutate env (calls w1) (dtcserver_update_request (GetExternalName cr) (ds_ForProvider cr)
        (mo_uid cr))")
      (auto simp: namespaced_DTCServer_Update_def ladder_update_shape_def updateDtcServer_def dtcserver_update_request_def
        Let_def e mutate_object_def)
qed

lemma DTCServer_Delete_shape:
  "namespaced_DTCServer_Delete env ep cr w =
     ladder_delete_shape errDeleteDTCServer errDeleteUnverifiedOwnership nilDereference
       (Resolve env DtcServerObj_type (GetExternalName cr) (mo_uid cr)) (ensureIdentityPrerequisite env ep)
       (issue_delete env) dsr_Ref w"
proof -
  have "namespaced_DTCServer_Delete env ep cr w = deleteDtcServerIdentity env ep (GetExternalName cr) (mo_uid cr) w"
    by (simp add: namespaced_DTCServer_Delete_def Let_def split: prod.split option.split)
  then show ?thesis
    by (simp only: deleteDtcServerIdentity_def ladder_delete_shape_def resolveDtcServerIdentity_def deleteDtcServer_issue)
qed

lemma DTCServer_monitorsFrom_scopes: "monitorsFromCluster = monitorsFromNamespaced"
  by (intro ext) (simp only: monitorsFromCluster_def monitorsFromNamespaced_def)

lemma DTCServer_monitorPairsTo_scopes: "monitorPairsToCluster = monitorPairsToNamespaced"
  by (intro ext) (simp only: monitorPairsToCluster_def monitorPairsToNamespaced_def DTCServer_monitorsFrom_scopes)

lemma DTCServer_scopes:
  "cluster_DTCServer_Observe = namespaced_DTCServer_Observe" "cluster_DTCServer_Create = namespaced_DTCServer_Create"
  "cluster_DTCServer_Update = namespaced_DTCServer_Update" "cluster_DTCServer_Delete = namespaced_DTCServer_Delete"
  by (intro ext, simp only: cluster_DTCServer_Observe_def namespaced_DTCServer_Observe_def
      cluster_DTCServer_Create_def
      namespaced_DTCServer_Create_def cluster_DTCServer_Update_def namespaced_DTCServer_Update_def
      cluster_DTCServer_Delete_def namespaced_DTCServer_Delete_def DTCServer_monitorsFrom_scopes DTCServer_monitorPairsTo_scopes healthTo_scopes)+

lemma dtcserver_written_utd:
  assumes "DTCServer_spec_ok cr"
    and "dtcserver_holds (dtcserver_create_request (ds_ForProvider cr) (mo_uid cr)) rec \<and> DTCServer_valid cr = None \<or>
      dtcserver_holds (dtcserver_update_request (GetExternalName cr) (ds_ForProvider cr) (mo_uid cr)) rec"
  shows "DTCServer_utd (fst (lift_late DTCServer_backfill DTCServer_get DTCServer_put cr rec)) rec \<and>
    eaValue (dsr_Ea rec) EAKey = Some (mo_uid cr)"
proof -
  note reqs = dtcserver_create_request_def dtcserver_update_request_def
  have ok: "reserved_free (dsp_ExtAttrs (ds_ForProvider cr))"
    using assms(1) by (simp_all add: DTCServer_spec_ok_def Let_def)
  have ea: "dsr_Ea rec = Stamp (buildEA (dsp_ExtAttrs (ds_ForProvider cr))) (mo_uid cr)"
    using assms(2) by (elim disjE) (simp_all add: reqs)
  have fields: 
    "strOrEmpty (dsp_Name (ds_ForProvider cr)) = strOrEmpty (dsr_Name rec)" 
    "strOrEmpty (dsp_Host (ds_ForProvider cr)) = strOrEmpty (dsr_Host rec)" 
    "strOrEmpty (dsp_Comment (ds_ForProvider cr)) = strOrEmpty (dsr_Comment rec)" 
    "boolOrFalse (dsp_Disable (ds_ForProvider cr)) = boolOrFalse (dsr_Disable rec)" 
    "boolOrFalse (dsp_AutoCreateHostRecord (ds_ForProvider cr)) = boolOrFalse (dsr_AutoCreateHostRecord rec)" 
    "boolOrFalse (dsp_UseSniHostname (ds_ForProvider cr)) = boolOrFalse (dsr_UseSniHostname rec)" 
    "boolOrFalse (dsp_UseSniHostname (ds_ForProvider cr)) \<Longrightarrow> strOrEmpty (dsp_SniHostname (ds_ForProvider cr)) = strOrEmpty (dsr_SniHostname rec)" 
    "monitorsEqual (monitorsFromNamespaced (dsp_Monitors (ds_ForProvider cr))) (monitorPairsFromSDK (dsr_Monitors rec))"
    using assms(2) ok by (elim disjE; simp add: reqs)+
  have "userAttrs (dsr_Ea rec) = dsp_ExtAttrs (ds_ForProvider cr)"
    using ok(1) by (simp add: ea userAttrs_buildEA reserved_free_fmdrop)
  then have "DTCServer_utd cr rec"
    using fields
    by (simp add: DTCServer_utd_def DTCServer_isUpToDate_def Let_def extAttrsEqual_iff flip: userAttrs_def)
  with ea show ?thesis using dtcserver_late.late_utd by simp
qed

interpretation dtcserver: refreshing_client "lift_late DTCServer_backfill DTCServer_get DTCServer_put" DTCServer_utd
  "\<lambda>s s'. DTCServer_keeps (DTCServer_get s) (DTCServer_get s')"
  DtcServerObj_type dsr_Ref DTCServer_status DTCServer_valid
  "\<lambda>cr. dtcserver_create_request (ds_ForProvider cr) (mo_uid cr)"
  "\<lambda>cr. dtcserver_update_request (GetExternalName cr) (ds_ForProvider cr) (mo_uid cr)"
  dtcserver_req_ea dtcserver_holds DTCServer_spec_ok
  "ladder_observe_error errObserveDTCServer" "\<lambda>r. r \<noteq> []" "\<lambda>r. True" dsr_Ref errCreateDTCServer errUpdateDTCServer errDeleteDTCServer DTCServer_errEmptyUID
  namespaced_DTCServer_Observe namespaced_DTCServer_Create namespaced_DTCServer_Update namespaced_DTCServer_Delete
proof (unfold_locales, goal_cases)
  case (6 cr)
  then show ?case by (auto simp: DTCServer_valid_def Let_def split: if_splits)
next
  case (13 n cr rec)
  have "DTCServer_get (SetExternalName n cr) = DTCServer_get cr"
    "DTCServer_put (SetExternalName n cr) l = SetExternalName n (DTCServer_put cr l)" for l
    by (simp_all add: DTCServer_get_def DTCServer_put_def SetExternalName_def)
  then show ?case
    by (simp add: dtcserver_late.lifted_simps DTCServer_utd_def SetExternalName_def)
next
  case (14 cr rec)
  then show ?case using dtcserver_written_utd [of cr rec] by simp
next
  case (15 cr rec)
  then show ?case using dtcserver_written_utd [of cr rec] by simp
qed (simp_all add: DTCServer_Observe_shape DTCServer_Create_shape DTCServer_Update_shape DTCServer_Delete_shape
    dtcserver_late.lifted_simps DTCServer_put_def DTCServer_status_def Let_def
    dtcserver_create_request_def dtcserver_update_request_def)

end
