(* ===== verification/DTCLBDN.thy ===== *)
theory DTCLBDN
  imports DTC
begin

text \<open>
  internal/controller/dtclbdn: the DTCLBDN controller (load-balanced domain names), a client of the
  identity ladder. It builds the object itself and calls CreateObject and UpdateObject. ibclient.DtcLbdn
  is the record DtcLbdnObj here.
\<close>

section \<open>Data\<close>

text \<open>ibclient.DtcPoolLink, the package's poolLink and the CRD's link.\<close>

record DtcPoolLink =
  dpl_Pool :: string
  dpl_Ratio :: "32 word"

record poolLink =
  pl_Pool :: "string option"
  pl_Ratio :: "32 word option"

record DTCLBDNPoolLink =
  cpl_Pool :: "string option"
  cpl_Ratio :: "32 word option"

definition buildPools :: "poolLink list \<Rightarrow> DtcPoolLink option list" where
  "buildPools pools =
     (if pools = [] then []
      else map (\<lambda>p. Some \<lparr>dpl_Pool = strOrEmpty (pl_Pool p), dpl_Ratio = uint32OrZero (pl_Ratio
          p)\<rparr>) pools)"

definition poolsFromSDK :: "DtcPoolLink option list \<Rightarrow> poolLink list" where
  "poolsFromSDK pools =
     (if pools = [] then []
      else List.map_filter (map_option (\<lambda>p. \<lparr>pl_Pool = ptrIfNonEmpty (dpl_Pool p),
             pl_Ratio = (if dpl_Ratio p \<noteq> 0 then Some (dpl_Ratio p) else None)\<rparr>)) pools)"

fun poolsLoop :: "poolLink list \<Rightarrow> poolLink list \<Rightarrow> bool" where
  "poolsLoop (x # a) (y # b) =
     (if strOrEmpty (pl_Pool x) \<noteq> strOrEmpty (pl_Pool y) then False
      else if uint32OrZero (pl_Ratio x) \<noteq> uint32OrZero (pl_Ratio y) then False
      else poolsLoop a b)"
| "poolsLoop _ _ = True"

definition poolsEqual :: "poolLink list \<Rightarrow> poolLink list \<Rightarrow> bool" where
  "poolsEqual a b = (if length a \<noteq> length b then False else poolsLoop a b)"

text \<open>ibclient.ZoneAuth in a list of zones: only its reference is read and written.\<close>

record AuthZoneRef =
  az_Ref :: string

definition buildAuthZones :: "string list \<Rightarrow> AuthZoneRef option list" where
  "buildAuthZones refs =
     (if refs = [] then [] else List.map_filter (\<lambda>r. if r = [] then None else Some (Some \<lparr>az_Ref = r\<rparr>)) refs)"

definition authZonesFromSDK :: "AuthZoneRef option list \<Rightarrow> string list" where
  "authZonesFromSDK zones =
     (if zones = [] then []
      else List.map_filter (\<lambda>z. case z of None \<Rightarrow> None | Some x \<Rightarrow> if az_Ref x = [] then
          None else Some (az_Ref x)) zones)"

fun stringsLoop :: "string list \<Rightarrow> string list \<Rightarrow> bool" where
  "stringsLoop (x # a) (y # b) = (if x \<noteq> y then False else stringsLoop a b)"
| "stringsLoop _ _ = True"

definition stringSlicesEqual :: "string list \<Rightarrow> string list \<Rightarrow> bool" where
  "stringSlicesEqual a b = (if length a \<noteq> length b then False else stringsLoop a b)"

text \<open>What the comparisons decide, and that a list read back is the one that was sent.\<close>

lemma poolsEqual_iff: "poolsEqual a b \<longleftrightarrow> buildPools a = buildPools b"
proof -
  have "length a = length b \<Longrightarrow> poolsLoop a b \<longleftrightarrow> buildPools a = buildPools b"
    by (induction a b rule: poolsLoop.induct) (auto simp: buildPools_def)
  moreover have "buildPools a = buildPools b \<Longrightarrow> length a = length b"
    by (auto simp: buildPools_def dest: map_eq_imp_length_eq split: if_splits)
  ultimately show ?thesis by (auto simp: poolsEqual_def)
qed

lemma buildPools_fromSDK: "None \<notin> set ps \<Longrightarrow> buildPools (poolsFromSDK ps) = ps"
proof -
  have "ttlOrZero (if r \<noteq> 0 then Some r else None) = r" for r by simp
  then show "None \<notin> set ps \<Longrightarrow> buildPools (poolsFromSDK ps) = ps"
    by (simp only: buildPools_def poolsFromSDK_def conv_simps)
      (simp add: map_filter_the comp_def map_the_idI [where f = "\<lambda>m. Some \<lparr>dpl_Pool = dpl_Pool m,
          dpl_Ratio = dpl_Ratio m\<rparr>"])
qed

lemma pools_roundtrip [simp]: "poolsEqual ps (poolsFromSDK (buildPools ps))"
proof -
  have "None \<notin> set (buildPools ps)" by (auto simp: buildPools_def)
  then show ?thesis by (simp add: poolsEqual_iff buildPools_fromSDK)
qed

lemma stringSlicesEqual_iff [simp]: "stringSlicesEqual a b \<longleftrightarrow> a = b"
proof -
  have "length a = length b \<Longrightarrow> stringsLoop a b \<longleftrightarrow> a = b"
    by (induction a b rule: stringsLoop.induct) auto
  then show ?thesis by (auto simp: stringSlicesEqual_def)
qed

lemma authZones_roundtrip: "authZonesFromSDK (buildAuthZones refs) = filter (\<lambda>r. r \<noteq> []) refs"
  unfolding buildAuthZones_def authZonesFromSDK_def conv_simps
  by (induction refs) (simp_all add: map_filter_simps)

text \<open>ibclient.DtcLbdn, as the provider requests it.\<close>

record DtcLbdnObj =
  lbr_Ref :: string
  lbr_Name :: "string option"
  lbr_LbMethod :: string
  lbr_Patterns :: "string list"
  lbr_Pools :: "DtcPoolLink option list"
  lbr_AuthZones :: "AuthZoneRef option list"
  lbr_Types :: "string list"
  lbr_Priority :: "32 word option"
  lbr_Persistence :: "32 word option"
  lbr_Topology :: "string option"
  lbr_Ttl :: "32 word option"
  lbr_UseTtl :: "bool option"
  lbr_Comment :: "string option"
  lbr_Disable :: "bool option"
  lbr_Health :: "DtcHealth option"
  lbr_Ea :: ea

definition emptyDtcLbdnObj :: DtcLbdnObj where
  "emptyDtcLbdnObj = \<lparr>lbr_Ref = [], lbr_Name = None, lbr_LbMethod = [], lbr_Patterns = [], lbr_Pools = [],
      lbr_AuthZones = [], lbr_Types = [], lbr_Priority = None, lbr_Persistence = None, lbr_Topology = None, lbr_Ttl =
      None, lbr_UseTtl = None, lbr_Comment = None, lbr_Disable = None, lbr_Health = None, lbr_Ea = fmempty\<rparr>"

definition reflectDtcLbdnObj :: "DtcLbdnObj \<Rightarrow> goany" where
  "reflectDtcLbdnObj r = PtrTo ''*ibclient.DtcLbdn''
     [(''Ref'', FString (lbr_Ref r)),
      (''Name'', FOther),
      (''LbMethod'', FString (lbr_LbMethod r)),
      (''Patterns'', FOther),
      (''Pools'', FOther),
      (''AuthZones'', FOther),
      (''Types'', FOther),
      (''Priority'', FOther),
      (''Persistence'', FOther),
      (''Topology'', FOther),
      (''Ttl'', FOther),
      (''UseTtl'', FOther),
      (''Comment'', FOther),
      (''Disable'', FOther),
      (''Health'', FOther),
      (''Ea'', FEA (lbr_Ea r))]"

definition DtcLbdnObj_type :: "DtcLbdnObj objtype" where
  "DtcLbdnObj_type = \<lparr>ot_name = ''dtc:lbdn'', ot_empty = emptyDtcLbdnObj, ot_reflect = reflectDtcLbdnObj\<rparr>"

text \<open>CreateObject and UpdateObject of the connector, with the object.\<close>

datatype dtclbdn_req =
    CreateDtcLbdnObject DtcLbdnObj
  | UpdateDtcLbdnObject string DtcLbdnObj

record DTCLBDNParameters =
  lbp_Name :: "string option"
  lbp_LBMethod :: "string option"
  lbp_Patterns :: "string list"
  lbp_Pools :: "DTCLBDNPoolLink list"
  lbp_AuthZones :: "string list"
  lbp_Types :: "string list"
  lbp_Priority :: "32 word option"
  lbp_Persistence :: "32 word option"
  lbp_Topology :: "string option"
  lbp_TTL :: "32 word option"
  lbp_UseTTL :: "bool option"
  lbp_Comment :: "string option"
  lbp_Disable :: "bool option"
  lbp_ExtAttrs :: extattrs

record DTCLBDNObservation =
  lbs_ID :: string
  lbs_Name :: "string option"
  lbs_LBMethod :: "string option"
  lbs_Patterns :: "string list"
  lbs_AuthZones :: "string list"
  lbs_Types :: "string list"
  lbs_Priority :: "32 word option"
  lbs_Persistence :: "32 word option"
  lbs_Topology :: "string option"
  lbs_TTL :: "32 word option"
  lbs_UseTTL :: "bool option"
  lbs_Comment :: "string option"
  lbs_Disable :: "bool option"
  lbs_ExtAttrs :: extattrs
  lbs_Ref :: "string option"
  lbs_Pools :: "DTCLBDNPoolLink list"
  lbs_Health :: "crdHealth option"

record DTCLBDNCR = mobj +
  lb_ForProvider :: DTCLBDNParameters
  lb_AtProvider :: DTCLBDNObservation

section \<open>Error messages\<close>

definition errObserveDTCLBDN :: string where "errObserveDTCLBDN = ''cannot observe DTCLBDN''"
definition errCreateDTCLBDN :: string where "errCreateDTCLBDN = ''cannot create DTCLBDN''"
definition errUpdateDTCLBDN :: string where "errUpdateDTCLBDN = ''cannot update DTCLBDN''"
definition errDeleteDTCLBDN :: string where "errDeleteDTCLBDN = ''cannot delete DTCLBDN''"
definition DTCLBDN_errEmptyUID :: string where
  "DTCLBDN_errEmptyUID = ''cannot stamp DTCLBDN identity: managed resource's metadata.uid is empty''"

section \<open>Field comparison and late initialisation\<close>

definition scalarFieldsUpToDate ::
  "string option \<Rightarrow> string option \<Rightarrow> 32 word option \<Rightarrow> 32 word option \<Rightarrow> string option \<Rightarrow> 32 word option \<Rightarrow>
     bool option \<Rightarrow> string option \<Rightarrow> bool option \<Rightarrow> DtcLbdnObj \<Rightarrow> bool" where
  "scalarFieldsUpToDate name lbMethod priority persistence topology ttl useTTL comment disable rec =
     (if strOrEmpty name \<noteq> strOrEmpty (lbr_Name rec) then False
      else if strOrEmpty lbMethod \<noteq> lbr_LbMethod rec then False
      else if uint32OrZero priority \<noteq> uint32OrZero (lbr_Priority rec) then False
      else if uint32OrZero persistence \<noteq> uint32OrZero (lbr_Persistence rec) then False
      else if strOrEmpty topology \<noteq> strOrEmpty (lbr_Topology rec) then False
      else if boolOrFalse useTTL \<noteq> boolOrFalse (lbr_UseTtl rec) then False
      else if boolOrFalse useTTL \<and> uint32OrZero ttl \<noteq> uint32OrZero (lbr_Ttl rec) then False
      else if strOrEmpty comment \<noteq> strOrEmpty (lbr_Comment rec) then False
      else boolOrFalse disable = boolOrFalse (lbr_Disable rec))"

definition collectionFieldsUpToDate ::
  "string list \<Rightarrow> poolLink list \<Rightarrow> string list \<Rightarrow> string list \<Rightarrow> extattrs \<Rightarrow> DtcLbdnObj \<Rightarrow> bool" where
  "collectionFieldsUpToDate patterns pools authZones types extAttrs rec =
     (if \<not> stringSlicesEqual patterns (lbr_Patterns rec) then False
      else if \<not> poolsEqual pools (poolsFromSDK (lbr_Pools rec)) then False
      else if \<not> stringSlicesEqual authZones (authZonesFromSDK (lbr_AuthZones rec)) then False
      else if types \<noteq> [] \<and> \<not> stringSlicesEqual types (lbr_Types rec) then False
      else extAttrsEqual extAttrs (extAttrsFromEA (Strip (lbr_Ea rec))))"

definition DTCLBDN_isUpToDate ::
  "string option \<Rightarrow> string option \<Rightarrow> string list \<Rightarrow> poolLink list \<Rightarrow> string list \<Rightarrow> string list \<Rightarrow> 32 word option \<Rightarrow>
     32 word option \<Rightarrow> string option \<Rightarrow> 32 word option \<Rightarrow> bool option \<Rightarrow> string option \<Rightarrow> bool option \<Rightarrow> extattrs \<Rightarrow>
     DtcLbdnObj \<Rightarrow> bool" where
  "DTCLBDN_isUpToDate name lbMethod patterns pools authZones types priority persistence topology ttl useTTL comment
       disable extAttrs rec =
     (if \<not> scalarFieldsUpToDate name lbMethod priority persistence topology ttl useTTL comment disable rec then False
      else collectionFieldsUpToDate patterns pools authZones types extAttrs rec)"

text \<open>The ForProvider fields lateInitialize takes pointers to.\<close>

type_synonym dtclbdn_late = "32 word option \<times> 32 word option \<times> string option \<times> 32 word option \<times> bool option \<times> string option \<times> bool option \<times> extattrs"

definition DTCLBDN_lateInitialize :: "dtclbdn_late \<Rightarrow> DtcLbdnObj \<Rightarrow> dtclbdn_late \<times> bool" where
  "DTCLBDN_lateInitialize p rec =
     (case p of (priority, persistence, topology, ttl, useTTL, comment, disable, extAttrs) \<Rightarrow>
       (let (priority1, c1) = lateInitUint32 priority (lbr_Priority rec);
            (persistence1, b2) = lateInitUint32 persistence (lbr_Persistence rec);
            c2 = (b2 \<or> c1);
            (topology1, b3) = lateInitString topology (lbr_Topology rec);
            c3 = (b3 \<or> c2);
            (useTTL1, b4) = lateInitBool useTTL (lbr_UseTtl rec);
            c4 = (b4 \<or> c3);
            (ttl1, b5) = (if boolOrFalse useTTL1 then lateInitUint32 ttl (lbr_Ttl rec) else (ttl, False));
            c5 = (b5 \<or> c4);
            (comment1, b6) = lateInitString comment (lbr_Comment rec);
            c6 = (b6 \<or> c5);
            (disable1, b7) = lateInitBool disable (lbr_Disable rec);
            c7 = (b7 \<or> c6);
            (extAttrs1, b8) = lateInitExtAttrs extAttrs (lbr_Ea rec);
            c8 = (b8 \<or> c7)
        in ((priority1, persistence1, topology1, ttl1, useTTL1, comment1, disable1, extAttrs1), c8)))"

record observedDTCLBDN =
  lbo_ID :: string
  lbo_Name :: "string option"
  lbo_LBMethod :: "string option"
  lbo_Patterns :: "string list"
  lbo_Pools :: "poolLink list"
  lbo_AuthZones :: "string list"
  lbo_Types :: "string list"
  lbo_Priority :: "32 word option"
  lbo_Persistence :: "32 word option"
  lbo_Topology :: "string option"
  lbo_TTL :: "32 word option"
  lbo_UseTTL :: "bool option"
  lbo_Comment :: "string option"
  lbo_Disable :: "bool option"
  lbo_ExtAttrs :: extattrs
  lbo_Ref :: "string option"
  lbo_Health :: "dtcHealth option"

definition observeFromDtcLbdn :: "string \<Rightarrow> DtcLbdnObj \<Rightarrow> observedDTCLBDN" where
  "observeFromDtcLbdn externalID rec =
     \<lparr>lbo_ID = externalID,
      lbo_Name = lbr_Name rec,
      lbo_LBMethod = ptrIfNonEmpty (lbr_LbMethod rec),
      lbo_Patterns = lbr_Patterns rec,
      lbo_Pools = poolsFromSDK (lbr_Pools rec),
      lbo_AuthZones = authZonesFromSDK (lbr_AuthZones rec),
      lbo_Types = lbr_Types rec,
      lbo_Priority = lbr_Priority rec,
      lbo_Persistence = lbr_Persistence rec,
      lbo_Topology = ptrIfSet (lbr_Topology rec),
      lbo_TTL = lbr_Ttl rec,
      lbo_UseTTL = lbr_UseTtl rec,
      lbo_Comment = ptrIfSet (lbr_Comment rec),
      lbo_Disable = lbr_Disable rec,
      lbo_ExtAttrs = extAttrsFromEA (lbr_Ea rec),
      lbo_Ref = ptrIfNonEmpty (lbr_Ref rec),
      lbo_Health = healthFromSDK (lbr_Health rec)\<rparr>"

section \<open>SDK calls\<close>

text \<open>
  The object the package builds; pointers go in as they are. The model asks the environment
  for the stored object and keeps its reference, which is all CreateObject and UpdateObject answer.
\<close>

definition buildDtcLbdn :: "DTCLBDNParameters \<Rightarrow> poolLink list \<Rightarrow> DtcLbdnObj" where
  "buildDtcLbdn p pools =
     \<lparr>lbr_Ref = [], lbr_Name = lbp_Name p, lbr_LbMethod = strOrEmpty (lbp_LBMethod p), lbr_Patterns =
         lbp_Patterns p,
      lbr_Pools = buildPools pools, lbr_AuthZones = buildAuthZones (lbp_AuthZones p), lbr_Types = lbp_Types p,
      lbr_Priority = lbp_Priority p, lbr_Persistence = lbp_Persistence p, lbr_Topology = lbp_Topology p, lbr_Ttl =
          lbp_TTL p,
      lbr_UseTtl = lbp_UseTTL p, lbr_Comment = lbp_Comment p, lbr_Disable = lbp_Disable p, lbr_Health = None,
      lbr_Ea = buildEA (lbp_ExtAttrs p)\<rparr>"

definition createDtcLbdn ::
  "(DtcLbdnObj, dtclbdn_req) wapi \<Rightarrow> DTCLBDNParameters \<Rightarrow> poolLink list \<Rightarrow> string \<Rightarrow> dtclbdn_req world \<Rightarrow>
     (goerr + string) \<times> dtclbdn_req world" where
  "createDtcLbdn env p pools uid w =
     (if trim_space uid = [] then (Inl (TextError DTCLBDN_errEmptyUID), w)
      else
        (let lbdn = buildDtcLbdn p pools;
             lbdn1 = lbdn\<lparr>lbr_Ea := Stamp (lbr_Ea lbdn) uid\<rparr>
         in (case mutate_object env (CreateDtcLbdnObject lbdn1) w of
               (Inl err, w1) \<Rightarrow> (Inl err, w1)
             | (Inr rec, w1) \<Rightarrow> (Inr (lbr_Ref rec), w1))))"

definition updateDtcLbdn ::
  "(DtcLbdnObj, dtclbdn_req) wapi \<Rightarrow> string \<Rightarrow> DTCLBDNParameters \<Rightarrow> poolLink list \<Rightarrow> string \<Rightarrow> dtclbdn_req world \<Rightarrow>
     (goerr + string) \<times> dtclbdn_req world" where
  "updateDtcLbdn env ref p pools uid w =
     (if trim_space uid = [] then (Inl (TextError DTCLBDN_errEmptyUID), w)
      else
        (let lbdn = buildDtcLbdn p pools;
             lbdn1 = lbdn\<lparr>lbr_Ea := Stamp (lbr_Ea lbdn) uid\<rparr>;
             lbdn2 = lbdn1\<lparr>lbr_Ref := ref\<rparr>
         in (case mutate_object env (UpdateDtcLbdnObject ref lbdn2) w of
               (Inl err, w1) \<Rightarrow> (Inl err, w1)
             | (Inr rec, w1) \<Rightarrow> (Inr (lbr_Ref rec), w1))))"

definition deleteDtcLbdn :: "(DtcLbdnObj, dtclbdn_req) wapi \<Rightarrow> string \<Rightarrow> dtclbdn_req world
    \<Rightarrow> goerr option \<times> dtclbdn_req world" where
  "deleteDtcLbdn env ref w =
     (case delete_object env ref w of
        (Inl err, w1) \<Rightarrow> (Some err, w1)
      | (Inr _, w1) \<Rightarrow> (None, w1))"

section \<open>Identity resolution\<close>

definition resolveDtcLbdnIdentity ::
  "(DtcLbdnObj, dtclbdn_req) wapi \<Rightarrow> string \<Rightarrow> string \<Rightarrow> dtclbdn_req world
      \<Rightarrow> (goerr + DtcLbdnObj option \<times> Outcome) \<times> dtclbdn_req world" where
  "resolveDtcLbdnIdentity env ref uid w = Resolve env DtcLbdnObj_type ref uid w"

type_synonym DTCLBDN_observeResult = "(DtcLbdnObj, observedDTCLBDN) observeResult"

definition DTCLBDN_notFoundResult :: DTCLBDN_observeResult where
  "DTCLBDN_notFoundResult =
     \<lparr>ores_exists = False, ores_rec = emptyDtcLbdnObj, ores_obs = observeFromDtcLbdn [] emptyDtcLbdnObj,
      ores_lateInit = False, ores_refreshedRef = [], ores_adopted = False\<rparr>"

definition observeDtcLbdn ::
  "(DtcLbdnObj, dtclbdn_req) wapi \<Rightarrow> string \<Rightarrow> string \<Rightarrow> string \<Rightarrow> string \<Rightarrow> dtclbdn_late \<Rightarrow> dtclbdn_req world \<Rightarrow>
     (goerr + DTCLBDN_observeResult) \<times> dtclbdn_late \<times> dtclbdn_req world" where
  "observeDtcLbdn env endpoint crName externalName uid p w =
     (let ref = observeRefFor crName externalName in
      case resolveDtcLbdnIdentity env ref uid w of
        (Inl err, w1) \<Rightarrow>
          if IsSearchFailure err then
            (case ensureIdentityPrerequisite env endpoint w1 of
               (Some prereqErr, w2) \<Rightarrow> (Inl prereqErr, p, w2)
             | (None, w2) \<Rightarrow> (Inl err, p, w2))
          else (Inl err, p, w1)
      | (Inr (obj, outcome), w1) \<Rightarrow>
          if outcome = OutcomeNotFound then (Inr DTCLBDN_notFoundResult, p, w1)
          else
            (case obj of
               None \<Rightarrow> (Inl (TextError nilDereference), p, w1)
             | Some rec \<Rightarrow>
                 (case DTCLBDN_lateInitialize p rec of (p1, changed) \<Rightarrow>
                    (let found = (outcome = OutcomeRotated \<or> outcome = OutcomeFoundByUID)
                     in (Inr \<lparr>ores_exists = True, ores_rec = rec,
                              ores_obs = observeFromDtcLbdn (lbr_Ref rec) rec,
                              ores_lateInit = (if found then True else changed),
                              ores_refreshedRef = (if found then lbr_Ref rec else []),
                              ores_adopted = (outcome = OutcomeAdopted)\<rparr>, p1, w1)))))"

definition deleteDtcLbdnIdentity ::
  "(DtcLbdnObj, dtclbdn_req) wapi \<Rightarrow> string \<Rightarrow> string \<Rightarrow> string \<Rightarrow>
      dtclbdn_req world \<Rightarrow> goerr option \<times> dtclbdn_req world" where
  "deleteDtcLbdnIdentity env endpoint ref uid w =
     (case resolveDtcLbdnIdentity env ref uid w of
        (Inl err, w1) \<Rightarrow>
          if IsSearchFailure err then
            (case ensureIdentityPrerequisite env endpoint w1 of
               (Some prereqErr, w2) \<Rightarrow> (Some prereqErr, w2)
             | (None, w2) \<Rightarrow> (Some (Wrapped errDeleteDTCLBDN err), w2))
          else (Some (Wrapped errDeleteDTCLBDN err), w1)
      | (Inr (obj, outcome), w1) \<Rightarrow>
          (case outcome of
             OutcomeNotFound \<Rightarrow> (None, w1)
           | OutcomeAdopted \<Rightarrow> (Some (TextError errDeleteUnverifiedOwnership), w1)
           | _ \<Rightarrow>
               (case obj of
                  None \<Rightarrow> (Some (TextError nilDereference), w1)
                | Some rec \<Rightarrow>
                    (case deleteDtcLbdn env (lbr_Ref rec) w1 of
                       (None, w2) \<Rightarrow> (None, w2)
                     | (Some delErr, w2) \<Rightarrow>
                         if isNotFound (Some delErr) then (None, w2)
                         else (Some (Wrapped errDeleteDTCLBDN delErr), w2)))))"

section \<open>The external clients\<close>

text \<open>The pointers to spec fields Observe hands over, and their write-back.\<close>

definition DTCLBDN_latePart :: "DTCLBDNParameters \<Rightarrow> dtclbdn_late" where
  "DTCLBDN_latePart p = (lbp_Priority p, lbp_Persistence p, lbp_Topology p, lbp_TTL p, lbp_UseTTL p, lbp_Comment p,
      lbp_Disable p, lbp_ExtAttrs p)"

definition DTCLBDN_setLate :: "DTCLBDNParameters \<Rightarrow> dtclbdn_late \<Rightarrow> DTCLBDNParameters" where
  "DTCLBDN_setLate p l = (case l of (priority, persistence, topology, ttl, useTTL, comment, disable, extAttrs) \<Rightarrow>
     p\<lparr>lbp_Priority := priority, lbp_Persistence := persistence, lbp_Topology := topology, lbp_TTL := ttl,
         lbp_UseTTL := useTTL, lbp_Comment := comment, lbp_Disable := disable, lbp_ExtAttrs := extAttrs\<rparr>)"

subsection \<open>namespaced.go\<close>

definition poolsFromNamespaced :: "DTCLBDNPoolLink list \<Rightarrow> poolLink list" where
  "poolsFromNamespaced pools =
     (if pools = [] then []
      else map (\<lambda>p. \<lparr>pl_Pool = cpl_Pool p, pl_Ratio = cpl_Ratio p\<rparr>) pools)"

definition poolsToNamespaced :: "poolLink list \<Rightarrow> DTCLBDNPoolLink list" where
  "poolsToNamespaced pools =
     (if pools = [] then []
      else map (\<lambda>p. \<lparr>cpl_Pool = pl_Pool p, cpl_Ratio = pl_Ratio p\<rparr>) pools)"

definition namespaced_DTCLBDN_Observe ::
  "(DtcLbdnObj, dtclbdn_req) wapi \<Rightarrow> string \<Rightarrow> DTCLBDNCR \<Rightarrow> dtclbdn_req world
      \<Rightarrow> (goerr + ExternalObservation) \<times> DTCLBDNCR \<times> dtclbdn_req world" where
  "namespaced_DTCLBDN_Observe env endpoint cr w =
     (case observeDtcLbdn env endpoint (mo_name cr) (GetExternalName cr) (mo_uid cr)
             (DTCLBDN_latePart (lb_ForProvider cr)) w of
        (Inl err, l, w1) \<Rightarrow>
          (let cr1 = cr\<lparr>lb_ForProvider := DTCLBDN_setLate (lb_ForProvider cr) l\<rparr> in
           if errors_as is_PrerequisiteError err then (Inl err, cr1, w1)
           else (Inl (Wrapped errObserveDTCLBDN err), cr1, w1))
      | (Inr res, l, w1) \<Rightarrow>
          (let p = DTCLBDN_setLate (lb_ForProvider cr) l;
               cr1 = cr\<lparr>lb_ForProvider := p\<rparr> in
           if \<not> ores_exists res then (Inr notExists, cr1, w1)
           else
             (let rec = ores_rec res; o1 = ores_obs res;
                  cr2 = cr1\<lparr>lb_AtProvider :=
                    \<lparr>lbs_ID = lbo_ID o1, lbs_Name = lbo_Name o1, lbs_LBMethod = lbo_LBMethod o1,
                     lbs_Patterns = lbo_Patterns o1, lbs_AuthZones = lbo_AuthZones o1, lbs_Types =
                     lbo_Types o1, lbs_Priority = lbo_Priority o1, lbs_Persistence = lbo_Persistence
                     o1, lbs_Topology = lbo_Topology o1, lbs_TTL = lbo_TTL o1, lbs_UseTTL =
                     lbo_UseTTL o1, lbs_Comment = lbo_Comment o1, lbs_Disable = lbo_Disable o1,
                     lbs_ExtAttrs = lbo_ExtAttrs o1, lbs_Ref = lbo_Ref o1, lbs_Pools = poolsToNamespaced
                     (lbo_Pools o1), lbs_Health = healthToNamespaced (lbo_Health o1)\<rparr>\<rparr>;
                  cr3 = (if ores_refreshedRef res \<noteq> [] then SetExternalName (ores_refreshedRef res) cr2 else cr2);
                  cr4 = SetAvailable cr3;
                  upToDate = (DTCLBDN_isUpToDate (lbp_Name p) (lbp_LBMethod p) (lbp_Patterns p) (poolsFromNamespaced
                                (lbp_Pools p)) (lbp_AuthZones p) (lbp_Types p) (lbp_Priority p)
                                (lbp_Persistence p) (lbp_Topology p) (lbp_TTL p) (lbp_UseTTL p)
                                (lbp_Comment p) (lbp_Disable p) (lbp_ExtAttrs p) rec
                                \<and> \<not> ores_adopted res)
              in (Inr \<lparr>ResourceExists = True, ResourceUpToDate = upToDate,
                       ResourceLateInitialized = ores_lateInit res\<rparr>, cr4, w1))))"

definition namespaced_DTCLBDN_Create ::
  "(DtcLbdnObj, dtclbdn_req) wapi \<Rightarrow> string \<Rightarrow> DTCLBDNCR \<Rightarrow> dtclbdn_req world
      \<Rightarrow> goerr option \<times> DTCLBDNCR \<times> dtclbdn_req world" where
  "namespaced_DTCLBDN_Create env endpoint cr w =
     (let p = lb_ForProvider cr; uid = mo_uid cr in
      if trim_space uid = [] then (Some (TextError DTCLBDN_errEmptyUID), cr, w)
      else
          (case ensureIdentityPrerequisite env endpoint w of
             (Some err, w1) \<Rightarrow> (Some err, cr, w1)
           | (None, w1) \<Rightarrow>
               (case createDtcLbdn env p (poolsFromNamespaced (lbp_Pools p)) uid w1 of
                  (Inl err, w2) \<Rightarrow> (Some (Wrapped errCreateDTCLBDN err), cr, w2)
                | (Inr newRef, w2) \<Rightarrow> (None, SetExternalName newRef cr, w2))))"

definition namespaced_DTCLBDN_Update ::
  "(DtcLbdnObj, dtclbdn_req) wapi \<Rightarrow> string \<Rightarrow> DTCLBDNCR \<Rightarrow> dtclbdn_req world
      \<Rightarrow> goerr option \<times> DTCLBDNCR \<times> dtclbdn_req world" where
  "namespaced_DTCLBDN_Update env endpoint cr w =
     (let p = lb_ForProvider cr; externalID = GetExternalName cr in
      case ensureIdentityPrerequisite env endpoint w of
        (Some err, w1) \<Rightarrow> (Some err, cr, w1)
      | (None, w1) \<Rightarrow>
          (case updateDtcLbdn env externalID p (poolsFromNamespaced (lbp_Pools p)) (mo_uid cr) w1 of
             (Inl err, w2) \<Rightarrow> (Some (Wrapped errUpdateDTCLBDN err), cr, w2)
           | (Inr newRef, w2) \<Rightarrow>
               if newRef \<noteq> [] \<and> newRef \<noteq> externalID then
                 (case Refresh env cr newRef w2 of
                    (Some err, cr1, w3) \<Rightarrow> (Some (Wrapped errPersistExternalName err), cr1, w3)
                  | (None, cr1, w3) \<Rightarrow> (None, cr1, w3))
               else (None, cr, w2)))"

definition namespaced_DTCLBDN_Delete ::
  "(DtcLbdnObj, dtclbdn_req) wapi \<Rightarrow> string \<Rightarrow> DTCLBDNCR \<Rightarrow> dtclbdn_req world
      \<Rightarrow> goerr option \<times> dtclbdn_req world" where
  "namespaced_DTCLBDN_Delete env endpoint cr w =
     (let externalID = GetExternalName cr in
      case deleteDtcLbdnIdentity env endpoint externalID (mo_uid cr) w of
        (Some err, w1) \<Rightarrow> (Some err, w1)
      | (None, w1) \<Rightarrow> (None, w1))"

subsection \<open>cluster.go\<close>

definition poolsFromCluster :: "DTCLBDNPoolLink list \<Rightarrow> poolLink list" where
  "poolsFromCluster pools =
     (if pools = [] then []
      else map (\<lambda>p. \<lparr>pl_Pool = cpl_Pool p, pl_Ratio = cpl_Ratio p\<rparr>) pools)"

definition poolsToCluster :: "poolLink list \<Rightarrow> DTCLBDNPoolLink list" where
  "poolsToCluster pools =
     (if pools = [] then []
      else map (\<lambda>p. \<lparr>cpl_Pool = pl_Pool p, cpl_Ratio = pl_Ratio p\<rparr>) pools)"

definition cluster_DTCLBDN_Observe ::
  "(DtcLbdnObj, dtclbdn_req) wapi \<Rightarrow> string \<Rightarrow> DTCLBDNCR \<Rightarrow> dtclbdn_req world
      \<Rightarrow> (goerr + ExternalObservation) \<times> DTCLBDNCR \<times> dtclbdn_req world" where
  "cluster_DTCLBDN_Observe env endpoint cr w =
     (case observeDtcLbdn env endpoint (mo_name cr) (GetExternalName cr) (mo_uid cr)
             (DTCLBDN_latePart (lb_ForProvider cr)) w of
        (Inl err, l, w1) \<Rightarrow>
          (let cr1 = cr\<lparr>lb_ForProvider := DTCLBDN_setLate (lb_ForProvider cr) l\<rparr> in
           if errors_as is_PrerequisiteError err then (Inl err, cr1, w1)
           else (Inl (Wrapped errObserveDTCLBDN err), cr1, w1))
      | (Inr res, l, w1) \<Rightarrow>
          (let p = DTCLBDN_setLate (lb_ForProvider cr) l;
               cr1 = cr\<lparr>lb_ForProvider := p\<rparr> in
           if \<not> ores_exists res then (Inr notExists, cr1, w1)
           else
             (let rec = ores_rec res; o1 = ores_obs res;
                  cr2 = cr1\<lparr>lb_AtProvider :=
                    \<lparr>lbs_ID = lbo_ID o1, lbs_Name = lbo_Name o1, lbs_LBMethod = lbo_LBMethod o1,
                     lbs_Patterns = lbo_Patterns o1, lbs_AuthZones = lbo_AuthZones o1, lbs_Types =
                     lbo_Types o1, lbs_Priority = lbo_Priority o1, lbs_Persistence = lbo_Persistence
                     o1, lbs_Topology = lbo_Topology o1, lbs_TTL = lbo_TTL o1, lbs_UseTTL =
                     lbo_UseTTL o1, lbs_Comment = lbo_Comment o1, lbs_Disable = lbo_Disable o1,
                     lbs_ExtAttrs = lbo_ExtAttrs o1, lbs_Ref = lbo_Ref o1, lbs_Pools = poolsToCluster
                     (lbo_Pools o1), lbs_Health = healthToCluster (lbo_Health o1)\<rparr>\<rparr>;
                  cr3 = (if ores_refreshedRef res \<noteq> [] then SetExternalName (ores_refreshedRef res) cr2 else cr2);
                  cr4 = SetAvailable cr3;
                  upToDate = (DTCLBDN_isUpToDate (lbp_Name p) (lbp_LBMethod p) (lbp_Patterns p) (poolsFromCluster
                                (lbp_Pools p)) (lbp_AuthZones p) (lbp_Types p) (lbp_Priority p)
                                (lbp_Persistence p) (lbp_Topology p) (lbp_TTL p) (lbp_UseTTL p)
                                (lbp_Comment p) (lbp_Disable p) (lbp_ExtAttrs p) rec
                                \<and> \<not> ores_adopted res)
              in (Inr \<lparr>ResourceExists = True, ResourceUpToDate = upToDate,
                       ResourceLateInitialized = ores_lateInit res\<rparr>, cr4, w1))))"

definition cluster_DTCLBDN_Create ::
  "(DtcLbdnObj, dtclbdn_req) wapi \<Rightarrow> string \<Rightarrow> DTCLBDNCR \<Rightarrow> dtclbdn_req world
      \<Rightarrow> goerr option \<times> DTCLBDNCR \<times> dtclbdn_req world" where
  "cluster_DTCLBDN_Create env endpoint cr w =
     (let p = lb_ForProvider cr; uid = mo_uid cr in
      if trim_space uid = [] then (Some (TextError DTCLBDN_errEmptyUID), cr, w)
      else
          (case ensureIdentityPrerequisite env endpoint w of
             (Some err, w1) \<Rightarrow> (Some err, cr, w1)
           | (None, w1) \<Rightarrow>
               (case createDtcLbdn env p (poolsFromCluster (lbp_Pools p)) uid w1 of
                  (Inl err, w2) \<Rightarrow> (Some (Wrapped errCreateDTCLBDN err), cr, w2)
                | (Inr newRef, w2) \<Rightarrow> (None, SetExternalName newRef cr, w2))))"

definition cluster_DTCLBDN_Update ::
  "(DtcLbdnObj, dtclbdn_req) wapi \<Rightarrow> string \<Rightarrow> DTCLBDNCR \<Rightarrow> dtclbdn_req world
      \<Rightarrow> goerr option \<times> DTCLBDNCR \<times> dtclbdn_req world" where
  "cluster_DTCLBDN_Update env endpoint cr w =
     (let p = lb_ForProvider cr; externalID = GetExternalName cr in
      case ensureIdentityPrerequisite env endpoint w of
        (Some err, w1) \<Rightarrow> (Some err, cr, w1)
      | (None, w1) \<Rightarrow>
          (case updateDtcLbdn env externalID p (poolsFromCluster (lbp_Pools p)) (mo_uid cr) w1 of
             (Inl err, w2) \<Rightarrow> (Some (Wrapped errUpdateDTCLBDN err), cr, w2)
           | (Inr newRef, w2) \<Rightarrow>
               if newRef \<noteq> [] \<and> newRef \<noteq> externalID then
                 (case Refresh env cr newRef w2 of
                    (Some err, cr1, w3) \<Rightarrow> (Some (Wrapped errPersistExternalName err), cr1, w3)
                  | (None, cr1, w3) \<Rightarrow> (None, cr1, w3))
               else (None, cr, w2)))"

definition cluster_DTCLBDN_Delete ::
  "(DtcLbdnObj, dtclbdn_req) wapi \<Rightarrow> string \<Rightarrow> DTCLBDNCR \<Rightarrow> dtclbdn_req world
      \<Rightarrow> goerr option \<times> dtclbdn_req world" where
  "cluster_DTCLBDN_Delete env endpoint cr w =
     (let externalID = GetExternalName cr in
      case deleteDtcLbdnIdentity env endpoint externalID (mo_uid cr) w of
        (Some err, w1) \<Rightarrow> (Some err, w1)
      | (None, w1) \<Rightarrow> (None, w1))"

section \<open>The contract of the ladder client\<close>

text \<open>The requests of a spec, what a Grid object holds of a request, and the drift check of a resource.\<close>

definition dtclbdn_object :: "DTCLBDNParameters \<Rightarrow> string \<Rightarrow> DtcLbdnObj" where
  "dtclbdn_object p uid =
     (buildDtcLbdn p (poolsFromNamespaced (lbp_Pools p)))\<lparr>lbr_Ea := Stamp (buildEA (lbp_ExtAttrs p)) uid\<rparr>"

definition dtclbdn_create_request :: "DTCLBDNParameters \<Rightarrow> string \<Rightarrow> dtclbdn_req" where
  "dtclbdn_create_request p uid = CreateDtcLbdnObject (dtclbdn_object p uid)"

definition dtclbdn_update_request :: "string \<Rightarrow> DTCLBDNParameters \<Rightarrow> string \<Rightarrow> dtclbdn_req" where
  "dtclbdn_update_request ref p uid = UpdateDtcLbdnObject ref ((dtclbdn_object p uid)\<lparr>lbr_Ref := ref\<rparr>)"

fun dtclbdn_req_ea :: "dtclbdn_req \<Rightarrow> ea" where
  "dtclbdn_req_ea (CreateDtcLbdnObject lbdn) = lbr_Ea lbdn"
| "dtclbdn_req_ea (UpdateDtcLbdnObject ref lbdn) = lbr_Ea lbdn"

text \<open>Of a nil pointer or an empty list of types nothing is sent, and the Grid has its own value.\<close>

definition dtclbdn_stores :: "DtcLbdnObj \<Rightarrow> DtcLbdnObj \<Rightarrow> bool" where
  "dtclbdn_stores lbdn rec \<longleftrightarrow>
     lbr_Name rec = lbr_Name lbdn \<and> lbr_LbMethod rec = lbr_LbMethod lbdn \<and> lbr_Patterns rec = lbr_Patterns lbdn \<and>
     lbr_Pools rec = lbr_Pools lbdn \<and> lbr_AuthZones rec = lbr_AuthZones lbdn \<and> (lbr_Types lbdn \<noteq> [] \<longrightarrow> lbr_Types rec = lbr_Types lbdn) \<and>
     (lbr_Priority lbdn \<noteq> None \<longrightarrow> lbr_Priority rec = lbr_Priority lbdn) \<and>
     (lbr_Persistence lbdn \<noteq> None \<longrightarrow> lbr_Persistence rec = lbr_Persistence lbdn) \<and>
     (lbr_Topology lbdn \<noteq> None \<longrightarrow> lbr_Topology rec = lbr_Topology lbdn) \<and>
     (lbr_UseTtl lbdn \<noteq> None \<longrightarrow> lbr_UseTtl rec = lbr_UseTtl lbdn) \<and>
     (lbr_Ttl lbdn \<noteq> None \<longrightarrow> boolOrFalse (lbr_UseTtl rec) \<longrightarrow> lbr_Ttl rec = lbr_Ttl lbdn) \<and>
     (lbr_Comment lbdn \<noteq> None \<longrightarrow> lbr_Comment rec = lbr_Comment lbdn) \<and>
     (lbr_Disable lbdn \<noteq> None \<longrightarrow> lbr_Disable rec = lbr_Disable lbdn) \<and> lbr_Ea rec = lbr_Ea lbdn"

fun dtclbdn_holds :: "dtclbdn_req \<Rightarrow> DtcLbdnObj \<Rightarrow> bool" where
  "dtclbdn_holds (CreateDtcLbdnObject lbdn) rec = dtclbdn_stores lbdn rec"
| "dtclbdn_holds (UpdateDtcLbdnObject ref lbdn) rec = dtclbdn_stores lbdn rec"

definition DTCLBDN_utd :: "DTCLBDNCR \<Rightarrow> DtcLbdnObj \<Rightarrow> bool" where
  "DTCLBDN_utd cr rec = (let p = lb_ForProvider cr in
     DTCLBDN_isUpToDate (lbp_Name p) (lbp_LBMethod p) (lbp_Patterns p) (poolsFromNamespaced
                                (lbp_Pools p)) (lbp_AuthZones p) (lbp_Types p) (lbp_Priority p)
                                (lbp_Persistence p) (lbp_Topology p) (lbp_TTL p) (lbp_UseTTL p)
                                (lbp_Comment p) (lbp_Disable p) (lbp_ExtAttrs p) rec)"

definition DTCLBDN_spec_ok :: "DTCLBDNCR \<Rightarrow> bool" where
  "DTCLBDN_spec_ok cr \<longleftrightarrow> (let p = lb_ForProvider cr in reserved_free (lbp_ExtAttrs p) \<and> [] \<notin> set (lbp_AuthZones p))"

definition DTCLBDN_keeps :: "dtclbdn_late \<Rightarrow> dtclbdn_late \<Rightarrow> bool" where
  "DTCLBDN_keeps l l' = (case (l, l') of ((priority, persistence, topology, ttl, useTTL, comment, disable, extAttrs),
      (priority', persistence', topology', ttl', useTTL', comment', disable', extAttrs')) \<Rightarrow>
     keeps_set priority priority' \<and> keeps_set persistence persistence' \<and> keeps_set topology topology' \<and> keeps_set ttl ttl' \<and> keeps_set useTTL useTTL' \<and> keeps_set comment comment' \<and> keeps_set disable disable' \<and> keeps_attrs extAttrs extAttrs')"

definition DTCLBDN_get :: "DTCLBDNCR \<Rightarrow> dtclbdn_late" where
  "DTCLBDN_get cr = DTCLBDN_latePart (lb_ForProvider cr)"

definition DTCLBDN_put :: "DTCLBDNCR \<Rightarrow> dtclbdn_late \<Rightarrow> DTCLBDNCR" where
  "DTCLBDN_put cr l = cr\<lparr>lb_ForProvider := DTCLBDN_setLate (lb_ForProvider cr) l\<rparr>"

definition DTCLBDN_status :: "DtcLbdnObj \<Rightarrow> DTCLBDNCR \<Rightarrow> DTCLBDNCR" where
  "DTCLBDN_status rec cr =
     (let o1 = observeFromDtcLbdn (lbr_Ref rec) rec; p = lb_ForProvider cr in
      cr\<lparr>lb_AtProvider :=
        \<lparr>lbs_ID = lbo_ID o1, lbs_Name = lbo_Name o1, lbs_LBMethod = lbo_LBMethod o1, lbs_Patterns =
        lbo_Patterns o1, lbs_AuthZones = lbo_AuthZones o1, lbs_Types = lbo_Types o1, lbs_Priority =
        lbo_Priority o1, lbs_Persistence = lbo_Persistence o1, lbs_Topology = lbo_Topology o1,
        lbs_TTL = lbo_TTL o1, lbs_UseTTL = lbo_UseTTL o1, lbs_Comment = lbo_Comment o1, lbs_Disable
        = lbo_Disable o1, lbs_ExtAttrs = lbo_ExtAttrs o1, lbs_Ref = lbo_Ref o1, lbs_Pools = poolsToNamespaced
        (lbo_Pools o1), lbs_Health = healthToNamespaced (lbo_Health o1)\<rparr>\<rparr>)"

definition DTCLBDN_valid :: "DTCLBDNCR \<Rightarrow> goerr option" where
  "DTCLBDN_valid cr = (let p = lb_ForProvider cr; uid = mo_uid cr in if trim_space uid = [] then Some (TextError DTCLBDN_errEmptyUID) else None)"

lemma DTCLBDN_lateInitialize_eq:
  "DTCLBDN_lateInitialize (priority, persistence, topology, ttl, useTTL, comment, disable, extAttrs) rec =
     (let priority1 = fill priority (lbr_Priority rec);
          persistence1 = fill persistence (lbr_Persistence rec);
          topology1 = fill topology (ptrIfSet (lbr_Topology rec));
          useTTL1 = fill useTTL (lbr_UseTtl rec);
          ttl1 = fill_if ttl (boolOrFalse useTTL1) (lbr_Ttl rec);
          comment1 = fill comment (ptrIfSet (lbr_Comment rec));
          disable1 = fill disable (lbr_Disable rec);
          extAttrs1 = fill_map extAttrs (userAttrs (lbr_Ea rec))
      in ((priority1, persistence1, topology1, ttl1, useTTL1, comment1, disable1, extAttrs1), (priority1,
          persistence1, topology1, ttl1, useTTL1, comment1, disable1, extAttrs1) \<noteq> (priority, persistence,
          topology, ttl, useTTL, comment, disable, extAttrs)))"
  by (simp only: DTCLBDN_lateInitialize_def userAttrs_def Let_def case_prod_conv lateInit_eqs
      guarded_late prod.inject simp_thms de_Morgan_conj disj_ac)

interpretation dtclbdn_late: late_lens DTCLBDN_lateInitialize DTCLBDN_keeps DTCLBDN_get DTCLBDN_put DTCLBDN_utd
proof
  fix l l' :: dtclbdn_late and rec :: DtcLbdnObj and cr :: DTCLBDNCR
  obtain priority persistence topology ttl useTTL comment disable extAttrs where l: "l = (priority, persistence,
      topology, ttl, useTTL, comment, disable, extAttrs)" by (cases l) auto
  show "DTCLBDN_lateInitialize (fst (DTCLBDN_lateInitialize l rec)) rec = (fst (DTCLBDN_lateInitialize l rec), False)"
    by (simp add: l DTCLBDN_lateInitialize_eq Let_def)
  show "snd (DTCLBDN_lateInitialize l rec) \<longleftrightarrow> fst (DTCLBDN_lateInitialize l rec) \<noteq> l"
    by (simp add: l DTCLBDN_lateInitialize_eq Let_def)
  show "DTCLBDN_keeps l (fst (DTCLBDN_lateInitialize l rec))"
    by (simp add: l DTCLBDN_lateInitialize_eq Let_def DTCLBDN_keeps_def keeps_fill)
  show "DTCLBDN_get (DTCLBDN_put cr l) = l"
    by (simp add: l DTCLBDN_get_def DTCLBDN_put_def DTCLBDN_latePart_def DTCLBDN_setLate_def)
  show "DTCLBDN_put cr (DTCLBDN_get cr) = cr"
    by (simp add: DTCLBDN_get_def DTCLBDN_put_def DTCLBDN_latePart_def DTCLBDN_setLate_def)
  show "DTCLBDN_put (DTCLBDN_put cr l) l' = DTCLBDN_put cr l'"
    by (simp add: DTCLBDN_put_def DTCLBDN_setLate_def split: prod.split)
  show "DTCLBDN_utd (DTCLBDN_put cr (fst (DTCLBDN_lateInitialize (DTCLBDN_get cr) rec))) rec" if "DTCLBDN_utd cr rec"
    using that
    by (auto simp: DTCLBDN_get_def DTCLBDN_put_def DTCLBDN_latePart_def DTCLBDN_setLate_def DTCLBDN_lateInitialize_eq Let_def
        DTCLBDN_utd_def DTCLBDN_isUpToDate_def scalarFieldsUpToDate_def collectionFieldsUpToDate_def extAttrsEqual_iff simp flip: userAttrs_def split: if_splits)
qed

lemma DtcLbdnObj_type_simps [simp]:
  "ot_name DtcLbdnObj_type = ''dtc:lbdn''" "ref_ea_shape DtcLbdnObj_type"
  "stamped DtcLbdnObj_type rec = eaValue (lbr_Ea rec) EAKey"
  by (simp_all add: ref_ea_shape_def stamped_def DtcLbdnObj_type_def reflectDtcLbdnObj_def getRef_def getEA_def)

lemma deleteDtcLbdn_issue: "deleteDtcLbdn env = issue_delete env"
  by (intro ext) (simp only: deleteDtcLbdn_def issue_delete_def)

lemma createDtcLbdn_valid:
  assumes "DTCLBDN_valid cr = None"
  shows "createDtcLbdn env (lb_ForProvider cr) (poolsFromNamespaced (lbp_Pools (lb_ForProvider cr))) (mo_uid cr) w =
      (case mutate_object env (dtclbdn_create_request (lb_ForProvider cr) (mo_uid cr)) w of
      (Inl err, w1) \<Rightarrow> (Inl err, w1) | (Inr rec, w1) \<Rightarrow> (Inr (lbr_Ref rec), w1))"
  using assms
  by (auto simp: createDtcLbdn_def dtclbdn_create_request_def dtclbdn_object_def buildDtcLbdn_def DTCLBDN_valid_def Let_def split: if_splits option.splits)


lemma DTCLBDN_Observe_shape:
  "namespaced_DTCLBDN_Observe env ep cr w =
     ladder_observe_shape (ladder_observe_error errObserveDTCLBDN) (Resolve env DtcLbdnObj_type)
         (ensureIdentityPrerequisite env ep)
       (\<lambda>r. r \<noteq> []) (\<lambda>r. True) (lift_late DTCLBDN_lateInitialize DTCLBDN_get DTCLBDN_put)
           DTCLBDN_status DTCLBDN_utd lbr_Ref cr w"
proof -
  have same: "cr\<lparr>lb_ForProvider := DTCLBDN_setLate (lb_ForProvider cr) (DTCLBDN_latePart (lb_ForProvider cr))\<rparr> = cr"
    by (simp add: DTCLBDN_latePart_def DTCLBDN_setLate_def)
  obtain r w1 where r: "Resolve env DtcLbdnObj_type (observeRefFor (mo_name cr) (GetExternalName cr)) (mo_uid cr) w =
      (r, w1)"
    by (cases "Resolve env DtcLbdnObj_type (observeRefFor (mo_name cr) (GetExternalName cr)) (mo_uid cr) w")
  obtain e w2 where e: "ensureIdentityPrerequisite env ep w1 = (e, w2)"
    by (cases "ensureIdentityPrerequisite env ep w1")
  note defs = namespaced_DTCLBDN_Observe_def observeDtcLbdn_def resolveDtcLbdnIdentity_def ladder_observe_shape_def ladder_observe_error_def
  show ?thesis
  proof (cases r)
    case (Inl err)
    then show ?thesis
      by (cases e) (simp_all add: defs Let_def r e same)
  next
    case (Inr a)
    obtain obj out where a: "a = (obj, out)" by (cases a)
    show ?thesis
    proof (cases obj)
      case None
      then show ?thesis
        by (simp add: defs Let_def r Inr a same DTCLBDN_notFoundResult_def)
    next
      case (Some rec)
      obtain l c where "DTCLBDN_lateInitialize (DTCLBDN_latePart (lb_ForProvider cr)) rec = (l, c)"
        by (cases "DTCLBDN_lateInitialize (DTCLBDN_latePart (lb_ForProvider cr)) rec")
      with Some show ?thesis
        by (simp add: defs Let_def r Inr a same lift_late_def DTCLBDN_get_def DTCLBDN_put_def
            DTCLBDN_status_def DTCLBDN_utd_def DTCLBDN_notFoundResult_def observeFromDtcLbdn_def)
    qed
  qed
qed

lemma DTCLBDN_Create_shape:
  "namespaced_DTCLBDN_Create env ep cr w =
     ladder_create_shape errCreateDTCLBDN DTCLBDN_valid (ensureIdentityPrerequisite env ep) (mutate_object env)
       (\<lambda>cr. dtclbdn_create_request (lb_ForProvider cr) (mo_uid cr)) lbr_Ref cr w"
proof -
  obtain e w1 where e: "ensureIdentityPrerequisite env ep w = (e, w1)"
    by (cases "ensureIdentityPrerequisite env ep w")
  have v: "(let p = lb_ForProvider cr; uid = mo_uid cr in if trim_space uid = [] then Some (TextError DTCLBDN_errEmptyUID) else None) = DTCLBDN_valid cr"
    by (simp only: DTCLBDN_valid_def)
  obtain m w2 where m: "mutate_object env (dtclbdn_create_request (lb_ForProvider cr) (mo_uid cr)) w1 = (m, w2)"
    by (cases "mutate_object env (dtclbdn_create_request (lb_ForProvider cr) (mo_uid cr)) w1")
  show ?thesis
  proof (cases "DTCLBDN_valid cr")
    case None
    then show ?thesis
      using createDtcLbdn_valid [OF None, of env w1] v
      by (cases e; cases m) (simp_all add: namespaced_DTCLBDN_Create_def ladder_create_shape_def Let_def e m split:
          if_splits)
  next
    case (Some err)
    then show ?thesis
      using v by (simp add: namespaced_DTCLBDN_Create_def ladder_create_shape_def Let_def split: if_splits)
  qed
qed

lemma DTCLBDN_Update_shape:
  "namespaced_DTCLBDN_Update env ep cr w =
     ladder_update_shape errUpdateDTCLBDN DTCLBDN_errEmptyUID env (ensureIdentityPrerequisite env ep)
       (\<lambda>cr. dtclbdn_update_request (GetExternalName cr) (lb_ForProvider cr) (mo_uid cr)) lbr_Ref cr w"
proof -
  obtain e w1 where e: "ensureIdentityPrerequisite env ep w = (e, w1)"
    by (cases "ensureIdentityPrerequisite env ep w")
  show ?thesis
    by (cases e; cases "wapi_mutate env (calls w1) (dtclbdn_update_request (GetExternalName cr) (lb_ForProvider cr)
        (mo_uid cr))")
      (auto simp: namespaced_DTCLBDN_Update_def ladder_update_shape_def updateDtcLbdn_def dtclbdn_update_request_def
        Let_def e dtclbdn_object_def buildDtcLbdn_def mutate_object_def)
qed

lemma DTCLBDN_Delete_shape:
  "namespaced_DTCLBDN_Delete env ep cr w =
     ladder_delete_shape errDeleteDTCLBDN errDeleteUnverifiedOwnership nilDereference
       (Resolve env DtcLbdnObj_type (GetExternalName cr) (mo_uid cr)) (ensureIdentityPrerequisite env ep)
       (issue_delete env) lbr_Ref w"
proof -
  have "namespaced_DTCLBDN_Delete env ep cr w = deleteDtcLbdnIdentity env ep (GetExternalName cr) (mo_uid cr) w"
    by (simp add: namespaced_DTCLBDN_Delete_def Let_def split: prod.split option.split)
  then show ?thesis
    by (simp only: deleteDtcLbdnIdentity_def ladder_delete_shape_def resolveDtcLbdnIdentity_def deleteDtcLbdn_issue)
qed

lemma DTCLBDN_poolsFrom_scopes: "poolsFromCluster = poolsFromNamespaced"
  by (intro ext) (simp only: poolsFromCluster_def poolsFromNamespaced_def)

lemma DTCLBDN_poolsTo_scopes: "poolsToCluster = poolsToNamespaced"
  by (intro ext) (simp only: poolsToCluster_def poolsToNamespaced_def DTCLBDN_poolsFrom_scopes)

lemma DTCLBDN_scopes:
  "cluster_DTCLBDN_Observe = namespaced_DTCLBDN_Observe" "cluster_DTCLBDN_Create = namespaced_DTCLBDN_Create"
  "cluster_DTCLBDN_Update = namespaced_DTCLBDN_Update" "cluster_DTCLBDN_Delete = namespaced_DTCLBDN_Delete"
  by (intro ext, simp only: cluster_DTCLBDN_Observe_def namespaced_DTCLBDN_Observe_def cluster_DTCLBDN_Create_def
      namespaced_DTCLBDN_Create_def cluster_DTCLBDN_Update_def namespaced_DTCLBDN_Update_def
      cluster_DTCLBDN_Delete_def namespaced_DTCLBDN_Delete_def DTCLBDN_poolsFrom_scopes DTCLBDN_poolsTo_scopes healthTo_scopes)+

lemma dtclbdn_written_utd:
  assumes "DTCLBDN_spec_ok cr"
    and "dtclbdn_holds (dtclbdn_create_request (lb_ForProvider cr) (mo_uid cr)) rec \<and> DTCLBDN_valid cr = None \<or>
      dtclbdn_holds (dtclbdn_update_request (GetExternalName cr) (lb_ForProvider cr) (mo_uid cr)) rec"
  shows "DTCLBDN_utd (fst (lift_late DTCLBDN_lateInitialize DTCLBDN_get DTCLBDN_put cr rec)) rec \<and>
    eaValue (lbr_Ea rec) EAKey = Some (mo_uid cr)"
proof -
  let ?p = "lb_ForProvider cr"
  note reqs = dtclbdn_create_request_def dtclbdn_update_request_def dtclbdn_object_def buildDtcLbdn_def
  have ok: "reserved_free (lbp_ExtAttrs ?p)" "[] \<notin> set (lbp_AuthZones ?p)"
    using assms(1) by (simp_all add: DTCLBDN_spec_ok_def Let_def)
  have st: "dtclbdn_stores (dtclbdn_object ?p (mo_uid cr)) rec"
    using assms(2) by (elim disjE) (simp_all add: reqs dtclbdn_stores_def)
  then have ea: "lbr_Ea rec = Stamp (buildEA (lbp_ExtAttrs ?p)) (mo_uid cr)"
    and plain: "lbr_Name rec = lbp_Name ?p" "lbr_LbMethod rec = strOrEmpty (lbp_LBMethod ?p)" "lbr_Patterns rec = lbp_Patterns ?p"
      "lbr_Pools rec = buildPools (poolsFromNamespaced (lbp_Pools ?p))" "lbr_AuthZones rec = buildAuthZones (lbp_AuthZones ?p)"
      "lbp_Types ?p \<noteq> [] \<Longrightarrow> lbr_Types rec = lbp_Types ?p"
    and sent: "lbp_Priority ?p \<noteq> None \<Longrightarrow> lbr_Priority rec = lbp_Priority ?p"
      "lbp_Persistence ?p \<noteq> None \<Longrightarrow> lbr_Persistence rec = lbp_Persistence ?p"
      "lbp_Topology ?p \<noteq> None \<Longrightarrow> lbr_Topology rec = lbp_Topology ?p"
      "lbp_UseTTL ?p \<noteq> None \<Longrightarrow> lbr_UseTtl rec = lbp_UseTTL ?p"
      "lbp_Comment ?p \<noteq> None \<Longrightarrow> lbr_Comment rec = lbp_Comment ?p"
      "lbp_Disable ?p \<noteq> None \<Longrightarrow> lbr_Disable rec = lbp_Disable ?p"
    and ttl: "boolOrFalse (lbr_UseTtl rec) \<Longrightarrow> lbp_TTL ?p \<noteq> None \<Longrightarrow> lbr_Ttl rec = lbp_TTL ?p"
    by (simp_all add: dtclbdn_stores_def reqs)
  have zones: "authZonesFromSDK (buildAuthZones (lbp_AuthZones ?p)) = lbp_AuthZones ?p"
    using ok(2) by (simp add: authZones_roundtrip) (metis (mono_tags, lifting) filter_True)
  have types: "lbp_Types ?p = [] \<or> lbp_Types ?p = lbr_Types rec"
    using plain(6) by (cases "lbp_Types ?p = []") simp_all
  have attrs: "userAttrs (lbr_Ea rec) = lbp_ExtAttrs ?p"
    using ok(1) by (simp add: ea userAttrs_buildEA reserved_free_fmdrop)
  note filled = fill_sent [OF sent(1), of ttlOrZero] fill_sent [OF sent(2), of ttlOrZero] fill_sent_str [OF sent(3)]
    fill_sent [OF sent(4), of boolOrFalse] fill_sent_str [OF sent(5)] fill_sent [OF sent(6), of boolOrFalse]
    fill_sent [OF ttl, of ttlOrZero]
  have "DTCLBDN_utd (fst (lift_late DTCLBDN_lateInitialize DTCLBDN_get DTCLBDN_put cr rec)) rec"
    using types
    by (simp add: dtclbdn_late.lifted_simps DTCLBDN_get_def DTCLBDN_put_def DTCLBDN_latePart_def DTCLBDN_setLate_def
        DTCLBDN_lateInitialize_eq Let_def DTCLBDN_utd_def DTCLBDN_isUpToDate_def scalarFieldsUpToDate_def
        collectionFieldsUpToDate_def extAttrsEqual_iff plain(1-5) zones attrs filled flip: userAttrs_def)
  with ea show ?thesis by simp
qed

interpretation dtclbdn: refreshing_client "lift_late DTCLBDN_lateInitialize DTCLBDN_get DTCLBDN_put" DTCLBDN_utd
  "\<lambda>s s'. DTCLBDN_keeps (DTCLBDN_get s) (DTCLBDN_get s')"
  DtcLbdnObj_type lbr_Ref DTCLBDN_status DTCLBDN_valid
  "\<lambda>cr. dtclbdn_create_request (lb_ForProvider cr) (mo_uid cr)"
  "\<lambda>cr. dtclbdn_update_request (GetExternalName cr) (lb_ForProvider cr) (mo_uid cr)"
  dtclbdn_req_ea dtclbdn_holds DTCLBDN_spec_ok
  "ladder_observe_error errObserveDTCLBDN" "\<lambda>r. r \<noteq> []" "\<lambda>r. True" lbr_Ref errCreateDTCLBDN errUpdateDTCLBDN errDeleteDTCLBDN DTCLBDN_errEmptyUID
  namespaced_DTCLBDN_Observe namespaced_DTCLBDN_Create namespaced_DTCLBDN_Update namespaced_DTCLBDN_Delete
proof (unfold_locales, goal_cases)
  case (6 cr)
  then show ?case by (auto simp: DTCLBDN_valid_def Let_def split: if_splits)
next
  case (13 n cr rec)
  have "DTCLBDN_get (SetExternalName n cr) = DTCLBDN_get cr"
    "DTCLBDN_put (SetExternalName n cr) l = SetExternalName n (DTCLBDN_put cr l)" for l
    by (simp_all add: DTCLBDN_get_def DTCLBDN_put_def SetExternalName_def)
  then show ?case
    by (simp add: dtclbdn_late.lifted_simps DTCLBDN_utd_def SetExternalName_def)
next
  case (14 cr rec)
  then show ?case using dtclbdn_written_utd [of cr rec] by simp
next
  case (15 cr rec)
  then show ?case using dtclbdn_written_utd [of cr rec] by simp
qed (simp_all add: DTCLBDN_Observe_shape DTCLBDN_Create_shape DTCLBDN_Update_shape DTCLBDN_Delete_shape
    dtclbdn_late.lifted_simps DTCLBDN_put_def DTCLBDN_status_def Let_def
    dtclbdn_create_request_def dtclbdn_update_request_def dtclbdn_object_def buildDtcLbdn_def)

end
