(* ===== verification/DhcpOptions.thy ===== *)
theory DhcpOptions
  imports LadderClient
begin

text \<open>
  DHCP options as ipv4sharednetwork and rangetemplate have them: the SDK's struct, the
  package's own, the CRD's, and the comparison both packages declare.
\<close>

text \<open>ibclient.Dhcpoption.\<close>

record Dhcpoption =
  opt_Name :: string
  opt_Num :: "32 word"
  opt_VendorClass :: string
  opt_Value :: string
  opt_UseOption :: bool

text \<open>sharedNetworkDhcpOption, and templateOption with the same fields.\<close>

record dhcpOption =
  po_Name :: "string option"
  po_Num :: "32 word option"
  po_VendorClass :: "string option"
  po_Value :: "string option"
  po_UseOption :: "bool option"

record crdDhcpOption =
  co_Name :: "string option"
  co_Num :: "32 word option"
  co_VendorClass :: "string option"
  co_Value :: "string option"
  co_UseOption :: "bool option"

definition optionsToSDK :: "dhcpOption list \<Rightarrow> Dhcpoption option list" where
  "optionsToSDK opts =
     (if opts = [] then []
      else map (\<lambda>o1. Some \<lparr>opt_Name = strOrEmpty (po_Name o1), opt_Num = uint32OrZero (po_Num o1),
             opt_VendorClass = strOrEmpty (po_VendorClass o1), opt_Value = strOrEmpty (po_Value o1),
             opt_UseOption = boolOrFalse (po_UseOption o1)\<rparr>) opts)"

fun optionsLoop :: "dhcpOption list \<Rightarrow> dhcpOption list \<Rightarrow> bool" where
  "optionsLoop (x # a) (y # b) =
     (if strOrEmpty (po_Name x) \<noteq> strOrEmpty (po_Name y) then False
      else if uint32OrZero (po_Num x) \<noteq> uint32OrZero (po_Num y) then False
      else if strOrEmpty (po_VendorClass x) \<noteq> strOrEmpty (po_VendorClass y) then False
      else if strOrEmpty (po_Value x) \<noteq> strOrEmpty (po_Value y) then False
      else if boolOrFalse (po_UseOption x) \<noteq> boolOrFalse (po_UseOption y) then False
      else optionsLoop a b)"
| "optionsLoop _ _ = True"

definition optionsEqual :: "dhcpOption list \<Rightarrow> dhcpOption list \<Rightarrow> bool" where
  "optionsEqual a b = (if length a \<noteq> length b then False else optionsLoop a b)"

text \<open>Two lists of options are equal to the drift check when they build the same request.\<close>

lemma optionsEqual_iff: "optionsEqual a b \<longleftrightarrow> optionsToSDK a = optionsToSDK b"
proof -
  have "length a = length b \<Longrightarrow> optionsLoop a b \<longleftrightarrow> optionsToSDK a = optionsToSDK b"
    by (induction a b rule: optionsLoop.induct) (auto simp: optionsToSDK_def)
  moreover have "optionsToSDK a = optionsToSDK b \<Longrightarrow> length a = length b"
    by (auto simp: optionsToSDK_def dest: map_eq_imp_length_eq split: if_splits)
  ultimately show ?thesis by (auto simp: optionsEqual_def)
qed

lemma optionsEqual_refl [simp]: "optionsEqual a a"
  by (simp add: optionsEqual_iff)

lemma optionsToSDK_no_nil: "None \<notin> set (optionsToSDK opts)"
  by (auto simp: optionsToSDK_def)

end
