(* ===== verification/Slices.thy ===== *)
theory Slices
  imports LadderClient "HOL-Library.Multiset"
begin

text \<open>
  Helpers on slices of strings that several controller packages declare with the same body.
\<close>

definition stringSliceEqualUnordered :: "string list \<Rightarrow> string list \<Rightarrow> bool" where
  "stringSliceEqualUnordered a b =
     (if length a \<noteq> length b then False
      else
        (let counts = fold (\<lambda>v c. c(v := c v + 1)) a (\<lambda>_. 0 :: int);
             counts1 = fold (\<lambda>v c. c(v := c v - 1)) b counts
         in list_all (\<lambda>v. counts1 v = 0) (a @ b)))"

text \<open>The keys of the count map are the elements of both slices.\<close>

lemma fold_counts:
  "fold (\<lambda>v c. c(v := c v + 1)) a c0 x = (c0 x + int (count (mset a) x) :: int)"
  "fold (\<lambda>v c. c(v := c v - 1)) b c0 x = (c0 x - int (count (mset b) x) :: int)"
  by (induction a arbitrary: c0, simp_all) (induction b arbitrary: c0, simp_all)

lemma stringSliceEqualUnordered_iff: "stringSliceEqualUnordered a b \<longleftrightarrow> mset a = mset b"
proof -
  have "(\<forall>v\<in>set (a @ b). count (mset a) v = count (mset b) v) \<longleftrightarrow> mset a = mset b"
    by (auto intro!: multiset_eqI) (metis Un_iff count_mset_0_iff)
  then show ?thesis
    by (auto simp: stringSliceEqualUnordered_def fold_counts list_all_iff dest: mset_eq_length)
qed

end
