(* ===== verification/IPv4SharedNetwork.thy ===== *)
theory IPv4SharedNetwork
  imports DhcpOptions Slices
begin

text \<open>
  internal/controller/ipv4sharednetwork: the IPv4SharedNetwork controller, a client of the identity ladder.
  ibclient.SharedNetwork is the record SharedNetworkObj here. The Options of the spec are back-filled by the
  handler, after lateInitialize.
\<close>

section \<open>Data\<close>

text \<open>ibclient.Ipv4Network in a list of networks: only its reference is read.\<close>

record NetworkRef =
  net_Ref :: string

text \<open>strings.Index and strings.SplitN on the separators the package uses.\<close>

definition cidrFromNetworkRef :: "string \<Rightarrow> string" where
  "cidrFromNetworkRef ref =
     (let rest = dropWhile (\<lambda>c. c \<noteq> CHR '':'') ref in
      if rest = [] \<or> tl rest = [] then ref
      else
        (let tail = tl rest;
             part0 = takeWhile (\<lambda>c. c \<noteq> CHR ''/'') tail;
             more = dropWhile (\<lambda>c. c \<noteq> CHR ''/'') tail
         in if more = [] then ref
            else part0 @ ''/'' @ takeWhile (\<lambda>c. c \<noteq> CHR ''/'') (tl more)))"

definition networksFromSDK :: "NetworkRef option list \<Rightarrow> string list" where
  "networksFromSDK networks =
     (if networks = [] then []
      else List.map_filter (map_option (\<lambda>n. cidrFromNetworkRef (net_Ref n))) networks)"

definition optionsFromSDK :: "Dhcpoption option list \<Rightarrow> dhcpOption list" where
  "optionsFromSDK opts =
     (if opts = [] then []
      else List.map_filter (map_option (\<lambda>o1. \<lparr>po_Name = ptrIfNonEmpty (opt_Name o1),
             po_Num = (if opt_Num o1 \<noteq> 0 then Some (opt_Num o1) else None),
             po_VendorClass = ptrIfNonEmpty (opt_VendorClass o1), po_Value = ptrIfNonEmpty (opt_Value o1),
             po_UseOption = (if opt_UseOption o1 then Some True else None)\<rparr>)) opts)"

lemma options_roundtrip [simp]: "optionsEqual os (optionsFromSDK (optionsToSDK os))"
proof -
  have zero: "ttlOrZero (if r \<noteq> 0 then Some r else None) = r" "boolOrFalse (if b then Some True else None) = b" for r b
    by simp_all
  have "optionsToSDK (optionsFromSDK xs) = xs" if "None \<notin> set xs" for xs
    unfolding optionsToSDK_def optionsFromSDK_def conv_simps map_filter_the [OF that]
    using map_the_idI [OF that, of "\<lambda>m. Some \<lparr>opt_Name = opt_Name m, opt_Num = opt_Num m,
      opt_VendorClass = opt_VendorClass m, opt_Value = opt_Value m, opt_UseOption = opt_UseOption m\<rparr>"]
    by (simp add: zero comp_def)
  then show ?thesis by (simp add: optionsEqual_iff optionsToSDK_no_nil)
qed

text \<open>ibclient.SharedNetwork, as the provider requests it.\<close>

record SharedNetworkObj =
  snr_Ref :: string
  snr_Name :: "string option"
  snr_Networks :: "NetworkRef option list"
  snr_NetworkView :: string
  snr_Comment :: "string option"
  snr_Disable :: "bool option"
  snr_UseOptions :: "bool option"
  snr_Options :: "Dhcpoption option list"
  snr_Authority :: "bool option"
  snr_DdnsTtl :: "32 word option"
  snr_EnableDdns :: "bool option"
  snr_DhcpUtilization :: "32 word"
  snr_DhcpUtilizationStatus :: string
  snr_DynamicHosts :: "32 word"
  snr_Ea :: ea

definition emptySharedNetworkObj :: SharedNetworkObj where
  "emptySharedNetworkObj = \<lparr>snr_Ref = [], snr_Name = None, snr_Networks = [], snr_NetworkView = [], snr_Comment
      = None, snr_Disable = None, snr_UseOptions = None, snr_Options = [], snr_Authority = None, snr_DdnsTtl = None,
      snr_EnableDdns = None, snr_DhcpUtilization = 0, snr_DhcpUtilizationStatus = [], snr_DynamicHosts = 0, snr_Ea =
      fmempty\<rparr>"

definition reflectSharedNetworkObj :: "SharedNetworkObj \<Rightarrow> goany" where
  "reflectSharedNetworkObj r = PtrTo ''*ibclient.SharedNetwork''
     [(''Ref'', FString (snr_Ref r)),
      (''Name'', FOther),
      (''Networks'', FOther),
      (''NetworkView'', FString (snr_NetworkView r)),
      (''Comment'', FOther),
      (''Disable'', FOther),
      (''UseOptions'', FOther),
      (''Options'', FOther),
      (''Authority'', FOther),
      (''DdnsTtl'', FOther),
      (''EnableDdns'', FOther),
      (''DhcpUtilization'', FOther),
      (''DhcpUtilizationStatus'', FString (snr_DhcpUtilizationStatus r)),
      (''DynamicHosts'', FOther),
      (''Ea'', FEA (snr_Ea r))]"

definition SharedNetworkObj_type :: "SharedNetworkObj objtype" where
  "SharedNetworkObj_type = \<lparr>ot_name = ''sharednetwork'', ot_empty = emptySharedNetworkObj, ot_reflect =
      reflectSharedNetworkObj\<rparr>"

text \<open>The ObjectManager requests, with their arguments in call order.\<close>

datatype sharednetwork_req =
    CreateIpv4SharedNetwork string "string list" string ea string bool bool "Dhcpoption option list"
      \<comment> \<open>name, networks, networkView, ea, comment, disable, useOptions, options\<close>
  | UpdateIpv4SharedNetwork string string "string list" string string ea bool bool "Dhcpoption option list"
      \<comment> \<open>ref, name, networks, networkView, comment, ea, disable, useOptions, options\<close>

record IPv4SharedNetworkParameters =
  snp_Name :: "string option"
  snp_Networks :: "string list"
  snp_NetworkView :: "string option"
  snp_Comment :: "string option"
  snp_ExtAttrs :: extattrs
  snp_Disable :: "bool option"
  snp_UseOptions :: "bool option"
  snp_Options :: "crdDhcpOption option list"

record IPv4SharedNetworkObservation =
  sns_ID :: string
  sns_Name :: "string option"
  sns_Networks :: "string list"
  sns_NetworkView :: "string option"
  sns_Comment :: "string option"
  sns_ExtAttrs :: extattrs
  sns_Disable :: "bool option"
  sns_UseOptions :: "bool option"
  sns_Options :: "crdDhcpOption option list"
  sns_Ref :: "string option"
  sns_Authority :: "bool option"
  sns_DdnsTTL :: "32 word option"
  sns_EnableDdns :: "bool option"
  sns_DhcpUtilization :: "32 word option"
  sns_DhcpUtilizationStatus :: "string option"
  sns_DynamicHosts :: "32 word option"

record IPv4SharedNetworkCR = mobj +
  sn_ForProvider :: IPv4SharedNetworkParameters
  sn_AtProvider :: IPv4SharedNetworkObservation

section \<open>Error messages\<close>

definition errObserveIPv4SharedNet :: string where "errObserveIPv4SharedNet = ''cannot observe IPv4SharedNetwork''"
definition errCreateIPv4SharedNet :: string where "errCreateIPv4SharedNet = ''cannot create IPv4SharedNetwork''"
definition errUpdateIPv4SharedNet :: string where "errUpdateIPv4SharedNet = ''cannot update IPv4SharedNetwork''"
definition errDeleteIPv4SharedNet :: string where "errDeleteIPv4SharedNet = ''cannot delete IPv4SharedNetwork''"
definition IPv4SharedNetwork_errEmptyUID :: string where
  "IPv4SharedNetwork_errEmptyUID = ''cannot stamp IPv4SharedNetwork identity: managed resource's metadata.uid is empty''"

section \<open>Field comparison and late initialisation\<close>

definition IPv4SharedNetwork_isUpToDate ::
  "string option \<Rightarrow> string list \<Rightarrow> string option \<Rightarrow> extattrs \<Rightarrow> bool option \<Rightarrow> bool option \<Rightarrow> dhcpOption list \<Rightarrow>
     SharedNetworkObj \<Rightarrow> bool" where
  "IPv4SharedNetwork_isUpToDate name networks comment extAttrs disable useOptions options sn =
     (if strOrEmpty name \<noteq> strOrEmpty (snr_Name sn) then False
      else if \<not> stringSliceEqualUnordered networks (networksFromSDK (snr_Networks sn)) then False
      else if strOrEmpty comment \<noteq> strOrEmpty (snr_Comment sn) then False
      else if \<not> extAttrsEqual extAttrs (extAttrsFromEA (Strip (snr_Ea sn))) then False
      else if boolOrFalse disable \<noteq> boolOrFalse (snr_Disable sn) then False
      else if boolOrFalse useOptions \<noteq> boolOrFalse (snr_UseOptions sn) then False
      else if boolOrFalse useOptions \<and> \<not> optionsEqual options (optionsFromSDK (snr_Options sn)) then False
      else True)"

text \<open>The ForProvider fields lateInitialize takes pointers to.\<close>

type_synonym sharednetwork_late = "string option \<times> string option \<times> bool option \<times> bool option \<times> extattrs"

definition IPv4SharedNetwork_lateInitialize :: "sharednetwork_late \<Rightarrow> SharedNetworkObj \<Rightarrow>
    sharednetwork_late \<times> bool" where
  "IPv4SharedNetwork_lateInitialize p rec =
     (case p of (networkView, comment, disable, useOptions, extAttrs) \<Rightarrow>
       (let (networkView1, c1) = (if networkView = None \<and> snr_NetworkView rec \<noteq> []
                             then (Some (snr_NetworkView rec), True) else (networkView, False));
            (comment1, c2) = (if comment = None \<and> snr_Comment rec \<noteq> None \<and> snr_Comment rec \<noteq> Some []
                             then (snr_Comment rec, True) else (comment, c1));
            (disable1, c3) = (if disable = None \<and> snr_Disable rec \<noteq> None
                             then (snr_Disable rec, True) else (disable, c2));
            (useOptions1, c4) = (if useOptions = None \<and> snr_UseOptions rec \<noteq> None
                             then (snr_UseOptions rec, True) else (useOptions, c3));
            fromRec = extAttrsFromEA (Strip (snr_Ea rec));
            (extAttrs1, c5) = (if extAttrs = fmempty \<and> fromRec \<noteq> fmempty
                             then (fromRec, True) else (extAttrs, c4))
        in ((networkView1, comment1, disable1, useOptions1, extAttrs1), c5)))"

record observedIPv4SharedNetwork =
  sno_ID :: string
  sno_Name :: "string option"
  sno_Networks :: "string list"
  sno_NetworkView :: "string option"
  sno_Comment :: "string option"
  sno_ExtAttrs :: extattrs
  sno_Disable :: "bool option"
  sno_UseOptions :: "bool option"
  sno_Options :: "dhcpOption list"
  sno_Ref :: "string option"
  sno_Authority :: "bool option"
  sno_DdnsTTL :: "32 word option"
  sno_EnableDdns :: "bool option"
  sno_DhcpUtilization :: "32 word option"
  sno_DhcpUtilizationStatus :: "string option"
  sno_DynamicHosts :: "32 word option"

definition observeFromIPv4SharedNetwork :: "string \<Rightarrow> SharedNetworkObj \<Rightarrow> observedIPv4SharedNetwork" where
  "observeFromIPv4SharedNetwork externalID rec =
     \<lparr>sno_ID = externalID,
      sno_Name = ptrIfSet (snr_Name rec),
      sno_Networks = networksFromSDK (snr_Networks rec),
      sno_NetworkView = ptrIfNonEmpty (snr_NetworkView rec),
      sno_Comment = ptrIfSet (snr_Comment rec),
      sno_ExtAttrs = extAttrsFromEA (snr_Ea rec),
      sno_Disable = snr_Disable rec,
      sno_UseOptions = snr_UseOptions rec,
      sno_Options = optionsFromSDK (snr_Options rec),
      sno_Ref = ptrIfNonEmpty (snr_Ref rec),
      sno_Authority = snr_Authority rec,
      sno_DdnsTTL = snr_DdnsTtl rec,
      sno_EnableDdns = snr_EnableDdns rec,
      sno_DhcpUtilization = (if snr_DhcpUtilization rec \<noteq> 0 then Some (snr_DhcpUtilization rec) else None),
      sno_DhcpUtilizationStatus = ptrIfNonEmpty (snr_DhcpUtilizationStatus rec),
      sno_DynamicHosts = (if snr_DynamicHosts rec \<noteq> 0 then Some (snr_DynamicHosts rec) else None)\<rparr>"

section \<open>SDK calls\<close>

definition createIPv4SharedNetwork ::
  "(SharedNetworkObj, sharednetwork_req) wapi \<Rightarrow> IPv4SharedNetworkParameters \<Rightarrow> dhcpOption list
      \<Rightarrow> string \<Rightarrow> sharednetwork_req world \<Rightarrow> (goerr + SharedNetworkObj) \<times>
      sharednetwork_req world" where
  "createIPv4SharedNetwork env p options uid w =
     (if trim_space uid = [] then (Inl (TextError IPv4SharedNetwork_errEmptyUID), w)
      else
        (let e = Stamp (buildEA (snp_ExtAttrs p)) uid
         in mutate_object env
              (CreateIpv4SharedNetwork (strOrEmpty (snp_Name p)) (snp_Networks p) (strOrEmpty (snp_NetworkView p)) e
                  (strOrEmpty (snp_Comment p)) (boolOrFalse (snp_Disable p)) (boolOrFalse (snp_UseOptions p))
                  (optionsToSDK options)) w))"

definition updateIPv4SharedNetwork ::
  "(SharedNetworkObj, sharednetwork_req) wapi \<Rightarrow> string \<Rightarrow> IPv4SharedNetworkParameters
      \<Rightarrow> dhcpOption list \<Rightarrow> string \<Rightarrow> sharednetwork_req world \<Rightarrow> (goerr +
      SharedNetworkObj) \<times> sharednetwork_req world" where
  "updateIPv4SharedNetwork env ref p options uid w =
     (if trim_space uid = [] then (Inl (TextError IPv4SharedNetwork_errEmptyUID), w)
      else
        (let e = Stamp (buildEA (snp_ExtAttrs p)) uid
         in mutate_object env
              (UpdateIpv4SharedNetwork ref (strOrEmpty (snp_Name p)) (snp_Networks p) (strOrEmpty (snp_NetworkView p))
                  (strOrEmpty (snp_Comment p)) e (boolOrFalse (snp_Disable p)) (boolOrFalse (snp_UseOptions p))
                  (optionsToSDK options)) w))"

definition deleteIPv4SharedNetwork :: "(SharedNetworkObj, sharednetwork_req) wapi \<Rightarrow> string \<Rightarrow>
    sharednetwork_req world \<Rightarrow> goerr option \<times> sharednetwork_req world" where
  "deleteIPv4SharedNetwork env ref w =
     (case delete_object env ref w of
        (Inl err, w1) \<Rightarrow> (Some err, w1)
      | (Inr _, w1) \<Rightarrow> (None, w1))"

section \<open>Identity resolution\<close>

definition resolveIPv4SharedNetworkIdentity ::
  "(SharedNetworkObj, sharednetwork_req) wapi \<Rightarrow> string \<Rightarrow> string \<Rightarrow>
      sharednetwork_req world \<Rightarrow> (goerr + SharedNetworkObj option \<times> Outcome) \<times> sharednetwork_req
      world" where
  "resolveIPv4SharedNetworkIdentity env ref uid w = Resolve env SharedNetworkObj_type ref uid w"

type_synonym IPv4SharedNetwork_observeResult = "(SharedNetworkObj, observedIPv4SharedNetwork) observeResult"

definition IPv4SharedNetwork_notFoundResult :: IPv4SharedNetwork_observeResult where
  "IPv4SharedNetwork_notFoundResult =
     \<lparr>ores_exists = False, ores_rec = emptySharedNetworkObj, ores_obs = observeFromIPv4SharedNetwork []
         emptySharedNetworkObj,
      ores_lateInit = False, ores_refreshedRef = [], ores_adopted = False\<rparr>"

definition observeIPv4SharedNetwork ::
  "(SharedNetworkObj, sharednetwork_req) wapi \<Rightarrow> string \<Rightarrow> string \<Rightarrow> string
      \<Rightarrow> string \<Rightarrow> sharednetwork_late \<Rightarrow> sharednetwork_req world \<Rightarrow>
     (goerr + IPv4SharedNetwork_observeResult) \<times> sharednetwork_late \<times> sharednetwork_req world" where
  "observeIPv4SharedNetwork env endpoint crName externalName uid p w =
     (let ref = observeRefFor crName externalName in
      case resolveIPv4SharedNetworkIdentity env ref uid w of
        (Inl err, w1) \<Rightarrow>
          if IsSearchFailure err then
            (case ensureIdentityPrerequisite env endpoint w1 of
               (Some prereqErr, w2) \<Rightarrow> (Inl prereqErr, p, w2)
             | (None, w2) \<Rightarrow> (Inl err, p, w2))
          else (Inl err, p, w1)
      | (Inr (obj, outcome), w1) \<Rightarrow>
          if outcome = OutcomeNotFound then (Inr IPv4SharedNetwork_notFoundResult, p, w1)
          else
            (case obj of
               None \<Rightarrow> (Inl (TextError nilDereference), p, w1)
             | Some rec \<Rightarrow>
                 (case IPv4SharedNetwork_lateInitialize p rec of (p1, changed) \<Rightarrow>
                    (let found = (outcome = OutcomeRotated \<or> outcome = OutcomeFoundByUID)
                     in (Inr \<lparr>ores_exists = True, ores_rec = rec,
                              ores_obs = observeFromIPv4SharedNetwork (snr_Ref rec) rec,
                              ores_lateInit = (if found then True else changed),
                              ores_refreshedRef = (if found then snr_Ref rec else []),
                              ores_adopted = (outcome = OutcomeAdopted)\<rparr>, p1, w1)))))"

definition deleteIPv4SharedNetworkIdentity ::
  "(SharedNetworkObj, sharednetwork_req) wapi \<Rightarrow> string \<Rightarrow> string \<Rightarrow> string
      \<Rightarrow> sharednetwork_req world \<Rightarrow> goerr option \<times> sharednetwork_req world" where
  "deleteIPv4SharedNetworkIdentity env endpoint ref uid w =
     (case resolveIPv4SharedNetworkIdentity env ref uid w of
        (Inl err, w1) \<Rightarrow>
          if IsSearchFailure err then
            (case ensureIdentityPrerequisite env endpoint w1 of
               (Some prereqErr, w2) \<Rightarrow> (Some prereqErr, w2)
             | (None, w2) \<Rightarrow> (Some (Wrapped errDeleteIPv4SharedNet err), w2))
          else (Some (Wrapped errDeleteIPv4SharedNet err), w1)
      | (Inr (obj, outcome), w1) \<Rightarrow>
          (case outcome of
             OutcomeNotFound \<Rightarrow> (None, w1)
           | OutcomeAdopted \<Rightarrow> (Some (TextError errDeleteUnverifiedOwnership), w1)
           | _ \<Rightarrow>
               (case obj of
                  None \<Rightarrow> (Some (TextError nilDereference), w1)
                | Some rec \<Rightarrow>
                    (case deleteIPv4SharedNetwork env (snr_Ref rec) w1 of
                       (None, w2) \<Rightarrow> (None, w2)
                     | (Some delErr, w2) \<Rightarrow>
                         if isNotFound (Some delErr) then (None, w2)
                         else (Some (Wrapped errDeleteIPv4SharedNet delErr), w2)))))"

section \<open>The external clients\<close>

text \<open>The pointers to spec fields Observe hands over, and their write-back.\<close>

definition IPv4SharedNetwork_latePart :: "IPv4SharedNetworkParameters \<Rightarrow> sharednetwork_late" where
  "IPv4SharedNetwork_latePart p = (snp_NetworkView p, snp_Comment p, snp_Disable p, snp_UseOptions p, snp_ExtAttrs p)"

definition IPv4SharedNetwork_setLate :: "IPv4SharedNetworkParameters \<Rightarrow> sharednetwork_late \<Rightarrow>
    IPv4SharedNetworkParameters" where
  "IPv4SharedNetwork_setLate p l = (case l of (networkView, comment, disable, useOptions, extAttrs) \<Rightarrow>
     p\<lparr>snp_NetworkView := networkView, snp_Comment := comment, snp_Disable := disable, snp_UseOptions :=
         useOptions, snp_ExtAttrs := extAttrs\<rparr>)"

subsection \<open>namespaced.go\<close>

definition optionsFromNamespaced :: "crdDhcpOption option list \<Rightarrow> dhcpOption list" where
  "optionsFromNamespaced opts =
     (if opts = [] then []
      else List.map_filter (map_option (\<lambda>o1. \<lparr>po_Name = co_Name o1, po_Num = co_Num o1,
             po_VendorClass = co_VendorClass o1, po_Value = co_Value o1, po_UseOption = co_UseOption o1\<rparr>))
                 opts)"

definition optionsToNamespaced :: "dhcpOption list \<Rightarrow> crdDhcpOption option list" where
  "optionsToNamespaced opts =
     (if opts = [] then []
      else map (\<lambda>o1. Some \<lparr>co_Name = po_Name o1, co_Num = po_Num o1,
             co_VendorClass = po_VendorClass o1, co_Value = po_Value o1, co_UseOption = po_UseOption o1\<rparr>) opts)"

definition namespaced_IPv4SharedNetwork_Observe ::
  "(SharedNetworkObj, sharednetwork_req) wapi \<Rightarrow> string \<Rightarrow> IPv4SharedNetworkCR \<Rightarrow>
      sharednetwork_req world \<Rightarrow> (goerr + ExternalObservation) \<times> IPv4SharedNetworkCR \<times>
      sharednetwork_req world" where
  "namespaced_IPv4SharedNetwork_Observe env endpoint cr w =
     (case observeIPv4SharedNetwork env endpoint (mo_name cr) (GetExternalName cr) (mo_uid cr)
             (IPv4SharedNetwork_latePart (sn_ForProvider cr)) w of
        (Inl err, l, w1) \<Rightarrow>
          (let cr1 = cr\<lparr>sn_ForProvider := IPv4SharedNetwork_setLate (sn_ForProvider cr) l\<rparr> in
           if errors_as is_PrerequisiteError err then (Inl err, cr1, w1)
           else (Inl (Wrapped errObserveIPv4SharedNet err), cr1, w1))
      | (Inr res, l, w1) \<Rightarrow>
          (let p = IPv4SharedNetwork_setLate (sn_ForProvider cr) l;
               cr1 = cr\<lparr>sn_ForProvider := p\<rparr> in
           if \<not> ores_exists res then (Inr notExists, cr1, w1)
           else
             (let rec = ores_rec res; o1 = ores_obs res;
                  cr2 = cr1\<lparr>sn_AtProvider :=
                    \<lparr>sns_ID = sno_ID o1, sns_Name = sno_Name o1, sns_Networks = sno_Networks o1,
                     sns_NetworkView = sno_NetworkView o1, sns_Comment = sno_Comment o1,
                     sns_ExtAttrs = sno_ExtAttrs o1, sns_Disable = sno_Disable o1, sns_UseOptions =
                     sno_UseOptions o1, sns_Options = optionsToNamespaced (sno_Options o1), sns_Ref = sno_Ref
                     o1, sns_Authority = sno_Authority o1, sns_DdnsTTL = sno_DdnsTTL o1,
                     sns_EnableDdns = sno_EnableDdns o1, sns_DhcpUtilization = sno_DhcpUtilization
                     o1, sns_DhcpUtilizationStatus = sno_DhcpUtilizationStatus o1, sns_DynamicHosts
                     = sno_DynamicHosts o1\<rparr>\<rparr>;
                  (p1, lateInit) = (if snp_Options p = [] \<and> sno_Options o1 \<noteq> [] \<and> boolOrFalse (snp_UseOptions p)
                    then (p\<lparr>snp_Options := optionsToNamespaced (sno_Options o1)\<rparr>, True) else (p,
                        ores_lateInit res));
                  cr3 = cr2\<lparr>sn_ForProvider := p1\<rparr>;
                  cr4 = (if ores_refreshedRef res \<noteq> [] then SetExternalName (ores_refreshedRef res) cr3 else cr3);
                  cr5 = SetAvailable cr4;
                  upToDate = (IPv4SharedNetwork_isUpToDate (snp_Name p1) (snp_Networks p1) (snp_Comment p1) (snp_ExtAttrs p1)
                                (snp_Disable p1) (snp_UseOptions p1) (optionsFromNamespaced (snp_Options p1)) rec
                                \<and> \<not> ores_adopted res)
              in (Inr \<lparr>ResourceExists = True, ResourceUpToDate = upToDate,
                       ResourceLateInitialized = lateInit\<rparr>, cr5, w1))))"

definition namespaced_IPv4SharedNetwork_Create ::
  "(SharedNetworkObj, sharednetwork_req) wapi \<Rightarrow> string \<Rightarrow> IPv4SharedNetworkCR \<Rightarrow>
      sharednetwork_req world \<Rightarrow> goerr option \<times> IPv4SharedNetworkCR \<times> sharednetwork_req world"
      where
  "namespaced_IPv4SharedNetwork_Create env endpoint cr w =
     (let p = sn_ForProvider cr; uid = mo_uid cr in
      if trim_space uid = [] then (Some (TextError IPv4SharedNetwork_errEmptyUID), cr, w)
      else
          (case ensureIdentityPrerequisite env endpoint w of
             (Some err, w1) \<Rightarrow> (Some err, cr, w1)
           | (None, w1) \<Rightarrow>
               (case createIPv4SharedNetwork env p (optionsFromNamespaced (snp_Options p)) uid w1 of
                  (Inl err, w2) \<Rightarrow> (Some (Wrapped errCreateIPv4SharedNet err), cr, w2)
                | (Inr rec, w2) \<Rightarrow> (None, SetExternalName (snr_Ref rec) cr, w2))))"

definition namespaced_IPv4SharedNetwork_Update ::
  "(SharedNetworkObj, sharednetwork_req) wapi \<Rightarrow> string \<Rightarrow> IPv4SharedNetworkCR \<Rightarrow>
      sharednetwork_req world \<Rightarrow> goerr option \<times> IPv4SharedNetworkCR \<times> sharednetwork_req world"
      where
  "namespaced_IPv4SharedNetwork_Update env endpoint cr w =
     (let p = sn_ForProvider cr; externalID = GetExternalName cr in
      case ensureIdentityPrerequisite env endpoint w of
        (Some err, w1) \<Rightarrow> (Some err, cr, w1)
      | (None, w1) \<Rightarrow>
          (case updateIPv4SharedNetwork env externalID p (optionsFromNamespaced (snp_Options p)) (mo_uid cr) w1 of
             (Inl err, w2) \<Rightarrow> (Some (Wrapped errUpdateIPv4SharedNet err), cr, w2)
           | (Inr rec, w2) \<Rightarrow>
               if snr_Ref rec \<noteq> [] \<and> snr_Ref rec \<noteq> externalID then
                 (case Refresh env cr (snr_Ref rec) w2 of
                    (Some err, cr1, w3) \<Rightarrow> (Some (Wrapped errPersistExternalName err), cr1, w3)
                  | (None, cr1, w3) \<Rightarrow> (None, cr1, w3))
               else (None, cr, w2)))"

definition namespaced_IPv4SharedNetwork_Delete ::
  "(SharedNetworkObj, sharednetwork_req) wapi \<Rightarrow> string \<Rightarrow> IPv4SharedNetworkCR \<Rightarrow>
      sharednetwork_req world \<Rightarrow> goerr option \<times> sharednetwork_req world" where
  "namespaced_IPv4SharedNetwork_Delete env endpoint cr w =
     (let externalID = GetExternalName cr in
      case deleteIPv4SharedNetworkIdentity env endpoint externalID (mo_uid cr) w of
        (Some err, w1) \<Rightarrow> (Some err, w1)
      | (None, w1) \<Rightarrow> (None, w1))"

subsection \<open>cluster.go\<close>

definition optionsFromCluster :: "crdDhcpOption option list \<Rightarrow> dhcpOption list" where
  "optionsFromCluster opts =
     (if opts = [] then []
      else List.map_filter (map_option (\<lambda>o1. \<lparr>po_Name = co_Name o1, po_Num = co_Num o1,
             po_VendorClass = co_VendorClass o1, po_Value = co_Value o1, po_UseOption = co_UseOption o1\<rparr>))
                 opts)"

definition optionsToCluster :: "dhcpOption list \<Rightarrow> crdDhcpOption option list" where
  "optionsToCluster opts =
     (if opts = [] then []
      else map (\<lambda>o1. Some \<lparr>co_Name = po_Name o1, co_Num = po_Num o1,
             co_VendorClass = po_VendorClass o1, co_Value = po_Value o1, co_UseOption = po_UseOption o1\<rparr>) opts)"

definition cluster_IPv4SharedNetwork_Observe ::
  "(SharedNetworkObj, sharednetwork_req) wapi \<Rightarrow> string \<Rightarrow> IPv4SharedNetworkCR \<Rightarrow>
      sharednetwork_req world \<Rightarrow> (goerr + ExternalObservation) \<times> IPv4SharedNetworkCR \<times>
      sharednetwork_req world" where
  "cluster_IPv4SharedNetwork_Observe env endpoint cr w =
     (case observeIPv4SharedNetwork env endpoint (mo_name cr) (GetExternalName cr) (mo_uid cr)
             (IPv4SharedNetwork_latePart (sn_ForProvider cr)) w of
        (Inl err, l, w1) \<Rightarrow>
          (let cr1 = cr\<lparr>sn_ForProvider := IPv4SharedNetwork_setLate (sn_ForProvider cr) l\<rparr> in
           if errors_as is_PrerequisiteError err then (Inl err, cr1, w1)
           else (Inl (Wrapped errObserveIPv4SharedNet err), cr1, w1))
      | (Inr res, l, w1) \<Rightarrow>
          (let p = IPv4SharedNetwork_setLate (sn_ForProvider cr) l;
               cr1 = cr\<lparr>sn_ForProvider := p\<rparr> in
           if \<not> ores_exists res then (Inr notExists, cr1, w1)
           else
             (let rec = ores_rec res; o1 = ores_obs res;
                  cr2 = cr1\<lparr>sn_AtProvider :=
                    \<lparr>sns_ID = sno_ID o1, sns_Name = sno_Name o1, sns_Networks = sno_Networks o1,
                     sns_NetworkView = sno_NetworkView o1, sns_Comment = sno_Comment o1,
                     sns_ExtAttrs = sno_ExtAttrs o1, sns_Disable = sno_Disable o1, sns_UseOptions =
                     sno_UseOptions o1, sns_Options = optionsToCluster (sno_Options o1), sns_Ref = sno_Ref
                     o1, sns_Authority = sno_Authority o1, sns_DdnsTTL = sno_DdnsTTL o1,
                     sns_EnableDdns = sno_EnableDdns o1, sns_DhcpUtilization = sno_DhcpUtilization
                     o1, sns_DhcpUtilizationStatus = sno_DhcpUtilizationStatus o1, sns_DynamicHosts
                     = sno_DynamicHosts o1\<rparr>\<rparr>;
                  (p1, lateInit) = (if snp_Options p = [] \<and> sno_Options o1 \<noteq> [] \<and> boolOrFalse (snp_UseOptions p)
                    then (p\<lparr>snp_Options := optionsToCluster (sno_Options o1)\<rparr>, True) else (p,
                        ores_lateInit res));
                  cr3 = cr2\<lparr>sn_ForProvider := p1\<rparr>;
                  cr4 = (if ores_refreshedRef res \<noteq> [] then SetExternalName (ores_refreshedRef res) cr3 else cr3);
                  cr5 = SetAvailable cr4;
                  upToDate = (IPv4SharedNetwork_isUpToDate (snp_Name p1) (snp_Networks p1) (snp_Comment p1) (snp_ExtAttrs p1)
                                (snp_Disable p1) (snp_UseOptions p1) (optionsFromCluster (snp_Options p1)) rec
                                \<and> \<not> ores_adopted res)
              in (Inr \<lparr>ResourceExists = True, ResourceUpToDate = upToDate,
                       ResourceLateInitialized = lateInit\<rparr>, cr5, w1))))"

definition cluster_IPv4SharedNetwork_Create ::
  "(SharedNetworkObj, sharednetwork_req) wapi \<Rightarrow> string \<Rightarrow> IPv4SharedNetworkCR \<Rightarrow>
      sharednetwork_req world \<Rightarrow> goerr option \<times> IPv4SharedNetworkCR \<times> sharednetwork_req world"
      where
  "cluster_IPv4SharedNetwork_Create env endpoint cr w =
     (let p = sn_ForProvider cr; uid = mo_uid cr in
      if trim_space uid = [] then (Some (TextError IPv4SharedNetwork_errEmptyUID), cr, w)
      else
          (case ensureIdentityPrerequisite env endpoint w of
             (Some err, w1) \<Rightarrow> (Some err, cr, w1)
           | (None, w1) \<Rightarrow>
               (case createIPv4SharedNetwork env p (optionsFromCluster (snp_Options p)) uid w1 of
                  (Inl err, w2) \<Rightarrow> (Some (Wrapped errCreateIPv4SharedNet err), cr, w2)
                | (Inr rec, w2) \<Rightarrow> (None, SetExternalName (snr_Ref rec) cr, w2))))"

definition cluster_IPv4SharedNetwork_Update ::
  "(SharedNetworkObj, sharednetwork_req) wapi \<Rightarrow> string \<Rightarrow> IPv4SharedNetworkCR \<Rightarrow>
      sharednetwork_req world \<Rightarrow> goerr option \<times> IPv4SharedNetworkCR \<times> sharednetwork_req world"
      where
  "cluster_IPv4SharedNetwork_Update env endpoint cr w =
     (let p = sn_ForProvider cr; externalID = GetExternalName cr in
      case ensureIdentityPrerequisite env endpoint w of
        (Some err, w1) \<Rightarrow> (Some err, cr, w1)
      | (None, w1) \<Rightarrow>
          (case updateIPv4SharedNetwork env externalID p (optionsFromCluster (snp_Options p)) (mo_uid cr) w1 of
             (Inl err, w2) \<Rightarrow> (Some (Wrapped errUpdateIPv4SharedNet err), cr, w2)
           | (Inr rec, w2) \<Rightarrow>
               if snr_Ref rec \<noteq> [] \<and> snr_Ref rec \<noteq> externalID then
                 (case Refresh env cr (snr_Ref rec) w2 of
                    (Some err, cr1, w3) \<Rightarrow> (Some (Wrapped errPersistExternalName err), cr1, w3)
                  | (None, cr1, w3) \<Rightarrow> (None, cr1, w3))
               else (None, cr, w2)))"

definition cluster_IPv4SharedNetwork_Delete ::
  "(SharedNetworkObj, sharednetwork_req) wapi \<Rightarrow> string \<Rightarrow> IPv4SharedNetworkCR \<Rightarrow>
      sharednetwork_req world \<Rightarrow> goerr option \<times> sharednetwork_req world" where
  "cluster_IPv4SharedNetwork_Delete env endpoint cr w =
     (let externalID = GetExternalName cr in
      case deleteIPv4SharedNetworkIdentity env endpoint externalID (mo_uid cr) w of
        (Some err, w1) \<Rightarrow> (Some err, w1)
      | (None, w1) \<Rightarrow> (None, w1))"

section \<open>The contract of the ladder client\<close>

text \<open>The requests of a spec, what a Grid object holds of a request, and the drift check of a resource.\<close>

definition sharednetwork_create_request :: "IPv4SharedNetworkParameters \<Rightarrow> string \<Rightarrow> sharednetwork_req" where
  "sharednetwork_create_request p uid = CreateIpv4SharedNetwork
     (strOrEmpty (snp_Name p)) (snp_Networks p) (strOrEmpty (snp_NetworkView p)) (Stamp (buildEA (snp_ExtAttrs p))
         uid) (strOrEmpty (snp_Comment p)) (boolOrFalse (snp_Disable p)) (boolOrFalse (snp_UseOptions p)) (optionsToSDK
         (optionsFromNamespaced (snp_Options p)))"

definition sharednetwork_update_request :: "string \<Rightarrow> IPv4SharedNetworkParameters \<Rightarrow> string
    \<Rightarrow> sharednetwork_req" where
  "sharednetwork_update_request ref p uid = UpdateIpv4SharedNetwork ref
     (strOrEmpty (snp_Name p)) (snp_Networks p) (strOrEmpty (snp_NetworkView p)) (strOrEmpty (snp_Comment p)) (Stamp
         (buildEA (snp_ExtAttrs p)) uid) (boolOrFalse (snp_Disable p)) (boolOrFalse (snp_UseOptions p)) (optionsToSDK
         (optionsFromNamespaced (snp_Options p)))"

fun sharednetwork_req_ea :: "sharednetwork_req \<Rightarrow> ea" where
  "sharednetwork_req_ea (CreateIpv4SharedNetwork name networks networkView ea comment disable useOptions options) = ea"
| "sharednetwork_req_ea (UpdateIpv4SharedNetwork ref name networks networkView comment ea disable useOptions options) = ea"

fun sharednetwork_holds :: "sharednetwork_req \<Rightarrow> SharedNetworkObj \<Rightarrow> bool" where
  "sharednetwork_holds (CreateIpv4SharedNetwork name networks networkView ea comment disable useOptions options) rec \<longleftrightarrow>
     strOrEmpty (snr_Name rec) = name \<and>
     mset (networksFromSDK (snr_Networks rec)) = mset networks \<and>
     strOrEmpty (snr_Comment rec) = comment \<and>
     snr_Ea rec = ea \<and>
     boolOrFalse (snr_Disable rec) = disable \<and>
     boolOrFalse (snr_UseOptions rec) = useOptions \<and>
     (useOptions \<longrightarrow> snr_Options rec = options)"
| "sharednetwork_holds (UpdateIpv4SharedNetwork ref name networks networkView comment ea disable useOptions options) rec \<longleftrightarrow>
     strOrEmpty (snr_Name rec) = name \<and>
     mset (networksFromSDK (snr_Networks rec)) = mset networks \<and>
     strOrEmpty (snr_Comment rec) = comment \<and>
     snr_Ea rec = ea \<and>
     boolOrFalse (snr_Disable rec) = disable \<and>
     boolOrFalse (snr_UseOptions rec) = useOptions \<and>
     (useOptions \<longrightarrow> snr_Options rec = options)"

definition IPv4SharedNetwork_utd :: "IPv4SharedNetworkCR \<Rightarrow> SharedNetworkObj \<Rightarrow> bool" where
  "IPv4SharedNetwork_utd cr rec = (let p = sn_ForProvider cr in
     IPv4SharedNetwork_isUpToDate (snp_Name p) (snp_Networks p) (snp_Comment p) (snp_ExtAttrs p)
                                (snp_Disable p) (snp_UseOptions p) (optionsFromNamespaced (snp_Options p)) rec)"

definition IPv4SharedNetwork_spec_ok :: "IPv4SharedNetworkCR \<Rightarrow> bool" where
  "IPv4SharedNetwork_spec_ok cr \<longleftrightarrow> (let p = sn_ForProvider cr in reserved_free (snp_ExtAttrs p))"

text \<open>What Observe makes of the spec, and that it keeps what the user set.\<close>

definition IPv4SharedNetwork_backfill :: "IPv4SharedNetworkParameters \<Rightarrow> SharedNetworkObj \<Rightarrow>
    IPv4SharedNetworkParameters \<times> bool" where
  "IPv4SharedNetwork_backfill p rec =
     (case IPv4SharedNetwork_lateInitialize (IPv4SharedNetwork_latePart p) rec of
        (l, c) \<Rightarrow>
          (let p1 = IPv4SharedNetwork_setLate p l in
           if snp_Options p1 = [] \<and> optionsFromSDK (snr_Options rec) \<noteq> [] \<and> boolOrFalse (snp_UseOptions p1)
           then (p1\<lparr>snp_Options := optionsToNamespaced (optionsFromSDK (snr_Options rec))\<rparr>, True) else
               (p1, c)))"

lemma options_conv [simp]:
  "optionsFromNamespaced (optionsToNamespaced ds) = ds" "optionsToNamespaced ds = [] \<longleftrightarrow> ds = []"
  "optionsToNamespaced [] = []"
  by (simp_all only: optionsFromNamespaced_def optionsToNamespaced_def conv_simps map_filter_Some)
    (auto simp: comp_def intro!: map_idI)

definition IPv4SharedNetwork_keeps :: "IPv4SharedNetworkParameters \<Rightarrow> IPv4SharedNetworkParameters \<Rightarrow> bool" where
  "IPv4SharedNetwork_keeps p p' \<longleftrightarrow>
     keeps_set (snp_NetworkView p) (snp_NetworkView p') \<and>
     keeps_set (snp_Comment p) (snp_Comment p') \<and>
     keeps_set (snp_Disable p) (snp_Disable p') \<and>
     keeps_set (snp_UseOptions p) (snp_UseOptions p') \<and>
     keeps_attrs (snp_ExtAttrs p) (snp_ExtAttrs p') \<and>
     (snp_Options p = [] \<or> snp_Options p' = snp_Options p)"

definition IPv4SharedNetwork_get :: "IPv4SharedNetworkCR \<Rightarrow> IPv4SharedNetworkParameters" where
  "IPv4SharedNetwork_get cr = sn_ForProvider cr"

definition IPv4SharedNetwork_put :: "IPv4SharedNetworkCR \<Rightarrow> IPv4SharedNetworkParameters \<Rightarrow>
    IPv4SharedNetworkCR" where
  "IPv4SharedNetwork_put cr p = cr\<lparr>sn_ForProvider := p\<rparr>"

definition IPv4SharedNetwork_status :: "SharedNetworkObj \<Rightarrow> IPv4SharedNetworkCR \<Rightarrow> IPv4SharedNetworkCR" where
  "IPv4SharedNetwork_status rec cr =
     (let o1 = observeFromIPv4SharedNetwork (snr_Ref rec) rec; p = sn_ForProvider cr in
      cr\<lparr>sn_AtProvider :=
        \<lparr>sns_ID = sno_ID o1, sns_Name = sno_Name o1, sns_Networks = sno_Networks o1, sns_NetworkView
        = sno_NetworkView o1, sns_Comment = sno_Comment o1, sns_ExtAttrs = sno_ExtAttrs o1,
        sns_Disable = sno_Disable o1, sns_UseOptions = sno_UseOptions o1, sns_Options = optionsToNamespaced
        (sno_Options o1), sns_Ref = sno_Ref o1, sns_Authority = sno_Authority o1, sns_DdnsTTL =
        sno_DdnsTTL o1, sns_EnableDdns = sno_EnableDdns o1, sns_DhcpUtilization =
        sno_DhcpUtilization o1, sns_DhcpUtilizationStatus = sno_DhcpUtilizationStatus o1,
        sns_DynamicHosts = sno_DynamicHosts o1\<rparr>\<rparr>)"

definition IPv4SharedNetwork_valid :: "IPv4SharedNetworkCR \<Rightarrow> goerr option" where
  "IPv4SharedNetwork_valid cr = (let p = sn_ForProvider cr; uid = mo_uid cr in if trim_space uid = [] then Some (TextError IPv4SharedNetwork_errEmptyUID) else None)"

lemma IPv4SharedNetwork_lateInitialize_eq:
  "IPv4SharedNetwork_lateInitialize (networkView, comment, disable, useOptions, extAttrs) rec =
     (let networkView1 = fill networkView (ptrIfNonEmpty (snr_NetworkView rec));
          comment1 = fill comment (ptrIfSet (snr_Comment rec));
          disable1 = fill disable (snr_Disable rec);
          useOptions1 = fill useOptions (snr_UseOptions rec);
          extAttrs1 = fill_map extAttrs (userAttrs (snr_Ea rec))
      in ((networkView1, comment1, disable1, useOptions1, extAttrs1), (networkView1, comment1, disable1, useOptions1,
          extAttrs1) \<noteq> (networkView, comment, disable, useOptions, extAttrs)))"
  by (simp only: IPv4SharedNetwork_lateInitialize_def userAttrs_def [symmetric] Let_def case_prod_conv fill_steps
      prod.inject fill_changed ptrIfSet_set simp_thms de_Morgan_conj disj_ac)

lemma IPv4SharedNetwork_setLate_latePart [simp]: "IPv4SharedNetwork_setLate p (IPv4SharedNetwork_latePart p) = p"
  by (simp add: IPv4SharedNetwork_setLate_def IPv4SharedNetwork_latePart_def)

lemma IPv4SharedNetwork_CR_commute: "cr\<lparr>sn_AtProvider := a, sn_ForProvider := p\<rparr> =
    cr\<lparr>sn_ForProvider := p, sn_AtProvider := a\<rparr>"
  by simp

lemma IPv4SharedNetwork_lateInitialize_flag: "snd (IPv4SharedNetwork_lateInitialize l rec) \<longleftrightarrow> fst (IPv4SharedNetwork_lateInitialize l rec) \<noteq> l"
  by (cases l) (simp add: IPv4SharedNetwork_lateInitialize_eq Let_def)

lemma IPv4SharedNetwork_backfill_eq:
  "IPv4SharedNetwork_backfill p rec =
     (let networkView1 = fill (snp_NetworkView p) (ptrIfNonEmpty (snr_NetworkView rec));
          comment1 = fill (snp_Comment p) (ptrIfSet (snr_Comment rec));
          disable1 = fill (snp_Disable p) (snr_Disable rec);
          useOptions1 = fill (snp_UseOptions p) (snr_UseOptions rec);
          extAttrs1 = fill_map (snp_ExtAttrs p) (userAttrs (snr_Ea rec));
          options1 = (if boolOrFalse useOptions1 then fill_list (snp_Options p) (optionsToNamespaced (optionsFromSDK
              (snr_Options rec)))
                      else snp_Options p);
          p' = p\<lparr>snp_NetworkView := networkView1, snp_Comment := comment1, snp_Disable := disable1,
                 snp_UseOptions := useOptions1, snp_ExtAttrs := extAttrs1, snp_Options := options1\<rparr>
      in (p', p' \<noteq> p))"
  by (cases p)
    (auto simp: IPv4SharedNetwork_backfill_def IPv4SharedNetwork_latePart_def IPv4SharedNetwork_setLate_def
      IPv4SharedNetwork_lateInitialize_eq Let_def fill_list_def)

interpretation sharednetwork_late: late_lens IPv4SharedNetwork_backfill IPv4SharedNetwork_keeps IPv4SharedNetwork_get IPv4SharedNetwork_put IPv4SharedNetwork_utd
proof
  fix l l' :: IPv4SharedNetworkParameters and rec :: SharedNetworkObj and cr :: IPv4SharedNetworkCR
  show "IPv4SharedNetwork_backfill (fst (IPv4SharedNetwork_backfill l rec)) rec = (fst (IPv4SharedNetwork_backfill l
      rec), False)"
    by (simp add: IPv4SharedNetwork_backfill_eq Let_def fill_list_def)
  show "snd (IPv4SharedNetwork_backfill l rec) \<longleftrightarrow> fst (IPv4SharedNetwork_backfill l rec) \<noteq> l"
    by (simp add: IPv4SharedNetwork_backfill_eq Let_def)
  show "IPv4SharedNetwork_keeps l (fst (IPv4SharedNetwork_backfill l rec))"
    by (simp add: IPv4SharedNetwork_backfill_eq Let_def IPv4SharedNetwork_keeps_def fill_list_def)
  show "IPv4SharedNetwork_get (IPv4SharedNetwork_put cr l) = l" "IPv4SharedNetwork_put cr (IPv4SharedNetwork_get cr) = cr" "IPv4SharedNetwork_put (IPv4SharedNetwork_put cr l) l' = IPv4SharedNetwork_put cr l'"
    by (simp_all add: IPv4SharedNetwork_get_def IPv4SharedNetwork_put_def)
  show "IPv4SharedNetwork_utd (IPv4SharedNetwork_put cr (fst (IPv4SharedNetwork_backfill (IPv4SharedNetwork_get cr) rec))) rec" if "IPv4SharedNetwork_utd cr rec"
    using that
    by (auto simp: IPv4SharedNetwork_get_def IPv4SharedNetwork_put_def IPv4SharedNetwork_backfill_eq Let_def
        IPv4SharedNetwork_utd_def IPv4SharedNetwork_isUpToDate_def extAttrsEqual_iff fill_list_def simp flip: userAttrs_def split: if_splits)
qed

lemma SharedNetworkObj_type_simps [simp]:
  "ot_name SharedNetworkObj_type = ''sharednetwork''" "ref_ea_shape SharedNetworkObj_type"
  "stamped SharedNetworkObj_type rec = eaValue (snr_Ea rec) EAKey"
  by (simp_all add: ref_ea_shape_def stamped_def SharedNetworkObj_type_def reflectSharedNetworkObj_def getRef_def getEA_def)

lemma deleteIPv4SharedNetwork_issue: "deleteIPv4SharedNetwork env = issue_delete env"
  by (intro ext) (simp only: deleteIPv4SharedNetwork_def issue_delete_def)

lemma createIPv4SharedNetwork_valid:
  assumes "IPv4SharedNetwork_valid cr = None"
  shows "createIPv4SharedNetwork env (sn_ForProvider cr) (optionsFromNamespaced (snp_Options (sn_ForProvider cr)))
      (mo_uid cr) w = mutate_object env (sharednetwork_create_request (sn_ForProvider cr) (mo_uid cr)) w"
  using assms
  by (auto simp: createIPv4SharedNetwork_def sharednetwork_create_request_def IPv4SharedNetwork_valid_def Let_def split: if_splits option.splits)


lemma IPv4SharedNetwork_Observe_shape:
  "namespaced_IPv4SharedNetwork_Observe env ep cr w =
     ladder_observe_shape (ladder_observe_error errObserveIPv4SharedNet) (Resolve env SharedNetworkObj_type)
         (ensureIdentityPrerequisite env ep)
       (\<lambda>r. r \<noteq> []) (\<lambda>r. True) (lift_late IPv4SharedNetwork_backfill IPv4SharedNetwork_get
           IPv4SharedNetwork_put) IPv4SharedNetwork_status IPv4SharedNetwork_utd snr_Ref cr w"
proof -
  have same: "cr\<lparr>sn_ForProvider := IPv4SharedNetwork_setLate (sn_ForProvider cr) (IPv4SharedNetwork_latePart
      (sn_ForProvider cr))\<rparr> = cr"
    by (simp add: IPv4SharedNetwork_latePart_def IPv4SharedNetwork_setLate_def)
  obtain r w1 where r: "Resolve env SharedNetworkObj_type (observeRefFor (mo_name cr) (GetExternalName cr)) (mo_uid
      cr) w = (r, w1)"
    by (cases "Resolve env SharedNetworkObj_type (observeRefFor (mo_name cr) (GetExternalName cr)) (mo_uid cr) w")
  obtain e w2 where e: "ensureIdentityPrerequisite env ep w1 = (e, w2)"
    by (cases "ensureIdentityPrerequisite env ep w1")
  note defs = namespaced_IPv4SharedNetwork_Observe_def observeIPv4SharedNetwork_def resolveIPv4SharedNetworkIdentity_def ladder_observe_shape_def ladder_observe_error_def
  show ?thesis
  proof (cases r)
    case (Inl err)
    then show ?thesis
      by (cases e) (simp_all add: defs Let_def r e same)
  next
    case (Inr a)
    obtain obj out where a: "a = (obj, out)" by (cases a)
    show ?thesis
    proof (cases obj)
      case None
      then show ?thesis
        by (simp add: defs Let_def r Inr a same IPv4SharedNetwork_notFoundResult_def)
    next
      case (Some rec)
      obtain l c where lc: "IPv4SharedNetwork_lateInitialize (IPv4SharedNetwork_latePart (sn_ForProvider cr)) rec =
          (l, c)"
        by (cases "IPv4SharedNetwork_lateInitialize (IPv4SharedNetwork_latePart (sn_ForProvider cr)) rec")
      have nc: "\<not> c \<Longrightarrow> l = IPv4SharedNetwork_latePart (sn_ForProvider cr)"
        using IPv4SharedNetwork_lateInitialize_flag [of "IPv4SharedNetwork_latePart (sn_ForProvider cr)" rec] lc by simp
      show ?thesis
        using nc same
        by (cases c) (simp_all add: defs Let_def r Inr a Some lc lift_late_def IPv4SharedNetwork_get_def
            IPv4SharedNetwork_put_def
            IPv4SharedNetwork_status_def IPv4SharedNetwork_utd_def IPv4SharedNetwork_notFoundResult_def observeFromIPv4SharedNetwork_def IPv4SharedNetwork_backfill_def IPv4SharedNetwork_CR_commute )
    qed
  qed
qed

lemma IPv4SharedNetwork_Create_shape:
  "namespaced_IPv4SharedNetwork_Create env ep cr w =
     ladder_create_shape errCreateIPv4SharedNet IPv4SharedNetwork_valid (ensureIdentityPrerequisite env ep)
         (mutate_object env)
       (\<lambda>cr. sharednetwork_create_request (sn_ForProvider cr) (mo_uid cr)) snr_Ref cr w"
proof -
  obtain e w1 where e: "ensureIdentityPrerequisite env ep w = (e, w1)"
    by (cases "ensureIdentityPrerequisite env ep w")
  have v: "(let p = sn_ForProvider cr; uid = mo_uid cr in if trim_space uid = [] then Some (TextError IPv4SharedNetwork_errEmptyUID) else None) = IPv4SharedNetwork_valid cr"
    by (simp only: IPv4SharedNetwork_valid_def)
  show ?thesis
  proof (cases "IPv4SharedNetwork_valid cr")
    case None
    then show ?thesis
      using createIPv4SharedNetwork_valid [OF None, of env w1] v
      by (cases e) (simp_all add: namespaced_IPv4SharedNetwork_Create_def ladder_create_shape_def Let_def e split: if_splits)
  next
    case (Some err)
    then show ?thesis
      using v by (simp add: namespaced_IPv4SharedNetwork_Create_def ladder_create_shape_def Let_def split: if_splits)
  qed
qed

lemma IPv4SharedNetwork_Update_shape:
  "namespaced_IPv4SharedNetwork_Update env ep cr w =
     ladder_update_shape errUpdateIPv4SharedNet IPv4SharedNetwork_errEmptyUID env (ensureIdentityPrerequisite env ep)
       (\<lambda>cr. sharednetwork_update_request (GetExternalName cr) (sn_ForProvider cr) (mo_uid cr)) snr_Ref cr w"
proof -
  obtain e w1 where e: "ensureIdentityPrerequisite env ep w = (e, w1)"
    by (cases "ensureIdentityPrerequisite env ep w")
  show ?thesis
    by (cases e; cases "wapi_mutate env (calls w1) (sharednetwork_update_request (GetExternalName cr) (sn_ForProvider
        cr) (mo_uid cr))")
      (auto simp: namespaced_IPv4SharedNetwork_Update_def ladder_update_shape_def updateIPv4SharedNetwork_def sharednetwork_update_request_def
        Let_def e mutate_object_def)
qed

lemma IPv4SharedNetwork_Delete_shape:
  "namespaced_IPv4SharedNetwork_Delete env ep cr w =
     ladder_delete_shape errDeleteIPv4SharedNet errDeleteUnverifiedOwnership nilDereference
       (Resolve env SharedNetworkObj_type (GetExternalName cr) (mo_uid cr)) (ensureIdentityPrerequisite env ep)
       (issue_delete env) snr_Ref w"
proof -
  have "namespaced_IPv4SharedNetwork_Delete env ep cr w = deleteIPv4SharedNetworkIdentity env ep (GetExternalName cr)
      (mo_uid cr) w"
    by (simp add: namespaced_IPv4SharedNetwork_Delete_def Let_def split: prod.split option.split)
  then show ?thesis
    by (simp only: deleteIPv4SharedNetworkIdentity_def ladder_delete_shape_def resolveIPv4SharedNetworkIdentity_def deleteIPv4SharedNetwork_issue)
qed

lemma IPv4SharedNetwork_optionsFrom_scopes: "optionsFromCluster = optionsFromNamespaced"
  by (intro ext) (simp only: optionsFromCluster_def optionsFromNamespaced_def)

lemma IPv4SharedNetwork_optionsTo_scopes: "optionsToCluster = optionsToNamespaced"
  by (intro ext) (simp only: optionsToCluster_def optionsToNamespaced_def IPv4SharedNetwork_optionsFrom_scopes)

lemma IPv4SharedNetwork_scopes:
  "cluster_IPv4SharedNetwork_Observe = namespaced_IPv4SharedNetwork_Observe" "cluster_IPv4SharedNetwork_Create = namespaced_IPv4SharedNetwork_Create"
  "cluster_IPv4SharedNetwork_Update = namespaced_IPv4SharedNetwork_Update" "cluster_IPv4SharedNetwork_Delete = namespaced_IPv4SharedNetwork_Delete"
  by (intro ext, simp only: cluster_IPv4SharedNetwork_Observe_def namespaced_IPv4SharedNetwork_Observe_def
      cluster_IPv4SharedNetwork_Create_def
      namespaced_IPv4SharedNetwork_Create_def cluster_IPv4SharedNetwork_Update_def namespaced_IPv4SharedNetwork_Update_def
      cluster_IPv4SharedNetwork_Delete_def namespaced_IPv4SharedNetwork_Delete_def IPv4SharedNetwork_optionsFrom_scopes IPv4SharedNetwork_optionsTo_scopes)+

lemma sharednetwork_written_utd:
  assumes "IPv4SharedNetwork_spec_ok cr"
    and "sharednetwork_holds (sharednetwork_create_request (sn_ForProvider cr) (mo_uid cr)) rec \<and>
        IPv4SharedNetwork_valid cr = None \<or>
      sharednetwork_holds (sharednetwork_update_request (GetExternalName cr) (sn_ForProvider cr) (mo_uid cr)) rec"
  shows "IPv4SharedNetwork_utd (fst (lift_late IPv4SharedNetwork_backfill IPv4SharedNetwork_get IPv4SharedNetwork_put cr rec)) rec \<and>
    eaValue (snr_Ea rec) EAKey = Some (mo_uid cr)"
proof -
  let ?p = "sn_ForProvider cr"
  note reqs = sharednetwork_create_request_def sharednetwork_update_request_def
  have ok: "reserved_free (snp_ExtAttrs ?p)"
    using assms(1) by (simp add: IPv4SharedNetwork_spec_ok_def Let_def)
  have ea: "snr_Ea rec = Stamp (buildEA (snp_ExtAttrs ?p)) (mo_uid cr)"
    using assms(2) by (elim disjE) (simp_all add: reqs)
  have fields: "strOrEmpty (snp_Name ?p) = strOrEmpty (snr_Name rec)"
    "mset (snp_Networks ?p) = mset (networksFromSDK (snr_Networks rec))"
    "strOrEmpty (snp_Comment ?p) = strOrEmpty (snr_Comment rec)"
    "boolOrFalse (snp_Disable ?p) = boolOrFalse (snr_Disable rec)"
    "boolOrFalse (snp_UseOptions ?p) = boolOrFalse (snr_UseOptions rec)"
    using assms(2) by (elim disjE; simp add: reqs)+
  have options: "boolOrFalse (snr_UseOptions rec) \<Longrightarrow> snr_Options rec = optionsToSDK (optionsFromNamespaced (snp_Options ?p))"
    using assms(2) by (elim disjE; simp add: reqs)
  have "userAttrs (snr_Ea rec) = snp_ExtAttrs ?p"
    using ok by (simp add: ea userAttrs_buildEA reserved_free_fmdrop)
  with fields options have "IPv4SharedNetwork_utd cr rec"
    by (simp add: IPv4SharedNetwork_utd_def IPv4SharedNetwork_isUpToDate_def Let_def extAttrsEqual_iff
        stringSliceEqualUnordered_iff flip: userAttrs_def)
  with ea show ?thesis using sharednetwork_late.late_utd by simp
qed

interpretation sharednetwork: refreshing_client "lift_late IPv4SharedNetwork_backfill IPv4SharedNetwork_get IPv4SharedNetwork_put" IPv4SharedNetwork_utd
  "\<lambda>s s'. IPv4SharedNetwork_keeps (IPv4SharedNetwork_get s) (IPv4SharedNetwork_get s')"
  SharedNetworkObj_type snr_Ref IPv4SharedNetwork_status IPv4SharedNetwork_valid
  "\<lambda>cr. sharednetwork_create_request (sn_ForProvider cr) (mo_uid cr)"
  "\<lambda>cr. sharednetwork_update_request (GetExternalName cr) (sn_ForProvider cr) (mo_uid cr)"
  sharednetwork_req_ea sharednetwork_holds IPv4SharedNetwork_spec_ok
  "ladder_observe_error errObserveIPv4SharedNet" "\<lambda>r. r \<noteq> []" "\<lambda>r. True" snr_Ref errCreateIPv4SharedNet errUpdateIPv4SharedNet errDeleteIPv4SharedNet IPv4SharedNetwork_errEmptyUID
  namespaced_IPv4SharedNetwork_Observe namespaced_IPv4SharedNetwork_Create namespaced_IPv4SharedNetwork_Update namespaced_IPv4SharedNetwork_Delete
proof (unfold_locales, goal_cases)
  case (6 cr)
  then show ?case by (auto simp: IPv4SharedNetwork_valid_def Let_def split: if_splits)
next
  case (13 n cr rec)
  have "IPv4SharedNetwork_get (SetExternalName n cr) = IPv4SharedNetwork_get cr"
    "IPv4SharedNetwork_put (SetExternalName n cr) l = SetExternalName n (IPv4SharedNetwork_put cr l)" for l
    by (simp_all add: IPv4SharedNetwork_get_def IPv4SharedNetwork_put_def SetExternalName_def)
  then show ?case
    by (simp add: sharednetwork_late.lifted_simps IPv4SharedNetwork_utd_def SetExternalName_def)
next
  case (14 cr rec)
  then show ?case using sharednetwork_written_utd [of cr rec] by simp
next
  case (15 cr rec)
  then show ?case using sharednetwork_written_utd [of cr rec] by simp
qed (simp_all add: IPv4SharedNetwork_Observe_shape IPv4SharedNetwork_Create_shape IPv4SharedNetwork_Update_shape IPv4SharedNetwork_Delete_shape
    sharednetwork_late.lifted_simps IPv4SharedNetwork_put_def IPv4SharedNetwork_status_def Let_def
    sharednetwork_create_request_def sharednetwork_update_request_def)

end
