(* ===== verification/RangeTemplate.thy ===== *)
theory RangeTemplate
  imports DhcpOptions
begin

text \<open>
  internal/controller/rangetemplate: the RangeTemplate controller, a client of the identity ladder. Late
  initialisation happens in the handlers, on local copies of the options and the member. ibclient.Rangetemplate
  is the record RangetemplateObj here.
\<close>

section \<open>Data\<close>

text \<open>ibclient.Dhcpmember, the package's templateMember and the CRD's member.\<close>

record TemplateDhcpmember =
  tdm_Ipv4Addr :: string
  tdm_Ipv6Addr :: string
  tdm_Name :: string

record templateMember =
  tm_Ipv4Addr :: "string option"
  tm_Ipv6Addr :: "string option"
  tm_Name :: "string option"

record RangeTemplateMember =
  ctm_Ipv4Addr :: "string option"
  ctm_Ipv6Addr :: "string option"
  ctm_Name :: "string option"

definition buildDhcpOptions :: "dhcpOption list \<Rightarrow> Dhcpoption option list" where
  "buildDhcpOptions opts =
     (if opts = [] then []
      else map (\<lambda>o1. Some \<lparr>opt_Name = strOrEmpty (po_Name o1), opt_Num = uint32OrZero (po_Num o1),
             opt_VendorClass = strOrEmpty (po_VendorClass o1), opt_Value = strOrEmpty (po_Value o1),
             opt_UseOption = boolOrFalse (po_UseOption o1)\<rparr>) opts)"

definition dhcpOptionsToCommon :: "Dhcpoption option list \<Rightarrow> dhcpOption list" where
  "dhcpOptionsToCommon opts =
     (if opts = [] then []
      else List.map_filter (map_option (\<lambda>o1. \<lparr>po_Name = Some (opt_Name o1), po_Num = Some (opt_Num o1),
             po_VendorClass = Some (opt_VendorClass o1), po_Value = Some (opt_Value o1),
             po_UseOption = Some (opt_UseOption o1)\<rparr>)) opts)"

definition buildDhcpMember :: "templateMember option \<Rightarrow> TemplateDhcpmember option" where
  "buildDhcpMember m =
     (case m of
        None \<Rightarrow> None
      | Some x \<Rightarrow> Some \<lparr>tdm_Ipv4Addr = strOrEmpty (tm_Ipv4Addr x), tdm_Ipv6Addr = strOrEmpty (tm_Ipv6Addr x),
                        tdm_Name = strOrEmpty (tm_Name x)\<rparr>)"

definition dhcpMemberToCommon :: "TemplateDhcpmember option \<Rightarrow> templateMember option" where
  "dhcpMemberToCommon m =
     (case m of
        None \<Rightarrow> None
      | Some x \<Rightarrow> Some \<lparr>tm_Ipv4Addr = Some (tdm_Ipv4Addr x), tm_Ipv6Addr = Some (tdm_Ipv6Addr x),
                        tm_Name = Some (tdm_Name x)\<rparr>)"

definition emptyTemplateMember :: templateMember where
  "emptyTemplateMember = \<lparr>tm_Ipv4Addr = None, tm_Ipv6Addr = None, tm_Name = None\<rparr>"

definition memberEqual :: "templateMember option \<Rightarrow> templateMember option \<Rightarrow> bool" where
  "memberEqual a b =
     (let av = (case a of None \<Rightarrow> emptyTemplateMember | Some m \<Rightarrow> m);
          bv = (case b of None \<Rightarrow> emptyTemplateMember | Some m \<Rightarrow> m)
      in strOrEmpty (tm_Ipv4Addr av) = strOrEmpty (tm_Ipv4Addr bv) \<and>
         strOrEmpty (tm_Ipv6Addr av) = strOrEmpty (tm_Ipv6Addr bv) \<and>
         strOrEmpty (tm_Name av) = strOrEmpty (tm_Name bv))"

lemma buildDhcpOptions_eq: "buildDhcpOptions = optionsToSDK"
  by (intro ext) (simp only: buildDhcpOptions_def optionsToSDK_def)

lemma common_roundtrip [simp]: "optionsEqual os (dhcpOptionsToCommon (optionsToSDK os))"
proof -
  have "optionsToSDK (dhcpOptionsToCommon xs) = xs" if "None \<notin> set xs" for xs
    unfolding optionsToSDK_def dhcpOptionsToCommon_def conv_simps map_filter_the [OF that]
    using map_the_idI [OF that, of "\<lambda>m. Some \<lparr>opt_Name = opt_Name m, opt_Num = opt_Num m,
      opt_VendorClass = opt_VendorClass m, opt_Value = opt_Value m, opt_UseOption = opt_UseOption m\<rparr>"]
    by (simp add: comp_def)
  then show ?thesis by (simp add: optionsEqual_iff optionsToSDK_no_nil)
qed

lemma member_roundtrip [simp]: "memberEqual m (dhcpMemberToCommon (buildDhcpMember m))" "memberEqual m m"
  by (simp_all add: memberEqual_def dhcpMemberToCommon_def buildDhcpMember_def split: option.split)

definition wapiCloudAPICompatible :: bool where "wapiCloudAPICompatible = True"

text \<open>ibclient.Rangetemplate, as the provider requests it.\<close>

record RangetemplateObj =
  rtr_Ref :: string
  rtr_Name :: "string option"
  rtr_NumberOfAddresses :: "32 word option"
  rtr_Offset :: "32 word option"
  rtr_Comment :: "string option"
  rtr_Ea :: ea
  rtr_Options :: "Dhcpoption option list"
  rtr_UseOptions :: "bool option"
  rtr_ServerAssociationType :: string
  rtr_FailoverAssociation :: "string option"
  rtr_Member :: "TemplateDhcpmember option"
  rtr_CloudApiCompatible :: "bool option"

definition emptyRangetemplateObj :: RangetemplateObj where
  "emptyRangetemplateObj = \<lparr>rtr_Ref = [], rtr_Name = None, rtr_NumberOfAddresses = None, rtr_Offset = None,
      rtr_Comment = None, rtr_Ea = fmempty, rtr_Options = [], rtr_UseOptions = None, rtr_ServerAssociationType = [],
      rtr_FailoverAssociation = None, rtr_Member = None, rtr_CloudApiCompatible = None\<rparr>"

definition reflectRangetemplateObj :: "RangetemplateObj \<Rightarrow> goany" where
  "reflectRangetemplateObj r = PtrTo ''*ibclient.Rangetemplate''
     [(''Ref'', FString (rtr_Ref r)),
      (''Name'', FOther),
      (''NumberOfAddresses'', FOther),
      (''Offset'', FOther),
      (''Comment'', FOther),
      (''Ea'', FEA (rtr_Ea r)),
      (''Options'', FOther),
      (''UseOptions'', FOther),
      (''ServerAssociationType'', FString (rtr_ServerAssociationType r)),
      (''FailoverAssociation'', FOther),
      (''Member'', FOther),
      (''CloudApiCompatible'', FOther)]"

definition RangetemplateObj_type :: "RangetemplateObj objtype" where
  "RangetemplateObj_type = \<lparr>ot_name = ''rangetemplate'', ot_empty = emptyRangetemplateObj, ot_reflect =
      reflectRangetemplateObj\<rparr>"

text \<open>The ObjectManager requests, with their arguments in call order.\<close>

datatype rangetemplate_req =
    CreateRangeTemplate string "32 word" "32 word" string ea "Dhcpoption option list" bool string string "TemplateDhcpmember option" bool string
      \<comment> \<open>name, numberOfAddresses, offset, comment, ea, options, useOptions, serverAssociationType, failoverAssociation, member, cloudApiCompatible, msServer\<close>
  | UpdateRangeTemplate string string "32 word" "32 word" string ea "Dhcpoption option list" bool string string "TemplateDhcpmember option" bool string
      \<comment> \<open>ref, name, numberOfAddresses, offset, comment, ea, options, useOptions, serverAssociationType, failoverAssociation, member, cloudApiCompatible, msServer\<close>

record RangeTemplateParameters =
  rtp_Name :: "string option"
  rtp_NumberOfAddresses :: "32 word option"
  rtp_Offset :: "32 word option"
  rtp_Comment :: "string option"
  rtp_ExtAttrs :: extattrs
  rtp_Options :: "crdDhcpOption option list"
  rtp_UseOptions :: "bool option"
  rtp_ServerAssociationType :: string
  rtp_FailoverAssociation :: "string option"
  rtp_Member :: "RangeTemplateMember option"
  rtp_CloudApiCompatible :: "bool option"
  rtp_MsServer :: "string option"

record RangeTemplateObservation =
  rts_ID :: string
  rts_Name :: "string option"
  rts_NumberOfAddresses :: "32 word option"
  rts_Offset :: "32 word option"
  rts_Comment :: "string option"
  rts_ExtAttrs :: extattrs
  rts_Options :: "crdDhcpOption option list"
  rts_UseOptions :: "bool option"
  rts_ServerAssociationType :: "string option"
  rts_FailoverAssociation :: "string option"
  rts_Member :: "RangeTemplateMember option"
  rts_CloudApiCompatible :: "bool option"
  rts_Ref :: "string option"

record RangeTemplateCR = mobj +
  rt_ForProvider :: RangeTemplateParameters
  rt_AtProvider :: RangeTemplateObservation

section \<open>Error messages\<close>

definition errObserveRangeTemplate :: string where "errObserveRangeTemplate = ''cannot observe RangeTemplate''"
definition errCreateRangeTemplate :: string where "errCreateRangeTemplate = ''cannot create RangeTemplate''"
definition errUpdateRangeTemplate :: string where "errUpdateRangeTemplate = ''cannot update RangeTemplate''"
definition errDeleteRangeTemplate :: string where "errDeleteRangeTemplate = ''cannot delete RangeTemplate''"
definition RangeTemplate_errEmptyUID :: string where
  "RangeTemplate_errEmptyUID = ''cannot stamp RangeTemplate identity: managed resource's metadata.uid is empty''"

section \<open>Field comparison and late initialisation\<close>

definition RangeTemplate_isUpToDate ::
  "string option \<Rightarrow> 32 word option \<Rightarrow> 32 word option \<Rightarrow> string option \<Rightarrow> extattrs \<Rightarrow> dhcpOption list \<Rightarrow> bool option \<Rightarrow>
     string \<Rightarrow> string option \<Rightarrow> templateMember option \<Rightarrow> RangetemplateObj \<Rightarrow> bool" where
  "RangeTemplate_isUpToDate name numberOfAddresses offset comment extAttrs options useOptions serverAssociationType
       failoverAssociation member rec =
     (if strOrEmpty name \<noteq> strOrEmpty (rtr_Name rec) then False
      else if uint32OrZero numberOfAddresses \<noteq> uint32PtrOrZero (rtr_NumberOfAddresses rec) then False
      else if uint32OrZero offset \<noteq> uint32PtrOrZero (rtr_Offset rec) then False
      else if strOrEmpty comment \<noteq> strOrEmpty (rtr_Comment rec) then False
      else if \<not> extAttrsEqual extAttrs (extAttrsFromEA (Strip (rtr_Ea rec))) then False
      else if boolOrFalse useOptions \<noteq> boolPtrOrFalse (rtr_UseOptions rec) then False
      else if boolOrFalse useOptions \<and> \<not> optionsEqual options (dhcpOptionsToCommon (rtr_Options rec)) then False
      else if serverAssociationType \<noteq> rtr_ServerAssociationType rec then False
      else if strOrEmpty failoverAssociation \<noteq> strOrEmpty (rtr_FailoverAssociation rec) then False
      else if \<not> memberEqual member (dhcpMemberToCommon (rtr_Member rec)) then False
      else boolPtrOrFalse (rtr_CloudApiCompatible rec))"

text \<open>The ForProvider fields lateInitialize takes pointers to.\<close>

type_synonym rangetemplate_late = "string option \<times> extattrs \<times> dhcpOption list \<times> bool option \<times> string \<times> string option \<times> templateMember option \<times> bool option"

text \<open>The helpers of lateInitialize.\<close>

definition lateInitComment :: "string option \<Rightarrow> RangetemplateObj \<Rightarrow> string option \<times> bool" where
  "lateInitComment comment rec =
     (if comment \<noteq> None \<or> rtr_Comment rec = None \<or> rtr_Comment rec = Some [] then (comment, False)
      else (rtr_Comment rec, True))"

definition RangeTemplate_lateInitExtAttrs :: "extattrs \<Rightarrow> RangetemplateObj \<Rightarrow> extattrs \<times> bool" where
  "RangeTemplate_lateInitExtAttrs extAttrs rec =
     (if extAttrs \<noteq> fmempty then (extAttrs, False)
      else
        (let fromRec = extAttrsFromEA (Strip (rtr_Ea rec)) in
         if fromRec = fmempty then (extAttrs, False) else (fromRec, True)))"

definition lateInitOptions :: "dhcpOption list \<Rightarrow> RangetemplateObj \<Rightarrow> dhcpOption list \<times> bool" where
  "lateInitOptions options rec =
     (if options \<noteq> [] then (options, False)
      else
        (let fromRec = dhcpOptionsToCommon (rtr_Options rec) in
         if fromRec = [] then (options, False) else (fromRec, True)))"

definition lateInitUseOptions :: "bool option \<Rightarrow> RangetemplateObj \<Rightarrow> bool option \<times> bool" where
  "lateInitUseOptions useOptions rec =
     (if useOptions \<noteq> None \<or> rtr_UseOptions rec = None then (useOptions, False) else (rtr_UseOptions rec,
         True))"

definition lateInitServerAssociationType :: "string \<Rightarrow> RangetemplateObj \<Rightarrow> string \<times> bool" where
  "lateInitServerAssociationType serverAssociationType rec =
     (if serverAssociationType \<noteq> [] \<or> rtr_ServerAssociationType rec = [] then (serverAssociationType, False)
      else (rtr_ServerAssociationType rec, True))"

definition lateInitFailoverAssociation :: "string option \<Rightarrow> RangetemplateObj \<Rightarrow> string option \<times> bool" where
  "lateInitFailoverAssociation failoverAssociation rec =
     (if failoverAssociation \<noteq> None \<or> rtr_FailoverAssociation rec = None \<or> rtr_FailoverAssociation rec = Some []
      then (failoverAssociation, False)
      else (rtr_FailoverAssociation rec, True))"

definition lateInitMember :: "templateMember option \<Rightarrow> RangetemplateObj \<Rightarrow> templateMember option \<times> bool" where
  "lateInitMember member rec =
     (if member \<noteq> None then (member, False)
      else
        (let fromRec = dhcpMemberToCommon (rtr_Member rec) in
         if fromRec = None then (member, False) else (fromRec, True)))"

definition lateInitCloudApiCompatible :: "bool option \<Rightarrow> RangetemplateObj \<Rightarrow> bool option \<times> bool" where
  "lateInitCloudApiCompatible cloudApiCompatible rec =
     (if cloudApiCompatible \<noteq> None \<or> rtr_CloudApiCompatible rec = None then (cloudApiCompatible, False)
      else (rtr_CloudApiCompatible rec, True))"

lemma template_lateInit_eqs:
  "lateInitComment s rec = (fill s (ptrIfSet (rtr_Comment rec)), fill s (ptrIfSet (rtr_Comment rec)) \<noteq> s)"
  "RangeTemplate_lateInitExtAttrs m rec = (fill_map m (userAttrs (rtr_Ea rec)), fill_map m (userAttrs (rtr_Ea rec))
      \<noteq> m)"
  "lateInitOptions os rec = (fill_list os (dhcpOptionsToCommon (rtr_Options rec)), fill_list os (dhcpOptionsToCommon
      (rtr_Options rec)) \<noteq> os)"
  "lateInitUseOptions b rec = (fill b (rtr_UseOptions rec), fill b (rtr_UseOptions rec) \<noteq> b)"
  "lateInitServerAssociationType t rec = (fill_list t (rtr_ServerAssociationType rec), fill_list t
      (rtr_ServerAssociationType rec) \<noteq> t)"
  "lateInitFailoverAssociation s rec = (fill s (ptrIfSet (rtr_FailoverAssociation rec)), fill s (ptrIfSet
      (rtr_FailoverAssociation rec)) \<noteq> s)"
  "lateInitMember d rec = (fill d (dhcpMemberToCommon (rtr_Member rec)), fill d (dhcpMemberToCommon (rtr_Member rec))
      \<noteq> d)"
  "lateInitCloudApiCompatible b rec = (fill b (rtr_CloudApiCompatible rec), fill b (rtr_CloudApiCompatible rec)
      \<noteq> b)"
  by (auto simp: lateInitComment_def RangeTemplate_lateInitExtAttrs_def lateInitOptions_def lateInitUseOptions_def
      lateInitServerAssociationType_def lateInitFailoverAssociation_def lateInitMember_def lateInitCloudApiCompatible_def
      fill_def fill_map_def fill_list_def userAttrs_def extAttrsFromEA_empty_iff [THEN iffD2, OF refl] ptrIfSet_def
          ptrIfNonEmpty_def
      Let_def split: option.splits)

lemma template_guarded_late:
  "(if g then (fill_list xs ys, fill_list xs ys \<noteq> xs) else (xs, False)) =
     ((if g then fill_list xs ys else xs), (if g then fill_list xs ys else xs) \<noteq> xs)"
  by simp

definition RangeTemplate_lateInitialize :: "rangetemplate_late \<Rightarrow> RangetemplateObj \<Rightarrow>
    rangetemplate_late \<times> bool" where
  "RangeTemplate_lateInitialize p rec =
     (case p of (comment, extAttrs, options, useOptions, serverAssociationType, failoverAssociation, member,
         cloudApiCompatible) \<Rightarrow>
       (let (comment1, b1) = lateInitComment comment (rec);
            c1 = (b1 \<or> False);
            (extAttrs1, b2) = RangeTemplate_lateInitExtAttrs extAttrs (rec);
            c2 = (b2 \<or> c1);
            (useOptions1, b3) = lateInitUseOptions useOptions (rec);
            c3 = (b3 \<or> c2);
            (options1, b4) = (if boolOrFalse useOptions1 then lateInitOptions options (rec) else (options, False));
            c4 = (b4 \<or> c3);
            (serverAssociationType1, b5) = lateInitServerAssociationType serverAssociationType (rec);
            c5 = (b5 \<or> c4);
            (failoverAssociation1, b6) = lateInitFailoverAssociation failoverAssociation (rec);
            c6 = (b6 \<or> c5);
            (member1, b7) = lateInitMember member (rec);
            c7 = (b7 \<or> c6);
            (cloudApiCompatible1, b8) = lateInitCloudApiCompatible cloudApiCompatible (rec);
            c8 = (b8 \<or> c7)
        in ((comment1, extAttrs1, options1, useOptions1, serverAssociationType1, failoverAssociation1, member1,
            cloudApiCompatible1), c8)))"

record observedRangeTemplate =
  rto_ID :: string
  rto_Name :: "string option"
  rto_NumberOfAddresses :: "32 word option"
  rto_Offset :: "32 word option"
  rto_Comment :: "string option"
  rto_ExtAttrs :: extattrs
  rto_Options :: "dhcpOption list"
  rto_UseOptions :: "bool option"
  rto_ServerAssociationType :: "string option"
  rto_FailoverAssociation :: "string option"
  rto_Member :: "templateMember option"
  rto_CloudApiCompatible :: "bool option"
  rto_Ref :: "string option"

definition observeFromRangeTemplate :: "string \<Rightarrow> RangetemplateObj \<Rightarrow> observedRangeTemplate" where
  "observeFromRangeTemplate externalID rec =
     \<lparr>rto_ID = externalID,
      rto_Name = rtr_Name rec,
      rto_NumberOfAddresses = rtr_NumberOfAddresses rec,
      rto_Offset = rtr_Offset rec,
      rto_Comment = ptrIfSet (rtr_Comment rec),
      rto_ExtAttrs = extAttrsFromEA (rtr_Ea rec),
      rto_Options = dhcpOptionsToCommon (rtr_Options rec),
      rto_UseOptions = rtr_UseOptions rec,
      rto_ServerAssociationType = ptrIfNonEmpty (rtr_ServerAssociationType rec),
      rto_FailoverAssociation = ptrIfSet (rtr_FailoverAssociation rec),
      rto_Member = dhcpMemberToCommon (rtr_Member rec),
      rto_CloudApiCompatible = rtr_CloudApiCompatible rec,
      rto_Ref = ptrIfNonEmpty (rtr_Ref rec)\<rparr>"

section \<open>SDK calls\<close>

definition createRangeTemplate ::
  "(RangetemplateObj, rangetemplate_req) wapi \<Rightarrow> RangeTemplateParameters \<Rightarrow> dhcpOption list
      \<Rightarrow> templateMember option \<Rightarrow> string \<Rightarrow> rangetemplate_req world \<Rightarrow> (goerr
      + RangetemplateObj) \<times> rangetemplate_req world" where
  "createRangeTemplate env p options member uid w =
     (if trim_space uid = [] then (Inl (TextError RangeTemplate_errEmptyUID), w)
      else
        (let e = Stamp (buildEA (rtp_ExtAttrs p)) uid
         in mutate_object env
              (CreateRangeTemplate (strOrEmpty (rtp_Name p)) (uint32OrZero (rtp_NumberOfAddresses p)) (uint32OrZero
                  (rtp_Offset p)) (strOrEmpty (rtp_Comment p)) e (buildDhcpOptions options) (boolOrFalse (rtp_UseOptions
                  p)) (rtp_ServerAssociationType p) (strOrEmpty (rtp_FailoverAssociation p)) (buildDhcpMember member)
                  wapiCloudAPICompatible (strOrEmpty (rtp_MsServer p))) w))"

definition updateRangeTemplate ::
  "(RangetemplateObj, rangetemplate_req) wapi \<Rightarrow> string \<Rightarrow> RangeTemplateParameters \<Rightarrow>
      dhcpOption list \<Rightarrow> templateMember option \<Rightarrow> string \<Rightarrow> rangetemplate_req world
      \<Rightarrow> (goerr + RangetemplateObj) \<times> rangetemplate_req world" where
  "updateRangeTemplate env ref p options member uid w =
     (if trim_space uid = [] then (Inl (TextError RangeTemplate_errEmptyUID), w)
      else
        (let e = Stamp (buildEA (rtp_ExtAttrs p)) uid
         in mutate_object env
              (UpdateRangeTemplate ref (strOrEmpty (rtp_Name p)) (uint32OrZero (rtp_NumberOfAddresses p))
                  (uint32OrZero (rtp_Offset p)) (strOrEmpty (rtp_Comment p)) e (buildDhcpOptions options) (boolOrFalse
                  (rtp_UseOptions p)) (rtp_ServerAssociationType p) (strOrEmpty (rtp_FailoverAssociation p))
                  (buildDhcpMember member) wapiCloudAPICompatible (strOrEmpty (rtp_MsServer p))) w))"

definition deleteRangeTemplate :: "(RangetemplateObj, rangetemplate_req) wapi \<Rightarrow> string \<Rightarrow>
    rangetemplate_req world \<Rightarrow> goerr option \<times> rangetemplate_req world" where
  "deleteRangeTemplate env ref w =
     (case delete_object env ref w of
        (Inl err, w1) \<Rightarrow> (Some err, w1)
      | (Inr _, w1) \<Rightarrow> (None, w1))"

section \<open>Identity resolution\<close>

definition resolveRangeTemplateIdentity ::
  "(RangetemplateObj, rangetemplate_req) wapi \<Rightarrow> string \<Rightarrow> string \<Rightarrow>
      rangetemplate_req world \<Rightarrow> (goerr + RangetemplateObj option \<times> Outcome) \<times> rangetemplate_req
      world" where
  "resolveRangeTemplateIdentity env ref uid w = Resolve env RangetemplateObj_type ref uid w"

type_synonym RangeTemplate_observeResult = "(RangetemplateObj, observedRangeTemplate) observeResult"

definition RangeTemplate_notFoundResult :: RangeTemplate_observeResult where
  "RangeTemplate_notFoundResult =
     \<lparr>ores_exists = False, ores_rec = emptyRangetemplateObj, ores_obs = observeFromRangeTemplate []
         emptyRangetemplateObj,
      ores_lateInit = False, ores_refreshedRef = [], ores_adopted = False\<rparr>"

definition observeRangeTemplate ::
  "(RangetemplateObj, rangetemplate_req) wapi \<Rightarrow> string \<Rightarrow> string \<Rightarrow> string
      \<Rightarrow> string \<Rightarrow> rangetemplate_req world \<Rightarrow> (goerr + RangeTemplate_observeResult)
      \<times> rangetemplate_req world" where
  "observeRangeTemplate env endpoint crName externalName uid w =
     (let ref = observeRefFor crName externalName in
      case resolveRangeTemplateIdentity env ref uid w of
        (Inl err, w1) \<Rightarrow>
          if IsSearchFailure err then
            (case ensureIdentityPrerequisite env endpoint w1 of
               (Some prereqErr, w2) \<Rightarrow> (Inl prereqErr, w2)
             | (None, w2) \<Rightarrow> (Inl err, w2))
          else (Inl err, w1)
      | (Inr (obj, outcome), w1) \<Rightarrow>
          if outcome = OutcomeNotFound then (Inr RangeTemplate_notFoundResult, w1)
          else
            (case obj of
               None \<Rightarrow> (Inl (TextError nilDereference), w1)
             | Some rec \<Rightarrow>
                 (let found = (outcome = OutcomeRotated \<or> outcome = OutcomeFoundByUID)
                  in (Inr \<lparr>ores_exists = True, ores_rec = rec,
                           ores_obs = observeFromRangeTemplate (rtr_Ref rec) rec,
                           ores_lateInit = found,
                           ores_refreshedRef = (if found then rtr_Ref rec else []),
                           ores_adopted = (outcome = OutcomeAdopted)\<rparr>, w1))))"

definition deleteRangeTemplateIdentity ::
  "(RangetemplateObj, rangetemplate_req) wapi \<Rightarrow> string \<Rightarrow> string \<Rightarrow> string
      \<Rightarrow> rangetemplate_req world \<Rightarrow> goerr option \<times> rangetemplate_req world" where
  "deleteRangeTemplateIdentity env endpoint ref uid w =
     (case resolveRangeTemplateIdentity env ref uid w of
        (Inl err, w1) \<Rightarrow>
          if IsSearchFailure err then
            (case ensureIdentityPrerequisite env endpoint w1 of
               (Some prereqErr, w2) \<Rightarrow> (Some prereqErr, w2)
             | (None, w2) \<Rightarrow> (Some (Wrapped errDeleteRangeTemplate err), w2))
          else (Some (Wrapped errDeleteRangeTemplate err), w1)
      | (Inr (obj, outcome), w1) \<Rightarrow>
          (case outcome of
             OutcomeNotFound \<Rightarrow> (None, w1)
           | OutcomeAdopted \<Rightarrow> (Some (TextError errDeleteUnverifiedOwnership), w1)
           | _ \<Rightarrow>
               (case obj of
                  None \<Rightarrow> (Some (TextError nilDereference), w1)
                | Some rec \<Rightarrow>
                    (case deleteRangeTemplate env (rtr_Ref rec) w1 of
                       (None, w2) \<Rightarrow> (None, w2)
                     | (Some delErr, w2) \<Rightarrow>
                         if isNotFound (Some delErr) then (None, w2)
                         else (Some (Wrapped errDeleteRangeTemplate delErr), w2)))))"

section \<open>The external clients\<close>

text \<open>The pointers to spec fields Observe hands over, and their write-back.\<close>

definition RangeTemplate_latePart :: "RangeTemplateParameters \<Rightarrow> dhcpOption list \<Rightarrow>
    templateMember option \<Rightarrow> rangetemplate_late" where
  "RangeTemplate_latePart p options member = (rtp_Comment p, rtp_ExtAttrs p, options, rtp_UseOptions p,
      rtp_ServerAssociationType p, rtp_FailoverAssociation p, member, rtp_CloudApiCompatible p)"

definition RangeTemplate_setLate :: "RangeTemplateParameters \<Rightarrow> rangetemplate_late \<Rightarrow>
    RangeTemplateParameters" where
  "RangeTemplate_setLate p l = (case l of (comment, extAttrs, options, useOptions, serverAssociationType,
      failoverAssociation, member, cloudApiCompatible) \<Rightarrow>
     p\<lparr>rtp_Comment := comment, rtp_ExtAttrs := extAttrs, rtp_UseOptions := useOptions,
         rtp_ServerAssociationType := serverAssociationType, rtp_FailoverAssociation := failoverAssociation,
         rtp_CloudApiCompatible := cloudApiCompatible\<rparr>)"

text \<open>The local copies lateInitialize fills.\<close>

definition RangeTemplate_lateOptions :: "rangetemplate_late \<Rightarrow> dhcpOption list" where
  "RangeTemplate_lateOptions l =
     (case l of (comment, extAttrs, options, useOptions, serverAssociationType, failoverAssociation, member, cloud)
         \<Rightarrow> options)"

definition RangeTemplate_lateMember :: "rangetemplate_late \<Rightarrow> templateMember option" where
  "RangeTemplate_lateMember l =
     (case l of (comment, extAttrs, options, useOptions, serverAssociationType, failoverAssociation, member, cloud)
         \<Rightarrow> member)"

subsection \<open>namespaced.go\<close>

definition namespacedOptionsToCommon :: "crdDhcpOption option list \<Rightarrow> dhcpOption list" where
  "namespacedOptionsToCommon opts =
     (if opts = [] then []
      else List.map_filter (map_option (\<lambda>o1. \<lparr>po_Name = co_Name o1, po_Num = co_Num o1,
             po_VendorClass = co_VendorClass o1, po_Value = co_Value o1, po_UseOption = co_UseOption o1\<rparr>))
                 opts)"

definition commonToNamespacedOptions :: "dhcpOption list \<Rightarrow> crdDhcpOption option list" where
  "commonToNamespacedOptions opts =
     (if opts = [] then []
      else map (\<lambda>o1. Some \<lparr>co_Name = po_Name o1, co_Num = po_Num o1,
             co_VendorClass = po_VendorClass o1, co_Value = po_Value o1, co_UseOption = po_UseOption o1\<rparr>) opts)"

definition namespacedMemberToCommon :: "RangeTemplateMember option \<Rightarrow> templateMember option" where
  "namespacedMemberToCommon m =
     (case m of
        None \<Rightarrow> None
      | Some x \<Rightarrow> Some \<lparr>tm_Ipv4Addr = ctm_Ipv4Addr x, tm_Ipv6Addr = ctm_Ipv6Addr x, tm_Name = ctm_Name x\<rparr>)"

definition commonToNamespacedMember :: "templateMember option \<Rightarrow> RangeTemplateMember option" where
  "commonToNamespacedMember m =
     (case m of
        None \<Rightarrow> None
      | Some x \<Rightarrow> Some \<lparr>ctm_Ipv4Addr = tm_Ipv4Addr x, ctm_Ipv6Addr = tm_Ipv6Addr x, ctm_Name = tm_Name x\<rparr>)"

definition namespaced_RangeTemplate_Observe ::
  "(RangetemplateObj, rangetemplate_req) wapi \<Rightarrow> string \<Rightarrow> RangeTemplateCR \<Rightarrow>
      rangetemplate_req world \<Rightarrow> (goerr + ExternalObservation) \<times> RangeTemplateCR \<times>
      rangetemplate_req world" where
  "namespaced_RangeTemplate_Observe env endpoint cr w =
     (case observeRangeTemplate env endpoint (mo_name cr) (GetExternalName cr) (mo_uid cr) w of
        (Inl err, w1) \<Rightarrow>
          if errors_as is_PrerequisiteError err then (Inl err, cr, w1)
          else (Inl (Wrapped errObserveRangeTemplate err), cr, w1)
      | (Inr res, w1) \<Rightarrow>
          if \<not> ores_exists res then (Inr notExists, cr, w1)
          else
            (let rec = ores_rec res; o1 = ores_obs res; p0 = rt_ForProvider cr;
                 cr1 = cr\<lparr>rt_AtProvider :=
                    \<lparr>rts_ID = rto_ID o1, rts_Name = rto_Name o1, rts_NumberOfAddresses =
                     rto_NumberOfAddresses o1, rts_Offset = rto_Offset o1, rts_Comment = rto_Comment
                     o1, rts_ExtAttrs = rto_ExtAttrs o1, rts_Options = commonToNamespacedOptions (rto_Options
                     o1), rts_UseOptions = rto_UseOptions o1, rts_ServerAssociationType =
                     rto_ServerAssociationType o1, rts_FailoverAssociation = rto_FailoverAssociation
                     o1, rts_Member = commonToNamespacedMember (rto_Member o1), rts_CloudApiCompatible =
                     rto_CloudApiCompatible o1, rts_Ref = rto_Ref o1\<rparr>\<rparr>;
                 (l, lateInit0) = RangeTemplate_lateInitialize
                    (RangeTemplate_latePart p0 (namespacedOptionsToCommon (rtp_Options p0)) (namespacedMemberToCommon
                        (rtp_Member p0))) rec;
                 p1 = RangeTemplate_setLate p0 l;
                 p = (if lateInit0
                      then p1\<lparr>rtp_Options := commonToNamespacedOptions (RangeTemplate_lateOptions l),
                              rtp_Member := commonToNamespacedMember (RangeTemplate_lateMember l)\<rparr>
                      else p1);
                 lateInit = (if ores_lateInit res then True else lateInit0);
                 cr2 = cr1\<lparr>rt_ForProvider := p\<rparr>;
                 cr3 = (if ores_refreshedRef res \<noteq> [] then SetExternalName (ores_refreshedRef res) cr2 else cr2);
                 cr4 = SetAvailable cr3;
                 upToDate = (RangeTemplate_isUpToDate (rtp_Name p) (rtp_NumberOfAddresses p) (rtp_Offset p) (rtp_Comment
                                p) (rtp_ExtAttrs p) (namespacedOptionsToCommon (rtp_Options p))
                                (rtp_UseOptions p) (rtp_ServerAssociationType p)
                                (rtp_FailoverAssociation p) (namespacedMemberToCommon (rtp_Member p)) rec \<and>
                                    \<not> ores_adopted res)
             in (Inr \<lparr>ResourceExists = True, ResourceUpToDate = upToDate,
                      ResourceLateInitialized = lateInit\<rparr>, cr4, w1)))"

definition namespaced_RangeTemplate_Create ::
  "(RangetemplateObj, rangetemplate_req) wapi \<Rightarrow> string \<Rightarrow> RangeTemplateCR \<Rightarrow>
      rangetemplate_req world \<Rightarrow> goerr option \<times> RangeTemplateCR \<times> rangetemplate_req world" where
  "namespaced_RangeTemplate_Create env endpoint cr w =
     (let p = rt_ForProvider cr; uid = mo_uid cr in
      if trim_space uid = [] then (Some (TextError RangeTemplate_errEmptyUID), cr, w)
      else
          (case ensureIdentityPrerequisite env endpoint w of
             (Some err, w1) \<Rightarrow> (Some err, cr, w1)
           | (None, w1) \<Rightarrow>
               (case createRangeTemplate env p (namespacedOptionsToCommon (rtp_Options p)) (namespacedMemberToCommon
                   (rtp_Member p)) uid w1 of
                  (Inl err, w2) \<Rightarrow> (Some (Wrapped errCreateRangeTemplate err), cr, w2)
                | (Inr rec, w2) \<Rightarrow> (None, SetExternalName (rtr_Ref rec) cr, w2))))"

definition namespaced_RangeTemplate_Update ::
  "(RangetemplateObj, rangetemplate_req) wapi \<Rightarrow> string \<Rightarrow> RangeTemplateCR \<Rightarrow>
      rangetemplate_req world \<Rightarrow> goerr option \<times> RangeTemplateCR \<times> rangetemplate_req world" where
  "namespaced_RangeTemplate_Update env endpoint cr w =
     (let p = rt_ForProvider cr; externalID = GetExternalName cr in
      case ensureIdentityPrerequisite env endpoint w of
        (Some err, w1) \<Rightarrow> (Some err, cr, w1)
      | (None, w1) \<Rightarrow>
          (case updateRangeTemplate env externalID p (namespacedOptionsToCommon (rtp_Options p))
              (namespacedMemberToCommon (rtp_Member p)) (mo_uid cr) w1 of
             (Inl err, w2) \<Rightarrow> (Some (Wrapped errUpdateRangeTemplate err), cr, w2)
           | (Inr rec, w2) \<Rightarrow>
               if rtr_Ref rec \<noteq> [] \<and> rtr_Ref rec \<noteq> externalID then
                 (case Refresh env cr (rtr_Ref rec) w2 of
                    (Some err, cr1, w3) \<Rightarrow> (Some (Wrapped errPersistExternalName err), cr1, w3)
                  | (None, cr1, w3) \<Rightarrow> (None, cr1, w3))
               else (None, cr, w2)))"

definition namespaced_RangeTemplate_Delete ::
  "(RangetemplateObj, rangetemplate_req) wapi \<Rightarrow> string \<Rightarrow> RangeTemplateCR \<Rightarrow>
      rangetemplate_req world \<Rightarrow> goerr option \<times> rangetemplate_req world" where
  "namespaced_RangeTemplate_Delete env endpoint cr w =
     (let externalID = GetExternalName cr in
      case deleteRangeTemplateIdentity env endpoint externalID (mo_uid cr) w of
        (Some err, w1) \<Rightarrow> (Some err, w1)
      | (None, w1) \<Rightarrow> (None, w1))"

subsection \<open>cluster.go\<close>

definition clusterOptionsToCommon :: "crdDhcpOption option list \<Rightarrow> dhcpOption list" where
  "clusterOptionsToCommon opts =
     (if opts = [] then []
      else List.map_filter (map_option (\<lambda>o1. \<lparr>po_Name = co_Name o1, po_Num = co_Num o1,
             po_VendorClass = co_VendorClass o1, po_Value = co_Value o1, po_UseOption = co_UseOption o1\<rparr>))
                 opts)"

definition commonToClusterOptions :: "dhcpOption list \<Rightarrow> crdDhcpOption option list" where
  "commonToClusterOptions opts =
     (if opts = [] then []
      else map (\<lambda>o1. Some \<lparr>co_Name = po_Name o1, co_Num = po_Num o1,
             co_VendorClass = po_VendorClass o1, co_Value = po_Value o1, co_UseOption = po_UseOption o1\<rparr>) opts)"

definition clusterMemberToCommon :: "RangeTemplateMember option \<Rightarrow> templateMember option" where
  "clusterMemberToCommon m =
     (case m of
        None \<Rightarrow> None
      | Some x \<Rightarrow> Some \<lparr>tm_Ipv4Addr = ctm_Ipv4Addr x, tm_Ipv6Addr = ctm_Ipv6Addr x, tm_Name = ctm_Name x\<rparr>)"

definition commonToClusterMember :: "templateMember option \<Rightarrow> RangeTemplateMember option" where
  "commonToClusterMember m =
     (case m of
        None \<Rightarrow> None
      | Some x \<Rightarrow> Some \<lparr>ctm_Ipv4Addr = tm_Ipv4Addr x, ctm_Ipv6Addr = tm_Ipv6Addr x, ctm_Name = tm_Name x\<rparr>)"

definition cluster_RangeTemplate_Observe ::
  "(RangetemplateObj, rangetemplate_req) wapi \<Rightarrow> string \<Rightarrow> RangeTemplateCR \<Rightarrow>
      rangetemplate_req world \<Rightarrow> (goerr + ExternalObservation) \<times> RangeTemplateCR \<times>
      rangetemplate_req world" where
  "cluster_RangeTemplate_Observe env endpoint cr w =
     (case observeRangeTemplate env endpoint (mo_name cr) (GetExternalName cr) (mo_uid cr) w of
        (Inl err, w1) \<Rightarrow>
          if errors_as is_PrerequisiteError err then (Inl err, cr, w1)
          else (Inl (Wrapped errObserveRangeTemplate err), cr, w1)
      | (Inr res, w1) \<Rightarrow>
          if \<not> ores_exists res then (Inr notExists, cr, w1)
          else
            (let rec = ores_rec res; o1 = ores_obs res; p0 = rt_ForProvider cr;
                 cr1 = cr\<lparr>rt_AtProvider :=
                    \<lparr>rts_ID = rto_ID o1, rts_Name = rto_Name o1, rts_NumberOfAddresses =
                     rto_NumberOfAddresses o1, rts_Offset = rto_Offset o1, rts_Comment = rto_Comment
                     o1, rts_ExtAttrs = rto_ExtAttrs o1, rts_Options = commonToClusterOptions (rto_Options
                     o1), rts_UseOptions = rto_UseOptions o1, rts_ServerAssociationType =
                     rto_ServerAssociationType o1, rts_FailoverAssociation = rto_FailoverAssociation
                     o1, rts_Member = commonToClusterMember (rto_Member o1), rts_CloudApiCompatible =
                     rto_CloudApiCompatible o1, rts_Ref = rto_Ref o1\<rparr>\<rparr>;
                 (l, lateInit0) = RangeTemplate_lateInitialize
                    (RangeTemplate_latePart p0 (clusterOptionsToCommon (rtp_Options p0)) (clusterMemberToCommon
                        (rtp_Member p0))) rec;
                 p1 = RangeTemplate_setLate p0 l;
                 p = (if lateInit0
                      then p1\<lparr>rtp_Options := commonToClusterOptions (RangeTemplate_lateOptions l),
                              rtp_Member := commonToClusterMember (RangeTemplate_lateMember l)\<rparr>
                      else p1);
                 lateInit = (if ores_lateInit res then True else lateInit0);
                 cr2 = cr1\<lparr>rt_ForProvider := p\<rparr>;
                 cr3 = (if ores_refreshedRef res \<noteq> [] then SetExternalName (ores_refreshedRef res) cr2 else cr2);
                 cr4 = SetAvailable cr3;
                 upToDate = (RangeTemplate_isUpToDate (rtp_Name p) (rtp_NumberOfAddresses p) (rtp_Offset p) (rtp_Comment
                                p) (rtp_ExtAttrs p) (clusterOptionsToCommon (rtp_Options p))
                                (rtp_UseOptions p) (rtp_ServerAssociationType p)
                                (rtp_FailoverAssociation p) (clusterMemberToCommon (rtp_Member p)) rec \<and> \<not>
                                    ores_adopted res)
             in (Inr \<lparr>ResourceExists = True, ResourceUpToDate = upToDate,
                      ResourceLateInitialized = lateInit\<rparr>, cr4, w1)))"

definition cluster_RangeTemplate_Create ::
  "(RangetemplateObj, rangetemplate_req) wapi \<Rightarrow> string \<Rightarrow> RangeTemplateCR \<Rightarrow>
      rangetemplate_req world \<Rightarrow> goerr option \<times> RangeTemplateCR \<times> rangetemplate_req world" where
  "cluster_RangeTemplate_Create env endpoint cr w =
     (let p = rt_ForProvider cr; uid = mo_uid cr in
      if trim_space uid = [] then (Some (TextError RangeTemplate_errEmptyUID), cr, w)
      else
          (case ensureIdentityPrerequisite env endpoint w of
             (Some err, w1) \<Rightarrow> (Some err, cr, w1)
           | (None, w1) \<Rightarrow>
               (case createRangeTemplate env p (clusterOptionsToCommon (rtp_Options p)) (clusterMemberToCommon
                   (rtp_Member p)) uid w1 of
                  (Inl err, w2) \<Rightarrow> (Some (Wrapped errCreateRangeTemplate err), cr, w2)
                | (Inr rec, w2) \<Rightarrow> (None, SetExternalName (rtr_Ref rec) cr, w2))))"

definition cluster_RangeTemplate_Update ::
  "(RangetemplateObj, rangetemplate_req) wapi \<Rightarrow> string \<Rightarrow> RangeTemplateCR \<Rightarrow>
      rangetemplate_req world \<Rightarrow> goerr option \<times> RangeTemplateCR \<times> rangetemplate_req world" where
  "cluster_RangeTemplate_Update env endpoint cr w =
     (let p = rt_ForProvider cr; externalID = GetExternalName cr in
      case ensureIdentityPrerequisite env endpoint w of
        (Some err, w1) \<Rightarrow> (Some err, cr, w1)
      | (None, w1) \<Rightarrow>
          (case updateRangeTemplate env externalID p (clusterOptionsToCommon (rtp_Options p)) (clusterMemberToCommon
              (rtp_Member p)) (mo_uid cr) w1 of
             (Inl err, w2) \<Rightarrow> (Some (Wrapped errUpdateRangeTemplate err), cr, w2)
           | (Inr rec, w2) \<Rightarrow>
               if rtr_Ref rec \<noteq> [] \<and> rtr_Ref rec \<noteq> externalID then
                 (case Refresh env cr (rtr_Ref rec) w2 of
                    (Some err, cr1, w3) \<Rightarrow> (Some (Wrapped errPersistExternalName err), cr1, w3)
                  | (None, cr1, w3) \<Rightarrow> (None, cr1, w3))
               else (None, cr, w2)))"

definition cluster_RangeTemplate_Delete ::
  "(RangetemplateObj, rangetemplate_req) wapi \<Rightarrow> string \<Rightarrow> RangeTemplateCR \<Rightarrow>
      rangetemplate_req world \<Rightarrow> goerr option \<times> rangetemplate_req world" where
  "cluster_RangeTemplate_Delete env endpoint cr w =
     (let externalID = GetExternalName cr in
      case deleteRangeTemplateIdentity env endpoint externalID (mo_uid cr) w of
        (Some err, w1) \<Rightarrow> (Some err, w1)
      | (None, w1) \<Rightarrow> (None, w1))"

section \<open>The contract of the ladder client\<close>

text \<open>The requests of a spec, what a Grid object holds of a request, and the drift check of a resource.\<close>

definition rangetemplate_create_request :: "RangeTemplateParameters \<Rightarrow> string \<Rightarrow> rangetemplate_req" where
  "rangetemplate_create_request p uid = CreateRangeTemplate
     (strOrEmpty (rtp_Name p)) (uint32OrZero (rtp_NumberOfAddresses p)) (uint32OrZero (rtp_Offset p)) (strOrEmpty
         (rtp_Comment p)) (Stamp (buildEA (rtp_ExtAttrs p)) uid) (buildDhcpOptions (namespacedOptionsToCommon (rtp_Options
         p))) (boolOrFalse (rtp_UseOptions p)) (rtp_ServerAssociationType p) (strOrEmpty (rtp_FailoverAssociation p))
         (buildDhcpMember (namespacedMemberToCommon (rtp_Member p))) wapiCloudAPICompatible (strOrEmpty (rtp_MsServer p))"

definition rangetemplate_update_request :: "string \<Rightarrow> RangeTemplateParameters \<Rightarrow> string \<Rightarrow> rangetemplate_req" where
  "rangetemplate_update_request ref p uid = UpdateRangeTemplate ref
     (strOrEmpty (rtp_Name p)) (uint32OrZero (rtp_NumberOfAddresses p)) (uint32OrZero (rtp_Offset p)) (strOrEmpty
         (rtp_Comment p)) (Stamp (buildEA (rtp_ExtAttrs p)) uid) (buildDhcpOptions (namespacedOptionsToCommon (rtp_Options
         p))) (boolOrFalse (rtp_UseOptions p)) (rtp_ServerAssociationType p) (strOrEmpty (rtp_FailoverAssociation p))
         (buildDhcpMember (namespacedMemberToCommon (rtp_Member p))) wapiCloudAPICompatible (strOrEmpty (rtp_MsServer p))"

fun rangetemplate_req_ea :: "rangetemplate_req \<Rightarrow> ea" where
  "rangetemplate_req_ea (CreateRangeTemplate name numberOfAddresses offset comment ea options useOptions serverAssociationType failoverAssociation member cloudApiCompatible msServer) = ea"
| "rangetemplate_req_ea (UpdateRangeTemplate ref name numberOfAddresses offset comment ea options useOptions serverAssociationType failoverAssociation member cloudApiCompatible msServer) = ea"

fun rangetemplate_holds :: "rangetemplate_req \<Rightarrow> RangetemplateObj \<Rightarrow> bool" where
  "rangetemplate_holds (CreateRangeTemplate name numberOfAddresses offset comment ea options useOptions serverAssociationType failoverAssociation member cloudApiCompatible msServer) rec \<longleftrightarrow>
     strOrEmpty (rtr_Name rec) = name \<and>
     ttlOrZero (rtr_NumberOfAddresses rec) = numberOfAddresses \<and>
     ttlOrZero (rtr_Offset rec) = offset \<and>
     strOrEmpty (rtr_Comment rec) = comment \<and>
     rtr_Ea rec = ea \<and>
     boolOrFalse (rtr_UseOptions rec) = useOptions \<and>
     (useOptions \<longrightarrow> rtr_Options rec = options) \<and>
     (serverAssociationType \<noteq> [] \<longrightarrow> rtr_ServerAssociationType rec = serverAssociationType) \<and>
     strOrEmpty (rtr_FailoverAssociation rec) = failoverAssociation \<and>
     (member \<noteq> None \<longrightarrow> rtr_Member rec = member) \<and>
     boolOrFalse (rtr_CloudApiCompatible rec) = cloudApiCompatible"
| "rangetemplate_holds (UpdateRangeTemplate ref name numberOfAddresses offset comment ea options useOptions serverAssociationType failoverAssociation member cloudApiCompatible msServer) rec \<longleftrightarrow>
     strOrEmpty (rtr_Name rec) = name \<and>
     ttlOrZero (rtr_NumberOfAddresses rec) = numberOfAddresses \<and>
     ttlOrZero (rtr_Offset rec) = offset \<and>
     strOrEmpty (rtr_Comment rec) = comment \<and>
     rtr_Ea rec = ea \<and>
     boolOrFalse (rtr_UseOptions rec) = useOptions \<and>
     (useOptions \<longrightarrow> rtr_Options rec = options) \<and>
     (serverAssociationType \<noteq> [] \<longrightarrow> rtr_ServerAssociationType rec = serverAssociationType) \<and>
     strOrEmpty (rtr_FailoverAssociation rec) = failoverAssociation \<and>
     (member \<noteq> None \<longrightarrow> rtr_Member rec = member) \<and>
     boolOrFalse (rtr_CloudApiCompatible rec) = cloudApiCompatible"

definition RangeTemplate_utd :: "RangeTemplateCR \<Rightarrow> RangetemplateObj \<Rightarrow> bool" where
  "RangeTemplate_utd cr rec = (let p = rt_ForProvider cr in
     RangeTemplate_isUpToDate (rtp_Name p) (rtp_NumberOfAddresses p) (rtp_Offset p) (rtp_Comment
                                p) (rtp_ExtAttrs p) (namespacedOptionsToCommon (rtp_Options p))
                                (rtp_UseOptions p) (rtp_ServerAssociationType p)
                                (rtp_FailoverAssociation p) (namespacedMemberToCommon (rtp_Member p)) rec)"

definition RangeTemplate_spec_ok :: "RangeTemplateCR \<Rightarrow> bool" where
  "RangeTemplate_spec_ok cr \<longleftrightarrow> (let p = rt_ForProvider cr in reserved_free (rtp_ExtAttrs p))"

text \<open>What Observe makes of the spec, and that it keeps what the user set.\<close>

definition RangeTemplate_backfill :: "RangeTemplateParameters \<Rightarrow> RangetemplateObj \<Rightarrow>
    RangeTemplateParameters \<times> bool" where
  "RangeTemplate_backfill p rec =
     (case RangeTemplate_lateInitialize (RangeTemplate_latePart p (namespacedOptionsToCommon (rtp_Options p))
             (namespacedMemberToCommon (rtp_Member p))) rec of
        (l, c) \<Rightarrow>
          (if c then (RangeTemplate_setLate p l)\<lparr>rtp_Options := commonToNamespacedOptions (RangeTemplate_lateOptions l),
                        rtp_Member := commonToNamespacedMember (RangeTemplate_lateMember l)\<rparr> else p, c))"

lemma template_conv [simp]:
  "namespacedOptionsToCommon (commonToNamespacedOptions ds) = ds" "commonToNamespacedOptions ds = [] \<longleftrightarrow> ds = []"
  "namespacedMemberToCommon (commonToNamespacedMember d) = d" "commonToNamespacedMember (namespacedMemberToCommon m) = m"
  by (simp_all only: namespacedOptionsToCommon_def commonToNamespacedOptions_def conv_simps map_filter_Some
      namespacedMemberToCommon_def commonToNamespacedMember_def)
    (auto simp: comp_def intro!: map_idI split: option.split)

lemma template_member_fill [simp]:
  "commonToNamespacedMember (fill (namespacedMemberToCommon m) d) = fill m (commonToNamespacedMember d)"
  "fill (namespacedMemberToCommon m) d = namespacedMemberToCommon m \<longleftrightarrow> fill m (commonToNamespacedMember d) = m"
  by (cases m; cases d; simp add: namespacedMemberToCommon_def commonToNamespacedMember_def)+

lemma RangeTemplate_late_simps [simp]:
  "RangeTemplate_lateOptions (RangeTemplate_latePart p os d) = os" "RangeTemplate_lateMember (RangeTemplate_latePart p os d) = d"
  by (simp_all add: RangeTemplate_lateOptions_def RangeTemplate_lateMember_def RangeTemplate_latePart_def)

definition RangeTemplate_keeps :: "RangeTemplateParameters \<Rightarrow> RangeTemplateParameters \<Rightarrow> bool" where
  "RangeTemplate_keeps p p' \<longleftrightarrow>
     keeps_set (rtp_Comment p) (rtp_Comment p') \<and>
     keeps_attrs (rtp_ExtAttrs p) (rtp_ExtAttrs p') \<and>
     (namespacedOptionsToCommon (rtp_Options p) = [] \<or> namespacedOptionsToCommon (rtp_Options p') = namespacedOptionsToCommon (rtp_Options p)) \<and>
     keeps_set (rtp_UseOptions p) (rtp_UseOptions p') \<and>
     (rtp_ServerAssociationType p = [] \<or> rtp_ServerAssociationType p' = rtp_ServerAssociationType p) \<and>
     keeps_set (rtp_FailoverAssociation p) (rtp_FailoverAssociation p') \<and>
     keeps_set (rtp_Member p) (rtp_Member p') \<and>
     keeps_set (rtp_CloudApiCompatible p) (rtp_CloudApiCompatible p')"

definition RangeTemplate_get :: "RangeTemplateCR \<Rightarrow> RangeTemplateParameters" where
  "RangeTemplate_get cr = rt_ForProvider cr"

definition RangeTemplate_put :: "RangeTemplateCR \<Rightarrow> RangeTemplateParameters \<Rightarrow> RangeTemplateCR" where
  "RangeTemplate_put cr p = cr\<lparr>rt_ForProvider := p\<rparr>"

definition RangeTemplate_status :: "RangetemplateObj \<Rightarrow> RangeTemplateCR \<Rightarrow> RangeTemplateCR" where
  "RangeTemplate_status rec cr =
     (let o1 = observeFromRangeTemplate (rtr_Ref rec) rec; p = rt_ForProvider cr in
      cr\<lparr>rt_AtProvider :=
        \<lparr>rts_ID = rto_ID o1, rts_Name = rto_Name o1, rts_NumberOfAddresses = rto_NumberOfAddresses
        o1, rts_Offset = rto_Offset o1, rts_Comment = rto_Comment o1, rts_ExtAttrs = rto_ExtAttrs
        o1, rts_Options = commonToNamespacedOptions (rto_Options o1), rts_UseOptions = rto_UseOptions o1,
        rts_ServerAssociationType = rto_ServerAssociationType o1, rts_FailoverAssociation =
        rto_FailoverAssociation o1, rts_Member = commonToNamespacedMember (rto_Member o1),
        rts_CloudApiCompatible = rto_CloudApiCompatible o1, rts_Ref = rto_Ref o1\<rparr>\<rparr>)"

definition RangeTemplate_valid :: "RangeTemplateCR \<Rightarrow> goerr option" where
  "RangeTemplate_valid cr = (let p = rt_ForProvider cr; uid = mo_uid cr in if trim_space uid = [] then Some (TextError RangeTemplate_errEmptyUID) else None)"

lemma RangeTemplate_lateInitialize_eq:
  "RangeTemplate_lateInitialize (comment, extAttrs, options, useOptions, serverAssociationType, failoverAssociation,
      member, cloudApiCompatible) rec =
     (let comment1 = fill comment (ptrIfSet (rtr_Comment rec));
          extAttrs1 = fill_map extAttrs (userAttrs (rtr_Ea rec));
          useOptions1 = fill useOptions (rtr_UseOptions rec);
          options1 = (if boolOrFalse useOptions1 then fill_list options (dhcpOptionsToCommon (rtr_Options rec)) else options);
          serverAssociationType1 = fill_list serverAssociationType (rtr_ServerAssociationType rec);
          failoverAssociation1 = fill failoverAssociation (ptrIfSet (rtr_FailoverAssociation rec));
          member1 = fill member (dhcpMemberToCommon (rtr_Member rec));
          cloudApiCompatible1 = fill cloudApiCompatible (rtr_CloudApiCompatible rec)
      in ((comment1, extAttrs1, options1, useOptions1, serverAssociationType1, failoverAssociation1, member1,
          cloudApiCompatible1), (comment1, extAttrs1, options1, useOptions1, serverAssociationType1, failoverAssociation1,
          member1, cloudApiCompatible1) \<noteq> (comment, extAttrs, options, useOptions, serverAssociationType,
          failoverAssociation, member, cloudApiCompatible)))"
  by (simp only: RangeTemplate_lateInitialize_def userAttrs_def Let_def case_prod_conv template_lateInit_eqs
      template_guarded_late prod.inject simp_thms de_Morgan_conj disj_ac)

lemma RangeTemplate_setLate_latePart [simp]: "RangeTemplate_setLate p (RangeTemplate_latePart p options member) = p"
  by (simp add: RangeTemplate_setLate_def RangeTemplate_latePart_def)

lemma RangeTemplate_CR_commute: "cr\<lparr>rt_AtProvider := a, rt_ForProvider := p\<rparr> = cr\<lparr>rt_ForProvider
    := p, rt_AtProvider := a\<rparr>"
  by simp

lemma RangeTemplate_lateInitialize_flag: "snd (RangeTemplate_lateInitialize l rec) \<longleftrightarrow> fst (RangeTemplate_lateInitialize l rec) \<noteq> l"
  by (cases l; cases "snd (snd (snd (snd (snd (snd l)))))") (simp add: RangeTemplate_lateInitialize_eq Let_def)

lemma RangeTemplate_backfill_eq:
  "RangeTemplate_backfill p rec =
     (let useOptions1 = fill (rtp_UseOptions p) (rtr_UseOptions rec);
          options = namespacedOptionsToCommon (rtp_Options p);
          options1 = (if boolOrFalse useOptions1 then fill_list options (dhcpOptionsToCommon (rtr_Options rec)) else options);
          p1 = p\<lparr>rtp_Comment := fill (rtp_Comment p) (ptrIfSet (rtr_Comment rec)),
                 rtp_ExtAttrs := fill_map (rtp_ExtAttrs p) (userAttrs (rtr_Ea rec)),
                 rtp_UseOptions := useOptions1,
                 rtp_ServerAssociationType := fill_list (rtp_ServerAssociationType p) (rtr_ServerAssociationType rec),
                 rtp_FailoverAssociation := fill (rtp_FailoverAssociation p) (ptrIfSet (rtr_FailoverAssociation rec)),
                 rtp_Member := fill (rtp_Member p) (commonToNamespacedMember (dhcpMemberToCommon (rtr_Member rec))),
                 rtp_CloudApiCompatible := fill (rtp_CloudApiCompatible p) (rtr_CloudApiCompatible rec)\<rparr>;
          changed = (p1 \<noteq> p \<or> options1 \<noteq> options)
      in (if changed then p1\<lparr>rtp_Options := commonToNamespacedOptions options1\<rparr> else p, changed))"
  by (cases p)
    (simp add: RangeTemplate_backfill_def RangeTemplate_latePart_def RangeTemplate_setLate_def
      RangeTemplate_lateInitialize_eq Let_def RangeTemplate_lateOptions_def RangeTemplate_lateMember_def; blast)

text \<open>The fields after a back-fill.\<close>

lemma RangeTemplate_backfilled:
  fixes p :: RangeTemplateParameters and rec :: RangetemplateObj
  defines "p' \<equiv> fst (RangeTemplate_backfill p rec)"
  shows "rtp_Name p' = rtp_Name p" "rtp_NumberOfAddresses p' = rtp_NumberOfAddresses p" "rtp_Offset p' = rtp_Offset p"
    "rtp_Comment p' = fill (rtp_Comment p) (ptrIfSet (rtr_Comment rec))"
    "rtp_ExtAttrs p' = fill_map (rtp_ExtAttrs p) (userAttrs (rtr_Ea rec))"
    "rtp_UseOptions p' = fill (rtp_UseOptions p) (rtr_UseOptions rec)"
    "rtp_ServerAssociationType p' = fill_list (rtp_ServerAssociationType p) (rtr_ServerAssociationType rec)"
    "rtp_FailoverAssociation p' = fill (rtp_FailoverAssociation p) (ptrIfSet (rtr_FailoverAssociation rec))"
    "rtp_Member p' = fill (rtp_Member p) (commonToNamespacedMember (dhcpMemberToCommon (rtr_Member rec)))"
    "rtp_CloudApiCompatible p' = fill (rtp_CloudApiCompatible p) (rtr_CloudApiCompatible rec)"
    "namespacedOptionsToCommon (rtp_Options p') = (if boolOrFalse (fill (rtp_UseOptions p) (rtr_UseOptions rec))
       then fill_list (namespacedOptionsToCommon (rtp_Options p)) (dhcpOptionsToCommon (rtr_Options rec))
       else namespacedOptionsToCommon (rtp_Options p))"
  by (cases p; simp add: p'_def RangeTemplate_backfill_eq Let_def)+

lemma RangeTemplate_backfill_id:
  assumes "fill (rtp_Comment p) (ptrIfSet (rtr_Comment rec)) = rtp_Comment p"
    and "fill_map (rtp_ExtAttrs p) (userAttrs (rtr_Ea rec)) = rtp_ExtAttrs p"
    and "fill (rtp_UseOptions p) (rtr_UseOptions rec) = rtp_UseOptions p"
    and "fill_list (rtp_ServerAssociationType p) (rtr_ServerAssociationType rec) = rtp_ServerAssociationType p"
    and "fill (rtp_FailoverAssociation p) (ptrIfSet (rtr_FailoverAssociation rec)) = rtp_FailoverAssociation p"
    and "fill (rtp_Member p) (commonToNamespacedMember (dhcpMemberToCommon (rtr_Member rec))) = rtp_Member p"
    and "fill (rtp_CloudApiCompatible p) (rtr_CloudApiCompatible rec) = rtp_CloudApiCompatible p"
    and "boolOrFalse (rtp_UseOptions p) \<Longrightarrow> fill_list (namespacedOptionsToCommon (rtp_Options p))
       (dhcpOptionsToCommon (rtr_Options rec)) = namespacedOptionsToCommon (rtp_Options p)"
  shows "RangeTemplate_backfill p rec = (p, False)"
  using assms by (cases p) (simp add: RangeTemplate_backfill_eq Let_def)

lemma RangeTemplate_backfill_flag: "snd (RangeTemplate_backfill p rec) \<longleftrightarrow> fst (RangeTemplate_backfill p rec) \<noteq> p"
proof
  assume c: "snd (RangeTemplate_backfill p rec)"
  show "fst (RangeTemplate_backfill p rec) \<noteq> p"
  proof
    assume eq: "fst (RangeTemplate_backfill p rec) = p"
    note f = RangeTemplate_backfilled [of p rec, unfolded eq, symmetric]
    have "RangeTemplate_backfill p rec = (p, False)"
    proof (rule RangeTemplate_backfill_id)
      show "fill_list (namespacedOptionsToCommon (rtp_Options p)) (dhcpOptionsToCommon (rtr_Options rec))
          = namespacedOptionsToCommon (rtp_Options p)" if "boolOrFalse (rtp_UseOptions p)"
        using f(11) that by (simp only: f(6) if_True)
    qed (rule f)+
    with c show False by simp
  qed
next
  assume "fst (RangeTemplate_backfill p rec) \<noteq> p"
  then show "snd (RangeTemplate_backfill p rec)"
    by (rule contrapos_np) (simp only: RangeTemplate_backfill_eq Let_def fst_conv snd_conv if_False not_False_eq_True)
qed

lemma RangeTemplate_utd_iff:
  "RangeTemplate_utd cr rec \<longleftrightarrow>
     (let p = rt_ForProvider cr in
      strOrEmpty (rtp_Name p) = strOrEmpty (rtr_Name rec) \<and>
      uint32OrZero (rtp_NumberOfAddresses p) = uint32PtrOrZero (rtr_NumberOfAddresses rec) \<and>
      uint32OrZero (rtp_Offset p) = uint32PtrOrZero (rtr_Offset rec) \<and>
      strOrEmpty (rtp_Comment p) = strOrEmpty (rtr_Comment rec) \<and>
      rtp_ExtAttrs p = userAttrs (rtr_Ea rec) \<and>
      boolOrFalse (rtp_UseOptions p) = boolPtrOrFalse (rtr_UseOptions rec) \<and>
      (boolOrFalse (rtp_UseOptions p) \<longrightarrow> optionsEqual (namespacedOptionsToCommon (rtp_Options p))
          (dhcpOptionsToCommon (rtr_Options rec))) \<and>
      rtp_ServerAssociationType p = rtr_ServerAssociationType rec \<and>
      strOrEmpty (rtp_FailoverAssociation p) = strOrEmpty (rtr_FailoverAssociation rec) \<and>
      memberEqual (namespacedMemberToCommon (rtp_Member p)) (dhcpMemberToCommon (rtr_Member rec)) \<and>
      boolPtrOrFalse (rtr_CloudApiCompatible rec))"
  by (auto simp: RangeTemplate_utd_def RangeTemplate_isUpToDate_def Let_def extAttrsEqual_iff simp flip: userAttrs_def)

lemma template_fill_agrees [simp]:
  "optionsEqual a b \<Longrightarrow> optionsEqual (fill_list a b) b"
  "memberEqual (namespacedMemberToCommon m) d \<Longrightarrow> memberEqual (namespacedMemberToCommon (fill m (commonToNamespacedMember d))) d"
  "fill_list t t = t"
  by (auto simp: fill_list_def fill_def)

interpretation rangetemplate_late: late_lens RangeTemplate_backfill RangeTemplate_keeps RangeTemplate_get RangeTemplate_put RangeTemplate_utd
proof
  fix l l' :: RangeTemplateParameters and rec :: RangetemplateObj and cr :: RangeTemplateCR
  show "RangeTemplate_backfill (fst (RangeTemplate_backfill l rec)) rec = (fst (RangeTemplate_backfill l rec), False)"
    by (rule RangeTemplate_backfill_id) (simp_all add: RangeTemplate_backfilled)
  show "snd (RangeTemplate_backfill l rec) \<longleftrightarrow> fst (RangeTemplate_backfill l rec) \<noteq> l"
    by (rule RangeTemplate_backfill_flag)
  show "RangeTemplate_keeps l (fst (RangeTemplate_backfill l rec))"
    by (simp add: RangeTemplate_backfilled Let_def RangeTemplate_keeps_def fill_list_def)
  show "RangeTemplate_get (RangeTemplate_put cr l) = l" "RangeTemplate_put cr (RangeTemplate_get cr) = cr" "RangeTemplate_put (RangeTemplate_put cr l) l' = RangeTemplate_put cr l'"
    by (simp_all add: RangeTemplate_get_def RangeTemplate_put_def)
  show "RangeTemplate_utd (RangeTemplate_put cr (fst (RangeTemplate_backfill (RangeTemplate_get cr) rec))) rec" if "RangeTemplate_utd cr rec"
    using that
    by (simp add: RangeTemplate_utd_iff RangeTemplate_get_def RangeTemplate_put_def RangeTemplate_backfilled Let_def)
qed

lemma RangetemplateObj_type_simps [simp]:
  "ot_name RangetemplateObj_type = ''rangetemplate''" "ref_ea_shape RangetemplateObj_type"
  "stamped RangetemplateObj_type rec = eaValue (rtr_Ea rec) EAKey"
  by (simp_all add: ref_ea_shape_def stamped_def RangetemplateObj_type_def reflectRangetemplateObj_def getRef_def getEA_def)

lemma deleteRangeTemplate_issue: "deleteRangeTemplate env = issue_delete env"
  by (intro ext) (simp only: deleteRangeTemplate_def issue_delete_def)

lemma createRangeTemplate_valid:
  assumes "RangeTemplate_valid cr = None"
  shows "createRangeTemplate env (rt_ForProvider cr) (namespacedOptionsToCommon (rtp_Options (rt_ForProvider cr)))
      (namespacedMemberToCommon (rtp_Member (rt_ForProvider cr))) (mo_uid cr) w = mutate_object env
      (rangetemplate_create_request (rt_ForProvider cr) (mo_uid cr)) w"
  using assms
  by (auto simp: createRangeTemplate_def rangetemplate_create_request_def RangeTemplate_valid_def Let_def split: if_splits option.splits)


lemma RangeTemplate_Observe_shape:
  "namespaced_RangeTemplate_Observe env ep cr w =
     ladder_observe_shape (ladder_observe_error errObserveRangeTemplate) (Resolve env RangetemplateObj_type)
         (ensureIdentityPrerequisite env ep)
       (\<lambda>r. r \<noteq> []) (\<lambda>r. True) (lift_late RangeTemplate_backfill RangeTemplate_get
           RangeTemplate_put) RangeTemplate_status RangeTemplate_utd rtr_Ref cr w"
proof -
  have same: "cr\<lparr>rt_ForProvider := RangeTemplate_setLate (rt_ForProvider cr) (RangeTemplate_latePart
      (rt_ForProvider cr) (namespacedOptionsToCommon (rtp_Options (rt_ForProvider cr))) (namespacedMemberToCommon
      (rtp_Member (rt_ForProvider cr))))\<rparr> = cr"
    by (simp add: RangeTemplate_latePart_def RangeTemplate_setLate_def)
  obtain r w1 where r: "Resolve env RangetemplateObj_type (observeRefFor (mo_name cr) (GetExternalName cr)) (mo_uid
      cr) w = (r, w1)"
    by (cases "Resolve env RangetemplateObj_type (observeRefFor (mo_name cr) (GetExternalName cr)) (mo_uid cr) w")
  obtain e w2 where e: "ensureIdentityPrerequisite env ep w1 = (e, w2)"
    by (cases "ensureIdentityPrerequisite env ep w1")
  note defs = namespaced_RangeTemplate_Observe_def observeRangeTemplate_def resolveRangeTemplateIdentity_def ladder_observe_shape_def ladder_observe_error_def
  show ?thesis
  proof (cases r)
    case (Inl err)
    then show ?thesis
      by (cases e) (simp_all add: defs Let_def r e same)
  next
    case (Inr a)
    obtain obj out where a: "a = (obj, out)" by (cases a)
    show ?thesis
    proof (cases obj)
      case None
      then show ?thesis
        by (simp add: defs Let_def r Inr a same RangeTemplate_notFoundResult_def)
    next
      case (Some rec)
      obtain l c where lc: "RangeTemplate_lateInitialize (RangeTemplate_latePart (rt_ForProvider cr)
          (namespacedOptionsToCommon (rtp_Options (rt_ForProvider cr))) (namespacedMemberToCommon (rtp_Member
          (rt_ForProvider cr)))) rec = (l, c)"
        by (cases "RangeTemplate_lateInitialize (RangeTemplate_latePart (rt_ForProvider cr) (namespacedOptionsToCommon
            (rtp_Options (rt_ForProvider cr))) (namespacedMemberToCommon (rtp_Member (rt_ForProvider cr)))) rec")
      have nc: "\<not> c \<Longrightarrow> l = RangeTemplate_latePart (rt_ForProvider cr) (namespacedOptionsToCommon
          (rtp_Options (rt_ForProvider cr))) (namespacedMemberToCommon (rtp_Member (rt_ForProvider cr)))"
        using RangeTemplate_lateInitialize_flag [of "RangeTemplate_latePart (rt_ForProvider cr)
            (namespacedOptionsToCommon (rtp_Options (rt_ForProvider cr))) (namespacedMemberToCommon (rtp_Member
            (rt_ForProvider cr)))" rec] lc by simp
      show ?thesis
        using nc same
        by (cases c) (simp_all add: defs Let_def r Inr a Some lc lift_late_def RangeTemplate_get_def RangeTemplate_put_def
            RangeTemplate_status_def RangeTemplate_utd_def RangeTemplate_notFoundResult_def observeFromRangeTemplate_def RangeTemplate_backfill_def RangeTemplate_CR_commute
            RangeTemplate_late_simps template_conv)
    qed
  qed
qed

lemma RangeTemplate_Create_shape:
  "namespaced_RangeTemplate_Create env ep cr w =
     ladder_create_shape errCreateRangeTemplate RangeTemplate_valid (ensureIdentityPrerequisite env ep) (mutate_object env)
       (\<lambda>cr. rangetemplate_create_request (rt_ForProvider cr) (mo_uid cr)) rtr_Ref cr w"
proof -
  obtain e w1 where e: "ensureIdentityPrerequisite env ep w = (e, w1)"
    by (cases "ensureIdentityPrerequisite env ep w")
  have v: "(let p = rt_ForProvider cr; uid = mo_uid cr in if trim_space uid = [] then Some (TextError RangeTemplate_errEmptyUID) else None) = RangeTemplate_valid cr"
    by (simp only: RangeTemplate_valid_def)
  show ?thesis
  proof (cases "RangeTemplate_valid cr")
    case None
    then show ?thesis
      using createRangeTemplate_valid [OF None, of env w1] v
      by (cases e) (simp_all add: namespaced_RangeTemplate_Create_def ladder_create_shape_def Let_def e split: if_splits)
  next
    case (Some err)
    then show ?thesis
      using v by (simp add: namespaced_RangeTemplate_Create_def ladder_create_shape_def Let_def split: if_splits)
  qed
qed

lemma RangeTemplate_Update_shape:
  "namespaced_RangeTemplate_Update env ep cr w =
     ladder_update_shape errUpdateRangeTemplate RangeTemplate_errEmptyUID env (ensureIdentityPrerequisite env ep)
       (\<lambda>cr. rangetemplate_update_request (GetExternalName cr) (rt_ForProvider cr) (mo_uid cr)) rtr_Ref cr w"
proof -
  obtain e w1 where e: "ensureIdentityPrerequisite env ep w = (e, w1)"
    by (cases "ensureIdentityPrerequisite env ep w")
  show ?thesis
    by (cases e; cases "wapi_mutate env (calls w1) (rangetemplate_update_request (GetExternalName cr) (rt_ForProvider
        cr) (mo_uid cr))")
      (auto simp: namespaced_RangeTemplate_Update_def ladder_update_shape_def updateRangeTemplate_def rangetemplate_update_request_def
        Let_def e mutate_object_def)
qed

lemma RangeTemplate_Delete_shape:
  "namespaced_RangeTemplate_Delete env ep cr w =
     ladder_delete_shape errDeleteRangeTemplate errDeleteUnverifiedOwnership nilDereference
       (Resolve env RangetemplateObj_type (GetExternalName cr) (mo_uid cr)) (ensureIdentityPrerequisite env ep)
       (issue_delete env) rtr_Ref w"
proof -
  have "namespaced_RangeTemplate_Delete env ep cr w = deleteRangeTemplateIdentity env ep (GetExternalName cr) (mo_uid cr) w"
    by (simp add: namespaced_RangeTemplate_Delete_def Let_def split: prod.split option.split)
  then show ?thesis
    by (simp only: deleteRangeTemplateIdentity_def ladder_delete_shape_def resolveRangeTemplateIdentity_def deleteRangeTemplate_issue)
qed

lemma RangeTemplate_OptionsToCommon_scopes: "clusterOptionsToCommon = namespacedOptionsToCommon"
  by (intro ext) (simp only: clusterOptionsToCommon_def namespacedOptionsToCommon_def)

lemma RangeTemplate_commonToOptions_scopes: "commonToClusterOptions = commonToNamespacedOptions"
  by (intro ext) (simp only: commonToClusterOptions_def commonToNamespacedOptions_def RangeTemplate_OptionsToCommon_scopes)

lemma RangeTemplate_MemberToCommon_scopes: "clusterMemberToCommon = namespacedMemberToCommon"
  by (intro ext) (simp only: clusterMemberToCommon_def namespacedMemberToCommon_def
      RangeTemplate_OptionsToCommon_scopes RangeTemplate_commonToOptions_scopes)

lemma RangeTemplate_commonToMember_scopes: "commonToClusterMember = commonToNamespacedMember"
  by (intro ext) (simp only: commonToClusterMember_def commonToNamespacedMember_def
      RangeTemplate_OptionsToCommon_scopes RangeTemplate_commonToOptions_scopes RangeTemplate_MemberToCommon_scopes)

lemma RangeTemplate_scopes:
  "cluster_RangeTemplate_Observe = namespaced_RangeTemplate_Observe" "cluster_RangeTemplate_Create = namespaced_RangeTemplate_Create"
  "cluster_RangeTemplate_Update = namespaced_RangeTemplate_Update" "cluster_RangeTemplate_Delete = namespaced_RangeTemplate_Delete"
  by (intro ext, simp only: cluster_RangeTemplate_Observe_def namespaced_RangeTemplate_Observe_def
      cluster_RangeTemplate_Create_def
      namespaced_RangeTemplate_Create_def cluster_RangeTemplate_Update_def namespaced_RangeTemplate_Update_def
      cluster_RangeTemplate_Delete_def namespaced_RangeTemplate_Delete_def RangeTemplate_OptionsToCommon_scopes RangeTemplate_commonToOptions_scopes RangeTemplate_MemberToCommon_scopes RangeTemplate_commonToMember_scopes)+

lemma rangetemplate_written_utd:
  assumes "RangeTemplate_spec_ok cr"
    and "rangetemplate_holds (rangetemplate_create_request (rt_ForProvider cr) (mo_uid cr)) rec \<and>
        RangeTemplate_valid cr = None \<or>
      rangetemplate_holds (rangetemplate_update_request (GetExternalName cr) (rt_ForProvider cr) (mo_uid cr)) rec"
  shows "RangeTemplate_utd (fst (lift_late RangeTemplate_backfill RangeTemplate_get RangeTemplate_put cr rec)) rec \<and>
    eaValue (rtr_Ea rec) EAKey = Some (mo_uid cr)"
proof -
  let ?p = "rt_ForProvider cr"
  note reqs = rangetemplate_create_request_def rangetemplate_update_request_def
  have ok: "reserved_free (rtp_ExtAttrs ?p)"
    using assms(1) by (simp add: RangeTemplate_spec_ok_def Let_def)
  have ea: "rtr_Ea rec = Stamp (buildEA (rtp_ExtAttrs ?p)) (mo_uid cr)"
    using assms(2) by (elim disjE) (simp_all add: reqs)
  have fields: "strOrEmpty (rtp_Name ?p) = strOrEmpty (rtr_Name rec)"
    "ttlOrZero (rtp_NumberOfAddresses ?p) = ttlOrZero (rtr_NumberOfAddresses rec)"
    "ttlOrZero (rtp_Offset ?p) = ttlOrZero (rtr_Offset rec)"
    "strOrEmpty (rtp_Comment ?p) = strOrEmpty (rtr_Comment rec)"
    "boolOrFalse (rtp_UseOptions ?p) = boolOrFalse (rtr_UseOptions rec)"
    "strOrEmpty (rtp_FailoverAssociation ?p) = strOrEmpty (rtr_FailoverAssociation rec)"
    "boolOrFalse (rtr_CloudApiCompatible rec)"
    using assms(2) by (elim disjE; simp add: reqs wapiCloudAPICompatible_def)+
  have options: "boolOrFalse (rtr_UseOptions rec) \<Longrightarrow> rtr_Options rec = optionsToSDK (namespacedOptionsToCommon (rtp_Options ?p))"
    using assms(2) by (elim disjE; simp add: reqs buildDhcpOptions_eq)
  have options_sent: "boolOrFalse (rtr_UseOptions rec) \<Longrightarrow> optionsEqual
      (fill_list (namespacedOptionsToCommon (rtp_Options ?p)) (dhcpOptionsToCommon (rtr_Options rec)))
          (dhcpOptionsToCommon (rtr_Options rec))"
    using options by (simp add: fill_list_def)
  have "rtp_ServerAssociationType ?p \<noteq> [] \<Longrightarrow> rtr_ServerAssociationType rec = rtp_ServerAssociationType ?p"
    using assms(2) by (elim disjE; simp add: reqs)
  then have sat: "fill_list (rtp_ServerAssociationType ?p) (rtr_ServerAssociationType rec) = rtr_ServerAssociationType rec"
    by (auto simp: fill_list_def)
  have "namespacedMemberToCommon (rtp_Member ?p) \<noteq> None \<Longrightarrow> rtr_Member rec = buildDhcpMember (namespacedMemberToCommon (rtp_Member ?p))"
    using assms(2) by (elim disjE; auto simp: reqs buildDhcpMember_def)
  then have member: "memberEqual (namespacedMemberToCommon (fill (rtp_Member ?p)
      (commonToNamespacedMember (dhcpMemberToCommon (rtr_Member rec))))) (dhcpMemberToCommon (rtr_Member rec))"
    by (cases "rtp_Member ?p") (simp, simp add: namespacedMemberToCommon_def)
  have "userAttrs (rtr_Ea rec) = rtp_ExtAttrs ?p"
    using ok by (simp add: ea userAttrs_buildEA reserved_free_fmdrop)
  with fields options have "RangeTemplate_utd (fst (lift_late RangeTemplate_backfill RangeTemplate_get RangeTemplate_put cr rec)) rec"
    by (simp add: rangetemplate_late.lifted_simps RangeTemplate_get_def RangeTemplate_put_def RangeTemplate_backfilled
        RangeTemplate_utd_iff Let_def sat member options_sent)
  with ea show ?thesis by simp
qed

interpretation rangetemplate: refreshing_client "lift_late RangeTemplate_backfill RangeTemplate_get RangeTemplate_put" RangeTemplate_utd
  "\<lambda>s s'. RangeTemplate_keeps (RangeTemplate_get s) (RangeTemplate_get s')"
  RangetemplateObj_type rtr_Ref RangeTemplate_status RangeTemplate_valid
  "\<lambda>cr. rangetemplate_create_request (rt_ForProvider cr) (mo_uid cr)"
  "\<lambda>cr. rangetemplate_update_request (GetExternalName cr) (rt_ForProvider cr) (mo_uid cr)"
  rangetemplate_req_ea rangetemplate_holds RangeTemplate_spec_ok
  "ladder_observe_error errObserveRangeTemplate" "\<lambda>r. r \<noteq> []" "\<lambda>r. True" rtr_Ref errCreateRangeTemplate errUpdateRangeTemplate errDeleteRangeTemplate RangeTemplate_errEmptyUID
  namespaced_RangeTemplate_Observe namespaced_RangeTemplate_Create namespaced_RangeTemplate_Update namespaced_RangeTemplate_Delete
proof (unfold_locales, goal_cases)
  case (6 cr)
  then show ?case by (auto simp: RangeTemplate_valid_def Let_def split: if_splits)
next
  case (13 n cr rec)
  have "RangeTemplate_get (SetExternalName n cr) = RangeTemplate_get cr"
    "RangeTemplate_put (SetExternalName n cr) l = SetExternalName n (RangeTemplate_put cr l)" for l
    by (simp_all add: RangeTemplate_get_def RangeTemplate_put_def SetExternalName_def)
  then show ?case
    by (simp add: rangetemplate_late.lifted_simps RangeTemplate_utd_def SetExternalName_def)
next
  case (14 cr rec)
  then show ?case using rangetemplate_written_utd [of cr rec] by simp
next
  case (15 cr rec)
  then show ?case using rangetemplate_written_utd [of cr rec] by simp
qed (simp_all add: RangeTemplate_Observe_shape RangeTemplate_Create_shape RangeTemplate_Update_shape RangeTemplate_Delete_shape
    rangetemplate_late.lifted_simps RangeTemplate_put_def RangeTemplate_status_def Let_def
    rangetemplate_create_request_def rangetemplate_update_request_def)

end
