(* ===== verification/DTCPool.thy ===== *)
theory DTCPool
  imports DTC
begin

text \<open>
  internal/controller/dtcpool: the DTCPool controller (pools of load-balanced servers), a client of the
  identity ladder. It builds the object itself and calls CreateObject and UpdateObject. ibclient.DtcPool
  is the record DtcPoolObj here; consolidated monitors and health are reported only.
\<close>

section \<open>Data\<close>

text \<open>
  ibclient's server link, monitor reference, dynamic ratio and consolidated monitor health,
  the package's own copies and the CRD's. The CRD's serverRef and serverSelector are resolved
  into server before the controller runs, and it does not read them.
\<close>

record DtcServerLink =
  dsl_Server :: string
  dsl_Ratio :: "32 word"

record serverLink =
  svl_Server :: "string option"
  svl_Ratio :: "32 word option"

record DTCPoolServerLink =
  csl_Server :: "string option"
  csl_Ratio :: "32 word option"

record DtcMonitorHttp =
  dmh_Ref :: string

record poolMonitor =
  pom_Monitor :: "string option"

record DTCPoolMonitor =
  cpm_Monitor :: "string option"

record SettingDynamicratio =
  sdr_Method :: string
  sdr_Monitor :: string
  sdr_MonitorMetric :: string
  sdr_MonitorWeighing :: string
  sdr_InvertMonitorMetric :: bool

record dynRatio =
  dyn_Method :: "string option"
  dyn_Monitor :: "string option"
  dyn_MonitorMetric :: "string option"
  dyn_MonitorWeighing :: "string option"
  dyn_InvertMonitorMetric :: "bool option"

record DTCPoolDynamicRatio =
  cdr_Method :: "string option"
  cdr_Monitor :: "string option"
  cdr_MonitorMetric :: "string option"
  cdr_MonitorWeighing :: "string option"
  cdr_InvertMonitorMetric :: "bool option"

record DtcPoolConsolidatedMonitorHealth =
  dcm_Members :: "string list"
  dcm_Monitor :: string
  dcm_Availability :: string
  dcm_FullHealthCommunication :: bool

record consolidatedMonitorHealth =
  cmh_Members :: "string list"
  cmh_Monitor :: "string option"
  cmh_Availability :: "string option"
  cmh_FullHealthCommunication :: "bool option"

record DTCPoolConsolidatedMonitorHealth =
  ccm_Members :: "string list"
  ccm_Monitor :: "string option"
  ccm_Availability :: "string option"
  ccm_FullHealthCommunication :: "bool option"

definition lbAlternateMethodUnset :: string where "lbAlternateMethodUnset = ''NONE''"

definition buildServers :: "serverLink list \<Rightarrow> DtcServerLink option list" where
  "buildServers servers =
     (if servers = [] then []
      else map (\<lambda>s. Some \<lparr>dsl_Server = strOrEmpty (svl_Server s), dsl_Ratio = uint32OrZero (svl_Ratio
          s)\<rparr>) servers)"

definition serverLinksFromSDK :: "DtcServerLink option list \<Rightarrow> serverLink list" where
  "serverLinksFromSDK servers =
     (if servers = [] then []
      else List.map_filter (map_option (\<lambda>s. \<lparr>svl_Server = ptrIfNonEmpty (dsl_Server s),
             svl_Ratio = (if dsl_Ratio s \<noteq> 0 then Some (dsl_Ratio s) else None)\<rparr>)) servers)"

fun serversLoop :: "serverLink list \<Rightarrow> serverLink list \<Rightarrow> bool" where
  "serversLoop (x # a) (y # b) =
     (if strOrEmpty (svl_Server x) \<noteq> strOrEmpty (svl_Server y) then False
      else if uint32OrZero (svl_Ratio x) \<noteq> uint32OrZero (svl_Ratio y) then False
      else serversLoop a b)"
| "serversLoop _ _ = True"

definition serversEqual :: "serverLink list \<Rightarrow> serverLink list \<Rightarrow> bool" where
  "serversEqual a b = (if length a \<noteq> length b then False else serversLoop a b)"

definition buildPoolMonitors :: "poolMonitor list \<Rightarrow> DtcMonitorHttp option list" where
  "buildPoolMonitors monitors =
     (if monitors = [] then [] else map (\<lambda>m. Some \<lparr>dmh_Ref = strOrEmpty (pom_Monitor m)\<rparr>) monitors)"

definition monitorsFromSDK :: "DtcMonitorHttp option list \<Rightarrow> poolMonitor list" where
  "monitorsFromSDK monitors =
     (if monitors = [] then []
      else List.map_filter (map_option (\<lambda>m. \<lparr>pom_Monitor = ptrIfNonEmpty (dmh_Ref m)\<rparr>)) monitors)"

fun poolMonitorsLoop :: "poolMonitor list \<Rightarrow> poolMonitor list \<Rightarrow> bool" where
  "poolMonitorsLoop (x # a) (y # b) =
     (if strOrEmpty (pom_Monitor x) \<noteq> strOrEmpty (pom_Monitor y) then False else poolMonitorsLoop a b)"
| "poolMonitorsLoop _ _ = True"

definition poolMonitorsEqual :: "poolMonitor list \<Rightarrow> poolMonitor list \<Rightarrow> bool" where
  "poolMonitorsEqual a b = (if length a \<noteq> length b then False else poolMonitorsLoop a b)"

definition buildDynRatio :: "dynRatio option \<Rightarrow> SettingDynamicratio option" where
  "buildDynRatio d =
     (case d of
        None \<Rightarrow> None
      | Some r \<Rightarrow> Some \<lparr>sdr_Method = strOrEmpty (dyn_Method r), sdr_Monitor = strOrEmpty (dyn_Monitor r),
                        sdr_MonitorMetric = strOrEmpty (dyn_MonitorMetric r),
                        sdr_MonitorWeighing = strOrEmpty (dyn_MonitorWeighing r),
                        sdr_InvertMonitorMetric = boolOrFalse (dyn_InvertMonitorMetric r)\<rparr>)"

definition dynRatioFromSDK :: "SettingDynamicratio option \<Rightarrow> dynRatio option" where
  "dynRatioFromSDK d =
     (case d of
        None \<Rightarrow> None
      | Some r \<Rightarrow> Some \<lparr>dyn_Method = ptrIfNonEmpty (sdr_Method r), dyn_Monitor = ptrIfNonEmpty (sdr_Monitor r),
                        dyn_MonitorMetric = ptrIfNonEmpty (sdr_MonitorMetric r),
                        dyn_MonitorWeighing = ptrIfNonEmpty (sdr_MonitorWeighing r),
                        dyn_InvertMonitorMetric = (if sdr_InvertMonitorMetric r then Some True else None)\<rparr>)"

definition dynRatioEqual :: "dynRatio option \<Rightarrow> dynRatio option \<Rightarrow> bool" where
  "dynRatioEqual a b =
     (if a = None \<and> b = None then True
      else
        (let zero = \<lparr>dyn_Method = None, dyn_Monitor = None, dyn_MonitorMetric = None, dyn_MonitorWeighing =
            None,
                     dyn_InvertMonitorMetric = None\<rparr>;
             x = (case a of None \<Rightarrow> zero | Some r \<Rightarrow> r);
             y = (case b of None \<Rightarrow> zero | Some r \<Rightarrow> r)
         in strOrEmpty (dyn_Method x) = strOrEmpty (dyn_Method y) \<and>
            strOrEmpty (dyn_Monitor x) = strOrEmpty (dyn_Monitor y) \<and>
            strOrEmpty (dyn_MonitorMetric x) = strOrEmpty (dyn_MonitorMetric y) \<and>
            strOrEmpty (dyn_MonitorWeighing x) = strOrEmpty (dyn_MonitorWeighing y) \<and>
            boolOrFalse (dyn_InvertMonitorMetric x) = boolOrFalse (dyn_InvertMonitorMetric y)))"

definition consolidatedMonitorsFromSDK ::
  "DtcPoolConsolidatedMonitorHealth option list \<Rightarrow> consolidatedMonitorHealth list" where
  "consolidatedMonitorsFromSDK cms =
     (if cms = [] then []
      else List.map_filter (map_option (\<lambda>c. \<lparr>cmh_Members = dcm_Members c, cmh_Monitor = ptrIfNonEmpty
          (dcm_Monitor c),
             cmh_Availability = ptrIfNonEmpty (dcm_Availability c),
             cmh_FullHealthCommunication = (if dcm_FullHealthCommunication c then Some True else None)\<rparr>)) cms)"

text \<open>What the comparisons decide, and that what was sent is read back as equal.\<close>

lemma serversEqual_iff: "serversEqual a b \<longleftrightarrow> buildServers a = buildServers b"
proof -
  have "length a = length b \<Longrightarrow> serversLoop a b \<longleftrightarrow> buildServers a = buildServers b"
    by (induction a b rule: serversLoop.induct) (auto simp: buildServers_def)
  moreover have "buildServers a = buildServers b \<Longrightarrow> length a = length b"
    by (auto simp: buildServers_def dest: map_eq_imp_length_eq split: if_splits)
  ultimately show ?thesis by (auto simp: serversEqual_def)
qed

lemma buildServers_fromSDK: "None \<notin> set ss \<Longrightarrow> buildServers (serverLinksFromSDK ss) = ss"
proof -
  have "ttlOrZero (if r \<noteq> 0 then Some r else None) = r" for r by simp
  then show "None \<notin> set ss \<Longrightarrow> buildServers (serverLinksFromSDK ss) = ss"
    by (simp only: buildServers_def serverLinksFromSDK_def conv_simps)
      (simp add: map_filter_the comp_def map_the_idI [where f = "\<lambda>m. Some \<lparr>dsl_Server = dsl_Server m,
          dsl_Ratio = dsl_Ratio m\<rparr>"])
qed

lemma servers_roundtrip [simp]: "serversEqual ss (serverLinksFromSDK (buildServers ss))"
proof -
  have "None \<notin> set (buildServers ss)" by (auto simp: buildServers_def)
  then show ?thesis by (simp add: serversEqual_iff buildServers_fromSDK)
qed

lemma poolMonitorsEqual_iff: "poolMonitorsEqual a b \<longleftrightarrow> buildPoolMonitors a = buildPoolMonitors b"
proof -
  have "length a = length b \<Longrightarrow> poolMonitorsLoop a b \<longleftrightarrow> buildPoolMonitors a = buildPoolMonitors b"
    by (induction a b rule: poolMonitorsLoop.induct) (auto simp: buildPoolMonitors_def)
  moreover have "buildPoolMonitors a = buildPoolMonitors b \<Longrightarrow> length a = length b"
    by (auto simp: buildPoolMonitors_def dest: map_eq_imp_length_eq split: if_splits)
  ultimately show ?thesis by (auto simp: poolMonitorsEqual_def)
qed

lemma buildPoolMonitors_fromSDK: "None \<notin> set ms \<Longrightarrow> buildPoolMonitors (monitorsFromSDK ms) = ms"
  by (simp only: buildPoolMonitors_def monitorsFromSDK_def conv_simps)
    (simp add: map_filter_the comp_def map_the_idI [where f = "\<lambda>m. Some \<lparr>dmh_Ref = dmh_Ref m\<rparr>"])

lemma poolMonitors_roundtrip [simp]: "poolMonitorsEqual ms (monitorsFromSDK (buildPoolMonitors ms))"
proof -
  have "None \<notin> set (buildPoolMonitors ms)" by (auto simp: buildPoolMonitors_def)
  then show ?thesis by (simp add: poolMonitorsEqual_iff buildPoolMonitors_fromSDK)
qed

lemma buildDynRatio_None: "buildDynRatio d = None \<longleftrightarrow> d = None"
  by (simp add: buildDynRatio_def split: option.split)

lemma dynRatioEqual_refl [simp]: "dynRatioEqual d d"
  by (simp add: dynRatioEqual_def Let_def)

lemma dynRatio_roundtrip [simp]: "dynRatioEqual d (dynRatioFromSDK (buildDynRatio d))"
  by (cases d) (simp_all add: dynRatioEqual_def dynRatioFromSDK_def buildDynRatio_def Let_def boolOrFalse_def)

text \<open>ibclient.DtcPool, as the provider requests it.\<close>

record DtcPoolObj =
  dpr_Ref :: string
  dpr_Name :: "string option"
  dpr_LbPreferredMethod :: string
  dpr_LbAlternateMethod :: string
  dpr_Comment :: "string option"
  dpr_Servers :: "DtcServerLink option list"
  dpr_Availability :: string
  dpr_Quorum :: "32 word option"
  dpr_LbPreferredTopology :: "string option"
  dpr_LbDynamicRatioPreferred :: "SettingDynamicratio option"
  dpr_LbAlternateTopology :: "string option"
  dpr_LbDynamicRatioAlternate :: "SettingDynamicratio option"
  dpr_Monitors :: "DtcMonitorHttp option list"
  dpr_Disable :: "bool option"
  dpr_Ttl :: "32 word option"
  dpr_UseTtl :: "bool option"
  dpr_ConsolidatedMonitors :: "DtcPoolConsolidatedMonitorHealth option list"
  dpr_Health :: "DtcHealth option"
  dpr_Ea :: ea

definition emptyDtcPoolObj :: DtcPoolObj where
  "emptyDtcPoolObj = \<lparr>dpr_Ref = [], dpr_Name = None, dpr_LbPreferredMethod = [], dpr_LbAlternateMethod = [],
      dpr_Comment = None, dpr_Servers = [], dpr_Availability = [], dpr_Quorum = None, dpr_LbPreferredTopology = None,
      dpr_LbDynamicRatioPreferred = None, dpr_LbAlternateTopology = None, dpr_LbDynamicRatioAlternate = None, dpr_Monitors
      = [], dpr_Disable = None, dpr_Ttl = None, dpr_UseTtl = None, dpr_ConsolidatedMonitors = [], dpr_Health = None,
      dpr_Ea = fmempty\<rparr>"

definition reflectDtcPoolObj :: "DtcPoolObj \<Rightarrow> goany" where
  "reflectDtcPoolObj r = PtrTo ''*ibclient.DtcPool''
     [(''Ref'', FString (dpr_Ref r)),
      (''Name'', FOther),
      (''LbPreferredMethod'', FString (dpr_LbPreferredMethod r)),
      (''LbAlternateMethod'', FString (dpr_LbAlternateMethod r)),
      (''Comment'', FOther),
      (''Servers'', FOther),
      (''Availability'', FString (dpr_Availability r)),
      (''Quorum'', FOther),
      (''LbPreferredTopology'', FOther),
      (''LbDynamicRatioPreferred'', FOther),
      (''LbAlternateTopology'', FOther),
      (''LbDynamicRatioAlternate'', FOther),
      (''Monitors'', FOther),
      (''Disable'', FOther),
      (''Ttl'', FOther),
      (''UseTtl'', FOther),
      (''ConsolidatedMonitors'', FOther),
      (''Health'', FOther),
      (''Ea'', FEA (dpr_Ea r))]"

definition DtcPoolObj_type :: "DtcPoolObj objtype" where
  "DtcPoolObj_type = \<lparr>ot_name = ''dtc:pool'', ot_empty = emptyDtcPoolObj, ot_reflect = reflectDtcPoolObj\<rparr>"

text \<open>CreateObject and UpdateObject of the connector, with the object.\<close>

datatype dtcpool_req =
    CreateDtcPoolObject DtcPoolObj
  | UpdateDtcPoolObject string DtcPoolObj

record DTCPoolParameters =
  dpp_Name :: "string option"
  dpp_LBPreferredMethod :: "string option"
  dpp_LBAlternateMethod :: "string option"
  dpp_Servers :: "DTCPoolServerLink list"
  dpp_Availability :: "string option"
  dpp_Quorum :: "32 word option"
  dpp_LBPreferredTopology :: "string option"
  dpp_LBDynamicRatioPreferred :: "DTCPoolDynamicRatio option"
  dpp_LBAlternateTopology :: "string option"
  dpp_LBDynamicRatioAlternate :: "DTCPoolDynamicRatio option"
  dpp_Monitors :: "DTCPoolMonitor list"
  dpp_Comment :: "string option"
  dpp_Disable :: "bool option"
  dpp_TTL :: "32 word option"
  dpp_UseTTL :: "bool option"
  dpp_ExtAttrs :: extattrs

record DTCPoolObservation =
  dps_ID :: string
  dps_Name :: "string option"
  dps_LBPreferredMethod :: "string option"
  dps_LBAlternateMethod :: "string option"
  dps_Availability :: "string option"
  dps_Quorum :: "32 word option"
  dps_LBPreferredTopology :: "string option"
  dps_LBAlternateTopology :: "string option"
  dps_Comment :: "string option"
  dps_Disable :: "bool option"
  dps_TTL :: "32 word option"
  dps_UseTTL :: "bool option"
  dps_ExtAttrs :: extattrs
  dps_Ref :: "string option"
  dps_Servers :: "DTCPoolServerLink list"
  dps_Monitors :: "DTCPoolMonitor list"
  dps_LBDynamicRatioPreferred :: "DTCPoolDynamicRatio option"
  dps_LBDynamicRatioAlternate :: "DTCPoolDynamicRatio option"
  dps_ConsolidatedMonitors :: "DTCPoolConsolidatedMonitorHealth list"
  dps_Health :: "crdHealth option"

record DTCPoolCR = mobj +
  dp_ForProvider :: DTCPoolParameters
  dp_AtProvider :: DTCPoolObservation

section \<open>Error messages\<close>

definition errObserveDTCPool :: string where "errObserveDTCPool = ''cannot observe DTCPool''"
definition errCreateDTCPool :: string where "errCreateDTCPool = ''cannot create DTCPool''"
definition errUpdateDTCPool :: string where "errUpdateDTCPool = ''cannot update DTCPool''"
definition errDeleteDTCPool :: string where "errDeleteDTCPool = ''cannot delete DTCPool''"
definition DTCPool_errEmptyUID :: string where
  "DTCPool_errEmptyUID = ''cannot stamp DTCPool identity: managed resource's metadata.uid is empty''"

section \<open>Field comparison and late initialisation\<close>

definition lbAlternateMethodUpToDate :: "string option \<Rightarrow> string \<Rightarrow> bool" where
  "lbAlternateMethodUpToDate lbAlternateMethod observed =
     (let want = strOrEmpty lbAlternateMethod;
          want1 = (if want = lbAlternateMethodUnset then [] else want);
          observed1 = (if observed = lbAlternateMethodUnset then [] else observed)
      in want1 = observed1)"

definition lbAlternateMethodForRequest :: "string option \<Rightarrow> string" where
  "lbAlternateMethodForRequest lbAlternateMethod =
     (let v = strOrEmpty lbAlternateMethod in if v = lbAlternateMethodUnset then [] else v)"

definition DTCPool_scalarFieldsUpToDate ::
  "string option \<Rightarrow> string option \<Rightarrow> string option \<Rightarrow> string option \<Rightarrow>
      string option \<Rightarrow> string option \<Rightarrow> string option \<Rightarrow>
     32 word option \<Rightarrow> 32 word option \<Rightarrow> bool option \<Rightarrow> bool option \<Rightarrow> DtcPoolObj \<Rightarrow> bool" where
  "DTCPool_scalarFieldsUpToDate name lbPreferredMethod lbAlternateMethod comment availability lbPreferredTopology
       lbAlternateTopology quorum ttl disable useTTL rec =
     (if strOrEmpty name \<noteq> strOrEmpty (dpr_Name rec) then False
      else if strOrEmpty lbPreferredMethod \<noteq> dpr_LbPreferredMethod rec then False
      else if \<not> lbAlternateMethodUpToDate lbAlternateMethod (dpr_LbAlternateMethod rec) then False
      else if strOrEmpty comment \<noteq> strOrEmpty (dpr_Comment rec) then False
      else if strOrEmpty availability \<noteq> dpr_Availability rec then False
      else if strOrEmpty lbPreferredTopology \<noteq> strOrEmpty (dpr_LbPreferredTopology rec) then False
      else if strOrEmpty lbAlternateTopology \<noteq> strOrEmpty (dpr_LbAlternateTopology rec) then False
      else if uint32OrZero quorum \<noteq> uint32OrZero (dpr_Quorum rec) then False
      else if boolOrFalse disable \<noteq> boolOrFalse (dpr_Disable rec) then False
      else if boolOrFalse useTTL \<noteq> boolOrFalse (dpr_UseTtl rec) then False
      else if boolOrFalse useTTL \<and> uint32OrZero ttl \<noteq> uint32OrZero (dpr_Ttl rec) then False
      else True)"

definition DTCPool_collectionFieldsUpToDate ::
  "serverLink list \<Rightarrow> poolMonitor list \<Rightarrow> dynRatio option \<Rightarrow> dynRatio option \<Rightarrow> extattrs \<Rightarrow> DtcPoolObj \<Rightarrow> bool" where
  "DTCPool_collectionFieldsUpToDate servers monitors lbDynamicRatioPreferred lbDynamicRatioAlternate extAttrs rec =
     (if \<not> serversEqual servers (serverLinksFromSDK (dpr_Servers rec)) then False
      else if \<not> poolMonitorsEqual monitors (monitorsFromSDK (dpr_Monitors rec)) then False
      else if \<not> dynRatioEqual lbDynamicRatioPreferred (dynRatioFromSDK (dpr_LbDynamicRatioPreferred rec)) then False
      else if \<not> dynRatioEqual lbDynamicRatioAlternate (dynRatioFromSDK (dpr_LbDynamicRatioAlternate rec)) then False
      else extAttrsEqual extAttrs (extAttrsFromEA (Strip (dpr_Ea rec))))"

definition DTCPool_isUpToDate ::
  "string option \<Rightarrow> string option \<Rightarrow> string option \<Rightarrow> string option \<Rightarrow>
      string option \<Rightarrow> string option \<Rightarrow> string option \<Rightarrow>
     32 word option \<Rightarrow> 32 word option \<Rightarrow> bool option \<Rightarrow> bool option \<Rightarrow>
         serverLink list \<Rightarrow> poolMonitor list \<Rightarrow> dynRatio option \<Rightarrow>
     dynRatio option \<Rightarrow> extattrs \<Rightarrow> DtcPoolObj \<Rightarrow> bool" where
  "DTCPool_isUpToDate name lbPreferredMethod lbAlternateMethod comment availability lbPreferredTopology lbAlternateTopology
       quorum ttl disable useTTL servers monitors lbDynamicRatioPreferred lbDynamicRatioAlternate extAttrs rec =
     (if \<not> DTCPool_scalarFieldsUpToDate name lbPreferredMethod lbAlternateMethod comment availability lbPreferredTopology
            lbAlternateTopology quorum ttl disable useTTL rec then False
      else DTCPool_collectionFieldsUpToDate servers monitors lbDynamicRatioPreferred lbDynamicRatioAlternate extAttrs rec)"

text \<open>The ForProvider fields lateInitialize takes pointers to.\<close>

type_synonym dtcpool_late = "string option \<times> bool option \<times> string option \<times> 32 word option \<times> 32 word option \<times> bool option \<times> extattrs \<times> string option \<times> string option \<times> string option \<times> dynRatio option \<times> dynRatio option"

text \<open>lateInitialize's helpers; lateInitString, lateInitBool, lateInitUint32 and lateInitExtAttrs are in theory DTC.\<close>

definition lateInitStringFromPlain :: "string option \<Rightarrow> string \<Rightarrow> string option \<times> bool" where
  "lateInitStringFromPlain field observed =
     (if field \<noteq> None \<or> observed = [] then (field, False) else (Some observed, True))"

definition lateInitLbAlternateMethod :: "string option \<Rightarrow> string \<Rightarrow> string option \<times> bool" where
  "lateInitLbAlternateMethod field observed =
     (if observed = lbAlternateMethodUnset then (field, False) else lateInitStringFromPlain field observed)"

definition lateInitDynRatio :: "dynRatio option \<Rightarrow> SettingDynamicratio option \<Rightarrow> dynRatio option \<times> bool" where
  "lateInitDynRatio field observed =
     (if field \<noteq> None \<or> observed = None then (field, False)
      else
        (let fromRec = dynRatioFromSDK observed in
         if fromRec = None then (field, False) else (fromRec, True)))"

text \<open>The method the Grid reports, when it has one.\<close>

definition alternateMethod :: "string \<Rightarrow> string option" where
  "alternateMethod m = (if m = lbAlternateMethodUnset then None else ptrIfNonEmpty m)"

lemma pool_late_eqs:
  "lateInitStringFromPlain s t = (fill s (ptrIfNonEmpty t), fill s (ptrIfNonEmpty t) \<noteq> s)"
  "lateInitLbAlternateMethod s t = (fill s (alternateMethod t), fill s (alternateMethod t) \<noteq> s)"
  "lateInitDynRatio d e = (fill d (dynRatioFromSDK e), fill d (dynRatioFromSDK e) \<noteq> d)"
  by (auto simp: lateInitStringFromPlain_def lateInitLbAlternateMethod_def lateInitDynRatio_def alternateMethod_def fill_def
      ptrIfNonEmpty_def dynRatioFromSDK_def Let_def split: option.splits)

definition DTCPool_lateInitialize :: "dtcpool_late \<Rightarrow> DtcPoolObj \<Rightarrow> dtcpool_late \<times> bool" where
  "DTCPool_lateInitialize p rec =
     (case p of (comment, disable, availability, quorum, ttl, useTTL, extAttrs, lbAlternateMethod,
         lbPreferredTopology, lbAlternateTopology, lbDynamicRatioPreferred, lbDynamicRatioAlternate) \<Rightarrow>
       (let (comment1, c1) = lateInitString comment (dpr_Comment rec);
            (disable1, b2) = lateInitBool disable (dpr_Disable rec);
            c2 = (b2 \<or> c1);
            (availability1, b3) = lateInitStringFromPlain availability (dpr_Availability rec);
            c3 = (b3 \<or> c2);
            (quorum1, b4) = lateInitUint32 quorum (dpr_Quorum rec);
            c4 = (b4 \<or> c3);
            (useTTL1, b5) = lateInitBool useTTL (dpr_UseTtl rec);
            c5 = (b5 \<or> c4);
            (ttl1, b6) = (if boolOrFalse useTTL1 then lateInitUint32 ttl (dpr_Ttl rec) else (ttl, False));
            c6 = (b6 \<or> c5);
            (extAttrs1, b7) = lateInitExtAttrs extAttrs (dpr_Ea rec);
            c7 = (b7 \<or> c6);
            (lbAlternateMethod1, b8) = lateInitLbAlternateMethod lbAlternateMethod (dpr_LbAlternateMethod rec);
            c8 = (b8 \<or> c7);
            (lbPreferredTopology1, b9) = lateInitString lbPreferredTopology (dpr_LbPreferredTopology rec);
            c9 = (b9 \<or> c8);
            (lbAlternateTopology1, b10) = lateInitString lbAlternateTopology (dpr_LbAlternateTopology rec);
            c10 = (b10 \<or> c9);
            (lbDynamicRatioPreferred1, b11) = lateInitDynRatio lbDynamicRatioPreferred (dpr_LbDynamicRatioPreferred
                rec);
            c11 = (b11 \<or> c10);
            (lbDynamicRatioAlternate1, b12) = lateInitDynRatio lbDynamicRatioAlternate (dpr_LbDynamicRatioAlternate
                rec);
            c12 = (b12 \<or> c11)
        in ((comment1, disable1, availability1, quorum1, ttl1, useTTL1, extAttrs1, lbAlternateMethod1,
            lbPreferredTopology1, lbAlternateTopology1, lbDynamicRatioPreferred1, lbDynamicRatioAlternate1), c12)))"

record observedDTCPool =
  dpo_ID :: string
  dpo_Name :: "string option"
  dpo_LBPreferredMethod :: "string option"
  dpo_LBAlternateMethod :: "string option"
  dpo_Servers :: "serverLink list"
  dpo_Availability :: "string option"
  dpo_Quorum :: "32 word option"
  dpo_LBPreferredTopology :: "string option"
  dpo_LBDynamicRatioPreferred :: "dynRatio option"
  dpo_LBAlternateTopology :: "string option"
  dpo_LBDynamicRatioAlternate :: "dynRatio option"
  dpo_Monitors :: "poolMonitor list"
  dpo_Comment :: "string option"
  dpo_Disable :: "bool option"
  dpo_TTL :: "32 word option"
  dpo_UseTTL :: "bool option"
  dpo_ExtAttrs :: extattrs
  dpo_Ref :: "string option"
  dpo_ConsolidatedMonitors :: "consolidatedMonitorHealth list"
  dpo_Health :: "dtcHealth option"

definition observeFromDtcPool :: "string \<Rightarrow> DtcPoolObj \<Rightarrow> observedDTCPool" where
  "observeFromDtcPool externalID rec =
     \<lparr>dpo_ID = externalID,
      dpo_Name = dpr_Name rec,
      dpo_LBPreferredMethod = ptrIfNonEmpty (dpr_LbPreferredMethod rec),
      dpo_LBAlternateMethod = ptrIfNonEmpty (dpr_LbAlternateMethod rec),
      dpo_Servers = serverLinksFromSDK (dpr_Servers rec),
      dpo_Availability = ptrIfNonEmpty (dpr_Availability rec),
      dpo_Quorum = dpr_Quorum rec,
      dpo_LBPreferredTopology = ptrIfSet (dpr_LbPreferredTopology rec),
      dpo_LBDynamicRatioPreferred = dynRatioFromSDK (dpr_LbDynamicRatioPreferred rec),
      dpo_LBAlternateTopology = ptrIfSet (dpr_LbAlternateTopology rec),
      dpo_LBDynamicRatioAlternate = dynRatioFromSDK (dpr_LbDynamicRatioAlternate rec),
      dpo_Monitors = monitorsFromSDK (dpr_Monitors rec),
      dpo_Comment = ptrIfSet (dpr_Comment rec),
      dpo_Disable = dpr_Disable rec,
      dpo_TTL = dpr_Ttl rec,
      dpo_UseTTL = dpr_UseTtl rec,
      dpo_ExtAttrs = extAttrsFromEA (dpr_Ea rec),
      dpo_Ref = ptrIfNonEmpty (dpr_Ref rec),
      dpo_ConsolidatedMonitors = consolidatedMonitorsFromSDK (dpr_ConsolidatedMonitors rec),
      dpo_Health = healthFromSDK (dpr_Health rec)\<rparr>"

section \<open>SDK calls\<close>

text \<open>
  The object the package builds; pointers go in as they are. The model asks the environment
  for the stored object and keeps its reference, which is all CreateObject and UpdateObject answer;
  the package puts it into the object it built and returns that.
\<close>

definition buildDtcPool ::
  "DTCPoolParameters \<Rightarrow> serverLink list \<Rightarrow> dynRatio option \<Rightarrow> dynRatio option
      \<Rightarrow> poolMonitor list \<Rightarrow> DtcPoolObj" where
  "buildDtcPool p servers lbDynamicRatioPreferred lbDynamicRatioAlternate monitors =
     \<lparr>dpr_Ref = [], dpr_Name = dpp_Name p, dpr_LbPreferredMethod = strOrEmpty (dpp_LBPreferredMethod p),
      dpr_LbAlternateMethod = lbAlternateMethodForRequest (dpp_LBAlternateMethod p), dpr_Comment = dpp_Comment p,
      dpr_Servers = buildServers servers, dpr_Availability = strOrEmpty (dpp_Availability p), dpr_Quorum = dpp_Quorum
          p,
      dpr_LbPreferredTopology = dpp_LBPreferredTopology p, dpr_LbDynamicRatioPreferred = buildDynRatio
          lbDynamicRatioPreferred,
      dpr_LbAlternateTopology = dpp_LBAlternateTopology p, dpr_LbDynamicRatioAlternate = buildDynRatio
          lbDynamicRatioAlternate,
      dpr_Monitors = buildPoolMonitors monitors, dpr_Disable = dpp_Disable p, dpr_Ttl = dpp_TTL p, dpr_UseTtl =
          dpp_UseTTL p,
      dpr_ConsolidatedMonitors = [], dpr_Health = None, dpr_Ea = buildEA (dpp_ExtAttrs p)\<rparr>"

definition createDtcPool ::
  "(DtcPoolObj, dtcpool_req) wapi \<Rightarrow> DTCPoolParameters \<Rightarrow> serverLink list \<Rightarrow> dynRatio option \<Rightarrow> dynRatio option \<Rightarrow>
     poolMonitor list \<Rightarrow> string \<Rightarrow> dtcpool_req world \<Rightarrow> (goerr + string) \<times> dtcpool_req world" where
  "createDtcPool env p servers lbDynamicRatioPreferred lbDynamicRatioAlternate monitors uid w =
     (if trim_space uid = [] then (Inl (TextError DTCPool_errEmptyUID), w)
      else
        (let pool = buildDtcPool p servers lbDynamicRatioPreferred lbDynamicRatioAlternate monitors;
             pool1 = pool\<lparr>dpr_Ea := Stamp (dpr_Ea pool) uid\<rparr>
         in (case mutate_object env (CreateDtcPoolObject pool1) w of
               (Inl err, w1) \<Rightarrow> (Inl err, w1)
             | (Inr rec, w1) \<Rightarrow> (Inr (dpr_Ref rec), w1))))"

definition updateDtcPool ::
  "(DtcPoolObj, dtcpool_req) wapi \<Rightarrow> string \<Rightarrow> DTCPoolParameters \<Rightarrow> serverLink list
      \<Rightarrow> dynRatio option \<Rightarrow> dynRatio option \<Rightarrow>
     poolMonitor list \<Rightarrow> string \<Rightarrow> dtcpool_req world \<Rightarrow> (goerr + string) \<times> dtcpool_req world" where
  "updateDtcPool env ref p servers lbDynamicRatioPreferred lbDynamicRatioAlternate monitors uid w =
     (if trim_space uid = [] then (Inl (TextError DTCPool_errEmptyUID), w)
      else
        (let pool = buildDtcPool p servers lbDynamicRatioPreferred lbDynamicRatioAlternate monitors;
             pool1 = pool\<lparr>dpr_Ea := Stamp (dpr_Ea pool) uid\<rparr>;
             pool2 = pool1\<lparr>dpr_Ref := ref\<rparr>
         in (case mutate_object env (UpdateDtcPoolObject ref pool2) w of
               (Inl err, w1) \<Rightarrow> (Inl err, w1)
             | (Inr rec, w1) \<Rightarrow> (Inr (dpr_Ref rec), w1))))"

definition deleteDtcPool :: "(DtcPoolObj, dtcpool_req) wapi \<Rightarrow> string \<Rightarrow> dtcpool_req world
    \<Rightarrow> goerr option \<times> dtcpool_req world" where
  "deleteDtcPool env ref w =
     (case delete_object env ref w of
        (Inl err, w1) \<Rightarrow> (Some err, w1)
      | (Inr _, w1) \<Rightarrow> (None, w1))"

section \<open>Identity resolution\<close>

definition resolveDtcPoolIdentity ::
  "(DtcPoolObj, dtcpool_req) wapi \<Rightarrow> string \<Rightarrow> string \<Rightarrow> dtcpool_req world
      \<Rightarrow> (goerr + DtcPoolObj option \<times> Outcome) \<times> dtcpool_req world" where
  "resolveDtcPoolIdentity env ref uid w = Resolve env DtcPoolObj_type ref uid w"

type_synonym DTCPool_observeResult = "(DtcPoolObj, observedDTCPool) observeResult"

definition DTCPool_notFoundResult :: DTCPool_observeResult where
  "DTCPool_notFoundResult =
     \<lparr>ores_exists = False, ores_rec = emptyDtcPoolObj, ores_obs = observeFromDtcPool [] emptyDtcPoolObj,
      ores_lateInit = False, ores_refreshedRef = [], ores_adopted = False\<rparr>"

definition observeDtcPool ::
  "(DtcPoolObj, dtcpool_req) wapi \<Rightarrow> string \<Rightarrow> string \<Rightarrow> string \<Rightarrow> string \<Rightarrow> dtcpool_late \<Rightarrow> dtcpool_req world \<Rightarrow>
     (goerr + DTCPool_observeResult) \<times> dtcpool_late \<times> dtcpool_req world" where
  "observeDtcPool env endpoint crName externalName uid p w =
     (let ref = observeRefFor crName externalName in
      case resolveDtcPoolIdentity env ref uid w of
        (Inl err, w1) \<Rightarrow>
          if IsSearchFailure err then
            (case ensureIdentityPrerequisite env endpoint w1 of
               (Some prereqErr, w2) \<Rightarrow> (Inl prereqErr, p, w2)
             | (None, w2) \<Rightarrow> (Inl err, p, w2))
          else (Inl err, p, w1)
      | (Inr (obj, outcome), w1) \<Rightarrow>
          if outcome = OutcomeNotFound then (Inr DTCPool_notFoundResult, p, w1)
          else
            (case obj of
               None \<Rightarrow> (Inl (TextError nilDereference), p, w1)
             | Some rec \<Rightarrow>
                 (case DTCPool_lateInitialize p rec of (p1, changed) \<Rightarrow>
                    (let found = (outcome = OutcomeRotated \<or> outcome = OutcomeFoundByUID)
                     in (Inr \<lparr>ores_exists = True, ores_rec = rec,
                              ores_obs = observeFromDtcPool (dpr_Ref rec) rec,
                              ores_lateInit = (if found then True else changed),
                              ores_refreshedRef = (if found then dpr_Ref rec else []),
                              ores_adopted = (outcome = OutcomeAdopted)\<rparr>, p1, w1)))))"

definition deleteDtcPoolIdentity ::
  "(DtcPoolObj, dtcpool_req) wapi \<Rightarrow> string \<Rightarrow> string \<Rightarrow> string \<Rightarrow>
      dtcpool_req world \<Rightarrow> goerr option \<times> dtcpool_req world" where
  "deleteDtcPoolIdentity env endpoint ref uid w =
     (case resolveDtcPoolIdentity env ref uid w of
        (Inl err, w1) \<Rightarrow>
          if IsSearchFailure err then
            (case ensureIdentityPrerequisite env endpoint w1 of
               (Some prereqErr, w2) \<Rightarrow> (Some prereqErr, w2)
             | (None, w2) \<Rightarrow> (Some (Wrapped errDeleteDTCPool err), w2))
          else (Some (Wrapped errDeleteDTCPool err), w1)
      | (Inr (obj, outcome), w1) \<Rightarrow>
          (case outcome of
             OutcomeNotFound \<Rightarrow> (None, w1)
           | OutcomeAdopted \<Rightarrow> (Some (TextError errDeleteUnverifiedOwnership), w1)
           | _ \<Rightarrow>
               (case obj of
                  None \<Rightarrow> (Some (TextError nilDereference), w1)
                | Some rec \<Rightarrow>
                    (case deleteDtcPool env (dpr_Ref rec) w1 of
                       (None, w2) \<Rightarrow> (None, w2)
                     | (Some delErr, w2) \<Rightarrow>
                         if isNotFound (Some delErr) then (None, w2)
                         else (Some (Wrapped errDeleteDTCPool delErr), w2)))))"

section \<open>The external clients\<close>

text \<open>The pointers to spec fields Observe hands over, and their write-back.\<close>

definition DTCPool_latePart :: "DTCPoolParameters \<Rightarrow> dynRatio option \<Rightarrow> dynRatio option \<Rightarrow> dtcpool_late" where
  "DTCPool_latePart p lbDynamicRatioPreferred lbDynamicRatioAlternate = (dpp_Comment p, dpp_Disable p,
      dpp_Availability p, dpp_Quorum p, dpp_TTL p, dpp_UseTTL p, dpp_ExtAttrs p, dpp_LBAlternateMethod p,
      dpp_LBPreferredTopology p, dpp_LBAlternateTopology p, lbDynamicRatioPreferred, lbDynamicRatioAlternate)"

definition DTCPool_setLate :: "DTCPoolParameters \<Rightarrow> dtcpool_late \<Rightarrow> DTCPoolParameters" where
  "DTCPool_setLate p l = (case l of (comment, disable, availability, quorum, ttl, useTTL, extAttrs, lbAlternateMethod,
      lbPreferredTopology, lbAlternateTopology, lbDynamicRatioPreferred, lbDynamicRatioAlternate) \<Rightarrow>
     p\<lparr>dpp_Comment := comment, dpp_Disable := disable, dpp_Availability := availability, dpp_Quorum := quorum,
         dpp_TTL := ttl, dpp_UseTTL := useTTL, dpp_ExtAttrs := extAttrs, dpp_LBAlternateMethod := lbAlternateMethod,
         dpp_LBPreferredTopology := lbPreferredTopology, dpp_LBAlternateTopology := lbAlternateTopology\<rparr>)"

text \<open>The local copies of the dynamic ratios that lateInitialize fills.\<close>

definition DTCPool_lateRatios :: "dtcpool_late \<Rightarrow> dynRatio option \<times> dynRatio option" where
  "DTCPool_lateRatios l =
     (case l of (comment, disable, availability, quorum, ttl, useTTL, extAttrs, lbAlternateMethod,
         lbPreferredTopology,
        lbAlternateTopology, lbDynamicRatioPreferred, lbDynamicRatioAlternate) \<Rightarrow>
        (lbDynamicRatioPreferred, lbDynamicRatioAlternate))"

subsection \<open>namespaced.go\<close>

definition serversFromNamespaced :: "DTCPoolServerLink list \<Rightarrow> serverLink list" where
  "serversFromNamespaced servers =
     (if servers = [] then [] else map (\<lambda>s. \<lparr>svl_Server = csl_Server s, svl_Ratio = csl_Ratio
         s\<rparr>) servers)"

definition serverLinksToNamespaced :: "serverLink list \<Rightarrow> DTCPoolServerLink list" where
  "serverLinksToNamespaced servers =
     (if servers = [] then [] else map (\<lambda>s. \<lparr>csl_Server = svl_Server s, csl_Ratio = svl_Ratio
         s\<rparr>) servers)"

definition poolMonitorsFromNamespaced :: "DTCPoolMonitor list \<Rightarrow> poolMonitor list" where
  "poolMonitorsFromNamespaced monitors =
     (if monitors = [] then [] else map (\<lambda>m. \<lparr>pom_Monitor = cpm_Monitor m\<rparr>) monitors)"

definition poolMonitorsToNamespaced :: "poolMonitor list \<Rightarrow> DTCPoolMonitor list" where
  "poolMonitorsToNamespaced monitors =
     (if monitors = [] then [] else map (\<lambda>m. \<lparr>cpm_Monitor = pom_Monitor m\<rparr>) monitors)"

definition dynRatioFromNamespaced :: "DTCPoolDynamicRatio option \<Rightarrow> dynRatio option" where
  "dynRatioFromNamespaced d =
     (case d of
        None \<Rightarrow> None
      | Some r \<Rightarrow> Some \<lparr>dyn_Method = cdr_Method r, dyn_Monitor = cdr_Monitor r, dyn_MonitorMetric =
          cdr_MonitorMetric r,
                        dyn_MonitorWeighing = cdr_MonitorWeighing r, dyn_InvertMonitorMetric = cdr_InvertMonitorMetric
                            r\<rparr>)"

definition dynRatioToNamespaced :: "dynRatio option \<Rightarrow> DTCPoolDynamicRatio option" where
  "dynRatioToNamespaced d =
     (case d of
        None \<Rightarrow> None
      | Some r \<Rightarrow> Some \<lparr>cdr_Method = dyn_Method r, cdr_Monitor = dyn_Monitor r, cdr_MonitorMetric =
          dyn_MonitorMetric r,
                        cdr_MonitorWeighing = dyn_MonitorWeighing r, cdr_InvertMonitorMetric = dyn_InvertMonitorMetric
                            r\<rparr>)"

definition consolidatedMonitorsToNamespaced :: "consolidatedMonitorHealth list \<Rightarrow>
    DTCPoolConsolidatedMonitorHealth list" where
  "consolidatedMonitorsToNamespaced cms =
     (if cms = [] then []
      else map (\<lambda>c. \<lparr>ccm_Members = cmh_Members c, ccm_Monitor = cmh_Monitor c, ccm_Availability =
          cmh_Availability c,
             ccm_FullHealthCommunication = cmh_FullHealthCommunication c\<rparr>) cms)"

definition namespaced_DTCPool_Observe ::
  "(DtcPoolObj, dtcpool_req) wapi \<Rightarrow> string \<Rightarrow> DTCPoolCR \<Rightarrow> dtcpool_req world
      \<Rightarrow> (goerr + ExternalObservation) \<times> DTCPoolCR \<times> dtcpool_req world" where
  "namespaced_DTCPool_Observe env endpoint cr w =
     (case observeDtcPool env endpoint (mo_name cr) (GetExternalName cr) (mo_uid cr)
             (DTCPool_latePart (dp_ForProvider cr) (dynRatioFromNamespaced (dpp_LBDynamicRatioPreferred
                 (dp_ForProvider cr))) (dynRatioFromNamespaced (dpp_LBDynamicRatioAlternate (dp_ForProvider cr)))) w of
        (Inl err, l, w1) \<Rightarrow>
          (let cr1 = cr\<lparr>dp_ForProvider := DTCPool_setLate (dp_ForProvider cr) l\<rparr> in
           if errors_as is_PrerequisiteError err then (Inl err, cr1, w1)
           else (Inl (Wrapped errObserveDTCPool err), cr1, w1))
      | (Inr res, l, w1) \<Rightarrow>
          (let p = DTCPool_setLate (dp_ForProvider cr) l;
               (lbdrp, lbdra) = DTCPool_lateRatios l;
               cr1 = cr\<lparr>dp_ForProvider := p\<rparr> in
           if \<not> ores_exists res then (Inr notExists, cr1, w1)
           else
             (let rec = ores_rec res; o1 = ores_obs res;
                  cr2 = cr1\<lparr>dp_AtProvider :=
                    \<lparr>dps_ID = dpo_ID o1, dps_Name = dpo_Name o1, dps_LBPreferredMethod =
                     dpo_LBPreferredMethod o1, dps_LBAlternateMethod = dpo_LBAlternateMethod o1,
                     dps_Availability = dpo_Availability o1, dps_Quorum = dpo_Quorum o1,
                     dps_LBPreferredTopology = dpo_LBPreferredTopology o1, dps_LBAlternateTopology =
                     dpo_LBAlternateTopology o1, dps_Comment = dpo_Comment o1, dps_Disable =
                     dpo_Disable o1, dps_TTL = dpo_TTL o1, dps_UseTTL = dpo_UseTTL o1, dps_ExtAttrs
                     = dpo_ExtAttrs o1, dps_Ref = dpo_Ref o1, dps_Servers = serverLinksToNamespaced
                     (dpo_Servers o1), dps_Monitors = poolMonitorsToNamespaced (dpo_Monitors o1),
                     dps_LBDynamicRatioPreferred = dynRatioToNamespaced (dpo_LBDynamicRatioPreferred o1),
                     dps_LBDynamicRatioAlternate = dynRatioToNamespaced (dpo_LBDynamicRatioAlternate o1),
                     dps_ConsolidatedMonitors = consolidatedMonitorsToNamespaced (dpo_ConsolidatedMonitors
                     o1), dps_Health = healthToNamespaced (dpo_Health o1)\<rparr>\<rparr>;
                  servers = serversFromNamespaced (dpp_Servers p); monitors = poolMonitorsFromNamespaced (dpp_Monitors p);
                  p1 = (if ores_lateInit res
                        then p\<lparr>dpp_LBDynamicRatioPreferred := dynRatioToNamespaced lbdrp,
                            dpp_LBDynamicRatioAlternate := dynRatioToNamespaced lbdra\<rparr>
                        else p);
                  cr3 = cr2\<lparr>dp_ForProvider := p1\<rparr>;
                  cr4 = (if ores_refreshedRef res \<noteq> [] then SetExternalName (ores_refreshedRef res) cr3 else cr3);
                  cr5 = SetAvailable cr4;
                  upToDate = (DTCPool_isUpToDate (dpp_Name p1) (dpp_LBPreferredMethod p1) (dpp_LBAlternateMethod p1)
                      (dpp_Comment p1)
                                (dpp_Availability p1) (dpp_LBPreferredTopology p1) (dpp_LBAlternateTopology p1)
                                    (dpp_Quorum p1)
                                (dpp_TTL p1) (dpp_Disable p1) (dpp_UseTTL p1) servers monitors lbdrp lbdra
                                (dpp_ExtAttrs p1) rec \<and> \<not> ores_adopted res)
              in (Inr \<lparr>ResourceExists = True, ResourceUpToDate = upToDate,
                       ResourceLateInitialized = ores_lateInit res\<rparr>, cr5, w1))))"

definition namespaced_DTCPool_Create ::
  "(DtcPoolObj, dtcpool_req) wapi \<Rightarrow> string \<Rightarrow> DTCPoolCR \<Rightarrow> dtcpool_req world
      \<Rightarrow> goerr option \<times> DTCPoolCR \<times> dtcpool_req world" where
  "namespaced_DTCPool_Create env endpoint cr w =
     (let p = dp_ForProvider cr; uid = mo_uid cr in
      if trim_space uid = [] then (Some (TextError DTCPool_errEmptyUID), cr, w)
      else
          (case ensureIdentityPrerequisite env endpoint w of
             (Some err, w1) \<Rightarrow> (Some err, cr, w1)
           | (None, w1) \<Rightarrow>
               (case createDtcPool env p (serversFromNamespaced (dpp_Servers p)) (dynRatioFromNamespaced
                   (dpp_LBDynamicRatioPreferred p)) (dynRatioFromNamespaced (dpp_LBDynamicRatioAlternate p))
                   (poolMonitorsFromNamespaced (dpp_Monitors p)) uid w1 of
                  (Inl err, w2) \<Rightarrow> (Some (Wrapped errCreateDTCPool err), cr, w2)
                | (Inr newRef, w2) \<Rightarrow> (None, SetExternalName newRef cr, w2))))"

definition namespaced_DTCPool_Update ::
  "(DtcPoolObj, dtcpool_req) wapi \<Rightarrow> string \<Rightarrow> DTCPoolCR \<Rightarrow> dtcpool_req world
      \<Rightarrow> goerr option \<times> DTCPoolCR \<times> dtcpool_req world" where
  "namespaced_DTCPool_Update env endpoint cr w =
     (let p = dp_ForProvider cr; externalID = GetExternalName cr in
      case ensureIdentityPrerequisite env endpoint w of
        (Some err, w1) \<Rightarrow> (Some err, cr, w1)
      | (None, w1) \<Rightarrow>
          (case updateDtcPool env externalID p (serversFromNamespaced (dpp_Servers p)) (dynRatioFromNamespaced
              (dpp_LBDynamicRatioPreferred p)) (dynRatioFromNamespaced (dpp_LBDynamicRatioAlternate p))
              (poolMonitorsFromNamespaced (dpp_Monitors p)) (mo_uid cr) w1 of
             (Inl err, w2) \<Rightarrow> (Some (Wrapped errUpdateDTCPool err), cr, w2)
           | (Inr newRef, w2) \<Rightarrow>
               if newRef \<noteq> [] \<and> newRef \<noteq> externalID then
                 (case Refresh env cr newRef w2 of
                    (Some err, cr1, w3) \<Rightarrow> (Some (Wrapped errPersistExternalName err), cr1, w3)
                  | (None, cr1, w3) \<Rightarrow> (None, cr1, w3))
               else (None, cr, w2)))"

definition namespaced_DTCPool_Delete ::
  "(DtcPoolObj, dtcpool_req) wapi \<Rightarrow> string \<Rightarrow> DTCPoolCR \<Rightarrow> dtcpool_req world
      \<Rightarrow> goerr option \<times> dtcpool_req world" where
  "namespaced_DTCPool_Delete env endpoint cr w =
     (let externalID = GetExternalName cr in
      case deleteDtcPoolIdentity env endpoint externalID (mo_uid cr) w of
        (Some err, w1) \<Rightarrow> (Some err, w1)
      | (None, w1) \<Rightarrow> (None, w1))"

subsection \<open>cluster.go\<close>

definition serversFromCluster :: "DTCPoolServerLink list \<Rightarrow> serverLink list" where
  "serversFromCluster servers =
     (if servers = [] then [] else map (\<lambda>s. \<lparr>svl_Server = csl_Server s, svl_Ratio = csl_Ratio
         s\<rparr>) servers)"

definition serverLinksToCluster :: "serverLink list \<Rightarrow> DTCPoolServerLink list" where
  "serverLinksToCluster servers =
     (if servers = [] then [] else map (\<lambda>s. \<lparr>csl_Server = svl_Server s, csl_Ratio = svl_Ratio
         s\<rparr>) servers)"

definition poolMonitorsFromCluster :: "DTCPoolMonitor list \<Rightarrow> poolMonitor list" where
  "poolMonitorsFromCluster monitors =
     (if monitors = [] then [] else map (\<lambda>m. \<lparr>pom_Monitor = cpm_Monitor m\<rparr>) monitors)"

definition poolMonitorsToCluster :: "poolMonitor list \<Rightarrow> DTCPoolMonitor list" where
  "poolMonitorsToCluster monitors =
     (if monitors = [] then [] else map (\<lambda>m. \<lparr>cpm_Monitor = pom_Monitor m\<rparr>) monitors)"

definition dynRatioFromCluster :: "DTCPoolDynamicRatio option \<Rightarrow> dynRatio option" where
  "dynRatioFromCluster d =
     (case d of
        None \<Rightarrow> None
      | Some r \<Rightarrow> Some \<lparr>dyn_Method = cdr_Method r, dyn_Monitor = cdr_Monitor r, dyn_MonitorMetric =
          cdr_MonitorMetric r,
                        dyn_MonitorWeighing = cdr_MonitorWeighing r, dyn_InvertMonitorMetric = cdr_InvertMonitorMetric
                            r\<rparr>)"

definition dynRatioToCluster :: "dynRatio option \<Rightarrow> DTCPoolDynamicRatio option" where
  "dynRatioToCluster d =
     (case d of
        None \<Rightarrow> None
      | Some r \<Rightarrow> Some \<lparr>cdr_Method = dyn_Method r, cdr_Monitor = dyn_Monitor r, cdr_MonitorMetric =
          dyn_MonitorMetric r,
                        cdr_MonitorWeighing = dyn_MonitorWeighing r, cdr_InvertMonitorMetric = dyn_InvertMonitorMetric
                            r\<rparr>)"

definition consolidatedMonitorsToCluster :: "consolidatedMonitorHealth list \<Rightarrow>
    DTCPoolConsolidatedMonitorHealth list" where
  "consolidatedMonitorsToCluster cms =
     (if cms = [] then []
      else map (\<lambda>c. \<lparr>ccm_Members = cmh_Members c, ccm_Monitor = cmh_Monitor c, ccm_Availability =
          cmh_Availability c,
             ccm_FullHealthCommunication = cmh_FullHealthCommunication c\<rparr>) cms)"

definition cluster_DTCPool_Observe ::
  "(DtcPoolObj, dtcpool_req) wapi \<Rightarrow> string \<Rightarrow> DTCPoolCR \<Rightarrow> dtcpool_req world
      \<Rightarrow> (goerr + ExternalObservation) \<times> DTCPoolCR \<times> dtcpool_req world" where
  "cluster_DTCPool_Observe env endpoint cr w =
     (case observeDtcPool env endpoint (mo_name cr) (GetExternalName cr) (mo_uid cr)
             (DTCPool_latePart (dp_ForProvider cr) (dynRatioFromCluster (dpp_LBDynamicRatioPreferred (dp_ForProvider
                 cr))) (dynRatioFromCluster (dpp_LBDynamicRatioAlternate (dp_ForProvider cr)))) w of
        (Inl err, l, w1) \<Rightarrow>
          (let cr1 = cr\<lparr>dp_ForProvider := DTCPool_setLate (dp_ForProvider cr) l\<rparr> in
           if errors_as is_PrerequisiteError err then (Inl err, cr1, w1)
           else (Inl (Wrapped errObserveDTCPool err), cr1, w1))
      | (Inr res, l, w1) \<Rightarrow>
          (let p = DTCPool_setLate (dp_ForProvider cr) l;
               (lbdrp, lbdra) = DTCPool_lateRatios l;
               cr1 = cr\<lparr>dp_ForProvider := p\<rparr> in
           if \<not> ores_exists res then (Inr notExists, cr1, w1)
           else
             (let rec = ores_rec res; o1 = ores_obs res;
                  cr2 = cr1\<lparr>dp_AtProvider :=
                    \<lparr>dps_ID = dpo_ID o1, dps_Name = dpo_Name o1, dps_LBPreferredMethod =
                     dpo_LBPreferredMethod o1, dps_LBAlternateMethod = dpo_LBAlternateMethod o1,
                     dps_Availability = dpo_Availability o1, dps_Quorum = dpo_Quorum o1,
                     dps_LBPreferredTopology = dpo_LBPreferredTopology o1, dps_LBAlternateTopology =
                     dpo_LBAlternateTopology o1, dps_Comment = dpo_Comment o1, dps_Disable =
                     dpo_Disable o1, dps_TTL = dpo_TTL o1, dps_UseTTL = dpo_UseTTL o1, dps_ExtAttrs
                     = dpo_ExtAttrs o1, dps_Ref = dpo_Ref o1, dps_Servers = serverLinksToCluster
                     (dpo_Servers o1), dps_Monitors = poolMonitorsToCluster (dpo_Monitors o1),
                     dps_LBDynamicRatioPreferred = dynRatioToCluster (dpo_LBDynamicRatioPreferred o1),
                     dps_LBDynamicRatioAlternate = dynRatioToCluster (dpo_LBDynamicRatioAlternate o1),
                     dps_ConsolidatedMonitors = consolidatedMonitorsToCluster (dpo_ConsolidatedMonitors
                     o1), dps_Health = healthToCluster (dpo_Health o1)\<rparr>\<rparr>;
                  servers = serversFromCluster (dpp_Servers p); monitors = poolMonitorsFromCluster (dpp_Monitors p);
                  p1 = (if ores_lateInit res
                        then p\<lparr>dpp_LBDynamicRatioPreferred := dynRatioToCluster lbdrp,
                            dpp_LBDynamicRatioAlternate := dynRatioToCluster lbdra\<rparr>
                        else p);
                  cr3 = cr2\<lparr>dp_ForProvider := p1\<rparr>;
                  cr4 = (if ores_refreshedRef res \<noteq> [] then SetExternalName (ores_refreshedRef res) cr3 else cr3);
                  cr5 = SetAvailable cr4;
                  upToDate = (DTCPool_isUpToDate (dpp_Name p1) (dpp_LBPreferredMethod p1) (dpp_LBAlternateMethod p1)
                      (dpp_Comment p1)
                                (dpp_Availability p1) (dpp_LBPreferredTopology p1) (dpp_LBAlternateTopology p1)
                                    (dpp_Quorum p1)
                                (dpp_TTL p1) (dpp_Disable p1) (dpp_UseTTL p1) servers monitors lbdrp lbdra
                                (dpp_ExtAttrs p1) rec \<and> \<not> ores_adopted res)
              in (Inr \<lparr>ResourceExists = True, ResourceUpToDate = upToDate,
                       ResourceLateInitialized = ores_lateInit res\<rparr>, cr5, w1))))"

definition cluster_DTCPool_Create ::
  "(DtcPoolObj, dtcpool_req) wapi \<Rightarrow> string \<Rightarrow> DTCPoolCR \<Rightarrow> dtcpool_req world
      \<Rightarrow> goerr option \<times> DTCPoolCR \<times> dtcpool_req world" where
  "cluster_DTCPool_Create env endpoint cr w =
     (let p = dp_ForProvider cr; uid = mo_uid cr in
      if trim_space uid = [] then (Some (TextError DTCPool_errEmptyUID), cr, w)
      else
          (case ensureIdentityPrerequisite env endpoint w of
             (Some err, w1) \<Rightarrow> (Some err, cr, w1)
           | (None, w1) \<Rightarrow>
               (case createDtcPool env p (serversFromCluster (dpp_Servers p)) (dynRatioFromCluster
                   (dpp_LBDynamicRatioPreferred p)) (dynRatioFromCluster (dpp_LBDynamicRatioAlternate p))
                   (poolMonitorsFromCluster (dpp_Monitors p)) uid w1 of
                  (Inl err, w2) \<Rightarrow> (Some (Wrapped errCreateDTCPool err), cr, w2)
                | (Inr newRef, w2) \<Rightarrow> (None, SetExternalName newRef cr, w2))))"

definition cluster_DTCPool_Update ::
  "(DtcPoolObj, dtcpool_req) wapi \<Rightarrow> string \<Rightarrow> DTCPoolCR \<Rightarrow> dtcpool_req world
      \<Rightarrow> goerr option \<times> DTCPoolCR \<times> dtcpool_req world" where
  "cluster_DTCPool_Update env endpoint cr w =
     (let p = dp_ForProvider cr; externalID = GetExternalName cr in
      case ensureIdentityPrerequisite env endpoint w of
        (Some err, w1) \<Rightarrow> (Some err, cr, w1)
      | (None, w1) \<Rightarrow>
          (case updateDtcPool env externalID p (serversFromCluster (dpp_Servers p)) (dynRatioFromCluster
              (dpp_LBDynamicRatioPreferred p)) (dynRatioFromCluster (dpp_LBDynamicRatioAlternate p))
              (poolMonitorsFromCluster (dpp_Monitors p)) (mo_uid cr) w1 of
             (Inl err, w2) \<Rightarrow> (Some (Wrapped errUpdateDTCPool err), cr, w2)
           | (Inr newRef, w2) \<Rightarrow>
               if newRef \<noteq> [] \<and> newRef \<noteq> externalID then
                 (case Refresh env cr newRef w2 of
                    (Some err, cr1, w3) \<Rightarrow> (Some (Wrapped errPersistExternalName err), cr1, w3)
                  | (None, cr1, w3) \<Rightarrow> (None, cr1, w3))
               else (None, cr, w2)))"

definition cluster_DTCPool_Delete ::
  "(DtcPoolObj, dtcpool_req) wapi \<Rightarrow> string \<Rightarrow> DTCPoolCR \<Rightarrow> dtcpool_req world
      \<Rightarrow> goerr option \<times> dtcpool_req world" where
  "cluster_DTCPool_Delete env endpoint cr w =
     (let externalID = GetExternalName cr in
      case deleteDtcPoolIdentity env endpoint externalID (mo_uid cr) w of
        (Some err, w1) \<Rightarrow> (Some err, w1)
      | (None, w1) \<Rightarrow> (None, w1))"

section \<open>The contract of the ladder client\<close>

text \<open>The requests of a spec, what a Grid object holds of a request, and the drift check of a resource.\<close>

definition dtcpool_object :: "DTCPoolParameters \<Rightarrow> string \<Rightarrow> DtcPoolObj" where
  "dtcpool_object p uid =
     (buildDtcPool p (serversFromNamespaced (dpp_Servers p)) (dynRatioFromNamespaced (dpp_LBDynamicRatioPreferred p))
        (dynRatioFromNamespaced (dpp_LBDynamicRatioAlternate p)) (poolMonitorsFromNamespaced (dpp_Monitors p)))
       \<lparr>dpr_Ea := Stamp (buildEA (dpp_ExtAttrs p)) uid\<rparr>"

definition dtcpool_create_request :: "DTCPoolParameters \<Rightarrow> string \<Rightarrow> dtcpool_req" where
  "dtcpool_create_request p uid = CreateDtcPoolObject (dtcpool_object p uid)"

definition dtcpool_update_request :: "string \<Rightarrow> DTCPoolParameters \<Rightarrow> string \<Rightarrow> dtcpool_req" where
  "dtcpool_update_request ref p uid = UpdateDtcPoolObject ref ((dtcpool_object p uid)\<lparr>dpr_Ref := ref\<rparr>)"

fun dtcpool_req_ea :: "dtcpool_req \<Rightarrow> ea" where
  "dtcpool_req_ea (CreateDtcPoolObject pool) = dpr_Ea pool"
| "dtcpool_req_ea (UpdateDtcPoolObject ref pool) = dpr_Ea pool"

text \<open>Of a nil pointer or an empty plain string nothing is sent, and the Grid has its own value.\<close>

definition dtcpool_stores :: "DtcPoolObj \<Rightarrow> DtcPoolObj \<Rightarrow> bool" where
  "dtcpool_stores pool rec \<longleftrightarrow>
     dpr_Name rec = dpr_Name pool \<and> dpr_LbPreferredMethod rec = dpr_LbPreferredMethod pool \<and>
     (dpr_LbAlternateMethod rec = dpr_LbAlternateMethod pool \<or>
      dpr_LbAlternateMethod pool = [] \<and> dpr_LbAlternateMethod rec = lbAlternateMethodUnset) \<and>
     dpr_Servers rec = dpr_Servers pool \<and> dpr_Monitors rec = dpr_Monitors pool \<and>
     (dpr_Availability pool \<noteq> [] \<longrightarrow> dpr_Availability rec = dpr_Availability pool) \<and>
     (dpr_Quorum pool \<noteq> None \<longrightarrow> dpr_Quorum rec = dpr_Quorum pool) \<and>
     (dpr_LbPreferredTopology pool \<noteq> None \<longrightarrow> dpr_LbPreferredTopology rec = dpr_LbPreferredTopology pool) \<and>
     (dpr_LbAlternateTopology pool \<noteq> None \<longrightarrow> dpr_LbAlternateTopology rec = dpr_LbAlternateTopology pool) \<and>
     (dpr_LbDynamicRatioPreferred pool \<noteq> None \<longrightarrow> dpr_LbDynamicRatioPreferred rec = dpr_LbDynamicRatioPreferred pool) \<and>
     (dpr_LbDynamicRatioAlternate pool \<noteq> None \<longrightarrow> dpr_LbDynamicRatioAlternate rec = dpr_LbDynamicRatioAlternate pool) \<and>
     (dpr_UseTtl pool \<noteq> None \<longrightarrow> dpr_UseTtl rec = dpr_UseTtl pool) \<and>
     (dpr_Ttl pool \<noteq> None \<longrightarrow> boolOrFalse (dpr_UseTtl rec) \<longrightarrow> dpr_Ttl rec = dpr_Ttl pool) \<and>
     (dpr_Comment pool \<noteq> None \<longrightarrow> dpr_Comment rec = dpr_Comment pool) \<and>
     (dpr_Disable pool \<noteq> None \<longrightarrow> dpr_Disable rec = dpr_Disable pool) \<and> dpr_Ea rec = dpr_Ea pool"

fun dtcpool_holds :: "dtcpool_req \<Rightarrow> DtcPoolObj \<Rightarrow> bool" where
  "dtcpool_holds (CreateDtcPoolObject pool) rec = dtcpool_stores pool rec"
| "dtcpool_holds (UpdateDtcPoolObject ref pool) rec = dtcpool_stores pool rec"

definition DTCPool_utd :: "DTCPoolCR \<Rightarrow> DtcPoolObj \<Rightarrow> bool" where
  "DTCPool_utd cr rec = (let p = dp_ForProvider cr in
     DTCPool_isUpToDate (dpp_Name p) (dpp_LBPreferredMethod p) (dpp_LBAlternateMethod p)
                                (dpp_Comment p) (dpp_Availability p) (dpp_LBPreferredTopology p)
                                (dpp_LBAlternateTopology p) (dpp_Quorum p) (dpp_TTL p) (dpp_Disable
                                p) (dpp_UseTTL p) (serversFromNamespaced (dpp_Servers p)) (poolMonitorsFromNamespaced
                                (dpp_Monitors p)) (dynRatioFromNamespaced (dpp_LBDynamicRatioPreferred p))
                                (dynRatioFromNamespaced (dpp_LBDynamicRatioAlternate p)) (dpp_ExtAttrs p) rec)"

definition DTCPool_spec_ok :: "DTCPoolCR \<Rightarrow> bool" where
  "DTCPool_spec_ok cr \<longleftrightarrow> (let p = dp_ForProvider cr in reserved_free (dpp_ExtAttrs p) \<and> dpp_Availability p \<noteq> Some [])"

text \<open>What Observe makes of the spec, and that it keeps what the user set.\<close>

definition DTCPool_backfill :: "DTCPoolParameters \<Rightarrow> DtcPoolObj \<Rightarrow> DTCPoolParameters \<times> bool" where
  "DTCPool_backfill p rec =
     (case DTCPool_lateInitialize (DTCPool_latePart p (dynRatioFromNamespaced (dpp_LBDynamicRatioPreferred p))
             (dynRatioFromNamespaced (dpp_LBDynamicRatioAlternate p))) rec of
        (l, c) \<Rightarrow>
          (if c then (DTCPool_setLate p l)
               \<lparr>dpp_LBDynamicRatioPreferred := dynRatioToNamespaced (fst (DTCPool_lateRatios l)),
                dpp_LBDynamicRatioAlternate := dynRatioToNamespaced (snd (DTCPool_lateRatios l))\<rparr>
           else p, c))"

lemma dynRatio_conv [simp]:
  "dynRatioToNamespaced (dynRatioFromNamespaced d) = d" "dynRatioFromNamespaced (dynRatioToNamespaced e) = e"
  by (simp_all add: dynRatioToNamespaced_def dynRatioFromNamespaced_def split: option.split)

lemma dynRatio_conv_eq:
  "dynRatioToNamespaced e = d \<longleftrightarrow> e = dynRatioFromNamespaced d" "d = dynRatioToNamespaced e \<longleftrightarrow> e = dynRatioFromNamespaced d"
  by auto

lemma DTCPool_latePart_simps [simp]:
  "DTCPool_lateRatios (DTCPool_latePart p d e) = (d, e)"
  by (simp add: DTCPool_latePart_def DTCPool_lateRatios_def)

lemma dynRatio_keeps [simp]: "keeps_set d (dynRatioToNamespaced (fill (dynRatioFromNamespaced d) e))"
  by (cases d) (simp_all add: keeps_set_def dynRatioFromNamespaced_def dynRatioToNamespaced_def)

lemma pool_fill_agrees [simp]:
  "lbAlternateMethodUpToDate s m \<Longrightarrow> lbAlternateMethodUpToDate (fill s (alternateMethod m)) m"
  "dynRatioEqual d e \<Longrightarrow> dynRatioEqual (fill d e) e"
  by (auto simp: fill_def lbAlternateMethodUpToDate_def alternateMethod_def ptrIfNonEmpty_def Let_def split: if_splits)

lemma alternateMethod_sent:
  "m = lbAlternateMethodForRequest s \<or> lbAlternateMethodForRequest s = [] \<and> m = lbAlternateMethodUnset \<Longrightarrow>
     lbAlternateMethodUpToDate (fill s (alternateMethod m)) m"
  by (cases s) (auto simp: lbAlternateMethodUpToDate_def lbAlternateMethodForRequest_def alternateMethod_def
      ptrIfNonEmpty_def Let_def split: if_splits)

lemma dynRatioFrom_None [simp]: "dynRatioFromNamespaced d = None \<longleftrightarrow> d = None"
  by (simp add: dynRatioFromNamespaced_def split: option.split)

definition DTCPool_keeps :: "DTCPoolParameters \<Rightarrow> DTCPoolParameters \<Rightarrow> bool" where
  "DTCPool_keeps p p' \<longleftrightarrow>
     keeps_set (dpp_Comment p) (dpp_Comment p') \<and>
     keeps_set (dpp_Disable p) (dpp_Disable p') \<and>
     keeps_set (dpp_Availability p) (dpp_Availability p') \<and>
     keeps_set (dpp_Quorum p) (dpp_Quorum p') \<and>
     keeps_set (dpp_TTL p) (dpp_TTL p') \<and>
     keeps_set (dpp_UseTTL p) (dpp_UseTTL p') \<and>
     keeps_attrs (dpp_ExtAttrs p) (dpp_ExtAttrs p') \<and>
     keeps_set (dpp_LBAlternateMethod p) (dpp_LBAlternateMethod p') \<and>
     keeps_set (dpp_LBPreferredTopology p) (dpp_LBPreferredTopology p') \<and>
     keeps_set (dpp_LBAlternateTopology p) (dpp_LBAlternateTopology p') \<and>
     keeps_set (dpp_LBDynamicRatioPreferred p) (dpp_LBDynamicRatioPreferred p') \<and>
     keeps_set (dpp_LBDynamicRatioAlternate p) (dpp_LBDynamicRatioAlternate p')"

definition DTCPool_get :: "DTCPoolCR \<Rightarrow> DTCPoolParameters" where
  "DTCPool_get cr = dp_ForProvider cr"

definition DTCPool_put :: "DTCPoolCR \<Rightarrow> DTCPoolParameters \<Rightarrow> DTCPoolCR" where
  "DTCPool_put cr p = cr\<lparr>dp_ForProvider := p\<rparr>"

definition DTCPool_status :: "DtcPoolObj \<Rightarrow> DTCPoolCR \<Rightarrow> DTCPoolCR" where
  "DTCPool_status rec cr =
     (let o1 = observeFromDtcPool (dpr_Ref rec) rec; p = dp_ForProvider cr in
      cr\<lparr>dp_AtProvider :=
        \<lparr>dps_ID = dpo_ID o1, dps_Name = dpo_Name o1, dps_LBPreferredMethod = dpo_LBPreferredMethod
        o1, dps_LBAlternateMethod = dpo_LBAlternateMethod o1, dps_Availability = dpo_Availability
        o1, dps_Quorum = dpo_Quorum o1, dps_LBPreferredTopology = dpo_LBPreferredTopology o1,
        dps_LBAlternateTopology = dpo_LBAlternateTopology o1, dps_Comment = dpo_Comment o1,
        dps_Disable = dpo_Disable o1, dps_TTL = dpo_TTL o1, dps_UseTTL = dpo_UseTTL o1, dps_ExtAttrs
        = dpo_ExtAttrs o1, dps_Ref = dpo_Ref o1, dps_Servers = serverLinksToNamespaced (dpo_Servers o1),
        dps_Monitors = poolMonitorsToNamespaced (dpo_Monitors o1), dps_LBDynamicRatioPreferred = dynRatioToNamespaced
        (dpo_LBDynamicRatioPreferred o1), dps_LBDynamicRatioAlternate = dynRatioToNamespaced
        (dpo_LBDynamicRatioAlternate o1), dps_ConsolidatedMonitors = consolidatedMonitorsToNamespaced
        (dpo_ConsolidatedMonitors o1), dps_Health = healthToNamespaced (dpo_Health o1)\<rparr>\<rparr>)"

definition DTCPool_valid :: "DTCPoolCR \<Rightarrow> goerr option" where
  "DTCPool_valid cr = (let p = dp_ForProvider cr; uid = mo_uid cr in if trim_space uid = [] then Some (TextError DTCPool_errEmptyUID) else None)"

lemma DTCPool_lateInitialize_eq:
  "DTCPool_lateInitialize (comment, disable, availability, quorum, ttl, useTTL, extAttrs, lbAlternateMethod,
      lbPreferredTopology, lbAlternateTopology, lbDynamicRatioPreferred, lbDynamicRatioAlternate) rec =
     (let comment1 = fill comment (ptrIfSet (dpr_Comment rec));
          disable1 = fill disable (dpr_Disable rec);
          availability1 = fill availability (ptrIfNonEmpty (dpr_Availability rec));
          quorum1 = fill quorum (dpr_Quorum rec);
          useTTL1 = fill useTTL (dpr_UseTtl rec);
          ttl1 = fill_if ttl (boolOrFalse useTTL1) (dpr_Ttl rec);
          extAttrs1 = fill_map extAttrs (userAttrs (dpr_Ea rec));
          lbAlternateMethod1 = fill lbAlternateMethod (alternateMethod (dpr_LbAlternateMethod rec));
          lbPreferredTopology1 = fill lbPreferredTopology (ptrIfSet (dpr_LbPreferredTopology rec));
          lbAlternateTopology1 = fill lbAlternateTopology (ptrIfSet (dpr_LbAlternateTopology rec));
          lbDynamicRatioPreferred1 = fill lbDynamicRatioPreferred (dynRatioFromSDK (dpr_LbDynamicRatioPreferred rec));
          lbDynamicRatioAlternate1 = fill lbDynamicRatioAlternate (dynRatioFromSDK (dpr_LbDynamicRatioAlternate rec))
      in ((comment1, disable1, availability1, quorum1, ttl1, useTTL1, extAttrs1, lbAlternateMethod1,
          lbPreferredTopology1, lbAlternateTopology1, lbDynamicRatioPreferred1, lbDynamicRatioAlternate1), (comment1,
          disable1, availability1, quorum1, ttl1, useTTL1, extAttrs1, lbAlternateMethod1, lbPreferredTopology1,
          lbAlternateTopology1, lbDynamicRatioPreferred1, lbDynamicRatioAlternate1) \<noteq> (comment, disable,
          availability, quorum, ttl, useTTL, extAttrs, lbAlternateMethod, lbPreferredTopology, lbAlternateTopology,
          lbDynamicRatioPreferred, lbDynamicRatioAlternate)))"
  by (simp only: DTCPool_lateInitialize_def userAttrs_def Let_def case_prod_conv lateInit_eqs pool_late_eqs
      guarded_late prod.inject simp_thms de_Morgan_conj disj_ac)

lemma DTCPool_setLate_latePart [simp]: "DTCPool_setLate p (DTCPool_latePart p lbDynamicRatioPreferred lbDynamicRatioAlternate) = p"
  by (simp add: DTCPool_setLate_def DTCPool_latePart_def)

lemma DTCPool_CR_commute: "cr\<lparr>dp_AtProvider := a, dp_ForProvider := p\<rparr> = cr\<lparr>dp_ForProvider := p,
    dp_AtProvider := a\<rparr>"
  by simp

lemma DTCPool_lateInitialize_flag: "snd (DTCPool_lateInitialize l rec) \<longleftrightarrow> fst (DTCPool_lateInitialize l rec) \<noteq> l"
  by (cases l; cases "snd (snd (snd (snd (snd (snd l)))))") (simp add: DTCPool_lateInitialize_eq Let_def)

lemma DTCPool_backfill_eq:
  "DTCPool_backfill p rec =
     (let comment1 = fill (dpp_Comment p) (ptrIfSet (dpr_Comment rec));
          disable1 = fill (dpp_Disable p) (dpr_Disable rec);
          availability1 = fill (dpp_Availability p) (ptrIfNonEmpty (dpr_Availability rec));
          quorum1 = fill (dpp_Quorum p) (dpr_Quorum rec);
          useTTL1 = fill (dpp_UseTTL p) (dpr_UseTtl rec);
          ttl1 = fill_if (dpp_TTL p) (boolOrFalse useTTL1) (dpr_Ttl rec);
          extAttrs1 = fill_map (dpp_ExtAttrs p) (userAttrs (dpr_Ea rec));
          lbAlternateMethod1 = fill (dpp_LBAlternateMethod p) (alternateMethod (dpr_LbAlternateMethod rec));
          lbPreferredTopology1 = fill (dpp_LBPreferredTopology p) (ptrIfSet (dpr_LbPreferredTopology rec));
          lbAlternateTopology1 = fill (dpp_LBAlternateTopology p) (ptrIfSet (dpr_LbAlternateTopology rec));
          lbDynamicRatioPreferred1 = fill (dynRatioFromNamespaced (dpp_LBDynamicRatioPreferred p)) (dynRatioFromSDK
              (dpr_LbDynamicRatioPreferred rec));
          lbDynamicRatioAlternate1 = fill (dynRatioFromNamespaced (dpp_LBDynamicRatioAlternate p)) (dynRatioFromSDK
              (dpr_LbDynamicRatioAlternate rec));
          p' = p\<lparr>dpp_Comment := comment1, dpp_Disable := disable1, dpp_Availability := availability1,
              dpp_Quorum := quorum1, dpp_TTL := ttl1, dpp_UseTTL := useTTL1, dpp_ExtAttrs := extAttrs1,
              dpp_LBAlternateMethod := lbAlternateMethod1, dpp_LBPreferredTopology := lbPreferredTopology1,
              dpp_LBAlternateTopology := lbAlternateTopology1, dpp_LBDynamicRatioPreferred := dynRatioToNamespaced
              lbDynamicRatioPreferred1, dpp_LBDynamicRatioAlternate := dynRatioToNamespaced
              lbDynamicRatioAlternate1\<rparr>
      in (p', p' \<noteq> p))"
  by (cases p)
    (auto simp: DTCPool_backfill_def DTCPool_latePart_def DTCPool_setLate_def DTCPool_lateInitialize_eq Let_def DTCPool_lateRatios_def dynRatio_conv_eq)

interpretation dtcpool_late: late_lens DTCPool_backfill DTCPool_keeps DTCPool_get DTCPool_put DTCPool_utd
proof
  fix l l' :: DTCPoolParameters and rec :: DtcPoolObj and cr :: DTCPoolCR
  show "DTCPool_backfill (fst (DTCPool_backfill l rec)) rec = (fst (DTCPool_backfill l rec), False)"
    by (simp add: DTCPool_backfill_eq Let_def DTCPool_lateRatios_def dynRatio_conv_eq)
  show "snd (DTCPool_backfill l rec) \<longleftrightarrow> fst (DTCPool_backfill l rec) \<noteq> l"
    by (simp add: DTCPool_backfill_eq Let_def)
  show "DTCPool_keeps l (fst (DTCPool_backfill l rec))"
    by (simp add: DTCPool_backfill_eq Let_def DTCPool_keeps_def DTCPool_lateRatios_def dynRatio_conv_eq)
  show "DTCPool_get (DTCPool_put cr l) = l" "DTCPool_put cr (DTCPool_get cr) = cr" "DTCPool_put (DTCPool_put cr l) l' = DTCPool_put cr l'"
    by (simp_all add: DTCPool_get_def DTCPool_put_def)
  show "DTCPool_utd (DTCPool_put cr (fst (DTCPool_backfill (DTCPool_get cr) rec))) rec" if "DTCPool_utd cr rec"
    using that
    by (simp add: DTCPool_get_def DTCPool_put_def DTCPool_backfill_eq Let_def DTCPool_utd_def DTCPool_isUpToDate_def
        DTCPool_scalarFieldsUpToDate_def DTCPool_collectionFieldsUpToDate_def extAttrsEqual_iff flip: userAttrs_def split: if_splits)
qed

lemma DtcPoolObj_type_simps [simp]:
  "ot_name DtcPoolObj_type = ''dtc:pool''" "ref_ea_shape DtcPoolObj_type"
  "stamped DtcPoolObj_type rec = eaValue (dpr_Ea rec) EAKey"
  by (simp_all add: ref_ea_shape_def stamped_def DtcPoolObj_type_def reflectDtcPoolObj_def getRef_def getEA_def)

lemma deleteDtcPool_issue: "deleteDtcPool env = issue_delete env"
  by (intro ext) (simp only: deleteDtcPool_def issue_delete_def)

lemma createDtcPool_valid:
  assumes "DTCPool_valid cr = None"
  shows "createDtcPool env (dp_ForProvider cr) (serversFromNamespaced (dpp_Servers (dp_ForProvider cr)))
      (dynRatioFromNamespaced (dpp_LBDynamicRatioPreferred (dp_ForProvider cr))) (dynRatioFromNamespaced
      (dpp_LBDynamicRatioAlternate (dp_ForProvider cr))) (poolMonitorsFromNamespaced (dpp_Monitors (dp_ForProvider cr)))
      (mo_uid cr) w = (case mutate_object env (dtcpool_create_request (dp_ForProvider cr) (mo_uid cr)) w of
      (Inl err, w1) \<Rightarrow> (Inl err, w1) | (Inr rec, w1) \<Rightarrow> (Inr (dpr_Ref rec), w1))"
  using assms
  by (auto simp: createDtcPool_def dtcpool_create_request_def dtcpool_object_def buildDtcPool_def DTCPool_valid_def Let_def split: if_splits option.splits)


lemma DTCPool_Observe_shape:
  "namespaced_DTCPool_Observe env ep cr w =
     ladder_observe_shape (ladder_observe_error errObserveDTCPool) (Resolve env DtcPoolObj_type)
         (ensureIdentityPrerequisite env ep)
       (\<lambda>r. r \<noteq> []) (\<lambda>r. True) (lift_late DTCPool_backfill DTCPool_get DTCPool_put)
           DTCPool_status DTCPool_utd dpr_Ref cr w"
proof -
  have same: "cr\<lparr>dp_ForProvider := DTCPool_setLate (dp_ForProvider cr) (DTCPool_latePart (dp_ForProvider cr)
      (dynRatioFromNamespaced (dpp_LBDynamicRatioPreferred (dp_ForProvider cr))) (dynRatioFromNamespaced
      (dpp_LBDynamicRatioAlternate (dp_ForProvider cr))))\<rparr> = cr"
    by (simp add: DTCPool_latePart_def DTCPool_setLate_def)
  obtain r w1 where r: "Resolve env DtcPoolObj_type (observeRefFor (mo_name cr) (GetExternalName cr)) (mo_uid cr) w =
      (r, w1)"
    by (cases "Resolve env DtcPoolObj_type (observeRefFor (mo_name cr) (GetExternalName cr)) (mo_uid cr) w")
  obtain e w2 where e: "ensureIdentityPrerequisite env ep w1 = (e, w2)"
    by (cases "ensureIdentityPrerequisite env ep w1")
  note defs = namespaced_DTCPool_Observe_def observeDtcPool_def resolveDtcPoolIdentity_def ladder_observe_shape_def ladder_observe_error_def
  show ?thesis
  proof (cases r)
    case (Inl err)
    then show ?thesis
      by (cases e) (simp_all add: defs Let_def r e same)
  next
    case (Inr a)
    obtain obj out where a: "a = (obj, out)" by (cases a)
    show ?thesis
    proof (cases obj)
      case None
      then show ?thesis
        by (simp add: defs Let_def r Inr a same DTCPool_notFoundResult_def)
    next
      case (Some rec)
      obtain l c where lc: "DTCPool_lateInitialize (DTCPool_latePart (dp_ForProvider cr) (dynRatioFromNamespaced
          (dpp_LBDynamicRatioPreferred (dp_ForProvider cr))) (dynRatioFromNamespaced (dpp_LBDynamicRatioAlternate
          (dp_ForProvider cr)))) rec = (l, c)"
        by (cases "DTCPool_lateInitialize (DTCPool_latePart (dp_ForProvider cr) (dynRatioFromNamespaced
            (dpp_LBDynamicRatioPreferred (dp_ForProvider cr))) (dynRatioFromNamespaced (dpp_LBDynamicRatioAlternate
            (dp_ForProvider cr)))) rec")
      have nc: "\<not> c \<Longrightarrow> l = DTCPool_latePart (dp_ForProvider cr) (dynRatioFromNamespaced
          (dpp_LBDynamicRatioPreferred (dp_ForProvider cr))) (dynRatioFromNamespaced (dpp_LBDynamicRatioAlternate
          (dp_ForProvider cr)))"
        using DTCPool_lateInitialize_flag [of "DTCPool_latePart (dp_ForProvider cr) (dynRatioFromNamespaced
            (dpp_LBDynamicRatioPreferred (dp_ForProvider cr))) (dynRatioFromNamespaced (dpp_LBDynamicRatioAlternate
            (dp_ForProvider cr)))" rec] lc by simp
      show ?thesis
        using nc same
        by (cases c) (simp_all add: defs Let_def r Inr a Some lc lift_late_def DTCPool_get_def DTCPool_put_def
            DTCPool_status_def DTCPool_utd_def DTCPool_notFoundResult_def observeFromDtcPool_def DTCPool_backfill_def DTCPool_CR_commute split_beta)
    qed
  qed
qed

lemma DTCPool_Create_shape:
  "namespaced_DTCPool_Create env ep cr w =
     ladder_create_shape errCreateDTCPool DTCPool_valid (ensureIdentityPrerequisite env ep) (mutate_object env)
       (\<lambda>cr. dtcpool_create_request (dp_ForProvider cr) (mo_uid cr)) dpr_Ref cr w"
proof -
  obtain e w1 where e: "ensureIdentityPrerequisite env ep w = (e, w1)"
    by (cases "ensureIdentityPrerequisite env ep w")
  have v: "(let p = dp_ForProvider cr; uid = mo_uid cr in if trim_space uid = [] then Some (TextError DTCPool_errEmptyUID) else None) = DTCPool_valid cr"
    by (simp only: DTCPool_valid_def)
  obtain m w2 where m: "mutate_object env (dtcpool_create_request (dp_ForProvider cr) (mo_uid cr)) w1 = (m, w2)"
    by (cases "mutate_object env (dtcpool_create_request (dp_ForProvider cr) (mo_uid cr)) w1")
  show ?thesis
  proof (cases "DTCPool_valid cr")
    case None
    then show ?thesis
      using createDtcPool_valid [OF None, of env w1] v
      by (cases e; cases m) (simp_all add: namespaced_DTCPool_Create_def ladder_create_shape_def Let_def e m split:
          if_splits)
  next
    case (Some err)
    then show ?thesis
      using v by (simp add: namespaced_DTCPool_Create_def ladder_create_shape_def Let_def split: if_splits)
  qed
qed

lemma DTCPool_Update_shape:
  "namespaced_DTCPool_Update env ep cr w =
     ladder_update_shape errUpdateDTCPool DTCPool_errEmptyUID env (ensureIdentityPrerequisite env ep)
       (\<lambda>cr. dtcpool_update_request (GetExternalName cr) (dp_ForProvider cr) (mo_uid cr)) dpr_Ref cr w"
proof -
  obtain e w1 where e: "ensureIdentityPrerequisite env ep w = (e, w1)"
    by (cases "ensureIdentityPrerequisite env ep w")
  show ?thesis
    by (cases e; cases "wapi_mutate env (calls w1) (dtcpool_update_request (GetExternalName cr) (dp_ForProvider cr)
        (mo_uid cr))")
      (auto simp: namespaced_DTCPool_Update_def ladder_update_shape_def updateDtcPool_def dtcpool_update_request_def
        Let_def e dtcpool_object_def buildDtcPool_def mutate_object_def)
qed

lemma DTCPool_Delete_shape:
  "namespaced_DTCPool_Delete env ep cr w =
     ladder_delete_shape errDeleteDTCPool errDeleteUnverifiedOwnership nilDereference
       (Resolve env DtcPoolObj_type (GetExternalName cr) (mo_uid cr)) (ensureIdentityPrerequisite env ep)
       (issue_delete env) dpr_Ref w"
proof -
  have "namespaced_DTCPool_Delete env ep cr w = deleteDtcPoolIdentity env ep (GetExternalName cr) (mo_uid cr) w"
    by (simp add: namespaced_DTCPool_Delete_def Let_def split: prod.split option.split)
  then show ?thesis
    by (simp only: deleteDtcPoolIdentity_def ladder_delete_shape_def resolveDtcPoolIdentity_def deleteDtcPool_issue)
qed

lemma DTCPool_serversFrom_scopes: "serversFromCluster = serversFromNamespaced"
  by (intro ext) (simp only: serversFromCluster_def serversFromNamespaced_def)

lemma DTCPool_serverLinksTo_scopes: "serverLinksToCluster = serverLinksToNamespaced"
  by (intro ext) (simp only: serverLinksToCluster_def serverLinksToNamespaced_def DTCPool_serversFrom_scopes)

lemma DTCPool_poolMonitorsFrom_scopes: "poolMonitorsFromCluster = poolMonitorsFromNamespaced"
  by (intro ext) (simp only: poolMonitorsFromCluster_def poolMonitorsFromNamespaced_def DTCPool_serversFrom_scopes
      DTCPool_serverLinksTo_scopes)

lemma DTCPool_poolMonitorsTo_scopes: "poolMonitorsToCluster = poolMonitorsToNamespaced"
  by (intro ext) (simp only: poolMonitorsToCluster_def poolMonitorsToNamespaced_def DTCPool_serversFrom_scopes
      DTCPool_serverLinksTo_scopes DTCPool_poolMonitorsFrom_scopes)

lemma DTCPool_dynRatioFrom_scopes: "dynRatioFromCluster = dynRatioFromNamespaced"
  by (intro ext) (simp only: dynRatioFromCluster_def dynRatioFromNamespaced_def DTCPool_serversFrom_scopes
      DTCPool_serverLinksTo_scopes DTCPool_poolMonitorsFrom_scopes DTCPool_poolMonitorsTo_scopes)

lemma DTCPool_dynRatioTo_scopes: "dynRatioToCluster = dynRatioToNamespaced"
  by (intro ext) (simp only: dynRatioToCluster_def dynRatioToNamespaced_def DTCPool_serversFrom_scopes
      DTCPool_serverLinksTo_scopes DTCPool_poolMonitorsFrom_scopes DTCPool_poolMonitorsTo_scopes
      DTCPool_dynRatioFrom_scopes)

lemma DTCPool_consolidatedMonitorsTo_scopes: "consolidatedMonitorsToCluster = consolidatedMonitorsToNamespaced"
  by (intro ext) (simp only: consolidatedMonitorsToCluster_def consolidatedMonitorsToNamespaced_def
      DTCPool_serversFrom_scopes DTCPool_serverLinksTo_scopes DTCPool_poolMonitorsFrom_scopes
      DTCPool_poolMonitorsTo_scopes DTCPool_dynRatioFrom_scopes DTCPool_dynRatioTo_scopes)

lemma DTCPool_scopes:
  "cluster_DTCPool_Observe = namespaced_DTCPool_Observe" "cluster_DTCPool_Create = namespaced_DTCPool_Create"
  "cluster_DTCPool_Update = namespaced_DTCPool_Update" "cluster_DTCPool_Delete = namespaced_DTCPool_Delete"
  by (intro ext, simp only: cluster_DTCPool_Observe_def namespaced_DTCPool_Observe_def cluster_DTCPool_Create_def
      namespaced_DTCPool_Create_def cluster_DTCPool_Update_def namespaced_DTCPool_Update_def
      cluster_DTCPool_Delete_def namespaced_DTCPool_Delete_def DTCPool_serversFrom_scopes DTCPool_serverLinksTo_scopes DTCPool_poolMonitorsFrom_scopes DTCPool_poolMonitorsTo_scopes DTCPool_dynRatioFrom_scopes DTCPool_dynRatioTo_scopes DTCPool_consolidatedMonitorsTo_scopes healthTo_scopes)+

lemma dtcpool_written_utd:
  assumes "DTCPool_spec_ok cr"
    and "dtcpool_holds (dtcpool_create_request (dp_ForProvider cr) (mo_uid cr)) rec \<and> DTCPool_valid cr = None \<or>
      dtcpool_holds (dtcpool_update_request (GetExternalName cr) (dp_ForProvider cr) (mo_uid cr)) rec"
  shows "DTCPool_utd (fst (lift_late DTCPool_backfill DTCPool_get DTCPool_put cr rec)) rec \<and>
    eaValue (dpr_Ea rec) EAKey = Some (mo_uid cr)"
proof -
  let ?p = "dp_ForProvider cr"
  note reqs = dtcpool_create_request_def dtcpool_update_request_def dtcpool_object_def buildDtcPool_def
  have ok: "reserved_free (dpp_ExtAttrs ?p)" "dpp_Availability ?p \<noteq> Some []"
    using assms(1) by (simp_all add: DTCPool_spec_ok_def Let_def)
  have st: "dtcpool_stores (dtcpool_object ?p (mo_uid cr)) rec"
    using assms(2) by (elim disjE) (simp_all add: reqs dtcpool_stores_def)
  then have ea: "dpr_Ea rec = Stamp (buildEA (dpp_ExtAttrs ?p)) (mo_uid cr)"
    and plain: "dpr_Name rec = dpp_Name ?p" "dpr_LbPreferredMethod rec = strOrEmpty (dpp_LBPreferredMethod ?p)"
      "dpr_Servers rec = buildServers (serversFromNamespaced (dpp_Servers ?p))"
      "dpr_Monitors rec = buildPoolMonitors (poolMonitorsFromNamespaced (dpp_Monitors ?p))"
    and sent: "dpp_Quorum ?p \<noteq> None \<Longrightarrow> dpr_Quorum rec = dpp_Quorum ?p"
      "dpp_LBPreferredTopology ?p \<noteq> None \<Longrightarrow> dpr_LbPreferredTopology rec = dpp_LBPreferredTopology ?p"
      "dpp_LBAlternateTopology ?p \<noteq> None \<Longrightarrow> dpr_LbAlternateTopology rec = dpp_LBAlternateTopology ?p"
      "dpp_UseTTL ?p \<noteq> None \<Longrightarrow> dpr_UseTtl rec = dpp_UseTTL ?p"
      "dpp_Comment ?p \<noteq> None \<Longrightarrow> dpr_Comment rec = dpp_Comment ?p"
      "dpp_Disable ?p \<noteq> None \<Longrightarrow> dpr_Disable rec = dpp_Disable ?p"
    and ttl: "boolOrFalse (dpr_UseTtl rec) \<Longrightarrow> dpp_TTL ?p \<noteq> None \<Longrightarrow> dpr_Ttl rec = dpp_TTL ?p"
    by (simp_all add: dtcpool_stores_def reqs)
  have "strOrEmpty (dpp_Availability ?p) \<noteq> [] \<Longrightarrow> dpr_Availability rec = strOrEmpty (dpp_Availability ?p)"
    and sent_alt: "dpr_LbAlternateMethod rec = lbAlternateMethodForRequest (dpp_LBAlternateMethod ?p) \<or>
      lbAlternateMethodForRequest (dpp_LBAlternateMethod ?p) = [] \<and> dpr_LbAlternateMethod rec = lbAlternateMethodUnset"
    and sent_ratios: "dpp_LBDynamicRatioPreferred ?p \<noteq> None \<Longrightarrow>
        dpr_LbDynamicRatioPreferred rec = buildDynRatio (dynRatioFromNamespaced (dpp_LBDynamicRatioPreferred ?p))"
      "dpp_LBDynamicRatioAlternate ?p \<noteq> None \<Longrightarrow>
        dpr_LbDynamicRatioAlternate rec = buildDynRatio (dynRatioFromNamespaced (dpp_LBDynamicRatioAlternate ?p))"
    using st by (simp_all add: dtcpool_stores_def reqs buildDynRatio_None)
  then have avail: "strOrEmpty (fill (dpp_Availability ?p) (ptrIfNonEmpty (dpr_Availability rec))) = dpr_Availability rec"
    using ok(2) by (cases "dpp_Availability ?p") auto
  have alt: "lbAlternateMethodUpToDate (fill (dpp_LBAlternateMethod ?p) (alternateMethod (dpr_LbAlternateMethod rec)))
      (dpr_LbAlternateMethod rec)"
    using sent_alt by (rule alternateMethod_sent)
  have ratios: "dynRatioEqual (fill (dynRatioFromNamespaced (dpp_LBDynamicRatioPreferred ?p)) (dynRatioFromSDK
      (dpr_LbDynamicRatioPreferred rec)))
      (dynRatioFromSDK (dpr_LbDynamicRatioPreferred rec))"
    "dynRatioEqual (fill (dynRatioFromNamespaced (dpp_LBDynamicRatioAlternate ?p)) (dynRatioFromSDK
        (dpr_LbDynamicRatioAlternate rec)))
      (dynRatioFromSDK (dpr_LbDynamicRatioAlternate rec))"
    using sent_ratios by (simp_all add: fill_def)
  have attrs: "userAttrs (dpr_Ea rec) = dpp_ExtAttrs ?p"
    using ok(1) by (simp add: ea userAttrs_buildEA reserved_free_fmdrop)
  note filled = fill_sent [OF sent(1), of ttlOrZero] fill_sent_str [OF sent(2)] fill_sent_str [OF sent(3)]
    fill_sent [OF sent(4), of boolOrFalse] fill_sent_str [OF sent(5)] fill_sent [OF sent(6), of boolOrFalse]
    fill_sent [OF ttl, of ttlOrZero]
  have "DTCPool_utd (fst (lift_late DTCPool_backfill DTCPool_get DTCPool_put cr rec)) rec"
    by (simp add: dtcpool_late.lifted_simps DTCPool_get_def DTCPool_put_def DTCPool_backfill_eq Let_def DTCPool_utd_def
        DTCPool_isUpToDate_def DTCPool_scalarFieldsUpToDate_def DTCPool_collectionFieldsUpToDate_def extAttrsEqual_iff
        plain avail alt ratios attrs filled flip: userAttrs_def)
  with ea show ?thesis by simp
qed

interpretation dtcpool: refreshing_client "lift_late DTCPool_backfill DTCPool_get DTCPool_put" DTCPool_utd
  "\<lambda>s s'. DTCPool_keeps (DTCPool_get s) (DTCPool_get s')"
  DtcPoolObj_type dpr_Ref DTCPool_status DTCPool_valid
  "\<lambda>cr. dtcpool_create_request (dp_ForProvider cr) (mo_uid cr)"
  "\<lambda>cr. dtcpool_update_request (GetExternalName cr) (dp_ForProvider cr) (mo_uid cr)"
  dtcpool_req_ea dtcpool_holds DTCPool_spec_ok
  "ladder_observe_error errObserveDTCPool" "\<lambda>r. r \<noteq> []" "\<lambda>r. True" dpr_Ref errCreateDTCPool errUpdateDTCPool errDeleteDTCPool DTCPool_errEmptyUID
  namespaced_DTCPool_Observe namespaced_DTCPool_Create namespaced_DTCPool_Update namespaced_DTCPool_Delete
proof (unfold_locales, goal_cases)
  case (6 cr)
  then show ?case by (auto simp: DTCPool_valid_def Let_def split: if_splits)
next
  case (13 n cr rec)
  have "DTCPool_get (SetExternalName n cr) = DTCPool_get cr"
    "DTCPool_put (SetExternalName n cr) l = SetExternalName n (DTCPool_put cr l)" for l
    by (simp_all add: DTCPool_get_def DTCPool_put_def SetExternalName_def)
  then show ?case
    by (simp add: dtcpool_late.lifted_simps DTCPool_utd_def SetExternalName_def)
next
  case (14 cr rec)
  then show ?case using dtcpool_written_utd [of cr rec] by simp
next
  case (15 cr rec)
  then show ?case using dtcpool_written_utd [of cr rec] by simp
qed (simp_all add: DTCPool_Observe_shape DTCPool_Create_shape DTCPool_Update_shape DTCPool_Delete_shape
    dtcpool_late.lifted_simps DTCPool_put_def DTCPool_status_def Let_def
    dtcpool_create_request_def dtcpool_update_request_def dtcpool_object_def buildDtcPool_def)

end
