(* ===== verification/HostRecord.thy ===== *)
theory HostRecord
  imports DTC
begin

text \<open>
  internal/controller/hostrecord: the HostRecord controller, a client of the identity ladder. A
  host has lists of addresses, of which the SDK takes the first only; its address can also be
  chosen by the Grid, from a CIDR or from a search for networks by attributes.
\<close>

section \<open>Data\<close>

text \<open>ibclient's addresses of a host, the package's copies of them and the CRD's.\<close>

record SdkHostIpv4Addr =
  sh4_Ipv4Addr :: "string option"
  sh4_Mac :: "string option"
  sh4_EnableDhcp :: "bool option"
  sh4_Nextserver :: "string option"

record SdkHostIpv6Addr =
  sh6_Ipv6Addr :: "string option"
  sh6_Duid :: "string option"
  sh6_EnableDhcp :: "bool option"

record ipv4AddrValue =
  av4_Ipv4Addr :: string
  av4_MAC :: "string option"
  av4_ConfigureForDHCP :: "bool option"
  av4_NextServer :: "string option"

record ipv6AddrValue =
  av6_Ipv6Addr :: string
  av6_Duid :: "string option"
  av6_ConfigureForDHCP :: "bool option"

record HostRecordIpv4Addr =
  ch4_Ipv4Addr :: string
  ch4_MAC :: "string option"
  ch4_ConfigureForDHCP :: "bool option"
  ch4_NextServer :: "string option"

record HostRecordIpv6Addr =
  ch6_Ipv6Addr :: string
  ch6_Duid :: "string option"
  ch6_ConfigureForDHCP :: "bool option"

text \<open>ibclient.HostRecord, as the provider requests it.\<close>

record HostRecordObj =
  hrr_Ref :: string
  hrr_Name :: "string option"
  hrr_Ipv4Addrs :: "SdkHostIpv4Addr list"
  hrr_Ipv6Addrs :: "SdkHostIpv6Addr list"
  hrr_NetworkView :: string
  hrr_View :: "string option"
  hrr_Aliases :: "string list"
  hrr_EnableDns :: "bool option"
  hrr_Comment :: "string option"
  hrr_Disable :: "bool option"
  hrr_Ttl :: "32 word option"
  hrr_UseTtl :: "bool option"
  hrr_Zone :: string
  hrr_DnsName :: string
  hrr_DnsAliases :: "string list"
  hrr_Ea :: ea

definition emptyHostRecordObj :: HostRecordObj where
  "emptyHostRecordObj = \<lparr>hrr_Ref = [], hrr_Name = None, hrr_Ipv4Addrs = [], hrr_Ipv6Addrs = [],
     hrr_NetworkView = [], hrr_View = None, hrr_Aliases = [], hrr_EnableDns = None, hrr_Comment = None,
     hrr_Disable = None, hrr_Ttl = None, hrr_UseTtl = None, hrr_Zone = [], hrr_DnsName = [],
     hrr_DnsAliases = [], hrr_Ea = fmempty\<rparr>"

definition reflectHostRecordObj :: "HostRecordObj \<Rightarrow> goany" where
  "reflectHostRecordObj r = PtrTo ''*ibclient.HostRecord''
     [(''Ref'', FString (hrr_Ref r)), (''Name'', FOther), (''Ipv4Addrs'', FOther), (''Ipv6Addrs'', FOther),
      (''NetworkView'', FString (hrr_NetworkView r)), (''View'', FOther), (''Aliases'', FOther),
      (''EnableDns'', FOther), (''Comment'', FOther), (''Disable'', FOther), (''Ttl'', FOther),
      (''UseTtl'', FOther), (''Zone'', FString (hrr_Zone r)), (''DnsName'', FString (hrr_DnsName r)),
      (''DnsAliases'', FOther), (''Ea'', FEA (hrr_Ea r))]"

definition HostRecordObj_type :: "HostRecordObj objtype" where
  "HostRecordObj_type = \<lparr>ot_name = ''record:host'', ot_empty = emptyHostRecordObj, ot_reflect = reflectHostRecordObj\<rparr>"

text \<open>
  The object manager's calls with their arguments. AllocateNextAvailableIp's params and n are nil
  and useEaInheritance is false in the only call, and are left out; it answers with an interface{}
  that holds the type it was asked for, so the failed type assertion of the caller is left out too.
\<close>

datatype hostrecord_req =
    CreateHostRecord bool bool string string string string string string string string string bool "32 word" string ea "string list" bool
      \<comment> \<open>enabledns, enabledhcp, name, netView, dnsView, ipv4cidr, ipv6cidr, ipv4Addr, ipv6Addr, macAddr, duid, useTtl, ttl, comment, eas, aliases, disable\<close>
  | AllocateNextAvailableIp string string extattrs ea string bool string bool bool string string string string bool "32 word" "string list"
      \<comment> \<open>name, objectType, objectParams, ea, comment, disable, ipAddrType, enableDns, enableDhcp, macAddr, duid, networkView, dnsView, useTtl, ttl, aliases\<close>
  | UpdateHostRecord string bool bool string string string string string string string string string bool "32 word" string ea "string list" bool
      \<comment> \<open>ref, enabledns, enabledhcp, name, netView, dnsView, ipv4cidr, ipv6cidr, ipv4Addr, ipv6Addr, macAddr, duid, useTtl, ttl, comment, eas, aliases, disable\<close>

record HostRecordParameters =
  hrp_Name :: "string option"
  hrp_Ipv4Addrs :: "HostRecordIpv4Addr list"
  hrp_Ipv6Addrs :: "HostRecordIpv6Addr list"
  hrp_NetworkView :: "string option"
  hrp_View :: "string option"
  hrp_Aliases :: "string list"
  hrp_ConfigureForDNS :: "bool option"
  hrp_Comment :: "string option"
  hrp_Disable :: "bool option"
  hrp_TTL :: "32 word option"
  hrp_UseTTL :: "bool option"
  hrp_ExtAttrs :: extattrs
  hrp_Ipv4Cidr :: "string option"
  hrp_Ipv6Cidr :: "string option"
  hrp_FilterParams :: extattrs
  hrp_IpAddressType :: "string option"

record HostRecordObservation =
  hrs_ID :: string
  hrs_Name :: "string option"
  hrs_Ipv4Addrs :: "HostRecordIpv4Addr list"
  hrs_Ipv6Addrs :: "HostRecordIpv6Addr list"
  hrs_NetworkView :: "string option"
  hrs_View :: "string option"
  hrs_Aliases :: "string list"
  hrs_ConfigureForDNS :: "bool option"
  hrs_Comment :: "string option"
  hrs_Disable :: "bool option"
  hrs_TTL :: "32 word option"
  hrs_UseTTL :: "bool option"
  hrs_ExtAttrs :: extattrs
  hrs_Ipv4Cidr :: "string option"
  hrs_Ipv6Cidr :: "string option"
  hrs_FilterParams :: extattrs
  hrs_IpAddressType :: "string option"
  hrs_Ref :: "string option"
  hrs_Zone :: "string option"
  hrs_DNSName :: "string option"
  hrs_DNSAliases :: "string list"

record HostRecordCR = mobj +
  hr_ForProvider :: HostRecordParameters
  hr_AtProvider :: HostRecordObservation

section \<open>Error messages\<close>

definition errObserveHostRecord :: string where "errObserveHostRecord = ''cannot observe HostRecord''"
definition errCreateHostRecord :: string where "errCreateHostRecord = ''cannot create HostRecord''"
definition errUpdateHostRecord :: string where "errUpdateHostRecord = ''cannot update HostRecord''"
definition errDeleteHostRecord :: string where "errDeleteHostRecord = ''cannot delete HostRecord''"
definition errIpv4CidrWithStaticAddr :: string where
  "errIpv4CidrWithStaticAddr = ''ipv4Cidr cannot be combined with a static ipv4Addrs address''"
definition errIpv6CidrWithStaticAddr :: string where
  "errIpv6CidrWithStaticAddr = ''ipv6Cidr cannot be combined with a static ipv6Addrs address''"
definition errFilterParamsWithCidr :: string where
  "errFilterParamsWithCidr = ''filterParams cannot be combined with ipv4Cidr or ipv6Cidr''"
definition errFilterParamsRequiresType :: string where
  "errFilterParamsRequiresType = ''ipAddressType is required when filterParams is set''"
definition HostRecord_errEmptyUID :: string where
  "HostRecord_errEmptyUID = ''cannot stamp HostRecord identity: managed resource's metadata.uid is empty''"

section \<open>Addresses\<close>

definition ipv4AddrValuesFromSDK :: "SdkHostIpv4Addr list \<Rightarrow> ipv4AddrValue list" where
  "ipv4AddrValuesFromSDK addrs =
     (if addrs = [] then []
      else map (\<lambda>a. \<lparr>av4_Ipv4Addr = strOrEmpty (sh4_Ipv4Addr a), av4_MAC = sh4_Mac a,
                     av4_ConfigureForDHCP = sh4_EnableDhcp a, av4_NextServer = sh4_Nextserver a\<rparr>) addrs)"

definition ipv6AddrValuesFromSDK :: "SdkHostIpv6Addr list \<Rightarrow> ipv6AddrValue list" where
  "ipv6AddrValuesFromSDK addrs =
     (if addrs = [] then []
      else map (\<lambda>a. \<lparr>av6_Ipv6Addr = strOrEmpty (sh6_Ipv6Addr a), av6_Duid = sh6_Duid a,
                     av6_ConfigureForDHCP = sh6_EnableDhcp a\<rparr>) addrs)"

definition firstIpv4AddrAndMAC :: "ipv4AddrValue list \<Rightarrow> string \<times> string" where
  "firstIpv4AddrAndMAC addrs =
     (case addrs of [] \<Rightarrow> ([], []) | a # _ \<Rightarrow> (av4_Ipv4Addr a, strOrEmpty (av4_MAC a)))"

definition firstIpv6AddrAndDuid :: "ipv6AddrValue list \<Rightarrow> string \<times> string" where
  "firstIpv6AddrAndDuid addrs =
     (case addrs of [] \<Rightarrow> ([], []) | a # _ \<Rightarrow> (av6_Ipv6Addr a, strOrEmpty (av6_Duid a)))"

fun anyIpv4AddrSet :: "ipv4AddrValue list \<Rightarrow> bool" where
  "anyIpv4AddrSet [] = False"
| "anyIpv4AddrSet (a # addrs) = (if av4_Ipv4Addr a \<noteq> [] then True else anyIpv4AddrSet addrs)"

fun anyIpv6AddrSet :: "ipv6AddrValue list \<Rightarrow> bool" where
  "anyIpv6AddrSet [] = False"
| "anyIpv6AddrSet (a # addrs) = (if av6_Ipv6Addr a \<noteq> [] then True else anyIpv6AddrSet addrs)"

definition firstConfigureForDHCPv4 :: "ipv4AddrValue list \<Rightarrow> bool" where
  "firstConfigureForDHCPv4 addrs = (case addrs of [] \<Rightarrow> False | a # _ \<Rightarrow> boolOrFalse (av4_ConfigureForDHCP a))"

definition firstConfigureForDHCPv6 :: "ipv6AddrValue list \<Rightarrow> bool" where
  "firstConfigureForDHCPv6 addrs = (case addrs of [] \<Rightarrow> False | a # _ \<Rightarrow> boolOrFalse (av6_ConfigureForDHCP a))"

section \<open>Field comparison and late initialisation\<close>

record hostRecordCompareFields =
  hcf_Name :: "string option"
  hcf_Ipv4Addrs :: "ipv4AddrValue list"
  hcf_Ipv6Addrs :: "ipv6AddrValue list"
  hcf_View :: "string option"
  hcf_Aliases :: "string list"
  hcf_ConfigureForDNS :: "bool option"
  hcf_Comment :: "string option"
  hcf_Disable :: "bool option"
  hcf_TTL :: "32 word option"
  hcf_UseTTL :: "bool option"
  hcf_ExtAttrs :: extattrs

definition ipv4AddrsEqual :: "ipv4AddrValue list \<Rightarrow> SdkHostIpv4Addr list \<Rightarrow> bool" where
  "ipv4AddrsEqual spec observed =
     (let (specAddr, specMAC) = firstIpv4AddrAndMAC spec;
          obsValues = ipv4AddrValuesFromSDK observed;
          (obsAddr, obsMAC) = firstIpv4AddrAndMAC obsValues
      in if specAddr \<noteq> obsAddr \<or> specMAC \<noteq> obsMAC then False
         else firstConfigureForDHCPv4 spec = firstConfigureForDHCPv4 obsValues)"

definition ipv6AddrsEqual :: "ipv6AddrValue list \<Rightarrow> SdkHostIpv6Addr list \<Rightarrow> bool" where
  "ipv6AddrsEqual spec observed =
     (let (specAddr, specDuid) = firstIpv6AddrAndDuid spec;
          obsValues = ipv6AddrValuesFromSDK observed;
          (obsAddr, obsDuid) = firstIpv6AddrAndDuid obsValues
      in if specAddr \<noteq> obsAddr \<or> specDuid \<noteq> obsDuid then False
         else firstConfigureForDHCPv6 spec = firstConfigureForDHCPv6 obsValues)"

text \<open>stringSlicesEqual compares length and then position by position, which is equality of lists.\<close>

fun hostStringsLoop :: "string list \<Rightarrow> string list \<Rightarrow> bool" where
  "hostStringsLoop (x # a) (y # b) = (if x \<noteq> y then False else hostStringsLoop a b)"
| "hostStringsLoop _ _ = True"

definition hostStringSlicesEqual :: "string list \<Rightarrow> string list \<Rightarrow> bool" where
  "hostStringSlicesEqual a b = (if length a \<noteq> length b then False else hostStringsLoop a b)"

definition HostRecord_isUpToDate :: "hostRecordCompareFields \<Rightarrow> HostRecordObj \<Rightarrow> bool" where
  "HostRecord_isUpToDate p rec =
     (if strOrEmpty (hcf_Name p) \<noteq> strOrEmpty (hrr_Name rec) then False
      else if \<not> ipv4AddrsEqual (hcf_Ipv4Addrs p) (hrr_Ipv4Addrs rec) then False
      else if \<not> ipv6AddrsEqual (hcf_Ipv6Addrs p) (hrr_Ipv6Addrs rec) then False
      else if strOrEmpty (hcf_View p) \<noteq> strOrEmpty (hrr_View rec) then False
      else if \<not> hostStringSlicesEqual (hcf_Aliases p) (hrr_Aliases rec) then False
      else if boolOrFalse (hcf_ConfigureForDNS p) \<noteq> boolOrFalse (hrr_EnableDns rec) then False
      else if strOrEmpty (hcf_Comment p) \<noteq> strOrEmpty (hrr_Comment rec) then False
      else if boolOrFalse (hcf_Disable p) \<noteq> boolOrFalse (hrr_Disable rec) then False
      else if boolOrFalse (hcf_UseTTL p) \<noteq> boolOrFalse (hrr_UseTtl rec) then False
      else if boolOrFalse (hcf_UseTTL p) \<and> uint32OrZero (hcf_TTL p) \<noteq> uint32OrZero (hrr_Ttl rec) then False
      else extAttrsEqual (hcf_ExtAttrs p) (extAttrsFromEA (Strip (hrr_Ea rec))))"

text \<open>
  lateInitialize's helpers; lateInitString, lateInitBool and lateInitUint32 are in theory DTC. This
  package's lateInitExtAttrs gets the attributes already stripped.
\<close>

definition HostRecord_lateInitExtAttrs :: "extattrs \<Rightarrow> ea \<Rightarrow> extattrs \<times> bool" where
  "HostRecord_lateInitExtAttrs dst ea =
     (if dst \<noteq> fmempty then (dst, False)
      else
        (let fromRec = extAttrsFromEA ea in
         if fromRec = fmempty then (dst, False) else (fromRec, True)))"

definition lateInitAliases :: "string list \<Rightarrow> string list \<Rightarrow> string list \<times> bool" where
  "lateInitAliases dst observed = (if dst \<noteq> [] \<or> observed = [] then (dst, False) else (observed, True))"

definition lateInitIpv4Addrs :: "ipv4AddrValue list \<Rightarrow> SdkHostIpv4Addr list \<Rightarrow> ipv4AddrValue list \<times> bool" where
  "lateInitIpv4Addrs dst observed =
     (if dst \<noteq> [] then (dst, False)
      else
        (let fromRec = ipv4AddrValuesFromSDK observed in
         if fromRec = [] then (dst, False) else (fromRec, True)))"

definition lateInitIpv6Addrs :: "ipv6AddrValue list \<Rightarrow> SdkHostIpv6Addr list \<Rightarrow> ipv6AddrValue list \<times> bool" where
  "lateInitIpv6Addrs dst observed =
     (if dst \<noteq> [] then (dst, False)
      else
        (let fromRec = ipv6AddrValuesFromSDK observed in
         if fromRec = [] then (dst, False) else (fromRec, True)))"

text \<open>The fields lateInitialize takes pointers to; the address lists are local copies of the handler.\<close>

type_synonym hostrecord_late = "string option \<times> 32 word option \<times> bool option \<times> extattrs \<times> string option \<times>
  bool option \<times> bool option \<times> string list \<times> ipv4AddrValue list \<times> ipv6AddrValue list"

definition HostRecord_lateInitialize :: "hostrecord_late \<Rightarrow> HostRecordObj \<Rightarrow> hostrecord_late \<times> bool" where
  "HostRecord_lateInitialize p rec =
     (case p of (comment, ttl, useTTL, extAttrs, view, configureForDNS, disable, aliases, ipv4Addrs, ipv6Addrs) \<Rightarrow>
       (let (comment1, c1) = lateInitString comment (hrr_Comment rec);
            (useTTL1, b2) = lateInitBool useTTL (hrr_UseTtl rec); c2 = (b2 \<or> c1);
            (ttl1, b3) = (if boolOrFalse useTTL1 then lateInitUint32 ttl (hrr_Ttl rec) else (ttl, False)); c3 = (b3 \<or> c2);
            (extAttrs1, b4) = HostRecord_lateInitExtAttrs extAttrs (Strip (hrr_Ea rec)); c4 = (b4 \<or> c3);
            (view1, b5) = lateInitString view (hrr_View rec); c5 = (b5 \<or> c4);
            (configureForDNS1, b6) = lateInitBool configureForDNS (hrr_EnableDns rec); c6 = (b6 \<or> c5);
            (disable1, b7) = lateInitBool disable (hrr_Disable rec); c7 = (b7 \<or> c6);
            (aliases1, b8) = lateInitAliases aliases (hrr_Aliases rec); c8 = (b8 \<or> c7);
            (ipv4Addrs1, b9) = lateInitIpv4Addrs ipv4Addrs (hrr_Ipv4Addrs rec); c9 = (b9 \<or> c8);
            (ipv6Addrs1, b10) = lateInitIpv6Addrs ipv6Addrs (hrr_Ipv6Addrs rec); c10 = (b10 \<or> c9)
        in ((comment1, ttl1, useTTL1, extAttrs1, view1, configureForDNS1, disable1, aliases1, ipv4Addrs1, ipv6Addrs1), c10)))"

section \<open>The status mirror\<close>

record observedHostRecord =
  hro_ID :: string
  hro_Name :: "string option"
  hro_Ipv4Addrs :: "ipv4AddrValue list"
  hro_Ipv6Addrs :: "ipv6AddrValue list"
  hro_NetworkView :: "string option"
  hro_View :: "string option"
  hro_Aliases :: "string list"
  hro_ConfigureForDNS :: "bool option"
  hro_Comment :: "string option"
  hro_Disable :: "bool option"
  hro_TTL :: "32 word option"
  hro_UseTTL :: "bool option"
  hro_ExtAttrs :: extattrs
  hro_Ref :: "string option"
  hro_Zone :: "string option"
  hro_DNSName :: "string option"
  hro_DNSAliases :: "string list"

definition observeFromHostRecord :: "string \<Rightarrow> HostRecordObj \<Rightarrow> observedHostRecord" where
  "observeFromHostRecord externalID rec =
     \<lparr>hro_ID = externalID, hro_Name = hrr_Name rec,
      hro_Ipv4Addrs = ipv4AddrValuesFromSDK (hrr_Ipv4Addrs rec),
      hro_Ipv6Addrs = ipv6AddrValuesFromSDK (hrr_Ipv6Addrs rec),
      hro_NetworkView = ptrIfNonEmpty (hrr_NetworkView rec), hro_View = ptrIfSet (hrr_View rec),
      hro_Aliases = hrr_Aliases rec, hro_ConfigureForDNS = hrr_EnableDns rec,
      hro_Comment = ptrIfSet (hrr_Comment rec), hro_Disable = hrr_Disable rec, hro_TTL = hrr_Ttl rec,
      hro_UseTTL = hrr_UseTtl rec, hro_ExtAttrs = extAttrsFromEA (hrr_Ea rec),
      hro_Ref = ptrIfNonEmpty (hrr_Ref rec), hro_Zone = ptrIfNonEmpty (hrr_Zone rec),
      hro_DNSName = ptrIfNonEmpty (hrr_DnsName rec), hro_DNSAliases = hrr_DnsAliases rec\<rparr>"

section \<open>SDK calls\<close>

definition validateHostRecordAllocation ::
  "hostRecordCompareFields \<Rightarrow> string option \<Rightarrow> string option \<Rightarrow> extattrs \<Rightarrow> string option \<Rightarrow> goerr option" where
  "validateHostRecordAllocation p ipv4Cidr ipv6Cidr filterParams ipAddressType =
     (let v4Cidr = strOrEmpty ipv4Cidr; v6Cidr = strOrEmpty ipv6Cidr in
      if v4Cidr \<noteq> [] \<and> anyIpv4AddrSet (hcf_Ipv4Addrs p) then Some (TextError errIpv4CidrWithStaticAddr)
      else if v6Cidr \<noteq> [] \<and> anyIpv6AddrSet (hcf_Ipv6Addrs p) then Some (TextError errIpv6CidrWithStaticAddr)
      else if filterParams \<noteq> fmempty then
        (if v4Cidr \<noteq> [] \<or> v6Cidr \<noteq> [] then Some (TextError errFilterParamsWithCidr)
         else if strOrEmpty ipAddressType = [] then Some (TextError errFilterParamsRequiresType)
         else None)
      else None)"

definition createHostRecord ::
  "(HostRecordObj, hostrecord_req) wapi \<Rightarrow> hostRecordCompareFields \<Rightarrow> string option \<Rightarrow> string option \<Rightarrow>
     string option \<Rightarrow> string \<Rightarrow> hostrecord_req world \<Rightarrow> (goerr + HostRecordObj) \<times> hostrecord_req world" where
  "createHostRecord env p networkView ipv4Cidr ipv6Cidr uid w =
     (if trim_space uid = [] then (Inl (TextError HostRecord_errEmptyUID), w)
      else
        (let (ipv4Addr, mac) = firstIpv4AddrAndMAC (hcf_Ipv4Addrs p);
             (ipv6Addr, duid) = firstIpv6AddrAndDuid (hcf_Ipv6Addrs p);
             enableDhcp = (firstConfigureForDHCPv4 (hcf_Ipv4Addrs p) \<or> firstConfigureForDHCPv6 (hcf_Ipv6Addrs p))
         in mutate_object env
              (CreateHostRecord (boolOrFalse (hcf_ConfigureForDNS p)) enableDhcp (strOrEmpty (hcf_Name p))
                 (strOrEmpty networkView) (strOrEmpty (hcf_View p)) (strOrEmpty ipv4Cidr) (strOrEmpty ipv6Cidr)
                 ipv4Addr ipv6Addr mac duid (boolOrFalse (hcf_UseTTL p)) (uint32OrZero (hcf_TTL p))
                 (strOrEmpty (hcf_Comment p)) (Stamp (buildEA (hcf_ExtAttrs p)) uid) (hcf_Aliases p)
                 (boolOrFalse (hcf_Disable p))) w))"

definition allocateNextAvailableHostRecord ::
  "(HostRecordObj, hostrecord_req) wapi \<Rightarrow> hostRecordCompareFields \<Rightarrow> string option \<Rightarrow> extattrs \<Rightarrow>
     string \<Rightarrow> string \<Rightarrow> hostrecord_req world \<Rightarrow> (goerr + HostRecordObj) \<times> hostrecord_req world" where
  "allocateNextAvailableHostRecord env p networkView filterParams ipAddressType uid w =
     (if trim_space uid = [] then (Inl (TextError HostRecord_errEmptyUID), w)
      else
        (let (_, mac) = firstIpv4AddrAndMAC (hcf_Ipv4Addrs p);
             (_, duid) = firstIpv6AddrAndDuid (hcf_Ipv6Addrs p);
             enableDhcp = (firstConfigureForDHCPv4 (hcf_Ipv4Addrs p) \<or> firstConfigureForDHCPv6 (hcf_Ipv6Addrs p));
             nv = strOrEmpty networkView;
             objectParams = (if nv \<noteq> [] then fmupd ''network_view'' nv filterParams else filterParams)
         in mutate_object env
              (AllocateNextAvailableIp (strOrEmpty (hcf_Name p)) ''record:host'' objectParams
                 (Stamp (buildEA (hcf_ExtAttrs p)) uid) (strOrEmpty (hcf_Comment p)) (boolOrFalse (hcf_Disable p))
                 ipAddressType (boolOrFalse (hcf_ConfigureForDNS p)) enableDhcp mac duid (strOrEmpty networkView)
                 (strOrEmpty (hcf_View p)) (boolOrFalse (hcf_UseTTL p)) (uint32OrZero (hcf_TTL p)) (hcf_Aliases p)) w))"

definition provisionHostRecord ::
  "(HostRecordObj, hostrecord_req) wapi \<Rightarrow> hostRecordCompareFields \<Rightarrow> string option \<Rightarrow> string option \<Rightarrow> string option \<Rightarrow>
     extattrs \<Rightarrow> string option \<Rightarrow> string \<Rightarrow> hostrecord_req world \<Rightarrow> (goerr + HostRecordObj) \<times> hostrecord_req world" where
  "provisionHostRecord env p networkView ipv4Cidr ipv6Cidr filterParams ipAddressType uid w =
     (case validateHostRecordAllocation p ipv4Cidr ipv6Cidr filterParams ipAddressType of
        Some err \<Rightarrow> (Inl err, w)
      | None \<Rightarrow>
          if filterParams \<noteq> fmempty then
            allocateNextAvailableHostRecord env p networkView filterParams (strOrEmpty ipAddressType) uid w
          else createHostRecord env p networkView ipv4Cidr ipv6Cidr uid w)"

definition updateHostRecord ::
  "(HostRecordObj, hostrecord_req) wapi \<Rightarrow> string \<Rightarrow> hostRecordCompareFields \<Rightarrow> string \<Rightarrow> hostrecord_req world \<Rightarrow>
     (goerr + HostRecordObj) \<times> hostrecord_req world" where
  "updateHostRecord env ref p uid w =
     (if trim_space uid = [] then (Inl (TextError HostRecord_errEmptyUID), w)
      else
        (let (ipv4Addr, mac) = firstIpv4AddrAndMAC (hcf_Ipv4Addrs p);
             (ipv6Addr, duid) = firstIpv6AddrAndDuid (hcf_Ipv6Addrs p);
             enableDhcp = (firstConfigureForDHCPv4 (hcf_Ipv4Addrs p) \<or> firstConfigureForDHCPv6 (hcf_Ipv6Addrs p))
         in mutate_object env
              (UpdateHostRecord ref (boolOrFalse (hcf_ConfigureForDNS p)) enableDhcp (strOrEmpty (hcf_Name p))
                 [] (strOrEmpty (hcf_View p)) [] [] ipv4Addr ipv6Addr mac duid (boolOrFalse (hcf_UseTTL p))
                 (uint32OrZero (hcf_TTL p)) (strOrEmpty (hcf_Comment p)) (Stamp (buildEA (hcf_ExtAttrs p)) uid)
                 (hcf_Aliases p) (boolOrFalse (hcf_Disable p))) w))"

definition deleteHostRecord ::
  "(HostRecordObj, hostrecord_req) wapi \<Rightarrow> string \<Rightarrow> hostrecord_req world \<Rightarrow> goerr option \<times> hostrecord_req world" where
  "deleteHostRecord env ref w =
     (case delete_object env ref w of
        (Inl err, w1) \<Rightarrow> (Some err, w1)
      | (Inr _, w1) \<Rightarrow> (None, w1))"

section \<open>Identity resolution\<close>

definition resolveHostRecordIdentity ::
  "(HostRecordObj, hostrecord_req) wapi \<Rightarrow> string \<Rightarrow> string \<Rightarrow> hostrecord_req world \<Rightarrow>
     (goerr + HostRecordObj option \<times> Outcome) \<times> hostrecord_req world" where
  "resolveHostRecordIdentity env ref uid w = Resolve env HostRecordObj_type ref uid w"

record hostRecordObserveResult =
  hor_exists :: bool
  hor_rec :: "HostRecordObj option"
  hor_adopted :: bool
  hor_refreshedRef :: string

definition observeHostRecordIdentity ::
  "(HostRecordObj, hostrecord_req) wapi \<Rightarrow> string \<Rightarrow> string \<Rightarrow> string \<Rightarrow> string \<Rightarrow> hostrecord_req world \<Rightarrow>
     (goerr + hostRecordObserveResult) \<times> hostrecord_req world" where
  "observeHostRecordIdentity env endpoint crName externalName uid w =
     (let ref = observeRefFor crName externalName in
      case resolveHostRecordIdentity env ref uid w of
        (Inl err, w1) \<Rightarrow>
          if IsSearchFailure err then
            (case ensureIdentityPrerequisite env endpoint w1 of
               (Some prereqErr, w2) \<Rightarrow> (Inl prereqErr, w2)
             | (None, w2) \<Rightarrow> (Inl err, w2))
          else (Inl err, w1)
      | (Inr (rec, outcome), w1) \<Rightarrow>
          if outcome = OutcomeNotFound
          then (Inr \<lparr>hor_exists = False, hor_rec = None, hor_adopted = False, hor_refreshedRef = []\<rparr>, w1)
          else
            (let res = \<lparr>hor_exists = True, hor_rec = rec, hor_adopted = (outcome = OutcomeAdopted), hor_refreshedRef = []\<rparr> in
             if outcome = OutcomeRotated \<or> outcome = OutcomeFoundByUID
             then (case rec of
                     None \<Rightarrow> (Inl (TextError nilDereference), w1)
                   | Some r \<Rightarrow> (Inr (res\<lparr>hor_refreshedRef := hrr_Ref r\<rparr>), w1))
             else (Inr res, w1)))"

definition deleteHostRecordIdentity ::
  "(HostRecordObj, hostrecord_req) wapi \<Rightarrow> string \<Rightarrow> string \<Rightarrow> string \<Rightarrow> hostrecord_req world \<Rightarrow>
     goerr option \<times> hostrecord_req world" where
  "deleteHostRecordIdentity env endpoint ref uid w =
     (case resolveHostRecordIdentity env ref uid w of
        (Inl err, w1) \<Rightarrow>
          if IsSearchFailure err then
            (case ensureIdentityPrerequisite env endpoint w1 of
               (Some prereqErr, w2) \<Rightarrow> (Some prereqErr, w2)
             | (None, w2) \<Rightarrow> (Some (Wrapped errDeleteHostRecord err), w2))
          else (Some (Wrapped errDeleteHostRecord err), w1)
      | (Inr (obj, outcome), w1) \<Rightarrow>
          (case outcome of
             OutcomeNotFound \<Rightarrow> (None, w1)
           | OutcomeAdopted \<Rightarrow> (Some (TextError errDeleteUnverifiedOwnership), w1)
           | _ \<Rightarrow>
               (case obj of
                  None \<Rightarrow> (Some (TextError nilDereference), w1)
                | Some rec \<Rightarrow>
                    (case deleteHostRecord env (hrr_Ref rec) w1 of
                       (None, w2) \<Rightarrow> (None, w2)
                     | (Some delErr, w2) \<Rightarrow>
                         if isNotFound (Some delErr) then (None, w2)
                         else (Some (Wrapped errDeleteHostRecord delErr), w2)))))"

section \<open>The external clients\<close>

text \<open>The fields Observe hands to lateInitialize, and the write-back of those that are pointers into the spec.\<close>

definition HostRecord_latePart :: "HostRecordParameters \<Rightarrow> ipv4AddrValue list \<Rightarrow> ipv6AddrValue list \<Rightarrow> hostrecord_late" where
  "HostRecord_latePart p localIpv4 localIpv6 =
     (hrp_Comment p, hrp_TTL p, hrp_UseTTL p, hrp_ExtAttrs p, hrp_View p, hrp_ConfigureForDNS p, hrp_Disable p,
      hrp_Aliases p, localIpv4, localIpv6)"

definition HostRecord_setLate :: "HostRecordParameters \<Rightarrow> hostrecord_late \<Rightarrow> HostRecordParameters" where
  "HostRecord_setLate p l =
     (case l of (comment, ttl, useTTL, extAttrs, view, configureForDNS, disable, aliases, _, _) \<Rightarrow>
        p\<lparr>hrp_Comment := comment, hrp_TTL := ttl, hrp_UseTTL := useTTL, hrp_ExtAttrs := extAttrs, hrp_View := view,
          hrp_ConfigureForDNS := configureForDNS, hrp_Disable := disable, hrp_Aliases := aliases\<rparr>)"

definition HostRecord_localAddrs :: "hostrecord_late \<Rightarrow> ipv4AddrValue list \<times> ipv6AddrValue list" where
  "HostRecord_localAddrs l = (case l of (_, _, _, _, _, _, _, _, v4, v6) \<Rightarrow> (v4, v6))"

subsection \<open>namespaced.go\<close>

definition namespacedIpv4AddrsToValues :: "HostRecordIpv4Addr list \<Rightarrow> ipv4AddrValue list" where
  "namespacedIpv4AddrsToValues addrs =
     (if addrs = [] then []
      else map (\<lambda>a. \<lparr>av4_Ipv4Addr = ch4_Ipv4Addr a, av4_MAC = ch4_MAC a,
                     av4_ConfigureForDHCP = ch4_ConfigureForDHCP a, av4_NextServer = ch4_NextServer a\<rparr>) addrs)"

definition namespacedIpv4AddrsFromValues :: "ipv4AddrValue list \<Rightarrow> HostRecordIpv4Addr list" where
  "namespacedIpv4AddrsFromValues vals =
     (if vals = [] then []
      else map (\<lambda>v. \<lparr>ch4_Ipv4Addr = av4_Ipv4Addr v, ch4_MAC = av4_MAC v,
                     ch4_ConfigureForDHCP = av4_ConfigureForDHCP v, ch4_NextServer = av4_NextServer v\<rparr>) vals)"

definition namespacedIpv6AddrsToValues :: "HostRecordIpv6Addr list \<Rightarrow> ipv6AddrValue list" where
  "namespacedIpv6AddrsToValues addrs =
     (if addrs = [] then []
      else map (\<lambda>a. \<lparr>av6_Ipv6Addr = ch6_Ipv6Addr a, av6_Duid = ch6_Duid a,
                     av6_ConfigureForDHCP = ch6_ConfigureForDHCP a\<rparr>) addrs)"

definition namespacedIpv6AddrsFromValues :: "ipv6AddrValue list \<Rightarrow> HostRecordIpv6Addr list" where
  "namespacedIpv6AddrsFromValues vals =
     (if vals = [] then []
      else map (\<lambda>v. \<lparr>ch6_Ipv6Addr = av6_Ipv6Addr v, ch6_Duid = av6_Duid v,
                     ch6_ConfigureForDHCP = av6_ConfigureForDHCP v\<rparr>) vals)"

definition namespacedCompareFields :: "HostRecordParameters \<Rightarrow> hostRecordCompareFields" where
  "namespacedCompareFields p =
     \<lparr>hcf_Name = hrp_Name p, hcf_Ipv4Addrs = namespacedIpv4AddrsToValues (hrp_Ipv4Addrs p),
      hcf_Ipv6Addrs = namespacedIpv6AddrsToValues (hrp_Ipv6Addrs p), hcf_View = hrp_View p, hcf_Aliases = hrp_Aliases p,
      hcf_ConfigureForDNS = hrp_ConfigureForDNS p, hcf_Comment = hrp_Comment p, hcf_Disable = hrp_Disable p,
      hcf_TTL = hrp_TTL p, hcf_UseTTL = hrp_UseTTL p, hcf_ExtAttrs = hrp_ExtAttrs p\<rparr>"

definition namespaced_HostRecord_Observe ::
  "(HostRecordObj, hostrecord_req) wapi \<Rightarrow> string \<Rightarrow> HostRecordCR \<Rightarrow> hostrecord_req world \<Rightarrow>
     (goerr + ExternalObservation) \<times> HostRecordCR \<times> hostrecord_req world" where
  "namespaced_HostRecord_Observe env endpoint cr w =
     (case observeHostRecordIdentity env endpoint (mo_name cr) (GetExternalName cr) (mo_uid cr) w of
        (Inl err, w1) \<Rightarrow>
          if errors_as is_PrerequisiteError err then (Inl err, cr, w1)
          else (Inl (Wrapped errObserveHostRecord err), cr, w1)
      | (Inr res, w1) \<Rightarrow>
          if \<not> hor_exists res then (Inr notExists, cr, w1)
          else
            (case hor_rec res of
               None \<Rightarrow> (Inl (TextError nilDereference), cr, w1)
             | Some rec \<Rightarrow>
                 (let o1 = observeFromHostRecord (hrr_Ref rec) rec;
                      p = hr_ForProvider cr;
                      cr1 = cr\<lparr>hr_AtProvider :=
                        \<lparr>hrs_ID = hro_ID o1, hrs_Name = hro_Name o1,
                         hrs_Ipv4Addrs = namespacedIpv4AddrsFromValues (hro_Ipv4Addrs o1),
                         hrs_Ipv6Addrs = namespacedIpv6AddrsFromValues (hro_Ipv6Addrs o1),
                         hrs_NetworkView = hro_NetworkView o1, hrs_View = hro_View o1, hrs_Aliases = hro_Aliases o1,
                         hrs_ConfigureForDNS = hro_ConfigureForDNS o1, hrs_Comment = hro_Comment o1,
                         hrs_Disable = hro_Disable o1, hrs_TTL = hro_TTL o1, hrs_UseTTL = hro_UseTTL o1,
                         hrs_ExtAttrs = hro_ExtAttrs o1, hrs_Ipv4Cidr = hrp_Ipv4Cidr p, hrs_Ipv6Cidr = hrp_Ipv6Cidr p,
                         hrs_FilterParams = hrp_FilterParams p, hrs_IpAddressType = hrp_IpAddressType p,
                         hrs_Ref = hro_Ref o1, hrs_Zone = hro_Zone o1, hrs_DNSName = hro_DNSName o1,
                         hrs_DNSAliases = hro_DNSAliases o1\<rparr>\<rparr>;
                      cr2 = (if hor_refreshedRef res \<noteq> [] then SetExternalName (hor_refreshedRef res) cr1 else cr1);
                      localIpv4 = namespacedIpv4AddrsToValues (hrp_Ipv4Addrs p);
                      localIpv6 = namespacedIpv6AddrsToValues (hrp_Ipv6Addrs p);
                      (l, lateInit) = HostRecord_lateInitialize (HostRecord_latePart p localIpv4 localIpv6) rec;
                      p1 = HostRecord_setLate p l;
                      p2 = (if lateInit
                            then p1\<lparr>hrp_Ipv4Addrs := namespacedIpv4AddrsFromValues (fst (HostRecord_localAddrs l)),
                                    hrp_Ipv6Addrs := namespacedIpv6AddrsFromValues (snd (HostRecord_localAddrs l))\<rparr>
                            else p1);
                      lateInit1 = (if hor_refreshedRef res \<noteq> [] then True else lateInit);
                      cr3 = SetAvailable (cr2\<lparr>hr_ForProvider := p2\<rparr>);
                      upToDate = (HostRecord_isUpToDate (namespacedCompareFields p2) rec \<and> \<not> hor_adopted res)
                  in (Inr \<lparr>ResourceExists = True, ResourceUpToDate = upToDate, ResourceLateInitialized = lateInit1\<rparr>, cr3, w1))))"

definition namespaced_HostRecord_Create ::
  "(HostRecordObj, hostrecord_req) wapi \<Rightarrow> string \<Rightarrow> HostRecordCR \<Rightarrow> hostrecord_req world \<Rightarrow>
     goerr option \<times> HostRecordCR \<times> hostrecord_req world" where
  "namespaced_HostRecord_Create env endpoint cr w =
     (let p = hr_ForProvider cr; uid = mo_uid cr in
      if trim_space uid = [] then (Some (TextError HostRecord_errEmptyUID), cr, w)
      else
        (let cf = namespacedCompareFields p in
         case validateHostRecordAllocation cf (hrp_Ipv4Cidr p) (hrp_Ipv6Cidr p) (hrp_FilterParams p) (hrp_IpAddressType p) of
           Some err \<Rightarrow> (Some (Wrapped errCreateHostRecord err), cr, w)
         | None \<Rightarrow>
             (case ensureIdentityPrerequisite env endpoint w of
                (Some err, w1) \<Rightarrow> (Some err, cr, w1)
              | (None, w1) \<Rightarrow>
                  (case provisionHostRecord env cf (hrp_NetworkView p) (hrp_Ipv4Cidr p) (hrp_Ipv6Cidr p)
                          (hrp_FilterParams p) (hrp_IpAddressType p) uid w1 of
                     (Inl err, w2) \<Rightarrow> (Some (Wrapped errCreateHostRecord err), cr, w2)
                   | (Inr rec, w2) \<Rightarrow> (None, SetExternalName (hrr_Ref rec) cr, w2)))))"

definition namespaced_HostRecord_Update ::
  "(HostRecordObj, hostrecord_req) wapi \<Rightarrow> string \<Rightarrow> HostRecordCR \<Rightarrow> hostrecord_req world \<Rightarrow>
     goerr option \<times> HostRecordCR \<times> hostrecord_req world" where
  "namespaced_HostRecord_Update env endpoint cr w =
     (let p = hr_ForProvider cr; externalID = GetExternalName cr in
      case ensureIdentityPrerequisite env endpoint w of
        (Some err, w1) \<Rightarrow> (Some err, cr, w1)
      | (None, w1) \<Rightarrow>
          (case updateHostRecord env externalID (namespacedCompareFields p) (mo_uid cr) w1 of
             (Inl err, w2) \<Rightarrow> (Some (Wrapped errUpdateHostRecord err), cr, w2)
           | (Inr rec, w2) \<Rightarrow>
               if hrr_Ref rec \<noteq> [] \<and> hrr_Ref rec \<noteq> externalID then
                 (case Refresh env cr (hrr_Ref rec) w2 of
                    (Some err, cr1, w3) \<Rightarrow> (Some (Wrapped errPersistExternalName err), cr1, w3)
                  | (None, cr1, w3) \<Rightarrow> (None, cr1, w3))
               else (None, cr, w2)))"

definition namespaced_HostRecord_Delete ::
  "(HostRecordObj, hostrecord_req) wapi \<Rightarrow> string \<Rightarrow> HostRecordCR \<Rightarrow> hostrecord_req world \<Rightarrow>
     goerr option \<times> hostrecord_req world" where
  "namespaced_HostRecord_Delete env endpoint cr w =
     (let externalID = GetExternalName cr in
      case deleteHostRecordIdentity env endpoint externalID (mo_uid cr) w of
        (Some err, w1) \<Rightarrow> (Some err, w1)
      | (None, w1) \<Rightarrow> (None, w1))"

subsection \<open>cluster.go\<close>

definition clusterIpv4AddrsToValues :: "HostRecordIpv4Addr list \<Rightarrow> ipv4AddrValue list" where
  "clusterIpv4AddrsToValues addrs =
     (if addrs = [] then []
      else map (\<lambda>a. \<lparr>av4_Ipv4Addr = ch4_Ipv4Addr a, av4_MAC = ch4_MAC a,
                     av4_ConfigureForDHCP = ch4_ConfigureForDHCP a, av4_NextServer = ch4_NextServer a\<rparr>) addrs)"

definition clusterIpv4AddrsFromValues :: "ipv4AddrValue list \<Rightarrow> HostRecordIpv4Addr list" where
  "clusterIpv4AddrsFromValues vals =
     (if vals = [] then []
      else map (\<lambda>v. \<lparr>ch4_Ipv4Addr = av4_Ipv4Addr v, ch4_MAC = av4_MAC v,
                     ch4_ConfigureForDHCP = av4_ConfigureForDHCP v, ch4_NextServer = av4_NextServer v\<rparr>) vals)"

definition clusterIpv6AddrsToValues :: "HostRecordIpv6Addr list \<Rightarrow> ipv6AddrValue list" where
  "clusterIpv6AddrsToValues addrs =
     (if addrs = [] then []
      else map (\<lambda>a. \<lparr>av6_Ipv6Addr = ch6_Ipv6Addr a, av6_Duid = ch6_Duid a,
                     av6_ConfigureForDHCP = ch6_ConfigureForDHCP a\<rparr>) addrs)"

definition clusterIpv6AddrsFromValues :: "ipv6AddrValue list \<Rightarrow> HostRecordIpv6Addr list" where
  "clusterIpv6AddrsFromValues vals =
     (if vals = [] then []
      else map (\<lambda>v. \<lparr>ch6_Ipv6Addr = av6_Ipv6Addr v, ch6_Duid = av6_Duid v,
                     ch6_ConfigureForDHCP = av6_ConfigureForDHCP v\<rparr>) vals)"

definition clusterCompareFields :: "HostRecordParameters \<Rightarrow> hostRecordCompareFields" where
  "clusterCompareFields p =
     \<lparr>hcf_Name = hrp_Name p, hcf_Ipv4Addrs = clusterIpv4AddrsToValues (hrp_Ipv4Addrs p),
      hcf_Ipv6Addrs = clusterIpv6AddrsToValues (hrp_Ipv6Addrs p), hcf_View = hrp_View p, hcf_Aliases = hrp_Aliases p,
      hcf_ConfigureForDNS = hrp_ConfigureForDNS p, hcf_Comment = hrp_Comment p, hcf_Disable = hrp_Disable p,
      hcf_TTL = hrp_TTL p, hcf_UseTTL = hrp_UseTTL p, hcf_ExtAttrs = hrp_ExtAttrs p\<rparr>"

definition cluster_HostRecord_Observe ::
  "(HostRecordObj, hostrecord_req) wapi \<Rightarrow> string \<Rightarrow> HostRecordCR \<Rightarrow> hostrecord_req world \<Rightarrow>
     (goerr + ExternalObservation) \<times> HostRecordCR \<times> hostrecord_req world" where
  "cluster_HostRecord_Observe env endpoint cr w =
     (case observeHostRecordIdentity env endpoint (mo_name cr) (GetExternalName cr) (mo_uid cr) w of
        (Inl err, w1) \<Rightarrow>
          if errors_as is_PrerequisiteError err then (Inl err, cr, w1)
          else (Inl (Wrapped errObserveHostRecord err), cr, w1)
      | (Inr res, w1) \<Rightarrow>
          if \<not> hor_exists res then (Inr notExists, cr, w1)
          else
            (case hor_rec res of
               None \<Rightarrow> (Inl (TextError nilDereference), cr, w1)
             | Some rec \<Rightarrow>
                 (let o1 = observeFromHostRecord (hrr_Ref rec) rec;
                      p = hr_ForProvider cr;
                      cr1 = cr\<lparr>hr_AtProvider :=
                        \<lparr>hrs_ID = hro_ID o1, hrs_Name = hro_Name o1,
                         hrs_Ipv4Addrs = clusterIpv4AddrsFromValues (hro_Ipv4Addrs o1),
                         hrs_Ipv6Addrs = clusterIpv6AddrsFromValues (hro_Ipv6Addrs o1),
                         hrs_NetworkView = hro_NetworkView o1, hrs_View = hro_View o1, hrs_Aliases = hro_Aliases o1,
                         hrs_ConfigureForDNS = hro_ConfigureForDNS o1, hrs_Comment = hro_Comment o1,
                         hrs_Disable = hro_Disable o1, hrs_TTL = hro_TTL o1, hrs_UseTTL = hro_UseTTL o1,
                         hrs_ExtAttrs = hro_ExtAttrs o1, hrs_Ipv4Cidr = hrp_Ipv4Cidr p, hrs_Ipv6Cidr = hrp_Ipv6Cidr p,
                         hrs_FilterParams = hrp_FilterParams p, hrs_IpAddressType = hrp_IpAddressType p,
                         hrs_Ref = hro_Ref o1, hrs_Zone = hro_Zone o1, hrs_DNSName = hro_DNSName o1,
                         hrs_DNSAliases = hro_DNSAliases o1\<rparr>\<rparr>;
                      cr2 = (if hor_refreshedRef res \<noteq> [] then SetExternalName (hor_refreshedRef res) cr1 else cr1);
                      localIpv4 = clusterIpv4AddrsToValues (hrp_Ipv4Addrs p);
                      localIpv6 = clusterIpv6AddrsToValues (hrp_Ipv6Addrs p);
                      (l, lateInit) = HostRecord_lateInitialize (HostRecord_latePart p localIpv4 localIpv6) rec;
                      p1 = HostRecord_setLate p l;
                      p2 = (if lateInit
                            then p1\<lparr>hrp_Ipv4Addrs := clusterIpv4AddrsFromValues (fst (HostRecord_localAddrs l)),
                                    hrp_Ipv6Addrs := clusterIpv6AddrsFromValues (snd (HostRecord_localAddrs l))\<rparr>
                            else p1);
                      lateInit1 = (if hor_refreshedRef res \<noteq> [] then True else lateInit);
                      cr3 = SetAvailable (cr2\<lparr>hr_ForProvider := p2\<rparr>);
                      upToDate = (HostRecord_isUpToDate (clusterCompareFields p2) rec \<and> \<not> hor_adopted res)
                  in (Inr \<lparr>ResourceExists = True, ResourceUpToDate = upToDate, ResourceLateInitialized = lateInit1\<rparr>, cr3, w1))))"

definition cluster_HostRecord_Create ::
  "(HostRecordObj, hostrecord_req) wapi \<Rightarrow> string \<Rightarrow> HostRecordCR \<Rightarrow> hostrecord_req world \<Rightarrow>
     goerr option \<times> HostRecordCR \<times> hostrecord_req world" where
  "cluster_HostRecord_Create env endpoint cr w =
     (let p = hr_ForProvider cr; uid = mo_uid cr in
      if trim_space uid = [] then (Some (TextError HostRecord_errEmptyUID), cr, w)
      else
        (let cf = clusterCompareFields p in
         case validateHostRecordAllocation cf (hrp_Ipv4Cidr p) (hrp_Ipv6Cidr p) (hrp_FilterParams p) (hrp_IpAddressType p) of
           Some err \<Rightarrow> (Some (Wrapped errCreateHostRecord err), cr, w)
         | None \<Rightarrow>
             (case ensureIdentityPrerequisite env endpoint w of
                (Some err, w1) \<Rightarrow> (Some err, cr, w1)
              | (None, w1) \<Rightarrow>
                  (case provisionHostRecord env cf (hrp_NetworkView p) (hrp_Ipv4Cidr p) (hrp_Ipv6Cidr p)
                          (hrp_FilterParams p) (hrp_IpAddressType p) uid w1 of
                     (Inl err, w2) \<Rightarrow> (Some (Wrapped errCreateHostRecord err), cr, w2)
                   | (Inr rec, w2) \<Rightarrow> (None, SetExternalName (hrr_Ref rec) cr, w2)))))"

definition cluster_HostRecord_Update ::
  "(HostRecordObj, hostrecord_req) wapi \<Rightarrow> string \<Rightarrow> HostRecordCR \<Rightarrow> hostrecord_req world \<Rightarrow>
     goerr option \<times> HostRecordCR \<times> hostrecord_req world" where
  "cluster_HostRecord_Update env endpoint cr w =
     (let p = hr_ForProvider cr; externalID = GetExternalName cr in
      case ensureIdentityPrerequisite env endpoint w of
        (Some err, w1) \<Rightarrow> (Some err, cr, w1)
      | (None, w1) \<Rightarrow>
          (case updateHostRecord env externalID (clusterCompareFields p) (mo_uid cr) w1 of
             (Inl err, w2) \<Rightarrow> (Some (Wrapped errUpdateHostRecord err), cr, w2)
           | (Inr rec, w2) \<Rightarrow>
               if hrr_Ref rec \<noteq> [] \<and> hrr_Ref rec \<noteq> externalID then
                 (case Refresh env cr (hrr_Ref rec) w2 of
                    (Some err, cr1, w3) \<Rightarrow> (Some (Wrapped errPersistExternalName err), cr1, w3)
                  | (None, cr1, w3) \<Rightarrow> (None, cr1, w3))
               else (None, cr, w2)))"

definition cluster_HostRecord_Delete ::
  "(HostRecordObj, hostrecord_req) wapi \<Rightarrow> string \<Rightarrow> HostRecordCR \<Rightarrow> hostrecord_req world \<Rightarrow>
     goerr option \<times> hostrecord_req world" where
  "cluster_HostRecord_Delete env endpoint cr w =
     (let externalID = GetExternalName cr in
      case deleteHostRecordIdentity env endpoint externalID (mo_uid cr) w of
        (Some err, w1) \<Rightarrow> (Some err, w1)
      | (None, w1) \<Rightarrow> (None, w1))"

section \<open>The contract of the ladder client\<close>

text \<open>The requests of a spec, what a Grid object holds of a request, and the drift check of a resource.\<close>

definition hostrecord_dhcp :: "HostRecordParameters \<Rightarrow> bool" where
  "hostrecord_dhcp p \<longleftrightarrow>
     firstConfigureForDHCPv4 (namespacedIpv4AddrsToValues (hrp_Ipv4Addrs p)) \<or>
     firstConfigureForDHCPv6 (namespacedIpv6AddrsToValues (hrp_Ipv6Addrs p))"

definition hostrecord_create_request :: "HostRecordParameters \<Rightarrow> string \<Rightarrow> hostrecord_req" where
  "hostrecord_create_request p uid =
     (let (a4, mac) = firstIpv4AddrAndMAC (namespacedIpv4AddrsToValues (hrp_Ipv4Addrs p));
          (a6, duid) = firstIpv6AddrAndDuid (namespacedIpv6AddrsToValues (hrp_Ipv6Addrs p));
          nv = strOrEmpty (hrp_NetworkView p); e = Stamp (buildEA (hrp_ExtAttrs p)) uid in
      if hrp_FilterParams p \<noteq> fmempty
      then AllocateNextAvailableIp (strOrEmpty (hrp_Name p)) ''record:host''
             (if nv \<noteq> [] then fmupd ''network_view'' nv (hrp_FilterParams p) else hrp_FilterParams p) e
             (strOrEmpty (hrp_Comment p)) (boolOrFalse (hrp_Disable p)) (strOrEmpty (hrp_IpAddressType p))
             (boolOrFalse (hrp_ConfigureForDNS p)) (hostrecord_dhcp p) mac duid nv (strOrEmpty (hrp_View p))
             (boolOrFalse (hrp_UseTTL p)) (ttlOrZero (hrp_TTL p)) (hrp_Aliases p)
      else CreateHostRecord (boolOrFalse (hrp_ConfigureForDNS p)) (hostrecord_dhcp p) (strOrEmpty (hrp_Name p)) nv
             (strOrEmpty (hrp_View p)) (strOrEmpty (hrp_Ipv4Cidr p)) (strOrEmpty (hrp_Ipv6Cidr p)) a4 a6 mac duid
             (boolOrFalse (hrp_UseTTL p)) (ttlOrZero (hrp_TTL p)) (strOrEmpty (hrp_Comment p)) e (hrp_Aliases p)
             (boolOrFalse (hrp_Disable p)))"

definition hostrecord_update_request :: "string \<Rightarrow> HostRecordParameters \<Rightarrow> string \<Rightarrow> hostrecord_req" where
  "hostrecord_update_request ref p uid =
     (let (a4, mac) = firstIpv4AddrAndMAC (namespacedIpv4AddrsToValues (hrp_Ipv4Addrs p));
          (a6, duid) = firstIpv6AddrAndDuid (namespacedIpv6AddrsToValues (hrp_Ipv6Addrs p)) in
      UpdateHostRecord ref (boolOrFalse (hrp_ConfigureForDNS p)) (hostrecord_dhcp p) (strOrEmpty (hrp_Name p)) []
        (strOrEmpty (hrp_View p)) [] [] a4 a6 mac duid (boolOrFalse (hrp_UseTTL p)) (ttlOrZero (hrp_TTL p))
        (strOrEmpty (hrp_Comment p)) (Stamp (buildEA (hrp_ExtAttrs p)) uid) (hrp_Aliases p) (boolOrFalse (hrp_Disable p)))"

fun hostrecord_req_ea :: "hostrecord_req \<Rightarrow> ea" where
  "hostrecord_req_ea (CreateHostRecord _ _ _ _ _ _ _ _ _ _ _ _ _ _ e _ _) = e"
| "hostrecord_req_ea (AllocateNextAvailableIp _ _ _ e _ _ _ _ _ _ _ _ _ _ _ _) = e"
| "hostrecord_req_ea (UpdateHostRecord _ _ _ _ _ _ _ _ _ _ _ _ _ _ _ e _ _) = e"

text \<open>
  An address that was sent is the object's only one of its family, with the one DHCP flag the SDK
  takes; of a family that was not sent, and of a blank view, the Grid has its own value.
\<close>

definition hostrecord_stores ::
  "bool \<Rightarrow> bool \<Rightarrow> string \<Rightarrow> string \<Rightarrow> string \<Rightarrow> string \<Rightarrow> string \<Rightarrow> string \<Rightarrow> bool \<Rightarrow> 32 word \<Rightarrow> string \<Rightarrow> ea \<Rightarrow>
     string list \<Rightarrow> bool \<Rightarrow> HostRecordObj \<Rightarrow> bool" where
  "hostrecord_stores dns dhcp name view a4 mac a6 duid useTtl ttl comment e aliases disable rec \<longleftrightarrow>
     strOrEmpty (hrr_Name rec) = name \<and> (view \<noteq> [] \<longrightarrow> strOrEmpty (hrr_View rec) = view) \<and>
     boolOrFalse (hrr_EnableDns rec) = dns \<and> boolOrFalse (hrr_UseTtl rec) = useTtl \<and>
     (useTtl \<longrightarrow> ttlOrZero (hrr_Ttl rec) = ttl) \<and> strOrEmpty (hrr_Comment rec) = comment \<and> hrr_Ea rec = e \<and>
     hrr_Aliases rec = aliases \<and> boolOrFalse (hrr_Disable rec) = disable \<and>
     (a4 \<noteq> [] \<longrightarrow> (\<exists>a. hrr_Ipv4Addrs rec = [a] \<and> strOrEmpty (sh4_Ipv4Addr a) = a4 \<and>
        strOrEmpty (sh4_Mac a) = mac \<and> boolOrFalse (sh4_EnableDhcp a) = dhcp)) \<and>
     (a6 \<noteq> [] \<longrightarrow> (\<exists>a. hrr_Ipv6Addrs rec = [a] \<and> strOrEmpty (sh6_Ipv6Addr a) = a6 \<and>
        strOrEmpty (sh6_Duid a) = duid \<and> boolOrFalse (sh6_EnableDhcp a) = dhcp))"

fun hostrecord_holds :: "hostrecord_req \<Rightarrow> HostRecordObj \<Rightarrow> bool" where
  "hostrecord_holds (CreateHostRecord dns dhcp name _ view _ _ a4 a6 mac duid useTtl ttl comment e aliases disable) rec =
     hostrecord_stores dns dhcp name view a4 mac a6 duid useTtl ttl comment e aliases disable rec"
| "hostrecord_holds (AllocateNextAvailableIp name _ _ e comment disable _ dns dhcp _ _ _ view useTtl ttl aliases) rec =
     hostrecord_stores dns dhcp name view [] [] [] [] useTtl ttl comment e aliases disable rec"
| "hostrecord_holds (UpdateHostRecord _ dns dhcp name _ view _ _ a4 a6 mac duid useTtl ttl comment e aliases disable) rec =
     hostrecord_stores dns dhcp name view a4 mac a6 duid useTtl ttl comment e aliases disable rec"

definition HostRecord_utd :: "HostRecordCR \<Rightarrow> HostRecordObj \<Rightarrow> bool" where
  "HostRecord_utd cr rec = HostRecord_isUpToDate (namespacedCompareFields (hr_ForProvider cr)) rec"

text \<open>
  The specs the convergence law is about: the first address of a non-empty list is set and has
  the DHCP flag that is sent, and addresses are not combined with a filter.
\<close>

definition HostRecord_spec_ok :: "HostRecordCR \<Rightarrow> bool" where
  "HostRecord_spec_ok cr \<longleftrightarrow>
     (let p = hr_ForProvider cr in
      reserved_free (hrp_ExtAttrs p) \<and> hrp_View p \<noteq> Some [] \<and>
      (hrp_FilterParams p \<noteq> fmempty \<longrightarrow> hrp_Ipv4Addrs p = [] \<and> hrp_Ipv6Addrs p = []) \<and>
      (hrp_Ipv4Addrs p \<noteq> [] \<longrightarrow> ch4_Ipv4Addr (hd (hrp_Ipv4Addrs p)) \<noteq> [] \<and>
         boolOrFalse (ch4_ConfigureForDHCP (hd (hrp_Ipv4Addrs p))) = hostrecord_dhcp p) \<and>
      (hrp_Ipv6Addrs p \<noteq> [] \<longrightarrow> ch6_Ipv6Addr (hd (hrp_Ipv6Addrs p)) \<noteq> [] \<and>
         boolOrFalse (ch6_ConfigureForDHCP (hd (hrp_Ipv6Addrs p))) = hostrecord_dhcp p))"

text \<open>What Observe makes of the spec, and that it keeps what the user set.\<close>

definition HostRecord_backfill :: "HostRecordParameters \<Rightarrow> HostRecordObj \<Rightarrow> HostRecordParameters \<times> bool" where
  "HostRecord_backfill p rec =
     (case HostRecord_lateInitialize (HostRecord_latePart p (namespacedIpv4AddrsToValues (hrp_Ipv4Addrs p))
             (namespacedIpv6AddrsToValues (hrp_Ipv6Addrs p))) rec of
        (l, c) \<Rightarrow>
          (if c then (HostRecord_setLate p l)
               \<lparr>hrp_Ipv4Addrs := namespacedIpv4AddrsFromValues (fst (HostRecord_localAddrs l)),
                hrp_Ipv6Addrs := namespacedIpv6AddrsFromValues (snd (HostRecord_localAddrs l))\<rparr>
           else HostRecord_setLate p l, c))"

definition HostRecord_keeps :: "HostRecordParameters \<Rightarrow> HostRecordParameters \<Rightarrow> bool" where
  "HostRecord_keeps p p' \<longleftrightarrow>
     keeps_set (hrp_Comment p) (hrp_Comment p') \<and> keeps_set (hrp_TTL p) (hrp_TTL p') \<and>
     keeps_set (hrp_UseTTL p) (hrp_UseTTL p') \<and> keeps_attrs (hrp_ExtAttrs p) (hrp_ExtAttrs p') \<and>
     keeps_set (hrp_View p) (hrp_View p') \<and> keeps_set (hrp_ConfigureForDNS p) (hrp_ConfigureForDNS p') \<and>
     keeps_set (hrp_Disable p) (hrp_Disable p') \<and> keeps_list (hrp_Aliases p) (hrp_Aliases p') \<and>
     keeps_list (hrp_Ipv4Addrs p) (hrp_Ipv4Addrs p') \<and> keeps_list (hrp_Ipv6Addrs p) (hrp_Ipv6Addrs p')"

definition HostRecord_put :: "HostRecordCR \<Rightarrow> HostRecordParameters \<Rightarrow> HostRecordCR" where
  "HostRecord_put cr p = cr\<lparr>hr_ForProvider := p\<rparr>"

definition HostRecord_status :: "HostRecordObj \<Rightarrow> HostRecordCR \<Rightarrow> HostRecordCR" where
  "HostRecord_status rec cr =
     (let o1 = observeFromHostRecord (hrr_Ref rec) rec; p = hr_ForProvider cr in
      cr\<lparr>hr_AtProvider :=
        \<lparr>hrs_ID = hro_ID o1, hrs_Name = hro_Name o1,
         hrs_Ipv4Addrs = namespacedIpv4AddrsFromValues (hro_Ipv4Addrs o1),
         hrs_Ipv6Addrs = namespacedIpv6AddrsFromValues (hro_Ipv6Addrs o1),
         hrs_NetworkView = hro_NetworkView o1, hrs_View = hro_View o1, hrs_Aliases = hro_Aliases o1,
         hrs_ConfigureForDNS = hro_ConfigureForDNS o1, hrs_Comment = hro_Comment o1,
         hrs_Disable = hro_Disable o1, hrs_TTL = hro_TTL o1, hrs_UseTTL = hro_UseTTL o1,
         hrs_ExtAttrs = hro_ExtAttrs o1, hrs_Ipv4Cidr = hrp_Ipv4Cidr p, hrs_Ipv6Cidr = hrp_Ipv6Cidr p,
         hrs_FilterParams = hrp_FilterParams p, hrs_IpAddressType = hrp_IpAddressType p,
         hrs_Ref = hro_Ref o1, hrs_Zone = hro_Zone o1, hrs_DNSName = hro_DNSName o1,
         hrs_DNSAliases = hro_DNSAliases o1\<rparr>\<rparr>)"

definition HostRecord_valid :: "HostRecordCR \<Rightarrow> goerr option" where
  "HostRecord_valid cr =
     (let p = hr_ForProvider cr in
      if trim_space (mo_uid cr) = [] then Some (TextError HostRecord_errEmptyUID)
      else map_option (Wrapped errCreateHostRecord)
             (validateHostRecordAllocation (namespacedCompareFields p) (hrp_Ipv4Cidr p) (hrp_Ipv6Cidr p)
                (hrp_FilterParams p) (hrp_IpAddressType p)))"

lemma addr_conv [simp]:
  "namespacedIpv4AddrsFromValues (namespacedIpv4AddrsToValues xs) = xs"
  "namespacedIpv4AddrsToValues (namespacedIpv4AddrsFromValues vs) = vs"
  "namespacedIpv6AddrsFromValues (namespacedIpv6AddrsToValues ys) = ys"
  "namespacedIpv6AddrsToValues (namespacedIpv6AddrsFromValues us) = us"
  by (auto simp: namespacedIpv4AddrsFromValues_def namespacedIpv4AddrsToValues_def namespacedIpv6AddrsFromValues_def
      namespacedIpv6AddrsToValues_def comp_def intro!: map_idI)

lemma addr_conv_eq:
  "namespacedIpv4AddrsFromValues vs = xs \<longleftrightarrow> vs = namespacedIpv4AddrsToValues xs"
  "namespacedIpv6AddrsFromValues us = ys \<longleftrightarrow> us = namespacedIpv6AddrsToValues ys"
  by auto

lemma addr_conv_Nil [simp]:
  "namespacedIpv4AddrsToValues xs = [] \<longleftrightarrow> xs = []" "namespacedIpv6AddrsToValues ys = [] \<longleftrightarrow> ys = []"
  "namespacedIpv4AddrsToValues [] = []" "namespacedIpv6AddrsToValues [] = []"
  by (simp_all add: namespacedIpv4AddrsToValues_def namespacedIpv6AddrsToValues_def)

lemma addrs_from_sdk_Nil [simp]:
  "ipv4AddrValuesFromSDK xs = [] \<longleftrightarrow> xs = []" "ipv6AddrValuesFromSDK ys = [] \<longleftrightarrow> ys = []"
  "ipv4AddrValuesFromSDK [] = []" "ipv6AddrValuesFromSDK [] = []"
  by (simp_all add: ipv4AddrValuesFromSDK_def ipv6AddrValuesFromSDK_def)

lemma hostStringSlicesEqual_iff [simp]: "hostStringSlicesEqual a b \<longleftrightarrow> a = b"
proof -
  have "length a = length b \<Longrightarrow> hostStringsLoop a b \<longleftrightarrow> a = b"
    by (induction a b rule: hostStringsLoop.induct) auto
  then show ?thesis by (auto simp: hostStringSlicesEqual_def)
qed

lemma hostrecord_late_eqs:
  "HostRecord_lateInitExtAttrs m (Strip e) = (fill_map m (userAttrs e), fill_map m (userAttrs e) \<noteq> m)"
  "lateInitAliases xs ys = (fill_list xs ys, fill_list xs ys \<noteq> xs)"
  "lateInitIpv4Addrs vs os = (fill_list vs (ipv4AddrValuesFromSDK os), fill_list vs (ipv4AddrValuesFromSDK os) \<noteq> vs)"
  "lateInitIpv6Addrs us ps = (fill_list us (ipv6AddrValuesFromSDK ps), fill_list us (ipv6AddrValuesFromSDK ps) \<noteq> us)"
  by (auto simp: HostRecord_lateInitExtAttrs_def lateInitAliases_def lateInitIpv4Addrs_def lateInitIpv6Addrs_def
      fill_map_def fill_list_def userAttrs_def extAttrsFromEA_def Let_def)

lemma HostRecord_lateInitialize_eq:
  "HostRecord_lateInitialize (comment, ttl, useTTL, extAttrs, view, configureForDNS, disable, aliases, ipv4Addrs, ipv6Addrs) rec =
     (let comment1 = fill comment (ptrIfSet (hrr_Comment rec));
          useTTL1 = fill useTTL (hrr_UseTtl rec);
          ttl1 = fill_if ttl (boolOrFalse useTTL1) (hrr_Ttl rec);
          extAttrs1 = fill_map extAttrs (userAttrs (hrr_Ea rec));
          view1 = fill view (ptrIfSet (hrr_View rec));
          configureForDNS1 = fill configureForDNS (hrr_EnableDns rec);
          disable1 = fill disable (hrr_Disable rec);
          aliases1 = fill_list aliases (hrr_Aliases rec);
          ipv4Addrs1 = fill_list ipv4Addrs (ipv4AddrValuesFromSDK (hrr_Ipv4Addrs rec));
          ipv6Addrs1 = fill_list ipv6Addrs (ipv6AddrValuesFromSDK (hrr_Ipv6Addrs rec));
          l = (comment1, ttl1, useTTL1, extAttrs1, view1, configureForDNS1, disable1, aliases1, ipv4Addrs1, ipv6Addrs1)
      in (l, l \<noteq> (comment, ttl, useTTL, extAttrs, view, configureForDNS, disable, aliases, ipv4Addrs, ipv6Addrs)))"
  by (simp only: HostRecord_lateInitialize_def Let_def case_prod_conv lateInit_eqs hostrecord_late_eqs
      guarded_late prod.inject simp_thms de_Morgan_conj disj_ac)

lemma HostRecord_backfill_eq:
  "HostRecord_backfill p rec =
     (let useTTL1 = fill (hrp_UseTTL p) (hrr_UseTtl rec);
          p' = p\<lparr>hrp_Comment := fill (hrp_Comment p) (ptrIfSet (hrr_Comment rec)),
                 hrp_TTL := fill_if (hrp_TTL p) (boolOrFalse useTTL1) (hrr_Ttl rec), hrp_UseTTL := useTTL1,
                 hrp_ExtAttrs := fill_map (hrp_ExtAttrs p) (userAttrs (hrr_Ea rec)),
                 hrp_View := fill (hrp_View p) (ptrIfSet (hrr_View rec)),
                 hrp_ConfigureForDNS := fill (hrp_ConfigureForDNS p) (hrr_EnableDns rec),
                 hrp_Disable := fill (hrp_Disable p) (hrr_Disable rec),
                 hrp_Aliases := fill_list (hrp_Aliases p) (hrr_Aliases rec),
                 hrp_Ipv4Addrs := namespacedIpv4AddrsFromValues
                   (fill_list (namespacedIpv4AddrsToValues (hrp_Ipv4Addrs p)) (ipv4AddrValuesFromSDK (hrr_Ipv4Addrs rec))),
                 hrp_Ipv6Addrs := namespacedIpv6AddrsFromValues
                   (fill_list (namespacedIpv6AddrsToValues (hrp_Ipv6Addrs p)) (ipv6AddrValuesFromSDK (hrr_Ipv6Addrs rec)))\<rparr>
      in (p', p' \<noteq> p))"
  by (cases p)
    (auto simp: HostRecord_backfill_def HostRecord_latePart_def HostRecord_setLate_def HostRecord_lateInitialize_eq
      Let_def HostRecord_localAddrs_def addr_conv_eq)

lemma addrsEqual_iff:
  "ipv4AddrsEqual vs os \<longleftrightarrow>
     firstIpv4AddrAndMAC vs = firstIpv4AddrAndMAC (ipv4AddrValuesFromSDK os) \<and>
     firstConfigureForDHCPv4 vs = firstConfigureForDHCPv4 (ipv4AddrValuesFromSDK os)"
  "ipv6AddrsEqual us ps \<longleftrightarrow>
     firstIpv6AddrAndDuid us = firstIpv6AddrAndDuid (ipv6AddrValuesFromSDK ps) \<and>
     firstConfigureForDHCPv6 us = firstConfigureForDHCPv6 (ipv6AddrValuesFromSDK ps)"
  by (auto simp: ipv4AddrsEqual_def ipv6AddrsEqual_def Let_def split_beta prod_eq_iff)

lemma addrsEqual_late:
  "ipv4AddrsEqual vs os \<Longrightarrow> ipv4AddrsEqual (fill_list vs (ipv4AddrValuesFromSDK os)) os"
  "ipv6AddrsEqual us ps \<Longrightarrow> ipv6AddrsEqual (fill_list us (ipv6AddrValuesFromSDK ps)) ps"
  by (simp_all add: fill_list_def addrsEqual_iff)

lemma fill_list_same [simp]: "fill_list xs xs = xs"
  by (simp add: fill_list_def)

interpretation hostrecord_late: late_lens HostRecord_backfill HostRecord_keeps hr_ForProvider HostRecord_put HostRecord_utd
proof
  fix l l' :: HostRecordParameters and rec :: HostRecordObj and cr :: HostRecordCR
  show "HostRecord_backfill (fst (HostRecord_backfill l rec)) rec = (fst (HostRecord_backfill l rec), False)"
    by (simp add: HostRecord_backfill_eq Let_def addr_conv_eq)
  show "snd (HostRecord_backfill l rec) \<longleftrightarrow> fst (HostRecord_backfill l rec) \<noteq> l"
    by (simp add: HostRecord_backfill_eq Let_def)
  show "HostRecord_keeps l (fst (HostRecord_backfill l rec))"
    by (simp add: HostRecord_backfill_eq Let_def HostRecord_keeps_def)
      (auto simp: keeps_list_def fill_list_def)
  show "hr_ForProvider (HostRecord_put cr l) = l" "HostRecord_put cr (hr_ForProvider cr) = cr"
    "HostRecord_put (HostRecord_put cr l) l' = HostRecord_put cr l'"
    by (simp_all add: HostRecord_put_def)
  assume "HostRecord_utd cr rec"
  then show "HostRecord_utd (HostRecord_put cr (fst (HostRecord_backfill (hr_ForProvider cr) rec))) rec"
    by (simp add: HostRecord_utd_def HostRecord_put_def HostRecord_backfill_eq Let_def HostRecord_isUpToDate_def
        namespacedCompareFields_def extAttrsEqual_iff addrsEqual_late flip: userAttrs_def split: if_splits)
qed

lemma HostRecordObj_type_simps [simp]:
  "ot_name HostRecordObj_type = ''record:host''" "ref_ea_shape HostRecordObj_type"
  "stamped HostRecordObj_type r = eaValue (hrr_Ea r) EAKey"
  by (simp_all add: HostRecordObj_type_def ref_ea_shape_def reflectHostRecordObj_def stamped_def getRef_def getEA_def
      field_simps map_of_def)

lemma deleteHostRecord_issue: "deleteHostRecord = issue_delete"
  by (intro ext) (simp only: deleteHostRecord_def issue_delete_def)

lemma HostRecord_late_flag:
  "snd (HostRecord_lateInitialize l rec) \<longleftrightarrow> fst (HostRecord_lateInitialize l rec) \<noteq> l"
  by (cases l; cases "snd (snd (snd (snd (snd l))))") (simp add: HostRecord_lateInitialize_eq Let_def)

lemma HostRecord_CR_commute:
  "cr\<lparr>hr_AtProvider := a, hr_ForProvider := p\<rparr> = cr\<lparr>hr_ForProvider := p, hr_AtProvider := a\<rparr>"
  "(SetExternalName n (cr\<lparr>hr_AtProvider := a\<rparr>))\<lparr>hr_ForProvider := p\<rparr> =
     SetExternalName n (cr\<lparr>hr_ForProvider := p, hr_AtProvider := a\<rparr>)"
  by (simp_all add: SetExternalName_def)

lemma HostRecord_Observe_shape:
  "namespaced_HostRecord_Observe env ep cr w =
     ladder_observe_shape (ladder_observe_error errObserveHostRecord) (Resolve env HostRecordObj_type)
       (ensureIdentityPrerequisite env ep) (\<lambda>r. r \<noteq> []) (\<lambda>r. r \<noteq> [])
       (lift_late HostRecord_backfill hr_ForProvider HostRecord_put) HostRecord_status HostRecord_utd hrr_Ref cr w"
proof -
  obtain r w1 where r: "Resolve env HostRecordObj_type (observeRefFor (mo_name cr) (GetExternalName cr)) (mo_uid cr) w = (r, w1)"
    by (cases "Resolve env HostRecordObj_type (observeRefFor (mo_name cr) (GetExternalName cr)) (mo_uid cr) w")
  obtain e w2 where e: "ensureIdentityPrerequisite env ep w1 = (e, w2)"
    by (cases "ensureIdentityPrerequisite env ep w1")
  note defs = namespaced_HostRecord_Observe_def observeHostRecordIdentity_def resolveHostRecordIdentity_def
    ladder_observe_shape_def ladder_observe_error_def
  show ?thesis
  proof (cases r)
    case (Inl err)
    then show ?thesis
      by (cases e) (simp_all add: defs Let_def r e)
  next
    case (Inr a)
    obtain obj out where a: "a = (obj, out)" by (cases a)
    show ?thesis
    proof (cases obj)
      case None
      with r Inr a have "out = OutcomeNotFound"
        using Resolve_Some [of env HostRecordObj_type] by (metis option.distinct(1))
      with None show ?thesis by (simp add: defs Let_def r Inr a)
    next
      case (Some rec)
      let ?p = "hr_ForProvider cr"
      obtain l c where lc: "HostRecord_lateInitialize (HostRecord_latePart ?p (namespacedIpv4AddrsToValues (hrp_Ipv4Addrs ?p))
          (namespacedIpv6AddrsToValues (hrp_Ipv6Addrs ?p))) rec = (l, c)"
        by (cases "HostRecord_lateInitialize (HostRecord_latePart ?p (namespacedIpv4AddrsToValues (hrp_Ipv4Addrs ?p))
          (namespacedIpv6AddrsToValues (hrp_Ipv6Addrs ?p))) rec")
      have late: "HostRecord_backfill ?p rec = (if c then (HostRecord_setLate ?p l)
               \<lparr>hrp_Ipv4Addrs := namespacedIpv4AddrsFromValues (fst (HostRecord_localAddrs l)),
                hrp_Ipv6Addrs := namespacedIpv6AddrsFromValues (snd (HostRecord_localAddrs l))\<rparr>
           else HostRecord_setLate ?p l, c)"
        by (simp add: HostRecord_backfill_def lc)
      have kept: "hrp_Ipv4Cidr (HostRecord_setLate ?p l) = hrp_Ipv4Cidr ?p"
        "hrp_Ipv6Cidr (HostRecord_setLate ?p l) = hrp_Ipv6Cidr ?p"
        "hrp_FilterParams (HostRecord_setLate ?p l) = hrp_FilterParams ?p"
        "hrp_IpAddressType (HostRecord_setLate ?p l) = hrp_IpAddressType ?p"
        by (simp_all add: HostRecord_setLate_def split_beta)
      show ?thesis
        by (cases out; cases c)
          (simp_all add: defs Let_def r Inr a Some lc late lift_late_def HostRecord_put_def HostRecord_status_def
            HostRecord_utd_def kept HostRecord_CR_commute)
    qed
  qed
qed

lemma compareFields_simps:
  "hcf_Name (namespacedCompareFields p) = hrp_Name p"
  "hcf_Ipv4Addrs (namespacedCompareFields p) = namespacedIpv4AddrsToValues (hrp_Ipv4Addrs p)"
  "hcf_Ipv6Addrs (namespacedCompareFields p) = namespacedIpv6AddrsToValues (hrp_Ipv6Addrs p)"
  "hcf_View (namespacedCompareFields p) = hrp_View p" "hcf_Aliases (namespacedCompareFields p) = hrp_Aliases p"
  "hcf_ConfigureForDNS (namespacedCompareFields p) = hrp_ConfigureForDNS p"
  "hcf_Comment (namespacedCompareFields p) = hrp_Comment p" "hcf_Disable (namespacedCompareFields p) = hrp_Disable p"
  "hcf_TTL (namespacedCompareFields p) = hrp_TTL p" "hcf_UseTTL (namespacedCompareFields p) = hrp_UseTTL p"
  "hcf_ExtAttrs (namespacedCompareFields p) = hrp_ExtAttrs p"
  by (simp_all add: namespacedCompareFields_def)

lemma provisionHostRecord_valid:
  assumes "HostRecord_valid cr = None"
  shows "provisionHostRecord env (namespacedCompareFields (hr_ForProvider cr)) (hrp_NetworkView (hr_ForProvider cr))
      (hrp_Ipv4Cidr (hr_ForProvider cr)) (hrp_Ipv6Cidr (hr_ForProvider cr)) (hrp_FilterParams (hr_ForProvider cr))
      (hrp_IpAddressType (hr_ForProvider cr)) (mo_uid cr) w =
    mutate_object env (hostrecord_create_request (hr_ForProvider cr) (mo_uid cr)) w"
proof -
  let ?p = "hr_ForProvider cr"
  have valid: "trim_space (mo_uid cr) \<noteq> []" "validateHostRecordAllocation (namespacedCompareFields ?p) (hrp_Ipv4Cidr ?p)
      (hrp_Ipv6Cidr ?p) (hrp_FilterParams ?p) (hrp_IpAddressType ?p) = None"
    using assms by (auto simp: HostRecord_valid_def Let_def split: if_splits)
  then show ?thesis
    by (cases "hrp_FilterParams ?p = fmempty")
      (simp_all add: provisionHostRecord_def createHostRecord_def allocateNextAvailableHostRecord_def compareFields_simps
        hostrecord_create_request_def hostrecord_dhcp_def Let_def split_beta)
qed

lemma HostRecord_Create_shape:
  "namespaced_HostRecord_Create env ep cr w =
     ladder_create_shape errCreateHostRecord HostRecord_valid (ensureIdentityPrerequisite env ep) (mutate_object env)
       (\<lambda>cr. hostrecord_create_request (hr_ForProvider cr) (mo_uid cr)) hrr_Ref cr w"
proof -
  let ?v = "validateHostRecordAllocation (namespacedCompareFields (hr_ForProvider cr)) (hrp_Ipv4Cidr (hr_ForProvider cr))
    (hrp_Ipv6Cidr (hr_ForProvider cr)) (hrp_FilterParams (hr_ForProvider cr)) (hrp_IpAddressType (hr_ForProvider cr))"
  show ?thesis
  proof (cases "HostRecord_valid cr")
    case None
    then have "trim_space (mo_uid cr) \<noteq> []" "?v = None"
      by (auto simp: HostRecord_valid_def Let_def split: if_splits)
    moreover obtain e w1 where e: "ensureIdentityPrerequisite env ep w = (e, w1)"
      by (cases "ensureIdentityPrerequisite env ep w")
    ultimately show ?thesis using None provisionHostRecord_valid [OF None]
      by (cases e) (simp_all add: namespaced_HostRecord_Create_def ladder_create_shape_def Let_def e)
  next
    case (Some err)
    then have "trim_space (mo_uid cr) = [] \<and> err = TextError HostRecord_errEmptyUID \<or>
        trim_space (mo_uid cr) \<noteq> [] \<and> (\<exists>e. ?v = Some e \<and> err = Wrapped errCreateHostRecord e)"
      by (auto simp: HostRecord_valid_def Let_def split: if_splits)
    with Some show ?thesis
      by (elim disjE) (auto simp: namespaced_HostRecord_Create_def ladder_create_shape_def Let_def)
  qed
qed

lemma HostRecord_Update_shape:
  "namespaced_HostRecord_Update env ep cr w =
     ladder_update_shape errUpdateHostRecord HostRecord_errEmptyUID env (ensureIdentityPrerequisite env ep)
       (\<lambda>cr. hostrecord_update_request (GetExternalName cr) (hr_ForProvider cr) (mo_uid cr)) hrr_Ref cr w"
proof -
  obtain e w1 where e: "ensureIdentityPrerequisite env ep w = (e, w1)"
    by (cases "ensureIdentityPrerequisite env ep w")
  have "updateHostRecord env (GetExternalName cr) (namespacedCompareFields (hr_ForProvider cr)) (mo_uid cr) w1 =
      (if trim_space (mo_uid cr) = [] then (Inl (TextError HostRecord_errEmptyUID), w1)
       else mutate_object env (hostrecord_update_request (GetExternalName cr) (hr_ForProvider cr) (mo_uid cr)) w1)"
    by (simp add: updateHostRecord_def hostrecord_update_request_def namespacedCompareFields_def hostrecord_dhcp_def
        Let_def split_beta)
  then show ?thesis
    by (cases e) (simp_all add: namespaced_HostRecord_Update_def ladder_update_shape_def Let_def e)
qed

lemma HostRecord_Delete_shape:
  "namespaced_HostRecord_Delete env ep cr w =
     ladder_delete_shape errDeleteHostRecord errDeleteUnverifiedOwnership nilDereference
       (Resolve env HostRecordObj_type (GetExternalName cr) (mo_uid cr)) (ensureIdentityPrerequisite env ep)
       (issue_delete env) hrr_Ref w"
proof -
  have "namespaced_HostRecord_Delete env ep cr w = deleteHostRecordIdentity env ep (GetExternalName cr) (mo_uid cr) w"
    by (simp add: namespaced_HostRecord_Delete_def Let_def split: prod.split option.split)
  then show ?thesis
    by (simp only: deleteHostRecordIdentity_def ladder_delete_shape_def resolveHostRecordIdentity_def deleteHostRecord_issue)
qed

lemma HostRecord_conv_scopes:
  "clusterIpv4AddrsToValues = namespacedIpv4AddrsToValues" "clusterIpv4AddrsFromValues = namespacedIpv4AddrsFromValues"
  "clusterIpv6AddrsToValues = namespacedIpv6AddrsToValues" "clusterIpv6AddrsFromValues = namespacedIpv6AddrsFromValues"
  by (intro ext; simp only: clusterIpv4AddrsToValues_def namespacedIpv4AddrsToValues_def clusterIpv4AddrsFromValues_def
      namespacedIpv4AddrsFromValues_def clusterIpv6AddrsToValues_def namespacedIpv6AddrsToValues_def
      clusterIpv6AddrsFromValues_def namespacedIpv6AddrsFromValues_def)+

lemma HostRecord_fields_scopes: "clusterCompareFields = namespacedCompareFields"
  by (intro ext) (simp only: clusterCompareFields_def namespacedCompareFields_def HostRecord_conv_scopes)

lemma HostRecord_scopes:
  "cluster_HostRecord_Observe = namespaced_HostRecord_Observe" "cluster_HostRecord_Create = namespaced_HostRecord_Create"
  "cluster_HostRecord_Update = namespaced_HostRecord_Update" "cluster_HostRecord_Delete = namespaced_HostRecord_Delete"
  by (intro ext; simp only: cluster_HostRecord_Observe_def namespaced_HostRecord_Observe_def cluster_HostRecord_Create_def
      namespaced_HostRecord_Create_def cluster_HostRecord_Update_def namespaced_HostRecord_Update_def
      cluster_HostRecord_Delete_def namespaced_HostRecord_Delete_def HostRecord_conv_scopes HostRecord_fields_scopes)+

text \<open>What was sent of the addresses is read back as equal, after back-filling what was not.\<close>

lemma ipv4_stored:
  assumes "xs \<noteq> [] \<Longrightarrow> ch4_Ipv4Addr (hd xs) \<noteq> []"
    and "xs \<noteq> [] \<Longrightarrow> \<exists>a. os = [a] \<and> strOrEmpty (sh4_Ipv4Addr a) = ch4_Ipv4Addr (hd xs) \<and>
      strOrEmpty (sh4_Mac a) = strOrEmpty (ch4_MAC (hd xs)) \<and>
      boolOrFalse (sh4_EnableDhcp a) = boolOrFalse (ch4_ConfigureForDHCP (hd xs))"
  shows "ipv4AddrsEqual (fill_list (namespacedIpv4AddrsToValues xs) (ipv4AddrValuesFromSDK os)) os"
proof (cases xs)
  case (Cons x ys)
  then show ?thesis
    using assms(2) by (auto simp: addrsEqual_iff fill_list_def namespacedIpv4AddrsToValues_def ipv4AddrValuesFromSDK_def
        firstIpv4AddrAndMAC_def firstConfigureForDHCPv4_def)
qed (simp add: addrsEqual_iff fill_list_def)

lemma ipv6_stored:
  assumes "xs \<noteq> [] \<Longrightarrow> ch6_Ipv6Addr (hd xs) \<noteq> []"
    and "xs \<noteq> [] \<Longrightarrow> \<exists>a. os = [a] \<and> strOrEmpty (sh6_Ipv6Addr a) = ch6_Ipv6Addr (hd xs) \<and>
      strOrEmpty (sh6_Duid a) = strOrEmpty (ch6_Duid (hd xs)) \<and>
      boolOrFalse (sh6_EnableDhcp a) = boolOrFalse (ch6_ConfigureForDHCP (hd xs))"
  shows "ipv6AddrsEqual (fill_list (namespacedIpv6AddrsToValues xs) (ipv6AddrValuesFromSDK os)) os"
proof (cases xs)
  case (Cons x ys)
  then show ?thesis
    using assms(2) by (auto simp: addrsEqual_iff fill_list_def namespacedIpv6AddrsToValues_def ipv6AddrValuesFromSDK_def
        firstIpv6AddrAndDuid_def firstConfigureForDHCPv6_def)
qed (simp add: addrsEqual_iff fill_list_def)

lemma first_converted:
  "firstIpv4AddrAndMAC (namespacedIpv4AddrsToValues xs) =
     (if xs = [] then ([], []) else (ch4_Ipv4Addr (hd xs), strOrEmpty (ch4_MAC (hd xs))))"
  "firstIpv6AddrAndDuid (namespacedIpv6AddrsToValues ys) =
     (if ys = [] then ([], []) else (ch6_Ipv6Addr (hd ys), strOrEmpty (ch6_Duid (hd ys))))"
  by (cases xs; simp add: firstIpv4AddrAndMAC_def namespacedIpv4AddrsToValues_def)
    (cases ys; simp add: firstIpv6AddrAndDuid_def namespacedIpv6AddrsToValues_def)

lemma hostrecord_written_utd:
  assumes "HostRecord_spec_ok cr"
    and "hostrecord_holds (hostrecord_create_request (hr_ForProvider cr) (mo_uid cr)) rec \<or>
      hostrecord_holds (hostrecord_update_request (GetExternalName cr) (hr_ForProvider cr) (mo_uid cr)) rec"
  shows "HostRecord_utd (fst (lift_late HostRecord_backfill hr_ForProvider HostRecord_put cr rec)) rec \<and>
    eaValue (hrr_Ea rec) EAKey = Some (mo_uid cr)"
proof -
  let ?p = "hr_ForProvider cr"
  let ?a4 = "firstIpv4AddrAndMAC (namespacedIpv4AddrsToValues (hrp_Ipv4Addrs ?p))"
  let ?a6 = "firstIpv6AddrAndDuid (namespacedIpv6AddrsToValues (hrp_Ipv6Addrs ?p))"
  have ok: "reserved_free (hrp_ExtAttrs ?p)" "hrp_View ?p \<noteq> Some []"
    "hrp_FilterParams ?p \<noteq> fmempty \<Longrightarrow> hrp_Ipv4Addrs ?p = [] \<and> hrp_Ipv6Addrs ?p = []"
    and v4: "hrp_Ipv4Addrs ?p \<noteq> [] \<Longrightarrow> ch4_Ipv4Addr (hd (hrp_Ipv4Addrs ?p)) \<noteq> [] \<and>
      boolOrFalse (ch4_ConfigureForDHCP (hd (hrp_Ipv4Addrs ?p))) = hostrecord_dhcp ?p"
    and v6: "hrp_Ipv6Addrs ?p \<noteq> [] \<Longrightarrow> ch6_Ipv6Addr (hd (hrp_Ipv6Addrs ?p)) \<noteq> [] \<and>
      boolOrFalse (ch6_ConfigureForDHCP (hd (hrp_Ipv6Addrs ?p))) = hostrecord_dhcp ?p"
    using assms(1) by (simp_all add: HostRecord_spec_ok_def Let_def)
  have "hostrecord_stores (boolOrFalse (hrp_ConfigureForDNS ?p)) (hostrecord_dhcp ?p) (strOrEmpty (hrp_Name ?p))
      (strOrEmpty (hrp_View ?p)) (fst ?a4) (snd ?a4) (fst ?a6) (snd ?a6) (boolOrFalse (hrp_UseTTL ?p))
      (ttlOrZero (hrp_TTL ?p)) (strOrEmpty (hrp_Comment ?p)) (Stamp (buildEA (hrp_ExtAttrs ?p)) (mo_uid cr))
      (hrp_Aliases ?p) (boolOrFalse (hrp_Disable ?p)) rec"
    using assms(2) ok(3)
    by (elim disjE) (auto simp: hostrecord_create_request_def hostrecord_update_request_def Let_def split_beta
        first_converted split: if_splits)
  then have plain: "strOrEmpty (hrr_Name rec) = strOrEmpty (hrp_Name ?p)"
      "boolOrFalse (hrr_EnableDns rec) = boolOrFalse (hrp_ConfigureForDNS ?p)"
      "boolOrFalse (hrr_UseTtl rec) = boolOrFalse (hrp_UseTTL ?p)"
      "strOrEmpty (hrr_Comment rec) = strOrEmpty (hrp_Comment ?p)" "hrr_Aliases rec = hrp_Aliases ?p"
      "boolOrFalse (hrr_Disable rec) = boolOrFalse (hrp_Disable ?p)"
    and ttl: "boolOrFalse (hrp_UseTTL ?p) \<Longrightarrow> ttlOrZero (hrr_Ttl rec) = ttlOrZero (hrp_TTL ?p)"
    and view: "strOrEmpty (hrp_View ?p) \<noteq> [] \<Longrightarrow> strOrEmpty (hrr_View rec) = strOrEmpty (hrp_View ?p)"
    and ea: "hrr_Ea rec = Stamp (buildEA (hrp_ExtAttrs ?p)) (mo_uid cr)"
    and a4: "fst ?a4 \<noteq> [] \<Longrightarrow> \<exists>a. hrr_Ipv4Addrs rec = [a] \<and> strOrEmpty (sh4_Ipv4Addr a) = fst ?a4 \<and>
        strOrEmpty (sh4_Mac a) = snd ?a4 \<and> boolOrFalse (sh4_EnableDhcp a) = hostrecord_dhcp ?p"
    and a6: "fst ?a6 \<noteq> [] \<Longrightarrow> \<exists>a. hrr_Ipv6Addrs rec = [a] \<and> strOrEmpty (sh6_Ipv6Addr a) = fst ?a6 \<and>
        strOrEmpty (sh6_Duid a) = snd ?a6 \<and> boolOrFalse (sh6_EnableDhcp a) = hostrecord_dhcp ?p"
    by (simp_all add: hostrecord_stores_def)
  have "hrp_Ipv4Addrs ?p \<noteq> [] \<Longrightarrow> \<exists>a. hrr_Ipv4Addrs rec = [a] \<and>
      strOrEmpty (sh4_Ipv4Addr a) = ch4_Ipv4Addr (hd (hrp_Ipv4Addrs ?p)) \<and>
      strOrEmpty (sh4_Mac a) = strOrEmpty (ch4_MAC (hd (hrp_Ipv4Addrs ?p))) \<and>
      boolOrFalse (sh4_EnableDhcp a) = boolOrFalse (ch4_ConfigureForDHCP (hd (hrp_Ipv4Addrs ?p)))"
    using v4 a4 by (simp add: first_converted)
  with v4 have addrs4: "ipv4AddrsEqual (fill_list (namespacedIpv4AddrsToValues (hrp_Ipv4Addrs ?p))
      (ipv4AddrValuesFromSDK (hrr_Ipv4Addrs rec))) (hrr_Ipv4Addrs rec)"
    by (intro ipv4_stored) simp_all
  have "hrp_Ipv6Addrs ?p \<noteq> [] \<Longrightarrow> \<exists>a. hrr_Ipv6Addrs rec = [a] \<and>
      strOrEmpty (sh6_Ipv6Addr a) = ch6_Ipv6Addr (hd (hrp_Ipv6Addrs ?p)) \<and>
      strOrEmpty (sh6_Duid a) = strOrEmpty (ch6_Duid (hd (hrp_Ipv6Addrs ?p))) \<and>
      boolOrFalse (sh6_EnableDhcp a) = boolOrFalse (ch6_ConfigureForDHCP (hd (hrp_Ipv6Addrs ?p)))"
    using v6 a6 by (simp add: first_converted)
  with v6 have addrs6: "ipv6AddrsEqual (fill_list (namespacedIpv6AddrsToValues (hrp_Ipv6Addrs ?p))
      (ipv6AddrValuesFromSDK (hrr_Ipv6Addrs rec))) (hrr_Ipv6Addrs rec)"
    by (intro ipv6_stored) simp_all
  have viewed: "strOrEmpty (fill (hrp_View ?p) (ptrIfSet (hrr_View rec))) = strOrEmpty (hrr_View rec)"
    using ok(2) view by (cases "hrp_View ?p") auto
  have timed: "boolOrFalse (hrp_UseTTL ?p) \<Longrightarrow> ttlOrZero (fill (hrp_TTL ?p) (hrr_Ttl rec)) = ttlOrZero (hrr_Ttl rec)"
    using ttl by (simp add: fill_agree)
  have "userAttrs (hrr_Ea rec) = hrp_ExtAttrs ?p"
    using ok(1) by (simp add: ea userAttrs_buildEA reserved_free_fmdrop)
  then have "HostRecord_utd (fst (lift_late HostRecord_backfill hr_ForProvider HostRecord_put cr rec)) rec"
    by (simp add: hostrecord_late.lifted_simps HostRecord_put_def HostRecord_backfill_eq Let_def HostRecord_utd_def
        HostRecord_isUpToDate_def namespacedCompareFields_def extAttrsEqual_iff plain addrs4 addrs6 viewed timed
        fill_agree flip: userAttrs_def)
  with ea show ?thesis by simp
qed

interpretation hostrecord: refreshing_client "lift_late HostRecord_backfill hr_ForProvider HostRecord_put" HostRecord_utd
  "\<lambda>s s'. HostRecord_keeps (hr_ForProvider s) (hr_ForProvider s')"
  HostRecordObj_type hrr_Ref HostRecord_status HostRecord_valid
  "\<lambda>cr. hostrecord_create_request (hr_ForProvider cr) (mo_uid cr)"
  "\<lambda>cr. hostrecord_update_request (GetExternalName cr) (hr_ForProvider cr) (mo_uid cr)"
  hostrecord_req_ea hostrecord_holds HostRecord_spec_ok
  "ladder_observe_error errObserveHostRecord" "\<lambda>r. r \<noteq> []" "\<lambda>r. r \<noteq> []" hrr_Ref
  errCreateHostRecord errUpdateHostRecord errDeleteHostRecord HostRecord_errEmptyUID
  namespaced_HostRecord_Observe namespaced_HostRecord_Create namespaced_HostRecord_Update namespaced_HostRecord_Delete
proof (unfold_locales, goal_cases)
  case (6 cr)
  then show ?case by (auto simp: HostRecord_valid_def Let_def split: if_splits)
next
  case (13 n cr rec)
  have "hr_ForProvider (SetExternalName n cr) = hr_ForProvider cr"
    "HostRecord_put (SetExternalName n cr) l = SetExternalName n (HostRecord_put cr l)" for l
    by (simp_all add: HostRecord_put_def SetExternalName_def)
  then show ?case
    by (simp add: hostrecord_late.lifted_simps HostRecord_utd_def SetExternalName_def)
next
  case (14 cr rec)
  then show ?case using hostrecord_written_utd [of cr rec] by simp
next
  case (15 cr rec)
  then show ?case using hostrecord_written_utd [of cr rec] by simp
qed (simp_all add: HostRecord_Observe_shape HostRecord_Create_shape HostRecord_Update_shape HostRecord_Delete_shape
    hostrecord_late.lifted_simps HostRecord_put_def HostRecord_status_def Let_def split_beta
    hostrecord_create_request_def hostrecord_update_request_def)

section \<open>Behaviours of hosts\<close>

text \<open>
  A host whose IPv4 address the Grid chose from a CIDR gets that address written into its
  spec by the next Observe, next to the CIDR. From then on Create refuses the spec without a request:
  when the host is deleted on the Grid, the resource can never create it again.
\<close>

theorem allocated_host_not_recreated:
  assumes "Resolve env HostRecordObj_type (observeRefFor (mo_name cr) (GetExternalName cr)) (mo_uid cr) w = (Inr (Some x, out), w1)"
    and "out \<noteq> OutcomeNotFound" and "trim_space (mo_uid cr) \<noteq> []"
    and "strOrEmpty (hrp_Ipv4Cidr (hr_ForProvider cr)) \<noteq> []" and "hrp_Ipv4Addrs (hr_ForProvider cr) = []"
    and "anyIpv4AddrSet (ipv4AddrValuesFromSDK (hrr_Ipv4Addrs x))"
  shows "\<exists>obs cr'. namespaced_HostRecord_Observe env ep cr w = (Inr obs, cr', w1) \<and>
    (\<forall>env' ep' w'. namespaced_HostRecord_Create env' ep' cr' w' =
       (Some (Wrapped errCreateHostRecord (TextError errIpv4CidrWithStaticAddr)), cr', w'))"
proof -
  define cr1 where "cr1 = HostRecord_put cr (fst (HostRecord_backfill (hr_ForProvider cr) x))"
  define ref where "ref = (if out \<in> {OutcomeRotated, OutcomeFoundByUID} \<and> hrr_Ref x \<noteq> [] then hrr_Ref x else GetExternalName cr)"
  define cr2 where "cr2 = (if out \<in> {OutcomeRotated, OutcomeFoundByUID} \<and> hrr_Ref x \<noteq> []
     then SetExternalName (hrr_Ref x) (HostRecord_status x cr1) else HostRecord_status x cr1)"
  have parts: "hr_ForProvider (SetAvailable cr2) = fst (HostRecord_backfill (hr_ForProvider cr) x)"
    "mo_uid (SetAvailable cr2) = mo_uid cr" "mo_uid cr2 = mo_uid cr"
    by (simp_all add: cr2_def cr1_def HostRecord_status_def HostRecord_put_def SetAvailable_def SetCondition_def
        SetExternalName_def Let_def)
  have "HostRecord_valid (SetAvailable cr2) = Some (Wrapped errCreateHostRecord (TextError errIpv4CidrWithStaticAddr))"
    using assms(3-6)
    by (simp add: HostRecord_valid_def parts HostRecord_backfill_eq Let_def validateHostRecordAllocation_def
        compareFields_simps fill_list_def)
  then have "\<forall>env' ep' w'. namespaced_HostRecord_Create env' ep' (SetAvailable cr2) w' =
       (Some (Wrapped errCreateHostRecord (TextError errIpv4CidrWithStaticAddr)), SetAvailable cr2, w')"
    by (simp add: HostRecord_Create_shape ladder_create_shape_def)
  moreover have "\<exists>obs. namespaced_HostRecord_Observe env ep cr w = (Inr obs, SetAvailable cr2, w1)"
    using assms(1,2)
    by (cases out) (auto simp: HostRecord_Observe_shape ladder_observe_shape_def lift_late_def split_beta Let_def cr2_def cr1_def)
  ultimately show ?thesis by blast
qed

definition dhcp_split :: "HostRecordCR \<Rightarrow> HostRecordObj \<Rightarrow> bool" where
  "dhcp_split cr rec \<longleftrightarrow>
     (let p = hr_ForProvider cr in
      hrp_Ipv4Addrs p \<noteq> [] \<and> hrp_Ipv6Addrs p \<noteq> [] \<and>
      boolOrFalse (ch4_ConfigureForDHCP (hd (hrp_Ipv4Addrs p))) \<noteq> boolOrFalse (ch6_ConfigureForDHCP (hd (hrp_Ipv6Addrs p))) \<and>
      hrr_Ipv4Addrs rec \<noteq> [] \<and> hrr_Ipv6Addrs rec \<noteq> [] \<and>
      boolOrFalse (sh4_EnableDhcp (hd (hrr_Ipv4Addrs rec))) = boolOrFalse (sh6_EnableDhcp (hd (hrr_Ipv6Addrs rec))))"

text \<open>
  The CRD has a flag configureForDhcp per address, the SDK takes one for the host, and the
  controller sends the disjunction of the first IPv4 and the first IPv6 address's: on a Grid that
  stores the flag it is sent on both addresses, a spec whose two first flags differ is never up to date.
\<close>

theorem split_dhcp_never_up_to_date:
  "never_up_to_date HostRecordObj_type namespaced_HostRecord_Observe dhcp_split"
proof (rule hostrecord.observe_never)
  fix cr :: HostRecordCR and rec
  let ?p = "hr_ForProvider cr"
  assume split: "dhcp_split cr rec"
  then have "hrp_Ipv4Addrs ?p \<noteq> []" "hrp_Ipv6Addrs ?p \<noteq> []" "hrr_Ipv4Addrs rec \<noteq> []" "hrr_Ipv6Addrs rec \<noteq> []"
    by (simp_all add: dhcp_split_def Let_def)
  then obtain a4 as4 a6 as6 b4 bs4 b6 bs6 where l: "hrp_Ipv4Addrs ?p = a4 # as4" "hrp_Ipv6Addrs ?p = a6 # as6"
      "hrr_Ipv4Addrs rec = b4 # bs4" "hrr_Ipv6Addrs rec = b6 # bs6"
    by (meson neq_Nil_conv)
  have "\<not> (ipv4AddrsEqual (namespacedIpv4AddrsToValues (hrp_Ipv4Addrs ?p)) (hrr_Ipv4Addrs rec) \<and>
      ipv6AddrsEqual (namespacedIpv6AddrsToValues (hrp_Ipv6Addrs ?p)) (hrr_Ipv6Addrs rec))"
    using split
    by (auto simp: dhcp_split_def l addrsEqual_iff Let_def firstConfigureForDHCPv4_def firstConfigureForDHCPv6_def
        namespacedIpv4AddrsToValues_def namespacedIpv6AddrsToValues_def ipv4AddrValuesFromSDK_def ipv6AddrValuesFromSDK_def)
  then show "\<not> HostRecord_utd (fst (lift_late HostRecord_backfill hr_ForProvider HostRecord_put cr rec)) rec"
    by (auto simp: hostrecord_late.lifted_simps HostRecord_put_def HostRecord_utd_def HostRecord_isUpToDate_def
        compareFields_simps HostRecord_backfill_eq Let_def fill_list_def l split: if_splits)
qed

text \<open>A Grid whose only host was allocated the address 10.0.0.7.\<close>

definition host_rec :: HostRecordObj where
  "host_rec = emptyHostRecordObj\<lparr>hrr_Ref := ''record:host/1'', hrr_Ea := Stamp fmempty ''u-1'',
     hrr_Ipv4Addrs := [\<lparr>sh4_Ipv4Addr = Some ''10.0.0.7'', sh4_Mac = None, sh4_EnableDhcp = None, sh4_Nextserver = None\<rparr>]\<rparr>"

definition host_env :: "(HostRecordObj, hostrecord_req) wapi" where
  "host_env =
     \<lparr>wapi_get = (\<lambda>h t r. Inr host_rec), wapi_search = (\<lambda>h t q. Inr []), wapi_def_search = (\<lambda>h q. Inr []),
      wapi_def_create = (\<lambda>h d. Inr []), wapi_mutate = (\<lambda>h m. Inr host_rec), wapi_delete = (\<lambda>h r. Inr r),
      kube_patch = (\<lambda>h j. None), retry_on_conflict = (\<lambda>f w. f w), wall_clock = (\<lambda>n. 0)\<rparr>"

definition host_cr :: HostRecordCR where
  "host_cr =
     \<lparr>mo_name = ''h'', mo_namespace = [], mo_uid = ''u-1'', mo_annotations = fmupd AnnotationKeyExternalName ''record:host/1'' fmempty,
      mo_conditions = fmempty,
      hr_ForProvider = \<lparr>hrp_Name = Some ''h.example.com'', hrp_Ipv4Addrs = [], hrp_Ipv6Addrs = [], hrp_NetworkView = None,
        hrp_View = None, hrp_Aliases = [], hrp_ConfigureForDNS = None, hrp_Comment = None, hrp_Disable = None, hrp_TTL = None,
        hrp_UseTTL = None, hrp_ExtAttrs = fmempty, hrp_Ipv4Cidr = Some ''10.0.0.0/24'', hrp_Ipv6Cidr = None,
        hrp_FilterParams = fmempty, hrp_IpAddressType = None\<rparr>,
      hr_AtProvider = \<lparr>hrs_ID = [], hrs_Name = None, hrs_Ipv4Addrs = [], hrs_Ipv6Addrs = [], hrs_NetworkView = None,
        hrs_View = None, hrs_Aliases = [], hrs_ConfigureForDNS = None, hrs_Comment = None, hrs_Disable = None,
        hrs_TTL = None, hrs_UseTTL = None, hrs_ExtAttrs = fmempty, hrs_Ipv4Cidr = None, hrs_Ipv6Cidr = None,
        hrs_FilterParams = fmempty, hrs_IpAddressType = None, hrs_Ref = None, hrs_Zone = None, hrs_DNSName = None,
        hrs_DNSAliases = []\<rparr>\<rparr>"

lemma allocated_host_not_recreated_witness:
  "HostRecord_valid host_cr = None \<and>
   (\<exists>obs cr' w1. namespaced_HostRecord_Observe host_env ''grid'' host_cr init_world = (Inr obs, cr', w1) \<and>
      namespaced_HostRecord_Create host_env ''grid'' cr' w1 =
        (Some (Wrapped errCreateHostRecord (TextError errIpv4CidrWithStaticAddr)), cr', w1))"
proof -
  have cr: "mo_name host_cr = ''h''" "mo_uid host_cr = ''u-1''" "GetExternalName host_cr = ''record:host/1''"
    "hrp_Ipv4Addrs (hr_ForProvider host_cr) = []" "hrp_Ipv4Cidr (hr_ForProvider host_cr) = Some ''10.0.0.0/24''"
    by (simp_all add: host_cr_def GetExternalName_def)
  have "HostRecord_valid host_cr = None"
    by (simp add: HostRecord_valid_def cr validateHostRecordAllocation_def compareFields_simps Let_def trim_space_visible
        visible_ascii_def) (simp add: host_cr_def)
  moreover have "Resolve host_env HostRecordObj_type ''record:host/1'' ''u-1'' init_world =
      (Inr (Some host_rec, OutcomeResolved), log_call (CGet ''record:host'' ''record:host/1'') init_world)"
  proof -
    have "resolveByRef host_env HostRecordObj_type ''record:host/1'' ''u-1'' init_world =
        (Some (Inr (Some host_rec, OutcomeResolved)), log_call (CGet ''record:host'' ''record:host/1'') init_world)"
      using HostRecordObj_type_simps(3) [of host_rec]
      by (simp add: resolveByRef_def get_object_def stamped_def host_env_def host_rec_def split: sum.splits)
    then show ?thesis by (simp add: Resolve_unfold trim_space_visible visible_ascii_def)
  qed
  moreover have "anyIpv4AddrSet (ipv4AddrValuesFromSDK (hrr_Ipv4Addrs host_rec))"
    by (simp add: host_rec_def ipv4AddrValuesFromSDK_def)
  ultimately show ?thesis
    using allocated_host_not_recreated [of host_env host_cr init_world host_rec OutcomeResolved _ "''grid''"]
    by (simp add: cr observeRefFor_def trim_space_visible visible_ascii_def) blast
qed

end
