(* ===== verification/ZoneAuth.thy ===== *)
theory ZoneAuth
  imports LadderClient
begin

text \<open>
  internal/controller/zoneauth: the ZoneAuth controller (authoritative DNS zones), a client of the
  identity ladder that builds the WAPI objects itself. Both scopes convert their spec into the
  package's own zoneAuthFields; an update does not record the reference the Grid answers with.
\<close>

section \<open>Data\<close>

text \<open>
  ibclient's name server and member server, as this package uses them, the package's own values,
  and the CRD's servers.
\<close>

record ZoneNameServer =
  zns_Address :: string
  zns_Name :: string
  zns_Stealth :: bool
  zns_SharedWithMsParentDelegation :: bool
  zns_TsigKey :: string
  zns_TsigKeyAlg :: string
  zns_TsigKeyName :: string
  zns_UseTsigKeyName :: bool

record Memberserver =
  mse_Name :: string
  mse_Stealth :: bool
  mse_GridReplicate :: bool
  mse_Lead :: bool
  mse_PreferredPrimaries :: "ZoneNameServer list"
  mse_EnablePreferredPrimaries :: bool

record externalServerValue =
  esv_Address :: string
  esv_Name :: string
  esv_Stealth :: bool
  esv_SharedWithMsParentDelegation :: bool
  esv_TsigKey :: string
  esv_TsigKeyAlg :: string
  esv_TsigKeyName :: string
  esv_UseTsigKeyName :: bool

record memberServerValue =
  msv_Name :: string
  msv_Stealth :: bool
  msv_GridReplicate :: bool
  msv_Lead :: bool
  msv_PreferredPrimaries :: "externalServerValue list"
  msv_EnablePreferredPrimaries :: bool

record ExternalServer =
  exs_Address :: "string option"
  exs_Name :: "string option"
  exs_Stealth :: "bool option"
  exs_SharedWithMsParentDelegation :: "bool option"
  exs_TsigKey :: "string option"
  exs_TsigKeyAlg :: "string option"
  exs_TsigKeyName :: "string option"
  exs_UseTsigKeyName :: "bool option"

record MemberServer =
  mbs_Name :: "string option"
  mbs_Stealth :: "bool option"
  mbs_GridReplicate :: "bool option"
  mbs_Lead :: "bool option"
  mbs_PreferredPrimaries :: "ExternalServer list"
  mbs_EnablePreferredPrimaries :: "bool option"

text \<open>ibclient.ZoneAuth, as the provider requests it.\<close>

record ZoneAuthObj =
  zar_Ref :: string
  zar_Fqdn :: string
  zar_View :: "string option"
  zar_ZoneFormat :: string
  zar_Comment :: "string option"
  zar_Disable :: "bool option"
  zar_SoaDefaultTtl :: "32 word option"
  zar_SoaExpire :: "32 word option"
  zar_SoaNegativeTtl :: "32 word option"
  zar_SoaRefresh :: "32 word option"
  zar_SoaRetry :: "32 word option"
  zar_UseGridZoneTimer :: "bool option"
  zar_NsGroup :: "string option"
  zar_Ea :: ea
  zar_GridPrimary :: "Memberserver option list"
  zar_GridSecondaries :: "Memberserver option list"
  zar_ExternalPrimaries :: "ZoneNameServer list"
  zar_ExternalSecondaries :: "ZoneNameServer list"

definition emptyZoneAuthObj :: ZoneAuthObj where
  "emptyZoneAuthObj = \<lparr>zar_Ref = [], zar_Fqdn = [], zar_View = None, zar_ZoneFormat = [], zar_Comment = None,
     zar_Disable = None, zar_SoaDefaultTtl = None, zar_SoaExpire = None, zar_SoaNegativeTtl = None,
     zar_SoaRefresh = None, zar_SoaRetry = None, zar_UseGridZoneTimer = None, zar_NsGroup = None, zar_Ea = fmempty,
     zar_GridPrimary = [], zar_GridSecondaries = [], zar_ExternalPrimaries = [], zar_ExternalSecondaries = []\<rparr>"

definition reflectZoneAuthObj :: "ZoneAuthObj \<Rightarrow> goany" where
  "reflectZoneAuthObj r = PtrTo ''*ibclient.ZoneAuth''
     [(''Ref'', FString (zar_Ref r)), (''Fqdn'', FString (zar_Fqdn r)), (''View'', FOther),
      (''ZoneFormat'', FString (zar_ZoneFormat r)), (''Comment'', FOther), (''Disable'', FOther),
      (''SoaDefaultTtl'', FOther), (''SoaExpire'', FOther), (''SoaNegativeTtl'', FOther), (''SoaRefresh'', FOther),
      (''SoaRetry'', FOther), (''UseGridZoneTimer'', FOther), (''NsGroup'', FOther), (''Ea'', FEA (zar_Ea r)),
      (''GridPrimary'', FOther), (''GridSecondaries'', FOther), (''ExternalPrimaries'', FOther),
      (''ExternalSecondaries'', FOther)]"

definition ZoneAuthObj_type :: "ZoneAuthObj objtype" where
  "ZoneAuthObj_type = \<lparr>ot_name = ''zone_auth'', ot_empty = emptyZoneAuthObj, ot_reflect = reflectZoneAuthObj\<rparr>"

text \<open>CreateObject and UpdateObject of the connector, with the object.\<close>

datatype zoneauth_req =
    CreateZoneAuthObject ZoneAuthObj
  | UpdateZoneAuthObject ZoneAuthObj string

record ZoneAuthParameters =
  zap_FQDN :: "string option"
  zap_View :: "string option"
  zap_ZoneFormat :: "string option"
  zap_Comment :: "string option"
  zap_Disable :: "bool option"
  zap_SoaDefaultTTL :: "32 word option"
  zap_SoaExpire :: "32 word option"
  zap_SoaNegativeTTL :: "32 word option"
  zap_SoaRefresh :: "32 word option"
  zap_SoaRetry :: "32 word option"
  zap_UseGridZoneTimer :: "bool option"
  zap_NsGroup :: "string option"
  zap_ExtAttrs :: extattrs
  zap_GridPrimary :: "MemberServer list"
  zap_GridSecondaries :: "MemberServer list"
  zap_ExternalPrimaries :: "ExternalServer list"
  zap_ExternalSecondaries :: "ExternalServer list"

record ZoneAuthObservation =
  zas_ID :: string
  zas_FQDN :: "string option"
  zas_View :: "string option"
  zas_ZoneFormat :: "string option"
  zas_Comment :: "string option"
  zas_Disable :: "bool option"
  zas_SoaDefaultTTL :: "32 word option"
  zas_SoaExpire :: "32 word option"
  zas_SoaNegativeTTL :: "32 word option"
  zas_SoaRefresh :: "32 word option"
  zas_SoaRetry :: "32 word option"
  zas_UseGridZoneTimer :: "bool option"
  zas_NsGroup :: "string option"
  zas_ExtAttrs :: extattrs
  zas_GridPrimary :: "MemberServer list"
  zas_GridSecondaries :: "MemberServer list"
  zas_ExternalPrimaries :: "ExternalServer list"
  zas_ExternalSecondaries :: "ExternalServer list"
  zas_Ref :: "string option"

record ZoneAuthCR = mobj +
  za_ForProvider :: ZoneAuthParameters
  za_AtProvider :: ZoneAuthObservation

section \<open>Error messages\<close>

definition errObserveZoneAuth :: string where "errObserveZoneAuth = ''cannot observe ZoneAuth''"
definition errCreateZoneAuth :: string where "errCreateZoneAuth = ''cannot create ZoneAuth''"
definition errUpdateZoneAuth :: string where "errUpdateZoneAuth = ''cannot update ZoneAuth''"
definition errDeleteZoneAuth :: string where "errDeleteZoneAuth = ''cannot delete ZoneAuth''"
definition ZoneAuth_errEmptyUID :: string where
  "ZoneAuth_errEmptyUID = ''cannot stamp ZoneAuth identity: managed resource's metadata.uid is empty''"

section \<open>Servers\<close>

definition strPtrOrNil :: "string \<Rightarrow> string option" where
  "strPtrOrNil s = (if s = [] then None else Some s)"

definition gatedUint32Equal :: "bool option \<Rightarrow> 32 word option \<Rightarrow> 32 word option \<Rightarrow> bool" where
  "gatedUint32Equal useFlag desired observed =
     (if \<not> boolOrFalse useFlag then True else uint32OrZero desired = uint32OrZero observed)"

definition externalServerValueEqual :: "externalServerValue \<Rightarrow> externalServerValue \<Rightarrow> bool" where
  "externalServerValueEqual a b =
     (if esv_Address a \<noteq> esv_Address b \<or> esv_Name a \<noteq> esv_Name b \<or> esv_Stealth a \<noteq> esv_Stealth b \<or>
         esv_SharedWithMsParentDelegation a \<noteq> esv_SharedWithMsParentDelegation b \<or>
         esv_TsigKey a \<noteq> esv_TsigKey b \<or> esv_TsigKeyAlg a \<noteq> esv_TsigKeyAlg b then False
      else if esv_UseTsigKeyName a \<noteq> esv_UseTsigKeyName b then False
      else if esv_UseTsigKeyName a \<and> esv_TsigKeyName a \<noteq> esv_TsigKeyName b then False
      else True)"

fun externalServersLoop :: "externalServerValue list \<Rightarrow> externalServerValue list \<Rightarrow> bool" where
  "externalServersLoop (x # a) (y # b) = (if \<not> externalServerValueEqual x y then False else externalServersLoop a b)"
| "externalServersLoop _ _ = True"

definition externalServerValuesEqual :: "externalServerValue list \<Rightarrow> externalServerValue list \<Rightarrow> bool" where
  "externalServerValuesEqual a b = (if length a \<noteq> length b then False else externalServersLoop a b)"

fun memberServersLoop :: "memberServerValue list \<Rightarrow> memberServerValue list \<Rightarrow> bool" where
  "memberServersLoop (x # a) (y # b) =
     (if msv_Name x \<noteq> msv_Name y \<or> msv_Stealth x \<noteq> msv_Stealth y \<or> msv_GridReplicate x \<noteq> msv_GridReplicate y \<or>
         msv_Lead x \<noteq> msv_Lead y then False
      else if msv_EnablePreferredPrimaries x \<noteq> msv_EnablePreferredPrimaries y then False
      else if msv_EnablePreferredPrimaries x \<and>
              \<not> externalServerValuesEqual (msv_PreferredPrimaries x) (msv_PreferredPrimaries y) then False
      else memberServersLoop a b)"
| "memberServersLoop _ _ = True"

definition memberServerValuesEqual :: "memberServerValue list \<Rightarrow> memberServerValue list \<Rightarrow> bool" where
  "memberServerValuesEqual a b = (if length a \<noteq> length b then False else memberServersLoop a b)"

definition externalServerValuesFromSDK :: "ZoneNameServer list \<Rightarrow> externalServerValue list" where
  "externalServerValuesFromSDK xs =
     (if xs = [] then []
      else map (\<lambda>n. \<lparr>esv_Address = zns_Address n, esv_Name = zns_Name n, esv_Stealth = zns_Stealth n,
        esv_SharedWithMsParentDelegation = zns_SharedWithMsParentDelegation n, esv_TsigKey = zns_TsigKey n,
        esv_TsigKeyAlg = zns_TsigKeyAlg n, esv_TsigKeyName = zns_TsigKeyName n,
        esv_UseTsigKeyName = zns_UseTsigKeyName n\<rparr>) xs)"

definition externalServerValuesToSDK :: "externalServerValue list \<Rightarrow> ZoneNameServer list" where
  "externalServerValuesToSDK vs =
     (if vs = [] then []
      else map (\<lambda>v. \<lparr>zns_Address = esv_Address v, zns_Name = esv_Name v, zns_Stealth = esv_Stealth v,
        zns_SharedWithMsParentDelegation = esv_SharedWithMsParentDelegation v, zns_TsigKey = esv_TsigKey v,
        zns_TsigKeyAlg = esv_TsigKeyAlg v, zns_TsigKeyName = esv_TsigKeyName v,
        zns_UseTsigKeyName = esv_UseTsigKeyName v\<rparr>) vs)"

definition memberServerValuesFromSDK :: "Memberserver option list \<Rightarrow> memberServerValue list" where
  "memberServerValuesFromSDK xs =
     (if xs = [] then []
      else List.map_filter (map_option (\<lambda>m. \<lparr>msv_Name = mse_Name m, msv_Stealth = mse_Stealth m,
        msv_GridReplicate = mse_GridReplicate m, msv_Lead = mse_Lead m,
        msv_PreferredPrimaries = externalServerValuesFromSDK (mse_PreferredPrimaries m),
        msv_EnablePreferredPrimaries = mse_EnablePreferredPrimaries m\<rparr>)) xs)"

definition memberServerValuesToSDK :: "memberServerValue list \<Rightarrow> Memberserver option list" where
  "memberServerValuesToSDK vs =
     (if vs = [] then []
      else map (\<lambda>v. Some \<lparr>mse_Name = msv_Name v, mse_Stealth = msv_Stealth v, mse_GridReplicate = msv_GridReplicate v,
        mse_Lead = msv_Lead v, mse_PreferredPrimaries = externalServerValuesToSDK (msv_PreferredPrimaries v),
        mse_EnablePreferredPrimaries = msv_EnablePreferredPrimaries v\<rparr>) vs)"

section \<open>The field bag\<close>

record zoneAuthFields =
  zaf_FQDN :: string
  zaf_View :: "string option"
  zaf_ZoneFormat :: string
  zaf_Comment :: "string option"
  zaf_Disable :: "bool option"
  zaf_SoaDefaultTTL :: "32 word option"
  zaf_SoaExpire :: "32 word option"
  zaf_SoaNegativeTTL :: "32 word option"
  zaf_SoaRefresh :: "32 word option"
  zaf_SoaRetry :: "32 word option"
  zaf_UseGridZoneTimer :: "bool option"
  zaf_NsGroup :: "string option"
  zaf_ExtAttrs :: extattrs
  zaf_GridPrimary :: "memberServerValue list"
  zaf_GridSecondaries :: "memberServerValue list"
  zaf_ExternalPrimaries :: "externalServerValue list"
  zaf_ExternalSecondaries :: "externalServerValue list"

definition fieldsFromZoneAuth :: "ZoneAuthObj \<Rightarrow> zoneAuthFields" where
  "fieldsFromZoneAuth rec =
     \<lparr>zaf_FQDN = zar_Fqdn rec, zaf_View = zar_View rec, zaf_ZoneFormat = zar_ZoneFormat rec,
      zaf_Comment = zar_Comment rec, zaf_Disable = zar_Disable rec, zaf_SoaDefaultTTL = zar_SoaDefaultTtl rec,
      zaf_SoaExpire = zar_SoaExpire rec, zaf_SoaNegativeTTL = zar_SoaNegativeTtl rec,
      zaf_SoaRefresh = zar_SoaRefresh rec, zaf_SoaRetry = zar_SoaRetry rec,
      zaf_UseGridZoneTimer = zar_UseGridZoneTimer rec, zaf_NsGroup = zar_NsGroup rec,
      zaf_ExtAttrs = extAttrsFromEA (zar_Ea rec), zaf_GridPrimary = memberServerValuesFromSDK (zar_GridPrimary rec),
      zaf_GridSecondaries = memberServerValuesFromSDK (zar_GridSecondaries rec),
      zaf_ExternalPrimaries = externalServerValuesFromSDK (zar_ExternalPrimaries rec),
      zaf_ExternalSecondaries = externalServerValuesFromSDK (zar_ExternalSecondaries rec)\<rparr>"

definition anySOATimerFieldSet :: "zoneAuthFields \<Rightarrow> bool" where
  "anySOATimerFieldSet f \<longleftrightarrow>
     zaf_SoaDefaultTTL f \<noteq> None \<or> zaf_SoaExpire f \<noteq> None \<or> zaf_SoaNegativeTTL f \<noteq> None \<or>
     zaf_SoaRefresh f \<noteq> None \<or> zaf_SoaRetry f \<noteq> None"

definition effectiveUseGridZoneTimer :: "zoneAuthFields \<Rightarrow> bool option" where
  "effectiveUseGridZoneTimer f = (if anySOATimerFieldSet f then Some True else zaf_UseGridZoneTimer f)"

definition ZoneAuth_isUpToDate :: "zoneAuthFields \<Rightarrow> zoneAuthFields \<Rightarrow> bool" where
  "ZoneAuth_isUpToDate desired observed =
     (if strOrEmpty (zaf_Comment desired) \<noteq> strOrEmpty (zaf_Comment observed) then False
      else if boolOrFalse (zaf_Disable desired) \<noteq> boolOrFalse (zaf_Disable observed) then False
      else
        (let desiredUseGridZoneTimer = effectiveUseGridZoneTimer desired in
         if boolOrFalse desiredUseGridZoneTimer \<noteq> boolOrFalse (zaf_UseGridZoneTimer observed) then False
         else if \<not> gatedUint32Equal desiredUseGridZoneTimer (zaf_SoaDefaultTTL desired) (zaf_SoaDefaultTTL observed) then False
         else if \<not> gatedUint32Equal desiredUseGridZoneTimer (zaf_SoaExpire desired) (zaf_SoaExpire observed) then False
         else if \<not> gatedUint32Equal desiredUseGridZoneTimer (zaf_SoaNegativeTTL desired) (zaf_SoaNegativeTTL observed) then False
         else if \<not> gatedUint32Equal desiredUseGridZoneTimer (zaf_SoaRefresh desired) (zaf_SoaRefresh observed) then False
         else if \<not> gatedUint32Equal desiredUseGridZoneTimer (zaf_SoaRetry desired) (zaf_SoaRetry observed) then False
         else if strOrEmpty (zaf_NsGroup desired) \<noteq> strOrEmpty (zaf_NsGroup observed) then False
         else if \<not> extAttrsEqual (zaf_ExtAttrs desired) (zaf_ExtAttrs observed) then False
         else if \<not> memberServerValuesEqual (zaf_GridPrimary desired) (zaf_GridPrimary observed) then False
         else if \<not> memberServerValuesEqual (zaf_GridSecondaries desired) (zaf_GridSecondaries observed) then False
         else if \<not> externalServerValuesEqual (zaf_ExternalPrimaries desired) (zaf_ExternalPrimaries observed) then False
         else if \<not> externalServerValuesEqual (zaf_ExternalSecondaries desired) (zaf_ExternalSecondaries observed) then False
         else True))"

text \<open>lateInitPtr and gatedLateInitPtr are generic in Go.\<close>

definition effectiveUseFlag :: "bool option \<Rightarrow> bool option \<Rightarrow> bool" where
  "effectiveUseFlag desiredFlag observedFlag = (case desiredFlag of Some b \<Rightarrow> b | None \<Rightarrow> boolOrFalse observedFlag)"

definition lateInitPtr :: "'a option \<Rightarrow> 'a option \<Rightarrow> 'a option \<times> bool" where
  "lateInitPtr desired observed = (if desired = None \<and> observed \<noteq> None then (observed, True) else (desired, False))"

definition gatedLateInitPtr :: "bool option \<Rightarrow> bool option \<Rightarrow> 'a option \<Rightarrow> 'a option \<Rightarrow> 'a option \<times> bool" where
  "gatedLateInitPtr useFlagDesired useFlagObserved desired observed =
     (if \<not> effectiveUseFlag useFlagDesired useFlagObserved then (desired, False) else lateInitPtr desired observed)"

definition lateInitStringPtr :: "string option \<Rightarrow> string option \<Rightarrow> string option \<times> bool" where
  "lateInitStringPtr desired observed =
     (if desired = None \<and> observed \<noteq> None \<and> observed \<noteq> Some [] then (observed, True) else (desired, False))"

definition lateInitializeScalars :: "zoneAuthFields \<Rightarrow> zoneAuthFields \<Rightarrow> zoneAuthFields \<times> bool" where
  "lateInitializeScalars desired observed =
     (let (comment, c1) = lateInitStringPtr (zaf_Comment desired) (zaf_Comment observed);
          (disable, b2) = lateInitPtr (zaf_Disable desired) (zaf_Disable observed); c2 = (b2 \<or> c1);
          (useGrid, b3) = lateInitPtr (zaf_UseGridZoneTimer desired) (zaf_UseGridZoneTimer observed); c3 = (b3 \<or> c2);
          d3 = desired\<lparr>zaf_Comment := comment, zaf_Disable := disable, zaf_UseGridZoneTimer := useGrid\<rparr>;
          eff = effectiveUseGridZoneTimer d3; obsFlag = zaf_UseGridZoneTimer observed;
          (ttl, b4) = gatedLateInitPtr eff obsFlag (zaf_SoaDefaultTTL d3) (zaf_SoaDefaultTTL observed); c4 = (b4 \<or> c3);
          (expire, b5) = gatedLateInitPtr eff obsFlag (zaf_SoaExpire d3) (zaf_SoaExpire observed); c5 = (b5 \<or> c4);
          (negative, b6) = gatedLateInitPtr eff obsFlag (zaf_SoaNegativeTTL d3) (zaf_SoaNegativeTTL observed); c6 = (b6 \<or> c5);
          (refresh, b7) = gatedLateInitPtr eff obsFlag (zaf_SoaRefresh d3) (zaf_SoaRefresh observed); c7 = (b7 \<or> c6);
          (retry, b8) = gatedLateInitPtr eff obsFlag (zaf_SoaRetry d3) (zaf_SoaRetry observed); c8 = (b8 \<or> c7);
          (nsGroup, b9) = lateInitStringPtr (zaf_NsGroup d3) (zaf_NsGroup observed); c9 = (b9 \<or> c8);
          d9 = d3\<lparr>zaf_SoaDefaultTTL := ttl, zaf_SoaExpire := expire, zaf_SoaNegativeTTL := negative,
                  zaf_SoaRefresh := refresh, zaf_SoaRetry := retry, zaf_NsGroup := nsGroup\<rparr>
      in if zaf_ExtAttrs d9 = fmempty \<and> zaf_ExtAttrs observed \<noteq> fmempty
         then (d9\<lparr>zaf_ExtAttrs := zaf_ExtAttrs observed\<rparr>, True) else (d9, c9))"

definition lateInitializeCollections :: "zoneAuthFields \<Rightarrow> zoneAuthFields \<Rightarrow> zoneAuthFields \<times> bool" where
  "lateInitializeCollections desired observed =
     (let (d1, c1) = (if zaf_GridPrimary desired = [] \<and> zaf_GridPrimary observed \<noteq> []
                      then (desired\<lparr>zaf_GridPrimary := zaf_GridPrimary observed\<rparr>, True) else (desired, False));
          (d2, c2) = (if zaf_GridSecondaries d1 = [] \<and> zaf_GridSecondaries observed \<noteq> []
                      then (d1\<lparr>zaf_GridSecondaries := zaf_GridSecondaries observed\<rparr>, True) else (d1, c1));
          (d3, c3) = (if zaf_ExternalPrimaries d2 = [] \<and> zaf_ExternalPrimaries observed \<noteq> []
                      then (d2\<lparr>zaf_ExternalPrimaries := zaf_ExternalPrimaries observed\<rparr>, True) else (d2, c2));
          (d4, c4) = (if zaf_ExternalSecondaries d3 = [] \<and> zaf_ExternalSecondaries observed \<noteq> []
                      then (d3\<lparr>zaf_ExternalSecondaries := zaf_ExternalSecondaries observed\<rparr>, True) else (d3, c3))
      in (d4, c4))"

definition lateInitializeFields :: "zoneAuthFields \<Rightarrow> zoneAuthFields \<Rightarrow> zoneAuthFields \<times> bool" where
  "lateInitializeFields desired observed =
     (let (d1, scalarsChanged) = lateInitializeScalars desired observed;
          (d2, collectionsChanged) = lateInitializeCollections d1 observed
      in (d2, scalarsChanged \<or> collectionsChanged))"

section \<open>SDK calls\<close>

definition buildZoneAuthForCreate :: "zoneAuthFields \<Rightarrow> ZoneAuthObj" where
  "buildZoneAuthForCreate f =
     \<lparr>zar_Ref = [], zar_Fqdn = zaf_FQDN f, zar_View = zaf_View f, zar_ZoneFormat = zaf_ZoneFormat f,
      zar_Comment = zaf_Comment f, zar_Disable = zaf_Disable f, zar_SoaDefaultTtl = zaf_SoaDefaultTTL f,
      zar_SoaExpire = zaf_SoaExpire f, zar_SoaNegativeTtl = zaf_SoaNegativeTTL f, zar_SoaRefresh = zaf_SoaRefresh f,
      zar_SoaRetry = zaf_SoaRetry f, zar_UseGridZoneTimer = effectiveUseGridZoneTimer f, zar_NsGroup = zaf_NsGroup f,
      zar_Ea = buildEA (zaf_ExtAttrs f), zar_GridPrimary = memberServerValuesToSDK (zaf_GridPrimary f),
      zar_GridSecondaries = memberServerValuesToSDK (zaf_GridSecondaries f),
      zar_ExternalPrimaries = externalServerValuesToSDK (zaf_ExternalPrimaries f),
      zar_ExternalSecondaries = externalServerValuesToSDK (zaf_ExternalSecondaries f)\<rparr>"

definition buildZoneAuthForUpdate :: "zoneAuthFields \<Rightarrow> ZoneAuthObj" where
  "buildZoneAuthForUpdate f =
     \<lparr>zar_Ref = [], zar_Fqdn = [], zar_View = None, zar_ZoneFormat = [],
      zar_Comment = zaf_Comment f, zar_Disable = zaf_Disable f, zar_SoaDefaultTtl = zaf_SoaDefaultTTL f,
      zar_SoaExpire = zaf_SoaExpire f, zar_SoaNegativeTtl = zaf_SoaNegativeTTL f, zar_SoaRefresh = zaf_SoaRefresh f,
      zar_SoaRetry = zaf_SoaRetry f, zar_UseGridZoneTimer = effectiveUseGridZoneTimer f, zar_NsGroup = zaf_NsGroup f,
      zar_Ea = buildEA (zaf_ExtAttrs f), zar_GridPrimary = memberServerValuesToSDK (zaf_GridPrimary f),
      zar_GridSecondaries = memberServerValuesToSDK (zaf_GridSecondaries f),
      zar_ExternalPrimaries = externalServerValuesToSDK (zaf_ExternalPrimaries f),
      zar_ExternalSecondaries = externalServerValuesToSDK (zaf_ExternalSecondaries f)\<rparr>"

text \<open>CreateObject answers with the reference; UpdateObject's is dropped.\<close>

definition createZoneAuth ::
  "(ZoneAuthObj, zoneauth_req) wapi \<Rightarrow> zoneAuthFields \<Rightarrow> string \<Rightarrow> zoneauth_req world \<Rightarrow>
     (goerr + string) \<times> zoneauth_req world" where
  "createZoneAuth env f uid w =
     (if trim_space uid = [] then (Inl (TextError ZoneAuth_errEmptyUID), w)
      else
        (let z = buildZoneAuthForCreate f; z1 = z\<lparr>zar_Ea := Stamp (zar_Ea z) uid\<rparr> in
         case mutate_object env (CreateZoneAuthObject z1) w of
           (Inl err, w1) \<Rightarrow> (Inl err, w1)
         | (Inr rec, w1) \<Rightarrow> (Inr (zar_Ref rec), w1)))"

definition updateZoneAuth ::
  "(ZoneAuthObj, zoneauth_req) wapi \<Rightarrow> string \<Rightarrow> zoneAuthFields \<Rightarrow> string \<Rightarrow> zoneauth_req world \<Rightarrow>
     goerr option \<times> zoneauth_req world" where
  "updateZoneAuth env ref f uid w =
     (if trim_space uid = [] then (Some (TextError ZoneAuth_errEmptyUID), w)
      else
        (let z = buildZoneAuthForUpdate f; z1 = z\<lparr>zar_Ea := Stamp (zar_Ea z) uid\<rparr> in
         case mutate_object env (UpdateZoneAuthObject z1 ref) w of
           (Inl err, w1) \<Rightarrow> (Some err, w1)
         | (Inr _, w1) \<Rightarrow> (None, w1)))"

definition deleteZoneAuth ::
  "(ZoneAuthObj, zoneauth_req) wapi \<Rightarrow> string \<Rightarrow> zoneauth_req world \<Rightarrow> goerr option \<times> zoneauth_req world" where
  "deleteZoneAuth env ref w =
     (case delete_object env ref w of
        (Inl err, w1) \<Rightarrow> (Some err, w1)
      | (Inr _, w1) \<Rightarrow> (None, w1))"

section \<open>Identity resolution\<close>

definition resolveZoneAuthIdentity ::
  "(ZoneAuthObj, zoneauth_req) wapi \<Rightarrow> string \<Rightarrow> string \<Rightarrow> zoneauth_req world \<Rightarrow>
     (goerr + ZoneAuthObj option \<times> Outcome) \<times> zoneauth_req world" where
  "resolveZoneAuthIdentity env ref uid w = Resolve env ZoneAuthObj_type ref uid w"

definition deleteZoneAuthIdentity ::
  "(ZoneAuthObj, zoneauth_req) wapi \<Rightarrow> string \<Rightarrow> string \<Rightarrow> string \<Rightarrow> zoneauth_req world \<Rightarrow>
     goerr option \<times> zoneauth_req world" where
  "deleteZoneAuthIdentity env endpoint ref uid w =
     (case resolveZoneAuthIdentity env ref uid w of
        (Inl err, w1) \<Rightarrow>
          if IsSearchFailure err then
            (case ensureIdentityPrerequisite env endpoint w1 of
               (Some prereqErr, w2) \<Rightarrow> (Some prereqErr, w2)
             | (None, w2) \<Rightarrow> (Some (Wrapped errDeleteZoneAuth err), w2))
          else (Some (Wrapped errDeleteZoneAuth err), w1)
      | (Inr (obj, outcome), w1) \<Rightarrow>
          (case outcome of
             OutcomeNotFound \<Rightarrow> (None, w1)
           | OutcomeAdopted \<Rightarrow> (Some (TextError errDeleteUnverifiedOwnership), w1)
           | _ \<Rightarrow>
               (case obj of
                  None \<Rightarrow> (Some (TextError nilDereference), w1)
                | Some rec \<Rightarrow>
                    (case deleteZoneAuth env (zar_Ref rec) w1 of
                       (None, w2) \<Rightarrow> (None, w2)
                     | (Some delErr, w2) \<Rightarrow>
                         if isNotFound (Some delErr) then (None, w2)
                         else (Some (Wrapped errDeleteZoneAuth delErr), w2)))))"

section \<open>The external clients\<close>

subsection \<open>namespaced.go\<close>

definition namespacedExternalServerValues :: "ExternalServer list \<Rightarrow> externalServerValue list" where
  "namespacedExternalServerValues xs =
     (if xs = [] then []
      else map (\<lambda>s. \<lparr>esv_Address = strOrEmpty (exs_Address s), esv_Name = strOrEmpty (exs_Name s),
        esv_Stealth = boolOrFalse (exs_Stealth s),
        esv_SharedWithMsParentDelegation = boolOrFalse (exs_SharedWithMsParentDelegation s),
        esv_TsigKey = strOrEmpty (exs_TsigKey s), esv_TsigKeyAlg = strOrEmpty (exs_TsigKeyAlg s),
        esv_TsigKeyName = strOrEmpty (exs_TsigKeyName s), esv_UseTsigKeyName = boolOrFalse (exs_UseTsigKeyName s)\<rparr>) xs)"

definition namespacedMemberServerValues :: "MemberServer list \<Rightarrow> memberServerValue list" where
  "namespacedMemberServerValues xs =
     (if xs = [] then []
      else map (\<lambda>m. \<lparr>msv_Name = strOrEmpty (mbs_Name m), msv_Stealth = boolOrFalse (mbs_Stealth m),
        msv_GridReplicate = boolOrFalse (mbs_GridReplicate m), msv_Lead = boolOrFalse (mbs_Lead m),
        msv_PreferredPrimaries = namespacedExternalServerValues (mbs_PreferredPrimaries m),
        msv_EnablePreferredPrimaries = boolOrFalse (mbs_EnablePreferredPrimaries m)\<rparr>) xs)"

definition namespacedExternalServersFromValues :: "externalServerValue list \<Rightarrow> ExternalServer list" where
  "namespacedExternalServersFromValues vs =
     (if vs = [] then []
      else map (\<lambda>v. \<lparr>exs_Address = strPtrOrNil (esv_Address v), exs_Name = strPtrOrNil (esv_Name v),
        exs_Stealth = Some (esv_Stealth v), exs_SharedWithMsParentDelegation = Some (esv_SharedWithMsParentDelegation v),
        exs_TsigKey = strPtrOrNil (esv_TsigKey v), exs_TsigKeyAlg = strPtrOrNil (esv_TsigKeyAlg v),
        exs_TsigKeyName = strPtrOrNil (esv_TsigKeyName v), exs_UseTsigKeyName = Some (esv_UseTsigKeyName v)\<rparr>) vs)"

definition namespacedMemberServersFromValues :: "memberServerValue list \<Rightarrow> MemberServer list" where
  "namespacedMemberServersFromValues vs =
     (if vs = [] then []
      else map (\<lambda>v. \<lparr>mbs_Name = strPtrOrNil (msv_Name v), mbs_Stealth = Some (msv_Stealth v),
        mbs_GridReplicate = Some (msv_GridReplicate v), mbs_Lead = Some (msv_Lead v),
        mbs_PreferredPrimaries = namespacedExternalServersFromValues (msv_PreferredPrimaries v),
        mbs_EnablePreferredPrimaries = Some (msv_EnablePreferredPrimaries v)\<rparr>) vs)"

definition namespacedFieldsFromSpec :: "ZoneAuthParameters \<Rightarrow> zoneAuthFields" where
  "namespacedFieldsFromSpec p =
     \<lparr>zaf_FQDN = strOrEmpty (zap_FQDN p), zaf_View = zap_View p, zaf_ZoneFormat = strOrEmpty (zap_ZoneFormat p),
      zaf_Comment = zap_Comment p, zaf_Disable = zap_Disable p, zaf_SoaDefaultTTL = zap_SoaDefaultTTL p,
      zaf_SoaExpire = zap_SoaExpire p, zaf_SoaNegativeTTL = zap_SoaNegativeTTL p, zaf_SoaRefresh = zap_SoaRefresh p,
      zaf_SoaRetry = zap_SoaRetry p, zaf_UseGridZoneTimer = zap_UseGridZoneTimer p, zaf_NsGroup = zap_NsGroup p,
      zaf_ExtAttrs = zap_ExtAttrs p, zaf_GridPrimary = namespacedMemberServerValues (zap_GridPrimary p),
      zaf_GridSecondaries = namespacedMemberServerValues (zap_GridSecondaries p),
      zaf_ExternalPrimaries = namespacedExternalServerValues (zap_ExternalPrimaries p),
      zaf_ExternalSecondaries = namespacedExternalServerValues (zap_ExternalSecondaries p)\<rparr>"

definition namespaced_ZoneAuth_Observe ::
  "(ZoneAuthObj, zoneauth_req) wapi \<Rightarrow> string \<Rightarrow> ZoneAuthCR \<Rightarrow> zoneauth_req world \<Rightarrow>
     (goerr + ExternalObservation) \<times> ZoneAuthCR \<times> zoneauth_req world" where
  "namespaced_ZoneAuth_Observe env endpoint cr w =
     (let ref = observeRefFor (mo_name cr) (GetExternalName cr) in
      case resolveZoneAuthIdentity env ref (mo_uid cr) w of
        (Inl err, w1) \<Rightarrow>
          if IsSearchFailure err then
            (case ensureIdentityPrerequisite env endpoint w1 of
               (Some prereqErr, w2) \<Rightarrow> (Inl prereqErr, cr, w2)
             | (None, w2) \<Rightarrow> (Inl (Wrapped errObserveZoneAuth err), cr, w2))
          else (Inl (Wrapped errObserveZoneAuth err), cr, w1)
      | (Inr (obj, outcome), w1) \<Rightarrow>
          if outcome = OutcomeNotFound then (Inr notExists, cr, w1)
          else
            (case obj of
               None \<Rightarrow> (Inl (TextError nilDereference), cr, w1)
             | Some rec \<Rightarrow>
                 (let observed = fieldsFromZoneAuth rec;
                      cr1 = cr\<lparr>za_AtProvider :=
                        \<lparr>zas_ID = zar_Ref rec, zas_FQDN = strPtrOrNil (zaf_FQDN observed), zas_View = zaf_View observed,
                         zas_ZoneFormat = strPtrOrNil (zaf_ZoneFormat observed), zas_Comment = zaf_Comment observed,
                         zas_Disable = zaf_Disable observed, zas_SoaDefaultTTL = zaf_SoaDefaultTTL observed,
                         zas_SoaExpire = zaf_SoaExpire observed, zas_SoaNegativeTTL = zaf_SoaNegativeTTL observed,
                         zas_SoaRefresh = zaf_SoaRefresh observed, zas_SoaRetry = zaf_SoaRetry observed,
                         zas_UseGridZoneTimer = zaf_UseGridZoneTimer observed, zas_NsGroup = zaf_NsGroup observed,
                         zas_ExtAttrs = zaf_ExtAttrs observed,
                         zas_GridPrimary = namespacedMemberServersFromValues (zaf_GridPrimary observed),
                         zas_GridSecondaries = namespacedMemberServersFromValues (zaf_GridSecondaries observed),
                         zas_ExternalPrimaries = namespacedExternalServersFromValues (zaf_ExternalPrimaries observed),
                         zas_ExternalSecondaries = namespacedExternalServersFromValues (zaf_ExternalSecondaries observed),
                         zas_Ref = strPtrOrNil (zar_Ref rec)\<rparr>\<rparr>;
                      p = za_ForProvider cr1;
                      desired = namespacedFieldsFromSpec p;
                      observedForCompare = observed\<lparr>zaf_ExtAttrs := extAttrsFromEA (Strip (zar_Ea rec))\<rparr>;
                      (updated, lateInit) = lateInitializeFields desired observedForCompare;
                      (cr2, desired1) =
                        (if lateInit
                         then (cr1\<lparr>za_ForProvider :=
                                 p\<lparr>zap_Comment := zaf_Comment updated, zap_Disable := zaf_Disable updated,
                                   zap_SoaDefaultTTL := zaf_SoaDefaultTTL updated, zap_SoaExpire := zaf_SoaExpire updated,
                                   zap_SoaNegativeTTL := zaf_SoaNegativeTTL updated,
                                   zap_SoaRefresh := zaf_SoaRefresh updated, zap_SoaRetry := zaf_SoaRetry updated,
                                   zap_UseGridZoneTimer := zaf_UseGridZoneTimer updated,
                                   zap_NsGroup := zaf_NsGroup updated, zap_ExtAttrs := zaf_ExtAttrs updated,
                                   zap_GridPrimary := namespacedMemberServersFromValues (zaf_GridPrimary updated),
                                   zap_GridSecondaries := namespacedMemberServersFromValues (zaf_GridSecondaries updated),
                                   zap_ExternalPrimaries := namespacedExternalServersFromValues (zaf_ExternalPrimaries updated),
                                   zap_ExternalSecondaries := namespacedExternalServersFromValues (zaf_ExternalSecondaries updated)\<rparr>\<rparr>,
                               updated)
                         else (cr1, desired));
                      (cr3, lateInit1) =
                        (if outcome = OutcomeRotated \<or> outcome = OutcomeFoundByUID
                         then (SetExternalName (zar_Ref rec) cr2, True) else (cr2, lateInit));
                      cr4 = SetAvailable cr3;
                      upToDate = (ZoneAuth_isUpToDate desired1 observedForCompare \<and> outcome \<noteq> OutcomeAdopted)
                  in (Inr \<lparr>ResourceExists = True, ResourceUpToDate = upToDate, ResourceLateInitialized = lateInit1\<rparr>, cr4, w1))))"

definition namespaced_ZoneAuth_Create ::
  "(ZoneAuthObj, zoneauth_req) wapi \<Rightarrow> string \<Rightarrow> ZoneAuthCR \<Rightarrow> zoneauth_req world \<Rightarrow>
     goerr option \<times> ZoneAuthCR \<times> zoneauth_req world" where
  "namespaced_ZoneAuth_Create env endpoint cr w =
     (let uid = mo_uid cr in
      if trim_space uid = [] then (Some (TextError ZoneAuth_errEmptyUID), cr, w)
      else
        (case ensureIdentityPrerequisite env endpoint w of
           (Some err, w1) \<Rightarrow> (Some err, cr, w1)
         | (None, w1) \<Rightarrow>
             (let f = namespacedFieldsFromSpec (za_ForProvider cr) in
              case createZoneAuth env f uid w1 of
                (Inl err, w2) \<Rightarrow> (Some (Wrapped errCreateZoneAuth err), cr, w2)
              | (Inr ref, w2) \<Rightarrow> (None, SetExternalName ref cr, w2))))"

definition namespaced_ZoneAuth_Update ::
  "(ZoneAuthObj, zoneauth_req) wapi \<Rightarrow> string \<Rightarrow> ZoneAuthCR \<Rightarrow> zoneauth_req world \<Rightarrow>
     goerr option \<times> ZoneAuthCR \<times> zoneauth_req world" where
  "namespaced_ZoneAuth_Update env endpoint cr w =
     (let f = namespacedFieldsFromSpec (za_ForProvider cr); externalID = GetExternalName cr in
      case ensureIdentityPrerequisite env endpoint w of
        (Some err, w1) \<Rightarrow> (Some err, cr, w1)
      | (None, w1) \<Rightarrow>
          (case updateZoneAuth env externalID f (mo_uid cr) w1 of
             (Some err, w2) \<Rightarrow> (Some (Wrapped errUpdateZoneAuth err), cr, w2)
           | (None, w2) \<Rightarrow> (None, cr, w2)))"

definition namespaced_ZoneAuth_Delete ::
  "(ZoneAuthObj, zoneauth_req) wapi \<Rightarrow> string \<Rightarrow> ZoneAuthCR \<Rightarrow> zoneauth_req world \<Rightarrow>
     goerr option \<times> zoneauth_req world" where
  "namespaced_ZoneAuth_Delete env endpoint cr w =
     (let externalID = GetExternalName cr in
      case deleteZoneAuthIdentity env endpoint externalID (mo_uid cr) w of
        (Some err, w1) \<Rightarrow> (Some err, w1)
      | (None, w1) \<Rightarrow> (None, w1))"

subsection \<open>cluster.go\<close>

definition clusterExternalServerValues :: "ExternalServer list \<Rightarrow> externalServerValue list" where
  "clusterExternalServerValues xs =
     (if xs = [] then []
      else map (\<lambda>s. \<lparr>esv_Address = strOrEmpty (exs_Address s), esv_Name = strOrEmpty (exs_Name s),
        esv_Stealth = boolOrFalse (exs_Stealth s),
        esv_SharedWithMsParentDelegation = boolOrFalse (exs_SharedWithMsParentDelegation s),
        esv_TsigKey = strOrEmpty (exs_TsigKey s), esv_TsigKeyAlg = strOrEmpty (exs_TsigKeyAlg s),
        esv_TsigKeyName = strOrEmpty (exs_TsigKeyName s), esv_UseTsigKeyName = boolOrFalse (exs_UseTsigKeyName s)\<rparr>) xs)"

definition clusterMemberServerValues :: "MemberServer list \<Rightarrow> memberServerValue list" where
  "clusterMemberServerValues xs =
     (if xs = [] then []
      else map (\<lambda>m. \<lparr>msv_Name = strOrEmpty (mbs_Name m), msv_Stealth = boolOrFalse (mbs_Stealth m),
        msv_GridReplicate = boolOrFalse (mbs_GridReplicate m), msv_Lead = boolOrFalse (mbs_Lead m),
        msv_PreferredPrimaries = clusterExternalServerValues (mbs_PreferredPrimaries m),
        msv_EnablePreferredPrimaries = boolOrFalse (mbs_EnablePreferredPrimaries m)\<rparr>) xs)"

definition clusterExternalServersFromValues :: "externalServerValue list \<Rightarrow> ExternalServer list" where
  "clusterExternalServersFromValues vs =
     (if vs = [] then []
      else map (\<lambda>v. \<lparr>exs_Address = strPtrOrNil (esv_Address v), exs_Name = strPtrOrNil (esv_Name v),
        exs_Stealth = Some (esv_Stealth v), exs_SharedWithMsParentDelegation = Some (esv_SharedWithMsParentDelegation v),
        exs_TsigKey = strPtrOrNil (esv_TsigKey v), exs_TsigKeyAlg = strPtrOrNil (esv_TsigKeyAlg v),
        exs_TsigKeyName = strPtrOrNil (esv_TsigKeyName v), exs_UseTsigKeyName = Some (esv_UseTsigKeyName v)\<rparr>) vs)"

definition clusterMemberServersFromValues :: "memberServerValue list \<Rightarrow> MemberServer list" where
  "clusterMemberServersFromValues vs =
     (if vs = [] then []
      else map (\<lambda>v. \<lparr>mbs_Name = strPtrOrNil (msv_Name v), mbs_Stealth = Some (msv_Stealth v),
        mbs_GridReplicate = Some (msv_GridReplicate v), mbs_Lead = Some (msv_Lead v),
        mbs_PreferredPrimaries = clusterExternalServersFromValues (msv_PreferredPrimaries v),
        mbs_EnablePreferredPrimaries = Some (msv_EnablePreferredPrimaries v)\<rparr>) vs)"

definition clusterFieldsFromSpec :: "ZoneAuthParameters \<Rightarrow> zoneAuthFields" where
  "clusterFieldsFromSpec p =
     \<lparr>zaf_FQDN = strOrEmpty (zap_FQDN p), zaf_View = zap_View p, zaf_ZoneFormat = strOrEmpty (zap_ZoneFormat p),
      zaf_Comment = zap_Comment p, zaf_Disable = zap_Disable p, zaf_SoaDefaultTTL = zap_SoaDefaultTTL p,
      zaf_SoaExpire = zap_SoaExpire p, zaf_SoaNegativeTTL = zap_SoaNegativeTTL p, zaf_SoaRefresh = zap_SoaRefresh p,
      zaf_SoaRetry = zap_SoaRetry p, zaf_UseGridZoneTimer = zap_UseGridZoneTimer p, zaf_NsGroup = zap_NsGroup p,
      zaf_ExtAttrs = zap_ExtAttrs p, zaf_GridPrimary = clusterMemberServerValues (zap_GridPrimary p),
      zaf_GridSecondaries = clusterMemberServerValues (zap_GridSecondaries p),
      zaf_ExternalPrimaries = clusterExternalServerValues (zap_ExternalPrimaries p),
      zaf_ExternalSecondaries = clusterExternalServerValues (zap_ExternalSecondaries p)\<rparr>"

definition cluster_ZoneAuth_Observe ::
  "(ZoneAuthObj, zoneauth_req) wapi \<Rightarrow> string \<Rightarrow> ZoneAuthCR \<Rightarrow> zoneauth_req world \<Rightarrow>
     (goerr + ExternalObservation) \<times> ZoneAuthCR \<times> zoneauth_req world" where
  "cluster_ZoneAuth_Observe env endpoint cr w =
     (let ref = observeRefFor (mo_name cr) (GetExternalName cr) in
      case resolveZoneAuthIdentity env ref (mo_uid cr) w of
        (Inl err, w1) \<Rightarrow>
          if IsSearchFailure err then
            (case ensureIdentityPrerequisite env endpoint w1 of
               (Some prereqErr, w2) \<Rightarrow> (Inl prereqErr, cr, w2)
             | (None, w2) \<Rightarrow> (Inl (Wrapped errObserveZoneAuth err), cr, w2))
          else (Inl (Wrapped errObserveZoneAuth err), cr, w1)
      | (Inr (obj, outcome), w1) \<Rightarrow>
          if outcome = OutcomeNotFound then (Inr notExists, cr, w1)
          else
            (case obj of
               None \<Rightarrow> (Inl (TextError nilDereference), cr, w1)
             | Some rec \<Rightarrow>
                 (let observed = fieldsFromZoneAuth rec;
                      cr1 = cr\<lparr>za_AtProvider :=
                        \<lparr>zas_ID = zar_Ref rec, zas_FQDN = strPtrOrNil (zaf_FQDN observed), zas_View = zaf_View observed,
                         zas_ZoneFormat = strPtrOrNil (zaf_ZoneFormat observed), zas_Comment = zaf_Comment observed,
                         zas_Disable = zaf_Disable observed, zas_SoaDefaultTTL = zaf_SoaDefaultTTL observed,
                         zas_SoaExpire = zaf_SoaExpire observed, zas_SoaNegativeTTL = zaf_SoaNegativeTTL observed,
                         zas_SoaRefresh = zaf_SoaRefresh observed, zas_SoaRetry = zaf_SoaRetry observed,
                         zas_UseGridZoneTimer = zaf_UseGridZoneTimer observed, zas_NsGroup = zaf_NsGroup observed,
                         zas_ExtAttrs = zaf_ExtAttrs observed,
                         zas_GridPrimary = clusterMemberServersFromValues (zaf_GridPrimary observed),
                         zas_GridSecondaries = clusterMemberServersFromValues (zaf_GridSecondaries observed),
                         zas_ExternalPrimaries = clusterExternalServersFromValues (zaf_ExternalPrimaries observed),
                         zas_ExternalSecondaries = clusterExternalServersFromValues (zaf_ExternalSecondaries observed),
                         zas_Ref = strPtrOrNil (zar_Ref rec)\<rparr>\<rparr>;
                      p = za_ForProvider cr1;
                      desired = clusterFieldsFromSpec p;
                      observedForCompare = observed\<lparr>zaf_ExtAttrs := extAttrsFromEA (Strip (zar_Ea rec))\<rparr>;
                      (updated, lateInit) = lateInitializeFields desired observedForCompare;
                      (cr2, desired1) =
                        (if lateInit
                         then (cr1\<lparr>za_ForProvider :=
                                 p\<lparr>zap_Comment := zaf_Comment updated, zap_Disable := zaf_Disable updated,
                                   zap_SoaDefaultTTL := zaf_SoaDefaultTTL updated, zap_SoaExpire := zaf_SoaExpire updated,
                                   zap_SoaNegativeTTL := zaf_SoaNegativeTTL updated,
                                   zap_SoaRefresh := zaf_SoaRefresh updated, zap_SoaRetry := zaf_SoaRetry updated,
                                   zap_UseGridZoneTimer := zaf_UseGridZoneTimer updated,
                                   zap_NsGroup := zaf_NsGroup updated, zap_ExtAttrs := zaf_ExtAttrs updated,
                                   zap_GridPrimary := clusterMemberServersFromValues (zaf_GridPrimary updated),
                                   zap_GridSecondaries := clusterMemberServersFromValues (zaf_GridSecondaries updated),
                                   zap_ExternalPrimaries := clusterExternalServersFromValues (zaf_ExternalPrimaries updated),
                                   zap_ExternalSecondaries := clusterExternalServersFromValues (zaf_ExternalSecondaries updated)\<rparr>\<rparr>,
                               updated)
                         else (cr1, desired));
                      (cr3, lateInit1) =
                        (if outcome = OutcomeRotated \<or> outcome = OutcomeFoundByUID
                         then (SetExternalName (zar_Ref rec) cr2, True) else (cr2, lateInit));
                      cr4 = SetAvailable cr3;
                      upToDate = (ZoneAuth_isUpToDate desired1 observedForCompare \<and> outcome \<noteq> OutcomeAdopted)
                  in (Inr \<lparr>ResourceExists = True, ResourceUpToDate = upToDate, ResourceLateInitialized = lateInit1\<rparr>, cr4, w1))))"

definition cluster_ZoneAuth_Create ::
  "(ZoneAuthObj, zoneauth_req) wapi \<Rightarrow> string \<Rightarrow> ZoneAuthCR \<Rightarrow> zoneauth_req world \<Rightarrow>
     goerr option \<times> ZoneAuthCR \<times> zoneauth_req world" where
  "cluster_ZoneAuth_Create env endpoint cr w =
     (let uid = mo_uid cr in
      if trim_space uid = [] then (Some (TextError ZoneAuth_errEmptyUID), cr, w)
      else
        (case ensureIdentityPrerequisite env endpoint w of
           (Some err, w1) \<Rightarrow> (Some err, cr, w1)
         | (None, w1) \<Rightarrow>
             (let f = clusterFieldsFromSpec (za_ForProvider cr) in
              case createZoneAuth env f uid w1 of
                (Inl err, w2) \<Rightarrow> (Some (Wrapped errCreateZoneAuth err), cr, w2)
              | (Inr ref, w2) \<Rightarrow> (None, SetExternalName ref cr, w2))))"

definition cluster_ZoneAuth_Update ::
  "(ZoneAuthObj, zoneauth_req) wapi \<Rightarrow> string \<Rightarrow> ZoneAuthCR \<Rightarrow> zoneauth_req world \<Rightarrow>
     goerr option \<times> ZoneAuthCR \<times> zoneauth_req world" where
  "cluster_ZoneAuth_Update env endpoint cr w =
     (let f = clusterFieldsFromSpec (za_ForProvider cr); externalID = GetExternalName cr in
      case ensureIdentityPrerequisite env endpoint w of
        (Some err, w1) \<Rightarrow> (Some err, cr, w1)
      | (None, w1) \<Rightarrow>
          (case updateZoneAuth env externalID f (mo_uid cr) w1 of
             (Some err, w2) \<Rightarrow> (Some (Wrapped errUpdateZoneAuth err), cr, w2)
           | (None, w2) \<Rightarrow> (None, cr, w2)))"

definition cluster_ZoneAuth_Delete ::
  "(ZoneAuthObj, zoneauth_req) wapi \<Rightarrow> string \<Rightarrow> ZoneAuthCR \<Rightarrow> zoneauth_req world \<Rightarrow>
     goerr option \<times> zoneauth_req world" where
  "cluster_ZoneAuth_Delete env endpoint cr w =
     (let externalID = GetExternalName cr in
      case deleteZoneAuthIdentity env endpoint externalID (mo_uid cr) w of
        (Some err, w1) \<Rightarrow> (Some err, w1)
      | (None, w1) \<Rightarrow> (None, w1))"

section \<open>The contract of the ladder client\<close>

text \<open>What the drift check sees of a zone, the requests of a spec and what a zone holds of a request.\<close>

definition zoneauth_observed :: "ZoneAuthObj \<Rightarrow> zoneAuthFields" where
  "zoneauth_observed rec = (fieldsFromZoneAuth rec)\<lparr>zaf_ExtAttrs := extAttrsFromEA (Strip (zar_Ea rec))\<rparr>"

definition zoneauth_fields :: "ZoneAuthCR \<Rightarrow> zoneAuthFields" where
  "zoneauth_fields cr = namespacedFieldsFromSpec (za_ForProvider cr)"

definition zoneauth_create_request :: "zoneAuthFields \<Rightarrow> string \<Rightarrow> zoneauth_req" where
  "zoneauth_create_request f uid =
     CreateZoneAuthObject ((buildZoneAuthForCreate f)\<lparr>zar_Ea := Stamp (buildEA (zaf_ExtAttrs f)) uid\<rparr>)"

definition zoneauth_update_request :: "string \<Rightarrow> zoneAuthFields \<Rightarrow> string \<Rightarrow> zoneauth_req" where
  "zoneauth_update_request ref f uid =
     UpdateZoneAuthObject ((buildZoneAuthForUpdate f)\<lparr>zar_Ea := Stamp (buildEA (zaf_ExtAttrs f)) uid\<rparr>) ref"

fun zoneauth_req_ea :: "zoneauth_req \<Rightarrow> ea" where
  "zoneauth_req_ea (CreateZoneAuthObject z) = zar_Ea z"
| "zoneauth_req_ea (UpdateZoneAuthObject z ref) = zar_Ea z"

text \<open>
  Of a nil pointer or an empty list nothing is sent, and the Grid has its own value; the timers
  are stored while the zone does not inherit the Grid's. An update keeps the reference.
\<close>

definition zoneauth_stores :: "ZoneAuthObj \<Rightarrow> ZoneAuthObj \<Rightarrow> bool" where
  "zoneauth_stores z rec \<longleftrightarrow>
     (zar_Comment z \<noteq> None \<longrightarrow> zar_Comment rec = zar_Comment z) \<and>
     (zar_Disable z \<noteq> None \<longrightarrow> zar_Disable rec = zar_Disable z) \<and>
     (zar_NsGroup z \<noteq> None \<longrightarrow> zar_NsGroup rec = zar_NsGroup z) \<and>
     (zar_UseGridZoneTimer z \<noteq> None \<longrightarrow> zar_UseGridZoneTimer rec = zar_UseGridZoneTimer z) \<and>
     (boolOrFalse (zar_UseGridZoneTimer rec) \<longrightarrow>
        (zar_SoaDefaultTtl z \<noteq> None \<longrightarrow> zar_SoaDefaultTtl rec = zar_SoaDefaultTtl z) \<and>
        (zar_SoaExpire z \<noteq> None \<longrightarrow> zar_SoaExpire rec = zar_SoaExpire z) \<and>
        (zar_SoaNegativeTtl z \<noteq> None \<longrightarrow> zar_SoaNegativeTtl rec = zar_SoaNegativeTtl z) \<and>
        (zar_SoaRefresh z \<noteq> None \<longrightarrow> zar_SoaRefresh rec = zar_SoaRefresh z) \<and>
        (zar_SoaRetry z \<noteq> None \<longrightarrow> zar_SoaRetry rec = zar_SoaRetry z)) \<and>
     (zar_GridPrimary z \<noteq> [] \<longrightarrow> zar_GridPrimary rec = zar_GridPrimary z) \<and>
     (zar_GridSecondaries z \<noteq> [] \<longrightarrow> zar_GridSecondaries rec = zar_GridSecondaries z) \<and>
     (zar_ExternalPrimaries z \<noteq> [] \<longrightarrow> zar_ExternalPrimaries rec = zar_ExternalPrimaries z) \<and>
     (zar_ExternalSecondaries z \<noteq> [] \<longrightarrow> zar_ExternalSecondaries rec = zar_ExternalSecondaries z) \<and>
     zar_Ea rec = zar_Ea z"

fun zoneauth_holds :: "zoneauth_req \<Rightarrow> ZoneAuthObj \<Rightarrow> bool" where
  "zoneauth_holds (CreateZoneAuthObject z) rec = zoneauth_stores z rec"
| "zoneauth_holds (UpdateZoneAuthObject z ref) rec = (zar_Ref rec = ref \<and> zoneauth_stores z rec)"

definition ZoneAuth_spec_ok :: "ZoneAuthCR \<Rightarrow> bool" where
  "ZoneAuth_spec_ok cr \<longleftrightarrow> reserved_free (zap_ExtAttrs (za_ForProvider cr))"

definition ZoneAuth_put :: "ZoneAuthCR \<Rightarrow> zoneAuthFields \<Rightarrow> ZoneAuthCR" where
  "ZoneAuth_put cr f = cr\<lparr>za_ForProvider := (za_ForProvider cr)
     \<lparr>zap_Comment := zaf_Comment f, zap_Disable := zaf_Disable f, zap_SoaDefaultTTL := zaf_SoaDefaultTTL f,
      zap_SoaExpire := zaf_SoaExpire f, zap_SoaNegativeTTL := zaf_SoaNegativeTTL f, zap_SoaRefresh := zaf_SoaRefresh f,
      zap_SoaRetry := zaf_SoaRetry f, zap_UseGridZoneTimer := zaf_UseGridZoneTimer f, zap_NsGroup := zaf_NsGroup f,
      zap_ExtAttrs := zaf_ExtAttrs f, zap_GridPrimary := namespacedMemberServersFromValues (zaf_GridPrimary f),
      zap_GridSecondaries := namespacedMemberServersFromValues (zaf_GridSecondaries f),
      zap_ExternalPrimaries := namespacedExternalServersFromValues (zaf_ExternalPrimaries f),
      zap_ExternalSecondaries := namespacedExternalServersFromValues (zaf_ExternalSecondaries f)\<rparr>\<rparr>"

definition ZoneAuth_status :: "ZoneAuthObj \<Rightarrow> ZoneAuthCR \<Rightarrow> ZoneAuthCR" where
  "ZoneAuth_status rec cr =
     (let observed = fieldsFromZoneAuth rec in
      cr\<lparr>za_AtProvider :=
        \<lparr>zas_ID = zar_Ref rec, zas_FQDN = strPtrOrNil (zaf_FQDN observed), zas_View = zaf_View observed,
         zas_ZoneFormat = strPtrOrNil (zaf_ZoneFormat observed), zas_Comment = zaf_Comment observed,
         zas_Disable = zaf_Disable observed, zas_SoaDefaultTTL = zaf_SoaDefaultTTL observed,
         zas_SoaExpire = zaf_SoaExpire observed, zas_SoaNegativeTTL = zaf_SoaNegativeTTL observed,
         zas_SoaRefresh = zaf_SoaRefresh observed, zas_SoaRetry = zaf_SoaRetry observed,
         zas_UseGridZoneTimer = zaf_UseGridZoneTimer observed, zas_NsGroup = zaf_NsGroup observed,
         zas_ExtAttrs = zaf_ExtAttrs observed,
         zas_GridPrimary = namespacedMemberServersFromValues (zaf_GridPrimary observed),
         zas_GridSecondaries = namespacedMemberServersFromValues (zaf_GridSecondaries observed),
         zas_ExternalPrimaries = namespacedExternalServersFromValues (zaf_ExternalPrimaries observed),
         zas_ExternalSecondaries = namespacedExternalServersFromValues (zaf_ExternalSecondaries observed),
         zas_Ref = strPtrOrNil (zar_Ref rec)\<rparr>\<rparr>)"

definition ZoneAuth_valid :: "ZoneAuthCR \<Rightarrow> goerr option" where
  "ZoneAuth_valid cr = (if trim_space (mo_uid cr) = [] then Some (TextError ZoneAuth_errEmptyUID) else None)"

definition zoneauth_observe_error :: "goerr option \<Rightarrow> goerr \<Rightarrow> goerr" where
  "zoneauth_observe_error prereq err = (case prereq of Some p \<Rightarrow> p | None \<Rightarrow> Wrapped errObserveZoneAuth err)"

text \<open>The comparisons of servers, and what the conversions keep.\<close>

lemma externalServerValueEqual_refl [simp]: "externalServerValueEqual v v"
  by (simp add: externalServerValueEqual_def)

lemma externalServerValuesEqual_refl [simp]: "externalServerValuesEqual vs vs"
proof -
  have "externalServersLoop vs vs" by (induction vs) simp_all
  then show ?thesis by (simp add: externalServerValuesEqual_def)
qed

lemma memberServerValuesEqual_refl [simp]: "memberServerValuesEqual vs vs"
proof -
  have "memberServersLoop vs vs" by (induction vs) simp_all
  then show ?thesis by (simp add: memberServerValuesEqual_def)
qed

lemma external_conv [simp]:
  "externalServerValuesFromSDK (externalServerValuesToSDK vs) = vs"
  "namespacedExternalServerValues (namespacedExternalServersFromValues vs) = vs"
  "externalServerValuesToSDK vs = [] \<longleftrightarrow> vs = []" "externalServerValuesFromSDK xs = [] \<longleftrightarrow> xs = []"
  "externalServerValuesFromSDK [] = []"
  by (auto simp: externalServerValuesFromSDK_def externalServerValuesToSDK_def namespacedExternalServerValues_def
      namespacedExternalServersFromValues_def strPtrOrNil_def strOrEmpty_def boolOrFalse_def comp_def intro!: map_idI)

lemma member_conv [simp]:
  "memberServerValuesFromSDK (memberServerValuesToSDK ms) = ms"
  "namespacedMemberServerValues (namespacedMemberServersFromValues ms) = ms"
  "memberServerValuesToSDK ms = [] \<longleftrightarrow> ms = []" "memberServerValuesFromSDK [] = []"
proof -
  have "List.map_filter (map_option g) (map (\<lambda>v. Some (h v)) ms) = map (\<lambda>v. g (h v)) ms" for g :: "Memberserver \<Rightarrow> memberServerValue" and h
    by (induction ms) (simp_all add: List.map_filter_simps)
  then show "memberServerValuesFromSDK (memberServerValuesToSDK ms) = ms"
    by (auto simp: memberServerValuesFromSDK_def memberServerValuesToSDK_def intro!: map_idI)
  show "namespacedMemberServerValues (namespacedMemberServersFromValues ms) = ms"
    by (auto simp: namespacedMemberServerValues_def namespacedMemberServersFromValues_def strPtrOrNil_def strOrEmpty_def
        boolOrFalse_def comp_def intro!: map_idI)
qed (simp_all add: memberServerValuesToSDK_def memberServerValuesFromSDK_def)

text \<open>Back-filling, in terms of the functions that overwrite what is unset.\<close>

lemma zoneauth_late_eqs:
  "lateInitPtr x y = (fill x y, fill x y \<noteq> x)"
  "gatedLateInitPtr e o1 x y = (fill_if x (effectiveUseFlag e o1) y, fill_if x (effectiveUseFlag e o1) y \<noteq> x)"
  "lateInitStringPtr s t = (fill s (ptrIfSet t), fill s (ptrIfSet t) \<noteq> s)"
  by (auto simp: lateInitPtr_def gatedLateInitPtr_def lateInitStringPtr_def fill_def fill_if_def ptrIfSet_def
      ptrIfNonEmpty_def split: option.splits)

text \<open>Whether the timers are back-filled.\<close>

definition timer_gate :: "zoneAuthFields \<Rightarrow> zoneAuthFields \<Rightarrow> bool" where
  "timer_gate desired observed \<longleftrightarrow>
     anySOATimerFieldSet desired \<or> boolOrFalse (fill (zaf_UseGridZoneTimer desired) (zaf_UseGridZoneTimer observed))"

definition zoneauth_filled :: "zoneAuthFields \<Rightarrow> zoneAuthFields \<Rightarrow> zoneAuthFields" where
  "zoneauth_filled d obs =
     (let g = timer_gate d obs in
      d\<lparr>zaf_Comment := fill (zaf_Comment d) (ptrIfSet (zaf_Comment obs)),
        zaf_Disable := fill (zaf_Disable d) (zaf_Disable obs),
        zaf_UseGridZoneTimer := fill (zaf_UseGridZoneTimer d) (zaf_UseGridZoneTimer obs),
        zaf_SoaDefaultTTL := fill_if (zaf_SoaDefaultTTL d) g (zaf_SoaDefaultTTL obs),
        zaf_SoaExpire := fill_if (zaf_SoaExpire d) g (zaf_SoaExpire obs),
        zaf_SoaNegativeTTL := fill_if (zaf_SoaNegativeTTL d) g (zaf_SoaNegativeTTL obs),
        zaf_SoaRefresh := fill_if (zaf_SoaRefresh d) g (zaf_SoaRefresh obs),
        zaf_SoaRetry := fill_if (zaf_SoaRetry d) g (zaf_SoaRetry obs),
        zaf_NsGroup := fill (zaf_NsGroup d) (ptrIfSet (zaf_NsGroup obs)),
        zaf_ExtAttrs := fill_map (zaf_ExtAttrs d) (zaf_ExtAttrs obs),
        zaf_GridPrimary := fill_list (zaf_GridPrimary d) (zaf_GridPrimary obs),
        zaf_GridSecondaries := fill_list (zaf_GridSecondaries d) (zaf_GridSecondaries obs),
        zaf_ExternalPrimaries := fill_list (zaf_ExternalPrimaries d) (zaf_ExternalPrimaries obs),
        zaf_ExternalSecondaries := fill_list (zaf_ExternalSecondaries d) (zaf_ExternalSecondaries obs)\<rparr>)"

lemma effective_flag:
  "anySOATimerFieldSet (d\<lparr>zaf_Comment := c, zaf_Disable := b, zaf_UseGridZoneTimer := u\<rparr>) = anySOATimerFieldSet d"
  "effectiveUseFlag (effectiveUseGridZoneTimer (d\<lparr>zaf_Comment := c, zaf_Disable := b,
     zaf_UseGridZoneTimer := fill (zaf_UseGridZoneTimer d) (zaf_UseGridZoneTimer obs)\<rparr>)) (zaf_UseGridZoneTimer obs) =
     timer_gate d obs"
  by (auto simp: effectiveUseFlag_def effectiveUseGridZoneTimer_def anySOATimerFieldSet_def timer_gate_def fill_def
      boolOrFalse_def split: option.splits)

lemma zoneauth_list_steps:
  "(if zaf_ExtAttrs d = fmempty \<and> zaf_ExtAttrs obs \<noteq> fmempty then (d\<lparr>zaf_ExtAttrs := zaf_ExtAttrs obs\<rparr>, True) else (d, c)) =
     (d\<lparr>zaf_ExtAttrs := fill_map (zaf_ExtAttrs d) (zaf_ExtAttrs obs)\<rparr>,
      fill_map (zaf_ExtAttrs d) (zaf_ExtAttrs obs) \<noteq> zaf_ExtAttrs d \<or> c)"
  "(if zaf_GridPrimary d = [] \<and> zaf_GridPrimary obs \<noteq> [] then (d\<lparr>zaf_GridPrimary := zaf_GridPrimary obs\<rparr>, True) else (d, c)) =
     (d\<lparr>zaf_GridPrimary := fill_list (zaf_GridPrimary d) (zaf_GridPrimary obs)\<rparr>,
      fill_list (zaf_GridPrimary d) (zaf_GridPrimary obs) \<noteq> zaf_GridPrimary d \<or> c)"
  "(if zaf_GridSecondaries d = [] \<and> zaf_GridSecondaries obs \<noteq> [] then (d\<lparr>zaf_GridSecondaries := zaf_GridSecondaries obs\<rparr>, True) else (d, c)) =
     (d\<lparr>zaf_GridSecondaries := fill_list (zaf_GridSecondaries d) (zaf_GridSecondaries obs)\<rparr>,
      fill_list (zaf_GridSecondaries d) (zaf_GridSecondaries obs) \<noteq> zaf_GridSecondaries d \<or> c)"
  "(if zaf_ExternalPrimaries d = [] \<and> zaf_ExternalPrimaries obs \<noteq> [] then (d\<lparr>zaf_ExternalPrimaries := zaf_ExternalPrimaries obs\<rparr>, True) else (d, c)) =
     (d\<lparr>zaf_ExternalPrimaries := fill_list (zaf_ExternalPrimaries d) (zaf_ExternalPrimaries obs)\<rparr>,
      fill_list (zaf_ExternalPrimaries d) (zaf_ExternalPrimaries obs) \<noteq> zaf_ExternalPrimaries d \<or> c)"
  "(if zaf_ExternalSecondaries d = [] \<and> zaf_ExternalSecondaries obs \<noteq> [] then (d\<lparr>zaf_ExternalSecondaries := zaf_ExternalSecondaries obs\<rparr>, True) else (d, c)) =
     (d\<lparr>zaf_ExternalSecondaries := fill_list (zaf_ExternalSecondaries d) (zaf_ExternalSecondaries obs)\<rparr>,
      fill_list (zaf_ExternalSecondaries d) (zaf_ExternalSecondaries obs) \<noteq> zaf_ExternalSecondaries d \<or> c)"
  by (cases d; simp add: fill_map_def fill_list_def)+

lemma zoneauth_fields_differ:
  "d\<lparr>zaf_Comment := comment, zaf_Disable := disable, zaf_UseGridZoneTimer := use, zaf_SoaDefaultTTL := ttl,
     zaf_SoaExpire := expire, zaf_SoaNegativeTTL := negative, zaf_SoaRefresh := refresh, zaf_SoaRetry := retry,
     zaf_NsGroup := nsg, zaf_ExtAttrs := attrs, zaf_GridPrimary := gp, zaf_GridSecondaries := gs,
     zaf_ExternalPrimaries := ep, zaf_ExternalSecondaries := es\<rparr> = d \<longleftrightarrow>
   comment = zaf_Comment d \<and> disable = zaf_Disable d \<and> use = zaf_UseGridZoneTimer d \<and> ttl = zaf_SoaDefaultTTL d \<and>
   expire = zaf_SoaExpire d \<and> negative = zaf_SoaNegativeTTL d \<and> refresh = zaf_SoaRefresh d \<and> retry = zaf_SoaRetry d \<and>
   nsg = zaf_NsGroup d \<and> attrs = zaf_ExtAttrs d \<and> gp = zaf_GridPrimary d \<and> gs = zaf_GridSecondaries d \<and>
   ep = zaf_ExternalPrimaries d \<and> es = zaf_ExternalSecondaries d"
  by (cases d) auto

lemma lateInitializeFields_eq:
  "lateInitializeFields d obs = (zoneauth_filled d obs, zoneauth_filled d obs \<noteq> d)"
proof -
  have "fst (lateInitializeFields d obs) = zoneauth_filled d obs"
    by (simp add: lateInitializeFields_def lateInitializeScalars_def lateInitializeCollections_def Let_def
        zoneauth_late_eqs zoneauth_list_steps effective_flag zoneauth_filled_def)
  moreover have "snd (lateInitializeFields d obs) \<longleftrightarrow> zoneauth_filled d obs \<noteq> d"
    by (simp add: lateInitializeFields_def lateInitializeScalars_def lateInitializeCollections_def Let_def
        zoneauth_late_eqs zoneauth_list_steps effective_flag zoneauth_filled_def zoneauth_fields_differ) blast
  ultimately show ?thesis by (simp only: prod_eq_iff fst_conv snd_conv)
qed

lemma timer_gate_filled: "timer_gate (zoneauth_filled d obs) obs = timer_gate d obs"
  by (auto simp: timer_gate_def zoneauth_filled_def Let_def anySOATimerFieldSet_def fill_if_def)

text \<open>The drift check, field by field.\<close>

lemma gated_simps: "gatedUint32Equal e x y \<longleftrightarrow> (boolOrFalse e \<longrightarrow> ttlOrZero x = ttlOrZero y)"
  by (simp add: gatedUint32Equal_def)

lemma effective_filled:
  "boolOrFalse (effectiveUseGridZoneTimer (zoneauth_filled d obs)) = timer_gate d obs"
  by (auto simp: effectiveUseGridZoneTimer_def timer_gate_def zoneauth_filled_def Let_def anySOATimerFieldSet_def
      fill_if_def boolOrFalse_def split: option.splits)

lemma ZoneAuth_isUpToDate_iff:
  "ZoneAuth_isUpToDate d obs \<longleftrightarrow>
     strOrEmpty (zaf_Comment d) = strOrEmpty (zaf_Comment obs) \<and> boolOrFalse (zaf_Disable d) = boolOrFalse (zaf_Disable obs) \<and>
     boolOrFalse (effectiveUseGridZoneTimer d) = boolOrFalse (zaf_UseGridZoneTimer obs) \<and>
     (boolOrFalse (effectiveUseGridZoneTimer d) \<longrightarrow>
        ttlOrZero (zaf_SoaDefaultTTL d) = ttlOrZero (zaf_SoaDefaultTTL obs) \<and> ttlOrZero (zaf_SoaExpire d) = ttlOrZero (zaf_SoaExpire obs) \<and>
        ttlOrZero (zaf_SoaNegativeTTL d) = ttlOrZero (zaf_SoaNegativeTTL obs) \<and> ttlOrZero (zaf_SoaRefresh d) = ttlOrZero (zaf_SoaRefresh obs) \<and>
        ttlOrZero (zaf_SoaRetry d) = ttlOrZero (zaf_SoaRetry obs)) \<and>
     strOrEmpty (zaf_NsGroup d) = strOrEmpty (zaf_NsGroup obs) \<and> zaf_ExtAttrs d = zaf_ExtAttrs obs \<and>
     memberServerValuesEqual (zaf_GridPrimary d) (zaf_GridPrimary obs) \<and>
     memberServerValuesEqual (zaf_GridSecondaries d) (zaf_GridSecondaries obs) \<and>
     externalServerValuesEqual (zaf_ExternalPrimaries d) (zaf_ExternalPrimaries obs) \<and>
     externalServerValuesEqual (zaf_ExternalSecondaries d) (zaf_ExternalSecondaries obs)"
  by (auto simp: ZoneAuth_isUpToDate_def gated_simps Let_def extAttrsEqual_iff)

definition ZoneAuth_late :: "zoneAuthFields \<Rightarrow> ZoneAuthObj \<Rightarrow> zoneAuthFields \<times> bool" where
  "ZoneAuth_late d rec = lateInitializeFields d (zoneauth_observed rec)"

definition ZoneAuth_utd :: "zoneAuthFields \<Rightarrow> ZoneAuthObj \<Rightarrow> bool" where
  "ZoneAuth_utd d rec = ZoneAuth_isUpToDate d (zoneauth_observed rec)"

definition ZoneAuth_keeps :: "zoneAuthFields \<Rightarrow> zoneAuthFields \<Rightarrow> bool" where
  "ZoneAuth_keeps d d' \<longleftrightarrow>
     zaf_FQDN d' = zaf_FQDN d \<and> zaf_View d' = zaf_View d \<and> zaf_ZoneFormat d' = zaf_ZoneFormat d \<and>
     keeps_set (zaf_Comment d) (zaf_Comment d') \<and> keeps_set (zaf_Disable d) (zaf_Disable d') \<and>
     keeps_set (zaf_SoaDefaultTTL d) (zaf_SoaDefaultTTL d') \<and> keeps_set (zaf_SoaExpire d) (zaf_SoaExpire d') \<and>
     keeps_set (zaf_SoaNegativeTTL d) (zaf_SoaNegativeTTL d') \<and> keeps_set (zaf_SoaRefresh d) (zaf_SoaRefresh d') \<and>
     keeps_set (zaf_SoaRetry d) (zaf_SoaRetry d') \<and> keeps_set (zaf_UseGridZoneTimer d) (zaf_UseGridZoneTimer d') \<and>
     keeps_set (zaf_NsGroup d) (zaf_NsGroup d') \<and> keeps_attrs (zaf_ExtAttrs d) (zaf_ExtAttrs d') \<and>
     keeps_list (zaf_GridPrimary d) (zaf_GridPrimary d') \<and> keeps_list (zaf_GridSecondaries d) (zaf_GridSecondaries d') \<and>
     keeps_list (zaf_ExternalPrimaries d) (zaf_ExternalPrimaries d') \<and>
     keeps_list (zaf_ExternalSecondaries d) (zaf_ExternalSecondaries d')"

lemma zoneauth_fill_agrees:
  "memberServerValuesEqual a b \<Longrightarrow> memberServerValuesEqual (fill_list a b) b"
  "externalServerValuesEqual c e \<Longrightarrow> externalServerValuesEqual (fill_list c e) e"
  by (simp_all add: fill_list_def)

lemma zoneauth_put_fields:
  "zaf_FQDN f = zaf_FQDN (zoneauth_fields cr) \<Longrightarrow> zaf_View f = zaf_View (zoneauth_fields cr) \<Longrightarrow>
     zaf_ZoneFormat f = zaf_ZoneFormat (zoneauth_fields cr) \<Longrightarrow> zoneauth_fields (ZoneAuth_put cr f) = f"
  by (cases f) (simp add: zoneauth_fields_def ZoneAuth_put_def namespacedFieldsFromSpec_def)

interpretation zoneauth_late: late_view ZoneAuth_late ZoneAuth_keeps zoneauth_fields ZoneAuth_put ZoneAuth_utd
proof
  fix l :: zoneAuthFields and rec :: ZoneAuthObj and cr :: ZoneAuthCR
  let ?o = "zoneauth_observed rec"
  have "zoneauth_filled (zoneauth_filled l ?o) ?o = zoneauth_filled l ?o"
    unfolding zoneauth_filled_def [of "zoneauth_filled l ?o"] timer_gate_filled
    by (simp add: zoneauth_filled_def Let_def)
  then show "ZoneAuth_late (fst (ZoneAuth_late l rec)) rec = (fst (ZoneAuth_late l rec), False)"
    by (simp add: ZoneAuth_late_def lateInitializeFields_eq)
  show "snd (ZoneAuth_late l rec) \<longleftrightarrow> fst (ZoneAuth_late l rec) \<noteq> l"
    by (simp add: ZoneAuth_late_def lateInitializeFields_eq)
  show "ZoneAuth_keeps l (fst (ZoneAuth_late l rec))"
    by (simp add: ZoneAuth_late_def lateInitializeFields_eq zoneauth_filled_def Let_def ZoneAuth_keeps_def)
  show "zoneauth_fields (ZoneAuth_put cr (fst (ZoneAuth_late (zoneauth_fields cr) rec))) =
      fst (ZoneAuth_late (zoneauth_fields cr) rec)"
    by (rule zoneauth_put_fields)
      (simp_all add: ZoneAuth_late_def lateInitializeFields_eq zoneauth_filled_def Let_def)
  assume u: "ZoneAuth_utd l rec"
  then have gate: "timer_gate l ?o = boolOrFalse (zaf_UseGridZoneTimer ?o)"
    by (auto simp: ZoneAuth_utd_def ZoneAuth_isUpToDate_iff timer_gate_def effectiveUseGridZoneTimer_def fill_def
        boolOrFalse_def split: if_splits option.splits)
  have "boolOrFalse (zaf_UseGridZoneTimer ?o) \<Longrightarrow> boolOrFalse (effectiveUseGridZoneTimer l)"
    using u by (simp add: ZoneAuth_utd_def ZoneAuth_isUpToDate_iff)
  with u show "ZoneAuth_utd (fst (ZoneAuth_late l rec)) rec"
    by (simp add: ZoneAuth_late_def lateInitializeFields_eq ZoneAuth_utd_def ZoneAuth_isUpToDate_iff effective_filled gate)
      (simp add: zoneauth_filled_def Let_def gate zoneauth_fill_agrees)
qed

lemma ZoneAuthObj_type_simps [simp]:
  "ot_name ZoneAuthObj_type = ''zone_auth''" "ref_ea_shape ZoneAuthObj_type"
  "stamped ZoneAuthObj_type rec = eaValue (zar_Ea rec) EAKey"
  by (simp_all add: ref_ea_shape_def stamped_def ZoneAuthObj_type_def reflectZoneAuthObj_def getRef_def getEA_def)

lemma deleteZoneAuth_issue: "deleteZoneAuth env = issue_delete env"
  by (intro ext) (simp only: deleteZoneAuth_def issue_delete_def)

lemma ZoneAuth_CR_commute:
  "ZoneAuth_status rec (ZoneAuth_put cr f) = ZoneAuth_put (ZoneAuth_status rec cr) f"
  "zoneauth_fields (ZoneAuth_status rec cr) = zoneauth_fields cr"
  by (simp_all add: ZoneAuth_status_def ZoneAuth_put_def zoneauth_fields_def Let_def)

lemma ZoneAuth_Observe_shape:
  "namespaced_ZoneAuth_Observe env ep cr w =
     ladder_observe_shape zoneauth_observe_error (Resolve env ZoneAuthObj_type) (ensureIdentityPrerequisite env ep)
       (\<lambda>r. True) (\<lambda>r. True) (lift_view ZoneAuth_late zoneauth_fields ZoneAuth_put) ZoneAuth_status
       (\<lambda>cr. ZoneAuth_utd (zoneauth_fields cr)) zar_Ref cr w"
proof -
  obtain r w1 where r: "Resolve env ZoneAuthObj_type (observeRefFor (mo_name cr) (GetExternalName cr)) (mo_uid cr) w = (r, w1)"
    by (cases "Resolve env ZoneAuthObj_type (observeRefFor (mo_name cr) (GetExternalName cr)) (mo_uid cr) w")
  obtain e w2 where e: "ensureIdentityPrerequisite env ep w1 = (e, w2)"
    by (cases "ensureIdentityPrerequisite env ep w1")
  note defs = namespaced_ZoneAuth_Observe_def resolveZoneAuthIdentity_def ladder_observe_shape_def zoneauth_observe_error_def
  show ?thesis
  proof (cases r)
    case (Inl err)
    then show ?thesis
      by (cases e) (simp_all add: defs Let_def r e)
  next
    case (Inr a)
    obtain obj out where a: "a = (obj, out)" by (cases a)
    show ?thesis
    proof (cases obj)
      case None
      with r Inr a have "out = OutcomeNotFound"
        using Resolve_Some [of env ZoneAuthObj_type] by (metis option.distinct(1))
      with None show ?thesis by (simp add: defs Let_def r Inr a)
    next
      case (Some rec)
      obtain f c where late: "ZoneAuth_late (zoneauth_fields cr) rec = (f, c)"
        by (cases "ZoneAuth_late (zoneauth_fields cr) rec")
      then have lf: "lateInitializeFields (namespacedFieldsFromSpec (za_ForProvider cr))
          ((fieldsFromZoneAuth rec)\<lparr>zaf_ExtAttrs := extAttrsFromEA (Strip (zar_Ea rec))\<rparr>) = (f, c)"
        by (simp add: ZoneAuth_late_def zoneauth_fields_def zoneauth_observed_def)
      have again: "c \<Longrightarrow> zoneauth_fields (ZoneAuth_put cr f) = f"
        using zoneauth_late.get_put_late [of cr rec] late by simp
      have lv: "lift_view ZoneAuth_late zoneauth_fields ZoneAuth_put cr rec = (if c then ZoneAuth_put cr f else cr, c)"
        by (simp add: lift_view_def late)
      have utd: "ZoneAuth_utd g rec = ZoneAuth_isUpToDate g ((fieldsFromZoneAuth rec)\<lparr>zaf_ExtAttrs := extAttrsFromEA (Strip (zar_Ea rec))\<rparr>)" for g
        by (simp add: ZoneAuth_utd_def zoneauth_observed_def)
      show ?thesis
      proof (cases c)
        case True
        with again show ?thesis
          by (cases out) (simp_all add: defs Let_def r Inr a Some lf lv utd ZoneAuth_CR_commute, simp_all add: ZoneAuth_put_def ZoneAuth_status_def Let_def)
      next
        case False
        then show ?thesis
          by (cases out) (simp_all add: defs Let_def r Inr a Some lf lv utd ZoneAuth_status_def zoneauth_fields_def)
      qed
    qed
  qed
qed

lemma createZoneAuth_request:
  "trim_space uid \<noteq> [] \<Longrightarrow> createZoneAuth env f uid w =
     (case mutate_object env (zoneauth_create_request f uid) w of
        (Inl err, w1) \<Rightarrow> (Inl err, w1) | (Inr rec, w1) \<Rightarrow> (Inr (zar_Ref rec), w1))"
  by (simp add: createZoneAuth_def zoneauth_create_request_def Let_def buildZoneAuthForCreate_def)

lemma ZoneAuth_Create_shape:
  "namespaced_ZoneAuth_Create env ep cr w =
     ladder_create_shape errCreateZoneAuth ZoneAuth_valid (ensureIdentityPrerequisite env ep) (mutate_object env)
       (\<lambda>cr. zoneauth_create_request (zoneauth_fields cr) (mo_uid cr)) zar_Ref cr w"
proof -
  obtain e w1 where e: "ensureIdentityPrerequisite env ep w = (e, w1)"
    by (cases "ensureIdentityPrerequisite env ep w")
  obtain m w2 where m: "mutate_object env (zoneauth_create_request (zoneauth_fields cr) (mo_uid cr)) w1 = (m, w2)"
    by (cases "mutate_object env (zoneauth_create_request (zoneauth_fields cr) (mo_uid cr)) w1")
  show ?thesis
    using m by (cases e; cases m)
      (simp_all add: namespaced_ZoneAuth_Create_def ladder_create_shape_def ZoneAuth_valid_def Let_def e zoneauth_fields_def
        createZoneAuth_request)
qed

lemma ZoneAuth_Update_shape:
  "namespaced_ZoneAuth_Update env ep cr w =
     ladder_update_shape errUpdateZoneAuth ZoneAuth_errEmptyUID env (ensureIdentityPrerequisite env ep)
       (\<lambda>cr. zoneauth_update_request (GetExternalName cr) (zoneauth_fields cr) (mo_uid cr)) (\<lambda>rec. []) cr w"
proof -
  obtain e w1 where e: "ensureIdentityPrerequisite env ep w = (e, w1)"
    by (cases "ensureIdentityPrerequisite env ep w")
  show ?thesis
    by (cases e; cases "wapi_mutate env (calls w1) (zoneauth_update_request (GetExternalName cr) (zoneauth_fields cr) (mo_uid cr))")
      (simp_all add: namespaced_ZoneAuth_Update_def ladder_update_shape_def updateZoneAuth_def zoneauth_update_request_def
        Let_def e zoneauth_fields_def buildZoneAuthForUpdate_def mutate_object_def)
qed

lemma ZoneAuth_Delete_shape:
  "namespaced_ZoneAuth_Delete env ep cr w =
     ladder_delete_shape errDeleteZoneAuth errDeleteUnverifiedOwnership nilDereference
       (Resolve env ZoneAuthObj_type (GetExternalName cr) (mo_uid cr)) (ensureIdentityPrerequisite env ep)
       (issue_delete env) zar_Ref w"
proof -
  have "namespaced_ZoneAuth_Delete env ep cr w = deleteZoneAuthIdentity env ep (GetExternalName cr) (mo_uid cr) w"
    by (simp add: namespaced_ZoneAuth_Delete_def Let_def split: prod.split option.split)
  then show ?thesis
    by (simp only: deleteZoneAuthIdentity_def ladder_delete_shape_def resolveZoneAuthIdentity_def deleteZoneAuth_issue)
qed

lemma ZoneAuth_conv_scopes:
  "clusterExternalServerValues = namespacedExternalServerValues"
  "clusterExternalServersFromValues = namespacedExternalServersFromValues"
  by (intro ext; simp only: clusterExternalServerValues_def namespacedExternalServerValues_def
      clusterExternalServersFromValues_def namespacedExternalServersFromValues_def)+

lemma ZoneAuth_conv_scopes':
  "clusterMemberServerValues = namespacedMemberServerValues"
  "clusterMemberServersFromValues = namespacedMemberServersFromValues"
  by (intro ext; simp only: clusterMemberServerValues_def namespacedMemberServerValues_def
      clusterMemberServersFromValues_def namespacedMemberServersFromValues_def ZoneAuth_conv_scopes)+

lemma ZoneAuth_fields_scopes: "clusterFieldsFromSpec = namespacedFieldsFromSpec"
  by (intro ext) (simp only: clusterFieldsFromSpec_def namespacedFieldsFromSpec_def ZoneAuth_conv_scopes ZoneAuth_conv_scopes')

lemma ZoneAuth_scopes:
  "cluster_ZoneAuth_Observe = namespaced_ZoneAuth_Observe" "cluster_ZoneAuth_Create = namespaced_ZoneAuth_Create"
  "cluster_ZoneAuth_Update = namespaced_ZoneAuth_Update" "cluster_ZoneAuth_Delete = namespaced_ZoneAuth_Delete"
  by (intro ext; simp only: cluster_ZoneAuth_Observe_def namespaced_ZoneAuth_Observe_def cluster_ZoneAuth_Create_def
      namespaced_ZoneAuth_Create_def cluster_ZoneAuth_Update_def namespaced_ZoneAuth_Update_def
      cluster_ZoneAuth_Delete_def namespaced_ZoneAuth_Delete_def ZoneAuth_conv_scopes ZoneAuth_conv_scopes' ZoneAuth_fields_scopes)+

text \<open>What was sent is read back as equal, after back-filling what was not.\<close>

lemma zoneauth_timers_sent:
  assumes "zoneauth_stores z rec" and "zar_UseGridZoneTimer z = effectiveUseGridZoneTimer f"
  shows "timer_gate f (zoneauth_observed rec) = boolOrFalse (zar_UseGridZoneTimer rec)"
proof -
  have "effectiveUseGridZoneTimer f \<noteq> None \<Longrightarrow> zar_UseGridZoneTimer rec = effectiveUseGridZoneTimer f"
    using assms(1) by (simp add: zoneauth_stores_def assms(2))
  then show ?thesis
    by (cases "anySOATimerFieldSet f"; cases "zaf_UseGridZoneTimer f")
      (simp_all add: timer_gate_def effectiveUseGridZoneTimer_def zoneauth_observed_def fieldsFromZoneAuth_def boolOrFalse_def)
qed

lemma zoneauth_stored:
  assumes "zoneauth_stores z rec" and "z = (buildZoneAuthForCreate f)\<lparr>zar_Ea := e\<rparr> \<or> z = (buildZoneAuthForUpdate f)\<lparr>zar_Ea := e\<rparr>"
    and "e = Stamp (buildEA (zaf_ExtAttrs f)) uid" and "reserved_free (zaf_ExtAttrs f)"
  shows "ZoneAuth_utd (zoneauth_filled f (zoneauth_observed rec)) rec \<and> zar_Ea rec = e"
proof -
  let ?o = "zoneauth_observed rec"
  have z: "zar_Comment z = zaf_Comment f" "zar_Disable z = zaf_Disable f" "zar_NsGroup z = zaf_NsGroup f"
    "zar_UseGridZoneTimer z = effectiveUseGridZoneTimer f" "zar_SoaDefaultTtl z = zaf_SoaDefaultTTL f"
    "zar_SoaExpire z = zaf_SoaExpire f" "zar_SoaNegativeTtl z = zaf_SoaNegativeTTL f" "zar_SoaRefresh z = zaf_SoaRefresh f"
    "zar_SoaRetry z = zaf_SoaRetry f" "zar_GridPrimary z = memberServerValuesToSDK (zaf_GridPrimary f)"
    "zar_GridSecondaries z = memberServerValuesToSDK (zaf_GridSecondaries f)"
    "zar_ExternalPrimaries z = externalServerValuesToSDK (zaf_ExternalPrimaries f)"
    "zar_ExternalSecondaries z = externalServerValuesToSDK (zaf_ExternalSecondaries f)" "zar_Ea z = e"
    using assms(2) by (elim disjE; simp add: buildZoneAuthForCreate_def buildZoneAuthForUpdate_def)+
  have gate: "timer_gate f ?o = boolOrFalse (zar_UseGridZoneTimer rec)"
    by (rule zoneauth_timers_sent [OF assms(1)]) (rule z)
  have obs: "zaf_Comment ?o = zar_Comment rec" "zaf_Disable ?o = zar_Disable rec" "zaf_NsGroup ?o = zar_NsGroup rec"
    "zaf_UseGridZoneTimer ?o = zar_UseGridZoneTimer rec" "zaf_SoaDefaultTTL ?o = zar_SoaDefaultTtl rec"
    "zaf_SoaExpire ?o = zar_SoaExpire rec" "zaf_SoaNegativeTTL ?o = zar_SoaNegativeTtl rec"
    "zaf_SoaRefresh ?o = zar_SoaRefresh rec" "zaf_SoaRetry ?o = zar_SoaRetry rec"
    "zaf_GridPrimary ?o = memberServerValuesFromSDK (zar_GridPrimary rec)"
    "zaf_GridSecondaries ?o = memberServerValuesFromSDK (zar_GridSecondaries rec)"
    "zaf_ExternalPrimaries ?o = externalServerValuesFromSDK (zar_ExternalPrimaries rec)"
    "zaf_ExternalSecondaries ?o = externalServerValuesFromSDK (zar_ExternalSecondaries rec)"
    "zaf_ExtAttrs ?o = userAttrs (zar_Ea rec)"
    by (simp_all add: zoneauth_observed_def fieldsFromZoneAuth_def userAttrs_def)
  have sent: "zaf_Comment f \<noteq> None \<Longrightarrow> zar_Comment rec = zaf_Comment f" "zaf_Disable f \<noteq> None \<Longrightarrow> zar_Disable rec = zaf_Disable f"
    "zaf_NsGroup f \<noteq> None \<Longrightarrow> zar_NsGroup rec = zaf_NsGroup f"
    and timers: "boolOrFalse (zar_UseGridZoneTimer rec) \<Longrightarrow> zaf_SoaDefaultTTL f \<noteq> None \<Longrightarrow> zar_SoaDefaultTtl rec = zaf_SoaDefaultTTL f"
    "boolOrFalse (zar_UseGridZoneTimer rec) \<Longrightarrow> zaf_SoaExpire f \<noteq> None \<Longrightarrow> zar_SoaExpire rec = zaf_SoaExpire f"
    "boolOrFalse (zar_UseGridZoneTimer rec) \<Longrightarrow> zaf_SoaNegativeTTL f \<noteq> None \<Longrightarrow> zar_SoaNegativeTtl rec = zaf_SoaNegativeTTL f"
    "boolOrFalse (zar_UseGridZoneTimer rec) \<Longrightarrow> zaf_SoaRefresh f \<noteq> None \<Longrightarrow> zar_SoaRefresh rec = zaf_SoaRefresh f"
    "boolOrFalse (zar_UseGridZoneTimer rec) \<Longrightarrow> zaf_SoaRetry f \<noteq> None \<Longrightarrow> zar_SoaRetry rec = zaf_SoaRetry f"
    and ea: "zar_Ea rec = e"
    using assms(1) by (simp_all add: zoneauth_stores_def z)
  have lists: "zaf_GridPrimary f \<noteq> [] \<Longrightarrow> zar_GridPrimary rec = memberServerValuesToSDK (zaf_GridPrimary f)"
    "zaf_GridSecondaries f \<noteq> [] \<Longrightarrow> zar_GridSecondaries rec = memberServerValuesToSDK (zaf_GridSecondaries f)"
    "zaf_ExternalPrimaries f \<noteq> [] \<Longrightarrow> zar_ExternalPrimaries rec = externalServerValuesToSDK (zaf_ExternalPrimaries f)"
    "zaf_ExternalSecondaries f \<noteq> [] \<Longrightarrow> zar_ExternalSecondaries rec = externalServerValuesToSDK (zaf_ExternalSecondaries f)"
    using assms(1) by (simp_all add: zoneauth_stores_def z)
  have members: "memberServerValuesEqual (fill_list (zaf_GridPrimary f) (zaf_GridPrimary ?o)) (zaf_GridPrimary ?o)"
    "memberServerValuesEqual (fill_list (zaf_GridSecondaries f) (zaf_GridSecondaries ?o)) (zaf_GridSecondaries ?o)"
    using lists(1,2) by (auto simp: fill_list_def obs)
  have externals: "externalServerValuesEqual (fill_list (zaf_ExternalPrimaries f) (zaf_ExternalPrimaries ?o)) (zaf_ExternalPrimaries ?o)"
    "externalServerValuesEqual (fill_list (zaf_ExternalSecondaries f) (zaf_ExternalSecondaries ?o)) (zaf_ExternalSecondaries ?o)"
    using lists(3,4) by (auto simp: fill_list_def obs)
  have attrs: "userAttrs (zar_Ea rec) = zaf_ExtAttrs f"
    using assms(3,4) by (simp add: ea userAttrs_buildEA reserved_free_fmdrop)
  note filled = fill_sent_str [OF sent(1)] fill_sent [OF sent(2), of boolOrFalse] fill_sent_str [OF sent(3)]
  note timed = fill_sent [OF timers(1), of ttlOrZero] fill_sent [OF timers(2), of ttlOrZero]
    fill_sent [OF timers(3), of ttlOrZero] fill_sent [OF timers(4), of ttlOrZero] fill_sent [OF timers(5), of ttlOrZero]
  from members externals attrs filled timed have "ZoneAuth_utd (zoneauth_filled f ?o) rec"
    by (simp add: ZoneAuth_utd_def ZoneAuth_isUpToDate_iff effective_filled gate)
      (simp add: zoneauth_filled_def Let_def gate obs)
  with ea show ?thesis by simp
qed

lemma zoneauth_written_utd:
  assumes "ZoneAuth_spec_ok cr"
    and "zoneauth_holds (zoneauth_create_request (zoneauth_fields cr) (mo_uid cr)) rec \<or>
      zoneauth_holds (zoneauth_update_request (GetExternalName cr) (zoneauth_fields cr) (mo_uid cr)) rec"
  shows "ZoneAuth_utd (zoneauth_fields (fst (lift_view ZoneAuth_late zoneauth_fields ZoneAuth_put cr rec))) rec \<and>
    eaValue (zar_Ea rec) EAKey = Some (mo_uid cr)"
proof -
  let ?f = "zoneauth_fields cr"
  have "reserved_free (zaf_ExtAttrs ?f)"
    using assms(1) by (simp add: ZoneAuth_spec_ok_def zoneauth_fields_def namespacedFieldsFromSpec_def)
  moreover obtain z where "zoneauth_stores z rec"
    "z = (buildZoneAuthForCreate ?f)\<lparr>zar_Ea := Stamp (buildEA (zaf_ExtAttrs ?f)) (mo_uid cr)\<rparr> \<or>
     z = (buildZoneAuthForUpdate ?f)\<lparr>zar_Ea := Stamp (buildEA (zaf_ExtAttrs ?f)) (mo_uid cr)\<rparr>"
    using assms(2) by (auto simp: zoneauth_create_request_def zoneauth_update_request_def)
  ultimately have "ZoneAuth_utd (zoneauth_filled ?f (zoneauth_observed rec)) rec \<and>
      zar_Ea rec = Stamp (buildEA (zaf_ExtAttrs ?f)) (mo_uid cr)"
    using zoneauth_stored [OF _ _ refl] by blast
  then show ?thesis
    by (simp add: zoneauth_late.lifted_simps ZoneAuth_late_def lateInitializeFields_eq)
qed

interpretation zoneauth: refreshing_client "lift_view ZoneAuth_late zoneauth_fields ZoneAuth_put"
  "\<lambda>cr. ZoneAuth_utd (zoneauth_fields cr)" "\<lambda>s s'. ZoneAuth_keeps (zoneauth_fields s) (zoneauth_fields s')"
  ZoneAuthObj_type zar_Ref ZoneAuth_status ZoneAuth_valid
  "\<lambda>cr. zoneauth_create_request (zoneauth_fields cr) (mo_uid cr)"
  "\<lambda>cr. zoneauth_update_request (GetExternalName cr) (zoneauth_fields cr) (mo_uid cr)"
  zoneauth_req_ea zoneauth_holds ZoneAuth_spec_ok
  zoneauth_observe_error "\<lambda>r. True" "\<lambda>r. True" "\<lambda>rec. []"
  errCreateZoneAuth errUpdateZoneAuth errDeleteZoneAuth ZoneAuth_errEmptyUID
  namespaced_ZoneAuth_Observe namespaced_ZoneAuth_Create namespaced_ZoneAuth_Update namespaced_ZoneAuth_Delete
proof (unfold_locales, goal_cases)
  case (6 cr)
  then show ?case by (simp add: ZoneAuth_valid_def split: if_splits)
next
  case (7 cr rec)
  then show ?case by (simp add: lift_view_def split_beta ZoneAuth_put_def)
next
  case (8 cr rec)
  then show ?case by (simp add: lift_view_def split_beta ZoneAuth_put_def)
next
  case (13 n cr rec)
  have "zoneauth_fields (SetExternalName n cr) = zoneauth_fields cr"
    by (simp add: zoneauth_fields_def SetExternalName_def)
  then show ?case
    by (simp add: zoneauth_late.lifted_simps)
next
  case (14 cr rec)
  then show ?case using zoneauth_written_utd [of cr rec] by simp
next
  case (15 cr rec)
  then show ?case using zoneauth_written_utd [of cr rec] by simp
qed (simp_all add: ZoneAuth_Observe_shape ZoneAuth_Create_shape ZoneAuth_Update_shape ZoneAuth_Delete_shape
    ZoneAuth_status_def Let_def zoneauth_create_request_def zoneauth_update_request_def)

end
