(* ===== verification/GridFamily.thy ===== *)
theory GridFamily
  imports RecordFamily NetworkView Range ZoneDelegated ZoneForward DTCServer DTCLBDN IPv4SharedNetwork RangeTemplate DTCPool HostRecord ZoneAuth
begin

text \<open>
  What the controllers for DNS zones, network views, address ranges, range templates, shared
  networks and DTC objects promise in both scopes: the same contracts as the record
  controllers of theory RecordFamily, from the interpretations of \<open>ladder_client\<close> in their
  theories, and the behaviours that only one of them has.
\<close>

lemmas grid_scopes = NetworkView_scopes
  Range_scopes
  ZoneDelegated_scopes
  ZoneForward_scopes
  DTCServer_scopes
  DTCLBDN_scopes
  IPv4SharedNetwork_scopes
  RangeTemplate_scopes
  DTCPool_scopes
  HostRecord_scopes
  ZoneAuth_scopes

text \<open>
  C4: deleting a network view, range, range template, shared network, zone, DTC object or host, in both
  scopes, sends at most one mutating request, and then it is the deletion of the object the
  identity ladder found, stamped with this resource's uid; success is reported only when the
  ladder found nothing, or that deletion succeeded or was answered with a 404.
\<close>

theorem grid_objects_delete_contract:
  "deletes_only_owned NetworkViewObj_type nvwr_Ref namespaced_NetworkView_Delete \<and> delete_success_justified NetworkViewObj_type nvwr_Ref namespaced_NetworkView_Delete \<and>
   deletes_only_owned NetworkViewObj_type nvwr_Ref cluster_NetworkView_Delete \<and> delete_success_justified NetworkViewObj_type nvwr_Ref cluster_NetworkView_Delete \<and>
   deletes_only_owned RangeObj_type rgr_Ref namespaced_Range_Delete \<and> delete_success_justified RangeObj_type rgr_Ref namespaced_Range_Delete \<and>
   deletes_only_owned RangeObj_type rgr_Ref cluster_Range_Delete \<and> delete_success_justified RangeObj_type rgr_Ref cluster_Range_Delete \<and>
   deletes_only_owned ZoneDelegatedObj_type zdr_Ref namespaced_ZoneDelegated_Delete \<and> delete_success_justified ZoneDelegatedObj_type zdr_Ref namespaced_ZoneDelegated_Delete \<and>
   deletes_only_owned ZoneDelegatedObj_type zdr_Ref cluster_ZoneDelegated_Delete \<and> delete_success_justified ZoneDelegatedObj_type zdr_Ref cluster_ZoneDelegated_Delete \<and>
   deletes_only_owned ZoneForwardObj_type zfr_Ref namespaced_ZoneForward_Delete \<and> delete_success_justified ZoneForwardObj_type zfr_Ref namespaced_ZoneForward_Delete \<and>
   deletes_only_owned ZoneForwardObj_type zfr_Ref cluster_ZoneForward_Delete \<and> delete_success_justified ZoneForwardObj_type zfr_Ref cluster_ZoneForward_Delete \<and>
   deletes_only_owned DtcServerObj_type dsr_Ref namespaced_DTCServer_Delete \<and> delete_success_justified DtcServerObj_type dsr_Ref namespaced_DTCServer_Delete \<and>
   deletes_only_owned DtcServerObj_type dsr_Ref cluster_DTCServer_Delete \<and> delete_success_justified DtcServerObj_type dsr_Ref cluster_DTCServer_Delete \<and>
   deletes_only_owned DtcLbdnObj_type lbr_Ref namespaced_DTCLBDN_Delete \<and> delete_success_justified DtcLbdnObj_type lbr_Ref namespaced_DTCLBDN_Delete \<and>
   deletes_only_owned DtcLbdnObj_type lbr_Ref cluster_DTCLBDN_Delete \<and> delete_success_justified DtcLbdnObj_type lbr_Ref cluster_DTCLBDN_Delete \<and>
   deletes_only_owned SharedNetworkObj_type snr_Ref namespaced_IPv4SharedNetwork_Delete \<and> delete_success_justified SharedNetworkObj_type snr_Ref namespaced_IPv4SharedNetwork_Delete \<and>
   deletes_only_owned SharedNetworkObj_type snr_Ref cluster_IPv4SharedNetwork_Delete \<and> delete_success_justified SharedNetworkObj_type snr_Ref cluster_IPv4SharedNetwork_Delete \<and>
   deletes_only_owned RangetemplateObj_type rtr_Ref namespaced_RangeTemplate_Delete \<and> delete_success_justified RangetemplateObj_type rtr_Ref namespaced_RangeTemplate_Delete \<and>
   deletes_only_owned RangetemplateObj_type rtr_Ref cluster_RangeTemplate_Delete \<and> delete_success_justified RangetemplateObj_type rtr_Ref cluster_RangeTemplate_Delete \<and>
   deletes_only_owned DtcPoolObj_type dpr_Ref namespaced_DTCPool_Delete \<and> delete_success_justified DtcPoolObj_type dpr_Ref namespaced_DTCPool_Delete \<and>
   deletes_only_owned DtcPoolObj_type dpr_Ref cluster_DTCPool_Delete \<and> delete_success_justified DtcPoolObj_type dpr_Ref cluster_DTCPool_Delete \<and>
   deletes_only_owned HostRecordObj_type hrr_Ref namespaced_HostRecord_Delete \<and> delete_success_justified HostRecordObj_type hrr_Ref namespaced_HostRecord_Delete \<and>
   deletes_only_owned HostRecordObj_type hrr_Ref cluster_HostRecord_Delete \<and> delete_success_justified HostRecordObj_type hrr_Ref cluster_HostRecord_Delete \<and>
   deletes_only_owned ZoneAuthObj_type zar_Ref namespaced_ZoneAuth_Delete \<and> delete_success_justified ZoneAuthObj_type zar_Ref namespaced_ZoneAuth_Delete \<and>
   deletes_only_owned ZoneAuthObj_type zar_Ref cluster_ZoneAuth_Delete \<and> delete_success_justified ZoneAuthObj_type zar_Ref cluster_ZoneAuth_Delete"
  by (simp only: grid_scopes simp_thms netview.delete_only_owned netview.delete_success range.delete_only_owned range.delete_success zonedelegated.delete_only_owned zonedelegated.delete_success zoneforward.delete_only_owned zoneforward.delete_success dtcserver.delete_only_owned dtcserver.delete_success dtclbdn.delete_only_owned dtclbdn.delete_success sharednetwork.delete_only_owned sharednetwork.delete_success rangetemplate.delete_only_owned rangetemplate.delete_success dtcpool.delete_only_owned dtcpool.delete_success hostrecord.delete_only_owned hostrecord.delete_success zoneauth.delete_only_owned zoneauth.delete_success)

text \<open>
  C36: Observe of these objects answers "exists" only for an object with this resource's stamp or
  with none (then out of date, so that Update claims it), and "does not exist" only after the
  search for the uid came back empty and a recorded reference gave a 404. Observe never changes
  the Grid.
\<close>

theorem grid_objects_observe_contract:
  "observes_ownership NetworkViewObj_type namespaced_NetworkView_Observe \<and> absent_means_searched NetworkViewObj_type namespaced_NetworkView_Observe \<and>
   observes_ownership NetworkViewObj_type cluster_NetworkView_Observe \<and> absent_means_searched NetworkViewObj_type cluster_NetworkView_Observe \<and>
   observes_ownership RangeObj_type namespaced_Range_Observe \<and> absent_means_searched RangeObj_type namespaced_Range_Observe \<and>
   observes_ownership RangeObj_type cluster_Range_Observe \<and> absent_means_searched RangeObj_type cluster_Range_Observe \<and>
   observes_ownership ZoneDelegatedObj_type namespaced_ZoneDelegated_Observe \<and> absent_means_searched ZoneDelegatedObj_type namespaced_ZoneDelegated_Observe \<and>
   observes_ownership ZoneDelegatedObj_type cluster_ZoneDelegated_Observe \<and> absent_means_searched ZoneDelegatedObj_type cluster_ZoneDelegated_Observe \<and>
   observes_ownership ZoneForwardObj_type namespaced_ZoneForward_Observe \<and> absent_means_searched ZoneForwardObj_type namespaced_ZoneForward_Observe \<and>
   observes_ownership ZoneForwardObj_type cluster_ZoneForward_Observe \<and> absent_means_searched ZoneForwardObj_type cluster_ZoneForward_Observe \<and>
   observes_ownership DtcServerObj_type namespaced_DTCServer_Observe \<and> absent_means_searched DtcServerObj_type namespaced_DTCServer_Observe \<and>
   observes_ownership DtcServerObj_type cluster_DTCServer_Observe \<and> absent_means_searched DtcServerObj_type cluster_DTCServer_Observe \<and>
   observes_ownership DtcLbdnObj_type namespaced_DTCLBDN_Observe \<and> absent_means_searched DtcLbdnObj_type namespaced_DTCLBDN_Observe \<and>
   observes_ownership DtcLbdnObj_type cluster_DTCLBDN_Observe \<and> absent_means_searched DtcLbdnObj_type cluster_DTCLBDN_Observe \<and>
   observes_ownership SharedNetworkObj_type namespaced_IPv4SharedNetwork_Observe \<and> absent_means_searched SharedNetworkObj_type namespaced_IPv4SharedNetwork_Observe \<and>
   observes_ownership SharedNetworkObj_type cluster_IPv4SharedNetwork_Observe \<and> absent_means_searched SharedNetworkObj_type cluster_IPv4SharedNetwork_Observe \<and>
   observes_ownership RangetemplateObj_type namespaced_RangeTemplate_Observe \<and> absent_means_searched RangetemplateObj_type namespaced_RangeTemplate_Observe \<and>
   observes_ownership RangetemplateObj_type cluster_RangeTemplate_Observe \<and> absent_means_searched RangetemplateObj_type cluster_RangeTemplate_Observe \<and>
   observes_ownership DtcPoolObj_type namespaced_DTCPool_Observe \<and> absent_means_searched DtcPoolObj_type namespaced_DTCPool_Observe \<and>
   observes_ownership DtcPoolObj_type cluster_DTCPool_Observe \<and> absent_means_searched DtcPoolObj_type cluster_DTCPool_Observe \<and>
   observes_ownership HostRecordObj_type namespaced_HostRecord_Observe \<and> absent_means_searched HostRecordObj_type namespaced_HostRecord_Observe \<and>
   observes_ownership HostRecordObj_type cluster_HostRecord_Observe \<and> absent_means_searched HostRecordObj_type cluster_HostRecord_Observe \<and>
   observes_ownership ZoneAuthObj_type namespaced_ZoneAuth_Observe \<and> absent_means_searched ZoneAuthObj_type namespaced_ZoneAuth_Observe \<and>
   observes_ownership ZoneAuthObj_type cluster_ZoneAuth_Observe \<and> absent_means_searched ZoneAuthObj_type cluster_ZoneAuth_Observe"
  by (simp only: grid_scopes simp_thms netview.observe_ownership netview.observe_absent range.observe_ownership range.observe_absent zonedelegated.observe_ownership zonedelegated.observe_absent zoneforward.observe_ownership zoneforward.observe_absent dtcserver.observe_ownership dtcserver.observe_absent dtclbdn.observe_ownership dtclbdn.observe_absent sharednetwork.observe_ownership sharednetwork.observe_absent rangetemplate.observe_ownership rangetemplate.observe_absent dtcpool.observe_ownership dtcpool.observe_absent hostrecord.observe_ownership hostrecord.observe_absent zoneauth.observe_ownership zoneauth.observe_absent)

text \<open>
  C8: Create and Update of these objects send exactly one create or update request each (besides reads and
  the identity definition), the one that <kind>_create_request or <kind>_update_request computes from
  the spec, with the stamp of the resource's uid; or none, when Create's inputs are invalid, the uid is
  blank or the identity definition is missing. That request is not always the whole spec: the update of
  a zone leaves out fqdn, view and format, that of a range its template, that of a host the network
  view, the CIDRs, the filter and the address type; a host sends only the first address of each
  family, and its Create under filterParams none; a range template always sends cloudApiCompatible as
  true. Create records the reference the Grid answers with, Update does so when there is one (the
  update of a ZoneAuth never does), and both leave the resource alone when they fail.
\<close>

theorem grid_objects_write_contract:
  "creates_as NetworkView_valid (\<lambda>cr. netview_create_request (nvw_ForProvider cr) (mo_uid cr)) nvwr_Ref errCreateNetworkView namespaced_NetworkView_Create \<and> updates_as (\<lambda>cr. netview_update_request (GetExternalName cr) (nvw_ForProvider cr) (mo_uid cr)) nvwr_Ref namespaced_NetworkView_Update \<and>
   creates_as NetworkView_valid (\<lambda>cr. netview_create_request (nvw_ForProvider cr) (mo_uid cr)) nvwr_Ref errCreateNetworkView cluster_NetworkView_Create \<and> updates_as (\<lambda>cr. netview_update_request (GetExternalName cr) (nvw_ForProvider cr) (mo_uid cr)) nvwr_Ref cluster_NetworkView_Update \<and>
   creates_as Range_valid (\<lambda>cr. range_create_request (rg_ForProvider cr) (mo_uid cr)) rgr_Ref errCreateRange namespaced_Range_Create \<and> updates_as (\<lambda>cr. range_update_request (GetExternalName cr) (rg_ForProvider cr) (mo_uid cr)) rgr_Ref namespaced_Range_Update \<and>
   creates_as Range_valid (\<lambda>cr. range_create_request (rg_ForProvider cr) (mo_uid cr)) rgr_Ref errCreateRange cluster_Range_Create \<and> updates_as (\<lambda>cr. range_update_request (GetExternalName cr) (rg_ForProvider cr) (mo_uid cr)) rgr_Ref cluster_Range_Update \<and>
   creates_as ZoneDelegated_valid (\<lambda>cr. zonedelegated_create_request (zd_ForProvider cr) (mo_uid cr)) zdr_Ref errCreateZoneDelegated namespaced_ZoneDelegated_Create \<and> updates_as (\<lambda>cr. zonedelegated_update_request (GetExternalName cr) (zd_ForProvider cr) (mo_uid cr)) zdr_Ref namespaced_ZoneDelegated_Update \<and>
   creates_as ZoneDelegated_valid (\<lambda>cr. zonedelegated_create_request (zd_ForProvider cr) (mo_uid cr)) zdr_Ref errCreateZoneDelegated cluster_ZoneDelegated_Create \<and> updates_as (\<lambda>cr. zonedelegated_update_request (GetExternalName cr) (zd_ForProvider cr) (mo_uid cr)) zdr_Ref cluster_ZoneDelegated_Update \<and>
   creates_as ZoneForward_valid (\<lambda>cr. zoneforward_create_request (zf_ForProvider cr) (mo_uid cr)) zfr_Ref errCreateZoneForward namespaced_ZoneForward_Create \<and> updates_as (\<lambda>cr. zoneforward_update_request (GetExternalName cr) (zf_ForProvider cr) (mo_uid cr)) zfr_Ref namespaced_ZoneForward_Update \<and>
   creates_as ZoneForward_valid (\<lambda>cr. zoneforward_create_request (zf_ForProvider cr) (mo_uid cr)) zfr_Ref errCreateZoneForward cluster_ZoneForward_Create \<and> updates_as (\<lambda>cr. zoneforward_update_request (GetExternalName cr) (zf_ForProvider cr) (mo_uid cr)) zfr_Ref cluster_ZoneForward_Update \<and>
   creates_as DTCServer_valid (\<lambda>cr. dtcserver_create_request (ds_ForProvider cr) (mo_uid cr)) dsr_Ref errCreateDTCServer namespaced_DTCServer_Create \<and> updates_as (\<lambda>cr. dtcserver_update_request (GetExternalName cr) (ds_ForProvider cr) (mo_uid cr)) dsr_Ref namespaced_DTCServer_Update \<and>
   creates_as DTCServer_valid (\<lambda>cr. dtcserver_create_request (ds_ForProvider cr) (mo_uid cr)) dsr_Ref errCreateDTCServer cluster_DTCServer_Create \<and> updates_as (\<lambda>cr. dtcserver_update_request (GetExternalName cr) (ds_ForProvider cr) (mo_uid cr)) dsr_Ref cluster_DTCServer_Update \<and>
   creates_as DTCLBDN_valid (\<lambda>cr. dtclbdn_create_request (lb_ForProvider cr) (mo_uid cr)) lbr_Ref errCreateDTCLBDN namespaced_DTCLBDN_Create \<and> updates_as (\<lambda>cr. dtclbdn_update_request (GetExternalName cr) (lb_ForProvider cr) (mo_uid cr)) lbr_Ref namespaced_DTCLBDN_Update \<and>
   creates_as DTCLBDN_valid (\<lambda>cr. dtclbdn_create_request (lb_ForProvider cr) (mo_uid cr)) lbr_Ref errCreateDTCLBDN cluster_DTCLBDN_Create \<and> updates_as (\<lambda>cr. dtclbdn_update_request (GetExternalName cr) (lb_ForProvider cr) (mo_uid cr)) lbr_Ref cluster_DTCLBDN_Update \<and>
   creates_as IPv4SharedNetwork_valid (\<lambda>cr. sharednetwork_create_request (sn_ForProvider cr) (mo_uid cr)) snr_Ref errCreateIPv4SharedNet namespaced_IPv4SharedNetwork_Create \<and> updates_as (\<lambda>cr. sharednetwork_update_request (GetExternalName cr) (sn_ForProvider cr) (mo_uid cr)) snr_Ref namespaced_IPv4SharedNetwork_Update \<and>
   creates_as IPv4SharedNetwork_valid (\<lambda>cr. sharednetwork_create_request (sn_ForProvider cr) (mo_uid cr)) snr_Ref errCreateIPv4SharedNet cluster_IPv4SharedNetwork_Create \<and> updates_as (\<lambda>cr. sharednetwork_update_request (GetExternalName cr) (sn_ForProvider cr) (mo_uid cr)) snr_Ref cluster_IPv4SharedNetwork_Update \<and>
   creates_as RangeTemplate_valid (\<lambda>cr. rangetemplate_create_request (rt_ForProvider cr) (mo_uid cr)) rtr_Ref errCreateRangeTemplate namespaced_RangeTemplate_Create \<and> updates_as (\<lambda>cr. rangetemplate_update_request (GetExternalName cr) (rt_ForProvider cr) (mo_uid cr)) rtr_Ref namespaced_RangeTemplate_Update \<and>
   creates_as RangeTemplate_valid (\<lambda>cr. rangetemplate_create_request (rt_ForProvider cr) (mo_uid cr)) rtr_Ref errCreateRangeTemplate cluster_RangeTemplate_Create \<and> updates_as (\<lambda>cr. rangetemplate_update_request (GetExternalName cr) (rt_ForProvider cr) (mo_uid cr)) rtr_Ref cluster_RangeTemplate_Update \<and>
   creates_as DTCPool_valid (\<lambda>cr. dtcpool_create_request (dp_ForProvider cr) (mo_uid cr)) dpr_Ref errCreateDTCPool namespaced_DTCPool_Create \<and> updates_as (\<lambda>cr. dtcpool_update_request (GetExternalName cr) (dp_ForProvider cr) (mo_uid cr)) dpr_Ref namespaced_DTCPool_Update \<and>
   creates_as DTCPool_valid (\<lambda>cr. dtcpool_create_request (dp_ForProvider cr) (mo_uid cr)) dpr_Ref errCreateDTCPool cluster_DTCPool_Create \<and> updates_as (\<lambda>cr. dtcpool_update_request (GetExternalName cr) (dp_ForProvider cr) (mo_uid cr)) dpr_Ref cluster_DTCPool_Update \<and>
   creates_as HostRecord_valid (\<lambda>cr. hostrecord_create_request (hr_ForProvider cr) (mo_uid cr)) hrr_Ref errCreateHostRecord namespaced_HostRecord_Create \<and> updates_as (\<lambda>cr. hostrecord_update_request (GetExternalName cr) (hr_ForProvider cr) (mo_uid cr)) hrr_Ref namespaced_HostRecord_Update \<and>
   creates_as HostRecord_valid (\<lambda>cr. hostrecord_create_request (hr_ForProvider cr) (mo_uid cr)) hrr_Ref errCreateHostRecord cluster_HostRecord_Create \<and> updates_as (\<lambda>cr. hostrecord_update_request (GetExternalName cr) (hr_ForProvider cr) (mo_uid cr)) hrr_Ref cluster_HostRecord_Update \<and>
   creates_as ZoneAuth_valid (\<lambda>cr. zoneauth_create_request (zoneauth_fields cr) (mo_uid cr)) zar_Ref errCreateZoneAuth namespaced_ZoneAuth_Create \<and> updates_as (\<lambda>cr. zoneauth_update_request (GetExternalName cr) (zoneauth_fields cr) (mo_uid cr)) (\<lambda>rec. []) namespaced_ZoneAuth_Update \<and>
   creates_as ZoneAuth_valid (\<lambda>cr. zoneauth_create_request (zoneauth_fields cr) (mo_uid cr)) zar_Ref errCreateZoneAuth cluster_ZoneAuth_Create \<and> updates_as (\<lambda>cr. zoneauth_update_request (GetExternalName cr) (zoneauth_fields cr) (mo_uid cr)) (\<lambda>rec. []) cluster_ZoneAuth_Update"
  by (simp only: grid_scopes simp_thms netview.create_as netview.update_as range.create_as range.update_as zonedelegated.create_as zonedelegated.update_as zoneforward.create_as zoneforward.update_as dtcserver.create_as dtcserver.update_as dtclbdn.create_as dtclbdn.update_as sharednetwork.create_as sharednetwork.update_as rangetemplate.create_as rangetemplate.update_as dtcpool.create_as dtcpool.update_as hostrecord.create_as hostrecord.update_as zoneauth.create_as zoneauth.update_as)

text \<open>
  C7: in every interleaving of the handlers of any number of these objects of one kind, with
  arbitrary edits of specs, names and annotations in between, each create or update request in
  the log carries the uid of one of the resources, and each delete names an object that the Grid
  had shown before with the stamp of one of them.
\<close>

theorem grid_objects_run_safely:
  "runs_safely NetworkViewObj_type nvwr_Ref netview_req_ea namespaced_NetworkView_Observe namespaced_NetworkView_Create namespaced_NetworkView_Update namespaced_NetworkView_Delete \<and>
   runs_safely NetworkViewObj_type nvwr_Ref netview_req_ea cluster_NetworkView_Observe cluster_NetworkView_Create cluster_NetworkView_Update cluster_NetworkView_Delete \<and>
   runs_safely RangeObj_type rgr_Ref range_req_ea namespaced_Range_Observe namespaced_Range_Create namespaced_Range_Update namespaced_Range_Delete \<and>
   runs_safely RangeObj_type rgr_Ref range_req_ea cluster_Range_Observe cluster_Range_Create cluster_Range_Update cluster_Range_Delete \<and>
   runs_safely ZoneDelegatedObj_type zdr_Ref zonedelegated_req_ea namespaced_ZoneDelegated_Observe namespaced_ZoneDelegated_Create namespaced_ZoneDelegated_Update namespaced_ZoneDelegated_Delete \<and>
   runs_safely ZoneDelegatedObj_type zdr_Ref zonedelegated_req_ea cluster_ZoneDelegated_Observe cluster_ZoneDelegated_Create cluster_ZoneDelegated_Update cluster_ZoneDelegated_Delete \<and>
   runs_safely ZoneForwardObj_type zfr_Ref zoneforward_req_ea namespaced_ZoneForward_Observe namespaced_ZoneForward_Create namespaced_ZoneForward_Update namespaced_ZoneForward_Delete \<and>
   runs_safely ZoneForwardObj_type zfr_Ref zoneforward_req_ea cluster_ZoneForward_Observe cluster_ZoneForward_Create cluster_ZoneForward_Update cluster_ZoneForward_Delete \<and>
   runs_safely DtcServerObj_type dsr_Ref dtcserver_req_ea namespaced_DTCServer_Observe namespaced_DTCServer_Create namespaced_DTCServer_Update namespaced_DTCServer_Delete \<and>
   runs_safely DtcServerObj_type dsr_Ref dtcserver_req_ea cluster_DTCServer_Observe cluster_DTCServer_Create cluster_DTCServer_Update cluster_DTCServer_Delete \<and>
   runs_safely DtcLbdnObj_type lbr_Ref dtclbdn_req_ea namespaced_DTCLBDN_Observe namespaced_DTCLBDN_Create namespaced_DTCLBDN_Update namespaced_DTCLBDN_Delete \<and>
   runs_safely DtcLbdnObj_type lbr_Ref dtclbdn_req_ea cluster_DTCLBDN_Observe cluster_DTCLBDN_Create cluster_DTCLBDN_Update cluster_DTCLBDN_Delete \<and>
   runs_safely SharedNetworkObj_type snr_Ref sharednetwork_req_ea namespaced_IPv4SharedNetwork_Observe namespaced_IPv4SharedNetwork_Create namespaced_IPv4SharedNetwork_Update namespaced_IPv4SharedNetwork_Delete \<and>
   runs_safely SharedNetworkObj_type snr_Ref sharednetwork_req_ea cluster_IPv4SharedNetwork_Observe cluster_IPv4SharedNetwork_Create cluster_IPv4SharedNetwork_Update cluster_IPv4SharedNetwork_Delete \<and>
   runs_safely RangetemplateObj_type rtr_Ref rangetemplate_req_ea namespaced_RangeTemplate_Observe namespaced_RangeTemplate_Create namespaced_RangeTemplate_Update namespaced_RangeTemplate_Delete \<and>
   runs_safely RangetemplateObj_type rtr_Ref rangetemplate_req_ea cluster_RangeTemplate_Observe cluster_RangeTemplate_Create cluster_RangeTemplate_Update cluster_RangeTemplate_Delete \<and>
   runs_safely DtcPoolObj_type dpr_Ref dtcpool_req_ea namespaced_DTCPool_Observe namespaced_DTCPool_Create namespaced_DTCPool_Update namespaced_DTCPool_Delete \<and>
   runs_safely DtcPoolObj_type dpr_Ref dtcpool_req_ea cluster_DTCPool_Observe cluster_DTCPool_Create cluster_DTCPool_Update cluster_DTCPool_Delete \<and>
   runs_safely HostRecordObj_type hrr_Ref hostrecord_req_ea namespaced_HostRecord_Observe namespaced_HostRecord_Create namespaced_HostRecord_Update namespaced_HostRecord_Delete \<and>
   runs_safely HostRecordObj_type hrr_Ref hostrecord_req_ea cluster_HostRecord_Observe cluster_HostRecord_Create cluster_HostRecord_Update cluster_HostRecord_Delete \<and>
   runs_safely ZoneAuthObj_type zar_Ref zoneauth_req_ea namespaced_ZoneAuth_Observe namespaced_ZoneAuth_Create namespaced_ZoneAuth_Update namespaced_ZoneAuth_Delete \<and>
   runs_safely ZoneAuthObj_type zar_Ref zoneauth_req_ea cluster_ZoneAuth_Observe cluster_ZoneAuth_Create cluster_ZoneAuth_Update cluster_ZoneAuth_Delete"
  by (simp only: grid_scopes simp_thms netview.run_safe range.run_safe zonedelegated.run_safe zoneforward.run_safe dtcserver.run_safe dtclbdn.run_safe sharednetwork.run_safe rangetemplate.run_safe dtcpool.run_safe hostrecord.run_safe zoneauth.run_safe)

text \<open>
  C3: on a Grid that stores what it is sent and returns it until the next write (and keeps the reference of
  an updated ZoneAuth), the Observe right after a successful Create or Update of one of these objects
  reports it as existing and up to date under the reference the write recorded. The spec leaves the
  reserved attribute alone, and: a range names no empty network view or network; an LBDN no empty auth
  zone; a pool's availability is not the empty text; a host names no empty view, gives no static
  address together with filterParams, and the first address of each family it lists is not empty and
  has the DHCP flag that is sent for the host (set when the first address of either family asks for
  DHCP). The uid has no surrounding blanks and the recorded reference is not the resource's name. Name
  servers and member networks count as stored when the drift check reads them back as equal.
\<close>

theorem grid_objects_converge:
  "write_then_observe NetworkViewObj_type nvwr_Ref netview_holds NetworkView_spec_ok namespaced_NetworkView_Create namespaced_NetworkView_Observe \<and> write_then_observe NetworkViewObj_type nvwr_Ref netview_holds NetworkView_spec_ok namespaced_NetworkView_Update namespaced_NetworkView_Observe \<and>
   write_then_observe NetworkViewObj_type nvwr_Ref netview_holds NetworkView_spec_ok cluster_NetworkView_Create cluster_NetworkView_Observe \<and> write_then_observe NetworkViewObj_type nvwr_Ref netview_holds NetworkView_spec_ok cluster_NetworkView_Update cluster_NetworkView_Observe \<and>
   write_then_observe RangeObj_type rgr_Ref range_holds Range_spec_ok namespaced_Range_Create namespaced_Range_Observe \<and> write_then_observe RangeObj_type rgr_Ref range_holds Range_spec_ok namespaced_Range_Update namespaced_Range_Observe \<and>
   write_then_observe RangeObj_type rgr_Ref range_holds Range_spec_ok cluster_Range_Create cluster_Range_Observe \<and> write_then_observe RangeObj_type rgr_Ref range_holds Range_spec_ok cluster_Range_Update cluster_Range_Observe \<and>
   write_then_observe ZoneDelegatedObj_type zdr_Ref zonedelegated_holds ZoneDelegated_spec_ok namespaced_ZoneDelegated_Create namespaced_ZoneDelegated_Observe \<and> write_then_observe ZoneDelegatedObj_type zdr_Ref zonedelegated_holds ZoneDelegated_spec_ok namespaced_ZoneDelegated_Update namespaced_ZoneDelegated_Observe \<and>
   write_then_observe ZoneDelegatedObj_type zdr_Ref zonedelegated_holds ZoneDelegated_spec_ok cluster_ZoneDelegated_Create cluster_ZoneDelegated_Observe \<and> write_then_observe ZoneDelegatedObj_type zdr_Ref zonedelegated_holds ZoneDelegated_spec_ok cluster_ZoneDelegated_Update cluster_ZoneDelegated_Observe \<and>
   write_then_observe ZoneForwardObj_type zfr_Ref zoneforward_holds ZoneForward_spec_ok namespaced_ZoneForward_Create namespaced_ZoneForward_Observe \<and> write_then_observe ZoneForwardObj_type zfr_Ref zoneforward_holds ZoneForward_spec_ok namespaced_ZoneForward_Update namespaced_ZoneForward_Observe \<and>
   write_then_observe ZoneForwardObj_type zfr_Ref zoneforward_holds ZoneForward_spec_ok cluster_ZoneForward_Create cluster_ZoneForward_Observe \<and> write_then_observe ZoneForwardObj_type zfr_Ref zoneforward_holds ZoneForward_spec_ok cluster_ZoneForward_Update cluster_ZoneForward_Observe \<and>
   write_then_observe DtcServerObj_type dsr_Ref dtcserver_holds DTCServer_spec_ok namespaced_DTCServer_Create namespaced_DTCServer_Observe \<and> write_then_observe DtcServerObj_type dsr_Ref dtcserver_holds DTCServer_spec_ok namespaced_DTCServer_Update namespaced_DTCServer_Observe \<and>
   write_then_observe DtcServerObj_type dsr_Ref dtcserver_holds DTCServer_spec_ok cluster_DTCServer_Create cluster_DTCServer_Observe \<and> write_then_observe DtcServerObj_type dsr_Ref dtcserver_holds DTCServer_spec_ok cluster_DTCServer_Update cluster_DTCServer_Observe \<and>
   write_then_observe DtcLbdnObj_type lbr_Ref dtclbdn_holds DTCLBDN_spec_ok namespaced_DTCLBDN_Create namespaced_DTCLBDN_Observe \<and> write_then_observe DtcLbdnObj_type lbr_Ref dtclbdn_holds DTCLBDN_spec_ok namespaced_DTCLBDN_Update namespaced_DTCLBDN_Observe \<and>
   write_then_observe DtcLbdnObj_type lbr_Ref dtclbdn_holds DTCLBDN_spec_ok cluster_DTCLBDN_Create cluster_DTCLBDN_Observe \<and> write_then_observe DtcLbdnObj_type lbr_Ref dtclbdn_holds DTCLBDN_spec_ok cluster_DTCLBDN_Update cluster_DTCLBDN_Observe \<and>
   write_then_observe SharedNetworkObj_type snr_Ref sharednetwork_holds IPv4SharedNetwork_spec_ok namespaced_IPv4SharedNetwork_Create namespaced_IPv4SharedNetwork_Observe \<and> write_then_observe SharedNetworkObj_type snr_Ref sharednetwork_holds IPv4SharedNetwork_spec_ok namespaced_IPv4SharedNetwork_Update namespaced_IPv4SharedNetwork_Observe \<and>
   write_then_observe SharedNetworkObj_type snr_Ref sharednetwork_holds IPv4SharedNetwork_spec_ok cluster_IPv4SharedNetwork_Create cluster_IPv4SharedNetwork_Observe \<and> write_then_observe SharedNetworkObj_type snr_Ref sharednetwork_holds IPv4SharedNetwork_spec_ok cluster_IPv4SharedNetwork_Update cluster_IPv4SharedNetwork_Observe \<and>
   write_then_observe RangetemplateObj_type rtr_Ref rangetemplate_holds RangeTemplate_spec_ok namespaced_RangeTemplate_Create namespaced_RangeTemplate_Observe \<and> write_then_observe RangetemplateObj_type rtr_Ref rangetemplate_holds RangeTemplate_spec_ok namespaced_RangeTemplate_Update namespaced_RangeTemplate_Observe \<and>
   write_then_observe RangetemplateObj_type rtr_Ref rangetemplate_holds RangeTemplate_spec_ok cluster_RangeTemplate_Create cluster_RangeTemplate_Observe \<and> write_then_observe RangetemplateObj_type rtr_Ref rangetemplate_holds RangeTemplate_spec_ok cluster_RangeTemplate_Update cluster_RangeTemplate_Observe \<and>
   write_then_observe DtcPoolObj_type dpr_Ref dtcpool_holds DTCPool_spec_ok namespaced_DTCPool_Create namespaced_DTCPool_Observe \<and> write_then_observe DtcPoolObj_type dpr_Ref dtcpool_holds DTCPool_spec_ok namespaced_DTCPool_Update namespaced_DTCPool_Observe \<and>
   write_then_observe DtcPoolObj_type dpr_Ref dtcpool_holds DTCPool_spec_ok cluster_DTCPool_Create cluster_DTCPool_Observe \<and> write_then_observe DtcPoolObj_type dpr_Ref dtcpool_holds DTCPool_spec_ok cluster_DTCPool_Update cluster_DTCPool_Observe \<and>
   write_then_observe HostRecordObj_type hrr_Ref hostrecord_holds HostRecord_spec_ok namespaced_HostRecord_Create namespaced_HostRecord_Observe \<and> write_then_observe HostRecordObj_type hrr_Ref hostrecord_holds HostRecord_spec_ok namespaced_HostRecord_Update namespaced_HostRecord_Observe \<and>
   write_then_observe HostRecordObj_type hrr_Ref hostrecord_holds HostRecord_spec_ok cluster_HostRecord_Create cluster_HostRecord_Observe \<and> write_then_observe HostRecordObj_type hrr_Ref hostrecord_holds HostRecord_spec_ok cluster_HostRecord_Update cluster_HostRecord_Observe \<and>
   write_then_observe ZoneAuthObj_type zar_Ref zoneauth_holds ZoneAuth_spec_ok namespaced_ZoneAuth_Create namespaced_ZoneAuth_Observe \<and> write_then_observe ZoneAuthObj_type zar_Ref zoneauth_holds ZoneAuth_spec_ok namespaced_ZoneAuth_Update namespaced_ZoneAuth_Observe \<and>
   write_then_observe ZoneAuthObj_type zar_Ref zoneauth_holds ZoneAuth_spec_ok cluster_ZoneAuth_Create cluster_ZoneAuth_Observe \<and> write_then_observe ZoneAuthObj_type zar_Ref zoneauth_holds ZoneAuth_spec_ok cluster_ZoneAuth_Update cluster_ZoneAuth_Observe"
  by (simp only: grid_scopes simp_thms netview.create_then_observe netview.update_then_observe range.create_then_observe range.update_then_observe zonedelegated.create_then_observe zonedelegated.update_then_observe zoneforward.create_then_observe zoneforward.update_then_observe dtcserver.create_then_observe dtcserver.update_then_observe dtclbdn.create_then_observe dtclbdn.update_then_observe sharednetwork.create_then_observe sharednetwork.update_then_observe rangetemplate.create_then_observe rangetemplate.update_then_observe dtcpool.create_then_observe dtcpool.update_then_observe hostrecord.create_then_observe hostrecord.update_then_observe zoneauth.create_then_observe zoneauth.update_then_observe)

section \<open>Behaviours of single kinds\<close>

text \<open>
  The flag cloudApiCompatible and the msServer of a RangeTemplate spec take no part in the
  drift check, and the flag takes part in no request either: whatever the spec says, every write
  sends true, and an object whose flag is not true is never up to date.
\<close>

theorem rangetemplate_cloud_forced:
  "createRangeTemplate env (p\<lparr>rtp_CloudApiCompatible := b\<rparr>) os d uid w = createRangeTemplate env p os d uid w \<and>
   updateRangeTemplate env ref (p\<lparr>rtp_CloudApiCompatible := b\<rparr>) os d uid w = updateRangeTemplate env ref p os d uid w \<and>
   RangeTemplate_utd (cr\<lparr>rt_ForProvider := p\<lparr>rtp_CloudApiCompatible := b, rtp_MsServer := s\<rparr>\<rparr>) rec =
     RangeTemplate_utd (cr\<lparr>rt_ForProvider := p\<rparr>) rec \<and>
   never_up_to_date RangetemplateObj_type namespaced_RangeTemplate_Observe (\<lambda>cr rec. \<not> boolPtrOrFalse (rtr_CloudApiCompatible rec))"
  by (intro conjI rangetemplate.observe_never)
    (simp_all add: createRangeTemplate_def updateRangeTemplate_def RangeTemplate_utd_iff Let_def)

text \<open>
  The drift check of a shared network reads the CIDRs back from the references of the
  member networks: for references of the form WAPI documents (type and id, a colon, address,
  slash, prefix length, slash, view) it accepts exactly the reorderings of the CIDRs they name.
\<close>

theorem shared_networks_read_back:
  assumes "\<forall>(pre, addr, len, view) \<in> set ns. CHR '':'' \<notin> set pre \<and> CHR ''/'' \<notin> set addr \<and> CHR ''/'' \<notin> set len"
  shows "stringSliceEqualUnordered cidrs
      (networksFromSDK (map (\<lambda>(pre, addr, len, view). Some \<lparr>net_Ref = pre @ '':'' @ addr @ ''/'' @ len @ ''/'' @ view\<rparr>) ns)) \<longleftrightarrow>
    mset cidrs = mset (map (\<lambda>(pre, addr, len, view). addr @ ''/'' @ len) ns)"
proof -
  have cidr: "cidrFromNetworkRef (pre @ '':'' @ addr @ ''/'' @ len @ ''/'' @ view) = addr @ ''/'' @ len"
    if "CHR '':'' \<notin> set pre" "CHR ''/'' \<notin> set addr" "CHR ''/'' \<notin> set len" for pre addr len view :: string
  proof -
    have "dropWhile (\<lambda>c. c \<noteq> CHR '':'') (pre @ '':'' @ rest) = '':'' @ rest" for rest
      using that(1) by (induction pre) auto
    moreover have "takeWhile (\<lambda>c. c \<noteq> CHR ''/'') (xs @ CHR ''/'' # ys) = xs"
      "dropWhile (\<lambda>c. c \<noteq> CHR ''/'') (xs @ CHR ''/'' # ys) = CHR ''/'' # ys" if "CHR ''/'' \<notin> set xs" for xs ys :: string
      using that by (induction xs) auto
    ultimately show ?thesis
      using that(2,3) by (simp add: cidrFromNetworkRef_def Let_def)
  qed
  have "networksFromSDK (map (\<lambda>(pre, addr, len, view). Some \<lparr>net_Ref = pre @ '':'' @ addr @ ''/'' @ len @ ''/'' @ view\<rparr>) ns) =
      map (\<lambda>(pre, addr, len, view). addr @ ''/'' @ len) ns"
    using assms
  proof (induction ns)
    case (Cons n ns)
    then show ?case
      by (cases n) (auto simp: networksFromSDK_def cidr [simplified] List.map_filter_simps split: if_splits)
  qed (simp add: networksFromSDK_def)
  then show ?thesis
    by (simp only: stringSliceEqualUnordered_iff)
qed

lemma shared_networks_read_back_witness:
  "stringSliceEqualUnordered [''10.1.0.0/16'', ''10.0.0.0/16'']
     (networksFromSDK [Some \<lparr>net_Ref = ''network/a:10.0.0.0/16/default''\<rparr>, Some \<lparr>net_Ref = ''network/b:10.1.0.0/16/default''\<rparr>])"
  using shared_networks_read_back [of "[(''network/a'', ''10.0.0.0'', ''16'', ''default''), (''network/b'', ''10.1.0.0'', ''16'', ''default'')]"
      "[''10.1.0.0/16'', ''10.0.0.0/16'']"] by simp

section \<open>A Grid with one network view\<close>

definition view_rec :: NetworkViewObj where
  "view_rec = emptyNetworkViewObj\<lparr>nvwr_Ref := ''networkview/1'', nvwr_Ea := Stamp fmempty ''u-1''\<rparr>"

fun view_store :: "netview_req \<Rightarrow> NetworkViewObj" where
  "view_store (CreateNetworkView name comment e) =
     \<lparr>nvwr_Ref = ''networkview/1'', nvwr_Name = Some name, nvwr_Comment = Some comment, nvwr_IsDefault = False, nvwr_Ea = e\<rparr>"
| "view_store (UpdateNetworkView ref name comment e) =
     \<lparr>nvwr_Ref = ''networkview/1'', nvwr_Name = Some name, nvwr_Comment = Some comment, nvwr_IsDefault = False, nvwr_Ea = e\<rparr>"

definition view_env :: "(NetworkViewObj, netview_req) wapi" where
  "view_env =
     \<lparr>wapi_get = (\<lambda>h t r. case last_written h of None \<Rightarrow> Inr view_rec | Some m \<Rightarrow> Inr (view_store m)),
      wapi_search = (\<lambda>h t q. if q = uid_query ''u-1'' then Inr [view_rec] else Inr []),
      wapi_def_search = (\<lambda>h q. Inr [identityDefinition]),
      wapi_def_create = (\<lambda>h d. Inr []),
      wapi_mutate = (\<lambda>h m. Inr (view_store m)),
      wapi_delete = (\<lambda>h r. Inr r),
      kube_patch = (\<lambda>h j. None),
      retry_on_conflict = (\<lambda>f w. f w),
      wall_clock = (\<lambda>n. 0)\<rparr>"

definition view_cr :: "string \<Rightarrow> string \<Rightarrow> NetworkViewCR" where
  "view_cr uid ref =
     \<lparr>mo_name = ''v'', mo_namespace = [], mo_uid = uid, mo_annotations = fmupd AnnotationKeyExternalName ref fmempty,
      mo_conditions = fmempty,
      nvw_ForProvider = \<lparr>nvwp_Name = Some ''branch'', nvwp_Comment = None, nvwp_ExtAttrs = fmempty\<rparr>,
      nvw_AtProvider = \<lparr>nvws_ID = [], nvws_Name = None, nvws_Comment = None, nvws_ExtAttrs = fmempty, nvws_Ref = None,
        nvws_IsDefault = None\<rparr>\<rparr>"

abbreviation view_owner :: NetworkViewCR where
  "view_owner \<equiv> view_cr ''u-1'' ''networkview/1''"

abbreviation view_new :: NetworkViewCR where
  "view_new \<equiv> view_cr ''u-2'' []"

lemma view_cr_simps [simp]:
  "GetExternalName (view_cr uid ref) = ref" "mo_uid (view_cr uid ref) = uid" "mo_name (view_cr uid ref) = ''v''"
  by (simp_all add: view_cr_def GetExternalName_def)

lemma view_rec_simps [simp]: "nvwr_Ref view_rec = ''networkview/1''" "eaValue (nvwr_Ea view_rec) EAKey = Some ''u-1''"
  by (simp_all add: view_rec_def)

lemma view_store_ref [simp]: "nvwr_Ref (view_store m) = ''networkview/1''"
  by (cases m) simp_all

lemma view_sound: "search_sound view_env NetworkViewObj_type"
  by (auto simp: search_sound_def view_env_def uid_query_inj)

lemma view_retry: "retry_documented view_env"
  by (auto simp: retry_documented_def view_env_def intro: exI [of _ 0])

lemma view_echoes: "echoes view_env NetworkViewObj_type nvwr_Ref netview_holds"
proof -
  have "netview_holds m (view_store m)" for m by (cases m) simp_all
  then show ?thesis by (simp add: echoes_def view_env_def last_written_latest)
qed

lemma view_ensure: "fst (ensureIdentityPrerequisite view_env ''grid'' init_world) = None"
  by (simp add: ensureIdentityPrerequisite_def Ensure_def prober_lookup_def init_world_def probe_def
      definitionExists_def def_search_def view_env_def trim_space_visible visible_ascii_def split_beta)

lemma view_resolve:
  "Resolve view_env NetworkViewObj_type ''networkview/1'' ''u-1'' init_world =
     (Inr (Some view_rec, OutcomeResolved), log_call (CGet ''networkview'' ''networkview/1'') init_world)"
proof -
  have "wapi_get view_env (calls init_world) t r = Inr view_rec" for t r
    by (simp add: view_env_def init_world_def last_written_def)
  then have "resolveByRef view_env NetworkViewObj_type ''networkview/1'' ''u-1'' init_world =
      (Some (Inr (Some view_rec, OutcomeResolved)), log_call (CGet ''networkview'' ''networkview/1'') init_world)"
    using NetworkViewObj_type_simps(3) [of view_rec]
    by (simp add: resolveByRef_def get_object_def stamped_def split: sum.splits)
  then show ?thesis by (simp add: Resolve_unfold)
qed

lemma view_deletes:
  "namespaced_NetworkView_Delete view_env ''grid'' view_owner init_world =
     (None, log_call (CDelete ''networkview/1'') (log_call (CGet ''networkview'' ''networkview/1'') init_world))"
  by (simp add: netview.delete_shape ladder_delete_shape_def view_resolve issue_delete_def delete_object_def)
    (simp add: view_env_def)

lemma view_absent:
  "\<exists>cr' w'. namespaced_NetworkView_Observe view_env ''grid'' view_new init_world = (Inr notExists, cr', w')"
proof -
  have s: "wapi_search view_env h t (uid_query ''u-2'') = Inr []" for h t
    by (simp add: view_env_def uid_query_inj)
  show ?thesis
    by (simp add: netview.observe_shape ladder_observe_shape_def observeRefFor_def Resolve_unfold resolveBySearch_def
        searchByUID_def search_objects_def s)
qed

section \<open>The theorems on that Grid\<close>

lemma grid_objects_delete_contract_witness:
  "mutations (snd (namespaced_NetworkView_Delete view_env ''grid'' view_owner init_world)) = [CDelete ''networkview/1''] \<and>
   (\<exists>rec out. fst (Resolve view_env NetworkViewObj_type ''networkview/1'' ''u-1'' init_world) = Inr (Some rec, out) \<and>
      eaValue (nvwr_Ea rec) EAKey = Some ''u-1'')"
proof -
  have "deletes_only_owned NetworkViewObj_type nvwr_Ref namespaced_NetworkView_Delete"
    using grid_objects_delete_contract by blast
  from this [unfolded deletes_only_owned_def, rule_format, OF view_sound, of "''grid''" view_owner init_world]
  show ?thesis by (auto simp: view_deletes)
qed

lemma grid_objects_observe_contract_witness:
  "\<exists>h. wapi_search view_env h ''networkview'' (uid_query ''u-2'') = Inr [] \<or>
     (\<exists>err. wapi_search view_env h ''networkview'' (uid_query ''u-2'') = Inl err \<and> isNotFound (Some err))"
proof -
  have o: "absent_means_searched NetworkViewObj_type namespaced_NetworkView_Observe"
    using grid_objects_observe_contract by blast
  obtain cr' w' where "namespaced_NetworkView_Observe view_env ''grid'' view_new init_world = (Inr notExists, cr', w')"
    using view_absent by blast
  from o [unfolded absent_means_searched_def, rule_format, OF this] show ?thesis
    by (auto simp: notExists_def)
qed

lemma grid_objects_write_contract_witness:
  "mutations (snd (snd (namespaced_NetworkView_Update view_env ''grid'' view_owner init_world))) =
     [CMutate (netview_update_request ''networkview/1'' (nvw_ForProvider view_owner) ''u-1'')]"
proof -
  have "updates_as (\<lambda>cr. netview_update_request (GetExternalName cr) (nvw_ForProvider cr) (mo_uid cr)) nvwr_Ref
      namespaced_NetworkView_Update"
    using grid_objects_write_contract by blast
  from this [unfolded updates_as_def, rule_format, OF view_retry, where ep = "''grid''" and cr = view_owner and w = init_world]
  show ?thesis by (simp add: split_beta view_ensure)
qed

lemma grid_objects_run_safely_witness:
  "log_safe (seen_owned view_env NetworkViewObj_type nvwr_Ref) netview_req_ea (\<lambda>uid. \<exists>i :: nat. uid = ''u-1'')
     (calls (snd (namespaced_NetworkView_Delete view_env ''grid'' view_owner init_world)))"
proof -
  have "runs_safely NetworkViewObj_type nvwr_Ref netview_req_ea namespaced_NetworkView_Observe namespaced_NetworkView_Create
      namespaced_NetworkView_Update namespaced_NetworkView_Delete"
    using grid_objects_run_safely by blast
  moreover have "client_run namespaced_NetworkView_Observe namespaced_NetworkView_Create namespaced_NetworkView_Update
      namespaced_NetworkView_Delete view_env ''grid'' (\<lambda>i. view_owner) (\<lambda>i. view_owner)
      (snd (namespaced_NetworkView_Delete view_env ''grid'' view_owner init_world))"
    by (rule client_run.deleted [where i = 0 and crs = "\<lambda>i. view_owner", OF client_run.start])
  ultimately show ?thesis
    using view_sound view_retry unfolding runs_safely_def by fastforce
qed

lemma grid_objects_converge_witness:
  "\<exists>cr1 w1 obs cr2 w2. namespaced_NetworkView_Create view_env ''grid'' view_owner init_world = (None, cr1, w1) \<and>
     namespaced_NetworkView_Observe view_env ''grid'' cr1 w1 = (Inr obs, cr2, w2) \<and> ResourceUpToDate obs"
proof -
  have ok: "NetworkView_spec_ok view_owner" "NetworkView_valid view_owner = None"
    by (simp_all add: view_cr_def NetworkView_spec_ok_def NetworkView_valid_def reserved_free_def Let_def)
  obtain w0 where en: "ensureIdentityPrerequisite view_env ''grid'' init_world = (None, w0)"
    using view_ensure by (cases "ensureIdentityPrerequisite view_env ''grid'' init_world") auto
  have m: "wapi_mutate view_env h r = Inr (view_store r)" for h r
    by (simp add: view_env_def)
  have c: "namespaced_NetworkView_Create view_env ''grid'' view_owner init_world =
      (None, SetExternalName ''networkview/1'' view_owner, snd (mutate_object view_env (netview_create_request (nvw_ForProvider view_owner) ''u-1'') w0))"
    by (simp add: netview.create_shape ladder_create_shape_def ok en mutate_object_def m)
  have "write_then_observe NetworkViewObj_type nvwr_Ref netview_holds NetworkView_spec_ok
      namespaced_NetworkView_Create namespaced_NetworkView_Observe"
    using grid_objects_converge by blast
  from this [unfolded write_then_observe_def, rule_format, OF view_retry view_echoes ok(1) _ c] c
  show ?thesis by simp blast
qed

end
