(* ===== verification/Cidr.thy ===== *)
theory Cidr
  imports Prelude
begin

text \<open>
  isIPv6CIDR of the network controllers, over a model of what it uses of Go's
  standard library: net.ParseCIDR and the address parser of net/netip. Addresses
  are lists of bytes (as numbers); a failed parse is None.
\<close>

section \<open>IPv4\<close>

text \<open>
  parseIPv4Fields: the loop over the characters with its state (index, the
  previous character, value and digit count of the octet, octets so far).
\<close>

fun ipv4_fields :: "string \<Rightarrow> bool \<Rightarrow> bool \<Rightarrow> nat \<Rightarrow> nat \<Rightarrow> nat list \<Rightarrow> nat list option" where
  "ipv4_fields [] first prevDot val digLen fields =
     (if length fields < 3 then None else Some (fields @ [val]))"
| "ipv4_fields (c # cs) first prevDot val digLen fields =
     (case digit_value c of
        Some d \<Rightarrow>
          if digLen = 1 \<and> val = 0 then None
          else if val * 10 + d > 255 then None
          else ipv4_fields cs False False (val * 10 + d) (Suc digLen) fields
      | None \<Rightarrow>
          if c = CHR ''.'' then
            (if first \<or> cs = [] \<or> prevDot then None
             else if length fields = 3 then None
             else ipv4_fields cs False True 0 0 (fields @ [val]))
          else None)"

definition parseIPv4Fields :: "string \<Rightarrow> nat list option" where
  "parseIPv4Fields s = ipv4_fields s True False 0 0 []"

text \<open>netip.Addr's As16: an IPv4 address is stored mapped into IPv6.\<close>

definition mapped_v4 :: "nat list \<Rightarrow> nat list" where
  "mapped_v4 bs = replicate 10 0 @ [255, 255] @ bs"

section \<open>IPv6\<close>

definition hex_val :: "char \<Rightarrow> nat option" where
  "hex_val c =
     (let n = (of_char c :: nat) in
      if 48 \<le> n \<and> n \<le> 57 then Some (n - 48)
      else if 97 \<le> n \<and> n \<le> 102 then Some (n - 87)
      else if 65 \<le> n \<and> n \<le> 70 then Some (n - 55)
      else None)"

text \<open>One hexadecimal group: its value, its number of digits, the rest; at most four digits.\<close>

fun hex_group :: "string \<Rightarrow> nat \<Rightarrow> nat \<Rightarrow> (nat \<times> nat \<times> string) option" where
  "hex_group [] off acc = Some (acc, off, [])"
| "hex_group (c # cs) off acc =
     (case hex_val c of
        None \<Rightarrow> Some (acc, off, c # cs)
      | Some d \<Rightarrow> if off > 3 then None else hex_group cs (Suc off) (16 * acc + d))"

text \<open>
  The loop of parseIPv6: at most eight groups, so eight steps. It returns the
  bytes read and the position of the "::".
\<close>

fun ipv6_groups :: "nat \<Rightarrow> string \<Rightarrow> nat list \<Rightarrow> nat option \<Rightarrow> (nat list \<times> nat option) option" where
  "ipv6_groups 0 s ip ellipsis = (if s = [] then Some (ip, ellipsis) else None)"
| "ipv6_groups (Suc n) s ip ellipsis =
     (case hex_group s 0 0 of
        None \<Rightarrow> None
      | Some (acc, off, rest) \<Rightarrow>
          if off = 0 then None
          else (case rest of
            [] \<Rightarrow> Some (ip @ [acc div 256, acc mod 256], ellipsis)
          | c # cs \<Rightarrow>
              if c = CHR ''.'' then
                (if ellipsis = None \<and> length ip \<noteq> 12 then None
                 else if length ip + 4 > 16 then None
                 else (case parseIPv4Fields s of
                   None \<Rightarrow> None
                 | Some v4 \<Rightarrow> Some (ip @ v4, ellipsis)))
              else if c \<noteq> CHR '':'' then None
              else if cs = [] then None
              else
                (let ip1 = ip @ [acc div 256, acc mod 256] in
                 if hd cs = CHR '':'' then
                   (if ellipsis \<noteq> None then None
                    else if tl cs = [] then Some (ip1, Some (length ip1))
                    else ipv6_groups n (tl cs) ip1 (Some (length ip1)))
                 else ipv6_groups n cs ip1 ellipsis)))"

definition expand_ellipsis :: "nat list \<times> nat option \<Rightarrow> nat list option" where
  "expand_ellipsis r =
     (case r of (ip, ellipsis) \<Rightarrow>
        (case ellipsis of
           None \<Rightarrow> if length ip < 16 then None else Some ip
         | Some k \<Rightarrow>
             if length ip < 16 then Some (take k ip @ replicate (16 - length ip) 0 @ drop k ip)
             else None))"

fun cut_at :: "char \<Rightarrow> string \<Rightarrow> string \<times> string option" where
  "cut_at d [] = ([], None)"
| "cut_at d (c # cs) =
     (if c = d then ([], Some cs) else (case cut_at d cs of (a, b) \<Rightarrow> (c # a, b)))"

text \<open>A parsed address with its zone.\<close>

definition parseIPv6 :: "string \<Rightarrow> (nat list \<times> string) option" where
  "parseIPv6 s0 =
     (case cut_at (CHR ''%'') s0 of (s, zoneOpt) \<Rightarrow>
        (if zoneOpt = Some [] then None
         else
           (let zone = (case zoneOpt of None \<Rightarrow> [] | Some z \<Rightarrow> z) in
            case (if starts_with ''::'' s then
                    (if drop 2 s = [] then Some ([], Some 0) else ipv6_groups 8 (drop 2 s) [] (Some 0))
                  else ipv6_groups 8 s [] None) of
              None \<Rightarrow> None
            | Some r \<Rightarrow> map_option (\<lambda>ip. (ip, zone)) (expand_ellipsis r))))"

text \<open>ParseAddr: the first of dot, colon and percent sign decides; the bit length goes with the address.\<close>

fun ParseAddr_scan :: "string \<Rightarrow> string \<Rightarrow> (nat list \<times> string \<times> nat) option" where
  "ParseAddr_scan s [] = None"
| "ParseAddr_scan s (c # cs) =
     (if c = CHR ''.'' then map_option (\<lambda>bs. (mapped_v4 bs, [], 32)) (parseIPv4Fields s)
      else if c = CHR '':'' then map_option (\<lambda>(ip, z). (ip, z, 128)) (parseIPv6 s)
      else if c = CHR ''%'' then None
      else ParseAddr_scan s cs)"

definition ParseAddr :: "string \<Rightarrow> (nat list \<times> string \<times> nat) option" where
  "ParseAddr s = ParseAddr_scan s s"

section \<open>CIDR\<close>

text \<open>dtoi: leading decimal digits; numbers from 0xFFFFFF are rejected.\<close>

fun dtoi_loop :: "string \<Rightarrow> nat \<Rightarrow> (nat \<times> string) option" where
  "dtoi_loop [] n = Some (n, [])"
| "dtoi_loop (c # cs) n =
     (case digit_value c of
        None \<Rightarrow> Some (n, c # cs)
      | Some d \<Rightarrow> if n * 10 + d \<ge> 0xFFFFFF then None else dtoi_loop cs (n * 10 + d))"

definition ParseCIDR :: "string \<Rightarrow> (nat list \<times> nat) option" where
  "ParseCIDR s =
     (case cut_at (CHR ''/'') s of
        (addr, None) \<Rightarrow> None
      | (addr, Some maskText) \<Rightarrow>
          (case ParseAddr addr of
             None \<Rightarrow> None
           | Some (ip, zone, bitLen) \<Rightarrow>
               if zone \<noteq> [] then None
               else (case dtoi_loop maskText 0 of
                 None \<Rightarrow> None
               | Some (n, rest) \<Rightarrow>
                   if maskText = [] \<or> rest \<noteq> [] \<or> n > bitLen then None else Some (ip, n))))"

text \<open>IP.To4 of a 16-byte address.\<close>

definition To4 :: "nat list \<Rightarrow> nat list option" where
  "To4 ip = (if take 12 ip = replicate 10 0 @ [255, 255] then Some (drop 12 ip) else None)"

definition isIPv6CIDR :: "string \<Rightarrow> bool" where
  "isIPv6CIDR cidr =
     (case ParseCIDR cidr of
        None \<Rightarrow> False
      | Some (ip, _) \<Rightarrow> To4 ip = None)"

section \<open>Properties\<close>

lemma To4_mapped [simp]: "To4 (mapped_v4 bs) = Some bs"
  by (simp add: To4_def mapped_v4_def)

lemma ParseAddr_scan_v6:
  "ParseAddr_scan s t = Some (ip, zone, n) \<Longrightarrow> To4 ip = None \<Longrightarrow> CHR '':'' \<in> set t"
  by (induction s t rule: ParseAddr_scan.induct) (auto split: if_splits)

text \<open>
  Only a text with a colon is classified as IPv6, and dotted-quad notation never is:
  a network whose address part has a dot before any colon is always created and
  searched as an IPv4 network.
\<close>

theorem isIPv6CIDR_colon:
  assumes "isIPv6CIDR cidr"
  shows "\<exists>addr maskText. cut_at (CHR ''/'') cidr = (addr, Some maskText) \<and> CHR '':'' \<in> set addr \<and>
    \<not> (\<exists>a b. addr = a @ CHR ''.'' # b \<and> CHR '':'' \<notin> set a)"
proof -
  obtain addr maskText ip zone n where c: "cut_at (CHR ''/'') cidr = (addr, Some maskText)"
    "ParseAddr_scan addr addr = Some (ip, zone, n)" "To4 ip = None"
    using assms by (auto simp: isIPv6CIDR_def ParseCIDR_def ParseAddr_def split: option.splits prod.splits if_splits)
  have "To4 ip' \<noteq> None" if "CHR '':'' \<notin> set a" "ParseAddr_scan s (a @ CHR ''.'' # b) = Some (ip', zone', n')"
    for s a b ip' zone' n'
    using that by (induction a) (auto split: if_splits)
  with c ParseAddr_scan_v6 show ?thesis by blast
qed

section \<open>Evaluation\<close>

lemmas ipv6_groups_numeral [simp] = ipv6_groups.simps(2) [of "pred_numeral k", folded numeral_eq_Suc] for k

lemma replicate_num [simp]: "replicate (numeral k) x = x # replicate (pred_numeral k) x"
  by (simp add: numeral_eq_Suc)

lemmas cidr_eval = isIPv6CIDR_def ParseCIDR_def ParseAddr_def parseIPv6_def parseIPv4Fields_def To4_def
  mapped_v4_def digit_value_def hex_val_def expand_ellipsis_def

text \<open>
  The classifier on the usual forms: plain IPv6, a compressed one and one
  with an embedded quad are IPv6; an IPv4-mapped address counts as IPv4; malformed texts,
  zones, leading zeros and over-long prefix lengths fall back to IPv4.
\<close>

theorem isIPv6CIDR_examples:
  "isIPv6CIDR ''2001:db8::/32'' \<and> isIPv6CIDR ''::/0'' \<and> isIPv6CIDR ''2001:db8:0:1:2:3:4:5/128''
   \<and> isIPv6CIDR ''64:ff9b::192.0.2.33/96'' \<and> \<not> isIPv6CIDR ''10.0.0.0/8''
   \<and> \<not> isIPv6CIDR ''::ffff:10.0.0.0/104'' \<and> \<not> isIPv6CIDR ''2001:db8::1'' \<and> \<not> isIPv6CIDR ''fe80::1%eth0/64''
   \<and> \<not> isIPv6CIDR ''2001:db8::/129'' \<and> \<not> isIPv6CIDR ''1::2::3/64'' \<and> \<not> isIPv6CIDR ''10.0.00.0/8''"
  by (intro conjI; simp add: cidr_eval)

text \<open>An address to apply the first theorem to.\<close>

lemma isIPv6CIDR_colon_witness:
  "\<exists>addr maskText. cut_at (CHR ''/'') ''2001:db8::/32'' = (addr, Some maskText) \<and> CHR '':'' \<in> set addr"
proof -
  have "isIPv6CIDR ''2001:db8::/32''" by (simp add: cidr_eval)
  from isIPv6CIDR_colon [OF this] show ?thesis by blast
qed

end
