(* ===== verification/Network.thy ===== *)
theory Network
  imports Contracts Managed Cidr
begin

text \<open>
  internal/controller/network: the Network controller. WAPI has two object
  types for it, network and ipv6network; the controller picks one from the
  CIDR of the spec, and searches both when the spec has none.
\<close>

section \<open>Data\<close>

record DhcpMember =
  dm_Name :: string
  dm_Ipv4Addr :: string
  dm_Ipv6Addr :: string

text \<open>The SDK's union: a DHCP member, a Microsoft DHCP server's address, or neither.\<close>

record NetworkMember =
  nm_DhcpMember :: "DhcpMember option"
  nm_MsDhcpServer :: "string option"

record ibNetwork =
  nw_Ref :: string
  nw_NetviewName :: string
  nw_Cidr :: string
  nw_Comment :: string
  nw_Ea :: ea
  nw_Members :: "NetworkMember list"

definition NewNetwork :: "string \<Rightarrow> string \<Rightarrow> string \<Rightarrow> ea \<Rightarrow> ibNetwork" where
  "NewNetwork netview cidr comment e =
     \<lparr>nw_Ref = [], nw_NetviewName = netview, nw_Cidr = cidr, nw_Comment = comment, nw_Ea = e, nw_Members = []\<rparr>"

definition reflectNetwork :: "ibNetwork \<Rightarrow> goany" where
  "reflectNetwork r = PtrTo ''*ibclient.Network''
     [(''NetviewName'', FString (nw_NetviewName r)), (''Cidr'', FString (nw_Cidr r)),
      (''Ref'', FString (nw_Ref r)), (''Ea'', FEA (nw_Ea r)), (''Comment'', FString (nw_Comment r)),
      (''Members'', FOther)]"

definition newEmptyNetwork :: "bool \<Rightarrow> ibNetwork objtype" where
  "newEmptyNetwork isIPv6 =
     \<lparr>ot_name = (if isIPv6 then ''ipv6network'' else ''network''),
      ot_empty = NewNetwork [] [] [] fmempty, ot_reflect = reflectNetwork\<rparr>"

text \<open>The ObjectManager requests, with their arguments in call order.\<close>

datatype network_req =
    CreateNetwork string string bool string ea \<comment> \<open>netview, cidr, isIPv6, comment, eas\<close>
  | AllocateNetwork string string bool nat string ea \<comment> \<open>netview, cidr, isIPv6, prefixLen, comment, eas\<close>
  | AllocateNetworkByEA string bool string ea extattrs nat string
      \<comment> \<open>netview, isIPv6, comment, eas, eaMap, prefixLen, object\<close>
  | UpdateNetwork string ea string \<comment> \<open>ref, eas, comment\<close>

record NetworkParameters =
  np_NetworkView :: "string option"
  np_Network :: "string option"
  np_ParentCidr :: "string option"
  np_AllocatePrefixLen :: "nat option"
  np_FilterParams :: extattrs
  np_Object :: "string option"
  np_Comment :: "string option"
  np_ExtAttrs :: extattrs

record observedNetworkMember =
  om_DhcpMemberName :: "string option"
  om_DhcpMemberIPv4Addr :: "string option"
  om_DhcpMemberIPv6Addr :: "string option"
  om_MsDhcpServerIPv4Addr :: "string option"

record observedNetwork =
  on_ID :: string
  on_NetworkView :: "string option"
  on_Network :: "string option"
  on_Comment :: "string option"
  on_ExtAttrs :: extattrs
  on_Ref :: "string option"
  on_Members :: "observedNetworkMember list"

record NetworkCR = mobj +
  nc_ForProvider :: NetworkParameters
  nc_AtProvider :: observedNetwork \<comment> \<open>NetworkObservation has the same fields\<close>

definition errObserveNetwork :: string where "errObserveNetwork = ''cannot observe Network''"
definition errCreateNetwork :: string where "errCreateNetwork = ''cannot create Network''"
definition errUpdateNetwork :: string where "errUpdateNetwork = ''cannot update Network''"
definition errDeleteNetwork :: string where "errDeleteNetwork = ''cannot delete Network''"
definition errMissingCIDR :: string where
  "errMissingCIDR = ''network CIDR is required to determine the WAPI object type (network vs ipv6network)''"
definition errParentCidrAndFilterParams :: string where
  "errParentCidrAndFilterParams = ''parentCidr and filterParams are mutually exclusive''"
definition errAllocatePrefixLenRequired :: string where
  "errAllocatePrefixLenRequired = ''allocatePrefixLen is required when parentCidr or filterParams is set''"
definition errMissingAllocationInput :: string where
  "errMissingAllocationInput = ''one of network, parentCidr, or filterParams is required''"
definition Network_errEmptyUID :: string where
  "Network_errEmptyUID = ''cannot stamp Network identity: managed resource's metadata.uid is empty''"
definition Network_errDeleteUnverifiedOwnership :: string where
  "Network_errDeleteUnverifiedOwnership = ''refusing to delete: the resolved object's identity extensible attribute is absent or belongs to a different owner, so ownership cannot be verified before an irreversible delete. ''
     @ ''Reconcile the external-name annotation, verify the Grid object manually, or remove the finalizer to abandon it without deleting.''"
definition Network_nilDereference :: string where
  "Network_nilDereference = ''panic: nil pointer dereference''"

section \<open>Field comparison and late initialisation\<close>

definition Network_isUpToDate :: "string option \<Rightarrow> extattrs \<Rightarrow> ibNetwork \<Rightarrow> bool" where
  "Network_isUpToDate comment extAttrs nw =
     (if strOrEmpty comment \<noteq> nw_Comment nw then False
      else extAttrsEqual extAttrs (extAttrsFromEA (Strip (nw_Ea nw))))"

type_synonym network_late = "string option \<times> string option \<times> extattrs"

definition Network_lateInitialize :: "network_late \<Rightarrow> ibNetwork \<Rightarrow> network_late \<times> bool" where
  "Network_lateInitialize p nw =
     (case p of (network, comment, extAttrs) \<Rightarrow>
       (let (network1, c1) = (if network = None \<and> nw_Cidr nw \<noteq> [] then (Some (nw_Cidr nw), True) else (network, False));
            (comment1, c2) = (if comment = None \<and> nw_Comment nw \<noteq> [] then (Some (nw_Comment nw), True) else (comment, c1));
            fromNw = extAttrsFromEA (Strip (nw_Ea nw));
            (extAttrs1, c3) = (if extAttrs = fmempty \<and> fromNw \<noteq> fmempty then (fromNw, True) else (extAttrs, c2))
        in ((network1, comment1, extAttrs1), c3)))"

definition convertMembers :: "NetworkMember list \<Rightarrow> observedNetworkMember list" where
  "convertMembers members =
     map (\<lambda>m. case nm_DhcpMember m of
        Some d \<Rightarrow> \<lparr>om_DhcpMemberName = ptrIfNonEmpty (dm_Name d), om_DhcpMemberIPv4Addr = ptrIfNonEmpty (dm_Ipv4Addr d),
                   om_DhcpMemberIPv6Addr = ptrIfNonEmpty (dm_Ipv6Addr d), om_MsDhcpServerIPv4Addr = None\<rparr>
      | None \<Rightarrow>
          \<lparr>om_DhcpMemberName = None, om_DhcpMemberIPv4Addr = None, om_DhcpMemberIPv6Addr = None,
           om_MsDhcpServerIPv4Addr = (case nm_MsDhcpServer m of None \<Rightarrow> None | Some a \<Rightarrow> ptrIfNonEmpty a)\<rparr>) members"

definition observeFromNetwork :: "string \<Rightarrow> ibNetwork \<Rightarrow> observedNetwork" where
  "observeFromNetwork externalID nw =
     \<lparr>on_ID = externalID, on_NetworkView = ptrIfNonEmpty (nw_NetviewName nw),
      on_Network = ptrIfNonEmpty (nw_Cidr nw), on_Comment = ptrIfNonEmpty (nw_Comment nw),
      on_ExtAttrs = extAttrsFromEA (nw_Ea nw), on_Ref = ptrIfNonEmpty (nw_Ref nw),
      on_Members = convertMembers (nw_Members nw)\<rparr>"

section \<open>SDK calls\<close>

type_synonym nw_env = "(ibNetwork, network_req) wapi"
type_synonym nw_world = "network_req world"

definition createNetwork ::
  "nw_env \<Rightarrow> string option \<Rightarrow> string option \<Rightarrow> string option \<Rightarrow> extattrs \<Rightarrow> string \<Rightarrow> nw_world \<Rightarrow>
     (goerr + ibNetwork) \<times> nw_world" where
  "createNetwork env networkView cidr comment extAttrs uid w =
     (if trim_space uid = [] then (Inl (TextError Network_errEmptyUID), w)
      else
        (let c = strOrEmpty cidr in
         if c = [] then (Inl (TextError errMissingCIDR), w)
         else (let e = Stamp (buildEA extAttrs) uid
               in mutate_object env (CreateNetwork (strOrEmpty networkView) c (isIPv6CIDR c) (strOrEmpty comment) e) w)))"

definition createOrAllocateNetwork ::
  "nw_env \<Rightarrow> NetworkParameters \<Rightarrow> string \<Rightarrow> nw_world \<Rightarrow> (goerr + ibNetwork) \<times> nw_world" where
  "createOrAllocateNetwork env p uid w =
     (if trim_space uid = [] then (Inl (TextError Network_errEmptyUID), w)
      else if strOrEmpty (np_ParentCidr p) \<noteq> [] \<and> np_FilterParams p \<noteq> fmempty then
        (Inl (TextError errParentCidrAndFilterParams), w)
      else if strOrEmpty (np_Network p) \<noteq> [] then
        createNetwork env (np_NetworkView p) (np_Network p) (np_Comment p) (np_ExtAttrs p) uid w
      else if strOrEmpty (np_ParentCidr p) \<noteq> [] then
        (case np_AllocatePrefixLen p of
           None \<Rightarrow> (Inl (TextError errAllocatePrefixLenRequired), w)
         | Some n \<Rightarrow>
             (let cidr = strOrEmpty (np_ParentCidr p); e = Stamp (buildEA (np_ExtAttrs p)) uid
              in mutate_object env (AllocateNetwork (strOrEmpty (np_NetworkView p)) cidr (isIPv6CIDR cidr) n
                   (strOrEmpty (np_Comment p)) e) w))
      else if np_FilterParams p \<noteq> fmempty then
        (case np_AllocatePrefixLen p of
           None \<Rightarrow> (Inl (TextError errAllocatePrefixLenRequired), w)
         | Some n \<Rightarrow>
             (let e = Stamp (buildEA (np_ExtAttrs p)) uid
              in mutate_object env (AllocateNetworkByEA (strOrEmpty (np_NetworkView p)) False
                   (strOrEmpty (np_Comment p)) e (np_FilterParams p) n (strOrEmpty (np_Object p))) w))
      else (Inl (TextError errMissingAllocationInput), w))"

definition updateNetwork ::
  "nw_env \<Rightarrow> string \<Rightarrow> string option \<Rightarrow> extattrs \<Rightarrow> string \<Rightarrow> nw_world \<Rightarrow> goerr option \<times> nw_world" where
  "updateNetwork env ref comment extAttrs uid w =
     (if trim_space uid = [] then (Some (TextError Network_errEmptyUID), w)
      else
        (let e = Stamp (buildEA extAttrs) uid in
         case mutate_object env (UpdateNetwork ref e (strOrEmpty comment)) w of
           (Inl err, w1) \<Rightarrow> (Some err, w1)
         | (Inr _, w1) \<Rightarrow> (None, w1)))"

definition deleteNetwork :: "nw_env \<Rightarrow> string \<Rightarrow> nw_world \<Rightarrow> goerr option \<times> nw_world" where
  "deleteNetwork env ref w =
     (case delete_object env ref w of
        (Inl err, w1) \<Rightarrow> (Some err, w1)
      | (Inr _, w1) \<Rightarrow> (None, w1))"

section \<open>Identity resolution\<close>

definition Network_observeRefFor :: "string \<Rightarrow> string \<Rightarrow> string" where
  "Network_observeRefFor crName externalName = (if externalName = crName then [] else externalName)"

text \<open>\<open>None\<close> is ok == false.\<close>

definition networkFamily :: "string option \<Rightarrow> string option \<Rightarrow> bool option" where
  "networkFamily network parentCidr =
     (if strOrEmpty network \<noteq> [] then Some (isIPv6CIDR (strOrEmpty network))
      else if strOrEmpty parentCidr \<noteq> [] then Some (isIPv6CIDR (strOrEmpty parentCidr))
      else None)"

definition resolveNetworkIdentityUnknownFamily ::
  "nw_env \<Rightarrow> string \<Rightarrow> nw_world \<Rightarrow> (goerr + ibNetwork option \<times> Outcome) \<times> nw_world" where
  "resolveNetworkIdentityUnknownFamily env uid w =
     (case Resolve env (newEmptyNetwork False) [] uid w of
        (Inl err, w1) \<Rightarrow> (Inl err, w1)
      | (Inr (v4, outV4), w1) \<Rightarrow>
          (case Resolve env (newEmptyNetwork True) [] uid w1 of
             (Inl err, w2) \<Rightarrow> (Inl err, w2)
           | (Inr (v6, outV6), w2) \<Rightarrow>
               (let foundV4 = (outV4 = OutcomeFoundByUID); foundV6 = (outV6 = OutcomeFoundByUID) in
                if foundV4 \<and> foundV6 then (Inl (AmbiguousMatchError ''network/ipv6network'' uid 2), w2)
                else if foundV4 then (Inr (v4, OutcomeFoundByUID), w2)
                else if foundV6 then (Inr (v6, OutcomeFoundByUID), w2)
                else (Inr (None, OutcomeNotFound), w2))))"

definition resolveNetworkIdentity ::
  "nw_env \<Rightarrow> string \<Rightarrow> string \<Rightarrow> string option \<Rightarrow> string option \<Rightarrow> nw_world \<Rightarrow>
     (goerr + ibNetwork option \<times> Outcome) \<times> nw_world" where
  "resolveNetworkIdentity env ref uid network parentCidr w =
     (case networkFamily network parentCidr of
        Some isIPv6 \<Rightarrow> Resolve env (newEmptyNetwork isIPv6) ref uid w
      | None \<Rightarrow>
          if ref \<noteq> [] then
            (case Resolve env (newEmptyNetwork False) ref uid w of
               (Inl err, w1) \<Rightarrow> (Inl err, w1)
             | (Inr (obj, outcome), w1) \<Rightarrow>
                 if outcome \<noteq> OutcomeNotFound then (Inr (obj, outcome), w1)
                 else resolveNetworkIdentityUnknownFamily env uid w1)
          else resolveNetworkIdentityUnknownFamily env uid w)"

record Network_observeResult =
  nor_exists :: bool
  nor_nw :: ibNetwork
  nor_obs :: observedNetwork
  nor_lateInit :: bool
  nor_refreshedRef :: string
  nor_adopted :: bool

definition Network_notFoundResult :: Network_observeResult where
  "Network_notFoundResult =
     \<lparr>nor_exists = False, nor_nw = NewNetwork [] [] [] fmempty,
      nor_obs = observeFromNetwork [] (NewNetwork [] [] [] fmempty),
      nor_lateInit = False, nor_refreshedRef = [], nor_adopted = False\<rparr>"

definition observeNetwork ::
  "nw_env \<Rightarrow> string \<Rightarrow> string \<Rightarrow> string \<Rightarrow> string \<Rightarrow> string option \<Rightarrow> network_late \<Rightarrow> nw_world \<Rightarrow>
     (goerr + Network_observeResult) \<times> network_late \<times> nw_world" where
  "observeNetwork env endpoint crName externalName uid parentCidr p w =
     (let ref = Network_observeRefFor crName externalName in
      case resolveNetworkIdentity env ref uid (fst p) parentCidr w of
        (Inl err, w1) \<Rightarrow>
          if IsSearchFailure err then
            (case ensureIdentityPrerequisite env endpoint w1 of
               (Some prereqErr, w2) \<Rightarrow> (Inl prereqErr, p, w2)
             | (None, w2) \<Rightarrow> (Inl err, p, w2))
          else (Inl err, p, w1)
      | (Inr (obj, outcome), w1) \<Rightarrow>
          if outcome = OutcomeNotFound then (Inr Network_notFoundResult, p, w1)
          else
            (case obj of
               None \<Rightarrow> (Inl (TextError Network_nilDereference), p, w1)
             | Some nw \<Rightarrow>
                 (case Network_lateInitialize p nw of (p1, changed) \<Rightarrow>
                    (let found = (outcome = OutcomeRotated \<or> outcome = OutcomeFoundByUID)
                     in (Inr \<lparr>nor_exists = True, nor_nw = nw, nor_obs = observeFromNetwork (nw_Ref nw) nw,
                              nor_lateInit = (if found then True else changed),
                              nor_refreshedRef = (if found then nw_Ref nw else []),
                              nor_adopted = (outcome = OutcomeAdopted)\<rparr>, p1, w1)))))"

definition deleteNetworkIdentity ::
  "nw_env \<Rightarrow> string \<Rightarrow> string \<Rightarrow> string \<Rightarrow> string option \<Rightarrow> string option \<Rightarrow> nw_world \<Rightarrow>
     goerr option \<times> nw_world" where
  "deleteNetworkIdentity env endpoint ref uid network parentCidr w =
     (case resolveNetworkIdentity env ref uid network parentCidr w of
        (Inl err, w1) \<Rightarrow>
          if IsSearchFailure err then
            (case ensureIdentityPrerequisite env endpoint w1 of
               (Some prereqErr, w2) \<Rightarrow> (Some prereqErr, w2)
             | (None, w2) \<Rightarrow> (Some (Wrapped errDeleteNetwork err), w2))
          else (Some (Wrapped errDeleteNetwork err), w1)
      | (Inr (obj, outcome), w1) \<Rightarrow>
          (case outcome of
             OutcomeNotFound \<Rightarrow> (None, w1)
           | OutcomeAdopted \<Rightarrow> (Some (TextError Network_errDeleteUnverifiedOwnership), w1)
           | _ \<Rightarrow>
               (case obj of
                  None \<Rightarrow> (Some (TextError Network_nilDereference), w1)
                | Some nw \<Rightarrow>
                    (case deleteNetwork env (nw_Ref nw) w1 of
                       (None, w2) \<Rightarrow> (None, w2)
                     | (Some delErr, w2) \<Rightarrow>
                         if isNotFound (Some delErr) then (None, w2)
                         else (Some (Wrapped errDeleteNetwork delErr), w2)))))"

section \<open>The external clients\<close>

definition Network_latePart :: "NetworkParameters \<Rightarrow> network_late" where
  "Network_latePart p = (np_Network p, np_Comment p, np_ExtAttrs p)"

definition Network_setLate :: "NetworkParameters \<Rightarrow> network_late \<Rightarrow> NetworkParameters" where
  "Network_setLate p l =
     (case l of (network, comment, extAttrs) \<Rightarrow>
        p\<lparr>np_Network := network, np_Comment := comment, np_ExtAttrs := extAttrs\<rparr>)"

subsection \<open>namespaced.go\<close>

definition namespaced_Network_Observe ::
  "nw_env \<Rightarrow> string \<Rightarrow> NetworkCR \<Rightarrow> nw_world \<Rightarrow> (goerr + ExternalObservation) \<times> NetworkCR \<times> nw_world" where
  "namespaced_Network_Observe env endpoint cr w =
     (case observeNetwork env endpoint (mo_name cr) (GetExternalName cr) (mo_uid cr)
             (np_ParentCidr (nc_ForProvider cr)) (Network_latePart (nc_ForProvider cr)) w of
        (Inl err, l, w1) \<Rightarrow>
          (let cr1 = cr\<lparr>nc_ForProvider := Network_setLate (nc_ForProvider cr) l\<rparr> in
           if errors_as is_PrerequisiteError err then (Inl err, cr1, w1)
           else (Inl (Wrapped errObserveNetwork err), cr1, w1))
      | (Inr res, l, w1) \<Rightarrow>
          (let p = Network_setLate (nc_ForProvider cr) l;
               cr1 = cr\<lparr>nc_ForProvider := p\<rparr> in
           if \<not> nor_exists res then (Inr notExists, cr1, w1)
           else
             (let cr2 = cr1\<lparr>nc_AtProvider := nor_obs res\<rparr>;
                  cr3 = (if nor_refreshedRef res \<noteq> [] then SetExternalName (nor_refreshedRef res) cr2 else cr2);
                  cr4 = SetAvailable cr3;
                  upToDate = (Network_isUpToDate (np_Comment p) (np_ExtAttrs p) (nor_nw res) \<and> \<not> nor_adopted res)
              in (Inr \<lparr>ResourceExists = True, ResourceUpToDate = upToDate,
                       ResourceLateInitialized = nor_lateInit res\<rparr>, cr4, w1))))"

definition namespaced_Network_Create ::
  "nw_env \<Rightarrow> string \<Rightarrow> NetworkCR \<Rightarrow> nw_world \<Rightarrow> goerr option \<times> NetworkCR \<times> nw_world" where
  "namespaced_Network_Create env endpoint cr w =
     (let uid = mo_uid cr in
      if trim_space uid = [] then (Some (TextError Network_errEmptyUID), cr, w)
      else
        (case ensureIdentityPrerequisite env endpoint w of
           (Some err, w1) \<Rightarrow> (Some err, cr, w1)
         | (None, w1) \<Rightarrow>
             (case createOrAllocateNetwork env (nc_ForProvider cr) uid w1 of
                (Inl err, w2) \<Rightarrow> (Some (Wrapped errCreateNetwork err), cr, w2)
              | (Inr nw, w2) \<Rightarrow> (None, SetExternalName (nw_Ref nw) cr, w2))))"

definition namespaced_Network_Update ::
  "nw_env \<Rightarrow> string \<Rightarrow> NetworkCR \<Rightarrow> nw_world \<Rightarrow> goerr option \<times> NetworkCR \<times> nw_world" where
  "namespaced_Network_Update env endpoint cr w =
     (let p = nc_ForProvider cr; externalID = GetExternalName cr in
      case ensureIdentityPrerequisite env endpoint w of
        (Some err, w1) \<Rightarrow> (Some err, cr, w1)
      | (None, w1) \<Rightarrow>
          (case updateNetwork env externalID (np_Comment p) (np_ExtAttrs p) (mo_uid cr) w1 of
             (Some err, w2) \<Rightarrow> (Some (Wrapped errUpdateNetwork err), cr, w2)
           | (None, w2) \<Rightarrow> (None, cr, w2)))"

definition namespaced_Network_Delete ::
  "nw_env \<Rightarrow> string \<Rightarrow> NetworkCR \<Rightarrow> nw_world \<Rightarrow> goerr option \<times> nw_world" where
  "namespaced_Network_Delete env endpoint cr w =
     (let p = nc_ForProvider cr; externalID = GetExternalName cr in
      case deleteNetworkIdentity env endpoint externalID (mo_uid cr) (np_Network p) (np_ParentCidr p) w of
        (Some err, w1) \<Rightarrow> (Some err, w1)
      | (None, w1) \<Rightarrow> (None, w1))"

subsection \<open>cluster.go\<close>

definition cluster_Network_Observe ::
  "nw_env \<Rightarrow> string \<Rightarrow> NetworkCR \<Rightarrow> nw_world \<Rightarrow> (goerr + ExternalObservation) \<times> NetworkCR \<times> nw_world" where
  "cluster_Network_Observe env endpoint cr w =
     (case observeNetwork env endpoint (mo_name cr) (GetExternalName cr) (mo_uid cr)
             (np_ParentCidr (nc_ForProvider cr)) (Network_latePart (nc_ForProvider cr)) w of
        (Inl err, l, w1) \<Rightarrow>
          (let cr1 = cr\<lparr>nc_ForProvider := Network_setLate (nc_ForProvider cr) l\<rparr> in
           if errors_as is_PrerequisiteError err then (Inl err, cr1, w1)
           else (Inl (Wrapped errObserveNetwork err), cr1, w1))
      | (Inr res, l, w1) \<Rightarrow>
          (let p = Network_setLate (nc_ForProvider cr) l;
               cr1 = cr\<lparr>nc_ForProvider := p\<rparr> in
           if \<not> nor_exists res then (Inr notExists, cr1, w1)
           else
             (let cr2 = cr1\<lparr>nc_AtProvider := nor_obs res\<rparr>;
                  cr3 = (if nor_refreshedRef res \<noteq> [] then SetExternalName (nor_refreshedRef res) cr2 else cr2);
                  cr4 = SetAvailable cr3;
                  upToDate = (Network_isUpToDate (np_Comment p) (np_ExtAttrs p) (nor_nw res) \<and> \<not> nor_adopted res)
              in (Inr \<lparr>ResourceExists = True, ResourceUpToDate = upToDate,
                       ResourceLateInitialized = nor_lateInit res\<rparr>, cr4, w1))))"

definition cluster_Network_Create ::
  "nw_env \<Rightarrow> string \<Rightarrow> NetworkCR \<Rightarrow> nw_world \<Rightarrow> goerr option \<times> NetworkCR \<times> nw_world" where
  "cluster_Network_Create env endpoint cr w =
     (let uid = mo_uid cr in
      if trim_space uid = [] then (Some (TextError Network_errEmptyUID), cr, w)
      else
        (case ensureIdentityPrerequisite env endpoint w of
           (Some err, w1) \<Rightarrow> (Some err, cr, w1)
         | (None, w1) \<Rightarrow>
             (case createOrAllocateNetwork env (nc_ForProvider cr) uid w1 of
                (Inl err, w2) \<Rightarrow> (Some (Wrapped errCreateNetwork err), cr, w2)
              | (Inr nw, w2) \<Rightarrow> (None, SetExternalName (nw_Ref nw) cr, w2))))"

definition cluster_Network_Update ::
  "nw_env \<Rightarrow> string \<Rightarrow> NetworkCR \<Rightarrow> nw_world \<Rightarrow> goerr option \<times> NetworkCR \<times> nw_world" where
  "cluster_Network_Update env endpoint cr w =
     (let p = nc_ForProvider cr; externalID = GetExternalName cr in
      case ensureIdentityPrerequisite env endpoint w of
        (Some err, w1) \<Rightarrow> (Some err, cr, w1)
      | (None, w1) \<Rightarrow>
          (case updateNetwork env externalID (np_Comment p) (np_ExtAttrs p) (mo_uid cr) w1 of
             (Some err, w2) \<Rightarrow> (Some (Wrapped errUpdateNetwork err), cr, w2)
           | (None, w2) \<Rightarrow> (None, cr, w2)))"

definition cluster_Network_Delete ::
  "nw_env \<Rightarrow> string \<Rightarrow> NetworkCR \<Rightarrow> nw_world \<Rightarrow> goerr option \<times> nw_world" where
  "cluster_Network_Delete env endpoint cr w =
     (let p = nc_ForProvider cr; externalID = GetExternalName cr in
      case deleteNetworkIdentity env endpoint externalID (mo_uid cr) (np_Network p) (np_ParentCidr p) w of
        (Some err, w1) \<Rightarrow> (Some err, w1)
      | (None, w1) \<Rightarrow> (None, w1))"

end
