(* ===== verification/TwoTypes.thy ===== *)
theory TwoTypes
  imports LadderClient
begin

text \<open>
  Resources that WAPI keeps under two object types, one per address family, as internal/controller/network
  and internal/controller/networkcontainer find them: under the type of the spec's CIDR when it has one, and
  otherwise by the recorded reference and a search of both types.
\<close>

definition both_types_shape ::
  "(bool \<Rightarrow> 'o objtype) \<Rightarrow> string \<Rightarrow> ('o, 'm) wapi \<Rightarrow> string \<Rightarrow> 'm world \<Rightarrow>
     (goerr + 'o option \<times> Outcome) \<times> 'm world" where
  "both_types_shape newEmpty both env uid w =
     (case Resolve env (newEmpty False) [] uid w of
        (Inl err, w1) \<Rightarrow> (Inl err, w1)
      | (Inr (v4, outV4), w1) \<Rightarrow>
          (case Resolve env (newEmpty True) [] uid w1 of
             (Inl err, w2) \<Rightarrow> (Inl err, w2)
           | (Inr (v6, outV6), w2) \<Rightarrow>
               (let foundV4 = (outV4 = OutcomeFoundByUID); foundV6 = (outV6 = OutcomeFoundByUID) in
                if foundV4 \<and> foundV6 then (Inl (AmbiguousMatchError both uid 2), w2)
                else if foundV4 then (Inr (v4, OutcomeFoundByUID), w2)
                else if foundV6 then (Inr (v6, OutcomeFoundByUID), w2)
                else (Inr (None, OutcomeNotFound), w2))))"

definition family_shape ::
  "(bool \<Rightarrow> 'o objtype) \<Rightarrow> (string \<Rightarrow> 'm world \<Rightarrow> (goerr + 'o option \<times> Outcome) \<times> 'm world) \<Rightarrow>
     ('o, 'm) wapi \<Rightarrow> string \<Rightarrow> string \<Rightarrow> bool option \<Rightarrow> 'm world \<Rightarrow> (goerr + 'o option \<times> Outcome) \<times> 'm world" where
  "family_shape newEmpty unknown env ref uid fam w =
     (case fam of
        Some isIPv6 \<Rightarrow> Resolve env (newEmpty isIPv6) ref uid w
      | None \<Rightarrow>
          if ref \<noteq> [] then
            (case Resolve env (newEmpty False) ref uid w of
               (Inl err, w1) \<Rightarrow> (Inl err, w1)
             | (Inr (obj, outcome), w1) \<Rightarrow>
                 if outcome \<noteq> OutcomeNotFound then (Inr (obj, outcome), w1)
                 else unknown uid w1)
          else unknown uid w)"

text \<open>The types searched before "not found" and the type a recorded reference is read under.\<close>

definition family_types :: "(bool \<Rightarrow> 'o objtype) \<Rightarrow> bool option \<Rightarrow> string set" where
  "family_types newEmpty fam =
     (case fam of Some b \<Rightarrow> {ot_name (newEmpty b)} | None \<Rightarrow> {ot_name (newEmpty False), ot_name (newEmpty True)})"

definition family_kind :: "(bool \<Rightarrow> 'o objtype) \<Rightarrow> bool option \<Rightarrow> string" where
  "family_kind newEmpty fam = ot_name (newEmpty (fam = Some True))"

definition both_sound :: "(bool \<Rightarrow> 'o objtype) \<Rightarrow> ('o, 'm) wapi \<Rightarrow> bool" where
  "both_sound newEmpty env \<longleftrightarrow> search_sound env (newEmpty False) \<and> search_sound env (newEmpty True)"

lemma searched_empty_append: "searched_empty env ty uid log \<Longrightarrow> searched_empty env ty uid (log @ t)"
  by (fastforce simp: searched_empty_def)

lemma Resolve_NotFound_searched:
  assumes "Resolve env T ref uid w = (Inr (x, OutcomeNotFound), w')"
  shows "x = None" "searched_empty env (ot_name T) uid (calls w')"
    "ref \<noteq> [] \<Longrightarrow> \<exists>err. wapi_get env (calls w) (ot_name T) ref = Inl err \<and> isNotFound (Some err)"
proof -
  note nf = Resolve_NotFound_search [OF assms]
  then show "x = None" by blast
  from nf obtain h where "calls w' = h @ CSearch (ot_name T) (uid_query (trim_space uid)) # []"
      "wapi_search env h (ot_name T) (uid_query (trim_space uid)) = Inr [] \<or>
       (\<exists>err. wapi_search env h (ot_name T) (uid_query (trim_space uid)) = Inl err \<and> isNotFound (Some err))"
    by blast
  then show "searched_empty env (ot_name T) uid (calls w')" unfolding searched_empty_def by blast
  show "\<exists>err. wapi_get env (calls w) (ot_name T) ref = Inl err \<and> isNotFound (Some err)" if "ref \<noteq> []"
    using nf that by blast
qed

locale two_types =
  fixes newEmpty :: "bool \<Rightarrow> 'o objtype" and both :: string and stamp :: "'o \<Rightarrow> string option"
    and unknown :: "('o, 'm) wapi \<Rightarrow> string \<Rightarrow> 'm world \<Rightarrow> (goerr + 'o option \<times> Outcome) \<times> 'm world"
  assumes unknown_shape: "unknown env uid w = both_types_shape newEmpty both env uid w"
    and typed: "ref_ea_shape (newEmpty b)" "stamped (newEmpty b) x = stamp x"
begin

lemma sound_type: "both_sound newEmpty env \<Longrightarrow> search_sound env (newEmpty b)"
  by (cases b) (simp_all add: both_sound_def)

lemma known [simp]: "family_shape newEmpty (unknown env) env ref uid (Some b) = Resolve env (newEmpty b) ref uid"
  by (simp add: fun_eq_iff family_shape_def)

text \<open>The search of both types, step by step.\<close>

lemma unknown_cases:
  assumes "unknown env uid w = (r, w')"
  obtains (failed) err where "r = Inl err"
  | (absent) w1 x4 x6 where "r = Inr (None, OutcomeNotFound)"
      "Resolve env (newEmpty False) [] uid w = (Inr (x4, OutcomeNotFound), w1)"
      "Resolve env (newEmpty True) [] uid w1 = (Inr (x6, OutcomeNotFound), w')"
  | (found) x b w0 w1 where "r = Inr (Some x, OutcomeFoundByUID)" "extends w1 w'"
      "Resolve env (newEmpty b) [] uid w0 = (Inr (Some x, OutcomeFoundByUID), w1)"
proof -
  obtain r4 w1 where r4: "Resolve env (newEmpty False) [] uid w = (r4, w1)"
    by (cases "Resolve env (newEmpty False) [] uid w")
  obtain r6 w2 where r6: "Resolve env (newEmpty True) [] uid w1 = (r6, w2)"
    by (cases "Resolve env (newEmpty True) [] uid w1")
  show ?thesis
  proof (cases "\<exists>err. r = Inl err")
    case True
    then show ?thesis using failed by blast
  next
    case False
    then obtain v4 o4 v6 o6 where v: "r4 = Inr (v4, o4)" "r6 = Inr (v6, o6)"
      using assms r4 r6 by (auto simp: unknown_shape both_types_shape_def split: sum.splits)
    have w': "w' = w2"
      using assms False r4 r6 v by (auto simp: unknown_shape both_types_shape_def Let_def split: if_splits)
    have out: "o1 \<in> {OutcomeFoundByUID, OutcomeNotFound}"
      if "Resolve env (newEmpty b) [] uid w0 = (Inr (x, o1), w3)" for b w0 x o1 w3
      using that typed(1) [of b] resolveBySearch_cases [of env "newEmpty b" "[]" "trim_space uid" w0 x o1 w3]
      by (auto simp: Resolve_def Let_def split: sum.splits if_splits)
    have ext: "extends w1 w2" using Resolve_extends [of w1 env "newEmpty True" "[]" uid] r6 by simp
    consider "o4 = OutcomeFoundByUID" "o6 \<noteq> OutcomeFoundByUID" | "o6 = OutcomeFoundByUID" "o4 \<noteq> OutcomeFoundByUID"
      | "o4 = OutcomeNotFound" "o6 = OutcomeNotFound"
      using out [OF r4 [unfolded v]] out [OF r6 [unfolded v]] assms False r4 r6 v
      by (auto simp: unknown_shape both_types_shape_def Let_def)
    then show ?thesis
    proof cases
      case 1
      then obtain x where "v4 = Some x" using Resolve_Some [of env] r4 v by (metis Outcome.distinct)
      with 1 found [of x w1 False w] assms r4 r6 v w' ext show ?thesis
        by (simp add: unknown_shape both_types_shape_def)
    next
      case 2
      then obtain x where "v6 = Some x" using Resolve_Some [of env] r6 v by (metis Outcome.distinct)
      with 2 found [of x w2 True w1] assms r4 r6 v w' show ?thesis
        by (simp add: unknown_shape both_types_shape_def)
    next
      case 3
      with absent [of v4 w1 v6] assms r4 r6 v w' show ?thesis
        by (simp add: unknown_shape both_types_shape_def)
    qed
  qed
qed

lemma unknown_quiet:
  "mutations (snd (unknown env uid w)) = mutations w" "extends w (snd (unknown env uid w))"
proof -
  obtain r4 w1 where r4: "Resolve env (newEmpty False) [] uid w = (r4, w1)"
    by (cases "Resolve env (newEmpty False) [] uid w")
  obtain r6 w2 where r6: "Resolve env (newEmpty True) [] uid w1 = (r6, w2)"
    by (cases "Resolve env (newEmpty True) [] uid w1")
  have m: "mutations w1 = mutations w" "mutations w2 = mutations w1"
    using Resolve_mutations [of env "newEmpty False" "[]" uid w] Resolve_mutations [of env "newEmpty True" "[]" uid w1]
      r4 r6 by simp_all
  have e: "extends w w1" "extends w1 w2"
    using Resolve_extends [of w env "newEmpty False" "[]" uid] Resolve_extends [of w1 env "newEmpty True" "[]" uid]
      r4 r6 by simp_all
  have "snd (unknown env uid w) \<in> {w1, w2}"
    using r4 r6 by (auto simp: unknown_shape both_types_shape_def Let_def split: sum.split)
  then show "mutations (snd (unknown env uid w)) = mutations w" "extends w (snd (unknown env uid w))"
    using m e extends_trans by auto
qed

text \<open>A resolution is one of the ladder under a type, or of the search of both.\<close>

lemma family_parts:
  assumes "family_shape newEmpty (unknown env) env ref uid fam w = (r, w')"
  obtains (one) b where "fam \<in> {Some b, None}" "fam = None \<Longrightarrow> b = False \<and> ref \<noteq> []"
      "Resolve env (newEmpty b) ref uid w = (r, w')"
      "fam = None \<Longrightarrow> \<forall>obj. r \<noteq> Inr (obj, OutcomeNotFound)"
  | (two) w0 where "fam = None" "unknown env uid w0 = (r, w')" "extends w w0" "mutations w0 = mutations w"
      "ref \<noteq> [] \<Longrightarrow> \<exists>obj. Resolve env (newEmpty False) ref uid w = (Inr (obj, OutcomeNotFound), w0)"
proof (cases fam)
  case (Some b)
  then show ?thesis using one [of b] assms by simp
next
  case None
  show ?thesis
  proof (cases "ref = []")
    case True
    then show ?thesis
      using two [of w] None assms by (simp add: family_shape_def)
  next
    case False
    obtain r1 w1 where r1: "Resolve env (newEmpty False) ref uid w = (r1, w1)"
      by (cases "Resolve env (newEmpty False) ref uid w")
    show ?thesis
    proof (cases "\<exists>obj. r1 = Inr (obj, OutcomeNotFound)")
      case True
      then have "unknown env uid w1 = (r, w')"
        using None False assms r1 by (auto simp: family_shape_def)
      with True show ?thesis
        using two [of w1] None False r1 Resolve_extends [of w env "newEmpty False" ref uid]
          Resolve_mutations [of env "newEmpty False" ref uid w] by auto
    next
      case no: False
      then have "r = r1" "w' = w1"
        using None False assms r1
        by (auto simp: family_shape_def split: sum.splits if_splits)
      with no show ?thesis using one [of False] None False r1 by auto
    qed
  qed
qed

lemma family_quiet:
  "mutations (snd (family_shape newEmpty (unknown env) env ref uid fam w)) = mutations w" "extends w (snd (family_shape newEmpty (unknown env) env ref uid fam w))"
proof -
  obtain r w' where r: "family_shape newEmpty (unknown env) env ref uid fam w = (r, w')" by (cases "family_shape newEmpty (unknown env) env ref uid fam w")
  then have "mutations w' = mutations w \<and> extends w w'"
  proof (cases rule: family_parts)
    case (one b)
    then show ?thesis
      using Resolve_mutations [of env "newEmpty b" ref uid w] Resolve_extends [of w env "newEmpty b" ref uid] by simp
  next
    case (two w0)
    then show ?thesis using unknown_quiet [where env = env and uid = uid and w = w0] extends_trans by auto
  qed
  with r show "mutations (snd (family_shape newEmpty (unknown env) env ref uid fam w)) = mutations w" "extends w (snd (family_shape newEmpty (unknown env) env ref uid fam w))"
    by simp_all
qed

text \<open>An answer other than "not found" is an answer of the ladder under one of the types.\<close>

lemma family_found:
  assumes "family_shape newEmpty (unknown env) env ref uid fam w = (Inr (obj, out), w')" and "out \<noteq> OutcomeNotFound"
  obtains x b ref0 w0 w1 where "obj = Some x" "Resolve env (newEmpty b) ref0 uid w0 = (Inr (Some x, out), w1)" "extends w1 w'"
  using assms(1)
proof (cases rule: family_parts)
  case (one b)
  obtain x where "obj = Some x" using Resolve_Some [OF one(3) assms(2)] .
  with one that [of x b ref w w'] show ?thesis by simp
next
  case (two w0)
  from two(2) show ?thesis
    by (cases rule: unknown_cases) (use assms(2) that in auto)
qed

lemma family_some:
  "family_shape newEmpty (unknown env) env ref uid fam w = (Inr (obj, out), w') \<Longrightarrow> out \<noteq> OutcomeNotFound \<Longrightarrow> obj \<noteq> None"
  by (erule family_found) simp_all

lemma family_NotFound:
  assumes "family_shape newEmpty (unknown env) env ref uid fam w = (Inr (obj, OutcomeNotFound), w')"
  shows "obj = None \<and> (\<forall>ty \<in> family_types newEmpty fam. searched_empty env ty uid (calls w')) \<and>
    (ref \<noteq> [] \<longrightarrow> (\<exists>err. wapi_get env (calls w) (family_kind newEmpty fam) ref = Inl err \<and> isNotFound (Some err)))"
  using assms
proof (cases rule: family_parts)
  case (one b)
  note nf = Resolve_NotFound_searched [OF one(3)]
  from one(4) have "fam = Some b" using one(1) by (cases fam) auto
  with nf show ?thesis by (cases b) (auto simp: family_types_def family_kind_def)
next
  case (two w0)
  from two(2) show ?thesis
  proof (cases rule: unknown_cases)
    case (absent w1 x4 x6)
    have "extends w1 w'" using Resolve_extends [of w1 env "newEmpty True" "[]" uid] absent(3) by simp
    then have "searched_empty env (ot_name (newEmpty False)) uid (calls w')"
      using Resolve_NotFound_searched(2) [OF absent(2)] by (auto simp: extends_def intro: searched_empty_append)
    moreover have "\<exists>err. wapi_get env (calls w) (family_kind newEmpty fam) ref = Inl err \<and> isNotFound (Some err)"
      if "ref \<noteq> []"
      using two(1,5) that Resolve_NotFound_searched(3) [of env "newEmpty False" ref uid w] by (auto simp: family_kind_def)
    ultimately show ?thesis
      using absent(1) two(1) Resolve_NotFound_searched(2) [OF absent(3)] by (auto simp: family_types_def)
  qed simp_all
qed

lemma family_absent:
  assumes "family_shape newEmpty (unknown env) env ref uid fam w = (Inr (obj, OutcomeNotFound), w')"
  shows "obj = None" "\<forall>ty \<in> family_types newEmpty fam. searched_empty env ty uid (calls w')"
    "ref \<noteq> [] \<longrightarrow> (\<exists>err. wapi_get env (calls w) (family_kind newEmpty fam) ref = Inl err \<and> isNotFound (Some err))"
  using family_NotFound [OF assms] by blast+

lemma family_owner:
  assumes "family_shape newEmpty (unknown env) env ref uid fam w = (Inr (Some x, out), w')" and "both_sound newEmpty env"
  shows "out = OutcomeAdopted \<and> stamp x = None \<or> stamp x = Some (trim_space uid)"
proof -
  have "out \<noteq> OutcomeNotFound" using family_absent(1) assms(1) by blast
  with assms(1) obtain b ref0 w0 w1 where r: "Resolve env (newEmpty b) ref0 uid w0 = (Inr (Some x, out), w1)"
    by (elim family_found) auto
  show ?thesis using Resolve_owner [OF r sound_type [OF assms(2)]] by (simp add: typed(2))
qed

lemma family_shown:
  assumes "family_shape newEmpty (unknown env) env ref uid fam w = (Inr (Some x, out), w')"
  shows "\<exists>h t. calls w' = h @ t \<and> (\<exists>ty \<in> {ot_name (newEmpty False), ot_name (newEmpty True)}.
    (\<exists>r. wapi_get env h ty r = Inr x) \<or> wapi_search env h ty (uid_query (trim_space uid)) = Inr [x])"
proof -
  have "out \<noteq> OutcomeNotFound" using family_absent(1) assms(1) by blast
  with assms(1) obtain b ref0 w0 w1 where r: "Resolve env (newEmpty b) ref0 uid w0 = (Inr (Some x, out), w1)"
    and e: "extends w1 w'"
    by (elim family_found) auto
  obtain h t where "calls w1 = h @ t" "(\<exists>r. wapi_get env h (ot_name (newEmpty b)) r = Inr x) \<or>
      wapi_search env h (ot_name (newEmpty b)) (uid_query (trim_space uid)) = Inr [x]"
    using Resolve_seen [OF r] .
  moreover have "ot_name (newEmpty b) \<in> {ot_name (newEmpty False), ot_name (newEmpty True)}" by (cases b) simp_all
  moreover obtain cs where "calls w' = calls w1 @ cs" using e by (auto simp: extends_def)
  ultimately have "calls w' = h @ (t @ cs) \<and> (\<exists>ty \<in> {ot_name (newEmpty False), ot_name (newEmpty True)}.
      (\<exists>r. wapi_get env h ty r = Inr x) \<or> wapi_search env h ty (uid_query (trim_space uid)) = Inr [x])"
    by auto
  then show ?thesis by blast
qed

lemma family_read:
  assumes "wapi_get env (calls w) (family_kind newEmpty fam) ref = Inr x" and "ref \<noteq> []" and "stamp x = Some uid"
    and "trim_space uid = uid" and "uid \<noteq> []"
  shows "family_shape newEmpty (unknown env) env ref uid fam w = (Inr (Some x, OutcomeResolved), log_call (CGet (family_kind newEmpty fam) ref) w)"
proof -
  have read: "Resolve env (newEmpty b) ref uid w = (Inr (Some x, OutcomeResolved), log_call (CGet (ot_name (newEmpty b)) ref) w)"
    if "wapi_get env (calls w) (ot_name (newEmpty b)) ref = Inr x" for b
  proof -
    have "resolveByRef env (newEmpty b) ref uid w = (Some (Inr (Some x, OutcomeResolved)), log_call (CGet (ot_name (newEmpty b)) ref) w)"
      using that assms(3) typed(2) [of b x] by (simp add: resolveByRef_def get_object_def stamped_def split: sum.splits)
    with assms typed(1) show ?thesis by (simp add: Resolve_unfold)
  qed
  show ?thesis
  proof (cases fam)
    case (Some b)
    with read [of b] assms(1) show ?thesis by (cases b) (simp_all add: family_kind_def)
  next
    case None
    with read [of False] assms(1,2) show ?thesis
      by (simp add: family_kind_def family_shape_def)
  qed
qed

text \<open>
  An object under each type is refused as ambiguous when no reference is recorded; a recorded reference
  that gives a 404 hides the second one: one match under the first type is taken at once.
\<close>

lemma both_found:
  assumes "Resolve env (newEmpty False) [] uid w = (Inr (Some x4, OutcomeFoundByUID), w1)"
    and "Resolve env (newEmpty True) [] uid w1 = (Inr (Some x6, OutcomeFoundByUID), w2)"
  shows "family_shape newEmpty (unknown env) env [] uid None w = (Inl (AmbiguousMatchError both uid 2), w2)"
  using assms by (simp add: family_shape_def unknown_shape both_types_shape_def)

lemma stale_ref_skips_second:
  assumes "trim_space uid \<noteq> []" and "ref \<noteq> []" and n: "ot_name (newEmpty False) = ty"
    and "wapi_get env (calls w) ty ref = Inl err" and "isNotFound (Some err)"
    and "wapi_search env (calls w @ [CGet ty ref]) ty (uid_query (trim_space uid)) = Inr [x]"
  shows "fst (family_shape newEmpty (unknown env) env ref uid None w) = Inr (Some x, OutcomeRotated) \<and>
    calls (snd (family_shape newEmpty (unknown env) env ref uid None w)) = calls w @ [CGet ty ref, CSearch ty (uid_query (trim_space uid))]"
proof -
  have "Resolve env (newEmpty False) ref uid w =
      (Inr (Some x, OutcomeRotated),
       count_metric RefMissRecoveries ty
         (log_call (CSearch ty (uid_query (trim_space uid))) (log_call (CGet ty ref) w)))"
    using assms typed(1)
    by (simp add: Resolve_unfold resolveByRef_def get_object_def resolveBySearch_def searchByUID_def
        search_objects_def)
  with assms(2) show ?thesis by (simp add: family_shape_def)
qed

end

text \<open>The resolution of a resource whose spec says, with \<open>family\<close>, which type it is under.\<close>

locale two_type_resolution = two_types +
  fixes family :: "'c mobj_scheme \<Rightarrow> bool option" and resolve_cr :: "('a, 'b, 'c) resolve_op"
  assumes resolve_cr: "resolve_cr env cr ref = family_shape newEmpty (unknown env) env ref (mo_uid cr) (family cr)"

sublocale two_type_resolution \<subseteq> resolution resolve_cr "both_sound newEmpty" stamp
  "{ot_name (newEmpty False), ot_name (newEmpty True)}" "\<lambda>cr. family_types newEmpty (family cr)"
  "\<lambda>cr. family_kind newEmpty (family cr)"
proof (unfold_locales, goal_cases)
  case (3 env cr ref w obj out w1)
  then show ?case unfolding resolve_cr by (rule family_some)
next
  case (6 env cr ref w obj w1)
  then show ?case unfolding resolve_cr by (rule family_NotFound)
next
  case (7 env w cr ref x)
  then show ?case unfolding resolve_cr by (intro family_read)
qed (simp_all only: resolve_cr family_quiet family_owner family_shown)

end
