(* ===== verification/NetworkSpec.thy ===== *)
theory NetworkSpec
  imports Network TwoTypes
begin

text \<open>
  What the Network controller guarantees, above all about its two object types:
  that the type a network is created under is the one it is searched under, and
  what the search over both types does.
\<close>

section \<open>The two scopes agree\<close>

lemma cluster_Network_Observe_eq: "cluster_Network_Observe = namespaced_Network_Observe"
  by (intro ext) (simp only: cluster_Network_Observe_def namespaced_Network_Observe_def)

lemma cluster_Network_Create_eq: "cluster_Network_Create = namespaced_Network_Create"
  by (intro ext) (simp only: cluster_Network_Create_def namespaced_Network_Create_def)

lemma cluster_Network_Update_eq: "cluster_Network_Update = namespaced_Network_Update"
  by (intro ext) (simp only: cluster_Network_Update_def namespaced_Network_Update_def)

lemma cluster_Network_Delete_eq: "cluster_Network_Delete = namespaced_Network_Delete"
  by (intro ext) (simp only: cluster_Network_Delete_def namespaced_Network_Delete_def)

lemmas Network_scopes = cluster_Network_Observe_eq cluster_Network_Create_eq
  cluster_Network_Update_eq cluster_Network_Delete_eq

section \<open>Late initialisation\<close>

definition Network_utd :: "network_late \<Rightarrow> ibNetwork \<Rightarrow> bool" where
  "Network_utd l nw = (case l of (network, comment, extAttrs) \<Rightarrow> Network_isUpToDate comment extAttrs nw)"

definition Network_keeps :: "network_late \<Rightarrow> network_late \<Rightarrow> bool" where
  "Network_keeps l l' =
     (case (l, l') of ((n, c, a), (n', c', a')) \<Rightarrow>
        (n = None \<or> n' = n) \<and> (c = None \<or> c' = c) \<and> (a = fmempty \<or> a' = a))"

lemma late_text:
  "(if x = None \<and> s \<noteq> [] then Some s else x) = (if x = None then ptrIfNonEmpty s else x)"
  "((if x = None then ptrIfNonEmpty s else x) \<noteq> x) = (x = None \<and> s \<noteq> [])"
  "(ptrIfNonEmpty s \<noteq> None) = (s \<noteq> [])"
  by (auto simp: ptrIfNonEmpty_def)

lemma Network_lateInitialize_eq:
  "Network_lateInitialize (n, c, a) nw =
     (let n1 = (if n = None then ptrIfNonEmpty (nw_Cidr nw) else n);
          c1 = (if c = None then ptrIfNonEmpty (nw_Comment nw) else c);
          a1 = (if a = fmempty then userAttrs (nw_Ea nw) else a)
      in ((n1, c1, a1), (n1, c1, a1) \<noteq> (n, c, a)))"
  by (simp only: Network_lateInitialize_def userAttrs_def [symmetric] Let_def case_prod_conv late_steps
      late_text prod.inject late_changed simp_thms de_Morgan_conj disj_ac)

interpretation network_late: late_init Network_lateInitialize Network_utd Network_keeps
proof
  fix l :: network_late and x :: ibNetwork
  obtain n c a where l: "l = (n, c, a)" by (cases l) auto
  show "Network_lateInitialize (fst (Network_lateInitialize l x)) x = (fst (Network_lateInitialize l x), False)"
    by (simp add: l Network_lateInitialize_eq Let_def)
  show "snd (Network_lateInitialize l x) \<longleftrightarrow> fst (Network_lateInitialize l x) \<noteq> l"
    by (simp add: l Network_lateInitialize_eq Let_def)
  show "Network_keeps l (fst (Network_lateInitialize l x))"
    by (simp add: l Network_lateInitialize_eq Let_def Network_keeps_def)
  show "Network_utd (fst (Network_lateInitialize l x)) x" if "Network_utd l x"
    using that
    by (auto simp: l Network_lateInitialize_eq Let_def Network_utd_def Network_isUpToDate_def
        extAttrsEqual_iff userAttrs_def split: if_splits)
qed

section \<open>The ladder over two types\<close>

lemma Network_shape [simp]: "ref_ea_shape (newEmptyNetwork b)"
  by (simp add: ref_ea_shape_def newEmptyNetwork_def reflectNetwork_def getRef_def getEA_def)

lemma stamped_Network [simp]: "stamped (newEmptyNetwork b) x = eaValue (nw_Ea x) EAKey"
  by (simp add: stamped_def newEmptyNetwork_def reflectNetwork_def getEA_def)

lemma Network_ot_name [simp]: "ot_name (newEmptyNetwork b) = (if b then ''ipv6network'' else ''network'')"
  by (simp add: newEmptyNetwork_def)

definition network_family :: "NetworkCR \<Rightarrow> bool option" where
  "network_family cr = networkFamily (np_Network (nc_ForProvider cr)) (np_ParentCidr (nc_ForProvider cr))"

lemma resolveNetworkIdentity_eq:
  "resolveNetworkIdentity env ref uid network parent =
     family_shape newEmptyNetwork (resolveNetworkIdentityUnknownFamily env) env ref uid (networkFamily network parent)"
  by (intro ext) (simp only: resolveNetworkIdentity_def family_shape_def)

definition network_resolve :: "nw_env \<Rightarrow> NetworkCR \<Rightarrow> string \<Rightarrow> nw_world \<Rightarrow> (goerr + ibNetwork option \<times> Outcome) \<times> nw_world" where
  "network_resolve env cr ref =
     resolveNetworkIdentity env ref (mo_uid cr) (np_Network (nc_ForProvider cr)) (np_ParentCidr (nc_ForProvider cr))"

interpretation network_types: two_type_resolution newEmptyNetwork "''network/ipv6network''"
  "\<lambda>x. eaValue (nw_Ea x) EAKey" resolveNetworkIdentityUnknownFamily network_family network_resolve
  by unfold_locales (simp_all only: resolveNetworkIdentityUnknownFamily_def both_types_shape_def Network_shape
      stamped_Network network_resolve_def resolveNetworkIdentity_eq network_family_def)

text \<open>
  Without a CIDR in the spec and without a recorded reference both object types are
  searched. The answer "not found" means that neither search found an object stamped with
  the uid, and an object under each type is refused as ambiguous.
\<close>

theorem unknown_family_both_searched:
  assumes "networkFamily network parent = None"
    and "resolveNetworkIdentity env [] uid network parent w = (r, w')"
  shows "(\<forall>obj. r = Inr (obj, OutcomeNotFound) \<longrightarrow>
      (\<forall>ty \<in> {''network'', ''ipv6network''}. searched_empty env ty uid (calls w'))) \<and>
    (\<forall>x4 x6 w1 w2. Resolve env (newEmptyNetwork False) [] uid w = (Inr (Some x4, OutcomeFoundByUID), w1) \<longrightarrow>
       Resolve env (newEmptyNetwork True) [] uid w1 = (Inr (Some x6, OutcomeFoundByUID), w2) \<longrightarrow>
       r = Inl (AmbiguousMatchError ''network/ipv6network'' uid 2))"
  using assms network_types.family_absent(2) [of env "[]" uid None w _ w'] network_types.both_found [of env uid w]
  by (auto simp: resolveNetworkIdentity_eq family_types_def)

text \<open>
  With a recorded reference that gives a 404 and no CIDR in the spec, one match of the
  IPv4 search is taken as the rotated object at once; the IPv6 objects are not searched, so a
  second object stamped with the uid there is not noticed.
\<close>

theorem unknown_family_ref_skips_v6:
  assumes "networkFamily network parent = None" and "trim_space uid \<noteq> []" and "ref \<noteq> []"
    and "wapi_get env (calls w) ''network'' ref = Inl err" and "isNotFound (Some err)"
    and "wapi_search env (calls w @ [CGet ''network'' ref]) ''network'' (uid_query (trim_space uid)) = Inr [x]"
  shows "fst (resolveNetworkIdentity env ref uid network parent w) = Inr (Some x, OutcomeRotated) \<and>
    calls (snd (resolveNetworkIdentity env ref uid network parent w)) =
      calls w @ [CGet ''network'' ref, CSearch ''network'' (uid_query (trim_space uid))]"
  using network_types.stale_ref_skips_second [OF assms(2,3) _ assms(4-6)] assms(1)
  by (simp add: resolveNetworkIdentity_eq)

section \<open>Creation\<close>

fun req_family :: "network_req \<Rightarrow> bool" where
  "req_family (CreateNetwork v c f m e) = f"
| "req_family (AllocateNetwork v c f n m e) = f"
| "req_family (AllocateNetworkByEA v f m e fp n ob) = f"
| "req_family (UpdateNetwork r e m) = False"

fun req_ea :: "network_req \<Rightarrow> ea" where
  "req_ea (CreateNetwork v c f m e) = e"
| "req_ea (AllocateNetwork v c f n m e) = e"
| "req_ea (AllocateNetworkByEA v f m e fp n ob) = e"
| "req_ea (UpdateNetwork r e m) = e"

text \<open>The path the spec selects, and the one request it stands for.\<close>

definition network_create_request :: "NetworkParameters \<Rightarrow> string \<Rightarrow> goerr + network_req" where
  "network_create_request p uid =
     (if trim_space uid = [] then Inl (TextError Network_errEmptyUID)
      else if strOrEmpty (np_ParentCidr p) \<noteq> [] \<and> np_FilterParams p \<noteq> fmempty then
        Inl (TextError errParentCidrAndFilterParams)
      else
        (let e = Stamp (buildEA (np_ExtAttrs p)) uid; v = strOrEmpty (np_NetworkView p); m = strOrEmpty (np_Comment p) in
         if strOrEmpty (np_Network p) \<noteq> [] then
           Inr (CreateNetwork v (strOrEmpty (np_Network p)) (isIPv6CIDR (strOrEmpty (np_Network p))) m e)
         else if strOrEmpty (np_ParentCidr p) = [] \<and> np_FilterParams p = fmempty then
           Inl (TextError errMissingAllocationInput)
         else (case np_AllocatePrefixLen p of
           None \<Rightarrow> Inl (TextError errAllocatePrefixLenRequired)
         | Some n \<Rightarrow>
             if strOrEmpty (np_ParentCidr p) \<noteq> [] then
               Inr (AllocateNetwork v (strOrEmpty (np_ParentCidr p)) (isIPv6CIDR (strOrEmpty (np_ParentCidr p))) n m e)
             else Inr (AllocateNetworkByEA v False m e (np_FilterParams p) n (strOrEmpty (np_Object p))))))"

lemma createOrAllocate_request:
  "createOrAllocateNetwork env p uid w =
     (case network_create_request p uid of
        Inl err \<Rightarrow> (Inl err, w)
      | Inr req \<Rightarrow> (wapi_mutate env (calls w) req, log_call (CMutate req) w))"
  by (simp add: createOrAllocateNetwork_def network_create_request_def createNetwork_def mutate_object_def Let_def
      split: option.split)

text \<open>
  Creating a Network takes exactly one of the three paths: an error without a request, or
  one request, stamped with the uid; and when the spec has a CIDR, the request's
  address family is the one every later resolution of that spec reads and searches under.
\<close>

theorem Network_create_family:
  assumes "createOrAllocateNetwork env p uid w = (r, w')"
  shows "(w' = w \<and> is_err r) \<or>
    (\<exists>req. w' = log_call (CMutate req) w \<and> r = wapi_mutate env (calls w) req \<and>
       eaValue (req_ea req) EAKey = Some uid \<and> userAttrs (req_ea req) = fmdrop EAKey (np_ExtAttrs p) \<and>
       (\<forall>f. networkFamily (np_Network p) (np_ParentCidr p) = Some f \<longrightarrow>
          req_family req = f \<and>
          (\<forall>ref w0 cs. calls (snd (resolveNetworkIdentity env ref uid (np_Network p) (np_ParentCidr p) w0)) = calls w0 @ cs \<longrightarrow>
             (\<forall>c \<in> set cs. \<exists>q. c \<in> {CGet (if f then ''ipv6network'' else ''network'') ref,
                                    CSearch (if f then ''ipv6network'' else ''network'') q}))))"
proof (cases "network_create_request p uid")
  case (Inl err)
  with assms show ?thesis by (intro disjI1) (auto simp: createOrAllocate_request)
next
  case (Inr req)
  have ea: "req_ea req = Stamp (buildEA (np_ExtAttrs p)) uid"
    using Inr by (auto simp: network_create_request_def Let_def split: if_splits option.splits)
  have fam: "req_family req = f" if "networkFamily (np_Network p) (np_ParentCidr p) = Some f" for f
    using Inr that
    by (auto simp: network_create_request_def networkFamily_def Let_def split: if_splits option.splits)
  have reads: "\<exists>q. c \<in> {CGet (if f then ''ipv6network'' else ''network'') ref,
                          CSearch (if f then ''ipv6network'' else ''network'') q}"
    if "networkFamily (np_Network p) (np_ParentCidr p) = Some f" "c \<in> set cs"
      "calls (snd (resolveNetworkIdentity env ref uid (np_Network p) (np_ParentCidr p) w0)) = calls w0 @ cs"
    for f ref w0 cs c
    using that Resolve_calls [of env "newEmptyNetwork f" ref uid w0]
    by (auto simp: resolveNetworkIdentity_def newEmptyNetwork_def)
  from assms Inr ea fam reads show ?thesis
    by (auto simp: createOrAllocate_request userAttrs_buildEA intro!: disjI2 exI [of _ req])
qed

section \<open>The Network controller as a client of the two types\<close>

definition Network_get :: "NetworkCR \<Rightarrow> network_late" where
  "Network_get cr = Network_latePart (nc_ForProvider cr)"

definition Network_put :: "NetworkCR \<Rightarrow> network_late \<Rightarrow> NetworkCR" where
  "Network_put cr l = cr\<lparr>nc_ForProvider := Network_setLate (nc_ForProvider cr) l\<rparr>"

definition Network_current :: "NetworkCR \<Rightarrow> ibNetwork \<Rightarrow> bool" where
  "Network_current cr nw = Network_utd (Network_get cr) nw"

definition Network_status :: "ibNetwork \<Rightarrow> NetworkCR \<Rightarrow> NetworkCR" where
  "Network_status nw cr = cr\<lparr>nc_AtProvider := observeFromNetwork (nw_Ref nw) nw\<rparr>"

definition Network_valid :: "NetworkCR \<Rightarrow> goerr option" where
  "Network_valid cr = (if trim_space (mo_uid cr) = [] then Some (TextError Network_errEmptyUID) else None)"

definition network_update_request :: "NetworkCR \<Rightarrow> network_req" where
  "network_update_request cr =
     (let p = nc_ForProvider cr
      in UpdateNetwork (GetExternalName cr) (Stamp (buildEA (np_ExtAttrs p)) (mo_uid cr)) (strOrEmpty (np_Comment p)))"

text \<open>What the Grid stores of a request.\<close>

fun network_holds :: "network_req \<Rightarrow> ibNetwork \<Rightarrow> bool" where
  "network_holds (CreateNetwork v c f m e) x \<longleftrightarrow> nw_Cidr x = c \<and> nw_Comment x = m \<and> nw_Ea x = e"
| "network_holds (AllocateNetwork v c f n m e) x \<longleftrightarrow> nw_Comment x = m \<and> nw_Ea x = e"
| "network_holds (AllocateNetworkByEA v f m e fp n ob) x \<longleftrightarrow> nw_Comment x = m \<and> nw_Ea x = e"
| "network_holds (UpdateNetwork r e m) x \<longleftrightarrow> nw_Ref x = r \<and> nw_Comment x = m \<and> nw_Ea x = e"

definition Network_spec_ok :: "NetworkCR \<Rightarrow> bool" where
  "Network_spec_ok cr \<longleftrightarrow> reserved_free (np_ExtAttrs (nc_ForProvider cr))"

lemma Network_get_put [simp]: "Network_get (Network_put cr l) = l"
  by (cases l) (simp add: Network_get_def Network_put_def Network_latePart_def Network_setLate_def)

lemma Network_get_rename [simp]: "Network_get (SetExternalName n cr) = Network_get cr"
  by (simp add: Network_get_def SetExternalName_def)

interpretation network_lens: late_lens Network_lateInitialize Network_keeps Network_get Network_put Network_current
proof
  fix l l' :: network_late and x :: ibNetwork and cr :: NetworkCR
  show "Network_get (Network_put cr l) = l" by simp
  show "Network_put cr (Network_get cr) = cr"
    by (simp add: Network_get_def Network_put_def Network_latePart_def Network_setLate_def)
  show "Network_put (Network_put cr l) l' = Network_put cr l'"
    by (simp add: Network_put_def Network_setLate_def split: prod.split)
  then show "Network_current (Network_put cr (fst (Network_lateInitialize (Network_get cr) x))) x"
    if "Network_current cr x"
    using that network_late.late_utd [of "Network_get cr" x]
    by (simp add: Network_current_def)
qed (use network_late.late_idem network_late.late_flag network_late.late_keeps in blast)+

lemma deleteNetwork_issue: "deleteNetwork = issue_delete"
  by (intro ext) (simp only: deleteNetwork_def issue_delete_def)

lemma Network_texts: "Network_errDeleteUnverifiedOwnership = errDeleteUnverifiedOwnership"
  "Network_nilDereference = nilDereference"
  by (simp_all add: Network_errDeleteUnverifiedOwnership_def errDeleteUnverifiedOwnership_def
      Network_nilDereference_def nilDereference_def)

lemma Network_Observe_shape:
  "namespaced_Network_Observe env ep cr w =
     ladder_observe_shape (ladder_observe_error errObserveNetwork) (\<lambda>ref uid. network_resolve env cr ref)
       (ensureIdentityPrerequisite env ep) (\<lambda>r. r \<noteq> []) (\<lambda>r. True)
       (lift_late Network_lateInitialize Network_get Network_put) Network_status Network_current nw_Ref cr w"
proof -
  let ?p = "nc_ForProvider cr"
  have same: "cr\<lparr>nc_ForProvider := Network_setLate ?p (Network_latePart ?p)\<rparr> = cr"
    by (simp add: Network_latePart_def Network_setLate_def)
  have part: "fst (Network_latePart ?p) = np_Network ?p" by (simp add: Network_latePart_def)
  obtain r w1 where r: "network_resolve env cr (observeRefFor (mo_name cr) (GetExternalName cr)) w = (r, w1)"
    by (cases "network_resolve env cr (observeRefFor (mo_name cr) (GetExternalName cr)) w")
  then have r': "resolveNetworkIdentity env (Network_observeRefFor (mo_name cr) (GetExternalName cr)) (mo_uid cr)
      (np_Network ?p) (np_ParentCidr ?p) w = (r, w1)"
    by (simp add: network_resolve_def Network_observeRefFor_def observeRefFor_def)
  obtain e w2 where e: "ensureIdentityPrerequisite env ep w1 = (e, w2)"
    by (cases "ensureIdentityPrerequisite env ep w1")
  note defs = namespaced_Network_Observe_def observeNetwork_def ladder_observe_shape_def ladder_observe_error_def
  show ?thesis
  proof (cases r)
    case (Inl err)
    then show ?thesis
      by (cases e) (simp_all add: defs Let_def r r' part e same)
  next
    case (Inr a)
    obtain obj out where a: "a = (obj, out)" by (cases a)
    show ?thesis
    proof (cases obj)
      case None
      then show ?thesis
        by (simp add: defs Let_def r r' part Inr a same Network_notFoundResult_def Network_texts)
    next
      case (Some nw)
      obtain n c x c1 where l: "Network_lateInitialize (Network_latePart ?p) nw = ((n, c, x), c1)"
        by (cases "Network_lateInitialize (Network_latePart ?p) nw") auto
      with Some show ?thesis
        by (simp add: defs Let_def r r' part Inr a same lift_late_def Network_get_def Network_put_def
            Network_status_def Network_current_def Network_utd_def Network_notFoundResult_def
            Network_setLate_def Network_latePart_def)
    qed
  qed
qed

lemma Network_Create_shape:
  "namespaced_Network_Create env ep cr w =
     ladder_create_shape errCreateNetwork Network_valid (ensureIdentityPrerequisite env ep) (send_planned env)
       (\<lambda>cr. network_create_request (nc_ForProvider cr) (mo_uid cr)) nw_Ref cr w"
proof -
  have "createOrAllocateNetwork env (nc_ForProvider cr) (mo_uid cr) =
      send_planned env (network_create_request (nc_ForProvider cr) (mo_uid cr))"
    by (intro ext) (simp add: createOrAllocate_request send_planned_def mutate_object_def split: sum.split)
  then show ?thesis
    by (cases "trim_space (mo_uid cr) = []")
      (simp_all only: namespaced_Network_Create_def ladder_create_shape_def Network_valid_def Let_def if_True if_False
        option.case not_True_eq_False refl)
qed

lemma Network_Update_shape:
  "namespaced_Network_Update env ep cr w =
     ladder_update_shape errUpdateNetwork Network_errEmptyUID env (ensureIdentityPrerequisite env ep)
       network_update_request (\<lambda>x. []) cr w"
proof -
  obtain e w1 where e: "ensureIdentityPrerequisite env ep w = (e, w1)"
    by (cases "ensureIdentityPrerequisite env ep w")
  show ?thesis
    by (cases e; cases "wapi_mutate env (calls w1) (network_update_request cr)")
      (auto simp: namespaced_Network_Update_def ladder_update_shape_def updateNetwork_def network_update_request_def
        Let_def e mutate_object_def)
qed

lemma Network_Delete_shape:
  "namespaced_Network_Delete env ep cr w =
     ladder_delete_shape errDeleteNetwork errDeleteUnverifiedOwnership nilDereference
       (network_resolve env cr (GetExternalName cr)) (ensureIdentityPrerequisite env ep)
       (issue_delete env) nw_Ref w"
proof -
  have "namespaced_Network_Delete env ep cr w =
      deleteNetworkIdentity env ep (GetExternalName cr) (mo_uid cr) (np_Network (nc_ForProvider cr)) (np_ParentCidr (nc_ForProvider cr)) w"
    by (simp add: namespaced_Network_Delete_def Let_def split: prod.split option.split)
  then show ?thesis
    by (simp only: deleteNetworkIdentity_def ladder_delete_shape_def network_resolve_def deleteNetwork_issue Network_texts)
qed

lemma network_written_current:
  assumes "Network_spec_ok cr"
    and "network_create_request (nc_ForProvider cr) (mo_uid cr) = Inr m \<or> m = network_update_request cr"
    and "network_holds m x"
  shows "Network_current (fst (lift_late Network_lateInitialize Network_get Network_put cr x)) x \<and>
    eaValue (nw_Ea x) EAKey = Some (mo_uid cr)"
proof -
  let ?p = "nc_ForProvider cr"
  have sent: "nw_Comment x = strOrEmpty (np_Comment ?p)" "nw_Ea x = Stamp (buildEA (np_ExtAttrs ?p)) (mo_uid cr)"
    using assms(2,3)
    by (auto simp: network_create_request_def network_update_request_def Let_def split: if_splits option.splits)
  have "userAttrs (nw_Ea x) = np_ExtAttrs ?p"
    using assms(1) by (simp add: sent userAttrs_buildEA reserved_free_fmdrop Network_spec_ok_def)
  then have "Network_current cr x"
    using sent(1)
    by (simp add: Network_current_def Network_utd_def Network_get_def Network_latePart_def Network_isUpToDate_def
        extAttrsEqual_iff flip: userAttrs_def)
  with sent(2) show ?thesis using network_lens.late_utd by simp
qed

lemma network_request_stamp:
  "network_create_request (nc_ForProvider cr) (mo_uid cr) = Inr m \<or> m = network_update_request cr \<Longrightarrow>
     eaValue (req_ea m) EAKey = Some (mo_uid cr)"
  by (auto simp: network_create_request_def network_update_request_def Let_def split: if_splits option.splits)

interpretation network: refreshing_resolver network_resolve "both_sound newEmptyNetwork"
  "\<lambda>x. eaValue (nw_Ea x) EAKey" "{ot_name (newEmptyNetwork False), ot_name (newEmptyNetwork True)}"
  "\<lambda>cr. family_types newEmptyNetwork (network_family cr)" "\<lambda>cr. family_kind newEmptyNetwork (network_family cr)"
  "lift_late Network_lateInitialize Network_get Network_put" Network_current nw_Ref Network_status Network_valid
  "\<lambda>cr. network_create_request (nc_ForProvider cr) (mo_uid cr)" network_update_request req_ea
  network_holds Network_spec_ok "ladder_observe_error errObserveNetwork" "\<lambda>r. r \<noteq> []" "\<lambda>r. True" "\<lambda>x. []"
  errCreateNetwork errUpdateNetwork errDeleteNetwork Network_errEmptyUID
  namespaced_Network_Observe namespaced_Network_Create namespaced_Network_Update namespaced_Network_Delete
proof (unfold_locales, goal_cases)
  case (5 cr)
  then show ?case by (auto simp: Network_valid_def split: if_splits)
next
  case (10 cr m)
  then show ?case by (intro network_request_stamp) blast
next
  case (11 cr)
  show ?case by (intro network_request_stamp) blast
next
  case (13 n cr x)
  then show ?case by (simp add: network_lens.lifted_simps Network_current_def)
next
  case (14 cr m x)
  then show ?case by (intro network_written_current) auto
next
  case (15 cr x)
  then show ?case by (intro network_written_current) auto
next
  case (16 cr x)
  then show ?case by (simp add: network_update_request_def Let_def)
qed (simp_all add: Network_Observe_shape Network_Create_shape Network_Update_shape Network_Delete_shape
    network_lens.lifted_simps Network_put_def Network_status_def network_family_def SetExternalName_def)

section \<open>A Grid to apply the theorems to\<close>

text \<open>A Grid with one network of each type stamped for the uid u-1; no reference resolves.\<close>

definition demo_net :: "string \<Rightarrow> ibNetwork" where
  "demo_net r = (NewNetwork [] [] [] (Stamp fmempty ''u-1''))\<lparr>nw_Ref := r\<rparr>"

definition nw_demo :: nw_env where
  "nw_demo =
     \<lparr>wapi_get = (\<lambda>h t r. Inl (NotFoundError ''gone'')),
      wapi_search = (\<lambda>h t q. if q = uid_query ''u-1'' then Inr [demo_net t] else Inr []),
      wapi_def_search = (\<lambda>h q. Inr [identityDefinition]), wapi_def_create = (\<lambda>h d. Inr []),
      wapi_mutate = (\<lambda>h m. Inr (demo_net ''new'')), wapi_delete = (\<lambda>h r. Inr r), kube_patch = (\<lambda>h j. None),
      retry_on_conflict = (\<lambda>f w. f w), wall_clock = (\<lambda>n. 0)\<rparr>"

lemma nw_demo_search [simp]:
  "wapi_get nw_demo h t r = Inl (NotFoundError ''gone'')"
  "wapi_search nw_demo h t (uid_query ''u-1'') = Inr [demo_net t]"
  by (simp_all add: nw_demo_def)

lemma demo_net_ea [simp]: "eaValue (nw_Ea (demo_net r)) EAKey = Some ''u-1''" "nw_Ref (demo_net r) = r"
  by (simp_all add: demo_net_def NewNetwork_def)

lemma trim_nw [simp]: "trim_space ''u-1'' = ''u-1''"
  by (rule trim_space_visible) (simp add: visible_ascii_def)

lemma nw_demo_sound: "both_sound newEmptyNetwork nw_demo"
proof -
  have "eaValue (nw_Ea (demo_net t)) EAKey = Some ''u-1''" for t by simp
  then show ?thesis
    by (auto simp: uid_query_inj both_sound_def search_sound_def nw_demo_def split: if_splits)
qed

lemma nw_demo_found:
  "\<exists>w1. Resolve nw_demo (newEmptyNetwork b) [] ''u-1'' w =
     (Inr (Some (demo_net (if b then ''ipv6network'' else ''network'')), OutcomeFoundByUID), w1)"
proof -
  have "ot_name (newEmptyNetwork b) = (if b then ''ipv6network'' else ''network'')" by (simp add: newEmptyNetwork_def)
  then show ?thesis
    by (simp add: Resolve_unfold resolveBySearch_def searchByUID_def search_objects_def)
qed

definition nw_params :: "string option \<Rightarrow> NetworkParameters" where
  "nw_params c =
     \<lparr>np_NetworkView = None, np_Network = c, np_ParentCidr = None, np_AllocatePrefixLen = None,
      np_FilterParams = fmempty, np_Object = None, np_Comment = None, np_ExtAttrs = fmempty\<rparr>"

definition nw_cr :: NetworkCR where
  "nw_cr =
     \<lparr>mo_name = ''n'', mo_namespace = [], mo_uid = ''u-1'', mo_annotations = fmupd AnnotationKeyExternalName ''old'' fmempty,
      mo_conditions = fmempty, nc_ForProvider = nw_params None,
      nc_AtProvider = \<lparr>on_ID = [], on_NetworkView = None, on_Network = None, on_Comment = None, on_ExtAttrs = fmempty,
        on_Ref = None, on_Members = []\<rparr>\<rparr>"

lemma unknown_family_both_searched_witness:
  "fst (resolveNetworkIdentity nw_demo [] ''u-1'' None None init_world) =
     Inl (AmbiguousMatchError ''network/ipv6network'' ''u-1'' 2)"
proof -
  obtain r w' where r: "resolveNetworkIdentity nw_demo [] ''u-1'' None None init_world = (r, w')"
    by (cases "resolveNetworkIdentity nw_demo [] ''u-1'' None None init_world")
  have "networkFamily None None = None" by (simp add: networkFamily_def strOrEmpty_def)
  from unknown_family_both_searched [OF this r] nw_demo_found [of False init_world] nw_demo_found [of True] r
  show ?thesis by fastforce
qed

lemma unknown_family_ref_skips_v6_witness:
  "fst (resolveNetworkIdentity nw_demo ''old'' ''u-1'' None None init_world) =
     Inr (Some (demo_net ''network''), OutcomeRotated) \<and>
   wapi_search nw_demo [] ''ipv6network'' (uid_query ''u-1'') = Inr [demo_net ''ipv6network'']"
proof -
  have "networkFamily None None = None" by (simp add: networkFamily_def strOrEmpty_def)
  from unknown_family_ref_skips_v6 [OF this, of "''u-1''" "''old''" nw_demo init_world "NotFoundError ''gone''" "demo_net ''network''"]
  show ?thesis by simp
qed

lemma Network_create_family_witness:
  "\<exists>r w'. createOrAllocateNetwork nw_demo (nw_params (Some ''10.0.0.0/8'')) ''u-1'' init_world = (r, w') \<and>
     ((w' = init_world \<and> is_err r) \<or>
      (\<exists>req. w' = log_call (CMutate req) init_world \<and> eaValue (req_ea req) EAKey = Some ''u-1'' \<and>
         req_family req = isIPv6CIDR ''10.0.0.0/8''))"
proof -
  obtain r w' where r: "createOrAllocateNetwork nw_demo (nw_params (Some ''10.0.0.0/8'')) ''u-1'' init_world = (r, w')"
    by (cases "createOrAllocateNetwork nw_demo (nw_params (Some ''10.0.0.0/8'')) ''u-1'' init_world")
  have "networkFamily (np_Network (nw_params (Some ''10.0.0.0/8''))) (np_ParentCidr (nw_params (Some ''10.0.0.0/8''))) =
      Some (isIPv6CIDR ''10.0.0.0/8'')"
    by (simp add: networkFamily_def strOrEmpty_def nw_params_def)
  with Network_create_family [OF r] r show ?thesis by blast
qed

end
