(* ===== verification/NetworkContainer.thy ===== *)
theory NetworkContainer
  imports NetworkSpec
begin

text \<open>
  internal/controller/networkcontainer: the NetworkContainer controller. Like Network it has two object
  types, networkcontainer and ipv6networkcontainer; unlike it, an update records the reference the Grid
  answers with. isIPv6CIDR and three of the error texts are declared with the same body in both packages.
\<close>

section \<open>Data\<close>

record ibNetworkContainer =
  nct_Ref :: string
  nct_NetviewName :: string
  nct_Cidr :: string
  nct_Comment :: string
  nct_Ea :: ea

definition NewNetworkContainer :: "string \<Rightarrow> string \<Rightarrow> string \<Rightarrow> ea \<Rightarrow> ibNetworkContainer" where
  "NewNetworkContainer netview cidr comment e =
     \<lparr>nct_Ref = [], nct_NetviewName = netview, nct_Cidr = cidr, nct_Comment = comment, nct_Ea = e\<rparr>"

definition reflectNetworkContainer :: "ibNetworkContainer \<Rightarrow> goany" where
  "reflectNetworkContainer r = PtrTo ''*ibclient.NetworkContainer''
     [(''NetviewName'', FString (nct_NetviewName r)), (''Cidr'', FString (nct_Cidr r)),
      (''Ref'', FString (nct_Ref r)), (''Comment'', FString (nct_Comment r)), (''Ea'', FEA (nct_Ea r))]"

definition newEmptyNetworkContainer :: "bool \<Rightarrow> ibNetworkContainer objtype" where
  "newEmptyNetworkContainer isIPv6 =
     \<lparr>ot_name = (if isIPv6 then ''ipv6networkcontainer'' else ''networkcontainer''),
      ot_empty = NewNetworkContainer [] [] [] fmempty, ot_reflect = reflectNetworkContainer\<rparr>"

text \<open>The ObjectManager requests, with their arguments in call order.\<close>

datatype networkcontainer_req =
    CreateNetworkContainer string string bool string ea \<comment> \<open>netview, cidr, isIPv6, comment, eas\<close>
  | AllocateNetworkContainer string string bool nat string ea \<comment> \<open>netview, cidr, isIPv6, prefixLen, comment, eas\<close>
  | AllocateNetworkContainerByEA string bool string ea extattrs nat
      \<comment> \<open>netview, isIPv6, comment, eas, eaMap, prefixLen\<close>
  | UpdateNetworkContainer string ea string \<comment> \<open>ref, eas, comment\<close>

record NetworkContainerParameters =
  ncp_NetworkView :: "string option"
  ncp_Network :: "string option"
  ncp_ParentCidr :: "string option"
  ncp_AllocatePrefixLen :: "nat option"
  ncp_FilterParams :: extattrs
  ncp_Comment :: "string option"
  ncp_ExtAttrs :: extattrs

record observedNetworkContainer =
  onc_ID :: string
  onc_NetworkView :: "string option"
  onc_Network :: "string option"
  onc_Comment :: "string option"
  onc_ExtAttrs :: extattrs
  onc_Ref :: "string option"

text \<open>The allocation inputs are in the status type too; no handler sets them.\<close>

record NetworkContainerObservation =
  nco_ID :: string
  nco_NetworkView :: "string option"
  nco_Network :: "string option"
  nco_ParentCidr :: "string option"
  nco_AllocatePrefixLen :: "nat option"
  nco_FilterParams :: extattrs
  nco_Comment :: "string option"
  nco_ExtAttrs :: extattrs
  nco_Ref :: "string option"

record NetworkContainerCR = mobj +
  ncc_ForProvider :: NetworkContainerParameters
  ncc_AtProvider :: NetworkContainerObservation

definition errObserveNetworkContainer :: string where "errObserveNetworkContainer = ''cannot observe NetworkContainer''"
definition errCreateNetworkContainer :: string where "errCreateNetworkContainer = ''cannot create NetworkContainer''"
definition errUpdateNetworkContainer :: string where "errUpdateNetworkContainer = ''cannot update NetworkContainer''"
definition errDeleteNetworkContainer :: string where "errDeleteNetworkContainer = ''cannot delete NetworkContainer''"
definition NetworkContainer_errEmptyUID :: string where
  "NetworkContainer_errEmptyUID = ''cannot stamp NetworkContainer identity: managed resource's metadata.uid is empty''"

section \<open>Field comparison and late initialisation\<close>

definition NetworkContainer_isUpToDate :: "string option \<Rightarrow> extattrs \<Rightarrow> ibNetworkContainer \<Rightarrow> bool" where
  "NetworkContainer_isUpToDate comment extAttrs nc =
     (if strOrEmpty comment \<noteq> nct_Comment nc then False
      else extAttrsEqual extAttrs (extAttrsFromEA (Strip (nct_Ea nc))))"

definition NetworkContainer_lateInitialize :: "network_late \<Rightarrow> ibNetworkContainer \<Rightarrow> network_late \<times> bool" where
  "NetworkContainer_lateInitialize p nc =
     (case p of (network, comment, extAttrs) \<Rightarrow>
       (let (network1, c1) = (if network = None \<and> nct_Cidr nc \<noteq> [] then (Some (nct_Cidr nc), True) else (network, False));
            (comment1, c2) = (if comment = None \<and> nct_Comment nc \<noteq> [] then (Some (nct_Comment nc), True) else (comment, c1));
            fromNC = extAttrsFromEA (Strip (nct_Ea nc));
            (extAttrs1, c3) = (if extAttrs = fmempty \<and> fromNC \<noteq> fmempty then (fromNC, True) else (extAttrs, c2))
        in ((network1, comment1, extAttrs1), c3)))"

definition observeFromNetworkContainer :: "string \<Rightarrow> ibNetworkContainer \<Rightarrow> observedNetworkContainer" where
  "observeFromNetworkContainer externalID nc =
     \<lparr>onc_ID = externalID, onc_NetworkView = ptrIfNonEmpty (nct_NetviewName nc),
      onc_Network = ptrIfNonEmpty (nct_Cidr nc), onc_Comment = ptrIfNonEmpty (nct_Comment nc),
      onc_ExtAttrs = extAttrsFromEA (nct_Ea nc), onc_Ref = ptrIfNonEmpty (nct_Ref nc)\<rparr>"

section \<open>SDK calls\<close>

type_synonym nct_env = "(ibNetworkContainer, networkcontainer_req) wapi"
type_synonym nct_world = "networkcontainer_req world"

definition createNetworkContainer ::
  "nct_env \<Rightarrow> string option \<Rightarrow> string option \<Rightarrow> string option \<Rightarrow> extattrs \<Rightarrow> string \<Rightarrow> nct_world \<Rightarrow>
     (goerr + ibNetworkContainer) \<times> nct_world" where
  "createNetworkContainer env networkView network comment extAttrs uid w =
     (if trim_space uid = [] then (Inl (TextError NetworkContainer_errEmptyUID), w)
      else
        (let cidr = strOrEmpty network; e = Stamp (buildEA extAttrs) uid
         in mutate_object env (CreateNetworkContainer (strOrEmpty networkView) cidr (isIPv6CIDR cidr) (strOrEmpty comment) e) w))"

definition createOrAllocateNetworkContainer ::
  "nct_env \<Rightarrow> NetworkContainerParameters \<Rightarrow> string \<Rightarrow> nct_world \<Rightarrow> (goerr + ibNetworkContainer) \<times> nct_world" where
  "createOrAllocateNetworkContainer env p uid w =
     (if trim_space uid = [] then (Inl (TextError NetworkContainer_errEmptyUID), w)
      else if strOrEmpty (ncp_ParentCidr p) \<noteq> [] \<and> ncp_FilterParams p \<noteq> fmempty then
        (Inl (TextError errParentCidrAndFilterParams), w)
      else if strOrEmpty (ncp_Network p) \<noteq> [] then
        createNetworkContainer env (ncp_NetworkView p) (ncp_Network p) (ncp_Comment p) (ncp_ExtAttrs p) uid w
      else if strOrEmpty (ncp_ParentCidr p) \<noteq> [] then
        (case ncp_AllocatePrefixLen p of
           None \<Rightarrow> (Inl (TextError errAllocatePrefixLenRequired), w)
         | Some n \<Rightarrow>
             (let cidr = strOrEmpty (ncp_ParentCidr p); e = Stamp (buildEA (ncp_ExtAttrs p)) uid
              in mutate_object env (AllocateNetworkContainer (strOrEmpty (ncp_NetworkView p)) cidr (isIPv6CIDR cidr) n
                   (strOrEmpty (ncp_Comment p)) e) w))
      else if ncp_FilterParams p \<noteq> fmempty then
        (case ncp_AllocatePrefixLen p of
           None \<Rightarrow> (Inl (TextError errAllocatePrefixLenRequired), w)
         | Some n \<Rightarrow>
             (let e = Stamp (buildEA (ncp_ExtAttrs p)) uid
              in mutate_object env (AllocateNetworkContainerByEA (strOrEmpty (ncp_NetworkView p)) False
                   (strOrEmpty (ncp_Comment p)) e (ncp_FilterParams p) n) w))
      else (Inl (TextError errMissingAllocationInput), w))"

definition updateNetworkContainer ::
  "nct_env \<Rightarrow> string \<Rightarrow> string option \<Rightarrow> extattrs \<Rightarrow> string \<Rightarrow> nct_world \<Rightarrow> (goerr + ibNetworkContainer) \<times> nct_world" where
  "updateNetworkContainer env ref comment extAttrs uid w =
     (if trim_space uid = [] then (Inl (TextError NetworkContainer_errEmptyUID), w)
      else
        (let e = Stamp (buildEA extAttrs) uid
         in mutate_object env (UpdateNetworkContainer ref e (strOrEmpty comment)) w))"

definition deleteNetworkContainer :: "nct_env \<Rightarrow> string \<Rightarrow> nct_world \<Rightarrow> goerr option \<times> nct_world" where
  "deleteNetworkContainer env ref w =
     (case delete_object env ref w of
        (Inl err, w1) \<Rightarrow> (Some err, w1)
      | (Inr _, w1) \<Rightarrow> (None, w1))"

section \<open>Identity resolution\<close>

text \<open>\<open>None\<close> is ok == false.\<close>

definition networkContainerFamily :: "string option \<Rightarrow> string option \<Rightarrow> bool option" where
  "networkContainerFamily network parentCidr =
     (if strOrEmpty network \<noteq> [] then Some (isIPv6CIDR (strOrEmpty network))
      else if strOrEmpty parentCidr \<noteq> [] then Some (isIPv6CIDR (strOrEmpty parentCidr))
      else None)"

definition resolveNetworkContainerIdentityUnknownFamily ::
  "nct_env \<Rightarrow> string \<Rightarrow> nct_world \<Rightarrow> (goerr + ibNetworkContainer option \<times> Outcome) \<times> nct_world" where
  "resolveNetworkContainerIdentityUnknownFamily env uid w =
     (case Resolve env (newEmptyNetworkContainer False) [] uid w of
        (Inl err, w1) \<Rightarrow> (Inl err, w1)
      | (Inr (v4, outV4), w1) \<Rightarrow>
          (case Resolve env (newEmptyNetworkContainer True) [] uid w1 of
             (Inl err, w2) \<Rightarrow> (Inl err, w2)
           | (Inr (v6, outV6), w2) \<Rightarrow>
               (let foundV4 = (outV4 = OutcomeFoundByUID); foundV6 = (outV6 = OutcomeFoundByUID) in
                if foundV4 \<and> foundV6 then (Inl (AmbiguousMatchError ''networkcontainer/ipv6networkcontainer'' uid 2), w2)
                else if foundV4 then (Inr (v4, OutcomeFoundByUID), w2)
                else if foundV6 then (Inr (v6, OutcomeFoundByUID), w2)
                else (Inr (None, OutcomeNotFound), w2))))"

definition resolveNetworkContainerIdentity ::
  "nct_env \<Rightarrow> string \<Rightarrow> string \<Rightarrow> string option \<Rightarrow> string option \<Rightarrow> nct_world \<Rightarrow>
     (goerr + ibNetworkContainer option \<times> Outcome) \<times> nct_world" where
  "resolveNetworkContainerIdentity env ref uid network parentCidr w =
     (case networkContainerFamily network parentCidr of
        Some isIPv6 \<Rightarrow> Resolve env (newEmptyNetworkContainer isIPv6) ref uid w
      | None \<Rightarrow>
          if ref \<noteq> [] then
            (case Resolve env (newEmptyNetworkContainer False) ref uid w of
               (Inl err, w1) \<Rightarrow> (Inl err, w1)
             | (Inr (obj, outcome), w1) \<Rightarrow>
                 if outcome \<noteq> OutcomeNotFound then (Inr (obj, outcome), w1)
                 else resolveNetworkContainerIdentityUnknownFamily env uid w1)
          else resolveNetworkContainerIdentityUnknownFamily env uid w)"

definition NetworkContainer_notFoundResult :: "(ibNetworkContainer, observedNetworkContainer) observeResult" where
  "NetworkContainer_notFoundResult =
     \<lparr>ores_exists = False, ores_rec = NewNetworkContainer [] [] [] fmempty,
      ores_obs = observeFromNetworkContainer [] (NewNetworkContainer [] [] [] fmempty),
      ores_lateInit = False, ores_refreshedRef = [], ores_adopted = False\<rparr>"

definition observeNetworkContainer ::
  "nct_env \<Rightarrow> string \<Rightarrow> string \<Rightarrow> string \<Rightarrow> string \<Rightarrow> network_late \<Rightarrow> string option \<Rightarrow> nct_world \<Rightarrow>
     (goerr + (ibNetworkContainer, observedNetworkContainer) observeResult) \<times> network_late \<times> nct_world" where
  "observeNetworkContainer env endpoint crName externalName uid p parentCidr w =
     (let ref = observeRefFor crName externalName in
      case resolveNetworkContainerIdentity env ref uid (fst p) parentCidr w of
        (Inl err, w1) \<Rightarrow>
          if IsSearchFailure err then
            (case ensureIdentityPrerequisite env endpoint w1 of
               (Some prereqErr, w2) \<Rightarrow> (Inl prereqErr, p, w2)
             | (None, w2) \<Rightarrow> (Inl err, p, w2))
          else (Inl err, p, w1)
      | (Inr (obj, outcome), w1) \<Rightarrow>
          if outcome = OutcomeNotFound then (Inr NetworkContainer_notFoundResult, p, w1)
          else
            (case obj of
               None \<Rightarrow> (Inl (TextError nilDereference), p, w1)
             | Some nc \<Rightarrow>
                 (case NetworkContainer_lateInitialize p nc of (p1, changed) \<Rightarrow>
                    (let found = (outcome = OutcomeRotated \<or> outcome = OutcomeFoundByUID)
                     in (Inr \<lparr>ores_exists = True, ores_rec = nc, ores_obs = observeFromNetworkContainer (nct_Ref nc) nc,
                              ores_lateInit = (if found then True else changed),
                              ores_refreshedRef = (if found then nct_Ref nc else []),
                              ores_adopted = (outcome = OutcomeAdopted)\<rparr>, p1, w1)))))"

definition deleteNetworkContainerIdentity ::
  "nct_env \<Rightarrow> string \<Rightarrow> string \<Rightarrow> string \<Rightarrow> string option \<Rightarrow> string option \<Rightarrow> nct_world \<Rightarrow>
     goerr option \<times> nct_world" where
  "deleteNetworkContainerIdentity env endpoint ref uid network parentCidr w =
     (case resolveNetworkContainerIdentity env ref uid network parentCidr w of
        (Inl err, w1) \<Rightarrow>
          if IsSearchFailure err then
            (case ensureIdentityPrerequisite env endpoint w1 of
               (Some prereqErr, w2) \<Rightarrow> (Some prereqErr, w2)
             | (None, w2) \<Rightarrow> (Some (Wrapped errDeleteNetworkContainer err), w2))
          else (Some (Wrapped errDeleteNetworkContainer err), w1)
      | (Inr (obj, outcome), w1) \<Rightarrow>
          (case outcome of
             OutcomeNotFound \<Rightarrow> (None, w1)
           | OutcomeAdopted \<Rightarrow> (Some (TextError errDeleteUnverifiedOwnership), w1)
           | _ \<Rightarrow>
               (case obj of
                  None \<Rightarrow> (Some (TextError nilDereference), w1)
                | Some nc \<Rightarrow>
                    (case deleteNetworkContainer env (nct_Ref nc) w1 of
                       (None, w2) \<Rightarrow> (None, w2)
                     | (Some delErr, w2) \<Rightarrow>
                         if isNotFound (Some delErr) then (None, w2)
                         else (Some (Wrapped errDeleteNetworkContainer delErr), w2)))))"

section \<open>The external clients\<close>

definition NetworkContainer_latePart :: "NetworkContainerParameters \<Rightarrow> network_late" where
  "NetworkContainer_latePart p = (ncp_Network p, ncp_Comment p, ncp_ExtAttrs p)"

definition NetworkContainer_setLate :: "NetworkContainerParameters \<Rightarrow> network_late \<Rightarrow> NetworkContainerParameters" where
  "NetworkContainer_setLate p l =
     (case l of (network, comment, extAttrs) \<Rightarrow>
        p\<lparr>ncp_Network := network, ncp_Comment := comment, ncp_ExtAttrs := extAttrs\<rparr>)"

subsection \<open>namespaced.go\<close>

definition namespaced_NetworkContainer_Observe ::
  "nct_env \<Rightarrow> string \<Rightarrow> NetworkContainerCR \<Rightarrow> nct_world \<Rightarrow>
     (goerr + ExternalObservation) \<times> NetworkContainerCR \<times> nct_world" where
  "namespaced_NetworkContainer_Observe env endpoint cr w =
     (case observeNetworkContainer env endpoint (mo_name cr) (GetExternalName cr) (mo_uid cr)
             (NetworkContainer_latePart (ncc_ForProvider cr)) (ncp_ParentCidr (ncc_ForProvider cr)) w of
        (Inl err, l, w1) \<Rightarrow>
          (let cr1 = cr\<lparr>ncc_ForProvider := NetworkContainer_setLate (ncc_ForProvider cr) l\<rparr> in
           if errors_as is_PrerequisiteError err then (Inl err, cr1, w1)
           else (Inl (Wrapped errObserveNetworkContainer err), cr1, w1))
      | (Inr res, l, w1) \<Rightarrow>
          (let p = NetworkContainer_setLate (ncc_ForProvider cr) l;
               cr1 = cr\<lparr>ncc_ForProvider := p\<rparr> in
           if \<not> ores_exists res then (Inr notExists, cr1, w1)
           else
             (let ob = ores_obs res;
                  cr2 = cr1\<lparr>ncc_AtProvider :=
                    \<lparr>nco_ID = onc_ID ob, nco_NetworkView = onc_NetworkView ob, nco_Network = onc_Network ob,
                     nco_ParentCidr = None, nco_AllocatePrefixLen = None, nco_FilterParams = fmempty,
                     nco_Comment = onc_Comment ob, nco_ExtAttrs = onc_ExtAttrs ob, nco_Ref = onc_Ref ob\<rparr>\<rparr>;
                  cr3 = (if ores_refreshedRef res \<noteq> [] then SetExternalName (ores_refreshedRef res) cr2 else cr2);
                  cr4 = SetAvailable cr3;
                  upToDate = (NetworkContainer_isUpToDate (ncp_Comment p) (ncp_ExtAttrs p) (ores_rec res) \<and>
                    \<not> ores_adopted res)
              in (Inr \<lparr>ResourceExists = True, ResourceUpToDate = upToDate,
                       ResourceLateInitialized = ores_lateInit res\<rparr>, cr4, w1))))"

definition namespaced_NetworkContainer_Create ::
  "nct_env \<Rightarrow> string \<Rightarrow> NetworkContainerCR \<Rightarrow> nct_world \<Rightarrow> goerr option \<times> NetworkContainerCR \<times> nct_world" where
  "namespaced_NetworkContainer_Create env endpoint cr w =
     (let uid = mo_uid cr in
      if trim_space uid = [] then (Some (TextError NetworkContainer_errEmptyUID), cr, w)
      else
        (case ensureIdentityPrerequisite env endpoint w of
           (Some err, w1) \<Rightarrow> (Some err, cr, w1)
         | (None, w1) \<Rightarrow>
             (case createOrAllocateNetworkContainer env (ncc_ForProvider cr) uid w1 of
                (Inl err, w2) \<Rightarrow> (Some (Wrapped errCreateNetworkContainer err), cr, w2)
              | (Inr nc, w2) \<Rightarrow> (None, SetExternalName (nct_Ref nc) cr, w2))))"

definition namespaced_NetworkContainer_Update ::
  "nct_env \<Rightarrow> string \<Rightarrow> NetworkContainerCR \<Rightarrow> nct_world \<Rightarrow> goerr option \<times> NetworkContainerCR \<times> nct_world" where
  "namespaced_NetworkContainer_Update env endpoint cr w =
     (let p = ncc_ForProvider cr; externalID = GetExternalName cr in
      case ensureIdentityPrerequisite env endpoint w of
        (Some err, w1) \<Rightarrow> (Some err, cr, w1)
      | (None, w1) \<Rightarrow>
          (case updateNetworkContainer env externalID (ncp_Comment p) (ncp_ExtAttrs p) (mo_uid cr) w1 of
             (Inl err, w2) \<Rightarrow> (Some (Wrapped errUpdateNetworkContainer err), cr, w2)
           | (Inr nc, w2) \<Rightarrow>
               if nct_Ref nc \<noteq> [] \<and> nct_Ref nc \<noteq> externalID then
                 (case Refresh env cr (nct_Ref nc) w2 of
                    (Some err, cr1, w3) \<Rightarrow> (Some (Wrapped errPersistExternalName err), cr1, w3)
                  | (None, cr1, w3) \<Rightarrow> (None, cr1, w3))
               else (None, cr, w2)))"

definition namespaced_NetworkContainer_Delete ::
  "nct_env \<Rightarrow> string \<Rightarrow> NetworkContainerCR \<Rightarrow> nct_world \<Rightarrow> goerr option \<times> nct_world" where
  "namespaced_NetworkContainer_Delete env endpoint cr w =
     (let p = ncc_ForProvider cr; externalID = GetExternalName cr in
      case deleteNetworkContainerIdentity env endpoint externalID (mo_uid cr) (ncp_Network p) (ncp_ParentCidr p) w of
        (Some err, w1) \<Rightarrow> (Some err, w1)
      | (None, w1) \<Rightarrow> (None, w1))"

subsection \<open>cluster.go\<close>

definition cluster_NetworkContainer_Observe ::
  "nct_env \<Rightarrow> string \<Rightarrow> NetworkContainerCR \<Rightarrow> nct_world \<Rightarrow>
     (goerr + ExternalObservation) \<times> NetworkContainerCR \<times> nct_world" where
  "cluster_NetworkContainer_Observe env endpoint cr w =
     (case observeNetworkContainer env endpoint (mo_name cr) (GetExternalName cr) (mo_uid cr)
             (NetworkContainer_latePart (ncc_ForProvider cr)) (ncp_ParentCidr (ncc_ForProvider cr)) w of
        (Inl err, l, w1) \<Rightarrow>
          (let cr1 = cr\<lparr>ncc_ForProvider := NetworkContainer_setLate (ncc_ForProvider cr) l\<rparr> in
           if errors_as is_PrerequisiteError err then (Inl err, cr1, w1)
           else (Inl (Wrapped errObserveNetworkContainer err), cr1, w1))
      | (Inr res, l, w1) \<Rightarrow>
          (let p = NetworkContainer_setLate (ncc_ForProvider cr) l;
               cr1 = cr\<lparr>ncc_ForProvider := p\<rparr> in
           if \<not> ores_exists res then (Inr notExists, cr1, w1)
           else
             (let ob = ores_obs res;
                  cr2 = cr1\<lparr>ncc_AtProvider :=
                    \<lparr>nco_ID = onc_ID ob, nco_NetworkView = onc_NetworkView ob, nco_Network = onc_Network ob,
                     nco_ParentCidr = None, nco_AllocatePrefixLen = None, nco_FilterParams = fmempty,
                     nco_Comment = onc_Comment ob, nco_ExtAttrs = onc_ExtAttrs ob, nco_Ref = onc_Ref ob\<rparr>\<rparr>;
                  cr3 = (if ores_refreshedRef res \<noteq> [] then SetExternalName (ores_refreshedRef res) cr2 else cr2);
                  cr4 = SetAvailable cr3;
                  upToDate = (NetworkContainer_isUpToDate (ncp_Comment p) (ncp_ExtAttrs p) (ores_rec res) \<and>
                    \<not> ores_adopted res)
              in (Inr \<lparr>ResourceExists = True, ResourceUpToDate = upToDate,
                       ResourceLateInitialized = ores_lateInit res\<rparr>, cr4, w1))))"

definition cluster_NetworkContainer_Create ::
  "nct_env \<Rightarrow> string \<Rightarrow> NetworkContainerCR \<Rightarrow> nct_world \<Rightarrow> goerr option \<times> NetworkContainerCR \<times> nct_world" where
  "cluster_NetworkContainer_Create env endpoint cr w =
     (let uid = mo_uid cr in
      if trim_space uid = [] then (Some (TextError NetworkContainer_errEmptyUID), cr, w)
      else
        (case ensureIdentityPrerequisite env endpoint w of
           (Some err, w1) \<Rightarrow> (Some err, cr, w1)
         | (None, w1) \<Rightarrow>
             (case createOrAllocateNetworkContainer env (ncc_ForProvider cr) uid w1 of
                (Inl err, w2) \<Rightarrow> (Some (Wrapped errCreateNetworkContainer err), cr, w2)
              | (Inr nc, w2) \<Rightarrow> (None, SetExternalName (nct_Ref nc) cr, w2))))"

definition cluster_NetworkContainer_Update ::
  "nct_env \<Rightarrow> string \<Rightarrow> NetworkContainerCR \<Rightarrow> nct_world \<Rightarrow> goerr option \<times> NetworkContainerCR \<times> nct_world" where
  "cluster_NetworkContainer_Update env endpoint cr w =
     (let p = ncc_ForProvider cr; externalID = GetExternalName cr in
      case ensureIdentityPrerequisite env endpoint w of
        (Some err, w1) \<Rightarrow> (Some err, cr, w1)
      | (None, w1) \<Rightarrow>
          (case updateNetworkContainer env externalID (ncp_Comment p) (ncp_ExtAttrs p) (mo_uid cr) w1 of
             (Inl err, w2) \<Rightarrow> (Some (Wrapped errUpdateNetworkContainer err), cr, w2)
           | (Inr nc, w2) \<Rightarrow>
               if nct_Ref nc \<noteq> [] \<and> nct_Ref nc \<noteq> externalID then
                 (case Refresh env cr (nct_Ref nc) w2 of
                    (Some err, cr1, w3) \<Rightarrow> (Some (Wrapped errPersistExternalName err), cr1, w3)
                  | (None, cr1, w3) \<Rightarrow> (None, cr1, w3))
               else (None, cr, w2)))"

definition cluster_NetworkContainer_Delete ::
  "nct_env \<Rightarrow> string \<Rightarrow> NetworkContainerCR \<Rightarrow> nct_world \<Rightarrow> goerr option \<times> nct_world" where
  "cluster_NetworkContainer_Delete env endpoint cr w =
     (let p = ncc_ForProvider cr; externalID = GetExternalName cr in
      case deleteNetworkContainerIdentity env endpoint externalID (mo_uid cr) (ncp_Network p) (ncp_ParentCidr p) w of
        (Some err, w1) \<Rightarrow> (Some err, w1)
      | (None, w1) \<Rightarrow> (None, w1))"


section \<open>The two scopes agree\<close>

lemma NetworkContainer_scopes:
  "cluster_NetworkContainer_Observe = namespaced_NetworkContainer_Observe"
  "cluster_NetworkContainer_Create = namespaced_NetworkContainer_Create"
  "cluster_NetworkContainer_Update = namespaced_NetworkContainer_Update"
  "cluster_NetworkContainer_Delete = namespaced_NetworkContainer_Delete"
  by (intro ext, simp only: cluster_NetworkContainer_Observe_def namespaced_NetworkContainer_Observe_def
      cluster_NetworkContainer_Create_def namespaced_NetworkContainer_Create_def
      cluster_NetworkContainer_Update_def namespaced_NetworkContainer_Update_def
      cluster_NetworkContainer_Delete_def namespaced_NetworkContainer_Delete_def)+

section \<open>Late initialisation\<close>

definition NetworkContainer_utd :: "network_late \<Rightarrow> ibNetworkContainer \<Rightarrow> bool" where
  "NetworkContainer_utd l nw = (case l of (network, comment, extAttrs) \<Rightarrow> NetworkContainer_isUpToDate comment extAttrs nw)"

lemma NetworkContainer_lateInitialize_eq:
  "NetworkContainer_lateInitialize (n, c, a) nw =
     (let n1 = (if n = None then ptrIfNonEmpty (nct_Cidr nw) else n);
          c1 = (if c = None then ptrIfNonEmpty (nct_Comment nw) else c);
          a1 = (if a = fmempty then userAttrs (nct_Ea nw) else a)
      in ((n1, c1, a1), (n1, c1, a1) \<noteq> (n, c, a)))"
  by (simp only: NetworkContainer_lateInitialize_def userAttrs_def [symmetric] Let_def case_prod_conv late_steps
      late_text prod.inject late_changed simp_thms de_Morgan_conj disj_ac)

interpretation container_late: late_init NetworkContainer_lateInitialize NetworkContainer_utd Network_keeps
proof
  fix l :: network_late and x :: ibNetworkContainer
  obtain n c a where l: "l = (n, c, a)" by (cases l) auto
  show "NetworkContainer_lateInitialize (fst (NetworkContainer_lateInitialize l x)) x = (fst (NetworkContainer_lateInitialize l x), False)"
    by (simp add: l NetworkContainer_lateInitialize_eq Let_def)
  show "snd (NetworkContainer_lateInitialize l x) \<longleftrightarrow> fst (NetworkContainer_lateInitialize l x) \<noteq> l"
    by (simp add: l NetworkContainer_lateInitialize_eq Let_def)
  show "Network_keeps l (fst (NetworkContainer_lateInitialize l x))"
    by (simp add: l NetworkContainer_lateInitialize_eq Let_def Network_keeps_def)
  show "NetworkContainer_utd (fst (NetworkContainer_lateInitialize l x)) x" if "NetworkContainer_utd l x"
    using that
    by (auto simp: l NetworkContainer_lateInitialize_eq Let_def NetworkContainer_utd_def NetworkContainer_isUpToDate_def
        extAttrsEqual_iff userAttrs_def split: if_splits)
qed

section \<open>The ladder over two types\<close>

lemma NetworkContainer_type_shape [simp]: "ref_ea_shape (newEmptyNetworkContainer b)"
  by (simp add: ref_ea_shape_def newEmptyNetworkContainer_def reflectNetworkContainer_def getRef_def getEA_def)

lemma stamped_NetworkContainer [simp]: "stamped (newEmptyNetworkContainer b) x = eaValue (nct_Ea x) EAKey"
  by (simp add: stamped_def newEmptyNetworkContainer_def reflectNetworkContainer_def getEA_def)

lemma NetworkContainer_ot_name [simp]: "ot_name (newEmptyNetworkContainer b) = (if b then ''ipv6networkcontainer'' else ''networkcontainer'')"
  by (simp add: newEmptyNetworkContainer_def)

definition container_family :: "NetworkContainerCR \<Rightarrow> bool option" where
  "container_family cr = networkContainerFamily (ncp_Network (ncc_ForProvider cr)) (ncp_ParentCidr (ncc_ForProvider cr))"

lemma resolveNetworkContainerIdentity_eq:
  "resolveNetworkContainerIdentity env ref uid network parent =
     family_shape newEmptyNetworkContainer (resolveNetworkContainerIdentityUnknownFamily env) env ref uid (networkContainerFamily network parent)"
  by (intro ext) (simp only: resolveNetworkContainerIdentity_def family_shape_def)

definition container_resolve :: "nct_env \<Rightarrow> NetworkContainerCR \<Rightarrow> string \<Rightarrow> nct_world \<Rightarrow> (goerr + ibNetworkContainer option \<times> Outcome) \<times> nct_world" where
  "container_resolve env cr ref =
     resolveNetworkContainerIdentity env ref (mo_uid cr) (ncp_Network (ncc_ForProvider cr)) (ncp_ParentCidr (ncc_ForProvider cr))"

interpretation container_types: two_type_resolution newEmptyNetworkContainer "''networkcontainer/ipv6networkcontainer''"
  "\<lambda>x. eaValue (nct_Ea x) EAKey" resolveNetworkContainerIdentityUnknownFamily container_family container_resolve
  by unfold_locales (simp_all only: resolveNetworkContainerIdentityUnknownFamily_def both_types_shape_def NetworkContainer_type_shape
      stamped_NetworkContainer container_resolve_def resolveNetworkContainerIdentity_eq container_family_def)

section \<open>Creation\<close>

fun container_req_ea :: "networkcontainer_req \<Rightarrow> ea" where
  "container_req_ea (CreateNetworkContainer v c f m e) = e"
| "container_req_ea (AllocateNetworkContainer v c f n m e) = e"
| "container_req_ea (AllocateNetworkContainerByEA v f m e fp n) = e"
| "container_req_ea (UpdateNetworkContainer r e m) = e"

text \<open>The path the spec selects, and the one request it stands for.\<close>

definition container_create_request :: "NetworkContainerParameters \<Rightarrow> string \<Rightarrow> goerr + networkcontainer_req" where
  "container_create_request p uid =
     (if trim_space uid = [] then Inl (TextError NetworkContainer_errEmptyUID)
      else if strOrEmpty (ncp_ParentCidr p) \<noteq> [] \<and> ncp_FilterParams p \<noteq> fmempty then
        Inl (TextError errParentCidrAndFilterParams)
      else
        (let e = Stamp (buildEA (ncp_ExtAttrs p)) uid; v = strOrEmpty (ncp_NetworkView p); m = strOrEmpty (ncp_Comment p) in
         if strOrEmpty (ncp_Network p) \<noteq> [] then
           Inr (CreateNetworkContainer v (strOrEmpty (ncp_Network p)) (isIPv6CIDR (strOrEmpty (ncp_Network p))) m e)
         else if strOrEmpty (ncp_ParentCidr p) = [] \<and> ncp_FilterParams p = fmempty then
           Inl (TextError errMissingAllocationInput)
         else (case ncp_AllocatePrefixLen p of
           None \<Rightarrow> Inl (TextError errAllocatePrefixLenRequired)
         | Some n \<Rightarrow>
             if strOrEmpty (ncp_ParentCidr p) \<noteq> [] then
               Inr (AllocateNetworkContainer v (strOrEmpty (ncp_ParentCidr p)) (isIPv6CIDR (strOrEmpty (ncp_ParentCidr p))) n m e)
             else Inr (AllocateNetworkContainerByEA v False m e (ncp_FilterParams p) n))))"

lemma createOrAllocateContainer_request:
  "createOrAllocateNetworkContainer env p uid w =
     (case container_create_request p uid of
        Inl err \<Rightarrow> (Inl err, w)
      | Inr req \<Rightarrow> (wapi_mutate env (calls w) req, log_call (CMutate req) w))"
  by (simp add: createOrAllocateNetworkContainer_def container_create_request_def createNetworkContainer_def mutate_object_def Let_def
      split: option.split)

section \<open>The NetworkContainer controller as a client of the two types\<close>

definition NetworkContainer_get :: "NetworkContainerCR \<Rightarrow> network_late" where
  "NetworkContainer_get cr = NetworkContainer_latePart (ncc_ForProvider cr)"

definition NetworkContainer_put :: "NetworkContainerCR \<Rightarrow> network_late \<Rightarrow> NetworkContainerCR" where
  "NetworkContainer_put cr l = cr\<lparr>ncc_ForProvider := NetworkContainer_setLate (ncc_ForProvider cr) l\<rparr>"

definition NetworkContainer_current :: "NetworkContainerCR \<Rightarrow> ibNetworkContainer \<Rightarrow> bool" where
  "NetworkContainer_current cr nw = NetworkContainer_utd (NetworkContainer_get cr) nw"

definition NetworkContainer_status :: "ibNetworkContainer \<Rightarrow> NetworkContainerCR \<Rightarrow> NetworkContainerCR" where
  "NetworkContainer_status nw cr = (let ob = observeFromNetworkContainer (nct_Ref nw) nw
      in cr\<lparr>ncc_AtProvider :=
           \<lparr>nco_ID = onc_ID ob, nco_NetworkView = onc_NetworkView ob, nco_Network = onc_Network ob,
            nco_ParentCidr = None, nco_AllocatePrefixLen = None, nco_FilterParams = fmempty,
            nco_Comment = onc_Comment ob, nco_ExtAttrs = onc_ExtAttrs ob, nco_Ref = onc_Ref ob\<rparr>\<rparr>)"

definition NetworkContainer_valid :: "NetworkContainerCR \<Rightarrow> goerr option" where
  "NetworkContainer_valid cr = (if trim_space (mo_uid cr) = [] then Some (TextError NetworkContainer_errEmptyUID) else None)"

definition container_update_request :: "NetworkContainerCR \<Rightarrow> networkcontainer_req" where
  "container_update_request cr =
     (let p = ncc_ForProvider cr
      in UpdateNetworkContainer (GetExternalName cr) (Stamp (buildEA (ncp_ExtAttrs p)) (mo_uid cr)) (strOrEmpty (ncp_Comment p)))"

text \<open>What the Grid stores of a request.\<close>

fun container_holds :: "networkcontainer_req \<Rightarrow> ibNetworkContainer \<Rightarrow> bool" where
  "container_holds (CreateNetworkContainer v c f m e) x \<longleftrightarrow> nct_Cidr x = c \<and> nct_Comment x = m \<and> nct_Ea x = e"
| "container_holds (AllocateNetworkContainer v c f n m e) x \<longleftrightarrow> nct_Comment x = m \<and> nct_Ea x = e"
| "container_holds (AllocateNetworkContainerByEA v f m e fp n) x \<longleftrightarrow> nct_Comment x = m \<and> nct_Ea x = e"
| "container_holds (UpdateNetworkContainer r e m) x \<longleftrightarrow> nct_Ref x = r \<and> nct_Comment x = m \<and> nct_Ea x = e"

definition NetworkContainer_spec_ok :: "NetworkContainerCR \<Rightarrow> bool" where
  "NetworkContainer_spec_ok cr \<longleftrightarrow> reserved_free (ncp_ExtAttrs (ncc_ForProvider cr))"

lemma NetworkContainer_get_put [simp]: "NetworkContainer_get (NetworkContainer_put cr l) = l"
  by (cases l) (simp add: NetworkContainer_get_def NetworkContainer_put_def NetworkContainer_latePart_def NetworkContainer_setLate_def)

lemma NetworkContainer_get_rename [simp]: "NetworkContainer_get (SetExternalName n cr) = NetworkContainer_get cr"
  by (simp add: NetworkContainer_get_def SetExternalName_def)

interpretation container_lens: late_lens NetworkContainer_lateInitialize Network_keeps NetworkContainer_get NetworkContainer_put NetworkContainer_current
proof
  fix l l' :: network_late and x :: ibNetworkContainer and cr :: NetworkContainerCR
  show "NetworkContainer_get (NetworkContainer_put cr l) = l" by simp
  show "NetworkContainer_put cr (NetworkContainer_get cr) = cr"
    by (simp add: NetworkContainer_get_def NetworkContainer_put_def NetworkContainer_latePart_def NetworkContainer_setLate_def)
  show "NetworkContainer_put (NetworkContainer_put cr l) l' = NetworkContainer_put cr l'"
    by (simp add: NetworkContainer_put_def NetworkContainer_setLate_def split: prod.split)
  then show "NetworkContainer_current (NetworkContainer_put cr (fst (NetworkContainer_lateInitialize (NetworkContainer_get cr) x))) x"
    if "NetworkContainer_current cr x"
    using that container_late.late_utd [of "NetworkContainer_get cr" x]
    by (simp add: NetworkContainer_current_def)
qed (use container_late.late_idem container_late.late_flag container_late.late_keeps in blast)+

lemma deleteNetworkContainer_issue: "deleteNetworkContainer = issue_delete"
  by (intro ext) (simp only: deleteNetworkContainer_def issue_delete_def)

lemma NetworkContainer_Observe_shape:
  "namespaced_NetworkContainer_Observe env ep cr w =
     ladder_observe_shape (ladder_observe_error errObserveNetworkContainer) (\<lambda>ref uid. container_resolve env cr ref)
       (ensureIdentityPrerequisite env ep) (\<lambda>r. r \<noteq> []) (\<lambda>r. True)
       (lift_late NetworkContainer_lateInitialize NetworkContainer_get NetworkContainer_put) NetworkContainer_status NetworkContainer_current nct_Ref cr w"
proof -
  let ?p = "ncc_ForProvider cr"
  have same: "cr\<lparr>ncc_ForProvider := NetworkContainer_setLate ?p (NetworkContainer_latePart ?p)\<rparr> = cr"
    by (simp add: NetworkContainer_latePart_def NetworkContainer_setLate_def)
  have part: "fst (NetworkContainer_latePart ?p) = ncp_Network ?p" by (simp add: NetworkContainer_latePart_def)
  obtain r w1 where r: "container_resolve env cr (observeRefFor (mo_name cr) (GetExternalName cr)) w = (r, w1)"
    by (cases "container_resolve env cr (observeRefFor (mo_name cr) (GetExternalName cr)) w")
  then have r': "resolveNetworkContainerIdentity env (observeRefFor (mo_name cr) (GetExternalName cr)) (mo_uid cr)
      (ncp_Network ?p) (ncp_ParentCidr ?p) w = (r, w1)"
    by (simp add: container_resolve_def observeRefFor_def)
  obtain e w2 where e: "ensureIdentityPrerequisite env ep w1 = (e, w2)"
    by (cases "ensureIdentityPrerequisite env ep w1")
  note defs = namespaced_NetworkContainer_Observe_def observeNetworkContainer_def ladder_observe_shape_def ladder_observe_error_def
  show ?thesis
  proof (cases r)
    case (Inl err)
    then show ?thesis
      by (cases e) (simp_all add: defs Let_def r r' part e same)
  next
    case (Inr a)
    obtain obj out where a: "a = (obj, out)" by (cases a)
    show ?thesis
    proof (cases obj)
      case None
      then show ?thesis
        by (simp add: defs Let_def r r' part Inr a same NetworkContainer_notFoundResult_def)
    next
      case (Some nw)
      obtain n c x c1 where l: "NetworkContainer_lateInitialize (NetworkContainer_latePart ?p) nw = ((n, c, x), c1)"
        by (cases "NetworkContainer_lateInitialize (NetworkContainer_latePart ?p) nw") auto
      with Some show ?thesis
        by (simp add: defs Let_def r r' part Inr a same lift_late_def NetworkContainer_get_def NetworkContainer_put_def
            NetworkContainer_status_def NetworkContainer_current_def NetworkContainer_utd_def NetworkContainer_notFoundResult_def
            NetworkContainer_setLate_def NetworkContainer_latePart_def)
    qed
  qed
qed

lemma NetworkContainer_Create_shape:
  "namespaced_NetworkContainer_Create env ep cr w =
     ladder_create_shape errCreateNetworkContainer NetworkContainer_valid (ensureIdentityPrerequisite env ep) (send_planned env)
       (\<lambda>cr. container_create_request (ncc_ForProvider cr) (mo_uid cr)) nct_Ref cr w"
proof -
  have "createOrAllocateNetworkContainer env (ncc_ForProvider cr) (mo_uid cr) =
      send_planned env (container_create_request (ncc_ForProvider cr) (mo_uid cr))"
    by (intro ext) (simp add: createOrAllocateContainer_request send_planned_def mutate_object_def split: sum.split)
  then show ?thesis
    by (cases "trim_space (mo_uid cr) = []")
      (simp_all only: namespaced_NetworkContainer_Create_def ladder_create_shape_def NetworkContainer_valid_def Let_def if_True if_False
        option.case not_True_eq_False refl)
qed

lemma NetworkContainer_Update_shape:
  "namespaced_NetworkContainer_Update env ep cr w =
     ladder_update_shape errUpdateNetworkContainer NetworkContainer_errEmptyUID env (ensureIdentityPrerequisite env ep)
       container_update_request nct_Ref cr w"
proof -
  obtain e w1 where e: "ensureIdentityPrerequisite env ep w = (e, w1)"
    by (cases "ensureIdentityPrerequisite env ep w")
  show ?thesis
    by (cases e; cases "wapi_mutate env (calls w1) (container_update_request cr)")
      (auto simp: namespaced_NetworkContainer_Update_def ladder_update_shape_def updateNetworkContainer_def container_update_request_def
        Let_def e mutate_object_def)
qed

lemma NetworkContainer_Delete_shape:
  "namespaced_NetworkContainer_Delete env ep cr w =
     ladder_delete_shape errDeleteNetworkContainer errDeleteUnverifiedOwnership nilDereference
       (container_resolve env cr (GetExternalName cr)) (ensureIdentityPrerequisite env ep)
       (issue_delete env) nct_Ref w"
proof -
  have "namespaced_NetworkContainer_Delete env ep cr w =
      deleteNetworkContainerIdentity env ep (GetExternalName cr) (mo_uid cr) (ncp_Network (ncc_ForProvider cr)) (ncp_ParentCidr (ncc_ForProvider cr)) w"
    by (simp add: namespaced_NetworkContainer_Delete_def Let_def split: prod.split option.split)
  then show ?thesis
    by (simp only: deleteNetworkContainerIdentity_def ladder_delete_shape_def container_resolve_def deleteNetworkContainer_issue)
qed

lemma container_written_current:
  assumes "NetworkContainer_spec_ok cr"
    and "container_create_request (ncc_ForProvider cr) (mo_uid cr) = Inr m \<or> m = container_update_request cr"
    and "container_holds m x"
  shows "NetworkContainer_current (fst (lift_late NetworkContainer_lateInitialize NetworkContainer_get NetworkContainer_put cr x)) x \<and>
    eaValue (nct_Ea x) EAKey = Some (mo_uid cr)"
proof -
  let ?p = "ncc_ForProvider cr"
  have sent: "nct_Comment x = strOrEmpty (ncp_Comment ?p)" "nct_Ea x = Stamp (buildEA (ncp_ExtAttrs ?p)) (mo_uid cr)"
    using assms(2,3)
    by (auto simp: container_create_request_def container_update_request_def Let_def split: if_splits option.splits)
  have "userAttrs (nct_Ea x) = ncp_ExtAttrs ?p"
    using assms(1) by (simp add: sent userAttrs_buildEA reserved_free_fmdrop NetworkContainer_spec_ok_def)
  then have "NetworkContainer_current cr x"
    using sent(1)
    by (simp add: NetworkContainer_current_def NetworkContainer_utd_def NetworkContainer_get_def NetworkContainer_latePart_def NetworkContainer_isUpToDate_def
        extAttrsEqual_iff flip: userAttrs_def)
  with sent(2) show ?thesis using container_lens.late_utd by simp
qed

lemma container_request_stamp:
  "container_create_request (ncc_ForProvider cr) (mo_uid cr) = Inr m \<or> m = container_update_request cr \<Longrightarrow>
     eaValue (container_req_ea m) EAKey = Some (mo_uid cr)"
  by (auto simp: container_create_request_def container_update_request_def Let_def split: if_splits option.splits)

interpretation networkcontainer: refreshing_resolver container_resolve "both_sound newEmptyNetworkContainer"
  "\<lambda>x. eaValue (nct_Ea x) EAKey" "{ot_name (newEmptyNetworkContainer False), ot_name (newEmptyNetworkContainer True)}"
  "\<lambda>cr. family_types newEmptyNetworkContainer (container_family cr)" "\<lambda>cr. family_kind newEmptyNetworkContainer (container_family cr)"
  "lift_late NetworkContainer_lateInitialize NetworkContainer_get NetworkContainer_put" NetworkContainer_current nct_Ref NetworkContainer_status NetworkContainer_valid
  "\<lambda>cr. container_create_request (ncc_ForProvider cr) (mo_uid cr)" container_update_request container_req_ea
  container_holds NetworkContainer_spec_ok "ladder_observe_error errObserveNetworkContainer" "\<lambda>r. r \<noteq> []" "\<lambda>r. True" nct_Ref
  errCreateNetworkContainer errUpdateNetworkContainer errDeleteNetworkContainer NetworkContainer_errEmptyUID
  namespaced_NetworkContainer_Observe namespaced_NetworkContainer_Create namespaced_NetworkContainer_Update namespaced_NetworkContainer_Delete
proof (unfold_locales, goal_cases)
  case (5 cr)
  then show ?case by (auto simp: NetworkContainer_valid_def split: if_splits)
next
  case (10 cr m)
  then show ?case by (intro container_request_stamp) blast
next
  case (11 cr)
  show ?case by (intro container_request_stamp) blast
next
  case (13 n cr x)
  then show ?case by (simp add: container_lens.lifted_simps NetworkContainer_current_def)
next
  case (14 cr m x)
  then show ?case by (intro container_written_current) auto
next
  case (15 cr x)
  then show ?case by (intro container_written_current) auto
next
  case (16 cr x)
  then show ?case by simp
qed (simp_all add: NetworkContainer_Observe_shape NetworkContainer_Create_shape NetworkContainer_Update_shape NetworkContainer_Delete_shape
    container_lens.lifted_simps NetworkContainer_put_def NetworkContainer_status_def container_family_def
    SetExternalName_def Let_def)

end
