(* ===== verification/NSRecord.thy ===== *)
theory NSRecord
  imports Contracts Managed
begin

text \<open>
  internal/controller/recordns: the NSRecord controller. The WAPI object has no
  extensible attributes, so there is no stamp: the controller resolves a record
  by its natural key (name, view, nameserver), which is immutable.
\<close>

section \<open>Data\<close>

record ZoneNameServer =
  zn_Address :: string
  zn_AutoCreatePtr :: bool

record Dhcpmember =
  dhm_Ipv4Addr :: string
  dhm_Ipv6Addr :: string
  dhm_Name :: string

record GridCloudapiInfo =
  gci_DelegatedMember :: "Dhcpmember option"
  gci_DelegatedScope :: string
  gci_DelegatedRoot :: string
  gci_OwnedByAdaptor :: bool
  gci_Usage :: string
  gci_Tenant :: string
  gci_MgmtPlatform :: string
  gci_AuthorityType :: string

text \<open>ibclient.RecordNS; LastQueried as Unix seconds.\<close>

record RecordNS =
  rn_Ref :: string
  rn_Name :: string
  rn_View :: string
  rn_Nameserver :: "string option"
  rn_Addresses :: "ZoneNameServer option list"
  rn_MsDelegationName :: "string option"
  rn_Zone :: string
  rn_Creator :: string
  rn_DnsName :: string
  rn_LastQueried :: "int option"
  rn_CloudInfo :: "GridCloudapiInfo option"
  rn_Policy :: string

datatype nsrecord_req =
    CreateNSRecord string string string "ZoneNameServer list" string
      \<comment> \<open>name, nameserver, dnsView, addresses, msDelegationName\<close>
  | UpdateNSRecord string string string string "ZoneNameServer list" string
      \<comment> \<open>ref, name, nameserver, dnsView, addresses, msDelegationName\<close>

record nsRecordAddress =
  na_Address :: "string option"
  na_AutoCreatePtr :: "bool option"

record nsCloudInfoDelegatedMember =
  cm_Ipv4Addr :: "string option"
  cm_Ipv6Addr :: "string option"
  cm_Name :: "string option"

record nsCloudInfo =
  ci_DelegatedMember :: "nsCloudInfoDelegatedMember option"
  ci_DelegatedScope :: "string option"
  ci_DelegatedRoot :: "string option"
  ci_OwnedByAdaptor :: "bool option"
  ci_Usage :: "string option"
  ci_Tenant :: "string option"
  ci_MgmtPlatform :: "string option"
  ci_AuthorityType :: "string option"

record observedNSRecord =
  ons_ID :: string
  ons_Name :: "string option"
  ons_Nameserver :: "string option"
  ons_View :: "string option"
  ons_Addresses :: "nsRecordAddress list"
  ons_MsDelegationName :: "string option"
  ons_Ref :: "string option"
  ons_Zone :: "string option"
  ons_Creator :: "string option"
  ons_DNSName :: "string option"
  ons_LastQueried :: "int option"
  ons_CloudInfo :: "nsCloudInfo option"
  ons_Policy :: "string option"

record NSRecordParameters =
  nsp_Name :: "string option"
  nsp_Nameserver :: "string option"
  nsp_View :: "string option"
  nsp_Addresses :: "nsRecordAddress list"
  nsp_MsDelegationName :: "string option"

record NSRecordCR = mobj +
  ns_ForProvider :: NSRecordParameters
  ns_AtProvider :: observedNSRecord \<comment> \<open>NSRecordObservation has the same fields\<close>

definition NSRecord_errPersistExternalName :: string where
  "NSRecord_errPersistExternalName = ''cannot persist refreshed external name''"
definition errObserveNSRecord :: string where "errObserveNSRecord = ''cannot observe NSRecord''"
definition errCreateNSRecord :: string where "errCreateNSRecord = ''cannot create NSRecord''"
definition errUpdateNSRecord :: string where "errUpdateNSRecord = ''cannot update NSRecord''"
definition errDeleteNSRecord :: string where "errDeleteNSRecord = ''cannot delete NSRecord''"

section \<open>Translation\<close>

definition buildAddresses :: "nsRecordAddress list \<Rightarrow> ZoneNameServer list" where
  "buildAddresses addrs =
     map (\<lambda>a. \<lparr>zn_Address = strOrEmpty (na_Address a), zn_AutoCreatePtr = boolOrFalse (na_AutoCreatePtr a)\<rparr>) addrs"

fun addressesFromZoneNameServers :: "ZoneNameServer option list \<Rightarrow> nsRecordAddress list" where
  "addressesFromZoneNameServers [] = []"
| "addressesFromZoneNameServers (z # zs) =
     (case z of
        None \<Rightarrow> addressesFromZoneNameServers zs
      | Some s \<Rightarrow>
          \<lparr>na_Address = Some (zn_Address s), na_AutoCreatePtr = Some (zn_AutoCreatePtr s)\<rparr>
          # addressesFromZoneNameServers zs)"

fun addresses_same :: "nsRecordAddress list \<Rightarrow> nsRecordAddress list \<Rightarrow> bool" where
  "addresses_same (a # as) (b # bs) =
     (if strOrEmpty (na_Address a) \<noteq> strOrEmpty (na_Address b) then False
      else if boolOrFalse (na_AutoCreatePtr a) \<noteq> boolOrFalse (na_AutoCreatePtr b) then False
      else addresses_same as bs)"
| "addresses_same _ _ = True"

definition addressesEqual :: "nsRecordAddress list \<Rightarrow> nsRecordAddress list \<Rightarrow> bool" where
  "addressesEqual a b = (if length a \<noteq> length b then False else addresses_same a b)"

section \<open>Field comparison and late initialisation\<close>

definition NSRecord_isUpToDate ::
  "string option \<Rightarrow> string option \<Rightarrow> nsRecordAddress list \<Rightarrow> RecordNS \<Rightarrow> bool" where
  "NSRecord_isUpToDate nameserver msDelegationName addresses rec =
     (if strOrEmpty nameserver \<noteq> strOrEmpty (rn_Nameserver rec) then False
      else
        (let observed = strOrEmpty (rn_MsDelegationName rec) in
         if observed \<noteq> [] \<and> strOrEmpty msDelegationName \<noteq> observed then False
         else addressesEqual addresses (addressesFromZoneNameServers (rn_Addresses rec))))"

definition NSRecord_lateInitialize :: "string option \<Rightarrow> RecordNS \<Rightarrow> string option \<times> bool" where
  "NSRecord_lateInitialize msDelegationName rec =
     (if msDelegationName = None \<and> rn_MsDelegationName rec \<noteq> None \<and> rn_MsDelegationName rec \<noteq> Some []
      then (rn_MsDelegationName rec, True) else (msDelegationName, False))"

definition observeCloudInfoDelegatedMember :: "Dhcpmember option \<Rightarrow> nsCloudInfoDelegatedMember option" where
  "observeCloudInfoDelegatedMember dm =
     (case dm of
        None \<Rightarrow> None
      | Some d \<Rightarrow> Some \<lparr>cm_Ipv4Addr = ptrIfNonEmpty (dhm_Ipv4Addr d), cm_Ipv6Addr = ptrIfNonEmpty (dhm_Ipv6Addr d),
                       cm_Name = ptrIfNonEmpty (dhm_Name d)\<rparr>)"

definition observeCloudInfo :: "GridCloudapiInfo option \<Rightarrow> nsCloudInfo option" where
  "observeCloudInfo ci =
     (case ci of
        None \<Rightarrow> None
      | Some c \<Rightarrow>
          Some \<lparr>ci_DelegatedMember = observeCloudInfoDelegatedMember (gci_DelegatedMember c),
                ci_DelegatedScope = ptrIfNonEmpty (gci_DelegatedScope c),
                ci_DelegatedRoot = ptrIfNonEmpty (gci_DelegatedRoot c),
                ci_OwnedByAdaptor = Some (gci_OwnedByAdaptor c),
                ci_Usage = ptrIfNonEmpty (gci_Usage c), ci_Tenant = ptrIfNonEmpty (gci_Tenant c),
                ci_MgmtPlatform = ptrIfNonEmpty (gci_MgmtPlatform c),
                ci_AuthorityType = ptrIfNonEmpty (gci_AuthorityType c)\<rparr>)"

definition observeFromRecordNS :: "string \<Rightarrow> RecordNS \<Rightarrow> observedNSRecord" where
  "observeFromRecordNS externalID rec =
     \<lparr>ons_ID = externalID, ons_Name = ptrIfNonEmpty (rn_Name rec), ons_Nameserver = rn_Nameserver rec,
      ons_View = ptrIfNonEmpty (rn_View rec),
      ons_Addresses = addressesFromZoneNameServers (rn_Addresses rec),
      ons_MsDelegationName = ptrIfSet (rn_MsDelegationName rec), ons_Ref = ptrIfNonEmpty (rn_Ref rec),
      ons_Zone = ptrIfNonEmpty (rn_Zone rec), ons_Creator = ptrIfNonEmpty (rn_Creator rec),
      ons_DNSName = ptrIfNonEmpty (rn_DnsName rec), ons_LastQueried = rn_LastQueried rec,
      ons_CloudInfo = observeCloudInfo (rn_CloudInfo rec), ons_Policy = ptrIfNonEmpty (rn_Policy rec)\<rparr>"

section \<open>SDK calls\<close>

type_synonym ns_env = "(RecordNS, nsrecord_req) wapi"
type_synonym ns_world = "nsrecord_req world"

definition createNSRecord ::
  "ns_env \<Rightarrow> NSRecordParameters \<Rightarrow> nsRecordAddress list \<Rightarrow> ns_world \<Rightarrow> (goerr + RecordNS) \<times> ns_world" where
  "createNSRecord env p addresses w =
     mutate_object env
       (CreateNSRecord (strOrEmpty (nsp_Name p)) (strOrEmpty (nsp_Nameserver p)) (strOrEmpty (nsp_View p))
          (buildAddresses addresses) (strOrEmpty (nsp_MsDelegationName p))) w"

definition updateNSRecord ::
  "ns_env \<Rightarrow> string \<Rightarrow> string option \<Rightarrow> string option \<Rightarrow> nsRecordAddress list \<Rightarrow> ns_world \<Rightarrow>
     (goerr + RecordNS) \<times> ns_world" where
  "updateNSRecord env ref nameserver msDelegationName addresses w =
     mutate_object env
       (UpdateNSRecord ref [] (strOrEmpty nameserver) [] (buildAddresses addresses) (strOrEmpty msDelegationName)) w"

definition deleteNSRecord :: "ns_env \<Rightarrow> string \<Rightarrow> ns_world \<Rightarrow> goerr option \<times> ns_world" where
  "deleteNSRecord env ref w =
     (case delete_object env ref w of
        (Inl err, w1) \<Rightarrow> (Some err, w1)
      | (Inr _, w1) \<Rightarrow> (None, w1))"

section \<open>Natural-key resolution\<close>

definition nsrecord_key_query :: "string \<Rightarrow> string \<Rightarrow> string \<Rightarrow> (string, string) fmap" where
  "nsrecord_key_query name view nameserver =
     fmupd ''nameserver'' nameserver (fmupd ''view'' view (fmupd ''name'' name fmempty))"

definition resolveNSRecordByNaturalKey ::
  "ns_env \<Rightarrow> string option \<Rightarrow> string option \<Rightarrow> string option \<Rightarrow> ns_world \<Rightarrow>
     (goerr + RecordNS option) \<times> ns_world" where
  "resolveNSRecordByNaturalKey env name view nameserver w =
     (if strOrEmpty name = [] \<or> strOrEmpty view = [] \<or> strOrEmpty nameserver = [] then (Inr None, w)
      else
        (let sf = nsrecord_key_query (strOrEmpty name) (strOrEmpty view) (strOrEmpty nameserver) in
         case search_objects env ''record:ns'' sf w of
           (Inl err, w1) \<Rightarrow> if isNotFound (Some err) then (Inr None, w1) else (Inl err, w1)
         | (Inr res, w1) \<Rightarrow>
             (case res of
                [] \<Rightarrow> (Inr None, w1)
              | [x] \<Rightarrow> (Inr (Some x), w1)
              | _ \<Rightarrow> (Inl (AmbiguousNaturalKeyMatchError (strOrEmpty name) (strOrEmpty view)
                         (strOrEmpty nameserver) (length res)), w1))))"

definition NSRecord_observeRefFor :: "string \<Rightarrow> string \<Rightarrow> string" where
  "NSRecord_observeRefFor crName externalName = (if externalName = crName then [] else externalName)"

text \<open>The record with refreshed: whether its reference was recovered by the search.\<close>

type_synonym nsRecordObserveResult = "RecordNS \<times> bool"

definition resolveNSRecordForObserve ::
  "ns_env \<Rightarrow> string \<Rightarrow> string option \<Rightarrow> string option \<Rightarrow> string option \<Rightarrow> ns_world \<Rightarrow>
     (goerr + nsRecordObserveResult option) \<times> ns_world" where
  "resolveNSRecordForObserve env ref name view nameserver w =
     (case (if ref \<noteq> [] then
              (case get_object env ''record:ns'' ref w of
                 (Inr rec, w1) \<Rightarrow> (Some (Inr (Some (rec, False))), w1)
               | (Inl err, w1) \<Rightarrow> if \<not> isNotFound (Some err) then (Some (Inl err), w1) else (None, w1))
            else (None, w)) of
        (Some r, w1) \<Rightarrow> (r, w1)
      | (None, w1) \<Rightarrow>
          (case resolveNSRecordByNaturalKey env name view nameserver w1 of
             (Inl err, w2) \<Rightarrow> (Inl err, w2)
           | (Inr None, w2) \<Rightarrow> (Inr None, w2)
           | (Inr (Some rec), w2) \<Rightarrow> (Inr (Some (rec, True)), w2)))"

definition deleteNSRecordResolving404 ::
  "ns_env \<Rightarrow> string \<Rightarrow> string option \<Rightarrow> string option \<Rightarrow> string option \<Rightarrow> ns_world \<Rightarrow>
     goerr option \<times> ns_world" where
  "deleteNSRecordResolving404 env ref name view nameserver w =
     (case deleteNSRecord env ref w of
        (None, w1) \<Rightarrow> (None, w1)
      | (Some delErr, w1) \<Rightarrow>
          if \<not> isNotFound (Some delErr) then (Some (Wrapped errDeleteNSRecord delErr), w1)
          else
            (case resolveNSRecordByNaturalKey env name view nameserver w1 of
               (Inl searchErr, w2) \<Rightarrow> (Some (Wrapped errDeleteNSRecord searchErr), w2)
             | (Inr None, w2) \<Rightarrow> (None, w2)
             | (Inr (Some rec), w2) \<Rightarrow>
                 (case deleteNSRecord env (rn_Ref rec) w2 of
                    (None, w3) \<Rightarrow> (None, w3)
                  | (Some delErr2, w3) \<Rightarrow>
                      if isNotFound (Some delErr2) then (None, w3)
                      else (Some (Wrapped errDeleteNSRecord delErr2), w3))))"

section \<open>The external clients\<close>

subsection \<open>namespaced.go\<close>

definition namespacedAddressesToShared :: "nsRecordAddress list \<Rightarrow> nsRecordAddress list" where
  "namespacedAddressesToShared addrs =
     map (\<lambda>a. \<lparr>na_Address = na_Address a, na_AutoCreatePtr = na_AutoCreatePtr a\<rparr>) addrs"

definition namespacedAddressesFromShared :: "nsRecordAddress list \<Rightarrow> nsRecordAddress list" where
  "namespacedAddressesFromShared addrs =
     map (\<lambda>a. \<lparr>na_Address = na_Address a, na_AutoCreatePtr = na_AutoCreatePtr a\<rparr>) addrs"

definition namespacedCloudInfoFromShared :: "nsCloudInfo option \<Rightarrow> nsCloudInfo option" where
  "namespacedCloudInfoFromShared ci =
     (case ci of
        None \<Rightarrow> None
      | Some c \<Rightarrow>
          Some \<lparr>ci_DelegatedMember =
                  (case ci_DelegatedMember c of
                     None \<Rightarrow> None
                   | Some m \<Rightarrow> Some \<lparr>cm_Ipv4Addr = cm_Ipv4Addr m, cm_Ipv6Addr = cm_Ipv6Addr m, cm_Name = cm_Name m\<rparr>),
                ci_DelegatedScope = ci_DelegatedScope c, ci_DelegatedRoot = ci_DelegatedRoot c,
                ci_OwnedByAdaptor = ci_OwnedByAdaptor c, ci_Usage = ci_Usage c, ci_Tenant = ci_Tenant c,
                ci_MgmtPlatform = ci_MgmtPlatform c, ci_AuthorityType = ci_AuthorityType c\<rparr>)"

definition namespaced_NSRecord_Observe ::
  "ns_env \<Rightarrow> NSRecordCR \<Rightarrow> ns_world \<Rightarrow> (goerr + ExternalObservation) \<times> NSRecordCR \<times> ns_world" where
  "namespaced_NSRecord_Observe env cr w =
     (let ref = NSRecord_observeRefFor (mo_name cr) (GetExternalName cr); p = ns_ForProvider cr in
      case resolveNSRecordForObserve env ref (nsp_Name p) (nsp_View p) (nsp_Nameserver p) w of
        (Inl err, w1) \<Rightarrow> (Inl (Wrapped errObserveNSRecord err), cr, w1)
      | (Inr None, w1) \<Rightarrow> (Inr notExists, cr, w1)
      | (Inr (Some (rec, refreshed)), w1) \<Rightarrow>
          (let cr1 = (if refreshed then SetExternalName (rn_Ref rec) cr else cr);
               o1 = observeFromRecordNS (rn_Ref rec) rec;
               cr2 = cr1\<lparr>ns_AtProvider :=
                 o1\<lparr>ons_Addresses := namespacedAddressesFromShared (ons_Addresses o1),
                    ons_CloudInfo := namespacedCloudInfoFromShared (ons_CloudInfo o1)\<rparr>\<rparr>;
               (ms, late) = NSRecord_lateInitialize (nsp_MsDelegationName p) rec;
               p1 = p\<lparr>nsp_MsDelegationName := ms\<rparr>;
               cr3 = SetAvailable (cr2\<lparr>ns_ForProvider := p1\<rparr>)
           in (Inr \<lparr>ResourceExists = True,
                    ResourceUpToDate = NSRecord_isUpToDate (nsp_Nameserver p1) (nsp_MsDelegationName p1)
                      (namespacedAddressesToShared (nsp_Addresses p1)) rec,
                    ResourceLateInitialized = (late \<or> refreshed)\<rparr>, cr3, w1)))"

definition namespaced_NSRecord_Create ::
  "ns_env \<Rightarrow> NSRecordCR \<Rightarrow> ns_world \<Rightarrow> goerr option \<times> NSRecordCR \<times> ns_world" where
  "namespaced_NSRecord_Create env cr w =
     (let p = ns_ForProvider cr in
      case createNSRecord env p (namespacedAddressesToShared (nsp_Addresses p)) w of
        (Inl err, w1) \<Rightarrow> (Some (Wrapped errCreateNSRecord err), cr, w1)
      | (Inr rec, w1) \<Rightarrow> (None, SetExternalName (rn_Ref rec) cr, w1))"

definition namespaced_NSRecord_Update ::
  "ns_env \<Rightarrow> NSRecordCR \<Rightarrow> ns_world \<Rightarrow> goerr option \<times> NSRecordCR \<times> ns_world" where
  "namespaced_NSRecord_Update env cr w =
     (let p = ns_ForProvider cr; externalID = GetExternalName cr in
      case updateNSRecord env externalID (nsp_Nameserver p) (nsp_MsDelegationName p)
             (namespacedAddressesToShared (nsp_Addresses p)) w of
        (Inl err, w1) \<Rightarrow> (Some (Wrapped errUpdateNSRecord err), cr, w1)
      | (Inr rec, w1) \<Rightarrow>
          if rn_Ref rec \<noteq> [] \<and> rn_Ref rec \<noteq> externalID then
            (case Refresh env cr (rn_Ref rec) w1 of
               (Some err, cr1, w2) \<Rightarrow> (Some (Wrapped NSRecord_errPersistExternalName err), cr1, w2)
             | (None, cr1, w2) \<Rightarrow> (None, cr1, w2))
          else (None, cr, w1))"

definition namespaced_NSRecord_Delete :: "ns_env \<Rightarrow> NSRecordCR \<Rightarrow> ns_world \<Rightarrow> goerr option \<times> ns_world" where
  "namespaced_NSRecord_Delete env cr w =
     (let externalID = GetExternalName cr; p = ns_ForProvider cr in
      case deleteNSRecordResolving404 env externalID (nsp_Name p) (nsp_View p) (nsp_Nameserver p) w of
        (Some err, w1) \<Rightarrow> (Some err, w1)
      | (None, w1) \<Rightarrow> (None, w1))"

subsection \<open>cluster.go\<close>

definition clusterAddressesToShared :: "nsRecordAddress list \<Rightarrow> nsRecordAddress list" where
  "clusterAddressesToShared addrs =
     map (\<lambda>a. \<lparr>na_Address = na_Address a, na_AutoCreatePtr = na_AutoCreatePtr a\<rparr>) addrs"

definition clusterAddressesFromShared :: "nsRecordAddress list \<Rightarrow> nsRecordAddress list" where
  "clusterAddressesFromShared addrs =
     map (\<lambda>a. \<lparr>na_Address = na_Address a, na_AutoCreatePtr = na_AutoCreatePtr a\<rparr>) addrs"

definition clusterCloudInfoFromShared :: "nsCloudInfo option \<Rightarrow> nsCloudInfo option" where
  "clusterCloudInfoFromShared ci =
     (case ci of
        None \<Rightarrow> None
      | Some c \<Rightarrow>
          Some \<lparr>ci_DelegatedMember =
                  (case ci_DelegatedMember c of
                     None \<Rightarrow> None
                   | Some m \<Rightarrow> Some \<lparr>cm_Ipv4Addr = cm_Ipv4Addr m, cm_Ipv6Addr = cm_Ipv6Addr m, cm_Name = cm_Name m\<rparr>),
                ci_DelegatedScope = ci_DelegatedScope c, ci_DelegatedRoot = ci_DelegatedRoot c,
                ci_OwnedByAdaptor = ci_OwnedByAdaptor c, ci_Usage = ci_Usage c, ci_Tenant = ci_Tenant c,
                ci_MgmtPlatform = ci_MgmtPlatform c, ci_AuthorityType = ci_AuthorityType c\<rparr>)"

definition cluster_NSRecord_Observe ::
  "ns_env \<Rightarrow> NSRecordCR \<Rightarrow> ns_world \<Rightarrow> (goerr + ExternalObservation) \<times> NSRecordCR \<times> ns_world" where
  "cluster_NSRecord_Observe env cr w =
     (let ref = NSRecord_observeRefFor (mo_name cr) (GetExternalName cr); p = ns_ForProvider cr in
      case resolveNSRecordForObserve env ref (nsp_Name p) (nsp_View p) (nsp_Nameserver p) w of
        (Inl err, w1) \<Rightarrow> (Inl (Wrapped errObserveNSRecord err), cr, w1)
      | (Inr None, w1) \<Rightarrow> (Inr notExists, cr, w1)
      | (Inr (Some (rec, refreshed)), w1) \<Rightarrow>
          (let cr1 = (if refreshed then SetExternalName (rn_Ref rec) cr else cr);
               o1 = observeFromRecordNS (rn_Ref rec) rec;
               cr2 = cr1\<lparr>ns_AtProvider :=
                 o1\<lparr>ons_Addresses := clusterAddressesFromShared (ons_Addresses o1),
                    ons_CloudInfo := clusterCloudInfoFromShared (ons_CloudInfo o1)\<rparr>\<rparr>;
               (ms, late) = NSRecord_lateInitialize (nsp_MsDelegationName p) rec;
               p1 = p\<lparr>nsp_MsDelegationName := ms\<rparr>;
               cr3 = SetAvailable (cr2\<lparr>ns_ForProvider := p1\<rparr>)
           in (Inr \<lparr>ResourceExists = True,
                    ResourceUpToDate = NSRecord_isUpToDate (nsp_Nameserver p1) (nsp_MsDelegationName p1)
                      (clusterAddressesToShared (nsp_Addresses p1)) rec,
                    ResourceLateInitialized = (late \<or> refreshed)\<rparr>, cr3, w1)))"

definition cluster_NSRecord_Create ::
  "ns_env \<Rightarrow> NSRecordCR \<Rightarrow> ns_world \<Rightarrow> goerr option \<times> NSRecordCR \<times> ns_world" where
  "cluster_NSRecord_Create env cr w =
     (let p = ns_ForProvider cr in
      case createNSRecord env p (clusterAddressesToShared (nsp_Addresses p)) w of
        (Inl err, w1) \<Rightarrow> (Some (Wrapped errCreateNSRecord err), cr, w1)
      | (Inr rec, w1) \<Rightarrow> (None, SetExternalName (rn_Ref rec) cr, w1))"

definition cluster_NSRecord_Update ::
  "ns_env \<Rightarrow> NSRecordCR \<Rightarrow> ns_world \<Rightarrow> goerr option \<times> NSRecordCR \<times> ns_world" where
  "cluster_NSRecord_Update env cr w =
     (let p = ns_ForProvider cr; externalID = GetExternalName cr in
      case updateNSRecord env externalID (nsp_Nameserver p) (nsp_MsDelegationName p)
             (clusterAddressesToShared (nsp_Addresses p)) w of
        (Inl err, w1) \<Rightarrow> (Some (Wrapped errUpdateNSRecord err), cr, w1)
      | (Inr rec, w1) \<Rightarrow>
          if rn_Ref rec \<noteq> [] \<and> rn_Ref rec \<noteq> externalID then
            (case Refresh env cr (rn_Ref rec) w1 of
               (Some err, cr1, w2) \<Rightarrow> (Some (Wrapped NSRecord_errPersistExternalName err), cr1, w2)
             | (None, cr1, w2) \<Rightarrow> (None, cr1, w2))
          else (None, cr, w1))"

definition cluster_NSRecord_Delete :: "ns_env \<Rightarrow> NSRecordCR \<Rightarrow> ns_world \<Rightarrow> goerr option \<times> ns_world" where
  "cluster_NSRecord_Delete env cr w =
     (let externalID = GetExternalName cr; p = ns_ForProvider cr in
      case deleteNSRecordResolving404 env externalID (nsp_Name p) (nsp_View p) (nsp_Nameserver p) w of
        (Some err, w1) \<Rightarrow> (Some err, w1)
      | (None, w1) \<Rightarrow> (None, w1))"

end
