(* ===== verification/FixedAddress.thy ===== *)
theory FixedAddress
  imports TwoTypes DhcpOptions NSRecord
begin

text \<open>
  internal/controller/fixedaddress: the FixedAddress controller. WAPI has two object types for it,
  fixedaddress and ipv6fixedaddress; the one a resource uses is the one of the address field its spec sets.
  The SDK's structs of DHCP options and of the cloud API information are those of theories DhcpOptions
  and NSRecord.
\<close>

section \<open>Data\<close>

text \<open>ibclient.FixedAddress, as the provider requests it.\<close>

record FixedAddressObj =
  fxr_Ref :: string
  fxr_NetviewName :: string
  fxr_Cidr :: string
  fxr_Comment :: string
  fxr_IPv4Address :: string
  fxr_IPv6Address :: string
  fxr_Duid :: string
  fxr_Mac :: "string option"
  fxr_Name :: "string option"
  fxr_MatchClient :: "string option"
  fxr_Ea :: ea
  fxr_Disable :: "bool option"
  fxr_AgentCircuitId :: "string option"
  fxr_AgentRemoteId :: "string option"
  fxr_ClientIdentifierPrependZero :: "bool option"
  fxr_DhcpClientIdentifier :: "string option"
  fxr_Options :: "Dhcpoption option list"
  fxr_UseOptions :: "bool option"
  fxr_CloudInfo :: "GridCloudapiInfo option"

definition NewEmptyFixedAddress :: FixedAddressObj where
  "NewEmptyFixedAddress =
     \<lparr>fxr_Ref = [], fxr_NetviewName = [], fxr_Cidr = [], fxr_Comment = [], fxr_IPv4Address = [], fxr_IPv6Address = [],
      fxr_Duid = [], fxr_Mac = None, fxr_Name = None, fxr_MatchClient = None, fxr_Ea = fmempty, fxr_Disable = None,
      fxr_AgentCircuitId = None, fxr_AgentRemoteId = None, fxr_ClientIdentifierPrependZero = None,
      fxr_DhcpClientIdentifier = None, fxr_Options = [], fxr_UseOptions = None, fxr_CloudInfo = None\<rparr>"

definition reflectFixedAddress :: "FixedAddressObj \<Rightarrow> goany" where
  "reflectFixedAddress r = PtrTo ''*ibclient.FixedAddress''
     [(''NetviewName'', FString (fxr_NetviewName r)), (''Cidr'', FString (fxr_Cidr r)),
      (''Comment'', FString (fxr_Comment r)), (''IPv4Address'', FString (fxr_IPv4Address r)),
      (''IPv6Address'', FString (fxr_IPv6Address r)), (''Duid'', FString (fxr_Duid r)), (''Mac'', FOther),
      (''Name'', FOther), (''MatchClient'', FOther), (''Ref'', FString (fxr_Ref r)), (''Ea'', FEA (fxr_Ea r)),
      (''Options'', FOther), (''CloudInfo'', FOther)]"

definition newEmptyFixedAddress :: "bool \<Rightarrow> FixedAddressObj objtype" where
  "newEmptyFixedAddress isIPv6 =
     \<lparr>ot_name = (if isIPv6 then ''ipv6fixedaddress'' else ''fixedaddress''),
      ot_empty = NewEmptyFixedAddress, ot_reflect = reflectFixedAddress\<rparr>"

text \<open>The arguments of AllocateIP and UpdateFixedAddress that name what is to be stored.\<close>

record fixedaddress_args =
  fxa_netview :: string
  fxa_cidr :: string
  fxa_ipAddr :: string
  fxa_mac :: string
  fxa_name :: string
  fxa_comment :: string
  fxa_ea :: ea
  fxa_matchClient :: string
  fxa_agentCircuitId :: string
  fxa_agentRemoteId :: string
  fxa_clientIdentifierPrependZero :: "bool option"
  fxa_dhcpClientIdentifier :: string
  fxa_disable :: bool
  fxa_options :: "Dhcpoption option list"
  fxa_useOptions :: bool

datatype fixedaddress_req =
    AllocateIP bool fixedaddress_args \<comment> \<open>isIPv6\<close>
  | UpdateFixedAddress string fixedaddress_args \<comment> \<open>fixedAddrRef\<close>

text \<open>The package's struct of a DHCP option; int64 numbers.\<close>

record fixedDhcpOption =
  fdo_Name :: "string option"
  fdo_Num :: "64 word option"
  fdo_VendorClass :: "string option"
  fdo_Value :: "string option"
  fdo_UseOption :: "bool option"

record FixedAddressDhcpOption =
  cdo_Name :: "string option"
  cdo_Num :: "64 word option"
  cdo_VendorClass :: "string option"
  cdo_Value :: "string option"
  cdo_UseOption :: "bool option"

record fixedAddressFields =
  ff_IPv4Addr :: "string option"
  ff_IPv6Addr :: "string option"
  ff_MAC :: "string option"
  ff_NetworkView :: "string option"
  ff_Network :: "string option"
  ff_Name :: "string option"
  ff_MatchClient :: "string option"
  ff_Comment :: "string option"
  ff_ExtAttrs :: extattrs
  ff_Disable :: "bool option"
  ff_AgentCircuitID :: "string option"
  ff_AgentRemoteID :: "string option"
  ff_ClientIdentifierPrependZero :: "bool option"
  ff_DHCPClientIdentifier :: "string option"
  ff_Options :: "fixedDhcpOption list"
  ff_UseOptions :: "bool option"

definition isIPv6 :: "fixedAddressFields \<Rightarrow> bool" where
  "isIPv6 f = (ff_IPv6Addr f \<noteq> None)"

record sharedCloudInfoDelegatedMember =
  sdm_IPv4Addr :: "string option"
  sdm_IPv6Addr :: "string option"
  sdm_Name :: "string option"

record sharedCloudInfo =
  sci_DelegatedMember :: "sharedCloudInfoDelegatedMember option"
  sci_DelegatedScope :: "string option"
  sci_DelegatedRoot :: "string option"
  sci_OwnedByAdaptor :: "bool option"
  sci_Usage :: "string option"
  sci_Tenant :: "string option"
  sci_MgmtPlatform :: "string option"
  sci_AuthorityType :: "string option"

record FixedAddressCloudInfoDelegatedMember =
  fcm_Ipv4Addr :: "string option"
  fcm_Ipv6Addr :: "string option"
  fcm_Name :: "string option"

record FixedAddressCloudInfo =
  fci_DelegatedMember :: "FixedAddressCloudInfoDelegatedMember option"
  fci_DelegatedScope :: "string option"
  fci_DelegatedRoot :: "string option"
  fci_OwnedByAdaptor :: "bool option"
  fci_Usage :: "string option"
  fci_Tenant :: "string option"
  fci_MgmtPlatform :: "string option"
  fci_AuthorityType :: "string option"

record FixedAddressParameters =
  fxp_IPv4Addr :: "string option"
  fxp_IPv6Addr :: "string option"
  fxp_MAC :: "string option"
  fxp_NetworkView :: "string option"
  fxp_Network :: "string option"
  fxp_Name :: "string option"
  fxp_MatchClient :: "string option"
  fxp_Comment :: "string option"
  fxp_ExtAttrs :: extattrs
  fxp_Disable :: "bool option"
  fxp_AgentCircuitID :: "string option"
  fxp_AgentRemoteID :: "string option"
  fxp_ClientIdentifierPrependZero :: "bool option"
  fxp_DHCPClientIdentifier :: "string option"
  fxp_Options :: "FixedAddressDhcpOption option list"
  fxp_UseOptions :: "bool option"

record observedFixedAddress =
  ofx_ID :: string
  ofx_IPv4Addr :: "string option"
  ofx_IPv6Addr :: "string option"
  ofx_MAC :: "string option"
  ofx_NetworkView :: "string option"
  ofx_Network :: "string option"
  ofx_Name :: "string option"
  ofx_MatchClient :: "string option"
  ofx_Comment :: "string option"
  ofx_ExtAttrs :: extattrs
  ofx_Disable :: "bool option"
  ofx_AgentCircuitID :: "string option"
  ofx_AgentRemoteID :: "string option"
  ofx_ClientIdentifierPrependZero :: "bool option"
  ofx_DHCPClientIdentifier :: "string option"
  ofx_Options :: "fixedDhcpOption list"
  ofx_UseOptions :: "bool option"
  ofx_Ref :: "string option"
  ofx_DUID :: "string option"
  ofx_CloudInfo :: "sharedCloudInfo option"

record FixedAddressObservation =
  fxs_ID :: string
  fxs_IPv4Addr :: "string option"
  fxs_IPv6Addr :: "string option"
  fxs_MAC :: "string option"
  fxs_NetworkView :: "string option"
  fxs_Network :: "string option"
  fxs_Name :: "string option"
  fxs_MatchClient :: "string option"
  fxs_Comment :: "string option"
  fxs_ExtAttrs :: extattrs
  fxs_Disable :: "bool option"
  fxs_AgentCircuitID :: "string option"
  fxs_AgentRemoteID :: "string option"
  fxs_ClientIdentifierPrependZero :: "bool option"
  fxs_DHCPClientIdentifier :: "string option"
  fxs_Options :: "FixedAddressDhcpOption option list"
  fxs_UseOptions :: "bool option"
  fxs_Ref :: "string option"
  fxs_DUID :: "string option"
  fxs_CloudInfo :: "FixedAddressCloudInfo option"

record FixedAddressCR = mobj +
  fx_ForProvider :: FixedAddressParameters
  fx_AtProvider :: FixedAddressObservation

definition errObserveFixedAddress :: string where "errObserveFixedAddress = ''cannot observe FixedAddress''"
definition errCreateFixedAddress :: string where "errCreateFixedAddress = ''cannot create FixedAddress''"
definition errUpdateFixedAddress :: string where "errUpdateFixedAddress = ''cannot update FixedAddress''"
definition errDeleteFixedAddress :: string where "errDeleteFixedAddress = ''cannot delete FixedAddress''"
definition FixedAddress_errEmptyUID :: string where
  "FixedAddress_errEmptyUID = ''cannot stamp FixedAddress identity: managed resource's metadata.uid is empty''"
definition matchClientDefault :: string where "matchClientDefault = ''MAC_ADDRESS''"

section \<open>Translation\<close>

definition int64OrZero :: "64 word option \<Rightarrow> 64 word" where
  "int64OrZero i = (case i of None \<Rightarrow> 0 | Some v \<Rightarrow> v)"

text \<open>A code that is negative or does not fit an uint32 becomes 0.\<close>

definition uint32FromInt64 :: "64 word option \<Rightarrow> 32 word" where
  "uint32FromInt64 v =
     (case v of None \<Rightarrow> 0 | Some n \<Rightarrow> if sint n < 0 \<or> sint n > 4294967295 then 0 else ucast n)"

definition toSDKOptions :: "fixedDhcpOption list \<Rightarrow> Dhcpoption option list" where
  "toSDKOptions opts =
     (if opts = [] then []
      else map (\<lambda>o1. Some \<lparr>opt_Name = strOrEmpty (fdo_Name o1), opt_Num = uint32FromInt64 (fdo_Num o1),
             opt_VendorClass = strOrEmpty (fdo_VendorClass o1), opt_Value = strOrEmpty (fdo_Value o1),
             opt_UseOption = boolOrFalse (fdo_UseOption o1)\<rparr>) opts)"

definition dhcpOptionsFromSDK :: "Dhcpoption option list \<Rightarrow> fixedDhcpOption list" where
  "dhcpOptionsFromSDK opts =
     (if opts = [] then []
      else List.map_filter (\<lambda>ptr. case ptr of None \<Rightarrow> None
        | Some o1 \<Rightarrow> Some \<lparr>fdo_Name = Some (opt_Name o1), fdo_Num = Some (ucast (opt_Num o1)),
            fdo_VendorClass = Some (opt_VendorClass o1), fdo_Value = Some (opt_Value o1),
            fdo_UseOption = Some (opt_UseOption o1)\<rparr>) opts)"

fun dhcpOptionsLoop :: "fixedDhcpOption list \<Rightarrow> fixedDhcpOption list \<Rightarrow> bool" where
  "dhcpOptionsLoop (x # a) (y # b) =
     (if strOrEmpty (fdo_Name x) \<noteq> strOrEmpty (fdo_Name y) then False
      else if int64OrZero (fdo_Num x) \<noteq> int64OrZero (fdo_Num y) then False
      else if strOrEmpty (fdo_VendorClass x) \<noteq> strOrEmpty (fdo_VendorClass y) then False
      else if strOrEmpty (fdo_Value x) \<noteq> strOrEmpty (fdo_Value y) then False
      else if boolOrFalse (fdo_UseOption x) \<noteq> boolOrFalse (fdo_UseOption y) then False
      else dhcpOptionsLoop a b)"
| "dhcpOptionsLoop _ _ = True"

definition dhcpOptionsEqual :: "fixedDhcpOption list \<Rightarrow> fixedDhcpOption list \<Rightarrow> bool" where
  "dhcpOptionsEqual a b = (if length a \<noteq> length b then False else dhcpOptionsLoop a b)"

definition observedCloudInfo :: "GridCloudapiInfo option \<Rightarrow> sharedCloudInfo option" where
  "observedCloudInfo ci =
     (case ci of
        None \<Rightarrow> None
      | Some c \<Rightarrow>
          Some \<lparr>sci_DelegatedMember =
                  (case gci_DelegatedMember c of
                     None \<Rightarrow> None
                   | Some d \<Rightarrow> Some \<lparr>sdm_IPv4Addr = ptrIfNonEmpty (dhm_Ipv4Addr d),
                                    sdm_IPv6Addr = ptrIfNonEmpty (dhm_Ipv6Addr d), sdm_Name = ptrIfNonEmpty (dhm_Name d)\<rparr>),
                sci_DelegatedScope = ptrIfNonEmpty (gci_DelegatedScope c),
                sci_DelegatedRoot = ptrIfNonEmpty (gci_DelegatedRoot c),
                sci_OwnedByAdaptor = Some (gci_OwnedByAdaptor c),
                sci_Usage = ptrIfNonEmpty (gci_Usage c), sci_Tenant = ptrIfNonEmpty (gci_Tenant c),
                sci_MgmtPlatform = ptrIfNonEmpty (gci_MgmtPlatform c),
                sci_AuthorityType = ptrIfNonEmpty (gci_AuthorityType c)\<rparr>)"

section \<open>Field comparison and late initialisation\<close>

definition isUpToDateAddress :: "fixedAddressFields \<Rightarrow> FixedAddressObj \<Rightarrow> bool" where
  "isUpToDateAddress f fa =
     (if isIPv6 f \<and> strOrEmpty (ff_IPv6Addr f) \<noteq> fxr_IPv6Address fa then False
      else if isIPv6 f \<and> strOrEmpty (ff_MAC f) \<noteq> fxr_Duid fa then False
      else if \<not> isIPv6 f \<and> strOrEmpty (ff_IPv4Addr f) \<noteq> fxr_IPv4Address fa then False
      else if \<not> isIPv6 f \<and> strOrEmpty (ff_MAC f) \<noteq> strOrEmpty (fxr_Mac fa) then False
      else if strOrEmpty (ff_NetworkView f) \<noteq> fxr_NetviewName fa then False
      else if strOrEmpty (ff_Network f) \<noteq> fxr_Cidr fa then False
      else if strOrEmpty (ff_Name f) \<noteq> strOrEmpty (fxr_Name fa) then False
      else if strOrEmpty (ff_MatchClient f) \<noteq> strOrEmpty (fxr_MatchClient fa) then False
      else if strOrEmpty (ff_Comment f) \<noteq> fxr_Comment fa then False
      else extAttrsEqual (ff_ExtAttrs f) (extAttrsFromEA (Strip (fxr_Ea fa))))"

definition isUpToDateDHCP :: "fixedAddressFields \<Rightarrow> FixedAddressObj \<Rightarrow> bool" where
  "isUpToDateDHCP f fa =
     (if boolOrFalse (ff_Disable f) \<noteq> boolOrFalse (fxr_Disable fa) then False
      else if strOrEmpty (ff_AgentCircuitID f) \<noteq> strOrEmpty (fxr_AgentCircuitId fa) then False
      else if strOrEmpty (ff_AgentRemoteID f) \<noteq> strOrEmpty (fxr_AgentRemoteId fa) then False
      else if boolOrFalse (ff_ClientIdentifierPrependZero f) \<noteq> boolOrFalse (fxr_ClientIdentifierPrependZero fa) then False
      else if strOrEmpty (ff_DHCPClientIdentifier f) \<noteq> strOrEmpty (fxr_DhcpClientIdentifier fa) then False
      else if boolOrFalse (ff_UseOptions f) \<noteq> boolOrFalse (fxr_UseOptions fa) then False
      else if boolOrFalse (ff_UseOptions f) then dhcpOptionsEqual (ff_Options f) (dhcpOptionsFromSDK (fxr_Options fa))
      else True)"

definition FixedAddress_isUpToDate :: "fixedAddressFields \<Rightarrow> FixedAddressObj \<Rightarrow> bool" where
  "FixedAddress_isUpToDate f fa = (isUpToDateAddress f fa \<and> isUpToDateDHCP f fa)"

definition lateInitializeAddress :: "fixedAddressFields \<Rightarrow> FixedAddressObj \<Rightarrow> fixedAddressFields \<times> bool" where
  "lateInitializeAddress f fa =
     (let ipv6 = isIPv6 f;
          (v4, c1) = (if \<not> ipv6 \<and> ff_IPv4Addr f = Some [] \<and> fxr_IPv4Address fa \<noteq> []
                      then (Some (fxr_IPv4Address fa), True) else (ff_IPv4Addr f, False));
          (v6, c2) = (if ipv6 \<and> ff_IPv6Addr f = Some [] \<and> fxr_IPv6Address fa \<noteq> []
                      then (Some (fxr_IPv6Address fa), True) else (ff_IPv6Addr f, c1))
      in (f\<lparr>ff_IPv4Addr := v4, ff_IPv6Addr := v6\<rparr>, c2))"

definition lateInitializeIdentityLocation :: "fixedAddressFields \<Rightarrow> FixedAddressObj \<Rightarrow> fixedAddressFields \<times> bool" where
  "lateInitializeIdentityLocation f fa =
     (let (mac, c1) = (if ff_MAC f = None \<and> fxr_Mac fa \<noteq> None \<and> fxr_Mac fa \<noteq> Some []
                       then (fxr_Mac fa, True) else (ff_MAC f, False));
          (view, c2) = (if ff_NetworkView f = None \<and> fxr_NetviewName fa \<noteq> []
                        then (Some (fxr_NetviewName fa), True) else (ff_NetworkView f, c1));
          (network, c3) = (if ff_Network f = None \<and> fxr_Cidr fa \<noteq> []
                           then (Some (fxr_Cidr fa), True) else (ff_Network f, c2));
          (name, c4) = (if ff_Name f = None \<and> fxr_Name fa \<noteq> None \<and> fxr_Name fa \<noteq> Some []
                        then (fxr_Name fa, True) else (ff_Name f, c3))
      in (f\<lparr>ff_MAC := mac, ff_NetworkView := view, ff_Network := network, ff_Name := name\<rparr>, c4))"

definition lateInitializeIdentityMeta :: "fixedAddressFields \<Rightarrow> FixedAddressObj \<Rightarrow> fixedAddressFields \<times> bool" where
  "lateInitializeIdentityMeta f fa =
     (let (matchClient, c1) = (if ff_MatchClient f = None \<and> fxr_MatchClient fa \<noteq> None \<and> fxr_MatchClient fa \<noteq> Some []
                               then (fxr_MatchClient fa, True) else (ff_MatchClient f, False));
          (comment, c2) = (if ff_Comment f = None \<and> fxr_Comment fa \<noteq> []
                           then (Some (fxr_Comment fa), True) else (ff_Comment f, c1));
          fromFA = extAttrsFromEA (Strip (fxr_Ea fa));
          (extAttrs, c3) = (if ff_ExtAttrs f = fmempty \<and> fromFA \<noteq> fmempty then (fromFA, True) else (ff_ExtAttrs f, c2))
      in (f\<lparr>ff_MatchClient := matchClient, ff_Comment := comment, ff_ExtAttrs := extAttrs\<rparr>, c3))"

definition lateInitializeIdentity :: "fixedAddressFields \<Rightarrow> FixedAddressObj \<Rightarrow> fixedAddressFields \<times> bool" where
  "lateInitializeIdentity f fa =
     (let (f1, a) = lateInitializeIdentityLocation f fa; (f2, b) = lateInitializeIdentityMeta f1 fa in (f2, a \<or> b))"

definition lateInitializeDHCPAgent :: "fixedAddressFields \<Rightarrow> FixedAddressObj \<Rightarrow> fixedAddressFields \<times> bool" where
  "lateInitializeDHCPAgent f fa =
     (let (disable, c1) = (if ff_Disable f = None \<and> fxr_Disable fa \<noteq> None
                           then (fxr_Disable fa, True) else (ff_Disable f, False));
          (circuit, c2) = (if ff_AgentCircuitID f = None \<and> fxr_AgentCircuitId fa \<noteq> None \<and> fxr_AgentCircuitId fa \<noteq> Some []
                           then (fxr_AgentCircuitId fa, True) else (ff_AgentCircuitID f, c1));
          (remote, c3) = (if ff_AgentRemoteID f = None \<and> fxr_AgentRemoteId fa \<noteq> None \<and> fxr_AgentRemoteId fa \<noteq> Some []
                          then (fxr_AgentRemoteId fa, True) else (ff_AgentRemoteID f, c2))
      in (f\<lparr>ff_Disable := disable, ff_AgentCircuitID := circuit, ff_AgentRemoteID := remote\<rparr>, c3))"

definition lateInitializeDHCPOptions :: "fixedAddressFields \<Rightarrow> FixedAddressObj \<Rightarrow> fixedAddressFields \<times> bool" where
  "lateInitializeDHCPOptions f fa =
     (let (prepend, c1) = (if ff_ClientIdentifierPrependZero f = None \<and> fxr_ClientIdentifierPrependZero fa \<noteq> None
                           then (fxr_ClientIdentifierPrependZero fa, True) else (ff_ClientIdentifierPrependZero f, False));
          (ident, c2) = (if ff_DHCPClientIdentifier f = None \<and> fxr_DhcpClientIdentifier fa \<noteq> None \<and>
                            fxr_DhcpClientIdentifier fa \<noteq> Some []
                         then (fxr_DhcpClientIdentifier fa, True) else (ff_DHCPClientIdentifier f, c1));
          (useOptions, c3) = (if ff_UseOptions f = None \<and> fxr_UseOptions fa \<noteq> None
                              then (fxr_UseOptions fa, True) else (ff_UseOptions f, c2));
          (options, c4) = (if ff_Options f = [] \<and> boolOrFalse useOptions
                           then (let fromFA = dhcpOptionsFromSDK (fxr_Options fa)
                                 in if fromFA \<noteq> [] then (fromFA, True) else (ff_Options f, c3))
                           else (ff_Options f, c3))
      in (f\<lparr>ff_ClientIdentifierPrependZero := prepend, ff_DHCPClientIdentifier := ident, ff_UseOptions := useOptions,
            ff_Options := options\<rparr>, c4))"

definition lateInitializeDHCP :: "fixedAddressFields \<Rightarrow> FixedAddressObj \<Rightarrow> fixedAddressFields \<times> bool" where
  "lateInitializeDHCP f fa =
     (let (f1, a) = lateInitializeDHCPAgent f fa; (f2, b) = lateInitializeDHCPOptions f1 fa in (f2, a \<or> b))"

definition FixedAddress_lateInitialize :: "fixedAddressFields \<Rightarrow> FixedAddressObj \<Rightarrow> fixedAddressFields \<times> bool" where
  "FixedAddress_lateInitialize f fa =
     (let (f1, addrChanged) = lateInitializeAddress f fa;
          (f2, idChanged) = lateInitializeIdentity f1 fa;
          (f3, dhcpChanged) = lateInitializeDHCP f2 fa
      in (f3, addrChanged \<or> idChanged \<or> dhcpChanged))"

definition observeFromFixedAddress :: "string \<Rightarrow> FixedAddressObj \<Rightarrow> observedFixedAddress" where
  "observeFromFixedAddress externalID fa =
     \<lparr>ofx_ID = externalID, ofx_IPv4Addr = ptrIfNonEmpty (fxr_IPv4Address fa), ofx_IPv6Addr = ptrIfNonEmpty (fxr_IPv6Address fa),
      ofx_MAC = (if fxr_IPv6Address fa \<noteq> [] then ptrIfNonEmpty (fxr_Duid fa) else fxr_Mac fa),
      ofx_NetworkView = ptrIfNonEmpty (fxr_NetviewName fa), ofx_Network = ptrIfNonEmpty (fxr_Cidr fa),
      ofx_Name = fxr_Name fa, ofx_MatchClient = fxr_MatchClient fa, ofx_Comment = ptrIfNonEmpty (fxr_Comment fa),
      ofx_ExtAttrs = extAttrsFromEA (fxr_Ea fa), ofx_Disable = fxr_Disable fa,
      ofx_AgentCircuitID = fxr_AgentCircuitId fa, ofx_AgentRemoteID = fxr_AgentRemoteId fa,
      ofx_ClientIdentifierPrependZero = fxr_ClientIdentifierPrependZero fa,
      ofx_DHCPClientIdentifier = fxr_DhcpClientIdentifier fa, ofx_Options = dhcpOptionsFromSDK (fxr_Options fa),
      ofx_UseOptions = fxr_UseOptions fa, ofx_Ref = ptrIfNonEmpty (fxr_Ref fa), ofx_DUID = ptrIfNonEmpty (fxr_Duid fa),
      ofx_CloudInfo = observedCloudInfo (fxr_CloudInfo fa)\<rparr>"

section \<open>SDK calls\<close>

type_synonym fx_env = "(FixedAddressObj, fixedaddress_req) wapi"
type_synonym fx_world = "fixedaddress_req world"

definition createFixedAddress ::
  "fx_env \<Rightarrow> fixedAddressFields \<Rightarrow> string \<Rightarrow> fx_world \<Rightarrow> (goerr + FixedAddressObj) \<times> fx_world" where
  "createFixedAddress env f uid w =
     (if trim_space uid = [] then (Inl (TextError FixedAddress_errEmptyUID), w)
      else
        (let ipv6 = isIPv6 f;
             ipAddr = (if ipv6 then strOrEmpty (ff_IPv6Addr f) else strOrEmpty (ff_IPv4Addr f));
             e = Stamp (buildEA (ff_ExtAttrs f)) uid
         in mutate_object env (AllocateIP ipv6
              \<lparr>fxa_netview = strOrEmpty (ff_NetworkView f), fxa_cidr = strOrEmpty (ff_Network f), fxa_ipAddr = ipAddr,
               fxa_mac = strOrEmpty (ff_MAC f), fxa_name = strOrEmpty (ff_Name f), fxa_comment = strOrEmpty (ff_Comment f),
               fxa_ea = e, fxa_matchClient = strOrEmpty (ff_MatchClient f),
               fxa_agentCircuitId = strOrEmpty (ff_AgentCircuitID f), fxa_agentRemoteId = strOrEmpty (ff_AgentRemoteID f),
               fxa_clientIdentifierPrependZero = ff_ClientIdentifierPrependZero f,
               fxa_dhcpClientIdentifier = strOrEmpty (ff_DHCPClientIdentifier f), fxa_disable = boolOrFalse (ff_Disable f),
               fxa_options = toSDKOptions (ff_Options f), fxa_useOptions = boolOrFalse (ff_UseOptions f)\<rparr>) w))"

definition matchClientForUpdate :: "string option \<Rightarrow> string option \<Rightarrow> bool \<Rightarrow> string" where
  "matchClientForUpdate desired observed ipv6 =
     (if ipv6 then strOrEmpty desired
      else if desired \<noteq> None \<and> desired \<noteq> Some [] then the desired
      else if observed \<noteq> None \<and> observed \<noteq> Some [] then the observed
      else matchClientDefault)"

definition updateFixedAddress ::
  "fx_env \<Rightarrow> string \<Rightarrow> fixedAddressFields \<Rightarrow> string option \<Rightarrow> string \<Rightarrow> fx_world \<Rightarrow>
     (goerr + FixedAddressObj) \<times> fx_world" where
  "updateFixedAddress env ref f observedMatchClient uid w =
     (if trim_space uid = [] then (Inl (TextError FixedAddress_errEmptyUID), w)
      else
        (let ipv6 = isIPv6 f;
             ipAddr = (if ipv6 then strOrEmpty (ff_IPv6Addr f) else strOrEmpty (ff_IPv4Addr f));
             matchClient = matchClientForUpdate (ff_MatchClient f) observedMatchClient ipv6;
             e = Stamp (buildEA (ff_ExtAttrs f)) uid
         in mutate_object env (UpdateFixedAddress ref
              \<lparr>fxa_netview = strOrEmpty (ff_NetworkView f), fxa_cidr = strOrEmpty (ff_Network f), fxa_ipAddr = ipAddr,
               fxa_mac = strOrEmpty (ff_MAC f), fxa_name = strOrEmpty (ff_Name f), fxa_comment = strOrEmpty (ff_Comment f),
               fxa_ea = e, fxa_matchClient = matchClient,
               fxa_agentCircuitId = strOrEmpty (ff_AgentCircuitID f), fxa_agentRemoteId = strOrEmpty (ff_AgentRemoteID f),
               fxa_clientIdentifierPrependZero = ff_ClientIdentifierPrependZero f,
               fxa_dhcpClientIdentifier = strOrEmpty (ff_DHCPClientIdentifier f), fxa_disable = boolOrFalse (ff_Disable f),
               fxa_options = toSDKOptions (ff_Options f), fxa_useOptions = boolOrFalse (ff_UseOptions f)\<rparr>) w))"

definition deleteFixedAddress :: "fx_env \<Rightarrow> string \<Rightarrow> fx_world \<Rightarrow> goerr option \<times> fx_world" where
  "deleteFixedAddress env ref w =
     (case delete_object env ref w of
        (Inl err, w1) \<Rightarrow> (Some err, w1)
      | (Inr _, w1) \<Rightarrow> (None, w1))"

section \<open>Identity resolution\<close>

definition resolveFixedAddressIdentity ::
  "fx_env \<Rightarrow> string \<Rightarrow> string \<Rightarrow> bool \<Rightarrow> fx_world \<Rightarrow> (goerr + FixedAddressObj option \<times> Outcome) \<times> fx_world" where
  "resolveFixedAddressIdentity env ref uid ipv6 w = Resolve env (newEmptyFixedAddress ipv6) ref uid w"

text \<open>observeResult has no late-initialisation flag in this package; the field is unused here.\<close>

definition FixedAddress_notFoundResult :: "(FixedAddressObj, observedFixedAddress) observeResult" where
  "FixedAddress_notFoundResult =
     \<lparr>ores_exists = False, ores_rec = NewEmptyFixedAddress, ores_obs = observeFromFixedAddress [] NewEmptyFixedAddress,
      ores_lateInit = False, ores_refreshedRef = [], ores_adopted = False\<rparr>"

definition observeFixedAddress ::
  "fx_env \<Rightarrow> string \<Rightarrow> string \<Rightarrow> string \<Rightarrow> string \<Rightarrow> bool \<Rightarrow> fx_world \<Rightarrow>
     (goerr + (FixedAddressObj, observedFixedAddress) observeResult) \<times> fx_world" where
  "observeFixedAddress env endpoint crName externalName uid ipv6 w =
     (let ref = observeRefFor crName externalName in
      case resolveFixedAddressIdentity env ref uid ipv6 w of
        (Inl err, w1) \<Rightarrow>
          if IsSearchFailure err then
            (case ensureIdentityPrerequisite env endpoint w1 of
               (Some prereqErr, w2) \<Rightarrow> (Inl prereqErr, w2)
             | (None, w2) \<Rightarrow> (Inl err, w2))
          else (Inl err, w1)
      | (Inr (obj, outcome), w1) \<Rightarrow>
          if outcome = OutcomeNotFound then (Inr FixedAddress_notFoundResult, w1)
          else
            (case obj of
               None \<Rightarrow> (Inl (TextError nilDereference), w1)
             | Some fa \<Rightarrow>
                 (let found = (outcome = OutcomeRotated \<or> outcome = OutcomeFoundByUID)
                  in (Inr \<lparr>ores_exists = True, ores_rec = fa, ores_obs = observeFromFixedAddress (fxr_Ref fa) fa,
                           ores_lateInit = False, ores_refreshedRef = (if found then fxr_Ref fa else []),
                           ores_adopted = (outcome = OutcomeAdopted)\<rparr>, w1))))"

definition deleteFixedAddressIdentity ::
  "fx_env \<Rightarrow> string \<Rightarrow> string \<Rightarrow> string \<Rightarrow> bool \<Rightarrow> fx_world \<Rightarrow> goerr option \<times> fx_world" where
  "deleteFixedAddressIdentity env endpoint ref uid ipv6 w =
     (case resolveFixedAddressIdentity env ref uid ipv6 w of
        (Inl err, w1) \<Rightarrow>
          if IsSearchFailure err then
            (case ensureIdentityPrerequisite env endpoint w1 of
               (Some prereqErr, w2) \<Rightarrow> (Some prereqErr, w2)
             | (None, w2) \<Rightarrow> (Some (Wrapped errDeleteFixedAddress err), w2))
          else (Some (Wrapped errDeleteFixedAddress err), w1)
      | (Inr (obj, outcome), w1) \<Rightarrow>
          (case outcome of
             OutcomeNotFound \<Rightarrow> (None, w1)
           | OutcomeAdopted \<Rightarrow> (Some (TextError errDeleteUnverifiedOwnership), w1)
           | _ \<Rightarrow>
               (case obj of
                  None \<Rightarrow> (Some (TextError nilDereference), w1)
                | Some fa \<Rightarrow>
                    (case deleteFixedAddress env (fxr_Ref fa) w1 of
                       (None, w2) \<Rightarrow> (None, w2)
                     | (Some delErr, w2) \<Rightarrow>
                         if isNotFound (Some delErr) then (None, w2)
                         else (Some (Wrapped errDeleteFixedAddress delErr), w2)))))"

section \<open>The external clients\<close>

subsection \<open>namespaced.go\<close>

definition namespacedOptionsToShared :: "FixedAddressDhcpOption option list \<Rightarrow> fixedDhcpOption list" where
  "namespacedOptionsToShared opts =
     (if opts = [] then []
      else List.map_filter (\<lambda>ptr. case ptr of None \<Rightarrow> None
        | Some o1 \<Rightarrow> Some \<lparr>fdo_Name = cdo_Name o1, fdo_Num = cdo_Num o1, fdo_VendorClass = cdo_VendorClass o1,
            fdo_Value = cdo_Value o1, fdo_UseOption = cdo_UseOption o1\<rparr>) opts)"

definition namespacedOptionsFromShared :: "fixedDhcpOption list \<Rightarrow> FixedAddressDhcpOption option list" where
  "namespacedOptionsFromShared opts =
     (if opts = [] then []
      else map (\<lambda>o1. Some \<lparr>cdo_Name = fdo_Name o1, cdo_Num = fdo_Num o1, cdo_VendorClass = fdo_VendorClass o1,
             cdo_Value = fdo_Value o1, cdo_UseOption = fdo_UseOption o1\<rparr>) opts)"

definition namespacedToFields :: "FixedAddressParameters \<Rightarrow> fixedAddressFields" where
  "namespacedToFields p =
     \<lparr>ff_IPv4Addr = fxp_IPv4Addr p, ff_IPv6Addr = fxp_IPv6Addr p, ff_MAC = fxp_MAC p, ff_NetworkView = fxp_NetworkView p,
      ff_Network = fxp_Network p, ff_Name = fxp_Name p, ff_MatchClient = fxp_MatchClient p, ff_Comment = fxp_Comment p,
      ff_ExtAttrs = fxp_ExtAttrs p, ff_Disable = fxp_Disable p, ff_AgentCircuitID = fxp_AgentCircuitID p,
      ff_AgentRemoteID = fxp_AgentRemoteID p, ff_ClientIdentifierPrependZero = fxp_ClientIdentifierPrependZero p,
      ff_DHCPClientIdentifier = fxp_DHCPClientIdentifier p, ff_Options = namespacedOptionsToShared (fxp_Options p),
      ff_UseOptions = fxp_UseOptions p\<rparr>"

definition namespacedApplyFields :: "FixedAddressParameters \<Rightarrow> fixedAddressFields \<Rightarrow> FixedAddressParameters" where
  "namespacedApplyFields p f =
     p\<lparr>fxp_IPv4Addr := ff_IPv4Addr f, fxp_IPv6Addr := ff_IPv6Addr f, fxp_MAC := ff_MAC f, fxp_NetworkView := ff_NetworkView f,
       fxp_Network := ff_Network f, fxp_Name := ff_Name f, fxp_MatchClient := ff_MatchClient f, fxp_Comment := ff_Comment f,
       fxp_ExtAttrs := ff_ExtAttrs f, fxp_Disable := ff_Disable f, fxp_AgentCircuitID := ff_AgentCircuitID f,
       fxp_AgentRemoteID := ff_AgentRemoteID f, fxp_ClientIdentifierPrependZero := ff_ClientIdentifierPrependZero f,
       fxp_DHCPClientIdentifier := ff_DHCPClientIdentifier f, fxp_Options := namespacedOptionsFromShared (ff_Options f),
       fxp_UseOptions := ff_UseOptions f\<rparr>"

definition namespacedCloudInfoFromShared :: "sharedCloudInfo option \<Rightarrow> FixedAddressCloudInfo option" where
  "namespacedCloudInfoFromShared ci =
     (case ci of
        None \<Rightarrow> None
      | Some c \<Rightarrow>
          Some \<lparr>fci_DelegatedMember =
                  (case sci_DelegatedMember c of
                     None \<Rightarrow> None
                   | Some d \<Rightarrow> Some \<lparr>fcm_Ipv4Addr = sdm_IPv4Addr d, fcm_Ipv6Addr = sdm_IPv6Addr d, fcm_Name = sdm_Name d\<rparr>),
                fci_DelegatedScope = sci_DelegatedScope c, fci_DelegatedRoot = sci_DelegatedRoot c,
                fci_OwnedByAdaptor = sci_OwnedByAdaptor c, fci_Usage = sci_Usage c, fci_Tenant = sci_Tenant c,
                fci_MgmtPlatform = sci_MgmtPlatform c, fci_AuthorityType = sci_AuthorityType c\<rparr>)"

definition namespaced_FixedAddress_Observe ::
  "fx_env \<Rightarrow> string \<Rightarrow> FixedAddressCR \<Rightarrow> fx_world \<Rightarrow> (goerr + ExternalObservation) \<times> FixedAddressCR \<times> fx_world" where
  "namespaced_FixedAddress_Observe env endpoint cr w =
     (let f0 = namespacedToFields (fx_ForProvider cr) in
      case observeFixedAddress env endpoint (mo_name cr) (GetExternalName cr) (mo_uid cr) (isIPv6 f0) w of
        (Inl err, w1) \<Rightarrow>
          if errors_as is_PrerequisiteError err then (Inl err, cr, w1)
          else (Inl (Wrapped errObserveFixedAddress err), cr, w1)
      | (Inr res, w1) \<Rightarrow>
          if \<not> ores_exists res then (Inr notExists, cr, w1)
          else
            (let fa = ores_rec res; ob = ores_obs res;
                 cr1 = cr\<lparr>fx_AtProvider :=
                   \<lparr>fxs_ID = ofx_ID ob, fxs_IPv4Addr = ofx_IPv4Addr ob, fxs_IPv6Addr = ofx_IPv6Addr ob, fxs_MAC = ofx_MAC ob,
                    fxs_NetworkView = ofx_NetworkView ob, fxs_Network = ofx_Network ob, fxs_Name = ofx_Name ob,
                    fxs_MatchClient = ofx_MatchClient ob, fxs_Comment = ofx_Comment ob, fxs_ExtAttrs = ofx_ExtAttrs ob,
                    fxs_Disable = ofx_Disable ob, fxs_AgentCircuitID = ofx_AgentCircuitID ob,
                    fxs_AgentRemoteID = ofx_AgentRemoteID ob,
                    fxs_ClientIdentifierPrependZero = ofx_ClientIdentifierPrependZero ob,
                    fxs_DHCPClientIdentifier = ofx_DHCPClientIdentifier ob,
                    fxs_Options = namespacedOptionsFromShared (ofx_Options ob), fxs_UseOptions = ofx_UseOptions ob,
                    fxs_Ref = ofx_Ref ob, fxs_DUID = ofx_DUID ob, fxs_CloudInfo = namespacedCloudInfoFromShared (ofx_CloudInfo ob)\<rparr>\<rparr>;
                 p = fx_ForProvider cr1;
                 (f, changed) = FixedAddress_lateInitialize (namespacedToFields p) fa;
                 cr2 = cr1\<lparr>fx_ForProvider := namespacedApplyFields p f\<rparr>;
                 (cr3, lateInit) = (if ores_refreshedRef res \<noteq> [] then (SetExternalName (ores_refreshedRef res) cr2, True)
                                    else (cr2, changed));
                 cr4 = SetAvailable cr3;
                 upToDate = (FixedAddress_isUpToDate f fa \<and> \<not> ores_adopted res)
             in (Inr \<lparr>ResourceExists = True, ResourceUpToDate = upToDate, ResourceLateInitialized = lateInit\<rparr>, cr4, w1)))"

definition namespaced_FixedAddress_Create ::
  "fx_env \<Rightarrow> string \<Rightarrow> FixedAddressCR \<Rightarrow> fx_world \<Rightarrow> goerr option \<times> FixedAddressCR \<times> fx_world" where
  "namespaced_FixedAddress_Create env endpoint cr w =
     (let uid = mo_uid cr in
      if trim_space uid = [] then (Some (TextError FixedAddress_errEmptyUID), cr, w)
      else
        (case ensureIdentityPrerequisite env endpoint w of
           (Some err, w1) \<Rightarrow> (Some err, cr, w1)
         | (None, w1) \<Rightarrow>
             (let f = namespacedToFields (fx_ForProvider cr) in
              case createFixedAddress env f uid w1 of
                (Inl err, w2) \<Rightarrow> (Some (Wrapped errCreateFixedAddress err), cr, w2)
              | (Inr fa, w2) \<Rightarrow> (None, SetExternalName (fxr_Ref fa) cr, w2))))"

definition namespaced_FixedAddress_Update ::
  "fx_env \<Rightarrow> string \<Rightarrow> FixedAddressCR \<Rightarrow> fx_world \<Rightarrow> goerr option \<times> FixedAddressCR \<times> fx_world" where
  "namespaced_FixedAddress_Update env endpoint cr w =
     (let f = namespacedToFields (fx_ForProvider cr); externalID = GetExternalName cr in
      case ensureIdentityPrerequisite env endpoint w of
        (Some err, w1) \<Rightarrow> (Some err, cr, w1)
      | (None, w1) \<Rightarrow>
          (case updateFixedAddress env externalID f (fxs_MatchClient (fx_AtProvider cr)) (mo_uid cr) w1 of
             (Inl err, w2) \<Rightarrow> (Some (Wrapped errUpdateFixedAddress err), cr, w2)
           | (Inr fa, w2) \<Rightarrow>
               if fxr_Ref fa \<noteq> [] \<and> fxr_Ref fa \<noteq> externalID then
                 (case Refresh env cr (fxr_Ref fa) w2 of
                    (Some err, cr1, w3) \<Rightarrow> (Some (Wrapped errPersistExternalName err), cr1, w3)
                  | (None, cr1, w3) \<Rightarrow> (None, cr1, w3))
               else (None, cr, w2)))"

definition namespaced_FixedAddress_Delete ::
  "fx_env \<Rightarrow> string \<Rightarrow> FixedAddressCR \<Rightarrow> fx_world \<Rightarrow> goerr option \<times> fx_world" where
  "namespaced_FixedAddress_Delete env endpoint cr w =
     (let f = namespacedToFields (fx_ForProvider cr); externalID = GetExternalName cr in
      case deleteFixedAddressIdentity env endpoint externalID (mo_uid cr) (isIPv6 f) w of
        (Some err, w1) \<Rightarrow> (Some err, w1)
      | (None, w1) \<Rightarrow> (None, w1))"

subsection \<open>cluster.go\<close>

definition clusterOptionsToShared :: "FixedAddressDhcpOption option list \<Rightarrow> fixedDhcpOption list" where
  "clusterOptionsToShared opts =
     (if opts = [] then []
      else List.map_filter (\<lambda>ptr. case ptr of None \<Rightarrow> None
        | Some o1 \<Rightarrow> Some \<lparr>fdo_Name = cdo_Name o1, fdo_Num = cdo_Num o1, fdo_VendorClass = cdo_VendorClass o1,
            fdo_Value = cdo_Value o1, fdo_UseOption = cdo_UseOption o1\<rparr>) opts)"

definition clusterOptionsFromShared :: "fixedDhcpOption list \<Rightarrow> FixedAddressDhcpOption option list" where
  "clusterOptionsFromShared opts =
     (if opts = [] then []
      else map (\<lambda>o1. Some \<lparr>cdo_Name = fdo_Name o1, cdo_Num = fdo_Num o1, cdo_VendorClass = fdo_VendorClass o1,
             cdo_Value = fdo_Value o1, cdo_UseOption = fdo_UseOption o1\<rparr>) opts)"

definition clusterToFields :: "FixedAddressParameters \<Rightarrow> fixedAddressFields" where
  "clusterToFields p =
     \<lparr>ff_IPv4Addr = fxp_IPv4Addr p, ff_IPv6Addr = fxp_IPv6Addr p, ff_MAC = fxp_MAC p, ff_NetworkView = fxp_NetworkView p,
      ff_Network = fxp_Network p, ff_Name = fxp_Name p, ff_MatchClient = fxp_MatchClient p, ff_Comment = fxp_Comment p,
      ff_ExtAttrs = fxp_ExtAttrs p, ff_Disable = fxp_Disable p, ff_AgentCircuitID = fxp_AgentCircuitID p,
      ff_AgentRemoteID = fxp_AgentRemoteID p, ff_ClientIdentifierPrependZero = fxp_ClientIdentifierPrependZero p,
      ff_DHCPClientIdentifier = fxp_DHCPClientIdentifier p, ff_Options = clusterOptionsToShared (fxp_Options p),
      ff_UseOptions = fxp_UseOptions p\<rparr>"

definition clusterApplyFields :: "FixedAddressParameters \<Rightarrow> fixedAddressFields \<Rightarrow> FixedAddressParameters" where
  "clusterApplyFields p f =
     p\<lparr>fxp_IPv4Addr := ff_IPv4Addr f, fxp_IPv6Addr := ff_IPv6Addr f, fxp_MAC := ff_MAC f, fxp_NetworkView := ff_NetworkView f,
       fxp_Network := ff_Network f, fxp_Name := ff_Name f, fxp_MatchClient := ff_MatchClient f, fxp_Comment := ff_Comment f,
       fxp_ExtAttrs := ff_ExtAttrs f, fxp_Disable := ff_Disable f, fxp_AgentCircuitID := ff_AgentCircuitID f,
       fxp_AgentRemoteID := ff_AgentRemoteID f, fxp_ClientIdentifierPrependZero := ff_ClientIdentifierPrependZero f,
       fxp_DHCPClientIdentifier := ff_DHCPClientIdentifier f, fxp_Options := clusterOptionsFromShared (ff_Options f),
       fxp_UseOptions := ff_UseOptions f\<rparr>"

definition clusterCloudInfoFromShared :: "sharedCloudInfo option \<Rightarrow> FixedAddressCloudInfo option" where
  "clusterCloudInfoFromShared ci =
     (case ci of
        None \<Rightarrow> None
      | Some c \<Rightarrow>
          Some \<lparr>fci_DelegatedMember =
                  (case sci_DelegatedMember c of
                     None \<Rightarrow> None
                   | Some d \<Rightarrow> Some \<lparr>fcm_Ipv4Addr = sdm_IPv4Addr d, fcm_Ipv6Addr = sdm_IPv6Addr d, fcm_Name = sdm_Name d\<rparr>),
                fci_DelegatedScope = sci_DelegatedScope c, fci_DelegatedRoot = sci_DelegatedRoot c,
                fci_OwnedByAdaptor = sci_OwnedByAdaptor c, fci_Usage = sci_Usage c, fci_Tenant = sci_Tenant c,
                fci_MgmtPlatform = sci_MgmtPlatform c, fci_AuthorityType = sci_AuthorityType c\<rparr>)"

definition cluster_FixedAddress_Observe ::
  "fx_env \<Rightarrow> string \<Rightarrow> FixedAddressCR \<Rightarrow> fx_world \<Rightarrow> (goerr + ExternalObservation) \<times> FixedAddressCR \<times> fx_world" where
  "cluster_FixedAddress_Observe env endpoint cr w =
     (let f0 = clusterToFields (fx_ForProvider cr) in
      case observeFixedAddress env endpoint (mo_name cr) (GetExternalName cr) (mo_uid cr) (isIPv6 f0) w of
        (Inl err, w1) \<Rightarrow>
          if errors_as is_PrerequisiteError err then (Inl err, cr, w1)
          else (Inl (Wrapped errObserveFixedAddress err), cr, w1)
      | (Inr res, w1) \<Rightarrow>
          if \<not> ores_exists res then (Inr notExists, cr, w1)
          else
            (let fa = ores_rec res; ob = ores_obs res;
                 cr1 = cr\<lparr>fx_AtProvider :=
                   \<lparr>fxs_ID = ofx_ID ob, fxs_IPv4Addr = ofx_IPv4Addr ob, fxs_IPv6Addr = ofx_IPv6Addr ob, fxs_MAC = ofx_MAC ob,
                    fxs_NetworkView = ofx_NetworkView ob, fxs_Network = ofx_Network ob, fxs_Name = ofx_Name ob,
                    fxs_MatchClient = ofx_MatchClient ob, fxs_Comment = ofx_Comment ob, fxs_ExtAttrs = ofx_ExtAttrs ob,
                    fxs_Disable = ofx_Disable ob, fxs_AgentCircuitID = ofx_AgentCircuitID ob,
                    fxs_AgentRemoteID = ofx_AgentRemoteID ob,
                    fxs_ClientIdentifierPrependZero = ofx_ClientIdentifierPrependZero ob,
                    fxs_DHCPClientIdentifier = ofx_DHCPClientIdentifier ob,
                    fxs_Options = clusterOptionsFromShared (ofx_Options ob), fxs_UseOptions = ofx_UseOptions ob,
                    fxs_Ref = ofx_Ref ob, fxs_DUID = ofx_DUID ob, fxs_CloudInfo = clusterCloudInfoFromShared (ofx_CloudInfo ob)\<rparr>\<rparr>;
                 p = fx_ForProvider cr1;
                 (f, changed) = FixedAddress_lateInitialize (clusterToFields p) fa;
                 cr2 = cr1\<lparr>fx_ForProvider := clusterApplyFields p f\<rparr>;
                 (cr3, lateInit) = (if ores_refreshedRef res \<noteq> [] then (SetExternalName (ores_refreshedRef res) cr2, True)
                                    else (cr2, changed));
                 cr4 = SetAvailable cr3;
                 upToDate = (FixedAddress_isUpToDate f fa \<and> \<not> ores_adopted res)
             in (Inr \<lparr>ResourceExists = True, ResourceUpToDate = upToDate, ResourceLateInitialized = lateInit\<rparr>, cr4, w1)))"

definition cluster_FixedAddress_Create ::
  "fx_env \<Rightarrow> string \<Rightarrow> FixedAddressCR \<Rightarrow> fx_world \<Rightarrow> goerr option \<times> FixedAddressCR \<times> fx_world" where
  "cluster_FixedAddress_Create env endpoint cr w =
     (let uid = mo_uid cr in
      if trim_space uid = [] then (Some (TextError FixedAddress_errEmptyUID), cr, w)
      else
        (case ensureIdentityPrerequisite env endpoint w of
           (Some err, w1) \<Rightarrow> (Some err, cr, w1)
         | (None, w1) \<Rightarrow>
             (let f = clusterToFields (fx_ForProvider cr) in
              case createFixedAddress env f uid w1 of
                (Inl err, w2) \<Rightarrow> (Some (Wrapped errCreateFixedAddress err), cr, w2)
              | (Inr fa, w2) \<Rightarrow> (None, SetExternalName (fxr_Ref fa) cr, w2))))"

definition cluster_FixedAddress_Update ::
  "fx_env \<Rightarrow> string \<Rightarrow> FixedAddressCR \<Rightarrow> fx_world \<Rightarrow> goerr option \<times> FixedAddressCR \<times> fx_world" where
  "cluster_FixedAddress_Update env endpoint cr w =
     (let f = clusterToFields (fx_ForProvider cr); externalID = GetExternalName cr in
      case ensureIdentityPrerequisite env endpoint w of
        (Some err, w1) \<Rightarrow> (Some err, cr, w1)
      | (None, w1) \<Rightarrow>
          (case updateFixedAddress env externalID f (fxs_MatchClient (fx_AtProvider cr)) (mo_uid cr) w1 of
             (Inl err, w2) \<Rightarrow> (Some (Wrapped errUpdateFixedAddress err), cr, w2)
           | (Inr fa, w2) \<Rightarrow>
               if fxr_Ref fa \<noteq> [] \<and> fxr_Ref fa \<noteq> externalID then
                 (case Refresh env cr (fxr_Ref fa) w2 of
                    (Some err, cr1, w3) \<Rightarrow> (Some (Wrapped errPersistExternalName err), cr1, w3)
                  | (None, cr1, w3) \<Rightarrow> (None, cr1, w3))
               else (None, cr, w2)))"

definition cluster_FixedAddress_Delete ::
  "fx_env \<Rightarrow> string \<Rightarrow> FixedAddressCR \<Rightarrow> fx_world \<Rightarrow> goerr option \<times> fx_world" where
  "cluster_FixedAddress_Delete env endpoint cr w =
     (let f = clusterToFields (fx_ForProvider cr); externalID = GetExternalName cr in
      case deleteFixedAddressIdentity env endpoint externalID (mo_uid cr) (isIPv6 f) w of
        (Some err, w1) \<Rightarrow> (Some err, w1)
      | (None, w1) \<Rightarrow> (None, w1))"


section \<open>The two scopes agree\<close>

lemma FixedAddress_conv_scopes:
  "clusterOptionsToShared = namespacedOptionsToShared" "clusterOptionsFromShared = namespacedOptionsFromShared"
  "clusterCloudInfoFromShared = namespacedCloudInfoFromShared"
  by (intro ext; simp only: clusterOptionsToShared_def namespacedOptionsToShared_def clusterOptionsFromShared_def
      namespacedOptionsFromShared_def clusterCloudInfoFromShared_def namespacedCloudInfoFromShared_def)+

lemma FixedAddress_fields_scopes: "clusterToFields = namespacedToFields" "clusterApplyFields = namespacedApplyFields"
  by (intro ext; simp only: clusterToFields_def namespacedToFields_def clusterApplyFields_def namespacedApplyFields_def
      FixedAddress_conv_scopes)+

lemma FixedAddress_scopes:
  "cluster_FixedAddress_Observe = namespaced_FixedAddress_Observe" "cluster_FixedAddress_Create = namespaced_FixedAddress_Create"
  "cluster_FixedAddress_Update = namespaced_FixedAddress_Update" "cluster_FixedAddress_Delete = namespaced_FixedAddress_Delete"
  by (intro ext; simp only: cluster_FixedAddress_Observe_def namespaced_FixedAddress_Observe_def
      cluster_FixedAddress_Create_def namespaced_FixedAddress_Create_def cluster_FixedAddress_Update_def
      namespaced_FixedAddress_Update_def cluster_FixedAddress_Delete_def namespaced_FixedAddress_Delete_def
      FixedAddress_conv_scopes FixedAddress_fields_scopes)+

section \<open>DHCP options\<close>

text \<open>What the comparison looks at.\<close>

definition option_key :: "fixedDhcpOption \<Rightarrow> string \<times> 64 word \<times> string \<times> string \<times> bool" where
  "option_key d = (strOrEmpty (fdo_Name d), int64OrZero (fdo_Num d), strOrEmpty (fdo_VendorClass d),
     strOrEmpty (fdo_Value d), boolOrFalse (fdo_UseOption d))"

lemma dhcpOptionsEqual_iff: "dhcpOptionsEqual a b \<longleftrightarrow> map option_key a = map option_key b"
proof -
  have "length a = length b \<Longrightarrow> dhcpOptionsLoop a b \<longleftrightarrow> map option_key a = map option_key b"
    by (induction a b rule: dhcpOptionsLoop.induct) (auto simp: option_key_def)
  then show ?thesis by (auto simp: dhcpOptionsEqual_def dest: map_eq_imp_length_eq)
qed

definition code_in_range :: "fixedDhcpOption \<Rightarrow> bool" where
  "code_in_range d \<longleftrightarrow> sint (int64OrZero (fdo_Num d)) \<in> {0..4294967295}"

lemma uint_of_nonneg:
  assumes "0 \<le> sint (n :: 64 word)"
  shows "uint n = sint n"
proof -
  have n: "\<not> bit n 63" using assms bit_last_iff [of n] by simp
  moreover have "sint n = signed_take_bit 63 (uint n)" by (simp add: sint_uint)
  ultimately have s: "sint n = take_bit 63 (uint n)"
    by (simp add: signed_take_bit_eq_if_positive bit_uint_iff)
  have "k < 63" if "bit (uint n) k" for k
    using that n by (cases "k = 63") (auto simp: bit_uint_iff)
  then have "take_bit 63 (uint n) = uint n"
    by (auto simp: bit_eq_iff bit_take_bit_iff)
  with s show ?thesis by simp
qed

lemma ucast_down_up:
  assumes "uint (n :: 64 word) < 4294967296"
  shows "(ucast (ucast n :: 32 word) :: 64 word) = n"
proof (rule word_uint_eqI)
  have "uint (ucast n :: 32 word) = uint n"
    using assms by (simp add: unsigned_ucast_eq take_bit_eq_mod)
  then show "uint (ucast (ucast n :: 32 word) :: 64 word) = uint n"
    by (simp add: unsigned_ucast_eq take_bit_eq_mod uint_mod)
qed

lemma code_roundtrip:
  "ucast (uint32FromInt64 v) = (if sint (int64OrZero v) \<in> {0..4294967295} then int64OrZero v else (0 :: 64 word))"
proof (cases v)
  case (Some n)
  have "ucast (ucast n :: 32 word) = n" if "0 \<le> sint n" "sint n \<le> 4294967295"
    using that uint_of_nonneg [of n] by (intro ucast_down_up) simp
  with Some show ?thesis by (auto simp: uint32FromInt64_def int64OrZero_def)
qed (simp add: uint32FromInt64_def int64OrZero_def)

lemma options_read_back:
  "map option_key (dhcpOptionsFromSDK (toSDKOptions opts)) =
     map (\<lambda>d. if code_in_range d then option_key d else option_key (d\<lparr>fdo_Num := None\<rparr>)) opts"
proof -
  have "List.map_filter (\<lambda>ptr. case ptr of None \<Rightarrow> None | Some x \<Rightarrow> Some (g x)) (map (\<lambda>x. Some (h x)) xs) = map (g \<circ> h) xs"
    for g :: "Dhcpoption \<Rightarrow> fixedDhcpOption" and h :: "fixedDhcpOption \<Rightarrow> Dhcpoption" and xs
    by (induction xs) (simp_all add: map_filter_simps)
  then show ?thesis
    by (simp add: dhcpOptionsFromSDK_def toSDKOptions_def option_key_def code_roundtrip code_in_range_def int64OrZero_def)
qed

lemma wide_code_changed:
  assumes "d \<in> set opts" and "\<not> code_in_range d"
  shows "map option_key opts \<noteq> map option_key (dhcpOptionsFromSDK (toSDKOptions opts))"
proof -
  have "option_key d \<noteq> option_key (d\<lparr>fdo_Num := None\<rparr>)"
    using assms(2) by (auto simp: option_key_def code_in_range_def int64OrZero_def split: option.splits)
  with assms show ?thesis unfolding options_read_back by (auto simp: map_eq_conv)
qed

lemma options_shared [simp]: "namespacedOptionsToShared (namespacedOptionsFromShared opts) = opts"
  by (induction opts) (simp_all add: namespacedOptionsToShared_def namespacedOptionsFromShared_def map_filter_simps split: if_splits)

section \<open>Late initialisation\<close>

definition fill_empty :: "string option \<Rightarrow> bool \<Rightarrow> string \<Rightarrow> string option" where
  "fill_empty s q t = (if q \<and> s = Some [] \<and> t \<noteq> [] then Some t else s)"

definition fixedaddress_filled :: "fixedAddressFields \<Rightarrow> FixedAddressObj \<Rightarrow> fixedAddressFields" where
  "fixedaddress_filled f fa =
     (let use = fill (ff_UseOptions f) (fxr_UseOptions fa) in
      f\<lparr>ff_IPv4Addr := fill_empty (ff_IPv4Addr f) (\<not> isIPv6 f) (fxr_IPv4Address fa),
        ff_IPv6Addr := fill_empty (ff_IPv6Addr f) (isIPv6 f) (fxr_IPv6Address fa),
        ff_MAC := fill (ff_MAC f) (ptrIfSet (fxr_Mac fa)),
        ff_NetworkView := fill (ff_NetworkView f) (ptrIfNonEmpty (fxr_NetviewName fa)),
        ff_Network := fill (ff_Network f) (ptrIfNonEmpty (fxr_Cidr fa)),
        ff_Name := fill (ff_Name f) (ptrIfSet (fxr_Name fa)),
        ff_MatchClient := fill (ff_MatchClient f) (ptrIfSet (fxr_MatchClient fa)),
        ff_Comment := fill (ff_Comment f) (ptrIfNonEmpty (fxr_Comment fa)),
        ff_ExtAttrs := fill_map (ff_ExtAttrs f) (userAttrs (fxr_Ea fa)),
        ff_Disable := fill (ff_Disable f) (fxr_Disable fa),
        ff_AgentCircuitID := fill (ff_AgentCircuitID f) (ptrIfSet (fxr_AgentCircuitId fa)),
        ff_AgentRemoteID := fill (ff_AgentRemoteID f) (ptrIfSet (fxr_AgentRemoteId fa)),
        ff_ClientIdentifierPrependZero := fill (ff_ClientIdentifierPrependZero f) (fxr_ClientIdentifierPrependZero fa),
        ff_DHCPClientIdentifier := fill (ff_DHCPClientIdentifier f) (ptrIfSet (fxr_DhcpClientIdentifier fa)),
        ff_UseOptions := use,
        ff_Options := (if boolOrFalse use then fill_list (ff_Options f) (dhcpOptionsFromSDK (fxr_Options fa)) else ff_Options f)\<rparr>)"

lemma fixed_steps:
  "(if q \<and> s = Some [] \<and> t \<noteq> [] then Some t else s) = fill_empty s q t"
  "(fill_empty s q t \<noteq> s) = (q \<and> s = Some [] \<and> t \<noteq> [])"
  "(if xs = [] \<and> b then (let ys = g in if ys \<noteq> [] then (ys, True) else (xs, c)) else (xs, c)) =
     ((if b then fill_list xs g else xs), (if b then fill_list xs g else xs) \<noteq> xs \<or> c)"
  by (auto simp: fill_empty_def fill_list_def)

lemma fixed_fields_differ:
  "f\<lparr>ff_IPv4Addr := a1, ff_IPv6Addr := a2, ff_MAC := a3, ff_NetworkView := a4, ff_Network := a5, ff_Name := a6,
     ff_MatchClient := a7, ff_Comment := a8, ff_ExtAttrs := a9, ff_Disable := a10, ff_AgentCircuitID := a11,
     ff_AgentRemoteID := a12, ff_ClientIdentifierPrependZero := a13, ff_DHCPClientIdentifier := a14,
     ff_UseOptions := a15, ff_Options := a16\<rparr> = f \<longleftrightarrow>
   a1 = ff_IPv4Addr f \<and> a2 = ff_IPv6Addr f \<and> a3 = ff_MAC f \<and> a4 = ff_NetworkView f \<and> a5 = ff_Network f \<and>
   a6 = ff_Name f \<and> a7 = ff_MatchClient f \<and> a8 = ff_Comment f \<and> a9 = ff_ExtAttrs f \<and> a10 = ff_Disable f \<and>
   a11 = ff_AgentCircuitID f \<and> a12 = ff_AgentRemoteID f \<and> a13 = ff_ClientIdentifierPrependZero f \<and>
   a14 = ff_DHCPClientIdentifier f \<and> a15 = ff_UseOptions f \<and> a16 = ff_Options f"
  by (cases f) auto

lemma fixed_late_parts:
  "lateInitializeAddress f fa =
     (f\<lparr>ff_IPv4Addr := fill_empty (ff_IPv4Addr f) (\<not> isIPv6 f) (fxr_IPv4Address fa),
        ff_IPv6Addr := fill_empty (ff_IPv6Addr f) (isIPv6 f) (fxr_IPv6Address fa)\<rparr>,
      fill_empty (ff_IPv6Addr f) (isIPv6 f) (fxr_IPv6Address fa) \<noteq> ff_IPv6Addr f \<or>
      fill_empty (ff_IPv4Addr f) (\<not> isIPv6 f) (fxr_IPv4Address fa) \<noteq> ff_IPv4Addr f)"
  by (simp only: lateInitializeAddress_def Let_def fill_steps fixed_steps case_prod_conv simp_thms)

lemma lateInitializeIdentityLocation_eq:
  "lateInitializeIdentityLocation f fa =
     (f\<lparr>ff_MAC := fill (ff_MAC f) (ptrIfSet (fxr_Mac fa)),
        ff_NetworkView := fill (ff_NetworkView f) (ptrIfNonEmpty (fxr_NetviewName fa)),
        ff_Network := fill (ff_Network f) (ptrIfNonEmpty (fxr_Cidr fa)),
        ff_Name := fill (ff_Name f) (ptrIfSet (fxr_Name fa))\<rparr>,
      fill (ff_Name f) (ptrIfSet (fxr_Name fa)) \<noteq> ff_Name f \<or>
      fill (ff_Network f) (ptrIfNonEmpty (fxr_Cidr fa)) \<noteq> ff_Network f \<or>
      fill (ff_NetworkView f) (ptrIfNonEmpty (fxr_NetviewName fa)) \<noteq> ff_NetworkView f \<or>
      fill (ff_MAC f) (ptrIfSet (fxr_Mac fa)) \<noteq> ff_MAC f)"
  by (simp only: lateInitializeIdentityLocation_def Let_def fill_steps fill_changed ptrIfSet_set case_prod_conv simp_thms)

lemma lateInitializeIdentityMeta_eq:
  "lateInitializeIdentityMeta f fa =
     (f\<lparr>ff_MatchClient := fill (ff_MatchClient f) (ptrIfSet (fxr_MatchClient fa)),
        ff_Comment := fill (ff_Comment f) (ptrIfNonEmpty (fxr_Comment fa)),
        ff_ExtAttrs := fill_map (ff_ExtAttrs f) (userAttrs (fxr_Ea fa))\<rparr>,
      fill_map (ff_ExtAttrs f) (userAttrs (fxr_Ea fa)) \<noteq> ff_ExtAttrs f \<or>
      fill (ff_Comment f) (ptrIfNonEmpty (fxr_Comment fa)) \<noteq> ff_Comment f \<or>
      fill (ff_MatchClient f) (ptrIfSet (fxr_MatchClient fa)) \<noteq> ff_MatchClient f)"
  by (simp only: lateInitializeIdentityMeta_def Let_def userAttrs_def [symmetric] fill_steps fill_changed ptrIfSet_set
      case_prod_conv simp_thms)

lemma lateInitializeDHCPAgent_eq:
  "lateInitializeDHCPAgent f fa =
     (f\<lparr>ff_Disable := fill (ff_Disable f) (fxr_Disable fa),
        ff_AgentCircuitID := fill (ff_AgentCircuitID f) (ptrIfSet (fxr_AgentCircuitId fa)),
        ff_AgentRemoteID := fill (ff_AgentRemoteID f) (ptrIfSet (fxr_AgentRemoteId fa))\<rparr>,
      fill (ff_AgentRemoteID f) (ptrIfSet (fxr_AgentRemoteId fa)) \<noteq> ff_AgentRemoteID f \<or>
      fill (ff_AgentCircuitID f) (ptrIfSet (fxr_AgentCircuitId fa)) \<noteq> ff_AgentCircuitID f \<or>
      fill (ff_Disable f) (fxr_Disable fa) \<noteq> ff_Disable f)"
  by (simp only: lateInitializeDHCPAgent_def Let_def fill_steps fill_changed ptrIfSet_set case_prod_conv simp_thms)

lemma lateInitializeDHCPOptions_eq:
  "lateInitializeDHCPOptions f fa =
     (let use = fill (ff_UseOptions f) (fxr_UseOptions fa);
          opts = (if boolOrFalse use then fill_list (ff_Options f) (dhcpOptionsFromSDK (fxr_Options fa)) else ff_Options f)
      in (f\<lparr>ff_ClientIdentifierPrependZero := fill (ff_ClientIdentifierPrependZero f) (fxr_ClientIdentifierPrependZero fa),
            ff_DHCPClientIdentifier := fill (ff_DHCPClientIdentifier f) (ptrIfSet (fxr_DhcpClientIdentifier fa)),
            ff_UseOptions := use, ff_Options := opts\<rparr>,
          opts \<noteq> ff_Options f \<or> use \<noteq> ff_UseOptions f \<or>
          fill (ff_DHCPClientIdentifier f) (ptrIfSet (fxr_DhcpClientIdentifier fa)) \<noteq> ff_DHCPClientIdentifier f \<or>
          fill (ff_ClientIdentifierPrependZero f) (fxr_ClientIdentifierPrependZero fa) \<noteq> ff_ClientIdentifierPrependZero f))"
proof -
  have opts: "(if xs = [] \<and> b then ((if ys \<noteq> [] then ys else xs), ys \<noteq> [] \<or> c) else (xs, c)) =
     ((if b then fill_list xs ys else xs), (if b then fill_list xs ys else xs) \<noteq> xs \<or> c)" for xs ys :: "fixedDhcpOption list" and b c
    by (auto simp: fill_list_def)
  show ?thesis
    by (simp only: lateInitializeDHCPOptions_def Let_def opts fill_steps fill_changed ptrIfSet_set case_prod_conv simp_thms)
qed

lemma FixedAddress_lateInitialize_eq:
  "FixedAddress_lateInitialize f fa = (fixedaddress_filled f fa, fixedaddress_filled f fa \<noteq> f)"
proof -
  have "fst (FixedAddress_lateInitialize f fa) = fixedaddress_filled f fa"
    by (simp add: FixedAddress_lateInitialize_def lateInitializeIdentity_def lateInitializeDHCP_def fixed_late_parts
        lateInitializeIdentityLocation_eq lateInitializeIdentityMeta_eq lateInitializeDHCPAgent_eq
        lateInitializeDHCPOptions_eq fixedaddress_filled_def Let_def)
  moreover have "snd (FixedAddress_lateInitialize f fa) \<longleftrightarrow> fixedaddress_filled f fa \<noteq> f"
    by (simp add: FixedAddress_lateInitialize_def lateInitializeIdentity_def lateInitializeDHCP_def fixed_late_parts
        lateInitializeIdentityLocation_eq lateInitializeIdentityMeta_eq lateInitializeDHCPAgent_eq
        lateInitializeDHCPOptions_eq fixedaddress_filled_def Let_def fixed_fields_differ) blast
  ultimately show ?thesis by (simp only: prod_eq_iff fst_conv snd_conv)
qed

text \<open>The drift check, field by field.\<close>

lemma FixedAddress_isUpToDate_iff:
  "FixedAddress_isUpToDate f fa \<longleftrightarrow>
     (if isIPv6 f then strOrEmpty (ff_IPv6Addr f) = fxr_IPv6Address fa \<and> strOrEmpty (ff_MAC f) = fxr_Duid fa
      else strOrEmpty (ff_IPv4Addr f) = fxr_IPv4Address fa \<and> strOrEmpty (ff_MAC f) = strOrEmpty (fxr_Mac fa)) \<and>
     strOrEmpty (ff_NetworkView f) = fxr_NetviewName fa \<and> strOrEmpty (ff_Network f) = fxr_Cidr fa \<and>
     strOrEmpty (ff_Name f) = strOrEmpty (fxr_Name fa) \<and> strOrEmpty (ff_MatchClient f) = strOrEmpty (fxr_MatchClient fa) \<and>
     strOrEmpty (ff_Comment f) = fxr_Comment fa \<and> ff_ExtAttrs f = userAttrs (fxr_Ea fa) \<and>
     boolOrFalse (ff_Disable f) = boolOrFalse (fxr_Disable fa) \<and>
     strOrEmpty (ff_AgentCircuitID f) = strOrEmpty (fxr_AgentCircuitId fa) \<and>
     strOrEmpty (ff_AgentRemoteID f) = strOrEmpty (fxr_AgentRemoteId fa) \<and>
     boolOrFalse (ff_ClientIdentifierPrependZero f) = boolOrFalse (fxr_ClientIdentifierPrependZero fa) \<and>
     strOrEmpty (ff_DHCPClientIdentifier f) = strOrEmpty (fxr_DhcpClientIdentifier fa) \<and>
     boolOrFalse (ff_UseOptions f) = boolOrFalse (fxr_UseOptions fa) \<and>
     (boolOrFalse (ff_UseOptions f) \<longrightarrow>
        map option_key (ff_Options f) = map option_key (dhcpOptionsFromSDK (fxr_Options fa)))"
  by (simp add: FixedAddress_isUpToDate_def isUpToDateAddress_def isUpToDateDHCP_def extAttrsEqual_iff
      dhcpOptionsEqual_iff flip: userAttrs_def)

definition keeps_address :: "string option \<Rightarrow> string option \<Rightarrow> bool" where
  "keeps_address a b \<longleftrightarrow> a = Some [] \<and> b \<noteq> None \<or> b = a"

definition FixedAddress_keeps :: "fixedAddressFields \<Rightarrow> fixedAddressFields \<Rightarrow> bool" where
  "FixedAddress_keeps f g \<longleftrightarrow>
     keeps_address (ff_IPv4Addr f) (ff_IPv4Addr g) \<and> keeps_address (ff_IPv6Addr f) (ff_IPv6Addr g) \<and>
     keeps_set (ff_MAC f) (ff_MAC g) \<and> keeps_set (ff_NetworkView f) (ff_NetworkView g) \<and>
     keeps_set (ff_Network f) (ff_Network g) \<and> keeps_set (ff_Name f) (ff_Name g) \<and>
     keeps_set (ff_MatchClient f) (ff_MatchClient g) \<and> keeps_set (ff_Comment f) (ff_Comment g) \<and>
     keeps_attrs (ff_ExtAttrs f) (ff_ExtAttrs g) \<and> keeps_set (ff_Disable f) (ff_Disable g) \<and>
     keeps_set (ff_AgentCircuitID f) (ff_AgentCircuitID g) \<and> keeps_set (ff_AgentRemoteID f) (ff_AgentRemoteID g) \<and>
     keeps_set (ff_ClientIdentifierPrependZero f) (ff_ClientIdentifierPrependZero g) \<and>
     keeps_set (ff_DHCPClientIdentifier f) (ff_DHCPClientIdentifier g) \<and> keeps_set (ff_UseOptions f) (ff_UseOptions g) \<and>
     keeps_list (ff_Options f) (ff_Options g)"

lemma isIPv6_filled [simp]: "isIPv6 (fixedaddress_filled f fa) = isIPv6 f"
  by (simp add: isIPv6_def fixedaddress_filled_def Let_def fill_empty_def)

lemma fill_empty_idem [simp]: "fill_empty (fill_empty s q t) q t = fill_empty s q t"
  by (simp add: fill_empty_def)

lemma fill_empty_agrees: "strOrEmpty s = t \<Longrightarrow> strOrEmpty (fill_empty s q t) = t"
  by (auto simp: fill_empty_def)

text \<open>An ipv6fixedaddress has a DUID and no MAC; a MAC would be filled in and then compared with the DUID.\<close>

definition no_foreign_mac :: "fixedAddressFields \<Rightarrow> FixedAddressObj \<Rightarrow> bool" where
  "no_foreign_mac f fa \<longleftrightarrow> (isIPv6 f \<longrightarrow> ptrIfSet (fxr_Mac fa) = None)"

interpretation fixedaddress_late: late_init FixedAddress_lateInitialize
  "\<lambda>f fa. FixedAddress_isUpToDate f fa \<and> no_foreign_mac f fa" FixedAddress_keeps
proof
  fix f :: fixedAddressFields and fa :: FixedAddressObj
  have "fixedaddress_filled (fixedaddress_filled f fa) fa = fixedaddress_filled f fa"
    unfolding fixedaddress_filled_def [of "fixedaddress_filled f fa"] isIPv6_filled
    by (simp add: fixedaddress_filled_def Let_def)
  then show "FixedAddress_lateInitialize (fst (FixedAddress_lateInitialize f fa)) fa =
      (fst (FixedAddress_lateInitialize f fa), False)"
    by (simp add: FixedAddress_lateInitialize_eq)
  show "snd (FixedAddress_lateInitialize f fa) \<longleftrightarrow> fst (FixedAddress_lateInitialize f fa) \<noteq> f"
    by (simp add: FixedAddress_lateInitialize_eq)
  show "FixedAddress_keeps f (fst (FixedAddress_lateInitialize f fa))"
    by (simp add: FixedAddress_lateInitialize_eq fixedaddress_filled_def Let_def FixedAddress_keeps_def keeps_address_def
        fill_empty_def keeps_list_def fill_list_def)
  assume u: "FixedAddress_isUpToDate f fa \<and> no_foreign_mac f fa"
  have mac: "fill (ff_MAC f) (ptrIfSet (fxr_Mac fa)) = ff_MAC f" if "isIPv6 f"
    using u that by (simp add: no_foreign_mac_def fill_def)
  have opts: "map option_key (fill_list (ff_Options f) ys) = map option_key ys" if "map option_key (ff_Options f) = map option_key ys" for ys
    using that by (simp add: fill_list_def)
  have "FixedAddress_isUpToDate (fixedaddress_filled f fa) fa"
    using u mac unfolding FixedAddress_isUpToDate_iff isIPv6_filled
    by (simp add: fixedaddress_filled_def Let_def fill_empty_agrees opts split: if_splits)
  with u show "FixedAddress_isUpToDate (fst (FixedAddress_lateInitialize f fa)) fa \<and>
      no_foreign_mac (fst (FixedAddress_lateInitialize f fa)) fa"
    by (simp add: FixedAddress_lateInitialize_eq no_foreign_mac_def)
qed

section \<open>The ladder on the type of the address\<close>

lemma FixedAddress_type_simps [simp]:
  "ot_name (newEmptyFixedAddress b) = (if b then ''ipv6fixedaddress'' else ''fixedaddress'')"
  "ref_ea_shape (newEmptyFixedAddress b)"
  "stamped (newEmptyFixedAddress b) x = eaValue (fxr_Ea x) EAKey"
  by (simp_all add: ref_ea_shape_def stamped_def newEmptyFixedAddress_def reflectFixedAddress_def getRef_def getEA_def)

definition fixed_fields :: "FixedAddressCR \<Rightarrow> fixedAddressFields" where
  "fixed_fields cr = namespacedToFields (fx_ForProvider cr)"

definition fixed_family :: "FixedAddressCR \<Rightarrow> bool option" where
  "fixed_family cr = Some (isIPv6 (fixed_fields cr))"

definition fixed_resolve :: "fx_env \<Rightarrow> FixedAddressCR \<Rightarrow> string \<Rightarrow> fx_world \<Rightarrow> (goerr + FixedAddressObj option \<times> Outcome) \<times> fx_world" where
  "fixed_resolve env cr ref = resolveFixedAddressIdentity env ref (mo_uid cr) (isIPv6 (fixed_fields cr))"

text \<open>The family is always known: the search of both types is never reached.\<close>

interpretation fixed_types: two_type_resolution newEmptyFixedAddress "''fixedaddress/ipv6fixedaddress''"
  "\<lambda>x. eaValue (fxr_Ea x) EAKey" "both_types_shape newEmptyFixedAddress ''fixedaddress/ipv6fixedaddress''"
  fixed_family fixed_resolve
  by unfold_locales (simp_all add: fixed_resolve_def resolveFixedAddressIdentity_def family_shape_def fixed_family_def fun_eq_iff)

section \<open>The FixedAddress controller as a client of its type\<close>

definition FixedAddress_put :: "FixedAddressCR \<Rightarrow> fixedAddressFields \<Rightarrow> FixedAddressCR" where
  "FixedAddress_put cr f = cr\<lparr>fx_ForProvider := namespacedApplyFields (fx_ForProvider cr) f\<rparr>"

definition FixedAddress_status :: "FixedAddressObj \<Rightarrow> FixedAddressCR \<Rightarrow> FixedAddressCR" where
  "FixedAddress_status fa cr =
     (let ob = observeFromFixedAddress (fxr_Ref fa) fa in
      cr\<lparr>fx_AtProvider :=
        \<lparr>fxs_ID = ofx_ID ob, fxs_IPv4Addr = ofx_IPv4Addr ob, fxs_IPv6Addr = ofx_IPv6Addr ob, fxs_MAC = ofx_MAC ob,
         fxs_NetworkView = ofx_NetworkView ob, fxs_Network = ofx_Network ob, fxs_Name = ofx_Name ob,
         fxs_MatchClient = ofx_MatchClient ob, fxs_Comment = ofx_Comment ob, fxs_ExtAttrs = ofx_ExtAttrs ob,
         fxs_Disable = ofx_Disable ob, fxs_AgentCircuitID = ofx_AgentCircuitID ob,
         fxs_AgentRemoteID = ofx_AgentRemoteID ob,
         fxs_ClientIdentifierPrependZero = ofx_ClientIdentifierPrependZero ob,
         fxs_DHCPClientIdentifier = ofx_DHCPClientIdentifier ob,
         fxs_Options = namespacedOptionsFromShared (ofx_Options ob), fxs_UseOptions = ofx_UseOptions ob,
         fxs_Ref = ofx_Ref ob, fxs_DUID = ofx_DUID ob, fxs_CloudInfo = namespacedCloudInfoFromShared (ofx_CloudInfo ob)\<rparr>\<rparr>)"

definition FixedAddress_valid :: "FixedAddressCR \<Rightarrow> goerr option" where
  "FixedAddress_valid cr = (if trim_space (mo_uid cr) = [] then Some (TextError FixedAddress_errEmptyUID) else None)"

text \<open>The arguments of both requests, given the match_client to send.\<close>

definition fixed_args :: "fixedAddressFields \<Rightarrow> string \<Rightarrow> string \<Rightarrow> fixedaddress_args" where
  "fixed_args f matchClient uid =
     \<lparr>fxa_netview = strOrEmpty (ff_NetworkView f), fxa_cidr = strOrEmpty (ff_Network f),
      fxa_ipAddr = (if isIPv6 f then strOrEmpty (ff_IPv6Addr f) else strOrEmpty (ff_IPv4Addr f)),
      fxa_mac = strOrEmpty (ff_MAC f), fxa_name = strOrEmpty (ff_Name f), fxa_comment = strOrEmpty (ff_Comment f),
      fxa_ea = Stamp (buildEA (ff_ExtAttrs f)) uid, fxa_matchClient = matchClient,
      fxa_agentCircuitId = strOrEmpty (ff_AgentCircuitID f), fxa_agentRemoteId = strOrEmpty (ff_AgentRemoteID f),
      fxa_clientIdentifierPrependZero = ff_ClientIdentifierPrependZero f,
      fxa_dhcpClientIdentifier = strOrEmpty (ff_DHCPClientIdentifier f), fxa_disable = boolOrFalse (ff_Disable f),
      fxa_options = toSDKOptions (ff_Options f), fxa_useOptions = boolOrFalse (ff_UseOptions f)\<rparr>"

definition fixed_create_request :: "FixedAddressCR \<Rightarrow> fixedaddress_req" where
  "fixed_create_request cr =
     (let f = fixed_fields cr in AllocateIP (isIPv6 f) (fixed_args f (strOrEmpty (ff_MatchClient f)) (mo_uid cr)))"

definition fixed_update_request :: "FixedAddressCR \<Rightarrow> fixedaddress_req" where
  "fixed_update_request cr =
     (let f = fixed_fields cr
      in UpdateFixedAddress (GetExternalName cr)
           (fixed_args f (matchClientForUpdate (ff_MatchClient f) (fxs_MatchClient (fx_AtProvider cr)) (isIPv6 f)) (mo_uid cr)))"

fun fixed_req_ea :: "fixedaddress_req \<Rightarrow> ea" where
  "fixed_req_ea (AllocateIP b a) = fxa_ea a"
| "fixed_req_ea (UpdateFixedAddress r a) = fxa_ea a"

text \<open>
  What the Grid stores of a request: what is sent, and a value of its own for an address, a view, a network, a
  MAC or a match_client that is sent empty and for a flag that is not sent. The SDK reads the family of an
  update off the reference and refuses any other.
\<close>

definition fixed_stores :: "bool \<Rightarrow> fixedaddress_args \<Rightarrow> FixedAddressObj \<Rightarrow> bool" where
  "fixed_stores v6 a x \<longleftrightarrow>
     (fxa_ipAddr a \<noteq> [] \<longrightarrow> (if v6 then fxr_IPv6Address x else fxr_IPv4Address x) = fxa_ipAddr a) \<and>
     (if v6 then fxr_Duid x = fxa_mac a \<and> fxr_Mac x = None
      else fxa_mac a \<noteq> [] \<longrightarrow> strOrEmpty (fxr_Mac x) = fxa_mac a) \<and>
     (fxa_netview a \<noteq> [] \<longrightarrow> fxr_NetviewName x = fxa_netview a) \<and> (fxa_cidr a \<noteq> [] \<longrightarrow> fxr_Cidr x = fxa_cidr a) \<and>
     strOrEmpty (fxr_Name x) = fxa_name a \<and> fxr_Comment x = fxa_comment a \<and> fxr_Ea x = fxa_ea a \<and>
     (fxa_matchClient a \<noteq> [] \<longrightarrow> strOrEmpty (fxr_MatchClient x) = fxa_matchClient a) \<and>
     strOrEmpty (fxr_AgentCircuitId x) = fxa_agentCircuitId a \<and> strOrEmpty (fxr_AgentRemoteId x) = fxa_agentRemoteId a \<and>
     (fxa_clientIdentifierPrependZero a \<noteq> None \<longrightarrow>
        boolOrFalse (fxr_ClientIdentifierPrependZero x) = boolOrFalse (fxa_clientIdentifierPrependZero a)) \<and>
     strOrEmpty (fxr_DhcpClientIdentifier x) = fxa_dhcpClientIdentifier a \<and>
     boolOrFalse (fxr_Disable x) = fxa_disable a \<and> boolOrFalse (fxr_UseOptions x) = fxa_useOptions a \<and>
     (fxa_useOptions a \<longrightarrow> fxr_Options x = fxa_options a)"

definition ref_family :: "string \<Rightarrow> bool option" where
  "ref_family r = (if starts_with ''ipv6fixedaddress/'' r then Some True
     else if starts_with ''fixedaddress/'' r then Some False else None)"

fun fixed_holds :: "fixedaddress_req \<Rightarrow> FixedAddressObj \<Rightarrow> bool" where
  "fixed_holds (AllocateIP b a) x \<longleftrightarrow> fixed_stores b a x"
| "fixed_holds (UpdateFixedAddress r a) x \<longleftrightarrow> (case ref_family r of None \<Rightarrow> False | Some b \<Rightarrow> fixed_stores b a x)"

text \<open>
  The specs that converge: one address field is set (the CRD's rule), no field that the Grid has a default for is the
  empty string, DHCP option codes fit an uint32, and a recorded reference is of the family of the spec.
\<close>

definition FixedAddress_spec_ok :: "FixedAddressCR \<Rightarrow> bool" where
  "FixedAddress_spec_ok cr \<longleftrightarrow>
     (let f = fixed_fields cr in
      reserved_free (ff_ExtAttrs f) \<and> (ff_IPv4Addr f = None \<longleftrightarrow> ff_IPv6Addr f \<noteq> None) \<and>
      ff_MAC f \<noteq> Some [] \<and> ff_NetworkView f \<noteq> Some [] \<and> ff_Network f \<noteq> Some [] \<and> ff_MatchClient f \<noteq> Some [] \<and>
      (boolOrFalse (ff_UseOptions f) \<longrightarrow> list_all code_in_range (ff_Options f)) \<and>
      ref_family (GetExternalName cr) \<in> {None, Some (isIPv6 f)})"

lemma fixed_put_fields [simp]: "fixed_fields (FixedAddress_put cr f) = f"
  by (cases f) (simp add: fixed_fields_def FixedAddress_put_def namespacedToFields_def namespacedApplyFields_def)

lemma fixed_CR_commute:
  "FixedAddress_put (FixedAddress_status x cr) f = FixedAddress_status x (FixedAddress_put cr f)"
  "fixed_fields (FixedAddress_status x cr) = fixed_fields cr"
  "fixed_fields (SetExternalName n cr) = fixed_fields cr"
  "fx_ForProvider (SetExternalName n cr) = fx_ForProvider cr"
  "(SetExternalName n cr)\<lparr>fx_ForProvider := p\<rparr> = SetExternalName n (cr\<lparr>fx_ForProvider := p\<rparr>)"
  by (simp_all add: FixedAddress_status_def FixedAddress_put_def fixed_fields_def SetExternalName_def Let_def)

lemma deleteFixedAddress_issue: "deleteFixedAddress = issue_delete"
  by (intro ext) (simp only: deleteFixedAddress_def issue_delete_def)

lemma FixedAddress_Observe_shape:
  "namespaced_FixedAddress_Observe env ep cr w =
     ladder_observe_shape (ladder_observe_error errObserveFixedAddress) (\<lambda>ref uid. fixed_resolve env cr ref)
       (ensureIdentityPrerequisite env ep) (\<lambda>r. r \<noteq> []) (\<lambda>r. r \<noteq> [])
       (lift_late FixedAddress_lateInitialize fixed_fields FixedAddress_put) FixedAddress_status
       (\<lambda>cr. FixedAddress_isUpToDate (fixed_fields cr)) fxr_Ref cr w"
proof -
  obtain r w1 where r: "fixed_resolve env cr (observeRefFor (mo_name cr) (GetExternalName cr)) w = (r, w1)"
    by (cases "fixed_resolve env cr (observeRefFor (mo_name cr) (GetExternalName cr)) w")
  then have r': "resolveFixedAddressIdentity env (observeRefFor (mo_name cr) (GetExternalName cr)) (mo_uid cr)
      (isIPv6 (namespacedToFields (fx_ForProvider cr))) w = (r, w1)"
    by (simp add: fixed_resolve_def fixed_fields_def)
  obtain e w2 where e: "ensureIdentityPrerequisite env ep w1 = (e, w2)"
    by (cases "ensureIdentityPrerequisite env ep w1")
  note defs = namespaced_FixedAddress_Observe_def observeFixedAddress_def ladder_observe_shape_def ladder_observe_error_def
  show ?thesis
  proof (cases r)
    case (Inl err)
    then show ?thesis
      by (cases e) (simp_all add: defs Let_def r r' e)
  next
    case (Inr a)
    obtain obj out where a: "a = (obj, out)" by (cases a)
    show ?thesis
    proof (cases obj)
      case None
      then show ?thesis
        by (simp add: defs Let_def r r' Inr a FixedAddress_notFoundResult_def)
    next
      case (Some fa)
      obtain f c where late: "FixedAddress_lateInitialize (fixed_fields cr) fa = (f, c)"
        by (cases "FixedAddress_lateInitialize (fixed_fields cr) fa")
      then have late': "FixedAddress_lateInitialize (namespacedToFields (fx_ForProvider cr)) fa = (f, c)"
        by (simp add: fixed_fields_def)
      have put: "FixedAddress_status fa (FixedAddress_put cr f) =
          (FixedAddress_status fa cr)\<lparr>fx_ForProvider := namespacedApplyFields (fx_ForProvider cr) f\<rparr>"
        by (simp add: FixedAddress_status_def FixedAddress_put_def Let_def)
      show ?thesis
        by (cases out) (simp_all add: defs Let_def r r' Inr a Some lift_late_def late late' put FixedAddress_notFoundResult_def,
          simp_all add: FixedAddress_status_def Let_def)
    qed
  qed
qed

lemma FixedAddress_Create_shape:
  "namespaced_FixedAddress_Create env ep cr w =
     ladder_create_shape errCreateFixedAddress FixedAddress_valid (ensureIdentityPrerequisite env ep) (send_planned env)
       (\<lambda>cr. Inr (fixed_create_request cr)) fxr_Ref cr w"
proof -
  obtain e w1 where e: "ensureIdentityPrerequisite env ep w = (e, w1)"
    by (cases "ensureIdentityPrerequisite env ep w")
  show ?thesis
    by (cases e) (simp_all add: namespaced_FixedAddress_Create_def ladder_create_shape_def FixedAddress_valid_def Let_def e
        createFixedAddress_def fixed_create_request_def fixed_args_def fixed_fields_def)
qed

lemma FixedAddress_Update_shape:
  "namespaced_FixedAddress_Update env ep cr w =
     ladder_update_shape errUpdateFixedAddress FixedAddress_errEmptyUID env (ensureIdentityPrerequisite env ep)
       fixed_update_request fxr_Ref cr w"
proof -
  obtain e w1 where e: "ensureIdentityPrerequisite env ep w = (e, w1)"
    by (cases "ensureIdentityPrerequisite env ep w")
  show ?thesis
    by (cases e) (simp_all add: namespaced_FixedAddress_Update_def ladder_update_shape_def Let_def e
        updateFixedAddress_def fixed_update_request_def fixed_args_def fixed_fields_def)
qed

lemma FixedAddress_Delete_shape:
  "namespaced_FixedAddress_Delete env ep cr w =
     ladder_delete_shape errDeleteFixedAddress errDeleteUnverifiedOwnership nilDereference
       (fixed_resolve env cr (GetExternalName cr)) (ensureIdentityPrerequisite env ep)
       (issue_delete env) fxr_Ref w"
proof -
  have "namespaced_FixedAddress_Delete env ep cr w =
      deleteFixedAddressIdentity env ep (GetExternalName cr) (mo_uid cr) (isIPv6 (fixed_fields cr)) w"
    by (simp add: namespaced_FixedAddress_Delete_def Let_def fixed_fields_def split: prod.split option.split)
  then show ?thesis
    by (simp only: deleteFixedAddressIdentity_def ladder_delete_shape_def fixed_resolve_def deleteFixedAddress_issue)
qed

text \<open>What was sent is read back as equal, after back-filling what was not.\<close>

lemma fill_sent_text: "x \<noteq> Some [] \<Longrightarrow> (strOrEmpty x \<noteq> [] \<Longrightarrow> t = strOrEmpty x) \<Longrightarrow> strOrEmpty (fill x (ptrIfNonEmpty t)) = t"
  by (cases x) (auto simp: fill_def)

lemma fill_sent_ptr:
  "x \<noteq> Some [] \<Longrightarrow> (strOrEmpty x \<noteq> [] \<Longrightarrow> strOrEmpty t = strOrEmpty x) \<Longrightarrow> strOrEmpty (fill x (ptrIfSet t)) = strOrEmpty t"
  by (cases x) (auto simp: fill_def)

lemma fill_empty_agrees_sent:
  "s \<noteq> None \<Longrightarrow> (strOrEmpty s \<noteq> [] \<Longrightarrow> t = strOrEmpty s) \<Longrightarrow> strOrEmpty (fill_empty s True t) = t"
  by (cases "strOrEmpty s = []") (cases s; simp add: fill_empty_def)+

lemma fixed_stored_fields:
  assumes "fixed_stores (isIPv6 f) (fixed_args f m uid) x"
  shows "isIPv6 f \<Longrightarrow> strOrEmpty (ff_IPv6Addr f) \<noteq> [] \<Longrightarrow> fxr_IPv6Address x = strOrEmpty (ff_IPv6Addr f)"
    and "isIPv6 f \<Longrightarrow> fxr_Duid x = strOrEmpty (ff_MAC f)"
    and "isIPv6 f \<Longrightarrow> fxr_Mac x = None"
    and "\<not> isIPv6 f \<Longrightarrow> strOrEmpty (ff_IPv4Addr f) \<noteq> [] \<Longrightarrow> fxr_IPv4Address x = strOrEmpty (ff_IPv4Addr f)"
    and "\<not> isIPv6 f \<Longrightarrow> strOrEmpty (ff_MAC f) \<noteq> [] \<Longrightarrow> strOrEmpty (fxr_Mac x) = strOrEmpty (ff_MAC f)"
    and "strOrEmpty (ff_NetworkView f) \<noteq> [] \<Longrightarrow> fxr_NetviewName x = strOrEmpty (ff_NetworkView f)"
    and "strOrEmpty (ff_Network f) \<noteq> [] \<Longrightarrow> fxr_Cidr x = strOrEmpty (ff_Network f)"
    and "strOrEmpty (fxr_Name x) = strOrEmpty (ff_Name f)"
    and "fxr_Comment x = strOrEmpty (ff_Comment f)"
    and "fxr_Ea x = Stamp (buildEA (ff_ExtAttrs f)) uid"
    and "m \<noteq> [] \<Longrightarrow> strOrEmpty (fxr_MatchClient x) = m"
    and "strOrEmpty (fxr_AgentCircuitId x) = strOrEmpty (ff_AgentCircuitID f)"
    and "strOrEmpty (fxr_AgentRemoteId x) = strOrEmpty (ff_AgentRemoteID f)"
    and "ff_ClientIdentifierPrependZero f \<noteq> None \<Longrightarrow>
      boolOrFalse (fxr_ClientIdentifierPrependZero x) = boolOrFalse (ff_ClientIdentifierPrependZero f)"
    and "strOrEmpty (fxr_DhcpClientIdentifier x) = strOrEmpty (ff_DHCPClientIdentifier f)"
    and "boolOrFalse (fxr_Disable x) = boolOrFalse (ff_Disable f)"
    and "boolOrFalse (fxr_UseOptions x) = boolOrFalse (ff_UseOptions f)"
    and "boolOrFalse (ff_UseOptions f) \<Longrightarrow> fxr_Options x = toSDKOptions (ff_Options f)"
  using assms by (simp_all add: fixed_stores_def fixed_args_def)

lemma fixed_stored_utd:
  assumes ok: "FixedAddress_spec_ok cr"
    and "fixed_stores (isIPv6 (fixed_fields cr)) (fixed_args (fixed_fields cr) m (mo_uid cr)) x"
    and m: "ff_MatchClient (fixed_fields cr) \<noteq> None \<Longrightarrow> m = strOrEmpty (ff_MatchClient (fixed_fields cr))"
  shows "FixedAddress_isUpToDate (fixedaddress_filled (fixed_fields cr) x) x \<and> eaValue (fxr_Ea x) EAKey = Some (mo_uid cr)"
proof -
  let ?f = "fixed_fields cr"
  note st = fixed_stored_fields [OF assms(2)]
  have free: "reserved_free (ff_ExtAttrs ?f)" and one: "ff_IPv4Addr ?f = None \<longleftrightarrow> ff_IPv6Addr ?f \<noteq> None"
    and mac: "ff_MAC ?f \<noteq> Some []" and view: "ff_NetworkView ?f \<noteq> Some []" and net: "ff_Network ?f \<noteq> Some []"
    and mc: "ff_MatchClient ?f \<noteq> Some []"
    and codes: "boolOrFalse (ff_UseOptions ?f) \<Longrightarrow> list_all code_in_range (ff_Options ?f)"
    using ok by (simp_all add: FixedAddress_spec_ok_def Let_def)
  have attrs: "userAttrs (fxr_Ea x) = ff_ExtAttrs ?f"
    using free by (simp add: st(10) userAttrs_buildEA reserved_free_fmdrop)
  have addr6: "strOrEmpty (fill_empty (ff_IPv6Addr ?f) True (fxr_IPv6Address x)) = fxr_IPv6Address x" if "isIPv6 ?f"
    using that by (intro fill_empty_agrees_sent st(1)) (simp_all add: isIPv6_def)
  have duid: "strOrEmpty (fill (ff_MAC ?f) (ptrIfSet (fxr_Mac x))) = fxr_Duid x" if "isIPv6 ?f"
    using st(2,3) [OF that] by (cases "ff_MAC ?f") (simp_all add: fill_def)
  have addr4: "strOrEmpty (fill_empty (ff_IPv4Addr ?f) True (fxr_IPv4Address x)) = fxr_IPv4Address x" if "\<not> isIPv6 ?f"
    using that one by (intro fill_empty_agrees_sent st(4)) (simp_all add: isIPv6_def)
  have mac4: "strOrEmpty (fill (ff_MAC ?f) (ptrIfSet (fxr_Mac x))) = strOrEmpty (fxr_Mac x)" if "\<not> isIPv6 ?f"
    by (rule fill_sent_ptr [OF mac st(5) [OF that]])
  have place: "strOrEmpty (fill (ff_NetworkView ?f) (ptrIfNonEmpty (fxr_NetviewName x))) = fxr_NetviewName x"
    "strOrEmpty (fill (ff_Network ?f) (ptrIfNonEmpty (fxr_Cidr x))) = fxr_Cidr x"
    by (rule fill_sent_text [OF view st(6)], assumption, rule fill_sent_text [OF net st(7)], assumption)
  have match: "strOrEmpty (fill (ff_MatchClient ?f) (ptrIfSet (fxr_MatchClient x))) = strOrEmpty (fxr_MatchClient x)"
  proof (rule fill_sent_ptr [OF mc])
    assume sent: "strOrEmpty (ff_MatchClient ?f) \<noteq> []"
    then have "m = strOrEmpty (ff_MatchClient ?f)" by (cases "ff_MatchClient ?f") (use m in simp_all)
    with sent st(11) show "strOrEmpty (fxr_MatchClient x) = strOrEmpty (ff_MatchClient ?f)" by simp
  qed
  have prepend: "boolOrFalse (fill (ff_ClientIdentifierPrependZero ?f) (fxr_ClientIdentifierPrependZero x)) =
      boolOrFalse (fxr_ClientIdentifierPrependZero x)"
    using st(14) by (cases "ff_ClientIdentifierPrependZero ?f") (simp_all add: fill_def)
  have opts: "map option_key (fill_list (ff_Options ?f) (dhcpOptionsFromSDK (fxr_Options x))) =
      map option_key (dhcpOptionsFromSDK (fxr_Options x))" if "boolOrFalse (ff_UseOptions ?f)"
  proof -
    have "map option_key (dhcpOptionsFromSDK (fxr_Options x)) = map option_key (ff_Options ?f)"
      using codes [OF that] st(18) [OF that] by (simp add: options_read_back list_all_iff)
    then show ?thesis by (simp add: fill_list_def)
  qed
  have texts: "strOrEmpty (fill y (ptrIfSet t)) = strOrEmpty t" if "strOrEmpty t = strOrEmpty y" for y t
    using that by (cases y; cases t) (auto simp: fill_def)
  have note1: "strOrEmpty (fill (ff_Comment ?f) (ptrIfNonEmpty (fxr_Comment x))) = fxr_Comment x"
    using st(9) by (cases "ff_Comment ?f") (auto simp: fill_def)
  have flags: "boolOrFalse (fill y t) = boolOrFalse t" if "boolOrFalse t = boolOrFalse y" for y t
    using that by (cases y) (simp_all add: fill_def)
  have ea: "fill_map (ff_ExtAttrs ?f) (userAttrs (fxr_Ea x)) = userAttrs (fxr_Ea x)"
    by (simp add: attrs fill_map_def)
  have "FixedAddress_isUpToDate (fixedaddress_filled ?f x) x"
    unfolding FixedAddress_isUpToDate_iff isIPv6_filled
    by (cases "isIPv6 ?f")
      (simp_all add: fixedaddress_filled_def Let_def addr6 addr4 duid mac4 place match prepend opts ea note1
        texts [OF st(8)] texts [OF st(12)] texts [OF st(13)] texts [OF st(15)] flags [OF st(16)] flags [OF st(17)] st(17))
  then show ?thesis by (simp add: st(10))
qed

lemma fixed_written_utd:
  assumes "FixedAddress_spec_ok cr" and "fixed_holds (fixed_create_request cr) x \<or> fixed_holds (fixed_update_request cr) x"
  shows "FixedAddress_isUpToDate (fixed_fields (fst (lift_late FixedAddress_lateInitialize fixed_fields FixedAddress_put cr x))) x \<and>
    eaValue (fxr_Ea x) EAKey = Some (mo_uid cr)"
proof -
  let ?f = "fixed_fields cr"
  have fam: "ref_family (GetExternalName cr) \<in> {None, Some (isIPv6 ?f)}"
    using assms(1) by (simp add: FixedAddress_spec_ok_def Let_def)
  have "matchClientForUpdate (ff_MatchClient ?f) ob (isIPv6 ?f) = strOrEmpty (ff_MatchClient ?f)"
    if "ff_MatchClient ?f \<noteq> None" for ob
    using that assms(1) by (auto simp: matchClientForUpdate_def FixedAddress_spec_ok_def Let_def)
  moreover obtain m where "fixed_stores (isIPv6 ?f) (fixed_args ?f m (mo_uid cr)) x"
    "m = strOrEmpty (ff_MatchClient ?f) \<or> m = matchClientForUpdate (ff_MatchClient ?f) (fxs_MatchClient (fx_AtProvider cr)) (isIPv6 ?f)"
    using assms(2) fam by (auto simp: fixed_create_request_def fixed_update_request_def Let_def split: option.splits)
  ultimately show ?thesis
    using fixed_stored_utd [OF assms(1), of m x] by (auto simp: lift_late_def FixedAddress_lateInitialize_eq)
qed

interpretation fixedaddress: refreshing_resolver fixed_resolve "both_sound newEmptyFixedAddress"
  "\<lambda>x. eaValue (fxr_Ea x) EAKey" "{ot_name (newEmptyFixedAddress False), ot_name (newEmptyFixedAddress True)}"
  "\<lambda>cr. family_types newEmptyFixedAddress (fixed_family cr)" "\<lambda>cr. family_kind newEmptyFixedAddress (fixed_family cr)"
  "lift_late FixedAddress_lateInitialize fixed_fields FixedAddress_put" "\<lambda>cr. FixedAddress_isUpToDate (fixed_fields cr)"
  fxr_Ref FixedAddress_status FixedAddress_valid "\<lambda>cr. Inr (fixed_create_request cr)" fixed_update_request fixed_req_ea
  fixed_holds FixedAddress_spec_ok "ladder_observe_error errObserveFixedAddress" "\<lambda>r. r \<noteq> []" "\<lambda>r. r \<noteq> []" fxr_Ref
  errCreateFixedAddress errUpdateFixedAddress errDeleteFixedAddress FixedAddress_errEmptyUID
  namespaced_FixedAddress_Observe namespaced_FixedAddress_Create namespaced_FixedAddress_Update namespaced_FixedAddress_Delete
proof (unfold_locales, goal_cases)
  case (5 cr)
  then show ?case by (auto simp: FixedAddress_valid_def split: if_splits)
next
  case (14 cr m x)
  then show ?case using fixed_written_utd [of cr x] by simp
next
  case (15 cr x)
  then show ?case using fixed_written_utd [of cr x] by simp
qed (auto simp: FixedAddress_Observe_shape FixedAddress_Create_shape FixedAddress_Update_shape FixedAddress_Delete_shape
    lift_late_def split_beta FixedAddress_put_def FixedAddress_status_def fixed_family_def fixed_CR_commute
    fixed_create_request_def fixed_update_request_def fixed_args_def Let_def)

end
