(* ===== verification/AddressFamilies.thy ===== *)
theory AddressFamilies
  imports NetworkSpec NetworkContainer FixedAddress
begin

text \<open>
  What the controllers promise whose objects come in two types, one for each address family: Network,
  NetworkContainer and FixedAddress, in both scopes. The promises are those of theory ResolvingClient, from
  the interpretations of \<open>refreshing_resolver\<close> in their theories.
\<close>

lemmas address_scopes = Network_scopes NetworkContainer_scopes FixedAddress_scopes

text \<open>
  C9: deleting a network, network container or fixed address, in both scopes, sends at most one
  mutating request: the deletion of the object that the resolution found under the object type its
  address family selects (or under the one of both types when the spec leaves the family open), and that carries
  this resource's stamp. Success is reported only when nothing was found, or that deletion
  succeeded or was answered with a 404.
\<close>

theorem addresses_delete_contract:
  "deletes_resolved (both_sound newEmptyNetwork) (\<lambda>x. eaValue (nw_Ea x) EAKey) network_resolve nw_Ref namespaced_Network_Delete \<and>
   deleted_is_gone (both_sound newEmptyNetwork) (\<lambda>x. eaValue (nw_Ea x) EAKey) network_resolve nw_Ref namespaced_Network_Delete \<and>
   deletes_resolved (both_sound newEmptyNetwork) (\<lambda>x. eaValue (nw_Ea x) EAKey) network_resolve nw_Ref cluster_Network_Delete \<and>
   deleted_is_gone (both_sound newEmptyNetwork) (\<lambda>x. eaValue (nw_Ea x) EAKey) network_resolve nw_Ref cluster_Network_Delete \<and>
   deletes_resolved (both_sound newEmptyNetworkContainer) (\<lambda>x. eaValue (nct_Ea x) EAKey) container_resolve nct_Ref namespaced_NetworkContainer_Delete \<and>
   deleted_is_gone (both_sound newEmptyNetworkContainer) (\<lambda>x. eaValue (nct_Ea x) EAKey) container_resolve nct_Ref namespaced_NetworkContainer_Delete \<and>
   deletes_resolved (both_sound newEmptyNetworkContainer) (\<lambda>x. eaValue (nct_Ea x) EAKey) container_resolve nct_Ref cluster_NetworkContainer_Delete \<and>
   deleted_is_gone (both_sound newEmptyNetworkContainer) (\<lambda>x. eaValue (nct_Ea x) EAKey) container_resolve nct_Ref cluster_NetworkContainer_Delete \<and>
   deletes_resolved (both_sound newEmptyFixedAddress) (\<lambda>x. eaValue (fxr_Ea x) EAKey) fixed_resolve fxr_Ref namespaced_FixedAddress_Delete \<and>
   deleted_is_gone (both_sound newEmptyFixedAddress) (\<lambda>x. eaValue (fxr_Ea x) EAKey) fixed_resolve fxr_Ref namespaced_FixedAddress_Delete \<and>
   deletes_resolved (both_sound newEmptyFixedAddress) (\<lambda>x. eaValue (fxr_Ea x) EAKey) fixed_resolve fxr_Ref cluster_FixedAddress_Delete \<and>
   deleted_is_gone (both_sound newEmptyFixedAddress) (\<lambda>x. eaValue (fxr_Ea x) EAKey) fixed_resolve fxr_Ref cluster_FixedAddress_Delete"
  by (simp only: address_scopes simp_thms network.delete_only_owned network.delete_success networkcontainer.delete_only_owned networkcontainer.delete_success fixedaddress.delete_only_owned fixedaddress.delete_success)

text \<open>
  C26: Observe of these objects never changes the Grid and answers "exists" only for an object
  with this resource's stamp, or with none (then out of date, so that Update claims it); it answers
  "does not exist" only after a search under every object type the resource can be of came back
  empty and reading a recorded reference gave a 404.
\<close>

theorem addresses_observe_contract:
  "observes_resolved (both_sound newEmptyNetwork) (\<lambda>x. eaValue (nw_Ea x) EAKey) network_resolve namespaced_Network_Observe \<and>
   absent_when_searched (\<lambda>cr. family_types newEmptyNetwork (network_family cr)) (\<lambda>cr. family_kind newEmptyNetwork (network_family cr)) namespaced_Network_Observe \<and>
   observes_resolved (both_sound newEmptyNetwork) (\<lambda>x. eaValue (nw_Ea x) EAKey) network_resolve cluster_Network_Observe \<and>
   absent_when_searched (\<lambda>cr. family_types newEmptyNetwork (network_family cr)) (\<lambda>cr. family_kind newEmptyNetwork (network_family cr)) cluster_Network_Observe \<and>
   observes_resolved (both_sound newEmptyNetworkContainer) (\<lambda>x. eaValue (nct_Ea x) EAKey) container_resolve namespaced_NetworkContainer_Observe \<and>
   absent_when_searched (\<lambda>cr. family_types newEmptyNetworkContainer (container_family cr)) (\<lambda>cr. family_kind newEmptyNetworkContainer (container_family cr)) namespaced_NetworkContainer_Observe \<and>
   observes_resolved (both_sound newEmptyNetworkContainer) (\<lambda>x. eaValue (nct_Ea x) EAKey) container_resolve cluster_NetworkContainer_Observe \<and>
   absent_when_searched (\<lambda>cr. family_types newEmptyNetworkContainer (container_family cr)) (\<lambda>cr. family_kind newEmptyNetworkContainer (container_family cr)) cluster_NetworkContainer_Observe \<and>
   observes_resolved (both_sound newEmptyFixedAddress) (\<lambda>x. eaValue (fxr_Ea x) EAKey) fixed_resolve namespaced_FixedAddress_Observe \<and>
   absent_when_searched (\<lambda>cr. family_types newEmptyFixedAddress (fixed_family cr)) (\<lambda>cr. family_kind newEmptyFixedAddress (fixed_family cr)) namespaced_FixedAddress_Observe \<and>
   observes_resolved (both_sound newEmptyFixedAddress) (\<lambda>x. eaValue (fxr_Ea x) EAKey) fixed_resolve cluster_FixedAddress_Observe \<and>
   absent_when_searched (\<lambda>cr. family_types newEmptyFixedAddress (fixed_family cr)) (\<lambda>cr. family_kind newEmptyFixedAddress (fixed_family cr)) cluster_FixedAddress_Observe"
  by (simp only: address_scopes simp_thms network.observe_ownership network.observe_absent networkcontainer.observe_ownership networkcontainer.observe_absent fixedaddress.observe_ownership fixedaddress.observe_absent)

text \<open>
  C12: Create of these objects sends exactly the one request its spec plans (a given address, the next free one
  in a parent, or one in a parent found by attributes), with the stamp of its uid, or none when the
  inputs contradict each other or are incomplete, the uid is blank or the identity definition is missing; Update
  sends exactly one request (none when the uid is blank or the identity definition is missing), and
  only on success changes the external name (a network keeps it).
\<close>

theorem addresses_write_contract:
  "creates_planned Network_valid (\<lambda>cr. network_create_request (nc_ForProvider cr) (mo_uid cr)) nw_Ref errCreateNetwork namespaced_Network_Create \<and>
   updates_as network_update_request (\<lambda>x. []) namespaced_Network_Update \<and>
   creates_planned Network_valid (\<lambda>cr. network_create_request (nc_ForProvider cr) (mo_uid cr)) nw_Ref errCreateNetwork cluster_Network_Create \<and>
   updates_as network_update_request (\<lambda>x. []) cluster_Network_Update \<and>
   creates_planned NetworkContainer_valid (\<lambda>cr. container_create_request (ncc_ForProvider cr) (mo_uid cr)) nct_Ref errCreateNetworkContainer namespaced_NetworkContainer_Create \<and>
   updates_as container_update_request nct_Ref namespaced_NetworkContainer_Update \<and>
   creates_planned NetworkContainer_valid (\<lambda>cr. container_create_request (ncc_ForProvider cr) (mo_uid cr)) nct_Ref errCreateNetworkContainer cluster_NetworkContainer_Create \<and>
   updates_as container_update_request nct_Ref cluster_NetworkContainer_Update \<and>
   creates_planned FixedAddress_valid (\<lambda>cr. Inr (fixed_create_request cr)) fxr_Ref errCreateFixedAddress namespaced_FixedAddress_Create \<and>
   updates_as fixed_update_request fxr_Ref namespaced_FixedAddress_Update \<and>
   creates_planned FixedAddress_valid (\<lambda>cr. Inr (fixed_create_request cr)) fxr_Ref errCreateFixedAddress cluster_FixedAddress_Create \<and>
   updates_as fixed_update_request fxr_Ref cluster_FixedAddress_Update"
  by (simp only: address_scopes simp_thms network.create_planned network.update_as networkcontainer.create_planned networkcontainer.update_as fixedaddress.create_planned fixedaddress.update_as)

text \<open>
  C11: in every interleaving of the handlers of any number of networks, of containers or of fixed
  addresses, with arbitrary edits in between (the address family included), each create or update
  request in the log carries the uid of one of them, and each delete names an object the Grid had
  shown before, under one of its two types, with the stamp of one of them.
\<close>

theorem addresses_run_safely:
  "resolving_runs_safely (both_sound newEmptyNetwork) {ot_name (newEmptyNetwork False), ot_name (newEmptyNetwork True)}
      (\<lambda>x. eaValue (nw_Ea x) EAKey) nw_Ref req_ea namespaced_Network_Observe namespaced_Network_Create namespaced_Network_Update namespaced_Network_Delete \<and>
   resolving_runs_safely (both_sound newEmptyNetwork) {ot_name (newEmptyNetwork False), ot_name (newEmptyNetwork True)}
      (\<lambda>x. eaValue (nw_Ea x) EAKey) nw_Ref req_ea cluster_Network_Observe cluster_Network_Create cluster_Network_Update cluster_Network_Delete \<and>
   resolving_runs_safely (both_sound newEmptyNetworkContainer) {ot_name (newEmptyNetworkContainer False), ot_name (newEmptyNetworkContainer True)}
      (\<lambda>x. eaValue (nct_Ea x) EAKey) nct_Ref container_req_ea namespaced_NetworkContainer_Observe namespaced_NetworkContainer_Create namespaced_NetworkContainer_Update namespaced_NetworkContainer_Delete \<and>
   resolving_runs_safely (both_sound newEmptyNetworkContainer) {ot_name (newEmptyNetworkContainer False), ot_name (newEmptyNetworkContainer True)}
      (\<lambda>x. eaValue (nct_Ea x) EAKey) nct_Ref container_req_ea cluster_NetworkContainer_Observe cluster_NetworkContainer_Create cluster_NetworkContainer_Update cluster_NetworkContainer_Delete \<and>
   resolving_runs_safely (both_sound newEmptyFixedAddress) {ot_name (newEmptyFixedAddress False), ot_name (newEmptyFixedAddress True)}
      (\<lambda>x. eaValue (fxr_Ea x) EAKey) fxr_Ref fixed_req_ea namespaced_FixedAddress_Observe namespaced_FixedAddress_Create namespaced_FixedAddress_Update namespaced_FixedAddress_Delete \<and>
   resolving_runs_safely (both_sound newEmptyFixedAddress) {ot_name (newEmptyFixedAddress False), ot_name (newEmptyFixedAddress True)}
      (\<lambda>x. eaValue (fxr_Ea x) EAKey) fxr_Ref fixed_req_ea cluster_FixedAddress_Observe cluster_FixedAddress_Create cluster_FixedAddress_Update cluster_FixedAddress_Delete"
  by (simp only: address_scopes simp_thms network.run_safe networkcontainer.run_safe fixedaddress.run_safe)

text \<open>
  C10: on a Grid that stores what it is sent and returns it until the next write (and keeps the reference of an
  updated network or container), the Observe right after a successful Create or Update of one of
  these objects reports it as existing and up to date under the reference the write recorded. The spec
  leaves the reserved attribute alone; that of a fixed address sets exactly one of ipv4Addr and ipv6Addr,
  sets none of mac, networkView, network and matchClient to the empty text, keeps the option codes it uses
  within an uint32, and the reference recorded before the write is not one of the other family (so a
  spec switched to the other family is not covered); references of fixed addresses name their
  family. The uid has no surrounding blanks and the recorded reference is not the resource's name.
\<close>

theorem addresses_converge:
  "written_is_observed (\<lambda>cr. family_kind newEmptyNetwork (network_family cr)) nw_Ref network_holds Network_spec_ok namespaced_Network_Create namespaced_Network_Observe \<and>
   written_is_observed (\<lambda>cr. family_kind newEmptyNetwork (network_family cr)) nw_Ref network_holds Network_spec_ok namespaced_Network_Update namespaced_Network_Observe \<and>
   written_is_observed (\<lambda>cr. family_kind newEmptyNetwork (network_family cr)) nw_Ref network_holds Network_spec_ok cluster_Network_Create cluster_Network_Observe \<and>
   written_is_observed (\<lambda>cr. family_kind newEmptyNetwork (network_family cr)) nw_Ref network_holds Network_spec_ok cluster_Network_Update cluster_Network_Observe \<and>
   written_is_observed (\<lambda>cr. family_kind newEmptyNetworkContainer (container_family cr)) nct_Ref container_holds NetworkContainer_spec_ok namespaced_NetworkContainer_Create namespaced_NetworkContainer_Observe \<and>
   written_is_observed (\<lambda>cr. family_kind newEmptyNetworkContainer (container_family cr)) nct_Ref container_holds NetworkContainer_spec_ok namespaced_NetworkContainer_Update namespaced_NetworkContainer_Observe \<and>
   written_is_observed (\<lambda>cr. family_kind newEmptyNetworkContainer (container_family cr)) nct_Ref container_holds NetworkContainer_spec_ok cluster_NetworkContainer_Create cluster_NetworkContainer_Observe \<and>
   written_is_observed (\<lambda>cr. family_kind newEmptyNetworkContainer (container_family cr)) nct_Ref container_holds NetworkContainer_spec_ok cluster_NetworkContainer_Update cluster_NetworkContainer_Observe \<and>
   written_is_observed (\<lambda>cr. family_kind newEmptyFixedAddress (fixed_family cr)) fxr_Ref fixed_holds FixedAddress_spec_ok namespaced_FixedAddress_Create namespaced_FixedAddress_Observe \<and>
   written_is_observed (\<lambda>cr. family_kind newEmptyFixedAddress (fixed_family cr)) fxr_Ref fixed_holds FixedAddress_spec_ok namespaced_FixedAddress_Update namespaced_FixedAddress_Observe \<and>
   written_is_observed (\<lambda>cr. family_kind newEmptyFixedAddress (fixed_family cr)) fxr_Ref fixed_holds FixedAddress_spec_ok cluster_FixedAddress_Create cluster_FixedAddress_Observe \<and>
   written_is_observed (\<lambda>cr. family_kind newEmptyFixedAddress (fixed_family cr)) fxr_Ref fixed_holds FixedAddress_spec_ok cluster_FixedAddress_Update cluster_FixedAddress_Observe"
  by (simp only: address_scopes simp_thms network.create_then_observe network.update_then_observe networkcontainer.create_then_observe networkcontainer.update_then_observe fixedaddress.create_then_observe fixedaddress.update_then_observe)

section \<open>DHCP option codes\<close>

text \<open>
  A fixed address whose spec uses an option code that is no uint32 (the CRD does not bound it)
  never converges: the code is sent as 0, and every Observe of an object that holds what Create or
  Update sent reports it as out of date, so that it is rewritten for ever.
\<close>

theorem wide_option_code_never_current:
  assumes "boolOrFalse (ff_UseOptions (fixed_fields cr))" and "d \<in> set (ff_Options (fixed_fields cr))"
    and "\<not> code_in_range d"
    and "fixed_holds (fixed_create_request cr) x \<or> fixed_holds (fixed_update_request cr) x"
    and "fst (fixed_resolve env cr (observeRefFor (mo_name cr) (GetExternalName cr)) w) = Inr (Some x, out)"
    and "out \<noteq> OutcomeNotFound"
  shows "\<exists>obs cr' w'. namespaced_FixedAddress_Observe env ep cr w = (Inr obs, cr', w') \<and> ResourceExists obs \<and>
    \<not> ResourceUpToDate obs"
proof -
  let ?f = "fixed_fields cr"
  obtain w1 where r: "fixed_resolve env cr (observeRefFor (mo_name cr) (GetExternalName cr)) w = (Inr (Some x, out), w1)"
    using assms(5) by (cases "fixed_resolve env cr (observeRefFor (mo_name cr) (GetExternalName cr)) w") simp
  have "fxr_Options x = toSDKOptions (ff_Options ?f)"
    using assms(1,4) by (auto simp: fixed_create_request_def fixed_update_request_def fixed_stores_def fixed_args_def Let_def
        split: option.splits)
  then have "map option_key (ff_Options ?f) \<noteq> map option_key (dhcpOptionsFromSDK (fxr_Options x))"
    using wide_code_changed [OF assms(2,3)] by simp
  moreover have "boolOrFalse (fill (ff_UseOptions ?f) (fxr_UseOptions x))" "fill_list (ff_Options ?f) ys = ff_Options ?f" for ys
    using assms(1,2) by (cases "ff_UseOptions ?f"; auto simp: fill_def fill_list_def)+
  ultimately have "\<not> FixedAddress_isUpToDate (fixedaddress_filled ?f x) x"
    unfolding FixedAddress_isUpToDate_iff by (simp add: fixedaddress_filled_def Let_def)
  then show ?thesis
    using fixedaddress.observe_found [OF r assms(6), of ep] by (auto simp: lift_late_def FixedAddress_lateInitialize_eq)
qed

section \<open>A Grid with one network\<close>

fun net_store :: "network_req \<Rightarrow> ibNetwork" where
  "net_store (CreateNetwork v c f m e) = (demo_net ''network/1'')\<lparr>nw_Cidr := c, nw_Comment := m, nw_Ea := e\<rparr>"
| "net_store (AllocateNetwork v c f n m e) = (demo_net ''network/1'')\<lparr>nw_Comment := m, nw_Ea := e\<rparr>"
| "net_store (AllocateNetworkByEA v f m e fp n ob) = (demo_net ''network/1'')\<lparr>nw_Comment := m, nw_Ea := e\<rparr>"
| "net_store (UpdateNetwork r e m) = (demo_net r)\<lparr>nw_Comment := m, nw_Ea := e\<rparr>"

definition net_grid :: nw_env where
  "net_grid =
     \<lparr>wapi_get = (\<lambda>h t r. case last_written h of None \<Rightarrow> Inr (demo_net ''network/1'') | Some m \<Rightarrow> Inr (net_store m)),
      wapi_search = (\<lambda>h t q. if q = uid_query ''u-1'' then Inr [demo_net ''network/1''] else Inr []),
      wapi_def_search = (\<lambda>h q. Inr [identityDefinition]), wapi_def_create = (\<lambda>h d. Inr []),
      wapi_mutate = (\<lambda>h m. if nw_Ref (net_store m) = [] then Inl (TextError ''no reference'') else Inr (net_store m)),
      wapi_delete = (\<lambda>h r. Inr r), kube_patch = (\<lambda>h j. None),
      retry_on_conflict = (\<lambda>f w. f w), wall_clock = (\<lambda>n. 0)\<rparr>"

definition net_cr :: "string \<Rightarrow> string \<Rightarrow> NetworkCR" where
  "net_cr uid ref = nw_cr\<lparr>mo_uid := uid, mo_annotations := fmupd AnnotationKeyExternalName ref fmempty,
     nc_ForProvider := nw_params (Some ''10.0.0.0/8'')\<rparr>"

lemma net_cr_simps [simp]:
  "GetExternalName (net_cr uid ref) = ref" "mo_uid (net_cr uid ref) = uid" "mo_name (net_cr uid ref) = ''n''"
  "nc_ForProvider (net_cr uid ref) = nw_params (Some ''10.0.0.0/8'')"
  by (simp_all add: net_cr_def nw_cr_def GetExternalName_def)

lemma net_grid_sound: "both_sound newEmptyNetwork net_grid"
  by (auto simp: uid_query_inj both_sound_def search_sound_def net_grid_def split: if_splits)

lemma net_grid_retry: "retry_documented net_grid"
  by (auto simp: retry_documented_def net_grid_def intro: exI [of _ 0])

lemma net_grid_echoes: "echoes_as net_grid ty nw_Ref network_holds"
proof -
  have "network_holds m (net_store m)" for m by (cases m) simp_all
  then show ?thesis by (auto simp: echoes_as_def net_grid_def split: if_splits)
qed

lemma net_grid_ensure: "fst (ensureIdentityPrerequisite net_grid ''grid'' init_world) = None"
  by (simp add: ensureIdentityPrerequisite_def Ensure_def prober_lookup_def init_world_def probe_def
      definitionExists_def def_search_def net_grid_def trim_space_visible visible_ascii_def split_beta)

lemma net_grid_resolve:
  "\<exists>w1. network_resolve net_grid (net_cr ''u-1'' ''network/1'') ''network/1'' init_world =
     (Inr (Some (demo_net ''network/1''), OutcomeResolved), w1) \<and> mutations w1 = []"
  using network_types.resolve_read [of net_grid init_world "net_cr ''u-1'' ''network/1''" "''network/1''" "demo_net ''network/1''"]
  by (simp add: net_grid_def init_world_def last_written_def mutations_def)

lemma net_grid_delete [simp]: "wapi_delete net_grid h r = Inr r"
  by (simp add: net_grid_def)

lemma init_mutations [simp]: "mutations init_world = []"
  by (simp add: init_world_def mutations_def)

lemma net_grid_deletes:
  "mutations (snd (namespaced_Network_Delete net_grid ''grid'' (net_cr ''u-1'' ''network/1'') init_world)) = [CDelete ''network/1'']"
  using net_grid_resolve
  by (auto simp: network.delete_shape ladder_delete_shape_def issue_delete_def delete_object_def mutations_def)

lemma addresses_delete_contract_witness:
  "mutations (snd (namespaced_Network_Delete net_grid ''grid'' (net_cr ''u-1'' ''network/1'') init_world)) = [CDelete ''network/1''] \<and>
   (\<exists>x out. fst (network_resolve net_grid (net_cr ''u-1'' ''network/1'') ''network/1'' init_world) = Inr (Some x, out) \<and>
      eaValue (nw_Ea x) EAKey = Some ''u-1'')"
proof -
  have "deletes_resolved (both_sound newEmptyNetwork) (\<lambda>x. eaValue (nw_Ea x) EAKey) network_resolve nw_Ref namespaced_Network_Delete"
    using addresses_delete_contract by blast
  from this [unfolded deletes_resolved_def, rule_format, OF net_grid_sound, of "''grid''" "net_cr ''u-1'' ''network/1''" init_world]
  show ?thesis by (auto simp: net_grid_deletes)
qed

lemma addresses_observe_contract_witness:
  "\<exists>obs cr' w'. namespaced_Network_Observe net_grid ''grid'' (net_cr ''u-1'' ''network/1'') init_world = (Inr obs, cr', w') \<and>
     ResourceExists obs \<and> mutations w' = []"
proof -
  let ?cr = "net_cr ''u-1'' ''network/1''"
  have o: "observes_resolved (both_sound newEmptyNetwork) (\<lambda>x. eaValue (nw_Ea x) EAKey) network_resolve namespaced_Network_Observe"
    using addresses_observe_contract by blast
  obtain w1 where r: "network_resolve net_grid ?cr ''network/1'' init_world = (Inr (Some (demo_net ''network/1''), OutcomeResolved), w1)"
    using net_grid_resolve by blast
  have "network_resolve net_grid ?cr (observeRefFor (mo_name ?cr) (GetExternalName ?cr)) init_world =
      (Inr (Some (demo_net ''network/1''), OutcomeResolved), w1)"
    using r by (simp add: observeRefFor_def)
  from network.observe_found [OF this, of "''grid''"] obtain obs cr' where
    "namespaced_Network_Observe net_grid ''grid'' ?cr init_world = (Inr obs, cr', w1)" "ResourceExists obs"
    by auto
  with o [unfolded observes_resolved_def, rule_format, OF net_grid_sound this(1)] show ?thesis
    by auto
qed

lemma addresses_write_contract_witness:
  "mutations (snd (snd (namespaced_Network_Update net_grid ''grid'' (net_cr ''u-1'' ''network/1'') init_world))) =
     [CMutate (network_update_request (net_cr ''u-1'' ''network/1''))]"
proof -
  have "updates_as network_update_request (\<lambda>x. []) namespaced_Network_Update"
    using addresses_write_contract by blast
  from this [unfolded updates_as_def, rule_format, OF net_grid_retry, where ep = "''grid''" and cr = "net_cr ''u-1'' ''network/1''" and w = init_world]
  show ?thesis by (simp add: split_beta net_grid_ensure)
qed

lemma addresses_run_safely_witness:
  "log_safe (shown_owned net_grid {ot_name (newEmptyNetwork False), ot_name (newEmptyNetwork True)} (\<lambda>x. eaValue (nw_Ea x) EAKey) nw_Ref)
     req_ea (\<lambda>uid. \<exists>i :: nat. uid = ''u-1'')
     (calls (snd (namespaced_Network_Delete net_grid ''grid'' (net_cr ''u-1'' ''network/1'') init_world)))"
proof -
  let ?cr = "net_cr ''u-1'' ''network/1''"
  have "resolving_runs_safely (both_sound newEmptyNetwork) {ot_name (newEmptyNetwork False), ot_name (newEmptyNetwork True)}
      (\<lambda>x. eaValue (nw_Ea x) EAKey) nw_Ref req_ea namespaced_Network_Observe namespaced_Network_Create
      namespaced_Network_Update namespaced_Network_Delete"
    using addresses_run_safely by blast
  moreover have "client_run namespaced_Network_Observe namespaced_Network_Create namespaced_Network_Update
      namespaced_Network_Delete net_grid ''grid'' (\<lambda>i. ?cr) (\<lambda>i. ?cr)
      (snd (namespaced_Network_Delete net_grid ''grid'' ?cr init_world))"
    by (rule client_run.deleted [where i = 0 and crs = "\<lambda>i. ?cr", OF client_run.start])
  ultimately show ?thesis
    using net_grid_sound net_grid_retry unfolding resolving_runs_safely_def by fastforce
qed

lemma addresses_converge_witness:
  "\<exists>cr1 w1 obs cr2 w2. namespaced_Network_Create net_grid ''grid'' (net_cr ''u-1'' []) init_world = (None, cr1, w1) \<and>
     namespaced_Network_Observe net_grid ''grid'' cr1 w1 = (Inr obs, cr2, w2) \<and> ResourceUpToDate obs"
proof -
  let ?cr = "net_cr ''u-1'' []"
  let ?m = "CreateNetwork [] ''10.0.0.0/8'' (isIPv6CIDR ''10.0.0.0/8'') [] (Stamp (buildEA fmempty) ''u-1'')"
  have ok: "Network_spec_ok ?cr" "Network_valid ?cr = None"
    by (simp_all add: Network_spec_ok_def Network_valid_def reserved_free_def nw_params_def)
  have plan: "network_create_request (nc_ForProvider ?cr) (mo_uid ?cr) = Inr ?m"
    by (simp add: network_create_request_def nw_params_def strOrEmpty_def Let_def)
  obtain w0 where en: "ensureIdentityPrerequisite net_grid ''grid'' init_world = (None, w0)"
    using net_grid_ensure by (cases "ensureIdentityPrerequisite net_grid ''grid'' init_world") auto
  have m: "wapi_mutate net_grid h ?m = Inr (net_store ?m)" "nw_Ref (net_store ?m) = ''network/1''" for h
    by (simp_all add: net_grid_def)
  have c: "namespaced_Network_Create net_grid ''grid'' ?cr init_world =
      (None, SetExternalName ''network/1'' ?cr, snd (mutate_object net_grid ?m w0))"
    unfolding network.create_shape ladder_create_shape_def ok en plan send_planned_Inr mutate_object_def
    by (simp add: m del: net_store.simps)
  have "written_is_observed (\<lambda>cr. family_kind newEmptyNetwork (network_family cr)) nw_Ref network_holds Network_spec_ok
      namespaced_Network_Create namespaced_Network_Observe"
    using addresses_converge by blast
  from this [unfolded written_is_observed_def, rule_format, OF net_grid_retry net_grid_echoes ok(1) _ c] c
  show ?thesis by simp blast
qed

section \<open>A Grid with one fixed address\<close>

definition wide_option :: fixedDhcpOption where
  "wide_option = \<lparr>fdo_Name = None, fdo_Num = Some (- 1), fdo_VendorClass = None, fdo_Value = Some ''v'', fdo_UseOption = None\<rparr>"

definition fixed_cr :: FixedAddressCR where
  "fixed_cr =
     \<lparr>mo_name = ''f'', mo_namespace = [], mo_uid = ''u-1'',
      mo_annotations = fmupd AnnotationKeyExternalName ''fixedaddress/1'' fmempty, mo_conditions = fmempty,
      fx_ForProvider = \<lparr>fxp_IPv4Addr = Some ''10.0.0.9'', fxp_IPv6Addr = None, fxp_MAC = None, fxp_NetworkView = None,
        fxp_Network = None, fxp_Name = None, fxp_MatchClient = None, fxp_Comment = None, fxp_ExtAttrs = fmempty,
        fxp_Disable = None, fxp_AgentCircuitID = None, fxp_AgentRemoteID = None, fxp_ClientIdentifierPrependZero = None,
        fxp_DHCPClientIdentifier = None, fxp_Options = namespacedOptionsFromShared [wide_option], fxp_UseOptions = Some True\<rparr>,
      fx_AtProvider = \<lparr>fxs_ID = [], fxs_IPv4Addr = None, fxs_IPv6Addr = None, fxs_MAC = None, fxs_NetworkView = None,
        fxs_Network = None, fxs_Name = None, fxs_MatchClient = None, fxs_Comment = None, fxs_ExtAttrs = fmempty,
        fxs_Disable = None, fxs_AgentCircuitID = None, fxs_AgentRemoteID = None, fxs_ClientIdentifierPrependZero = None,
        fxs_DHCPClientIdentifier = None, fxs_Options = [], fxs_UseOptions = None, fxs_Ref = None, fxs_DUID = None,
        fxs_CloudInfo = None\<rparr>\<rparr>"

definition fixed_obj :: FixedAddressObj where
  "fixed_obj = NewEmptyFixedAddress\<lparr>fxr_Ref := ''fixedaddress/1'', fxr_IPv4Address := ''10.0.0.9'',
     fxr_Ea := Stamp (buildEA fmempty) ''u-1'', fxr_UseOptions := Some True, fxr_Options := toSDKOptions [wide_option]\<rparr>"

definition fixed_env :: fx_env where
  "fixed_env =
     \<lparr>wapi_get = (\<lambda>h t r. Inr fixed_obj), wapi_search = (\<lambda>h t q. Inr []),
      wapi_def_search = (\<lambda>h q. Inr [identityDefinition]), wapi_def_create = (\<lambda>h d. Inr []),
      wapi_mutate = (\<lambda>h m. Inr fixed_obj), wapi_delete = (\<lambda>h r. Inr r), kube_patch = (\<lambda>h j. None),
      retry_on_conflict = (\<lambda>f w. f w), wall_clock = (\<lambda>n. 0)\<rparr>"

lemma fixed_cr_simps [simp]:
  "GetExternalName fixed_cr = ''fixedaddress/1''" "mo_uid fixed_cr = ''u-1''" "mo_name fixed_cr = ''f''"
  "ff_Options (fixed_fields fixed_cr) = [wide_option]" "ff_UseOptions (fixed_fields fixed_cr) = Some True"
  by (simp_all add: fixed_cr_def GetExternalName_def fixed_fields_def namespacedToFields_def)

lemma fixed_obj_holds: "fixed_holds (fixed_create_request fixed_cr) fixed_obj"
  by (simp add: fixed_create_request_def fixed_stores_def fixed_args_def fixed_obj_def NewEmptyFixedAddress_def
      fixed_fields_def namespacedToFields_def fixed_cr_def isIPv6_def Let_def)

lemma wide_option_code_never_current_witness:
  "\<exists>obs cr' w'. namespaced_FixedAddress_Observe fixed_env ''grid'' fixed_cr init_world = (Inr obs, cr', w') \<and>
     ResourceExists obs \<and> \<not> ResourceUpToDate obs"
proof -
  have "fixed_resolve fixed_env fixed_cr ''fixedaddress/1'' init_world =
      (Inr (Some fixed_obj, OutcomeResolved), log_call (CGet ''fixedaddress'' ''fixedaddress/1'') init_world)"
    using fixed_types.resolve_read [of fixed_env init_world fixed_cr "''fixedaddress/1''" fixed_obj]
    by (simp add: fixed_env_def fixed_obj_def family_kind_def fixed_family_def fixed_fields_def namespacedToFields_def
        fixed_cr_def isIPv6_def newEmptyFixedAddress_def)
  then have r: "fst (fixed_resolve fixed_env fixed_cr (observeRefFor (mo_name fixed_cr) (GetExternalName fixed_cr)) init_world) =
      Inr (Some fixed_obj, OutcomeResolved)"
    by (simp add: observeRefFor_def)
  have "\<not> code_in_range wide_option" by (simp add: code_in_range_def wide_option_def int64OrZero_def)
  with wide_option_code_never_current [OF _ _ this disjI1 [OF fixed_obj_holds] r, of "''grid''"] show ?thesis by simp
qed

end
