(* ===== verification/DNSView.thy ===== *)
theory DNSView
  imports ZoneAuth NSRecord
begin

text \<open>
  internal/controller/dnsview: the DNSView controller, a client of the identity ladder that builds the WAPI
  object view itself. Both scopes convert their spec into the package's dnsViewFields; the drift check and
  the late initialisation are lists with one function for each field. The three views that every Grid has
  are never deleted. The SDK's name server and cloud API structs are those of theories ZoneAuth and
  NSRecord. Slices of strings that reach reflect.DeepEqual inside a struct are optional lists, None being nil; the
  lists of expressions are plain ones, because an empty one that is not nil comes from nil elements only.
\<close>

section \<open>Data\<close>

text \<open>ibclient's structs, as the package uses them.\<close>

record UnixTime =
  ut_Unix :: "64 word"

record Dnssectrustedkey =
  dtk_Fqdn :: string
  dtk_Algorithm :: string
  dtk_Key :: string
  dtk_SecureEntryPoint :: bool
  dtk_DnssecMustBeSecure :: bool

record Addressac =
  aac_Address :: string
  aac_Permission :: string
  aac_TsigKey :: string
  aac_TsigKeyAlg :: string
  aac_TsigKeyName :: string
  aac_UseTsigKeyName :: bool

record GridDnsFixedrrsetorderfqdn =
  gfo_Fqdn :: string
  gfo_RecordType :: string

record Expressionop =
  exo_Op :: string
  exo_Op1 :: string
  exo_Op1Type :: string
  exo_Op2 :: string
  exo_Op2Type :: string

record Eaexpressionop =
  eeo_Op :: string
  eeo_Op1 :: string
  eeo_Op1Type :: string
  eeo_Op2 :: string
  eeo_Op2Type :: string

record GridResponseratelimiting =
  grl_EnableRrl :: bool
  grl_LogOnly :: bool
  grl_ResponsesPerSecond :: "32 word"
  grl_Window :: "32 word"
  grl_Slip :: "32 word"

record Sortlist =
  slt_Address :: string
  slt_MatchList :: "string list option"

record SettingSchedule =
  ssc_Weekdays :: "string list option"
  ssc_TimeZone :: string
  ssc_RecurringTime :: "UnixTime option"
  ssc_Frequency :: string
  ssc_Every :: "32 word"
  ssc_MinutesPastHour :: "32 word"
  ssc_HourOfDay :: "32 word"
  ssc_Year :: "32 word"
  ssc_Month :: "32 word"
  ssc_DayOfMonth :: "32 word"
  ssc_Repeat :: string
  ssc_Disable :: bool

record SettingScavenging =
  ssv_EnableScavenging :: bool
  ssv_EnableRecurrentScavenging :: bool
  ssv_EnableAutoReclamation :: bool
  ssv_EnableRrLastQueried :: bool
  ssv_EnableZoneLastQueried :: bool
  ssv_ReclaimAssociatedRecords :: bool
  ssv_ScavengingSchedule :: "SettingSchedule option"
  ssv_ExpressionList :: "Expressionop option list"
  ssv_EaExpressionList :: "Eaexpressionop option list"

text \<open>ibclient.View, as the provider requests it.\<close>

record ViewObj =
  vwr_Ref :: string
  vwr_Name :: "string option"
  vwr_Comment :: "string option"
  vwr_NetworkView :: "string option"
  vwr_Disable :: "bool option"
  vwr_BlacklistAction :: string
  vwr_BlacklistLogQuery :: "bool option"
  vwr_BlacklistRedirectAddresses :: "string list"
  vwr_BlacklistRedirectTtl :: "32 word option"
  vwr_BlacklistRulesets :: "string list"
  vwr_UseBlacklist :: "bool option"
  vwr_EnableBlacklist :: "bool option"
  vwr_RootNameServerType :: string
  vwr_UseRootNameServer :: "bool option"
  vwr_DdnsForceCreationTimestampUpdate :: "bool option"
  vwr_UseDdnsForceCreationTimestampUpdate :: "bool option"
  vwr_DdnsPrincipalGroup :: "string option"
  vwr_DdnsPrincipalTracking :: "bool option"
  vwr_UseDdnsPrincipalSecurity :: "bool option"
  vwr_DdnsRestrictPatterns :: "bool option"
  vwr_DdnsRestrictPatternsList :: "string list"
  vwr_UseDdnsPatternsRestriction :: "bool option"
  vwr_DdnsRestrictProtected :: "bool option"
  vwr_UseDdnsRestrictProtected :: "bool option"
  vwr_DdnsRestrictSecure :: "bool option"
  vwr_DdnsRestrictStatic :: "bool option"
  vwr_UseDdnsRestrictStatic :: "bool option"
  vwr_Dns64Enabled :: "bool option"
  vwr_Dns64Groups :: "string list"
  vwr_UseDns64 :: "bool option"
  vwr_DnssecEnabled :: "bool option"
  vwr_DnssecExpiredSignaturesEnabled :: "bool option"
  vwr_DnssecNegativeTrustAnchors :: "string list"
  vwr_DnssecValidationEnabled :: "bool option"
  vwr_UseDnssec :: "bool option"
  vwr_EnableFixedRrsetOrderFqdns :: "bool option"
  vwr_UseFixedRrsetOrderFqdns :: "bool option"
  vwr_EnableMatchRecursiveOnly :: "bool option"
  vwr_FilterAaaa :: string
  vwr_UseFilterAaaa :: "bool option"
  vwr_ForwardOnly :: "bool option"
  vwr_Forwarders :: "string list"
  vwr_UseForwarders :: "bool option"
  vwr_LameTtl :: "32 word option"
  vwr_UseLameTtl :: "bool option"
  vwr_MaxCacheTtl :: "32 word option"
  vwr_UseMaxCacheTtl :: "bool option"
  vwr_MaxNcacheTtl :: "32 word option"
  vwr_UseMaxNcacheTtl :: "bool option"
  vwr_NotifyDelay :: "32 word option"
  vwr_NxdomainLogQuery :: "bool option"
  vwr_NxdomainRedirect :: "bool option"
  vwr_NxdomainRedirectAddresses :: "string list"
  vwr_NxdomainRedirectAddressesV6 :: "string list"
  vwr_NxdomainRedirectTtl :: "32 word option"
  vwr_NxdomainRulesets :: "string list"
  vwr_UseNxdomainRedirect :: "bool option"
  vwr_Recursion :: "bool option"
  vwr_UseRecursion :: "bool option"
  vwr_UseResponseRateLimiting :: "bool option"
  vwr_RpzDropIpRuleEnabled :: "bool option"
  vwr_RpzDropIpRuleMinPrefixLengthIpv4 :: "32 word option"
  vwr_RpzDropIpRuleMinPrefixLengthIpv6 :: "32 word option"
  vwr_UseRpzDropIpRule :: "bool option"
  vwr_RpzQnameWaitRecurse :: "bool option"
  vwr_UseRpzQnameWaitRecurse :: "bool option"
  vwr_UseScavengingSettings :: "bool option"
  vwr_UseSortlist :: "bool option"
  vwr_Ea :: ea
  vwr_CustomRootNameServers :: "ZoneAuth.ZoneNameServer list"
  vwr_DnssecTrustedKeys :: "Dnssectrustedkey option list"
  vwr_FixedRrsetOrderFqdns :: "GridDnsFixedrrsetorderfqdn option list"
  vwr_FilterAaaaList :: "Addressac option list"
  vwr_MatchClients :: "Addressac option list"
  vwr_MatchDestinations :: "Addressac option list"
  vwr_Sortlist :: "Sortlist option list"
  vwr_ResponseRateLimiting :: "GridResponseratelimiting option"
  vwr_ScavengingSettings :: "SettingScavenging option"
  vwr_IsDefault :: bool
  vwr_CloudInfo :: "GridCloudapiInfo option"

text \<open>The package's own values.\<close>

record nameServerValue =
  nsv_Address :: "string option"
  nsv_Name :: "string option"
  nsv_SharedWithMsParentDelegation :: "bool option"
  nsv_Stealth :: "bool option"
  nsv_TsigKey :: "string option"
  nsv_TsigKeyAlg :: "string option"
  nsv_TsigKeyName :: "string option"
  nsv_UseTsigKeyName :: "bool option"

record dnssecTrustedKeyValue =
  dkv_Fqdn :: "string option"
  dkv_Algorithm :: "string option"
  dkv_Key :: "string option"
  dkv_SecureEntryPoint :: "bool option"
  dkv_DnssecMustBeSecure :: "bool option"

record addressAcValue =
  aav_Address :: "string option"
  aav_Permission :: "string option"
  aav_TsigKey :: "string option"
  aav_TsigKeyAlg :: "string option"
  aav_TsigKeyName :: "string option"
  aav_UseTsigKeyName :: "bool option"

record fixedRrsetOrderFqdnValue =
  fov_Fqdn :: "string option"
  fov_RecordType :: "string option"

record expressionOpValue =
  eov_Op :: "string option"
  eov_Op1 :: "string option"
  eov_Op1Type :: "string option"
  eov_Op2 :: "string option"
  eov_Op2Type :: "string option"

record eaExpressionOpValue =
  eev_Op :: "string option"
  eev_Op1 :: "string option"
  eev_Op1Type :: "string option"
  eev_Op2 :: "string option"
  eev_Op2Type :: "string option"

record responseRateLimitingValue =
  rlv_EnableRrl :: "bool option"
  rlv_LogOnly :: "bool option"
  rlv_ResponsesPerSecond :: "32 word option"
  rlv_Window :: "32 word option"
  rlv_Slip :: "32 word option"

record sortlistEntryValue =
  sev_Address :: "string option"
  sev_MatchList :: "string list option"

record scavengingScheduleValue =
  scv_Weekdays :: "string list option"
  scv_TimeZone :: "string option"
  scv_RecurringTime :: "64 word option"
  scv_Frequency :: "string option"
  scv_Every :: "32 word option"
  scv_MinutesPastHour :: "32 word option"
  scv_HourOfDay :: "32 word option"
  scv_Year :: "32 word option"
  scv_Month :: "32 word option"
  scv_DayOfMonth :: "32 word option"
  scv_Repeat :: "string option"
  scv_Disable :: "bool option"

record scavengingSettingsValue =
  sgv_EnableScavenging :: "bool option"
  sgv_EnableRecurrentScavenging :: "bool option"
  sgv_EnableAutoReclamation :: "bool option"
  sgv_EnableRrLastQueried :: "bool option"
  sgv_EnableZoneLastQueried :: "bool option"
  sgv_ReclaimAssociatedRecords :: "bool option"
  sgv_ScavengingSchedule :: "scavengingScheduleValue option"
  sgv_ExpressionList :: "expressionOpValue list"
  sgv_EaExpressionList :: "eaExpressionOpValue list"

record cloudInfoDelegatedMemberValue =
  cmv_Ipv4Addr :: "string option"
  cmv_Ipv6Addr :: "string option"
  cmv_Name :: "string option"

record cloudInfoValue =
  civ_DelegatedMember :: "cloudInfoDelegatedMemberValue option"
  civ_DelegatedScope :: "string option"
  civ_DelegatedRoot :: "string option"
  civ_OwnedByAdaptor :: "bool option"
  civ_Usage :: "string option"
  civ_Tenant :: "string option"
  civ_MgmtPlatform :: "string option"
  civ_AuthorityType :: "string option"

record dnsViewFields =
  dvf_Name :: "string option"
  dvf_Comment :: "string option"
  dvf_NetworkView :: "string option"
  dvf_Disable :: "bool option"
  dvf_BlacklistAction :: "string option"
  dvf_BlacklistLogQuery :: "bool option"
  dvf_BlacklistRedirectAddresses :: "string list"
  dvf_BlacklistRedirectTTL :: "32 word option"
  dvf_BlacklistRulesets :: "string list"
  dvf_UseBlacklist :: "bool option"
  dvf_EnableBlacklist :: "bool option"
  dvf_RootNameServerType :: "string option"
  dvf_UseRootNameServer :: "bool option"
  dvf_DdnsForceCreationTimestampUpdate :: "bool option"
  dvf_UseDdnsForceCreationTimestampUpdate :: "bool option"
  dvf_DdnsPrincipalGroup :: "string option"
  dvf_DdnsPrincipalTracking :: "bool option"
  dvf_UseDdnsPrincipalSecurity :: "bool option"
  dvf_DdnsRestrictPatterns :: "bool option"
  dvf_DdnsRestrictPatternsList :: "string list"
  dvf_UseDdnsPatternsRestriction :: "bool option"
  dvf_DdnsRestrictProtected :: "bool option"
  dvf_UseDdnsRestrictProtected :: "bool option"
  dvf_DdnsRestrictSecure :: "bool option"
  dvf_DdnsRestrictStatic :: "bool option"
  dvf_UseDdnsRestrictStatic :: "bool option"
  dvf_Dns64Enabled :: "bool option"
  dvf_Dns64Groups :: "string list"
  dvf_UseDns64 :: "bool option"
  dvf_DnssecEnabled :: "bool option"
  dvf_DnssecExpiredSignaturesEnabled :: "bool option"
  dvf_DnssecNegativeTrustAnchors :: "string list"
  dvf_DnssecValidationEnabled :: "bool option"
  dvf_UseDnssec :: "bool option"
  dvf_EnableFixedRrsetOrderFqdns :: "bool option"
  dvf_UseFixedRrsetOrderFqdns :: "bool option"
  dvf_EnableMatchRecursiveOnly :: "bool option"
  dvf_FilterAaaa :: "string option"
  dvf_UseFilterAaaa :: "bool option"
  dvf_ForwardOnly :: "bool option"
  dvf_Forwarders :: "string list"
  dvf_UseForwarders :: "bool option"
  dvf_LameTTL :: "32 word option"
  dvf_UseLameTTL :: "bool option"
  dvf_MaxCacheTTL :: "32 word option"
  dvf_UseMaxCacheTTL :: "bool option"
  dvf_MaxNcacheTTL :: "32 word option"
  dvf_UseMaxNcacheTTL :: "bool option"
  dvf_NotifyDelay :: "32 word option"
  dvf_NxdomainLogQuery :: "bool option"
  dvf_NxdomainRedirect :: "bool option"
  dvf_NxdomainRedirectAddresses :: "string list"
  dvf_NxdomainRedirectAddressesV6 :: "string list"
  dvf_NxdomainRedirectTTL :: "32 word option"
  dvf_NxdomainRulesets :: "string list"
  dvf_UseNxdomainRedirect :: "bool option"
  dvf_Recursion :: "bool option"
  dvf_UseRecursion :: "bool option"
  dvf_UseResponseRateLimiting :: "bool option"
  dvf_RpzDropIPRuleEnabled :: "bool option"
  dvf_RpzDropIPRuleMinPrefixLengthIPv4 :: "32 word option"
  dvf_RpzDropIPRuleMinPrefixLengthIPv6 :: "32 word option"
  dvf_UseRpzDropIPRule :: "bool option"
  dvf_RpzQnameWaitRecurse :: "bool option"
  dvf_UseRpzQnameWaitRecurse :: "bool option"
  dvf_UseScavengingSettings :: "bool option"
  dvf_UseSortlist :: "bool option"
  dvf_ExtAttrs :: extattrs
  dvf_CustomRootNameServers :: "nameServerValue list"
  dvf_DnssecTrustedKeys :: "dnssecTrustedKeyValue list"
  dvf_FixedRrsetOrderFqdns :: "fixedRrsetOrderFqdnValue list"
  dvf_FilterAaaaList :: "addressAcValue list"
  dvf_MatchClients :: "addressAcValue list"
  dvf_MatchDestinations :: "addressAcValue list"
  dvf_ResponseRateLimiting :: "responseRateLimitingValue option"
  dvf_ScavengingSettings :: "scavengingSettingsValue option"
  dvf_Sortlist :: "sortlistEntryValue list"

text \<open>The CRD's types.\<close>

record DNSViewNameServer =
  dvn_Address :: "string option"
  dvn_Name :: "string option"
  dvn_SharedWithMsParentDelegation :: "bool option"
  dvn_Stealth :: "bool option"
  dvn_TsigKey :: "string option"
  dvn_TsigKeyAlg :: "string option"
  dvn_TsigKeyName :: "string option"
  dvn_UseTsigKeyName :: "bool option"

record DNSViewDnssecTrustedKey =
  dvk_Fqdn :: "string option"
  dvk_Algorithm :: "string option"
  dvk_Key :: "string option"
  dvk_SecureEntryPoint :: "bool option"
  dvk_DnssecMustBeSecure :: "bool option"

record DNSViewAddressAc =
  dva_Address :: "string option"
  dva_Permission :: "string option"
  dva_TsigKey :: "string option"
  dva_TsigKeyAlg :: "string option"
  dva_TsigKeyName :: "string option"
  dva_UseTsigKeyName :: "bool option"

record DNSViewFixedRrsetOrderFqdn =
  dvo_Fqdn :: "string option"
  dvo_RecordType :: "string option"

record DNSViewExpressionOp =
  dve_Op :: "string option"
  dve_Op1 :: "string option"
  dve_Op1Type :: "string option"
  dve_Op2 :: "string option"
  dve_Op2Type :: "string option"

record DNSViewEaExpressionOp =
  dvx_Op :: "string option"
  dvx_Op1 :: "string option"
  dvx_Op1Type :: "string option"
  dvx_Op2 :: "string option"
  dvx_Op2Type :: "string option"

record DNSViewResponseRateLimiting =
  dvr_EnableRrl :: "bool option"
  dvr_LogOnly :: "bool option"
  dvr_ResponsesPerSecond :: "32 word option"
  dvr_Window :: "32 word option"
  dvr_Slip :: "32 word option"

record DNSViewSortlistEntry =
  dvs_Address :: "string option"
  dvs_MatchList :: "string list option"

record DNSViewScavengingSchedule =
  dvc_Weekdays :: "string list option"
  dvc_TimeZone :: "string option"
  dvc_RecurringTime :: "64 word option"
  dvc_Frequency :: "string option"
  dvc_Every :: "32 word option"
  dvc_MinutesPastHour :: "32 word option"
  dvc_HourOfDay :: "32 word option"
  dvc_Year :: "32 word option"
  dvc_Month :: "32 word option"
  dvc_DayOfMonth :: "32 word option"
  dvc_Repeat :: "string option"
  dvc_Disable :: "bool option"

record DNSViewScavengingSettings =
  dvg_EnableScavenging :: "bool option"
  dvg_EnableRecurrentScavenging :: "bool option"
  dvg_EnableAutoReclamation :: "bool option"
  dvg_EnableRrLastQueried :: "bool option"
  dvg_EnableZoneLastQueried :: "bool option"
  dvg_ReclaimAssociatedRecords :: "bool option"
  dvg_ScavengingSchedule :: "DNSViewScavengingSchedule option"
  dvg_ExpressionList :: "DNSViewExpressionOp option list"
  dvg_EaExpressionList :: "DNSViewEaExpressionOp option list"

record DNSViewCloudInfoDelegatedMember =
  dvm_Ipv4Addr :: "string option"
  dvm_Ipv6Addr :: "string option"
  dvm_Name :: "string option"

record DNSViewCloudInfo =
  dvi_DelegatedMember :: "DNSViewCloudInfoDelegatedMember option"
  dvi_DelegatedScope :: "string option"
  dvi_DelegatedRoot :: "string option"
  dvi_OwnedByAdaptor :: "bool option"
  dvi_Usage :: "string option"
  dvi_Tenant :: "string option"
  dvi_MgmtPlatform :: "string option"
  dvi_AuthorityType :: "string option"

record DNSViewParameters =
  dvp_Name :: "string option"
  dvp_Comment :: "string option"
  dvp_NetworkView :: "string option"
  dvp_Disable :: "bool option"
  dvp_BlacklistAction :: "string option"
  dvp_BlacklistLogQuery :: "bool option"
  dvp_BlacklistRedirectAddresses :: "string list"
  dvp_BlacklistRedirectTTL :: "32 word option"
  dvp_BlacklistRulesets :: "string list"
  dvp_UseBlacklist :: "bool option"
  dvp_EnableBlacklist :: "bool option"
  dvp_CustomRootNameServers :: "DNSViewNameServer list"
  dvp_RootNameServerType :: "string option"
  dvp_UseRootNameServer :: "bool option"
  dvp_DdnsForceCreationTimestampUpdate :: "bool option"
  dvp_UseDdnsForceCreationTimestampUpdate :: "bool option"
  dvp_DdnsPrincipalGroup :: "string option"
  dvp_DdnsPrincipalTracking :: "bool option"
  dvp_UseDdnsPrincipalSecurity :: "bool option"
  dvp_DdnsRestrictPatterns :: "bool option"
  dvp_DdnsRestrictPatternsList :: "string list"
  dvp_UseDdnsPatternsRestriction :: "bool option"
  dvp_DdnsRestrictProtected :: "bool option"
  dvp_UseDdnsRestrictProtected :: "bool option"
  dvp_DdnsRestrictSecure :: "bool option"
  dvp_DdnsRestrictStatic :: "bool option"
  dvp_UseDdnsRestrictStatic :: "bool option"
  dvp_Dns64Enabled :: "bool option"
  dvp_Dns64Groups :: "string list"
  dvp_UseDns64 :: "bool option"
  dvp_DnssecEnabled :: "bool option"
  dvp_DnssecExpiredSignaturesEnabled :: "bool option"
  dvp_DnssecNegativeTrustAnchors :: "string list"
  dvp_DnssecTrustedKeys :: "DNSViewDnssecTrustedKey option list"
  dvp_DnssecValidationEnabled :: "bool option"
  dvp_UseDnssec :: "bool option"
  dvp_EnableFixedRrsetOrderFqdns :: "bool option"
  dvp_FixedRrsetOrderFqdns :: "DNSViewFixedRrsetOrderFqdn option list"
  dvp_UseFixedRrsetOrderFqdns :: "bool option"
  dvp_EnableMatchRecursiveOnly :: "bool option"
  dvp_ExtAttrs :: extattrs
  dvp_FilterAaaa :: "string option"
  dvp_FilterAaaaList :: "DNSViewAddressAc option list"
  dvp_UseFilterAaaa :: "bool option"
  dvp_ForwardOnly :: "bool option"
  dvp_Forwarders :: "string list"
  dvp_UseForwarders :: "bool option"
  dvp_LameTTL :: "32 word option"
  dvp_UseLameTTL :: "bool option"
  dvp_MatchClients :: "DNSViewAddressAc option list"
  dvp_MatchDestinations :: "DNSViewAddressAc option list"
  dvp_MaxCacheTTL :: "32 word option"
  dvp_UseMaxCacheTTL :: "bool option"
  dvp_MaxNcacheTTL :: "32 word option"
  dvp_UseMaxNcacheTTL :: "bool option"
  dvp_NotifyDelay :: "32 word option"
  dvp_NxdomainLogQuery :: "bool option"
  dvp_NxdomainRedirect :: "bool option"
  dvp_NxdomainRedirectAddresses :: "string list"
  dvp_NxdomainRedirectAddressesV6 :: "string list"
  dvp_NxdomainRedirectTTL :: "32 word option"
  dvp_NxdomainRulesets :: "string list"
  dvp_UseNxdomainRedirect :: "bool option"
  dvp_Recursion :: "bool option"
  dvp_UseRecursion :: "bool option"
  dvp_ResponseRateLimiting :: "DNSViewResponseRateLimiting option"
  dvp_UseResponseRateLimiting :: "bool option"
  dvp_RpzDropIPRuleEnabled :: "bool option"
  dvp_RpzDropIPRuleMinPrefixLengthIPv4 :: "32 word option"
  dvp_RpzDropIPRuleMinPrefixLengthIPv6 :: "32 word option"
  dvp_UseRpzDropIPRule :: "bool option"
  dvp_RpzQnameWaitRecurse :: "bool option"
  dvp_UseRpzQnameWaitRecurse :: "bool option"
  dvp_ScavengingSettings :: "DNSViewScavengingSettings option"
  dvp_UseScavengingSettings :: "bool option"
  dvp_Sortlist :: "DNSViewSortlistEntry option list"
  dvp_UseSortlist :: "bool option"

record DNSViewObservation =
  dvb_ID :: string
  dvb_Name :: "string option"
  dvb_Comment :: "string option"
  dvb_NetworkView :: "string option"
  dvb_Disable :: "bool option"
  dvb_BlacklistAction :: "string option"
  dvb_BlacklistLogQuery :: "bool option"
  dvb_BlacklistRedirectAddresses :: "string list"
  dvb_BlacklistRedirectTTL :: "32 word option"
  dvb_BlacklistRulesets :: "string list"
  dvb_UseBlacklist :: "bool option"
  dvb_EnableBlacklist :: "bool option"
  dvb_CustomRootNameServers :: "DNSViewNameServer list"
  dvb_RootNameServerType :: "string option"
  dvb_UseRootNameServer :: "bool option"
  dvb_DdnsForceCreationTimestampUpdate :: "bool option"
  dvb_UseDdnsForceCreationTimestampUpdate :: "bool option"
  dvb_DdnsPrincipalGroup :: "string option"
  dvb_DdnsPrincipalTracking :: "bool option"
  dvb_UseDdnsPrincipalSecurity :: "bool option"
  dvb_DdnsRestrictPatterns :: "bool option"
  dvb_DdnsRestrictPatternsList :: "string list"
  dvb_UseDdnsPatternsRestriction :: "bool option"
  dvb_DdnsRestrictProtected :: "bool option"
  dvb_UseDdnsRestrictProtected :: "bool option"
  dvb_DdnsRestrictSecure :: "bool option"
  dvb_DdnsRestrictStatic :: "bool option"
  dvb_UseDdnsRestrictStatic :: "bool option"
  dvb_Dns64Enabled :: "bool option"
  dvb_Dns64Groups :: "string list"
  dvb_UseDns64 :: "bool option"
  dvb_DnssecEnabled :: "bool option"
  dvb_DnssecExpiredSignaturesEnabled :: "bool option"
  dvb_DnssecNegativeTrustAnchors :: "string list"
  dvb_DnssecTrustedKeys :: "DNSViewDnssecTrustedKey option list"
  dvb_DnssecValidationEnabled :: "bool option"
  dvb_UseDnssec :: "bool option"
  dvb_EnableFixedRrsetOrderFqdns :: "bool option"
  dvb_FixedRrsetOrderFqdns :: "DNSViewFixedRrsetOrderFqdn option list"
  dvb_UseFixedRrsetOrderFqdns :: "bool option"
  dvb_EnableMatchRecursiveOnly :: "bool option"
  dvb_ExtAttrs :: extattrs
  dvb_FilterAaaa :: "string option"
  dvb_FilterAaaaList :: "DNSViewAddressAc option list"
  dvb_UseFilterAaaa :: "bool option"
  dvb_ForwardOnly :: "bool option"
  dvb_Forwarders :: "string list"
  dvb_UseForwarders :: "bool option"
  dvb_LameTTL :: "32 word option"
  dvb_UseLameTTL :: "bool option"
  dvb_MatchClients :: "DNSViewAddressAc option list"
  dvb_MatchDestinations :: "DNSViewAddressAc option list"
  dvb_MaxCacheTTL :: "32 word option"
  dvb_UseMaxCacheTTL :: "bool option"
  dvb_MaxNcacheTTL :: "32 word option"
  dvb_UseMaxNcacheTTL :: "bool option"
  dvb_NotifyDelay :: "32 word option"
  dvb_NxdomainLogQuery :: "bool option"
  dvb_NxdomainRedirect :: "bool option"
  dvb_NxdomainRedirectAddresses :: "string list"
  dvb_NxdomainRedirectAddressesV6 :: "string list"
  dvb_NxdomainRedirectTTL :: "32 word option"
  dvb_NxdomainRulesets :: "string list"
  dvb_UseNxdomainRedirect :: "bool option"
  dvb_Recursion :: "bool option"
  dvb_UseRecursion :: "bool option"
  dvb_ResponseRateLimiting :: "DNSViewResponseRateLimiting option"
  dvb_UseResponseRateLimiting :: "bool option"
  dvb_RpzDropIPRuleEnabled :: "bool option"
  dvb_RpzDropIPRuleMinPrefixLengthIPv4 :: "32 word option"
  dvb_RpzDropIPRuleMinPrefixLengthIPv6 :: "32 word option"
  dvb_UseRpzDropIPRule :: "bool option"
  dvb_RpzQnameWaitRecurse :: "bool option"
  dvb_UseRpzQnameWaitRecurse :: "bool option"
  dvb_ScavengingSettings :: "DNSViewScavengingSettings option"
  dvb_UseScavengingSettings :: "bool option"
  dvb_Sortlist :: "DNSViewSortlistEntry option list"
  dvb_UseSortlist :: "bool option"
  dvb_Ref :: "string option"
  dvb_IsDefault :: "bool option"
  dvb_CloudInfo :: "DNSViewCloudInfo option"

record DNSViewCR = mobj +
  dv_ForProvider :: DNSViewParameters
  dv_AtProvider :: DNSViewObservation

section \<open>Names\<close>

definition errObserveDNSView :: string where "errObserveDNSView = ''cannot observe DNSView''"
definition errCreateDNSView :: string where "errCreateDNSView = ''cannot create DNSView''"
definition errUpdateDNSView :: string where "errUpdateDNSView = ''cannot update DNSView''"
definition errDeleteDNSView :: string where "errDeleteDNSView = ''cannot delete DNSView''"
definition DNSView_errEmptyUID :: string where
  "DNSView_errEmptyUID = ''cannot stamp DNSView identity: managed resource's metadata.uid is empty''"

definition defaultDNSViewName :: string where "defaultDNSViewName = ''default''"

definition wellKnownDNSViewNames :: "string \<Rightarrow> bool" where
  "wellKnownDNSViewNames n = (n \<in> {defaultDNSViewName, ''External'', ''Internal''})"

definition isWellKnownDNSViewName :: "string option \<Rightarrow> bool" where
  "isWellKnownDNSViewName name = (case name of None \<Rightarrow> False | Some n \<Rightarrow> wellKnownDNSViewNames n)"

section \<open>Comparisons and late initialisation of one field\<close>

text \<open>
  gatedUint32Equal, effectiveUseFlag, lateInitPtr, gatedLateInitPtr, lateInitStringPtr and strPtrOrNil have the bodies
  of theory ZoneAuth. A late-initialising function gets a pointer to a field; here it returns the
  field's value with its verdict.
\<close>

definition boolPtrOrNil :: "bool \<Rightarrow> bool option" where
  "boolPtrOrNil b = (if \<not> b then None else Some b)"

definition uint32PtrOrNil :: "32 word \<Rightarrow> 32 word option" where
  "uint32PtrOrNil v = (if v = 0 then None else Some v)"

definition unixTimePtrToInt64Ptr :: "UnixTime option \<Rightarrow> 64 word option" where
  "unixTimePtrToInt64Ptr t = (case t of None \<Rightarrow> None | Some u \<Rightarrow> Some (ut_Unix u))"

definition int64PtrToUnixTimePtr :: "64 word option \<Rightarrow> UnixTime option" where
  "int64PtrToUnixTimePtr i = (case i of None \<Rightarrow> None | Some n \<Rightarrow> Some \<lparr>ut_Unix = n\<rparr>)"

fun stringsLoop :: "string list \<Rightarrow> string list \<Rightarrow> bool" where
  "stringsLoop (x # a) (y # b) = (if x \<noteq> y then False else stringsLoop a b)"
| "stringsLoop _ _ = True"

definition stringSliceEqual :: "string list \<Rightarrow> string list \<Rightarrow> bool" where
  "stringSliceEqual a b = (if length a \<noteq> length b then False else stringsLoop a b)"

text \<open>reflect.DeepEqual follows pointers: equality of the values. (Inside an item it also tells a nil slice from an
  empty one, which are one list here.)\<close>

definition nestedSliceEqual :: "'a list \<Rightarrow> 'a list \<Rightarrow> bool" where
  "nestedSliceEqual a b = (if a = [] \<and> b = [] then True else if length a \<noteq> length b then False else a = b)"

definition gatedBoolEqual :: "bool option \<Rightarrow> bool option \<Rightarrow> bool option \<Rightarrow> bool" where
  "gatedBoolEqual useFlag desired observed =
     (if \<not> boolOrFalse useFlag then True else boolOrFalse desired = boolOrFalse observed)"

definition gatedStringEqual :: "bool option \<Rightarrow> string option \<Rightarrow> string option \<Rightarrow> bool" where
  "gatedStringEqual useFlag desired observed =
     (if \<not> boolOrFalse useFlag then True else strOrEmpty desired = strOrEmpty observed)"

definition gatedStringSliceEqual :: "bool option \<Rightarrow> string list \<Rightarrow> string list \<Rightarrow> bool" where
  "gatedStringSliceEqual useFlag desired observed =
     (if \<not> boolOrFalse useFlag then True else stringSliceEqual desired observed)"

definition gatedNestedSliceEqual ::
  "bool option \<Rightarrow> 'a list \<Rightarrow> 'a list \<Rightarrow> ('a list \<Rightarrow> 'a list \<Rightarrow> bool) \<Rightarrow> bool" where
  "gatedNestedSliceEqual useFlag desired observed eq = (if \<not> boolOrFalse useFlag then True else eq desired observed)"

definition gatedPtrDeepEqual :: "bool option \<Rightarrow> 'a option \<Rightarrow> 'a option \<Rightarrow> bool" where
  "gatedPtrDeepEqual useFlag desired observed = (if \<not> boolOrFalse useFlag then True else desired = observed)"

definition lateInitStringSlice :: "string list \<Rightarrow> string list \<Rightarrow> string list \<times> bool" where
  "lateInitStringSlice desired observed = (if desired = [] \<and> observed \<noteq> [] then (observed, True) else (desired, False))"

definition lateInitNestedSlice :: "'a list \<Rightarrow> 'a list \<Rightarrow> 'a list \<times> bool" where
  "lateInitNestedSlice desired observed = (if desired = [] \<and> observed \<noteq> [] then (observed, True) else (desired, False))"

definition lateInitMap :: "extattrs \<Rightarrow> extattrs \<Rightarrow> extattrs \<times> bool" where
  "lateInitMap desired observed =
     (if desired = fmempty \<and> observed \<noteq> fmempty then (observed, True) else (desired, False))"

definition gatedLateInitStringPtr ::
  "bool option \<Rightarrow> bool option \<Rightarrow> string option \<Rightarrow> string option \<Rightarrow> string option \<times> bool" where
  "gatedLateInitStringPtr useFlagDesired useFlagObserved desired observed =
     (if \<not> effectiveUseFlag useFlagDesired useFlagObserved then (desired, False) else lateInitStringPtr desired observed)"

definition gatedLateInitStringSlice ::
  "bool option \<Rightarrow> bool option \<Rightarrow> string list \<Rightarrow> string list \<Rightarrow> string list \<times> bool" where
  "gatedLateInitStringSlice useFlagDesired useFlagObserved desired observed =
     (if \<not> effectiveUseFlag useFlagDesired useFlagObserved then (desired, False) else lateInitStringSlice desired observed)"

definition gatedLateInitNestedSlice :: "bool option \<Rightarrow> bool option \<Rightarrow> 'a list \<Rightarrow> 'a list \<Rightarrow> 'a list \<times> bool" where
  "gatedLateInitNestedSlice useFlagDesired useFlagObserved desired observed =
     (if \<not> effectiveUseFlag useFlagDesired useFlagObserved then (desired, False) else lateInitNestedSlice desired observed)"

section \<open>Nested values\<close>

definition nameServerValueFromSDKItem :: "ZoneAuth.ZoneNameServer \<Rightarrow> nameServerValue" where
  "nameServerValueFromSDKItem x =
     \<lparr>nsv_Address = strPtrOrNil (zns_Address x), nsv_Name = strPtrOrNil (zns_Name x),
       nsv_SharedWithMsParentDelegation = boolPtrOrNil (zns_SharedWithMsParentDelegation x),
       nsv_Stealth = boolPtrOrNil (zns_Stealth x), nsv_TsigKey = strPtrOrNil (zns_TsigKey x),
       nsv_TsigKeyAlg = strPtrOrNil (zns_TsigKeyAlg x), nsv_TsigKeyName = strPtrOrNil (zns_TsigKeyName x),
       nsv_UseTsigKeyName = boolPtrOrNil (zns_UseTsigKeyName x)\<rparr>"

definition nameServerValueToSDKItem :: "nameServerValue \<Rightarrow> ZoneAuth.ZoneNameServer" where
  "nameServerValueToSDKItem x =
     \<lparr>zns_Address = strOrEmpty (nsv_Address x), zns_Name = strOrEmpty (nsv_Name x),
       zns_Stealth = boolOrFalse (nsv_Stealth x),
       zns_SharedWithMsParentDelegation = boolOrFalse (nsv_SharedWithMsParentDelegation x),
       zns_TsigKey = strOrEmpty (nsv_TsigKey x), zns_TsigKeyAlg = strOrEmpty (nsv_TsigKeyAlg x),
       zns_TsigKeyName = strOrEmpty (nsv_TsigKeyName x), zns_UseTsigKeyName = boolOrFalse (nsv_UseTsigKeyName x)\<rparr>"

definition nameServerValuesFromSDK :: "ZoneAuth.ZoneNameServer list \<Rightarrow> nameServerValue list" where
  "nameServerValuesFromSDK xs = (if xs = [] then [] else map nameServerValueFromSDKItem xs)"

definition nameServerValuesToSDK :: "nameServerValue list \<Rightarrow> ZoneAuth.ZoneNameServer list" where
  "nameServerValuesToSDK xs = (if xs = [] then [] else map nameServerValueToSDKItem xs)"

definition dnssecTrustedKeyValueFromSDKItem :: "Dnssectrustedkey \<Rightarrow> dnssecTrustedKeyValue" where
  "dnssecTrustedKeyValueFromSDKItem x =
     \<lparr>dkv_Fqdn = strPtrOrNil (dtk_Fqdn x), dkv_Algorithm = strPtrOrNil (dtk_Algorithm x),
       dkv_Key = strPtrOrNil (dtk_Key x), dkv_SecureEntryPoint = boolPtrOrNil (dtk_SecureEntryPoint x),
       dkv_DnssecMustBeSecure = boolPtrOrNil (dtk_DnssecMustBeSecure x)\<rparr>"

definition dnssecTrustedKeyValueToSDKItem :: "dnssecTrustedKeyValue \<Rightarrow> Dnssectrustedkey" where
  "dnssecTrustedKeyValueToSDKItem x =
     \<lparr>dtk_Fqdn = strOrEmpty (dkv_Fqdn x), dtk_Algorithm = strOrEmpty (dkv_Algorithm x),
       dtk_Key = strOrEmpty (dkv_Key x), dtk_SecureEntryPoint = boolOrFalse (dkv_SecureEntryPoint x),
       dtk_DnssecMustBeSecure = boolOrFalse (dkv_DnssecMustBeSecure x)\<rparr>"

definition dnssecTrustedKeyValuesFromSDKPtr :: "Dnssectrustedkey option list \<Rightarrow> dnssecTrustedKeyValue list" where
  "dnssecTrustedKeyValuesFromSDKPtr xs = (if xs = [] then [] else List.map_filter (map_option dnssecTrustedKeyValueFromSDKItem) xs)"

definition dnssecTrustedKeyValuesToSDKPtr :: "dnssecTrustedKeyValue list \<Rightarrow> Dnssectrustedkey option list" where
  "dnssecTrustedKeyValuesToSDKPtr xs = (if xs = [] then [] else map (\<lambda>x. Some (dnssecTrustedKeyValueToSDKItem x)) xs)"

definition addressAcValueFromSDKItem :: "Addressac \<Rightarrow> addressAcValue" where
  "addressAcValueFromSDKItem x =
     \<lparr>aav_Address = strPtrOrNil (aac_Address x), aav_Permission = strPtrOrNil (aac_Permission x),
       aav_TsigKey = strPtrOrNil (aac_TsigKey x), aav_TsigKeyAlg = strPtrOrNil (aac_TsigKeyAlg x),
       aav_TsigKeyName = strPtrOrNil (aac_TsigKeyName x),
       aav_UseTsigKeyName = boolPtrOrNil (aac_UseTsigKeyName x)\<rparr>"

definition addressAcValueToSDKItem :: "addressAcValue \<Rightarrow> Addressac" where
  "addressAcValueToSDKItem x =
     \<lparr>aac_Address = strOrEmpty (aav_Address x), aac_Permission = strOrEmpty (aav_Permission x),
       aac_TsigKey = strOrEmpty (aav_TsigKey x), aac_TsigKeyAlg = strOrEmpty (aav_TsigKeyAlg x),
       aac_TsigKeyName = strOrEmpty (aav_TsigKeyName x), aac_UseTsigKeyName = boolOrFalse (aav_UseTsigKeyName x)\<rparr>"

definition addressAcValuesFromSDKPtr :: "Addressac option list \<Rightarrow> addressAcValue list" where
  "addressAcValuesFromSDKPtr xs = (if xs = [] then [] else List.map_filter (map_option addressAcValueFromSDKItem) xs)"

definition addressAcValuesToSDKPtr :: "addressAcValue list \<Rightarrow> Addressac option list" where
  "addressAcValuesToSDKPtr xs = (if xs = [] then [] else map (\<lambda>x. Some (addressAcValueToSDKItem x)) xs)"

definition fixedRrsetOrderFqdnValueFromSDKItem :: "GridDnsFixedrrsetorderfqdn \<Rightarrow> fixedRrsetOrderFqdnValue" where
  "fixedRrsetOrderFqdnValueFromSDKItem x =
     \<lparr>fov_Fqdn = strPtrOrNil (gfo_Fqdn x), fov_RecordType = strPtrOrNil (gfo_RecordType x)\<rparr>"

definition fixedRrsetOrderFqdnValueToSDKItem :: "fixedRrsetOrderFqdnValue \<Rightarrow> GridDnsFixedrrsetorderfqdn" where
  "fixedRrsetOrderFqdnValueToSDKItem x =
     \<lparr>gfo_Fqdn = strOrEmpty (fov_Fqdn x), gfo_RecordType = strOrEmpty (fov_RecordType x)\<rparr>"

definition fixedRrsetOrderFqdnValuesFromSDKPtr :: "GridDnsFixedrrsetorderfqdn option list \<Rightarrow> fixedRrsetOrderFqdnValue list" where
  "fixedRrsetOrderFqdnValuesFromSDKPtr xs = (if xs = [] then [] else List.map_filter (map_option fixedRrsetOrderFqdnValueFromSDKItem) xs)"

definition fixedRrsetOrderFqdnValuesToSDKPtr :: "fixedRrsetOrderFqdnValue list \<Rightarrow> GridDnsFixedrrsetorderfqdn option list" where
  "fixedRrsetOrderFqdnValuesToSDKPtr xs = (if xs = [] then [] else map (\<lambda>x. Some (fixedRrsetOrderFqdnValueToSDKItem x)) xs)"

definition expressionOpValueFromSDKItem :: "Expressionop \<Rightarrow> expressionOpValue" where
  "expressionOpValueFromSDKItem x =
     \<lparr>eov_Op = strPtrOrNil (exo_Op x), eov_Op1 = strPtrOrNil (exo_Op1 x),
       eov_Op1Type = strPtrOrNil (exo_Op1Type x), eov_Op2 = strPtrOrNil (exo_Op2 x),
       eov_Op2Type = strPtrOrNil (exo_Op2Type x)\<rparr>"

definition expressionOpValueToSDKItem :: "expressionOpValue \<Rightarrow> Expressionop" where
  "expressionOpValueToSDKItem x =
     \<lparr>exo_Op = strOrEmpty (eov_Op x), exo_Op1 = strOrEmpty (eov_Op1 x), exo_Op1Type = strOrEmpty (eov_Op1Type x),
       exo_Op2 = strOrEmpty (eov_Op2 x), exo_Op2Type = strOrEmpty (eov_Op2Type x)\<rparr>"

definition expressionOpValuesFromSDKPtr :: "Expressionop option list \<Rightarrow> expressionOpValue list" where
  "expressionOpValuesFromSDKPtr xs = (if xs = [] then [] else List.map_filter (map_option expressionOpValueFromSDKItem) xs)"

definition expressionOpValuesToSDKPtr :: "expressionOpValue list \<Rightarrow> Expressionop option list" where
  "expressionOpValuesToSDKPtr xs = (if xs = [] then [] else map (\<lambda>x. Some (expressionOpValueToSDKItem x)) xs)"

definition eaExpressionOpValueFromSDKItem :: "Eaexpressionop \<Rightarrow> eaExpressionOpValue" where
  "eaExpressionOpValueFromSDKItem x =
     \<lparr>eev_Op = strPtrOrNil (eeo_Op x), eev_Op1 = strPtrOrNil (eeo_Op1 x),
       eev_Op1Type = strPtrOrNil (eeo_Op1Type x), eev_Op2 = strPtrOrNil (eeo_Op2 x),
       eev_Op2Type = strPtrOrNil (eeo_Op2Type x)\<rparr>"

definition eaExpressionOpValueToSDKItem :: "eaExpressionOpValue \<Rightarrow> Eaexpressionop" where
  "eaExpressionOpValueToSDKItem x =
     \<lparr>eeo_Op = strOrEmpty (eev_Op x), eeo_Op1 = strOrEmpty (eev_Op1 x), eeo_Op1Type = strOrEmpty (eev_Op1Type x),
       eeo_Op2 = strOrEmpty (eev_Op2 x), eeo_Op2Type = strOrEmpty (eev_Op2Type x)\<rparr>"

definition eaExpressionOpValuesFromSDKPtr :: "Eaexpressionop option list \<Rightarrow> eaExpressionOpValue list" where
  "eaExpressionOpValuesFromSDKPtr xs = (if xs = [] then [] else List.map_filter (map_option eaExpressionOpValueFromSDKItem) xs)"

definition eaExpressionOpValuesToSDKPtr :: "eaExpressionOpValue list \<Rightarrow> Eaexpressionop option list" where
  "eaExpressionOpValuesToSDKPtr xs = (if xs = [] then [] else map (\<lambda>x. Some (eaExpressionOpValueToSDKItem x)) xs)"

definition responseRateLimitingValueFromSDK :: "GridResponseratelimiting option \<Rightarrow> responseRateLimitingValue option" where
  "responseRateLimitingValueFromSDK p = (case p of None \<Rightarrow> None | Some x \<Rightarrow> Some
     \<lparr>rlv_EnableRrl = boolPtrOrNil (grl_EnableRrl x), rlv_LogOnly = boolPtrOrNil (grl_LogOnly x),
       rlv_ResponsesPerSecond = uint32PtrOrNil (grl_ResponsesPerSecond x),
       rlv_Window = uint32PtrOrNil (grl_Window x), rlv_Slip = uint32PtrOrNil (grl_Slip x)\<rparr>)"

definition responseRateLimitingValueToSDK :: "responseRateLimitingValue option \<Rightarrow> GridResponseratelimiting option" where
  "responseRateLimitingValueToSDK p = (case p of None \<Rightarrow> None | Some x \<Rightarrow> Some
     \<lparr>grl_EnableRrl = boolOrFalse (rlv_EnableRrl x), grl_LogOnly = boolOrFalse (rlv_LogOnly x),
       grl_ResponsesPerSecond = uint32OrZero (rlv_ResponsesPerSecond x), grl_Window = uint32OrZero (rlv_Window x),
       grl_Slip = uint32OrZero (rlv_Slip x)\<rparr>)"

definition sortlistEntryValueFromSDKItem :: "Sortlist \<Rightarrow> sortlistEntryValue" where
  "sortlistEntryValueFromSDKItem x =
     \<lparr>sev_Address = strPtrOrNil (slt_Address x), sev_MatchList = slt_MatchList x\<rparr>"

definition sortlistEntryValueToSDKItem :: "sortlistEntryValue \<Rightarrow> Sortlist" where
  "sortlistEntryValueToSDKItem x =
     \<lparr>slt_Address = strOrEmpty (sev_Address x), slt_MatchList = sev_MatchList x\<rparr>"

definition sortlistEntryValuesFromSDKPtr :: "Sortlist option list \<Rightarrow> sortlistEntryValue list" where
  "sortlistEntryValuesFromSDKPtr xs = (if xs = [] then [] else List.map_filter (map_option sortlistEntryValueFromSDKItem) xs)"

definition sortlistEntryValuesToSDKPtr :: "sortlistEntryValue list \<Rightarrow> Sortlist option list" where
  "sortlistEntryValuesToSDKPtr xs = (if xs = [] then [] else map (\<lambda>x. Some (sortlistEntryValueToSDKItem x)) xs)"

definition scavengingScheduleValueFromSDK :: "SettingSchedule option \<Rightarrow> scavengingScheduleValue option" where
  "scavengingScheduleValueFromSDK p = (case p of None \<Rightarrow> None | Some x \<Rightarrow> Some
     \<lparr>scv_Weekdays = ssc_Weekdays x, scv_TimeZone = strPtrOrNil (ssc_TimeZone x),
       scv_RecurringTime = unixTimePtrToInt64Ptr (ssc_RecurringTime x),
       scv_Frequency = strPtrOrNil (ssc_Frequency x), scv_Every = uint32PtrOrNil (ssc_Every x),
       scv_MinutesPastHour = uint32PtrOrNil (ssc_MinutesPastHour x),
       scv_HourOfDay = uint32PtrOrNil (ssc_HourOfDay x), scv_Year = uint32PtrOrNil (ssc_Year x),
       scv_Month = uint32PtrOrNil (ssc_Month x), scv_DayOfMonth = uint32PtrOrNil (ssc_DayOfMonth x),
       scv_Repeat = strPtrOrNil (ssc_Repeat x), scv_Disable = boolPtrOrNil (ssc_Disable x)\<rparr>)"

definition scavengingScheduleValueToSDK :: "scavengingScheduleValue option \<Rightarrow> SettingSchedule option" where
  "scavengingScheduleValueToSDK p = (case p of None \<Rightarrow> None | Some x \<Rightarrow> Some
     \<lparr>ssc_Weekdays = scv_Weekdays x, ssc_TimeZone = strOrEmpty (scv_TimeZone x),
       ssc_RecurringTime = int64PtrToUnixTimePtr (scv_RecurringTime x),
       ssc_Frequency = strOrEmpty (scv_Frequency x), ssc_Every = uint32OrZero (scv_Every x),
       ssc_MinutesPastHour = uint32OrZero (scv_MinutesPastHour x), ssc_HourOfDay = uint32OrZero (scv_HourOfDay x),
       ssc_Year = uint32OrZero (scv_Year x), ssc_Month = uint32OrZero (scv_Month x),
       ssc_DayOfMonth = uint32OrZero (scv_DayOfMonth x), ssc_Repeat = strOrEmpty (scv_Repeat x),
       ssc_Disable = boolOrFalse (scv_Disable x)\<rparr>)"

definition scavengingSettingsValueFromSDK :: "SettingScavenging option \<Rightarrow> scavengingSettingsValue option" where
  "scavengingSettingsValueFromSDK p = (case p of None \<Rightarrow> None | Some x \<Rightarrow> Some
     \<lparr>sgv_EnableScavenging = boolPtrOrNil (ssv_EnableScavenging x),
       sgv_EnableRecurrentScavenging = boolPtrOrNil (ssv_EnableRecurrentScavenging x),
       sgv_EnableAutoReclamation = boolPtrOrNil (ssv_EnableAutoReclamation x),
       sgv_EnableRrLastQueried = boolPtrOrNil (ssv_EnableRrLastQueried x),
       sgv_EnableZoneLastQueried = boolPtrOrNil (ssv_EnableZoneLastQueried x),
       sgv_ReclaimAssociatedRecords = boolPtrOrNil (ssv_ReclaimAssociatedRecords x),
       sgv_ScavengingSchedule = scavengingScheduleValueFromSDK (ssv_ScavengingSchedule x),
       sgv_ExpressionList = expressionOpValuesFromSDKPtr (ssv_ExpressionList x),
       sgv_EaExpressionList = eaExpressionOpValuesFromSDKPtr (ssv_EaExpressionList x)\<rparr>)"

definition scavengingSettingsValueToSDK :: "scavengingSettingsValue option \<Rightarrow> SettingScavenging option" where
  "scavengingSettingsValueToSDK p = (case p of None \<Rightarrow> None | Some x \<Rightarrow> Some
     \<lparr>ssv_EnableScavenging = boolOrFalse (sgv_EnableScavenging x),
       ssv_EnableRecurrentScavenging = boolOrFalse (sgv_EnableRecurrentScavenging x),
       ssv_EnableAutoReclamation = boolOrFalse (sgv_EnableAutoReclamation x),
       ssv_EnableRrLastQueried = boolOrFalse (sgv_EnableRrLastQueried x),
       ssv_EnableZoneLastQueried = boolOrFalse (sgv_EnableZoneLastQueried x),
       ssv_ReclaimAssociatedRecords = boolOrFalse (sgv_ReclaimAssociatedRecords x),
       ssv_ScavengingSchedule = scavengingScheduleValueToSDK (sgv_ScavengingSchedule x),
       ssv_ExpressionList = expressionOpValuesToSDKPtr (sgv_ExpressionList x),
       ssv_EaExpressionList = eaExpressionOpValuesToSDKPtr (sgv_EaExpressionList x)\<rparr>)"

definition nameServerValueEqual :: "nameServerValue \<Rightarrow> nameServerValue \<Rightarrow> bool" where
  "nameServerValueEqual a b =
     (if strOrEmpty (nsv_Address a) \<noteq> strOrEmpty (nsv_Address b) \<or> strOrEmpty (nsv_Name a) \<noteq> strOrEmpty (nsv_Name b) \<or>
         boolOrFalse (nsv_SharedWithMsParentDelegation a) \<noteq> boolOrFalse (nsv_SharedWithMsParentDelegation b) \<or>
         boolOrFalse (nsv_Stealth a) \<noteq> boolOrFalse (nsv_Stealth b) \<or>
         strOrEmpty (nsv_TsigKey a) \<noteq> strOrEmpty (nsv_TsigKey b) \<or>
         strOrEmpty (nsv_TsigKeyAlg a) \<noteq> strOrEmpty (nsv_TsigKeyAlg b) then False
      else if boolOrFalse (nsv_UseTsigKeyName a) \<noteq> boolOrFalse (nsv_UseTsigKeyName b) then False
      else if boolOrFalse (nsv_UseTsigKeyName a) \<and>
              strOrEmpty (nsv_TsigKeyName a) \<noteq> strOrEmpty (nsv_TsigKeyName b) then False
      else True)"

fun nameServerValuesLoop :: "nameServerValue list \<Rightarrow> nameServerValue list \<Rightarrow> bool" where
  "nameServerValuesLoop (x # a) (y # b) = (if \<not> nameServerValueEqual x y then False else nameServerValuesLoop a b)"
| "nameServerValuesLoop _ _ = True"

definition nameServerValuesEqual :: "nameServerValue list \<Rightarrow> nameServerValue list \<Rightarrow> bool" where
  "nameServerValuesEqual a b =
     (if a = [] \<and> b = [] then True else if length a \<noteq> length b then False else nameServerValuesLoop a b)"

definition addressAcValueEqual :: "addressAcValue \<Rightarrow> addressAcValue \<Rightarrow> bool" where
  "addressAcValueEqual a b =
     (if strOrEmpty (aav_Address a) \<noteq> strOrEmpty (aav_Address b) \<or>
         strOrEmpty (aav_Permission a) \<noteq> strOrEmpty (aav_Permission b) \<or>
         strOrEmpty (aav_TsigKey a) \<noteq> strOrEmpty (aav_TsigKey b) \<or>
         strOrEmpty (aav_TsigKeyAlg a) \<noteq> strOrEmpty (aav_TsigKeyAlg b) then False
      else if boolOrFalse (aav_UseTsigKeyName a) \<noteq> boolOrFalse (aav_UseTsigKeyName b) then False
      else if boolOrFalse (aav_UseTsigKeyName a) \<and>
              strOrEmpty (aav_TsigKeyName a) \<noteq> strOrEmpty (aav_TsigKeyName b) then False
      else True)"

fun addressAcValuesLoop :: "addressAcValue list \<Rightarrow> addressAcValue list \<Rightarrow> bool" where
  "addressAcValuesLoop (x # a) (y # b) = (if \<not> addressAcValueEqual x y then False else addressAcValuesLoop a b)"
| "addressAcValuesLoop _ _ = True"

definition addressAcValuesEqual :: "addressAcValue list \<Rightarrow> addressAcValue list \<Rightarrow> bool" where
  "addressAcValuesEqual a b =
     (if a = [] \<and> b = [] then True else if length a \<noteq> length b then False else addressAcValuesLoop a b)"

definition cloudInfoValueFromSDK :: "GridCloudapiInfo option \<Rightarrow> cloudInfoValue option" where
  "cloudInfoValueFromSDK p = (case p of None \<Rightarrow> None | Some x \<Rightarrow>
     (let dm = (case gci_DelegatedMember x of None \<Rightarrow> None | Some m \<Rightarrow> Some
            \<lparr>cmv_Ipv4Addr = strPtrOrNil (dhm_Ipv4Addr m), cmv_Ipv6Addr = strPtrOrNil (dhm_Ipv6Addr m),
             cmv_Name = strPtrOrNil (dhm_Name m)\<rparr>)
      in Some \<lparr>civ_DelegatedMember = dm, civ_DelegatedScope = strPtrOrNil (gci_DelegatedScope x),
         civ_DelegatedRoot = strPtrOrNil (gci_DelegatedRoot x),
         civ_OwnedByAdaptor = boolPtrOrNil (gci_OwnedByAdaptor x), civ_Usage = strPtrOrNil (gci_Usage x),
         civ_Tenant = strPtrOrNil (gci_Tenant x), civ_MgmtPlatform = strPtrOrNil (gci_MgmtPlatform x),
         civ_AuthorityType = strPtrOrNil (gci_AuthorityType x)\<rparr>))"

section \<open>The field bag\<close>

definition buildView :: "dnsViewFields \<Rightarrow> ViewObj" where
  "buildView f =
     \<lparr>vwr_Ref = [], vwr_Name = dvf_Name f, vwr_Comment = dvf_Comment f, vwr_NetworkView = dvf_NetworkView f,
      vwr_Disable = dvf_Disable f, vwr_BlacklistAction = strOrEmpty (dvf_BlacklistAction f),
      vwr_BlacklistLogQuery = dvf_BlacklistLogQuery f,
      vwr_BlacklistRedirectAddresses = dvf_BlacklistRedirectAddresses f,
      vwr_BlacklistRedirectTtl = dvf_BlacklistRedirectTTL f, vwr_BlacklistRulesets = dvf_BlacklistRulesets f,
      vwr_UseBlacklist = dvf_UseBlacklist f, vwr_EnableBlacklist = dvf_EnableBlacklist f,
      vwr_RootNameServerType = strOrEmpty (dvf_RootNameServerType f),
      vwr_UseRootNameServer = dvf_UseRootNameServer f,
      vwr_DdnsForceCreationTimestampUpdate = dvf_DdnsForceCreationTimestampUpdate f,
      vwr_UseDdnsForceCreationTimestampUpdate = dvf_UseDdnsForceCreationTimestampUpdate f,
      vwr_DdnsPrincipalGroup = dvf_DdnsPrincipalGroup f, vwr_DdnsPrincipalTracking = dvf_DdnsPrincipalTracking f,
      vwr_UseDdnsPrincipalSecurity = dvf_UseDdnsPrincipalSecurity f,
      vwr_DdnsRestrictPatterns = dvf_DdnsRestrictPatterns f,
      vwr_DdnsRestrictPatternsList = dvf_DdnsRestrictPatternsList f,
      vwr_UseDdnsPatternsRestriction = dvf_UseDdnsPatternsRestriction f,
      vwr_DdnsRestrictProtected = dvf_DdnsRestrictProtected f,
      vwr_UseDdnsRestrictProtected = dvf_UseDdnsRestrictProtected f,
      vwr_DdnsRestrictSecure = dvf_DdnsRestrictSecure f, vwr_DdnsRestrictStatic = dvf_DdnsRestrictStatic f,
      vwr_UseDdnsRestrictStatic = dvf_UseDdnsRestrictStatic f, vwr_Dns64Enabled = dvf_Dns64Enabled f,
      vwr_Dns64Groups = dvf_Dns64Groups f, vwr_UseDns64 = dvf_UseDns64 f, vwr_DnssecEnabled = dvf_DnssecEnabled f,
      vwr_DnssecExpiredSignaturesEnabled = dvf_DnssecExpiredSignaturesEnabled f,
      vwr_DnssecNegativeTrustAnchors = dvf_DnssecNegativeTrustAnchors f,
      vwr_DnssecValidationEnabled = dvf_DnssecValidationEnabled f, vwr_UseDnssec = dvf_UseDnssec f,
      vwr_EnableFixedRrsetOrderFqdns = dvf_EnableFixedRrsetOrderFqdns f,
      vwr_UseFixedRrsetOrderFqdns = dvf_UseFixedRrsetOrderFqdns f,
      vwr_EnableMatchRecursiveOnly = dvf_EnableMatchRecursiveOnly f,
      vwr_FilterAaaa = strOrEmpty (dvf_FilterAaaa f), vwr_UseFilterAaaa = dvf_UseFilterAaaa f,
      vwr_ForwardOnly = dvf_ForwardOnly f, vwr_Forwarders = dvf_Forwarders f,
      vwr_UseForwarders = dvf_UseForwarders f, vwr_LameTtl = dvf_LameTTL f, vwr_UseLameTtl = dvf_UseLameTTL f,
      vwr_MaxCacheTtl = dvf_MaxCacheTTL f, vwr_UseMaxCacheTtl = dvf_UseMaxCacheTTL f,
      vwr_MaxNcacheTtl = dvf_MaxNcacheTTL f, vwr_UseMaxNcacheTtl = dvf_UseMaxNcacheTTL f,
      vwr_NotifyDelay = dvf_NotifyDelay f, vwr_NxdomainLogQuery = dvf_NxdomainLogQuery f,
      vwr_NxdomainRedirect = dvf_NxdomainRedirect f,
      vwr_NxdomainRedirectAddresses = dvf_NxdomainRedirectAddresses f,
      vwr_NxdomainRedirectAddressesV6 = dvf_NxdomainRedirectAddressesV6 f,
      vwr_NxdomainRedirectTtl = dvf_NxdomainRedirectTTL f, vwr_NxdomainRulesets = dvf_NxdomainRulesets f,
      vwr_UseNxdomainRedirect = dvf_UseNxdomainRedirect f, vwr_Recursion = dvf_Recursion f,
      vwr_UseRecursion = dvf_UseRecursion f, vwr_UseResponseRateLimiting = dvf_UseResponseRateLimiting f,
      vwr_RpzDropIpRuleEnabled = dvf_RpzDropIPRuleEnabled f,
      vwr_RpzDropIpRuleMinPrefixLengthIpv4 = dvf_RpzDropIPRuleMinPrefixLengthIPv4 f,
      vwr_RpzDropIpRuleMinPrefixLengthIpv6 = dvf_RpzDropIPRuleMinPrefixLengthIPv6 f,
      vwr_UseRpzDropIpRule = dvf_UseRpzDropIPRule f, vwr_RpzQnameWaitRecurse = dvf_RpzQnameWaitRecurse f,
      vwr_UseRpzQnameWaitRecurse = dvf_UseRpzQnameWaitRecurse f,
      vwr_UseScavengingSettings = dvf_UseScavengingSettings f, vwr_UseSortlist = dvf_UseSortlist f,
      vwr_Ea = buildEA (dvf_ExtAttrs f),
      vwr_CustomRootNameServers = nameServerValuesToSDK (dvf_CustomRootNameServers f),
      vwr_DnssecTrustedKeys = dnssecTrustedKeyValuesToSDKPtr (dvf_DnssecTrustedKeys f),
      vwr_FixedRrsetOrderFqdns = fixedRrsetOrderFqdnValuesToSDKPtr (dvf_FixedRrsetOrderFqdns f),
      vwr_FilterAaaaList = addressAcValuesToSDKPtr (dvf_FilterAaaaList f),
      vwr_MatchClients = addressAcValuesToSDKPtr (dvf_MatchClients f),
      vwr_MatchDestinations = addressAcValuesToSDKPtr (dvf_MatchDestinations f),
      vwr_Sortlist = sortlistEntryValuesToSDKPtr (dvf_Sortlist f),
      vwr_ResponseRateLimiting = responseRateLimitingValueToSDK (dvf_ResponseRateLimiting f),
      vwr_ScavengingSettings = scavengingSettingsValueToSDK (dvf_ScavengingSettings f), vwr_IsDefault = False,
      vwr_CloudInfo = None\<rparr>"

definition fieldsFromView :: "ViewObj \<Rightarrow> dnsViewFields" where
  "fieldsFromView v =
     \<lparr>dvf_Name = vwr_Name v, dvf_Comment = vwr_Comment v, dvf_NetworkView = vwr_NetworkView v,
      dvf_Disable = vwr_Disable v, dvf_BlacklistAction = strPtrOrNil (vwr_BlacklistAction v),
      dvf_BlacklistLogQuery = vwr_BlacklistLogQuery v,
      dvf_BlacklistRedirectAddresses = vwr_BlacklistRedirectAddresses v,
      dvf_BlacklistRedirectTTL = vwr_BlacklistRedirectTtl v, dvf_BlacklistRulesets = vwr_BlacklistRulesets v,
      dvf_UseBlacklist = vwr_UseBlacklist v, dvf_EnableBlacklist = vwr_EnableBlacklist v,
      dvf_RootNameServerType = strPtrOrNil (vwr_RootNameServerType v),
      dvf_UseRootNameServer = vwr_UseRootNameServer v,
      dvf_DdnsForceCreationTimestampUpdate = vwr_DdnsForceCreationTimestampUpdate v,
      dvf_UseDdnsForceCreationTimestampUpdate = vwr_UseDdnsForceCreationTimestampUpdate v,
      dvf_DdnsPrincipalGroup = vwr_DdnsPrincipalGroup v, dvf_DdnsPrincipalTracking = vwr_DdnsPrincipalTracking v,
      dvf_UseDdnsPrincipalSecurity = vwr_UseDdnsPrincipalSecurity v,
      dvf_DdnsRestrictPatterns = vwr_DdnsRestrictPatterns v,
      dvf_DdnsRestrictPatternsList = vwr_DdnsRestrictPatternsList v,
      dvf_UseDdnsPatternsRestriction = vwr_UseDdnsPatternsRestriction v,
      dvf_DdnsRestrictProtected = vwr_DdnsRestrictProtected v,
      dvf_UseDdnsRestrictProtected = vwr_UseDdnsRestrictProtected v,
      dvf_DdnsRestrictSecure = vwr_DdnsRestrictSecure v, dvf_DdnsRestrictStatic = vwr_DdnsRestrictStatic v,
      dvf_UseDdnsRestrictStatic = vwr_UseDdnsRestrictStatic v, dvf_Dns64Enabled = vwr_Dns64Enabled v,
      dvf_Dns64Groups = vwr_Dns64Groups v, dvf_UseDns64 = vwr_UseDns64 v, dvf_DnssecEnabled = vwr_DnssecEnabled v,
      dvf_DnssecExpiredSignaturesEnabled = vwr_DnssecExpiredSignaturesEnabled v,
      dvf_DnssecNegativeTrustAnchors = vwr_DnssecNegativeTrustAnchors v,
      dvf_DnssecValidationEnabled = vwr_DnssecValidationEnabled v, dvf_UseDnssec = vwr_UseDnssec v,
      dvf_EnableFixedRrsetOrderFqdns = vwr_EnableFixedRrsetOrderFqdns v,
      dvf_UseFixedRrsetOrderFqdns = vwr_UseFixedRrsetOrderFqdns v,
      dvf_EnableMatchRecursiveOnly = vwr_EnableMatchRecursiveOnly v,
      dvf_FilterAaaa = strPtrOrNil (vwr_FilterAaaa v), dvf_UseFilterAaaa = vwr_UseFilterAaaa v,
      dvf_ForwardOnly = vwr_ForwardOnly v, dvf_Forwarders = vwr_Forwarders v,
      dvf_UseForwarders = vwr_UseForwarders v, dvf_LameTTL = vwr_LameTtl v, dvf_UseLameTTL = vwr_UseLameTtl v,
      dvf_MaxCacheTTL = vwr_MaxCacheTtl v, dvf_UseMaxCacheTTL = vwr_UseMaxCacheTtl v,
      dvf_MaxNcacheTTL = vwr_MaxNcacheTtl v, dvf_UseMaxNcacheTTL = vwr_UseMaxNcacheTtl v,
      dvf_NotifyDelay = vwr_NotifyDelay v, dvf_NxdomainLogQuery = vwr_NxdomainLogQuery v,
      dvf_NxdomainRedirect = vwr_NxdomainRedirect v,
      dvf_NxdomainRedirectAddresses = vwr_NxdomainRedirectAddresses v,
      dvf_NxdomainRedirectAddressesV6 = vwr_NxdomainRedirectAddressesV6 v,
      dvf_NxdomainRedirectTTL = vwr_NxdomainRedirectTtl v, dvf_NxdomainRulesets = vwr_NxdomainRulesets v,
      dvf_UseNxdomainRedirect = vwr_UseNxdomainRedirect v, dvf_Recursion = vwr_Recursion v,
      dvf_UseRecursion = vwr_UseRecursion v, dvf_UseResponseRateLimiting = vwr_UseResponseRateLimiting v,
      dvf_RpzDropIPRuleEnabled = vwr_RpzDropIpRuleEnabled v,
      dvf_RpzDropIPRuleMinPrefixLengthIPv4 = vwr_RpzDropIpRuleMinPrefixLengthIpv4 v,
      dvf_RpzDropIPRuleMinPrefixLengthIPv6 = vwr_RpzDropIpRuleMinPrefixLengthIpv6 v,
      dvf_UseRpzDropIPRule = vwr_UseRpzDropIpRule v, dvf_RpzQnameWaitRecurse = vwr_RpzQnameWaitRecurse v,
      dvf_UseRpzQnameWaitRecurse = vwr_UseRpzQnameWaitRecurse v,
      dvf_UseScavengingSettings = vwr_UseScavengingSettings v, dvf_UseSortlist = vwr_UseSortlist v,
      dvf_ExtAttrs = extAttrsFromEA (vwr_Ea v),
      dvf_CustomRootNameServers = nameServerValuesFromSDK (vwr_CustomRootNameServers v),
      dvf_DnssecTrustedKeys = dnssecTrustedKeyValuesFromSDKPtr (vwr_DnssecTrustedKeys v),
      dvf_FixedRrsetOrderFqdns = fixedRrsetOrderFqdnValuesFromSDKPtr (vwr_FixedRrsetOrderFqdns v),
      dvf_FilterAaaaList = addressAcValuesFromSDKPtr (vwr_FilterAaaaList v),
      dvf_MatchClients = addressAcValuesFromSDKPtr (vwr_MatchClients v),
      dvf_MatchDestinations = addressAcValuesFromSDKPtr (vwr_MatchDestinations v),
      dvf_ResponseRateLimiting = responseRateLimitingValueFromSDK (vwr_ResponseRateLimiting v),
      dvf_ScavengingSettings = scavengingSettingsValueFromSDK (vwr_ScavengingSettings v),
      dvf_Sortlist = sortlistEntryValuesFromSDKPtr (vwr_Sortlist v)\<rparr>"

definition dnsViewFieldComparators :: "(dnsViewFields \<Rightarrow> dnsViewFields \<Rightarrow> bool) list" where
  "dnsViewFieldComparators =
     [\<lambda>desired observed. strOrEmpty (dvf_Name desired) = strOrEmpty (dvf_Name observed),
      \<lambda>desired observed. strOrEmpty (dvf_Comment desired) = strOrEmpty (dvf_Comment observed),
      \<lambda>desired observed. strOrEmpty (dvf_NetworkView desired) = strOrEmpty (dvf_NetworkView observed),
      \<lambda>desired observed. boolOrFalse (dvf_Disable desired) = boolOrFalse (dvf_Disable observed),
      \<lambda>desired observed. gatedStringEqual (dvf_UseBlacklist desired) (dvf_BlacklistAction desired) (dvf_BlacklistAction observed),
      \<lambda>desired observed. gatedBoolEqual (dvf_UseBlacklist desired) (dvf_BlacklistLogQuery desired) (dvf_BlacklistLogQuery observed),
      \<lambda>desired observed. gatedStringSliceEqual (dvf_UseBlacklist desired) (dvf_BlacklistRedirectAddresses desired) (dvf_BlacklistRedirectAddresses observed),
      \<lambda>desired observed. gatedUint32Equal (dvf_UseBlacklist desired) (dvf_BlacklistRedirectTTL desired) (dvf_BlacklistRedirectTTL observed),
      \<lambda>desired observed. gatedStringSliceEqual (dvf_UseBlacklist desired) (dvf_BlacklistRulesets desired) (dvf_BlacklistRulesets observed),
      \<lambda>desired observed. boolOrFalse (dvf_UseBlacklist desired) = boolOrFalse (dvf_UseBlacklist observed),
      \<lambda>desired observed. gatedBoolEqual (dvf_UseBlacklist desired) (dvf_EnableBlacklist desired) (dvf_EnableBlacklist observed),
      \<lambda>desired observed. gatedStringEqual (dvf_UseRootNameServer desired) (dvf_RootNameServerType desired) (dvf_RootNameServerType observed),
      \<lambda>desired observed. boolOrFalse (dvf_UseRootNameServer desired) = boolOrFalse (dvf_UseRootNameServer observed),
      \<lambda>desired observed. gatedBoolEqual (dvf_UseDdnsForceCreationTimestampUpdate desired) (dvf_DdnsForceCreationTimestampUpdate desired) (dvf_DdnsForceCreationTimestampUpdate observed),
      \<lambda>desired observed. boolOrFalse (dvf_UseDdnsForceCreationTimestampUpdate desired) = boolOrFalse (dvf_UseDdnsForceCreationTimestampUpdate observed),
      \<lambda>desired observed. gatedStringEqual (dvf_UseDdnsPrincipalSecurity desired) (dvf_DdnsPrincipalGroup desired) (dvf_DdnsPrincipalGroup observed),
      \<lambda>desired observed. gatedBoolEqual (dvf_UseDdnsPrincipalSecurity desired) (dvf_DdnsPrincipalTracking desired) (dvf_DdnsPrincipalTracking observed),
      \<lambda>desired observed. boolOrFalse (dvf_UseDdnsPrincipalSecurity desired) = boolOrFalse (dvf_UseDdnsPrincipalSecurity observed),
      \<lambda>desired observed. gatedBoolEqual (dvf_UseDdnsPatternsRestriction desired) (dvf_DdnsRestrictPatterns desired) (dvf_DdnsRestrictPatterns observed),
      \<lambda>desired observed. gatedStringSliceEqual (dvf_UseDdnsPatternsRestriction desired) (dvf_DdnsRestrictPatternsList desired) (dvf_DdnsRestrictPatternsList observed),
      \<lambda>desired observed. boolOrFalse (dvf_UseDdnsPatternsRestriction desired) = boolOrFalse (dvf_UseDdnsPatternsRestriction observed),
      \<lambda>desired observed. gatedBoolEqual (dvf_UseDdnsRestrictProtected desired) (dvf_DdnsRestrictProtected desired) (dvf_DdnsRestrictProtected observed),
      \<lambda>desired observed. boolOrFalse (dvf_UseDdnsRestrictProtected desired) = boolOrFalse (dvf_UseDdnsRestrictProtected observed),
      \<lambda>desired observed. gatedBoolEqual (dvf_UseDdnsPrincipalSecurity desired) (dvf_DdnsRestrictSecure desired) (dvf_DdnsRestrictSecure observed),
      \<lambda>desired observed. gatedBoolEqual (dvf_UseDdnsRestrictStatic desired) (dvf_DdnsRestrictStatic desired) (dvf_DdnsRestrictStatic observed),
      \<lambda>desired observed. boolOrFalse (dvf_UseDdnsRestrictStatic desired) = boolOrFalse (dvf_UseDdnsRestrictStatic observed),
      \<lambda>desired observed. gatedBoolEqual (dvf_UseDns64 desired) (dvf_Dns64Enabled desired) (dvf_Dns64Enabled observed),
      \<lambda>desired observed. gatedStringSliceEqual (dvf_UseDns64 desired) (dvf_Dns64Groups desired) (dvf_Dns64Groups observed),
      \<lambda>desired observed. boolOrFalse (dvf_UseDns64 desired) = boolOrFalse (dvf_UseDns64 observed),
      \<lambda>desired observed. gatedBoolEqual (dvf_UseDnssec desired) (dvf_DnssecEnabled desired) (dvf_DnssecEnabled observed),
      \<lambda>desired observed. gatedBoolEqual (dvf_UseDnssec desired) (dvf_DnssecExpiredSignaturesEnabled desired) (dvf_DnssecExpiredSignaturesEnabled observed),
      \<lambda>desired observed. stringSliceEqual (dvf_DnssecNegativeTrustAnchors desired) (dvf_DnssecNegativeTrustAnchors observed),
      \<lambda>desired observed. gatedBoolEqual (dvf_UseDnssec desired) (dvf_DnssecValidationEnabled desired) (dvf_DnssecValidationEnabled observed),
      \<lambda>desired observed. boolOrFalse (dvf_UseDnssec desired) = boolOrFalse (dvf_UseDnssec observed),
      \<lambda>desired observed. gatedBoolEqual (dvf_UseFixedRrsetOrderFqdns desired) (dvf_EnableFixedRrsetOrderFqdns desired) (dvf_EnableFixedRrsetOrderFqdns observed),
      \<lambda>desired observed. boolOrFalse (dvf_UseFixedRrsetOrderFqdns desired) = boolOrFalse (dvf_UseFixedRrsetOrderFqdns observed),
      \<lambda>desired observed. boolOrFalse (dvf_EnableMatchRecursiveOnly desired) = boolOrFalse (dvf_EnableMatchRecursiveOnly observed),
      \<lambda>desired observed. gatedStringEqual (dvf_UseFilterAaaa desired) (dvf_FilterAaaa desired) (dvf_FilterAaaa observed),
      \<lambda>desired observed. boolOrFalse (dvf_UseFilterAaaa desired) = boolOrFalse (dvf_UseFilterAaaa observed),
      \<lambda>desired observed. gatedBoolEqual (dvf_UseForwarders desired) (dvf_ForwardOnly desired) (dvf_ForwardOnly observed),
      \<lambda>desired observed. gatedStringSliceEqual (dvf_UseForwarders desired) (dvf_Forwarders desired) (dvf_Forwarders observed),
      \<lambda>desired observed. boolOrFalse (dvf_UseForwarders desired) = boolOrFalse (dvf_UseForwarders observed),
      \<lambda>desired observed. gatedUint32Equal (dvf_UseLameTTL desired) (dvf_LameTTL desired) (dvf_LameTTL observed),
      \<lambda>desired observed. boolOrFalse (dvf_UseLameTTL desired) = boolOrFalse (dvf_UseLameTTL observed),
      \<lambda>desired observed. gatedUint32Equal (dvf_UseMaxCacheTTL desired) (dvf_MaxCacheTTL desired) (dvf_MaxCacheTTL observed),
      \<lambda>desired observed. boolOrFalse (dvf_UseMaxCacheTTL desired) = boolOrFalse (dvf_UseMaxCacheTTL observed),
      \<lambda>desired observed. gatedUint32Equal (dvf_UseMaxNcacheTTL desired) (dvf_MaxNcacheTTL desired) (dvf_MaxNcacheTTL observed),
      \<lambda>desired observed. boolOrFalse (dvf_UseMaxNcacheTTL desired) = boolOrFalse (dvf_UseMaxNcacheTTL observed),
      \<lambda>desired observed. uint32OrZero (dvf_NotifyDelay desired) = uint32OrZero (dvf_NotifyDelay observed),
      \<lambda>desired observed. gatedBoolEqual (dvf_UseNxdomainRedirect desired) (dvf_NxdomainLogQuery desired) (dvf_NxdomainLogQuery observed),
      \<lambda>desired observed. gatedBoolEqual (dvf_UseNxdomainRedirect desired) (dvf_NxdomainRedirect desired) (dvf_NxdomainRedirect observed),
      \<lambda>desired observed. gatedStringSliceEqual (dvf_UseNxdomainRedirect desired) (dvf_NxdomainRedirectAddresses desired) (dvf_NxdomainRedirectAddresses observed),
      \<lambda>desired observed. gatedStringSliceEqual (dvf_UseNxdomainRedirect desired) (dvf_NxdomainRedirectAddressesV6 desired) (dvf_NxdomainRedirectAddressesV6 observed),
      \<lambda>desired observed. gatedUint32Equal (dvf_UseNxdomainRedirect desired) (dvf_NxdomainRedirectTTL desired) (dvf_NxdomainRedirectTTL observed),
      \<lambda>desired observed. gatedStringSliceEqual (dvf_UseNxdomainRedirect desired) (dvf_NxdomainRulesets desired) (dvf_NxdomainRulesets observed),
      \<lambda>desired observed. boolOrFalse (dvf_UseNxdomainRedirect desired) = boolOrFalse (dvf_UseNxdomainRedirect observed),
      \<lambda>desired observed. gatedBoolEqual (dvf_UseRecursion desired) (dvf_Recursion desired) (dvf_Recursion observed),
      \<lambda>desired observed. boolOrFalse (dvf_UseRecursion desired) = boolOrFalse (dvf_UseRecursion observed),
      \<lambda>desired observed. boolOrFalse (dvf_UseResponseRateLimiting desired) = boolOrFalse (dvf_UseResponseRateLimiting observed),
      \<lambda>desired observed. gatedBoolEqual (dvf_UseRpzDropIPRule desired) (dvf_RpzDropIPRuleEnabled desired) (dvf_RpzDropIPRuleEnabled observed),
      \<lambda>desired observed. gatedUint32Equal (dvf_UseRpzDropIPRule desired) (dvf_RpzDropIPRuleMinPrefixLengthIPv4 desired) (dvf_RpzDropIPRuleMinPrefixLengthIPv4 observed),
      \<lambda>desired observed. gatedUint32Equal (dvf_UseRpzDropIPRule desired) (dvf_RpzDropIPRuleMinPrefixLengthIPv6 desired) (dvf_RpzDropIPRuleMinPrefixLengthIPv6 observed),
      \<lambda>desired observed. boolOrFalse (dvf_UseRpzDropIPRule desired) = boolOrFalse (dvf_UseRpzDropIPRule observed),
      \<lambda>desired observed. gatedBoolEqual (dvf_UseRpzQnameWaitRecurse desired) (dvf_RpzQnameWaitRecurse desired) (dvf_RpzQnameWaitRecurse observed),
      \<lambda>desired observed. boolOrFalse (dvf_UseRpzQnameWaitRecurse desired) = boolOrFalse (dvf_UseRpzQnameWaitRecurse observed),
      \<lambda>desired observed. boolOrFalse (dvf_UseScavengingSettings desired) = boolOrFalse (dvf_UseScavengingSettings observed),
      \<lambda>desired observed. boolOrFalse (dvf_UseSortlist desired) = boolOrFalse (dvf_UseSortlist observed),
      \<lambda>desired observed. extAttrsEqual (dvf_ExtAttrs desired) (dvf_ExtAttrs observed),
      \<lambda>desired observed. gatedNestedSliceEqual (dvf_UseRootNameServer desired) (dvf_CustomRootNameServers desired) (dvf_CustomRootNameServers observed) nameServerValuesEqual,
      \<lambda>desired observed. gatedNestedSliceEqual (dvf_UseDnssec desired) (dvf_DnssecTrustedKeys desired) (dvf_DnssecTrustedKeys observed) nestedSliceEqual,
      \<lambda>desired observed. gatedNestedSliceEqual (dvf_UseFixedRrsetOrderFqdns desired) (dvf_FixedRrsetOrderFqdns desired) (dvf_FixedRrsetOrderFqdns observed) nestedSliceEqual,
      \<lambda>desired observed. gatedNestedSliceEqual (dvf_UseFilterAaaa desired) (dvf_FilterAaaaList desired) (dvf_FilterAaaaList observed) addressAcValuesEqual,
      \<lambda>desired observed. addressAcValuesEqual (dvf_MatchClients desired) (dvf_MatchClients observed),
      \<lambda>desired observed. addressAcValuesEqual (dvf_MatchDestinations desired) (dvf_MatchDestinations observed),
      \<lambda>desired observed. gatedNestedSliceEqual (dvf_UseSortlist desired) (dvf_Sortlist desired) (dvf_Sortlist observed) nestedSliceEqual,
      \<lambda>desired observed. gatedPtrDeepEqual (dvf_UseResponseRateLimiting desired) (dvf_ResponseRateLimiting desired) (dvf_ResponseRateLimiting observed),
      \<lambda>desired observed. gatedPtrDeepEqual (dvf_UseScavengingSettings desired) (dvf_ScavengingSettings desired) (dvf_ScavengingSettings observed)]"

fun comparatorsLoop :: "(dnsViewFields \<Rightarrow> dnsViewFields \<Rightarrow> bool) list \<Rightarrow> dnsViewFields \<Rightarrow> dnsViewFields \<Rightarrow> bool" where
  "comparatorsLoop [] desired observed = True"
| "comparatorsLoop (eq # eqs) desired observed = (if \<not> eq desired observed then False else comparatorsLoop eqs desired observed)"

definition DNSView_isUpToDate :: "dnsViewFields \<Rightarrow> dnsViewFields \<Rightarrow> bool" where
  "DNSView_isUpToDate desired observed = comparatorsLoop dnsViewFieldComparators desired observed"

text \<open>Writing a field's new value back, with the verdict on it.\<close>

definition assign :: "('a \<Rightarrow> dnsViewFields) \<Rightarrow> 'a \<times> bool \<Rightarrow> dnsViewFields \<times> bool" where
  "assign write r = (case r of (v, changed) \<Rightarrow> (write v, changed))"

definition dnsViewLateInitOps :: "(dnsViewFields \<Rightarrow> dnsViewFields \<Rightarrow> dnsViewFields \<times> bool) list" where
  "dnsViewLateInitOps =
     [\<lambda>desired observed. assign (\<lambda>v. desired\<lparr>dvf_Comment := v\<rparr>)
         (lateInitStringPtr (dvf_Comment desired) (dvf_Comment observed)),
      \<lambda>desired observed. assign (\<lambda>v. desired\<lparr>dvf_NetworkView := v\<rparr>)
         (lateInitStringPtr (dvf_NetworkView desired) (dvf_NetworkView observed)),
      \<lambda>desired observed. assign (\<lambda>v. desired\<lparr>dvf_Disable := v\<rparr>)
         (lateInitPtr (dvf_Disable desired) (dvf_Disable observed)),
      \<lambda>desired observed. assign (\<lambda>v. desired\<lparr>dvf_BlacklistAction := v\<rparr>)
         (gatedLateInitStringPtr (dvf_UseBlacklist desired) (dvf_UseBlacklist observed) (dvf_BlacklistAction desired) (dvf_BlacklistAction observed)),
      \<lambda>desired observed. assign (\<lambda>v. desired\<lparr>dvf_BlacklistLogQuery := v\<rparr>)
         (gatedLateInitPtr (dvf_UseBlacklist desired) (dvf_UseBlacklist observed) (dvf_BlacklistLogQuery desired) (dvf_BlacklistLogQuery observed)),
      \<lambda>desired observed. assign (\<lambda>v. desired\<lparr>dvf_BlacklistRedirectAddresses := v\<rparr>)
         (gatedLateInitStringSlice (dvf_UseBlacklist desired) (dvf_UseBlacklist observed) (dvf_BlacklistRedirectAddresses desired) (dvf_BlacklistRedirectAddresses observed)),
      \<lambda>desired observed. assign (\<lambda>v. desired\<lparr>dvf_BlacklistRedirectTTL := v\<rparr>)
         (gatedLateInitPtr (dvf_UseBlacklist desired) (dvf_UseBlacklist observed) (dvf_BlacklistRedirectTTL desired) (dvf_BlacklistRedirectTTL observed)),
      \<lambda>desired observed. assign (\<lambda>v. desired\<lparr>dvf_BlacklistRulesets := v\<rparr>)
         (gatedLateInitStringSlice (dvf_UseBlacklist desired) (dvf_UseBlacklist observed) (dvf_BlacklistRulesets desired) (dvf_BlacklistRulesets observed)),
      \<lambda>desired observed. assign (\<lambda>v. desired\<lparr>dvf_UseBlacklist := v\<rparr>)
         (lateInitPtr (dvf_UseBlacklist desired) (dvf_UseBlacklist observed)),
      \<lambda>desired observed. assign (\<lambda>v. desired\<lparr>dvf_EnableBlacklist := v\<rparr>)
         (gatedLateInitPtr (dvf_UseBlacklist desired) (dvf_UseBlacklist observed) (dvf_EnableBlacklist desired) (dvf_EnableBlacklist observed)),
      \<lambda>desired observed. assign (\<lambda>v. desired\<lparr>dvf_RootNameServerType := v\<rparr>)
         (gatedLateInitStringPtr (dvf_UseRootNameServer desired) (dvf_UseRootNameServer observed) (dvf_RootNameServerType desired) (dvf_RootNameServerType observed)),
      \<lambda>desired observed. assign (\<lambda>v. desired\<lparr>dvf_UseRootNameServer := v\<rparr>)
         (lateInitPtr (dvf_UseRootNameServer desired) (dvf_UseRootNameServer observed)),
      \<lambda>desired observed. assign (\<lambda>v. desired\<lparr>dvf_DdnsForceCreationTimestampUpdate := v\<rparr>)
         (gatedLateInitPtr (dvf_UseDdnsForceCreationTimestampUpdate desired) (dvf_UseDdnsForceCreationTimestampUpdate observed) (dvf_DdnsForceCreationTimestampUpdate desired) (dvf_DdnsForceCreationTimestampUpdate observed)),
      \<lambda>desired observed. assign (\<lambda>v. desired\<lparr>dvf_UseDdnsForceCreationTimestampUpdate := v\<rparr>)
         (lateInitPtr (dvf_UseDdnsForceCreationTimestampUpdate desired) (dvf_UseDdnsForceCreationTimestampUpdate observed)),
      \<lambda>desired observed. assign (\<lambda>v. desired\<lparr>dvf_DdnsPrincipalGroup := v\<rparr>)
         (gatedLateInitStringPtr (dvf_UseDdnsPrincipalSecurity desired) (dvf_UseDdnsPrincipalSecurity observed) (dvf_DdnsPrincipalGroup desired) (dvf_DdnsPrincipalGroup observed)),
      \<lambda>desired observed. assign (\<lambda>v. desired\<lparr>dvf_DdnsPrincipalTracking := v\<rparr>)
         (gatedLateInitPtr (dvf_UseDdnsPrincipalSecurity desired) (dvf_UseDdnsPrincipalSecurity observed) (dvf_DdnsPrincipalTracking desired) (dvf_DdnsPrincipalTracking observed)),
      \<lambda>desired observed. assign (\<lambda>v. desired\<lparr>dvf_UseDdnsPrincipalSecurity := v\<rparr>)
         (lateInitPtr (dvf_UseDdnsPrincipalSecurity desired) (dvf_UseDdnsPrincipalSecurity observed)),
      \<lambda>desired observed. assign (\<lambda>v. desired\<lparr>dvf_DdnsRestrictPatterns := v\<rparr>)
         (gatedLateInitPtr (dvf_UseDdnsPatternsRestriction desired) (dvf_UseDdnsPatternsRestriction observed) (dvf_DdnsRestrictPatterns desired) (dvf_DdnsRestrictPatterns observed)),
      \<lambda>desired observed. assign (\<lambda>v. desired\<lparr>dvf_DdnsRestrictPatternsList := v\<rparr>)
         (gatedLateInitStringSlice (dvf_UseDdnsPatternsRestriction desired) (dvf_UseDdnsPatternsRestriction observed) (dvf_DdnsRestrictPatternsList desired) (dvf_DdnsRestrictPatternsList observed)),
      \<lambda>desired observed. assign (\<lambda>v. desired\<lparr>dvf_UseDdnsPatternsRestriction := v\<rparr>)
         (lateInitPtr (dvf_UseDdnsPatternsRestriction desired) (dvf_UseDdnsPatternsRestriction observed)),
      \<lambda>desired observed. assign (\<lambda>v. desired\<lparr>dvf_DdnsRestrictProtected := v\<rparr>)
         (gatedLateInitPtr (dvf_UseDdnsRestrictProtected desired) (dvf_UseDdnsRestrictProtected observed) (dvf_DdnsRestrictProtected desired) (dvf_DdnsRestrictProtected observed)),
      \<lambda>desired observed. assign (\<lambda>v. desired\<lparr>dvf_UseDdnsRestrictProtected := v\<rparr>)
         (lateInitPtr (dvf_UseDdnsRestrictProtected desired) (dvf_UseDdnsRestrictProtected observed)),
      \<lambda>desired observed. assign (\<lambda>v. desired\<lparr>dvf_DdnsRestrictSecure := v\<rparr>)
         (gatedLateInitPtr (dvf_UseDdnsPrincipalSecurity desired) (dvf_UseDdnsPrincipalSecurity observed) (dvf_DdnsRestrictSecure desired) (dvf_DdnsRestrictSecure observed)),
      \<lambda>desired observed. assign (\<lambda>v. desired\<lparr>dvf_DdnsRestrictStatic := v\<rparr>)
         (gatedLateInitPtr (dvf_UseDdnsRestrictStatic desired) (dvf_UseDdnsRestrictStatic observed) (dvf_DdnsRestrictStatic desired) (dvf_DdnsRestrictStatic observed)),
      \<lambda>desired observed. assign (\<lambda>v. desired\<lparr>dvf_UseDdnsRestrictStatic := v\<rparr>)
         (lateInitPtr (dvf_UseDdnsRestrictStatic desired) (dvf_UseDdnsRestrictStatic observed)),
      \<lambda>desired observed. assign (\<lambda>v. desired\<lparr>dvf_Dns64Enabled := v\<rparr>)
         (gatedLateInitPtr (dvf_UseDns64 desired) (dvf_UseDns64 observed) (dvf_Dns64Enabled desired) (dvf_Dns64Enabled observed)),
      \<lambda>desired observed. assign (\<lambda>v. desired\<lparr>dvf_Dns64Groups := v\<rparr>)
         (gatedLateInitStringSlice (dvf_UseDns64 desired) (dvf_UseDns64 observed) (dvf_Dns64Groups desired) (dvf_Dns64Groups observed)),
      \<lambda>desired observed. assign (\<lambda>v. desired\<lparr>dvf_UseDns64 := v\<rparr>)
         (lateInitPtr (dvf_UseDns64 desired) (dvf_UseDns64 observed)),
      \<lambda>desired observed. assign (\<lambda>v. desired\<lparr>dvf_DnssecEnabled := v\<rparr>)
         (gatedLateInitPtr (dvf_UseDnssec desired) (dvf_UseDnssec observed) (dvf_DnssecEnabled desired) (dvf_DnssecEnabled observed)),
      \<lambda>desired observed. assign (\<lambda>v. desired\<lparr>dvf_DnssecExpiredSignaturesEnabled := v\<rparr>)
         (gatedLateInitPtr (dvf_UseDnssec desired) (dvf_UseDnssec observed) (dvf_DnssecExpiredSignaturesEnabled desired) (dvf_DnssecExpiredSignaturesEnabled observed)),
      \<lambda>desired observed. assign (\<lambda>v. desired\<lparr>dvf_DnssecNegativeTrustAnchors := v\<rparr>)
         (lateInitStringSlice (dvf_DnssecNegativeTrustAnchors desired) (dvf_DnssecNegativeTrustAnchors observed)),
      \<lambda>desired observed. assign (\<lambda>v. desired\<lparr>dvf_DnssecValidationEnabled := v\<rparr>)
         (gatedLateInitPtr (dvf_UseDnssec desired) (dvf_UseDnssec observed) (dvf_DnssecValidationEnabled desired) (dvf_DnssecValidationEnabled observed)),
      \<lambda>desired observed. assign (\<lambda>v. desired\<lparr>dvf_UseDnssec := v\<rparr>)
         (lateInitPtr (dvf_UseDnssec desired) (dvf_UseDnssec observed)),
      \<lambda>desired observed. assign (\<lambda>v. desired\<lparr>dvf_EnableFixedRrsetOrderFqdns := v\<rparr>)
         (gatedLateInitPtr (dvf_UseFixedRrsetOrderFqdns desired) (dvf_UseFixedRrsetOrderFqdns observed) (dvf_EnableFixedRrsetOrderFqdns desired) (dvf_EnableFixedRrsetOrderFqdns observed)),
      \<lambda>desired observed. assign (\<lambda>v. desired\<lparr>dvf_UseFixedRrsetOrderFqdns := v\<rparr>)
         (lateInitPtr (dvf_UseFixedRrsetOrderFqdns desired) (dvf_UseFixedRrsetOrderFqdns observed)),
      \<lambda>desired observed. assign (\<lambda>v. desired\<lparr>dvf_EnableMatchRecursiveOnly := v\<rparr>)
         (lateInitPtr (dvf_EnableMatchRecursiveOnly desired) (dvf_EnableMatchRecursiveOnly observed)),
      \<lambda>desired observed. assign (\<lambda>v. desired\<lparr>dvf_FilterAaaa := v\<rparr>)
         (gatedLateInitStringPtr (dvf_UseFilterAaaa desired) (dvf_UseFilterAaaa observed) (dvf_FilterAaaa desired) (dvf_FilterAaaa observed)),
      \<lambda>desired observed. assign (\<lambda>v. desired\<lparr>dvf_UseFilterAaaa := v\<rparr>)
         (lateInitPtr (dvf_UseFilterAaaa desired) (dvf_UseFilterAaaa observed)),
      \<lambda>desired observed. assign (\<lambda>v. desired\<lparr>dvf_ForwardOnly := v\<rparr>)
         (gatedLateInitPtr (dvf_UseForwarders desired) (dvf_UseForwarders observed) (dvf_ForwardOnly desired) (dvf_ForwardOnly observed)),
      \<lambda>desired observed. assign (\<lambda>v. desired\<lparr>dvf_Forwarders := v\<rparr>)
         (gatedLateInitStringSlice (dvf_UseForwarders desired) (dvf_UseForwarders observed) (dvf_Forwarders desired) (dvf_Forwarders observed)),
      \<lambda>desired observed. assign (\<lambda>v. desired\<lparr>dvf_UseForwarders := v\<rparr>)
         (lateInitPtr (dvf_UseForwarders desired) (dvf_UseForwarders observed)),
      \<lambda>desired observed. assign (\<lambda>v. desired\<lparr>dvf_LameTTL := v\<rparr>)
         (gatedLateInitPtr (dvf_UseLameTTL desired) (dvf_UseLameTTL observed) (dvf_LameTTL desired) (dvf_LameTTL observed)),
      \<lambda>desired observed. assign (\<lambda>v. desired\<lparr>dvf_UseLameTTL := v\<rparr>)
         (lateInitPtr (dvf_UseLameTTL desired) (dvf_UseLameTTL observed)),
      \<lambda>desired observed. assign (\<lambda>v. desired\<lparr>dvf_MaxCacheTTL := v\<rparr>)
         (gatedLateInitPtr (dvf_UseMaxCacheTTL desired) (dvf_UseMaxCacheTTL observed) (dvf_MaxCacheTTL desired) (dvf_MaxCacheTTL observed)),
      \<lambda>desired observed. assign (\<lambda>v. desired\<lparr>dvf_UseMaxCacheTTL := v\<rparr>)
         (lateInitPtr (dvf_UseMaxCacheTTL desired) (dvf_UseMaxCacheTTL observed)),
      \<lambda>desired observed. assign (\<lambda>v. desired\<lparr>dvf_MaxNcacheTTL := v\<rparr>)
         (gatedLateInitPtr (dvf_UseMaxNcacheTTL desired) (dvf_UseMaxNcacheTTL observed) (dvf_MaxNcacheTTL desired) (dvf_MaxNcacheTTL observed)),
      \<lambda>desired observed. assign (\<lambda>v. desired\<lparr>dvf_UseMaxNcacheTTL := v\<rparr>)
         (lateInitPtr (dvf_UseMaxNcacheTTL desired) (dvf_UseMaxNcacheTTL observed)),
      \<lambda>desired observed. assign (\<lambda>v. desired\<lparr>dvf_NotifyDelay := v\<rparr>)
         (lateInitPtr (dvf_NotifyDelay desired) (dvf_NotifyDelay observed)),
      \<lambda>desired observed. assign (\<lambda>v. desired\<lparr>dvf_NxdomainLogQuery := v\<rparr>)
         (gatedLateInitPtr (dvf_UseNxdomainRedirect desired) (dvf_UseNxdomainRedirect observed) (dvf_NxdomainLogQuery desired) (dvf_NxdomainLogQuery observed)),
      \<lambda>desired observed. assign (\<lambda>v. desired\<lparr>dvf_NxdomainRedirect := v\<rparr>)
         (gatedLateInitPtr (dvf_UseNxdomainRedirect desired) (dvf_UseNxdomainRedirect observed) (dvf_NxdomainRedirect desired) (dvf_NxdomainRedirect observed)),
      \<lambda>desired observed. assign (\<lambda>v. desired\<lparr>dvf_NxdomainRedirectAddresses := v\<rparr>)
         (gatedLateInitStringSlice (dvf_UseNxdomainRedirect desired) (dvf_UseNxdomainRedirect observed) (dvf_NxdomainRedirectAddresses desired) (dvf_NxdomainRedirectAddresses observed)),
      \<lambda>desired observed. assign (\<lambda>v. desired\<lparr>dvf_NxdomainRedirectAddressesV6 := v\<rparr>)
         (gatedLateInitStringSlice (dvf_UseNxdomainRedirect desired) (dvf_UseNxdomainRedirect observed) (dvf_NxdomainRedirectAddressesV6 desired) (dvf_NxdomainRedirectAddressesV6 observed)),
      \<lambda>desired observed. assign (\<lambda>v. desired\<lparr>dvf_NxdomainRedirectTTL := v\<rparr>)
         (gatedLateInitPtr (dvf_UseNxdomainRedirect desired) (dvf_UseNxdomainRedirect observed) (dvf_NxdomainRedirectTTL desired) (dvf_NxdomainRedirectTTL observed)),
      \<lambda>desired observed. assign (\<lambda>v. desired\<lparr>dvf_NxdomainRulesets := v\<rparr>)
         (gatedLateInitStringSlice (dvf_UseNxdomainRedirect desired) (dvf_UseNxdomainRedirect observed) (dvf_NxdomainRulesets desired) (dvf_NxdomainRulesets observed)),
      \<lambda>desired observed. assign (\<lambda>v. desired\<lparr>dvf_UseNxdomainRedirect := v\<rparr>)
         (lateInitPtr (dvf_UseNxdomainRedirect desired) (dvf_UseNxdomainRedirect observed)),
      \<lambda>desired observed. assign (\<lambda>v. desired\<lparr>dvf_Recursion := v\<rparr>)
         (gatedLateInitPtr (dvf_UseRecursion desired) (dvf_UseRecursion observed) (dvf_Recursion desired) (dvf_Recursion observed)),
      \<lambda>desired observed. assign (\<lambda>v. desired\<lparr>dvf_UseRecursion := v\<rparr>)
         (lateInitPtr (dvf_UseRecursion desired) (dvf_UseRecursion observed)),
      \<lambda>desired observed. assign (\<lambda>v. desired\<lparr>dvf_UseResponseRateLimiting := v\<rparr>)
         (lateInitPtr (dvf_UseResponseRateLimiting desired) (dvf_UseResponseRateLimiting observed)),
      \<lambda>desired observed. assign (\<lambda>v. desired\<lparr>dvf_RpzDropIPRuleEnabled := v\<rparr>)
         (gatedLateInitPtr (dvf_UseRpzDropIPRule desired) (dvf_UseRpzDropIPRule observed) (dvf_RpzDropIPRuleEnabled desired) (dvf_RpzDropIPRuleEnabled observed)),
      \<lambda>desired observed. assign (\<lambda>v. desired\<lparr>dvf_RpzDropIPRuleMinPrefixLengthIPv4 := v\<rparr>)
         (gatedLateInitPtr (dvf_UseRpzDropIPRule desired) (dvf_UseRpzDropIPRule observed) (dvf_RpzDropIPRuleMinPrefixLengthIPv4 desired) (dvf_RpzDropIPRuleMinPrefixLengthIPv4 observed)),
      \<lambda>desired observed. assign (\<lambda>v. desired\<lparr>dvf_RpzDropIPRuleMinPrefixLengthIPv6 := v\<rparr>)
         (gatedLateInitPtr (dvf_UseRpzDropIPRule desired) (dvf_UseRpzDropIPRule observed) (dvf_RpzDropIPRuleMinPrefixLengthIPv6 desired) (dvf_RpzDropIPRuleMinPrefixLengthIPv6 observed)),
      \<lambda>desired observed. assign (\<lambda>v. desired\<lparr>dvf_UseRpzDropIPRule := v\<rparr>)
         (lateInitPtr (dvf_UseRpzDropIPRule desired) (dvf_UseRpzDropIPRule observed)),
      \<lambda>desired observed. assign (\<lambda>v. desired\<lparr>dvf_RpzQnameWaitRecurse := v\<rparr>)
         (gatedLateInitPtr (dvf_UseRpzQnameWaitRecurse desired) (dvf_UseRpzQnameWaitRecurse observed) (dvf_RpzQnameWaitRecurse desired) (dvf_RpzQnameWaitRecurse observed)),
      \<lambda>desired observed. assign (\<lambda>v. desired\<lparr>dvf_UseRpzQnameWaitRecurse := v\<rparr>)
         (lateInitPtr (dvf_UseRpzQnameWaitRecurse desired) (dvf_UseRpzQnameWaitRecurse observed)),
      \<lambda>desired observed. assign (\<lambda>v. desired\<lparr>dvf_UseScavengingSettings := v\<rparr>)
         (lateInitPtr (dvf_UseScavengingSettings desired) (dvf_UseScavengingSettings observed)),
      \<lambda>desired observed. assign (\<lambda>v. desired\<lparr>dvf_UseSortlist := v\<rparr>)
         (lateInitPtr (dvf_UseSortlist desired) (dvf_UseSortlist observed)),
      \<lambda>desired observed. assign (\<lambda>v. desired\<lparr>dvf_ExtAttrs := v\<rparr>)
         (lateInitMap (dvf_ExtAttrs desired) (dvf_ExtAttrs observed)),
      \<lambda>desired observed. assign (\<lambda>v. desired\<lparr>dvf_CustomRootNameServers := v\<rparr>)
         (gatedLateInitNestedSlice (dvf_UseRootNameServer desired) (dvf_UseRootNameServer observed) (dvf_CustomRootNameServers desired) (dvf_CustomRootNameServers observed)),
      \<lambda>desired observed. assign (\<lambda>v. desired\<lparr>dvf_DnssecTrustedKeys := v\<rparr>)
         (gatedLateInitNestedSlice (dvf_UseDnssec desired) (dvf_UseDnssec observed) (dvf_DnssecTrustedKeys desired) (dvf_DnssecTrustedKeys observed)),
      \<lambda>desired observed. assign (\<lambda>v. desired\<lparr>dvf_FixedRrsetOrderFqdns := v\<rparr>)
         (gatedLateInitNestedSlice (dvf_UseFixedRrsetOrderFqdns desired) (dvf_UseFixedRrsetOrderFqdns observed) (dvf_FixedRrsetOrderFqdns desired) (dvf_FixedRrsetOrderFqdns observed)),
      \<lambda>desired observed. assign (\<lambda>v. desired\<lparr>dvf_FilterAaaaList := v\<rparr>)
         (gatedLateInitNestedSlice (dvf_UseFilterAaaa desired) (dvf_UseFilterAaaa observed) (dvf_FilterAaaaList desired) (dvf_FilterAaaaList observed)),
      \<lambda>desired observed. assign (\<lambda>v. desired\<lparr>dvf_MatchClients := v\<rparr>)
         (lateInitNestedSlice (dvf_MatchClients desired) (dvf_MatchClients observed)),
      \<lambda>desired observed. assign (\<lambda>v. desired\<lparr>dvf_MatchDestinations := v\<rparr>)
         (lateInitNestedSlice (dvf_MatchDestinations desired) (dvf_MatchDestinations observed)),
      \<lambda>desired observed. assign (\<lambda>v. desired\<lparr>dvf_Sortlist := v\<rparr>)
         (gatedLateInitNestedSlice (dvf_UseSortlist desired) (dvf_UseSortlist observed) (dvf_Sortlist desired) (dvf_Sortlist observed)),
      \<lambda>desired observed. assign (\<lambda>v. desired\<lparr>dvf_ResponseRateLimiting := v\<rparr>)
         (gatedLateInitPtr (dvf_UseResponseRateLimiting desired) (dvf_UseResponseRateLimiting observed) (dvf_ResponseRateLimiting desired) (dvf_ResponseRateLimiting observed)),
      \<lambda>desired observed. assign (\<lambda>v. desired\<lparr>dvf_ScavengingSettings := v\<rparr>)
         (gatedLateInitPtr (dvf_UseScavengingSettings desired) (dvf_UseScavengingSettings observed) (dvf_ScavengingSettings desired) (dvf_ScavengingSettings observed))]"

fun lateInitOpsLoop ::
  "(dnsViewFields \<Rightarrow> dnsViewFields \<Rightarrow> dnsViewFields \<times> bool) list \<Rightarrow> dnsViewFields \<Rightarrow> dnsViewFields \<Rightarrow> bool \<Rightarrow>
     dnsViewFields \<times> bool" where
  "lateInitOpsLoop [] desired observed changed = (desired, changed)"
| "lateInitOpsLoop (f # ops) desired observed changed =
     (case f desired observed of (desired1, c) \<Rightarrow> lateInitOpsLoop ops desired1 observed (c \<or> changed))"

definition DNSView_lateInitializeFields :: "dnsViewFields \<Rightarrow> dnsViewFields \<Rightarrow> dnsViewFields \<times> bool" where
  "DNSView_lateInitializeFields desired observed = lateInitOpsLoop dnsViewLateInitOps desired observed False"

section \<open>SDK calls\<close>

definition emptyViewObj :: ViewObj where
  "emptyViewObj = \<lparr>vwr_Ref = [], vwr_Name = None, vwr_Comment = None, vwr_NetworkView = None, vwr_Disable = None,
      vwr_BlacklistAction = [], vwr_BlacklistLogQuery = None, vwr_BlacklistRedirectAddresses = [],
      vwr_BlacklistRedirectTtl = None, vwr_BlacklistRulesets = [], vwr_UseBlacklist = None,
      vwr_EnableBlacklist = None, vwr_RootNameServerType = [], vwr_UseRootNameServer = None,
      vwr_DdnsForceCreationTimestampUpdate = None, vwr_UseDdnsForceCreationTimestampUpdate = None,
      vwr_DdnsPrincipalGroup = None, vwr_DdnsPrincipalTracking = None, vwr_UseDdnsPrincipalSecurity = None,
      vwr_DdnsRestrictPatterns = None, vwr_DdnsRestrictPatternsList = [], vwr_UseDdnsPatternsRestriction = None,
      vwr_DdnsRestrictProtected = None, vwr_UseDdnsRestrictProtected = None, vwr_DdnsRestrictSecure = None,
      vwr_DdnsRestrictStatic = None, vwr_UseDdnsRestrictStatic = None, vwr_Dns64Enabled = None,
      vwr_Dns64Groups = [], vwr_UseDns64 = None, vwr_DnssecEnabled = None,
      vwr_DnssecExpiredSignaturesEnabled = None, vwr_DnssecNegativeTrustAnchors = [],
      vwr_DnssecValidationEnabled = None, vwr_UseDnssec = None, vwr_EnableFixedRrsetOrderFqdns = None,
      vwr_UseFixedRrsetOrderFqdns = None, vwr_EnableMatchRecursiveOnly = None, vwr_FilterAaaa = [],
      vwr_UseFilterAaaa = None, vwr_ForwardOnly = None, vwr_Forwarders = [], vwr_UseForwarders = None,
      vwr_LameTtl = None, vwr_UseLameTtl = None, vwr_MaxCacheTtl = None, vwr_UseMaxCacheTtl = None,
      vwr_MaxNcacheTtl = None, vwr_UseMaxNcacheTtl = None, vwr_NotifyDelay = None, vwr_NxdomainLogQuery = None,
      vwr_NxdomainRedirect = None, vwr_NxdomainRedirectAddresses = [], vwr_NxdomainRedirectAddressesV6 = [],
      vwr_NxdomainRedirectTtl = None, vwr_NxdomainRulesets = [], vwr_UseNxdomainRedirect = None,
      vwr_Recursion = None, vwr_UseRecursion = None, vwr_UseResponseRateLimiting = None,
      vwr_RpzDropIpRuleEnabled = None, vwr_RpzDropIpRuleMinPrefixLengthIpv4 = None,
      vwr_RpzDropIpRuleMinPrefixLengthIpv6 = None, vwr_UseRpzDropIpRule = None, vwr_RpzQnameWaitRecurse = None,
      vwr_UseRpzQnameWaitRecurse = None, vwr_UseScavengingSettings = None, vwr_UseSortlist = None,
      vwr_Ea = fmempty, vwr_CustomRootNameServers = [], vwr_DnssecTrustedKeys = [], vwr_FixedRrsetOrderFqdns = [],
      vwr_FilterAaaaList = [], vwr_MatchClients = [], vwr_MatchDestinations = [], vwr_Sortlist = [],
      vwr_ResponseRateLimiting = None, vwr_ScavengingSettings = None, vwr_IsDefault = False, vwr_CloudInfo = None\<rparr>"

definition reflectViewObj :: "ViewObj \<Rightarrow> goany" where
  "reflectViewObj v = PtrTo ''*ibclient.View''
     [(''Ref'', FString (vwr_Ref v)), (''Name'', FOther), (''Comment'', FOther), (''NetworkView'', FOther),
      (''Disable'', FOther), (''BlacklistAction'', FString (vwr_BlacklistAction v)),
      (''BlacklistLogQuery'', FOther), (''BlacklistRedirectAddresses'', FOther),
      (''BlacklistRedirectTtl'', FOther), (''BlacklistRulesets'', FOther), (''UseBlacklist'', FOther),
      (''EnableBlacklist'', FOther), (''RootNameServerType'', FString (vwr_RootNameServerType v)),
      (''UseRootNameServer'', FOther), (''DdnsForceCreationTimestampUpdate'', FOther),
      (''UseDdnsForceCreationTimestampUpdate'', FOther), (''DdnsPrincipalGroup'', FOther),
      (''DdnsPrincipalTracking'', FOther), (''UseDdnsPrincipalSecurity'', FOther),
      (''DdnsRestrictPatterns'', FOther), (''DdnsRestrictPatternsList'', FOther),
      (''UseDdnsPatternsRestriction'', FOther), (''DdnsRestrictProtected'', FOther),
      (''UseDdnsRestrictProtected'', FOther), (''DdnsRestrictSecure'', FOther), (''DdnsRestrictStatic'', FOther),
      (''UseDdnsRestrictStatic'', FOther), (''Dns64Enabled'', FOther), (''Dns64Groups'', FOther),
      (''UseDns64'', FOther), (''DnssecEnabled'', FOther), (''DnssecExpiredSignaturesEnabled'', FOther),
      (''DnssecNegativeTrustAnchors'', FOther), (''DnssecValidationEnabled'', FOther), (''UseDnssec'', FOther),
      (''EnableFixedRrsetOrderFqdns'', FOther), (''UseFixedRrsetOrderFqdns'', FOther),
      (''EnableMatchRecursiveOnly'', FOther), (''FilterAaaa'', FString (vwr_FilterAaaa v)),
      (''UseFilterAaaa'', FOther), (''ForwardOnly'', FOther), (''Forwarders'', FOther),
      (''UseForwarders'', FOther), (''LameTtl'', FOther), (''UseLameTtl'', FOther), (''MaxCacheTtl'', FOther),
      (''UseMaxCacheTtl'', FOther), (''MaxNcacheTtl'', FOther), (''UseMaxNcacheTtl'', FOther),
      (''NotifyDelay'', FOther), (''NxdomainLogQuery'', FOther), (''NxdomainRedirect'', FOther),
      (''NxdomainRedirectAddresses'', FOther), (''NxdomainRedirectAddressesV6'', FOther),
      (''NxdomainRedirectTtl'', FOther), (''NxdomainRulesets'', FOther), (''UseNxdomainRedirect'', FOther),
      (''Recursion'', FOther), (''UseRecursion'', FOther), (''UseResponseRateLimiting'', FOther),
      (''RpzDropIpRuleEnabled'', FOther), (''RpzDropIpRuleMinPrefixLengthIpv4'', FOther),
      (''RpzDropIpRuleMinPrefixLengthIpv6'', FOther), (''UseRpzDropIpRule'', FOther),
      (''RpzQnameWaitRecurse'', FOther), (''UseRpzQnameWaitRecurse'', FOther),
      (''UseScavengingSettings'', FOther), (''UseSortlist'', FOther), (''Ea'', FEA (vwr_Ea v)),
      (''CustomRootNameServers'', FOther), (''DnssecTrustedKeys'', FOther), (''FixedRrsetOrderFqdns'', FOther),
      (''FilterAaaaList'', FOther), (''MatchClients'', FOther), (''MatchDestinations'', FOther),
      (''Sortlist'', FOther), (''ResponseRateLimiting'', FOther), (''ScavengingSettings'', FOther),
      (''IsDefault'', FOther), (''CloudInfo'', FOther)]"

text \<open>newViewForGet, whose return fields the Grid fills.\<close>

definition ViewObj_type :: "ViewObj objtype" where
  "ViewObj_type = \<lparr>ot_name = ''view'', ot_empty = emptyViewObj, ot_reflect = reflectViewObj\<rparr>"

text \<open>CreateObject and UpdateObject of the connector, with the object; both answer with the reference.\<close>

datatype view_req =
    CreateViewObject ViewObj
  | UpdateViewObject ViewObj string

type_synonym vw_env = "(ViewObj, view_req) wapi"
type_synonym vw_world = "view_req world"

definition createView :: "vw_env \<Rightarrow> dnsViewFields \<Rightarrow> string \<Rightarrow> vw_world \<Rightarrow> (goerr + string) \<times> vw_world" where
  "createView env f uid w =
     (if trim_space uid = [] then (Inl (TextError DNSView_errEmptyUID), w)
      else
        (let v = buildView f; v1 = v\<lparr>vwr_Ea := Stamp (vwr_Ea v) uid\<rparr> in
         case mutate_object env (CreateViewObject v1) w of
           (Inl err, w1) \<Rightarrow> (Inl err, w1)
         | (Inr x, w1) \<Rightarrow> (Inr (vwr_Ref x), w1)))"

definition updateView :: "vw_env \<Rightarrow> string \<Rightarrow> dnsViewFields \<Rightarrow> string \<Rightarrow> vw_world \<Rightarrow> (goerr + string) \<times> vw_world" where
  "updateView env ref f uid w =
     (if trim_space uid = [] then (Inl (TextError DNSView_errEmptyUID), w)
      else
        (let v = buildView f; v1 = v\<lparr>vwr_Ea := Stamp (vwr_Ea v) uid\<rparr> in
         case mutate_object env (UpdateViewObject v1 ref) w of
           (Inl err, w1) \<Rightarrow> (Inl err, w1)
         | (Inr x, w1) \<Rightarrow> (Inr (vwr_Ref x), w1)))"

definition deleteView :: "vw_env \<Rightarrow> string \<Rightarrow> vw_world \<Rightarrow> goerr option \<times> vw_world" where
  "deleteView env ref w =
     (case delete_object env ref w of
        (Inl err, w1) \<Rightarrow> (Some err, w1)
      | (Inr _, w1) \<Rightarrow> (None, w1))"

section \<open>Identity resolution\<close>

definition resolveViewIdentity ::
  "vw_env \<Rightarrow> string \<Rightarrow> string \<Rightarrow> vw_world \<Rightarrow> (goerr + ViewObj option \<times> Outcome) \<times> vw_world" where
  "resolveViewIdentity env ref uid w = Resolve env ViewObj_type ref uid w"

definition deleteViewIdentity :: "vw_env \<Rightarrow> string \<Rightarrow> string \<Rightarrow> string \<Rightarrow> vw_world \<Rightarrow> goerr option \<times> vw_world" where
  "deleteViewIdentity env endpoint ref uid w =
     (case resolveViewIdentity env ref uid w of
        (Inl err, w1) \<Rightarrow>
          if IsSearchFailure err then
            (case ensureIdentityPrerequisite env endpoint w1 of
               (Some prereqErr, w2) \<Rightarrow> (Some prereqErr, w2)
             | (None, w2) \<Rightarrow> (Some (Wrapped errDeleteDNSView err), w2))
          else (Some (Wrapped errDeleteDNSView err), w1)
      | (Inr (obj, outcome), w1) \<Rightarrow>
          (case outcome of
             OutcomeNotFound \<Rightarrow> (None, w1)
           | OutcomeAdopted \<Rightarrow> (Some (TextError errDeleteUnverifiedOwnership), w1)
           | _ \<Rightarrow>
               (case obj of
                  None \<Rightarrow> (Some (TextError nilDereference), w1)
                | Some v \<Rightarrow>
                    (case deleteView env (vwr_Ref v) w1 of
                       (None, w2) \<Rightarrow> (None, w2)
                     | (Some delErr, w2) \<Rightarrow>
                         if isNotFound (Some delErr) then (None, w2)
                         else (Some (Wrapped errDeleteDNSView delErr), w2)))))"

section \<open>The external clients\<close>

subsection \<open>namespaced.go\<close>

definition nameServerValueFromNamespaced :: "DNSViewNameServer \<Rightarrow> nameServerValue" where
  "nameServerValueFromNamespaced x =
     \<lparr>nsv_Address = dvn_Address x, nsv_Name = dvn_Name x,
       nsv_SharedWithMsParentDelegation = dvn_SharedWithMsParentDelegation x, nsv_Stealth = dvn_Stealth x,
       nsv_TsigKey = dvn_TsigKey x, nsv_TsigKeyAlg = dvn_TsigKeyAlg x, nsv_TsigKeyName = dvn_TsigKeyName x,
       nsv_UseTsigKeyName = dvn_UseTsigKeyName x\<rparr>"

definition nameServerValueToNamespaced :: "nameServerValue \<Rightarrow> DNSViewNameServer" where
  "nameServerValueToNamespaced x =
     \<lparr>dvn_Address = nsv_Address x, dvn_Name = nsv_Name x,
       dvn_SharedWithMsParentDelegation = nsv_SharedWithMsParentDelegation x, dvn_Stealth = nsv_Stealth x,
       dvn_TsigKey = nsv_TsigKey x, dvn_TsigKeyAlg = nsv_TsigKeyAlg x, dvn_TsigKeyName = nsv_TsigKeyName x,
       dvn_UseTsigKeyName = nsv_UseTsigKeyName x\<rparr>"

definition nameServerValuesFromNamespaced :: "DNSViewNameServer list \<Rightarrow> nameServerValue list" where
  "nameServerValuesFromNamespaced xs = (if xs = [] then [] else map nameServerValueFromNamespaced xs)"

definition nameServerValuesToNamespaced :: "nameServerValue list \<Rightarrow> DNSViewNameServer list" where
  "nameServerValuesToNamespaced xs = (if xs = [] then [] else map nameServerValueToNamespaced xs)"

definition dnssecTrustedKeyValueFromNamespaced :: "DNSViewDnssecTrustedKey \<Rightarrow> dnssecTrustedKeyValue" where
  "dnssecTrustedKeyValueFromNamespaced x =
     \<lparr>dkv_Fqdn = dvk_Fqdn x, dkv_Algorithm = dvk_Algorithm x, dkv_Key = dvk_Key x,
       dkv_SecureEntryPoint = dvk_SecureEntryPoint x, dkv_DnssecMustBeSecure = dvk_DnssecMustBeSecure x\<rparr>"

definition dnssecTrustedKeyValueToNamespaced :: "dnssecTrustedKeyValue \<Rightarrow> DNSViewDnssecTrustedKey" where
  "dnssecTrustedKeyValueToNamespaced x =
     \<lparr>dvk_Fqdn = dkv_Fqdn x, dvk_Algorithm = dkv_Algorithm x, dvk_Key = dkv_Key x,
       dvk_SecureEntryPoint = dkv_SecureEntryPoint x, dvk_DnssecMustBeSecure = dkv_DnssecMustBeSecure x\<rparr>"

definition dnssecTrustedKeyValuesFromPtrNamespaced :: "DNSViewDnssecTrustedKey option list \<Rightarrow> dnssecTrustedKeyValue list" where
  "dnssecTrustedKeyValuesFromPtrNamespaced xs = (if xs = [] then [] else List.map_filter (map_option dnssecTrustedKeyValueFromNamespaced) xs)"

definition dnssecTrustedKeyValuesToPtrNamespaced :: "dnssecTrustedKeyValue list \<Rightarrow> DNSViewDnssecTrustedKey option list" where
  "dnssecTrustedKeyValuesToPtrNamespaced xs = (if xs = [] then [] else map (\<lambda>x. Some (dnssecTrustedKeyValueToNamespaced x)) xs)"

definition addressAcValueFromNamespaced :: "DNSViewAddressAc \<Rightarrow> addressAcValue" where
  "addressAcValueFromNamespaced x =
     \<lparr>aav_Address = dva_Address x, aav_Permission = dva_Permission x, aav_TsigKey = dva_TsigKey x,
       aav_TsigKeyAlg = dva_TsigKeyAlg x, aav_TsigKeyName = dva_TsigKeyName x,
       aav_UseTsigKeyName = dva_UseTsigKeyName x\<rparr>"

definition addressAcValueToNamespaced :: "addressAcValue \<Rightarrow> DNSViewAddressAc" where
  "addressAcValueToNamespaced x =
     \<lparr>dva_Address = aav_Address x, dva_Permission = aav_Permission x, dva_TsigKey = aav_TsigKey x,
       dva_TsigKeyAlg = aav_TsigKeyAlg x, dva_TsigKeyName = aav_TsigKeyName x,
       dva_UseTsigKeyName = aav_UseTsigKeyName x\<rparr>"

definition addressAcValuesFromPtrNamespaced :: "DNSViewAddressAc option list \<Rightarrow> addressAcValue list" where
  "addressAcValuesFromPtrNamespaced xs = (if xs = [] then [] else List.map_filter (map_option addressAcValueFromNamespaced) xs)"

definition addressAcValuesToPtrNamespaced :: "addressAcValue list \<Rightarrow> DNSViewAddressAc option list" where
  "addressAcValuesToPtrNamespaced xs = (if xs = [] then [] else map (\<lambda>x. Some (addressAcValueToNamespaced x)) xs)"

definition fixedRrsetOrderFqdnValueFromNamespaced :: "DNSViewFixedRrsetOrderFqdn \<Rightarrow> fixedRrsetOrderFqdnValue" where
  "fixedRrsetOrderFqdnValueFromNamespaced x =
     \<lparr>fov_Fqdn = dvo_Fqdn x, fov_RecordType = dvo_RecordType x\<rparr>"

definition fixedRrsetOrderFqdnValueToNamespaced :: "fixedRrsetOrderFqdnValue \<Rightarrow> DNSViewFixedRrsetOrderFqdn" where
  "fixedRrsetOrderFqdnValueToNamespaced x =
     \<lparr>dvo_Fqdn = fov_Fqdn x, dvo_RecordType = fov_RecordType x\<rparr>"

definition fixedRrsetOrderFqdnValuesFromPtrNamespaced :: "DNSViewFixedRrsetOrderFqdn option list \<Rightarrow> fixedRrsetOrderFqdnValue list" where
  "fixedRrsetOrderFqdnValuesFromPtrNamespaced xs = (if xs = [] then [] else List.map_filter (map_option fixedRrsetOrderFqdnValueFromNamespaced) xs)"

definition fixedRrsetOrderFqdnValuesToPtrNamespaced :: "fixedRrsetOrderFqdnValue list \<Rightarrow> DNSViewFixedRrsetOrderFqdn option list" where
  "fixedRrsetOrderFqdnValuesToPtrNamespaced xs = (if xs = [] then [] else map (\<lambda>x. Some (fixedRrsetOrderFqdnValueToNamespaced x)) xs)"

definition expressionOpValueFromNamespaced :: "DNSViewExpressionOp \<Rightarrow> expressionOpValue" where
  "expressionOpValueFromNamespaced x =
     \<lparr>eov_Op = dve_Op x, eov_Op1 = dve_Op1 x, eov_Op1Type = dve_Op1Type x, eov_Op2 = dve_Op2 x,
       eov_Op2Type = dve_Op2Type x\<rparr>"

definition expressionOpValueToNamespaced :: "expressionOpValue \<Rightarrow> DNSViewExpressionOp" where
  "expressionOpValueToNamespaced x =
     \<lparr>dve_Op = eov_Op x, dve_Op1 = eov_Op1 x, dve_Op1Type = eov_Op1Type x, dve_Op2 = eov_Op2 x,
       dve_Op2Type = eov_Op2Type x\<rparr>"

definition expressionOpValuesFromPtrNamespaced :: "DNSViewExpressionOp option list \<Rightarrow> expressionOpValue list" where
  "expressionOpValuesFromPtrNamespaced xs = (if xs = [] then [] else List.map_filter (map_option expressionOpValueFromNamespaced) xs)"

definition expressionOpValuesToPtrNamespaced :: "expressionOpValue list \<Rightarrow> DNSViewExpressionOp option list" where
  "expressionOpValuesToPtrNamespaced xs = (if xs = [] then [] else map (\<lambda>x. Some (expressionOpValueToNamespaced x)) xs)"

definition eaExpressionOpValueFromNamespaced :: "DNSViewEaExpressionOp \<Rightarrow> eaExpressionOpValue" where
  "eaExpressionOpValueFromNamespaced x =
     \<lparr>eev_Op = dvx_Op x, eev_Op1 = dvx_Op1 x, eev_Op1Type = dvx_Op1Type x, eev_Op2 = dvx_Op2 x,
       eev_Op2Type = dvx_Op2Type x\<rparr>"

definition eaExpressionOpValueToNamespaced :: "eaExpressionOpValue \<Rightarrow> DNSViewEaExpressionOp" where
  "eaExpressionOpValueToNamespaced x =
     \<lparr>dvx_Op = eev_Op x, dvx_Op1 = eev_Op1 x, dvx_Op1Type = eev_Op1Type x, dvx_Op2 = eev_Op2 x,
       dvx_Op2Type = eev_Op2Type x\<rparr>"

definition eaExpressionOpValuesFromPtrNamespaced :: "DNSViewEaExpressionOp option list \<Rightarrow> eaExpressionOpValue list" where
  "eaExpressionOpValuesFromPtrNamespaced xs = (if xs = [] then [] else List.map_filter (map_option eaExpressionOpValueFromNamespaced) xs)"

definition eaExpressionOpValuesToPtrNamespaced :: "eaExpressionOpValue list \<Rightarrow> DNSViewEaExpressionOp option list" where
  "eaExpressionOpValuesToPtrNamespaced xs = (if xs = [] then [] else map (\<lambda>x. Some (eaExpressionOpValueToNamespaced x)) xs)"

definition responseRateLimitingValueFromNamespaced :: "DNSViewResponseRateLimiting option \<Rightarrow> responseRateLimitingValue option" where
  "responseRateLimitingValueFromNamespaced p = (case p of None \<Rightarrow> None | Some x \<Rightarrow> Some
     \<lparr>rlv_EnableRrl = dvr_EnableRrl x, rlv_LogOnly = dvr_LogOnly x,
       rlv_ResponsesPerSecond = dvr_ResponsesPerSecond x, rlv_Window = dvr_Window x, rlv_Slip = dvr_Slip x\<rparr>)"

definition responseRateLimitingValueToNamespaced :: "responseRateLimitingValue option \<Rightarrow> DNSViewResponseRateLimiting option" where
  "responseRateLimitingValueToNamespaced p = (case p of None \<Rightarrow> None | Some x \<Rightarrow> Some
     \<lparr>dvr_EnableRrl = rlv_EnableRrl x, dvr_LogOnly = rlv_LogOnly x,
       dvr_ResponsesPerSecond = rlv_ResponsesPerSecond x, dvr_Window = rlv_Window x, dvr_Slip = rlv_Slip x\<rparr>)"

definition sortlistEntryValueFromNamespaced :: "DNSViewSortlistEntry \<Rightarrow> sortlistEntryValue" where
  "sortlistEntryValueFromNamespaced x =
     \<lparr>sev_Address = dvs_Address x, sev_MatchList = dvs_MatchList x\<rparr>"

definition sortlistEntryValueToNamespaced :: "sortlistEntryValue \<Rightarrow> DNSViewSortlistEntry" where
  "sortlistEntryValueToNamespaced x =
     \<lparr>dvs_Address = sev_Address x, dvs_MatchList = sev_MatchList x\<rparr>"

definition sortlistEntryValuesFromPtrNamespaced :: "DNSViewSortlistEntry option list \<Rightarrow> sortlistEntryValue list" where
  "sortlistEntryValuesFromPtrNamespaced xs = (if xs = [] then [] else List.map_filter (map_option sortlistEntryValueFromNamespaced) xs)"

definition sortlistEntryValuesToPtrNamespaced :: "sortlistEntryValue list \<Rightarrow> DNSViewSortlistEntry option list" where
  "sortlistEntryValuesToPtrNamespaced xs = (if xs = [] then [] else map (\<lambda>x. Some (sortlistEntryValueToNamespaced x)) xs)"

definition scavengingScheduleValueFromNamespaced :: "DNSViewScavengingSchedule option \<Rightarrow> scavengingScheduleValue option" where
  "scavengingScheduleValueFromNamespaced p = (case p of None \<Rightarrow> None | Some x \<Rightarrow> Some
     \<lparr>scv_Weekdays = dvc_Weekdays x, scv_TimeZone = dvc_TimeZone x, scv_RecurringTime = dvc_RecurringTime x,
       scv_Frequency = dvc_Frequency x, scv_Every = dvc_Every x, scv_MinutesPastHour = dvc_MinutesPastHour x,
       scv_HourOfDay = dvc_HourOfDay x, scv_Year = dvc_Year x, scv_Month = dvc_Month x,
       scv_DayOfMonth = dvc_DayOfMonth x, scv_Repeat = dvc_Repeat x, scv_Disable = dvc_Disable x\<rparr>)"

definition scavengingScheduleValueToNamespaced :: "scavengingScheduleValue option \<Rightarrow> DNSViewScavengingSchedule option" where
  "scavengingScheduleValueToNamespaced p = (case p of None \<Rightarrow> None | Some x \<Rightarrow> Some
     \<lparr>dvc_Weekdays = scv_Weekdays x, dvc_TimeZone = scv_TimeZone x, dvc_RecurringTime = scv_RecurringTime x,
       dvc_Frequency = scv_Frequency x, dvc_Every = scv_Every x, dvc_MinutesPastHour = scv_MinutesPastHour x,
       dvc_HourOfDay = scv_HourOfDay x, dvc_Year = scv_Year x, dvc_Month = scv_Month x,
       dvc_DayOfMonth = scv_DayOfMonth x, dvc_Repeat = scv_Repeat x, dvc_Disable = scv_Disable x\<rparr>)"

definition scavengingSettingsValueFromNamespaced :: "DNSViewScavengingSettings option \<Rightarrow> scavengingSettingsValue option" where
  "scavengingSettingsValueFromNamespaced p = (case p of None \<Rightarrow> None | Some x \<Rightarrow> Some
     \<lparr>sgv_EnableScavenging = dvg_EnableScavenging x,
       sgv_EnableRecurrentScavenging = dvg_EnableRecurrentScavenging x,
       sgv_EnableAutoReclamation = dvg_EnableAutoReclamation x,
       sgv_EnableRrLastQueried = dvg_EnableRrLastQueried x,
       sgv_EnableZoneLastQueried = dvg_EnableZoneLastQueried x,
       sgv_ReclaimAssociatedRecords = dvg_ReclaimAssociatedRecords x,
       sgv_ScavengingSchedule = scavengingScheduleValueFromNamespaced (dvg_ScavengingSchedule x),
       sgv_ExpressionList = expressionOpValuesFromPtrNamespaced (dvg_ExpressionList x),
       sgv_EaExpressionList = eaExpressionOpValuesFromPtrNamespaced (dvg_EaExpressionList x)\<rparr>)"

definition scavengingSettingsValueToNamespaced :: "scavengingSettingsValue option \<Rightarrow> DNSViewScavengingSettings option" where
  "scavengingSettingsValueToNamespaced p = (case p of None \<Rightarrow> None | Some x \<Rightarrow> Some
     \<lparr>dvg_EnableScavenging = sgv_EnableScavenging x,
       dvg_EnableRecurrentScavenging = sgv_EnableRecurrentScavenging x,
       dvg_EnableAutoReclamation = sgv_EnableAutoReclamation x,
       dvg_EnableRrLastQueried = sgv_EnableRrLastQueried x,
       dvg_EnableZoneLastQueried = sgv_EnableZoneLastQueried x,
       dvg_ReclaimAssociatedRecords = sgv_ReclaimAssociatedRecords x,
       dvg_ScavengingSchedule = scavengingScheduleValueToNamespaced (sgv_ScavengingSchedule x),
       dvg_ExpressionList = expressionOpValuesToPtrNamespaced (sgv_ExpressionList x),
       dvg_EaExpressionList = eaExpressionOpValuesToPtrNamespaced (sgv_EaExpressionList x)\<rparr>)"

definition cloudInfoValueToNamespaced :: "cloudInfoValue option \<Rightarrow> DNSViewCloudInfo option" where
  "cloudInfoValueToNamespaced p = (case p of None \<Rightarrow> None | Some x \<Rightarrow>
     (let dm = (case civ_DelegatedMember x of None \<Rightarrow> None | Some m \<Rightarrow> Some
            \<lparr>dvm_Ipv4Addr = cmv_Ipv4Addr m, dvm_Ipv6Addr = cmv_Ipv6Addr m, dvm_Name = cmv_Name m\<rparr>)
      in Some \<lparr>dvi_DelegatedMember = dm, dvi_DelegatedScope = civ_DelegatedScope x,
         dvi_DelegatedRoot = civ_DelegatedRoot x, dvi_OwnedByAdaptor = civ_OwnedByAdaptor x,
         dvi_Usage = civ_Usage x, dvi_Tenant = civ_Tenant x, dvi_MgmtPlatform = civ_MgmtPlatform x,
         dvi_AuthorityType = civ_AuthorityType x\<rparr>))"

definition fieldsFromNamespacedParams :: "DNSViewParameters \<Rightarrow> dnsViewFields" where
  "fieldsFromNamespacedParams v =
     \<lparr>dvf_Name = dvp_Name v, dvf_Comment = dvp_Comment v, dvf_NetworkView = dvp_NetworkView v,
      dvf_Disable = dvp_Disable v, dvf_BlacklistAction = dvp_BlacklistAction v,
      dvf_BlacklistLogQuery = dvp_BlacklistLogQuery v,
      dvf_BlacklistRedirectAddresses = dvp_BlacklistRedirectAddresses v,
      dvf_BlacklistRedirectTTL = dvp_BlacklistRedirectTTL v, dvf_BlacklistRulesets = dvp_BlacklistRulesets v,
      dvf_UseBlacklist = dvp_UseBlacklist v, dvf_EnableBlacklist = dvp_EnableBlacklist v,
      dvf_RootNameServerType = dvp_RootNameServerType v, dvf_UseRootNameServer = dvp_UseRootNameServer v,
      dvf_DdnsForceCreationTimestampUpdate = dvp_DdnsForceCreationTimestampUpdate v,
      dvf_UseDdnsForceCreationTimestampUpdate = dvp_UseDdnsForceCreationTimestampUpdate v,
      dvf_DdnsPrincipalGroup = dvp_DdnsPrincipalGroup v, dvf_DdnsPrincipalTracking = dvp_DdnsPrincipalTracking v,
      dvf_UseDdnsPrincipalSecurity = dvp_UseDdnsPrincipalSecurity v,
      dvf_DdnsRestrictPatterns = dvp_DdnsRestrictPatterns v,
      dvf_DdnsRestrictPatternsList = dvp_DdnsRestrictPatternsList v,
      dvf_UseDdnsPatternsRestriction = dvp_UseDdnsPatternsRestriction v,
      dvf_DdnsRestrictProtected = dvp_DdnsRestrictProtected v,
      dvf_UseDdnsRestrictProtected = dvp_UseDdnsRestrictProtected v,
      dvf_DdnsRestrictSecure = dvp_DdnsRestrictSecure v, dvf_DdnsRestrictStatic = dvp_DdnsRestrictStatic v,
      dvf_UseDdnsRestrictStatic = dvp_UseDdnsRestrictStatic v, dvf_Dns64Enabled = dvp_Dns64Enabled v,
      dvf_Dns64Groups = dvp_Dns64Groups v, dvf_UseDns64 = dvp_UseDns64 v, dvf_DnssecEnabled = dvp_DnssecEnabled v,
      dvf_DnssecExpiredSignaturesEnabled = dvp_DnssecExpiredSignaturesEnabled v,
      dvf_DnssecNegativeTrustAnchors = dvp_DnssecNegativeTrustAnchors v,
      dvf_DnssecValidationEnabled = dvp_DnssecValidationEnabled v, dvf_UseDnssec = dvp_UseDnssec v,
      dvf_EnableFixedRrsetOrderFqdns = dvp_EnableFixedRrsetOrderFqdns v,
      dvf_UseFixedRrsetOrderFqdns = dvp_UseFixedRrsetOrderFqdns v,
      dvf_EnableMatchRecursiveOnly = dvp_EnableMatchRecursiveOnly v, dvf_FilterAaaa = dvp_FilterAaaa v,
      dvf_UseFilterAaaa = dvp_UseFilterAaaa v, dvf_ForwardOnly = dvp_ForwardOnly v,
      dvf_Forwarders = dvp_Forwarders v, dvf_UseForwarders = dvp_UseForwarders v, dvf_LameTTL = dvp_LameTTL v,
      dvf_UseLameTTL = dvp_UseLameTTL v, dvf_MaxCacheTTL = dvp_MaxCacheTTL v,
      dvf_UseMaxCacheTTL = dvp_UseMaxCacheTTL v, dvf_MaxNcacheTTL = dvp_MaxNcacheTTL v,
      dvf_UseMaxNcacheTTL = dvp_UseMaxNcacheTTL v, dvf_NotifyDelay = dvp_NotifyDelay v,
      dvf_NxdomainLogQuery = dvp_NxdomainLogQuery v, dvf_NxdomainRedirect = dvp_NxdomainRedirect v,
      dvf_NxdomainRedirectAddresses = dvp_NxdomainRedirectAddresses v,
      dvf_NxdomainRedirectAddressesV6 = dvp_NxdomainRedirectAddressesV6 v,
      dvf_NxdomainRedirectTTL = dvp_NxdomainRedirectTTL v, dvf_NxdomainRulesets = dvp_NxdomainRulesets v,
      dvf_UseNxdomainRedirect = dvp_UseNxdomainRedirect v, dvf_Recursion = dvp_Recursion v,
      dvf_UseRecursion = dvp_UseRecursion v, dvf_UseResponseRateLimiting = dvp_UseResponseRateLimiting v,
      dvf_RpzDropIPRuleEnabled = dvp_RpzDropIPRuleEnabled v,
      dvf_RpzDropIPRuleMinPrefixLengthIPv4 = dvp_RpzDropIPRuleMinPrefixLengthIPv4 v,
      dvf_RpzDropIPRuleMinPrefixLengthIPv6 = dvp_RpzDropIPRuleMinPrefixLengthIPv6 v,
      dvf_UseRpzDropIPRule = dvp_UseRpzDropIPRule v, dvf_RpzQnameWaitRecurse = dvp_RpzQnameWaitRecurse v,
      dvf_UseRpzQnameWaitRecurse = dvp_UseRpzQnameWaitRecurse v,
      dvf_UseScavengingSettings = dvp_UseScavengingSettings v, dvf_UseSortlist = dvp_UseSortlist v,
      dvf_ExtAttrs = dvp_ExtAttrs v,
      dvf_CustomRootNameServers = nameServerValuesFromNamespaced (dvp_CustomRootNameServers v),
      dvf_DnssecTrustedKeys = dnssecTrustedKeyValuesFromPtrNamespaced (dvp_DnssecTrustedKeys v),
      dvf_FixedRrsetOrderFqdns = fixedRrsetOrderFqdnValuesFromPtrNamespaced (dvp_FixedRrsetOrderFqdns v),
      dvf_FilterAaaaList = addressAcValuesFromPtrNamespaced (dvp_FilterAaaaList v),
      dvf_MatchClients = addressAcValuesFromPtrNamespaced (dvp_MatchClients v),
      dvf_MatchDestinations = addressAcValuesFromPtrNamespaced (dvp_MatchDestinations v),
      dvf_ResponseRateLimiting = responseRateLimitingValueFromNamespaced (dvp_ResponseRateLimiting v),
      dvf_ScavengingSettings = scavengingSettingsValueFromNamespaced (dvp_ScavengingSettings v),
      dvf_Sortlist = sortlistEntryValuesFromPtrNamespaced (dvp_Sortlist v)\<rparr>"

definition applyFieldsToNamespacedParams :: "dnsViewFields \<Rightarrow> DNSViewParameters \<Rightarrow> DNSViewParameters" where
  "applyFieldsToNamespacedParams f p =
     p\<lparr>dvp_Name := dvf_Name f, dvp_Comment := dvf_Comment f, dvp_NetworkView := dvf_NetworkView f,
      dvp_Disable := dvf_Disable f, dvp_BlacklistAction := dvf_BlacklistAction f,
      dvp_BlacklistLogQuery := dvf_BlacklistLogQuery f,
      dvp_BlacklistRedirectAddresses := dvf_BlacklistRedirectAddresses f,
      dvp_BlacklistRedirectTTL := dvf_BlacklistRedirectTTL f, dvp_BlacklistRulesets := dvf_BlacklistRulesets f,
      dvp_UseBlacklist := dvf_UseBlacklist f, dvp_EnableBlacklist := dvf_EnableBlacklist f,
      dvp_RootNameServerType := dvf_RootNameServerType f, dvp_UseRootNameServer := dvf_UseRootNameServer f,
      dvp_DdnsForceCreationTimestampUpdate := dvf_DdnsForceCreationTimestampUpdate f,
      dvp_UseDdnsForceCreationTimestampUpdate := dvf_UseDdnsForceCreationTimestampUpdate f,
      dvp_DdnsPrincipalGroup := dvf_DdnsPrincipalGroup f,
      dvp_DdnsPrincipalTracking := dvf_DdnsPrincipalTracking f,
      dvp_UseDdnsPrincipalSecurity := dvf_UseDdnsPrincipalSecurity f,
      dvp_DdnsRestrictPatterns := dvf_DdnsRestrictPatterns f,
      dvp_DdnsRestrictPatternsList := dvf_DdnsRestrictPatternsList f,
      dvp_UseDdnsPatternsRestriction := dvf_UseDdnsPatternsRestriction f,
      dvp_DdnsRestrictProtected := dvf_DdnsRestrictProtected f,
      dvp_UseDdnsRestrictProtected := dvf_UseDdnsRestrictProtected f,
      dvp_DdnsRestrictSecure := dvf_DdnsRestrictSecure f, dvp_DdnsRestrictStatic := dvf_DdnsRestrictStatic f,
      dvp_UseDdnsRestrictStatic := dvf_UseDdnsRestrictStatic f, dvp_Dns64Enabled := dvf_Dns64Enabled f,
      dvp_Dns64Groups := dvf_Dns64Groups f, dvp_UseDns64 := dvf_UseDns64 f,
      dvp_DnssecEnabled := dvf_DnssecEnabled f,
      dvp_DnssecExpiredSignaturesEnabled := dvf_DnssecExpiredSignaturesEnabled f,
      dvp_DnssecNegativeTrustAnchors := dvf_DnssecNegativeTrustAnchors f,
      dvp_DnssecValidationEnabled := dvf_DnssecValidationEnabled f, dvp_UseDnssec := dvf_UseDnssec f,
      dvp_EnableFixedRrsetOrderFqdns := dvf_EnableFixedRrsetOrderFqdns f,
      dvp_UseFixedRrsetOrderFqdns := dvf_UseFixedRrsetOrderFqdns f,
      dvp_EnableMatchRecursiveOnly := dvf_EnableMatchRecursiveOnly f, dvp_FilterAaaa := dvf_FilterAaaa f,
      dvp_UseFilterAaaa := dvf_UseFilterAaaa f, dvp_ForwardOnly := dvf_ForwardOnly f,
      dvp_Forwarders := dvf_Forwarders f, dvp_UseForwarders := dvf_UseForwarders f, dvp_LameTTL := dvf_LameTTL f,
      dvp_UseLameTTL := dvf_UseLameTTL f, dvp_MaxCacheTTL := dvf_MaxCacheTTL f,
      dvp_UseMaxCacheTTL := dvf_UseMaxCacheTTL f, dvp_MaxNcacheTTL := dvf_MaxNcacheTTL f,
      dvp_UseMaxNcacheTTL := dvf_UseMaxNcacheTTL f, dvp_NotifyDelay := dvf_NotifyDelay f,
      dvp_NxdomainLogQuery := dvf_NxdomainLogQuery f, dvp_NxdomainRedirect := dvf_NxdomainRedirect f,
      dvp_NxdomainRedirectAddresses := dvf_NxdomainRedirectAddresses f,
      dvp_NxdomainRedirectAddressesV6 := dvf_NxdomainRedirectAddressesV6 f,
      dvp_NxdomainRedirectTTL := dvf_NxdomainRedirectTTL f, dvp_NxdomainRulesets := dvf_NxdomainRulesets f,
      dvp_UseNxdomainRedirect := dvf_UseNxdomainRedirect f, dvp_Recursion := dvf_Recursion f,
      dvp_UseRecursion := dvf_UseRecursion f, dvp_UseResponseRateLimiting := dvf_UseResponseRateLimiting f,
      dvp_RpzDropIPRuleEnabled := dvf_RpzDropIPRuleEnabled f,
      dvp_RpzDropIPRuleMinPrefixLengthIPv4 := dvf_RpzDropIPRuleMinPrefixLengthIPv4 f,
      dvp_RpzDropIPRuleMinPrefixLengthIPv6 := dvf_RpzDropIPRuleMinPrefixLengthIPv6 f,
      dvp_UseRpzDropIPRule := dvf_UseRpzDropIPRule f, dvp_RpzQnameWaitRecurse := dvf_RpzQnameWaitRecurse f,
      dvp_UseRpzQnameWaitRecurse := dvf_UseRpzQnameWaitRecurse f,
      dvp_UseScavengingSettings := dvf_UseScavengingSettings f, dvp_UseSortlist := dvf_UseSortlist f,
      dvp_ExtAttrs := dvf_ExtAttrs f,
      dvp_CustomRootNameServers := nameServerValuesToNamespaced (dvf_CustomRootNameServers f),
      dvp_DnssecTrustedKeys := dnssecTrustedKeyValuesToPtrNamespaced (dvf_DnssecTrustedKeys f),
      dvp_FixedRrsetOrderFqdns := fixedRrsetOrderFqdnValuesToPtrNamespaced (dvf_FixedRrsetOrderFqdns f),
      dvp_FilterAaaaList := addressAcValuesToPtrNamespaced (dvf_FilterAaaaList f),
      dvp_MatchClients := addressAcValuesToPtrNamespaced (dvf_MatchClients f),
      dvp_MatchDestinations := addressAcValuesToPtrNamespaced (dvf_MatchDestinations f),
      dvp_Sortlist := sortlistEntryValuesToPtrNamespaced (dvf_Sortlist f),
      dvp_ResponseRateLimiting := responseRateLimitingValueToNamespaced (dvf_ResponseRateLimiting f),
      dvp_ScavengingSettings := scavengingSettingsValueToNamespaced (dvf_ScavengingSettings f)\<rparr>"

definition namespacedObservationFromFields :: "dnsViewFields \<Rightarrow> string \<Rightarrow> string option \<Rightarrow> bool option \<Rightarrow> cloudInfoValue option \<Rightarrow> DNSViewObservation" where
  "namespacedObservationFromFields f id0 ref isDefault cloudInfo =
     \<lparr>dvb_ID = id0, dvb_Name = dvf_Name f, dvb_Comment = dvf_Comment f, dvb_NetworkView = dvf_NetworkView f,
      dvb_Disable = dvf_Disable f, dvb_BlacklistAction = dvf_BlacklistAction f,
      dvb_BlacklistLogQuery = dvf_BlacklistLogQuery f,
      dvb_BlacklistRedirectAddresses = dvf_BlacklistRedirectAddresses f,
      dvb_BlacklistRedirectTTL = dvf_BlacklistRedirectTTL f, dvb_BlacklistRulesets = dvf_BlacklistRulesets f,
      dvb_UseBlacklist = dvf_UseBlacklist f, dvb_EnableBlacklist = dvf_EnableBlacklist f,
      dvb_CustomRootNameServers = nameServerValuesToNamespaced (dvf_CustomRootNameServers f),
      dvb_RootNameServerType = dvf_RootNameServerType f, dvb_UseRootNameServer = dvf_UseRootNameServer f,
      dvb_DdnsForceCreationTimestampUpdate = dvf_DdnsForceCreationTimestampUpdate f,
      dvb_UseDdnsForceCreationTimestampUpdate = dvf_UseDdnsForceCreationTimestampUpdate f,
      dvb_DdnsPrincipalGroup = dvf_DdnsPrincipalGroup f, dvb_DdnsPrincipalTracking = dvf_DdnsPrincipalTracking f,
      dvb_UseDdnsPrincipalSecurity = dvf_UseDdnsPrincipalSecurity f,
      dvb_DdnsRestrictPatterns = dvf_DdnsRestrictPatterns f,
      dvb_DdnsRestrictPatternsList = dvf_DdnsRestrictPatternsList f,
      dvb_UseDdnsPatternsRestriction = dvf_UseDdnsPatternsRestriction f,
      dvb_DdnsRestrictProtected = dvf_DdnsRestrictProtected f,
      dvb_UseDdnsRestrictProtected = dvf_UseDdnsRestrictProtected f,
      dvb_DdnsRestrictSecure = dvf_DdnsRestrictSecure f, dvb_DdnsRestrictStatic = dvf_DdnsRestrictStatic f,
      dvb_UseDdnsRestrictStatic = dvf_UseDdnsRestrictStatic f, dvb_Dns64Enabled = dvf_Dns64Enabled f,
      dvb_Dns64Groups = dvf_Dns64Groups f, dvb_UseDns64 = dvf_UseDns64 f, dvb_DnssecEnabled = dvf_DnssecEnabled f,
      dvb_DnssecExpiredSignaturesEnabled = dvf_DnssecExpiredSignaturesEnabled f,
      dvb_DnssecNegativeTrustAnchors = dvf_DnssecNegativeTrustAnchors f,
      dvb_DnssecTrustedKeys = dnssecTrustedKeyValuesToPtrNamespaced (dvf_DnssecTrustedKeys f),
      dvb_DnssecValidationEnabled = dvf_DnssecValidationEnabled f, dvb_UseDnssec = dvf_UseDnssec f,
      dvb_EnableFixedRrsetOrderFqdns = dvf_EnableFixedRrsetOrderFqdns f,
      dvb_FixedRrsetOrderFqdns = fixedRrsetOrderFqdnValuesToPtrNamespaced (dvf_FixedRrsetOrderFqdns f),
      dvb_UseFixedRrsetOrderFqdns = dvf_UseFixedRrsetOrderFqdns f,
      dvb_EnableMatchRecursiveOnly = dvf_EnableMatchRecursiveOnly f, dvb_ExtAttrs = dvf_ExtAttrs f,
      dvb_FilterAaaa = dvf_FilterAaaa f,
      dvb_FilterAaaaList = addressAcValuesToPtrNamespaced (dvf_FilterAaaaList f),
      dvb_UseFilterAaaa = dvf_UseFilterAaaa f, dvb_ForwardOnly = dvf_ForwardOnly f,
      dvb_Forwarders = dvf_Forwarders f, dvb_UseForwarders = dvf_UseForwarders f, dvb_LameTTL = dvf_LameTTL f,
      dvb_UseLameTTL = dvf_UseLameTTL f, dvb_MatchClients = addressAcValuesToPtrNamespaced (dvf_MatchClients f),
      dvb_MatchDestinations = addressAcValuesToPtrNamespaced (dvf_MatchDestinations f),
      dvb_MaxCacheTTL = dvf_MaxCacheTTL f, dvb_UseMaxCacheTTL = dvf_UseMaxCacheTTL f,
      dvb_MaxNcacheTTL = dvf_MaxNcacheTTL f, dvb_UseMaxNcacheTTL = dvf_UseMaxNcacheTTL f,
      dvb_NotifyDelay = dvf_NotifyDelay f, dvb_NxdomainLogQuery = dvf_NxdomainLogQuery f,
      dvb_NxdomainRedirect = dvf_NxdomainRedirect f,
      dvb_NxdomainRedirectAddresses = dvf_NxdomainRedirectAddresses f,
      dvb_NxdomainRedirectAddressesV6 = dvf_NxdomainRedirectAddressesV6 f,
      dvb_NxdomainRedirectTTL = dvf_NxdomainRedirectTTL f, dvb_NxdomainRulesets = dvf_NxdomainRulesets f,
      dvb_UseNxdomainRedirect = dvf_UseNxdomainRedirect f, dvb_Recursion = dvf_Recursion f,
      dvb_UseRecursion = dvf_UseRecursion f,
      dvb_ResponseRateLimiting = responseRateLimitingValueToNamespaced (dvf_ResponseRateLimiting f),
      dvb_UseResponseRateLimiting = dvf_UseResponseRateLimiting f,
      dvb_RpzDropIPRuleEnabled = dvf_RpzDropIPRuleEnabled f,
      dvb_RpzDropIPRuleMinPrefixLengthIPv4 = dvf_RpzDropIPRuleMinPrefixLengthIPv4 f,
      dvb_RpzDropIPRuleMinPrefixLengthIPv6 = dvf_RpzDropIPRuleMinPrefixLengthIPv6 f,
      dvb_UseRpzDropIPRule = dvf_UseRpzDropIPRule f, dvb_RpzQnameWaitRecurse = dvf_RpzQnameWaitRecurse f,
      dvb_UseRpzQnameWaitRecurse = dvf_UseRpzQnameWaitRecurse f,
      dvb_ScavengingSettings = scavengingSettingsValueToNamespaced (dvf_ScavengingSettings f),
      dvb_UseScavengingSettings = dvf_UseScavengingSettings f,
      dvb_Sortlist = sortlistEntryValuesToPtrNamespaced (dvf_Sortlist f), dvb_UseSortlist = dvf_UseSortlist f,
      dvb_Ref = ref, dvb_IsDefault = isDefault, dvb_CloudInfo = cloudInfoValueToNamespaced cloudInfo\<rparr>"

definition namespaced_DNSView_Observe ::
  "vw_env \<Rightarrow> string \<Rightarrow> DNSViewCR \<Rightarrow> vw_world \<Rightarrow> (goerr + ExternalObservation) \<times> DNSViewCR \<times> vw_world" where
  "namespaced_DNSView_Observe env endpoint cr w =
     (let ref = observeRefFor (mo_name cr) (GetExternalName cr) in
      case resolveViewIdentity env ref (mo_uid cr) w of
        (Inl err, w1) \<Rightarrow>
          if IsSearchFailure err then
            (case ensureIdentityPrerequisite env endpoint w1 of
               (Some prereqErr, w2) \<Rightarrow> (Inl prereqErr, cr, w2)
             | (None, w2) \<Rightarrow> (Inl (Wrapped errObserveDNSView err), cr, w2))
          else (Inl (Wrapped errObserveDNSView err), cr, w1)
      | (Inr (obj, outcome), w1) \<Rightarrow>
          if outcome = OutcomeNotFound then (Inr notExists, cr, w1)
          else
            (case obj of
               None \<Rightarrow> (Inl (TextError nilDereference), cr, w1)
             | Some v \<Rightarrow>
                 (let observed = fieldsFromView v;
                      cloudInfo = cloudInfoValueFromSDK (vwr_CloudInfo v);
                      status = namespacedObservationFromFields observed (vwr_Ref v) (strPtrOrNil (vwr_Ref v)) (Some (vwr_IsDefault v)) cloudInfo;
                      cr1 = cr\<lparr>dv_AtProvider := status\<lparr>dvb_ID := vwr_Ref v\<rparr>\<rparr>;
                      desired = fieldsFromNamespacedParams (dv_ForProvider cr1);
                      observedForCompare = observed\<lparr>dvf_ExtAttrs := extAttrsFromEA (Strip (vwr_Ea v))\<rparr>;
                      (lateInit, changed) = DNSView_lateInitializeFields desired observedForCompare;
                      cr2 = (if changed
                             then cr1\<lparr>dv_ForProvider := applyFieldsToNamespacedParams lateInit (dv_ForProvider cr1)\<rparr> else cr1);
                      (cr3, changed1) =
                        (if outcome = OutcomeRotated \<or> outcome = OutcomeFoundByUID
                         then (SetExternalName (vwr_Ref v) cr2, True) else (cr2, changed));
                      cr4 = SetAvailable cr3;
                      upToDate = (DNSView_isUpToDate lateInit observedForCompare \<and> outcome \<noteq> OutcomeAdopted)
                  in (Inr \<lparr>ResourceExists = True, ResourceUpToDate = upToDate, ResourceLateInitialized = changed1\<rparr>, cr4, w1))))"

definition namespaced_DNSView_Create ::
  "vw_env \<Rightarrow> string \<Rightarrow> DNSViewCR \<Rightarrow> vw_world \<Rightarrow> goerr option \<times> DNSViewCR \<times> vw_world" where
  "namespaced_DNSView_Create env endpoint cr w =
     (let uid = mo_uid cr in
      if trim_space uid = [] then (Some (TextError DNSView_errEmptyUID), cr, w)
      else
        (case ensureIdentityPrerequisite env endpoint w of
           (Some err, w1) \<Rightarrow> (Some err, cr, w1)
         | (None, w1) \<Rightarrow>
             (let f = fieldsFromNamespacedParams (dv_ForProvider cr) in
              case createView env f uid w1 of
                (Inl err, w2) \<Rightarrow> (Some (Wrapped errCreateDNSView err), cr, w2)
              | (Inr ref, w2) \<Rightarrow> (None, SetExternalName ref cr, w2))))"

definition namespaced_DNSView_Update ::
  "vw_env \<Rightarrow> string \<Rightarrow> DNSViewCR \<Rightarrow> vw_world \<Rightarrow> goerr option \<times> DNSViewCR \<times> vw_world" where
  "namespaced_DNSView_Update env endpoint cr w =
     (let f = fieldsFromNamespacedParams (dv_ForProvider cr); externalID = GetExternalName cr in
      case ensureIdentityPrerequisite env endpoint w of
        (Some err, w1) \<Rightarrow> (Some err, cr, w1)
      | (None, w1) \<Rightarrow>
          (case updateView env externalID f (mo_uid cr) w1 of
             (Inl err, w2) \<Rightarrow> (Some (Wrapped errUpdateDNSView err), cr, w2)
           | (Inr ref, w2) \<Rightarrow>
               if ref \<noteq> [] \<and> ref \<noteq> externalID then
                 (case Refresh env cr ref w2 of
                    (Some err, cr2, w3) \<Rightarrow> (Some (Wrapped errPersistExternalName err), cr2, w3)
                  | (None, cr2, w3) \<Rightarrow> (None, cr2, w3))
               else (None, cr, w2)))"

definition namespaced_DNSView_Delete :: "vw_env \<Rightarrow> string \<Rightarrow> DNSViewCR \<Rightarrow> vw_world \<Rightarrow> goerr option \<times> vw_world" where
  "namespaced_DNSView_Delete env endpoint cr w =
     (let name = (case dvb_Name (dv_AtProvider cr) of None \<Rightarrow> dvp_Name (dv_ForProvider cr) | Some n \<Rightarrow> Some n) in
      if isWellKnownDNSViewName name then (None, w)
      else
        (let externalID = GetExternalName cr in
         case deleteViewIdentity env endpoint externalID (mo_uid cr) w of
           (Some err, w1) \<Rightarrow> (Some err, w1)
         | (None, w1) \<Rightarrow> (None, w1)))"

subsection \<open>cluster.go\<close>

definition nameServerValueFromCluster :: "DNSViewNameServer \<Rightarrow> nameServerValue" where
  "nameServerValueFromCluster x =
     \<lparr>nsv_Address = dvn_Address x, nsv_Name = dvn_Name x,
       nsv_SharedWithMsParentDelegation = dvn_SharedWithMsParentDelegation x, nsv_Stealth = dvn_Stealth x,
       nsv_TsigKey = dvn_TsigKey x, nsv_TsigKeyAlg = dvn_TsigKeyAlg x, nsv_TsigKeyName = dvn_TsigKeyName x,
       nsv_UseTsigKeyName = dvn_UseTsigKeyName x\<rparr>"

definition nameServerValueToCluster :: "nameServerValue \<Rightarrow> DNSViewNameServer" where
  "nameServerValueToCluster x =
     \<lparr>dvn_Address = nsv_Address x, dvn_Name = nsv_Name x,
       dvn_SharedWithMsParentDelegation = nsv_SharedWithMsParentDelegation x, dvn_Stealth = nsv_Stealth x,
       dvn_TsigKey = nsv_TsigKey x, dvn_TsigKeyAlg = nsv_TsigKeyAlg x, dvn_TsigKeyName = nsv_TsigKeyName x,
       dvn_UseTsigKeyName = nsv_UseTsigKeyName x\<rparr>"

definition nameServerValuesFromCluster :: "DNSViewNameServer list \<Rightarrow> nameServerValue list" where
  "nameServerValuesFromCluster xs = (if xs = [] then [] else map nameServerValueFromCluster xs)"

definition nameServerValuesToCluster :: "nameServerValue list \<Rightarrow> DNSViewNameServer list" where
  "nameServerValuesToCluster xs = (if xs = [] then [] else map nameServerValueToCluster xs)"

definition dnssecTrustedKeyValueFromCluster :: "DNSViewDnssecTrustedKey \<Rightarrow> dnssecTrustedKeyValue" where
  "dnssecTrustedKeyValueFromCluster x =
     \<lparr>dkv_Fqdn = dvk_Fqdn x, dkv_Algorithm = dvk_Algorithm x, dkv_Key = dvk_Key x,
       dkv_SecureEntryPoint = dvk_SecureEntryPoint x, dkv_DnssecMustBeSecure = dvk_DnssecMustBeSecure x\<rparr>"

definition dnssecTrustedKeyValueToCluster :: "dnssecTrustedKeyValue \<Rightarrow> DNSViewDnssecTrustedKey" where
  "dnssecTrustedKeyValueToCluster x =
     \<lparr>dvk_Fqdn = dkv_Fqdn x, dvk_Algorithm = dkv_Algorithm x, dvk_Key = dkv_Key x,
       dvk_SecureEntryPoint = dkv_SecureEntryPoint x, dvk_DnssecMustBeSecure = dkv_DnssecMustBeSecure x\<rparr>"

definition dnssecTrustedKeyValuesFromPtrCluster :: "DNSViewDnssecTrustedKey option list \<Rightarrow> dnssecTrustedKeyValue list" where
  "dnssecTrustedKeyValuesFromPtrCluster xs = (if xs = [] then [] else List.map_filter (map_option dnssecTrustedKeyValueFromCluster) xs)"

definition dnssecTrustedKeyValuesToPtrCluster :: "dnssecTrustedKeyValue list \<Rightarrow> DNSViewDnssecTrustedKey option list" where
  "dnssecTrustedKeyValuesToPtrCluster xs = (if xs = [] then [] else map (\<lambda>x. Some (dnssecTrustedKeyValueToCluster x)) xs)"

definition addressAcValueFromCluster :: "DNSViewAddressAc \<Rightarrow> addressAcValue" where
  "addressAcValueFromCluster x =
     \<lparr>aav_Address = dva_Address x, aav_Permission = dva_Permission x, aav_TsigKey = dva_TsigKey x,
       aav_TsigKeyAlg = dva_TsigKeyAlg x, aav_TsigKeyName = dva_TsigKeyName x,
       aav_UseTsigKeyName = dva_UseTsigKeyName x\<rparr>"

definition addressAcValueToCluster :: "addressAcValue \<Rightarrow> DNSViewAddressAc" where
  "addressAcValueToCluster x =
     \<lparr>dva_Address = aav_Address x, dva_Permission = aav_Permission x, dva_TsigKey = aav_TsigKey x,
       dva_TsigKeyAlg = aav_TsigKeyAlg x, dva_TsigKeyName = aav_TsigKeyName x,
       dva_UseTsigKeyName = aav_UseTsigKeyName x\<rparr>"

definition addressAcValuesFromPtrCluster :: "DNSViewAddressAc option list \<Rightarrow> addressAcValue list" where
  "addressAcValuesFromPtrCluster xs = (if xs = [] then [] else List.map_filter (map_option addressAcValueFromCluster) xs)"

definition addressAcValuesToPtrCluster :: "addressAcValue list \<Rightarrow> DNSViewAddressAc option list" where
  "addressAcValuesToPtrCluster xs = (if xs = [] then [] else map (\<lambda>x. Some (addressAcValueToCluster x)) xs)"

definition fixedRrsetOrderFqdnValueFromCluster :: "DNSViewFixedRrsetOrderFqdn \<Rightarrow> fixedRrsetOrderFqdnValue" where
  "fixedRrsetOrderFqdnValueFromCluster x =
     \<lparr>fov_Fqdn = dvo_Fqdn x, fov_RecordType = dvo_RecordType x\<rparr>"

definition fixedRrsetOrderFqdnValueToCluster :: "fixedRrsetOrderFqdnValue \<Rightarrow> DNSViewFixedRrsetOrderFqdn" where
  "fixedRrsetOrderFqdnValueToCluster x =
     \<lparr>dvo_Fqdn = fov_Fqdn x, dvo_RecordType = fov_RecordType x\<rparr>"

definition fixedRrsetOrderFqdnValuesFromPtrCluster :: "DNSViewFixedRrsetOrderFqdn option list \<Rightarrow> fixedRrsetOrderFqdnValue list" where
  "fixedRrsetOrderFqdnValuesFromPtrCluster xs = (if xs = [] then [] else List.map_filter (map_option fixedRrsetOrderFqdnValueFromCluster) xs)"

definition fixedRrsetOrderFqdnValuesToPtrCluster :: "fixedRrsetOrderFqdnValue list \<Rightarrow> DNSViewFixedRrsetOrderFqdn option list" where
  "fixedRrsetOrderFqdnValuesToPtrCluster xs = (if xs = [] then [] else map (\<lambda>x. Some (fixedRrsetOrderFqdnValueToCluster x)) xs)"

definition expressionOpValueFromCluster :: "DNSViewExpressionOp \<Rightarrow> expressionOpValue" where
  "expressionOpValueFromCluster x =
     \<lparr>eov_Op = dve_Op x, eov_Op1 = dve_Op1 x, eov_Op1Type = dve_Op1Type x, eov_Op2 = dve_Op2 x,
       eov_Op2Type = dve_Op2Type x\<rparr>"

definition expressionOpValueToCluster :: "expressionOpValue \<Rightarrow> DNSViewExpressionOp" where
  "expressionOpValueToCluster x =
     \<lparr>dve_Op = eov_Op x, dve_Op1 = eov_Op1 x, dve_Op1Type = eov_Op1Type x, dve_Op2 = eov_Op2 x,
       dve_Op2Type = eov_Op2Type x\<rparr>"

definition expressionOpValuesFromPtrCluster :: "DNSViewExpressionOp option list \<Rightarrow> expressionOpValue list" where
  "expressionOpValuesFromPtrCluster xs = (if xs = [] then [] else List.map_filter (map_option expressionOpValueFromCluster) xs)"

definition expressionOpValuesToPtrCluster :: "expressionOpValue list \<Rightarrow> DNSViewExpressionOp option list" where
  "expressionOpValuesToPtrCluster xs = (if xs = [] then [] else map (\<lambda>x. Some (expressionOpValueToCluster x)) xs)"

definition eaExpressionOpValueFromCluster :: "DNSViewEaExpressionOp \<Rightarrow> eaExpressionOpValue" where
  "eaExpressionOpValueFromCluster x =
     \<lparr>eev_Op = dvx_Op x, eev_Op1 = dvx_Op1 x, eev_Op1Type = dvx_Op1Type x, eev_Op2 = dvx_Op2 x,
       eev_Op2Type = dvx_Op2Type x\<rparr>"

definition eaExpressionOpValueToCluster :: "eaExpressionOpValue \<Rightarrow> DNSViewEaExpressionOp" where
  "eaExpressionOpValueToCluster x =
     \<lparr>dvx_Op = eev_Op x, dvx_Op1 = eev_Op1 x, dvx_Op1Type = eev_Op1Type x, dvx_Op2 = eev_Op2 x,
       dvx_Op2Type = eev_Op2Type x\<rparr>"

definition eaExpressionOpValuesFromPtrCluster :: "DNSViewEaExpressionOp option list \<Rightarrow> eaExpressionOpValue list" where
  "eaExpressionOpValuesFromPtrCluster xs = (if xs = [] then [] else List.map_filter (map_option eaExpressionOpValueFromCluster) xs)"

definition eaExpressionOpValuesToPtrCluster :: "eaExpressionOpValue list \<Rightarrow> DNSViewEaExpressionOp option list" where
  "eaExpressionOpValuesToPtrCluster xs = (if xs = [] then [] else map (\<lambda>x. Some (eaExpressionOpValueToCluster x)) xs)"

definition responseRateLimitingValueFromCluster :: "DNSViewResponseRateLimiting option \<Rightarrow> responseRateLimitingValue option" where
  "responseRateLimitingValueFromCluster p = (case p of None \<Rightarrow> None | Some x \<Rightarrow> Some
     \<lparr>rlv_EnableRrl = dvr_EnableRrl x, rlv_LogOnly = dvr_LogOnly x,
       rlv_ResponsesPerSecond = dvr_ResponsesPerSecond x, rlv_Window = dvr_Window x, rlv_Slip = dvr_Slip x\<rparr>)"

definition responseRateLimitingValueToCluster :: "responseRateLimitingValue option \<Rightarrow> DNSViewResponseRateLimiting option" where
  "responseRateLimitingValueToCluster p = (case p of None \<Rightarrow> None | Some x \<Rightarrow> Some
     \<lparr>dvr_EnableRrl = rlv_EnableRrl x, dvr_LogOnly = rlv_LogOnly x,
       dvr_ResponsesPerSecond = rlv_ResponsesPerSecond x, dvr_Window = rlv_Window x, dvr_Slip = rlv_Slip x\<rparr>)"

definition sortlistEntryValueFromCluster :: "DNSViewSortlistEntry \<Rightarrow> sortlistEntryValue" where
  "sortlistEntryValueFromCluster x =
     \<lparr>sev_Address = dvs_Address x, sev_MatchList = dvs_MatchList x\<rparr>"

definition sortlistEntryValueToCluster :: "sortlistEntryValue \<Rightarrow> DNSViewSortlistEntry" where
  "sortlistEntryValueToCluster x =
     \<lparr>dvs_Address = sev_Address x, dvs_MatchList = sev_MatchList x\<rparr>"

definition sortlistEntryValuesFromPtrCluster :: "DNSViewSortlistEntry option list \<Rightarrow> sortlistEntryValue list" where
  "sortlistEntryValuesFromPtrCluster xs = (if xs = [] then [] else List.map_filter (map_option sortlistEntryValueFromCluster) xs)"

definition sortlistEntryValuesToPtrCluster :: "sortlistEntryValue list \<Rightarrow> DNSViewSortlistEntry option list" where
  "sortlistEntryValuesToPtrCluster xs = (if xs = [] then [] else map (\<lambda>x. Some (sortlistEntryValueToCluster x)) xs)"

definition scavengingScheduleValueFromCluster :: "DNSViewScavengingSchedule option \<Rightarrow> scavengingScheduleValue option" where
  "scavengingScheduleValueFromCluster p = (case p of None \<Rightarrow> None | Some x \<Rightarrow> Some
     \<lparr>scv_Weekdays = dvc_Weekdays x, scv_TimeZone = dvc_TimeZone x, scv_RecurringTime = dvc_RecurringTime x,
       scv_Frequency = dvc_Frequency x, scv_Every = dvc_Every x, scv_MinutesPastHour = dvc_MinutesPastHour x,
       scv_HourOfDay = dvc_HourOfDay x, scv_Year = dvc_Year x, scv_Month = dvc_Month x,
       scv_DayOfMonth = dvc_DayOfMonth x, scv_Repeat = dvc_Repeat x, scv_Disable = dvc_Disable x\<rparr>)"

definition scavengingScheduleValueToCluster :: "scavengingScheduleValue option \<Rightarrow> DNSViewScavengingSchedule option" where
  "scavengingScheduleValueToCluster p = (case p of None \<Rightarrow> None | Some x \<Rightarrow> Some
     \<lparr>dvc_Weekdays = scv_Weekdays x, dvc_TimeZone = scv_TimeZone x, dvc_RecurringTime = scv_RecurringTime x,
       dvc_Frequency = scv_Frequency x, dvc_Every = scv_Every x, dvc_MinutesPastHour = scv_MinutesPastHour x,
       dvc_HourOfDay = scv_HourOfDay x, dvc_Year = scv_Year x, dvc_Month = scv_Month x,
       dvc_DayOfMonth = scv_DayOfMonth x, dvc_Repeat = scv_Repeat x, dvc_Disable = scv_Disable x\<rparr>)"

definition scavengingSettingsValueFromCluster :: "DNSViewScavengingSettings option \<Rightarrow> scavengingSettingsValue option" where
  "scavengingSettingsValueFromCluster p = (case p of None \<Rightarrow> None | Some x \<Rightarrow> Some
     \<lparr>sgv_EnableScavenging = dvg_EnableScavenging x,
       sgv_EnableRecurrentScavenging = dvg_EnableRecurrentScavenging x,
       sgv_EnableAutoReclamation = dvg_EnableAutoReclamation x,
       sgv_EnableRrLastQueried = dvg_EnableRrLastQueried x,
       sgv_EnableZoneLastQueried = dvg_EnableZoneLastQueried x,
       sgv_ReclaimAssociatedRecords = dvg_ReclaimAssociatedRecords x,
       sgv_ScavengingSchedule = scavengingScheduleValueFromCluster (dvg_ScavengingSchedule x),
       sgv_ExpressionList = expressionOpValuesFromPtrCluster (dvg_ExpressionList x),
       sgv_EaExpressionList = eaExpressionOpValuesFromPtrCluster (dvg_EaExpressionList x)\<rparr>)"

definition scavengingSettingsValueToCluster :: "scavengingSettingsValue option \<Rightarrow> DNSViewScavengingSettings option" where
  "scavengingSettingsValueToCluster p = (case p of None \<Rightarrow> None | Some x \<Rightarrow> Some
     \<lparr>dvg_EnableScavenging = sgv_EnableScavenging x,
       dvg_EnableRecurrentScavenging = sgv_EnableRecurrentScavenging x,
       dvg_EnableAutoReclamation = sgv_EnableAutoReclamation x,
       dvg_EnableRrLastQueried = sgv_EnableRrLastQueried x,
       dvg_EnableZoneLastQueried = sgv_EnableZoneLastQueried x,
       dvg_ReclaimAssociatedRecords = sgv_ReclaimAssociatedRecords x,
       dvg_ScavengingSchedule = scavengingScheduleValueToCluster (sgv_ScavengingSchedule x),
       dvg_ExpressionList = expressionOpValuesToPtrCluster (sgv_ExpressionList x),
       dvg_EaExpressionList = eaExpressionOpValuesToPtrCluster (sgv_EaExpressionList x)\<rparr>)"

definition cloudInfoValueToCluster :: "cloudInfoValue option \<Rightarrow> DNSViewCloudInfo option" where
  "cloudInfoValueToCluster p = (case p of None \<Rightarrow> None | Some x \<Rightarrow>
     (let dm = (case civ_DelegatedMember x of None \<Rightarrow> None | Some m \<Rightarrow> Some
            \<lparr>dvm_Ipv4Addr = cmv_Ipv4Addr m, dvm_Ipv6Addr = cmv_Ipv6Addr m, dvm_Name = cmv_Name m\<rparr>)
      in Some \<lparr>dvi_DelegatedMember = dm, dvi_DelegatedScope = civ_DelegatedScope x,
         dvi_DelegatedRoot = civ_DelegatedRoot x, dvi_OwnedByAdaptor = civ_OwnedByAdaptor x,
         dvi_Usage = civ_Usage x, dvi_Tenant = civ_Tenant x, dvi_MgmtPlatform = civ_MgmtPlatform x,
         dvi_AuthorityType = civ_AuthorityType x\<rparr>))"

definition fieldsFromClusterParams :: "DNSViewParameters \<Rightarrow> dnsViewFields" where
  "fieldsFromClusterParams v =
     \<lparr>dvf_Name = dvp_Name v, dvf_Comment = dvp_Comment v, dvf_NetworkView = dvp_NetworkView v,
      dvf_Disable = dvp_Disable v, dvf_BlacklistAction = dvp_BlacklistAction v,
      dvf_BlacklistLogQuery = dvp_BlacklistLogQuery v,
      dvf_BlacklistRedirectAddresses = dvp_BlacklistRedirectAddresses v,
      dvf_BlacklistRedirectTTL = dvp_BlacklistRedirectTTL v, dvf_BlacklistRulesets = dvp_BlacklistRulesets v,
      dvf_UseBlacklist = dvp_UseBlacklist v, dvf_EnableBlacklist = dvp_EnableBlacklist v,
      dvf_RootNameServerType = dvp_RootNameServerType v, dvf_UseRootNameServer = dvp_UseRootNameServer v,
      dvf_DdnsForceCreationTimestampUpdate = dvp_DdnsForceCreationTimestampUpdate v,
      dvf_UseDdnsForceCreationTimestampUpdate = dvp_UseDdnsForceCreationTimestampUpdate v,
      dvf_DdnsPrincipalGroup = dvp_DdnsPrincipalGroup v, dvf_DdnsPrincipalTracking = dvp_DdnsPrincipalTracking v,
      dvf_UseDdnsPrincipalSecurity = dvp_UseDdnsPrincipalSecurity v,
      dvf_DdnsRestrictPatterns = dvp_DdnsRestrictPatterns v,
      dvf_DdnsRestrictPatternsList = dvp_DdnsRestrictPatternsList v,
      dvf_UseDdnsPatternsRestriction = dvp_UseDdnsPatternsRestriction v,
      dvf_DdnsRestrictProtected = dvp_DdnsRestrictProtected v,
      dvf_UseDdnsRestrictProtected = dvp_UseDdnsRestrictProtected v,
      dvf_DdnsRestrictSecure = dvp_DdnsRestrictSecure v, dvf_DdnsRestrictStatic = dvp_DdnsRestrictStatic v,
      dvf_UseDdnsRestrictStatic = dvp_UseDdnsRestrictStatic v, dvf_Dns64Enabled = dvp_Dns64Enabled v,
      dvf_Dns64Groups = dvp_Dns64Groups v, dvf_UseDns64 = dvp_UseDns64 v, dvf_DnssecEnabled = dvp_DnssecEnabled v,
      dvf_DnssecExpiredSignaturesEnabled = dvp_DnssecExpiredSignaturesEnabled v,
      dvf_DnssecNegativeTrustAnchors = dvp_DnssecNegativeTrustAnchors v,
      dvf_DnssecValidationEnabled = dvp_DnssecValidationEnabled v, dvf_UseDnssec = dvp_UseDnssec v,
      dvf_EnableFixedRrsetOrderFqdns = dvp_EnableFixedRrsetOrderFqdns v,
      dvf_UseFixedRrsetOrderFqdns = dvp_UseFixedRrsetOrderFqdns v,
      dvf_EnableMatchRecursiveOnly = dvp_EnableMatchRecursiveOnly v, dvf_FilterAaaa = dvp_FilterAaaa v,
      dvf_UseFilterAaaa = dvp_UseFilterAaaa v, dvf_ForwardOnly = dvp_ForwardOnly v,
      dvf_Forwarders = dvp_Forwarders v, dvf_UseForwarders = dvp_UseForwarders v, dvf_LameTTL = dvp_LameTTL v,
      dvf_UseLameTTL = dvp_UseLameTTL v, dvf_MaxCacheTTL = dvp_MaxCacheTTL v,
      dvf_UseMaxCacheTTL = dvp_UseMaxCacheTTL v, dvf_MaxNcacheTTL = dvp_MaxNcacheTTL v,
      dvf_UseMaxNcacheTTL = dvp_UseMaxNcacheTTL v, dvf_NotifyDelay = dvp_NotifyDelay v,
      dvf_NxdomainLogQuery = dvp_NxdomainLogQuery v, dvf_NxdomainRedirect = dvp_NxdomainRedirect v,
      dvf_NxdomainRedirectAddresses = dvp_NxdomainRedirectAddresses v,
      dvf_NxdomainRedirectAddressesV6 = dvp_NxdomainRedirectAddressesV6 v,
      dvf_NxdomainRedirectTTL = dvp_NxdomainRedirectTTL v, dvf_NxdomainRulesets = dvp_NxdomainRulesets v,
      dvf_UseNxdomainRedirect = dvp_UseNxdomainRedirect v, dvf_Recursion = dvp_Recursion v,
      dvf_UseRecursion = dvp_UseRecursion v, dvf_UseResponseRateLimiting = dvp_UseResponseRateLimiting v,
      dvf_RpzDropIPRuleEnabled = dvp_RpzDropIPRuleEnabled v,
      dvf_RpzDropIPRuleMinPrefixLengthIPv4 = dvp_RpzDropIPRuleMinPrefixLengthIPv4 v,
      dvf_RpzDropIPRuleMinPrefixLengthIPv6 = dvp_RpzDropIPRuleMinPrefixLengthIPv6 v,
      dvf_UseRpzDropIPRule = dvp_UseRpzDropIPRule v, dvf_RpzQnameWaitRecurse = dvp_RpzQnameWaitRecurse v,
      dvf_UseRpzQnameWaitRecurse = dvp_UseRpzQnameWaitRecurse v,
      dvf_UseScavengingSettings = dvp_UseScavengingSettings v, dvf_UseSortlist = dvp_UseSortlist v,
      dvf_ExtAttrs = dvp_ExtAttrs v,
      dvf_CustomRootNameServers = nameServerValuesFromCluster (dvp_CustomRootNameServers v),
      dvf_DnssecTrustedKeys = dnssecTrustedKeyValuesFromPtrCluster (dvp_DnssecTrustedKeys v),
      dvf_FixedRrsetOrderFqdns = fixedRrsetOrderFqdnValuesFromPtrCluster (dvp_FixedRrsetOrderFqdns v),
      dvf_FilterAaaaList = addressAcValuesFromPtrCluster (dvp_FilterAaaaList v),
      dvf_MatchClients = addressAcValuesFromPtrCluster (dvp_MatchClients v),
      dvf_MatchDestinations = addressAcValuesFromPtrCluster (dvp_MatchDestinations v),
      dvf_ResponseRateLimiting = responseRateLimitingValueFromCluster (dvp_ResponseRateLimiting v),
      dvf_ScavengingSettings = scavengingSettingsValueFromCluster (dvp_ScavengingSettings v),
      dvf_Sortlist = sortlistEntryValuesFromPtrCluster (dvp_Sortlist v)\<rparr>"

definition applyFieldsToClusterParams :: "dnsViewFields \<Rightarrow> DNSViewParameters \<Rightarrow> DNSViewParameters" where
  "applyFieldsToClusterParams f p =
     p\<lparr>dvp_Name := dvf_Name f, dvp_Comment := dvf_Comment f, dvp_NetworkView := dvf_NetworkView f,
      dvp_Disable := dvf_Disable f, dvp_BlacklistAction := dvf_BlacklistAction f,
      dvp_BlacklistLogQuery := dvf_BlacklistLogQuery f,
      dvp_BlacklistRedirectAddresses := dvf_BlacklistRedirectAddresses f,
      dvp_BlacklistRedirectTTL := dvf_BlacklistRedirectTTL f, dvp_BlacklistRulesets := dvf_BlacklistRulesets f,
      dvp_UseBlacklist := dvf_UseBlacklist f, dvp_EnableBlacklist := dvf_EnableBlacklist f,
      dvp_RootNameServerType := dvf_RootNameServerType f, dvp_UseRootNameServer := dvf_UseRootNameServer f,
      dvp_DdnsForceCreationTimestampUpdate := dvf_DdnsForceCreationTimestampUpdate f,
      dvp_UseDdnsForceCreationTimestampUpdate := dvf_UseDdnsForceCreationTimestampUpdate f,
      dvp_DdnsPrincipalGroup := dvf_DdnsPrincipalGroup f,
      dvp_DdnsPrincipalTracking := dvf_DdnsPrincipalTracking f,
      dvp_UseDdnsPrincipalSecurity := dvf_UseDdnsPrincipalSecurity f,
      dvp_DdnsRestrictPatterns := dvf_DdnsRestrictPatterns f,
      dvp_DdnsRestrictPatternsList := dvf_DdnsRestrictPatternsList f,
      dvp_UseDdnsPatternsRestriction := dvf_UseDdnsPatternsRestriction f,
      dvp_DdnsRestrictProtected := dvf_DdnsRestrictProtected f,
      dvp_UseDdnsRestrictProtected := dvf_UseDdnsRestrictProtected f,
      dvp_DdnsRestrictSecure := dvf_DdnsRestrictSecure f, dvp_DdnsRestrictStatic := dvf_DdnsRestrictStatic f,
      dvp_UseDdnsRestrictStatic := dvf_UseDdnsRestrictStatic f, dvp_Dns64Enabled := dvf_Dns64Enabled f,
      dvp_Dns64Groups := dvf_Dns64Groups f, dvp_UseDns64 := dvf_UseDns64 f,
      dvp_DnssecEnabled := dvf_DnssecEnabled f,
      dvp_DnssecExpiredSignaturesEnabled := dvf_DnssecExpiredSignaturesEnabled f,
      dvp_DnssecNegativeTrustAnchors := dvf_DnssecNegativeTrustAnchors f,
      dvp_DnssecValidationEnabled := dvf_DnssecValidationEnabled f, dvp_UseDnssec := dvf_UseDnssec f,
      dvp_EnableFixedRrsetOrderFqdns := dvf_EnableFixedRrsetOrderFqdns f,
      dvp_UseFixedRrsetOrderFqdns := dvf_UseFixedRrsetOrderFqdns f,
      dvp_EnableMatchRecursiveOnly := dvf_EnableMatchRecursiveOnly f, dvp_FilterAaaa := dvf_FilterAaaa f,
      dvp_UseFilterAaaa := dvf_UseFilterAaaa f, dvp_ForwardOnly := dvf_ForwardOnly f,
      dvp_Forwarders := dvf_Forwarders f, dvp_UseForwarders := dvf_UseForwarders f, dvp_LameTTL := dvf_LameTTL f,
      dvp_UseLameTTL := dvf_UseLameTTL f, dvp_MaxCacheTTL := dvf_MaxCacheTTL f,
      dvp_UseMaxCacheTTL := dvf_UseMaxCacheTTL f, dvp_MaxNcacheTTL := dvf_MaxNcacheTTL f,
      dvp_UseMaxNcacheTTL := dvf_UseMaxNcacheTTL f, dvp_NotifyDelay := dvf_NotifyDelay f,
      dvp_NxdomainLogQuery := dvf_NxdomainLogQuery f, dvp_NxdomainRedirect := dvf_NxdomainRedirect f,
      dvp_NxdomainRedirectAddresses := dvf_NxdomainRedirectAddresses f,
      dvp_NxdomainRedirectAddressesV6 := dvf_NxdomainRedirectAddressesV6 f,
      dvp_NxdomainRedirectTTL := dvf_NxdomainRedirectTTL f, dvp_NxdomainRulesets := dvf_NxdomainRulesets f,
      dvp_UseNxdomainRedirect := dvf_UseNxdomainRedirect f, dvp_Recursion := dvf_Recursion f,
      dvp_UseRecursion := dvf_UseRecursion f, dvp_UseResponseRateLimiting := dvf_UseResponseRateLimiting f,
      dvp_RpzDropIPRuleEnabled := dvf_RpzDropIPRuleEnabled f,
      dvp_RpzDropIPRuleMinPrefixLengthIPv4 := dvf_RpzDropIPRuleMinPrefixLengthIPv4 f,
      dvp_RpzDropIPRuleMinPrefixLengthIPv6 := dvf_RpzDropIPRuleMinPrefixLengthIPv6 f,
      dvp_UseRpzDropIPRule := dvf_UseRpzDropIPRule f, dvp_RpzQnameWaitRecurse := dvf_RpzQnameWaitRecurse f,
      dvp_UseRpzQnameWaitRecurse := dvf_UseRpzQnameWaitRecurse f,
      dvp_UseScavengingSettings := dvf_UseScavengingSettings f, dvp_UseSortlist := dvf_UseSortlist f,
      dvp_ExtAttrs := dvf_ExtAttrs f,
      dvp_CustomRootNameServers := nameServerValuesToCluster (dvf_CustomRootNameServers f),
      dvp_DnssecTrustedKeys := dnssecTrustedKeyValuesToPtrCluster (dvf_DnssecTrustedKeys f),
      dvp_FixedRrsetOrderFqdns := fixedRrsetOrderFqdnValuesToPtrCluster (dvf_FixedRrsetOrderFqdns f),
      dvp_FilterAaaaList := addressAcValuesToPtrCluster (dvf_FilterAaaaList f),
      dvp_MatchClients := addressAcValuesToPtrCluster (dvf_MatchClients f),
      dvp_MatchDestinations := addressAcValuesToPtrCluster (dvf_MatchDestinations f),
      dvp_Sortlist := sortlistEntryValuesToPtrCluster (dvf_Sortlist f),
      dvp_ResponseRateLimiting := responseRateLimitingValueToCluster (dvf_ResponseRateLimiting f),
      dvp_ScavengingSettings := scavengingSettingsValueToCluster (dvf_ScavengingSettings f)\<rparr>"

definition clusterObservationFromFields :: "dnsViewFields \<Rightarrow> string \<Rightarrow> string option \<Rightarrow> bool option \<Rightarrow> cloudInfoValue option \<Rightarrow> DNSViewObservation" where
  "clusterObservationFromFields f id0 ref isDefault cloudInfo =
     \<lparr>dvb_ID = id0, dvb_Name = dvf_Name f, dvb_Comment = dvf_Comment f, dvb_NetworkView = dvf_NetworkView f,
      dvb_Disable = dvf_Disable f, dvb_BlacklistAction = dvf_BlacklistAction f,
      dvb_BlacklistLogQuery = dvf_BlacklistLogQuery f,
      dvb_BlacklistRedirectAddresses = dvf_BlacklistRedirectAddresses f,
      dvb_BlacklistRedirectTTL = dvf_BlacklistRedirectTTL f, dvb_BlacklistRulesets = dvf_BlacklistRulesets f,
      dvb_UseBlacklist = dvf_UseBlacklist f, dvb_EnableBlacklist = dvf_EnableBlacklist f,
      dvb_CustomRootNameServers = nameServerValuesToCluster (dvf_CustomRootNameServers f),
      dvb_RootNameServerType = dvf_RootNameServerType f, dvb_UseRootNameServer = dvf_UseRootNameServer f,
      dvb_DdnsForceCreationTimestampUpdate = dvf_DdnsForceCreationTimestampUpdate f,
      dvb_UseDdnsForceCreationTimestampUpdate = dvf_UseDdnsForceCreationTimestampUpdate f,
      dvb_DdnsPrincipalGroup = dvf_DdnsPrincipalGroup f, dvb_DdnsPrincipalTracking = dvf_DdnsPrincipalTracking f,
      dvb_UseDdnsPrincipalSecurity = dvf_UseDdnsPrincipalSecurity f,
      dvb_DdnsRestrictPatterns = dvf_DdnsRestrictPatterns f,
      dvb_DdnsRestrictPatternsList = dvf_DdnsRestrictPatternsList f,
      dvb_UseDdnsPatternsRestriction = dvf_UseDdnsPatternsRestriction f,
      dvb_DdnsRestrictProtected = dvf_DdnsRestrictProtected f,
      dvb_UseDdnsRestrictProtected = dvf_UseDdnsRestrictProtected f,
      dvb_DdnsRestrictSecure = dvf_DdnsRestrictSecure f, dvb_DdnsRestrictStatic = dvf_DdnsRestrictStatic f,
      dvb_UseDdnsRestrictStatic = dvf_UseDdnsRestrictStatic f, dvb_Dns64Enabled = dvf_Dns64Enabled f,
      dvb_Dns64Groups = dvf_Dns64Groups f, dvb_UseDns64 = dvf_UseDns64 f, dvb_DnssecEnabled = dvf_DnssecEnabled f,
      dvb_DnssecExpiredSignaturesEnabled = dvf_DnssecExpiredSignaturesEnabled f,
      dvb_DnssecNegativeTrustAnchors = dvf_DnssecNegativeTrustAnchors f,
      dvb_DnssecTrustedKeys = dnssecTrustedKeyValuesToPtrCluster (dvf_DnssecTrustedKeys f),
      dvb_DnssecValidationEnabled = dvf_DnssecValidationEnabled f, dvb_UseDnssec = dvf_UseDnssec f,
      dvb_EnableFixedRrsetOrderFqdns = dvf_EnableFixedRrsetOrderFqdns f,
      dvb_FixedRrsetOrderFqdns = fixedRrsetOrderFqdnValuesToPtrCluster (dvf_FixedRrsetOrderFqdns f),
      dvb_UseFixedRrsetOrderFqdns = dvf_UseFixedRrsetOrderFqdns f,
      dvb_EnableMatchRecursiveOnly = dvf_EnableMatchRecursiveOnly f, dvb_ExtAttrs = dvf_ExtAttrs f,
      dvb_FilterAaaa = dvf_FilterAaaa f, dvb_FilterAaaaList = addressAcValuesToPtrCluster (dvf_FilterAaaaList f),
      dvb_UseFilterAaaa = dvf_UseFilterAaaa f, dvb_ForwardOnly = dvf_ForwardOnly f,
      dvb_Forwarders = dvf_Forwarders f, dvb_UseForwarders = dvf_UseForwarders f, dvb_LameTTL = dvf_LameTTL f,
      dvb_UseLameTTL = dvf_UseLameTTL f, dvb_MatchClients = addressAcValuesToPtrCluster (dvf_MatchClients f),
      dvb_MatchDestinations = addressAcValuesToPtrCluster (dvf_MatchDestinations f),
      dvb_MaxCacheTTL = dvf_MaxCacheTTL f, dvb_UseMaxCacheTTL = dvf_UseMaxCacheTTL f,
      dvb_MaxNcacheTTL = dvf_MaxNcacheTTL f, dvb_UseMaxNcacheTTL = dvf_UseMaxNcacheTTL f,
      dvb_NotifyDelay = dvf_NotifyDelay f, dvb_NxdomainLogQuery = dvf_NxdomainLogQuery f,
      dvb_NxdomainRedirect = dvf_NxdomainRedirect f,
      dvb_NxdomainRedirectAddresses = dvf_NxdomainRedirectAddresses f,
      dvb_NxdomainRedirectAddressesV6 = dvf_NxdomainRedirectAddressesV6 f,
      dvb_NxdomainRedirectTTL = dvf_NxdomainRedirectTTL f, dvb_NxdomainRulesets = dvf_NxdomainRulesets f,
      dvb_UseNxdomainRedirect = dvf_UseNxdomainRedirect f, dvb_Recursion = dvf_Recursion f,
      dvb_UseRecursion = dvf_UseRecursion f,
      dvb_ResponseRateLimiting = responseRateLimitingValueToCluster (dvf_ResponseRateLimiting f),
      dvb_UseResponseRateLimiting = dvf_UseResponseRateLimiting f,
      dvb_RpzDropIPRuleEnabled = dvf_RpzDropIPRuleEnabled f,
      dvb_RpzDropIPRuleMinPrefixLengthIPv4 = dvf_RpzDropIPRuleMinPrefixLengthIPv4 f,
      dvb_RpzDropIPRuleMinPrefixLengthIPv6 = dvf_RpzDropIPRuleMinPrefixLengthIPv6 f,
      dvb_UseRpzDropIPRule = dvf_UseRpzDropIPRule f, dvb_RpzQnameWaitRecurse = dvf_RpzQnameWaitRecurse f,
      dvb_UseRpzQnameWaitRecurse = dvf_UseRpzQnameWaitRecurse f,
      dvb_ScavengingSettings = scavengingSettingsValueToCluster (dvf_ScavengingSettings f),
      dvb_UseScavengingSettings = dvf_UseScavengingSettings f,
      dvb_Sortlist = sortlistEntryValuesToPtrCluster (dvf_Sortlist f), dvb_UseSortlist = dvf_UseSortlist f,
      dvb_Ref = ref, dvb_IsDefault = isDefault, dvb_CloudInfo = cloudInfoValueToCluster cloudInfo\<rparr>"

definition cluster_DNSView_Observe ::
  "vw_env \<Rightarrow> string \<Rightarrow> DNSViewCR \<Rightarrow> vw_world \<Rightarrow> (goerr + ExternalObservation) \<times> DNSViewCR \<times> vw_world" where
  "cluster_DNSView_Observe env endpoint cr w =
     (let ref = observeRefFor (mo_name cr) (GetExternalName cr) in
      case resolveViewIdentity env ref (mo_uid cr) w of
        (Inl err, w1) \<Rightarrow>
          if IsSearchFailure err then
            (case ensureIdentityPrerequisite env endpoint w1 of
               (Some prereqErr, w2) \<Rightarrow> (Inl prereqErr, cr, w2)
             | (None, w2) \<Rightarrow> (Inl (Wrapped errObserveDNSView err), cr, w2))
          else (Inl (Wrapped errObserveDNSView err), cr, w1)
      | (Inr (obj, outcome), w1) \<Rightarrow>
          if outcome = OutcomeNotFound then (Inr notExists, cr, w1)
          else
            (case obj of
               None \<Rightarrow> (Inl (TextError nilDereference), cr, w1)
             | Some v \<Rightarrow>
                 (let observed = fieldsFromView v;
                      cloudInfo = cloudInfoValueFromSDK (vwr_CloudInfo v);
                      status = clusterObservationFromFields observed (vwr_Ref v) (strPtrOrNil (vwr_Ref v)) (Some (vwr_IsDefault v)) cloudInfo;
                      cr1 = cr\<lparr>dv_AtProvider := status\<lparr>dvb_ID := vwr_Ref v\<rparr>\<rparr>;
                      desired = fieldsFromClusterParams (dv_ForProvider cr1);
                      observedForCompare = observed\<lparr>dvf_ExtAttrs := extAttrsFromEA (Strip (vwr_Ea v))\<rparr>;
                      (lateInit, changed) = DNSView_lateInitializeFields desired observedForCompare;
                      cr2 = (if changed
                             then cr1\<lparr>dv_ForProvider := applyFieldsToClusterParams lateInit (dv_ForProvider cr1)\<rparr> else cr1);
                      (cr3, changed1) =
                        (if outcome = OutcomeRotated \<or> outcome = OutcomeFoundByUID
                         then (SetExternalName (vwr_Ref v) cr2, True) else (cr2, changed));
                      cr4 = SetAvailable cr3;
                      upToDate = (DNSView_isUpToDate lateInit observedForCompare \<and> outcome \<noteq> OutcomeAdopted)
                  in (Inr \<lparr>ResourceExists = True, ResourceUpToDate = upToDate, ResourceLateInitialized = changed1\<rparr>, cr4, w1))))"

definition cluster_DNSView_Create ::
  "vw_env \<Rightarrow> string \<Rightarrow> DNSViewCR \<Rightarrow> vw_world \<Rightarrow> goerr option \<times> DNSViewCR \<times> vw_world" where
  "cluster_DNSView_Create env endpoint cr w =
     (let uid = mo_uid cr in
      if trim_space uid = [] then (Some (TextError DNSView_errEmptyUID), cr, w)
      else
        (case ensureIdentityPrerequisite env endpoint w of
           (Some err, w1) \<Rightarrow> (Some err, cr, w1)
         | (None, w1) \<Rightarrow>
             (let f = fieldsFromClusterParams (dv_ForProvider cr) in
              case createView env f uid w1 of
                (Inl err, w2) \<Rightarrow> (Some (Wrapped errCreateDNSView err), cr, w2)
              | (Inr ref, w2) \<Rightarrow> (None, SetExternalName ref cr, w2))))"

definition cluster_DNSView_Update ::
  "vw_env \<Rightarrow> string \<Rightarrow> DNSViewCR \<Rightarrow> vw_world \<Rightarrow> goerr option \<times> DNSViewCR \<times> vw_world" where
  "cluster_DNSView_Update env endpoint cr w =
     (let f = fieldsFromClusterParams (dv_ForProvider cr); externalID = GetExternalName cr in
      case ensureIdentityPrerequisite env endpoint w of
        (Some err, w1) \<Rightarrow> (Some err, cr, w1)
      | (None, w1) \<Rightarrow>
          (case updateView env externalID f (mo_uid cr) w1 of
             (Inl err, w2) \<Rightarrow> (Some (Wrapped errUpdateDNSView err), cr, w2)
           | (Inr ref, w2) \<Rightarrow>
               if ref \<noteq> [] \<and> ref \<noteq> externalID then
                 (case Refresh env cr ref w2 of
                    (Some err, cr2, w3) \<Rightarrow> (Some (Wrapped errPersistExternalName err), cr2, w3)
                  | (None, cr2, w3) \<Rightarrow> (None, cr2, w3))
               else (None, cr, w2)))"

definition cluster_DNSView_Delete :: "vw_env \<Rightarrow> string \<Rightarrow> DNSViewCR \<Rightarrow> vw_world \<Rightarrow> goerr option \<times> vw_world" where
  "cluster_DNSView_Delete env endpoint cr w =
     (let name = (case dvb_Name (dv_AtProvider cr) of None \<Rightarrow> dvp_Name (dv_ForProvider cr) | Some n \<Rightarrow> Some n) in
      if isWellKnownDNSViewName name then (None, w)
      else
        (let externalID = GetExternalName cr in
         case deleteViewIdentity env endpoint externalID (mo_uid cr) w of
           (Some err, w1) \<Rightarrow> (Some err, w1)
         | (None, w1) \<Rightarrow> (None, w1)))"

end
