(* ===== verification/DNSViewSpec.thy ===== *)
theory DNSViewSpec
  imports DNSView
begin

text \<open>
  What the DNSView controller promises: the laws of its field-by-field drift check and late initialisation,
  the shape of its handlers, and with these the promises of \<open>refreshing_client\<close>. Deletion differs from the other
  controllers: the three views of every Grid are left alone.
\<close>

section \<open>The drift check and late initialisation, field by field\<close>

definition fill_list_if :: "'a list \<Rightarrow> bool \<Rightarrow> 'a list \<Rightarrow> 'a list" where
  "fill_list_if xs g ys = (if g then fill_list xs ys else xs)"

lemma dnsview_late_eqs:
  "gatedLateInitStringPtr e e1 s t = (fill_if s (effectiveUseFlag e e1) (ptrIfSet t), fill_if s (effectiveUseFlag e e1) (ptrIfSet t) \<noteq> s)"
  "lateInitStringSlice xs ys = (fill_list xs ys, fill_list xs ys \<noteq> xs)"
  "lateInitNestedSlice us vs = (fill_list us vs, fill_list us vs \<noteq> us)"
  "gatedLateInitStringSlice e e1 xs ys = (fill_list_if xs (effectiveUseFlag e e1) ys, fill_list_if xs (effectiveUseFlag e e1) ys \<noteq> xs)"
  "gatedLateInitNestedSlice e e1 us vs = (fill_list_if us (effectiveUseFlag e e1) vs, fill_list_if us (effectiveUseFlag e e1) vs \<noteq> us)"
  "lateInitMap m k = (fill_map m k, fill_map m k \<noteq> m)"
  by (auto simp: gatedLateInitStringPtr_def lateInitStringSlice_def lateInitNestedSlice_def gatedLateInitStringSlice_def
      gatedLateInitNestedSlice_def lateInitMap_def zoneauth_late_eqs fill_list_def fill_list_if_def fill_map_def fill_if_def fill_def)

lemma assign_pair [simp]: "assign write (v, c) = (write v, c)"
  by (simp add: assign_def)

lemma effective_fill [simp]:
  "effectiveUseFlag (fill u v) v = effectiveUseFlag u v" "boolOrFalse (fill u v) = effectiveUseFlag u v"
  by (auto simp: effectiveUseFlag_def fill_def boolOrFalse_def split: option.splits)

lemma effective_agree: "boolOrFalse u = boolOrFalse v \<Longrightarrow> effectiveUseFlag u v = boolOrFalse v"
  by (auto simp: effectiveUseFlag_def boolOrFalse_def split: option.splits)

lemma fill_list_if_simps [simp]:
  "fill_list_if (fill_list_if xs g ys) g ys = fill_list_if xs g ys" "keeps_list xs (fill_list_if xs g ys)"
  by (auto simp: fill_list_if_def fill_list_def keeps_list_def)

definition dnsview_filled :: "dnsViewFields \<Rightarrow> dnsViewFields \<Rightarrow> dnsViewFields" where
  "dnsview_filled d obs =
     d\<lparr>dvf_Comment := fill (dvf_Comment d) (ptrIfSet (dvf_Comment obs)),
       dvf_NetworkView := fill (dvf_NetworkView d) (ptrIfSet (dvf_NetworkView obs)),
       dvf_Disable := fill (dvf_Disable d) (dvf_Disable obs),
       dvf_BlacklistAction := fill_if (dvf_BlacklistAction d) (effectiveUseFlag (dvf_UseBlacklist d) (dvf_UseBlacklist obs)) (ptrIfSet (dvf_BlacklistAction obs)),
       dvf_BlacklistLogQuery := fill_if (dvf_BlacklistLogQuery d) (effectiveUseFlag (dvf_UseBlacklist d) (dvf_UseBlacklist obs)) (dvf_BlacklistLogQuery obs),
       dvf_BlacklistRedirectAddresses := fill_list_if (dvf_BlacklistRedirectAddresses d) (effectiveUseFlag (dvf_UseBlacklist d) (dvf_UseBlacklist obs)) (dvf_BlacklistRedirectAddresses obs),
       dvf_BlacklistRedirectTTL := fill_if (dvf_BlacklistRedirectTTL d) (effectiveUseFlag (dvf_UseBlacklist d) (dvf_UseBlacklist obs)) (dvf_BlacklistRedirectTTL obs),
       dvf_BlacklistRulesets := fill_list_if (dvf_BlacklistRulesets d) (effectiveUseFlag (dvf_UseBlacklist d) (dvf_UseBlacklist obs)) (dvf_BlacklistRulesets obs),
       dvf_UseBlacklist := fill (dvf_UseBlacklist d) (dvf_UseBlacklist obs),
       dvf_EnableBlacklist := fill_if (dvf_EnableBlacklist d) (effectiveUseFlag (dvf_UseBlacklist d) (dvf_UseBlacklist obs)) (dvf_EnableBlacklist obs),
       dvf_RootNameServerType := fill_if (dvf_RootNameServerType d) (effectiveUseFlag (dvf_UseRootNameServer d) (dvf_UseRootNameServer obs)) (ptrIfSet (dvf_RootNameServerType obs)),
       dvf_UseRootNameServer := fill (dvf_UseRootNameServer d) (dvf_UseRootNameServer obs),
       dvf_DdnsForceCreationTimestampUpdate := fill_if (dvf_DdnsForceCreationTimestampUpdate d) (effectiveUseFlag (dvf_UseDdnsForceCreationTimestampUpdate d) (dvf_UseDdnsForceCreationTimestampUpdate obs)) (dvf_DdnsForceCreationTimestampUpdate obs),
       dvf_UseDdnsForceCreationTimestampUpdate := fill (dvf_UseDdnsForceCreationTimestampUpdate d) (dvf_UseDdnsForceCreationTimestampUpdate obs),
       dvf_DdnsPrincipalGroup := fill_if (dvf_DdnsPrincipalGroup d) (effectiveUseFlag (dvf_UseDdnsPrincipalSecurity d) (dvf_UseDdnsPrincipalSecurity obs)) (ptrIfSet (dvf_DdnsPrincipalGroup obs)),
       dvf_DdnsPrincipalTracking := fill_if (dvf_DdnsPrincipalTracking d) (effectiveUseFlag (dvf_UseDdnsPrincipalSecurity d) (dvf_UseDdnsPrincipalSecurity obs)) (dvf_DdnsPrincipalTracking obs),
       dvf_UseDdnsPrincipalSecurity := fill (dvf_UseDdnsPrincipalSecurity d) (dvf_UseDdnsPrincipalSecurity obs),
       dvf_DdnsRestrictPatterns := fill_if (dvf_DdnsRestrictPatterns d) (effectiveUseFlag (dvf_UseDdnsPatternsRestriction d) (dvf_UseDdnsPatternsRestriction obs)) (dvf_DdnsRestrictPatterns obs),
       dvf_DdnsRestrictPatternsList := fill_list_if (dvf_DdnsRestrictPatternsList d) (effectiveUseFlag (dvf_UseDdnsPatternsRestriction d) (dvf_UseDdnsPatternsRestriction obs)) (dvf_DdnsRestrictPatternsList obs),
       dvf_UseDdnsPatternsRestriction := fill (dvf_UseDdnsPatternsRestriction d) (dvf_UseDdnsPatternsRestriction obs),
       dvf_DdnsRestrictProtected := fill_if (dvf_DdnsRestrictProtected d) (effectiveUseFlag (dvf_UseDdnsRestrictProtected d) (dvf_UseDdnsRestrictProtected obs)) (dvf_DdnsRestrictProtected obs),
       dvf_UseDdnsRestrictProtected := fill (dvf_UseDdnsRestrictProtected d) (dvf_UseDdnsRestrictProtected obs),
       dvf_DdnsRestrictSecure := fill_if (dvf_DdnsRestrictSecure d) (effectiveUseFlag (dvf_UseDdnsPrincipalSecurity d) (dvf_UseDdnsPrincipalSecurity obs)) (dvf_DdnsRestrictSecure obs),
       dvf_DdnsRestrictStatic := fill_if (dvf_DdnsRestrictStatic d) (effectiveUseFlag (dvf_UseDdnsRestrictStatic d) (dvf_UseDdnsRestrictStatic obs)) (dvf_DdnsRestrictStatic obs),
       dvf_UseDdnsRestrictStatic := fill (dvf_UseDdnsRestrictStatic d) (dvf_UseDdnsRestrictStatic obs),
       dvf_Dns64Enabled := fill_if (dvf_Dns64Enabled d) (effectiveUseFlag (dvf_UseDns64 d) (dvf_UseDns64 obs)) (dvf_Dns64Enabled obs),
       dvf_Dns64Groups := fill_list_if (dvf_Dns64Groups d) (effectiveUseFlag (dvf_UseDns64 d) (dvf_UseDns64 obs)) (dvf_Dns64Groups obs),
       dvf_UseDns64 := fill (dvf_UseDns64 d) (dvf_UseDns64 obs),
       dvf_DnssecEnabled := fill_if (dvf_DnssecEnabled d) (effectiveUseFlag (dvf_UseDnssec d) (dvf_UseDnssec obs)) (dvf_DnssecEnabled obs),
       dvf_DnssecExpiredSignaturesEnabled := fill_if (dvf_DnssecExpiredSignaturesEnabled d) (effectiveUseFlag (dvf_UseDnssec d) (dvf_UseDnssec obs)) (dvf_DnssecExpiredSignaturesEnabled obs),
       dvf_DnssecNegativeTrustAnchors := fill_list (dvf_DnssecNegativeTrustAnchors d) (dvf_DnssecNegativeTrustAnchors obs),
       dvf_DnssecValidationEnabled := fill_if (dvf_DnssecValidationEnabled d) (effectiveUseFlag (dvf_UseDnssec d) (dvf_UseDnssec obs)) (dvf_DnssecValidationEnabled obs),
       dvf_UseDnssec := fill (dvf_UseDnssec d) (dvf_UseDnssec obs),
       dvf_EnableFixedRrsetOrderFqdns := fill_if (dvf_EnableFixedRrsetOrderFqdns d) (effectiveUseFlag (dvf_UseFixedRrsetOrderFqdns d) (dvf_UseFixedRrsetOrderFqdns obs)) (dvf_EnableFixedRrsetOrderFqdns obs),
       dvf_UseFixedRrsetOrderFqdns := fill (dvf_UseFixedRrsetOrderFqdns d) (dvf_UseFixedRrsetOrderFqdns obs),
       dvf_EnableMatchRecursiveOnly := fill (dvf_EnableMatchRecursiveOnly d) (dvf_EnableMatchRecursiveOnly obs),
       dvf_FilterAaaa := fill_if (dvf_FilterAaaa d) (effectiveUseFlag (dvf_UseFilterAaaa d) (dvf_UseFilterAaaa obs)) (ptrIfSet (dvf_FilterAaaa obs)),
       dvf_UseFilterAaaa := fill (dvf_UseFilterAaaa d) (dvf_UseFilterAaaa obs),
       dvf_ForwardOnly := fill_if (dvf_ForwardOnly d) (effectiveUseFlag (dvf_UseForwarders d) (dvf_UseForwarders obs)) (dvf_ForwardOnly obs),
       dvf_Forwarders := fill_list_if (dvf_Forwarders d) (effectiveUseFlag (dvf_UseForwarders d) (dvf_UseForwarders obs)) (dvf_Forwarders obs),
       dvf_UseForwarders := fill (dvf_UseForwarders d) (dvf_UseForwarders obs),
       dvf_LameTTL := fill_if (dvf_LameTTL d) (effectiveUseFlag (dvf_UseLameTTL d) (dvf_UseLameTTL obs)) (dvf_LameTTL obs),
       dvf_UseLameTTL := fill (dvf_UseLameTTL d) (dvf_UseLameTTL obs),
       dvf_MaxCacheTTL := fill_if (dvf_MaxCacheTTL d) (effectiveUseFlag (dvf_UseMaxCacheTTL d) (dvf_UseMaxCacheTTL obs)) (dvf_MaxCacheTTL obs),
       dvf_UseMaxCacheTTL := fill (dvf_UseMaxCacheTTL d) (dvf_UseMaxCacheTTL obs),
       dvf_MaxNcacheTTL := fill_if (dvf_MaxNcacheTTL d) (effectiveUseFlag (dvf_UseMaxNcacheTTL d) (dvf_UseMaxNcacheTTL obs)) (dvf_MaxNcacheTTL obs),
       dvf_UseMaxNcacheTTL := fill (dvf_UseMaxNcacheTTL d) (dvf_UseMaxNcacheTTL obs),
       dvf_NotifyDelay := fill (dvf_NotifyDelay d) (dvf_NotifyDelay obs),
       dvf_NxdomainLogQuery := fill_if (dvf_NxdomainLogQuery d) (effectiveUseFlag (dvf_UseNxdomainRedirect d) (dvf_UseNxdomainRedirect obs)) (dvf_NxdomainLogQuery obs),
       dvf_NxdomainRedirect := fill_if (dvf_NxdomainRedirect d) (effectiveUseFlag (dvf_UseNxdomainRedirect d) (dvf_UseNxdomainRedirect obs)) (dvf_NxdomainRedirect obs),
       dvf_NxdomainRedirectAddresses := fill_list_if (dvf_NxdomainRedirectAddresses d) (effectiveUseFlag (dvf_UseNxdomainRedirect d) (dvf_UseNxdomainRedirect obs)) (dvf_NxdomainRedirectAddresses obs),
       dvf_NxdomainRedirectAddressesV6 := fill_list_if (dvf_NxdomainRedirectAddressesV6 d) (effectiveUseFlag (dvf_UseNxdomainRedirect d) (dvf_UseNxdomainRedirect obs)) (dvf_NxdomainRedirectAddressesV6 obs),
       dvf_NxdomainRedirectTTL := fill_if (dvf_NxdomainRedirectTTL d) (effectiveUseFlag (dvf_UseNxdomainRedirect d) (dvf_UseNxdomainRedirect obs)) (dvf_NxdomainRedirectTTL obs),
       dvf_NxdomainRulesets := fill_list_if (dvf_NxdomainRulesets d) (effectiveUseFlag (dvf_UseNxdomainRedirect d) (dvf_UseNxdomainRedirect obs)) (dvf_NxdomainRulesets obs),
       dvf_UseNxdomainRedirect := fill (dvf_UseNxdomainRedirect d) (dvf_UseNxdomainRedirect obs),
       dvf_Recursion := fill_if (dvf_Recursion d) (effectiveUseFlag (dvf_UseRecursion d) (dvf_UseRecursion obs)) (dvf_Recursion obs),
       dvf_UseRecursion := fill (dvf_UseRecursion d) (dvf_UseRecursion obs),
       dvf_UseResponseRateLimiting := fill (dvf_UseResponseRateLimiting d) (dvf_UseResponseRateLimiting obs),
       dvf_RpzDropIPRuleEnabled := fill_if (dvf_RpzDropIPRuleEnabled d) (effectiveUseFlag (dvf_UseRpzDropIPRule d) (dvf_UseRpzDropIPRule obs)) (dvf_RpzDropIPRuleEnabled obs),
       dvf_RpzDropIPRuleMinPrefixLengthIPv4 := fill_if (dvf_RpzDropIPRuleMinPrefixLengthIPv4 d) (effectiveUseFlag (dvf_UseRpzDropIPRule d) (dvf_UseRpzDropIPRule obs)) (dvf_RpzDropIPRuleMinPrefixLengthIPv4 obs),
       dvf_RpzDropIPRuleMinPrefixLengthIPv6 := fill_if (dvf_RpzDropIPRuleMinPrefixLengthIPv6 d) (effectiveUseFlag (dvf_UseRpzDropIPRule d) (dvf_UseRpzDropIPRule obs)) (dvf_RpzDropIPRuleMinPrefixLengthIPv6 obs),
       dvf_UseRpzDropIPRule := fill (dvf_UseRpzDropIPRule d) (dvf_UseRpzDropIPRule obs),
       dvf_RpzQnameWaitRecurse := fill_if (dvf_RpzQnameWaitRecurse d) (effectiveUseFlag (dvf_UseRpzQnameWaitRecurse d) (dvf_UseRpzQnameWaitRecurse obs)) (dvf_RpzQnameWaitRecurse obs),
       dvf_UseRpzQnameWaitRecurse := fill (dvf_UseRpzQnameWaitRecurse d) (dvf_UseRpzQnameWaitRecurse obs),
       dvf_UseScavengingSettings := fill (dvf_UseScavengingSettings d) (dvf_UseScavengingSettings obs),
       dvf_UseSortlist := fill (dvf_UseSortlist d) (dvf_UseSortlist obs),
       dvf_ExtAttrs := fill_map (dvf_ExtAttrs d) (dvf_ExtAttrs obs),
       dvf_CustomRootNameServers := fill_list_if (dvf_CustomRootNameServers d) (effectiveUseFlag (dvf_UseRootNameServer d) (dvf_UseRootNameServer obs)) (dvf_CustomRootNameServers obs),
       dvf_DnssecTrustedKeys := fill_list_if (dvf_DnssecTrustedKeys d) (effectiveUseFlag (dvf_UseDnssec d) (dvf_UseDnssec obs)) (dvf_DnssecTrustedKeys obs),
       dvf_FixedRrsetOrderFqdns := fill_list_if (dvf_FixedRrsetOrderFqdns d) (effectiveUseFlag (dvf_UseFixedRrsetOrderFqdns d) (dvf_UseFixedRrsetOrderFqdns obs)) (dvf_FixedRrsetOrderFqdns obs),
       dvf_FilterAaaaList := fill_list_if (dvf_FilterAaaaList d) (effectiveUseFlag (dvf_UseFilterAaaa d) (dvf_UseFilterAaaa obs)) (dvf_FilterAaaaList obs),
       dvf_MatchClients := fill_list (dvf_MatchClients d) (dvf_MatchClients obs),
       dvf_MatchDestinations := fill_list (dvf_MatchDestinations d) (dvf_MatchDestinations obs),
       dvf_Sortlist := fill_list_if (dvf_Sortlist d) (effectiveUseFlag (dvf_UseSortlist d) (dvf_UseSortlist obs)) (dvf_Sortlist obs),
       dvf_ResponseRateLimiting := fill_if (dvf_ResponseRateLimiting d) (effectiveUseFlag (dvf_UseResponseRateLimiting d) (dvf_UseResponseRateLimiting obs)) (dvf_ResponseRateLimiting obs),
       dvf_ScavengingSettings := fill_if (dvf_ScavengingSettings d) (effectiveUseFlag (dvf_UseScavengingSettings d) (dvf_UseScavengingSettings obs)) (dvf_ScavengingSettings obs)\<rparr>"

definition dnsview_changed :: "dnsViewFields \<Rightarrow> dnsViewFields \<Rightarrow> bool" where
  "dnsview_changed d obs \<longleftrightarrow>
     fill_if (dvf_ScavengingSettings d) (effectiveUseFlag (dvf_UseScavengingSettings d) (dvf_UseScavengingSettings obs)) (dvf_ScavengingSettings obs) \<noteq> dvf_ScavengingSettings d \<or>
     fill_if (dvf_ResponseRateLimiting d) (effectiveUseFlag (dvf_UseResponseRateLimiting d) (dvf_UseResponseRateLimiting obs)) (dvf_ResponseRateLimiting obs) \<noteq> dvf_ResponseRateLimiting d \<or>
     fill_list_if (dvf_Sortlist d) (effectiveUseFlag (dvf_UseSortlist d) (dvf_UseSortlist obs)) (dvf_Sortlist obs) \<noteq> dvf_Sortlist d \<or>
     fill_list (dvf_MatchDestinations d) (dvf_MatchDestinations obs) \<noteq> dvf_MatchDestinations d \<or>
     fill_list (dvf_MatchClients d) (dvf_MatchClients obs) \<noteq> dvf_MatchClients d \<or>
     fill_list_if (dvf_FilterAaaaList d) (effectiveUseFlag (dvf_UseFilterAaaa d) (dvf_UseFilterAaaa obs)) (dvf_FilterAaaaList obs) \<noteq> dvf_FilterAaaaList d \<or>
     fill_list_if (dvf_FixedRrsetOrderFqdns d) (effectiveUseFlag (dvf_UseFixedRrsetOrderFqdns d) (dvf_UseFixedRrsetOrderFqdns obs)) (dvf_FixedRrsetOrderFqdns obs) \<noteq> dvf_FixedRrsetOrderFqdns d \<or>
     fill_list_if (dvf_DnssecTrustedKeys d) (effectiveUseFlag (dvf_UseDnssec d) (dvf_UseDnssec obs)) (dvf_DnssecTrustedKeys obs) \<noteq> dvf_DnssecTrustedKeys d \<or>
     fill_list_if (dvf_CustomRootNameServers d) (effectiveUseFlag (dvf_UseRootNameServer d) (dvf_UseRootNameServer obs)) (dvf_CustomRootNameServers obs) \<noteq> dvf_CustomRootNameServers d \<or>
     fill_map (dvf_ExtAttrs d) (dvf_ExtAttrs obs) \<noteq> dvf_ExtAttrs d \<or>
     fill (dvf_UseSortlist d) (dvf_UseSortlist obs) \<noteq> dvf_UseSortlist d \<or>
     fill (dvf_UseScavengingSettings d) (dvf_UseScavengingSettings obs) \<noteq> dvf_UseScavengingSettings d \<or>
     fill (dvf_UseRpzQnameWaitRecurse d) (dvf_UseRpzQnameWaitRecurse obs) \<noteq> dvf_UseRpzQnameWaitRecurse d \<or>
     fill_if (dvf_RpzQnameWaitRecurse d) (effectiveUseFlag (dvf_UseRpzQnameWaitRecurse d) (dvf_UseRpzQnameWaitRecurse obs)) (dvf_RpzQnameWaitRecurse obs) \<noteq> dvf_RpzQnameWaitRecurse d \<or>
     fill (dvf_UseRpzDropIPRule d) (dvf_UseRpzDropIPRule obs) \<noteq> dvf_UseRpzDropIPRule d \<or>
     fill_if (dvf_RpzDropIPRuleMinPrefixLengthIPv6 d) (effectiveUseFlag (dvf_UseRpzDropIPRule d) (dvf_UseRpzDropIPRule obs)) (dvf_RpzDropIPRuleMinPrefixLengthIPv6 obs) \<noteq> dvf_RpzDropIPRuleMinPrefixLengthIPv6 d \<or>
     fill_if (dvf_RpzDropIPRuleMinPrefixLengthIPv4 d) (effectiveUseFlag (dvf_UseRpzDropIPRule d) (dvf_UseRpzDropIPRule obs)) (dvf_RpzDropIPRuleMinPrefixLengthIPv4 obs) \<noteq> dvf_RpzDropIPRuleMinPrefixLengthIPv4 d \<or>
     fill_if (dvf_RpzDropIPRuleEnabled d) (effectiveUseFlag (dvf_UseRpzDropIPRule d) (dvf_UseRpzDropIPRule obs)) (dvf_RpzDropIPRuleEnabled obs) \<noteq> dvf_RpzDropIPRuleEnabled d \<or>
     fill (dvf_UseResponseRateLimiting d) (dvf_UseResponseRateLimiting obs) \<noteq> dvf_UseResponseRateLimiting d \<or>
     fill (dvf_UseRecursion d) (dvf_UseRecursion obs) \<noteq> dvf_UseRecursion d \<or>
     fill_if (dvf_Recursion d) (effectiveUseFlag (dvf_UseRecursion d) (dvf_UseRecursion obs)) (dvf_Recursion obs) \<noteq> dvf_Recursion d \<or>
     fill (dvf_UseNxdomainRedirect d) (dvf_UseNxdomainRedirect obs) \<noteq> dvf_UseNxdomainRedirect d \<or>
     fill_list_if (dvf_NxdomainRulesets d) (effectiveUseFlag (dvf_UseNxdomainRedirect d) (dvf_UseNxdomainRedirect obs)) (dvf_NxdomainRulesets obs) \<noteq> dvf_NxdomainRulesets d \<or>
     fill_if (dvf_NxdomainRedirectTTL d) (effectiveUseFlag (dvf_UseNxdomainRedirect d) (dvf_UseNxdomainRedirect obs)) (dvf_NxdomainRedirectTTL obs) \<noteq> dvf_NxdomainRedirectTTL d \<or>
     fill_list_if (dvf_NxdomainRedirectAddressesV6 d) (effectiveUseFlag (dvf_UseNxdomainRedirect d) (dvf_UseNxdomainRedirect obs)) (dvf_NxdomainRedirectAddressesV6 obs) \<noteq> dvf_NxdomainRedirectAddressesV6 d \<or>
     fill_list_if (dvf_NxdomainRedirectAddresses d) (effectiveUseFlag (dvf_UseNxdomainRedirect d) (dvf_UseNxdomainRedirect obs)) (dvf_NxdomainRedirectAddresses obs) \<noteq> dvf_NxdomainRedirectAddresses d \<or>
     fill_if (dvf_NxdomainRedirect d) (effectiveUseFlag (dvf_UseNxdomainRedirect d) (dvf_UseNxdomainRedirect obs)) (dvf_NxdomainRedirect obs) \<noteq> dvf_NxdomainRedirect d \<or>
     fill_if (dvf_NxdomainLogQuery d) (effectiveUseFlag (dvf_UseNxdomainRedirect d) (dvf_UseNxdomainRedirect obs)) (dvf_NxdomainLogQuery obs) \<noteq> dvf_NxdomainLogQuery d \<or>
     fill (dvf_NotifyDelay d) (dvf_NotifyDelay obs) \<noteq> dvf_NotifyDelay d \<or>
     fill (dvf_UseMaxNcacheTTL d) (dvf_UseMaxNcacheTTL obs) \<noteq> dvf_UseMaxNcacheTTL d \<or>
     fill_if (dvf_MaxNcacheTTL d) (effectiveUseFlag (dvf_UseMaxNcacheTTL d) (dvf_UseMaxNcacheTTL obs)) (dvf_MaxNcacheTTL obs) \<noteq> dvf_MaxNcacheTTL d \<or>
     fill (dvf_UseMaxCacheTTL d) (dvf_UseMaxCacheTTL obs) \<noteq> dvf_UseMaxCacheTTL d \<or>
     fill_if (dvf_MaxCacheTTL d) (effectiveUseFlag (dvf_UseMaxCacheTTL d) (dvf_UseMaxCacheTTL obs)) (dvf_MaxCacheTTL obs) \<noteq> dvf_MaxCacheTTL d \<or>
     fill (dvf_UseLameTTL d) (dvf_UseLameTTL obs) \<noteq> dvf_UseLameTTL d \<or>
     fill_if (dvf_LameTTL d) (effectiveUseFlag (dvf_UseLameTTL d) (dvf_UseLameTTL obs)) (dvf_LameTTL obs) \<noteq> dvf_LameTTL d \<or>
     fill (dvf_UseForwarders d) (dvf_UseForwarders obs) \<noteq> dvf_UseForwarders d \<or>
     fill_list_if (dvf_Forwarders d) (effectiveUseFlag (dvf_UseForwarders d) (dvf_UseForwarders obs)) (dvf_Forwarders obs) \<noteq> dvf_Forwarders d \<or>
     fill_if (dvf_ForwardOnly d) (effectiveUseFlag (dvf_UseForwarders d) (dvf_UseForwarders obs)) (dvf_ForwardOnly obs) \<noteq> dvf_ForwardOnly d \<or>
     fill (dvf_UseFilterAaaa d) (dvf_UseFilterAaaa obs) \<noteq> dvf_UseFilterAaaa d \<or>
     fill_if (dvf_FilterAaaa d) (effectiveUseFlag (dvf_UseFilterAaaa d) (dvf_UseFilterAaaa obs)) (ptrIfSet (dvf_FilterAaaa obs)) \<noteq> dvf_FilterAaaa d \<or>
     fill (dvf_EnableMatchRecursiveOnly d) (dvf_EnableMatchRecursiveOnly obs) \<noteq> dvf_EnableMatchRecursiveOnly d \<or>
     fill (dvf_UseFixedRrsetOrderFqdns d) (dvf_UseFixedRrsetOrderFqdns obs) \<noteq> dvf_UseFixedRrsetOrderFqdns d \<or>
     fill_if (dvf_EnableFixedRrsetOrderFqdns d) (effectiveUseFlag (dvf_UseFixedRrsetOrderFqdns d) (dvf_UseFixedRrsetOrderFqdns obs)) (dvf_EnableFixedRrsetOrderFqdns obs) \<noteq> dvf_EnableFixedRrsetOrderFqdns d \<or>
     fill (dvf_UseDnssec d) (dvf_UseDnssec obs) \<noteq> dvf_UseDnssec d \<or>
     fill_if (dvf_DnssecValidationEnabled d) (effectiveUseFlag (dvf_UseDnssec d) (dvf_UseDnssec obs)) (dvf_DnssecValidationEnabled obs) \<noteq> dvf_DnssecValidationEnabled d \<or>
     fill_list (dvf_DnssecNegativeTrustAnchors d) (dvf_DnssecNegativeTrustAnchors obs) \<noteq> dvf_DnssecNegativeTrustAnchors d \<or>
     fill_if (dvf_DnssecExpiredSignaturesEnabled d) (effectiveUseFlag (dvf_UseDnssec d) (dvf_UseDnssec obs)) (dvf_DnssecExpiredSignaturesEnabled obs) \<noteq> dvf_DnssecExpiredSignaturesEnabled d \<or>
     fill_if (dvf_DnssecEnabled d) (effectiveUseFlag (dvf_UseDnssec d) (dvf_UseDnssec obs)) (dvf_DnssecEnabled obs) \<noteq> dvf_DnssecEnabled d \<or>
     fill (dvf_UseDns64 d) (dvf_UseDns64 obs) \<noteq> dvf_UseDns64 d \<or>
     fill_list_if (dvf_Dns64Groups d) (effectiveUseFlag (dvf_UseDns64 d) (dvf_UseDns64 obs)) (dvf_Dns64Groups obs) \<noteq> dvf_Dns64Groups d \<or>
     fill_if (dvf_Dns64Enabled d) (effectiveUseFlag (dvf_UseDns64 d) (dvf_UseDns64 obs)) (dvf_Dns64Enabled obs) \<noteq> dvf_Dns64Enabled d \<or>
     fill (dvf_UseDdnsRestrictStatic d) (dvf_UseDdnsRestrictStatic obs) \<noteq> dvf_UseDdnsRestrictStatic d \<or>
     fill_if (dvf_DdnsRestrictStatic d) (effectiveUseFlag (dvf_UseDdnsRestrictStatic d) (dvf_UseDdnsRestrictStatic obs)) (dvf_DdnsRestrictStatic obs) \<noteq> dvf_DdnsRestrictStatic d \<or>
     fill_if (dvf_DdnsRestrictSecure d) (effectiveUseFlag (dvf_UseDdnsPrincipalSecurity d) (dvf_UseDdnsPrincipalSecurity obs)) (dvf_DdnsRestrictSecure obs) \<noteq> dvf_DdnsRestrictSecure d \<or>
     fill (dvf_UseDdnsRestrictProtected d) (dvf_UseDdnsRestrictProtected obs) \<noteq> dvf_UseDdnsRestrictProtected d \<or>
     fill_if (dvf_DdnsRestrictProtected d) (effectiveUseFlag (dvf_UseDdnsRestrictProtected d) (dvf_UseDdnsRestrictProtected obs)) (dvf_DdnsRestrictProtected obs) \<noteq> dvf_DdnsRestrictProtected d \<or>
     fill (dvf_UseDdnsPatternsRestriction d) (dvf_UseDdnsPatternsRestriction obs) \<noteq> dvf_UseDdnsPatternsRestriction d \<or>
     fill_list_if (dvf_DdnsRestrictPatternsList d) (effectiveUseFlag (dvf_UseDdnsPatternsRestriction d) (dvf_UseDdnsPatternsRestriction obs)) (dvf_DdnsRestrictPatternsList obs) \<noteq> dvf_DdnsRestrictPatternsList d \<or>
     fill_if (dvf_DdnsRestrictPatterns d) (effectiveUseFlag (dvf_UseDdnsPatternsRestriction d) (dvf_UseDdnsPatternsRestriction obs)) (dvf_DdnsRestrictPatterns obs) \<noteq> dvf_DdnsRestrictPatterns d \<or>
     fill (dvf_UseDdnsPrincipalSecurity d) (dvf_UseDdnsPrincipalSecurity obs) \<noteq> dvf_UseDdnsPrincipalSecurity d \<or>
     fill_if (dvf_DdnsPrincipalTracking d) (effectiveUseFlag (dvf_UseDdnsPrincipalSecurity d) (dvf_UseDdnsPrincipalSecurity obs)) (dvf_DdnsPrincipalTracking obs) \<noteq> dvf_DdnsPrincipalTracking d \<or>
     fill_if (dvf_DdnsPrincipalGroup d) (effectiveUseFlag (dvf_UseDdnsPrincipalSecurity d) (dvf_UseDdnsPrincipalSecurity obs)) (ptrIfSet (dvf_DdnsPrincipalGroup obs)) \<noteq> dvf_DdnsPrincipalGroup d \<or>
     fill (dvf_UseDdnsForceCreationTimestampUpdate d) (dvf_UseDdnsForceCreationTimestampUpdate obs) \<noteq> dvf_UseDdnsForceCreationTimestampUpdate d \<or>
     fill_if (dvf_DdnsForceCreationTimestampUpdate d) (effectiveUseFlag (dvf_UseDdnsForceCreationTimestampUpdate d) (dvf_UseDdnsForceCreationTimestampUpdate obs)) (dvf_DdnsForceCreationTimestampUpdate obs) \<noteq> dvf_DdnsForceCreationTimestampUpdate d \<or>
     fill (dvf_UseRootNameServer d) (dvf_UseRootNameServer obs) \<noteq> dvf_UseRootNameServer d \<or>
     fill_if (dvf_RootNameServerType d) (effectiveUseFlag (dvf_UseRootNameServer d) (dvf_UseRootNameServer obs)) (ptrIfSet (dvf_RootNameServerType obs)) \<noteq> dvf_RootNameServerType d \<or>
     fill_if (dvf_EnableBlacklist d) (effectiveUseFlag (dvf_UseBlacklist d) (dvf_UseBlacklist obs)) (dvf_EnableBlacklist obs) \<noteq> dvf_EnableBlacklist d \<or>
     fill (dvf_UseBlacklist d) (dvf_UseBlacklist obs) \<noteq> dvf_UseBlacklist d \<or>
     fill_list_if (dvf_BlacklistRulesets d) (effectiveUseFlag (dvf_UseBlacklist d) (dvf_UseBlacklist obs)) (dvf_BlacklistRulesets obs) \<noteq> dvf_BlacklistRulesets d \<or>
     fill_if (dvf_BlacklistRedirectTTL d) (effectiveUseFlag (dvf_UseBlacklist d) (dvf_UseBlacklist obs)) (dvf_BlacklistRedirectTTL obs) \<noteq> dvf_BlacklistRedirectTTL d \<or>
     fill_list_if (dvf_BlacklistRedirectAddresses d) (effectiveUseFlag (dvf_UseBlacklist d) (dvf_UseBlacklist obs)) (dvf_BlacklistRedirectAddresses obs) \<noteq> dvf_BlacklistRedirectAddresses d \<or>
     fill_if (dvf_BlacklistLogQuery d) (effectiveUseFlag (dvf_UseBlacklist d) (dvf_UseBlacklist obs)) (dvf_BlacklistLogQuery obs) \<noteq> dvf_BlacklistLogQuery d \<or>
     fill_if (dvf_BlacklistAction d) (effectiveUseFlag (dvf_UseBlacklist d) (dvf_UseBlacklist obs)) (ptrIfSet (dvf_BlacklistAction obs)) \<noteq> dvf_BlacklistAction d \<or>
     fill (dvf_Disable d) (dvf_Disable obs) \<noteq> dvf_Disable d \<or>
     fill (dvf_NetworkView d) (ptrIfSet (dvf_NetworkView obs)) \<noteq> dvf_NetworkView d \<or>
     fill (dvf_Comment d) (ptrIfSet (dvf_Comment obs)) \<noteq> dvf_Comment d"

lemma DNSView_lateInitializeFields_eq:
  "DNSView_lateInitializeFields d obs = (dnsview_filled d obs, dnsview_changed d obs)"
  by (simp add: DNSView_lateInitializeFields_def dnsViewLateInitOps_def dnsview_late_eqs zoneauth_late_eqs
      dnsview_filled_def dnsview_changed_def del: disj_not1)

lemma dnsview_filled_sel [simp]:
  "dvf_Name (dnsview_filled d obs) = dvf_Name d"
  "dvf_Comment (dnsview_filled d obs) = fill (dvf_Comment d) (ptrIfSet (dvf_Comment obs))"
  "dvf_NetworkView (dnsview_filled d obs) = fill (dvf_NetworkView d) (ptrIfSet (dvf_NetworkView obs))"
  "dvf_Disable (dnsview_filled d obs) = fill (dvf_Disable d) (dvf_Disable obs)"
  "dvf_BlacklistAction (dnsview_filled d obs) = fill_if (dvf_BlacklistAction d) (effectiveUseFlag (dvf_UseBlacklist d) (dvf_UseBlacklist obs)) (ptrIfSet (dvf_BlacklistAction obs))"
  "dvf_BlacklistLogQuery (dnsview_filled d obs) = fill_if (dvf_BlacklistLogQuery d) (effectiveUseFlag (dvf_UseBlacklist d) (dvf_UseBlacklist obs)) (dvf_BlacklistLogQuery obs)"
  "dvf_BlacklistRedirectAddresses (dnsview_filled d obs) = fill_list_if (dvf_BlacklistRedirectAddresses d) (effectiveUseFlag (dvf_UseBlacklist d) (dvf_UseBlacklist obs)) (dvf_BlacklistRedirectAddresses obs)"
  "dvf_BlacklistRedirectTTL (dnsview_filled d obs) = fill_if (dvf_BlacklistRedirectTTL d) (effectiveUseFlag (dvf_UseBlacklist d) (dvf_UseBlacklist obs)) (dvf_BlacklistRedirectTTL obs)"
  "dvf_BlacklistRulesets (dnsview_filled d obs) = fill_list_if (dvf_BlacklistRulesets d) (effectiveUseFlag (dvf_UseBlacklist d) (dvf_UseBlacklist obs)) (dvf_BlacklistRulesets obs)"
  "dvf_UseBlacklist (dnsview_filled d obs) = fill (dvf_UseBlacklist d) (dvf_UseBlacklist obs)"
  "dvf_EnableBlacklist (dnsview_filled d obs) = fill_if (dvf_EnableBlacklist d) (effectiveUseFlag (dvf_UseBlacklist d) (dvf_UseBlacklist obs)) (dvf_EnableBlacklist obs)"
  "dvf_RootNameServerType (dnsview_filled d obs) = fill_if (dvf_RootNameServerType d) (effectiveUseFlag (dvf_UseRootNameServer d) (dvf_UseRootNameServer obs)) (ptrIfSet (dvf_RootNameServerType obs))"
  "dvf_UseRootNameServer (dnsview_filled d obs) = fill (dvf_UseRootNameServer d) (dvf_UseRootNameServer obs)"
  "dvf_DdnsForceCreationTimestampUpdate (dnsview_filled d obs) = fill_if (dvf_DdnsForceCreationTimestampUpdate d) (effectiveUseFlag (dvf_UseDdnsForceCreationTimestampUpdate d) (dvf_UseDdnsForceCreationTimestampUpdate obs)) (dvf_DdnsForceCreationTimestampUpdate obs)"
  "dvf_UseDdnsForceCreationTimestampUpdate (dnsview_filled d obs) = fill (dvf_UseDdnsForceCreationTimestampUpdate d) (dvf_UseDdnsForceCreationTimestampUpdate obs)"
  "dvf_DdnsPrincipalGroup (dnsview_filled d obs) = fill_if (dvf_DdnsPrincipalGroup d) (effectiveUseFlag (dvf_UseDdnsPrincipalSecurity d) (dvf_UseDdnsPrincipalSecurity obs)) (ptrIfSet (dvf_DdnsPrincipalGroup obs))"
  "dvf_DdnsPrincipalTracking (dnsview_filled d obs) = fill_if (dvf_DdnsPrincipalTracking d) (effectiveUseFlag (dvf_UseDdnsPrincipalSecurity d) (dvf_UseDdnsPrincipalSecurity obs)) (dvf_DdnsPrincipalTracking obs)"
  "dvf_UseDdnsPrincipalSecurity (dnsview_filled d obs) = fill (dvf_UseDdnsPrincipalSecurity d) (dvf_UseDdnsPrincipalSecurity obs)"
  "dvf_DdnsRestrictPatterns (dnsview_filled d obs) = fill_if (dvf_DdnsRestrictPatterns d) (effectiveUseFlag (dvf_UseDdnsPatternsRestriction d) (dvf_UseDdnsPatternsRestriction obs)) (dvf_DdnsRestrictPatterns obs)"
  "dvf_DdnsRestrictPatternsList (dnsview_filled d obs) = fill_list_if (dvf_DdnsRestrictPatternsList d) (effectiveUseFlag (dvf_UseDdnsPatternsRestriction d) (dvf_UseDdnsPatternsRestriction obs)) (dvf_DdnsRestrictPatternsList obs)"
  "dvf_UseDdnsPatternsRestriction (dnsview_filled d obs) = fill (dvf_UseDdnsPatternsRestriction d) (dvf_UseDdnsPatternsRestriction obs)"
  "dvf_DdnsRestrictProtected (dnsview_filled d obs) = fill_if (dvf_DdnsRestrictProtected d) (effectiveUseFlag (dvf_UseDdnsRestrictProtected d) (dvf_UseDdnsRestrictProtected obs)) (dvf_DdnsRestrictProtected obs)"
  "dvf_UseDdnsRestrictProtected (dnsview_filled d obs) = fill (dvf_UseDdnsRestrictProtected d) (dvf_UseDdnsRestrictProtected obs)"
  "dvf_DdnsRestrictSecure (dnsview_filled d obs) = fill_if (dvf_DdnsRestrictSecure d) (effectiveUseFlag (dvf_UseDdnsPrincipalSecurity d) (dvf_UseDdnsPrincipalSecurity obs)) (dvf_DdnsRestrictSecure obs)"
  "dvf_DdnsRestrictStatic (dnsview_filled d obs) = fill_if (dvf_DdnsRestrictStatic d) (effectiveUseFlag (dvf_UseDdnsRestrictStatic d) (dvf_UseDdnsRestrictStatic obs)) (dvf_DdnsRestrictStatic obs)"
  "dvf_UseDdnsRestrictStatic (dnsview_filled d obs) = fill (dvf_UseDdnsRestrictStatic d) (dvf_UseDdnsRestrictStatic obs)"
  "dvf_Dns64Enabled (dnsview_filled d obs) = fill_if (dvf_Dns64Enabled d) (effectiveUseFlag (dvf_UseDns64 d) (dvf_UseDns64 obs)) (dvf_Dns64Enabled obs)"
  "dvf_Dns64Groups (dnsview_filled d obs) = fill_list_if (dvf_Dns64Groups d) (effectiveUseFlag (dvf_UseDns64 d) (dvf_UseDns64 obs)) (dvf_Dns64Groups obs)"
  "dvf_UseDns64 (dnsview_filled d obs) = fill (dvf_UseDns64 d) (dvf_UseDns64 obs)"
  "dvf_DnssecEnabled (dnsview_filled d obs) = fill_if (dvf_DnssecEnabled d) (effectiveUseFlag (dvf_UseDnssec d) (dvf_UseDnssec obs)) (dvf_DnssecEnabled obs)"
  "dvf_DnssecExpiredSignaturesEnabled (dnsview_filled d obs) = fill_if (dvf_DnssecExpiredSignaturesEnabled d) (effectiveUseFlag (dvf_UseDnssec d) (dvf_UseDnssec obs)) (dvf_DnssecExpiredSignaturesEnabled obs)"
  "dvf_DnssecNegativeTrustAnchors (dnsview_filled d obs) = fill_list (dvf_DnssecNegativeTrustAnchors d) (dvf_DnssecNegativeTrustAnchors obs)"
  "dvf_DnssecValidationEnabled (dnsview_filled d obs) = fill_if (dvf_DnssecValidationEnabled d) (effectiveUseFlag (dvf_UseDnssec d) (dvf_UseDnssec obs)) (dvf_DnssecValidationEnabled obs)"
  "dvf_UseDnssec (dnsview_filled d obs) = fill (dvf_UseDnssec d) (dvf_UseDnssec obs)"
  "dvf_EnableFixedRrsetOrderFqdns (dnsview_filled d obs) = fill_if (dvf_EnableFixedRrsetOrderFqdns d) (effectiveUseFlag (dvf_UseFixedRrsetOrderFqdns d) (dvf_UseFixedRrsetOrderFqdns obs)) (dvf_EnableFixedRrsetOrderFqdns obs)"
  "dvf_UseFixedRrsetOrderFqdns (dnsview_filled d obs) = fill (dvf_UseFixedRrsetOrderFqdns d) (dvf_UseFixedRrsetOrderFqdns obs)"
  "dvf_EnableMatchRecursiveOnly (dnsview_filled d obs) = fill (dvf_EnableMatchRecursiveOnly d) (dvf_EnableMatchRecursiveOnly obs)"
  "dvf_FilterAaaa (dnsview_filled d obs) = fill_if (dvf_FilterAaaa d) (effectiveUseFlag (dvf_UseFilterAaaa d) (dvf_UseFilterAaaa obs)) (ptrIfSet (dvf_FilterAaaa obs))"
  "dvf_UseFilterAaaa (dnsview_filled d obs) = fill (dvf_UseFilterAaaa d) (dvf_UseFilterAaaa obs)"
  "dvf_ForwardOnly (dnsview_filled d obs) = fill_if (dvf_ForwardOnly d) (effectiveUseFlag (dvf_UseForwarders d) (dvf_UseForwarders obs)) (dvf_ForwardOnly obs)"
  "dvf_Forwarders (dnsview_filled d obs) = fill_list_if (dvf_Forwarders d) (effectiveUseFlag (dvf_UseForwarders d) (dvf_UseForwarders obs)) (dvf_Forwarders obs)"
  "dvf_UseForwarders (dnsview_filled d obs) = fill (dvf_UseForwarders d) (dvf_UseForwarders obs)"
  "dvf_LameTTL (dnsview_filled d obs) = fill_if (dvf_LameTTL d) (effectiveUseFlag (dvf_UseLameTTL d) (dvf_UseLameTTL obs)) (dvf_LameTTL obs)"
  "dvf_UseLameTTL (dnsview_filled d obs) = fill (dvf_UseLameTTL d) (dvf_UseLameTTL obs)"
  "dvf_MaxCacheTTL (dnsview_filled d obs) = fill_if (dvf_MaxCacheTTL d) (effectiveUseFlag (dvf_UseMaxCacheTTL d) (dvf_UseMaxCacheTTL obs)) (dvf_MaxCacheTTL obs)"
  "dvf_UseMaxCacheTTL (dnsview_filled d obs) = fill (dvf_UseMaxCacheTTL d) (dvf_UseMaxCacheTTL obs)"
  "dvf_MaxNcacheTTL (dnsview_filled d obs) = fill_if (dvf_MaxNcacheTTL d) (effectiveUseFlag (dvf_UseMaxNcacheTTL d) (dvf_UseMaxNcacheTTL obs)) (dvf_MaxNcacheTTL obs)"
  "dvf_UseMaxNcacheTTL (dnsview_filled d obs) = fill (dvf_UseMaxNcacheTTL d) (dvf_UseMaxNcacheTTL obs)"
  "dvf_NotifyDelay (dnsview_filled d obs) = fill (dvf_NotifyDelay d) (dvf_NotifyDelay obs)"
  "dvf_NxdomainLogQuery (dnsview_filled d obs) = fill_if (dvf_NxdomainLogQuery d) (effectiveUseFlag (dvf_UseNxdomainRedirect d) (dvf_UseNxdomainRedirect obs)) (dvf_NxdomainLogQuery obs)"
  "dvf_NxdomainRedirect (dnsview_filled d obs) = fill_if (dvf_NxdomainRedirect d) (effectiveUseFlag (dvf_UseNxdomainRedirect d) (dvf_UseNxdomainRedirect obs)) (dvf_NxdomainRedirect obs)"
  "dvf_NxdomainRedirectAddresses (dnsview_filled d obs) = fill_list_if (dvf_NxdomainRedirectAddresses d) (effectiveUseFlag (dvf_UseNxdomainRedirect d) (dvf_UseNxdomainRedirect obs)) (dvf_NxdomainRedirectAddresses obs)"
  "dvf_NxdomainRedirectAddressesV6 (dnsview_filled d obs) = fill_list_if (dvf_NxdomainRedirectAddressesV6 d) (effectiveUseFlag (dvf_UseNxdomainRedirect d) (dvf_UseNxdomainRedirect obs)) (dvf_NxdomainRedirectAddressesV6 obs)"
  "dvf_NxdomainRedirectTTL (dnsview_filled d obs) = fill_if (dvf_NxdomainRedirectTTL d) (effectiveUseFlag (dvf_UseNxdomainRedirect d) (dvf_UseNxdomainRedirect obs)) (dvf_NxdomainRedirectTTL obs)"
  "dvf_NxdomainRulesets (dnsview_filled d obs) = fill_list_if (dvf_NxdomainRulesets d) (effectiveUseFlag (dvf_UseNxdomainRedirect d) (dvf_UseNxdomainRedirect obs)) (dvf_NxdomainRulesets obs)"
  "dvf_UseNxdomainRedirect (dnsview_filled d obs) = fill (dvf_UseNxdomainRedirect d) (dvf_UseNxdomainRedirect obs)"
  "dvf_Recursion (dnsview_filled d obs) = fill_if (dvf_Recursion d) (effectiveUseFlag (dvf_UseRecursion d) (dvf_UseRecursion obs)) (dvf_Recursion obs)"
  "dvf_UseRecursion (dnsview_filled d obs) = fill (dvf_UseRecursion d) (dvf_UseRecursion obs)"
  "dvf_UseResponseRateLimiting (dnsview_filled d obs) = fill (dvf_UseResponseRateLimiting d) (dvf_UseResponseRateLimiting obs)"
  "dvf_RpzDropIPRuleEnabled (dnsview_filled d obs) = fill_if (dvf_RpzDropIPRuleEnabled d) (effectiveUseFlag (dvf_UseRpzDropIPRule d) (dvf_UseRpzDropIPRule obs)) (dvf_RpzDropIPRuleEnabled obs)"
  "dvf_RpzDropIPRuleMinPrefixLengthIPv4 (dnsview_filled d obs) = fill_if (dvf_RpzDropIPRuleMinPrefixLengthIPv4 d) (effectiveUseFlag (dvf_UseRpzDropIPRule d) (dvf_UseRpzDropIPRule obs)) (dvf_RpzDropIPRuleMinPrefixLengthIPv4 obs)"
  "dvf_RpzDropIPRuleMinPrefixLengthIPv6 (dnsview_filled d obs) = fill_if (dvf_RpzDropIPRuleMinPrefixLengthIPv6 d) (effectiveUseFlag (dvf_UseRpzDropIPRule d) (dvf_UseRpzDropIPRule obs)) (dvf_RpzDropIPRuleMinPrefixLengthIPv6 obs)"
  "dvf_UseRpzDropIPRule (dnsview_filled d obs) = fill (dvf_UseRpzDropIPRule d) (dvf_UseRpzDropIPRule obs)"
  "dvf_RpzQnameWaitRecurse (dnsview_filled d obs) = fill_if (dvf_RpzQnameWaitRecurse d) (effectiveUseFlag (dvf_UseRpzQnameWaitRecurse d) (dvf_UseRpzQnameWaitRecurse obs)) (dvf_RpzQnameWaitRecurse obs)"
  "dvf_UseRpzQnameWaitRecurse (dnsview_filled d obs) = fill (dvf_UseRpzQnameWaitRecurse d) (dvf_UseRpzQnameWaitRecurse obs)"
  "dvf_UseScavengingSettings (dnsview_filled d obs) = fill (dvf_UseScavengingSettings d) (dvf_UseScavengingSettings obs)"
  "dvf_UseSortlist (dnsview_filled d obs) = fill (dvf_UseSortlist d) (dvf_UseSortlist obs)"
  "dvf_ExtAttrs (dnsview_filled d obs) = fill_map (dvf_ExtAttrs d) (dvf_ExtAttrs obs)"
  "dvf_CustomRootNameServers (dnsview_filled d obs) = fill_list_if (dvf_CustomRootNameServers d) (effectiveUseFlag (dvf_UseRootNameServer d) (dvf_UseRootNameServer obs)) (dvf_CustomRootNameServers obs)"
  "dvf_DnssecTrustedKeys (dnsview_filled d obs) = fill_list_if (dvf_DnssecTrustedKeys d) (effectiveUseFlag (dvf_UseDnssec d) (dvf_UseDnssec obs)) (dvf_DnssecTrustedKeys obs)"
  "dvf_FixedRrsetOrderFqdns (dnsview_filled d obs) = fill_list_if (dvf_FixedRrsetOrderFqdns d) (effectiveUseFlag (dvf_UseFixedRrsetOrderFqdns d) (dvf_UseFixedRrsetOrderFqdns obs)) (dvf_FixedRrsetOrderFqdns obs)"
  "dvf_FilterAaaaList (dnsview_filled d obs) = fill_list_if (dvf_FilterAaaaList d) (effectiveUseFlag (dvf_UseFilterAaaa d) (dvf_UseFilterAaaa obs)) (dvf_FilterAaaaList obs)"
  "dvf_MatchClients (dnsview_filled d obs) = fill_list (dvf_MatchClients d) (dvf_MatchClients obs)"
  "dvf_MatchDestinations (dnsview_filled d obs) = fill_list (dvf_MatchDestinations d) (dvf_MatchDestinations obs)"
  "dvf_ResponseRateLimiting (dnsview_filled d obs) = fill_if (dvf_ResponseRateLimiting d) (effectiveUseFlag (dvf_UseResponseRateLimiting d) (dvf_UseResponseRateLimiting obs)) (dvf_ResponseRateLimiting obs)"
  "dvf_ScavengingSettings (dnsview_filled d obs) = fill_if (dvf_ScavengingSettings d) (effectiveUseFlag (dvf_UseScavengingSettings d) (dvf_UseScavengingSettings obs)) (dvf_ScavengingSettings obs)"
  "dvf_Sortlist (dnsview_filled d obs) = fill_list_if (dvf_Sortlist d) (effectiveUseFlag (dvf_UseSortlist d) (dvf_UseSortlist obs)) (dvf_Sortlist obs)"
  by (simp_all add: dnsview_filled_def)

lemma dnsview_filled_idem: "dnsview_filled (dnsview_filled d obs) obs = dnsview_filled d obs"
  by (rule dnsViewFields.equality) simp_all

lemma dnsview_unchanged:
  assumes "\<not> dnsview_changed d obs"
  shows "fill (dvf_Comment d) (ptrIfSet (dvf_Comment obs)) = dvf_Comment d"
    and "fill (dvf_NetworkView d) (ptrIfSet (dvf_NetworkView obs)) = dvf_NetworkView d"
    and "fill (dvf_Disable d) (dvf_Disable obs) = dvf_Disable d"
    and "fill_if (dvf_BlacklistAction d) (effectiveUseFlag (dvf_UseBlacklist d) (dvf_UseBlacklist obs)) (ptrIfSet (dvf_BlacklistAction obs)) = dvf_BlacklistAction d"
    and "fill_if (dvf_BlacklistLogQuery d) (effectiveUseFlag (dvf_UseBlacklist d) (dvf_UseBlacklist obs)) (dvf_BlacklistLogQuery obs) = dvf_BlacklistLogQuery d"
    and "fill_list_if (dvf_BlacklistRedirectAddresses d) (effectiveUseFlag (dvf_UseBlacklist d) (dvf_UseBlacklist obs)) (dvf_BlacklistRedirectAddresses obs) = dvf_BlacklistRedirectAddresses d"
    and "fill_if (dvf_BlacklistRedirectTTL d) (effectiveUseFlag (dvf_UseBlacklist d) (dvf_UseBlacklist obs)) (dvf_BlacklistRedirectTTL obs) = dvf_BlacklistRedirectTTL d"
    and "fill_list_if (dvf_BlacklistRulesets d) (effectiveUseFlag (dvf_UseBlacklist d) (dvf_UseBlacklist obs)) (dvf_BlacklistRulesets obs) = dvf_BlacklistRulesets d"
    and "fill (dvf_UseBlacklist d) (dvf_UseBlacklist obs) = dvf_UseBlacklist d"
    and "fill_if (dvf_EnableBlacklist d) (effectiveUseFlag (dvf_UseBlacklist d) (dvf_UseBlacklist obs)) (dvf_EnableBlacklist obs) = dvf_EnableBlacklist d"
    and "fill_if (dvf_RootNameServerType d) (effectiveUseFlag (dvf_UseRootNameServer d) (dvf_UseRootNameServer obs)) (ptrIfSet (dvf_RootNameServerType obs)) = dvf_RootNameServerType d"
    and "fill (dvf_UseRootNameServer d) (dvf_UseRootNameServer obs) = dvf_UseRootNameServer d"
    and "fill_if (dvf_DdnsForceCreationTimestampUpdate d) (effectiveUseFlag (dvf_UseDdnsForceCreationTimestampUpdate d) (dvf_UseDdnsForceCreationTimestampUpdate obs)) (dvf_DdnsForceCreationTimestampUpdate obs) = dvf_DdnsForceCreationTimestampUpdate d"
    and "fill (dvf_UseDdnsForceCreationTimestampUpdate d) (dvf_UseDdnsForceCreationTimestampUpdate obs) = dvf_UseDdnsForceCreationTimestampUpdate d"
    and "fill_if (dvf_DdnsPrincipalGroup d) (effectiveUseFlag (dvf_UseDdnsPrincipalSecurity d) (dvf_UseDdnsPrincipalSecurity obs)) (ptrIfSet (dvf_DdnsPrincipalGroup obs)) = dvf_DdnsPrincipalGroup d"
    and "fill_if (dvf_DdnsPrincipalTracking d) (effectiveUseFlag (dvf_UseDdnsPrincipalSecurity d) (dvf_UseDdnsPrincipalSecurity obs)) (dvf_DdnsPrincipalTracking obs) = dvf_DdnsPrincipalTracking d"
    and "fill (dvf_UseDdnsPrincipalSecurity d) (dvf_UseDdnsPrincipalSecurity obs) = dvf_UseDdnsPrincipalSecurity d"
    and "fill_if (dvf_DdnsRestrictPatterns d) (effectiveUseFlag (dvf_UseDdnsPatternsRestriction d) (dvf_UseDdnsPatternsRestriction obs)) (dvf_DdnsRestrictPatterns obs) = dvf_DdnsRestrictPatterns d"
    and "fill_list_if (dvf_DdnsRestrictPatternsList d) (effectiveUseFlag (dvf_UseDdnsPatternsRestriction d) (dvf_UseDdnsPatternsRestriction obs)) (dvf_DdnsRestrictPatternsList obs) = dvf_DdnsRestrictPatternsList d"
    and "fill (dvf_UseDdnsPatternsRestriction d) (dvf_UseDdnsPatternsRestriction obs) = dvf_UseDdnsPatternsRestriction d"
    and "fill_if (dvf_DdnsRestrictProtected d) (effectiveUseFlag (dvf_UseDdnsRestrictProtected d) (dvf_UseDdnsRestrictProtected obs)) (dvf_DdnsRestrictProtected obs) = dvf_DdnsRestrictProtected d"
    and "fill (dvf_UseDdnsRestrictProtected d) (dvf_UseDdnsRestrictProtected obs) = dvf_UseDdnsRestrictProtected d"
    and "fill_if (dvf_DdnsRestrictSecure d) (effectiveUseFlag (dvf_UseDdnsPrincipalSecurity d) (dvf_UseDdnsPrincipalSecurity obs)) (dvf_DdnsRestrictSecure obs) = dvf_DdnsRestrictSecure d"
    and "fill_if (dvf_DdnsRestrictStatic d) (effectiveUseFlag (dvf_UseDdnsRestrictStatic d) (dvf_UseDdnsRestrictStatic obs)) (dvf_DdnsRestrictStatic obs) = dvf_DdnsRestrictStatic d"
    and "fill (dvf_UseDdnsRestrictStatic d) (dvf_UseDdnsRestrictStatic obs) = dvf_UseDdnsRestrictStatic d"
    and "fill_if (dvf_Dns64Enabled d) (effectiveUseFlag (dvf_UseDns64 d) (dvf_UseDns64 obs)) (dvf_Dns64Enabled obs) = dvf_Dns64Enabled d"
    and "fill_list_if (dvf_Dns64Groups d) (effectiveUseFlag (dvf_UseDns64 d) (dvf_UseDns64 obs)) (dvf_Dns64Groups obs) = dvf_Dns64Groups d"
    and "fill (dvf_UseDns64 d) (dvf_UseDns64 obs) = dvf_UseDns64 d"
    and "fill_if (dvf_DnssecEnabled d) (effectiveUseFlag (dvf_UseDnssec d) (dvf_UseDnssec obs)) (dvf_DnssecEnabled obs) = dvf_DnssecEnabled d"
    and "fill_if (dvf_DnssecExpiredSignaturesEnabled d) (effectiveUseFlag (dvf_UseDnssec d) (dvf_UseDnssec obs)) (dvf_DnssecExpiredSignaturesEnabled obs) = dvf_DnssecExpiredSignaturesEnabled d"
    and "fill_list (dvf_DnssecNegativeTrustAnchors d) (dvf_DnssecNegativeTrustAnchors obs) = dvf_DnssecNegativeTrustAnchors d"
    and "fill_if (dvf_DnssecValidationEnabled d) (effectiveUseFlag (dvf_UseDnssec d) (dvf_UseDnssec obs)) (dvf_DnssecValidationEnabled obs) = dvf_DnssecValidationEnabled d"
    and "fill (dvf_UseDnssec d) (dvf_UseDnssec obs) = dvf_UseDnssec d"
    and "fill_if (dvf_EnableFixedRrsetOrderFqdns d) (effectiveUseFlag (dvf_UseFixedRrsetOrderFqdns d) (dvf_UseFixedRrsetOrderFqdns obs)) (dvf_EnableFixedRrsetOrderFqdns obs) = dvf_EnableFixedRrsetOrderFqdns d"
    and "fill (dvf_UseFixedRrsetOrderFqdns d) (dvf_UseFixedRrsetOrderFqdns obs) = dvf_UseFixedRrsetOrderFqdns d"
    and "fill (dvf_EnableMatchRecursiveOnly d) (dvf_EnableMatchRecursiveOnly obs) = dvf_EnableMatchRecursiveOnly d"
    and "fill_if (dvf_FilterAaaa d) (effectiveUseFlag (dvf_UseFilterAaaa d) (dvf_UseFilterAaaa obs)) (ptrIfSet (dvf_FilterAaaa obs)) = dvf_FilterAaaa d"
    and "fill (dvf_UseFilterAaaa d) (dvf_UseFilterAaaa obs) = dvf_UseFilterAaaa d"
    and "fill_if (dvf_ForwardOnly d) (effectiveUseFlag (dvf_UseForwarders d) (dvf_UseForwarders obs)) (dvf_ForwardOnly obs) = dvf_ForwardOnly d"
    and "fill_list_if (dvf_Forwarders d) (effectiveUseFlag (dvf_UseForwarders d) (dvf_UseForwarders obs)) (dvf_Forwarders obs) = dvf_Forwarders d"
    and "fill (dvf_UseForwarders d) (dvf_UseForwarders obs) = dvf_UseForwarders d"
    and "fill_if (dvf_LameTTL d) (effectiveUseFlag (dvf_UseLameTTL d) (dvf_UseLameTTL obs)) (dvf_LameTTL obs) = dvf_LameTTL d"
    and "fill (dvf_UseLameTTL d) (dvf_UseLameTTL obs) = dvf_UseLameTTL d"
    and "fill_if (dvf_MaxCacheTTL d) (effectiveUseFlag (dvf_UseMaxCacheTTL d) (dvf_UseMaxCacheTTL obs)) (dvf_MaxCacheTTL obs) = dvf_MaxCacheTTL d"
    and "fill (dvf_UseMaxCacheTTL d) (dvf_UseMaxCacheTTL obs) = dvf_UseMaxCacheTTL d"
    and "fill_if (dvf_MaxNcacheTTL d) (effectiveUseFlag (dvf_UseMaxNcacheTTL d) (dvf_UseMaxNcacheTTL obs)) (dvf_MaxNcacheTTL obs) = dvf_MaxNcacheTTL d"
    and "fill (dvf_UseMaxNcacheTTL d) (dvf_UseMaxNcacheTTL obs) = dvf_UseMaxNcacheTTL d"
    and "fill (dvf_NotifyDelay d) (dvf_NotifyDelay obs) = dvf_NotifyDelay d"
    and "fill_if (dvf_NxdomainLogQuery d) (effectiveUseFlag (dvf_UseNxdomainRedirect d) (dvf_UseNxdomainRedirect obs)) (dvf_NxdomainLogQuery obs) = dvf_NxdomainLogQuery d"
    and "fill_if (dvf_NxdomainRedirect d) (effectiveUseFlag (dvf_UseNxdomainRedirect d) (dvf_UseNxdomainRedirect obs)) (dvf_NxdomainRedirect obs) = dvf_NxdomainRedirect d"
    and "fill_list_if (dvf_NxdomainRedirectAddresses d) (effectiveUseFlag (dvf_UseNxdomainRedirect d) (dvf_UseNxdomainRedirect obs)) (dvf_NxdomainRedirectAddresses obs) = dvf_NxdomainRedirectAddresses d"
    and "fill_list_if (dvf_NxdomainRedirectAddressesV6 d) (effectiveUseFlag (dvf_UseNxdomainRedirect d) (dvf_UseNxdomainRedirect obs)) (dvf_NxdomainRedirectAddressesV6 obs) = dvf_NxdomainRedirectAddressesV6 d"
    and "fill_if (dvf_NxdomainRedirectTTL d) (effectiveUseFlag (dvf_UseNxdomainRedirect d) (dvf_UseNxdomainRedirect obs)) (dvf_NxdomainRedirectTTL obs) = dvf_NxdomainRedirectTTL d"
    and "fill_list_if (dvf_NxdomainRulesets d) (effectiveUseFlag (dvf_UseNxdomainRedirect d) (dvf_UseNxdomainRedirect obs)) (dvf_NxdomainRulesets obs) = dvf_NxdomainRulesets d"
    and "fill (dvf_UseNxdomainRedirect d) (dvf_UseNxdomainRedirect obs) = dvf_UseNxdomainRedirect d"
    and "fill_if (dvf_Recursion d) (effectiveUseFlag (dvf_UseRecursion d) (dvf_UseRecursion obs)) (dvf_Recursion obs) = dvf_Recursion d"
    and "fill (dvf_UseRecursion d) (dvf_UseRecursion obs) = dvf_UseRecursion d"
    and "fill (dvf_UseResponseRateLimiting d) (dvf_UseResponseRateLimiting obs) = dvf_UseResponseRateLimiting d"
    and "fill_if (dvf_RpzDropIPRuleEnabled d) (effectiveUseFlag (dvf_UseRpzDropIPRule d) (dvf_UseRpzDropIPRule obs)) (dvf_RpzDropIPRuleEnabled obs) = dvf_RpzDropIPRuleEnabled d"
    and "fill_if (dvf_RpzDropIPRuleMinPrefixLengthIPv4 d) (effectiveUseFlag (dvf_UseRpzDropIPRule d) (dvf_UseRpzDropIPRule obs)) (dvf_RpzDropIPRuleMinPrefixLengthIPv4 obs) = dvf_RpzDropIPRuleMinPrefixLengthIPv4 d"
    and "fill_if (dvf_RpzDropIPRuleMinPrefixLengthIPv6 d) (effectiveUseFlag (dvf_UseRpzDropIPRule d) (dvf_UseRpzDropIPRule obs)) (dvf_RpzDropIPRuleMinPrefixLengthIPv6 obs) = dvf_RpzDropIPRuleMinPrefixLengthIPv6 d"
    and "fill (dvf_UseRpzDropIPRule d) (dvf_UseRpzDropIPRule obs) = dvf_UseRpzDropIPRule d"
    and "fill_if (dvf_RpzQnameWaitRecurse d) (effectiveUseFlag (dvf_UseRpzQnameWaitRecurse d) (dvf_UseRpzQnameWaitRecurse obs)) (dvf_RpzQnameWaitRecurse obs) = dvf_RpzQnameWaitRecurse d"
    and "fill (dvf_UseRpzQnameWaitRecurse d) (dvf_UseRpzQnameWaitRecurse obs) = dvf_UseRpzQnameWaitRecurse d"
    and "fill (dvf_UseScavengingSettings d) (dvf_UseScavengingSettings obs) = dvf_UseScavengingSettings d"
    and "fill (dvf_UseSortlist d) (dvf_UseSortlist obs) = dvf_UseSortlist d"
    and "fill_map (dvf_ExtAttrs d) (dvf_ExtAttrs obs) = dvf_ExtAttrs d"
    and "fill_list_if (dvf_CustomRootNameServers d) (effectiveUseFlag (dvf_UseRootNameServer d) (dvf_UseRootNameServer obs)) (dvf_CustomRootNameServers obs) = dvf_CustomRootNameServers d"
    and "fill_list_if (dvf_DnssecTrustedKeys d) (effectiveUseFlag (dvf_UseDnssec d) (dvf_UseDnssec obs)) (dvf_DnssecTrustedKeys obs) = dvf_DnssecTrustedKeys d"
    and "fill_list_if (dvf_FixedRrsetOrderFqdns d) (effectiveUseFlag (dvf_UseFixedRrsetOrderFqdns d) (dvf_UseFixedRrsetOrderFqdns obs)) (dvf_FixedRrsetOrderFqdns obs) = dvf_FixedRrsetOrderFqdns d"
    and "fill_list_if (dvf_FilterAaaaList d) (effectiveUseFlag (dvf_UseFilterAaaa d) (dvf_UseFilterAaaa obs)) (dvf_FilterAaaaList obs) = dvf_FilterAaaaList d"
    and "fill_list (dvf_MatchClients d) (dvf_MatchClients obs) = dvf_MatchClients d"
    and "fill_list (dvf_MatchDestinations d) (dvf_MatchDestinations obs) = dvf_MatchDestinations d"
    and "fill_list_if (dvf_Sortlist d) (effectiveUseFlag (dvf_UseSortlist d) (dvf_UseSortlist obs)) (dvf_Sortlist obs) = dvf_Sortlist d"
    and "fill_if (dvf_ResponseRateLimiting d) (effectiveUseFlag (dvf_UseResponseRateLimiting d) (dvf_UseResponseRateLimiting obs)) (dvf_ResponseRateLimiting obs) = dvf_ResponseRateLimiting d"
    and "fill_if (dvf_ScavengingSettings d) (effectiveUseFlag (dvf_UseScavengingSettings d) (dvf_UseScavengingSettings obs)) (dvf_ScavengingSettings obs) = dvf_ScavengingSettings d"
  using assms by (simp_all only: dnsview_changed_def de_Morgan_disj not_not simp_thms)

lemma dnsview_changed_iff: "dnsview_changed d obs \<longleftrightarrow> dnsview_filled d obs \<noteq> d"
proof
  assume "dnsview_changed d obs"
  then show "dnsview_filled d obs \<noteq> d"
    by (rule contrapos_pn) (simp only: dnsview_changed_def dnsview_filled_sel [symmetric] not_not simp_thms)
next
  assume "dnsview_filled d obs \<noteq> d"
  moreover have "dnsview_filled d obs = d" if "\<not> dnsview_changed d obs"
    by (rule dnsViewFields.equality, simp_all only: dnsview_filled_sel dnsview_unchanged [OF that], simp)
  ultimately show "dnsview_changed d obs" by blast
qed

definition DNSView_keeps :: "dnsViewFields \<Rightarrow> dnsViewFields \<Rightarrow> bool" where
  "DNSView_keeps d d' \<longleftrightarrow>
     dvf_Name d' = dvf_Name d \<and> keeps_set (dvf_Comment d) (dvf_Comment d') \<and>
      keeps_set (dvf_NetworkView d) (dvf_NetworkView d') \<and> keeps_set (dvf_Disable d) (dvf_Disable d') \<and>
      keeps_set (dvf_BlacklistAction d) (dvf_BlacklistAction d') \<and>
      keeps_set (dvf_BlacklistLogQuery d) (dvf_BlacklistLogQuery d') \<and>
      keeps_list (dvf_BlacklistRedirectAddresses d) (dvf_BlacklistRedirectAddresses d') \<and>
      keeps_set (dvf_BlacklistRedirectTTL d) (dvf_BlacklistRedirectTTL d') \<and>
      keeps_list (dvf_BlacklistRulesets d) (dvf_BlacklistRulesets d') \<and>
      keeps_set (dvf_UseBlacklist d) (dvf_UseBlacklist d') \<and>
      keeps_set (dvf_EnableBlacklist d) (dvf_EnableBlacklist d') \<and>
      keeps_set (dvf_RootNameServerType d) (dvf_RootNameServerType d') \<and>
      keeps_set (dvf_UseRootNameServer d) (dvf_UseRootNameServer d') \<and>
      keeps_set (dvf_DdnsForceCreationTimestampUpdate d) (dvf_DdnsForceCreationTimestampUpdate d') \<and>
      keeps_set (dvf_UseDdnsForceCreationTimestampUpdate d) (dvf_UseDdnsForceCreationTimestampUpdate d') \<and>
      keeps_set (dvf_DdnsPrincipalGroup d) (dvf_DdnsPrincipalGroup d') \<and>
      keeps_set (dvf_DdnsPrincipalTracking d) (dvf_DdnsPrincipalTracking d') \<and>
      keeps_set (dvf_UseDdnsPrincipalSecurity d) (dvf_UseDdnsPrincipalSecurity d') \<and>
      keeps_set (dvf_DdnsRestrictPatterns d) (dvf_DdnsRestrictPatterns d') \<and>
      keeps_list (dvf_DdnsRestrictPatternsList d) (dvf_DdnsRestrictPatternsList d') \<and>
      keeps_set (dvf_UseDdnsPatternsRestriction d) (dvf_UseDdnsPatternsRestriction d') \<and>
      keeps_set (dvf_DdnsRestrictProtected d) (dvf_DdnsRestrictProtected d') \<and>
      keeps_set (dvf_UseDdnsRestrictProtected d) (dvf_UseDdnsRestrictProtected d') \<and>
      keeps_set (dvf_DdnsRestrictSecure d) (dvf_DdnsRestrictSecure d') \<and>
      keeps_set (dvf_DdnsRestrictStatic d) (dvf_DdnsRestrictStatic d') \<and>
      keeps_set (dvf_UseDdnsRestrictStatic d) (dvf_UseDdnsRestrictStatic d') \<and>
      keeps_set (dvf_Dns64Enabled d) (dvf_Dns64Enabled d') \<and> keeps_list (dvf_Dns64Groups d) (dvf_Dns64Groups d') \<and>
      keeps_set (dvf_UseDns64 d) (dvf_UseDns64 d') \<and> keeps_set (dvf_DnssecEnabled d) (dvf_DnssecEnabled d') \<and>
      keeps_set (dvf_DnssecExpiredSignaturesEnabled d) (dvf_DnssecExpiredSignaturesEnabled d') \<and>
      keeps_list (dvf_DnssecNegativeTrustAnchors d) (dvf_DnssecNegativeTrustAnchors d') \<and>
      keeps_set (dvf_DnssecValidationEnabled d) (dvf_DnssecValidationEnabled d') \<and>
      keeps_set (dvf_UseDnssec d) (dvf_UseDnssec d') \<and>
      keeps_set (dvf_EnableFixedRrsetOrderFqdns d) (dvf_EnableFixedRrsetOrderFqdns d') \<and>
      keeps_set (dvf_UseFixedRrsetOrderFqdns d) (dvf_UseFixedRrsetOrderFqdns d') \<and>
      keeps_set (dvf_EnableMatchRecursiveOnly d) (dvf_EnableMatchRecursiveOnly d') \<and>
      keeps_set (dvf_FilterAaaa d) (dvf_FilterAaaa d') \<and> keeps_set (dvf_UseFilterAaaa d) (dvf_UseFilterAaaa d') \<and>
      keeps_set (dvf_ForwardOnly d) (dvf_ForwardOnly d') \<and> keeps_list (dvf_Forwarders d) (dvf_Forwarders d') \<and>
      keeps_set (dvf_UseForwarders d) (dvf_UseForwarders d') \<and> keeps_set (dvf_LameTTL d) (dvf_LameTTL d') \<and>
      keeps_set (dvf_UseLameTTL d) (dvf_UseLameTTL d') \<and> keeps_set (dvf_MaxCacheTTL d) (dvf_MaxCacheTTL d') \<and>
      keeps_set (dvf_UseMaxCacheTTL d) (dvf_UseMaxCacheTTL d') \<and>
      keeps_set (dvf_MaxNcacheTTL d) (dvf_MaxNcacheTTL d') \<and>
      keeps_set (dvf_UseMaxNcacheTTL d) (dvf_UseMaxNcacheTTL d') \<and>
      keeps_set (dvf_NotifyDelay d) (dvf_NotifyDelay d') \<and>
      keeps_set (dvf_NxdomainLogQuery d) (dvf_NxdomainLogQuery d') \<and>
      keeps_set (dvf_NxdomainRedirect d) (dvf_NxdomainRedirect d') \<and>
      keeps_list (dvf_NxdomainRedirectAddresses d) (dvf_NxdomainRedirectAddresses d') \<and>
      keeps_list (dvf_NxdomainRedirectAddressesV6 d) (dvf_NxdomainRedirectAddressesV6 d') \<and>
      keeps_set (dvf_NxdomainRedirectTTL d) (dvf_NxdomainRedirectTTL d') \<and>
      keeps_list (dvf_NxdomainRulesets d) (dvf_NxdomainRulesets d') \<and>
      keeps_set (dvf_UseNxdomainRedirect d) (dvf_UseNxdomainRedirect d') \<and>
      keeps_set (dvf_Recursion d) (dvf_Recursion d') \<and> keeps_set (dvf_UseRecursion d) (dvf_UseRecursion d') \<and>
      keeps_set (dvf_UseResponseRateLimiting d) (dvf_UseResponseRateLimiting d') \<and>
      keeps_set (dvf_RpzDropIPRuleEnabled d) (dvf_RpzDropIPRuleEnabled d') \<and>
      keeps_set (dvf_RpzDropIPRuleMinPrefixLengthIPv4 d) (dvf_RpzDropIPRuleMinPrefixLengthIPv4 d') \<and>
      keeps_set (dvf_RpzDropIPRuleMinPrefixLengthIPv6 d) (dvf_RpzDropIPRuleMinPrefixLengthIPv6 d') \<and>
      keeps_set (dvf_UseRpzDropIPRule d) (dvf_UseRpzDropIPRule d') \<and>
      keeps_set (dvf_RpzQnameWaitRecurse d) (dvf_RpzQnameWaitRecurse d') \<and>
      keeps_set (dvf_UseRpzQnameWaitRecurse d) (dvf_UseRpzQnameWaitRecurse d') \<and>
      keeps_set (dvf_UseScavengingSettings d) (dvf_UseScavengingSettings d') \<and>
      keeps_set (dvf_UseSortlist d) (dvf_UseSortlist d') \<and> keeps_attrs (dvf_ExtAttrs d) (dvf_ExtAttrs d') \<and>
      keeps_list (dvf_CustomRootNameServers d) (dvf_CustomRootNameServers d') \<and>
      keeps_list (dvf_DnssecTrustedKeys d) (dvf_DnssecTrustedKeys d') \<and>
      keeps_list (dvf_FixedRrsetOrderFqdns d) (dvf_FixedRrsetOrderFqdns d') \<and>
      keeps_list (dvf_FilterAaaaList d) (dvf_FilterAaaaList d') \<and>
      keeps_list (dvf_MatchClients d) (dvf_MatchClients d') \<and>
      keeps_list (dvf_MatchDestinations d) (dvf_MatchDestinations d') \<and>
      keeps_set (dvf_ResponseRateLimiting d) (dvf_ResponseRateLimiting d') \<and>
      keeps_set (dvf_ScavengingSettings d) (dvf_ScavengingSettings d') \<and>
      keeps_list (dvf_Sortlist d) (dvf_Sortlist d')"

lemma dnsview_filled_keeps: "DNSView_keeps d (dnsview_filled d obs)"
  by (simp add: DNSView_keeps_def)

lemma comparatorsLoop_all: "comparatorsLoop eqs d obs \<longleftrightarrow> list_all (\<lambda>eq. eq d obs) eqs"
  by (induction eqs) simp_all

lemma DNSView_isUpToDate_iff:
  "DNSView_isUpToDate d obs \<longleftrightarrow>
     (strOrEmpty (dvf_Name d) = strOrEmpty (dvf_Name obs)) \<and>
     (strOrEmpty (dvf_Comment d) = strOrEmpty (dvf_Comment obs)) \<and>
     (strOrEmpty (dvf_NetworkView d) = strOrEmpty (dvf_NetworkView obs)) \<and>
     (boolOrFalse (dvf_Disable d) = boolOrFalse (dvf_Disable obs)) \<and>
     gatedStringEqual (dvf_UseBlacklist d) (dvf_BlacklistAction d) (dvf_BlacklistAction obs) \<and>
     gatedBoolEqual (dvf_UseBlacklist d) (dvf_BlacklistLogQuery d) (dvf_BlacklistLogQuery obs) \<and>
     gatedStringSliceEqual (dvf_UseBlacklist d) (dvf_BlacklistRedirectAddresses d) (dvf_BlacklistRedirectAddresses obs) \<and>
     gatedUint32Equal (dvf_UseBlacklist d) (dvf_BlacklistRedirectTTL d) (dvf_BlacklistRedirectTTL obs) \<and>
     gatedStringSliceEqual (dvf_UseBlacklist d) (dvf_BlacklistRulesets d) (dvf_BlacklistRulesets obs) \<and>
     (boolOrFalse (dvf_UseBlacklist d) = boolOrFalse (dvf_UseBlacklist obs)) \<and>
     gatedBoolEqual (dvf_UseBlacklist d) (dvf_EnableBlacklist d) (dvf_EnableBlacklist obs) \<and>
     gatedStringEqual (dvf_UseRootNameServer d) (dvf_RootNameServerType d) (dvf_RootNameServerType obs) \<and>
     (boolOrFalse (dvf_UseRootNameServer d) = boolOrFalse (dvf_UseRootNameServer obs)) \<and>
     gatedBoolEqual (dvf_UseDdnsForceCreationTimestampUpdate d) (dvf_DdnsForceCreationTimestampUpdate d) (dvf_DdnsForceCreationTimestampUpdate obs) \<and>
     (boolOrFalse (dvf_UseDdnsForceCreationTimestampUpdate d) = boolOrFalse (dvf_UseDdnsForceCreationTimestampUpdate obs)) \<and>
     gatedStringEqual (dvf_UseDdnsPrincipalSecurity d) (dvf_DdnsPrincipalGroup d) (dvf_DdnsPrincipalGroup obs) \<and>
     gatedBoolEqual (dvf_UseDdnsPrincipalSecurity d) (dvf_DdnsPrincipalTracking d) (dvf_DdnsPrincipalTracking obs) \<and>
     (boolOrFalse (dvf_UseDdnsPrincipalSecurity d) = boolOrFalse (dvf_UseDdnsPrincipalSecurity obs)) \<and>
     gatedBoolEqual (dvf_UseDdnsPatternsRestriction d) (dvf_DdnsRestrictPatterns d) (dvf_DdnsRestrictPatterns obs) \<and>
     gatedStringSliceEqual (dvf_UseDdnsPatternsRestriction d) (dvf_DdnsRestrictPatternsList d) (dvf_DdnsRestrictPatternsList obs) \<and>
     (boolOrFalse (dvf_UseDdnsPatternsRestriction d) = boolOrFalse (dvf_UseDdnsPatternsRestriction obs)) \<and>
     gatedBoolEqual (dvf_UseDdnsRestrictProtected d) (dvf_DdnsRestrictProtected d) (dvf_DdnsRestrictProtected obs) \<and>
     (boolOrFalse (dvf_UseDdnsRestrictProtected d) = boolOrFalse (dvf_UseDdnsRestrictProtected obs)) \<and>
     gatedBoolEqual (dvf_UseDdnsPrincipalSecurity d) (dvf_DdnsRestrictSecure d) (dvf_DdnsRestrictSecure obs) \<and>
     gatedBoolEqual (dvf_UseDdnsRestrictStatic d) (dvf_DdnsRestrictStatic d) (dvf_DdnsRestrictStatic obs) \<and>
     (boolOrFalse (dvf_UseDdnsRestrictStatic d) = boolOrFalse (dvf_UseDdnsRestrictStatic obs)) \<and>
     gatedBoolEqual (dvf_UseDns64 d) (dvf_Dns64Enabled d) (dvf_Dns64Enabled obs) \<and>
     gatedStringSliceEqual (dvf_UseDns64 d) (dvf_Dns64Groups d) (dvf_Dns64Groups obs) \<and>
     (boolOrFalse (dvf_UseDns64 d) = boolOrFalse (dvf_UseDns64 obs)) \<and>
     gatedBoolEqual (dvf_UseDnssec d) (dvf_DnssecEnabled d) (dvf_DnssecEnabled obs) \<and>
     gatedBoolEqual (dvf_UseDnssec d) (dvf_DnssecExpiredSignaturesEnabled d) (dvf_DnssecExpiredSignaturesEnabled obs) \<and>
     stringSliceEqual (dvf_DnssecNegativeTrustAnchors d) (dvf_DnssecNegativeTrustAnchors obs) \<and>
     gatedBoolEqual (dvf_UseDnssec d) (dvf_DnssecValidationEnabled d) (dvf_DnssecValidationEnabled obs) \<and>
     (boolOrFalse (dvf_UseDnssec d) = boolOrFalse (dvf_UseDnssec obs)) \<and>
     gatedBoolEqual (dvf_UseFixedRrsetOrderFqdns d) (dvf_EnableFixedRrsetOrderFqdns d) (dvf_EnableFixedRrsetOrderFqdns obs) \<and>
     (boolOrFalse (dvf_UseFixedRrsetOrderFqdns d) = boolOrFalse (dvf_UseFixedRrsetOrderFqdns obs)) \<and>
     (boolOrFalse (dvf_EnableMatchRecursiveOnly d) = boolOrFalse (dvf_EnableMatchRecursiveOnly obs)) \<and>
     gatedStringEqual (dvf_UseFilterAaaa d) (dvf_FilterAaaa d) (dvf_FilterAaaa obs) \<and>
     (boolOrFalse (dvf_UseFilterAaaa d) = boolOrFalse (dvf_UseFilterAaaa obs)) \<and>
     gatedBoolEqual (dvf_UseForwarders d) (dvf_ForwardOnly d) (dvf_ForwardOnly obs) \<and>
     gatedStringSliceEqual (dvf_UseForwarders d) (dvf_Forwarders d) (dvf_Forwarders obs) \<and>
     (boolOrFalse (dvf_UseForwarders d) = boolOrFalse (dvf_UseForwarders obs)) \<and>
     gatedUint32Equal (dvf_UseLameTTL d) (dvf_LameTTL d) (dvf_LameTTL obs) \<and>
     (boolOrFalse (dvf_UseLameTTL d) = boolOrFalse (dvf_UseLameTTL obs)) \<and>
     gatedUint32Equal (dvf_UseMaxCacheTTL d) (dvf_MaxCacheTTL d) (dvf_MaxCacheTTL obs) \<and>
     (boolOrFalse (dvf_UseMaxCacheTTL d) = boolOrFalse (dvf_UseMaxCacheTTL obs)) \<and>
     gatedUint32Equal (dvf_UseMaxNcacheTTL d) (dvf_MaxNcacheTTL d) (dvf_MaxNcacheTTL obs) \<and>
     (boolOrFalse (dvf_UseMaxNcacheTTL d) = boolOrFalse (dvf_UseMaxNcacheTTL obs)) \<and>
     (uint32OrZero (dvf_NotifyDelay d) = uint32OrZero (dvf_NotifyDelay obs)) \<and>
     gatedBoolEqual (dvf_UseNxdomainRedirect d) (dvf_NxdomainLogQuery d) (dvf_NxdomainLogQuery obs) \<and>
     gatedBoolEqual (dvf_UseNxdomainRedirect d) (dvf_NxdomainRedirect d) (dvf_NxdomainRedirect obs) \<and>
     gatedStringSliceEqual (dvf_UseNxdomainRedirect d) (dvf_NxdomainRedirectAddresses d) (dvf_NxdomainRedirectAddresses obs) \<and>
     gatedStringSliceEqual (dvf_UseNxdomainRedirect d) (dvf_NxdomainRedirectAddressesV6 d) (dvf_NxdomainRedirectAddressesV6 obs) \<and>
     gatedUint32Equal (dvf_UseNxdomainRedirect d) (dvf_NxdomainRedirectTTL d) (dvf_NxdomainRedirectTTL obs) \<and>
     gatedStringSliceEqual (dvf_UseNxdomainRedirect d) (dvf_NxdomainRulesets d) (dvf_NxdomainRulesets obs) \<and>
     (boolOrFalse (dvf_UseNxdomainRedirect d) = boolOrFalse (dvf_UseNxdomainRedirect obs)) \<and>
     gatedBoolEqual (dvf_UseRecursion d) (dvf_Recursion d) (dvf_Recursion obs) \<and>
     (boolOrFalse (dvf_UseRecursion d) = boolOrFalse (dvf_UseRecursion obs)) \<and>
     (boolOrFalse (dvf_UseResponseRateLimiting d) = boolOrFalse (dvf_UseResponseRateLimiting obs)) \<and>
     gatedBoolEqual (dvf_UseRpzDropIPRule d) (dvf_RpzDropIPRuleEnabled d) (dvf_RpzDropIPRuleEnabled obs) \<and>
     gatedUint32Equal (dvf_UseRpzDropIPRule d) (dvf_RpzDropIPRuleMinPrefixLengthIPv4 d) (dvf_RpzDropIPRuleMinPrefixLengthIPv4 obs) \<and>
     gatedUint32Equal (dvf_UseRpzDropIPRule d) (dvf_RpzDropIPRuleMinPrefixLengthIPv6 d) (dvf_RpzDropIPRuleMinPrefixLengthIPv6 obs) \<and>
     (boolOrFalse (dvf_UseRpzDropIPRule d) = boolOrFalse (dvf_UseRpzDropIPRule obs)) \<and>
     gatedBoolEqual (dvf_UseRpzQnameWaitRecurse d) (dvf_RpzQnameWaitRecurse d) (dvf_RpzQnameWaitRecurse obs) \<and>
     (boolOrFalse (dvf_UseRpzQnameWaitRecurse d) = boolOrFalse (dvf_UseRpzQnameWaitRecurse obs)) \<and>
     (boolOrFalse (dvf_UseScavengingSettings d) = boolOrFalse (dvf_UseScavengingSettings obs)) \<and>
     (boolOrFalse (dvf_UseSortlist d) = boolOrFalse (dvf_UseSortlist obs)) \<and>
     extAttrsEqual (dvf_ExtAttrs d) (dvf_ExtAttrs obs) \<and>
     gatedNestedSliceEqual (dvf_UseRootNameServer d) (dvf_CustomRootNameServers d) (dvf_CustomRootNameServers obs) nameServerValuesEqual \<and>
     gatedNestedSliceEqual (dvf_UseDnssec d) (dvf_DnssecTrustedKeys d) (dvf_DnssecTrustedKeys obs) nestedSliceEqual \<and>
     gatedNestedSliceEqual (dvf_UseFixedRrsetOrderFqdns d) (dvf_FixedRrsetOrderFqdns d) (dvf_FixedRrsetOrderFqdns obs) nestedSliceEqual \<and>
     gatedNestedSliceEqual (dvf_UseFilterAaaa d) (dvf_FilterAaaaList d) (dvf_FilterAaaaList obs) addressAcValuesEqual \<and>
     addressAcValuesEqual (dvf_MatchClients d) (dvf_MatchClients obs) \<and>
     addressAcValuesEqual (dvf_MatchDestinations d) (dvf_MatchDestinations obs) \<and>
     gatedNestedSliceEqual (dvf_UseSortlist d) (dvf_Sortlist d) (dvf_Sortlist obs) nestedSliceEqual \<and>
     gatedPtrDeepEqual (dvf_UseResponseRateLimiting d) (dvf_ResponseRateLimiting d) (dvf_ResponseRateLimiting obs) \<and>
     gatedPtrDeepEqual (dvf_UseScavengingSettings d) (dvf_ScavengingSettings d) (dvf_ScavengingSettings obs)"
  by (simp only: DNSView_isUpToDate_def comparatorsLoop_all dnsViewFieldComparators_def list.pred_inject simp_thms)

lemma slices_equal [simp]: "stringSliceEqual xs ys \<longleftrightarrow> xs = ys" "nestedSliceEqual us vs \<longleftrightarrow> us = vs"
proof -
  have "length xs = length ys \<Longrightarrow> stringsLoop xs ys \<longleftrightarrow> xs = ys"
    by (induction xs ys rule: stringsLoop.induct) auto
  then show "stringSliceEqual xs ys \<longleftrightarrow> xs = ys" by (auto simp: stringSliceEqual_def)
  show "nestedSliceEqual us vs \<longleftrightarrow> us = vs" by (auto simp: nestedSliceEqual_def)
qed

lemma valuesEqual_refl [simp]: "nameServerValuesEqual ns ns" "addressAcValuesEqual as as"
proof -
  have "nameServerValuesLoop ns ns" by (induction ns) (simp_all add: nameServerValueEqual_def)
  then show "nameServerValuesEqual ns ns" by (simp add: nameServerValuesEqual_def)
  have "addressAcValuesLoop as as" by (induction as) (simp_all add: addressAcValueEqual_def)
  then show "addressAcValuesEqual as as" by (simp add: addressAcValuesEqual_def)
qed

text \<open>A field that agrees still does after back-filling, when its use flag agrees.\<close>

lemma agree_plain:
  "strOrEmpty s = strOrEmpty t \<Longrightarrow> strOrEmpty (fill s (ptrIfSet t)) = strOrEmpty t"
  "boolOrFalse b = boolOrFalse c \<Longrightarrow> boolOrFalse (fill b c) = boolOrFalse c"
  "uint32OrZero n = uint32OrZero m \<Longrightarrow> uint32OrZero (fill n m) = uint32OrZero m"
  "stringSliceEqual xs ys \<Longrightarrow> stringSliceEqual (fill_list xs ys) ys"
  "addressAcValuesEqual as bs \<Longrightarrow> addressAcValuesEqual (fill_list as bs) bs"
  "extAttrsEqual e k \<Longrightarrow> extAttrsEqual (fill_map e k) k"
  by (simp_all add: fill_list_def extAttrsEqual_iff del: effective_fill)

lemma agree_gated:
  assumes "boolOrFalse u = boolOrFalse v"
  shows "gatedBoolEqual u b c \<Longrightarrow> gatedBoolEqual (fill u v) (fill_if b (effectiveUseFlag u v) c) c"
    and "gatedStringEqual u s t \<Longrightarrow> gatedStringEqual (fill u v) (fill_if s (effectiveUseFlag u v) (ptrIfSet t)) t"
    and "gatedUint32Equal u n m \<Longrightarrow> gatedUint32Equal (fill u v) (fill_if n (effectiveUseFlag u v) m) m"
    and "gatedStringSliceEqual u xs ys \<Longrightarrow> gatedStringSliceEqual (fill u v) (fill_list_if xs (effectiveUseFlag u v) ys) ys"
    and "gatedNestedSliceEqual u us vs nestedSliceEqual \<Longrightarrow>
      gatedNestedSliceEqual (fill u v) (fill_list_if us (effectiveUseFlag u v) vs) vs nestedSliceEqual"
    and "gatedNestedSliceEqual u ns ms nameServerValuesEqual \<Longrightarrow>
      gatedNestedSliceEqual (fill u v) (fill_list_if ns (effectiveUseFlag u v) ms) ms nameServerValuesEqual"
    and "gatedNestedSliceEqual u as bs addressAcValuesEqual \<Longrightarrow>
      gatedNestedSliceEqual (fill u v) (fill_list_if as (effectiveUseFlag u v) bs) bs addressAcValuesEqual"
    and "gatedPtrDeepEqual u p q \<Longrightarrow> gatedPtrDeepEqual (fill u v) (fill_if p (effectiveUseFlag u v) q) q"
proof -
  have e: "effectiveUseFlag u v = boolOrFalse v" "boolOrFalse (fill u v) = boolOrFalse v" "boolOrFalse u = boolOrFalse v"
    using assms effective_agree [OF assms] by simp_all
  note gates = gatedBoolEqual_def gatedStringEqual_def gatedUint32Equal_def gatedStringSliceEqual_def
      gatedNestedSliceEqual_def gatedPtrDeepEqual_def
  show "gatedBoolEqual u b c \<Longrightarrow> gatedBoolEqual (fill u v) (fill_if b (effectiveUseFlag u v) c) c"
    unfolding gates e by (cases "boolOrFalse v") (auto simp: fill_if_def)
  show "gatedStringEqual u s t \<Longrightarrow> gatedStringEqual (fill u v) (fill_if s (effectiveUseFlag u v) (ptrIfSet t)) t"
    unfolding gates e by (cases "boolOrFalse v") simp_all
  show "gatedUint32Equal u n m \<Longrightarrow> gatedUint32Equal (fill u v) (fill_if n (effectiveUseFlag u v) m) m"
    unfolding gates e by (cases "boolOrFalse v") (auto simp: fill_if_def)
  show "gatedStringSliceEqual u xs ys \<Longrightarrow> gatedStringSliceEqual (fill u v) (fill_list_if xs (effectiveUseFlag u v) ys) ys"
    unfolding gates e by (cases "boolOrFalse v") (simp_all add: fill_list_if_def fill_list_def)
  show "gatedNestedSliceEqual u us vs nestedSliceEqual \<Longrightarrow>
      gatedNestedSliceEqual (fill u v) (fill_list_if us (effectiveUseFlag u v) vs) vs nestedSliceEqual"
    unfolding gates e by (cases "boolOrFalse v") (simp_all add: fill_list_if_def fill_list_def)
  show "gatedNestedSliceEqual u ns ms nameServerValuesEqual \<Longrightarrow>
      gatedNestedSliceEqual (fill u v) (fill_list_if ns (effectiveUseFlag u v) ms) ms nameServerValuesEqual"
    unfolding gates e by (cases "boolOrFalse v") (simp_all add: fill_list_if_def fill_list_def)
  show "gatedNestedSliceEqual u as bs addressAcValuesEqual \<Longrightarrow>
      gatedNestedSliceEqual (fill u v) (fill_list_if as (effectiveUseFlag u v) bs) bs addressAcValuesEqual"
    unfolding gates e by (cases "boolOrFalse v") (simp_all add: fill_list_if_def fill_list_def)
  show "gatedPtrDeepEqual u p q \<Longrightarrow> gatedPtrDeepEqual (fill u v) (fill_if p (effectiveUseFlag u v) q) q"
    unfolding gates e by (cases "boolOrFalse v") (auto simp: fill_if_def)
qed

lemma DNSView_isUpToDate_parts:
  assumes "DNSView_isUpToDate d obs"
  shows "strOrEmpty (dvf_Name d) = strOrEmpty (dvf_Name obs)"
    and "strOrEmpty (dvf_Comment d) = strOrEmpty (dvf_Comment obs)"
    and "strOrEmpty (dvf_NetworkView d) = strOrEmpty (dvf_NetworkView obs)"
    and "boolOrFalse (dvf_Disable d) = boolOrFalse (dvf_Disable obs)"
    and "gatedStringEqual (dvf_UseBlacklist d) (dvf_BlacklistAction d) (dvf_BlacklistAction obs)"
    and "gatedBoolEqual (dvf_UseBlacklist d) (dvf_BlacklistLogQuery d) (dvf_BlacklistLogQuery obs)"
    and "gatedStringSliceEqual (dvf_UseBlacklist d) (dvf_BlacklistRedirectAddresses d) (dvf_BlacklistRedirectAddresses obs)"
    and "gatedUint32Equal (dvf_UseBlacklist d) (dvf_BlacklistRedirectTTL d) (dvf_BlacklistRedirectTTL obs)"
    and "gatedStringSliceEqual (dvf_UseBlacklist d) (dvf_BlacklistRulesets d) (dvf_BlacklistRulesets obs)"
    and "boolOrFalse (dvf_UseBlacklist d) = boolOrFalse (dvf_UseBlacklist obs)"
    and "gatedBoolEqual (dvf_UseBlacklist d) (dvf_EnableBlacklist d) (dvf_EnableBlacklist obs)"
    and "gatedStringEqual (dvf_UseRootNameServer d) (dvf_RootNameServerType d) (dvf_RootNameServerType obs)"
    and "boolOrFalse (dvf_UseRootNameServer d) = boolOrFalse (dvf_UseRootNameServer obs)"
    and "gatedBoolEqual (dvf_UseDdnsForceCreationTimestampUpdate d) (dvf_DdnsForceCreationTimestampUpdate d) (dvf_DdnsForceCreationTimestampUpdate obs)"
    and "boolOrFalse (dvf_UseDdnsForceCreationTimestampUpdate d) = boolOrFalse (dvf_UseDdnsForceCreationTimestampUpdate obs)"
    and "gatedStringEqual (dvf_UseDdnsPrincipalSecurity d) (dvf_DdnsPrincipalGroup d) (dvf_DdnsPrincipalGroup obs)"
    and "gatedBoolEqual (dvf_UseDdnsPrincipalSecurity d) (dvf_DdnsPrincipalTracking d) (dvf_DdnsPrincipalTracking obs)"
    and "boolOrFalse (dvf_UseDdnsPrincipalSecurity d) = boolOrFalse (dvf_UseDdnsPrincipalSecurity obs)"
    and "gatedBoolEqual (dvf_UseDdnsPatternsRestriction d) (dvf_DdnsRestrictPatterns d) (dvf_DdnsRestrictPatterns obs)"
    and "gatedStringSliceEqual (dvf_UseDdnsPatternsRestriction d) (dvf_DdnsRestrictPatternsList d) (dvf_DdnsRestrictPatternsList obs)"
    and "boolOrFalse (dvf_UseDdnsPatternsRestriction d) = boolOrFalse (dvf_UseDdnsPatternsRestriction obs)"
    and "gatedBoolEqual (dvf_UseDdnsRestrictProtected d) (dvf_DdnsRestrictProtected d) (dvf_DdnsRestrictProtected obs)"
    and "boolOrFalse (dvf_UseDdnsRestrictProtected d) = boolOrFalse (dvf_UseDdnsRestrictProtected obs)"
    and "gatedBoolEqual (dvf_UseDdnsPrincipalSecurity d) (dvf_DdnsRestrictSecure d) (dvf_DdnsRestrictSecure obs)"
    and "gatedBoolEqual (dvf_UseDdnsRestrictStatic d) (dvf_DdnsRestrictStatic d) (dvf_DdnsRestrictStatic obs)"
    and "boolOrFalse (dvf_UseDdnsRestrictStatic d) = boolOrFalse (dvf_UseDdnsRestrictStatic obs)"
    and "gatedBoolEqual (dvf_UseDns64 d) (dvf_Dns64Enabled d) (dvf_Dns64Enabled obs)"
    and "gatedStringSliceEqual (dvf_UseDns64 d) (dvf_Dns64Groups d) (dvf_Dns64Groups obs)"
    and "boolOrFalse (dvf_UseDns64 d) = boolOrFalse (dvf_UseDns64 obs)"
    and "gatedBoolEqual (dvf_UseDnssec d) (dvf_DnssecEnabled d) (dvf_DnssecEnabled obs)"
    and "gatedBoolEqual (dvf_UseDnssec d) (dvf_DnssecExpiredSignaturesEnabled d) (dvf_DnssecExpiredSignaturesEnabled obs)"
    and "stringSliceEqual (dvf_DnssecNegativeTrustAnchors d) (dvf_DnssecNegativeTrustAnchors obs)"
    and "gatedBoolEqual (dvf_UseDnssec d) (dvf_DnssecValidationEnabled d) (dvf_DnssecValidationEnabled obs)"
    and "boolOrFalse (dvf_UseDnssec d) = boolOrFalse (dvf_UseDnssec obs)"
    and "gatedBoolEqual (dvf_UseFixedRrsetOrderFqdns d) (dvf_EnableFixedRrsetOrderFqdns d) (dvf_EnableFixedRrsetOrderFqdns obs)"
    and "boolOrFalse (dvf_UseFixedRrsetOrderFqdns d) = boolOrFalse (dvf_UseFixedRrsetOrderFqdns obs)"
    and "boolOrFalse (dvf_EnableMatchRecursiveOnly d) = boolOrFalse (dvf_EnableMatchRecursiveOnly obs)"
    and "gatedStringEqual (dvf_UseFilterAaaa d) (dvf_FilterAaaa d) (dvf_FilterAaaa obs)"
    and "boolOrFalse (dvf_UseFilterAaaa d) = boolOrFalse (dvf_UseFilterAaaa obs)"
    and "gatedBoolEqual (dvf_UseForwarders d) (dvf_ForwardOnly d) (dvf_ForwardOnly obs)"
    and "gatedStringSliceEqual (dvf_UseForwarders d) (dvf_Forwarders d) (dvf_Forwarders obs)"
    and "boolOrFalse (dvf_UseForwarders d) = boolOrFalse (dvf_UseForwarders obs)"
    and "gatedUint32Equal (dvf_UseLameTTL d) (dvf_LameTTL d) (dvf_LameTTL obs)"
    and "boolOrFalse (dvf_UseLameTTL d) = boolOrFalse (dvf_UseLameTTL obs)"
    and "gatedUint32Equal (dvf_UseMaxCacheTTL d) (dvf_MaxCacheTTL d) (dvf_MaxCacheTTL obs)"
    and "boolOrFalse (dvf_UseMaxCacheTTL d) = boolOrFalse (dvf_UseMaxCacheTTL obs)"
    and "gatedUint32Equal (dvf_UseMaxNcacheTTL d) (dvf_MaxNcacheTTL d) (dvf_MaxNcacheTTL obs)"
    and "boolOrFalse (dvf_UseMaxNcacheTTL d) = boolOrFalse (dvf_UseMaxNcacheTTL obs)"
    and "uint32OrZero (dvf_NotifyDelay d) = uint32OrZero (dvf_NotifyDelay obs)"
    and "gatedBoolEqual (dvf_UseNxdomainRedirect d) (dvf_NxdomainLogQuery d) (dvf_NxdomainLogQuery obs)"
    and "gatedBoolEqual (dvf_UseNxdomainRedirect d) (dvf_NxdomainRedirect d) (dvf_NxdomainRedirect obs)"
    and "gatedStringSliceEqual (dvf_UseNxdomainRedirect d) (dvf_NxdomainRedirectAddresses d) (dvf_NxdomainRedirectAddresses obs)"
    and "gatedStringSliceEqual (dvf_UseNxdomainRedirect d) (dvf_NxdomainRedirectAddressesV6 d) (dvf_NxdomainRedirectAddressesV6 obs)"
    and "gatedUint32Equal (dvf_UseNxdomainRedirect d) (dvf_NxdomainRedirectTTL d) (dvf_NxdomainRedirectTTL obs)"
    and "gatedStringSliceEqual (dvf_UseNxdomainRedirect d) (dvf_NxdomainRulesets d) (dvf_NxdomainRulesets obs)"
    and "boolOrFalse (dvf_UseNxdomainRedirect d) = boolOrFalse (dvf_UseNxdomainRedirect obs)"
    and "gatedBoolEqual (dvf_UseRecursion d) (dvf_Recursion d) (dvf_Recursion obs)"
    and "boolOrFalse (dvf_UseRecursion d) = boolOrFalse (dvf_UseRecursion obs)"
    and "boolOrFalse (dvf_UseResponseRateLimiting d) = boolOrFalse (dvf_UseResponseRateLimiting obs)"
    and "gatedBoolEqual (dvf_UseRpzDropIPRule d) (dvf_RpzDropIPRuleEnabled d) (dvf_RpzDropIPRuleEnabled obs)"
    and "gatedUint32Equal (dvf_UseRpzDropIPRule d) (dvf_RpzDropIPRuleMinPrefixLengthIPv4 d) (dvf_RpzDropIPRuleMinPrefixLengthIPv4 obs)"
    and "gatedUint32Equal (dvf_UseRpzDropIPRule d) (dvf_RpzDropIPRuleMinPrefixLengthIPv6 d) (dvf_RpzDropIPRuleMinPrefixLengthIPv6 obs)"
    and "boolOrFalse (dvf_UseRpzDropIPRule d) = boolOrFalse (dvf_UseRpzDropIPRule obs)"
    and "gatedBoolEqual (dvf_UseRpzQnameWaitRecurse d) (dvf_RpzQnameWaitRecurse d) (dvf_RpzQnameWaitRecurse obs)"
    and "boolOrFalse (dvf_UseRpzQnameWaitRecurse d) = boolOrFalse (dvf_UseRpzQnameWaitRecurse obs)"
    and "boolOrFalse (dvf_UseScavengingSettings d) = boolOrFalse (dvf_UseScavengingSettings obs)"
    and "boolOrFalse (dvf_UseSortlist d) = boolOrFalse (dvf_UseSortlist obs)"
    and "extAttrsEqual (dvf_ExtAttrs d) (dvf_ExtAttrs obs)"
    and "gatedNestedSliceEqual (dvf_UseRootNameServer d) (dvf_CustomRootNameServers d) (dvf_CustomRootNameServers obs) nameServerValuesEqual"
    and "gatedNestedSliceEqual (dvf_UseDnssec d) (dvf_DnssecTrustedKeys d) (dvf_DnssecTrustedKeys obs) nestedSliceEqual"
    and "gatedNestedSliceEqual (dvf_UseFixedRrsetOrderFqdns d) (dvf_FixedRrsetOrderFqdns d) (dvf_FixedRrsetOrderFqdns obs) nestedSliceEqual"
    and "gatedNestedSliceEqual (dvf_UseFilterAaaa d) (dvf_FilterAaaaList d) (dvf_FilterAaaaList obs) addressAcValuesEqual"
    and "addressAcValuesEqual (dvf_MatchClients d) (dvf_MatchClients obs)"
    and "addressAcValuesEqual (dvf_MatchDestinations d) (dvf_MatchDestinations obs)"
    and "gatedNestedSliceEqual (dvf_UseSortlist d) (dvf_Sortlist d) (dvf_Sortlist obs) nestedSliceEqual"
    and "gatedPtrDeepEqual (dvf_UseResponseRateLimiting d) (dvf_ResponseRateLimiting d) (dvf_ResponseRateLimiting obs)"
    and "gatedPtrDeepEqual (dvf_UseScavengingSettings d) (dvf_ScavengingSettings d) (dvf_ScavengingSettings obs)"
  using assms by (simp_all only: DNSView_isUpToDate_iff)

lemma dnsview_filled_utd:
  assumes "DNSView_isUpToDate d obs"
  shows "DNSView_isUpToDate (dnsview_filled d obs) obs"
proof -
  note u = DNSView_isUpToDate_parts [OF assms]
  show ?thesis
    unfolding DNSView_isUpToDate_iff dnsview_filled_sel
    by (intro conjI u(1) agree_plain(1) [OF u(2)] agree_plain(1) [OF u(3)] agree_plain(2) [OF u(4)]
         agree_gated(2) [OF u(10) u(5)] agree_gated(1) [OF u(10) u(6)] agree_gated(4) [OF u(10) u(7)]
         agree_gated(3) [OF u(10) u(8)] agree_gated(4) [OF u(10) u(9)] agree_plain(2) [OF u(10)]
         agree_gated(1) [OF u(10) u(11)] agree_gated(2) [OF u(13) u(12)] agree_plain(2) [OF u(13)]
         agree_gated(1) [OF u(15) u(14)] agree_plain(2) [OF u(15)] agree_gated(2) [OF u(18) u(16)]
         agree_gated(1) [OF u(18) u(17)] agree_plain(2) [OF u(18)] agree_gated(1) [OF u(21) u(19)]
         agree_gated(4) [OF u(21) u(20)] agree_plain(2) [OF u(21)] agree_gated(1) [OF u(23) u(22)]
         agree_plain(2) [OF u(23)] agree_gated(1) [OF u(18) u(24)] agree_gated(1) [OF u(26) u(25)]
         agree_plain(2) [OF u(26)] agree_gated(1) [OF u(29) u(27)] agree_gated(4) [OF u(29) u(28)]
         agree_plain(2) [OF u(29)] agree_gated(1) [OF u(34) u(30)] agree_gated(1) [OF u(34) u(31)]
         agree_plain(4) [OF u(32)] agree_gated(1) [OF u(34) u(33)] agree_plain(2) [OF u(34)]
         agree_gated(1) [OF u(36) u(35)] agree_plain(2) [OF u(36)] agree_plain(2) [OF u(37)]
         agree_gated(2) [OF u(39) u(38)] agree_plain(2) [OF u(39)] agree_gated(1) [OF u(42) u(40)]
         agree_gated(4) [OF u(42) u(41)] agree_plain(2) [OF u(42)] agree_gated(3) [OF u(44) u(43)]
         agree_plain(2) [OF u(44)] agree_gated(3) [OF u(46) u(45)] agree_plain(2) [OF u(46)]
         agree_gated(3) [OF u(48) u(47)] agree_plain(2) [OF u(48)] agree_plain(3) [OF u(49)]
         agree_gated(1) [OF u(56) u(50)] agree_gated(1) [OF u(56) u(51)] agree_gated(4) [OF u(56) u(52)]
         agree_gated(4) [OF u(56) u(53)] agree_gated(3) [OF u(56) u(54)] agree_gated(4) [OF u(56) u(55)]
         agree_plain(2) [OF u(56)] agree_gated(1) [OF u(58) u(57)] agree_plain(2) [OF u(58)]
         agree_plain(2) [OF u(59)] agree_gated(1) [OF u(63) u(60)] agree_gated(3) [OF u(63) u(61)]
         agree_gated(3) [OF u(63) u(62)] agree_plain(2) [OF u(63)] agree_gated(1) [OF u(65) u(64)]
         agree_plain(2) [OF u(65)] agree_plain(2) [OF u(66)] agree_plain(2) [OF u(67)]
         agree_plain(6) [OF u(68)] agree_gated(6) [OF u(13) u(69)] agree_gated(5) [OF u(34) u(70)]
         agree_gated(5) [OF u(36) u(71)] agree_gated(7) [OF u(39) u(72)] agree_plain(5) [OF u(73)]
         agree_plain(5) [OF u(74)] agree_gated(5) [OF u(67) u(75)] agree_gated(8) [OF u(59) u(76)]
         agree_gated(8) [OF u(66) u(77)])
qed

section \<open>Conversions\<close>

lemma map_filter_pointers: "List.map_filter (map_option f) (map (\<lambda>x. Some (g x)) xs) = map (\<lambda>x. f (g x)) xs"
  by (induction xs) (simp_all add: List.map_filter_simps)

lemma crd_items [simp]:
  "nameServerValueFromNamespaced (nameServerValueToNamespaced nsv) = nsv"
  "dnssecTrustedKeyValueFromNamespaced (dnssecTrustedKeyValueToNamespaced dkv) = dkv"
  "addressAcValueFromNamespaced (addressAcValueToNamespaced aav) = aav"
  "fixedRrsetOrderFqdnValueFromNamespaced (fixedRrsetOrderFqdnValueToNamespaced fov) = fov"
  "expressionOpValueFromNamespaced (expressionOpValueToNamespaced eov) = eov"
  "eaExpressionOpValueFromNamespaced (eaExpressionOpValueToNamespaced eev) = eev"
  "sortlistEntryValueFromNamespaced (sortlistEntryValueToNamespaced sev) = sev"
  by (simp_all add: nameServerValueFromNamespaced_def nameServerValueToNamespaced_def
       dnssecTrustedKeyValueFromNamespaced_def dnssecTrustedKeyValueToNamespaced_def
       addressAcValueFromNamespaced_def addressAcValueToNamespaced_def
       fixedRrsetOrderFqdnValueFromNamespaced_def fixedRrsetOrderFqdnValueToNamespaced_def
       expressionOpValueFromNamespaced_def expressionOpValueToNamespaced_def
       eaExpressionOpValueFromNamespaced_def eaExpressionOpValueToNamespaced_def
       sortlistEntryValueFromNamespaced_def sortlistEntryValueToNamespaced_def)

lemma crd_lists [simp]:
  "nameServerValuesFromNamespaced (nameServerValuesToNamespaced nsvs) = nsvs"
  "dnssecTrustedKeyValuesFromPtrNamespaced (dnssecTrustedKeyValuesToPtrNamespaced dkvs) = dkvs"
  "addressAcValuesFromPtrNamespaced (addressAcValuesToPtrNamespaced aavs) = aavs"
  "fixedRrsetOrderFqdnValuesFromPtrNamespaced (fixedRrsetOrderFqdnValuesToPtrNamespaced fovs) = fovs"
  "expressionOpValuesFromPtrNamespaced (expressionOpValuesToPtrNamespaced eovs) = eovs"
  "eaExpressionOpValuesFromPtrNamespaced (eaExpressionOpValuesToPtrNamespaced eevs) = eevs"
  "sortlistEntryValuesFromPtrNamespaced (sortlistEntryValuesToPtrNamespaced sevs) = sevs"
  by (auto simp: map_filter_pointers comp_def nameServerValuesFromNamespaced_def nameServerValuesToNamespaced_def
       dnssecTrustedKeyValuesFromPtrNamespaced_def dnssecTrustedKeyValuesToPtrNamespaced_def
       addressAcValuesFromPtrNamespaced_def addressAcValuesToPtrNamespaced_def
       fixedRrsetOrderFqdnValuesFromPtrNamespaced_def fixedRrsetOrderFqdnValuesToPtrNamespaced_def
       expressionOpValuesFromPtrNamespaced_def expressionOpValuesToPtrNamespaced_def
       eaExpressionOpValuesFromPtrNamespaced_def eaExpressionOpValuesToPtrNamespaced_def
       sortlistEntryValuesFromPtrNamespaced_def sortlistEntryValuesToPtrNamespaced_def intro!: map_idI)

lemma crd_responseRateLimitingValue [simp]: "responseRateLimitingValueFromNamespaced (responseRateLimitingValueToNamespaced p) = p"
  by (simp add: responseRateLimitingValueFromNamespaced_def responseRateLimitingValueToNamespaced_def split: option.split)

lemma crd_scavengingScheduleValue [simp]: "scavengingScheduleValueFromNamespaced (scavengingScheduleValueToNamespaced p) = p"
  by (simp add: scavengingScheduleValueFromNamespaced_def scavengingScheduleValueToNamespaced_def split: option.split)

lemma crd_scavengingSettingsValue [simp]: "scavengingSettingsValueFromNamespaced (scavengingSettingsValueToNamespaced p) = p"
  by (simp add: scavengingSettingsValueFromNamespaced_def scavengingSettingsValueToNamespaced_def split: option.split)

lemma fields_sel [simp]:
  "dvf_Name (fieldsFromNamespacedParams p) = dvp_Name p"
  "dvf_Comment (fieldsFromNamespacedParams p) = dvp_Comment p"
  "dvf_NetworkView (fieldsFromNamespacedParams p) = dvp_NetworkView p"
  "dvf_Disable (fieldsFromNamespacedParams p) = dvp_Disable p"
  "dvf_BlacklistAction (fieldsFromNamespacedParams p) = dvp_BlacklistAction p"
  "dvf_BlacklistLogQuery (fieldsFromNamespacedParams p) = dvp_BlacklistLogQuery p"
  "dvf_BlacklistRedirectAddresses (fieldsFromNamespacedParams p) = dvp_BlacklistRedirectAddresses p"
  "dvf_BlacklistRedirectTTL (fieldsFromNamespacedParams p) = dvp_BlacklistRedirectTTL p"
  "dvf_BlacklistRulesets (fieldsFromNamespacedParams p) = dvp_BlacklistRulesets p"
  "dvf_UseBlacklist (fieldsFromNamespacedParams p) = dvp_UseBlacklist p"
  "dvf_EnableBlacklist (fieldsFromNamespacedParams p) = dvp_EnableBlacklist p"
  "dvf_RootNameServerType (fieldsFromNamespacedParams p) = dvp_RootNameServerType p"
  "dvf_UseRootNameServer (fieldsFromNamespacedParams p) = dvp_UseRootNameServer p"
  "dvf_DdnsForceCreationTimestampUpdate (fieldsFromNamespacedParams p) = dvp_DdnsForceCreationTimestampUpdate p"
  "dvf_UseDdnsForceCreationTimestampUpdate (fieldsFromNamespacedParams p) = dvp_UseDdnsForceCreationTimestampUpdate p"
  "dvf_DdnsPrincipalGroup (fieldsFromNamespacedParams p) = dvp_DdnsPrincipalGroup p"
  "dvf_DdnsPrincipalTracking (fieldsFromNamespacedParams p) = dvp_DdnsPrincipalTracking p"
  "dvf_UseDdnsPrincipalSecurity (fieldsFromNamespacedParams p) = dvp_UseDdnsPrincipalSecurity p"
  "dvf_DdnsRestrictPatterns (fieldsFromNamespacedParams p) = dvp_DdnsRestrictPatterns p"
  "dvf_DdnsRestrictPatternsList (fieldsFromNamespacedParams p) = dvp_DdnsRestrictPatternsList p"
  "dvf_UseDdnsPatternsRestriction (fieldsFromNamespacedParams p) = dvp_UseDdnsPatternsRestriction p"
  "dvf_DdnsRestrictProtected (fieldsFromNamespacedParams p) = dvp_DdnsRestrictProtected p"
  "dvf_UseDdnsRestrictProtected (fieldsFromNamespacedParams p) = dvp_UseDdnsRestrictProtected p"
  "dvf_DdnsRestrictSecure (fieldsFromNamespacedParams p) = dvp_DdnsRestrictSecure p"
  "dvf_DdnsRestrictStatic (fieldsFromNamespacedParams p) = dvp_DdnsRestrictStatic p"
  "dvf_UseDdnsRestrictStatic (fieldsFromNamespacedParams p) = dvp_UseDdnsRestrictStatic p"
  "dvf_Dns64Enabled (fieldsFromNamespacedParams p) = dvp_Dns64Enabled p"
  "dvf_Dns64Groups (fieldsFromNamespacedParams p) = dvp_Dns64Groups p"
  "dvf_UseDns64 (fieldsFromNamespacedParams p) = dvp_UseDns64 p"
  "dvf_DnssecEnabled (fieldsFromNamespacedParams p) = dvp_DnssecEnabled p"
  "dvf_DnssecExpiredSignaturesEnabled (fieldsFromNamespacedParams p) = dvp_DnssecExpiredSignaturesEnabled p"
  "dvf_DnssecNegativeTrustAnchors (fieldsFromNamespacedParams p) = dvp_DnssecNegativeTrustAnchors p"
  "dvf_DnssecValidationEnabled (fieldsFromNamespacedParams p) = dvp_DnssecValidationEnabled p"
  "dvf_UseDnssec (fieldsFromNamespacedParams p) = dvp_UseDnssec p"
  "dvf_EnableFixedRrsetOrderFqdns (fieldsFromNamespacedParams p) = dvp_EnableFixedRrsetOrderFqdns p"
  "dvf_UseFixedRrsetOrderFqdns (fieldsFromNamespacedParams p) = dvp_UseFixedRrsetOrderFqdns p"
  "dvf_EnableMatchRecursiveOnly (fieldsFromNamespacedParams p) = dvp_EnableMatchRecursiveOnly p"
  "dvf_FilterAaaa (fieldsFromNamespacedParams p) = dvp_FilterAaaa p"
  "dvf_UseFilterAaaa (fieldsFromNamespacedParams p) = dvp_UseFilterAaaa p"
  "dvf_ForwardOnly (fieldsFromNamespacedParams p) = dvp_ForwardOnly p"
  "dvf_Forwarders (fieldsFromNamespacedParams p) = dvp_Forwarders p"
  "dvf_UseForwarders (fieldsFromNamespacedParams p) = dvp_UseForwarders p"
  "dvf_LameTTL (fieldsFromNamespacedParams p) = dvp_LameTTL p"
  "dvf_UseLameTTL (fieldsFromNamespacedParams p) = dvp_UseLameTTL p"
  "dvf_MaxCacheTTL (fieldsFromNamespacedParams p) = dvp_MaxCacheTTL p"
  "dvf_UseMaxCacheTTL (fieldsFromNamespacedParams p) = dvp_UseMaxCacheTTL p"
  "dvf_MaxNcacheTTL (fieldsFromNamespacedParams p) = dvp_MaxNcacheTTL p"
  "dvf_UseMaxNcacheTTL (fieldsFromNamespacedParams p) = dvp_UseMaxNcacheTTL p"
  "dvf_NotifyDelay (fieldsFromNamespacedParams p) = dvp_NotifyDelay p"
  "dvf_NxdomainLogQuery (fieldsFromNamespacedParams p) = dvp_NxdomainLogQuery p"
  "dvf_NxdomainRedirect (fieldsFromNamespacedParams p) = dvp_NxdomainRedirect p"
  "dvf_NxdomainRedirectAddresses (fieldsFromNamespacedParams p) = dvp_NxdomainRedirectAddresses p"
  "dvf_NxdomainRedirectAddressesV6 (fieldsFromNamespacedParams p) = dvp_NxdomainRedirectAddressesV6 p"
  "dvf_NxdomainRedirectTTL (fieldsFromNamespacedParams p) = dvp_NxdomainRedirectTTL p"
  "dvf_NxdomainRulesets (fieldsFromNamespacedParams p) = dvp_NxdomainRulesets p"
  "dvf_UseNxdomainRedirect (fieldsFromNamespacedParams p) = dvp_UseNxdomainRedirect p"
  "dvf_Recursion (fieldsFromNamespacedParams p) = dvp_Recursion p"
  "dvf_UseRecursion (fieldsFromNamespacedParams p) = dvp_UseRecursion p"
  "dvf_UseResponseRateLimiting (fieldsFromNamespacedParams p) = dvp_UseResponseRateLimiting p"
  "dvf_RpzDropIPRuleEnabled (fieldsFromNamespacedParams p) = dvp_RpzDropIPRuleEnabled p"
  "dvf_RpzDropIPRuleMinPrefixLengthIPv4 (fieldsFromNamespacedParams p) = dvp_RpzDropIPRuleMinPrefixLengthIPv4 p"
  "dvf_RpzDropIPRuleMinPrefixLengthIPv6 (fieldsFromNamespacedParams p) = dvp_RpzDropIPRuleMinPrefixLengthIPv6 p"
  "dvf_UseRpzDropIPRule (fieldsFromNamespacedParams p) = dvp_UseRpzDropIPRule p"
  "dvf_RpzQnameWaitRecurse (fieldsFromNamespacedParams p) = dvp_RpzQnameWaitRecurse p"
  "dvf_UseRpzQnameWaitRecurse (fieldsFromNamespacedParams p) = dvp_UseRpzQnameWaitRecurse p"
  "dvf_UseScavengingSettings (fieldsFromNamespacedParams p) = dvp_UseScavengingSettings p"
  "dvf_UseSortlist (fieldsFromNamespacedParams p) = dvp_UseSortlist p"
  "dvf_ExtAttrs (fieldsFromNamespacedParams p) = dvp_ExtAttrs p"
  "dvf_CustomRootNameServers (fieldsFromNamespacedParams p) = nameServerValuesFromNamespaced (dvp_CustomRootNameServers p)"
  "dvf_DnssecTrustedKeys (fieldsFromNamespacedParams p) = dnssecTrustedKeyValuesFromPtrNamespaced (dvp_DnssecTrustedKeys p)"
  "dvf_FixedRrsetOrderFqdns (fieldsFromNamespacedParams p) = fixedRrsetOrderFqdnValuesFromPtrNamespaced (dvp_FixedRrsetOrderFqdns p)"
  "dvf_FilterAaaaList (fieldsFromNamespacedParams p) = addressAcValuesFromPtrNamespaced (dvp_FilterAaaaList p)"
  "dvf_MatchClients (fieldsFromNamespacedParams p) = addressAcValuesFromPtrNamespaced (dvp_MatchClients p)"
  "dvf_MatchDestinations (fieldsFromNamespacedParams p) = addressAcValuesFromPtrNamespaced (dvp_MatchDestinations p)"
  "dvf_ResponseRateLimiting (fieldsFromNamespacedParams p) = responseRateLimitingValueFromNamespaced (dvp_ResponseRateLimiting p)"
  "dvf_ScavengingSettings (fieldsFromNamespacedParams p) = scavengingSettingsValueFromNamespaced (dvp_ScavengingSettings p)"
  "dvf_Sortlist (fieldsFromNamespacedParams p) = sortlistEntryValuesFromPtrNamespaced (dvp_Sortlist p)"
  by (simp_all only: fieldsFromNamespacedParams_def dnsViewFields.select_convs)

lemma params_sel [simp]:
  "dvp_Name (applyFieldsToNamespacedParams f p) = dvf_Name f"
  "dvp_Comment (applyFieldsToNamespacedParams f p) = dvf_Comment f"
  "dvp_NetworkView (applyFieldsToNamespacedParams f p) = dvf_NetworkView f"
  "dvp_Disable (applyFieldsToNamespacedParams f p) = dvf_Disable f"
  "dvp_BlacklistAction (applyFieldsToNamespacedParams f p) = dvf_BlacklistAction f"
  "dvp_BlacklistLogQuery (applyFieldsToNamespacedParams f p) = dvf_BlacklistLogQuery f"
  "dvp_BlacklistRedirectAddresses (applyFieldsToNamespacedParams f p) = dvf_BlacklistRedirectAddresses f"
  "dvp_BlacklistRedirectTTL (applyFieldsToNamespacedParams f p) = dvf_BlacklistRedirectTTL f"
  "dvp_BlacklistRulesets (applyFieldsToNamespacedParams f p) = dvf_BlacklistRulesets f"
  "dvp_UseBlacklist (applyFieldsToNamespacedParams f p) = dvf_UseBlacklist f"
  "dvp_EnableBlacklist (applyFieldsToNamespacedParams f p) = dvf_EnableBlacklist f"
  "dvp_RootNameServerType (applyFieldsToNamespacedParams f p) = dvf_RootNameServerType f"
  "dvp_UseRootNameServer (applyFieldsToNamespacedParams f p) = dvf_UseRootNameServer f"
  "dvp_DdnsForceCreationTimestampUpdate (applyFieldsToNamespacedParams f p) = dvf_DdnsForceCreationTimestampUpdate f"
  "dvp_UseDdnsForceCreationTimestampUpdate (applyFieldsToNamespacedParams f p) = dvf_UseDdnsForceCreationTimestampUpdate f"
  "dvp_DdnsPrincipalGroup (applyFieldsToNamespacedParams f p) = dvf_DdnsPrincipalGroup f"
  "dvp_DdnsPrincipalTracking (applyFieldsToNamespacedParams f p) = dvf_DdnsPrincipalTracking f"
  "dvp_UseDdnsPrincipalSecurity (applyFieldsToNamespacedParams f p) = dvf_UseDdnsPrincipalSecurity f"
  "dvp_DdnsRestrictPatterns (applyFieldsToNamespacedParams f p) = dvf_DdnsRestrictPatterns f"
  "dvp_DdnsRestrictPatternsList (applyFieldsToNamespacedParams f p) = dvf_DdnsRestrictPatternsList f"
  "dvp_UseDdnsPatternsRestriction (applyFieldsToNamespacedParams f p) = dvf_UseDdnsPatternsRestriction f"
  "dvp_DdnsRestrictProtected (applyFieldsToNamespacedParams f p) = dvf_DdnsRestrictProtected f"
  "dvp_UseDdnsRestrictProtected (applyFieldsToNamespacedParams f p) = dvf_UseDdnsRestrictProtected f"
  "dvp_DdnsRestrictSecure (applyFieldsToNamespacedParams f p) = dvf_DdnsRestrictSecure f"
  "dvp_DdnsRestrictStatic (applyFieldsToNamespacedParams f p) = dvf_DdnsRestrictStatic f"
  "dvp_UseDdnsRestrictStatic (applyFieldsToNamespacedParams f p) = dvf_UseDdnsRestrictStatic f"
  "dvp_Dns64Enabled (applyFieldsToNamespacedParams f p) = dvf_Dns64Enabled f"
  "dvp_Dns64Groups (applyFieldsToNamespacedParams f p) = dvf_Dns64Groups f"
  "dvp_UseDns64 (applyFieldsToNamespacedParams f p) = dvf_UseDns64 f"
  "dvp_DnssecEnabled (applyFieldsToNamespacedParams f p) = dvf_DnssecEnabled f"
  "dvp_DnssecExpiredSignaturesEnabled (applyFieldsToNamespacedParams f p) = dvf_DnssecExpiredSignaturesEnabled f"
  "dvp_DnssecNegativeTrustAnchors (applyFieldsToNamespacedParams f p) = dvf_DnssecNegativeTrustAnchors f"
  "dvp_DnssecValidationEnabled (applyFieldsToNamespacedParams f p) = dvf_DnssecValidationEnabled f"
  "dvp_UseDnssec (applyFieldsToNamespacedParams f p) = dvf_UseDnssec f"
  "dvp_EnableFixedRrsetOrderFqdns (applyFieldsToNamespacedParams f p) = dvf_EnableFixedRrsetOrderFqdns f"
  "dvp_UseFixedRrsetOrderFqdns (applyFieldsToNamespacedParams f p) = dvf_UseFixedRrsetOrderFqdns f"
  "dvp_EnableMatchRecursiveOnly (applyFieldsToNamespacedParams f p) = dvf_EnableMatchRecursiveOnly f"
  "dvp_FilterAaaa (applyFieldsToNamespacedParams f p) = dvf_FilterAaaa f"
  "dvp_UseFilterAaaa (applyFieldsToNamespacedParams f p) = dvf_UseFilterAaaa f"
  "dvp_ForwardOnly (applyFieldsToNamespacedParams f p) = dvf_ForwardOnly f"
  "dvp_Forwarders (applyFieldsToNamespacedParams f p) = dvf_Forwarders f"
  "dvp_UseForwarders (applyFieldsToNamespacedParams f p) = dvf_UseForwarders f"
  "dvp_LameTTL (applyFieldsToNamespacedParams f p) = dvf_LameTTL f"
  "dvp_UseLameTTL (applyFieldsToNamespacedParams f p) = dvf_UseLameTTL f"
  "dvp_MaxCacheTTL (applyFieldsToNamespacedParams f p) = dvf_MaxCacheTTL f"
  "dvp_UseMaxCacheTTL (applyFieldsToNamespacedParams f p) = dvf_UseMaxCacheTTL f"
  "dvp_MaxNcacheTTL (applyFieldsToNamespacedParams f p) = dvf_MaxNcacheTTL f"
  "dvp_UseMaxNcacheTTL (applyFieldsToNamespacedParams f p) = dvf_UseMaxNcacheTTL f"
  "dvp_NotifyDelay (applyFieldsToNamespacedParams f p) = dvf_NotifyDelay f"
  "dvp_NxdomainLogQuery (applyFieldsToNamespacedParams f p) = dvf_NxdomainLogQuery f"
  "dvp_NxdomainRedirect (applyFieldsToNamespacedParams f p) = dvf_NxdomainRedirect f"
  "dvp_NxdomainRedirectAddresses (applyFieldsToNamespacedParams f p) = dvf_NxdomainRedirectAddresses f"
  "dvp_NxdomainRedirectAddressesV6 (applyFieldsToNamespacedParams f p) = dvf_NxdomainRedirectAddressesV6 f"
  "dvp_NxdomainRedirectTTL (applyFieldsToNamespacedParams f p) = dvf_NxdomainRedirectTTL f"
  "dvp_NxdomainRulesets (applyFieldsToNamespacedParams f p) = dvf_NxdomainRulesets f"
  "dvp_UseNxdomainRedirect (applyFieldsToNamespacedParams f p) = dvf_UseNxdomainRedirect f"
  "dvp_Recursion (applyFieldsToNamespacedParams f p) = dvf_Recursion f"
  "dvp_UseRecursion (applyFieldsToNamespacedParams f p) = dvf_UseRecursion f"
  "dvp_UseResponseRateLimiting (applyFieldsToNamespacedParams f p) = dvf_UseResponseRateLimiting f"
  "dvp_RpzDropIPRuleEnabled (applyFieldsToNamespacedParams f p) = dvf_RpzDropIPRuleEnabled f"
  "dvp_RpzDropIPRuleMinPrefixLengthIPv4 (applyFieldsToNamespacedParams f p) = dvf_RpzDropIPRuleMinPrefixLengthIPv4 f"
  "dvp_RpzDropIPRuleMinPrefixLengthIPv6 (applyFieldsToNamespacedParams f p) = dvf_RpzDropIPRuleMinPrefixLengthIPv6 f"
  "dvp_UseRpzDropIPRule (applyFieldsToNamespacedParams f p) = dvf_UseRpzDropIPRule f"
  "dvp_RpzQnameWaitRecurse (applyFieldsToNamespacedParams f p) = dvf_RpzQnameWaitRecurse f"
  "dvp_UseRpzQnameWaitRecurse (applyFieldsToNamespacedParams f p) = dvf_UseRpzQnameWaitRecurse f"
  "dvp_UseScavengingSettings (applyFieldsToNamespacedParams f p) = dvf_UseScavengingSettings f"
  "dvp_UseSortlist (applyFieldsToNamespacedParams f p) = dvf_UseSortlist f"
  "dvp_ExtAttrs (applyFieldsToNamespacedParams f p) = dvf_ExtAttrs f"
  "dvp_CustomRootNameServers (applyFieldsToNamespacedParams f p) = nameServerValuesToNamespaced (dvf_CustomRootNameServers f)"
  "dvp_DnssecTrustedKeys (applyFieldsToNamespacedParams f p) = dnssecTrustedKeyValuesToPtrNamespaced (dvf_DnssecTrustedKeys f)"
  "dvp_FixedRrsetOrderFqdns (applyFieldsToNamespacedParams f p) = fixedRrsetOrderFqdnValuesToPtrNamespaced (dvf_FixedRrsetOrderFqdns f)"
  "dvp_FilterAaaaList (applyFieldsToNamespacedParams f p) = addressAcValuesToPtrNamespaced (dvf_FilterAaaaList f)"
  "dvp_MatchClients (applyFieldsToNamespacedParams f p) = addressAcValuesToPtrNamespaced (dvf_MatchClients f)"
  "dvp_MatchDestinations (applyFieldsToNamespacedParams f p) = addressAcValuesToPtrNamespaced (dvf_MatchDestinations f)"
  "dvp_ResponseRateLimiting (applyFieldsToNamespacedParams f p) = responseRateLimitingValueToNamespaced (dvf_ResponseRateLimiting f)"
  "dvp_ScavengingSettings (applyFieldsToNamespacedParams f p) = scavengingSettingsValueToNamespaced (dvf_ScavengingSettings f)"
  "dvp_Sortlist (applyFieldsToNamespacedParams f p) = sortlistEntryValuesToPtrNamespaced (dvf_Sortlist f)"
  by (simp_all add: applyFieldsToNamespacedParams_def)

lemma dnsview_fields_put [simp]: "fieldsFromNamespacedParams (applyFieldsToNamespacedParams f p) = f"
  by (rule dnsViewFields.equality) simp_all

definition dnsview_fields :: "DNSViewCR \<Rightarrow> dnsViewFields" where
  "dnsview_fields cr = fieldsFromNamespacedParams (dv_ForProvider cr)"

definition DNSView_put :: "DNSViewCR \<Rightarrow> dnsViewFields \<Rightarrow> DNSViewCR" where
  "DNSView_put cr f = cr\<lparr>dv_ForProvider := applyFieldsToNamespacedParams f (dv_ForProvider cr)\<rparr>"

definition dnsview_observed :: "ViewObj \<Rightarrow> dnsViewFields" where
  "dnsview_observed v = (fieldsFromView v)\<lparr>dvf_ExtAttrs := extAttrsFromEA (Strip (vwr_Ea v))\<rparr>"

definition DNSView_late :: "dnsViewFields \<Rightarrow> ViewObj \<Rightarrow> dnsViewFields \<times> bool" where
  "DNSView_late d v = DNSView_lateInitializeFields d (dnsview_observed v)"

definition DNSView_utd :: "dnsViewFields \<Rightarrow> ViewObj \<Rightarrow> bool" where
  "DNSView_utd d v = DNSView_isUpToDate d (dnsview_observed v)"

lemma DNSView_late_eq:
  "DNSView_late d v = (dnsview_filled d (dnsview_observed v), dnsview_filled d (dnsview_observed v) \<noteq> d)"
  by (simp only: DNSView_late_def DNSView_lateInitializeFields_eq dnsview_changed_iff)

interpretation dnsview_late: late_view DNSView_late DNSView_keeps dnsview_fields DNSView_put DNSView_utd
  by unfold_locales
    (simp_all add: DNSView_late_eq dnsview_filled_idem dnsview_filled_keeps DNSView_utd_def dnsview_filled_utd
      dnsview_fields_def DNSView_put_def)

section \<open>The handlers\<close>

definition view_create_request :: "dnsViewFields \<Rightarrow> string \<Rightarrow> view_req" where
  "view_create_request f uid = CreateViewObject ((buildView f)\<lparr>vwr_Ea := Stamp (buildEA (dvf_ExtAttrs f)) uid\<rparr>)"

definition view_update_request :: "string \<Rightarrow> dnsViewFields \<Rightarrow> string \<Rightarrow> view_req" where
  "view_update_request ref f uid = UpdateViewObject ((buildView f)\<lparr>vwr_Ea := Stamp (buildEA (dvf_ExtAttrs f)) uid\<rparr>) ref"

fun view_req_ea :: "view_req \<Rightarrow> ea" where
  "view_req_ea (CreateViewObject v) = vwr_Ea v"
| "view_req_ea (UpdateViewObject v ref) = vwr_Ea v"

definition DNSView_status :: "ViewObj \<Rightarrow> DNSViewCR \<Rightarrow> DNSViewCR" where
  "DNSView_status v cr =
     cr\<lparr>dv_AtProvider := (namespacedObservationFromFields (fieldsFromView v) (vwr_Ref v) (strPtrOrNil (vwr_Ref v))
       (Some (vwr_IsDefault v)) (cloudInfoValueFromSDK (vwr_CloudInfo v)))\<lparr>dvb_ID := vwr_Ref v\<rparr>\<rparr>"

definition DNSView_valid :: "DNSViewCR \<Rightarrow> goerr option" where
  "DNSView_valid cr = (if trim_space (mo_uid cr) = [] then Some (TextError DNSView_errEmptyUID) else None)"

definition dnsview_observe_error :: "goerr option \<Rightarrow> goerr \<Rightarrow> goerr" where
  "dnsview_observe_error prereq err = (case prereq of Some p \<Rightarrow> p | None \<Rightarrow> Wrapped errObserveDNSView err)"

text \<open>What Delete does once the name is not one of the three.\<close>

definition dnsview_delete :: "vw_env \<Rightarrow> string \<Rightarrow> DNSViewCR \<Rightarrow> vw_world \<Rightarrow> goerr option \<times> vw_world" where
  "dnsview_delete env ep cr w = deleteViewIdentity env ep (GetExternalName cr) (mo_uid cr) w"

definition dnsview_guarded :: "DNSViewCR \<Rightarrow> bool" where
  "dnsview_guarded cr =
     isWellKnownDNSViewName (case dvb_Name (dv_AtProvider cr) of None \<Rightarrow> dvp_Name (dv_ForProvider cr) | Some n \<Rightarrow> Some n)"

lemma buildView_ea [simp]: "vwr_Ea (buildView f) = buildEA (dvf_ExtAttrs f)"
  by (simp add: buildView_def)

lemma ViewObj_type_simps [simp]:
  "ot_name ViewObj_type = ''view''" "ref_ea_shape ViewObj_type"
  "stamped ViewObj_type v = eaValue (vwr_Ea v) EAKey"
  by (simp_all add: ref_ea_shape_def stamped_def ViewObj_type_def reflectViewObj_def getRef_def getEA_def)

lemma deleteView_issue: "deleteView env = issue_delete env"
  by (intro ext) (simp only: deleteView_def issue_delete_def)

lemma DNSView_CR_commute:
  "DNSView_status v (DNSView_put cr f) = DNSView_put (DNSView_status v cr) f"
  "dnsview_fields (DNSView_status v cr) = dnsview_fields cr"
  "dnsview_fields (SetExternalName n cr) = dnsview_fields cr"
  by (simp_all add: DNSView_status_def DNSView_put_def dnsview_fields_def SetExternalName_def)

lemma DNSView_Observe_shape:
  "namespaced_DNSView_Observe env ep cr w =
     ladder_observe_shape dnsview_observe_error (Resolve env ViewObj_type) (ensureIdentityPrerequisite env ep)
       (\<lambda>r. True) (\<lambda>r. True) (lift_view DNSView_late dnsview_fields DNSView_put) DNSView_status
       (\<lambda>cr. DNSView_utd (dnsview_fields cr)) vwr_Ref cr w"
proof -
  obtain r w1 where r: "Resolve env ViewObj_type (observeRefFor (mo_name cr) (GetExternalName cr)) (mo_uid cr) w = (r, w1)"
    by (cases "Resolve env ViewObj_type (observeRefFor (mo_name cr) (GetExternalName cr)) (mo_uid cr) w")
  obtain e w2 where e: "ensureIdentityPrerequisite env ep w1 = (e, w2)"
    by (cases "ensureIdentityPrerequisite env ep w1")
  note defs = namespaced_DNSView_Observe_def resolveViewIdentity_def ladder_observe_shape_def dnsview_observe_error_def
  show ?thesis
  proof (cases r)
    case (Inl err)
    then show ?thesis
      by (cases e) (simp_all add: defs Let_def r e)
  next
    case (Inr a)
    obtain obj out where a: "a = (obj, out)" by (cases a)
    show ?thesis
    proof (cases obj)
      case None
      with r Inr a have "out = OutcomeNotFound"
        using Resolve_Some [of env ViewObj_type] by (metis option.distinct(1))
      with None show ?thesis by (simp add: defs Let_def r Inr a)
    next
      case (Some v)
      obtain f c where late: "DNSView_late (dnsview_fields cr) v = (f, c)"
        by (cases "DNSView_late (dnsview_fields cr) v")
      then have lf: "DNSView_lateInitializeFields (fieldsFromNamespacedParams (dv_ForProvider cr))
          ((fieldsFromView v)\<lparr>dvf_ExtAttrs := extAttrsFromEA (Strip (vwr_Ea v))\<rparr>) = (f, c)"
        by (simp add: DNSView_late_def dnsview_fields_def dnsview_observed_def)
      have again: "c \<Longrightarrow> dnsview_fields (DNSView_put cr f) = f" "\<not> c \<Longrightarrow> dnsview_fields cr = f"
        using late by (auto simp: dnsview_fields_def DNSView_put_def DNSView_late_eq)
      have lv: "lift_view DNSView_late dnsview_fields DNSView_put cr v = (if c then DNSView_put cr f else cr, c)"
        by (simp add: lift_view_def late)
      have utd: "DNSView_utd g v = DNSView_isUpToDate g ((fieldsFromView v)\<lparr>dvf_ExtAttrs := extAttrsFromEA (Strip (vwr_Ea v))\<rparr>)" for g
        by (simp add: DNSView_utd_def dnsview_observed_def)
      have put: "DNSView_status v cr\<lparr>dv_ForProvider := applyFieldsToNamespacedParams f (dv_ForProvider cr)\<rparr> =
          DNSView_put (DNSView_status v cr) f"
        by (simp add: DNSView_status_def DNSView_put_def)
      have fp: "dv_ForProvider (DNSView_status v cr) = dv_ForProvider cr" by (simp add: DNSView_status_def)
      note obs = defs Let_def r Inr a Some prod.case sum.case option.case if_False Outcome.distinct
      show ?thesis
        unfolding obs
        by (cases c; cases out)
          (simp_all add: fp lf lv utd put again DNSView_CR_commute flip: DNSView_status_def)
    qed
  qed
qed

lemma createView_request:
  "trim_space uid \<noteq> [] \<Longrightarrow> createView env f uid w =
     (case mutate_object env (view_create_request f uid) w of
        (Inl err, w1) \<Rightarrow> (Inl err, w1) | (Inr x, w1) \<Rightarrow> (Inr (vwr_Ref x), w1))"
  by (simp add: createView_def view_create_request_def Let_def)

lemma DNSView_Create_shape:
  "namespaced_DNSView_Create env ep cr w =
     ladder_create_shape errCreateDNSView DNSView_valid (ensureIdentityPrerequisite env ep) (mutate_object env)
       (\<lambda>cr. view_create_request (dnsview_fields cr) (mo_uid cr)) vwr_Ref cr w"
proof -
  obtain e w1 where e: "ensureIdentityPrerequisite env ep w = (e, w1)"
    by (cases "ensureIdentityPrerequisite env ep w")
  obtain m w2 where m: "mutate_object env (view_create_request (dnsview_fields cr) (mo_uid cr)) w1 = (m, w2)"
    by (cases "mutate_object env (view_create_request (dnsview_fields cr) (mo_uid cr)) w1")
  show ?thesis
    using m by (cases e; cases m)
      (simp_all add: namespaced_DNSView_Create_def ladder_create_shape_def DNSView_valid_def Let_def e dnsview_fields_def
        createView_request)
qed

lemma DNSView_Update_shape:
  "namespaced_DNSView_Update env ep cr w =
     ladder_update_shape errUpdateDNSView DNSView_errEmptyUID env (ensureIdentityPrerequisite env ep)
       (\<lambda>cr. view_update_request (GetExternalName cr) (dnsview_fields cr) (mo_uid cr)) vwr_Ref cr w"
proof -
  obtain e w1 where e: "ensureIdentityPrerequisite env ep w = (e, w1)"
    by (cases "ensureIdentityPrerequisite env ep w")
  show ?thesis
    by (cases e; cases "wapi_mutate env (calls w1) (view_update_request (GetExternalName cr) (dnsview_fields cr) (mo_uid cr))")
      (auto simp: namespaced_DNSView_Update_def ladder_update_shape_def updateView_def view_update_request_def
        Let_def e dnsview_fields_def mutate_object_def)
qed

lemma dnsview_delete_shape:
  "dnsview_delete env ep cr w =
     ladder_delete_shape errDeleteDNSView errDeleteUnverifiedOwnership nilDereference
       (Resolve env ViewObj_type (GetExternalName cr) (mo_uid cr)) (ensureIdentityPrerequisite env ep)
       (issue_delete env) vwr_Ref w"
  by (simp only: dnsview_delete_def deleteViewIdentity_def ladder_delete_shape_def resolveViewIdentity_def deleteView_issue)

lemma DNSView_Delete_cases:
  "namespaced_DNSView_Delete env ep cr w = (if dnsview_guarded cr then (None, w) else dnsview_delete env ep cr w)"
  by (simp add: namespaced_DNSView_Delete_def dnsview_guarded_def dnsview_delete_def Let_def split: prod.split option.split)

section \<open>Convergence\<close>

text \<open>
  What a view holds of what was sent: of a nil pointer, an empty text or list nothing is sent, and the Grid has
  its own value; a field under a use flag is stored while the stored flag is on.
\<close>

definition view_stores :: "ViewObj \<Rightarrow> ViewObj \<Rightarrow> bool" where
  "view_stores v x \<longleftrightarrow>
     (vwr_Name v \<noteq> None \<longrightarrow> vwr_Name x = vwr_Name v) \<and>
     (vwr_Comment v \<noteq> None \<longrightarrow> vwr_Comment x = vwr_Comment v) \<and>
     (vwr_NetworkView v \<noteq> None \<longrightarrow> vwr_NetworkView x = vwr_NetworkView v) \<and>
     (vwr_Disable v \<noteq> None \<longrightarrow> vwr_Disable x = vwr_Disable v) \<and>
     (boolOrFalse (vwr_UseBlacklist x) \<longrightarrow> vwr_BlacklistAction v \<noteq> [] \<longrightarrow> vwr_BlacklistAction x = vwr_BlacklistAction v) \<and>
     (boolOrFalse (vwr_UseBlacklist x) \<longrightarrow> vwr_BlacklistLogQuery v \<noteq> None \<longrightarrow> vwr_BlacklistLogQuery x = vwr_BlacklistLogQuery v) \<and>
     (boolOrFalse (vwr_UseBlacklist x) \<longrightarrow> vwr_BlacklistRedirectAddresses v \<noteq> [] \<longrightarrow> vwr_BlacklistRedirectAddresses x = vwr_BlacklistRedirectAddresses v) \<and>
     (boolOrFalse (vwr_UseBlacklist x) \<longrightarrow> vwr_BlacklistRedirectTtl v \<noteq> None \<longrightarrow> vwr_BlacklistRedirectTtl x = vwr_BlacklistRedirectTtl v) \<and>
     (boolOrFalse (vwr_UseBlacklist x) \<longrightarrow> vwr_BlacklistRulesets v \<noteq> [] \<longrightarrow> vwr_BlacklistRulesets x = vwr_BlacklistRulesets v) \<and>
     (vwr_UseBlacklist v \<noteq> None \<longrightarrow> vwr_UseBlacklist x = vwr_UseBlacklist v) \<and>
     (boolOrFalse (vwr_UseBlacklist x) \<longrightarrow> vwr_EnableBlacklist v \<noteq> None \<longrightarrow> vwr_EnableBlacklist x = vwr_EnableBlacklist v) \<and>
     (boolOrFalse (vwr_UseRootNameServer x) \<longrightarrow> vwr_RootNameServerType v \<noteq> [] \<longrightarrow> vwr_RootNameServerType x = vwr_RootNameServerType v) \<and>
     (vwr_UseRootNameServer v \<noteq> None \<longrightarrow> vwr_UseRootNameServer x = vwr_UseRootNameServer v) \<and>
     (boolOrFalse (vwr_UseDdnsForceCreationTimestampUpdate x) \<longrightarrow> vwr_DdnsForceCreationTimestampUpdate v \<noteq> None \<longrightarrow> vwr_DdnsForceCreationTimestampUpdate x = vwr_DdnsForceCreationTimestampUpdate v) \<and>
     (vwr_UseDdnsForceCreationTimestampUpdate v \<noteq> None \<longrightarrow> vwr_UseDdnsForceCreationTimestampUpdate x = vwr_UseDdnsForceCreationTimestampUpdate v) \<and>
     (boolOrFalse (vwr_UseDdnsPrincipalSecurity x) \<longrightarrow> vwr_DdnsPrincipalGroup v \<noteq> None \<longrightarrow> vwr_DdnsPrincipalGroup x = vwr_DdnsPrincipalGroup v) \<and>
     (boolOrFalse (vwr_UseDdnsPrincipalSecurity x) \<longrightarrow> vwr_DdnsPrincipalTracking v \<noteq> None \<longrightarrow> vwr_DdnsPrincipalTracking x = vwr_DdnsPrincipalTracking v) \<and>
     (vwr_UseDdnsPrincipalSecurity v \<noteq> None \<longrightarrow> vwr_UseDdnsPrincipalSecurity x = vwr_UseDdnsPrincipalSecurity v) \<and>
     (boolOrFalse (vwr_UseDdnsPatternsRestriction x) \<longrightarrow> vwr_DdnsRestrictPatterns v \<noteq> None \<longrightarrow> vwr_DdnsRestrictPatterns x = vwr_DdnsRestrictPatterns v) \<and>
     (boolOrFalse (vwr_UseDdnsPatternsRestriction x) \<longrightarrow> vwr_DdnsRestrictPatternsList v \<noteq> [] \<longrightarrow> vwr_DdnsRestrictPatternsList x = vwr_DdnsRestrictPatternsList v) \<and>
     (vwr_UseDdnsPatternsRestriction v \<noteq> None \<longrightarrow> vwr_UseDdnsPatternsRestriction x = vwr_UseDdnsPatternsRestriction v) \<and>
     (boolOrFalse (vwr_UseDdnsRestrictProtected x) \<longrightarrow> vwr_DdnsRestrictProtected v \<noteq> None \<longrightarrow> vwr_DdnsRestrictProtected x = vwr_DdnsRestrictProtected v) \<and>
     (vwr_UseDdnsRestrictProtected v \<noteq> None \<longrightarrow> vwr_UseDdnsRestrictProtected x = vwr_UseDdnsRestrictProtected v) \<and>
     (boolOrFalse (vwr_UseDdnsPrincipalSecurity x) \<longrightarrow> vwr_DdnsRestrictSecure v \<noteq> None \<longrightarrow> vwr_DdnsRestrictSecure x = vwr_DdnsRestrictSecure v) \<and>
     (boolOrFalse (vwr_UseDdnsRestrictStatic x) \<longrightarrow> vwr_DdnsRestrictStatic v \<noteq> None \<longrightarrow> vwr_DdnsRestrictStatic x = vwr_DdnsRestrictStatic v) \<and>
     (vwr_UseDdnsRestrictStatic v \<noteq> None \<longrightarrow> vwr_UseDdnsRestrictStatic x = vwr_UseDdnsRestrictStatic v) \<and>
     (boolOrFalse (vwr_UseDns64 x) \<longrightarrow> vwr_Dns64Enabled v \<noteq> None \<longrightarrow> vwr_Dns64Enabled x = vwr_Dns64Enabled v) \<and>
     (boolOrFalse (vwr_UseDns64 x) \<longrightarrow> vwr_Dns64Groups v \<noteq> [] \<longrightarrow> vwr_Dns64Groups x = vwr_Dns64Groups v) \<and>
     (vwr_UseDns64 v \<noteq> None \<longrightarrow> vwr_UseDns64 x = vwr_UseDns64 v) \<and>
     (boolOrFalse (vwr_UseDnssec x) \<longrightarrow> vwr_DnssecEnabled v \<noteq> None \<longrightarrow> vwr_DnssecEnabled x = vwr_DnssecEnabled v) \<and>
     (boolOrFalse (vwr_UseDnssec x) \<longrightarrow> vwr_DnssecExpiredSignaturesEnabled v \<noteq> None \<longrightarrow> vwr_DnssecExpiredSignaturesEnabled x = vwr_DnssecExpiredSignaturesEnabled v) \<and>
     (vwr_DnssecNegativeTrustAnchors v \<noteq> [] \<longrightarrow> vwr_DnssecNegativeTrustAnchors x = vwr_DnssecNegativeTrustAnchors v) \<and>
     (boolOrFalse (vwr_UseDnssec x) \<longrightarrow> vwr_DnssecValidationEnabled v \<noteq> None \<longrightarrow> vwr_DnssecValidationEnabled x = vwr_DnssecValidationEnabled v) \<and>
     (vwr_UseDnssec v \<noteq> None \<longrightarrow> vwr_UseDnssec x = vwr_UseDnssec v) \<and>
     (boolOrFalse (vwr_UseFixedRrsetOrderFqdns x) \<longrightarrow> vwr_EnableFixedRrsetOrderFqdns v \<noteq> None \<longrightarrow> vwr_EnableFixedRrsetOrderFqdns x = vwr_EnableFixedRrsetOrderFqdns v) \<and>
     (vwr_UseFixedRrsetOrderFqdns v \<noteq> None \<longrightarrow> vwr_UseFixedRrsetOrderFqdns x = vwr_UseFixedRrsetOrderFqdns v) \<and>
     (vwr_EnableMatchRecursiveOnly v \<noteq> None \<longrightarrow> vwr_EnableMatchRecursiveOnly x = vwr_EnableMatchRecursiveOnly v) \<and>
     (boolOrFalse (vwr_UseFilterAaaa x) \<longrightarrow> vwr_FilterAaaa v \<noteq> [] \<longrightarrow> vwr_FilterAaaa x = vwr_FilterAaaa v) \<and>
     (vwr_UseFilterAaaa v \<noteq> None \<longrightarrow> vwr_UseFilterAaaa x = vwr_UseFilterAaaa v) \<and>
     (boolOrFalse (vwr_UseForwarders x) \<longrightarrow> vwr_ForwardOnly v \<noteq> None \<longrightarrow> vwr_ForwardOnly x = vwr_ForwardOnly v) \<and>
     (boolOrFalse (vwr_UseForwarders x) \<longrightarrow> vwr_Forwarders v \<noteq> [] \<longrightarrow> vwr_Forwarders x = vwr_Forwarders v) \<and>
     (vwr_UseForwarders v \<noteq> None \<longrightarrow> vwr_UseForwarders x = vwr_UseForwarders v) \<and>
     (boolOrFalse (vwr_UseLameTtl x) \<longrightarrow> vwr_LameTtl v \<noteq> None \<longrightarrow> vwr_LameTtl x = vwr_LameTtl v) \<and>
     (vwr_UseLameTtl v \<noteq> None \<longrightarrow> vwr_UseLameTtl x = vwr_UseLameTtl v) \<and>
     (boolOrFalse (vwr_UseMaxCacheTtl x) \<longrightarrow> vwr_MaxCacheTtl v \<noteq> None \<longrightarrow> vwr_MaxCacheTtl x = vwr_MaxCacheTtl v) \<and>
     (vwr_UseMaxCacheTtl v \<noteq> None \<longrightarrow> vwr_UseMaxCacheTtl x = vwr_UseMaxCacheTtl v) \<and>
     (boolOrFalse (vwr_UseMaxNcacheTtl x) \<longrightarrow> vwr_MaxNcacheTtl v \<noteq> None \<longrightarrow> vwr_MaxNcacheTtl x = vwr_MaxNcacheTtl v) \<and>
     (vwr_UseMaxNcacheTtl v \<noteq> None \<longrightarrow> vwr_UseMaxNcacheTtl x = vwr_UseMaxNcacheTtl v) \<and>
     (vwr_NotifyDelay v \<noteq> None \<longrightarrow> vwr_NotifyDelay x = vwr_NotifyDelay v) \<and>
     (boolOrFalse (vwr_UseNxdomainRedirect x) \<longrightarrow> vwr_NxdomainLogQuery v \<noteq> None \<longrightarrow> vwr_NxdomainLogQuery x = vwr_NxdomainLogQuery v) \<and>
     (boolOrFalse (vwr_UseNxdomainRedirect x) \<longrightarrow> vwr_NxdomainRedirect v \<noteq> None \<longrightarrow> vwr_NxdomainRedirect x = vwr_NxdomainRedirect v) \<and>
     (boolOrFalse (vwr_UseNxdomainRedirect x) \<longrightarrow> vwr_NxdomainRedirectAddresses v \<noteq> [] \<longrightarrow> vwr_NxdomainRedirectAddresses x = vwr_NxdomainRedirectAddresses v) \<and>
     (boolOrFalse (vwr_UseNxdomainRedirect x) \<longrightarrow> vwr_NxdomainRedirectAddressesV6 v \<noteq> [] \<longrightarrow> vwr_NxdomainRedirectAddressesV6 x = vwr_NxdomainRedirectAddressesV6 v) \<and>
     (boolOrFalse (vwr_UseNxdomainRedirect x) \<longrightarrow> vwr_NxdomainRedirectTtl v \<noteq> None \<longrightarrow> vwr_NxdomainRedirectTtl x = vwr_NxdomainRedirectTtl v) \<and>
     (boolOrFalse (vwr_UseNxdomainRedirect x) \<longrightarrow> vwr_NxdomainRulesets v \<noteq> [] \<longrightarrow> vwr_NxdomainRulesets x = vwr_NxdomainRulesets v) \<and>
     (vwr_UseNxdomainRedirect v \<noteq> None \<longrightarrow> vwr_UseNxdomainRedirect x = vwr_UseNxdomainRedirect v) \<and>
     (boolOrFalse (vwr_UseRecursion x) \<longrightarrow> vwr_Recursion v \<noteq> None \<longrightarrow> vwr_Recursion x = vwr_Recursion v) \<and>
     (vwr_UseRecursion v \<noteq> None \<longrightarrow> vwr_UseRecursion x = vwr_UseRecursion v) \<and>
     (vwr_UseResponseRateLimiting v \<noteq> None \<longrightarrow> vwr_UseResponseRateLimiting x = vwr_UseResponseRateLimiting v) \<and>
     (boolOrFalse (vwr_UseRpzDropIpRule x) \<longrightarrow> vwr_RpzDropIpRuleEnabled v \<noteq> None \<longrightarrow> vwr_RpzDropIpRuleEnabled x = vwr_RpzDropIpRuleEnabled v) \<and>
     (boolOrFalse (vwr_UseRpzDropIpRule x) \<longrightarrow> vwr_RpzDropIpRuleMinPrefixLengthIpv4 v \<noteq> None \<longrightarrow> vwr_RpzDropIpRuleMinPrefixLengthIpv4 x = vwr_RpzDropIpRuleMinPrefixLengthIpv4 v) \<and>
     (boolOrFalse (vwr_UseRpzDropIpRule x) \<longrightarrow> vwr_RpzDropIpRuleMinPrefixLengthIpv6 v \<noteq> None \<longrightarrow> vwr_RpzDropIpRuleMinPrefixLengthIpv6 x = vwr_RpzDropIpRuleMinPrefixLengthIpv6 v) \<and>
     (vwr_UseRpzDropIpRule v \<noteq> None \<longrightarrow> vwr_UseRpzDropIpRule x = vwr_UseRpzDropIpRule v) \<and>
     (boolOrFalse (vwr_UseRpzQnameWaitRecurse x) \<longrightarrow> vwr_RpzQnameWaitRecurse v \<noteq> None \<longrightarrow> vwr_RpzQnameWaitRecurse x = vwr_RpzQnameWaitRecurse v) \<and>
     (vwr_UseRpzQnameWaitRecurse v \<noteq> None \<longrightarrow> vwr_UseRpzQnameWaitRecurse x = vwr_UseRpzQnameWaitRecurse v) \<and>
     (vwr_UseScavengingSettings v \<noteq> None \<longrightarrow> vwr_UseScavengingSettings x = vwr_UseScavengingSettings v) \<and>
     (vwr_UseSortlist v \<noteq> None \<longrightarrow> vwr_UseSortlist x = vwr_UseSortlist v) \<and>
     vwr_Ea x = vwr_Ea v \<and>
     (boolOrFalse (vwr_UseRootNameServer x) \<longrightarrow> vwr_CustomRootNameServers v \<noteq> [] \<longrightarrow> vwr_CustomRootNameServers x = vwr_CustomRootNameServers v) \<and>
     (boolOrFalse (vwr_UseDnssec x) \<longrightarrow> vwr_DnssecTrustedKeys v \<noteq> [] \<longrightarrow> vwr_DnssecTrustedKeys x = vwr_DnssecTrustedKeys v) \<and>
     (boolOrFalse (vwr_UseFixedRrsetOrderFqdns x) \<longrightarrow> vwr_FixedRrsetOrderFqdns v \<noteq> [] \<longrightarrow> vwr_FixedRrsetOrderFqdns x = vwr_FixedRrsetOrderFqdns v) \<and>
     (boolOrFalse (vwr_UseFilterAaaa x) \<longrightarrow> vwr_FilterAaaaList v \<noteq> [] \<longrightarrow> vwr_FilterAaaaList x = vwr_FilterAaaaList v) \<and>
     (vwr_MatchClients v \<noteq> [] \<longrightarrow> vwr_MatchClients x = vwr_MatchClients v) \<and>
     (vwr_MatchDestinations v \<noteq> [] \<longrightarrow> vwr_MatchDestinations x = vwr_MatchDestinations v) \<and>
     (boolOrFalse (vwr_UseSortlist x) \<longrightarrow> vwr_Sortlist v \<noteq> [] \<longrightarrow> vwr_Sortlist x = vwr_Sortlist v) \<and>
     (boolOrFalse (vwr_UseResponseRateLimiting x) \<longrightarrow> vwr_ResponseRateLimiting v \<noteq> None \<longrightarrow> vwr_ResponseRateLimiting x = vwr_ResponseRateLimiting v) \<and>
     (boolOrFalse (vwr_UseScavengingSettings x) \<longrightarrow> vwr_ScavengingSettings v \<noteq> None \<longrightarrow> vwr_ScavengingSettings x = vwr_ScavengingSettings v)"

fun view_holds :: "view_req \<Rightarrow> ViewObj \<Rightarrow> bool" where
  "view_holds (CreateViewObject v) x = view_stores v x"
| "view_holds (UpdateViewObject v ref) x = view_stores v x"

text \<open>
  The specs that converge: with a name, without empty texts under a use flag, and with nested values that
  survive the way to the Grid and back. A flag that is explicitly false or a number that is explicitly
  0 does not: it comes back as nil, which reflect.DeepEqual tells apart.
\<close>

definition DNSView_spec_ok :: "DNSViewCR \<Rightarrow> bool" where
  "DNSView_spec_ok cr \<longleftrightarrow>
     (let f = dnsview_fields cr in
      reserved_free (dvf_ExtAttrs f) \<and> dvf_Name f \<noteq> None \<and>
      dvf_BlacklistAction f \<noteq> Some [] \<and> dvf_RootNameServerType f \<noteq> Some [] \<and> dvf_FilterAaaa f \<noteq> Some [] \<and>
      dnssecTrustedKeyValuesFromSDKPtr (dnssecTrustedKeyValuesToSDKPtr (dvf_DnssecTrustedKeys f)) = dvf_DnssecTrustedKeys f \<and>
      responseRateLimitingValueFromSDK (responseRateLimitingValueToSDK (dvf_ResponseRateLimiting f)) = dvf_ResponseRateLimiting f \<and>
      scavengingSettingsValueFromSDK (scavengingSettingsValueToSDK (dvf_ScavengingSettings f)) = dvf_ScavengingSettings f \<and>
      fixedRrsetOrderFqdnValuesFromSDKPtr (fixedRrsetOrderFqdnValuesToSDKPtr (dvf_FixedRrsetOrderFqdns f)) = dvf_FixedRrsetOrderFqdns f \<and>
      sortlistEntryValuesFromSDKPtr (sortlistEntryValuesToSDKPtr (dvf_Sortlist f)) = dvf_Sortlist f)"

lemma buildView_sel [simp]:
  "vwr_Name (buildView f) = dvf_Name f"
  "vwr_Comment (buildView f) = dvf_Comment f"
  "vwr_NetworkView (buildView f) = dvf_NetworkView f"
  "vwr_Disable (buildView f) = dvf_Disable f"
  "vwr_BlacklistAction (buildView f) = strOrEmpty (dvf_BlacklistAction f)"
  "vwr_BlacklistLogQuery (buildView f) = dvf_BlacklistLogQuery f"
  "vwr_BlacklistRedirectAddresses (buildView f) = dvf_BlacklistRedirectAddresses f"
  "vwr_BlacklistRedirectTtl (buildView f) = dvf_BlacklistRedirectTTL f"
  "vwr_BlacklistRulesets (buildView f) = dvf_BlacklistRulesets f"
  "vwr_UseBlacklist (buildView f) = dvf_UseBlacklist f"
  "vwr_EnableBlacklist (buildView f) = dvf_EnableBlacklist f"
  "vwr_RootNameServerType (buildView f) = strOrEmpty (dvf_RootNameServerType f)"
  "vwr_UseRootNameServer (buildView f) = dvf_UseRootNameServer f"
  "vwr_DdnsForceCreationTimestampUpdate (buildView f) = dvf_DdnsForceCreationTimestampUpdate f"
  "vwr_UseDdnsForceCreationTimestampUpdate (buildView f) = dvf_UseDdnsForceCreationTimestampUpdate f"
  "vwr_DdnsPrincipalGroup (buildView f) = dvf_DdnsPrincipalGroup f"
  "vwr_DdnsPrincipalTracking (buildView f) = dvf_DdnsPrincipalTracking f"
  "vwr_UseDdnsPrincipalSecurity (buildView f) = dvf_UseDdnsPrincipalSecurity f"
  "vwr_DdnsRestrictPatterns (buildView f) = dvf_DdnsRestrictPatterns f"
  "vwr_DdnsRestrictPatternsList (buildView f) = dvf_DdnsRestrictPatternsList f"
  "vwr_UseDdnsPatternsRestriction (buildView f) = dvf_UseDdnsPatternsRestriction f"
  "vwr_DdnsRestrictProtected (buildView f) = dvf_DdnsRestrictProtected f"
  "vwr_UseDdnsRestrictProtected (buildView f) = dvf_UseDdnsRestrictProtected f"
  "vwr_DdnsRestrictSecure (buildView f) = dvf_DdnsRestrictSecure f"
  "vwr_DdnsRestrictStatic (buildView f) = dvf_DdnsRestrictStatic f"
  "vwr_UseDdnsRestrictStatic (buildView f) = dvf_UseDdnsRestrictStatic f"
  "vwr_Dns64Enabled (buildView f) = dvf_Dns64Enabled f"
  "vwr_Dns64Groups (buildView f) = dvf_Dns64Groups f"
  "vwr_UseDns64 (buildView f) = dvf_UseDns64 f"
  "vwr_DnssecEnabled (buildView f) = dvf_DnssecEnabled f"
  "vwr_DnssecExpiredSignaturesEnabled (buildView f) = dvf_DnssecExpiredSignaturesEnabled f"
  "vwr_DnssecNegativeTrustAnchors (buildView f) = dvf_DnssecNegativeTrustAnchors f"
  "vwr_DnssecValidationEnabled (buildView f) = dvf_DnssecValidationEnabled f"
  "vwr_UseDnssec (buildView f) = dvf_UseDnssec f"
  "vwr_EnableFixedRrsetOrderFqdns (buildView f) = dvf_EnableFixedRrsetOrderFqdns f"
  "vwr_UseFixedRrsetOrderFqdns (buildView f) = dvf_UseFixedRrsetOrderFqdns f"
  "vwr_EnableMatchRecursiveOnly (buildView f) = dvf_EnableMatchRecursiveOnly f"
  "vwr_FilterAaaa (buildView f) = strOrEmpty (dvf_FilterAaaa f)"
  "vwr_UseFilterAaaa (buildView f) = dvf_UseFilterAaaa f"
  "vwr_ForwardOnly (buildView f) = dvf_ForwardOnly f"
  "vwr_Forwarders (buildView f) = dvf_Forwarders f"
  "vwr_UseForwarders (buildView f) = dvf_UseForwarders f"
  "vwr_LameTtl (buildView f) = dvf_LameTTL f"
  "vwr_UseLameTtl (buildView f) = dvf_UseLameTTL f"
  "vwr_MaxCacheTtl (buildView f) = dvf_MaxCacheTTL f"
  "vwr_UseMaxCacheTtl (buildView f) = dvf_UseMaxCacheTTL f"
  "vwr_MaxNcacheTtl (buildView f) = dvf_MaxNcacheTTL f"
  "vwr_UseMaxNcacheTtl (buildView f) = dvf_UseMaxNcacheTTL f"
  "vwr_NotifyDelay (buildView f) = dvf_NotifyDelay f"
  "vwr_NxdomainLogQuery (buildView f) = dvf_NxdomainLogQuery f"
  "vwr_NxdomainRedirect (buildView f) = dvf_NxdomainRedirect f"
  "vwr_NxdomainRedirectAddresses (buildView f) = dvf_NxdomainRedirectAddresses f"
  "vwr_NxdomainRedirectAddressesV6 (buildView f) = dvf_NxdomainRedirectAddressesV6 f"
  "vwr_NxdomainRedirectTtl (buildView f) = dvf_NxdomainRedirectTTL f"
  "vwr_NxdomainRulesets (buildView f) = dvf_NxdomainRulesets f"
  "vwr_UseNxdomainRedirect (buildView f) = dvf_UseNxdomainRedirect f"
  "vwr_Recursion (buildView f) = dvf_Recursion f"
  "vwr_UseRecursion (buildView f) = dvf_UseRecursion f"
  "vwr_UseResponseRateLimiting (buildView f) = dvf_UseResponseRateLimiting f"
  "vwr_RpzDropIpRuleEnabled (buildView f) = dvf_RpzDropIPRuleEnabled f"
  "vwr_RpzDropIpRuleMinPrefixLengthIpv4 (buildView f) = dvf_RpzDropIPRuleMinPrefixLengthIPv4 f"
  "vwr_RpzDropIpRuleMinPrefixLengthIpv6 (buildView f) = dvf_RpzDropIPRuleMinPrefixLengthIPv6 f"
  "vwr_UseRpzDropIpRule (buildView f) = dvf_UseRpzDropIPRule f"
  "vwr_RpzQnameWaitRecurse (buildView f) = dvf_RpzQnameWaitRecurse f"
  "vwr_UseRpzQnameWaitRecurse (buildView f) = dvf_UseRpzQnameWaitRecurse f"
  "vwr_UseScavengingSettings (buildView f) = dvf_UseScavengingSettings f"
  "vwr_UseSortlist (buildView f) = dvf_UseSortlist f"
  "vwr_CustomRootNameServers (buildView f) = nameServerValuesToSDK (dvf_CustomRootNameServers f)"
  "vwr_DnssecTrustedKeys (buildView f) = dnssecTrustedKeyValuesToSDKPtr (dvf_DnssecTrustedKeys f)"
  "vwr_FixedRrsetOrderFqdns (buildView f) = fixedRrsetOrderFqdnValuesToSDKPtr (dvf_FixedRrsetOrderFqdns f)"
  "vwr_FilterAaaaList (buildView f) = addressAcValuesToSDKPtr (dvf_FilterAaaaList f)"
  "vwr_MatchClients (buildView f) = addressAcValuesToSDKPtr (dvf_MatchClients f)"
  "vwr_MatchDestinations (buildView f) = addressAcValuesToSDKPtr (dvf_MatchDestinations f)"
  "vwr_Sortlist (buildView f) = sortlistEntryValuesToSDKPtr (dvf_Sortlist f)"
  "vwr_ResponseRateLimiting (buildView f) = responseRateLimitingValueToSDK (dvf_ResponseRateLimiting f)"
  "vwr_ScavengingSettings (buildView f) = scavengingSettingsValueToSDK (dvf_ScavengingSettings f)"
  by (simp_all only: buildView_def ViewObj.select_convs)

lemma dnsview_observed_sel [simp]:
  "dvf_Name (dnsview_observed x) = vwr_Name x"
  "dvf_Comment (dnsview_observed x) = vwr_Comment x"
  "dvf_NetworkView (dnsview_observed x) = vwr_NetworkView x"
  "dvf_Disable (dnsview_observed x) = vwr_Disable x"
  "dvf_BlacklistAction (dnsview_observed x) = strPtrOrNil (vwr_BlacklistAction x)"
  "dvf_BlacklistLogQuery (dnsview_observed x) = vwr_BlacklistLogQuery x"
  "dvf_BlacklistRedirectAddresses (dnsview_observed x) = vwr_BlacklistRedirectAddresses x"
  "dvf_BlacklistRedirectTTL (dnsview_observed x) = vwr_BlacklistRedirectTtl x"
  "dvf_BlacklistRulesets (dnsview_observed x) = vwr_BlacklistRulesets x"
  "dvf_UseBlacklist (dnsview_observed x) = vwr_UseBlacklist x"
  "dvf_EnableBlacklist (dnsview_observed x) = vwr_EnableBlacklist x"
  "dvf_RootNameServerType (dnsview_observed x) = strPtrOrNil (vwr_RootNameServerType x)"
  "dvf_UseRootNameServer (dnsview_observed x) = vwr_UseRootNameServer x"
  "dvf_DdnsForceCreationTimestampUpdate (dnsview_observed x) = vwr_DdnsForceCreationTimestampUpdate x"
  "dvf_UseDdnsForceCreationTimestampUpdate (dnsview_observed x) = vwr_UseDdnsForceCreationTimestampUpdate x"
  "dvf_DdnsPrincipalGroup (dnsview_observed x) = vwr_DdnsPrincipalGroup x"
  "dvf_DdnsPrincipalTracking (dnsview_observed x) = vwr_DdnsPrincipalTracking x"
  "dvf_UseDdnsPrincipalSecurity (dnsview_observed x) = vwr_UseDdnsPrincipalSecurity x"
  "dvf_DdnsRestrictPatterns (dnsview_observed x) = vwr_DdnsRestrictPatterns x"
  "dvf_DdnsRestrictPatternsList (dnsview_observed x) = vwr_DdnsRestrictPatternsList x"
  "dvf_UseDdnsPatternsRestriction (dnsview_observed x) = vwr_UseDdnsPatternsRestriction x"
  "dvf_DdnsRestrictProtected (dnsview_observed x) = vwr_DdnsRestrictProtected x"
  "dvf_UseDdnsRestrictProtected (dnsview_observed x) = vwr_UseDdnsRestrictProtected x"
  "dvf_DdnsRestrictSecure (dnsview_observed x) = vwr_DdnsRestrictSecure x"
  "dvf_DdnsRestrictStatic (dnsview_observed x) = vwr_DdnsRestrictStatic x"
  "dvf_UseDdnsRestrictStatic (dnsview_observed x) = vwr_UseDdnsRestrictStatic x"
  "dvf_Dns64Enabled (dnsview_observed x) = vwr_Dns64Enabled x"
  "dvf_Dns64Groups (dnsview_observed x) = vwr_Dns64Groups x"
  "dvf_UseDns64 (dnsview_observed x) = vwr_UseDns64 x"
  "dvf_DnssecEnabled (dnsview_observed x) = vwr_DnssecEnabled x"
  "dvf_DnssecExpiredSignaturesEnabled (dnsview_observed x) = vwr_DnssecExpiredSignaturesEnabled x"
  "dvf_DnssecNegativeTrustAnchors (dnsview_observed x) = vwr_DnssecNegativeTrustAnchors x"
  "dvf_DnssecValidationEnabled (dnsview_observed x) = vwr_DnssecValidationEnabled x"
  "dvf_UseDnssec (dnsview_observed x) = vwr_UseDnssec x"
  "dvf_EnableFixedRrsetOrderFqdns (dnsview_observed x) = vwr_EnableFixedRrsetOrderFqdns x"
  "dvf_UseFixedRrsetOrderFqdns (dnsview_observed x) = vwr_UseFixedRrsetOrderFqdns x"
  "dvf_EnableMatchRecursiveOnly (dnsview_observed x) = vwr_EnableMatchRecursiveOnly x"
  "dvf_FilterAaaa (dnsview_observed x) = strPtrOrNil (vwr_FilterAaaa x)"
  "dvf_UseFilterAaaa (dnsview_observed x) = vwr_UseFilterAaaa x"
  "dvf_ForwardOnly (dnsview_observed x) = vwr_ForwardOnly x"
  "dvf_Forwarders (dnsview_observed x) = vwr_Forwarders x"
  "dvf_UseForwarders (dnsview_observed x) = vwr_UseForwarders x"
  "dvf_LameTTL (dnsview_observed x) = vwr_LameTtl x"
  "dvf_UseLameTTL (dnsview_observed x) = vwr_UseLameTtl x"
  "dvf_MaxCacheTTL (dnsview_observed x) = vwr_MaxCacheTtl x"
  "dvf_UseMaxCacheTTL (dnsview_observed x) = vwr_UseMaxCacheTtl x"
  "dvf_MaxNcacheTTL (dnsview_observed x) = vwr_MaxNcacheTtl x"
  "dvf_UseMaxNcacheTTL (dnsview_observed x) = vwr_UseMaxNcacheTtl x"
  "dvf_NotifyDelay (dnsview_observed x) = vwr_NotifyDelay x"
  "dvf_NxdomainLogQuery (dnsview_observed x) = vwr_NxdomainLogQuery x"
  "dvf_NxdomainRedirect (dnsview_observed x) = vwr_NxdomainRedirect x"
  "dvf_NxdomainRedirectAddresses (dnsview_observed x) = vwr_NxdomainRedirectAddresses x"
  "dvf_NxdomainRedirectAddressesV6 (dnsview_observed x) = vwr_NxdomainRedirectAddressesV6 x"
  "dvf_NxdomainRedirectTTL (dnsview_observed x) = vwr_NxdomainRedirectTtl x"
  "dvf_NxdomainRulesets (dnsview_observed x) = vwr_NxdomainRulesets x"
  "dvf_UseNxdomainRedirect (dnsview_observed x) = vwr_UseNxdomainRedirect x"
  "dvf_Recursion (dnsview_observed x) = vwr_Recursion x"
  "dvf_UseRecursion (dnsview_observed x) = vwr_UseRecursion x"
  "dvf_UseResponseRateLimiting (dnsview_observed x) = vwr_UseResponseRateLimiting x"
  "dvf_RpzDropIPRuleEnabled (dnsview_observed x) = vwr_RpzDropIpRuleEnabled x"
  "dvf_RpzDropIPRuleMinPrefixLengthIPv4 (dnsview_observed x) = vwr_RpzDropIpRuleMinPrefixLengthIpv4 x"
  "dvf_RpzDropIPRuleMinPrefixLengthIPv6 (dnsview_observed x) = vwr_RpzDropIpRuleMinPrefixLengthIpv6 x"
  "dvf_UseRpzDropIPRule (dnsview_observed x) = vwr_UseRpzDropIpRule x"
  "dvf_RpzQnameWaitRecurse (dnsview_observed x) = vwr_RpzQnameWaitRecurse x"
  "dvf_UseRpzQnameWaitRecurse (dnsview_observed x) = vwr_UseRpzQnameWaitRecurse x"
  "dvf_UseScavengingSettings (dnsview_observed x) = vwr_UseScavengingSettings x"
  "dvf_UseSortlist (dnsview_observed x) = vwr_UseSortlist x"
  "dvf_ExtAttrs (dnsview_observed x) = userAttrs (vwr_Ea x)"
  "dvf_CustomRootNameServers (dnsview_observed x) = nameServerValuesFromSDK (vwr_CustomRootNameServers x)"
  "dvf_DnssecTrustedKeys (dnsview_observed x) = dnssecTrustedKeyValuesFromSDKPtr (vwr_DnssecTrustedKeys x)"
  "dvf_FixedRrsetOrderFqdns (dnsview_observed x) = fixedRrsetOrderFqdnValuesFromSDKPtr (vwr_FixedRrsetOrderFqdns x)"
  "dvf_FilterAaaaList (dnsview_observed x) = addressAcValuesFromSDKPtr (vwr_FilterAaaaList x)"
  "dvf_MatchClients (dnsview_observed x) = addressAcValuesFromSDKPtr (vwr_MatchClients x)"
  "dvf_MatchDestinations (dnsview_observed x) = addressAcValuesFromSDKPtr (vwr_MatchDestinations x)"
  "dvf_ResponseRateLimiting (dnsview_observed x) = responseRateLimitingValueFromSDK (vwr_ResponseRateLimiting x)"
  "dvf_ScavengingSettings (dnsview_observed x) = scavengingSettingsValueFromSDK (vwr_ScavengingSettings x)"
  "dvf_Sortlist (dnsview_observed x) = sortlistEntryValuesFromSDKPtr (vwr_Sortlist x)"
  by (simp_all add: dnsview_observed_def fieldsFromView_def userAttrs_def)

lemma nested_nil [simp]:
  "nameServerValuesToSDK ns = [] \<longleftrightarrow> ns = []" "dnssecTrustedKeyValuesToSDKPtr ks = [] \<longleftrightarrow> ks = []"
  "addressAcValuesToSDKPtr as = [] \<longleftrightarrow> as = []" "fixedRrsetOrderFqdnValuesToSDKPtr rs = [] \<longleftrightarrow> rs = []"
  "sortlistEntryValuesToSDKPtr ss = [] \<longleftrightarrow> ss = []" "responseRateLimitingValueToSDK p = None \<longleftrightarrow> p = None"
  "scavengingSettingsValueToSDK q = None \<longleftrightarrow> q = None"
  by (simp_all add: nameServerValuesToSDK_def dnssecTrustedKeyValuesToSDKPtr_def addressAcValuesToSDKPtr_def
      fixedRrsetOrderFqdnValuesToSDKPtr_def sortlistEntryValuesToSDKPtr_def responseRateLimitingValueToSDK_def
      scavengingSettingsValueToSDK_def split: option.split)

lemma ptr_or_nil [simp]: "strOrEmpty (strPtrOrNil s) = s" "boolOrFalse (boolPtrOrNil b) = b"
  by (simp_all add: strPtrOrNil_def boolPtrOrNil_def)

text \<open>Name servers and access control entries come back as equal, whatever their zero values.\<close>

lemma nested_read_back:
  "nameServerValuesEqual ns (nameServerValuesFromSDK (nameServerValuesToSDK ns))"
  "addressAcValuesEqual as (addressAcValuesFromSDKPtr (addressAcValuesToSDKPtr as))"
proof -
  have item: "nameServerValueEqual n (nameServerValueFromSDKItem (nameServerValueToSDKItem n))" for n
    by (simp add: nameServerValueEqual_def nameServerValueFromSDKItem_def nameServerValueToSDKItem_def)
  have "nameServerValuesLoop ns (map (\<lambda>n. nameServerValueFromSDKItem (nameServerValueToSDKItem n)) ns)"
    by (induction ns) (simp_all add: item)
  then show "nameServerValuesEqual ns (nameServerValuesFromSDK (nameServerValuesToSDK ns))"
    by (auto simp: nameServerValuesEqual_def nameServerValuesFromSDK_def nameServerValuesToSDK_def comp_def)
  have item': "addressAcValueEqual n (addressAcValueFromSDKItem (addressAcValueToSDKItem n))" for n
    by (simp add: addressAcValueEqual_def addressAcValueFromSDKItem_def addressAcValueToSDKItem_def)
  have "addressAcValuesLoop as (map (\<lambda>n. addressAcValueFromSDKItem (addressAcValueToSDKItem n)) as)"
    by (induction as) (simp_all add: item')
  then show "addressAcValuesEqual as (addressAcValuesFromSDKPtr (addressAcValuesToSDKPtr as))"
    by (auto simp: addressAcValuesEqual_def addressAcValuesFromSDKPtr_def addressAcValuesToSDKPtr_def map_filter_pointers)
qed

text \<open>A field that was sent and stored, or not sent and back-filled, agrees.\<close>

lemma sent_gated:
  assumes "u \<noteq> None \<Longrightarrow> v = u"
  shows "(boolOrFalse v \<Longrightarrow> b \<noteq> None \<Longrightarrow> c = b) \<Longrightarrow> gatedBoolEqual (fill u v) (fill_if b (effectiveUseFlag u v) c) c"
    and "(boolOrFalse v \<Longrightarrow> s \<noteq> None \<Longrightarrow> t = s) \<Longrightarrow> gatedStringEqual (fill u v) (fill_if s (effectiveUseFlag u v) (ptrIfSet t)) t"
    and "s \<noteq> Some [] \<Longrightarrow> (boolOrFalse v \<Longrightarrow> strOrEmpty s \<noteq> [] \<Longrightarrow> z = strOrEmpty s) \<Longrightarrow>
      gatedStringEqual (fill u v) (fill_if s (effectiveUseFlag u v) (ptrIfSet (strPtrOrNil z))) (strPtrOrNil z)"
    and "(boolOrFalse v \<Longrightarrow> n \<noteq> None \<Longrightarrow> m = n) \<Longrightarrow> gatedUint32Equal (fill u v) (fill_if n (effectiveUseFlag u v) m) m"
    and "(boolOrFalse v \<Longrightarrow> xs \<noteq> [] \<Longrightarrow> ys = xs) \<Longrightarrow> gatedStringSliceEqual (fill u v) (fill_list_if xs (effectiveUseFlag u v) ys) ys"
    and "(\<And>x. eq x x) \<Longrightarrow> (boolOrFalse v \<Longrightarrow> us \<noteq> [] \<Longrightarrow> eq us vs) \<Longrightarrow>
      gatedNestedSliceEqual (fill u v) (fill_list_if us (effectiveUseFlag u v) vs) vs eq"
    and "(boolOrFalse v \<Longrightarrow> p \<noteq> None \<Longrightarrow> q = p) \<Longrightarrow> gatedPtrDeepEqual (fill u v) (fill_if p (effectiveUseFlag u v) q) q"
proof -
  have "boolOrFalse (fill u v) = boolOrFalse v" using assms by (rule fill_sent)
  then have e: "effectiveUseFlag u v = boolOrFalse v" "boolOrFalse (fill u v) = boolOrFalse v" by simp_all
  note gates = gatedBoolEqual_def gatedStringEqual_def gatedUint32Equal_def gatedStringSliceEqual_def
      gatedNestedSliceEqual_def gatedPtrDeepEqual_def
  show "gatedBoolEqual (fill u v) (fill_if b (effectiveUseFlag u v) c) c" if "boolOrFalse v \<Longrightarrow> b \<noteq> None \<Longrightarrow> c = b"
    unfolding gates e using that by (cases "boolOrFalse v") (auto simp: fill_if_def)
  show "gatedStringEqual (fill u v) (fill_if s (effectiveUseFlag u v) (ptrIfSet t)) t" if "boolOrFalse v \<Longrightarrow> s \<noteq> None \<Longrightarrow> t = s"
    unfolding gates e using fill_sent_str [of s t] that by (cases "boolOrFalse v") simp_all
  show "gatedStringEqual (fill u v) (fill_if s (effectiveUseFlag u v) (ptrIfSet (strPtrOrNil z))) (strPtrOrNil z)"
    if "s \<noteq> Some []" "boolOrFalse v \<Longrightarrow> strOrEmpty s \<noteq> [] \<Longrightarrow> z = strOrEmpty s"
  proof (cases "boolOrFalse v")
    case True
    have "strPtrOrNil z = s" if "s \<noteq> None"
      using that \<open>s \<noteq> Some []\<close> \<open>boolOrFalse v \<Longrightarrow> strOrEmpty s \<noteq> [] \<Longrightarrow> z = strOrEmpty s\<close> True
      by (cases s) (simp_all add: strPtrOrNil_def)
    then show ?thesis unfolding gates e using fill_sent_str [of s "strPtrOrNil z"] True by simp
  qed (simp add: gates e del: effective_fill)
  show "gatedUint32Equal (fill u v) (fill_if n (effectiveUseFlag u v) m) m" if "boolOrFalse v \<Longrightarrow> n \<noteq> None \<Longrightarrow> m = n"
    unfolding gates e using that by (cases "boolOrFalse v") (auto simp: fill_if_def)
  show "gatedStringSliceEqual (fill u v) (fill_list_if xs (effectiveUseFlag u v) ys) ys" if "boolOrFalse v \<Longrightarrow> xs \<noteq> [] \<Longrightarrow> ys = xs"
    unfolding gates e using that by (cases "boolOrFalse v") (simp_all add: fill_list_if_def fill_list_def)
  show "gatedNestedSliceEqual (fill u v) (fill_list_if us (effectiveUseFlag u v) vs) vs eq"
    if "\<And>x. eq x x" "boolOrFalse v \<Longrightarrow> us \<noteq> [] \<Longrightarrow> eq us vs"
    unfolding gates e using that by (cases "boolOrFalse v") (simp_all add: fill_list_if_def fill_list_def)
  show "gatedPtrDeepEqual (fill u v) (fill_if p (effectiveUseFlag u v) q) q" if "boolOrFalse v \<Longrightarrow> p \<noteq> None \<Longrightarrow> q = p"
    unfolding gates e using that by (cases "boolOrFalse v") (auto simp: fill_if_def)
qed

lemma view_sent:
  assumes "view_stores ((buildView f)\<lparr>vwr_Ea := e\<rparr>) x"
  shows "dvf_Name f \<noteq> None \<Longrightarrow> vwr_Name x = dvf_Name f"
    and "dvf_Comment f \<noteq> None \<Longrightarrow> vwr_Comment x = dvf_Comment f"
    and "dvf_NetworkView f \<noteq> None \<Longrightarrow> vwr_NetworkView x = dvf_NetworkView f"
    and "dvf_Disable f \<noteq> None \<Longrightarrow> vwr_Disable x = dvf_Disable f"
    and "boolOrFalse (vwr_UseBlacklist x) \<Longrightarrow> strOrEmpty (dvf_BlacklistAction f) \<noteq> [] \<Longrightarrow> vwr_BlacklistAction x = strOrEmpty (dvf_BlacklistAction f)"
    and "boolOrFalse (vwr_UseBlacklist x) \<Longrightarrow> dvf_BlacklistLogQuery f \<noteq> None \<Longrightarrow> vwr_BlacklistLogQuery x = dvf_BlacklistLogQuery f"
    and "boolOrFalse (vwr_UseBlacklist x) \<Longrightarrow> dvf_BlacklistRedirectAddresses f \<noteq> [] \<Longrightarrow> vwr_BlacklistRedirectAddresses x = dvf_BlacklistRedirectAddresses f"
    and "boolOrFalse (vwr_UseBlacklist x) \<Longrightarrow> dvf_BlacklistRedirectTTL f \<noteq> None \<Longrightarrow> vwr_BlacklistRedirectTtl x = dvf_BlacklistRedirectTTL f"
    and "boolOrFalse (vwr_UseBlacklist x) \<Longrightarrow> dvf_BlacklistRulesets f \<noteq> [] \<Longrightarrow> vwr_BlacklistRulesets x = dvf_BlacklistRulesets f"
    and "dvf_UseBlacklist f \<noteq> None \<Longrightarrow> vwr_UseBlacklist x = dvf_UseBlacklist f"
    and "boolOrFalse (vwr_UseBlacklist x) \<Longrightarrow> dvf_EnableBlacklist f \<noteq> None \<Longrightarrow> vwr_EnableBlacklist x = dvf_EnableBlacklist f"
    and "boolOrFalse (vwr_UseRootNameServer x) \<Longrightarrow> strOrEmpty (dvf_RootNameServerType f) \<noteq> [] \<Longrightarrow> vwr_RootNameServerType x = strOrEmpty (dvf_RootNameServerType f)"
    and "dvf_UseRootNameServer f \<noteq> None \<Longrightarrow> vwr_UseRootNameServer x = dvf_UseRootNameServer f"
    and "boolOrFalse (vwr_UseDdnsForceCreationTimestampUpdate x) \<Longrightarrow> dvf_DdnsForceCreationTimestampUpdate f \<noteq> None \<Longrightarrow> vwr_DdnsForceCreationTimestampUpdate x = dvf_DdnsForceCreationTimestampUpdate f"
    and "dvf_UseDdnsForceCreationTimestampUpdate f \<noteq> None \<Longrightarrow> vwr_UseDdnsForceCreationTimestampUpdate x = dvf_UseDdnsForceCreationTimestampUpdate f"
    and "boolOrFalse (vwr_UseDdnsPrincipalSecurity x) \<Longrightarrow> dvf_DdnsPrincipalGroup f \<noteq> None \<Longrightarrow> vwr_DdnsPrincipalGroup x = dvf_DdnsPrincipalGroup f"
    and "boolOrFalse (vwr_UseDdnsPrincipalSecurity x) \<Longrightarrow> dvf_DdnsPrincipalTracking f \<noteq> None \<Longrightarrow> vwr_DdnsPrincipalTracking x = dvf_DdnsPrincipalTracking f"
    and "dvf_UseDdnsPrincipalSecurity f \<noteq> None \<Longrightarrow> vwr_UseDdnsPrincipalSecurity x = dvf_UseDdnsPrincipalSecurity f"
    and "boolOrFalse (vwr_UseDdnsPatternsRestriction x) \<Longrightarrow> dvf_DdnsRestrictPatterns f \<noteq> None \<Longrightarrow> vwr_DdnsRestrictPatterns x = dvf_DdnsRestrictPatterns f"
    and "boolOrFalse (vwr_UseDdnsPatternsRestriction x) \<Longrightarrow> dvf_DdnsRestrictPatternsList f \<noteq> [] \<Longrightarrow> vwr_DdnsRestrictPatternsList x = dvf_DdnsRestrictPatternsList f"
    and "dvf_UseDdnsPatternsRestriction f \<noteq> None \<Longrightarrow> vwr_UseDdnsPatternsRestriction x = dvf_UseDdnsPatternsRestriction f"
    and "boolOrFalse (vwr_UseDdnsRestrictProtected x) \<Longrightarrow> dvf_DdnsRestrictProtected f \<noteq> None \<Longrightarrow> vwr_DdnsRestrictProtected x = dvf_DdnsRestrictProtected f"
    and "dvf_UseDdnsRestrictProtected f \<noteq> None \<Longrightarrow> vwr_UseDdnsRestrictProtected x = dvf_UseDdnsRestrictProtected f"
    and "boolOrFalse (vwr_UseDdnsPrincipalSecurity x) \<Longrightarrow> dvf_DdnsRestrictSecure f \<noteq> None \<Longrightarrow> vwr_DdnsRestrictSecure x = dvf_DdnsRestrictSecure f"
    and "boolOrFalse (vwr_UseDdnsRestrictStatic x) \<Longrightarrow> dvf_DdnsRestrictStatic f \<noteq> None \<Longrightarrow> vwr_DdnsRestrictStatic x = dvf_DdnsRestrictStatic f"
    and "dvf_UseDdnsRestrictStatic f \<noteq> None \<Longrightarrow> vwr_UseDdnsRestrictStatic x = dvf_UseDdnsRestrictStatic f"
    and "boolOrFalse (vwr_UseDns64 x) \<Longrightarrow> dvf_Dns64Enabled f \<noteq> None \<Longrightarrow> vwr_Dns64Enabled x = dvf_Dns64Enabled f"
    and "boolOrFalse (vwr_UseDns64 x) \<Longrightarrow> dvf_Dns64Groups f \<noteq> [] \<Longrightarrow> vwr_Dns64Groups x = dvf_Dns64Groups f"
    and "dvf_UseDns64 f \<noteq> None \<Longrightarrow> vwr_UseDns64 x = dvf_UseDns64 f"
    and "boolOrFalse (vwr_UseDnssec x) \<Longrightarrow> dvf_DnssecEnabled f \<noteq> None \<Longrightarrow> vwr_DnssecEnabled x = dvf_DnssecEnabled f"
    and "boolOrFalse (vwr_UseDnssec x) \<Longrightarrow> dvf_DnssecExpiredSignaturesEnabled f \<noteq> None \<Longrightarrow> vwr_DnssecExpiredSignaturesEnabled x = dvf_DnssecExpiredSignaturesEnabled f"
    and "dvf_DnssecNegativeTrustAnchors f \<noteq> [] \<Longrightarrow> vwr_DnssecNegativeTrustAnchors x = dvf_DnssecNegativeTrustAnchors f"
    and "boolOrFalse (vwr_UseDnssec x) \<Longrightarrow> dvf_DnssecValidationEnabled f \<noteq> None \<Longrightarrow> vwr_DnssecValidationEnabled x = dvf_DnssecValidationEnabled f"
    and "dvf_UseDnssec f \<noteq> None \<Longrightarrow> vwr_UseDnssec x = dvf_UseDnssec f"
    and "boolOrFalse (vwr_UseFixedRrsetOrderFqdns x) \<Longrightarrow> dvf_EnableFixedRrsetOrderFqdns f \<noteq> None \<Longrightarrow> vwr_EnableFixedRrsetOrderFqdns x = dvf_EnableFixedRrsetOrderFqdns f"
    and "dvf_UseFixedRrsetOrderFqdns f \<noteq> None \<Longrightarrow> vwr_UseFixedRrsetOrderFqdns x = dvf_UseFixedRrsetOrderFqdns f"
    and "dvf_EnableMatchRecursiveOnly f \<noteq> None \<Longrightarrow> vwr_EnableMatchRecursiveOnly x = dvf_EnableMatchRecursiveOnly f"
    and "boolOrFalse (vwr_UseFilterAaaa x) \<Longrightarrow> strOrEmpty (dvf_FilterAaaa f) \<noteq> [] \<Longrightarrow> vwr_FilterAaaa x = strOrEmpty (dvf_FilterAaaa f)"
    and "dvf_UseFilterAaaa f \<noteq> None \<Longrightarrow> vwr_UseFilterAaaa x = dvf_UseFilterAaaa f"
    and "boolOrFalse (vwr_UseForwarders x) \<Longrightarrow> dvf_ForwardOnly f \<noteq> None \<Longrightarrow> vwr_ForwardOnly x = dvf_ForwardOnly f"
    and "boolOrFalse (vwr_UseForwarders x) \<Longrightarrow> dvf_Forwarders f \<noteq> [] \<Longrightarrow> vwr_Forwarders x = dvf_Forwarders f"
    and "dvf_UseForwarders f \<noteq> None \<Longrightarrow> vwr_UseForwarders x = dvf_UseForwarders f"
    and "boolOrFalse (vwr_UseLameTtl x) \<Longrightarrow> dvf_LameTTL f \<noteq> None \<Longrightarrow> vwr_LameTtl x = dvf_LameTTL f"
    and "dvf_UseLameTTL f \<noteq> None \<Longrightarrow> vwr_UseLameTtl x = dvf_UseLameTTL f"
    and "boolOrFalse (vwr_UseMaxCacheTtl x) \<Longrightarrow> dvf_MaxCacheTTL f \<noteq> None \<Longrightarrow> vwr_MaxCacheTtl x = dvf_MaxCacheTTL f"
    and "dvf_UseMaxCacheTTL f \<noteq> None \<Longrightarrow> vwr_UseMaxCacheTtl x = dvf_UseMaxCacheTTL f"
    and "boolOrFalse (vwr_UseMaxNcacheTtl x) \<Longrightarrow> dvf_MaxNcacheTTL f \<noteq> None \<Longrightarrow> vwr_MaxNcacheTtl x = dvf_MaxNcacheTTL f"
    and "dvf_UseMaxNcacheTTL f \<noteq> None \<Longrightarrow> vwr_UseMaxNcacheTtl x = dvf_UseMaxNcacheTTL f"
    and "dvf_NotifyDelay f \<noteq> None \<Longrightarrow> vwr_NotifyDelay x = dvf_NotifyDelay f"
    and "boolOrFalse (vwr_UseNxdomainRedirect x) \<Longrightarrow> dvf_NxdomainLogQuery f \<noteq> None \<Longrightarrow> vwr_NxdomainLogQuery x = dvf_NxdomainLogQuery f"
    and "boolOrFalse (vwr_UseNxdomainRedirect x) \<Longrightarrow> dvf_NxdomainRedirect f \<noteq> None \<Longrightarrow> vwr_NxdomainRedirect x = dvf_NxdomainRedirect f"
    and "boolOrFalse (vwr_UseNxdomainRedirect x) \<Longrightarrow> dvf_NxdomainRedirectAddresses f \<noteq> [] \<Longrightarrow> vwr_NxdomainRedirectAddresses x = dvf_NxdomainRedirectAddresses f"
    and "boolOrFalse (vwr_UseNxdomainRedirect x) \<Longrightarrow> dvf_NxdomainRedirectAddressesV6 f \<noteq> [] \<Longrightarrow> vwr_NxdomainRedirectAddressesV6 x = dvf_NxdomainRedirectAddressesV6 f"
    and "boolOrFalse (vwr_UseNxdomainRedirect x) \<Longrightarrow> dvf_NxdomainRedirectTTL f \<noteq> None \<Longrightarrow> vwr_NxdomainRedirectTtl x = dvf_NxdomainRedirectTTL f"
    and "boolOrFalse (vwr_UseNxdomainRedirect x) \<Longrightarrow> dvf_NxdomainRulesets f \<noteq> [] \<Longrightarrow> vwr_NxdomainRulesets x = dvf_NxdomainRulesets f"
    and "dvf_UseNxdomainRedirect f \<noteq> None \<Longrightarrow> vwr_UseNxdomainRedirect x = dvf_UseNxdomainRedirect f"
    and "boolOrFalse (vwr_UseRecursion x) \<Longrightarrow> dvf_Recursion f \<noteq> None \<Longrightarrow> vwr_Recursion x = dvf_Recursion f"
    and "dvf_UseRecursion f \<noteq> None \<Longrightarrow> vwr_UseRecursion x = dvf_UseRecursion f"
    and "dvf_UseResponseRateLimiting f \<noteq> None \<Longrightarrow> vwr_UseResponseRateLimiting x = dvf_UseResponseRateLimiting f"
    and "boolOrFalse (vwr_UseRpzDropIpRule x) \<Longrightarrow> dvf_RpzDropIPRuleEnabled f \<noteq> None \<Longrightarrow> vwr_RpzDropIpRuleEnabled x = dvf_RpzDropIPRuleEnabled f"
    and "boolOrFalse (vwr_UseRpzDropIpRule x) \<Longrightarrow> dvf_RpzDropIPRuleMinPrefixLengthIPv4 f \<noteq> None \<Longrightarrow> vwr_RpzDropIpRuleMinPrefixLengthIpv4 x = dvf_RpzDropIPRuleMinPrefixLengthIPv4 f"
    and "boolOrFalse (vwr_UseRpzDropIpRule x) \<Longrightarrow> dvf_RpzDropIPRuleMinPrefixLengthIPv6 f \<noteq> None \<Longrightarrow> vwr_RpzDropIpRuleMinPrefixLengthIpv6 x = dvf_RpzDropIPRuleMinPrefixLengthIPv6 f"
    and "dvf_UseRpzDropIPRule f \<noteq> None \<Longrightarrow> vwr_UseRpzDropIpRule x = dvf_UseRpzDropIPRule f"
    and "boolOrFalse (vwr_UseRpzQnameWaitRecurse x) \<Longrightarrow> dvf_RpzQnameWaitRecurse f \<noteq> None \<Longrightarrow> vwr_RpzQnameWaitRecurse x = dvf_RpzQnameWaitRecurse f"
    and "dvf_UseRpzQnameWaitRecurse f \<noteq> None \<Longrightarrow> vwr_UseRpzQnameWaitRecurse x = dvf_UseRpzQnameWaitRecurse f"
    and "dvf_UseScavengingSettings f \<noteq> None \<Longrightarrow> vwr_UseScavengingSettings x = dvf_UseScavengingSettings f"
    and "dvf_UseSortlist f \<noteq> None \<Longrightarrow> vwr_UseSortlist x = dvf_UseSortlist f"
    and "vwr_Ea x = e"
    and "boolOrFalse (vwr_UseRootNameServer x) \<Longrightarrow> dvf_CustomRootNameServers f \<noteq> [] \<Longrightarrow> vwr_CustomRootNameServers x = nameServerValuesToSDK (dvf_CustomRootNameServers f)"
    and "boolOrFalse (vwr_UseDnssec x) \<Longrightarrow> dvf_DnssecTrustedKeys f \<noteq> [] \<Longrightarrow> vwr_DnssecTrustedKeys x = dnssecTrustedKeyValuesToSDKPtr (dvf_DnssecTrustedKeys f)"
    and "boolOrFalse (vwr_UseFixedRrsetOrderFqdns x) \<Longrightarrow> dvf_FixedRrsetOrderFqdns f \<noteq> [] \<Longrightarrow> vwr_FixedRrsetOrderFqdns x = fixedRrsetOrderFqdnValuesToSDKPtr (dvf_FixedRrsetOrderFqdns f)"
    and "boolOrFalse (vwr_UseFilterAaaa x) \<Longrightarrow> dvf_FilterAaaaList f \<noteq> [] \<Longrightarrow> vwr_FilterAaaaList x = addressAcValuesToSDKPtr (dvf_FilterAaaaList f)"
    and "dvf_MatchClients f \<noteq> [] \<Longrightarrow> vwr_MatchClients x = addressAcValuesToSDKPtr (dvf_MatchClients f)"
    and "dvf_MatchDestinations f \<noteq> [] \<Longrightarrow> vwr_MatchDestinations x = addressAcValuesToSDKPtr (dvf_MatchDestinations f)"
    and "boolOrFalse (vwr_UseResponseRateLimiting x) \<Longrightarrow> dvf_ResponseRateLimiting f \<noteq> None \<Longrightarrow> vwr_ResponseRateLimiting x = responseRateLimitingValueToSDK (dvf_ResponseRateLimiting f)"
    and "boolOrFalse (vwr_UseScavengingSettings x) \<Longrightarrow> dvf_ScavengingSettings f \<noteq> None \<Longrightarrow> vwr_ScavengingSettings x = scavengingSettingsValueToSDK (dvf_ScavengingSettings f)"
    and "boolOrFalse (vwr_UseSortlist x) \<Longrightarrow> dvf_Sortlist f \<noteq> [] \<Longrightarrow> vwr_Sortlist x = sortlistEntryValuesToSDKPtr (dvf_Sortlist f)"
  using assms by (simp_all add: view_stores_def)

lemma dnsview_stored:
  assumes "view_stores ((buildView f)\<lparr>vwr_Ea := e\<rparr>) x" and "e = Stamp (buildEA (dvf_ExtAttrs f)) uid"
    and free: "reserved_free (dvf_ExtAttrs f)" and name: "dvf_Name f \<noteq> None"
    and texts: "dvf_BlacklistAction f \<noteq> Some []" "dvf_RootNameServerType f \<noteq> Some []" "dvf_FilterAaaa f \<noteq> Some []"
    and canon: "dnssecTrustedKeyValuesFromSDKPtr (dnssecTrustedKeyValuesToSDKPtr (dvf_DnssecTrustedKeys f)) = dvf_DnssecTrustedKeys f"
      "responseRateLimitingValueFromSDK (responseRateLimitingValueToSDK (dvf_ResponseRateLimiting f)) = dvf_ResponseRateLimiting f"
      "scavengingSettingsValueFromSDK (scavengingSettingsValueToSDK (dvf_ScavengingSettings f)) = dvf_ScavengingSettings f"
      "fixedRrsetOrderFqdnValuesFromSDKPtr (fixedRrsetOrderFqdnValuesToSDKPtr (dvf_FixedRrsetOrderFqdns f)) = dvf_FixedRrsetOrderFqdns f"
      "sortlistEntryValuesFromSDKPtr (sortlistEntryValuesToSDKPtr (dvf_Sortlist f)) = dvf_Sortlist f"
  shows "DNSView_utd (dnsview_filled f (dnsview_observed x)) x"
proof -
  note st = view_sent [OF assms(1)]
  have named: "strOrEmpty (dvf_Name f) = strOrEmpty (vwr_Name x)" using st(1) name by simp
  have attrs: "extAttrsEqual (fill_map (dvf_ExtAttrs f) (userAttrs (vwr_Ea x))) (userAttrs (vwr_Ea x))"
    using assms(2) free by (simp add: st(68) userAttrs_buildEA reserved_free_fmdrop extAttrsEqual_iff)
  have anchors: "stringSliceEqual (fill_list (dvf_DnssecNegativeTrustAnchors f) (vwr_DnssecNegativeTrustAnchors x))
      (vwr_DnssecNegativeTrustAnchors x)"
    using st(32) by (simp add: fill_list_def)
  have clients: "addressAcValuesEqual (fill_list (dvf_MatchClients f) (addressAcValuesFromSDKPtr (vwr_MatchClients x))) (addressAcValuesFromSDKPtr (vwr_MatchClients x))"
    "addressAcValuesEqual (fill_list (dvf_MatchDestinations f) (addressAcValuesFromSDKPtr (vwr_MatchDestinations x))) (addressAcValuesFromSDKPtr (vwr_MatchDestinations x))"
    using st(73) st(74) by (simp_all add: fill_list_def nested_read_back)
  have nested_CustomRootNameServers: "gatedNestedSliceEqual (fill (dvf_UseRootNameServer f) (vwr_UseRootNameServer x))
      (fill_list_if (dvf_CustomRootNameServers f) (effectiveUseFlag (dvf_UseRootNameServer f) (vwr_UseRootNameServer x)) (nameServerValuesFromSDK (vwr_CustomRootNameServers x))) (nameServerValuesFromSDK (vwr_CustomRootNameServers x)) nameServerValuesEqual"
    by (rule sent_gated(6) [OF st(13)]) (simp_all add: st(69) nested_read_back(1))
  have nested_FilterAaaaList: "gatedNestedSliceEqual (fill (dvf_UseFilterAaaa f) (vwr_UseFilterAaaa x))
      (fill_list_if (dvf_FilterAaaaList f) (effectiveUseFlag (dvf_UseFilterAaaa f) (vwr_UseFilterAaaa x)) (addressAcValuesFromSDKPtr (vwr_FilterAaaaList x))) (addressAcValuesFromSDKPtr (vwr_FilterAaaaList x)) addressAcValuesEqual"
    by (rule sent_gated(6) [OF st(39)]) (simp_all add: st(72) nested_read_back(2))
  have nested_DnssecTrustedKeys: "gatedNestedSliceEqual (fill (dvf_UseDnssec f) (vwr_UseDnssec x))
      (fill_list_if (dvf_DnssecTrustedKeys f) (effectiveUseFlag (dvf_UseDnssec f) (vwr_UseDnssec x)) (dnssecTrustedKeyValuesFromSDKPtr (vwr_DnssecTrustedKeys x))) (dnssecTrustedKeyValuesFromSDKPtr (vwr_DnssecTrustedKeys x)) nestedSliceEqual"
    by (rule sent_gated(6) [OF st(34)]) (simp_all add: st(70) canon(1))
  have nested_FixedRrsetOrderFqdns: "gatedNestedSliceEqual (fill (dvf_UseFixedRrsetOrderFqdns f) (vwr_UseFixedRrsetOrderFqdns x))
      (fill_list_if (dvf_FixedRrsetOrderFqdns f) (effectiveUseFlag (dvf_UseFixedRrsetOrderFqdns f) (vwr_UseFixedRrsetOrderFqdns x)) (fixedRrsetOrderFqdnValuesFromSDKPtr (vwr_FixedRrsetOrderFqdns x))) (fixedRrsetOrderFqdnValuesFromSDKPtr (vwr_FixedRrsetOrderFqdns x)) nestedSliceEqual"
    by (rule sent_gated(6) [OF st(36)]) (simp_all add: st(71) canon(4))
  have nested_Sortlist: "gatedNestedSliceEqual (fill (dvf_UseSortlist f) (vwr_UseSortlist x))
      (fill_list_if (dvf_Sortlist f) (effectiveUseFlag (dvf_UseSortlist f) (vwr_UseSortlist x)) (sortlistEntryValuesFromSDKPtr (vwr_Sortlist x))) (sortlistEntryValuesFromSDKPtr (vwr_Sortlist x)) nestedSliceEqual"
    by (rule sent_gated(6) [OF st(67)]) (simp_all add: st(77) canon(5))
  have nested_ResponseRateLimiting: "gatedPtrDeepEqual (fill (dvf_UseResponseRateLimiting f) (vwr_UseResponseRateLimiting x))
      (fill_if (dvf_ResponseRateLimiting f) (effectiveUseFlag (dvf_UseResponseRateLimiting f) (vwr_UseResponseRateLimiting x)) (responseRateLimitingValueFromSDK (vwr_ResponseRateLimiting x))) (responseRateLimitingValueFromSDK (vwr_ResponseRateLimiting x))"
    by (rule sent_gated(7) [OF st(59)]) (simp_all add: st(75) canon(2))
  have nested_ScavengingSettings: "gatedPtrDeepEqual (fill (dvf_UseScavengingSettings f) (vwr_UseScavengingSettings x))
      (fill_if (dvf_ScavengingSettings f) (effectiveUseFlag (dvf_UseScavengingSettings f) (vwr_UseScavengingSettings x)) (scavengingSettingsValueFromSDK (vwr_ScavengingSettings x))) (scavengingSettingsValueFromSDK (vwr_ScavengingSettings x))"
    by (rule sent_gated(7) [OF st(66)]) (simp_all add: st(76) canon(3))
  show ?thesis
    unfolding DNSView_utd_def DNSView_isUpToDate_iff dnsview_filled_sel dnsview_observed_sel
    by (intro conjI named
        fill_sent_str [OF st(2)]
        fill_sent_str [OF st(3)]
        fill_sent [OF st(4), of boolOrFalse]
        sent_gated(3) [OF st(10) texts(1) st(5)]
        sent_gated(1) [OF st(10) st(6)]
        sent_gated(5) [OF st(10) st(7)]
        sent_gated(4) [OF st(10) st(8)]
        sent_gated(5) [OF st(10) st(9)]
        fill_sent [OF st(10), of boolOrFalse]
        sent_gated(1) [OF st(10) st(11)]
        sent_gated(3) [OF st(13) texts(2) st(12)]
        fill_sent [OF st(13), of boolOrFalse]
        sent_gated(1) [OF st(15) st(14)]
        fill_sent [OF st(15), of boolOrFalse]
        sent_gated(2) [OF st(18) st(16)]
        sent_gated(1) [OF st(18) st(17)]
        fill_sent [OF st(18), of boolOrFalse]
        sent_gated(1) [OF st(21) st(19)]
        sent_gated(5) [OF st(21) st(20)]
        fill_sent [OF st(21), of boolOrFalse]
        sent_gated(1) [OF st(23) st(22)]
        fill_sent [OF st(23), of boolOrFalse]
        sent_gated(1) [OF st(18) st(24)]
        sent_gated(1) [OF st(26) st(25)]
        fill_sent [OF st(26), of boolOrFalse]
        sent_gated(1) [OF st(29) st(27)]
        sent_gated(5) [OF st(29) st(28)]
        fill_sent [OF st(29), of boolOrFalse]
        sent_gated(1) [OF st(34) st(30)]
        sent_gated(1) [OF st(34) st(31)]
        anchors
        sent_gated(1) [OF st(34) st(33)]
        fill_sent [OF st(34), of boolOrFalse]
        sent_gated(1) [OF st(36) st(35)]
        fill_sent [OF st(36), of boolOrFalse]
        fill_sent [OF st(37), of boolOrFalse]
        sent_gated(3) [OF st(39) texts(3) st(38)]
        fill_sent [OF st(39), of boolOrFalse]
        sent_gated(1) [OF st(42) st(40)]
        sent_gated(5) [OF st(42) st(41)]
        fill_sent [OF st(42), of boolOrFalse]
        sent_gated(4) [OF st(44) st(43)]
        fill_sent [OF st(44), of boolOrFalse]
        sent_gated(4) [OF st(46) st(45)]
        fill_sent [OF st(46), of boolOrFalse]
        sent_gated(4) [OF st(48) st(47)]
        fill_sent [OF st(48), of boolOrFalse]
        fill_sent [OF st(49), of uint32OrZero]
        sent_gated(1) [OF st(56) st(50)]
        sent_gated(1) [OF st(56) st(51)]
        sent_gated(5) [OF st(56) st(52)]
        sent_gated(5) [OF st(56) st(53)]
        sent_gated(4) [OF st(56) st(54)]
        sent_gated(5) [OF st(56) st(55)]
        fill_sent [OF st(56), of boolOrFalse]
        sent_gated(1) [OF st(58) st(57)]
        fill_sent [OF st(58), of boolOrFalse]
        fill_sent [OF st(59), of boolOrFalse]
        sent_gated(1) [OF st(63) st(60)]
        sent_gated(4) [OF st(63) st(61)]
        sent_gated(4) [OF st(63) st(62)]
        fill_sent [OF st(63), of boolOrFalse]
        sent_gated(1) [OF st(65) st(64)]
        fill_sent [OF st(65), of boolOrFalse]
        fill_sent [OF st(66), of boolOrFalse]
        fill_sent [OF st(67), of boolOrFalse]
        attrs
        nested_CustomRootNameServers
        nested_DnssecTrustedKeys
        nested_FixedRrsetOrderFqdns
        nested_FilterAaaaList
        clients(1)
        clients(2)
        nested_Sortlist
        nested_ResponseRateLimiting
        nested_ScavengingSettings)
qed

lemma dnsview_written_utd:
  assumes "DNSView_spec_ok cr"
    and "view_holds (view_create_request (dnsview_fields cr) (mo_uid cr)) x \<or>
      view_holds (view_update_request (GetExternalName cr) (dnsview_fields cr) (mo_uid cr)) x"
  shows "DNSView_utd (dnsview_fields (fst (lift_view DNSView_late dnsview_fields DNSView_put cr x))) x \<and>
    eaValue (vwr_Ea x) EAKey = Some (mo_uid cr)"
proof -
  let ?f = "dnsview_fields cr"
  note ok = assms(1) [unfolded DNSView_spec_ok_def Let_def]
  have st: "view_stores ((buildView ?f)\<lparr>vwr_Ea := Stamp (buildEA (dvf_ExtAttrs ?f)) (mo_uid cr)\<rparr>) x"
    using assms(2) by (simp add: view_create_request_def view_update_request_def)
  have "DNSView_utd (dnsview_filled ?f (dnsview_observed x)) x"
    by (rule dnsview_stored [OF st refl]) (use ok in blast)+
  moreover have "vwr_Ea x = Stamp (buildEA (dvf_ExtAttrs ?f)) (mo_uid cr)"
    by (rule view_sent(68) [OF st])
  ultimately show ?thesis
    by (simp add: dnsview_late.lifted_simps DNSView_late_eq)
qed

interpretation dnsview: refreshing_client "lift_view DNSView_late dnsview_fields DNSView_put"
  "\<lambda>cr. DNSView_utd (dnsview_fields cr)" "\<lambda>s s'. DNSView_keeps (dnsview_fields s) (dnsview_fields s')"
  ViewObj_type vwr_Ref DNSView_status DNSView_valid
  "\<lambda>cr. view_create_request (dnsview_fields cr) (mo_uid cr)"
  "\<lambda>cr. view_update_request (GetExternalName cr) (dnsview_fields cr) (mo_uid cr)"
  view_req_ea view_holds DNSView_spec_ok
  dnsview_observe_error "\<lambda>r. True" "\<lambda>r. True" vwr_Ref
  errCreateDNSView errUpdateDNSView errDeleteDNSView DNSView_errEmptyUID
  namespaced_DNSView_Observe namespaced_DNSView_Create namespaced_DNSView_Update dnsview_delete
proof (unfold_locales, goal_cases)
  case (6 cr)
  then show ?case by (simp add: DNSView_valid_def split: if_splits)
next
  case (7 cr rec)
  then show ?case by (simp add: lift_view_def split_beta DNSView_put_def)
next
  case (8 cr rec)
  then show ?case by (simp add: lift_view_def split_beta DNSView_put_def)
next
  case (13 n cr rec)
  then show ?case by (simp add: dnsview_late.lifted_simps DNSView_CR_commute)
next
  case (14 cr rec)
  then show ?case using dnsview_written_utd [of cr rec] by simp
next
  case (15 cr rec)
  then show ?case using dnsview_written_utd [of cr rec] by simp
qed (simp_all add: DNSView_Observe_shape DNSView_Create_shape DNSView_Update_shape dnsview_delete_shape
    DNSView_status_def view_create_request_def view_update_request_def)

end
