(* ===== verification/DNSViewFamily.thy ===== *)
theory DNSViewFamily
  imports DNSViewSpec
begin

text \<open>
  The DNSView controller in both scopes: the two external clients are the same function of the
  resource, and what they promise. The three views a Grid is installed with are never deleted; every
  other promise is that of the record controllers, from the interpretation of
  \<open>refreshing_client\<close> in theory DNSViewSpec. The last section is about nested values
  with a zero in them, which no write makes current.
\<close>

section \<open>Both scopes\<close>

lemma DNSView_item_scopes:
  "nameServerValueFromCluster = nameServerValueFromNamespaced"
  "dnssecTrustedKeyValueFromCluster = dnssecTrustedKeyValueFromNamespaced"
  "addressAcValueFromCluster = addressAcValueFromNamespaced"
  "fixedRrsetOrderFqdnValueFromCluster = fixedRrsetOrderFqdnValueFromNamespaced"
  "expressionOpValueFromCluster = expressionOpValueFromNamespaced"
  "eaExpressionOpValueFromCluster = eaExpressionOpValueFromNamespaced"
  "sortlistEntryValueFromCluster = sortlistEntryValueFromNamespaced"
  "nameServerValueToCluster = nameServerValueToNamespaced"
  "dnssecTrustedKeyValueToCluster = dnssecTrustedKeyValueToNamespaced"
  "addressAcValueToCluster = addressAcValueToNamespaced"
  "fixedRrsetOrderFqdnValueToCluster = fixedRrsetOrderFqdnValueToNamespaced"
  "expressionOpValueToCluster = expressionOpValueToNamespaced"
  "eaExpressionOpValueToCluster = eaExpressionOpValueToNamespaced"
  "sortlistEntryValueToCluster = sortlistEntryValueToNamespaced"
  "responseRateLimitingValueFromCluster = responseRateLimitingValueFromNamespaced"
  "responseRateLimitingValueToCluster = responseRateLimitingValueToNamespaced"
  "scavengingScheduleValueFromCluster = scavengingScheduleValueFromNamespaced"
  "scavengingScheduleValueToCluster = scavengingScheduleValueToNamespaced"
  "cloudInfoValueToCluster = cloudInfoValueToNamespaced"
  by (intro ext; simp only: nameServerValueFromCluster_def
    nameServerValueFromNamespaced_def
    dnssecTrustedKeyValueFromCluster_def
    dnssecTrustedKeyValueFromNamespaced_def
    addressAcValueFromCluster_def
    addressAcValueFromNamespaced_def
    fixedRrsetOrderFqdnValueFromCluster_def
    fixedRrsetOrderFqdnValueFromNamespaced_def
    expressionOpValueFromCluster_def
    expressionOpValueFromNamespaced_def
    eaExpressionOpValueFromCluster_def
    eaExpressionOpValueFromNamespaced_def
    sortlistEntryValueFromCluster_def
    sortlistEntryValueFromNamespaced_def
    nameServerValueToCluster_def
    nameServerValueToNamespaced_def
    dnssecTrustedKeyValueToCluster_def
    dnssecTrustedKeyValueToNamespaced_def
    addressAcValueToCluster_def
    addressAcValueToNamespaced_def
    fixedRrsetOrderFqdnValueToCluster_def
    fixedRrsetOrderFqdnValueToNamespaced_def
    expressionOpValueToCluster_def
    expressionOpValueToNamespaced_def
    eaExpressionOpValueToCluster_def
    eaExpressionOpValueToNamespaced_def
    sortlistEntryValueToCluster_def
    sortlistEntryValueToNamespaced_def
    responseRateLimitingValueFromCluster_def
    responseRateLimitingValueFromNamespaced_def
    responseRateLimitingValueToCluster_def
    responseRateLimitingValueToNamespaced_def
    scavengingScheduleValueFromCluster_def
    scavengingScheduleValueFromNamespaced_def
    scavengingScheduleValueToCluster_def
    scavengingScheduleValueToNamespaced_def
    cloudInfoValueToCluster_def
    cloudInfoValueToNamespaced_def)+

lemma DNSView_list_scopes:
  "nameServerValuesFromCluster = nameServerValuesFromNamespaced"
  "nameServerValuesToCluster = nameServerValuesToNamespaced"
  "dnssecTrustedKeyValuesFromPtrCluster = dnssecTrustedKeyValuesFromPtrNamespaced"
  "addressAcValuesFromPtrCluster = addressAcValuesFromPtrNamespaced"
  "fixedRrsetOrderFqdnValuesFromPtrCluster = fixedRrsetOrderFqdnValuesFromPtrNamespaced"
  "expressionOpValuesFromPtrCluster = expressionOpValuesFromPtrNamespaced"
  "eaExpressionOpValuesFromPtrCluster = eaExpressionOpValuesFromPtrNamespaced"
  "sortlistEntryValuesFromPtrCluster = sortlistEntryValuesFromPtrNamespaced"
  "dnssecTrustedKeyValuesToPtrCluster = dnssecTrustedKeyValuesToPtrNamespaced"
  "addressAcValuesToPtrCluster = addressAcValuesToPtrNamespaced"
  "fixedRrsetOrderFqdnValuesToPtrCluster = fixedRrsetOrderFqdnValuesToPtrNamespaced"
  "expressionOpValuesToPtrCluster = expressionOpValuesToPtrNamespaced"
  "eaExpressionOpValuesToPtrCluster = eaExpressionOpValuesToPtrNamespaced"
  "sortlistEntryValuesToPtrCluster = sortlistEntryValuesToPtrNamespaced"
  by (intro ext; simp only: nameServerValuesFromCluster_def
    nameServerValuesFromNamespaced_def
    nameServerValuesToCluster_def
    nameServerValuesToNamespaced_def
    dnssecTrustedKeyValuesFromPtrCluster_def
    dnssecTrustedKeyValuesFromPtrNamespaced_def
    addressAcValuesFromPtrCluster_def
    addressAcValuesFromPtrNamespaced_def
    fixedRrsetOrderFqdnValuesFromPtrCluster_def
    fixedRrsetOrderFqdnValuesFromPtrNamespaced_def
    expressionOpValuesFromPtrCluster_def
    expressionOpValuesFromPtrNamespaced_def
    eaExpressionOpValuesFromPtrCluster_def
    eaExpressionOpValuesFromPtrNamespaced_def
    sortlistEntryValuesFromPtrCluster_def
    sortlistEntryValuesFromPtrNamespaced_def
    dnssecTrustedKeyValuesToPtrCluster_def
    dnssecTrustedKeyValuesToPtrNamespaced_def
    addressAcValuesToPtrCluster_def
    addressAcValuesToPtrNamespaced_def
    fixedRrsetOrderFqdnValuesToPtrCluster_def
    fixedRrsetOrderFqdnValuesToPtrNamespaced_def
    expressionOpValuesToPtrCluster_def
    expressionOpValuesToPtrNamespaced_def
    eaExpressionOpValuesToPtrCluster_def
    eaExpressionOpValuesToPtrNamespaced_def
    sortlistEntryValuesToPtrCluster_def
    sortlistEntryValuesToPtrNamespaced_def DNSView_item_scopes)+

lemma DNSView_value_scopes:
  "scavengingSettingsValueFromCluster = scavengingSettingsValueFromNamespaced"
  "scavengingSettingsValueToCluster = scavengingSettingsValueToNamespaced"
  by (intro ext; simp only: scavengingSettingsValueFromCluster_def
    scavengingSettingsValueFromNamespaced_def
    scavengingSettingsValueToCluster_def
    scavengingSettingsValueToNamespaced_def DNSView_item_scopes DNSView_list_scopes)+

lemma DNSView_fieldsFrom_scopes:
  "fieldsFromClusterParams = fieldsFromNamespacedParams"
  by (intro ext; simp only: fieldsFromClusterParams_def fieldsFromNamespacedParams_def DNSView_item_scopes DNSView_list_scopes DNSView_value_scopes)

lemma DNSView_applyFieldsTo_scopes:
  "applyFieldsToClusterParams = applyFieldsToNamespacedParams"
  by (intro ext; simp only: applyFieldsToClusterParams_def applyFieldsToNamespacedParams_def DNSView_item_scopes DNSView_list_scopes DNSView_value_scopes)

lemma DNSView_observation_scopes:
  "clusterObservationFromFields = namespacedObservationFromFields"
  by (intro ext; simp only: clusterObservationFromFields_def namespacedObservationFromFields_def DNSView_item_scopes DNSView_list_scopes DNSView_value_scopes)

lemma DNSView_scopes:
  "cluster_DNSView_Observe = namespaced_DNSView_Observe"
  "cluster_DNSView_Create = namespaced_DNSView_Create"
  "cluster_DNSView_Update = namespaced_DNSView_Update"
  "cluster_DNSView_Delete = namespaced_DNSView_Delete"
  by (intro ext; simp only: cluster_DNSView_Observe_def namespaced_DNSView_Observe_def
    cluster_DNSView_Create_def namespaced_DNSView_Create_def
    cluster_DNSView_Update_def namespaced_DNSView_Update_def
    cluster_DNSView_Delete_def namespaced_DNSView_Delete_def
    DNSView_fieldsFrom_scopes DNSView_applyFieldsTo_scopes DNSView_observation_scopes)+

section \<open>What the handlers promise\<close>

text \<open>The name Delete looks at: the observed one, or else the spec's.\<close>

definition view_name :: "DNSViewCR \<Rightarrow> string option" where
  "view_name cr = (case dvb_Name (dv_AtProvider cr) of None \<Rightarrow> dvp_Name (dv_ForProvider cr) | Some n \<Rightarrow> Some n)"

definition installed_view :: "DNSViewCR \<Rightarrow> bool" where
  "installed_view cr \<longleftrightarrow> view_name cr \<in> {Some ''default'', Some ''Internal'', Some ''External''}"

definition spares_installed :: "(ViewObj, view_req, _) delete_op \<Rightarrow> bool" where
  "spares_installed del \<longleftrightarrow> (\<forall>env ep cr w. installed_view cr \<longrightarrow> del env ep cr w = (None, w))"

text \<open>Success for any other view means that it was not there, or was this resource's and is deleted.\<close>

definition justified_otherwise :: "(ViewObj, view_req, _) delete_op \<Rightarrow> bool" where
  "justified_otherwise del \<longleftrightarrow>
     (\<exists>d. delete_success_justified ViewObj_type vwr_Ref d \<and>
       (\<forall>env ep cr w. \<not> installed_view cr \<longrightarrow> del env ep cr w = d env ep cr w))"

lemma guarded_installed: "dnsview_guarded cr \<longleftrightarrow> installed_view cr"
  by (auto simp: dnsview_guarded_def installed_view_def view_name_def isWellKnownDNSViewName_def
      wellKnownDNSViewNames_def defaultDNSViewName_def split: option.split)

lemma DNSView_deletes_owned: "deletes_only_owned ViewObj_type vwr_Ref namespaced_DNSView_Delete"
  using dnsview.delete_only_owned by (auto simp: deletes_only_owned_def DNSView_Delete_cases)

lemma DNSView_spares: "spares_installed namespaced_DNSView_Delete"
  by (simp add: spares_installed_def DNSView_Delete_cases guarded_installed)

lemma DNSView_justified: "justified_otherwise namespaced_DNSView_Delete"
  unfolding justified_otherwise_def
  by (rule exI [of _ dnsview_delete]) (simp add: dnsview.delete_success DNSView_Delete_cases guarded_installed)

text \<open>A run with the guarded Delete is a run of the unguarded one that skips the guarded deletions.\<close>

lemma DNSView_run_unguarded:
  "client_run namespaced_DNSView_Observe namespaced_DNSView_Create namespaced_DNSView_Update namespaced_DNSView_Delete
     env ep crs0 crs w \<Longrightarrow>
   client_run namespaced_DNSView_Observe namespaced_DNSView_Create namespaced_DNSView_Update dnsview_delete env ep crs0 crs w"
proof (induction rule: client_run.induct)
  case (deleted crs w i)
  then show ?case
    using client_run.deleted [OF deleted.IH] by (simp add: DNSView_Delete_cases)
qed (blast intro: client_run.intros)+

lemma DNSView_run_safe:
  "runs_safely ViewObj_type vwr_Ref view_req_ea namespaced_DNSView_Observe namespaced_DNSView_Create
     namespaced_DNSView_Update namespaced_DNSView_Delete"
  using dnsview.run_safe DNSView_run_unguarded unfolding runs_safely_def by blast

text \<open>
  C13: deleting a DNSView resource that stands for one of the views every Grid has (the observed name, or the
  spec's when nothing was observed, is "default", "Internal" or "External") succeeds without a single request;
  any other deletion sends at most one mutating request, for the view the identity ladder found with
  this resource's stamp, and reports success only when the ladder found nothing or that view was
  deleted or already gone.
\<close>

theorem views_delete_contract:
  "spares_installed namespaced_DNSView_Delete \<and> spares_installed cluster_DNSView_Delete \<and>
   deletes_only_owned ViewObj_type vwr_Ref namespaced_DNSView_Delete \<and>
   deletes_only_owned ViewObj_type vwr_Ref cluster_DNSView_Delete \<and>
   justified_otherwise namespaced_DNSView_Delete \<and> justified_otherwise cluster_DNSView_Delete"
  by (simp only: DNSView_scopes simp_thms DNSView_spares DNSView_deletes_owned DNSView_justified)

text \<open>
  C15: Observe of a DNSView answers "exists" only for a view with this resource's stamp or with none (then
  out of date), "does not exist" only after the search for the uid came back empty and a recorded reference
  gave a 404, and changes nothing on the Grid; Create and Update send exactly one request, the view that
  buildView makes of all the spec's fields, with the stamp of the uid, and when it succeeds record the
  reference the Grid answers with, unless the uid is blank or the identity definition is missing, when
  they send none.
\<close>

theorem views_handlers_contract:
  "observes_ownership ViewObj_type namespaced_DNSView_Observe \<and> absent_means_searched ViewObj_type namespaced_DNSView_Observe \<and>
   observes_ownership ViewObj_type cluster_DNSView_Observe \<and> absent_means_searched ViewObj_type cluster_DNSView_Observe \<and>
   creates_as DNSView_valid (\<lambda>cr. view_create_request (dnsview_fields cr) (mo_uid cr)) vwr_Ref errCreateDNSView namespaced_DNSView_Create \<and>
   creates_as DNSView_valid (\<lambda>cr. view_create_request (dnsview_fields cr) (mo_uid cr)) vwr_Ref errCreateDNSView cluster_DNSView_Create \<and>
   updates_as (\<lambda>cr. view_update_request (GetExternalName cr) (dnsview_fields cr) (mo_uid cr)) vwr_Ref namespaced_DNSView_Update \<and>
   updates_as (\<lambda>cr. view_update_request (GetExternalName cr) (dnsview_fields cr) (mo_uid cr)) vwr_Ref cluster_DNSView_Update"
  by (simp only: DNSView_scopes simp_thms dnsview.observe_ownership dnsview.observe_absent dnsview.create_as dnsview.update_as)

text \<open>
  C16: in every interleaving of the handlers of any number of DNSView resources, with arbitrary edits in
  between, each create or update request in the log carries the uid of one of the resources, and each
  delete names a view that the Grid had shown before with the stamp of one of them.
\<close>

theorem views_run_safely:
  "runs_safely ViewObj_type vwr_Ref view_req_ea namespaced_DNSView_Observe namespaced_DNSView_Create
     namespaced_DNSView_Update namespaced_DNSView_Delete \<and>
   runs_safely ViewObj_type vwr_Ref view_req_ea cluster_DNSView_Observe cluster_DNSView_Create
     cluster_DNSView_Update cluster_DNSView_Delete"
  by (simp only: DNSView_scopes simp_thms DNSView_run_safe)

text \<open>
  C14: on a Grid that stores what it is sent, the Observe right after a successful Create or Update of a
  DNSView reports it as existing and up to date, for specs that leave the reserved attribute alone, have a
  name, and whose gated texts are not empty and whose
  nested values come back from the Grid as they were sent (the uid has no surrounding blanks and the recorded
  reference is not the resource's name); what is stored is required only of
  settings that were sent, and of gated settings only while their use flag is on.
\<close>

theorem views_converge:
  "write_then_observe ViewObj_type vwr_Ref view_holds DNSView_spec_ok namespaced_DNSView_Create namespaced_DNSView_Observe \<and>
   write_then_observe ViewObj_type vwr_Ref view_holds DNSView_spec_ok namespaced_DNSView_Update namespaced_DNSView_Observe \<and>
   write_then_observe ViewObj_type vwr_Ref view_holds DNSView_spec_ok cluster_DNSView_Create cluster_DNSView_Observe \<and>
   write_then_observe ViewObj_type vwr_Ref view_holds DNSView_spec_ok cluster_DNSView_Update cluster_DNSView_Observe"
  by (simp only: DNSView_scopes simp_thms dnsview.create_then_observe dnsview.update_then_observe)

section \<open>Zeros inside nested values\<close>

text \<open>
  The specs that ask for an explicit zero: a trusted key with one of its flags false, a rate limit
  with a flag false or a number 0, while the use flag is on.
\<close>

definition key_with_zero :: "DNSViewDnssecTrustedKey \<Rightarrow> bool" where
  "key_with_zero k \<longleftrightarrow> dvk_SecureEntryPoint k = Some False \<or> dvk_DnssecMustBeSecure k = Some False"

definition limits_with_zero :: "DNSViewResponseRateLimiting \<Rightarrow> bool" where
  "limits_with_zero l \<longleftrightarrow> dvr_EnableRrl l = Some False \<or> dvr_LogOnly l = Some False \<or>
     dvr_ResponsesPerSecond l = Some 0 \<or> dvr_Window l = Some 0 \<or> dvr_Slip l = Some 0"

definition asks_for_zero :: "DNSViewCR \<Rightarrow> bool" where
  "asks_for_zero cr \<longleftrightarrow>
     boolOrFalse (dvp_UseDnssec (dv_ForProvider cr)) \<and>
       (\<exists>k. Some k \<in> set (dvp_DnssecTrustedKeys (dv_ForProvider cr)) \<and> key_with_zero k) \<or>
     boolOrFalse (dvp_UseResponseRateLimiting (dv_ForProvider cr)) \<and>
       (\<exists>l. dvp_ResponseRateLimiting (dv_ForProvider cr) = Some l \<and> limits_with_zero l)"

lemma key_zero_differs:
  assumes "Some k \<in> set ks" "key_with_zero k"
  shows "dnssecTrustedKeyValuesFromPtrNamespaced ks \<noteq> dnssecTrustedKeyValuesFromSDKPtr os"
proof
  assume e: "dnssecTrustedKeyValuesFromPtrNamespaced ks = dnssecTrustedKeyValuesFromSDKPtr os"
  have "dnssecTrustedKeyValueFromNamespaced k \<in> set (dnssecTrustedKeyValuesFromPtrNamespaced ks)"
    using assms(1) by (force simp: dnssecTrustedKeyValuesFromPtrNamespaced_def List.map_filter_def)
  then obtain x where "dnssecTrustedKeyValueFromNamespaced k = dnssecTrustedKeyValueFromSDKItem x"
    unfolding e by (auto simp: dnssecTrustedKeyValuesFromSDKPtr_def List.map_filter_def split: if_splits)
  with assms(2) show False
    by (auto simp: key_with_zero_def dnssecTrustedKeyValueFromNamespaced_def dnssecTrustedKeyValueFromSDKItem_def
        boolPtrOrNil_def split: if_splits)
qed

lemma limits_zero_differ:
  assumes "limits_with_zero l"
  shows "responseRateLimitingValueFromNamespaced (Some l) \<noteq> responseRateLimitingValueFromSDK q"
  using assms by (cases q) (auto simp: limits_with_zero_def responseRateLimitingValueFromNamespaced_def
      responseRateLimitingValueFromSDK_def boolPtrOrNil_def uint32PtrOrNil_def split: if_splits)

lemma DNSView_needs_nested:
  assumes "DNSView_utd (dnsview_filled f (dnsview_observed x)) x"
  shows "boolOrFalse (dvf_UseDnssec f) \<Longrightarrow> dvf_DnssecTrustedKeys f \<noteq> [] \<Longrightarrow>
      dvf_DnssecTrustedKeys f = dnssecTrustedKeyValuesFromSDKPtr (vwr_DnssecTrustedKeys x)"
    and "boolOrFalse (dvf_UseResponseRateLimiting f) \<Longrightarrow> dvf_ResponseRateLimiting f \<noteq> None \<Longrightarrow>
      dvf_ResponseRateLimiting f = responseRateLimitingValueFromSDK (vwr_ResponseRateLimiting x)"
proof -
  have flag: "boolOrFalse (fill u v)" if "boolOrFalse u" for u v :: "bool option"
    using that by (cases u) simp_all
  have utd: "gatedNestedSliceEqual (dvf_UseDnssec (dnsview_filled f (dnsview_observed x)))
      (dvf_DnssecTrustedKeys (dnsview_filled f (dnsview_observed x))) (dvf_DnssecTrustedKeys (dnsview_observed x)) nestedSliceEqual"
    "gatedPtrDeepEqual (dvf_UseResponseRateLimiting (dnsview_filled f (dnsview_observed x)))
      (dvf_ResponseRateLimiting (dnsview_filled f (dnsview_observed x))) (dvf_ResponseRateLimiting (dnsview_observed x))"
    using assms unfolding DNSView_utd_def DNSView_isUpToDate_iff by - (elim conjE, assumption)+
  show "dvf_DnssecTrustedKeys f = dnssecTrustedKeyValuesFromSDKPtr (vwr_DnssecTrustedKeys x)"
    if "boolOrFalse (dvf_UseDnssec f)" "dvf_DnssecTrustedKeys f \<noteq> []"
    using utd(1) flag [OF that(1)] that(2) by (simp add: gatedNestedSliceEqual_def fill_list_if_def fill_list_def)
  show "dvf_ResponseRateLimiting f = responseRateLimitingValueFromSDK (vwr_ResponseRateLimiting x)"
    if "boolOrFalse (dvf_UseResponseRateLimiting f)" "dvf_ResponseRateLimiting f \<noteq> None"
    using utd(2) flag [OF that(1)] that(2) by (auto simp: gatedPtrDeepEqual_def fill_if_def)
qed

lemma DNSView_zero_differs:
  assumes "asks_for_zero cr"
  shows "\<not> DNSView_utd (dnsview_filled (dnsview_fields cr) (dnsview_observed x)) x"
proof
  let ?p = "dv_ForProvider cr"
  assume utd: "DNSView_utd (dnsview_filled (dnsview_fields cr) (dnsview_observed x)) x"
  note need = DNSView_needs_nested [OF utd, unfolded dnsview_fields_def fields_sel]
  consider k where "boolOrFalse (dvp_UseDnssec ?p)" "Some k \<in> set (dvp_DnssecTrustedKeys ?p)" "key_with_zero k"
    | l where "boolOrFalse (dvp_UseResponseRateLimiting ?p)" "dvp_ResponseRateLimiting ?p = Some l" "limits_with_zero l"
    using assms unfolding asks_for_zero_def by blast
  then show False
  proof cases
    case 1
    have "dnssecTrustedKeyValuesFromPtrNamespaced (dvp_DnssecTrustedKeys ?p) \<noteq> []"
      using key_zero_differs [OF 1(2,3), of "[]"] by (simp add: dnssecTrustedKeyValuesFromSDKPtr_def)
    with need(1) [OF 1(1)] key_zero_differs [OF 1(2,3)] show False by blast
  next
    case 2
    have "responseRateLimitingValueFromNamespaced (dvp_ResponseRateLimiting ?p) \<noteq> None"
      by (simp add: 2(2) responseRateLimitingValueFromNamespaced_def)
    with need(2) [OF 2(1)] limits_zero_differ [OF 2(3)] 2(2) show False by auto
  qed
qed

text \<open>
  C17: a DNSView whose spec asks for an explicit zero inside a nested value (a trusted key with secureEntryPoint or
  dnssecMustBeSecure false, a rate limit with a flag false or a number 0, under a use flag that is on)
  is reported as out of date by every Observe that finds a view, whatever the view holds: the zero read
  back from the Grid becomes a nil pointer, which the comparison tells apart from the pointer to zero
  in the spec. The provider updates such a view in every reconcile.
\<close>

theorem zero_view_value_never_current:
  "never_up_to_date ViewObj_type namespaced_DNSView_Observe (\<lambda>cr x. asks_for_zero cr) \<and>
   never_up_to_date ViewObj_type cluster_DNSView_Observe (\<lambda>cr x. asks_for_zero cr)"
proof -
  have "never_up_to_date ViewObj_type namespaced_DNSView_Observe (\<lambda>cr x. asks_for_zero cr)"
    by (rule dnsview.observe_never) (simp add: dnsview_late.lifted_simps DNSView_late_eq DNSView_zero_differs)
  then show ?thesis by (simp only: DNSView_scopes simp_thms)
qed

text \<open>A spec that sets nothing.\<close>

definition empty_view_params :: DNSViewParameters where
  "empty_view_params =
     \<lparr>dvp_Name = None, dvp_Comment = None,
      dvp_NetworkView = None, dvp_Disable = None,
      dvp_BlacklistAction = None, dvp_BlacklistLogQuery = None,
      dvp_BlacklistRedirectAddresses = [], dvp_BlacklistRedirectTTL = None,
      dvp_BlacklistRulesets = [], dvp_UseBlacklist = None,
      dvp_EnableBlacklist = None, dvp_CustomRootNameServers = [],
      dvp_RootNameServerType = None, dvp_UseRootNameServer = None,
      dvp_DdnsForceCreationTimestampUpdate = None, dvp_UseDdnsForceCreationTimestampUpdate = None,
      dvp_DdnsPrincipalGroup = None, dvp_DdnsPrincipalTracking = None,
      dvp_UseDdnsPrincipalSecurity = None, dvp_DdnsRestrictPatterns = None,
      dvp_DdnsRestrictPatternsList = [], dvp_UseDdnsPatternsRestriction = None,
      dvp_DdnsRestrictProtected = None, dvp_UseDdnsRestrictProtected = None,
      dvp_DdnsRestrictSecure = None, dvp_DdnsRestrictStatic = None,
      dvp_UseDdnsRestrictStatic = None, dvp_Dns64Enabled = None,
      dvp_Dns64Groups = [], dvp_UseDns64 = None,
      dvp_DnssecEnabled = None, dvp_DnssecExpiredSignaturesEnabled = None,
      dvp_DnssecNegativeTrustAnchors = [], dvp_DnssecTrustedKeys = [],
      dvp_DnssecValidationEnabled = None, dvp_UseDnssec = None,
      dvp_EnableFixedRrsetOrderFqdns = None, dvp_FixedRrsetOrderFqdns = [],
      dvp_UseFixedRrsetOrderFqdns = None, dvp_EnableMatchRecursiveOnly = None,
      dvp_ExtAttrs = fmempty, dvp_FilterAaaa = None,
      dvp_FilterAaaaList = [], dvp_UseFilterAaaa = None,
      dvp_ForwardOnly = None, dvp_Forwarders = [],
      dvp_UseForwarders = None, dvp_LameTTL = None,
      dvp_UseLameTTL = None, dvp_MatchClients = [],
      dvp_MatchDestinations = [], dvp_MaxCacheTTL = None,
      dvp_UseMaxCacheTTL = None, dvp_MaxNcacheTTL = None,
      dvp_UseMaxNcacheTTL = None, dvp_NotifyDelay = None,
      dvp_NxdomainLogQuery = None, dvp_NxdomainRedirect = None,
      dvp_NxdomainRedirectAddresses = [], dvp_NxdomainRedirectAddressesV6 = [],
      dvp_NxdomainRedirectTTL = None, dvp_NxdomainRulesets = [],
      dvp_UseNxdomainRedirect = None, dvp_Recursion = None,
      dvp_UseRecursion = None, dvp_ResponseRateLimiting = None,
      dvp_UseResponseRateLimiting = None, dvp_RpzDropIPRuleEnabled = None,
      dvp_RpzDropIPRuleMinPrefixLengthIPv4 = None, dvp_RpzDropIPRuleMinPrefixLengthIPv6 = None,
      dvp_UseRpzDropIPRule = None, dvp_RpzQnameWaitRecurse = None,
      dvp_UseRpzQnameWaitRecurse = None, dvp_ScavengingSettings = None,
      dvp_UseScavengingSettings = None, dvp_Sortlist = [],
      dvp_UseSortlist = None\<rparr>"

section \<open>A Grid with one view\<close>

fun dv_echo :: "view_req \<Rightarrow> ViewObj" where
  "dv_echo (CreateViewObject v) = v\<lparr>vwr_Ref := ''view/1''\<rparr>"
| "dv_echo (UpdateViewObject v ref) = v\<lparr>vwr_Ref := ''view/1''\<rparr>"

definition dv_rec :: ViewObj where
  "dv_rec = emptyViewObj\<lparr>vwr_Ref := ''view/1'', vwr_Ea := Stamp fmempty ''u-1''\<rparr>"

definition dv_grid :: vw_env where
  "dv_grid =
     \<lparr>wapi_get = (\<lambda>h t r. case last_written h of None \<Rightarrow> Inr dv_rec | Some m \<Rightarrow> Inr (dv_echo m)),
      wapi_search = (\<lambda>h t q. if q = uid_query ''u-1'' then Inr [dv_rec] else Inr []),
      wapi_def_search = (\<lambda>h q. Inr [identityDefinition]),
      wapi_def_create = (\<lambda>h d. Inr []),
      wapi_mutate = (\<lambda>h m. Inr (dv_echo m)),
      wapi_delete = (\<lambda>h r. Inr r),
      kube_patch = (\<lambda>h j. None),
      retry_on_conflict = (\<lambda>f w. f w),
      wall_clock = (\<lambda>n. 0)\<rparr>"

definition dv_cr :: "string \<Rightarrow> DNSViewParameters \<Rightarrow> DNSViewCR" where
  "dv_cr ref p =
     \<lparr>mo_name = ''v'', mo_namespace = [], mo_uid = ''u-1'', mo_annotations = fmupd AnnotationKeyExternalName ref fmempty,
      mo_conditions = fmempty, dv_ForProvider = p,
      dv_AtProvider = namespacedObservationFromFields (fieldsFromView emptyViewObj) [] None None None\<rparr>"

definition dv_named :: "string \<Rightarrow> DNSViewParameters" where
  "dv_named n = empty_view_params\<lparr>dvp_Name := Some n\<rparr>"

lemma dv_cr_simps [simp]:
  "GetExternalName (dv_cr ref p) = ref" "mo_uid (dv_cr ref p) = ''u-1''" "mo_name (dv_cr ref p) = ''v''"
  "dv_ForProvider (dv_cr ref p) = p" "dvb_Name (dv_AtProvider (dv_cr ref p)) = None"
  by (simp_all add: dv_cr_def GetExternalName_def namespacedObservationFromFields_def fieldsFromView_def emptyViewObj_def)

lemma dv_trim [simp]: "trim_space ''u-1'' = ''u-1''"
  by (simp add: trim_space_visible visible_ascii_def)

lemma dv_rec_simps [simp]: "vwr_Ref dv_rec = ''view/1''" "eaValue (vwr_Ea dv_rec) EAKey = Some ''u-1''"
  by (simp_all add: dv_rec_def)

lemma dv_grid_sound: "search_sound dv_grid ViewObj_type"
  by (auto simp: search_sound_def dv_grid_def uid_query_inj)

lemma dv_grid_retry: "retry_documented dv_grid"
  by (auto simp: retry_documented_def dv_grid_def intro: exI [of _ 0])

lemma dv_echo_holds: "vwr_Ref (dv_echo m) = ''view/1''" "view_holds m (dv_echo m)"
  by (cases m; simp add: view_stores_def)+

lemma dv_grid_echoes: "echoes dv_grid ViewObj_type vwr_Ref view_holds"
  by (simp add: echoes_def dv_grid_def last_written_latest dv_echo_holds)

lemma dv_grid_ensure: "fst (ensureIdentityPrerequisite dv_grid ''grid'' init_world) = None"
  by (simp add: ensureIdentityPrerequisite_def Ensure_def prober_lookup_def init_world_def probe_def
      definitionExists_def def_search_def dv_grid_def trim_space_visible visible_ascii_def split_beta)

lemma dv_grid_resolve:
  "Resolve dv_grid ViewObj_type ''view/1'' ''u-1'' init_world =
     (Inr (Some dv_rec, OutcomeResolved), log_call (CGet ''view'' ''view/1'') init_world)"
proof -
  have "wapi_get dv_grid (calls init_world) t r = Inr dv_rec" for t r
    by (simp add: dv_grid_def init_world_def last_written_def)
  then have "resolveByRef dv_grid ViewObj_type ''view/1'' ''u-1'' init_world =
      (Some (Inr (Some dv_rec, OutcomeResolved)), log_call (CGet ''view'' ''view/1'') init_world)"
    using ViewObj_type_simps(3) [of dv_rec]
    by (simp add: resolveByRef_def get_object_def stamped_def split: sum.splits)
  then show ?thesis by (simp add: Resolve_unfold)
qed

lemma dv_spec_ok: "DNSView_spec_ok (dv_cr ref (dv_named n))"
  by (simp add: DNSView_spec_ok_def Let_def dnsview_fields_def dv_named_def empty_view_params_def reserved_free_def
      dnssecTrustedKeyValuesFromPtrNamespaced_def dnssecTrustedKeyValuesFromSDKPtr_def dnssecTrustedKeyValuesToSDKPtr_def
      responseRateLimitingValueFromNamespaced_def responseRateLimitingValueFromSDK_def responseRateLimitingValueToSDK_def
      scavengingSettingsValueFromNamespaced_def scavengingSettingsValueFromSDK_def scavengingSettingsValueToSDK_def
      fixedRrsetOrderFqdnValuesFromPtrNamespaced_def fixedRrsetOrderFqdnValuesFromSDKPtr_def fixedRrsetOrderFqdnValuesToSDKPtr_def
      sortlistEntryValuesFromPtrNamespaced_def sortlistEntryValuesFromSDKPtr_def sortlistEntryValuesToSDKPtr_def)

section \<open>The theorems on that Grid\<close>

lemma views_delete_contract_witness:
  "cluster_DNSView_Delete dv_grid ''grid'' (dv_cr ''view/1'' (dv_named ''Internal'')) init_world = (None, init_world)"
proof -
  have "installed_view (dv_cr ''view/1'' (dv_named ''Internal''))"
    by (simp add: installed_view_def view_name_def dv_named_def)
  moreover have "spares_installed cluster_DNSView_Delete"
    using views_delete_contract by blast
  ultimately show ?thesis by (simp add: spares_installed_def)
qed

lemma views_handlers_contract_witness:
  "mutations (snd (snd (namespaced_DNSView_Update dv_grid ''grid'' (dv_cr ''view/1'' (dv_named ''branch'')) init_world))) =
     [CMutate (view_update_request ''view/1'' (fieldsFromNamespacedParams (dv_named ''branch'')) ''u-1'')]"
proof -
  have "updates_as (\<lambda>cr. view_update_request (GetExternalName cr) (dnsview_fields cr) (mo_uid cr)) vwr_Ref
      namespaced_DNSView_Update"
    using views_handlers_contract by blast
  from this [unfolded updates_as_def, rule_format, OF dv_grid_retry, where ep = "''grid''"
      and cr = "dv_cr ''view/1'' (dv_named ''branch'')" and w = init_world]
  show ?thesis by (simp add: split_beta dv_grid_ensure dnsview_fields_def)
qed

lemma views_run_safely_witness:
  "log_safe (seen_owned dv_grid ViewObj_type vwr_Ref) view_req_ea (\<lambda>uid. \<exists>i :: nat. uid = ''u-1'')
     (calls (snd (namespaced_DNSView_Delete dv_grid ''grid'' (dv_cr ''view/1'' (dv_named ''branch'')) init_world)))"
proof -
  have "runs_safely ViewObj_type vwr_Ref view_req_ea namespaced_DNSView_Observe namespaced_DNSView_Create
      namespaced_DNSView_Update namespaced_DNSView_Delete"
    using views_run_safely by blast
  moreover have "client_run namespaced_DNSView_Observe namespaced_DNSView_Create namespaced_DNSView_Update
      namespaced_DNSView_Delete dv_grid ''grid'' (\<lambda>i. dv_cr ''view/1'' (dv_named ''branch''))
      (\<lambda>i. dv_cr ''view/1'' (dv_named ''branch''))
      (snd (namespaced_DNSView_Delete dv_grid ''grid'' (dv_cr ''view/1'' (dv_named ''branch'')) init_world))"
    by (rule client_run.deleted [where i = 0 and crs = "\<lambda>i. dv_cr ''view/1'' (dv_named ''branch'')", OF client_run.start])
  ultimately show ?thesis
    using dv_grid_sound dv_grid_retry unfolding runs_safely_def by fastforce
qed

lemma views_converge_witness:
  "\<exists>cr1 w1 obs cr2 w2.
     namespaced_DNSView_Create dv_grid ''grid'' (dv_cr ''view/1'' (dv_named ''branch'')) init_world = (None, cr1, w1) \<and>
     namespaced_DNSView_Observe dv_grid ''grid'' cr1 w1 = (Inr obs, cr2, w2) \<and> ResourceUpToDate obs"
proof -
  let ?cr = "dv_cr ''view/1'' (dv_named ''branch'')"
  have valid: "DNSView_valid ?cr = None"
    by (simp add: DNSView_valid_def)
  obtain w0 where en: "ensureIdentityPrerequisite dv_grid ''grid'' init_world = (None, w0)"
    using dv_grid_ensure by (cases "ensureIdentityPrerequisite dv_grid ''grid'' init_world") auto
  have m: "wapi_mutate dv_grid h r = Inr (dv_echo r)" for h r
    by (simp add: dv_grid_def)
  have c: "namespaced_DNSView_Create dv_grid ''grid'' ?cr init_world =
      (None, SetExternalName ''view/1'' ?cr, snd (mutate_object dv_grid (view_create_request (dnsview_fields ?cr) ''u-1'') w0))"
    by (simp add: dnsview.create_shape ladder_create_shape_def valid en mutate_object_def m dv_echo_holds)
  have "write_then_observe ViewObj_type vwr_Ref view_holds DNSView_spec_ok namespaced_DNSView_Create namespaced_DNSView_Observe"
    using views_converge by blast
  from this [unfolded write_then_observe_def, rule_format, OF dv_grid_retry dv_grid_echoes dv_spec_ok _ c] c
  show ?thesis by simp blast
qed

lemma zero_view_value_never_current_witness:
  "\<exists>obs cr'. namespaced_DNSView_Observe dv_grid ''grid''
     (dv_cr ''view/1'' (empty_view_params\<lparr>dvp_UseDnssec := Some True, dvp_DnssecTrustedKeys :=
        [Some \<lparr>dvk_Fqdn = Some ''example.com'', dvk_Algorithm = Some ''8'', dvk_Key = Some ''key'',
           dvk_SecureEntryPoint = Some False, dvk_DnssecMustBeSecure = None\<rparr>]\<rparr>)) init_world =
     (Inr obs, cr', log_call (CGet ''view'' ''view/1'') init_world) \<and> ResourceExists obs \<and> \<not> ResourceUpToDate obs"
proof -
  let ?cr = "dv_cr ''view/1'' (empty_view_params\<lparr>dvp_UseDnssec := Some True, dvp_DnssecTrustedKeys :=
        [Some \<lparr>dvk_Fqdn = Some ''example.com'', dvk_Algorithm = Some ''8'', dvk_Key = Some ''key'',
           dvk_SecureEntryPoint = Some False, dvk_DnssecMustBeSecure = None\<rparr>]\<rparr>)"
  have "asks_for_zero ?cr"
    by (simp add: asks_for_zero_def key_with_zero_def)
  moreover have "never_up_to_date ViewObj_type namespaced_DNSView_Observe (\<lambda>cr x. asks_for_zero cr)"
    using zero_view_value_never_current by blast
  moreover have "Resolve dv_grid ViewObj_type (observeRefFor (mo_name ?cr) (GetExternalName ?cr)) (mo_uid ?cr) init_world =
      (Inr (Some dv_rec, OutcomeResolved), log_call (CGet ''view'' ''view/1'') init_world)"
    by (simp add: observeRefFor_def dv_grid_resolve)
  ultimately show ?thesis
    unfolding never_up_to_date_def by blast
qed

end
