(* ===== verification/CatalogTypes.thy ===== *)
theory CatalogTypes
  imports Identity
begin

text \<open>
  The data types of the resource catalog from which openapi2crd generates the API types
  (tools/openapi2crd/pkg/catalog/catalog.go), its constants and small helpers.
\<close>

datatype FieldScope = FieldScopeRequest | FieldScopeResponse | FieldScopeBoth

type_synonym ExternalNameStrategy = string

definition StrategyServerAssigned :: ExternalNameStrategy where
  [simp]: "StrategyServerAssigned = ''server-assigned''"

definition goTypeString :: string where [simp]: "goTypeString = ''*string''"
definition goTypeBool :: string where [simp]: "goTypeBool = ''*bool''"
definition goTypeInt64 :: string where [simp]: "goTypeInt64 = ''*int64''"
definition goTypeUint32 :: string where [simp]: "goTypeUint32 = ''*uint32''"
definition goTypeUint :: string where [simp]: "goTypeUint = ''*uint''"
definition goTypeStringMap :: string where [simp]: "goTypeStringMap = ''map[string]string''"
definition groupSuffixCrd :: string where "groupSuffixCrd = ''infobloxnios.crossplane.io''"
definition groupSuffixCrdNS :: string where "groupSuffixCrdNS = ''infobloxnios.m.crossplane.io''"
definition fieldNameGo :: string where [simp]: "fieldNameGo = ''Name''"
definition fieldNameJSON :: string where [simp]: "fieldNameJSON = ''name''"
definition extractFieldFuncPath :: string where
  "extractFieldFuncPath = ''github.com/crossplane-contrib/provider-infoblox-nios/apis/common/referencehelpers.ExtractField''"
definition fieldNameName :: string where [simp]: "fieldNameName = ''Name''"
definition jsonNameName :: string where [simp]: "jsonNameName = ''name''"
definition kindNetworkView :: string where [simp]: "kindNetworkView = ''NetworkView''"
definition slugNetworkView :: string where [simp]: "slugNetworkView = ''networkview''"
definition ttlMinimumSeconds :: int where "ttlMinimumSeconds = 0"
definition ttlMaximumSeconds :: int where "ttlMaximumSeconds = 2147483647"
definition reservedEAKey :: string where "reservedEAKey = ''Crossplane Internal ID''"

definition int64Ptr :: "int \<Rightarrow> int option" where "int64Ptr v = Some v"

record ValidationRule =
  vr_Rule :: string
  vr_Message :: string

record ReferenceDescriptor =
  rd_TargetKind :: string
  rd_TargetSlug :: string
  rd_TargetScope :: string
  rd_Extractor :: string

record FieldDef =
  fd_Name :: string
  fd_JSONName :: string
  fd_GoType :: string
  fd_Scope :: FieldScope
  fd_Required :: bool
  fd_Immutable :: bool
  fd_Enum :: "string list"
  fd_Minimum :: "int option"
  fd_Maximum :: "int option"
  fd_Reference :: "ReferenceDescriptor option"
  fd_OmitFromObservation :: bool
  fd_ForProviderValidations :: "ValidationRule list"

record NestedTypeDef =
  nt_TypeName :: string
  nt_Fields :: "FieldDef list"

record ResourceDescriptor =
  res_Kind :: string
  res_Slug :: string
  res_ClusterGroup :: string
  res_NamespacedGroup :: string
  res_ExternalNameStrategy :: ExternalNameStrategy
  res_Fields :: "FieldDef list"
  res_NestedTypes :: "NestedTypeDef list"
  res_ParameterValidations :: "ValidationRule list"

text \<open>The zero values of Go, from which a composite literal starts.\<close>

definition zeroFieldDef :: FieldDef where
  "zeroFieldDef =
     \<lparr>fd_Name = [], fd_JSONName = [], fd_GoType = [], fd_Scope = FieldScopeRequest, fd_Required = False,
      fd_Immutable = False, fd_Enum = [], fd_Minimum = None, fd_Maximum = None, fd_Reference = None,
      fd_OmitFromObservation = False, fd_ForProviderValidations = []\<rparr>"

definition zeroReferenceDescriptor :: ReferenceDescriptor where
  "zeroReferenceDescriptor = \<lparr>rd_TargetKind = [], rd_TargetSlug = [], rd_TargetScope = [], rd_Extractor = []\<rparr>"

lemma zeroFieldDef_simps [simp]:
  "fd_Name zeroFieldDef = []" "fd_JSONName zeroFieldDef = []" "fd_GoType zeroFieldDef = []"
  "fd_Scope zeroFieldDef = FieldScopeRequest" "\<not> fd_Required zeroFieldDef" "\<not> fd_Immutable zeroFieldDef"
  "fd_Enum zeroFieldDef = []" "fd_Minimum zeroFieldDef = None" "fd_Maximum zeroFieldDef = None"
  "fd_Reference zeroFieldDef = None" "\<not> fd_OmitFromObservation zeroFieldDef"
  "fd_ForProviderValidations zeroFieldDef = []"
  by (simp_all add: zeroFieldDef_def)

definition reservedEAKeyValidations :: "ValidationRule list" where
  "reservedEAKeyValidations =
     [\<lparr>vr_Rule = ''self.all(k, k != '' @ [CHR 0x27] @ reservedEAKey @ [CHR 0x27] @ '')'',
       vr_Message = ''the '' @ [CHR 0x27] @ reservedEAKey @ [CHR 0x27] @
         '' extensible attribute is reserved for the provider'' @ [CHR 0x27] @
         ''s identity stamp and cannot be set in spec.forProvider.extAttrs''\<rparr>]"

definition clusterGroup :: "string \<Rightarrow> string" where
  "clusterGroup slug = slug @ ''.'' @ groupSuffixCrd"

definition namespacedGroup :: "string \<Rightarrow> string" where
  "namespacedGroup slug = slug @ ''.'' @ groupSuffixCrdNS"

end
