(* ===== verification/CatalogRecords.thy ===== *)
theory CatalogRecords
  imports CatalogTypes
begin

text \<open>
  The resource catalog (tools/openapi2crd/pkg/catalog), resource records: one definition per descriptor function, with
  its field lists and those of its nested types as definitions of their own. The descriptions, which become
  comments of the generated source, are left out.
\<close>

section \<open>ARecord (dns_records.go)\<close>

definition aRecord_Fields1 :: "FieldDef list" where
  "aRecord_Fields1 =
     [zeroFieldDef\<lparr>fd_Name := fieldNameGo, fd_JSONName := fieldNameJSON, fd_GoType := goTypeString, fd_Scope := FieldScopeBoth,
        fd_Required := True\<rparr>,
      zeroFieldDef\<lparr>fd_Name := ''IPv4Addr'', fd_JSONName := ''ipv4Addr'', fd_GoType := goTypeString, fd_Scope := FieldScopeBoth,
        fd_Required := True\<rparr>,
      zeroFieldDef\<lparr>fd_Name := ''Comment'', fd_JSONName := ''comment'', fd_GoType := goTypeString, fd_Scope := FieldScopeBoth\<rparr>,
      zeroFieldDef\<lparr>fd_Name := ''TTL'', fd_JSONName := ''ttl'', fd_GoType := goTypeUint32, fd_Scope := FieldScopeBoth,
        fd_Minimum := int64Ptr ttlMinimumSeconds, fd_Maximum := int64Ptr ttlMaximumSeconds\<rparr>,
      zeroFieldDef\<lparr>fd_Name := ''UseTTL'', fd_JSONName := ''useTtl'', fd_GoType := goTypeBool, fd_Scope := FieldScopeBoth\<rparr>,
      zeroFieldDef\<lparr>fd_Name := ''ExtAttrs'', fd_JSONName := ''extAttrs'', fd_GoType := goTypeStringMap,
        fd_Scope := FieldScopeBoth, fd_ForProviderValidations := reservedEAKeyValidations\<rparr>,
      zeroFieldDef\<lparr>fd_Name := ''View'', fd_JSONName := ''view'', fd_GoType := goTypeString, fd_Scope := FieldScopeBoth,
        fd_Required := True, fd_Immutable := True\<rparr>,
      zeroFieldDef\<lparr>fd_Name := ''Cidr'', fd_JSONName := ''cidr'', fd_GoType := goTypeString, fd_Scope := FieldScopeRequest\<rparr>,
      zeroFieldDef\<lparr>fd_Name := ''NetworkView'', fd_JSONName := ''networkView'', fd_GoType := goTypeString,
        fd_Scope := FieldScopeRequest\<rparr>,
      zeroFieldDef\<lparr>fd_Name := ''RemoveAssociatedPtr'', fd_JSONName := ''removeAssociatedPtr'', fd_GoType := goTypeBool,
        fd_Scope := FieldScopeRequest, fd_OmitFromObservation := True\<rparr>,
      zeroFieldDef\<lparr>fd_Name := ''Ref'', fd_JSONName := ''ref'', fd_GoType := goTypeString, fd_Scope := FieldScopeResponse\<rparr>,
      zeroFieldDef\<lparr>fd_Name := ''Zone'', fd_JSONName := ''zone'', fd_GoType := goTypeString, fd_Scope := FieldScopeResponse,
        fd_Immutable := True\<rparr>,
      zeroFieldDef\<lparr>fd_Name := ''DNSName'', fd_JSONName := ''dnsName'', fd_GoType := goTypeString, fd_Scope := FieldScopeResponse\<rparr>,
      zeroFieldDef\<lparr>fd_Name := ''Creator'', fd_JSONName := ''creator'', fd_GoType := goTypeString, fd_Scope := FieldScopeResponse\<rparr>,
      zeroFieldDef\<lparr>fd_Name := ''CreationTime'', fd_JSONName := ''creationTime'', fd_GoType := goTypeInt64,
        fd_Scope := FieldScopeResponse\<rparr>,
      zeroFieldDef\<lparr>fd_Name := ''LastQueried'', fd_JSONName := ''lastQueried'', fd_GoType := goTypeInt64,
        fd_Scope := FieldScopeResponse\<rparr>,
      zeroFieldDef\<lparr>fd_Name := ''DdnsPrincipal'', fd_JSONName := ''ddnsPrincipal'', fd_GoType := goTypeString,
        fd_Scope := FieldScopeResponse\<rparr>,
      zeroFieldDef\<lparr>fd_Name := ''DdnsProtected'', fd_JSONName := ''ddnsProtected'', fd_GoType := goTypeBool,
        fd_Scope := FieldScopeResponse\<rparr>,
      zeroFieldDef\<lparr>fd_Name := ''ForbidReclamation'', fd_JSONName := ''forbidReclamation'', fd_GoType := goTypeBool,
        fd_Scope := FieldScopeResponse\<rparr>]"

definition aRecord_Fields2 :: "FieldDef list" where
  "aRecord_Fields2 =
     [zeroFieldDef\<lparr>fd_Name := ''Reclaimable'', fd_JSONName := ''reclaimable'', fd_GoType := goTypeBool,
        fd_Scope := FieldScopeResponse\<rparr>,
      zeroFieldDef\<lparr>fd_Name := ''SharedRecordGroup'', fd_JSONName := ''sharedRecordGroup'', fd_GoType := goTypeString,
        fd_Scope := FieldScopeResponse\<rparr>,
      zeroFieldDef\<lparr>fd_Name := ''AwsRte53RecordInfo'', fd_JSONName := ''awsRte53RecordInfo'',
        fd_GoType := ''*ARecordAwsRte53RecordInfo'', fd_Scope := FieldScopeResponse\<rparr>,
      zeroFieldDef\<lparr>fd_Name := ''CloudInfo'', fd_JSONName := ''cloudInfo'', fd_GoType := ''*ARecordCloudInfo'',
        fd_Scope := FieldScopeResponse\<rparr>,
      zeroFieldDef\<lparr>fd_Name := ''MsAdUserData'', fd_JSONName := ''msAdUserData'', fd_GoType := ''*ARecordMsAdUserData'',
        fd_Scope := FieldScopeResponse\<rparr>,
      zeroFieldDef\<lparr>fd_Name := ''DiscoveredData'', fd_JSONName := ''discoveredData'', fd_GoType := ''*ARecordDiscoveredData'',
        fd_Scope := FieldScopeResponse\<rparr>]"

definition aRecord_ARecordAwsRte53RecordInfo_Fields :: "FieldDef list" where
  "aRecord_ARecordAwsRte53RecordInfo_Fields =
     [zeroFieldDef\<lparr>fd_Name := ''AliasTargetDnsName'', fd_JSONName := ''aliasTargetDnsName'', fd_GoType := goTypeString\<rparr>,
      zeroFieldDef\<lparr>fd_Name := ''AliasTargetHostedZoneId'', fd_JSONName := ''aliasTargetHostedZoneId'', fd_GoType := goTypeString\<rparr>,
      zeroFieldDef\<lparr>fd_Name := ''AliasTargetEvaluateTargetHealth'', fd_JSONName := ''aliasTargetEvaluateTargetHealth'',
        fd_GoType := goTypeBool\<rparr>,
      zeroFieldDef\<lparr>fd_Name := ''Failover'', fd_JSONName := ''failover'', fd_GoType := goTypeString\<rparr>,
      zeroFieldDef\<lparr>fd_Name := ''GeolocationContinentCode'', fd_JSONName := ''geolocationContinentCode'',
        fd_GoType := goTypeString\<rparr>,
      zeroFieldDef\<lparr>fd_Name := ''GeolocationCountryCode'', fd_JSONName := ''geolocationCountryCode'', fd_GoType := goTypeString\<rparr>,
      zeroFieldDef\<lparr>fd_Name := ''GeolocationSubdivisionCode'', fd_JSONName := ''geolocationSubdivisionCode'',
        fd_GoType := goTypeString\<rparr>,
      zeroFieldDef\<lparr>fd_Name := ''HealthCheckId'', fd_JSONName := ''healthCheckId'', fd_GoType := goTypeString\<rparr>,
      zeroFieldDef\<lparr>fd_Name := ''Region'', fd_JSONName := ''region'', fd_GoType := goTypeString\<rparr>,
      zeroFieldDef\<lparr>fd_Name := ''SetIdentifier'', fd_JSONName := ''setIdentifier'', fd_GoType := goTypeString\<rparr>,
      zeroFieldDef\<lparr>fd_Name := ''Type'', fd_JSONName := ''type'', fd_GoType := goTypeString\<rparr>,
      zeroFieldDef\<lparr>fd_Name := ''Weight'', fd_JSONName := ''weight'', fd_GoType := goTypeInt64\<rparr>]"

definition aRecord_ARecordCloudInfo_Fields :: "FieldDef list" where
  "aRecord_ARecordCloudInfo_Fields =
     [zeroFieldDef\<lparr>fd_Name := ''DelegatedMember'', fd_JSONName := ''delegatedMember'',
        fd_GoType := ''*ARecordCloudInfoDelegatedMember''\<rparr>,
      zeroFieldDef\<lparr>fd_Name := ''DelegatedScope'', fd_JSONName := ''delegatedScope'', fd_GoType := goTypeString\<rparr>,
      zeroFieldDef\<lparr>fd_Name := ''DelegatedRoot'', fd_JSONName := ''delegatedRoot'', fd_GoType := goTypeString\<rparr>,
      zeroFieldDef\<lparr>fd_Name := ''OwnedByAdaptor'', fd_JSONName := ''ownedByAdaptor'', fd_GoType := goTypeBool\<rparr>,
      zeroFieldDef\<lparr>fd_Name := ''Usage'', fd_JSONName := ''usage'', fd_GoType := goTypeString\<rparr>,
      zeroFieldDef\<lparr>fd_Name := ''Tenant'', fd_JSONName := ''tenant'', fd_GoType := goTypeString\<rparr>,
      zeroFieldDef\<lparr>fd_Name := ''MgmtPlatform'', fd_JSONName := ''mgmtPlatform'', fd_GoType := goTypeString\<rparr>,
      zeroFieldDef\<lparr>fd_Name := ''AuthorityType'', fd_JSONName := ''authorityType'', fd_GoType := goTypeString\<rparr>]"

definition aRecord_ARecordCloudInfoDelegatedMember_Fields :: "FieldDef list" where
  "aRecord_ARecordCloudInfoDelegatedMember_Fields =
     [zeroFieldDef\<lparr>fd_Name := ''Ipv4Addr'', fd_JSONName := ''ipv4addr'', fd_GoType := goTypeString\<rparr>,
      zeroFieldDef\<lparr>fd_Name := ''Ipv6Addr'', fd_JSONName := ''ipv6addr'', fd_GoType := goTypeString\<rparr>,
      zeroFieldDef\<lparr>fd_Name := fieldNameGo, fd_JSONName := fieldNameJSON, fd_GoType := goTypeString\<rparr>]"

definition aRecord_ARecordMsAdUserData_Fields :: "FieldDef list" where
  "aRecord_ARecordMsAdUserData_Fields =
     [zeroFieldDef\<lparr>fd_Name := ''ActiveUsersCount'', fd_JSONName := ''activeUsersCount'', fd_GoType := goTypeInt64\<rparr>]"

definition aRecord_ARecordDiscoveredData_Fields :: "FieldDef list" where
  "aRecord_ARecordDiscoveredData_Fields =
     [zeroFieldDef\<lparr>fd_Name := ''DeviceModel'', fd_JSONName := ''deviceModel'', fd_GoType := goTypeString\<rparr>,
      zeroFieldDef\<lparr>fd_Name := ''DevicePortName'', fd_JSONName := ''devicePortName'', fd_GoType := goTypeString\<rparr>,
      zeroFieldDef\<lparr>fd_Name := ''DevicePortType'', fd_JSONName := ''devicePortType'', fd_GoType := goTypeString\<rparr>,
      zeroFieldDef\<lparr>fd_Name := ''DeviceType'', fd_JSONName := ''deviceType'', fd_GoType := goTypeString\<rparr>,
      zeroFieldDef\<lparr>fd_Name := ''DeviceVendor'', fd_JSONName := ''deviceVendor'', fd_GoType := goTypeString\<rparr>,
      zeroFieldDef\<lparr>fd_Name := ''DiscoveredName'', fd_JSONName := ''discoveredName'', fd_GoType := goTypeString\<rparr>,
      zeroFieldDef\<lparr>fd_Name := ''Discoverer'', fd_JSONName := ''discoverer'', fd_GoType := goTypeString\<rparr>,
      zeroFieldDef\<lparr>fd_Name := ''Duid'', fd_JSONName := ''duid'', fd_GoType := goTypeString\<rparr>,
      zeroFieldDef\<lparr>fd_Name := ''FirstDiscovered'', fd_JSONName := ''firstDiscovered'', fd_GoType := goTypeInt64\<rparr>,
      zeroFieldDef\<lparr>fd_Name := ''IprgNo'', fd_JSONName := ''iprgNo'', fd_GoType := goTypeInt64\<rparr>,
      zeroFieldDef\<lparr>fd_Name := ''IprgState'', fd_JSONName := ''iprgState'', fd_GoType := goTypeString\<rparr>,
      zeroFieldDef\<lparr>fd_Name := ''IprgType'', fd_JSONName := ''iprgType'', fd_GoType := goTypeString\<rparr>,
      zeroFieldDef\<lparr>fd_Name := ''LastDiscovered'', fd_JSONName := ''lastDiscovered'', fd_GoType := goTypeInt64\<rparr>,
      zeroFieldDef\<lparr>fd_Name := ''MacAddress'', fd_JSONName := ''macAddress'', fd_GoType := goTypeString\<rparr>,
      zeroFieldDef\<lparr>fd_Name := ''MgmtIpAddress'', fd_JSONName := ''mgmtIpAddress'', fd_GoType := goTypeString\<rparr>,
      zeroFieldDef\<lparr>fd_Name := ''NetbiosName'', fd_JSONName := ''netbiosName'', fd_GoType := goTypeString\<rparr>,
      zeroFieldDef\<lparr>fd_Name := ''NetworkComponentDescription'', fd_JSONName := ''networkComponentDescription'',
        fd_GoType := goTypeString\<rparr>,
      zeroFieldDef\<lparr>fd_Name := ''NetworkComponentIp'', fd_JSONName := ''networkComponentIp'', fd_GoType := goTypeString\<rparr>,
      zeroFieldDef\<lparr>fd_Name := ''NetworkComponentModel'', fd_JSONName := ''networkComponentModel'', fd_GoType := goTypeString\<rparr>,
      zeroFieldDef\<lparr>fd_Name := ''NetworkComponentName'', fd_JSONName := ''networkComponentName'', fd_GoType := goTypeString\<rparr>,
      zeroFieldDef\<lparr>fd_Name := ''NetworkComponentPortDescription'', fd_JSONName := ''networkComponentPortDescription'',
        fd_GoType := goTypeString\<rparr>,
      zeroFieldDef\<lparr>fd_Name := ''NetworkComponentPortName'', fd_JSONName := ''networkComponentPortName'',
        fd_GoType := goTypeString\<rparr>,
      zeroFieldDef\<lparr>fd_Name := ''NetworkComponentPortNumber'', fd_JSONName := ''networkComponentPortNumber'',
        fd_GoType := goTypeString\<rparr>,
      zeroFieldDef\<lparr>fd_Name := ''NetworkComponentType'', fd_JSONName := ''networkComponentType'', fd_GoType := goTypeString\<rparr>,
      zeroFieldDef\<lparr>fd_Name := ''NetworkComponentVendor'', fd_JSONName := ''networkComponentVendor'', fd_GoType := goTypeString\<rparr>,
      zeroFieldDef\<lparr>fd_Name := ''OpenPorts'', fd_JSONName := ''openPorts'', fd_GoType := goTypeString\<rparr>,
      zeroFieldDef\<lparr>fd_Name := ''Os'', fd_JSONName := ''os'', fd_GoType := goTypeString\<rparr>,
      zeroFieldDef\<lparr>fd_Name := ''PortDuplex'', fd_JSONName := ''portDuplex'', fd_GoType := goTypeString\<rparr>,
      zeroFieldDef\<lparr>fd_Name := ''PortLinkStatus'', fd_JSONName := ''portLinkStatus'', fd_GoType := goTypeString\<rparr>,
      zeroFieldDef\<lparr>fd_Name := ''PortSpeed'', fd_JSONName := ''portSpeed'', fd_GoType := goTypeString\<rparr>,
      zeroFieldDef\<lparr>fd_Name := ''PortStatus'', fd_JSONName := ''portStatus'', fd_GoType := goTypeString\<rparr>,
      zeroFieldDef\<lparr>fd_Name := ''PortType'', fd_JSONName := ''portType'', fd_GoType := goTypeString\<rparr>,
      zeroFieldDef\<lparr>fd_Name := ''PortVlanDescription'', fd_JSONName := ''portVlanDescription'', fd_GoType := goTypeString\<rparr>,
      zeroFieldDef\<lparr>fd_Name := ''PortVlanName'', fd_JSONName := ''portVlanName'', fd_GoType := goTypeString\<rparr>,
      zeroFieldDef\<lparr>fd_Name := ''PortVlanNumber'', fd_JSONName := ''portVlanNumber'', fd_GoType := goTypeString\<rparr>,
      zeroFieldDef\<lparr>fd_Name := ''VAdapter'', fd_JSONName := ''vAdapter'', fd_GoType := goTypeString\<rparr>,
      zeroFieldDef\<lparr>fd_Name := ''VCluster'', fd_JSONName := ''vCluster'', fd_GoType := goTypeString\<rparr>,
      zeroFieldDef\<lparr>fd_Name := ''VDatacenter'', fd_JSONName := ''vDatacenter'', fd_GoType := goTypeString\<rparr>,
      zeroFieldDef\<lparr>fd_Name := ''VEntityName'', fd_JSONName := ''vEntityName'', fd_GoType := goTypeString\<rparr>,
      zeroFieldDef\<lparr>fd_Name := ''VEntityType'', fd_JSONName := ''vEntityType'', fd_GoType := goTypeString\<rparr>,
      zeroFieldDef\<lparr>fd_Name := ''VHost'', fd_JSONName := ''vHost'', fd_GoType := goTypeString\<rparr>,
      zeroFieldDef\<lparr>fd_Name := ''VSwitch'', fd_JSONName := ''vSwitch'', fd_GoType := goTypeString\<rparr>,
      zeroFieldDef\<lparr>fd_Name := ''VmiName'', fd_JSONName := ''vmiName'', fd_GoType := goTypeString\<rparr>,
      zeroFieldDef\<lparr>fd_Name := ''VmiId'', fd_JSONName := ''vmiId'', fd_GoType := goTypeString\<rparr>,
      zeroFieldDef\<lparr>fd_Name := ''VlanPortGroup'', fd_JSONName := ''vlanPortGroup'', fd_GoType := goTypeString\<rparr>,
      zeroFieldDef\<lparr>fd_Name := ''VswitchName'', fd_JSONName := ''vswitchName'', fd_GoType := goTypeString\<rparr>,
      zeroFieldDef\<lparr>fd_Name := ''VswitchId'', fd_JSONName := ''vswitchId'', fd_GoType := goTypeString\<rparr>,
      zeroFieldDef\<lparr>fd_Name := ''VswitchType'', fd_JSONName := ''vswitchType'', fd_GoType := goTypeString\<rparr>,
      zeroFieldDef\<lparr>fd_Name := ''VswitchIpv6Enabled'', fd_JSONName := ''vswitchIpv6Enabled'', fd_GoType := goTypeBool\<rparr>,
      zeroFieldDef\<lparr>fd_Name := ''VportName'', fd_JSONName := ''vportName'', fd_GoType := goTypeString\<rparr>,
      zeroFieldDef\<lparr>fd_Name := ''VportMacAddress'', fd_JSONName := ''vportMacAddress'', fd_GoType := goTypeString\<rparr>,
      zeroFieldDef\<lparr>fd_Name := ''VportLinkStatus'', fd_JSONName := ''vportLinkStatus'', fd_GoType := goTypeString\<rparr>,
      zeroFieldDef\<lparr>fd_Name := ''VportConfSpeed'', fd_JSONName := ''vportConfSpeed'', fd_GoType := goTypeString\<rparr>,
      zeroFieldDef\<lparr>fd_Name := ''VportConfMode'', fd_JSONName := ''vportConfMode'', fd_GoType := goTypeString\<rparr>,
      zeroFieldDef\<lparr>fd_Name := ''VportSpeed'', fd_JSONName := ''vportSpeed'', fd_GoType := goTypeString\<rparr>,
      zeroFieldDef\<lparr>fd_Name := ''VportMode'', fd_JSONName := ''vportMode'', fd_GoType := goTypeString\<rparr>,
      zeroFieldDef\<lparr>fd_Name := ''VswitchSegmentType'', fd_JSONName := ''vswitchSegmentType'', fd_GoType := goTypeString\<rparr>,
      zeroFieldDef\<lparr>fd_Name := ''VswitchSegmentName'', fd_JSONName := ''vswitchSegmentName'', fd_GoType := goTypeString\<rparr>,
      zeroFieldDef\<lparr>fd_Name := ''VswitchSegmentId'', fd_JSONName := ''vswitchSegmentId'', fd_GoType := goTypeString\<rparr>,
      zeroFieldDef\<lparr>fd_Name := ''VswitchSegmentPortGroup'', fd_JSONName := ''vswitchSegmentPortGroup'', fd_GoType := goTypeString\<rparr>,
      zeroFieldDef\<lparr>fd_Name := ''VswitchAvailablePortsCount'', fd_JSONName := ''vswitchAvailablePortsCount'',
        fd_GoType := goTypeInt64\<rparr>,
      zeroFieldDef\<lparr>fd_Name := ''VswitchTepType'', fd_JSONName := ''vswitchTepType'', fd_GoType := goTypeString\<rparr>,
      zeroFieldDef\<lparr>fd_Name := ''VswitchTepIp'', fd_JSONName := ''vswitchTepIp'', fd_GoType := goTypeString\<rparr>,
      zeroFieldDef\<lparr>fd_Name := ''VswitchTepPortGroup'', fd_JSONName := ''vswitchTepPortGroup'', fd_GoType := goTypeString\<rparr>,
      zeroFieldDef\<lparr>fd_Name := ''VswitchTepVlan'', fd_JSONName := ''vswitchTepVlan'', fd_GoType := goTypeString\<rparr>,
      zeroFieldDef\<lparr>fd_Name := ''VswitchTepDhcpServer'', fd_JSONName := ''vswitchTepDhcpServer'', fd_GoType := goTypeString\<rparr>,
      zeroFieldDef\<lparr>fd_Name := ''VswitchTepMulticast'', fd_JSONName := ''vswitchTepMulticast'', fd_GoType := goTypeString\<rparr>,
      zeroFieldDef\<lparr>fd_Name := ''VmhostIpAddress'', fd_JSONName := ''vmhostIpAddress'', fd_GoType := goTypeString\<rparr>,
      zeroFieldDef\<lparr>fd_Name := ''VmhostName'', fd_JSONName := ''vmhostName'', fd_GoType := goTypeString\<rparr>,
      zeroFieldDef\<lparr>fd_Name := ''VmhostMacAddress'', fd_JSONName := ''vmhostMacAddress'', fd_GoType := goTypeString\<rparr>,
      zeroFieldDef\<lparr>fd_Name := ''VmhostSubnetCidr'', fd_JSONName := ''vmhostSubnetCidr'', fd_GoType := goTypeInt64\<rparr>,
      zeroFieldDef\<lparr>fd_Name := ''VmhostNicNames'', fd_JSONName := ''vmhostNicNames'', fd_GoType := goTypeString\<rparr>,
      zeroFieldDef\<lparr>fd_Name := ''VmiTenantId'', fd_JSONName := ''vmiTenantId'', fd_GoType := goTypeString\<rparr>,
      zeroFieldDef\<lparr>fd_Name := ''CmpType'', fd_JSONName := ''cmpType'', fd_GoType := goTypeString\<rparr>,
      zeroFieldDef\<lparr>fd_Name := ''VmiIpType'', fd_JSONName := ''vmiIpType'', fd_GoType := goTypeString\<rparr>,
      zeroFieldDef\<lparr>fd_Name := ''VmiPrivateAddress'', fd_JSONName := ''vmiPrivateAddress'', fd_GoType := goTypeString\<rparr>,
      zeroFieldDef\<lparr>fd_Name := ''VmiIsPublicAddress'', fd_JSONName := ''vmiIsPublicAddress'', fd_GoType := goTypeBool\<rparr>,
      zeroFieldDef\<lparr>fd_Name := ''CiscoIseSsid'', fd_JSONName := ''ciscoIseSsid'', fd_GoType := goTypeString\<rparr>,
      zeroFieldDef\<lparr>fd_Name := ''CiscoIseEndpointProfile'', fd_JSONName := ''ciscoIseEndpointProfile'', fd_GoType := goTypeString\<rparr>,
      zeroFieldDef\<lparr>fd_Name := ''CiscoIseSessionState'', fd_JSONName := ''ciscoIseSessionState'', fd_GoType := goTypeString\<rparr>,
      zeroFieldDef\<lparr>fd_Name := ''CiscoIseSecurityGroup'', fd_JSONName := ''ciscoIseSecurityGroup'', fd_GoType := goTypeString\<rparr>,
      zeroFieldDef\<lparr>fd_Name := ''TaskName'', fd_JSONName := ''taskName'', fd_GoType := goTypeString\<rparr>,
      zeroFieldDef\<lparr>fd_Name := ''NetworkComponentLocation'', fd_JSONName := ''networkComponentLocation'',
        fd_GoType := goTypeString\<rparr>,
      zeroFieldDef\<lparr>fd_Name := ''NetworkComponentContact'', fd_JSONName := ''networkComponentContact'', fd_GoType := goTypeString\<rparr>,
      zeroFieldDef\<lparr>fd_Name := ''DeviceLocation'', fd_JSONName := ''deviceLocation'', fd_GoType := goTypeString\<rparr>,
      zeroFieldDef\<lparr>fd_Name := ''DeviceContact'', fd_JSONName := ''deviceContact'', fd_GoType := goTypeString\<rparr>,
      zeroFieldDef\<lparr>fd_Name := ''ApName'', fd_JSONName := ''apName'', fd_GoType := goTypeString\<rparr>,
      zeroFieldDef\<lparr>fd_Name := ''ApIpAddress'', fd_JSONName := ''apIpAddress'', fd_GoType := goTypeString\<rparr>,
      zeroFieldDef\<lparr>fd_Name := ''ApSsid'', fd_JSONName := ''apSsid'', fd_GoType := goTypeString\<rparr>,
      zeroFieldDef\<lparr>fd_Name := ''BridgeDomain'', fd_JSONName := ''bridgeDomain'', fd_GoType := goTypeString\<rparr>,
      zeroFieldDef\<lparr>fd_Name := ''EndpointGroups'', fd_JSONName := ''endpointGroups'', fd_GoType := goTypeString\<rparr>,
      zeroFieldDef\<lparr>fd_Name := ''Tenant'', fd_JSONName := ''tenant'', fd_GoType := goTypeString\<rparr>,
      zeroFieldDef\<lparr>fd_Name := ''VrfName'', fd_JSONName := ''vrfName'', fd_GoType := goTypeString\<rparr>,
      zeroFieldDef\<lparr>fd_Name := ''VrfDescription'', fd_JSONName := ''vrfDescription'', fd_GoType := goTypeString\<rparr>,
      zeroFieldDef\<lparr>fd_Name := ''VrfRd'', fd_JSONName := ''vrfRd'', fd_GoType := goTypeString\<rparr>,
      zeroFieldDef\<lparr>fd_Name := ''BgpAs'', fd_JSONName := ''bgpAs'', fd_GoType := goTypeInt64\<rparr>]"

definition aRecord :: ResourceDescriptor where
  "aRecord =
     \<lparr>res_Kind = ''ARecord'', res_Slug = ''recorda'', res_ClusterGroup = clusterGroup ''recorda'',
      res_NamespacedGroup = namespacedGroup ''recorda'', res_ExternalNameStrategy = StrategyServerAssigned,
      res_Fields = aRecord_Fields1 @ aRecord_Fields2,
      res_NestedTypes = [\<lparr>nt_TypeName = ''ARecordAwsRte53RecordInfo'', nt_Fields = aRecord_ARecordAwsRte53RecordInfo_Fields\<rparr>,
        \<lparr>nt_TypeName = ''ARecordCloudInfo'', nt_Fields = aRecord_ARecordCloudInfo_Fields\<rparr>,
        \<lparr>nt_TypeName = ''ARecordCloudInfoDelegatedMember'', nt_Fields = aRecord_ARecordCloudInfoDelegatedMember_Fields\<rparr>,
        \<lparr>nt_TypeName = ''ARecordMsAdUserData'', nt_Fields = aRecord_ARecordMsAdUserData_Fields\<rparr>,
        \<lparr>nt_TypeName = ''ARecordDiscoveredData'', nt_Fields = aRecord_ARecordDiscoveredData_Fields\<rparr>],
      res_ParameterValidations = []\<rparr>"

lemmas aRecord_parts = aRecord_def aRecord_Fields1_def aRecord_Fields2_def aRecord_ARecordAwsRte53RecordInfo_Fields_def aRecord_ARecordCloudInfo_Fields_def aRecord_ARecordCloudInfoDelegatedMember_Fields_def aRecord_ARecordMsAdUserData_Fields_def aRecord_ARecordDiscoveredData_Fields_def

section \<open>AAAARecord (dns_records_aaaa.go)\<close>

definition aaaaRecord_Fields1 :: "FieldDef list" where
  "aaaaRecord_Fields1 =
     [zeroFieldDef\<lparr>fd_Name := ''Name'', fd_JSONName := ''name'', fd_GoType := goTypeString, fd_Scope := FieldScopeBoth,
        fd_Required := True\<rparr>,
      zeroFieldDef\<lparr>fd_Name := ''IPv6Addr'', fd_JSONName := ''ipv6Addr'', fd_GoType := goTypeString, fd_Scope := FieldScopeBoth,
        fd_Required := True\<rparr>,
      zeroFieldDef\<lparr>fd_Name := ''Comment'', fd_JSONName := ''comment'', fd_GoType := goTypeString, fd_Scope := FieldScopeBoth\<rparr>,
      zeroFieldDef\<lparr>fd_Name := ''TTL'', fd_JSONName := ''ttl'', fd_GoType := goTypeUint32, fd_Scope := FieldScopeBoth,
        fd_Minimum := int64Ptr ttlMinimumSeconds, fd_Maximum := int64Ptr ttlMaximumSeconds\<rparr>,
      zeroFieldDef\<lparr>fd_Name := ''UseTTL'', fd_JSONName := ''useTtl'', fd_GoType := goTypeBool, fd_Scope := FieldScopeBoth\<rparr>,
      zeroFieldDef\<lparr>fd_Name := ''ExtAttrs'', fd_JSONName := ''extAttrs'', fd_GoType := goTypeStringMap,
        fd_Scope := FieldScopeBoth, fd_ForProviderValidations := reservedEAKeyValidations\<rparr>,
      zeroFieldDef\<lparr>fd_Name := ''View'', fd_JSONName := ''view'', fd_GoType := goTypeString, fd_Scope := FieldScopeBoth,
        fd_Required := True, fd_Immutable := True\<rparr>,
      zeroFieldDef\<lparr>fd_Name := ''Cidr'', fd_JSONName := ''cidr'', fd_GoType := goTypeString, fd_Scope := FieldScopeRequest\<rparr>,
      zeroFieldDef\<lparr>fd_Name := ''NetworkView'', fd_JSONName := ''networkView'', fd_GoType := goTypeString,
        fd_Scope := FieldScopeRequest\<rparr>,
      zeroFieldDef\<lparr>fd_Name := ''RemoveAssociatedPtr'', fd_JSONName := ''removeAssociatedPtr'', fd_GoType := goTypeBool,
        fd_Scope := FieldScopeRequest, fd_OmitFromObservation := True\<rparr>,
      zeroFieldDef\<lparr>fd_Name := ''Ref'', fd_JSONName := ''ref'', fd_GoType := goTypeString, fd_Scope := FieldScopeResponse\<rparr>,
      zeroFieldDef\<lparr>fd_Name := ''Zone'', fd_JSONName := ''zone'', fd_GoType := goTypeString, fd_Scope := FieldScopeResponse,
        fd_Immutable := True\<rparr>,
      zeroFieldDef\<lparr>fd_Name := ''DNSName'', fd_JSONName := ''dnsName'', fd_GoType := goTypeString, fd_Scope := FieldScopeResponse\<rparr>,
      zeroFieldDef\<lparr>fd_Name := ''Creator'', fd_JSONName := ''creator'', fd_GoType := goTypeString, fd_Scope := FieldScopeResponse\<rparr>,
      zeroFieldDef\<lparr>fd_Name := ''CreationTime'', fd_JSONName := ''creationTime'', fd_GoType := goTypeInt64,
        fd_Scope := FieldScopeResponse\<rparr>,
      zeroFieldDef\<lparr>fd_Name := ''LastQueried'', fd_JSONName := ''lastQueried'', fd_GoType := goTypeInt64,
        fd_Scope := FieldScopeResponse\<rparr>,
      zeroFieldDef\<lparr>fd_Name := ''DdnsPrincipal'', fd_JSONName := ''ddnsPrincipal'', fd_GoType := goTypeString,
        fd_Scope := FieldScopeResponse\<rparr>,
      zeroFieldDef\<lparr>fd_Name := ''DdnsProtected'', fd_JSONName := ''ddnsProtected'', fd_GoType := goTypeBool,
        fd_Scope := FieldScopeResponse\<rparr>,
      zeroFieldDef\<lparr>fd_Name := ''ForbidReclamation'', fd_JSONName := ''forbidReclamation'', fd_GoType := goTypeBool,
        fd_Scope := FieldScopeResponse\<rparr>]"

definition aaaaRecord_Fields2 :: "FieldDef list" where
  "aaaaRecord_Fields2 =
     [zeroFieldDef\<lparr>fd_Name := ''Reclaimable'', fd_JSONName := ''reclaimable'', fd_GoType := goTypeBool,
        fd_Scope := FieldScopeResponse\<rparr>,
      zeroFieldDef\<lparr>fd_Name := ''SharedRecordGroup'', fd_JSONName := ''sharedRecordGroup'', fd_GoType := goTypeString,
        fd_Scope := FieldScopeResponse\<rparr>,
      zeroFieldDef\<lparr>fd_Name := ''AwsRte53RecordInfo'', fd_JSONName := ''awsRte53RecordInfo'',
        fd_GoType := ''*AAAARecordAwsRte53RecordInfo'', fd_Scope := FieldScopeResponse\<rparr>,
      zeroFieldDef\<lparr>fd_Name := ''CloudInfo'', fd_JSONName := ''cloudInfo'', fd_GoType := ''*AAAARecordCloudInfo'',
        fd_Scope := FieldScopeResponse\<rparr>,
      zeroFieldDef\<lparr>fd_Name := ''MsAdUserData'', fd_JSONName := ''msAdUserData'', fd_GoType := ''*AAAARecordMsAdUserData'',
        fd_Scope := FieldScopeResponse\<rparr>,
      zeroFieldDef\<lparr>fd_Name := ''DiscoveredData'', fd_JSONName := ''discoveredData'', fd_GoType := ''*AAAARecordDiscoveredData'',
        fd_Scope := FieldScopeResponse\<rparr>]"

definition aaaaRecord_AAAARecordAwsRte53RecordInfo_Fields :: "FieldDef list" where
  "aaaaRecord_AAAARecordAwsRte53RecordInfo_Fields =
     [zeroFieldDef\<lparr>fd_Name := ''AliasTargetDnsName'', fd_JSONName := ''aliasTargetDnsName'', fd_GoType := goTypeString\<rparr>,
      zeroFieldDef\<lparr>fd_Name := ''AliasTargetHostedZoneId'', fd_JSONName := ''aliasTargetHostedZoneId'', fd_GoType := goTypeString\<rparr>,
      zeroFieldDef\<lparr>fd_Name := ''AliasTargetEvaluateTargetHealth'', fd_JSONName := ''aliasTargetEvaluateTargetHealth'',
        fd_GoType := goTypeBool\<rparr>,
      zeroFieldDef\<lparr>fd_Name := ''Failover'', fd_JSONName := ''failover'', fd_GoType := goTypeString\<rparr>,
      zeroFieldDef\<lparr>fd_Name := ''GeolocationContinentCode'', fd_JSONName := ''geolocationContinentCode'',
        fd_GoType := goTypeString\<rparr>,
      zeroFieldDef\<lparr>fd_Name := ''GeolocationCountryCode'', fd_JSONName := ''geolocationCountryCode'', fd_GoType := goTypeString\<rparr>,
      zeroFieldDef\<lparr>fd_Name := ''GeolocationSubdivisionCode'', fd_JSONName := ''geolocationSubdivisionCode'',
        fd_GoType := goTypeString\<rparr>,
      zeroFieldDef\<lparr>fd_Name := ''HealthCheckId'', fd_JSONName := ''healthCheckId'', fd_GoType := goTypeString\<rparr>,
      zeroFieldDef\<lparr>fd_Name := ''Region'', fd_JSONName := ''region'', fd_GoType := goTypeString\<rparr>,
      zeroFieldDef\<lparr>fd_Name := ''SetIdentifier'', fd_JSONName := ''setIdentifier'', fd_GoType := goTypeString\<rparr>,
      zeroFieldDef\<lparr>fd_Name := ''Type'', fd_JSONName := ''type'', fd_GoType := goTypeString\<rparr>,
      zeroFieldDef\<lparr>fd_Name := ''Weight'', fd_JSONName := ''weight'', fd_GoType := goTypeInt64\<rparr>]"

definition aaaaRecord_AAAARecordCloudInfo_Fields :: "FieldDef list" where
  "aaaaRecord_AAAARecordCloudInfo_Fields =
     [zeroFieldDef\<lparr>fd_Name := ''DelegatedMember'', fd_JSONName := ''delegatedMember'',
        fd_GoType := ''*AAAARecordCloudInfoDelegatedMember''\<rparr>,
      zeroFieldDef\<lparr>fd_Name := ''DelegatedScope'', fd_JSONName := ''delegatedScope'', fd_GoType := goTypeString\<rparr>,
      zeroFieldDef\<lparr>fd_Name := ''DelegatedRoot'', fd_JSONName := ''delegatedRoot'', fd_GoType := goTypeString\<rparr>,
      zeroFieldDef\<lparr>fd_Name := ''OwnedByAdaptor'', fd_JSONName := ''ownedByAdaptor'', fd_GoType := goTypeBool\<rparr>,
      zeroFieldDef\<lparr>fd_Name := ''Usage'', fd_JSONName := ''usage'', fd_GoType := goTypeString\<rparr>,
      zeroFieldDef\<lparr>fd_Name := ''Tenant'', fd_JSONName := ''tenant'', fd_GoType := goTypeString\<rparr>,
      zeroFieldDef\<lparr>fd_Name := ''MgmtPlatform'', fd_JSONName := ''mgmtPlatform'', fd_GoType := goTypeString\<rparr>,
      zeroFieldDef\<lparr>fd_Name := ''AuthorityType'', fd_JSONName := ''authorityType'', fd_GoType := goTypeString\<rparr>]"

definition aaaaRecord_AAAARecordCloudInfoDelegatedMember_Fields :: "FieldDef list" where
  "aaaaRecord_AAAARecordCloudInfoDelegatedMember_Fields =
     [zeroFieldDef\<lparr>fd_Name := ''Ipv4Addr'', fd_JSONName := ''ipv4addr'', fd_GoType := goTypeString\<rparr>,
      zeroFieldDef\<lparr>fd_Name := ''Ipv6Addr'', fd_JSONName := ''ipv6addr'', fd_GoType := goTypeString\<rparr>,
      zeroFieldDef\<lparr>fd_Name := ''Name'', fd_JSONName := ''name'', fd_GoType := goTypeString\<rparr>]"

definition aaaaRecord_AAAARecordMsAdUserData_Fields :: "FieldDef list" where
  "aaaaRecord_AAAARecordMsAdUserData_Fields =
     [zeroFieldDef\<lparr>fd_Name := ''ActiveUsersCount'', fd_JSONName := ''activeUsersCount'', fd_GoType := goTypeInt64\<rparr>]"

definition aaaaRecord_AAAARecordDiscoveredData_Fields :: "FieldDef list" where
  "aaaaRecord_AAAARecordDiscoveredData_Fields =
     [zeroFieldDef\<lparr>fd_Name := ''DeviceModel'', fd_JSONName := ''deviceModel'', fd_GoType := goTypeString\<rparr>,
      zeroFieldDef\<lparr>fd_Name := ''DevicePortName'', fd_JSONName := ''devicePortName'', fd_GoType := goTypeString\<rparr>,
      zeroFieldDef\<lparr>fd_Name := ''DevicePortType'', fd_JSONName := ''devicePortType'', fd_GoType := goTypeString\<rparr>,
      zeroFieldDef\<lparr>fd_Name := ''DeviceType'', fd_JSONName := ''deviceType'', fd_GoType := goTypeString\<rparr>,
      zeroFieldDef\<lparr>fd_Name := ''DeviceVendor'', fd_JSONName := ''deviceVendor'', fd_GoType := goTypeString\<rparr>,
      zeroFieldDef\<lparr>fd_Name := ''DiscoveredName'', fd_JSONName := ''discoveredName'', fd_GoType := goTypeString\<rparr>,
      zeroFieldDef\<lparr>fd_Name := ''Discoverer'', fd_JSONName := ''discoverer'', fd_GoType := goTypeString\<rparr>,
      zeroFieldDef\<lparr>fd_Name := ''Duid'', fd_JSONName := ''duid'', fd_GoType := goTypeString\<rparr>,
      zeroFieldDef\<lparr>fd_Name := ''FirstDiscovered'', fd_JSONName := ''firstDiscovered'', fd_GoType := goTypeInt64\<rparr>,
      zeroFieldDef\<lparr>fd_Name := ''IprgNo'', fd_JSONName := ''iprgNo'', fd_GoType := goTypeInt64\<rparr>,
      zeroFieldDef\<lparr>fd_Name := ''IprgState'', fd_JSONName := ''iprgState'', fd_GoType := goTypeString\<rparr>,
      zeroFieldDef\<lparr>fd_Name := ''IprgType'', fd_JSONName := ''iprgType'', fd_GoType := goTypeString\<rparr>,
      zeroFieldDef\<lparr>fd_Name := ''LastDiscovered'', fd_JSONName := ''lastDiscovered'', fd_GoType := goTypeInt64\<rparr>,
      zeroFieldDef\<lparr>fd_Name := ''MacAddress'', fd_JSONName := ''macAddress'', fd_GoType := goTypeString\<rparr>,
      zeroFieldDef\<lparr>fd_Name := ''MgmtIpAddress'', fd_JSONName := ''mgmtIpAddress'', fd_GoType := goTypeString\<rparr>,
      zeroFieldDef\<lparr>fd_Name := ''NetbiosName'', fd_JSONName := ''netbiosName'', fd_GoType := goTypeString\<rparr>,
      zeroFieldDef\<lparr>fd_Name := ''NetworkComponentDescription'', fd_JSONName := ''networkComponentDescription'',
        fd_GoType := goTypeString\<rparr>,
      zeroFieldDef\<lparr>fd_Name := ''NetworkComponentIp'', fd_JSONName := ''networkComponentIp'', fd_GoType := goTypeString\<rparr>,
      zeroFieldDef\<lparr>fd_Name := ''NetworkComponentModel'', fd_JSONName := ''networkComponentModel'', fd_GoType := goTypeString\<rparr>,
      zeroFieldDef\<lparr>fd_Name := ''NetworkComponentName'', fd_JSONName := ''networkComponentName'', fd_GoType := goTypeString\<rparr>,
      zeroFieldDef\<lparr>fd_Name := ''NetworkComponentPortDescription'', fd_JSONName := ''networkComponentPortDescription'',
        fd_GoType := goTypeString\<rparr>,
      zeroFieldDef\<lparr>fd_Name := ''NetworkComponentPortName'', fd_JSONName := ''networkComponentPortName'',
        fd_GoType := goTypeString\<rparr>,
      zeroFieldDef\<lparr>fd_Name := ''NetworkComponentPortNumber'', fd_JSONName := ''networkComponentPortNumber'',
        fd_GoType := goTypeString\<rparr>,
      zeroFieldDef\<lparr>fd_Name := ''NetworkComponentType'', fd_JSONName := ''networkComponentType'', fd_GoType := goTypeString\<rparr>,
      zeroFieldDef\<lparr>fd_Name := ''NetworkComponentVendor'', fd_JSONName := ''networkComponentVendor'', fd_GoType := goTypeString\<rparr>,
      zeroFieldDef\<lparr>fd_Name := ''OpenPorts'', fd_JSONName := ''openPorts'', fd_GoType := goTypeString\<rparr>,
      zeroFieldDef\<lparr>fd_Name := ''Os'', fd_JSONName := ''os'', fd_GoType := goTypeString\<rparr>,
      zeroFieldDef\<lparr>fd_Name := ''PortDuplex'', fd_JSONName := ''portDuplex'', fd_GoType := goTypeString\<rparr>,
      zeroFieldDef\<lparr>fd_Name := ''PortLinkStatus'', fd_JSONName := ''portLinkStatus'', fd_GoType := goTypeString\<rparr>,
      zeroFieldDef\<lparr>fd_Name := ''PortSpeed'', fd_JSONName := ''portSpeed'', fd_GoType := goTypeString\<rparr>,
      zeroFieldDef\<lparr>fd_Name := ''PortStatus'', fd_JSONName := ''portStatus'', fd_GoType := goTypeString\<rparr>,
      zeroFieldDef\<lparr>fd_Name := ''PortType'', fd_JSONName := ''portType'', fd_GoType := goTypeString\<rparr>,
      zeroFieldDef\<lparr>fd_Name := ''PortVlanDescription'', fd_JSONName := ''portVlanDescription'', fd_GoType := goTypeString\<rparr>,
      zeroFieldDef\<lparr>fd_Name := ''PortVlanName'', fd_JSONName := ''portVlanName'', fd_GoType := goTypeString\<rparr>,
      zeroFieldDef\<lparr>fd_Name := ''PortVlanNumber'', fd_JSONName := ''portVlanNumber'', fd_GoType := goTypeString\<rparr>,
      zeroFieldDef\<lparr>fd_Name := ''VAdapter'', fd_JSONName := ''vAdapter'', fd_GoType := goTypeString\<rparr>,
      zeroFieldDef\<lparr>fd_Name := ''VCluster'', fd_JSONName := ''vCluster'', fd_GoType := goTypeString\<rparr>,
      zeroFieldDef\<lparr>fd_Name := ''VDatacenter'', fd_JSONName := ''vDatacenter'', fd_GoType := goTypeString\<rparr>,
      zeroFieldDef\<lparr>fd_Name := ''VEntityName'', fd_JSONName := ''vEntityName'', fd_GoType := goTypeString\<rparr>,
      zeroFieldDef\<lparr>fd_Name := ''VEntityType'', fd_JSONName := ''vEntityType'', fd_GoType := goTypeString\<rparr>,
      zeroFieldDef\<lparr>fd_Name := ''VHost'', fd_JSONName := ''vHost'', fd_GoType := goTypeString\<rparr>,
      zeroFieldDef\<lparr>fd_Name := ''VSwitch'', fd_JSONName := ''vSwitch'', fd_GoType := goTypeString\<rparr>,
      zeroFieldDef\<lparr>fd_Name := ''VmiName'', fd_JSONName := ''vmiName'', fd_GoType := goTypeString\<rparr>,
      zeroFieldDef\<lparr>fd_Name := ''VmiId'', fd_JSONName := ''vmiId'', fd_GoType := goTypeString\<rparr>,
      zeroFieldDef\<lparr>fd_Name := ''VlanPortGroup'', fd_JSONName := ''vlanPortGroup'', fd_GoType := goTypeString\<rparr>,
      zeroFieldDef\<lparr>fd_Name := ''VswitchName'', fd_JSONName := ''vswitchName'', fd_GoType := goTypeString\<rparr>,
      zeroFieldDef\<lparr>fd_Name := ''VswitchId'', fd_JSONName := ''vswitchId'', fd_GoType := goTypeString\<rparr>,
      zeroFieldDef\<lparr>fd_Name := ''VswitchType'', fd_JSONName := ''vswitchType'', fd_GoType := goTypeString\<rparr>,
      zeroFieldDef\<lparr>fd_Name := ''VswitchIpv6Enabled'', fd_JSONName := ''vswitchIpv6Enabled'', fd_GoType := goTypeBool\<rparr>,
      zeroFieldDef\<lparr>fd_Name := ''VportName'', fd_JSONName := ''vportName'', fd_GoType := goTypeString\<rparr>,
      zeroFieldDef\<lparr>fd_Name := ''VportMacAddress'', fd_JSONName := ''vportMacAddress'', fd_GoType := goTypeString\<rparr>,
      zeroFieldDef\<lparr>fd_Name := ''VportLinkStatus'', fd_JSONName := ''vportLinkStatus'', fd_GoType := goTypeString\<rparr>,
      zeroFieldDef\<lparr>fd_Name := ''VportConfSpeed'', fd_JSONName := ''vportConfSpeed'', fd_GoType := goTypeString\<rparr>,
      zeroFieldDef\<lparr>fd_Name := ''VportConfMode'', fd_JSONName := ''vportConfMode'', fd_GoType := goTypeString\<rparr>,
      zeroFieldDef\<lparr>fd_Name := ''VportSpeed'', fd_JSONName := ''vportSpeed'', fd_GoType := goTypeString\<rparr>,
      zeroFieldDef\<lparr>fd_Name := ''VportMode'', fd_JSONName := ''vportMode'', fd_GoType := goTypeString\<rparr>,
      zeroFieldDef\<lparr>fd_Name := ''VswitchSegmentType'', fd_JSONName := ''vswitchSegmentType'', fd_GoType := goTypeString\<rparr>,
      zeroFieldDef\<lparr>fd_Name := ''VswitchSegmentName'', fd_JSONName := ''vswitchSegmentName'', fd_GoType := goTypeString\<rparr>,
      zeroFieldDef\<lparr>fd_Name := ''VswitchSegmentId'', fd_JSONName := ''vswitchSegmentId'', fd_GoType := goTypeString\<rparr>,
      zeroFieldDef\<lparr>fd_Name := ''VswitchSegmentPortGroup'', fd_JSONName := ''vswitchSegmentPortGroup'', fd_GoType := goTypeString\<rparr>,
      zeroFieldDef\<lparr>fd_Name := ''VswitchAvailablePortsCount'', fd_JSONName := ''vswitchAvailablePortsCount'',
        fd_GoType := goTypeInt64\<rparr>,
      zeroFieldDef\<lparr>fd_Name := ''VswitchTepType'', fd_JSONName := ''vswitchTepType'', fd_GoType := goTypeString\<rparr>,
      zeroFieldDef\<lparr>fd_Name := ''VswitchTepIp'', fd_JSONName := ''vswitchTepIp'', fd_GoType := goTypeString\<rparr>,
      zeroFieldDef\<lparr>fd_Name := ''VswitchTepPortGroup'', fd_JSONName := ''vswitchTepPortGroup'', fd_GoType := goTypeString\<rparr>,
      zeroFieldDef\<lparr>fd_Name := ''VswitchTepVlan'', fd_JSONName := ''vswitchTepVlan'', fd_GoType := goTypeString\<rparr>,
      zeroFieldDef\<lparr>fd_Name := ''VswitchTepDhcpServer'', fd_JSONName := ''vswitchTepDhcpServer'', fd_GoType := goTypeString\<rparr>,
      zeroFieldDef\<lparr>fd_Name := ''VswitchTepMulticast'', fd_JSONName := ''vswitchTepMulticast'', fd_GoType := goTypeString\<rparr>,
      zeroFieldDef\<lparr>fd_Name := ''VmhostIpAddress'', fd_JSONName := ''vmhostIpAddress'', fd_GoType := goTypeString\<rparr>,
      zeroFieldDef\<lparr>fd_Name := ''VmhostName'', fd_JSONName := ''vmhostName'', fd_GoType := goTypeString\<rparr>,
      zeroFieldDef\<lparr>fd_Name := ''VmhostMacAddress'', fd_JSONName := ''vmhostMacAddress'', fd_GoType := goTypeString\<rparr>,
      zeroFieldDef\<lparr>fd_Name := ''VmhostSubnetCidr'', fd_JSONName := ''vmhostSubnetCidr'', fd_GoType := goTypeInt64\<rparr>,
      zeroFieldDef\<lparr>fd_Name := ''VmhostNicNames'', fd_JSONName := ''vmhostNicNames'', fd_GoType := goTypeString\<rparr>,
      zeroFieldDef\<lparr>fd_Name := ''VmiTenantId'', fd_JSONName := ''vmiTenantId'', fd_GoType := goTypeString\<rparr>,
      zeroFieldDef\<lparr>fd_Name := ''CmpType'', fd_JSONName := ''cmpType'', fd_GoType := goTypeString\<rparr>,
      zeroFieldDef\<lparr>fd_Name := ''VmiIpType'', fd_JSONName := ''vmiIpType'', fd_GoType := goTypeString\<rparr>,
      zeroFieldDef\<lparr>fd_Name := ''VmiPrivateAddress'', fd_JSONName := ''vmiPrivateAddress'', fd_GoType := goTypeString\<rparr>,
      zeroFieldDef\<lparr>fd_Name := ''VmiIsPublicAddress'', fd_JSONName := ''vmiIsPublicAddress'', fd_GoType := goTypeBool\<rparr>,
      zeroFieldDef\<lparr>fd_Name := ''CiscoIseSsid'', fd_JSONName := ''ciscoIseSsid'', fd_GoType := goTypeString\<rparr>,
      zeroFieldDef\<lparr>fd_Name := ''CiscoIseEndpointProfile'', fd_JSONName := ''ciscoIseEndpointProfile'', fd_GoType := goTypeString\<rparr>,
      zeroFieldDef\<lparr>fd_Name := ''CiscoIseSessionState'', fd_JSONName := ''ciscoIseSessionState'', fd_GoType := goTypeString\<rparr>,
      zeroFieldDef\<lparr>fd_Name := ''CiscoIseSecurityGroup'', fd_JSONName := ''ciscoIseSecurityGroup'', fd_GoType := goTypeString\<rparr>,
      zeroFieldDef\<lparr>fd_Name := ''TaskName'', fd_JSONName := ''taskName'', fd_GoType := goTypeString\<rparr>,
      zeroFieldDef\<lparr>fd_Name := ''NetworkComponentLocation'', fd_JSONName := ''networkComponentLocation'',
        fd_GoType := goTypeString\<rparr>,
      zeroFieldDef\<lparr>fd_Name := ''NetworkComponentContact'', fd_JSONName := ''networkComponentContact'', fd_GoType := goTypeString\<rparr>,
      zeroFieldDef\<lparr>fd_Name := ''DeviceLocation'', fd_JSONName := ''deviceLocation'', fd_GoType := goTypeString\<rparr>,
      zeroFieldDef\<lparr>fd_Name := ''DeviceContact'', fd_JSONName := ''deviceContact'', fd_GoType := goTypeString\<rparr>,
      zeroFieldDef\<lparr>fd_Name := ''ApName'', fd_JSONName := ''apName'', fd_GoType := goTypeString\<rparr>,
      zeroFieldDef\<lparr>fd_Name := ''ApIpAddress'', fd_JSONName := ''apIpAddress'', fd_GoType := goTypeString\<rparr>,
      zeroFieldDef\<lparr>fd_Name := ''ApSsid'', fd_JSONName := ''apSsid'', fd_GoType := goTypeString\<rparr>,
      zeroFieldDef\<lparr>fd_Name := ''BridgeDomain'', fd_JSONName := ''bridgeDomain'', fd_GoType := goTypeString\<rparr>,
      zeroFieldDef\<lparr>fd_Name := ''EndpointGroups'', fd_JSONName := ''endpointGroups'', fd_GoType := goTypeString\<rparr>,
      zeroFieldDef\<lparr>fd_Name := ''Tenant'', fd_JSONName := ''tenant'', fd_GoType := goTypeString\<rparr>,
      zeroFieldDef\<lparr>fd_Name := ''VrfName'', fd_JSONName := ''vrfName'', fd_GoType := goTypeString\<rparr>,
      zeroFieldDef\<lparr>fd_Name := ''VrfDescription'', fd_JSONName := ''vrfDescription'', fd_GoType := goTypeString\<rparr>,
      zeroFieldDef\<lparr>fd_Name := ''VrfRd'', fd_JSONName := ''vrfRd'', fd_GoType := goTypeString\<rparr>,
      zeroFieldDef\<lparr>fd_Name := ''BgpAs'', fd_JSONName := ''bgpAs'', fd_GoType := goTypeInt64\<rparr>]"

definition aaaaRecord :: ResourceDescriptor where
  "aaaaRecord =
     \<lparr>res_Kind = ''AAAARecord'', res_Slug = ''recordaaaa'', res_ClusterGroup = clusterGroup ''recordaaaa'',
      res_NamespacedGroup = namespacedGroup ''recordaaaa'', res_ExternalNameStrategy = StrategyServerAssigned,
      res_Fields = aaaaRecord_Fields1 @ aaaaRecord_Fields2,
      res_NestedTypes = [\<lparr>nt_TypeName = ''AAAARecordAwsRte53RecordInfo'', nt_Fields = aaaaRecord_AAAARecordAwsRte53RecordInfo_Fields\<rparr>,
        \<lparr>nt_TypeName = ''AAAARecordCloudInfo'', nt_Fields = aaaaRecord_AAAARecordCloudInfo_Fields\<rparr>,
        \<lparr>nt_TypeName = ''AAAARecordCloudInfoDelegatedMember'', nt_Fields = aaaaRecord_AAAARecordCloudInfoDelegatedMember_Fields\<rparr>,
        \<lparr>nt_TypeName = ''AAAARecordMsAdUserData'', nt_Fields = aaaaRecord_AAAARecordMsAdUserData_Fields\<rparr>,
        \<lparr>nt_TypeName = ''AAAARecordDiscoveredData'', nt_Fields = aaaaRecord_AAAARecordDiscoveredData_Fields\<rparr>],
      res_ParameterValidations = []\<rparr>"

lemmas aaaaRecord_parts = aaaaRecord_def aaaaRecord_Fields1_def aaaaRecord_Fields2_def aaaaRecord_AAAARecordAwsRte53RecordInfo_Fields_def aaaaRecord_AAAARecordCloudInfo_Fields_def aaaaRecord_AAAARecordCloudInfoDelegatedMember_Fields_def aaaaRecord_AAAARecordMsAdUserData_Fields_def aaaaRecord_AAAARecordDiscoveredData_Fields_def

section \<open>AliasRecord (dns_records.go)\<close>

definition aliasRecord_Fields :: "FieldDef list" where
  "aliasRecord_Fields =
     [zeroFieldDef\<lparr>fd_Name := ''Name'', fd_JSONName := ''name'', fd_GoType := goTypeString, fd_Scope := FieldScopeBoth,
        fd_Required := True\<rparr>,
      zeroFieldDef\<lparr>fd_Name := ''TargetName'', fd_JSONName := ''targetName'', fd_GoType := goTypeString,
        fd_Scope := FieldScopeBoth, fd_Required := True\<rparr>,
      zeroFieldDef\<lparr>fd_Name := ''TargetType'', fd_JSONName := ''targetType'', fd_GoType := goTypeString,
        fd_Scope := FieldScopeBoth, fd_Required := True,
        fd_Enum := [''A'', ''AAAA'', ''MX'', ''NAPTR'', ''PTR'', ''SPF'', ''SRV'', ''TXT'']\<rparr>,
      zeroFieldDef\<lparr>fd_Name := ''View'', fd_JSONName := ''view'', fd_GoType := goTypeString, fd_Scope := FieldScopeBoth,
        fd_Required := True, fd_Immutable := True\<rparr>,
      zeroFieldDef\<lparr>fd_Name := ''Comment'', fd_JSONName := ''comment'', fd_GoType := goTypeString, fd_Scope := FieldScopeBoth\<rparr>,
      zeroFieldDef\<lparr>fd_Name := ''Disable'', fd_JSONName := ''disable'', fd_GoType := goTypeBool, fd_Scope := FieldScopeBoth\<rparr>,
      zeroFieldDef\<lparr>fd_Name := ''TTL'', fd_JSONName := ''ttl'', fd_GoType := goTypeUint32, fd_Scope := FieldScopeBoth,
        fd_Minimum := int64Ptr ttlMinimumSeconds, fd_Maximum := int64Ptr ttlMaximumSeconds\<rparr>,
      zeroFieldDef\<lparr>fd_Name := ''UseTTL'', fd_JSONName := ''useTtl'', fd_GoType := goTypeBool, fd_Scope := FieldScopeBoth\<rparr>,
      zeroFieldDef\<lparr>fd_Name := ''ExtAttrs'', fd_JSONName := ''extAttrs'', fd_GoType := goTypeStringMap,
        fd_Scope := FieldScopeBoth, fd_ForProviderValidations := reservedEAKeyValidations\<rparr>,
      zeroFieldDef\<lparr>fd_Name := ''Ref'', fd_JSONName := ''ref'', fd_GoType := goTypeString, fd_Scope := FieldScopeResponse\<rparr>,
      zeroFieldDef\<lparr>fd_Name := ''Zone'', fd_JSONName := ''zone'', fd_GoType := goTypeString, fd_Scope := FieldScopeResponse,
        fd_Immutable := True\<rparr>]"

definition aliasRecord :: ResourceDescriptor where
  "aliasRecord =
     \<lparr>res_Kind = ''AliasRecord'', res_Slug = ''recordalias'', res_ClusterGroup = clusterGroup ''recordalias'',
      res_NamespacedGroup = namespacedGroup ''recordalias'', res_ExternalNameStrategy = StrategyServerAssigned,
      res_Fields = aliasRecord_Fields, res_NestedTypes = [], res_ParameterValidations = []\<rparr>"

lemmas aliasRecord_parts = aliasRecord_def aliasRecord_Fields_def

section \<open>CNAMERecord (dns_records.go)\<close>

definition cnameRecord_Fields :: "FieldDef list" where
  "cnameRecord_Fields =
     [zeroFieldDef\<lparr>fd_Name := ''Name'', fd_JSONName := ''name'', fd_GoType := goTypeString, fd_Scope := FieldScopeBoth,
        fd_Required := True\<rparr>,
      zeroFieldDef\<lparr>fd_Name := ''Canonical'', fd_JSONName := ''canonical'', fd_GoType := goTypeString,
        fd_Scope := FieldScopeBoth, fd_Required := True,
        fd_Reference := Some (zeroReferenceDescriptor\<lparr>rd_TargetKind := ''ARecord'', rd_TargetSlug := ''recorda'', rd_Extractor := (extractFieldFuncPath @ (''('' @ [CHR 0x22] @ ''spec.forProvider.name'' @ [CHR 0x22] @ '')''))\<rparr>)\<rparr>,
      zeroFieldDef\<lparr>fd_Name := ''Comment'', fd_JSONName := ''comment'', fd_GoType := goTypeString, fd_Scope := FieldScopeBoth\<rparr>,
      zeroFieldDef\<lparr>fd_Name := ''TTL'', fd_JSONName := ''ttl'', fd_GoType := goTypeUint32, fd_Scope := FieldScopeBoth,
        fd_Minimum := int64Ptr ttlMinimumSeconds, fd_Maximum := int64Ptr ttlMaximumSeconds\<rparr>,
      zeroFieldDef\<lparr>fd_Name := ''UseTTL'', fd_JSONName := ''useTtl'', fd_GoType := goTypeBool, fd_Scope := FieldScopeBoth\<rparr>,
      zeroFieldDef\<lparr>fd_Name := ''ExtAttrs'', fd_JSONName := ''extAttrs'', fd_GoType := goTypeStringMap,
        fd_Scope := FieldScopeBoth, fd_ForProviderValidations := reservedEAKeyValidations\<rparr>,
      zeroFieldDef\<lparr>fd_Name := ''View'', fd_JSONName := ''view'', fd_GoType := goTypeString, fd_Scope := FieldScopeBoth,
        fd_Required := True, fd_Immutable := True\<rparr>,
      zeroFieldDef\<lparr>fd_Name := ''Ref'', fd_JSONName := ''ref'', fd_GoType := goTypeString, fd_Scope := FieldScopeResponse\<rparr>,
      zeroFieldDef\<lparr>fd_Name := ''Zone'', fd_JSONName := ''zone'', fd_GoType := goTypeString, fd_Scope := FieldScopeResponse,
        fd_Immutable := True\<rparr>]"

definition cnameRecord :: ResourceDescriptor where
  "cnameRecord =
     \<lparr>res_Kind = ''CNAMERecord'', res_Slug = ''recordcname'', res_ClusterGroup = clusterGroup ''recordcname'',
      res_NamespacedGroup = namespacedGroup ''recordcname'', res_ExternalNameStrategy = StrategyServerAssigned,
      res_Fields = cnameRecord_Fields, res_NestedTypes = [], res_ParameterValidations = []\<rparr>"

lemmas cnameRecord_parts = cnameRecord_def cnameRecord_Fields_def

section \<open>HostRecord (host_record.go)\<close>

definition hostRecord_Fields1 :: "FieldDef list" where
  "hostRecord_Fields1 =
     [zeroFieldDef\<lparr>fd_Name := ''Name'', fd_JSONName := ''name'', fd_GoType := goTypeString, fd_Scope := FieldScopeBoth,
        fd_Required := True\<rparr>,
      zeroFieldDef\<lparr>fd_Name := ''Ipv4Addrs'', fd_JSONName := ''ipv4Addrs'', fd_GoType := ''[]HostRecordIpv4Addr'',
        fd_Scope := FieldScopeBoth, fd_Required := True\<rparr>,
      zeroFieldDef\<lparr>fd_Name := ''Ipv6Addrs'', fd_JSONName := ''ipv6Addrs'', fd_GoType := ''[]HostRecordIpv6Addr'',
        fd_Scope := FieldScopeBoth\<rparr>,
      zeroFieldDef\<lparr>fd_Name := kindNetworkView, fd_JSONName := ''networkView'', fd_GoType := goTypeString,
        fd_Scope := FieldScopeBoth, fd_Immutable := True,
        fd_Reference := Some (zeroReferenceDescriptor\<lparr>rd_TargetKind := kindNetworkView, rd_TargetSlug := slugNetworkView, rd_TargetScope := ''cluster'', rd_Extractor := (extractFieldFuncPath @ (''('' @ [CHR 0x22] @ ''spec.forProvider.name'' @ [CHR 0x22] @ '')''))\<rparr>)\<rparr>,
      zeroFieldDef\<lparr>fd_Name := ''View'', fd_JSONName := ''view'', fd_GoType := goTypeString, fd_Scope := FieldScopeBoth\<rparr>,
      zeroFieldDef\<lparr>fd_Name := ''Aliases'', fd_JSONName := ''aliases'', fd_GoType := ''[]string'', fd_Scope := FieldScopeBoth\<rparr>,
      zeroFieldDef\<lparr>fd_Name := ''ConfigureForDNS'', fd_JSONName := ''configureForDns'', fd_GoType := goTypeBool,
        fd_Scope := FieldScopeBoth\<rparr>,
      zeroFieldDef\<lparr>fd_Name := ''Comment'', fd_JSONName := ''comment'', fd_GoType := goTypeString, fd_Scope := FieldScopeBoth\<rparr>,
      zeroFieldDef\<lparr>fd_Name := ''Disable'', fd_JSONName := ''disable'', fd_GoType := goTypeBool, fd_Scope := FieldScopeBoth\<rparr>,
      zeroFieldDef\<lparr>fd_Name := ''TTL'', fd_JSONName := ''ttl'', fd_GoType := goTypeUint32, fd_Scope := FieldScopeBoth,
        fd_Minimum := int64Ptr ttlMinimumSeconds, fd_Maximum := int64Ptr ttlMaximumSeconds\<rparr>,
      zeroFieldDef\<lparr>fd_Name := ''UseTTL'', fd_JSONName := ''useTtl'', fd_GoType := goTypeBool, fd_Scope := FieldScopeBoth\<rparr>,
      zeroFieldDef\<lparr>fd_Name := ''ExtAttrs'', fd_JSONName := ''extAttrs'', fd_GoType := goTypeStringMap,
        fd_Scope := FieldScopeBoth, fd_ForProviderValidations := reservedEAKeyValidations\<rparr>,
      zeroFieldDef\<lparr>fd_Name := ''Ipv4Cidr'', fd_JSONName := ''ipv4Cidr'', fd_GoType := goTypeString,
        fd_Scope := FieldScopeRequest\<rparr>,
      zeroFieldDef\<lparr>fd_Name := ''Ipv6Cidr'', fd_JSONName := ''ipv6Cidr'', fd_GoType := goTypeString,
        fd_Scope := FieldScopeRequest\<rparr>,
      zeroFieldDef\<lparr>fd_Name := ''FilterParams'', fd_JSONName := ''filterParams'', fd_GoType := goTypeStringMap,
        fd_Scope := FieldScopeRequest\<rparr>,
      zeroFieldDef\<lparr>fd_Name := ''IpAddressType'', fd_JSONName := ''ipAddressType'', fd_GoType := goTypeString,
        fd_Scope := FieldScopeRequest, fd_Enum := [''IPV4'', ''IPV6'', ''Both'']\<rparr>,
      zeroFieldDef\<lparr>fd_Name := ''Ref'', fd_JSONName := ''ref'', fd_GoType := goTypeString, fd_Scope := FieldScopeResponse\<rparr>]"

definition hostRecord_Fields2 :: "FieldDef list" where
  "hostRecord_Fields2 =
     [zeroFieldDef\<lparr>fd_Name := ''Zone'', fd_JSONName := ''zone'', fd_GoType := goTypeString, fd_Scope := FieldScopeResponse,
        fd_Immutable := True\<rparr>,
      zeroFieldDef\<lparr>fd_Name := ''DNSName'', fd_JSONName := ''dnsName'', fd_GoType := goTypeString, fd_Scope := FieldScopeResponse\<rparr>,
      zeroFieldDef\<lparr>fd_Name := ''DNSAliases'', fd_JSONName := ''dnsAliases'', fd_GoType := ''[]string'',
        fd_Scope := FieldScopeResponse\<rparr>]"

definition hostRecord_HostRecordIpv4Addr_Fields :: "FieldDef list" where
  "hostRecord_HostRecordIpv4Addr_Fields =
     [zeroFieldDef\<lparr>fd_Name := ''Ipv4Addr'', fd_JSONName := ''ipv4Addr'', fd_GoType := ''string'', fd_Required := True\<rparr>,
      zeroFieldDef\<lparr>fd_Name := ''MAC'', fd_JSONName := ''mac'', fd_GoType := goTypeString\<rparr>,
      zeroFieldDef\<lparr>fd_Name := ''ConfigureForDHCP'', fd_JSONName := ''configureForDhcp'', fd_GoType := goTypeBool\<rparr>,
      zeroFieldDef\<lparr>fd_Name := ''NextServer'', fd_JSONName := ''nextServer'', fd_GoType := goTypeString\<rparr>]"

definition hostRecord_HostRecordIpv6Addr_Fields :: "FieldDef list" where
  "hostRecord_HostRecordIpv6Addr_Fields =
     [zeroFieldDef\<lparr>fd_Name := ''Ipv6Addr'', fd_JSONName := ''ipv6Addr'', fd_GoType := ''string'', fd_Required := True\<rparr>,
      zeroFieldDef\<lparr>fd_Name := ''Duid'', fd_JSONName := ''duid'', fd_GoType := goTypeString\<rparr>,
      zeroFieldDef\<lparr>fd_Name := ''ConfigureForDHCP'', fd_JSONName := ''configureForDhcp'', fd_GoType := goTypeBool\<rparr>]"

definition hostRecord :: ResourceDescriptor where
  "hostRecord =
     \<lparr>res_Kind = ''HostRecord'', res_Slug = ''hostrecord'', res_ClusterGroup = clusterGroup ''hostrecord'',
      res_NamespacedGroup = namespacedGroup ''hostrecord'', res_ExternalNameStrategy = StrategyServerAssigned,
      res_Fields = hostRecord_Fields1 @ hostRecord_Fields2,
      res_NestedTypes = [\<lparr>nt_TypeName = ''HostRecordIpv4Addr'', nt_Fields = hostRecord_HostRecordIpv4Addr_Fields\<rparr>,
        \<lparr>nt_TypeName = ''HostRecordIpv6Addr'', nt_Fields = hostRecord_HostRecordIpv6Addr_Fields\<rparr>],
      res_ParameterValidations = []\<rparr>"

lemmas hostRecord_parts = hostRecord_def hostRecord_Fields1_def hostRecord_Fields2_def hostRecord_HostRecordIpv4Addr_Fields_def hostRecord_HostRecordIpv6Addr_Fields_def

section \<open>MXRecord (dns_records.go)\<close>

definition mxRecord_Fields1 :: "FieldDef list" where
  "mxRecord_Fields1 =
     [zeroFieldDef\<lparr>fd_Name := ''Name'', fd_JSONName := ''name'', fd_GoType := goTypeString, fd_Scope := FieldScopeBoth,
        fd_Required := True\<rparr>,
      zeroFieldDef\<lparr>fd_Name := ''MailExchanger'', fd_JSONName := ''mailExchanger'', fd_GoType := goTypeString,
        fd_Scope := FieldScopeBoth, fd_Required := True\<rparr>,
      zeroFieldDef\<lparr>fd_Name := ''Preference'', fd_JSONName := ''preference'', fd_GoType := goTypeInt64,
        fd_Scope := FieldScopeBoth, fd_Required := True\<rparr>,
      zeroFieldDef\<lparr>fd_Name := ''Comment'', fd_JSONName := ''comment'', fd_GoType := goTypeString, fd_Scope := FieldScopeBoth\<rparr>,
      zeroFieldDef\<lparr>fd_Name := ''TTL'', fd_JSONName := ''ttl'', fd_GoType := goTypeUint32, fd_Scope := FieldScopeBoth,
        fd_Minimum := int64Ptr ttlMinimumSeconds, fd_Maximum := int64Ptr ttlMaximumSeconds\<rparr>,
      zeroFieldDef\<lparr>fd_Name := ''UseTTL'', fd_JSONName := ''useTtl'', fd_GoType := goTypeBool, fd_Scope := FieldScopeBoth\<rparr>,
      zeroFieldDef\<lparr>fd_Name := ''ExtAttrs'', fd_JSONName := ''extAttrs'', fd_GoType := goTypeStringMap,
        fd_Scope := FieldScopeBoth, fd_ForProviderValidations := reservedEAKeyValidations\<rparr>,
      zeroFieldDef\<lparr>fd_Name := ''View'', fd_JSONName := ''view'', fd_GoType := goTypeString, fd_Scope := FieldScopeBoth,
        fd_Required := True, fd_Immutable := True\<rparr>,
      zeroFieldDef\<lparr>fd_Name := ''Ref'', fd_JSONName := ''ref'', fd_GoType := goTypeString, fd_Scope := FieldScopeResponse\<rparr>,
      zeroFieldDef\<lparr>fd_Name := ''Zone'', fd_JSONName := ''zone'', fd_GoType := goTypeString, fd_Scope := FieldScopeResponse,
        fd_Immutable := True\<rparr>,
      zeroFieldDef\<lparr>fd_Name := ''DNSName'', fd_JSONName := ''dnsName'', fd_GoType := goTypeString, fd_Scope := FieldScopeResponse\<rparr>,
      zeroFieldDef\<lparr>fd_Name := ''DNSMailExchanger'', fd_JSONName := ''dnsMailExchanger'', fd_GoType := goTypeString,
        fd_Scope := FieldScopeResponse\<rparr>,
      zeroFieldDef\<lparr>fd_Name := ''Creator'', fd_JSONName := ''creator'', fd_GoType := goTypeString, fd_Scope := FieldScopeResponse\<rparr>,
      zeroFieldDef\<lparr>fd_Name := ''CreationTime'', fd_JSONName := ''creationTime'', fd_GoType := goTypeInt64,
        fd_Scope := FieldScopeResponse\<rparr>,
      zeroFieldDef\<lparr>fd_Name := ''LastQueried'', fd_JSONName := ''lastQueried'', fd_GoType := goTypeInt64,
        fd_Scope := FieldScopeResponse\<rparr>,
      zeroFieldDef\<lparr>fd_Name := ''DdnsPrincipal'', fd_JSONName := ''ddnsPrincipal'', fd_GoType := goTypeString,
        fd_Scope := FieldScopeResponse\<rparr>,
      zeroFieldDef\<lparr>fd_Name := ''DdnsProtected'', fd_JSONName := ''ddnsProtected'', fd_GoType := goTypeBool,
        fd_Scope := FieldScopeResponse\<rparr>,
      zeroFieldDef\<lparr>fd_Name := ''ForbidReclamation'', fd_JSONName := ''forbidReclamation'', fd_GoType := goTypeBool,
        fd_Scope := FieldScopeResponse\<rparr>,
      zeroFieldDef\<lparr>fd_Name := ''Reclaimable'', fd_JSONName := ''reclaimable'', fd_GoType := goTypeBool,
        fd_Scope := FieldScopeResponse\<rparr>]"

definition mxRecord_Fields2 :: "FieldDef list" where
  "mxRecord_Fields2 =
     [zeroFieldDef\<lparr>fd_Name := ''SharedRecordGroup'', fd_JSONName := ''sharedRecordGroup'', fd_GoType := goTypeString,
        fd_Scope := FieldScopeResponse\<rparr>,
      zeroFieldDef\<lparr>fd_Name := ''AwsRte53RecordInfo'', fd_JSONName := ''awsRte53RecordInfo'',
        fd_GoType := ''*MXRecordAwsRte53RecordInfo'', fd_Scope := FieldScopeResponse\<rparr>,
      zeroFieldDef\<lparr>fd_Name := ''CloudInfo'', fd_JSONName := ''cloudInfo'', fd_GoType := ''*MXRecordCloudInfo'',
        fd_Scope := FieldScopeResponse\<rparr>,
      zeroFieldDef\<lparr>fd_Name := ''MsAdUserData'', fd_JSONName := ''msAdUserData'', fd_GoType := ''*MXRecordMsAdUserData'',
        fd_Scope := FieldScopeResponse\<rparr>]"

definition mxRecord_MXRecordAwsRte53RecordInfo_Fields :: "FieldDef list" where
  "mxRecord_MXRecordAwsRte53RecordInfo_Fields =
     [zeroFieldDef\<lparr>fd_Name := ''AliasTargetDnsName'', fd_JSONName := ''aliasTargetDnsName'', fd_GoType := goTypeString\<rparr>,
      zeroFieldDef\<lparr>fd_Name := ''AliasTargetHostedZoneId'', fd_JSONName := ''aliasTargetHostedZoneId'', fd_GoType := goTypeString\<rparr>,
      zeroFieldDef\<lparr>fd_Name := ''AliasTargetEvaluateTargetHealth'', fd_JSONName := ''aliasTargetEvaluateTargetHealth'',
        fd_GoType := goTypeBool\<rparr>,
      zeroFieldDef\<lparr>fd_Name := ''Failover'', fd_JSONName := ''failover'', fd_GoType := goTypeString\<rparr>,
      zeroFieldDef\<lparr>fd_Name := ''GeolocationContinentCode'', fd_JSONName := ''geolocationContinentCode'',
        fd_GoType := goTypeString\<rparr>,
      zeroFieldDef\<lparr>fd_Name := ''GeolocationCountryCode'', fd_JSONName := ''geolocationCountryCode'', fd_GoType := goTypeString\<rparr>,
      zeroFieldDef\<lparr>fd_Name := ''GeolocationSubdivisionCode'', fd_JSONName := ''geolocationSubdivisionCode'',
        fd_GoType := goTypeString\<rparr>,
      zeroFieldDef\<lparr>fd_Name := ''HealthCheckId'', fd_JSONName := ''healthCheckId'', fd_GoType := goTypeString\<rparr>,
      zeroFieldDef\<lparr>fd_Name := ''Region'', fd_JSONName := ''region'', fd_GoType := goTypeString\<rparr>,
      zeroFieldDef\<lparr>fd_Name := ''SetIdentifier'', fd_JSONName := ''setIdentifier'', fd_GoType := goTypeString\<rparr>,
      zeroFieldDef\<lparr>fd_Name := ''Type'', fd_JSONName := ''type'', fd_GoType := goTypeString\<rparr>,
      zeroFieldDef\<lparr>fd_Name := ''Weight'', fd_JSONName := ''weight'', fd_GoType := goTypeInt64\<rparr>]"

definition mxRecord_MXRecordCloudInfo_Fields :: "FieldDef list" where
  "mxRecord_MXRecordCloudInfo_Fields =
     [zeroFieldDef\<lparr>fd_Name := ''DelegatedMember'', fd_JSONName := ''delegatedMember'',
        fd_GoType := ''*MXRecordCloudInfoDelegatedMember''\<rparr>,
      zeroFieldDef\<lparr>fd_Name := ''DelegatedScope'', fd_JSONName := ''delegatedScope'', fd_GoType := goTypeString\<rparr>,
      zeroFieldDef\<lparr>fd_Name := ''DelegatedRoot'', fd_JSONName := ''delegatedRoot'', fd_GoType := goTypeString\<rparr>,
      zeroFieldDef\<lparr>fd_Name := ''OwnedByAdaptor'', fd_JSONName := ''ownedByAdaptor'', fd_GoType := goTypeBool\<rparr>,
      zeroFieldDef\<lparr>fd_Name := ''Usage'', fd_JSONName := ''usage'', fd_GoType := goTypeString\<rparr>,
      zeroFieldDef\<lparr>fd_Name := ''Tenant'', fd_JSONName := ''tenant'', fd_GoType := goTypeString\<rparr>,
      zeroFieldDef\<lparr>fd_Name := ''MgmtPlatform'', fd_JSONName := ''mgmtPlatform'', fd_GoType := goTypeString\<rparr>,
      zeroFieldDef\<lparr>fd_Name := ''AuthorityType'', fd_JSONName := ''authorityType'', fd_GoType := goTypeString\<rparr>]"

definition mxRecord_MXRecordCloudInfoDelegatedMember_Fields :: "FieldDef list" where
  "mxRecord_MXRecordCloudInfoDelegatedMember_Fields =
     [zeroFieldDef\<lparr>fd_Name := ''Ipv4Addr'', fd_JSONName := ''ipv4addr'', fd_GoType := goTypeString\<rparr>,
      zeroFieldDef\<lparr>fd_Name := ''Ipv6Addr'', fd_JSONName := ''ipv6addr'', fd_GoType := goTypeString\<rparr>,
      zeroFieldDef\<lparr>fd_Name := ''Name'', fd_JSONName := ''name'', fd_GoType := goTypeString\<rparr>]"

definition mxRecord_MXRecordMsAdUserData_Fields :: "FieldDef list" where
  "mxRecord_MXRecordMsAdUserData_Fields =
     [zeroFieldDef\<lparr>fd_Name := ''ActiveUsersCount'', fd_JSONName := ''activeUsersCount'', fd_GoType := goTypeInt64\<rparr>]"

definition mxRecord :: ResourceDescriptor where
  "mxRecord =
     \<lparr>res_Kind = ''MXRecord'', res_Slug = ''recordmx'', res_ClusterGroup = clusterGroup ''recordmx'',
      res_NamespacedGroup = namespacedGroup ''recordmx'', res_ExternalNameStrategy = StrategyServerAssigned,
      res_Fields = mxRecord_Fields1 @ mxRecord_Fields2,
      res_NestedTypes = [\<lparr>nt_TypeName = ''MXRecordAwsRte53RecordInfo'', nt_Fields = mxRecord_MXRecordAwsRte53RecordInfo_Fields\<rparr>,
        \<lparr>nt_TypeName = ''MXRecordCloudInfo'', nt_Fields = mxRecord_MXRecordCloudInfo_Fields\<rparr>,
        \<lparr>nt_TypeName = ''MXRecordCloudInfoDelegatedMember'', nt_Fields = mxRecord_MXRecordCloudInfoDelegatedMember_Fields\<rparr>,
        \<lparr>nt_TypeName = ''MXRecordMsAdUserData'', nt_Fields = mxRecord_MXRecordMsAdUserData_Fields\<rparr>],
      res_ParameterValidations = []\<rparr>"

lemmas mxRecord_parts = mxRecord_def mxRecord_Fields1_def mxRecord_Fields2_def mxRecord_MXRecordAwsRte53RecordInfo_Fields_def mxRecord_MXRecordCloudInfo_Fields_def mxRecord_MXRecordCloudInfoDelegatedMember_Fields_def mxRecord_MXRecordMsAdUserData_Fields_def

section \<open>NSRecord (dns_records.go)\<close>

definition nsRecord_Fields :: "FieldDef list" where
  "nsRecord_Fields =
     [zeroFieldDef\<lparr>fd_Name := ''Name'', fd_JSONName := jsonNameName, fd_GoType := goTypeString, fd_Scope := FieldScopeBoth,
        fd_Required := True, fd_Immutable := True\<rparr>,
      zeroFieldDef\<lparr>fd_Name := ''Nameserver'', fd_JSONName := ''nameserver'', fd_GoType := goTypeString,
        fd_Scope := FieldScopeBoth, fd_Required := True, fd_Immutable := True\<rparr>,
      zeroFieldDef\<lparr>fd_Name := ''View'', fd_JSONName := ''view'', fd_GoType := goTypeString, fd_Scope := FieldScopeBoth,
        fd_Required := True, fd_Immutable := True\<rparr>,
      zeroFieldDef\<lparr>fd_Name := ''Addresses'', fd_JSONName := ''addresses'', fd_GoType := ''[]NSRecordAddress'',
        fd_Scope := FieldScopeBoth, fd_Required := True\<rparr>,
      zeroFieldDef\<lparr>fd_Name := ''MsDelegationName'', fd_JSONName := ''msDelegationName'', fd_GoType := goTypeString,
        fd_Scope := FieldScopeBoth\<rparr>,
      zeroFieldDef\<lparr>fd_Name := ''Ref'', fd_JSONName := ''ref'', fd_GoType := goTypeString, fd_Scope := FieldScopeResponse\<rparr>,
      zeroFieldDef\<lparr>fd_Name := ''Zone'', fd_JSONName := ''zone'', fd_GoType := goTypeString, fd_Scope := FieldScopeResponse,
        fd_Immutable := True\<rparr>,
      zeroFieldDef\<lparr>fd_Name := ''Creator'', fd_JSONName := ''creator'', fd_GoType := goTypeString, fd_Scope := FieldScopeResponse\<rparr>,
      zeroFieldDef\<lparr>fd_Name := ''DNSName'', fd_JSONName := ''dnsName'', fd_GoType := goTypeString, fd_Scope := FieldScopeResponse\<rparr>,
      zeroFieldDef\<lparr>fd_Name := ''LastQueried'', fd_JSONName := ''lastQueried'', fd_GoType := goTypeInt64,
        fd_Scope := FieldScopeResponse\<rparr>,
      zeroFieldDef\<lparr>fd_Name := ''CloudInfo'', fd_JSONName := ''cloudInfo'', fd_GoType := ''*NSRecordCloudInfo'',
        fd_Scope := FieldScopeResponse\<rparr>,
      zeroFieldDef\<lparr>fd_Name := ''Policy'', fd_JSONName := ''policy'', fd_GoType := goTypeString, fd_Scope := FieldScopeResponse\<rparr>]"

definition nsRecord_NSRecordAddress_Fields :: "FieldDef list" where
  "nsRecord_NSRecordAddress_Fields =
     [zeroFieldDef\<lparr>fd_Name := ''Address'', fd_JSONName := ''address'', fd_GoType := goTypeString\<rparr>,
      zeroFieldDef\<lparr>fd_Name := ''AutoCreatePtr'', fd_JSONName := ''autoCreatePtr'', fd_GoType := goTypeBool\<rparr>]"

definition nsRecord_NSRecordCloudInfo_Fields :: "FieldDef list" where
  "nsRecord_NSRecordCloudInfo_Fields =
     [zeroFieldDef\<lparr>fd_Name := ''DelegatedMember'', fd_JSONName := ''delegatedMember'',
        fd_GoType := ''*NSRecordCloudInfoDelegatedMember''\<rparr>,
      zeroFieldDef\<lparr>fd_Name := ''DelegatedScope'', fd_JSONName := ''delegatedScope'', fd_GoType := goTypeString\<rparr>,
      zeroFieldDef\<lparr>fd_Name := ''DelegatedRoot'', fd_JSONName := ''delegatedRoot'', fd_GoType := goTypeString\<rparr>,
      zeroFieldDef\<lparr>fd_Name := ''OwnedByAdaptor'', fd_JSONName := ''ownedByAdaptor'', fd_GoType := goTypeBool\<rparr>,
      zeroFieldDef\<lparr>fd_Name := ''Usage'', fd_JSONName := ''usage'', fd_GoType := goTypeString\<rparr>,
      zeroFieldDef\<lparr>fd_Name := ''Tenant'', fd_JSONName := ''tenant'', fd_GoType := goTypeString\<rparr>,
      zeroFieldDef\<lparr>fd_Name := ''MgmtPlatform'', fd_JSONName := ''mgmtPlatform'', fd_GoType := goTypeString\<rparr>,
      zeroFieldDef\<lparr>fd_Name := ''AuthorityType'', fd_JSONName := ''authorityType'', fd_GoType := goTypeString\<rparr>]"

definition nsRecord_NSRecordCloudInfoDelegatedMember_Fields :: "FieldDef list" where
  "nsRecord_NSRecordCloudInfoDelegatedMember_Fields =
     [zeroFieldDef\<lparr>fd_Name := ''Ipv4Addr'', fd_JSONName := ''ipv4addr'', fd_GoType := goTypeString\<rparr>,
      zeroFieldDef\<lparr>fd_Name := ''Ipv6Addr'', fd_JSONName := ''ipv6addr'', fd_GoType := goTypeString\<rparr>,
      zeroFieldDef\<lparr>fd_Name := ''Name'', fd_JSONName := jsonNameName, fd_GoType := goTypeString\<rparr>]"

definition nsRecord :: ResourceDescriptor where
  "nsRecord =
     \<lparr>res_Kind = ''NSRecord'', res_Slug = ''recordns'', res_ClusterGroup = clusterGroup ''recordns'',
      res_NamespacedGroup = namespacedGroup ''recordns'', res_ExternalNameStrategy = StrategyServerAssigned,
      res_Fields = nsRecord_Fields,
      res_NestedTypes = [\<lparr>nt_TypeName = ''NSRecordAddress'', nt_Fields = nsRecord_NSRecordAddress_Fields\<rparr>,
        \<lparr>nt_TypeName = ''NSRecordCloudInfo'', nt_Fields = nsRecord_NSRecordCloudInfo_Fields\<rparr>,
        \<lparr>nt_TypeName = ''NSRecordCloudInfoDelegatedMember'', nt_Fields = nsRecord_NSRecordCloudInfoDelegatedMember_Fields\<rparr>],
      res_ParameterValidations = []\<rparr>"

lemmas nsRecord_parts = nsRecord_def nsRecord_Fields_def nsRecord_NSRecordAddress_Fields_def nsRecord_NSRecordCloudInfo_Fields_def nsRecord_NSRecordCloudInfoDelegatedMember_Fields_def

section \<open>PTRRecord (dns_records.go)\<close>

definition ptrRecord_Fields1 :: "FieldDef list" where
  "ptrRecord_Fields1 =
     [zeroFieldDef\<lparr>fd_Name := ''Ptrdname'', fd_JSONName := ''ptrdname'', fd_GoType := goTypeString, fd_Scope := FieldScopeBoth,
        fd_Required := True,
        fd_Reference := Some (zeroReferenceDescriptor\<lparr>rd_TargetKind := ''ARecord'', rd_TargetSlug := ''recorda'', rd_Extractor := (extractFieldFuncPath @ (''('' @ [CHR 0x22] @ ''spec.forProvider.name'' @ [CHR 0x22] @ '')''))\<rparr>)\<rparr>,
      zeroFieldDef\<lparr>fd_Name := ''Name'', fd_JSONName := ''name'', fd_GoType := goTypeString, fd_Scope := FieldScopeBoth\<rparr>,
      zeroFieldDef\<lparr>fd_Name := ''IPv4Addr'', fd_JSONName := ''ipv4Addr'', fd_GoType := goTypeString, fd_Scope := FieldScopeBoth\<rparr>,
      zeroFieldDef\<lparr>fd_Name := ''IPv6Addr'', fd_JSONName := ''ipv6Addr'', fd_GoType := goTypeString, fd_Scope := FieldScopeBoth\<rparr>,
      zeroFieldDef\<lparr>fd_Name := ''View'', fd_JSONName := ''view'', fd_GoType := goTypeString, fd_Scope := FieldScopeBoth,
        fd_Required := True, fd_Immutable := True\<rparr>,
      zeroFieldDef\<lparr>fd_Name := ''Comment'', fd_JSONName := ''comment'', fd_GoType := goTypeString, fd_Scope := FieldScopeBoth\<rparr>,
      zeroFieldDef\<lparr>fd_Name := ''TTL'', fd_JSONName := ''ttl'', fd_GoType := goTypeUint32, fd_Scope := FieldScopeBoth,
        fd_Minimum := int64Ptr ttlMinimumSeconds, fd_Maximum := int64Ptr ttlMaximumSeconds\<rparr>,
      zeroFieldDef\<lparr>fd_Name := ''UseTTL'', fd_JSONName := ''useTtl'', fd_GoType := goTypeBool, fd_Scope := FieldScopeBoth\<rparr>,
      zeroFieldDef\<lparr>fd_Name := ''ExtAttrs'', fd_JSONName := ''extAttrs'', fd_GoType := goTypeStringMap,
        fd_Scope := FieldScopeBoth, fd_ForProviderValidations := reservedEAKeyValidations\<rparr>,
      zeroFieldDef\<lparr>fd_Name := ''Cidr'', fd_JSONName := ''cidr'', fd_GoType := goTypeString, fd_Scope := FieldScopeRequest\<rparr>,
      zeroFieldDef\<lparr>fd_Name := ''NetworkView'', fd_JSONName := ''networkView'', fd_GoType := goTypeString,
        fd_Scope := FieldScopeRequest\<rparr>,
      zeroFieldDef\<lparr>fd_Name := ''Ref'', fd_JSONName := ''ref'', fd_GoType := goTypeString, fd_Scope := FieldScopeResponse\<rparr>,
      zeroFieldDef\<lparr>fd_Name := ''Zone'', fd_JSONName := ''zone'', fd_GoType := goTypeString, fd_Scope := FieldScopeResponse,
        fd_Immutable := True\<rparr>,
      zeroFieldDef\<lparr>fd_Name := ''DNSName'', fd_JSONName := ''dnsName'', fd_GoType := goTypeString, fd_Scope := FieldScopeResponse\<rparr>,
      zeroFieldDef\<lparr>fd_Name := ''DNSPtrdname'', fd_JSONName := ''dnsPtrdname'', fd_GoType := goTypeString,
        fd_Scope := FieldScopeResponse\<rparr>,
      zeroFieldDef\<lparr>fd_Name := ''Creator'', fd_JSONName := ''creator'', fd_GoType := goTypeString, fd_Scope := FieldScopeResponse\<rparr>,
      zeroFieldDef\<lparr>fd_Name := ''CreationTime'', fd_JSONName := ''creationTime'', fd_GoType := goTypeInt64,
        fd_Scope := FieldScopeResponse\<rparr>,
      zeroFieldDef\<lparr>fd_Name := ''LastQueried'', fd_JSONName := ''lastQueried'', fd_GoType := goTypeInt64,
        fd_Scope := FieldScopeResponse\<rparr>,
      zeroFieldDef\<lparr>fd_Name := ''DdnsPrincipal'', fd_JSONName := ''ddnsPrincipal'', fd_GoType := goTypeString,
        fd_Scope := FieldScopeResponse\<rparr>]"

definition ptrRecord_Fields2 :: "FieldDef list" where
  "ptrRecord_Fields2 =
     [zeroFieldDef\<lparr>fd_Name := ''DdnsProtected'', fd_JSONName := ''ddnsProtected'', fd_GoType := goTypeBool,
        fd_Scope := FieldScopeResponse\<rparr>,
      zeroFieldDef\<lparr>fd_Name := ''ForbidReclamation'', fd_JSONName := ''forbidReclamation'', fd_GoType := goTypeBool,
        fd_Scope := FieldScopeResponse\<rparr>,
      zeroFieldDef\<lparr>fd_Name := ''Reclaimable'', fd_JSONName := ''reclaimable'', fd_GoType := goTypeBool,
        fd_Scope := FieldScopeResponse\<rparr>,
      zeroFieldDef\<lparr>fd_Name := ''SharedRecordGroup'', fd_JSONName := ''sharedRecordGroup'', fd_GoType := goTypeString,
        fd_Scope := FieldScopeResponse\<rparr>,
      zeroFieldDef\<lparr>fd_Name := ''AwsRte53RecordInfo'', fd_JSONName := ''awsRte53RecordInfo'',
        fd_GoType := ''*PTRRecordAwsRte53RecordInfo'', fd_Scope := FieldScopeResponse\<rparr>,
      zeroFieldDef\<lparr>fd_Name := ''CloudInfo'', fd_JSONName := ''cloudInfo'', fd_GoType := ''*PTRRecordCloudInfo'',
        fd_Scope := FieldScopeResponse\<rparr>,
      zeroFieldDef\<lparr>fd_Name := ''MsAdUserData'', fd_JSONName := ''msAdUserData'', fd_GoType := ''*PTRRecordMsAdUserData'',
        fd_Scope := FieldScopeResponse\<rparr>,
      zeroFieldDef\<lparr>fd_Name := ''DiscoveredData'', fd_JSONName := ''discoveredData'', fd_GoType := ''*PTRRecordDiscoveredData'',
        fd_Scope := FieldScopeResponse\<rparr>]"

definition ptrRecord_PTRRecordAwsRte53RecordInfo_Fields :: "FieldDef list" where
  "ptrRecord_PTRRecordAwsRte53RecordInfo_Fields =
     [zeroFieldDef\<lparr>fd_Name := ''AliasTargetDnsName'', fd_JSONName := ''aliasTargetDnsName'', fd_GoType := goTypeString\<rparr>,
      zeroFieldDef\<lparr>fd_Name := ''AliasTargetHostedZoneId'', fd_JSONName := ''aliasTargetHostedZoneId'', fd_GoType := goTypeString\<rparr>,
      zeroFieldDef\<lparr>fd_Name := ''AliasTargetEvaluateTargetHealth'', fd_JSONName := ''aliasTargetEvaluateTargetHealth'',
        fd_GoType := goTypeBool\<rparr>,
      zeroFieldDef\<lparr>fd_Name := ''Failover'', fd_JSONName := ''failover'', fd_GoType := goTypeString\<rparr>,
      zeroFieldDef\<lparr>fd_Name := ''GeolocationContinentCode'', fd_JSONName := ''geolocationContinentCode'',
        fd_GoType := goTypeString\<rparr>,
      zeroFieldDef\<lparr>fd_Name := ''GeolocationCountryCode'', fd_JSONName := ''geolocationCountryCode'', fd_GoType := goTypeString\<rparr>,
      zeroFieldDef\<lparr>fd_Name := ''GeolocationSubdivisionCode'', fd_JSONName := ''geolocationSubdivisionCode'',
        fd_GoType := goTypeString\<rparr>,
      zeroFieldDef\<lparr>fd_Name := ''HealthCheckId'', fd_JSONName := ''healthCheckId'', fd_GoType := goTypeString\<rparr>,
      zeroFieldDef\<lparr>fd_Name := ''Region'', fd_JSONName := ''region'', fd_GoType := goTypeString\<rparr>,
      zeroFieldDef\<lparr>fd_Name := ''SetIdentifier'', fd_JSONName := ''setIdentifier'', fd_GoType := goTypeString\<rparr>,
      zeroFieldDef\<lparr>fd_Name := ''Type'', fd_JSONName := ''type'', fd_GoType := goTypeString\<rparr>,
      zeroFieldDef\<lparr>fd_Name := ''Weight'', fd_JSONName := ''weight'', fd_GoType := goTypeInt64\<rparr>]"

definition ptrRecord_PTRRecordCloudInfo_Fields :: "FieldDef list" where
  "ptrRecord_PTRRecordCloudInfo_Fields =
     [zeroFieldDef\<lparr>fd_Name := ''DelegatedMember'', fd_JSONName := ''delegatedMember'',
        fd_GoType := ''*PTRRecordCloudInfoDelegatedMember''\<rparr>,
      zeroFieldDef\<lparr>fd_Name := ''DelegatedScope'', fd_JSONName := ''delegatedScope'', fd_GoType := goTypeString\<rparr>,
      zeroFieldDef\<lparr>fd_Name := ''DelegatedRoot'', fd_JSONName := ''delegatedRoot'', fd_GoType := goTypeString\<rparr>,
      zeroFieldDef\<lparr>fd_Name := ''OwnedByAdaptor'', fd_JSONName := ''ownedByAdaptor'', fd_GoType := goTypeBool\<rparr>,
      zeroFieldDef\<lparr>fd_Name := ''Usage'', fd_JSONName := ''usage'', fd_GoType := goTypeString\<rparr>,
      zeroFieldDef\<lparr>fd_Name := ''Tenant'', fd_JSONName := ''tenant'', fd_GoType := goTypeString\<rparr>,
      zeroFieldDef\<lparr>fd_Name := ''MgmtPlatform'', fd_JSONName := ''mgmtPlatform'', fd_GoType := goTypeString\<rparr>,
      zeroFieldDef\<lparr>fd_Name := ''AuthorityType'', fd_JSONName := ''authorityType'', fd_GoType := goTypeString\<rparr>]"

definition ptrRecord_PTRRecordCloudInfoDelegatedMember_Fields :: "FieldDef list" where
  "ptrRecord_PTRRecordCloudInfoDelegatedMember_Fields =
     [zeroFieldDef\<lparr>fd_Name := ''Ipv4Addr'', fd_JSONName := ''ipv4addr'', fd_GoType := goTypeString\<rparr>,
      zeroFieldDef\<lparr>fd_Name := ''Ipv6Addr'', fd_JSONName := ''ipv6addr'', fd_GoType := goTypeString\<rparr>,
      zeroFieldDef\<lparr>fd_Name := ''Name'', fd_JSONName := ''name'', fd_GoType := goTypeString\<rparr>]"

definition ptrRecord_PTRRecordMsAdUserData_Fields :: "FieldDef list" where
  "ptrRecord_PTRRecordMsAdUserData_Fields =
     [zeroFieldDef\<lparr>fd_Name := ''ActiveUsersCount'', fd_JSONName := ''activeUsersCount'', fd_GoType := goTypeInt64\<rparr>]"

definition ptrRecord_PTRRecordDiscoveredData_Fields :: "FieldDef list" where
  "ptrRecord_PTRRecordDiscoveredData_Fields =
     [zeroFieldDef\<lparr>fd_Name := ''DeviceModel'', fd_JSONName := ''deviceModel'', fd_GoType := goTypeString\<rparr>,
      zeroFieldDef\<lparr>fd_Name := ''DevicePortName'', fd_JSONName := ''devicePortName'', fd_GoType := goTypeString\<rparr>,
      zeroFieldDef\<lparr>fd_Name := ''DevicePortType'', fd_JSONName := ''devicePortType'', fd_GoType := goTypeString\<rparr>,
      zeroFieldDef\<lparr>fd_Name := ''DeviceType'', fd_JSONName := ''deviceType'', fd_GoType := goTypeString\<rparr>,
      zeroFieldDef\<lparr>fd_Name := ''DeviceVendor'', fd_JSONName := ''deviceVendor'', fd_GoType := goTypeString\<rparr>,
      zeroFieldDef\<lparr>fd_Name := ''DiscoveredName'', fd_JSONName := ''discoveredName'', fd_GoType := goTypeString\<rparr>,
      zeroFieldDef\<lparr>fd_Name := ''Discoverer'', fd_JSONName := ''discoverer'', fd_GoType := goTypeString\<rparr>,
      zeroFieldDef\<lparr>fd_Name := ''Duid'', fd_JSONName := ''duid'', fd_GoType := goTypeString\<rparr>,
      zeroFieldDef\<lparr>fd_Name := ''FirstDiscovered'', fd_JSONName := ''firstDiscovered'', fd_GoType := goTypeInt64\<rparr>,
      zeroFieldDef\<lparr>fd_Name := ''IprgNo'', fd_JSONName := ''iprgNo'', fd_GoType := goTypeInt64\<rparr>,
      zeroFieldDef\<lparr>fd_Name := ''IprgState'', fd_JSONName := ''iprgState'', fd_GoType := goTypeString\<rparr>,
      zeroFieldDef\<lparr>fd_Name := ''IprgType'', fd_JSONName := ''iprgType'', fd_GoType := goTypeString\<rparr>,
      zeroFieldDef\<lparr>fd_Name := ''LastDiscovered'', fd_JSONName := ''lastDiscovered'', fd_GoType := goTypeInt64\<rparr>,
      zeroFieldDef\<lparr>fd_Name := ''MacAddress'', fd_JSONName := ''macAddress'', fd_GoType := goTypeString\<rparr>,
      zeroFieldDef\<lparr>fd_Name := ''MgmtIpAddress'', fd_JSONName := ''mgmtIpAddress'', fd_GoType := goTypeString\<rparr>,
      zeroFieldDef\<lparr>fd_Name := ''NetbiosName'', fd_JSONName := ''netbiosName'', fd_GoType := goTypeString\<rparr>,
      zeroFieldDef\<lparr>fd_Name := ''NetworkComponentDescription'', fd_JSONName := ''networkComponentDescription'',
        fd_GoType := goTypeString\<rparr>,
      zeroFieldDef\<lparr>fd_Name := ''NetworkComponentIp'', fd_JSONName := ''networkComponentIp'', fd_GoType := goTypeString\<rparr>,
      zeroFieldDef\<lparr>fd_Name := ''NetworkComponentModel'', fd_JSONName := ''networkComponentModel'', fd_GoType := goTypeString\<rparr>,
      zeroFieldDef\<lparr>fd_Name := ''NetworkComponentName'', fd_JSONName := ''networkComponentName'', fd_GoType := goTypeString\<rparr>,
      zeroFieldDef\<lparr>fd_Name := ''NetworkComponentPortDescription'', fd_JSONName := ''networkComponentPortDescription'',
        fd_GoType := goTypeString\<rparr>,
      zeroFieldDef\<lparr>fd_Name := ''NetworkComponentPortName'', fd_JSONName := ''networkComponentPortName'',
        fd_GoType := goTypeString\<rparr>,
      zeroFieldDef\<lparr>fd_Name := ''NetworkComponentPortNumber'', fd_JSONName := ''networkComponentPortNumber'',
        fd_GoType := goTypeString\<rparr>,
      zeroFieldDef\<lparr>fd_Name := ''NetworkComponentType'', fd_JSONName := ''networkComponentType'', fd_GoType := goTypeString\<rparr>,
      zeroFieldDef\<lparr>fd_Name := ''NetworkComponentVendor'', fd_JSONName := ''networkComponentVendor'', fd_GoType := goTypeString\<rparr>,
      zeroFieldDef\<lparr>fd_Name := ''OpenPorts'', fd_JSONName := ''openPorts'', fd_GoType := goTypeString\<rparr>,
      zeroFieldDef\<lparr>fd_Name := ''Os'', fd_JSONName := ''os'', fd_GoType := goTypeString\<rparr>,
      zeroFieldDef\<lparr>fd_Name := ''PortDuplex'', fd_JSONName := ''portDuplex'', fd_GoType := goTypeString\<rparr>,
      zeroFieldDef\<lparr>fd_Name := ''PortLinkStatus'', fd_JSONName := ''portLinkStatus'', fd_GoType := goTypeString\<rparr>,
      zeroFieldDef\<lparr>fd_Name := ''PortSpeed'', fd_JSONName := ''portSpeed'', fd_GoType := goTypeString\<rparr>,
      zeroFieldDef\<lparr>fd_Name := ''PortStatus'', fd_JSONName := ''portStatus'', fd_GoType := goTypeString\<rparr>,
      zeroFieldDef\<lparr>fd_Name := ''PortType'', fd_JSONName := ''portType'', fd_GoType := goTypeString\<rparr>,
      zeroFieldDef\<lparr>fd_Name := ''PortVlanDescription'', fd_JSONName := ''portVlanDescription'', fd_GoType := goTypeString\<rparr>,
      zeroFieldDef\<lparr>fd_Name := ''PortVlanName'', fd_JSONName := ''portVlanName'', fd_GoType := goTypeString\<rparr>,
      zeroFieldDef\<lparr>fd_Name := ''PortVlanNumber'', fd_JSONName := ''portVlanNumber'', fd_GoType := goTypeString\<rparr>,
      zeroFieldDef\<lparr>fd_Name := ''VAdapter'', fd_JSONName := ''vAdapter'', fd_GoType := goTypeString\<rparr>,
      zeroFieldDef\<lparr>fd_Name := ''VCluster'', fd_JSONName := ''vCluster'', fd_GoType := goTypeString\<rparr>,
      zeroFieldDef\<lparr>fd_Name := ''VDatacenter'', fd_JSONName := ''vDatacenter'', fd_GoType := goTypeString\<rparr>,
      zeroFieldDef\<lparr>fd_Name := ''VEntityName'', fd_JSONName := ''vEntityName'', fd_GoType := goTypeString\<rparr>,
      zeroFieldDef\<lparr>fd_Name := ''VEntityType'', fd_JSONName := ''vEntityType'', fd_GoType := goTypeString\<rparr>,
      zeroFieldDef\<lparr>fd_Name := ''VHost'', fd_JSONName := ''vHost'', fd_GoType := goTypeString\<rparr>,
      zeroFieldDef\<lparr>fd_Name := ''VSwitch'', fd_JSONName := ''vSwitch'', fd_GoType := goTypeString\<rparr>,
      zeroFieldDef\<lparr>fd_Name := ''VmiName'', fd_JSONName := ''vmiName'', fd_GoType := goTypeString\<rparr>,
      zeroFieldDef\<lparr>fd_Name := ''VmiId'', fd_JSONName := ''vmiId'', fd_GoType := goTypeString\<rparr>,
      zeroFieldDef\<lparr>fd_Name := ''VlanPortGroup'', fd_JSONName := ''vlanPortGroup'', fd_GoType := goTypeString\<rparr>,
      zeroFieldDef\<lparr>fd_Name := ''VswitchName'', fd_JSONName := ''vswitchName'', fd_GoType := goTypeString\<rparr>,
      zeroFieldDef\<lparr>fd_Name := ''VswitchId'', fd_JSONName := ''vswitchId'', fd_GoType := goTypeString\<rparr>,
      zeroFieldDef\<lparr>fd_Name := ''VswitchType'', fd_JSONName := ''vswitchType'', fd_GoType := goTypeString\<rparr>,
      zeroFieldDef\<lparr>fd_Name := ''VswitchIpv6Enabled'', fd_JSONName := ''vswitchIpv6Enabled'', fd_GoType := goTypeBool\<rparr>,
      zeroFieldDef\<lparr>fd_Name := ''VportName'', fd_JSONName := ''vportName'', fd_GoType := goTypeString\<rparr>,
      zeroFieldDef\<lparr>fd_Name := ''VportMacAddress'', fd_JSONName := ''vportMacAddress'', fd_GoType := goTypeString\<rparr>,
      zeroFieldDef\<lparr>fd_Name := ''VportLinkStatus'', fd_JSONName := ''vportLinkStatus'', fd_GoType := goTypeString\<rparr>,
      zeroFieldDef\<lparr>fd_Name := ''VportConfSpeed'', fd_JSONName := ''vportConfSpeed'', fd_GoType := goTypeString\<rparr>,
      zeroFieldDef\<lparr>fd_Name := ''VportConfMode'', fd_JSONName := ''vportConfMode'', fd_GoType := goTypeString\<rparr>,
      zeroFieldDef\<lparr>fd_Name := ''VportSpeed'', fd_JSONName := ''vportSpeed'', fd_GoType := goTypeString\<rparr>,
      zeroFieldDef\<lparr>fd_Name := ''VportMode'', fd_JSONName := ''vportMode'', fd_GoType := goTypeString\<rparr>,
      zeroFieldDef\<lparr>fd_Name := ''VswitchSegmentType'', fd_JSONName := ''vswitchSegmentType'', fd_GoType := goTypeString\<rparr>,
      zeroFieldDef\<lparr>fd_Name := ''VswitchSegmentName'', fd_JSONName := ''vswitchSegmentName'', fd_GoType := goTypeString\<rparr>,
      zeroFieldDef\<lparr>fd_Name := ''VswitchSegmentId'', fd_JSONName := ''vswitchSegmentId'', fd_GoType := goTypeString\<rparr>,
      zeroFieldDef\<lparr>fd_Name := ''VswitchSegmentPortGroup'', fd_JSONName := ''vswitchSegmentPortGroup'', fd_GoType := goTypeString\<rparr>,
      zeroFieldDef\<lparr>fd_Name := ''VswitchAvailablePortsCount'', fd_JSONName := ''vswitchAvailablePortsCount'',
        fd_GoType := goTypeInt64\<rparr>,
      zeroFieldDef\<lparr>fd_Name := ''VswitchTepType'', fd_JSONName := ''vswitchTepType'', fd_GoType := goTypeString\<rparr>,
      zeroFieldDef\<lparr>fd_Name := ''VswitchTepIp'', fd_JSONName := ''vswitchTepIp'', fd_GoType := goTypeString\<rparr>,
      zeroFieldDef\<lparr>fd_Name := ''VswitchTepPortGroup'', fd_JSONName := ''vswitchTepPortGroup'', fd_GoType := goTypeString\<rparr>,
      zeroFieldDef\<lparr>fd_Name := ''VswitchTepVlan'', fd_JSONName := ''vswitchTepVlan'', fd_GoType := goTypeString\<rparr>,
      zeroFieldDef\<lparr>fd_Name := ''VswitchTepDhcpServer'', fd_JSONName := ''vswitchTepDhcpServer'', fd_GoType := goTypeString\<rparr>,
      zeroFieldDef\<lparr>fd_Name := ''VswitchTepMulticast'', fd_JSONName := ''vswitchTepMulticast'', fd_GoType := goTypeString\<rparr>,
      zeroFieldDef\<lparr>fd_Name := ''VmhostIpAddress'', fd_JSONName := ''vmhostIpAddress'', fd_GoType := goTypeString\<rparr>,
      zeroFieldDef\<lparr>fd_Name := ''VmhostName'', fd_JSONName := ''vmhostName'', fd_GoType := goTypeString\<rparr>,
      zeroFieldDef\<lparr>fd_Name := ''VmhostMacAddress'', fd_JSONName := ''vmhostMacAddress'', fd_GoType := goTypeString\<rparr>,
      zeroFieldDef\<lparr>fd_Name := ''VmhostSubnetCidr'', fd_JSONName := ''vmhostSubnetCidr'', fd_GoType := goTypeInt64\<rparr>,
      zeroFieldDef\<lparr>fd_Name := ''VmhostNicNames'', fd_JSONName := ''vmhostNicNames'', fd_GoType := goTypeString\<rparr>,
      zeroFieldDef\<lparr>fd_Name := ''VmiTenantId'', fd_JSONName := ''vmiTenantId'', fd_GoType := goTypeString\<rparr>,
      zeroFieldDef\<lparr>fd_Name := ''CmpType'', fd_JSONName := ''cmpType'', fd_GoType := goTypeString\<rparr>,
      zeroFieldDef\<lparr>fd_Name := ''VmiIpType'', fd_JSONName := ''vmiIpType'', fd_GoType := goTypeString\<rparr>,
      zeroFieldDef\<lparr>fd_Name := ''VmiPrivateAddress'', fd_JSONName := ''vmiPrivateAddress'', fd_GoType := goTypeString\<rparr>,
      zeroFieldDef\<lparr>fd_Name := ''VmiIsPublicAddress'', fd_JSONName := ''vmiIsPublicAddress'', fd_GoType := goTypeBool\<rparr>,
      zeroFieldDef\<lparr>fd_Name := ''CiscoIseSsid'', fd_JSONName := ''ciscoIseSsid'', fd_GoType := goTypeString\<rparr>,
      zeroFieldDef\<lparr>fd_Name := ''CiscoIseEndpointProfile'', fd_JSONName := ''ciscoIseEndpointProfile'', fd_GoType := goTypeString\<rparr>,
      zeroFieldDef\<lparr>fd_Name := ''CiscoIseSessionState'', fd_JSONName := ''ciscoIseSessionState'', fd_GoType := goTypeString\<rparr>,
      zeroFieldDef\<lparr>fd_Name := ''CiscoIseSecurityGroup'', fd_JSONName := ''ciscoIseSecurityGroup'', fd_GoType := goTypeString\<rparr>,
      zeroFieldDef\<lparr>fd_Name := ''TaskName'', fd_JSONName := ''taskName'', fd_GoType := goTypeString\<rparr>,
      zeroFieldDef\<lparr>fd_Name := ''NetworkComponentLocation'', fd_JSONName := ''networkComponentLocation'',
        fd_GoType := goTypeString\<rparr>,
      zeroFieldDef\<lparr>fd_Name := ''NetworkComponentContact'', fd_JSONName := ''networkComponentContact'', fd_GoType := goTypeString\<rparr>,
      zeroFieldDef\<lparr>fd_Name := ''DeviceLocation'', fd_JSONName := ''deviceLocation'', fd_GoType := goTypeString\<rparr>,
      zeroFieldDef\<lparr>fd_Name := ''DeviceContact'', fd_JSONName := ''deviceContact'', fd_GoType := goTypeString\<rparr>,
      zeroFieldDef\<lparr>fd_Name := ''ApName'', fd_JSONName := ''apName'', fd_GoType := goTypeString\<rparr>,
      zeroFieldDef\<lparr>fd_Name := ''ApIpAddress'', fd_JSONName := ''apIpAddress'', fd_GoType := goTypeString\<rparr>,
      zeroFieldDef\<lparr>fd_Name := ''ApSsid'', fd_JSONName := ''apSsid'', fd_GoType := goTypeString\<rparr>,
      zeroFieldDef\<lparr>fd_Name := ''BridgeDomain'', fd_JSONName := ''bridgeDomain'', fd_GoType := goTypeString\<rparr>,
      zeroFieldDef\<lparr>fd_Name := ''EndpointGroups'', fd_JSONName := ''endpointGroups'', fd_GoType := goTypeString\<rparr>,
      zeroFieldDef\<lparr>fd_Name := ''Tenant'', fd_JSONName := ''tenant'', fd_GoType := goTypeString\<rparr>,
      zeroFieldDef\<lparr>fd_Name := ''VrfName'', fd_JSONName := ''vrfName'', fd_GoType := goTypeString\<rparr>,
      zeroFieldDef\<lparr>fd_Name := ''VrfDescription'', fd_JSONName := ''vrfDescription'', fd_GoType := goTypeString\<rparr>,
      zeroFieldDef\<lparr>fd_Name := ''VrfRd'', fd_JSONName := ''vrfRd'', fd_GoType := goTypeString\<rparr>,
      zeroFieldDef\<lparr>fd_Name := ''BgpAs'', fd_JSONName := ''bgpAs'', fd_GoType := goTypeInt64\<rparr>]"

definition ptrRecord :: ResourceDescriptor where
  "ptrRecord =
     \<lparr>res_Kind = ''PTRRecord'', res_Slug = ''recordptr'', res_ClusterGroup = clusterGroup ''recordptr'',
      res_NamespacedGroup = namespacedGroup ''recordptr'', res_ExternalNameStrategy = StrategyServerAssigned,
      res_Fields = ptrRecord_Fields1 @ ptrRecord_Fields2,
      res_NestedTypes = [\<lparr>nt_TypeName = ''PTRRecordAwsRte53RecordInfo'', nt_Fields = ptrRecord_PTRRecordAwsRte53RecordInfo_Fields\<rparr>,
        \<lparr>nt_TypeName = ''PTRRecordCloudInfo'', nt_Fields = ptrRecord_PTRRecordCloudInfo_Fields\<rparr>,
        \<lparr>nt_TypeName = ''PTRRecordCloudInfoDelegatedMember'', nt_Fields = ptrRecord_PTRRecordCloudInfoDelegatedMember_Fields\<rparr>,
        \<lparr>nt_TypeName = ''PTRRecordMsAdUserData'', nt_Fields = ptrRecord_PTRRecordMsAdUserData_Fields\<rparr>,
        \<lparr>nt_TypeName = ''PTRRecordDiscoveredData'', nt_Fields = ptrRecord_PTRRecordDiscoveredData_Fields\<rparr>],
      res_ParameterValidations = []\<rparr>"

lemmas ptrRecord_parts = ptrRecord_def ptrRecord_Fields1_def ptrRecord_Fields2_def ptrRecord_PTRRecordAwsRte53RecordInfo_Fields_def ptrRecord_PTRRecordCloudInfo_Fields_def ptrRecord_PTRRecordCloudInfoDelegatedMember_Fields_def ptrRecord_PTRRecordMsAdUserData_Fields_def ptrRecord_PTRRecordDiscoveredData_Fields_def

section \<open>SRVRecord (record_srv.go)\<close>

definition srvRecord_Fields1 :: "FieldDef list" where
  "srvRecord_Fields1 =
     [zeroFieldDef\<lparr>fd_Name := ''Name'', fd_JSONName := ''name'', fd_GoType := goTypeString, fd_Scope := FieldScopeBoth,
        fd_Required := True\<rparr>,
      zeroFieldDef\<lparr>fd_Name := ''Target'', fd_JSONName := ''target'', fd_GoType := goTypeString, fd_Scope := FieldScopeBoth,
        fd_Required := True\<rparr>,
      zeroFieldDef\<lparr>fd_Name := ''Priority'', fd_JSONName := ''priority'', fd_GoType := goTypeUint32, fd_Scope := FieldScopeBoth,
        fd_Required := True\<rparr>,
      zeroFieldDef\<lparr>fd_Name := ''Weight'', fd_JSONName := ''weight'', fd_GoType := goTypeUint32, fd_Scope := FieldScopeBoth,
        fd_Required := True\<rparr>,
      zeroFieldDef\<lparr>fd_Name := ''Port'', fd_JSONName := ''port'', fd_GoType := goTypeUint32, fd_Scope := FieldScopeBoth,
        fd_Required := True\<rparr>,
      zeroFieldDef\<lparr>fd_Name := ''Comment'', fd_JSONName := ''comment'', fd_GoType := goTypeString, fd_Scope := FieldScopeBoth\<rparr>,
      zeroFieldDef\<lparr>fd_Name := ''TTL'', fd_JSONName := ''ttl'', fd_GoType := goTypeUint32, fd_Scope := FieldScopeBoth,
        fd_Minimum := int64Ptr ttlMinimumSeconds, fd_Maximum := int64Ptr ttlMaximumSeconds\<rparr>,
      zeroFieldDef\<lparr>fd_Name := ''UseTTL'', fd_JSONName := ''useTtl'', fd_GoType := goTypeBool, fd_Scope := FieldScopeBoth\<rparr>,
      zeroFieldDef\<lparr>fd_Name := ''ExtAttrs'', fd_JSONName := ''extAttrs'', fd_GoType := goTypeStringMap,
        fd_Scope := FieldScopeBoth, fd_ForProviderValidations := reservedEAKeyValidations\<rparr>,
      zeroFieldDef\<lparr>fd_Name := ''View'', fd_JSONName := ''view'', fd_GoType := goTypeString, fd_Scope := FieldScopeBoth,
        fd_Required := True, fd_Immutable := True\<rparr>,
      zeroFieldDef\<lparr>fd_Name := ''Ref'', fd_JSONName := ''ref'', fd_GoType := goTypeString, fd_Scope := FieldScopeResponse\<rparr>,
      zeroFieldDef\<lparr>fd_Name := ''Zone'', fd_JSONName := ''zone'', fd_GoType := goTypeString, fd_Scope := FieldScopeResponse,
        fd_Immutable := True\<rparr>,
      zeroFieldDef\<lparr>fd_Name := ''DNSName'', fd_JSONName := ''dnsName'', fd_GoType := goTypeString, fd_Scope := FieldScopeResponse\<rparr>,
      zeroFieldDef\<lparr>fd_Name := ''DNSTarget'', fd_JSONName := ''dnsTarget'', fd_GoType := goTypeString,
        fd_Scope := FieldScopeResponse\<rparr>,
      zeroFieldDef\<lparr>fd_Name := ''Creator'', fd_JSONName := ''creator'', fd_GoType := goTypeString, fd_Scope := FieldScopeResponse\<rparr>,
      zeroFieldDef\<lparr>fd_Name := ''CreationTime'', fd_JSONName := ''creationTime'', fd_GoType := goTypeInt64,
        fd_Scope := FieldScopeResponse\<rparr>,
      zeroFieldDef\<lparr>fd_Name := ''LastQueried'', fd_JSONName := ''lastQueried'', fd_GoType := goTypeInt64,
        fd_Scope := FieldScopeResponse\<rparr>,
      zeroFieldDef\<lparr>fd_Name := ''DdnsPrincipal'', fd_JSONName := ''ddnsPrincipal'', fd_GoType := goTypeString,
        fd_Scope := FieldScopeResponse\<rparr>,
      zeroFieldDef\<lparr>fd_Name := ''DdnsProtected'', fd_JSONName := ''ddnsProtected'', fd_GoType := goTypeBool,
        fd_Scope := FieldScopeResponse\<rparr>]"

definition srvRecord_Fields2 :: "FieldDef list" where
  "srvRecord_Fields2 =
     [zeroFieldDef\<lparr>fd_Name := ''ForbidReclamation'', fd_JSONName := ''forbidReclamation'', fd_GoType := goTypeBool,
        fd_Scope := FieldScopeResponse\<rparr>,
      zeroFieldDef\<lparr>fd_Name := ''Reclaimable'', fd_JSONName := ''reclaimable'', fd_GoType := goTypeBool,
        fd_Scope := FieldScopeResponse\<rparr>,
      zeroFieldDef\<lparr>fd_Name := ''SharedRecordGroup'', fd_JSONName := ''sharedRecordGroup'', fd_GoType := goTypeString,
        fd_Scope := FieldScopeResponse\<rparr>,
      zeroFieldDef\<lparr>fd_Name := ''AwsRte53RecordInfo'', fd_JSONName := ''awsRte53RecordInfo'',
        fd_GoType := ''*SRVRecordAwsRte53RecordInfo'', fd_Scope := FieldScopeResponse\<rparr>,
      zeroFieldDef\<lparr>fd_Name := ''CloudInfo'', fd_JSONName := ''cloudInfo'', fd_GoType := ''*SRVRecordCloudInfo'',
        fd_Scope := FieldScopeResponse\<rparr>,
      zeroFieldDef\<lparr>fd_Name := ''MsAdUserData'', fd_JSONName := ''msAdUserData'', fd_GoType := ''*SRVRecordMsAdUserData'',
        fd_Scope := FieldScopeResponse\<rparr>]"

definition srvRecord_SRVRecordAwsRte53RecordInfo_Fields :: "FieldDef list" where
  "srvRecord_SRVRecordAwsRte53RecordInfo_Fields =
     [zeroFieldDef\<lparr>fd_Name := ''AliasTargetDnsName'', fd_JSONName := ''aliasTargetDnsName'', fd_GoType := goTypeString\<rparr>,
      zeroFieldDef\<lparr>fd_Name := ''AliasTargetHostedZoneId'', fd_JSONName := ''aliasTargetHostedZoneId'', fd_GoType := goTypeString\<rparr>,
      zeroFieldDef\<lparr>fd_Name := ''AliasTargetEvaluateTargetHealth'', fd_JSONName := ''aliasTargetEvaluateTargetHealth'',
        fd_GoType := goTypeBool\<rparr>,
      zeroFieldDef\<lparr>fd_Name := ''Failover'', fd_JSONName := ''failover'', fd_GoType := goTypeString\<rparr>,
      zeroFieldDef\<lparr>fd_Name := ''GeolocationContinentCode'', fd_JSONName := ''geolocationContinentCode'',
        fd_GoType := goTypeString\<rparr>,
      zeroFieldDef\<lparr>fd_Name := ''GeolocationCountryCode'', fd_JSONName := ''geolocationCountryCode'', fd_GoType := goTypeString\<rparr>,
      zeroFieldDef\<lparr>fd_Name := ''GeolocationSubdivisionCode'', fd_JSONName := ''geolocationSubdivisionCode'',
        fd_GoType := goTypeString\<rparr>,
      zeroFieldDef\<lparr>fd_Name := ''HealthCheckId'', fd_JSONName := ''healthCheckId'', fd_GoType := goTypeString\<rparr>,
      zeroFieldDef\<lparr>fd_Name := ''Region'', fd_JSONName := ''region'', fd_GoType := goTypeString\<rparr>,
      zeroFieldDef\<lparr>fd_Name := ''SetIdentifier'', fd_JSONName := ''setIdentifier'', fd_GoType := goTypeString\<rparr>,
      zeroFieldDef\<lparr>fd_Name := ''Type'', fd_JSONName := ''type'', fd_GoType := goTypeString\<rparr>,
      zeroFieldDef\<lparr>fd_Name := ''Weight'', fd_JSONName := ''weight'', fd_GoType := goTypeUint32\<rparr>]"

definition srvRecord_SRVRecordCloudInfo_Fields :: "FieldDef list" where
  "srvRecord_SRVRecordCloudInfo_Fields =
     [zeroFieldDef\<lparr>fd_Name := ''DelegatedMember'', fd_JSONName := ''delegatedMember'',
        fd_GoType := ''*SRVRecordCloudInfoDelegatedMember''\<rparr>,
      zeroFieldDef\<lparr>fd_Name := ''DelegatedScope'', fd_JSONName := ''delegatedScope'', fd_GoType := goTypeString\<rparr>,
      zeroFieldDef\<lparr>fd_Name := ''DelegatedRoot'', fd_JSONName := ''delegatedRoot'', fd_GoType := goTypeString\<rparr>,
      zeroFieldDef\<lparr>fd_Name := ''OwnedByAdaptor'', fd_JSONName := ''ownedByAdaptor'', fd_GoType := goTypeBool\<rparr>,
      zeroFieldDef\<lparr>fd_Name := ''Usage'', fd_JSONName := ''usage'', fd_GoType := goTypeString\<rparr>,
      zeroFieldDef\<lparr>fd_Name := ''Tenant'', fd_JSONName := ''tenant'', fd_GoType := goTypeString\<rparr>,
      zeroFieldDef\<lparr>fd_Name := ''MgmtPlatform'', fd_JSONName := ''mgmtPlatform'', fd_GoType := goTypeString\<rparr>,
      zeroFieldDef\<lparr>fd_Name := ''AuthorityType'', fd_JSONName := ''authorityType'', fd_GoType := goTypeString\<rparr>]"

definition srvRecord_SRVRecordCloudInfoDelegatedMember_Fields :: "FieldDef list" where
  "srvRecord_SRVRecordCloudInfoDelegatedMember_Fields =
     [zeroFieldDef\<lparr>fd_Name := ''Ipv4Addr'', fd_JSONName := ''ipv4addr'', fd_GoType := goTypeString\<rparr>,
      zeroFieldDef\<lparr>fd_Name := ''Ipv6Addr'', fd_JSONName := ''ipv6addr'', fd_GoType := goTypeString\<rparr>,
      zeroFieldDef\<lparr>fd_Name := ''Name'', fd_JSONName := ''name'', fd_GoType := goTypeString\<rparr>]"

definition srvRecord_SRVRecordMsAdUserData_Fields :: "FieldDef list" where
  "srvRecord_SRVRecordMsAdUserData_Fields =
     [zeroFieldDef\<lparr>fd_Name := ''ActiveUsersCount'', fd_JSONName := ''activeUsersCount'', fd_GoType := goTypeUint32\<rparr>]"

definition srvRecord :: ResourceDescriptor where
  "srvRecord =
     \<lparr>res_Kind = ''SRVRecord'', res_Slug = ''recordsrv'', res_ClusterGroup = clusterGroup ''recordsrv'',
      res_NamespacedGroup = namespacedGroup ''recordsrv'', res_ExternalNameStrategy = StrategyServerAssigned,
      res_Fields = srvRecord_Fields1 @ srvRecord_Fields2,
      res_NestedTypes = [\<lparr>nt_TypeName = ''SRVRecordAwsRte53RecordInfo'', nt_Fields = srvRecord_SRVRecordAwsRte53RecordInfo_Fields\<rparr>,
        \<lparr>nt_TypeName = ''SRVRecordCloudInfo'', nt_Fields = srvRecord_SRVRecordCloudInfo_Fields\<rparr>,
        \<lparr>nt_TypeName = ''SRVRecordCloudInfoDelegatedMember'', nt_Fields = srvRecord_SRVRecordCloudInfoDelegatedMember_Fields\<rparr>,
        \<lparr>nt_TypeName = ''SRVRecordMsAdUserData'', nt_Fields = srvRecord_SRVRecordMsAdUserData_Fields\<rparr>],
      res_ParameterValidations = []\<rparr>"

lemmas srvRecord_parts = srvRecord_def srvRecord_Fields1_def srvRecord_Fields2_def srvRecord_SRVRecordAwsRte53RecordInfo_Fields_def srvRecord_SRVRecordCloudInfo_Fields_def srvRecord_SRVRecordCloudInfoDelegatedMember_Fields_def srvRecord_SRVRecordMsAdUserData_Fields_def

section \<open>TXTRecord (record_txt.go)\<close>

definition txtRecord_Fields1 :: "FieldDef list" where
  "txtRecord_Fields1 =
     [zeroFieldDef\<lparr>fd_Name := ''Name'', fd_JSONName := ''name'', fd_GoType := goTypeString, fd_Scope := FieldScopeBoth,
        fd_Required := True\<rparr>,
      zeroFieldDef\<lparr>fd_Name := ''Text'', fd_JSONName := ''text'', fd_GoType := goTypeString, fd_Scope := FieldScopeBoth,
        fd_Required := True\<rparr>,
      zeroFieldDef\<lparr>fd_Name := ''Comment'', fd_JSONName := ''comment'', fd_GoType := goTypeString, fd_Scope := FieldScopeBoth\<rparr>,
      zeroFieldDef\<lparr>fd_Name := ''TTL'', fd_JSONName := ''ttl'', fd_GoType := goTypeUint32, fd_Scope := FieldScopeBoth,
        fd_Minimum := int64Ptr ttlMinimumSeconds, fd_Maximum := int64Ptr ttlMaximumSeconds\<rparr>,
      zeroFieldDef\<lparr>fd_Name := ''UseTTL'', fd_JSONName := ''useTtl'', fd_GoType := goTypeBool, fd_Scope := FieldScopeBoth\<rparr>,
      zeroFieldDef\<lparr>fd_Name := ''ExtAttrs'', fd_JSONName := ''extAttrs'', fd_GoType := goTypeStringMap,
        fd_Scope := FieldScopeBoth, fd_ForProviderValidations := reservedEAKeyValidations\<rparr>,
      zeroFieldDef\<lparr>fd_Name := ''View'', fd_JSONName := ''view'', fd_GoType := goTypeString, fd_Scope := FieldScopeBoth,
        fd_Required := True, fd_Immutable := True\<rparr>,
      zeroFieldDef\<lparr>fd_Name := ''Ref'', fd_JSONName := ''ref'', fd_GoType := goTypeString, fd_Scope := FieldScopeResponse\<rparr>,
      zeroFieldDef\<lparr>fd_Name := ''Zone'', fd_JSONName := ''zone'', fd_GoType := goTypeString, fd_Scope := FieldScopeResponse,
        fd_Immutable := True\<rparr>,
      zeroFieldDef\<lparr>fd_Name := ''DNSName'', fd_JSONName := ''dnsName'', fd_GoType := goTypeString, fd_Scope := FieldScopeResponse\<rparr>,
      zeroFieldDef\<lparr>fd_Name := ''Creator'', fd_JSONName := ''creator'', fd_GoType := goTypeString, fd_Scope := FieldScopeResponse\<rparr>,
      zeroFieldDef\<lparr>fd_Name := ''CreationTime'', fd_JSONName := ''creationTime'', fd_GoType := goTypeInt64,
        fd_Scope := FieldScopeResponse\<rparr>,
      zeroFieldDef\<lparr>fd_Name := ''LastQueried'', fd_JSONName := ''lastQueried'', fd_GoType := goTypeInt64,
        fd_Scope := FieldScopeResponse\<rparr>,
      zeroFieldDef\<lparr>fd_Name := ''DdnsPrincipal'', fd_JSONName := ''ddnsPrincipal'', fd_GoType := goTypeString,
        fd_Scope := FieldScopeResponse\<rparr>,
      zeroFieldDef\<lparr>fd_Name := ''DdnsProtected'', fd_JSONName := ''ddnsProtected'', fd_GoType := goTypeBool,
        fd_Scope := FieldScopeResponse\<rparr>,
      zeroFieldDef\<lparr>fd_Name := ''ForbidReclamation'', fd_JSONName := ''forbidReclamation'', fd_GoType := goTypeBool,
        fd_Scope := FieldScopeResponse\<rparr>,
      zeroFieldDef\<lparr>fd_Name := ''Reclaimable'', fd_JSONName := ''reclaimable'', fd_GoType := goTypeBool,
        fd_Scope := FieldScopeResponse\<rparr>,
      zeroFieldDef\<lparr>fd_Name := ''SharedRecordGroup'', fd_JSONName := ''sharedRecordGroup'', fd_GoType := goTypeString,
        fd_Scope := FieldScopeResponse\<rparr>,
      zeroFieldDef\<lparr>fd_Name := ''AwsRte53RecordInfo'', fd_JSONName := ''awsRte53RecordInfo'',
        fd_GoType := ''*TXTRecordAwsRte53RecordInfo'', fd_Scope := FieldScopeResponse\<rparr>]"

definition txtRecord_Fields2 :: "FieldDef list" where
  "txtRecord_Fields2 =
     [zeroFieldDef\<lparr>fd_Name := ''CloudInfo'', fd_JSONName := ''cloudInfo'', fd_GoType := ''*TXTRecordCloudInfo'',
        fd_Scope := FieldScopeResponse\<rparr>,
      zeroFieldDef\<lparr>fd_Name := ''MsAdUserData'', fd_JSONName := ''msAdUserData'', fd_GoType := ''*TXTRecordMsAdUserData'',
        fd_Scope := FieldScopeResponse\<rparr>]"

definition txtRecord_TXTRecordAwsRte53RecordInfo_Fields :: "FieldDef list" where
  "txtRecord_TXTRecordAwsRte53RecordInfo_Fields =
     [zeroFieldDef\<lparr>fd_Name := ''AliasTargetDnsName'', fd_JSONName := ''aliasTargetDnsName'', fd_GoType := goTypeString\<rparr>,
      zeroFieldDef\<lparr>fd_Name := ''AliasTargetHostedZoneId'', fd_JSONName := ''aliasTargetHostedZoneId'', fd_GoType := goTypeString\<rparr>,
      zeroFieldDef\<lparr>fd_Name := ''AliasTargetEvaluateTargetHealth'', fd_JSONName := ''aliasTargetEvaluateTargetHealth'',
        fd_GoType := goTypeBool\<rparr>,
      zeroFieldDef\<lparr>fd_Name := ''Failover'', fd_JSONName := ''failover'', fd_GoType := goTypeString\<rparr>,
      zeroFieldDef\<lparr>fd_Name := ''GeolocationContinentCode'', fd_JSONName := ''geolocationContinentCode'',
        fd_GoType := goTypeString\<rparr>,
      zeroFieldDef\<lparr>fd_Name := ''GeolocationCountryCode'', fd_JSONName := ''geolocationCountryCode'', fd_GoType := goTypeString\<rparr>,
      zeroFieldDef\<lparr>fd_Name := ''GeolocationSubdivisionCode'', fd_JSONName := ''geolocationSubdivisionCode'',
        fd_GoType := goTypeString\<rparr>,
      zeroFieldDef\<lparr>fd_Name := ''HealthCheckId'', fd_JSONName := ''healthCheckId'', fd_GoType := goTypeString\<rparr>,
      zeroFieldDef\<lparr>fd_Name := ''Region'', fd_JSONName := ''region'', fd_GoType := goTypeString\<rparr>,
      zeroFieldDef\<lparr>fd_Name := ''SetIdentifier'', fd_JSONName := ''setIdentifier'', fd_GoType := goTypeString\<rparr>,
      zeroFieldDef\<lparr>fd_Name := ''Type'', fd_JSONName := ''type'', fd_GoType := goTypeString\<rparr>,
      zeroFieldDef\<lparr>fd_Name := ''Weight'', fd_JSONName := ''weight'', fd_GoType := goTypeInt64\<rparr>]"

definition txtRecord_TXTRecordCloudInfo_Fields :: "FieldDef list" where
  "txtRecord_TXTRecordCloudInfo_Fields =
     [zeroFieldDef\<lparr>fd_Name := ''DelegatedMember'', fd_JSONName := ''delegatedMember'',
        fd_GoType := ''*TXTRecordCloudInfoDelegatedMember''\<rparr>,
      zeroFieldDef\<lparr>fd_Name := ''DelegatedScope'', fd_JSONName := ''delegatedScope'', fd_GoType := goTypeString\<rparr>,
      zeroFieldDef\<lparr>fd_Name := ''DelegatedRoot'', fd_JSONName := ''delegatedRoot'', fd_GoType := goTypeString\<rparr>,
      zeroFieldDef\<lparr>fd_Name := ''OwnedByAdaptor'', fd_JSONName := ''ownedByAdaptor'', fd_GoType := goTypeBool\<rparr>,
      zeroFieldDef\<lparr>fd_Name := ''Usage'', fd_JSONName := ''usage'', fd_GoType := goTypeString\<rparr>,
      zeroFieldDef\<lparr>fd_Name := ''Tenant'', fd_JSONName := ''tenant'', fd_GoType := goTypeString\<rparr>,
      zeroFieldDef\<lparr>fd_Name := ''MgmtPlatform'', fd_JSONName := ''mgmtPlatform'', fd_GoType := goTypeString\<rparr>,
      zeroFieldDef\<lparr>fd_Name := ''AuthorityType'', fd_JSONName := ''authorityType'', fd_GoType := goTypeString\<rparr>]"

definition txtRecord_TXTRecordCloudInfoDelegatedMember_Fields :: "FieldDef list" where
  "txtRecord_TXTRecordCloudInfoDelegatedMember_Fields =
     [zeroFieldDef\<lparr>fd_Name := ''Ipv4Addr'', fd_JSONName := ''ipv4addr'', fd_GoType := goTypeString\<rparr>,
      zeroFieldDef\<lparr>fd_Name := ''Ipv6Addr'', fd_JSONName := ''ipv6addr'', fd_GoType := goTypeString\<rparr>,
      zeroFieldDef\<lparr>fd_Name := ''Name'', fd_JSONName := ''name'', fd_GoType := goTypeString\<rparr>]"

definition txtRecord_TXTRecordMsAdUserData_Fields :: "FieldDef list" where
  "txtRecord_TXTRecordMsAdUserData_Fields =
     [zeroFieldDef\<lparr>fd_Name := ''ActiveUsersCount'', fd_JSONName := ''activeUsersCount'', fd_GoType := goTypeInt64\<rparr>]"

definition txtRecord :: ResourceDescriptor where
  "txtRecord =
     \<lparr>res_Kind = ''TXTRecord'', res_Slug = ''recordtxt'', res_ClusterGroup = clusterGroup ''recordtxt'',
      res_NamespacedGroup = namespacedGroup ''recordtxt'', res_ExternalNameStrategy = StrategyServerAssigned,
      res_Fields = txtRecord_Fields1 @ txtRecord_Fields2,
      res_NestedTypes = [\<lparr>nt_TypeName = ''TXTRecordAwsRte53RecordInfo'', nt_Fields = txtRecord_TXTRecordAwsRte53RecordInfo_Fields\<rparr>,
        \<lparr>nt_TypeName = ''TXTRecordCloudInfo'', nt_Fields = txtRecord_TXTRecordCloudInfo_Fields\<rparr>,
        \<lparr>nt_TypeName = ''TXTRecordCloudInfoDelegatedMember'', nt_Fields = txtRecord_TXTRecordCloudInfoDelegatedMember_Fields\<rparr>,
        \<lparr>nt_TypeName = ''TXTRecordMsAdUserData'', nt_Fields = txtRecord_TXTRecordMsAdUserData_Fields\<rparr>],
      res_ParameterValidations = []\<rparr>"

lemmas txtRecord_parts = txtRecord_def txtRecord_Fields1_def txtRecord_Fields2_def txtRecord_TXTRecordAwsRte53RecordInfo_Fields_def txtRecord_TXTRecordCloudInfo_Fields_def txtRecord_TXTRecordCloudInfoDelegatedMember_Fields_def txtRecord_TXTRecordMsAdUserData_Fields_def

end
