(* ===== verification/CatalogNetworks.thy ===== *)
theory CatalogNetworks
  imports CatalogTypes
begin

text \<open>
  The resource catalog (tools/openapi2crd/pkg/catalog), zones, networks and DTC objects: one definition per descriptor function, with
  its field lists and those of its nested types as definitions of their own. The descriptions, which become
  comments of the generated source, are left out.
\<close>

section \<open>ZoneAuth (zones.go)\<close>

definition zoneAuth_Fields :: "FieldDef list" where
  "zoneAuth_Fields =
     [zeroFieldDef\<lparr>fd_Name := ''FQDN'', fd_JSONName := ''fqdn'', fd_GoType := goTypeString, fd_Scope := FieldScopeBoth,
        fd_Required := True, fd_Immutable := True\<rparr>,
      zeroFieldDef\<lparr>fd_Name := ''View'', fd_JSONName := ''view'', fd_GoType := goTypeString, fd_Scope := FieldScopeBoth,
        fd_Immutable := True\<rparr>,
      zeroFieldDef\<lparr>fd_Name := ''ZoneFormat'', fd_JSONName := ''zoneFormat'', fd_GoType := goTypeString,
        fd_Scope := FieldScopeBoth, fd_Immutable := True, fd_Enum := [''FORWARD'', ''IPV4'', ''IPV6'']\<rparr>,
      zeroFieldDef\<lparr>fd_Name := ''Comment'', fd_JSONName := ''comment'', fd_GoType := goTypeString, fd_Scope := FieldScopeBoth\<rparr>,
      zeroFieldDef\<lparr>fd_Name := ''Disable'', fd_JSONName := ''disable'', fd_GoType := goTypeBool, fd_Scope := FieldScopeBoth\<rparr>,
      zeroFieldDef\<lparr>fd_Name := ''SoaDefaultTTL'', fd_JSONName := ''soaDefaultTtl'', fd_GoType := goTypeUint32,
        fd_Scope := FieldScopeBoth, fd_Minimum := int64Ptr ttlMinimumSeconds,
        fd_Maximum := int64Ptr ttlMaximumSeconds\<rparr>,
      zeroFieldDef\<lparr>fd_Name := ''SoaExpire'', fd_JSONName := ''soaExpire'', fd_GoType := goTypeUint32, fd_Scope := FieldScopeBoth\<rparr>,
      zeroFieldDef\<lparr>fd_Name := ''SoaNegativeTTL'', fd_JSONName := ''soaNegativeTtl'', fd_GoType := goTypeUint32,
        fd_Scope := FieldScopeBoth, fd_Minimum := int64Ptr ttlMinimumSeconds,
        fd_Maximum := int64Ptr ttlMaximumSeconds\<rparr>,
      zeroFieldDef\<lparr>fd_Name := ''SoaRefresh'', fd_JSONName := ''soaRefresh'', fd_GoType := goTypeUint32,
        fd_Scope := FieldScopeBoth\<rparr>,
      zeroFieldDef\<lparr>fd_Name := ''SoaRetry'', fd_JSONName := ''soaRetry'', fd_GoType := goTypeUint32, fd_Scope := FieldScopeBoth\<rparr>,
      zeroFieldDef\<lparr>fd_Name := ''UseGridZoneTimer'', fd_JSONName := ''useGridZoneTimer'', fd_GoType := goTypeBool,
        fd_Scope := FieldScopeBoth\<rparr>,
      zeroFieldDef\<lparr>fd_Name := ''NsGroup'', fd_JSONName := ''nsGroup'', fd_GoType := goTypeString, fd_Scope := FieldScopeBoth\<rparr>,
      zeroFieldDef\<lparr>fd_Name := ''ExtAttrs'', fd_JSONName := ''extAttrs'', fd_GoType := goTypeStringMap,
        fd_Scope := FieldScopeBoth, fd_ForProviderValidations := reservedEAKeyValidations\<rparr>,
      zeroFieldDef\<lparr>fd_Name := ''GridPrimary'', fd_JSONName := ''gridPrimary'', fd_GoType := ''[]MemberServer'',
        fd_Scope := FieldScopeBoth\<rparr>,
      zeroFieldDef\<lparr>fd_Name := ''GridSecondaries'', fd_JSONName := ''gridSecondaries'', fd_GoType := ''[]MemberServer'',
        fd_Scope := FieldScopeBoth\<rparr>,
      zeroFieldDef\<lparr>fd_Name := ''ExternalPrimaries'', fd_JSONName := ''externalPrimaries'', fd_GoType := ''[]ExternalServer'',
        fd_Scope := FieldScopeBoth\<rparr>,
      zeroFieldDef\<lparr>fd_Name := ''ExternalSecondaries'', fd_JSONName := ''externalSecondaries'',
        fd_GoType := ''[]ExternalServer'', fd_Scope := FieldScopeBoth\<rparr>,
      zeroFieldDef\<lparr>fd_Name := ''Ref'', fd_JSONName := ''ref'', fd_GoType := goTypeString, fd_Scope := FieldScopeResponse\<rparr>]"

definition zoneAuth_MemberServer_Fields :: "FieldDef list" where
  "zoneAuth_MemberServer_Fields =
     [zeroFieldDef\<lparr>fd_Name := ''Name'', fd_JSONName := ''name'', fd_GoType := goTypeString\<rparr>,
      zeroFieldDef\<lparr>fd_Name := ''Stealth'', fd_JSONName := ''stealth'', fd_GoType := goTypeBool\<rparr>,
      zeroFieldDef\<lparr>fd_Name := ''GridReplicate'', fd_JSONName := ''gridReplicate'', fd_GoType := goTypeBool\<rparr>,
      zeroFieldDef\<lparr>fd_Name := ''Lead'', fd_JSONName := ''lead'', fd_GoType := goTypeBool\<rparr>,
      zeroFieldDef\<lparr>fd_Name := ''PreferredPrimaries'', fd_JSONName := ''preferredPrimaries'', fd_GoType := ''[]ExternalServer''\<rparr>,
      zeroFieldDef\<lparr>fd_Name := ''EnablePreferredPrimaries'', fd_JSONName := ''enablePreferredPrimaries'', fd_GoType := goTypeBool\<rparr>]"

definition zoneAuth_ExternalServer_Fields :: "FieldDef list" where
  "zoneAuth_ExternalServer_Fields =
     [zeroFieldDef\<lparr>fd_Name := ''Address'', fd_JSONName := ''address'', fd_GoType := goTypeString\<rparr>,
      zeroFieldDef\<lparr>fd_Name := ''Name'', fd_JSONName := ''name'', fd_GoType := goTypeString\<rparr>,
      zeroFieldDef\<lparr>fd_Name := ''Stealth'', fd_JSONName := ''stealth'', fd_GoType := goTypeBool\<rparr>,
      zeroFieldDef\<lparr>fd_Name := ''SharedWithMsParentDelegation'', fd_JSONName := ''sharedWithMsParentDelegation'',
        fd_GoType := goTypeBool\<rparr>,
      zeroFieldDef\<lparr>fd_Name := ''TsigKey'', fd_JSONName := ''tsigKey'', fd_GoType := goTypeString\<rparr>,
      zeroFieldDef\<lparr>fd_Name := ''TsigKeyAlg'', fd_JSONName := ''tsigKeyAlg'', fd_GoType := goTypeString\<rparr>,
      zeroFieldDef\<lparr>fd_Name := ''TsigKeyName'', fd_JSONName := ''tsigKeyName'', fd_GoType := goTypeString\<rparr>,
      zeroFieldDef\<lparr>fd_Name := ''UseTsigKeyName'', fd_JSONName := ''useTsigKeyName'', fd_GoType := goTypeBool\<rparr>]"

definition zoneAuth :: ResourceDescriptor where
  "zoneAuth =
     \<lparr>res_Kind = ''ZoneAuth'', res_Slug = ''zoneauth'', res_ClusterGroup = clusterGroup ''zoneauth'',
      res_NamespacedGroup = namespacedGroup ''zoneauth'', res_ExternalNameStrategy = StrategyServerAssigned,
      res_Fields = zoneAuth_Fields,
      res_NestedTypes = [\<lparr>nt_TypeName = ''MemberServer'', nt_Fields = zoneAuth_MemberServer_Fields\<rparr>,
        \<lparr>nt_TypeName = ''ExternalServer'', nt_Fields = zoneAuth_ExternalServer_Fields\<rparr>],
      res_ParameterValidations = []\<rparr>"

lemmas zoneAuth_parts = zoneAuth_def zoneAuth_Fields_def zoneAuth_MemberServer_Fields_def zoneAuth_ExternalServer_Fields_def

section \<open>ZoneDelegated (zone_delegated.go)\<close>

definition zoneDelegated_Fields :: "FieldDef list" where
  "zoneDelegated_Fields =
     [zeroFieldDef\<lparr>fd_Name := ''Fqdn'', fd_JSONName := ''fqdn'', fd_GoType := goTypeString, fd_Scope := FieldScopeBoth,
        fd_Required := True, fd_Immutable := True\<rparr>,
      zeroFieldDef\<lparr>fd_Name := ''DelegateTo'', fd_JSONName := ''delegateTo'', fd_GoType := ''[]ZoneDelegatedNameServer'',
        fd_Scope := FieldScopeBoth, fd_Required := True\<rparr>,
      zeroFieldDef\<lparr>fd_Name := ''View'', fd_JSONName := ''view'', fd_GoType := goTypeString, fd_Scope := FieldScopeBoth,
        fd_Immutable := True\<rparr>,
      zeroFieldDef\<lparr>fd_Name := ''ZoneFormat'', fd_JSONName := ''zoneFormat'', fd_GoType := goTypeString,
        fd_Scope := FieldScopeBoth, fd_Immutable := True\<rparr>,
      zeroFieldDef\<lparr>fd_Name := ''Comment'', fd_JSONName := ''comment'', fd_GoType := goTypeString, fd_Scope := FieldScopeBoth\<rparr>,
      zeroFieldDef\<lparr>fd_Name := ''Disable'', fd_JSONName := ''disable'', fd_GoType := goTypeBool, fd_Scope := FieldScopeBoth\<rparr>,
      zeroFieldDef\<lparr>fd_Name := ''Locked'', fd_JSONName := ''locked'', fd_GoType := goTypeBool, fd_Scope := FieldScopeBoth\<rparr>,
      zeroFieldDef\<lparr>fd_Name := ''NsGroup'', fd_JSONName := ''nsGroup'', fd_GoType := goTypeString, fd_Scope := FieldScopeBoth\<rparr>,
      zeroFieldDef\<lparr>fd_Name := ''DelegatedTTL'', fd_JSONName := ''delegatedTtl'', fd_GoType := ''*uint32'',
        fd_Scope := FieldScopeBoth, fd_Minimum := int64Ptr ttlMinimumSeconds,
        fd_Maximum := int64Ptr ttlMaximumSeconds\<rparr>,
      zeroFieldDef\<lparr>fd_Name := ''UseDelegatedTTL'', fd_JSONName := ''useDelegatedTtl'', fd_GoType := goTypeBool,
        fd_Scope := FieldScopeBoth\<rparr>,
      zeroFieldDef\<lparr>fd_Name := ''ExtAttrs'', fd_JSONName := ''extAttrs'', fd_GoType := goTypeStringMap,
        fd_Scope := FieldScopeBoth, fd_ForProviderValidations := reservedEAKeyValidations\<rparr>,
      zeroFieldDef\<lparr>fd_Name := ''Ref'', fd_JSONName := ''ref'', fd_GoType := goTypeString, fd_Scope := FieldScopeResponse\<rparr>]"

definition zoneDelegated_ZoneDelegatedNameServer_Fields :: "FieldDef list" where
  "zoneDelegated_ZoneDelegatedNameServer_Fields =
     [zeroFieldDef\<lparr>fd_Name := ''Name'', fd_JSONName := ''name'', fd_GoType := goTypeString\<rparr>,
      zeroFieldDef\<lparr>fd_Name := ''Address'', fd_JSONName := ''address'', fd_GoType := goTypeString\<rparr>]"

definition zoneDelegated :: ResourceDescriptor where
  "zoneDelegated =
     \<lparr>res_Kind = ''ZoneDelegated'', res_Slug = ''zonedelegated'', res_ClusterGroup = clusterGroup ''zonedelegated'',
      res_NamespacedGroup = namespacedGroup ''zonedelegated'', res_ExternalNameStrategy = StrategyServerAssigned,
      res_Fields = zoneDelegated_Fields,
      res_NestedTypes = [\<lparr>nt_TypeName = ''ZoneDelegatedNameServer'', nt_Fields = zoneDelegated_ZoneDelegatedNameServer_Fields\<rparr>],
      res_ParameterValidations = []\<rparr>"

lemmas zoneDelegated_parts = zoneDelegated_def zoneDelegated_Fields_def zoneDelegated_ZoneDelegatedNameServer_Fields_def

section \<open>Network (network.go)\<close>

definition network_Fields :: "FieldDef list" where
  "network_Fields =
     [zeroFieldDef\<lparr>fd_Name := kindNetworkView, fd_JSONName := ''networkView'', fd_GoType := goTypeString,
        fd_Scope := FieldScopeBoth, fd_Required := True, fd_Immutable := True,
        fd_Reference := Some (zeroReferenceDescriptor\<lparr>rd_TargetKind := kindNetworkView, rd_TargetSlug := slugNetworkView, rd_TargetScope := ''cluster'', rd_Extractor := (extractFieldFuncPath @ (''('' @ [CHR 0x22] @ ''spec.forProvider.name'' @ [CHR 0x22] @ '')''))\<rparr>)\<rparr>,
      zeroFieldDef\<lparr>fd_Name := ''Network'', fd_JSONName := ''network'', fd_GoType := goTypeString, fd_Scope := FieldScopeBoth,
        fd_Immutable := True\<rparr>,
      zeroFieldDef\<lparr>fd_Name := ''ParentCidr'', fd_JSONName := ''parentCidr'', fd_GoType := goTypeString,
        fd_Scope := FieldScopeRequest\<rparr>,
      zeroFieldDef\<lparr>fd_Name := ''AllocatePrefixLen'', fd_JSONName := ''allocatePrefixLen'', fd_GoType := goTypeUint,
        fd_Scope := FieldScopeRequest\<rparr>,
      zeroFieldDef\<lparr>fd_Name := ''FilterParams'', fd_JSONName := ''filterParams'', fd_GoType := goTypeStringMap,
        fd_Scope := FieldScopeRequest\<rparr>,
      zeroFieldDef\<lparr>fd_Name := ''Object'', fd_JSONName := ''object'', fd_GoType := goTypeString, fd_Scope := FieldScopeRequest\<rparr>,
      zeroFieldDef\<lparr>fd_Name := ''Comment'', fd_JSONName := ''comment'', fd_GoType := goTypeString, fd_Scope := FieldScopeBoth\<rparr>,
      zeroFieldDef\<lparr>fd_Name := ''ExtAttrs'', fd_JSONName := ''extAttrs'', fd_GoType := goTypeStringMap,
        fd_Scope := FieldScopeBoth, fd_ForProviderValidations := reservedEAKeyValidations\<rparr>,
      zeroFieldDef\<lparr>fd_Name := ''Ref'', fd_JSONName := ''ref'', fd_GoType := goTypeString, fd_Scope := FieldScopeResponse\<rparr>,
      zeroFieldDef\<lparr>fd_Name := ''Members'', fd_JSONName := ''members'', fd_GoType := ''[]NetworkMember'',
        fd_Scope := FieldScopeResponse\<rparr>]"

definition network_NetworkMember_Fields :: "FieldDef list" where
  "network_NetworkMember_Fields =
     [zeroFieldDef\<lparr>fd_Name := ''DhcpMemberName'', fd_JSONName := ''dhcpMemberName'', fd_GoType := goTypeString\<rparr>,
      zeroFieldDef\<lparr>fd_Name := ''DhcpMemberIPv4Addr'', fd_JSONName := ''dhcpMemberIpv4Addr'', fd_GoType := goTypeString\<rparr>,
      zeroFieldDef\<lparr>fd_Name := ''DhcpMemberIPv6Addr'', fd_JSONName := ''dhcpMemberIpv6Addr'', fd_GoType := goTypeString\<rparr>,
      zeroFieldDef\<lparr>fd_Name := ''MsDhcpServerIPv4Addr'', fd_JSONName := ''msDhcpServerIpv4Addr'', fd_GoType := goTypeString\<rparr>]"

definition network :: ResourceDescriptor where
  "network =
     \<lparr>res_Kind = ''Network'', res_Slug = ''network'', res_ClusterGroup = clusterGroup ''network'',
      res_NamespacedGroup = namespacedGroup ''network'', res_ExternalNameStrategy = StrategyServerAssigned,
      res_Fields = network_Fields,
      res_NestedTypes = [\<lparr>nt_TypeName = ''NetworkMember'', nt_Fields = network_NetworkMember_Fields\<rparr>],
      res_ParameterValidations = [\<lparr>vr_Rule = ''has(self.network) || has(self.parentCidr) || has(self.filterParams)'', vr_Message = ''one of network, parentCidr, or filterParams is required''\<rparr>]\<rparr>"

lemmas network_parts = network_def network_Fields_def network_NetworkMember_Fields_def

section \<open>ExtensibleAttributeDef (extensible_attribute_def.go)\<close>

definition extensibleAttributeDef_Fields :: "FieldDef list" where
  "extensibleAttributeDef_Fields =
     [zeroFieldDef\<lparr>fd_Name := ''Name'', fd_JSONName := ''name'', fd_GoType := ''string'', fd_Scope := FieldScopeBoth,
        fd_Required := True\<rparr>,
      zeroFieldDef\<lparr>fd_Name := ''Type'', fd_JSONName := ''type'', fd_GoType := ''string'', fd_Scope := FieldScopeBoth,
        fd_Required := True, fd_Immutable := True,
        fd_Enum := [''STRING'', ''INTEGER'', ''ENUM'', ''DATE'', ''EMAIL'', ''URL'']\<rparr>,
      zeroFieldDef\<lparr>fd_Name := ''Comment'', fd_JSONName := ''comment'', fd_GoType := goTypeString, fd_Scope := FieldScopeBoth\<rparr>,
      zeroFieldDef\<lparr>fd_Name := ''DefaultValue'', fd_JSONName := ''defaultValue'', fd_GoType := goTypeString,
        fd_Scope := FieldScopeBoth\<rparr>,
      zeroFieldDef\<lparr>fd_Name := ''Min'', fd_JSONName := ''min'', fd_GoType := goTypeUint32, fd_Scope := FieldScopeBoth,
        fd_Immutable := True\<rparr>,
      zeroFieldDef\<lparr>fd_Name := ''Max'', fd_JSONName := ''max'', fd_GoType := goTypeUint32, fd_Scope := FieldScopeBoth,
        fd_Immutable := True\<rparr>,
      zeroFieldDef\<lparr>fd_Name := ''Flags'', fd_JSONName := ''flags'', fd_GoType := goTypeString, fd_Scope := FieldScopeBoth\<rparr>,
      zeroFieldDef\<lparr>fd_Name := ''ListValues'', fd_JSONName := ''listValues'', fd_GoType := ''[]EADefListValue'',
        fd_Scope := FieldScopeBoth\<rparr>,
      zeroFieldDef\<lparr>fd_Name := ''AllowedObjectTypes'', fd_JSONName := ''allowedObjectTypes'', fd_GoType := ''[]string'',
        fd_Scope := FieldScopeBoth\<rparr>,
      zeroFieldDef\<lparr>fd_Name := ''DescendantsAction'', fd_JSONName := ''descendantsAction'', fd_GoType := goTypeString,
        fd_Scope := FieldScopeRequest, fd_OmitFromObservation := True\<rparr>,
      zeroFieldDef\<lparr>fd_Name := ''Ref'', fd_JSONName := ''ref'', fd_GoType := goTypeString, fd_Scope := FieldScopeResponse\<rparr>,
      zeroFieldDef\<lparr>fd_Name := ''Namespace'', fd_JSONName := ''namespace'', fd_GoType := goTypeString,
        fd_Scope := FieldScopeResponse\<rparr>]"

definition extensibleAttributeDef_EADefListValue_Fields :: "FieldDef list" where
  "extensibleAttributeDef_EADefListValue_Fields =
     [zeroFieldDef\<lparr>fd_Name := ''Value'', fd_JSONName := ''value'', fd_GoType := ''string'', fd_Required := True\<rparr>]"

definition extensibleAttributeDef :: ResourceDescriptor where
  "extensibleAttributeDef =
     \<lparr>res_Kind = ''ExtensibleAttributeDef'', res_Slug = ''extensibleattributedef'',
      res_ClusterGroup = clusterGroup ''extensibleattributedef'',
      res_NamespacedGroup = namespacedGroup ''extensibleattributedef'',
      res_ExternalNameStrategy = StrategyServerAssigned, res_Fields = extensibleAttributeDef_Fields,
      res_NestedTypes = [\<lparr>nt_TypeName = ''EADefListValue'', nt_Fields = extensibleAttributeDef_EADefListValue_Fields\<rparr>],
      res_ParameterValidations = []\<rparr>"

lemmas extensibleAttributeDef_parts = extensibleAttributeDef_def extensibleAttributeDef_Fields_def extensibleAttributeDef_EADefListValue_Fields_def

section \<open>networkView (network_view.go)\<close>

definition networkView_Fields :: "FieldDef list" where
  "networkView_Fields =
     [zeroFieldDef\<lparr>fd_Name := ''Name'', fd_JSONName := ''name'', fd_GoType := goTypeString, fd_Scope := FieldScopeBoth,
        fd_Required := True\<rparr>,
      zeroFieldDef\<lparr>fd_Name := ''Comment'', fd_JSONName := ''comment'', fd_GoType := goTypeString, fd_Scope := FieldScopeBoth\<rparr>,
      zeroFieldDef\<lparr>fd_Name := ''ExtAttrs'', fd_JSONName := ''extAttrs'', fd_GoType := goTypeStringMap,
        fd_Scope := FieldScopeBoth, fd_ForProviderValidations := reservedEAKeyValidations\<rparr>,
      zeroFieldDef\<lparr>fd_Name := ''Ref'', fd_JSONName := ''ref'', fd_GoType := goTypeString, fd_Scope := FieldScopeResponse\<rparr>,
      zeroFieldDef\<lparr>fd_Name := ''IsDefault'', fd_JSONName := ''isDefault'', fd_GoType := goTypeBool,
        fd_Scope := FieldScopeResponse, fd_Immutable := True\<rparr>]"

definition networkView :: ResourceDescriptor where
  "networkView =
     \<lparr>res_Kind = kindNetworkView, res_Slug = slugNetworkView, res_ClusterGroup = clusterGroup slugNetworkView,
      res_NamespacedGroup = namespacedGroup slugNetworkView, res_ExternalNameStrategy = StrategyServerAssigned,
      res_Fields = networkView_Fields, res_NestedTypes = [], res_ParameterValidations = []\<rparr>"

lemmas networkView_parts = networkView_def networkView_Fields_def

section \<open>FixedAddress (fixed_address.go)\<close>

definition fixedAddress_Fields :: "FieldDef list" where
  "fixedAddress_Fields =
     [zeroFieldDef\<lparr>fd_Name := ''IPv4Addr'', fd_JSONName := ''ipv4addr'', fd_GoType := goTypeString, fd_Scope := FieldScopeBoth\<rparr>,
      zeroFieldDef\<lparr>fd_Name := ''IPv6Addr'', fd_JSONName := ''ipv6addr'', fd_GoType := goTypeString, fd_Scope := FieldScopeBoth\<rparr>,
      zeroFieldDef\<lparr>fd_Name := ''MAC'', fd_JSONName := ''mac'', fd_GoType := goTypeString, fd_Scope := FieldScopeBoth\<rparr>,
      zeroFieldDef\<lparr>fd_Name := ''NetworkView'', fd_JSONName := ''networkView'', fd_GoType := goTypeString,
        fd_Scope := FieldScopeBoth,
        fd_Reference := Some (zeroReferenceDescriptor\<lparr>rd_TargetKind := ''NetworkView'', rd_TargetSlug := slugNetworkView, rd_TargetScope := ''cluster'', rd_Extractor := (extractFieldFuncPath @ (''('' @ [CHR 0x22] @ ''spec.forProvider.name'' @ [CHR 0x22] @ '')''))\<rparr>)\<rparr>,
      zeroFieldDef\<lparr>fd_Name := ''Network'', fd_JSONName := ''network'', fd_GoType := goTypeString, fd_Scope := FieldScopeBoth\<rparr>,
      zeroFieldDef\<lparr>fd_Name := fieldNameName, fd_JSONName := jsonNameName, fd_GoType := goTypeString, fd_Scope := FieldScopeBoth\<rparr>,
      zeroFieldDef\<lparr>fd_Name := ''MatchClient'', fd_JSONName := ''matchClient'', fd_GoType := goTypeString,
        fd_Scope := FieldScopeBoth,
        fd_Enum := [''MAC_ADDRESS'', ''CLIENT_ID'', ''RESERVED'', ''CIRCUIT_ID'', ''REMOTE_ID'']\<rparr>,
      zeroFieldDef\<lparr>fd_Name := ''Comment'', fd_JSONName := ''comment'', fd_GoType := goTypeString, fd_Scope := FieldScopeBoth\<rparr>,
      zeroFieldDef\<lparr>fd_Name := ''ExtAttrs'', fd_JSONName := ''extAttrs'', fd_GoType := goTypeStringMap,
        fd_Scope := FieldScopeBoth, fd_ForProviderValidations := reservedEAKeyValidations\<rparr>,
      zeroFieldDef\<lparr>fd_Name := ''Disable'', fd_JSONName := ''disable'', fd_GoType := goTypeBool, fd_Scope := FieldScopeBoth\<rparr>,
      zeroFieldDef\<lparr>fd_Name := ''AgentCircuitID'', fd_JSONName := ''agentCircuitId'', fd_GoType := goTypeString,
        fd_Scope := FieldScopeBoth\<rparr>,
      zeroFieldDef\<lparr>fd_Name := ''AgentRemoteID'', fd_JSONName := ''agentRemoteId'', fd_GoType := goTypeString,
        fd_Scope := FieldScopeBoth\<rparr>,
      zeroFieldDef\<lparr>fd_Name := ''ClientIdentifierPrependZero'', fd_JSONName := ''clientIdentifierPrependZero'',
        fd_GoType := goTypeBool, fd_Scope := FieldScopeBoth\<rparr>,
      zeroFieldDef\<lparr>fd_Name := ''DHCPClientIdentifier'', fd_JSONName := ''dhcpClientIdentifier'', fd_GoType := goTypeString,
        fd_Scope := FieldScopeBoth\<rparr>,
      zeroFieldDef\<lparr>fd_Name := ''Options'', fd_JSONName := ''options'', fd_GoType := ''[]*FixedAddressDhcpOption'',
        fd_Scope := FieldScopeBoth\<rparr>,
      zeroFieldDef\<lparr>fd_Name := ''UseOptions'', fd_JSONName := ''useOptions'', fd_GoType := goTypeBool, fd_Scope := FieldScopeBoth\<rparr>,
      zeroFieldDef\<lparr>fd_Name := ''Ref'', fd_JSONName := ''ref'', fd_GoType := goTypeString, fd_Scope := FieldScopeResponse\<rparr>,
      zeroFieldDef\<lparr>fd_Name := ''DUID'', fd_JSONName := ''duid'', fd_GoType := goTypeString, fd_Scope := FieldScopeResponse\<rparr>,
      zeroFieldDef\<lparr>fd_Name := ''CloudInfo'', fd_JSONName := ''cloudInfo'', fd_GoType := ''*FixedAddressCloudInfo'',
        fd_Scope := FieldScopeResponse\<rparr>]"

definition fixedAddress_FixedAddressDhcpOption_Fields :: "FieldDef list" where
  "fixedAddress_FixedAddressDhcpOption_Fields =
     [zeroFieldDef\<lparr>fd_Name := fieldNameName, fd_JSONName := jsonNameName, fd_GoType := goTypeString\<rparr>,
      zeroFieldDef\<lparr>fd_Name := ''Num'', fd_JSONName := ''num'', fd_GoType := goTypeInt64\<rparr>,
      zeroFieldDef\<lparr>fd_Name := ''VendorClass'', fd_JSONName := ''vendorClass'', fd_GoType := goTypeString\<rparr>,
      zeroFieldDef\<lparr>fd_Name := ''Value'', fd_JSONName := ''value'', fd_GoType := goTypeString\<rparr>,
      zeroFieldDef\<lparr>fd_Name := ''UseOption'', fd_JSONName := ''useOption'', fd_GoType := goTypeBool\<rparr>]"

definition fixedAddress_FixedAddressCloudInfo_Fields :: "FieldDef list" where
  "fixedAddress_FixedAddressCloudInfo_Fields =
     [zeroFieldDef\<lparr>fd_Name := ''DelegatedMember'', fd_JSONName := ''delegatedMember'',
        fd_GoType := ''*FixedAddressCloudInfoDelegatedMember''\<rparr>,
      zeroFieldDef\<lparr>fd_Name := ''DelegatedScope'', fd_JSONName := ''delegatedScope'', fd_GoType := goTypeString\<rparr>,
      zeroFieldDef\<lparr>fd_Name := ''DelegatedRoot'', fd_JSONName := ''delegatedRoot'', fd_GoType := goTypeString\<rparr>,
      zeroFieldDef\<lparr>fd_Name := ''OwnedByAdaptor'', fd_JSONName := ''ownedByAdaptor'', fd_GoType := goTypeBool\<rparr>,
      zeroFieldDef\<lparr>fd_Name := ''Usage'', fd_JSONName := ''usage'', fd_GoType := goTypeString\<rparr>,
      zeroFieldDef\<lparr>fd_Name := ''Tenant'', fd_JSONName := ''tenant'', fd_GoType := goTypeString\<rparr>,
      zeroFieldDef\<lparr>fd_Name := ''MgmtPlatform'', fd_JSONName := ''mgmtPlatform'', fd_GoType := goTypeString\<rparr>,
      zeroFieldDef\<lparr>fd_Name := ''AuthorityType'', fd_JSONName := ''authorityType'', fd_GoType := goTypeString\<rparr>]"

definition fixedAddress_FixedAddressCloudInfoDelegatedMember_Fields :: "FieldDef list" where
  "fixedAddress_FixedAddressCloudInfoDelegatedMember_Fields =
     [zeroFieldDef\<lparr>fd_Name := ''Ipv4Addr'', fd_JSONName := ''ipv4addr'', fd_GoType := goTypeString\<rparr>,
      zeroFieldDef\<lparr>fd_Name := ''Ipv6Addr'', fd_JSONName := ''ipv6addr'', fd_GoType := goTypeString\<rparr>,
      zeroFieldDef\<lparr>fd_Name := fieldNameName, fd_JSONName := jsonNameName, fd_GoType := goTypeString\<rparr>]"

definition fixedAddress :: ResourceDescriptor where
  "fixedAddress =
     \<lparr>res_Kind = ''FixedAddress'', res_Slug = ''fixedaddress'', res_ClusterGroup = clusterGroup ''fixedaddress'',
      res_NamespacedGroup = namespacedGroup ''fixedaddress'', res_ExternalNameStrategy = StrategyServerAssigned,
      res_Fields = fixedAddress_Fields,
      res_NestedTypes = [\<lparr>nt_TypeName = ''FixedAddressDhcpOption'', nt_Fields = fixedAddress_FixedAddressDhcpOption_Fields\<rparr>,
        \<lparr>nt_TypeName = ''FixedAddressCloudInfo'', nt_Fields = fixedAddress_FixedAddressCloudInfo_Fields\<rparr>,
        \<lparr>nt_TypeName = ''FixedAddressCloudInfoDelegatedMember'', nt_Fields = fixedAddress_FixedAddressCloudInfoDelegatedMember_Fields\<rparr>],
      res_ParameterValidations = [\<lparr>vr_Rule = ''(has(self.ipv4addr) && !has(self.ipv6addr)) || (!has(self.ipv4addr) && has(self.ipv6addr))'', vr_Message = ''exactly one of ipv4addr or ipv6addr must be set (mutually exclusive address families)''\<rparr>]\<rparr>"

lemmas fixedAddress_parts = fixedAddress_def fixedAddress_Fields_def fixedAddress_FixedAddressDhcpOption_Fields_def fixedAddress_FixedAddressCloudInfo_Fields_def fixedAddress_FixedAddressCloudInfoDelegatedMember_Fields_def

section \<open>Range (range.go)\<close>

definition rangeResource_Fields :: "FieldDef list" where
  "rangeResource_Fields =
     [zeroFieldDef\<lparr>fd_Name := ''StartAddr'', fd_JSONName := ''startAddr'', fd_GoType := goTypeString,
        fd_Scope := FieldScopeBoth, fd_Required := True\<rparr>,
      zeroFieldDef\<lparr>fd_Name := ''EndAddr'', fd_JSONName := ''endAddr'', fd_GoType := goTypeString, fd_Scope := FieldScopeBoth,
        fd_Required := True\<rparr>,
      zeroFieldDef\<lparr>fd_Name := kindNetworkView, fd_JSONName := ''networkView'', fd_GoType := goTypeString,
        fd_Scope := FieldScopeBoth,
        fd_Reference := Some (zeroReferenceDescriptor\<lparr>rd_TargetKind := kindNetworkView, rd_TargetSlug := slugNetworkView, rd_Extractor := (extractFieldFuncPath @ (''('' @ [CHR 0x22] @ ''spec.forProvider.name'' @ [CHR 0x22] @ '')''))\<rparr>)\<rparr>,
      zeroFieldDef\<lparr>fd_Name := ''Network'', fd_JSONName := ''network'', fd_GoType := goTypeString, fd_Scope := FieldScopeBoth\<rparr>,
      zeroFieldDef\<lparr>fd_Name := ''Template'', fd_JSONName := ''template'', fd_GoType := goTypeString,
        fd_Scope := FieldScopeRequest, fd_Immutable := True\<rparr>,
      zeroFieldDef\<lparr>fd_Name := ''Comment'', fd_JSONName := ''comment'', fd_GoType := goTypeString, fd_Scope := FieldScopeBoth\<rparr>,
      zeroFieldDef\<lparr>fd_Name := ''ExtAttrs'', fd_JSONName := ''extAttrs'', fd_GoType := goTypeStringMap,
        fd_Scope := FieldScopeBoth, fd_ForProviderValidations := reservedEAKeyValidations\<rparr>,
      zeroFieldDef\<lparr>fd_Name := ''Ref'', fd_JSONName := ''ref'', fd_GoType := goTypeString, fd_Scope := FieldScopeResponse\<rparr>]"

definition rangeResource :: ResourceDescriptor where
  "rangeResource =
     \<lparr>res_Kind = ''Range'', res_Slug = ''range'', res_ClusterGroup = clusterGroup ''range'',
      res_NamespacedGroup = namespacedGroup ''range'', res_ExternalNameStrategy = StrategyServerAssigned,
      res_Fields = rangeResource_Fields, res_NestedTypes = [], res_ParameterValidations = []\<rparr>"

lemmas rangeResource_parts = rangeResource_def rangeResource_Fields_def

section \<open>RangeTemplate (range_template.go)\<close>

definition rangeTemplate_Fields :: "FieldDef list" where
  "rangeTemplate_Fields =
     [zeroFieldDef\<lparr>fd_Name := fieldNameGo, fd_JSONName := fieldNameJSON, fd_GoType := goTypeString, fd_Scope := FieldScopeBoth,
        fd_Required := True\<rparr>,
      zeroFieldDef\<lparr>fd_Name := ''NumberOfAddresses'', fd_JSONName := ''numberOfAddresses'', fd_GoType := ''*uint32'',
        fd_Scope := FieldScopeBoth, fd_Required := True\<rparr>,
      zeroFieldDef\<lparr>fd_Name := ''Offset'', fd_JSONName := ''offset'', fd_GoType := ''*uint32'', fd_Scope := FieldScopeBoth,
        fd_Required := True\<rparr>,
      zeroFieldDef\<lparr>fd_Name := ''Comment'', fd_JSONName := ''comment'', fd_GoType := goTypeString, fd_Scope := FieldScopeBoth\<rparr>,
      zeroFieldDef\<lparr>fd_Name := ''ExtAttrs'', fd_JSONName := ''extAttrs'', fd_GoType := goTypeStringMap,
        fd_Scope := FieldScopeBoth, fd_ForProviderValidations := reservedEAKeyValidations\<rparr>,
      zeroFieldDef\<lparr>fd_Name := ''Options'', fd_JSONName := ''options'', fd_GoType := ''[]*RangeTemplateOption'',
        fd_Scope := FieldScopeBoth\<rparr>,
      zeroFieldDef\<lparr>fd_Name := ''UseOptions'', fd_JSONName := ''useOptions'', fd_GoType := goTypeBool, fd_Scope := FieldScopeBoth\<rparr>,
      zeroFieldDef\<lparr>fd_Name := ''ServerAssociationType'', fd_JSONName := ''serverAssociationType'', fd_GoType := ''string'',
        fd_Scope := FieldScopeBoth\<rparr>,
      zeroFieldDef\<lparr>fd_Name := ''FailoverAssociation'', fd_JSONName := ''failoverAssociation'', fd_GoType := goTypeString,
        fd_Scope := FieldScopeBoth\<rparr>,
      zeroFieldDef\<lparr>fd_Name := ''Member'', fd_JSONName := ''member'', fd_GoType := ''*RangeTemplateMember'',
        fd_Scope := FieldScopeBoth\<rparr>,
      zeroFieldDef\<lparr>fd_Name := ''CloudApiCompatible'', fd_JSONName := ''cloudApiCompatible'', fd_GoType := goTypeBool,
        fd_Scope := FieldScopeBoth\<rparr>,
      zeroFieldDef\<lparr>fd_Name := ''MsServer'', fd_JSONName := ''msServer'', fd_GoType := goTypeString,
        fd_Scope := FieldScopeRequest, fd_OmitFromObservation := True\<rparr>,
      zeroFieldDef\<lparr>fd_Name := ''Ref'', fd_JSONName := ''ref'', fd_GoType := goTypeString, fd_Scope := FieldScopeResponse\<rparr>]"

definition rangeTemplate_RangeTemplateOption_Fields :: "FieldDef list" where
  "rangeTemplate_RangeTemplateOption_Fields =
     [zeroFieldDef\<lparr>fd_Name := fieldNameGo, fd_JSONName := fieldNameJSON, fd_GoType := goTypeString\<rparr>,
      zeroFieldDef\<lparr>fd_Name := ''Num'', fd_JSONName := ''num'', fd_GoType := ''*uint32''\<rparr>,
      zeroFieldDef\<lparr>fd_Name := ''VendorClass'', fd_JSONName := ''vendorClass'', fd_GoType := goTypeString\<rparr>,
      zeroFieldDef\<lparr>fd_Name := ''Value'', fd_JSONName := ''value'', fd_GoType := goTypeString\<rparr>,
      zeroFieldDef\<lparr>fd_Name := ''UseOption'', fd_JSONName := ''useOption'', fd_GoType := goTypeBool\<rparr>]"

definition rangeTemplate_RangeTemplateMember_Fields :: "FieldDef list" where
  "rangeTemplate_RangeTemplateMember_Fields =
     [zeroFieldDef\<lparr>fd_Name := ''Ipv4Addr'', fd_JSONName := ''ipv4addr'', fd_GoType := goTypeString\<rparr>,
      zeroFieldDef\<lparr>fd_Name := ''Ipv6Addr'', fd_JSONName := ''ipv6addr'', fd_GoType := goTypeString\<rparr>,
      zeroFieldDef\<lparr>fd_Name := fieldNameGo, fd_JSONName := fieldNameJSON, fd_GoType := goTypeString\<rparr>]"

definition rangeTemplate :: ResourceDescriptor where
  "rangeTemplate =
     \<lparr>res_Kind = ''RangeTemplate'', res_Slug = ''rangetemplate'', res_ClusterGroup = clusterGroup ''rangetemplate'',
      res_NamespacedGroup = namespacedGroup ''rangetemplate'', res_ExternalNameStrategy = StrategyServerAssigned,
      res_Fields = rangeTemplate_Fields,
      res_NestedTypes = [\<lparr>nt_TypeName = ''RangeTemplateOption'', nt_Fields = rangeTemplate_RangeTemplateOption_Fields\<rparr>,
        \<lparr>nt_TypeName = ''RangeTemplateMember'', nt_Fields = rangeTemplate_RangeTemplateMember_Fields\<rparr>],
      res_ParameterValidations = []\<rparr>"

lemmas rangeTemplate_parts = rangeTemplate_def rangeTemplate_Fields_def rangeTemplate_RangeTemplateOption_Fields_def rangeTemplate_RangeTemplateMember_Fields_def

section \<open>IPv4SharedNetwork (ipv4_shared_network.go)\<close>

definition ipv4SharedNetwork_Fields :: "FieldDef list" where
  "ipv4SharedNetwork_Fields =
     [zeroFieldDef\<lparr>fd_Name := ''Name'', fd_JSONName := fieldNameJSON, fd_GoType := goTypeString, fd_Scope := FieldScopeBoth,
        fd_Required := True\<rparr>,
      zeroFieldDef\<lparr>fd_Name := ''Networks'', fd_JSONName := ''networks'', fd_GoType := ''[]string'', fd_Scope := FieldScopeBoth,
        fd_Required := True,
        fd_Reference := Some (zeroReferenceDescriptor\<lparr>rd_TargetKind := ''Network'', rd_TargetSlug := ''network'', rd_TargetScope := ''cluster'', rd_Extractor := (extractFieldFuncPath @ (''('' @ [CHR 0x22] @ ''spec.forProvider.network'' @ [CHR 0x22] @ '')''))\<rparr>)\<rparr>,
      zeroFieldDef\<lparr>fd_Name := ''NetworkView'', fd_JSONName := ''networkView'', fd_GoType := goTypeString,
        fd_Scope := FieldScopeBoth, fd_Immutable := True\<rparr>,
      zeroFieldDef\<lparr>fd_Name := ''Comment'', fd_JSONName := ''comment'', fd_GoType := goTypeString, fd_Scope := FieldScopeBoth\<rparr>,
      zeroFieldDef\<lparr>fd_Name := ''ExtAttrs'', fd_JSONName := ''extAttrs'', fd_GoType := goTypeStringMap,
        fd_Scope := FieldScopeBoth, fd_ForProviderValidations := reservedEAKeyValidations\<rparr>,
      zeroFieldDef\<lparr>fd_Name := ''Disable'', fd_JSONName := ''disable'', fd_GoType := goTypeBool, fd_Scope := FieldScopeBoth\<rparr>,
      zeroFieldDef\<lparr>fd_Name := ''UseOptions'', fd_JSONName := ''useOptions'', fd_GoType := goTypeBool, fd_Scope := FieldScopeBoth\<rparr>,
      zeroFieldDef\<lparr>fd_Name := ''Options'', fd_JSONName := ''options'', fd_GoType := ''[]*IPv4SharedNetworkDhcpOption'',
        fd_Scope := FieldScopeBoth\<rparr>,
      zeroFieldDef\<lparr>fd_Name := ''Ref'', fd_JSONName := ''ref'', fd_GoType := goTypeString, fd_Scope := FieldScopeResponse\<rparr>,
      zeroFieldDef\<lparr>fd_Name := ''Authority'', fd_JSONName := ''authority'', fd_GoType := goTypeBool,
        fd_Scope := FieldScopeResponse\<rparr>,
      zeroFieldDef\<lparr>fd_Name := ''DdnsTTL'', fd_JSONName := ''ddnsTtl'', fd_GoType := goTypeUint32, fd_Scope := FieldScopeResponse\<rparr>,
      zeroFieldDef\<lparr>fd_Name := ''EnableDdns'', fd_JSONName := ''enableDdns'', fd_GoType := goTypeBool,
        fd_Scope := FieldScopeResponse\<rparr>,
      zeroFieldDef\<lparr>fd_Name := ''DhcpUtilization'', fd_JSONName := ''dhcpUtilization'', fd_GoType := goTypeUint32,
        fd_Scope := FieldScopeResponse\<rparr>,
      zeroFieldDef\<lparr>fd_Name := ''DhcpUtilizationStatus'', fd_JSONName := ''dhcpUtilizationStatus'', fd_GoType := goTypeString,
        fd_Scope := FieldScopeResponse\<rparr>,
      zeroFieldDef\<lparr>fd_Name := ''DynamicHosts'', fd_JSONName := ''dynamicHosts'', fd_GoType := goTypeUint32,
        fd_Scope := FieldScopeResponse\<rparr>]"

definition ipv4SharedNetwork_IPv4SharedNetworkDhcpOption_Fields :: "FieldDef list" where
  "ipv4SharedNetwork_IPv4SharedNetworkDhcpOption_Fields =
     [zeroFieldDef\<lparr>fd_Name := ''Name'', fd_JSONName := fieldNameJSON, fd_GoType := goTypeString\<rparr>,
      zeroFieldDef\<lparr>fd_Name := ''Num'', fd_JSONName := ''num'', fd_GoType := goTypeUint32\<rparr>,
      zeroFieldDef\<lparr>fd_Name := ''VendorClass'', fd_JSONName := ''vendorClass'', fd_GoType := goTypeString\<rparr>,
      zeroFieldDef\<lparr>fd_Name := ''Value'', fd_JSONName := ''value'', fd_GoType := goTypeString\<rparr>,
      zeroFieldDef\<lparr>fd_Name := ''UseOption'', fd_JSONName := ''useOption'', fd_GoType := goTypeBool\<rparr>]"

definition ipv4SharedNetwork :: ResourceDescriptor where
  "ipv4SharedNetwork =
     \<lparr>res_Kind = ''IPv4SharedNetwork'', res_Slug = ''ipv4sharednetwork'',
      res_ClusterGroup = clusterGroup ''ipv4sharednetwork'',
      res_NamespacedGroup = namespacedGroup ''ipv4sharednetwork'', res_ExternalNameStrategy = StrategyServerAssigned,
      res_Fields = ipv4SharedNetwork_Fields,
      res_NestedTypes = [\<lparr>nt_TypeName = ''IPv4SharedNetworkDhcpOption'', nt_Fields = ipv4SharedNetwork_IPv4SharedNetworkDhcpOption_Fields\<rparr>],
      res_ParameterValidations = []\<rparr>"

lemmas ipv4SharedNetwork_parts = ipv4SharedNetwork_def ipv4SharedNetwork_Fields_def ipv4SharedNetwork_IPv4SharedNetworkDhcpOption_Fields_def

section \<open>NetworkContainer (network_container.go)\<close>

definition networkContainer_Fields :: "FieldDef list" where
  "networkContainer_Fields =
     [zeroFieldDef\<lparr>fd_Name := ''NetworkView'', fd_JSONName := ''networkView'', fd_GoType := goTypeString,
        fd_Scope := FieldScopeBoth, fd_Required := True, fd_Immutable := True,
        fd_Reference := Some (zeroReferenceDescriptor\<lparr>rd_TargetKind := ''NetworkView'', rd_TargetSlug := slugNetworkView, rd_TargetScope := ''cluster'', rd_Extractor := (extractFieldFuncPath @ (''('' @ [CHR 0x22] @ ''spec.forProvider.name'' @ [CHR 0x22] @ '')''))\<rparr>)\<rparr>,
      zeroFieldDef\<lparr>fd_Name := ''Network'', fd_JSONName := ''network'', fd_GoType := goTypeString, fd_Scope := FieldScopeBoth,
        fd_Immutable := True\<rparr>,
      zeroFieldDef\<lparr>fd_Name := ''ParentCidr'', fd_JSONName := ''parentCidr'', fd_GoType := goTypeString,
        fd_Scope := FieldScopeRequest\<rparr>,
      zeroFieldDef\<lparr>fd_Name := ''AllocatePrefixLen'', fd_JSONName := ''allocatePrefixLen'', fd_GoType := goTypeUint,
        fd_Scope := FieldScopeRequest\<rparr>,
      zeroFieldDef\<lparr>fd_Name := ''FilterParams'', fd_JSONName := ''filterParams'', fd_GoType := goTypeStringMap,
        fd_Scope := FieldScopeRequest\<rparr>,
      zeroFieldDef\<lparr>fd_Name := ''Comment'', fd_JSONName := ''comment'', fd_GoType := goTypeString, fd_Scope := FieldScopeBoth\<rparr>,
      zeroFieldDef\<lparr>fd_Name := ''ExtAttrs'', fd_JSONName := ''extAttrs'', fd_GoType := goTypeStringMap,
        fd_Scope := FieldScopeBoth, fd_ForProviderValidations := reservedEAKeyValidations\<rparr>,
      zeroFieldDef\<lparr>fd_Name := ''Ref'', fd_JSONName := ''ref'', fd_GoType := goTypeString, fd_Scope := FieldScopeResponse\<rparr>]"

definition networkContainer :: ResourceDescriptor where
  "networkContainer =
     \<lparr>res_Kind = ''NetworkContainer'', res_Slug = ''networkcontainer'',
      res_ClusterGroup = clusterGroup ''networkcontainer'',
      res_NamespacedGroup = namespacedGroup ''networkcontainer'', res_ExternalNameStrategy = StrategyServerAssigned,
      res_Fields = networkContainer_Fields, res_NestedTypes = [],
      res_ParameterValidations = [\<lparr>vr_Rule = ''has(self.network) || has(self.parentCidr) || has(self.filterParams)'', vr_Message = ''one of network, parentCidr, or filterParams is required''\<rparr>]\<rparr>"

lemmas networkContainer_parts = networkContainer_def networkContainer_Fields_def

section \<open>ZoneForward (zone_forward.go)\<close>

definition zoneForward_Fields :: "FieldDef list" where
  "zoneForward_Fields =
     [zeroFieldDef\<lparr>fd_Name := ''Fqdn'', fd_JSONName := ''fqdn'', fd_GoType := goTypeString, fd_Scope := FieldScopeBoth,
        fd_Required := True, fd_Immutable := True\<rparr>,
      zeroFieldDef\<lparr>fd_Name := ''ForwardTo'', fd_JSONName := ''forwardTo'', fd_GoType := ''[]NameServer'',
        fd_Scope := FieldScopeBoth, fd_Required := True\<rparr>,
      zeroFieldDef\<lparr>fd_Name := ''View'', fd_JSONName := ''view'', fd_GoType := goTypeString, fd_Scope := FieldScopeBoth,
        fd_Immutable := True\<rparr>,
      zeroFieldDef\<lparr>fd_Name := ''ZoneFormat'', fd_JSONName := ''zoneFormat'', fd_GoType := goTypeString,
        fd_Scope := FieldScopeBoth, fd_Immutable := True\<rparr>,
      zeroFieldDef\<lparr>fd_Name := ''Comment'', fd_JSONName := ''comment'', fd_GoType := goTypeString, fd_Scope := FieldScopeBoth\<rparr>,
      zeroFieldDef\<lparr>fd_Name := ''Disable'', fd_JSONName := ''disable'', fd_GoType := goTypeBool, fd_Scope := FieldScopeBoth\<rparr>,
      zeroFieldDef\<lparr>fd_Name := ''ForwardersOnly'', fd_JSONName := ''forwardersOnly'', fd_GoType := goTypeBool,
        fd_Scope := FieldScopeBoth\<rparr>,
      zeroFieldDef\<lparr>fd_Name := ''NsGroup'', fd_JSONName := ''nsGroup'', fd_GoType := goTypeString, fd_Scope := FieldScopeBoth\<rparr>,
      zeroFieldDef\<lparr>fd_Name := ''ExternalNsGroup'', fd_JSONName := ''externalNsGroup'', fd_GoType := goTypeString,
        fd_Scope := FieldScopeBoth\<rparr>,
      zeroFieldDef\<lparr>fd_Name := ''ForwardingServers'', fd_JSONName := ''forwardingServers'', fd_GoType := ''[]ForwardingServer'',
        fd_Scope := FieldScopeBoth\<rparr>,
      zeroFieldDef\<lparr>fd_Name := ''ExtAttrs'', fd_JSONName := ''extAttrs'', fd_GoType := goTypeStringMap,
        fd_Scope := FieldScopeBoth, fd_ForProviderValidations := reservedEAKeyValidations\<rparr>,
      zeroFieldDef\<lparr>fd_Name := ''Ref'', fd_JSONName := ''ref'', fd_GoType := goTypeString, fd_Scope := FieldScopeResponse\<rparr>]"

definition zoneForward_NameServer_Fields :: "FieldDef list" where
  "zoneForward_NameServer_Fields =
     [zeroFieldDef\<lparr>fd_Name := ''Name'', fd_JSONName := ''name'', fd_GoType := goTypeString\<rparr>,
      zeroFieldDef\<lparr>fd_Name := ''Address'', fd_JSONName := ''address'', fd_GoType := goTypeString\<rparr>]"

definition zoneForward_ForwardingServer_Fields :: "FieldDef list" where
  "zoneForward_ForwardingServer_Fields =
     [zeroFieldDef\<lparr>fd_Name := ''Name'', fd_JSONName := ''name'', fd_GoType := goTypeString\<rparr>,
      zeroFieldDef\<lparr>fd_Name := ''ForwardersOnly'', fd_JSONName := ''forwardersOnly'', fd_GoType := goTypeBool\<rparr>,
      zeroFieldDef\<lparr>fd_Name := ''ForwardTo'', fd_JSONName := ''forwardTo'', fd_GoType := ''[]NameServer''\<rparr>,
      zeroFieldDef\<lparr>fd_Name := ''UseOverrideForwarders'', fd_JSONName := ''useOverrideForwarders'', fd_GoType := goTypeBool\<rparr>]"

definition zoneForward :: ResourceDescriptor where
  "zoneForward =
     \<lparr>res_Kind = ''ZoneForward'', res_Slug = ''zoneforward'', res_ClusterGroup = clusterGroup ''zoneforward'',
      res_NamespacedGroup = namespacedGroup ''zoneforward'', res_ExternalNameStrategy = StrategyServerAssigned,
      res_Fields = zoneForward_Fields,
      res_NestedTypes = [\<lparr>nt_TypeName = ''NameServer'', nt_Fields = zoneForward_NameServer_Fields\<rparr>,
        \<lparr>nt_TypeName = ''ForwardingServer'', nt_Fields = zoneForward_ForwardingServer_Fields\<rparr>],
      res_ParameterValidations = []\<rparr>"

lemmas zoneForward_parts = zoneForward_def zoneForward_Fields_def zoneForward_NameServer_Fields_def zoneForward_ForwardingServer_Fields_def

section \<open>DTCServer (dtc.go)\<close>

definition dtcServer_Fields :: "FieldDef list" where
  "dtcServer_Fields =
     [zeroFieldDef\<lparr>fd_Name := ''Name'', fd_JSONName := ''name'', fd_GoType := goTypeString, fd_Scope := FieldScopeBoth,
        fd_Required := True\<rparr>,
      zeroFieldDef\<lparr>fd_Name := ''Host'', fd_JSONName := ''host'', fd_GoType := goTypeString, fd_Scope := FieldScopeBoth,
        fd_Required := True\<rparr>,
      zeroFieldDef\<lparr>fd_Name := ''Comment'', fd_JSONName := ''comment'', fd_GoType := goTypeString, fd_Scope := FieldScopeBoth\<rparr>,
      zeroFieldDef\<lparr>fd_Name := ''Disable'', fd_JSONName := ''disable'', fd_GoType := goTypeBool, fd_Scope := FieldScopeBoth\<rparr>,
      zeroFieldDef\<lparr>fd_Name := ''AutoCreateHostRecord'', fd_JSONName := ''autoCreateHostRecord'', fd_GoType := goTypeBool,
        fd_Scope := FieldScopeBoth\<rparr>,
      zeroFieldDef\<lparr>fd_Name := ''SniHostname'', fd_JSONName := ''sniHostname'', fd_GoType := goTypeString,
        fd_Scope := FieldScopeBoth\<rparr>,
      zeroFieldDef\<lparr>fd_Name := ''UseSniHostname'', fd_JSONName := ''useSniHostname'', fd_GoType := goTypeBool,
        fd_Scope := FieldScopeBoth\<rparr>,
      zeroFieldDef\<lparr>fd_Name := ''Monitors'', fd_JSONName := ''monitors'', fd_GoType := ''[]DTCServerMonitor'',
        fd_Scope := FieldScopeBoth\<rparr>,
      zeroFieldDef\<lparr>fd_Name := ''ExtAttrs'', fd_JSONName := ''extAttrs'', fd_GoType := goTypeStringMap,
        fd_Scope := FieldScopeBoth, fd_ForProviderValidations := reservedEAKeyValidations\<rparr>,
      zeroFieldDef\<lparr>fd_Name := ''Ref'', fd_JSONName := ''ref'', fd_GoType := goTypeString, fd_Scope := FieldScopeResponse\<rparr>,
      zeroFieldDef\<lparr>fd_Name := ''Health'', fd_JSONName := ''health'', fd_GoType := ''*DTCServerHealth'',
        fd_Scope := FieldScopeResponse\<rparr>]"

definition dtcServer_DTCServerMonitor_Fields :: "FieldDef list" where
  "dtcServer_DTCServerMonitor_Fields =
     [zeroFieldDef\<lparr>fd_Name := ''Monitor'', fd_JSONName := ''monitor'', fd_GoType := goTypeString\<rparr>,
      zeroFieldDef\<lparr>fd_Name := ''Host'', fd_JSONName := ''host'', fd_GoType := goTypeString\<rparr>]"

definition dtcServer_DTCServerHealth_Fields :: "FieldDef list" where
  "dtcServer_DTCServerHealth_Fields =
     [zeroFieldDef\<lparr>fd_Name := ''Availability'', fd_JSONName := ''availability'', fd_GoType := goTypeString\<rparr>,
      zeroFieldDef\<lparr>fd_Name := ''Description'', fd_JSONName := ''description'', fd_GoType := goTypeString\<rparr>,
      zeroFieldDef\<lparr>fd_Name := ''EnabledState'', fd_JSONName := ''enabledState'', fd_GoType := goTypeString\<rparr>]"

definition dtcServer :: ResourceDescriptor where
  "dtcServer =
     \<lparr>res_Kind = ''DTCServer'', res_Slug = ''dtcserver'', res_ClusterGroup = clusterGroup ''dtcserver'',
      res_NamespacedGroup = namespacedGroup ''dtcserver'', res_ExternalNameStrategy = StrategyServerAssigned,
      res_Fields = dtcServer_Fields,
      res_NestedTypes = [\<lparr>nt_TypeName = ''DTCServerMonitor'', nt_Fields = dtcServer_DTCServerMonitor_Fields\<rparr>,
        \<lparr>nt_TypeName = ''DTCServerHealth'', nt_Fields = dtcServer_DTCServerHealth_Fields\<rparr>],
      res_ParameterValidations = []\<rparr>"

lemmas dtcServer_parts = dtcServer_def dtcServer_Fields_def dtcServer_DTCServerMonitor_Fields_def dtcServer_DTCServerHealth_Fields_def

section \<open>DNSView (dns_view.go)\<close>

definition dnsView_Fields1 :: "FieldDef list" where
  "dnsView_Fields1 =
     [zeroFieldDef\<lparr>fd_Name := ''Name'', fd_JSONName := ''name'', fd_GoType := goTypeString, fd_Scope := FieldScopeBoth,
        fd_Required := True\<rparr>,
      zeroFieldDef\<lparr>fd_Name := ''Comment'', fd_JSONName := ''comment'', fd_GoType := goTypeString, fd_Scope := FieldScopeBoth\<rparr>,
      zeroFieldDef\<lparr>fd_Name := ''NetworkView'', fd_JSONName := ''networkView'', fd_GoType := goTypeString,
        fd_Scope := FieldScopeBoth\<rparr>,
      zeroFieldDef\<lparr>fd_Name := ''Disable'', fd_JSONName := ''disable'', fd_GoType := goTypeBool, fd_Scope := FieldScopeBoth\<rparr>,
      zeroFieldDef\<lparr>fd_Name := ''BlacklistAction'', fd_JSONName := ''blacklistAction'', fd_GoType := goTypeString,
        fd_Scope := FieldScopeBoth, fd_Enum := [''REDIRECT'', ''REFUSE'']\<rparr>,
      zeroFieldDef\<lparr>fd_Name := ''BlacklistLogQuery'', fd_JSONName := ''blacklistLogQuery'', fd_GoType := goTypeBool,
        fd_Scope := FieldScopeBoth\<rparr>,
      zeroFieldDef\<lparr>fd_Name := ''BlacklistRedirectAddresses'', fd_JSONName := ''blacklistRedirectAddresses'',
        fd_GoType := ''[]string'', fd_Scope := FieldScopeBoth\<rparr>,
      zeroFieldDef\<lparr>fd_Name := ''BlacklistRedirectTTL'', fd_JSONName := ''blacklistRedirectTtl'', fd_GoType := goTypeUint32,
        fd_Scope := FieldScopeBoth, fd_Minimum := int64Ptr ttlMinimumSeconds,
        fd_Maximum := int64Ptr ttlMaximumSeconds\<rparr>,
      zeroFieldDef\<lparr>fd_Name := ''BlacklistRulesets'', fd_JSONName := ''blacklistRulesets'', fd_GoType := ''[]string'',
        fd_Scope := FieldScopeBoth\<rparr>,
      zeroFieldDef\<lparr>fd_Name := ''UseBlacklist'', fd_JSONName := ''useBlacklist'', fd_GoType := goTypeBool,
        fd_Scope := FieldScopeBoth\<rparr>,
      zeroFieldDef\<lparr>fd_Name := ''EnableBlacklist'', fd_JSONName := ''enableBlacklist'', fd_GoType := goTypeBool,
        fd_Scope := FieldScopeBoth\<rparr>,
      zeroFieldDef\<lparr>fd_Name := ''CustomRootNameServers'', fd_JSONName := ''customRootNameServers'',
        fd_GoType := ''[]DNSViewNameServer'', fd_Scope := FieldScopeBoth\<rparr>,
      zeroFieldDef\<lparr>fd_Name := ''RootNameServerType'', fd_JSONName := ''rootNameServerType'', fd_GoType := goTypeString,
        fd_Scope := FieldScopeBoth\<rparr>,
      zeroFieldDef\<lparr>fd_Name := ''UseRootNameServer'', fd_JSONName := ''useRootNameServer'', fd_GoType := goTypeBool,
        fd_Scope := FieldScopeBoth\<rparr>,
      zeroFieldDef\<lparr>fd_Name := ''DdnsForceCreationTimestampUpdate'', fd_JSONName := ''ddnsForceCreationTimestampUpdate'',
        fd_GoType := goTypeBool, fd_Scope := FieldScopeBoth\<rparr>,
      zeroFieldDef\<lparr>fd_Name := ''UseDdnsForceCreationTimestampUpdate'', fd_JSONName := ''useDdnsForceCreationTimestampUpdate'',
        fd_GoType := goTypeBool, fd_Scope := FieldScopeBoth\<rparr>,
      zeroFieldDef\<lparr>fd_Name := ''DdnsPrincipalGroup'', fd_JSONName := ''ddnsPrincipalGroup'', fd_GoType := goTypeString,
        fd_Scope := FieldScopeBoth\<rparr>,
      zeroFieldDef\<lparr>fd_Name := ''DdnsPrincipalTracking'', fd_JSONName := ''ddnsPrincipalTracking'', fd_GoType := goTypeBool,
        fd_Scope := FieldScopeBoth\<rparr>,
      zeroFieldDef\<lparr>fd_Name := ''UseDdnsPrincipalSecurity'', fd_JSONName := ''useDdnsPrincipalSecurity'',
        fd_GoType := goTypeBool, fd_Scope := FieldScopeBoth\<rparr>,
      zeroFieldDef\<lparr>fd_Name := ''DdnsRestrictPatterns'', fd_JSONName := ''ddnsRestrictPatterns'', fd_GoType := goTypeBool,
        fd_Scope := FieldScopeBoth\<rparr>]"

definition dnsView_Fields2 :: "FieldDef list" where
  "dnsView_Fields2 =
     [zeroFieldDef\<lparr>fd_Name := ''DdnsRestrictPatternsList'', fd_JSONName := ''ddnsRestrictPatternsList'',
        fd_GoType := ''[]string'', fd_Scope := FieldScopeBoth\<rparr>,
      zeroFieldDef\<lparr>fd_Name := ''UseDdnsPatternsRestriction'', fd_JSONName := ''useDdnsPatternsRestriction'',
        fd_GoType := goTypeBool, fd_Scope := FieldScopeBoth\<rparr>,
      zeroFieldDef\<lparr>fd_Name := ''DdnsRestrictProtected'', fd_JSONName := ''ddnsRestrictProtected'', fd_GoType := goTypeBool,
        fd_Scope := FieldScopeBoth\<rparr>,
      zeroFieldDef\<lparr>fd_Name := ''UseDdnsRestrictProtected'', fd_JSONName := ''useDdnsRestrictProtected'',
        fd_GoType := goTypeBool, fd_Scope := FieldScopeBoth\<rparr>,
      zeroFieldDef\<lparr>fd_Name := ''DdnsRestrictSecure'', fd_JSONName := ''ddnsRestrictSecure'', fd_GoType := goTypeBool,
        fd_Scope := FieldScopeBoth\<rparr>,
      zeroFieldDef\<lparr>fd_Name := ''DdnsRestrictStatic'', fd_JSONName := ''ddnsRestrictStatic'', fd_GoType := goTypeBool,
        fd_Scope := FieldScopeBoth\<rparr>,
      zeroFieldDef\<lparr>fd_Name := ''UseDdnsRestrictStatic'', fd_JSONName := ''useDdnsRestrictStatic'', fd_GoType := goTypeBool,
        fd_Scope := FieldScopeBoth\<rparr>,
      zeroFieldDef\<lparr>fd_Name := ''Dns64Enabled'', fd_JSONName := ''dns64Enabled'', fd_GoType := goTypeBool,
        fd_Scope := FieldScopeBoth\<rparr>,
      zeroFieldDef\<lparr>fd_Name := ''Dns64Groups'', fd_JSONName := ''dns64Groups'', fd_GoType := ''[]string'',
        fd_Scope := FieldScopeBoth\<rparr>,
      zeroFieldDef\<lparr>fd_Name := ''UseDns64'', fd_JSONName := ''useDns64'', fd_GoType := goTypeBool, fd_Scope := FieldScopeBoth\<rparr>,
      zeroFieldDef\<lparr>fd_Name := ''DnssecEnabled'', fd_JSONName := ''dnssecEnabled'', fd_GoType := goTypeBool,
        fd_Scope := FieldScopeBoth\<rparr>,
      zeroFieldDef\<lparr>fd_Name := ''DnssecExpiredSignaturesEnabled'', fd_JSONName := ''dnssecExpiredSignaturesEnabled'',
        fd_GoType := goTypeBool, fd_Scope := FieldScopeBoth\<rparr>,
      zeroFieldDef\<lparr>fd_Name := ''DnssecNegativeTrustAnchors'', fd_JSONName := ''dnssecNegativeTrustAnchors'',
        fd_GoType := ''[]string'', fd_Scope := FieldScopeBoth\<rparr>,
      zeroFieldDef\<lparr>fd_Name := ''DnssecTrustedKeys'', fd_JSONName := ''dnssecTrustedKeys'',
        fd_GoType := ''[]*DNSViewDnssecTrustedKey'', fd_Scope := FieldScopeBoth\<rparr>,
      zeroFieldDef\<lparr>fd_Name := ''DnssecValidationEnabled'', fd_JSONName := ''dnssecValidationEnabled'', fd_GoType := goTypeBool,
        fd_Scope := FieldScopeBoth\<rparr>,
      zeroFieldDef\<lparr>fd_Name := ''UseDnssec'', fd_JSONName := ''useDnssec'', fd_GoType := goTypeBool, fd_Scope := FieldScopeBoth\<rparr>,
      zeroFieldDef\<lparr>fd_Name := ''EnableFixedRrsetOrderFqdns'', fd_JSONName := ''enableFixedRrsetOrderFqdns'',
        fd_GoType := goTypeBool, fd_Scope := FieldScopeBoth\<rparr>,
      zeroFieldDef\<lparr>fd_Name := ''FixedRrsetOrderFqdns'', fd_JSONName := ''fixedRrsetOrderFqdns'',
        fd_GoType := ''[]*DNSViewFixedRrsetOrderFqdn'', fd_Scope := FieldScopeBoth\<rparr>,
      zeroFieldDef\<lparr>fd_Name := ''UseFixedRrsetOrderFqdns'', fd_JSONName := ''useFixedRrsetOrderFqdns'', fd_GoType := goTypeBool,
        fd_Scope := FieldScopeBoth\<rparr>]"

definition dnsView_Fields3 :: "FieldDef list" where
  "dnsView_Fields3 =
     [zeroFieldDef\<lparr>fd_Name := ''EnableMatchRecursiveOnly'', fd_JSONName := ''enableMatchRecursiveOnly'',
        fd_GoType := goTypeBool, fd_Scope := FieldScopeBoth\<rparr>,
      zeroFieldDef\<lparr>fd_Name := ''ExtAttrs'', fd_JSONName := ''extAttrs'', fd_GoType := goTypeStringMap,
        fd_Scope := FieldScopeBoth, fd_ForProviderValidations := reservedEAKeyValidations\<rparr>,
      zeroFieldDef\<lparr>fd_Name := ''FilterAaaa'', fd_JSONName := ''filterAaaa'', fd_GoType := goTypeString,
        fd_Scope := FieldScopeBoth\<rparr>,
      zeroFieldDef\<lparr>fd_Name := ''FilterAaaaList'', fd_JSONName := ''filterAaaaList'', fd_GoType := ''[]*DNSViewAddressAc'',
        fd_Scope := FieldScopeBoth\<rparr>,
      zeroFieldDef\<lparr>fd_Name := ''UseFilterAaaa'', fd_JSONName := ''useFilterAaaa'', fd_GoType := goTypeBool,
        fd_Scope := FieldScopeBoth\<rparr>,
      zeroFieldDef\<lparr>fd_Name := ''ForwardOnly'', fd_JSONName := ''forwardOnly'', fd_GoType := goTypeBool,
        fd_Scope := FieldScopeBoth\<rparr>,
      zeroFieldDef\<lparr>fd_Name := ''Forwarders'', fd_JSONName := ''forwarders'', fd_GoType := ''[]string'',
        fd_Scope := FieldScopeBoth\<rparr>,
      zeroFieldDef\<lparr>fd_Name := ''UseForwarders'', fd_JSONName := ''useForwarders'', fd_GoType := goTypeBool,
        fd_Scope := FieldScopeBoth\<rparr>,
      zeroFieldDef\<lparr>fd_Name := ''LameTTL'', fd_JSONName := ''lameTtl'', fd_GoType := goTypeUint32, fd_Scope := FieldScopeBoth,
        fd_Minimum := int64Ptr ttlMinimumSeconds, fd_Maximum := int64Ptr ttlMaximumSeconds\<rparr>,
      zeroFieldDef\<lparr>fd_Name := ''UseLameTTL'', fd_JSONName := ''useLameTtl'', fd_GoType := goTypeBool, fd_Scope := FieldScopeBoth\<rparr>,
      zeroFieldDef\<lparr>fd_Name := ''MatchClients'', fd_JSONName := ''matchClients'', fd_GoType := ''[]*DNSViewAddressAc'',
        fd_Scope := FieldScopeBoth\<rparr>,
      zeroFieldDef\<lparr>fd_Name := ''MatchDestinations'', fd_JSONName := ''matchDestinations'', fd_GoType := ''[]*DNSViewAddressAc'',
        fd_Scope := FieldScopeBoth\<rparr>,
      zeroFieldDef\<lparr>fd_Name := ''MaxCacheTTL'', fd_JSONName := ''maxCacheTtl'', fd_GoType := goTypeUint32,
        fd_Scope := FieldScopeBoth, fd_Minimum := int64Ptr ttlMinimumSeconds,
        fd_Maximum := int64Ptr ttlMaximumSeconds\<rparr>,
      zeroFieldDef\<lparr>fd_Name := ''UseMaxCacheTTL'', fd_JSONName := ''useMaxCacheTtl'', fd_GoType := goTypeBool,
        fd_Scope := FieldScopeBoth\<rparr>,
      zeroFieldDef\<lparr>fd_Name := ''MaxNcacheTTL'', fd_JSONName := ''maxNcacheTtl'', fd_GoType := goTypeUint32,
        fd_Scope := FieldScopeBoth, fd_Minimum := int64Ptr ttlMinimumSeconds,
        fd_Maximum := int64Ptr ttlMaximumSeconds\<rparr>,
      zeroFieldDef\<lparr>fd_Name := ''UseMaxNcacheTTL'', fd_JSONName := ''useMaxNcacheTtl'', fd_GoType := goTypeBool,
        fd_Scope := FieldScopeBoth\<rparr>,
      zeroFieldDef\<lparr>fd_Name := ''NotifyDelay'', fd_JSONName := ''notifyDelay'', fd_GoType := goTypeUint32,
        fd_Scope := FieldScopeBoth\<rparr>]"

definition dnsView_Fields4 :: "FieldDef list" where
  "dnsView_Fields4 =
     [zeroFieldDef\<lparr>fd_Name := ''NxdomainLogQuery'', fd_JSONName := ''nxdomainLogQuery'', fd_GoType := goTypeBool,
        fd_Scope := FieldScopeBoth\<rparr>,
      zeroFieldDef\<lparr>fd_Name := ''NxdomainRedirect'', fd_JSONName := ''nxdomainRedirect'', fd_GoType := goTypeBool,
        fd_Scope := FieldScopeBoth\<rparr>,
      zeroFieldDef\<lparr>fd_Name := ''NxdomainRedirectAddresses'', fd_JSONName := ''nxdomainRedirectAddresses'',
        fd_GoType := ''[]string'', fd_Scope := FieldScopeBoth\<rparr>,
      zeroFieldDef\<lparr>fd_Name := ''NxdomainRedirectAddressesV6'', fd_JSONName := ''nxdomainRedirectAddressesV6'',
        fd_GoType := ''[]string'', fd_Scope := FieldScopeBoth\<rparr>,
      zeroFieldDef\<lparr>fd_Name := ''NxdomainRedirectTTL'', fd_JSONName := ''nxdomainRedirectTtl'', fd_GoType := goTypeUint32,
        fd_Scope := FieldScopeBoth, fd_Minimum := int64Ptr ttlMinimumSeconds,
        fd_Maximum := int64Ptr ttlMaximumSeconds\<rparr>,
      zeroFieldDef\<lparr>fd_Name := ''NxdomainRulesets'', fd_JSONName := ''nxdomainRulesets'', fd_GoType := ''[]string'',
        fd_Scope := FieldScopeBoth\<rparr>,
      zeroFieldDef\<lparr>fd_Name := ''UseNxdomainRedirect'', fd_JSONName := ''useNxdomainRedirect'', fd_GoType := goTypeBool,
        fd_Scope := FieldScopeBoth\<rparr>,
      zeroFieldDef\<lparr>fd_Name := ''Recursion'', fd_JSONName := ''recursion'', fd_GoType := goTypeBool, fd_Scope := FieldScopeBoth\<rparr>,
      zeroFieldDef\<lparr>fd_Name := ''UseRecursion'', fd_JSONName := ''useRecursion'', fd_GoType := goTypeBool,
        fd_Scope := FieldScopeBoth\<rparr>,
      zeroFieldDef\<lparr>fd_Name := ''ResponseRateLimiting'', fd_JSONName := ''responseRateLimiting'',
        fd_GoType := ''*DNSViewResponseRateLimiting'', fd_Scope := FieldScopeBoth\<rparr>,
      zeroFieldDef\<lparr>fd_Name := ''UseResponseRateLimiting'', fd_JSONName := ''useResponseRateLimiting'', fd_GoType := goTypeBool,
        fd_Scope := FieldScopeBoth\<rparr>,
      zeroFieldDef\<lparr>fd_Name := ''RpzDropIPRuleEnabled'', fd_JSONName := ''rpzDropIpRuleEnabled'', fd_GoType := goTypeBool,
        fd_Scope := FieldScopeBoth\<rparr>,
      zeroFieldDef\<lparr>fd_Name := ''RpzDropIPRuleMinPrefixLengthIPv4'', fd_JSONName := ''rpzDropIpRuleMinPrefixLengthIpv4'',
        fd_GoType := goTypeUint32, fd_Scope := FieldScopeBoth\<rparr>,
      zeroFieldDef\<lparr>fd_Name := ''RpzDropIPRuleMinPrefixLengthIPv6'', fd_JSONName := ''rpzDropIpRuleMinPrefixLengthIpv6'',
        fd_GoType := goTypeUint32, fd_Scope := FieldScopeBoth\<rparr>,
      zeroFieldDef\<lparr>fd_Name := ''UseRpzDropIPRule'', fd_JSONName := ''useRpzDropIpRule'', fd_GoType := goTypeBool,
        fd_Scope := FieldScopeBoth\<rparr>,
      zeroFieldDef\<lparr>fd_Name := ''RpzQnameWaitRecurse'', fd_JSONName := ''rpzQnameWaitRecurse'', fd_GoType := goTypeBool,
        fd_Scope := FieldScopeBoth\<rparr>,
      zeroFieldDef\<lparr>fd_Name := ''UseRpzQnameWaitRecurse'', fd_JSONName := ''useRpzQnameWaitRecurse'', fd_GoType := goTypeBool,
        fd_Scope := FieldScopeBoth\<rparr>,
      zeroFieldDef\<lparr>fd_Name := ''ScavengingSettings'', fd_JSONName := ''scavengingSettings'',
        fd_GoType := ''*DNSViewScavengingSettings'', fd_Scope := FieldScopeBoth\<rparr>,
      zeroFieldDef\<lparr>fd_Name := ''UseScavengingSettings'', fd_JSONName := ''useScavengingSettings'', fd_GoType := goTypeBool,
        fd_Scope := FieldScopeBoth\<rparr>,
      zeroFieldDef\<lparr>fd_Name := ''Sortlist'', fd_JSONName := ''sortlist'', fd_GoType := ''[]*DNSViewSortlistEntry'',
        fd_Scope := FieldScopeBoth\<rparr>]"

definition dnsView_Fields5 :: "FieldDef list" where
  "dnsView_Fields5 =
     [zeroFieldDef\<lparr>fd_Name := ''UseSortlist'', fd_JSONName := ''useSortlist'', fd_GoType := goTypeBool,
        fd_Scope := FieldScopeBoth\<rparr>,
      zeroFieldDef\<lparr>fd_Name := ''Ref'', fd_JSONName := ''ref'', fd_GoType := goTypeString, fd_Scope := FieldScopeResponse\<rparr>,
      zeroFieldDef\<lparr>fd_Name := ''IsDefault'', fd_JSONName := ''isDefault'', fd_GoType := goTypeBool,
        fd_Scope := FieldScopeResponse, fd_Immutable := True\<rparr>,
      zeroFieldDef\<lparr>fd_Name := ''CloudInfo'', fd_JSONName := ''cloudInfo'', fd_GoType := ''*DNSViewCloudInfo'',
        fd_Scope := FieldScopeResponse\<rparr>]"

definition dnsView_DNSViewNameServer_Fields :: "FieldDef list" where
  "dnsView_DNSViewNameServer_Fields =
     [zeroFieldDef\<lparr>fd_Name := ''Address'', fd_JSONName := ''address'', fd_GoType := goTypeString\<rparr>,
      zeroFieldDef\<lparr>fd_Name := ''Name'', fd_JSONName := ''name'', fd_GoType := goTypeString\<rparr>,
      zeroFieldDef\<lparr>fd_Name := ''SharedWithMsParentDelegation'', fd_JSONName := ''sharedWithMsParentDelegation'',
        fd_GoType := goTypeBool\<rparr>,
      zeroFieldDef\<lparr>fd_Name := ''Stealth'', fd_JSONName := ''stealth'', fd_GoType := goTypeBool\<rparr>,
      zeroFieldDef\<lparr>fd_Name := ''TsigKey'', fd_JSONName := ''tsigKey'', fd_GoType := goTypeString\<rparr>,
      zeroFieldDef\<lparr>fd_Name := ''TsigKeyAlg'', fd_JSONName := ''tsigKeyAlg'', fd_GoType := goTypeString\<rparr>,
      zeroFieldDef\<lparr>fd_Name := ''TsigKeyName'', fd_JSONName := ''tsigKeyName'', fd_GoType := goTypeString\<rparr>,
      zeroFieldDef\<lparr>fd_Name := ''UseTsigKeyName'', fd_JSONName := ''useTsigKeyName'', fd_GoType := goTypeBool\<rparr>]"

definition dnsView_DNSViewDnssecTrustedKey_Fields :: "FieldDef list" where
  "dnsView_DNSViewDnssecTrustedKey_Fields =
     [zeroFieldDef\<lparr>fd_Name := ''Fqdn'', fd_JSONName := ''fqdn'', fd_GoType := goTypeString\<rparr>,
      zeroFieldDef\<lparr>fd_Name := ''Algorithm'', fd_JSONName := ''algorithm'', fd_GoType := goTypeString\<rparr>,
      zeroFieldDef\<lparr>fd_Name := ''Key'', fd_JSONName := ''key'', fd_GoType := goTypeString\<rparr>,
      zeroFieldDef\<lparr>fd_Name := ''SecureEntryPoint'', fd_JSONName := ''secureEntryPoint'', fd_GoType := goTypeBool\<rparr>,
      zeroFieldDef\<lparr>fd_Name := ''DnssecMustBeSecure'', fd_JSONName := ''dnssecMustBeSecure'', fd_GoType := goTypeBool\<rparr>]"

definition dnsView_DNSViewAddressAc_Fields :: "FieldDef list" where
  "dnsView_DNSViewAddressAc_Fields =
     [zeroFieldDef\<lparr>fd_Name := ''Address'', fd_JSONName := ''address'', fd_GoType := goTypeString\<rparr>,
      zeroFieldDef\<lparr>fd_Name := ''Permission'', fd_JSONName := ''permission'', fd_GoType := goTypeString\<rparr>,
      zeroFieldDef\<lparr>fd_Name := ''TsigKey'', fd_JSONName := ''tsigKey'', fd_GoType := goTypeString\<rparr>,
      zeroFieldDef\<lparr>fd_Name := ''TsigKeyAlg'', fd_JSONName := ''tsigKeyAlg'', fd_GoType := goTypeString\<rparr>,
      zeroFieldDef\<lparr>fd_Name := ''TsigKeyName'', fd_JSONName := ''tsigKeyName'', fd_GoType := goTypeString\<rparr>,
      zeroFieldDef\<lparr>fd_Name := ''UseTsigKeyName'', fd_JSONName := ''useTsigKeyName'', fd_GoType := goTypeBool\<rparr>]"

definition dnsView_DNSViewFixedRrsetOrderFqdn_Fields :: "FieldDef list" where
  "dnsView_DNSViewFixedRrsetOrderFqdn_Fields =
     [zeroFieldDef\<lparr>fd_Name := ''Fqdn'', fd_JSONName := ''fqdn'', fd_GoType := goTypeString\<rparr>,
      zeroFieldDef\<lparr>fd_Name := ''RecordType'', fd_JSONName := ''recordType'', fd_GoType := goTypeString\<rparr>]"

definition dnsView_DNSViewResponseRateLimiting_Fields :: "FieldDef list" where
  "dnsView_DNSViewResponseRateLimiting_Fields =
     [zeroFieldDef\<lparr>fd_Name := ''EnableRrl'', fd_JSONName := ''enableRrl'', fd_GoType := goTypeBool\<rparr>,
      zeroFieldDef\<lparr>fd_Name := ''LogOnly'', fd_JSONName := ''logOnly'', fd_GoType := goTypeBool\<rparr>,
      zeroFieldDef\<lparr>fd_Name := ''ResponsesPerSecond'', fd_JSONName := ''responsesPerSecond'', fd_GoType := goTypeUint32\<rparr>,
      zeroFieldDef\<lparr>fd_Name := ''Window'', fd_JSONName := ''window'', fd_GoType := goTypeUint32\<rparr>,
      zeroFieldDef\<lparr>fd_Name := ''Slip'', fd_JSONName := ''slip'', fd_GoType := goTypeUint32\<rparr>]"

definition dnsView_DNSViewScavengingSettings_Fields :: "FieldDef list" where
  "dnsView_DNSViewScavengingSettings_Fields =
     [zeroFieldDef\<lparr>fd_Name := ''EnableScavenging'', fd_JSONName := ''enableScavenging'', fd_GoType := goTypeBool\<rparr>,
      zeroFieldDef\<lparr>fd_Name := ''EnableRecurrentScavenging'', fd_JSONName := ''enableRecurrentScavenging'',
        fd_GoType := goTypeBool\<rparr>,
      zeroFieldDef\<lparr>fd_Name := ''EnableAutoReclamation'', fd_JSONName := ''enableAutoReclamation'', fd_GoType := goTypeBool\<rparr>,
      zeroFieldDef\<lparr>fd_Name := ''EnableRrLastQueried'', fd_JSONName := ''enableRrLastQueried'', fd_GoType := goTypeBool\<rparr>,
      zeroFieldDef\<lparr>fd_Name := ''EnableZoneLastQueried'', fd_JSONName := ''enableZoneLastQueried'', fd_GoType := goTypeBool\<rparr>,
      zeroFieldDef\<lparr>fd_Name := ''ReclaimAssociatedRecords'', fd_JSONName := ''reclaimAssociatedRecords'', fd_GoType := goTypeBool\<rparr>,
      zeroFieldDef\<lparr>fd_Name := ''ScavengingSchedule'', fd_JSONName := ''scavengingSchedule'',
        fd_GoType := ''*DNSViewScavengingSchedule''\<rparr>,
      zeroFieldDef\<lparr>fd_Name := ''ExpressionList'', fd_JSONName := ''expressionList'', fd_GoType := ''[]*DNSViewExpressionOp''\<rparr>,
      zeroFieldDef\<lparr>fd_Name := ''EaExpressionList'', fd_JSONName := ''eaExpressionList'',
        fd_GoType := ''[]*DNSViewEaExpressionOp''\<rparr>]"

definition dnsView_DNSViewScavengingSchedule_Fields :: "FieldDef list" where
  "dnsView_DNSViewScavengingSchedule_Fields =
     [zeroFieldDef\<lparr>fd_Name := ''Weekdays'', fd_JSONName := ''weekdays'', fd_GoType := ''[]string''\<rparr>,
      zeroFieldDef\<lparr>fd_Name := ''TimeZone'', fd_JSONName := ''timeZone'', fd_GoType := goTypeString\<rparr>,
      zeroFieldDef\<lparr>fd_Name := ''RecurringTime'', fd_JSONName := ''recurringTime'', fd_GoType := goTypeInt64\<rparr>,
      zeroFieldDef\<lparr>fd_Name := ''Frequency'', fd_JSONName := ''frequency'', fd_GoType := goTypeString\<rparr>,
      zeroFieldDef\<lparr>fd_Name := ''Every'', fd_JSONName := ''every'', fd_GoType := goTypeUint32\<rparr>,
      zeroFieldDef\<lparr>fd_Name := ''MinutesPastHour'', fd_JSONName := ''minutesPastHour'', fd_GoType := goTypeUint32\<rparr>,
      zeroFieldDef\<lparr>fd_Name := ''HourOfDay'', fd_JSONName := ''hourOfDay'', fd_GoType := goTypeUint32\<rparr>,
      zeroFieldDef\<lparr>fd_Name := ''Year'', fd_JSONName := ''year'', fd_GoType := goTypeUint32\<rparr>,
      zeroFieldDef\<lparr>fd_Name := ''Month'', fd_JSONName := ''month'', fd_GoType := goTypeUint32\<rparr>,
      zeroFieldDef\<lparr>fd_Name := ''DayOfMonth'', fd_JSONName := ''dayOfMonth'', fd_GoType := goTypeUint32\<rparr>,
      zeroFieldDef\<lparr>fd_Name := ''Repeat'', fd_JSONName := ''repeat'', fd_GoType := goTypeString\<rparr>,
      zeroFieldDef\<lparr>fd_Name := ''Disable'', fd_JSONName := ''disable'', fd_GoType := goTypeBool\<rparr>]"

definition dnsView_DNSViewExpressionOp_Fields :: "FieldDef list" where
  "dnsView_DNSViewExpressionOp_Fields =
     [zeroFieldDef\<lparr>fd_Name := ''Op'', fd_JSONName := ''op'', fd_GoType := goTypeString\<rparr>,
      zeroFieldDef\<lparr>fd_Name := ''Op1'', fd_JSONName := ''op1'', fd_GoType := goTypeString\<rparr>,
      zeroFieldDef\<lparr>fd_Name := ''Op1Type'', fd_JSONName := ''op1Type'', fd_GoType := goTypeString\<rparr>,
      zeroFieldDef\<lparr>fd_Name := ''Op2'', fd_JSONName := ''op2'', fd_GoType := goTypeString\<rparr>,
      zeroFieldDef\<lparr>fd_Name := ''Op2Type'', fd_JSONName := ''op2Type'', fd_GoType := goTypeString\<rparr>]"

definition dnsView_DNSViewEaExpressionOp_Fields :: "FieldDef list" where
  "dnsView_DNSViewEaExpressionOp_Fields =
     [zeroFieldDef\<lparr>fd_Name := ''Op'', fd_JSONName := ''op'', fd_GoType := goTypeString\<rparr>,
      zeroFieldDef\<lparr>fd_Name := ''Op1'', fd_JSONName := ''op1'', fd_GoType := goTypeString\<rparr>,
      zeroFieldDef\<lparr>fd_Name := ''Op1Type'', fd_JSONName := ''op1Type'', fd_GoType := goTypeString\<rparr>,
      zeroFieldDef\<lparr>fd_Name := ''Op2'', fd_JSONName := ''op2'', fd_GoType := goTypeString\<rparr>,
      zeroFieldDef\<lparr>fd_Name := ''Op2Type'', fd_JSONName := ''op2Type'', fd_GoType := goTypeString\<rparr>]"

definition dnsView_DNSViewSortlistEntry_Fields :: "FieldDef list" where
  "dnsView_DNSViewSortlistEntry_Fields =
     [zeroFieldDef\<lparr>fd_Name := ''Address'', fd_JSONName := ''address'', fd_GoType := goTypeString\<rparr>,
      zeroFieldDef\<lparr>fd_Name := ''MatchList'', fd_JSONName := ''matchList'', fd_GoType := ''[]string''\<rparr>]"

definition dnsView_DNSViewCloudInfo_Fields :: "FieldDef list" where
  "dnsView_DNSViewCloudInfo_Fields =
     [zeroFieldDef\<lparr>fd_Name := ''DelegatedMember'', fd_JSONName := ''delegatedMember'',
        fd_GoType := ''*DNSViewCloudInfoDelegatedMember''\<rparr>,
      zeroFieldDef\<lparr>fd_Name := ''DelegatedScope'', fd_JSONName := ''delegatedScope'', fd_GoType := goTypeString\<rparr>,
      zeroFieldDef\<lparr>fd_Name := ''DelegatedRoot'', fd_JSONName := ''delegatedRoot'', fd_GoType := goTypeString\<rparr>,
      zeroFieldDef\<lparr>fd_Name := ''OwnedByAdaptor'', fd_JSONName := ''ownedByAdaptor'', fd_GoType := goTypeBool\<rparr>,
      zeroFieldDef\<lparr>fd_Name := ''Usage'', fd_JSONName := ''usage'', fd_GoType := goTypeString\<rparr>,
      zeroFieldDef\<lparr>fd_Name := ''Tenant'', fd_JSONName := ''tenant'', fd_GoType := goTypeString\<rparr>,
      zeroFieldDef\<lparr>fd_Name := ''MgmtPlatform'', fd_JSONName := ''mgmtPlatform'', fd_GoType := goTypeString\<rparr>,
      zeroFieldDef\<lparr>fd_Name := ''AuthorityType'', fd_JSONName := ''authorityType'', fd_GoType := goTypeString\<rparr>]"

definition dnsView_DNSViewCloudInfoDelegatedMember_Fields :: "FieldDef list" where
  "dnsView_DNSViewCloudInfoDelegatedMember_Fields =
     [zeroFieldDef\<lparr>fd_Name := ''Ipv4Addr'', fd_JSONName := ''ipv4Addr'', fd_GoType := goTypeString\<rparr>,
      zeroFieldDef\<lparr>fd_Name := ''Ipv6Addr'', fd_JSONName := ''ipv6Addr'', fd_GoType := goTypeString\<rparr>,
      zeroFieldDef\<lparr>fd_Name := ''Name'', fd_JSONName := ''name'', fd_GoType := goTypeString\<rparr>]"

definition dnsView :: ResourceDescriptor where
  "dnsView =
     \<lparr>res_Kind = ''DNSView'', res_Slug = ''dnsview'', res_ClusterGroup = clusterGroup ''dnsview'',
      res_NamespacedGroup = namespacedGroup ''dnsview'', res_ExternalNameStrategy = StrategyServerAssigned,
      res_Fields = dnsView_Fields1 @ dnsView_Fields2 @ dnsView_Fields3 @ dnsView_Fields4 @ dnsView_Fields5,
      res_NestedTypes = [\<lparr>nt_TypeName = ''DNSViewNameServer'', nt_Fields = dnsView_DNSViewNameServer_Fields\<rparr>,
        \<lparr>nt_TypeName = ''DNSViewDnssecTrustedKey'', nt_Fields = dnsView_DNSViewDnssecTrustedKey_Fields\<rparr>,
        \<lparr>nt_TypeName = ''DNSViewAddressAc'', nt_Fields = dnsView_DNSViewAddressAc_Fields\<rparr>,
        \<lparr>nt_TypeName = ''DNSViewFixedRrsetOrderFqdn'', nt_Fields = dnsView_DNSViewFixedRrsetOrderFqdn_Fields\<rparr>,
        \<lparr>nt_TypeName = ''DNSViewResponseRateLimiting'', nt_Fields = dnsView_DNSViewResponseRateLimiting_Fields\<rparr>,
        \<lparr>nt_TypeName = ''DNSViewScavengingSettings'', nt_Fields = dnsView_DNSViewScavengingSettings_Fields\<rparr>,
        \<lparr>nt_TypeName = ''DNSViewScavengingSchedule'', nt_Fields = dnsView_DNSViewScavengingSchedule_Fields\<rparr>,
        \<lparr>nt_TypeName = ''DNSViewExpressionOp'', nt_Fields = dnsView_DNSViewExpressionOp_Fields\<rparr>,
        \<lparr>nt_TypeName = ''DNSViewEaExpressionOp'', nt_Fields = dnsView_DNSViewEaExpressionOp_Fields\<rparr>,
        \<lparr>nt_TypeName = ''DNSViewSortlistEntry'', nt_Fields = dnsView_DNSViewSortlistEntry_Fields\<rparr>,
        \<lparr>nt_TypeName = ''DNSViewCloudInfo'', nt_Fields = dnsView_DNSViewCloudInfo_Fields\<rparr>,
        \<lparr>nt_TypeName = ''DNSViewCloudInfoDelegatedMember'', nt_Fields = dnsView_DNSViewCloudInfoDelegatedMember_Fields\<rparr>],
      res_ParameterValidations = []\<rparr>"

lemmas dnsView_parts = dnsView_def dnsView_Fields1_def dnsView_Fields2_def dnsView_Fields3_def dnsView_Fields4_def dnsView_Fields5_def dnsView_DNSViewNameServer_Fields_def dnsView_DNSViewDnssecTrustedKey_Fields_def dnsView_DNSViewAddressAc_Fields_def dnsView_DNSViewFixedRrsetOrderFqdn_Fields_def dnsView_DNSViewResponseRateLimiting_Fields_def dnsView_DNSViewScavengingSettings_Fields_def dnsView_DNSViewScavengingSchedule_Fields_def dnsView_DNSViewExpressionOp_Fields_def dnsView_DNSViewEaExpressionOp_Fields_def dnsView_DNSViewSortlistEntry_Fields_def dnsView_DNSViewCloudInfo_Fields_def dnsView_DNSViewCloudInfoDelegatedMember_Fields_def

section \<open>DTCPool (dtc.go)\<close>

definition dtcPool_Fields :: "FieldDef list" where
  "dtcPool_Fields =
     [zeroFieldDef\<lparr>fd_Name := ''Name'', fd_JSONName := ''name'', fd_GoType := goTypeString, fd_Scope := FieldScopeBoth,
        fd_Required := True\<rparr>,
      zeroFieldDef\<lparr>fd_Name := ''LBPreferredMethod'', fd_JSONName := ''lbPreferredMethod'', fd_GoType := goTypeString,
        fd_Scope := FieldScopeBoth, fd_Required := True,
        fd_Enum := [''ROUND_ROBIN'', ''RATIO'', ''TOPOLOGY'', ''DYNAMIC_RATIO'', ''GLOBAL_AVAILABILITY'', ''ALL_AVAILABLE'']\<rparr>,
      zeroFieldDef\<lparr>fd_Name := ''LBAlternateMethod'', fd_JSONName := ''lbAlternateMethod'', fd_GoType := goTypeString,
        fd_Scope := FieldScopeBoth,
        fd_Enum := [''NONE'', ''ROUND_ROBIN'', ''RATIO'', ''TOPOLOGY'', ''DYNAMIC_RATIO'', ''GLOBAL_AVAILABILITY'', ''ALL_AVAILABLE'']\<rparr>,
      zeroFieldDef\<lparr>fd_Name := ''Servers'', fd_JSONName := ''servers'', fd_GoType := ''[]DTCPoolServerLink'',
        fd_Scope := FieldScopeBoth\<rparr>,
      zeroFieldDef\<lparr>fd_Name := ''Availability'', fd_JSONName := ''availability'', fd_GoType := goTypeString,
        fd_Scope := FieldScopeBoth, fd_Enum := [''ANY'', ''QUORUM'', ''ALL'']\<rparr>,
      zeroFieldDef\<lparr>fd_Name := ''Quorum'', fd_JSONName := ''quorum'', fd_GoType := goTypeUint32, fd_Scope := FieldScopeBoth\<rparr>,
      zeroFieldDef\<lparr>fd_Name := ''LBPreferredTopology'', fd_JSONName := ''lbPreferredTopology'', fd_GoType := goTypeString,
        fd_Scope := FieldScopeBoth\<rparr>,
      zeroFieldDef\<lparr>fd_Name := ''LBDynamicRatioPreferred'', fd_JSONName := ''lbDynamicRatioPreferred'',
        fd_GoType := ''*DTCPoolDynamicRatio'', fd_Scope := FieldScopeBoth\<rparr>,
      zeroFieldDef\<lparr>fd_Name := ''LBAlternateTopology'', fd_JSONName := ''lbAlternateTopology'', fd_GoType := goTypeString,
        fd_Scope := FieldScopeBoth\<rparr>,
      zeroFieldDef\<lparr>fd_Name := ''LBDynamicRatioAlternate'', fd_JSONName := ''lbDynamicRatioAlternate'',
        fd_GoType := ''*DTCPoolDynamicRatio'', fd_Scope := FieldScopeBoth\<rparr>,
      zeroFieldDef\<lparr>fd_Name := ''Monitors'', fd_JSONName := ''monitors'', fd_GoType := ''[]DTCPoolMonitor'',
        fd_Scope := FieldScopeBoth\<rparr>,
      zeroFieldDef\<lparr>fd_Name := ''Comment'', fd_JSONName := ''comment'', fd_GoType := goTypeString, fd_Scope := FieldScopeBoth\<rparr>,
      zeroFieldDef\<lparr>fd_Name := ''Disable'', fd_JSONName := ''disable'', fd_GoType := goTypeBool, fd_Scope := FieldScopeBoth\<rparr>,
      zeroFieldDef\<lparr>fd_Name := ''TTL'', fd_JSONName := ''ttl'', fd_GoType := goTypeUint32, fd_Scope := FieldScopeBoth,
        fd_Minimum := int64Ptr ttlMinimumSeconds, fd_Maximum := int64Ptr ttlMaximumSeconds\<rparr>,
      zeroFieldDef\<lparr>fd_Name := ''UseTTL'', fd_JSONName := ''useTtl'', fd_GoType := goTypeBool, fd_Scope := FieldScopeBoth\<rparr>,
      zeroFieldDef\<lparr>fd_Name := ''ExtAttrs'', fd_JSONName := ''extAttrs'', fd_GoType := goTypeStringMap,
        fd_Scope := FieldScopeBoth, fd_ForProviderValidations := reservedEAKeyValidations\<rparr>,
      zeroFieldDef\<lparr>fd_Name := ''Ref'', fd_JSONName := ''ref'', fd_GoType := goTypeString, fd_Scope := FieldScopeResponse\<rparr>,
      zeroFieldDef\<lparr>fd_Name := ''ConsolidatedMonitors'', fd_JSONName := ''consolidatedMonitors'',
        fd_GoType := ''[]DTCPoolConsolidatedMonitorHealth'', fd_Scope := FieldScopeResponse\<rparr>,
      zeroFieldDef\<lparr>fd_Name := ''Health'', fd_JSONName := ''health'', fd_GoType := ''*DTCPoolHealth'',
        fd_Scope := FieldScopeResponse\<rparr>]"

definition dtcPool_DTCPoolServerLink_Fields :: "FieldDef list" where
  "dtcPool_DTCPoolServerLink_Fields =
     [zeroFieldDef\<lparr>fd_Name := ''Server'', fd_JSONName := ''server'', fd_GoType := goTypeString,
        fd_Reference := Some (zeroReferenceDescriptor\<lparr>rd_TargetKind := ''DTCServer'', rd_TargetSlug := ''dtcserver'', rd_TargetScope := ''cluster''\<rparr>)\<rparr>,
      zeroFieldDef\<lparr>fd_Name := ''Ratio'', fd_JSONName := ''ratio'', fd_GoType := goTypeUint32\<rparr>]"

definition dtcPool_DTCPoolMonitor_Fields :: "FieldDef list" where
  "dtcPool_DTCPoolMonitor_Fields =
     [zeroFieldDef\<lparr>fd_Name := ''Monitor'', fd_JSONName := ''monitor'', fd_GoType := goTypeString\<rparr>]"

definition dtcPool_DTCPoolDynamicRatio_Fields :: "FieldDef list" where
  "dtcPool_DTCPoolDynamicRatio_Fields =
     [zeroFieldDef\<lparr>fd_Name := ''Method'', fd_JSONName := ''method'', fd_GoType := goTypeString\<rparr>,
      zeroFieldDef\<lparr>fd_Name := ''Monitor'', fd_JSONName := ''monitor'', fd_GoType := goTypeString\<rparr>,
      zeroFieldDef\<lparr>fd_Name := ''MonitorMetric'', fd_JSONName := ''monitorMetric'', fd_GoType := goTypeString\<rparr>,
      zeroFieldDef\<lparr>fd_Name := ''MonitorWeighing'', fd_JSONName := ''monitorWeighing'', fd_GoType := goTypeString\<rparr>,
      zeroFieldDef\<lparr>fd_Name := ''InvertMonitorMetric'', fd_JSONName := ''invertMonitorMetric'', fd_GoType := goTypeBool\<rparr>]"

definition dtcPool_DTCPoolConsolidatedMonitorHealth_Fields :: "FieldDef list" where
  "dtcPool_DTCPoolConsolidatedMonitorHealth_Fields =
     [zeroFieldDef\<lparr>fd_Name := ''Members'', fd_JSONName := ''members'', fd_GoType := ''[]string''\<rparr>,
      zeroFieldDef\<lparr>fd_Name := ''Monitor'', fd_JSONName := ''monitor'', fd_GoType := goTypeString\<rparr>,
      zeroFieldDef\<lparr>fd_Name := ''Availability'', fd_JSONName := ''availability'', fd_GoType := goTypeString\<rparr>,
      zeroFieldDef\<lparr>fd_Name := ''FullHealthCommunication'', fd_JSONName := ''fullHealthCommunication'', fd_GoType := goTypeBool\<rparr>]"

definition dtcPool_DTCPoolHealth_Fields :: "FieldDef list" where
  "dtcPool_DTCPoolHealth_Fields =
     [zeroFieldDef\<lparr>fd_Name := ''Availability'', fd_JSONName := ''availability'', fd_GoType := goTypeString\<rparr>,
      zeroFieldDef\<lparr>fd_Name := ''Description'', fd_JSONName := ''description'', fd_GoType := goTypeString\<rparr>,
      zeroFieldDef\<lparr>fd_Name := ''EnabledState'', fd_JSONName := ''enabledState'', fd_GoType := goTypeString\<rparr>]"

definition dtcPool :: ResourceDescriptor where
  "dtcPool =
     \<lparr>res_Kind = ''DTCPool'', res_Slug = ''dtcpool'', res_ClusterGroup = clusterGroup ''dtcpool'',
      res_NamespacedGroup = namespacedGroup ''dtcpool'', res_ExternalNameStrategy = StrategyServerAssigned,
      res_Fields = dtcPool_Fields,
      res_NestedTypes = [\<lparr>nt_TypeName = ''DTCPoolServerLink'', nt_Fields = dtcPool_DTCPoolServerLink_Fields\<rparr>,
        \<lparr>nt_TypeName = ''DTCPoolMonitor'', nt_Fields = dtcPool_DTCPoolMonitor_Fields\<rparr>,
        \<lparr>nt_TypeName = ''DTCPoolDynamicRatio'', nt_Fields = dtcPool_DTCPoolDynamicRatio_Fields\<rparr>,
        \<lparr>nt_TypeName = ''DTCPoolConsolidatedMonitorHealth'', nt_Fields = dtcPool_DTCPoolConsolidatedMonitorHealth_Fields\<rparr>,
        \<lparr>nt_TypeName = ''DTCPoolHealth'', nt_Fields = dtcPool_DTCPoolHealth_Fields\<rparr>],
      res_ParameterValidations = []\<rparr>"

lemmas dtcPool_parts = dtcPool_def dtcPool_Fields_def dtcPool_DTCPoolServerLink_Fields_def dtcPool_DTCPoolMonitor_Fields_def dtcPool_DTCPoolDynamicRatio_Fields_def dtcPool_DTCPoolConsolidatedMonitorHealth_Fields_def dtcPool_DTCPoolHealth_Fields_def

section \<open>DTCLBDN (dtc.go)\<close>

definition dtcLBDN_Fields :: "FieldDef list" where
  "dtcLBDN_Fields =
     [zeroFieldDef\<lparr>fd_Name := ''Name'', fd_JSONName := ''name'', fd_GoType := goTypeString, fd_Scope := FieldScopeBoth,
        fd_Required := True\<rparr>,
      zeroFieldDef\<lparr>fd_Name := ''LBMethod'', fd_JSONName := ''lbMethod'', fd_GoType := goTypeString, fd_Scope := FieldScopeBoth,
        fd_Required := True, fd_Enum := [''ROUND_ROBIN'', ''RATIO'', ''TOPOLOGY'', ''GLOBAL_AVAILABILITY'']\<rparr>,
      zeroFieldDef\<lparr>fd_Name := ''Patterns'', fd_JSONName := ''patterns'', fd_GoType := ''[]string'', fd_Scope := FieldScopeBoth,
        fd_Required := True\<rparr>,
      zeroFieldDef\<lparr>fd_Name := ''Pools'', fd_JSONName := ''pools'', fd_GoType := ''[]DTCLBDNPoolLink'',
        fd_Scope := FieldScopeBoth\<rparr>,
      zeroFieldDef\<lparr>fd_Name := ''AuthZones'', fd_JSONName := ''authZones'', fd_GoType := ''[]string'',
        fd_Scope := FieldScopeBoth,
        fd_Reference := Some (zeroReferenceDescriptor\<lparr>rd_TargetKind := ''ZoneAuth'', rd_TargetSlug := ''zoneauth'', rd_TargetScope := ''cluster''\<rparr>)\<rparr>,
      zeroFieldDef\<lparr>fd_Name := ''Types'', fd_JSONName := ''types'', fd_GoType := ''[]string'', fd_Scope := FieldScopeBoth,
        fd_Enum := [''A'', ''AAAA'', ''CNAME'', ''NAPTR'', ''SRV'']\<rparr>,
      zeroFieldDef\<lparr>fd_Name := ''Priority'', fd_JSONName := ''priority'', fd_GoType := goTypeUint32, fd_Scope := FieldScopeBoth\<rparr>,
      zeroFieldDef\<lparr>fd_Name := ''Persistence'', fd_JSONName := ''persistence'', fd_GoType := goTypeUint32,
        fd_Scope := FieldScopeBoth\<rparr>,
      zeroFieldDef\<lparr>fd_Name := ''Topology'', fd_JSONName := ''topology'', fd_GoType := goTypeString, fd_Scope := FieldScopeBoth\<rparr>,
      zeroFieldDef\<lparr>fd_Name := ''TTL'', fd_JSONName := ''ttl'', fd_GoType := goTypeUint32, fd_Scope := FieldScopeBoth,
        fd_Minimum := int64Ptr ttlMinimumSeconds, fd_Maximum := int64Ptr ttlMaximumSeconds\<rparr>,
      zeroFieldDef\<lparr>fd_Name := ''UseTTL'', fd_JSONName := ''useTtl'', fd_GoType := goTypeBool, fd_Scope := FieldScopeBoth\<rparr>,
      zeroFieldDef\<lparr>fd_Name := ''Comment'', fd_JSONName := ''comment'', fd_GoType := goTypeString, fd_Scope := FieldScopeBoth\<rparr>,
      zeroFieldDef\<lparr>fd_Name := ''Disable'', fd_JSONName := ''disable'', fd_GoType := goTypeBool, fd_Scope := FieldScopeBoth\<rparr>,
      zeroFieldDef\<lparr>fd_Name := ''ExtAttrs'', fd_JSONName := ''extAttrs'', fd_GoType := goTypeStringMap,
        fd_Scope := FieldScopeBoth, fd_ForProviderValidations := reservedEAKeyValidations\<rparr>,
      zeroFieldDef\<lparr>fd_Name := ''Ref'', fd_JSONName := ''ref'', fd_GoType := goTypeString, fd_Scope := FieldScopeResponse\<rparr>,
      zeroFieldDef\<lparr>fd_Name := ''Health'', fd_JSONName := ''health'', fd_GoType := ''*DTCLBDNHealth'',
        fd_Scope := FieldScopeResponse\<rparr>]"

definition dtcLBDN_DTCLBDNPoolLink_Fields :: "FieldDef list" where
  "dtcLBDN_DTCLBDNPoolLink_Fields =
     [zeroFieldDef\<lparr>fd_Name := ''Pool'', fd_JSONName := ''pool'', fd_GoType := goTypeString,
        fd_Reference := Some (zeroReferenceDescriptor\<lparr>rd_TargetKind := ''DTCPool'', rd_TargetSlug := ''dtcpool'', rd_TargetScope := ''cluster''\<rparr>)\<rparr>,
      zeroFieldDef\<lparr>fd_Name := ''Ratio'', fd_JSONName := ''ratio'', fd_GoType := goTypeUint32\<rparr>]"

definition dtcLBDN_DTCLBDNHealth_Fields :: "FieldDef list" where
  "dtcLBDN_DTCLBDNHealth_Fields =
     [zeroFieldDef\<lparr>fd_Name := ''Availability'', fd_JSONName := ''availability'', fd_GoType := goTypeString\<rparr>,
      zeroFieldDef\<lparr>fd_Name := ''Description'', fd_JSONName := ''description'', fd_GoType := goTypeString\<rparr>,
      zeroFieldDef\<lparr>fd_Name := ''EnabledState'', fd_JSONName := ''enabledState'', fd_GoType := goTypeString\<rparr>]"

definition dtcLBDN :: ResourceDescriptor where
  "dtcLBDN =
     \<lparr>res_Kind = ''DTCLBDN'', res_Slug = ''dtclbdn'', res_ClusterGroup = clusterGroup ''dtclbdn'',
      res_NamespacedGroup = namespacedGroup ''dtclbdn'', res_ExternalNameStrategy = StrategyServerAssigned,
      res_Fields = dtcLBDN_Fields,
      res_NestedTypes = [\<lparr>nt_TypeName = ''DTCLBDNPoolLink'', nt_Fields = dtcLBDN_DTCLBDNPoolLink_Fields\<rparr>,
        \<lparr>nt_TypeName = ''DTCLBDNHealth'', nt_Fields = dtcLBDN_DTCLBDNHealth_Fields\<rparr>],
      res_ParameterValidations = []\<rparr>"

lemmas dtcLBDN_parts = dtcLBDN_def dtcLBDN_Fields_def dtcLBDN_DTCLBDNPoolLink_Fields_def dtcLBDN_DTCLBDNHealth_Fields_def

end
