(* ===== verification/Generator.thy ===== *)
theory Generator
  imports CatalogRecords CatalogNetworks
begin

text \<open>
  The type generator openapi2crd: the catalog as a whole (FindResource, All), the data a resource's
  Go source is rendered from (BuildFieldSetData, BuildScopeData), the markers and declarations the
  template fieldSetTemplate makes of it, and the commands that write the files (Generate,
  main.go). text/template and go/format are parameters, as are the file system and package flag;
  descriptions, which the template copies into comments, are left out.
\<close>

section \<open>The catalog (catalog.go)\<close>

definition All_resources :: "ResourceDescriptor list" where
  "All_resources = [aRecord, aaaaRecord, aliasRecord, cnameRecord, hostRecord, mxRecord, nsRecord, ptrRecord, srvRecord,
     txtRecord, zoneAuth, zoneDelegated, network, extensibleAttributeDef, networkView, fixedAddress, rangeResource,
     rangeTemplate, ipv4SharedNetwork, networkContainer, zoneForward, dtcServer, dnsView, dtcPool, dtcLBDN]"

fun findResourceLoop :: "ResourceDescriptor list \<Rightarrow> string \<Rightarrow> ResourceDescriptor option" where
  "findResourceLoop [] slug = None"
| "findResourceLoop (rd # rds) slug = (if res_Slug rd = slug then Some rd else findResourceLoop rds slug)"

definition FindResource :: "string \<Rightarrow> ResourceDescriptor option" where
  "FindResource slug = findResourceLoop All_resources slug"

section \<open>Template data (generator.go)\<close>

definition apiVersion :: string where "apiVersion = ''v1alpha1''"

definition modulePath :: string where
  "modulePath = ''github.com/crossplane-contrib/provider-infoblox-nios''"

record ReferenceData =
  rfd_MarkerType :: string
  rfd_MarkerExtractor :: string
  rfd_RefFieldName :: string
  rfd_RefFieldJSONName :: string
  rfd_RefGoType :: string
  rfd_RefFieldOmitEmpty :: bool
  rfd_SelectorFieldName :: string
  rfd_SelectorGoType :: string
  rfd_SelectorFieldJSONName :: string

record FieldData =
  fdt_Name :: string
  fdt_GoType :: string
  fdt_JSONName :: string
  fdt_OmitEmpty :: bool
  fdt_Required :: bool
  fdt_Immutable :: bool
  fdt_Enum :: "string list"
  fdt_HasMinimum :: bool
  fdt_Minimum :: int
  fdt_HasMaximum :: bool
  fdt_Maximum :: int
  fdt_Reference :: "ReferenceData option"
  fdt_ExtraValidations :: "ValidationRule list"

record NestedTypeData =
  ntd_TypeName :: string
  ntd_Fields :: "FieldData list"

record FieldSetData =
  fsd_Kind :: string
  fsd_Slug :: string
  fsd_PackageName :: string
  fsd_ForProvider :: "FieldData list"
  fsd_AtProvider :: "FieldData list"
  fsd_NestedTypes :: "NestedTypeData list"
  fsd_HasReferences :: bool
  fsd_ParameterValidations :: "ValidationRule list"
  fsd_NeedsXPV2Import :: bool

text \<open>ScopeData embeds FieldSetData.\<close>

record ScopeData = FieldSetData +
  scd_Scope :: string
  scd_IsCluster :: bool
  scd_Group :: string
  scd_DriftDetectionImportPath :: string

definition isOmitEmpty :: "string \<Rightarrow> bool \<Rightarrow> bool" where
  "isOmitEmpty goType required =
     (if starts_with ''[]'' goType \<or> starts_with ''map['' goType then False else \<not> required)"

definition usesXPV2 :: "string \<Rightarrow> bool" where
  "usesXPV2 goType = contains_str ''xpv2.'' goType"

text \<open>strings.ToLower of one byte: an ASCII letter in lower case, a byte that is no UTF-8 text as U+FFFD.\<close>

definition lowerFirst :: "string \<Rightarrow> string" where
  "lowerFirst s =
     (case s of
        [] \<Rightarrow> s
      | c # cs \<Rightarrow> (if of_char c \<ge> (128 :: nat) then [CHR 0xEF, CHR 0xBF, CHR 0xBD] else [lower_char c]) @ cs)"

definition goKeywords :: "string list" where
  "goKeywords =
     [''break'', ''case'', ''chan'', ''const'', ''continue'', ''default'', ''defer'', ''else'', ''fallthrough'', ''for'',
      ''func'', ''go'', ''goto'', ''if'', ''import'', ''interface'', ''map'', ''package'', ''range'', ''return'',
      ''select'', ''struct'', ''switch'', ''type'', ''var'']"

definition safeGoPackageName :: "string \<Rightarrow> string" where
  "safeGoPackageName slug = (if slug \<in> set goKeywords then slug @ ''pkg'' else slug)"

definition buildReferenceData ::
  "ReferenceDescriptor option \<Rightarrow> string \<Rightarrow> string \<Rightarrow> bool \<Rightarrow> ReferenceData option" where
  "buildReferenceData ref goFieldName goType isCluster =
     (case ref of
        None \<Rightarrow> None
      | Some r \<Rightarrow>
          (let scope = (if rd_TargetScope r = [] then if isCluster then ''cluster'' else ''namespaced''
                        else rd_TargetScope r);
               (refType, selectorType) =
                 (if \<not> isCluster then (''xpv2.NamespacedReference'', ''xpv2.NamespacedSelector'')
                  else (''xpv2.Reference'', ''xpv2.Selector''));
               (refFieldName, refGoType) =
                 (if starts_with ''[]'' goType then (goFieldName @ ''Refs'', ''[]'' @ refType)
                  else (goFieldName @ ''Ref'', ''*'' @ refType));
               selectorFieldName = goFieldName @ ''Selector''
           in Some
             \<lparr>rfd_MarkerType = modulePath @ ''/apis/'' @ scope @ ''/'' @ rd_TargetSlug r @ ''/'' @ apiVersion @ ''.'' @
                rd_TargetKind r,
              rfd_MarkerExtractor = rd_Extractor r,
              rfd_RefFieldName = refFieldName,
              rfd_RefFieldJSONName = lowerFirst refFieldName,
              rfd_RefGoType = refGoType,
              rfd_RefFieldOmitEmpty = isOmitEmpty refGoType False,
              rfd_SelectorFieldName = selectorFieldName,
              rfd_SelectorGoType = ''*'' @ selectorType,
              rfd_SelectorFieldJSONName = lowerFirst selectorFieldName\<rparr>))"

definition buildFieldData :: "FieldDef \<Rightarrow> bool \<Rightarrow> FieldData" where
  "buildFieldData f isCluster =
     (let fd = \<lparr>fdt_Name = fd_Name f, fdt_GoType = fd_GoType f, fdt_JSONName = fd_JSONName f,
            fdt_OmitEmpty = isOmitEmpty (fd_GoType f) (fd_Required f), fdt_Required = fd_Required f,
            fdt_Immutable = fd_Immutable f, fdt_Enum = fd_Enum f, fdt_HasMinimum = False, fdt_Minimum = 0,
            fdt_HasMaximum = False, fdt_Maximum = 0,
            fdt_Reference = buildReferenceData (fd_Reference f) (fd_Name f) (fd_GoType f) isCluster,
            fdt_ExtraValidations = fd_ForProviderValidations f\<rparr>;
          fd1 = (case fd_Minimum f of None \<Rightarrow> fd | Some m \<Rightarrow> fd\<lparr>fdt_HasMinimum := True, fdt_Minimum := m\<rparr>)
      in case fd_Maximum f of None \<Rightarrow> fd1 | Some m \<Rightarrow> fd1\<lparr>fdt_HasMaximum := True, fdt_Maximum := m\<rparr>)"

definition atProviderGoType :: "string \<Rightarrow> string" where
  "atProviderGoType goType =
     (if starts_with ''*'' goType \<or> starts_with ''[]'' goType \<or> starts_with ''map['' goType then goType
      else ''*'' @ goType)"

definition zeroFieldData :: FieldData where
  "zeroFieldData =
     \<lparr>fdt_Name = [], fdt_GoType = [], fdt_JSONName = [], fdt_OmitEmpty = False, fdt_Required = False,
      fdt_Immutable = False, fdt_Enum = [], fdt_HasMinimum = False, fdt_Minimum = 0, fdt_HasMaximum = False,
      fdt_Maximum = 0, fdt_Reference = None, fdt_ExtraValidations = []\<rparr>"

definition buildAtProviderFieldData :: "FieldDef \<Rightarrow> FieldData" where
  "buildAtProviderFieldData f =
     (let goType = atProviderGoType (fd_GoType f) in
      zeroFieldData\<lparr>fdt_Name := fd_Name f, fdt_GoType := goType, fdt_JSONName := fd_JSONName f,
        fdt_OmitEmpty := isOmitEmpty goType False, fdt_Immutable := fd_Immutable f\<rparr>)"

text \<open>The three loops of BuildFieldSetData, over its local variables.\<close>

fun fieldsLoop ::
  "bool \<Rightarrow> FieldDef list \<Rightarrow> FieldData list \<times> FieldData list \<times> bool \<times> bool \<Rightarrow>
     FieldData list \<times> FieldData list \<times> bool \<times> bool" where
  "fieldsLoop isCluster [] acc = acc"
| "fieldsLoop isCluster (f # fs) (forProvider, atProvider, hasReferences, needsXPV2) =
     (let (forProvider1, atProvider1) =
        (case fd_Scope f of
           FieldScopeResponse \<Rightarrow>
             (forProvider,
              if \<not> fd_OmitFromObservation f then atProvider @ [buildAtProviderFieldData f] else atProvider)
         | _ \<Rightarrow>
             (forProvider @ [buildFieldData f isCluster],
              if \<not> fd_OmitFromObservation f then atProvider @ [buildAtProviderFieldData f] else atProvider))
      in fieldsLoop isCluster fs
           (forProvider1, atProvider1, fd_Reference f \<noteq> None \<or> hasReferences, usesXPV2 (fd_GoType f) \<or> needsXPV2))"

definition nestedFieldData :: "bool \<Rightarrow> FieldDef \<Rightarrow> FieldData" where
  "nestedFieldData isCluster f =
     zeroFieldData\<lparr>fdt_Name := fd_Name f, fdt_GoType := fd_GoType f, fdt_JSONName := fd_JSONName f,
       fdt_OmitEmpty := isOmitEmpty (fd_GoType f) (fd_Required f), fdt_Required := fd_Required f,
       fdt_Reference := buildReferenceData (fd_Reference f) (fd_Name f) (fd_GoType f) isCluster\<rparr>"

fun nestedFieldsLoop ::
  "bool \<Rightarrow> FieldDef list \<Rightarrow> FieldData list \<times> bool \<times> bool \<Rightarrow> FieldData list \<times> bool \<times> bool" where
  "nestedFieldsLoop isCluster [] acc = acc"
| "nestedFieldsLoop isCluster (f # fs) (built, hasReferences, needsXPV2) =
     nestedFieldsLoop isCluster fs
       (built @ [nestedFieldData isCluster f], fd_Reference f \<noteq> None \<or> hasReferences,
        usesXPV2 (fd_GoType f) \<or> needsXPV2)"

fun nestedTypesLoop ::
  "bool \<Rightarrow> NestedTypeDef list \<Rightarrow> NestedTypeData list \<times> bool \<times> bool \<Rightarrow> NestedTypeData list \<times> bool \<times> bool" where
  "nestedTypesLoop isCluster [] acc = acc"
| "nestedTypesLoop isCluster (nt # nts) (nestedTypes, hasReferences, needsXPV2) =
     (let (nestedFields, hasReferences1, needsXPV2a) = nestedFieldsLoop isCluster (nt_Fields nt) ([], hasReferences, needsXPV2)
      in nestedTypesLoop isCluster nts
           (nestedTypes @ [\<lparr>ntd_TypeName = nt_TypeName nt, ntd_Fields = nestedFields\<rparr>], hasReferences1, needsXPV2a))"

definition BuildFieldSetData :: "ResourceDescriptor \<Rightarrow> bool \<Rightarrow> FieldSetData" where
  "BuildFieldSetData rd isCluster =
     (let (forProvider, atProvider, hasReferences, needsXPV2) =
            fieldsLoop isCluster (res_Fields rd) ([], [], False, False);
          (nestedTypes, hasReferences1, needsXPV2a) =
            nestedTypesLoop isCluster (res_NestedTypes rd) ([], hasReferences, needsXPV2)
      in \<lparr>fsd_Kind = res_Kind rd, fsd_Slug = res_Slug rd, fsd_PackageName = safeGoPackageName (res_Slug rd),
          fsd_ForProvider = forProvider, fsd_AtProvider = atProvider, fsd_NestedTypes = nestedTypes,
          fsd_HasReferences = hasReferences1, fsd_ParameterValidations = res_ParameterValidations rd,
          fsd_NeedsXPV2Import = (needsXPV2a \<or> hasReferences1)\<rparr>)"

definition BuildScopeData :: "ResourceDescriptor \<Rightarrow> bool \<Rightarrow> ScopeData" where
  "BuildScopeData rd isCluster =
     (let (scope, grp) =
        (if isCluster then (''Cluster'', res_ClusterGroup rd) else (''Namespaced'', res_NamespacedGroup rd))
      in FieldSetData.extend (BuildFieldSetData rd isCluster)
           (ScopeData.fields scope isCluster grp (modulePath @ ''/apis/common/driftdetection'')))"

section \<open>What the template makes of a field (fieldSetTemplate)\<close>

text \<open>
  The lines of a field in the rendered struct, without the description, which is the comment above
  them: the kubebuilder markers, the declaration, and the two fields of a reference.
\<close>

definition jsonTag :: "string \<Rightarrow> bool \<Rightarrow> string" where
  "jsonTag name omitEmpty =
     (if omitEmpty then [CHR 0x60] @ ''json:'' @ [CHR 0x22] @ name @ '',omitempty'' @ [CHR 0x22, CHR 0x60]
      else [CHR 0x60] @ ''json:'' @ [CHR 0x22] @ name @ [CHR 0x22, CHR 0x60])"

definition enumValues :: "string list \<Rightarrow> string" where
  "enumValues vals = join_with '';'' vals"

definition isSliceType :: "string \<Rightarrow> bool" where
  "isSliceType goType = starts_with ''[]'' goType"

definition requiredMarker :: string where "requiredMarker = ''// +kubebuilder:validation:Required''"
definition optionalMarker :: string where "optionalMarker = ''// +optional''"

definition xValidation :: "string \<Rightarrow> string \<Rightarrow> string" where
  "xValidation rule message =
     ''// +kubebuilder:validation:XValidation:rule='' @ [CHR 0x22] @ rule @ [CHR 0x22] @ '',message='' @ [CHR 0x22] @
       message @ [CHR 0x22]"

definition immutableMessage :: "FieldData \<Rightarrow> string" where
  "immutableMessage fd = fdt_JSONName fd @ '' is immutable after creation''"

definition presenceLines :: "FieldData \<Rightarrow> string list" where
  "presenceLines fd =
     (if fdt_Required fd then [requiredMarker] else if \<not> fdt_OmitEmpty fd then [optionalMarker] else [])"

definition referenceMarker :: "FieldData \<Rightarrow> string list" where
  "referenceMarker fd =
     (case fdt_Reference fd of
        None \<Rightarrow> []
      | Some r \<Rightarrow>
          (''// +crossplane:generate:reference:type='' @ rfd_MarkerType r) #
          (if rfd_MarkerExtractor r \<noteq> [] then [''// +crossplane:generate:reference:extractor='' @ rfd_MarkerExtractor r]
           else []))"

definition referenceFields :: "FieldData \<Rightarrow> string list" where
  "referenceFields fd =
     (case fdt_Reference fd of
        None \<Rightarrow> []
      | Some r \<Rightarrow>
          [optionalMarker,
           rfd_RefFieldName r @ '' '' @ rfd_RefGoType r @ '' '' @ jsonTag (rfd_RefFieldJSONName r) (rfd_RefFieldOmitEmpty r),
           optionalMarker,
           rfd_SelectorFieldName r @ '' '' @ rfd_SelectorGoType r @ '' '' @ jsonTag (rfd_SelectorFieldJSONName r) True])"

definition declarationLine :: "FieldData \<Rightarrow> string" where
  "declarationLine fd = fdt_Name fd @ '' '' @ fdt_GoType fd @ '' '' @ jsonTag (fdt_JSONName fd) (fdt_OmitEmpty fd)"

definition nestedFieldLines :: "FieldData \<Rightarrow> string list" where
  "nestedFieldLines fd = presenceLines fd @ referenceMarker fd @ [declarationLine fd] @ referenceFields fd"

definition immutableRule :: "FieldData \<Rightarrow> string" where
  "immutableRule fd =
     (if fdt_Reference fd \<noteq> None then
        if isSliceType (fdt_GoType fd) then ''self == oldSelf || size(oldSelf) == 0''
        else ''self == oldSelf || oldSelf == '' @ [CHR 0x27, CHR 0x27]
      else ''self == oldSelf'')"

definition enumLines :: "FieldData \<Rightarrow> string list" where
  "enumLines fd =
     (if fdt_Enum fd \<noteq> [] then
        if isSliceType (fdt_GoType fd) then [''// +kubebuilder:validation:items:Enum='' @ enumValues (fdt_Enum fd)]
        else [''// +kubebuilder:validation:Enum='' @ enumValues (fdt_Enum fd)]
      else [])"

definition forProviderLines :: "FieldData \<Rightarrow> string list" where
  "forProviderLines fd =
     presenceLines fd @
     (if fdt_Immutable fd then [xValidation (immutableRule fd) (immutableMessage fd)] else []) @
     enumLines fd @
     (if fdt_HasMinimum fd then [''// +kubebuilder:validation:Minimum='' @ show_int (fdt_Minimum fd)] else []) @
     (if fdt_HasMaximum fd then [''// +kubebuilder:validation:Maximum='' @ show_int (fdt_Maximum fd)] else []) @
     map (\<lambda>v. xValidation (vr_Rule v) (vr_Message v)) (fdt_ExtraValidations fd) @
     referenceMarker fd @ [declarationLine fd] @ referenceFields fd"

definition atProviderLines :: "FieldData \<Rightarrow> string list" where
  "atProviderLines fd =
     (if \<not> fdt_OmitEmpty fd then [optionalMarker] else []) @
     (if fdt_Immutable fd then [xValidation ''self == oldSelf'' (immutableMessage fd)] else []) @
     [declarationLine fd @ '' // atProvider'']"

text \<open>The three kinds of struct the template declares: nested types, Parameters and Observation.\<close>

definition nestedStruct :: "NestedTypeData \<Rightarrow> string list" where
  "nestedStruct nt = [''type '' @ ntd_TypeName nt @ '' struct {''] @ concat (map nestedFieldLines (ntd_Fields nt)) @ [''}'']"

definition parametersStruct :: "('a) FieldSetData_scheme \<Rightarrow> string list" where
  "parametersStruct d =
     map (\<lambda>v. xValidation (vr_Rule v) (vr_Message v)) (fsd_ParameterValidations d) @
     [''type '' @ fsd_Kind d @ ''Parameters struct {''] @ concat (map forProviderLines (fsd_ForProvider d)) @ [''}'']"

definition observationStruct :: "('a) FieldSetData_scheme \<Rightarrow> string list" where
  "observationStruct d =
     [''type '' @ fsd_Kind d @ ''Observation struct {'', optionalMarker,
      ''ID string '' @ jsonTag ''id'' True @ '' // atProvider''] @
     concat (map atProviderLines (fsd_AtProvider d)) @ [''}'']"

definition fieldSetLines :: "('a) FieldSetData_scheme \<Rightarrow> string list" where
  "fieldSetLines d = concat (map nestedStruct (fsd_NestedTypes d)) @ parametersStruct d @ observationStruct d"

section \<open>Writing the files (generator.go, main.go)\<close>

text \<open>
  The calls that change the file system, and what the generator takes from libraries: rendering and
  formatting a template, the answers of the file system (which may depend on the calls before), the flags.
\<close>

datatype fscall =
    MkdirAll string
  | WriteFile string string

record gen_env =
  render_common :: "FieldSetData \<Rightarrow> goerr + string"
  render_doc :: "ScopeData \<Rightarrow> goerr + string"
  render_register :: "ScopeData \<Rightarrow> goerr + string"
  render_types :: "ScopeData \<Rightarrow> goerr + string"
  render_driftdetection :: "goerr + string"
  format_helpers :: "goerr + string"
  os_mkdir :: "fscall list \<Rightarrow> string \<Rightarrow> goerr option"
  os_write :: "fscall list \<Rightarrow> string \<Rightarrow> string \<Rightarrow> goerr option"
  os_read :: "string \<Rightarrow> goerr + string"
  filepath_abs :: "string \<Rightarrow> goerr + string"
  parse_flags :: "string list \<Rightarrow> goerr + (string \<times> string)"

text \<open>filepath.Join and filepath.Dir on clean slash-separated paths other than the root directory.\<close>

definition path_join :: "string list \<Rightarrow> string" where
  "path_join parts = join_with ''/'' parts"

definition path_dir :: "string \<Rightarrow> string" where
  "path_dir p = join_with ''/'' (butlast (split_on CHR ''/'' p))"

definition writeFile :: "gen_env \<Rightarrow> string \<Rightarrow> string \<Rightarrow> fscall list \<Rightarrow> goerr option \<times> fscall list" where
  "writeFile env path data h =
     (let h1 = h @ [MkdirAll (path_dir path)] in
      case os_mkdir env h (path_dir path) of
        Some err \<Rightarrow> (Some (Wrapped (''creating dir for '' @ path) err), h1)
      | None \<Rightarrow>
          (let h2 = h1 @ [WriteFile path data] in
           case os_write env h1 path data of
             Some err \<Rightarrow> (Some (Wrapped (''writing '' @ path) err), h2)
           | None \<Rightarrow> (None, h2)))"

definition generateScope ::
  "gen_env \<Rightarrow> ResourceDescriptor \<Rightarrow> string \<Rightarrow> bool \<Rightarrow> fscall list \<Rightarrow> goerr option \<times> fscall list" where
  "generateScope env rd outputDir isCluster h =
     (let scope = (if isCluster then ''cluster'' else ''namespaced'');
          pkgDir = path_join [outputDir, ''apis'', scope, res_Slug rd, apiVersion];
          h1 = h @ [MkdirAll pkgDir]
      in case os_mkdir env h pkgDir of
           Some err \<Rightarrow> (Some (Wrapped (''creating '' @ pkgDir) err), h1)
         | None \<Rightarrow>
             (let data = BuildScopeData rd isCluster in
              case render_doc env data of
                Inl err \<Rightarrow> (Some (Wrapped (''rendering doc.go for '' @ scope @ ''/'' @ res_Kind rd) err), h1)
              | Inr docSrc \<Rightarrow>
                  (case writeFile env (path_join [pkgDir, ''doc.go'']) docSrc h1 of
                     (Some err, h2) \<Rightarrow> (Some err, h2)
                   | (None, h2) \<Rightarrow>
                       (case render_register env data of
                          Inl err \<Rightarrow> (Some (Wrapped (''rendering register.go for '' @ scope @ ''/'' @ res_Kind rd) err), h2)
                        | Inr regSrc \<Rightarrow>
                            (case writeFile env (path_join [pkgDir, ''register.go'']) regSrc h2 of
                               (Some err, h3) \<Rightarrow> (Some err, h3)
                             | (None, h3) \<Rightarrow>
                                 (case render_types env data of
                                    Inl err \<Rightarrow> (Some (Wrapped (''rendering types for '' @ scope @ ''/'' @ res_Kind rd) err), h3)
                                  | Inr typesSrc \<Rightarrow>
                                      writeFile env (path_join [pkgDir, res_Slug rd @ ''_types.go'']) typesSrc h3))))))"

definition Generate :: "gen_env \<Rightarrow> ResourceDescriptor \<Rightarrow> string \<Rightarrow> fscall list \<Rightarrow> goerr option \<times> fscall list" where
  "Generate env rd outputDir h =
     (let commonData = BuildFieldSetData rd True in
      case render_common env commonData of
        Inl err \<Rightarrow> (Some (Wrapped (''rendering common reference for '' @ res_Kind rd) err), h)
      | Inr commonSrc \<Rightarrow>
          (let commonDir = path_join [outputDir, ''apis'', ''common'', fsd_PackageName commonData];
               commonFile = path_join [commonDir, fsd_PackageName commonData @ ''_types.go'']
           in case writeFile env commonFile commonSrc h of
                (Some err, h1) \<Rightarrow> (Some err, h1)
              | (None, h1) \<Rightarrow>
                  (case generateScope env rd outputDir True h1 of
                     (Some err, h2) \<Rightarrow> (Some err, h2)
                   | (None, h2) \<Rightarrow> generateScope env rd outputDir False h2)))"

definition GenerateDriftDetectionPackage :: "gen_env \<Rightarrow> string \<Rightarrow> fscall list \<Rightarrow> goerr option \<times> fscall list" where
  "GenerateDriftDetectionPackage env outputDir h =
     (case render_driftdetection env of
        Inl err \<Rightarrow> (Some (Wrapped ''rendering driftdetection package'' err), h)
      | Inr src \<Rightarrow>
          (let dir = path_join [outputDir, ''apis'', ''common'', ''driftdetection'']; h1 = h @ [MkdirAll dir] in
           case os_mkdir env h dir of
             Some err \<Rightarrow> (Some (Wrapped (''creating '' @ dir) err), h1)
           | None \<Rightarrow> writeFile env (path_join [dir, ''driftdetection_types.go'']) src h1))"

definition GenerateReferenceHelpers :: "gen_env \<Rightarrow> string \<Rightarrow> fscall list \<Rightarrow> goerr option \<times> fscall list" where
  "GenerateReferenceHelpers env outputDir h =
     (case format_helpers env of
        Inl err \<Rightarrow> (Some (Wrapped ''rendering reference helpers''
          (Wrapped ''formatting reference helpers (raw source returned)'' err)), h)
      | Inr src \<Rightarrow>
          writeFile env (path_join [outputDir, ''apis'', ''common'', ''referencehelpers'', ''zz_referencehelpers.go'']) src h)"

definition providerModulePath :: string where
  "providerModulePath = ''github.com/crossplane-contrib/provider-infoblox-nios''"

fun parseModulePathLoop :: "string list \<Rightarrow> goerr + string" where
  "parseModulePathLoop [] = Inl (TextError ''go.mod has no module directive'')"
| "parseModulePathLoop (l # ls) =
     (let line = trim_space l in
      if starts_with ''module '' line then
        (let modPath = trim_space (trim_prefix ''module'' line) in
         if modPath = [] then Inl (TextError ''go.mod has an empty module directive'') else Inr modPath)
      else parseModulePathLoop ls)"

definition parseModulePath :: "string \<Rightarrow> goerr + string" where
  "parseModulePath data = parseModulePathLoop (split_on CHR 0x0A data)"

definition resolveProviderRoot :: "gen_env \<Rightarrow> string \<Rightarrow> goerr + string" where
  "resolveProviderRoot env dir =
     (case filepath_abs env dir of
        Inl err \<Rightarrow> Inl (Wrapped (''resolving --output-dir '' @ go_quote dir) err)
      | Inr absDir \<Rightarrow>
          if list_ex (\<lambda>part. part = ''tools'') (split_on CHR ''/'' absDir) then
            Inl (TextError (''--output-dir '' @ go_quote dir @ '' resolves to '' @ go_quote absDir @
              '', which is inside a tools/ directory; pass the ABSOLUTE provider root instead (the directory containing go.mod with module '' @
              go_quote providerModulePath @ '' '' @ [CHR 0xE2, CHR 0x80, CHR 0x94] @ '' e.g. the provider-infobloxnios/ checkout root), not a tools/ subdirectory''))
          else
            (case os_read env (path_join [absDir, ''go.mod'']) of
               Inl err \<Rightarrow>
                 Inl (Wrapped (''--output-dir '' @ go_quote dir @ '' resolves to '' @ go_quote absDir @
                   '', which does not contain a go.mod (not the provider root that owns apis/)'') err)
             | Inr data \<Rightarrow>
                 (case parseModulePath data of
                    Inl ferr \<Rightarrow> Inl (Wrapped (''--output-dir '' @ go_quote dir @ '' resolves to '' @ go_quote absDir) ferr)
                  | Inr modPath \<Rightarrow>
                      if modPath \<noteq> providerModulePath then
                        Inl (TextError (''--output-dir '' @ go_quote dir @ '' resolves to '' @ go_quote absDir @
                          '', whose go.mod declares module '' @ go_quote modPath @ ''; expected the provider root module '' @
                          go_quote providerModulePath @
                          '' '' @ [CHR 0xE2, CHR 0x80, CHR 0x94] @ '' this looks like the wrong directory (e.g. the tools/openapi2crd module or an unrelated checkout)''))
                      else Inr absDir)))"

fun generateLoop ::
  "gen_env \<Rightarrow> ResourceDescriptor list \<Rightarrow> string \<Rightarrow> fscall list \<Rightarrow> goerr option \<times> fscall list" where
  "generateLoop env [] root h = (None, h)"
| "generateLoop env (rd # rds) root h =
     (case Generate env rd root h of
        (Some err, h1) \<Rightarrow> (Some (Wrapped (''generate '' @ res_Kind rd) err), h1)
      | (None, h1) \<Rightarrow> generateLoop env rds root h1)"

definition runGenerate :: "gen_env \<Rightarrow> string list \<Rightarrow> fscall list \<Rightarrow> goerr option \<times> fscall list" where
  "runGenerate env args h =
     (case parse_flags env args of
        Inl err \<Rightarrow> (Some err, h)
      | Inr (outputDir, resource) \<Rightarrow>
          (case resolveProviderRoot env outputDir of
             Inl err \<Rightarrow> (Some err, h)
           | Inr root \<Rightarrow>
               (case (if resource = [] then Inr All_resources
                      else (case FindResource resource of
                              None \<Rightarrow> Inl (TextError (''resource '' @ go_quote resource @ '' not found in catalog''))
                            | Some rd \<Rightarrow> Inr [rd])) of
                  Inl err \<Rightarrow> (Some err, h)
                | Inr resources \<Rightarrow>
                    (case generateLoop env resources root h of
                       (Some err, h1) \<Rightarrow> (Some err, h1)
                     | (None, h1) \<Rightarrow>
                         (case GenerateDriftDetectionPackage env root h1 of
                            (Some err, h2) \<Rightarrow> (Some (Wrapped ''generate driftdetection package'' err), h2)
                          | (None, h2) \<Rightarrow>
                              (case GenerateReferenceHelpers env root h2 of
                                 (Some err, h3) \<Rightarrow> (Some (Wrapped ''generate reference helpers'' err), h3)
                               | (None, h3) \<Rightarrow> (None, h3)))))))"

definition run :: "gen_env \<Rightarrow> string list \<Rightarrow> fscall list \<Rightarrow> goerr option \<times> fscall list" where
  "run env args h =
     (case args of
        [] \<Rightarrow> (Some (TextError ''usage: openapi2crd generate [flags]''), h)
      | cmd # rest \<Rightarrow>
          if cmd = ''generate'' then runGenerate env rest h
          else (Some (TextError (''unknown subcommand '' @ go_quote cmd @ ''; expected generate'')), h))"

end
