(* ===== verification/CatalogChecks.thy ===== *)
theory CatalogChecks
  imports Generator
begin

text \<open>
  What every descriptor of the resource catalog satisfies, one resource at a time: its kind and slug, the fields it keeps
  out of the status, the rule on extAttrs, known field types and reference targets, and
  distinct JSON names. Each lemma evaluates the descriptor.
\<close>

definition in_spec :: "FieldDef \<Rightarrow> bool" where
  "in_spec f \<longleftrightarrow> fd_Scope f \<noteq> FieldScopeResponse"

definition kept_out :: "ResourceDescriptor \<Rightarrow> string list" where
  "kept_out rd = map fd_JSONName (filter fd_OmitFromObservation (res_Fields rd))"

definition guards_identity :: "ResourceDescriptor \<Rightarrow> bool" where
  "guards_identity rd \<longleftrightarrow>
     list_all (\<lambda>f. in_spec f \<and> fd_JSONName f = ''extAttrs'' \<longrightarrow>
        fd_GoType f = ''map[string]string'' \<and> fd_ForProviderValidations f = reservedEAKeyValidations) (res_Fields rd) \<and>
     (res_Kind rd \<in> {''NSRecord'', ''ExtensibleAttributeDef''} \<or> list_ex (\<lambda>f. in_spec f \<and> fd_JSONName f = ''extAttrs'') (res_Fields rd))"

definition type_base :: "string \<Rightarrow> string" where
  "type_base t = trim_prefix ''*'' (trim_prefix ''[]'' t)"

definition types_known :: "ResourceDescriptor \<Rightarrow> bool" where
  "types_known rd \<longleftrightarrow>
     (let ts = [''string'', ''bool'', ''int64'', ''uint32'', ''uint'', ''map[string]string''] @ map nt_TypeName (res_NestedTypes rd);
          known = (\<lambda>f. type_base (fd_GoType f) \<in> set ts) in
      list_all known (res_Fields rd) \<and> list_all (\<lambda>nt. list_all known (nt_Fields nt)) (res_NestedTypes rd))"

text \<open>The resources of the catalog by slug, with their kinds.\<close>

definition catalog_names :: "(string \<times> string) list" where
  "catalog_names =
     [(''recorda'', ''ARecord''), (''recordaaaa'', ''AAAARecord''), (''recordalias'', ''AliasRecord''),
      (''recordcname'', ''CNAMERecord''), (''hostrecord'', ''HostRecord''), (''recordmx'', ''MXRecord''),
      (''recordns'', ''NSRecord''), (''recordptr'', ''PTRRecord''), (''recordsrv'', ''SRVRecord''),
      (''recordtxt'', ''TXTRecord''), (''zoneauth'', ''ZoneAuth''), (''zonedelegated'', ''ZoneDelegated''),
      (''network'', ''Network''), (''extensibleattributedef'', ''ExtensibleAttributeDef''),
      (''networkview'', ''NetworkView''), (''fixedaddress'', ''FixedAddress''), (''range'', ''Range''),
      (''rangetemplate'', ''RangeTemplate''), (''ipv4sharednetwork'', ''IPv4SharedNetwork''),
      (''networkcontainer'', ''NetworkContainer''), (''zoneforward'', ''ZoneForward''), (''dtcserver'', ''DTCServer''),
      (''dnsview'', ''DNSView''), (''dtcpool'', ''DTCPool''), (''dtclbdn'', ''DTCLBDN'')]"

definition references_known :: "ResourceDescriptor \<Rightarrow> bool" where
  "references_known rd \<longleftrightarrow>
     (let known = (\<lambda>f. case fd_Reference f of None \<Rightarrow> True | Some r \<Rightarrow>
        (rd_TargetSlug r, rd_TargetKind r) \<in> set catalog_names \<and> rd_TargetScope r \<in> {[], ''cluster''})
      in list_all known (res_Fields rd) \<and> list_all (\<lambda>nt. list_all known (nt_Fields nt)) (res_NestedTypes rd))"

definition ref_names :: "FieldDef \<Rightarrow> string list" where
  "ref_names f =
     (case fd_Reference f of
        None \<Rightarrow> []
      | Some r \<Rightarrow> [lowerFirst (fd_Name f @ (if starts_with ''[]'' (fd_GoType f) then ''Refs'' else ''Ref'')),
                   lowerFirst (fd_Name f @ ''Selector'')])"

definition names_ok :: "FieldDef list \<Rightarrow> bool" where
  "names_ok fs \<longleftrightarrow> distinct (map fd_JSONName fs @ concat (map ref_names fs))"

definition names_distinct :: "ResourceDescriptor \<Rightarrow> bool" where
  "names_distinct rd \<longleftrightarrow>
     names_ok (res_Fields rd) \<and> ''id'' \<notin> set (map fd_JSONName (res_Fields rd)) \<and>
     list_all (\<lambda>nt. names_ok (nt_Fields nt)) (res_NestedTypes rd) \<and>
     distinct (map nt_TypeName (res_NestedTypes rd))"

lemma aRecord_facts:
  "res_Kind aRecord = ''ARecord''" "res_Slug aRecord = ''recorda''" "kept_out aRecord = [''removeAssociatedPtr'']"
  "guards_identity aRecord" "types_known aRecord" "references_known aRecord"
  by (simp_all add: aRecord_parts kept_out_def guards_identity_def types_known_def references_known_def type_base_def
      in_spec_def trim_prefix_def catalog_names_def zeroReferenceDescriptor_def)

lemma discovered_ok: "names_ok aRecord_ARecordDiscoveredData_Fields"
proof -
  have "distinct (map fd_JSONName aRecord_ARecordDiscoveredData_Fields)"
    by (simp add: aRecord_ARecordDiscoveredData_Fields_def)
  moreover have "concat (map ref_names aRecord_ARecordDiscoveredData_Fields) = []"
    by (simp add: aRecord_ARecordDiscoveredData_Fields_def ref_names_def)
  ultimately show ?thesis by (simp only: names_ok_def append_Nil2)
qed

lemma aRecord_names: "names_distinct aRecord"
  by (simp only: names_distinct_def aRecord_def ResourceDescriptor.select_convs NestedTypeDef.select_convs list.pred_inject simp_thms;
    intro conjI; (rule discovered_ok | simp add: aRecord_def aRecord_Fields1_def aRecord_Fields2_def aRecord_ARecordAwsRte53RecordInfo_Fields_def aRecord_ARecordCloudInfo_Fields_def aRecord_ARecordCloudInfoDelegatedMember_Fields_def aRecord_ARecordMsAdUserData_Fields_def names_ok_def ref_names_def lowerFirst_def lower_char_def))

lemma aaaaRecord_facts:
  "res_Kind aaaaRecord = ''AAAARecord''" "res_Slug aaaaRecord = ''recordaaaa''" "kept_out aaaaRecord = [''removeAssociatedPtr'']"
  "guards_identity aaaaRecord" "types_known aaaaRecord" "references_known aaaaRecord"
  by (simp_all add: aaaaRecord_parts kept_out_def guards_identity_def types_known_def references_known_def type_base_def
      in_spec_def trim_prefix_def catalog_names_def zeroReferenceDescriptor_def)

lemma aaaaRecord_AAAARecordDiscoveredData_same: "aaaaRecord_AAAARecordDiscoveredData_Fields = aRecord_ARecordDiscoveredData_Fields"
  by (simp only: aaaaRecord_AAAARecordDiscoveredData_Fields_def aRecord_ARecordDiscoveredData_Fields_def)

lemma aaaaRecord_names: "names_distinct aaaaRecord"
  by (simp only: names_distinct_def aaaaRecord_def ResourceDescriptor.select_convs NestedTypeDef.select_convs list.pred_inject aaaaRecord_AAAARecordDiscoveredData_same simp_thms;
    intro conjI; (rule discovered_ok | simp add: aaaaRecord_def aaaaRecord_Fields1_def aaaaRecord_Fields2_def aaaaRecord_AAAARecordAwsRte53RecordInfo_Fields_def aaaaRecord_AAAARecordCloudInfo_Fields_def aaaaRecord_AAAARecordCloudInfoDelegatedMember_Fields_def aaaaRecord_AAAARecordMsAdUserData_Fields_def aaaaRecord_AAAARecordDiscoveredData_same names_ok_def ref_names_def lowerFirst_def lower_char_def))

lemma aliasRecord_facts:
  "res_Kind aliasRecord = ''AliasRecord''" "res_Slug aliasRecord = ''recordalias''" "kept_out aliasRecord = []"
  "guards_identity aliasRecord" "types_known aliasRecord" "references_known aliasRecord"
  by (simp_all add: aliasRecord_parts kept_out_def guards_identity_def types_known_def references_known_def type_base_def
      in_spec_def trim_prefix_def catalog_names_def zeroReferenceDescriptor_def)

lemma aliasRecord_names: "names_distinct aliasRecord"
  by (simp add: aliasRecord_parts names_ok_def ref_names_def lowerFirst_def lower_char_def names_distinct_def)

lemma cnameRecord_facts:
  "res_Kind cnameRecord = ''CNAMERecord''" "res_Slug cnameRecord = ''recordcname''" "kept_out cnameRecord = []"
  "guards_identity cnameRecord" "types_known cnameRecord" "references_known cnameRecord"
  by (simp_all add: cnameRecord_parts kept_out_def guards_identity_def types_known_def references_known_def type_base_def
      in_spec_def trim_prefix_def catalog_names_def zeroReferenceDescriptor_def)

lemma cnameRecord_names: "names_distinct cnameRecord"
  by (simp add: cnameRecord_parts names_ok_def ref_names_def lowerFirst_def lower_char_def names_distinct_def)

lemma hostRecord_facts:
  "res_Kind hostRecord = ''HostRecord''" "res_Slug hostRecord = ''hostrecord''" "kept_out hostRecord = []"
  "guards_identity hostRecord" "types_known hostRecord" "references_known hostRecord"
  by (simp_all add: hostRecord_parts kept_out_def guards_identity_def types_known_def references_known_def type_base_def
      in_spec_def trim_prefix_def catalog_names_def zeroReferenceDescriptor_def)

lemma hostRecord_names: "names_distinct hostRecord"
  by (simp add: hostRecord_parts names_ok_def ref_names_def lowerFirst_def lower_char_def names_distinct_def)

lemma mxRecord_facts:
  "res_Kind mxRecord = ''MXRecord''" "res_Slug mxRecord = ''recordmx''" "kept_out mxRecord = []"
  "guards_identity mxRecord" "types_known mxRecord" "references_known mxRecord"
  by (simp_all add: mxRecord_parts kept_out_def guards_identity_def types_known_def references_known_def type_base_def
      in_spec_def trim_prefix_def catalog_names_def zeroReferenceDescriptor_def)

lemma mxRecord_names: "names_distinct mxRecord"
  by (simp add: mxRecord_parts names_ok_def ref_names_def lowerFirst_def lower_char_def names_distinct_def)

lemma nsRecord_facts:
  "res_Kind nsRecord = ''NSRecord''" "res_Slug nsRecord = ''recordns''" "kept_out nsRecord = []"
  "guards_identity nsRecord" "types_known nsRecord" "references_known nsRecord"
  by (simp_all add: nsRecord_parts kept_out_def guards_identity_def types_known_def references_known_def type_base_def
      in_spec_def trim_prefix_def catalog_names_def zeroReferenceDescriptor_def)

lemma nsRecord_names: "names_distinct nsRecord"
  by (simp add: nsRecord_parts names_ok_def ref_names_def lowerFirst_def lower_char_def names_distinct_def)

lemma ptrRecord_facts:
  "res_Kind ptrRecord = ''PTRRecord''" "res_Slug ptrRecord = ''recordptr''" "kept_out ptrRecord = []"
  "guards_identity ptrRecord" "types_known ptrRecord" "references_known ptrRecord"
  by (simp_all add: ptrRecord_parts kept_out_def guards_identity_def types_known_def references_known_def type_base_def
      in_spec_def trim_prefix_def catalog_names_def zeroReferenceDescriptor_def)

lemma ptrRecord_PTRRecordDiscoveredData_same: "ptrRecord_PTRRecordDiscoveredData_Fields = aRecord_ARecordDiscoveredData_Fields"
  by (simp only: ptrRecord_PTRRecordDiscoveredData_Fields_def aRecord_ARecordDiscoveredData_Fields_def)

lemma ptrRecord_names: "names_distinct ptrRecord"
  by (simp only: names_distinct_def ptrRecord_def ResourceDescriptor.select_convs NestedTypeDef.select_convs list.pred_inject ptrRecord_PTRRecordDiscoveredData_same simp_thms;
    intro conjI; (rule discovered_ok | simp add: ptrRecord_def ptrRecord_Fields1_def ptrRecord_Fields2_def ptrRecord_PTRRecordAwsRte53RecordInfo_Fields_def ptrRecord_PTRRecordCloudInfo_Fields_def ptrRecord_PTRRecordCloudInfoDelegatedMember_Fields_def ptrRecord_PTRRecordMsAdUserData_Fields_def ptrRecord_PTRRecordDiscoveredData_same names_ok_def ref_names_def lowerFirst_def lower_char_def))

lemma srvRecord_facts:
  "res_Kind srvRecord = ''SRVRecord''" "res_Slug srvRecord = ''recordsrv''" "kept_out srvRecord = []"
  "guards_identity srvRecord" "types_known srvRecord" "references_known srvRecord"
  by (simp_all add: srvRecord_parts kept_out_def guards_identity_def types_known_def references_known_def type_base_def
      in_spec_def trim_prefix_def catalog_names_def zeroReferenceDescriptor_def)

lemma srvRecord_names: "names_distinct srvRecord"
  by (simp add: srvRecord_parts names_ok_def ref_names_def lowerFirst_def lower_char_def names_distinct_def)

lemma txtRecord_facts:
  "res_Kind txtRecord = ''TXTRecord''" "res_Slug txtRecord = ''recordtxt''" "kept_out txtRecord = []"
  "guards_identity txtRecord" "types_known txtRecord" "references_known txtRecord"
  by (simp_all add: txtRecord_parts kept_out_def guards_identity_def types_known_def references_known_def type_base_def
      in_spec_def trim_prefix_def catalog_names_def zeroReferenceDescriptor_def)

lemma txtRecord_names: "names_distinct txtRecord"
  by (simp add: txtRecord_parts names_ok_def ref_names_def lowerFirst_def lower_char_def names_distinct_def)

lemma zoneAuth_facts:
  "res_Kind zoneAuth = ''ZoneAuth''" "res_Slug zoneAuth = ''zoneauth''" "kept_out zoneAuth = []"
  "guards_identity zoneAuth" "types_known zoneAuth" "references_known zoneAuth"
  by (simp_all add: zoneAuth_parts kept_out_def guards_identity_def types_known_def references_known_def type_base_def
      in_spec_def trim_prefix_def catalog_names_def zeroReferenceDescriptor_def)

lemma zoneAuth_names: "names_distinct zoneAuth"
  by (simp add: zoneAuth_parts names_ok_def ref_names_def lowerFirst_def lower_char_def names_distinct_def)

lemma zoneDelegated_facts:
  "res_Kind zoneDelegated = ''ZoneDelegated''" "res_Slug zoneDelegated = ''zonedelegated''" "kept_out zoneDelegated = []"
  "guards_identity zoneDelegated" "types_known zoneDelegated" "references_known zoneDelegated"
  by (simp_all add: zoneDelegated_parts kept_out_def guards_identity_def types_known_def references_known_def type_base_def
      in_spec_def trim_prefix_def catalog_names_def zeroReferenceDescriptor_def)

lemma zoneDelegated_names: "names_distinct zoneDelegated"
  by (simp add: zoneDelegated_parts names_ok_def ref_names_def lowerFirst_def lower_char_def names_distinct_def)

lemma network_facts:
  "res_Kind network = ''Network''" "res_Slug network = ''network''" "kept_out network = []"
  "guards_identity network" "types_known network" "references_known network"
  by (simp_all add: network_parts kept_out_def guards_identity_def types_known_def references_known_def type_base_def
      in_spec_def trim_prefix_def catalog_names_def zeroReferenceDescriptor_def)

lemma network_names: "names_distinct network"
  by (simp add: network_parts names_ok_def ref_names_def lowerFirst_def lower_char_def names_distinct_def)

lemma extensibleAttributeDef_facts:
  "res_Kind extensibleAttributeDef = ''ExtensibleAttributeDef''" "res_Slug extensibleAttributeDef = ''extensibleattributedef''" "kept_out extensibleAttributeDef = [''descendantsAction'']"
  "guards_identity extensibleAttributeDef" "types_known extensibleAttributeDef" "references_known extensibleAttributeDef"
  by (simp_all add: extensibleAttributeDef_parts kept_out_def guards_identity_def types_known_def references_known_def type_base_def
      in_spec_def trim_prefix_def catalog_names_def zeroReferenceDescriptor_def)

lemma extensibleAttributeDef_names: "names_distinct extensibleAttributeDef"
  by (simp add: extensibleAttributeDef_parts names_ok_def ref_names_def lowerFirst_def lower_char_def names_distinct_def)

lemma networkView_facts:
  "res_Kind networkView = ''NetworkView''" "res_Slug networkView = ''networkview''" "kept_out networkView = []"
  "guards_identity networkView" "types_known networkView" "references_known networkView"
  by (simp_all add: networkView_parts kept_out_def guards_identity_def types_known_def references_known_def type_base_def
      in_spec_def trim_prefix_def catalog_names_def zeroReferenceDescriptor_def)

lemma networkView_names: "names_distinct networkView"
  by (simp add: networkView_parts names_ok_def ref_names_def lowerFirst_def lower_char_def names_distinct_def)

lemma fixedAddress_facts:
  "res_Kind fixedAddress = ''FixedAddress''" "res_Slug fixedAddress = ''fixedaddress''" "kept_out fixedAddress = []"
  "guards_identity fixedAddress" "types_known fixedAddress" "references_known fixedAddress"
  by (simp_all add: fixedAddress_parts kept_out_def guards_identity_def types_known_def references_known_def type_base_def
      in_spec_def trim_prefix_def catalog_names_def zeroReferenceDescriptor_def)

lemma fixedAddress_names: "names_distinct fixedAddress"
  by (simp add: fixedAddress_parts names_ok_def ref_names_def lowerFirst_def lower_char_def names_distinct_def)

lemma rangeResource_facts:
  "res_Kind rangeResource = ''Range''" "res_Slug rangeResource = ''range''" "kept_out rangeResource = []"
  "guards_identity rangeResource" "types_known rangeResource" "references_known rangeResource"
  by (simp_all add: rangeResource_parts kept_out_def guards_identity_def types_known_def references_known_def type_base_def
      in_spec_def trim_prefix_def catalog_names_def zeroReferenceDescriptor_def)

lemma rangeResource_names: "names_distinct rangeResource"
  by (simp add: rangeResource_parts names_ok_def ref_names_def lowerFirst_def lower_char_def names_distinct_def)

lemma rangeTemplate_facts:
  "res_Kind rangeTemplate = ''RangeTemplate''" "res_Slug rangeTemplate = ''rangetemplate''" "kept_out rangeTemplate = [''msServer'']"
  "guards_identity rangeTemplate" "types_known rangeTemplate" "references_known rangeTemplate"
  by (simp_all add: rangeTemplate_parts kept_out_def guards_identity_def types_known_def references_known_def type_base_def
      in_spec_def trim_prefix_def catalog_names_def zeroReferenceDescriptor_def)

lemma rangeTemplate_names: "names_distinct rangeTemplate"
  by (simp add: rangeTemplate_parts names_ok_def ref_names_def lowerFirst_def lower_char_def names_distinct_def)

lemma ipv4SharedNetwork_facts:
  "res_Kind ipv4SharedNetwork = ''IPv4SharedNetwork''" "res_Slug ipv4SharedNetwork = ''ipv4sharednetwork''" "kept_out ipv4SharedNetwork = []"
  "guards_identity ipv4SharedNetwork" "types_known ipv4SharedNetwork" "references_known ipv4SharedNetwork"
  by (simp_all add: ipv4SharedNetwork_parts kept_out_def guards_identity_def types_known_def references_known_def type_base_def
      in_spec_def trim_prefix_def catalog_names_def zeroReferenceDescriptor_def)

lemma ipv4SharedNetwork_names: "names_distinct ipv4SharedNetwork"
  by (simp add: ipv4SharedNetwork_parts names_ok_def ref_names_def lowerFirst_def lower_char_def names_distinct_def)

lemma networkContainer_facts:
  "res_Kind networkContainer = ''NetworkContainer''" "res_Slug networkContainer = ''networkcontainer''" "kept_out networkContainer = []"
  "guards_identity networkContainer" "types_known networkContainer" "references_known networkContainer"
  by (simp_all add: networkContainer_parts kept_out_def guards_identity_def types_known_def references_known_def type_base_def
      in_spec_def trim_prefix_def catalog_names_def zeroReferenceDescriptor_def)

lemma networkContainer_names: "names_distinct networkContainer"
  by (simp add: networkContainer_parts names_ok_def ref_names_def lowerFirst_def lower_char_def names_distinct_def)

lemma zoneForward_facts:
  "res_Kind zoneForward = ''ZoneForward''" "res_Slug zoneForward = ''zoneforward''" "kept_out zoneForward = []"
  "guards_identity zoneForward" "types_known zoneForward" "references_known zoneForward"
  by (simp_all add: zoneForward_parts kept_out_def guards_identity_def types_known_def references_known_def type_base_def
      in_spec_def trim_prefix_def catalog_names_def zeroReferenceDescriptor_def)

lemma zoneForward_names: "names_distinct zoneForward"
  by (simp add: zoneForward_parts names_ok_def ref_names_def lowerFirst_def lower_char_def names_distinct_def)

lemma dtcServer_facts:
  "res_Kind dtcServer = ''DTCServer''" "res_Slug dtcServer = ''dtcserver''" "kept_out dtcServer = []"
  "guards_identity dtcServer" "types_known dtcServer" "references_known dtcServer"
  by (simp_all add: dtcServer_parts kept_out_def guards_identity_def types_known_def references_known_def type_base_def
      in_spec_def trim_prefix_def catalog_names_def zeroReferenceDescriptor_def)

lemma dtcServer_names: "names_distinct dtcServer"
  by (simp add: dtcServer_parts names_ok_def ref_names_def lowerFirst_def lower_char_def names_distinct_def)

lemma dnsView_facts:
  "res_Kind dnsView = ''DNSView''" "res_Slug dnsView = ''dnsview''" "kept_out dnsView = []"
  "guards_identity dnsView" "types_known dnsView" "references_known dnsView"
  by (simp_all add: dnsView_parts kept_out_def guards_identity_def types_known_def references_known_def type_base_def
      in_spec_def trim_prefix_def catalog_names_def zeroReferenceDescriptor_def)

lemma dnsView_names: "names_distinct dnsView"
  by (simp add: dnsView_parts names_ok_def ref_names_def lowerFirst_def lower_char_def names_distinct_def)

lemma dtcPool_facts:
  "res_Kind dtcPool = ''DTCPool''" "res_Slug dtcPool = ''dtcpool''" "kept_out dtcPool = []"
  "guards_identity dtcPool" "types_known dtcPool" "references_known dtcPool"
  by (simp_all add: dtcPool_parts kept_out_def guards_identity_def types_known_def references_known_def type_base_def
      in_spec_def trim_prefix_def catalog_names_def zeroReferenceDescriptor_def)

lemma dtcPool_names: "names_distinct dtcPool"
  by (simp add: dtcPool_parts names_ok_def ref_names_def lowerFirst_def lower_char_def names_distinct_def)

lemma dtcLBDN_facts:
  "res_Kind dtcLBDN = ''DTCLBDN''" "res_Slug dtcLBDN = ''dtclbdn''" "kept_out dtcLBDN = []"
  "guards_identity dtcLBDN" "types_known dtcLBDN" "references_known dtcLBDN"
  by (simp_all add: dtcLBDN_parts kept_out_def guards_identity_def types_known_def references_known_def type_base_def
      in_spec_def trim_prefix_def catalog_names_def zeroReferenceDescriptor_def)

lemma dtcLBDN_names: "names_distinct dtcLBDN"
  by (simp add: dtcLBDN_parts names_ok_def ref_names_def lowerFirst_def lower_char_def names_distinct_def)

lemmas catalog_facts =
  aRecord_facts
  aaaaRecord_facts
  aliasRecord_facts
  cnameRecord_facts
  hostRecord_facts
  mxRecord_facts
  nsRecord_facts
  ptrRecord_facts
  srvRecord_facts
  txtRecord_facts
  zoneAuth_facts
  zoneDelegated_facts
  network_facts
  extensibleAttributeDef_facts
  networkView_facts
  fixedAddress_facts
  rangeResource_facts
  rangeTemplate_facts
  ipv4SharedNetwork_facts
  networkContainer_facts
  zoneForward_facts
  dtcServer_facts
  dnsView_facts
  dtcPool_facts
  dtcLBDN_facts

lemma catalog_listed: "map (\<lambda>rd. (res_Slug rd, res_Kind rd)) All_resources = catalog_names"
  by (simp add: All_resources_def catalog_names_def catalog_facts)

lemma catalog_checked:
  "list_all guards_identity All_resources" "list_all types_known All_resources" "list_all references_known All_resources"
  "list_all names_distinct All_resources"
  by (simp_all add: All_resources_def catalog_facts
      aRecord_names
      aaaaRecord_names
      aliasRecord_names
      cnameRecord_names
      hostRecord_names
      mxRecord_names
      nsRecord_names
      ptrRecord_names
      srvRecord_names
      txtRecord_names
      zoneAuth_names
      zoneDelegated_names
      network_names
      extensibleAttributeDef_names
      networkView_names
      fixedAddress_names
      rangeResource_names
      rangeTemplate_names
      ipv4SharedNetwork_names
      networkContainer_names
      zoneForward_names
      dtcServer_names
      dnsView_names
      dtcPool_names
      dtcLBDN_names)

lemma catalog_slugs: "distinct (map res_Slug All_resources)"
  by (simp add: All_resources_def catalog_facts)

end
