(* ===== verification/GeneratorSpec.thy ===== *)
theory GeneratorSpec
  imports CatalogChecks "HOL-Library.Multiset" "HOL-Library.Sublist"
begin

text \<open>
  What the generated API types guarantee, for every resource of the catalog and both scopes: the status mirrors
  the spec, the structs are well formed, the reserved attribute cannot be set by a user; and where the
  generator writes.
\<close>

section \<open>The loops of BuildFieldSetData\<close>

lemma fieldsLoop_eq:
  "fieldsLoop c fs (fp, ap, r, x) =
     (fp @ map (\<lambda>f. buildFieldData f c) (filter in_spec fs),
      ap @ map buildAtProviderFieldData (filter (\<lambda>f. \<not> fd_OmitFromObservation f) fs),
      r \<or> (\<exists>f \<in> set fs. fd_Reference f \<noteq> None), x \<or> (\<exists>f \<in> set fs. usesXPV2 (fd_GoType f)))"
proof (induction fs arbitrary: fp ap r x)
  case (Cons f fs)
  then show ?case
    by (cases "fd_Scope f"; cases "fd_OmitFromObservation f") (auto simp: in_spec_def)
qed simp

lemma nestedFieldsLoop_eq:
  "nestedFieldsLoop c fs (built, r, x) =
     (built @ map (nestedFieldData c) fs, r \<or> (\<exists>f \<in> set fs. fd_Reference f \<noteq> None),
      x \<or> (\<exists>f \<in> set fs. usesXPV2 (fd_GoType f)))"
  by (induction fs arbitrary: built r x) auto

lemma nestedTypesLoop_eq:
  "fst (nestedTypesLoop c nts (built, r, x)) =
     built @ map (\<lambda>nt. \<lparr>ntd_TypeName = nt_TypeName nt, ntd_Fields = map (nestedFieldData c) (nt_Fields nt)\<rparr>) nts"
  by (induction nts arbitrary: built r x) (simp_all add: nestedFieldsLoop_eq)

lemma BuildFieldSetData_parts [simp]:
  "fsd_ForProvider (BuildFieldSetData rd c) = map (\<lambda>f. buildFieldData f c) (filter in_spec (res_Fields rd))"
  "fsd_AtProvider (BuildFieldSetData rd c) =
     map buildAtProviderFieldData (filter (\<lambda>f. \<not> fd_OmitFromObservation f) (res_Fields rd))"
  "fsd_NestedTypes (BuildFieldSetData rd c) =
     map (\<lambda>nt. \<lparr>ntd_TypeName = nt_TypeName nt, ntd_Fields = map (nestedFieldData c) (nt_Fields nt)\<rparr>) (res_NestedTypes rd)"
  "fsd_Kind (BuildFieldSetData rd c) = res_Kind rd" "fsd_Slug (BuildFieldSetData rd c) = res_Slug rd"
  "fsd_PackageName (BuildFieldSetData rd c) = safeGoPackageName (res_Slug rd)"
  "fsd_ParameterValidations (BuildFieldSetData rd c) = res_ParameterValidations rd"
  by (simp_all add: BuildFieldSetData_def fieldsLoop_eq split_beta nestedTypesLoop_eq)

lemma buildFieldData_parts [simp]:
  "fdt_Name (buildFieldData f c) = fd_Name f" "fdt_GoType (buildFieldData f c) = fd_GoType f"
  "fdt_JSONName (buildFieldData f c) = fd_JSONName f"
  "fdt_OmitEmpty (buildFieldData f c) = isOmitEmpty (fd_GoType f) (fd_Required f)"
  "fdt_Required (buildFieldData f c) = fd_Required f" "fdt_Immutable (buildFieldData f c) = fd_Immutable f"
  "fdt_Reference (buildFieldData f c) = buildReferenceData (fd_Reference f) (fd_Name f) (fd_GoType f) c"
  "fdt_ExtraValidations (buildFieldData f c) = fd_ForProviderValidations f"
  by (simp_all add: buildFieldData_def Let_def split: option.split)

lemma buildAtProviderFieldData_parts [simp]:
  "fdt_Name (buildAtProviderFieldData f) = fd_Name f" "fdt_JSONName (buildAtProviderFieldData f) = fd_JSONName f"
  "fdt_GoType (buildAtProviderFieldData f) = atProviderGoType (fd_GoType f)"
  "fdt_OmitEmpty (buildAtProviderFieldData f) = isOmitEmpty (atProviderGoType (fd_GoType f)) False"
  "fdt_Required (buildAtProviderFieldData f) = False" "fdt_Immutable (buildAtProviderFieldData f) = fd_Immutable f"
  "fdt_Reference (buildAtProviderFieldData f) = None" "fdt_ExtraValidations (buildAtProviderFieldData f) = []"
  by (simp_all add: buildAtProviderFieldData_def zeroFieldData_def Let_def)

lemma nestedFieldData_parts [simp]:
  "fdt_Name (nestedFieldData c f) = fd_Name f" "fdt_JSONName (nestedFieldData c f) = fd_JSONName f"
  "fdt_GoType (nestedFieldData c f) = fd_GoType f" "fdt_Required (nestedFieldData c f) = fd_Required f"
  "fdt_OmitEmpty (nestedFieldData c f) = isOmitEmpty (fd_GoType f) (fd_Required f)"
  by (simp_all add: nestedFieldData_def zeroFieldData_def)

section \<open>The status mirrors the spec\<close>

definition collection :: "string \<Rightarrow> bool" where
  "collection goType \<longleftrightarrow> starts_with ''[]'' goType \<or> starts_with ''map['' goType"

text \<open>
  A field set is a full mirror when each spec field that is not kept out is a status field, a status field is a
  pointer or a collection without a required marker, and every collection, in spec, status or a nested type,
  is serialised even when it is empty and marked optional unless it is required.
\<close>

definition full_mirror :: "string list \<Rightarrow> FieldSetData \<Rightarrow> bool" where
  "full_mirror out d \<longleftrightarrow>
     (\<forall>p \<in> set (fsd_ForProvider d). fdt_JSONName p \<notin> set out \<longrightarrow>
        (\<exists>a \<in> set (fsd_AtProvider d). fdt_JSONName a = fdt_JSONName p \<and> fdt_Name a = fdt_Name p)) \<and>
     (\<forall>a \<in> set (fsd_AtProvider d). (starts_with ''*'' (fdt_GoType a) \<or> collection (fdt_GoType a)) \<and>
        requiredMarker \<notin> set (atProviderLines a)) \<and>
     (\<forall>p \<in> set (fsd_ForProvider d). collection (fdt_GoType p) \<longrightarrow> \<not> fdt_OmitEmpty p \<and>
        (requiredMarker \<in> set (forProviderLines p) \<or> optionalMarker \<in> set (forProviderLines p))) \<and>
     (\<forall>a \<in> set (fsd_AtProvider d). collection (fdt_GoType a) \<longrightarrow> \<not> fdt_OmitEmpty a \<and>
        optionalMarker \<in> set (atProviderLines a)) \<and>
     (\<forall>nt \<in> set (fsd_NestedTypes d). \<forall>n \<in> set (ntd_Fields nt). collection (fdt_GoType n) \<longrightarrow> \<not> fdt_OmitEmpty n \<and>
        (requiredMarker \<in> set (nestedFieldLines n) \<or> optionalMarker \<in> set (nestedFieldLines n)))"

lemma collection_kept: "collection goType \<Longrightarrow> \<not> isOmitEmpty goType req"
  by (auto simp: collection_def isOmitEmpty_def)

lemma atProvider_shape:
  "starts_with ''*'' (atProviderGoType t) \<or> collection (atProviderGoType t)"
  by (auto simp: atProviderGoType_def collection_def)

lemma atProvider_not_required: "requiredMarker \<notin> set (atProviderLines (buildAtProviderFieldData f))"
proof -
  have "requiredMarker \<noteq> optionalMarker" "requiredMarker \<noteq> xValidation r m" for r m
    by (simp_all add: requiredMarker_def optionalMarker_def xValidation_def)
  moreover have "requiredMarker \<noteq> declarationLine fd @ '' // atProvider''" for fd
  proof
    assume "requiredMarker = declarationLine fd @ '' // atProvider''"
    from arg_cong [OF this, of last] show False by (simp add: requiredMarker_def)
  qed
  ultimately show ?thesis by (auto simp: atProviderLines_def)
qed

text \<open>
  C28: whatever the catalog says of a resource, the generated status mirrors the spec: each spec field is a status
  field of the same name unless its entry keeps it out, status fields are pointers or
  collections and never required, and no collection, in spec, status or nested types, is dropped from the JSON
  when it is empty (so that immutability rules never compare with null), while each carries a marker
  that says whether it is required. In the catalog of 25 resources exactly four fields are kept out.
\<close>

theorem status_mirrors_spec:
  "full_mirror (kept_out rd) (BuildFieldSetData rd c) \<and>
   concat (map (\<lambda>r. map (Pair (res_Kind r)) (kept_out r)) All_resources) =
     [(''ARecord'', ''removeAssociatedPtr''), (''AAAARecord'', ''removeAssociatedPtr''),
      (''ExtensibleAttributeDef'', ''descendantsAction''), (''RangeTemplate'', ''msServer'')]"
proof
  show "full_mirror (kept_out rd) (BuildFieldSetData rd c)"
    unfolding full_mirror_def
  proof (intro conjI)
    show "\<forall>p \<in> set (fsd_ForProvider (BuildFieldSetData rd c)). fdt_JSONName p \<notin> set (kept_out rd) \<longrightarrow>
        (\<exists>a \<in> set (fsd_AtProvider (BuildFieldSetData rd c)). fdt_JSONName a = fdt_JSONName p \<and> fdt_Name a = fdt_Name p)"
      by (fastforce simp: kept_out_def)
    show "\<forall>a \<in> set (fsd_AtProvider (BuildFieldSetData rd c)). (starts_with ''*'' (fdt_GoType a) \<or>
        collection (fdt_GoType a)) \<and> requiredMarker \<notin> set (atProviderLines a)"
      by (auto simp: atProvider_shape atProvider_not_required)
    show "\<forall>p \<in> set (fsd_ForProvider (BuildFieldSetData rd c)). collection (fdt_GoType p) \<longrightarrow> \<not> fdt_OmitEmpty p \<and>
        (requiredMarker \<in> set (forProviderLines p) \<or> optionalMarker \<in> set (forProviderLines p))"
      by (auto simp: collection_kept forProviderLines_def presenceLines_def)
    show "\<forall>a \<in> set (fsd_AtProvider (BuildFieldSetData rd c)). collection (fdt_GoType a) \<longrightarrow> \<not> fdt_OmitEmpty a \<and>
        optionalMarker \<in> set (atProviderLines a)"
      by (auto simp: collection_kept atProviderLines_def)
    show "\<forall>nt \<in> set (fsd_NestedTypes (BuildFieldSetData rd c)). \<forall>n \<in> set (ntd_Fields nt).
        collection (fdt_GoType n) \<longrightarrow> \<not> fdt_OmitEmpty n \<and>
        (requiredMarker \<in> set (nestedFieldLines n) \<or> optionalMarker \<in> set (nestedFieldLines n))"
      by (auto simp: collection_kept nestedFieldLines_def presenceLines_def)
  qed
  show "concat (map (\<lambda>r. map (Pair (res_Kind r)) (kept_out r)) All_resources) =
     [(''ARecord'', ''removeAssociatedPtr''), (''AAAARecord'', ''removeAssociatedPtr''),
      (''ExtensibleAttributeDef'', ''descendantsAction''), (''RangeTemplate'', ''msServer'')]"
    by (simp add: All_resources_def catalog_facts)
qed

section \<open>The reserved attribute\<close>

definition reserved_rule :: string where
  "reserved_rule = ''self.all(k, k != '' @ [CHR 0x27] @ EAKey @ [CHR 0x27] @ '')''"

definition reserved_marker :: string where
  "reserved_marker = xValidation reserved_rule (vr_Message (hd reservedEAKeyValidations))"

lemma reserved_validations: "map (\<lambda>v. xValidation (vr_Rule v) (vr_Message v)) reservedEAKeyValidations = [reserved_marker]"
  by (simp add: reserved_marker_def reserved_rule_def reservedEAKeyValidations_def reservedEAKey_def EAKey_def)

lemma spec_guarded: "fdt_ExtraValidations p = reservedEAKeyValidations \<Longrightarrow> reserved_marker \<in> set (forProviderLines p)"
  by (simp add: forProviderLines_def reserved_validations)

lemma at_provider_unguarded: "reserved_marker \<notin> set (atProviderLines (buildAtProviderFieldData f))"
proof -
  have "reserved_marker \<noteq> optionalMarker"
    by (simp add: reserved_marker_def xValidation_def optionalMarker_def)
  moreover have "reserved_marker \<noteq> xValidation ''self == oldSelf'' m" for m
    by (simp add: reserved_marker_def reserved_rule_def xValidation_def)
  moreover have "reserved_marker \<noteq> declarationLine fd @ '' // atProvider''" for fd
  proof
    assume "reserved_marker = declarationLine fd @ '' // atProvider''"
    from arg_cong [OF this, of last] show False by (simp add: reserved_marker_def xValidation_def)
  qed
  ultimately show ?thesis by (auto simp: atProviderLines_def)
qed

text \<open>
  C27: for every resource of the catalog, in both scopes, the generated spec field extAttrs is a map of strings and carries
  the admission rule that no key is the attribute the identity ladder stamps objects with, and its
  status copy does not carry it (it shows the stamp); every resource has the field except NSRecord and
  ExtensibleAttributeDef, the two whose objects are not found by a stamp. This is what the
  convergence theorems assume of a spec (reserved_free).
\<close>

theorem reserved_attribute_guarded:
  assumes "rd \<in> set All_resources"
  shows "(\<forall>p \<in> set (fsd_ForProvider (BuildFieldSetData rd c)). fdt_JSONName p = ''extAttrs'' \<longrightarrow>
            fdt_GoType p = ''map[string]string'' \<and> reserved_marker \<in> set (forProviderLines p)) \<and>
         (\<forall>a \<in> set (fsd_AtProvider (BuildFieldSetData rd c)). reserved_marker \<notin> set (atProviderLines a)) \<and>
         (res_Kind rd \<notin> {''NSRecord'', ''ExtensibleAttributeDef''} \<longrightarrow>
            ''extAttrs'' \<in> fdt_JSONName ` set (fsd_ForProvider (BuildFieldSetData rd c)))"
proof (intro conjI)
  have g: "guards_identity rd"
    using catalog_checked(1) assms by (simp add: list_all_iff)
  show "\<forall>p \<in> set (fsd_ForProvider (BuildFieldSetData rd c)). fdt_JSONName p = ''extAttrs'' \<longrightarrow>
      fdt_GoType p = ''map[string]string'' \<and> reserved_marker \<in> set (forProviderLines p)"
    using g by (auto simp: guards_identity_def list_all_iff intro!: spec_guarded)
  show "\<forall>a \<in> set (fsd_AtProvider (BuildFieldSetData rd c)). reserved_marker \<notin> set (atProviderLines a)"
    by (auto simp: at_provider_unguarded)
  show "res_Kind rd \<notin> {''NSRecord'', ''ExtensibleAttributeDef''} \<longrightarrow>
      ''extAttrs'' \<in> fdt_JSONName ` set (fsd_ForProvider (BuildFieldSetData rd c))"
  proof
    assume "res_Kind rd \<notin> {''NSRecord'', ''ExtensibleAttributeDef''}"
    with g obtain f where "f \<in> set (res_Fields rd)" "in_spec f" "fd_JSONName f = ''extAttrs''"
      by (auto simp: guards_identity_def list_ex_iff)
    then show "''extAttrs'' \<in> fdt_JSONName ` set (fsd_ForProvider (BuildFieldSetData rd c))"
      by (auto simp: image_iff intro!: bexI [of _ f])
  qed
qed

lemma reserved_attribute_guarded_witness:
  "\<exists>p \<in> set (fsd_ForProvider (BuildFieldSetData aRecord True)). reserved_marker \<in> set (forProviderLines p)"
proof -
  have "aRecord \<in> set All_resources" by (simp add: All_resources_def)
  from reserved_attribute_guarded [OF this, of True] show ?thesis
    by (auto simp: catalog_facts)
qed

section \<open>Well-formed structs\<close>

text \<open>The JSON names of a struct's fields, those of its references included.\<close>

definition json_names :: "FieldData list \<Rightarrow> string list" where
  "json_names fds =
     concat (map (\<lambda>p. fdt_JSONName p #
       (case fdt_Reference p of None \<Rightarrow> [] | Some r \<Rightarrow> [rfd_RefFieldJSONName r, rfd_SelectorFieldJSONName r])) fds)"

definition built_in :: "string list" where
  "built_in = [''string'', ''bool'', ''int64'', ''uint32'', ''uint'', ''map[string]string'']"

definition declared_type :: "FieldSetData \<Rightarrow> string \<Rightarrow> bool" where
  "declared_type d t \<longleftrightarrow> type_base t \<in> set (built_in @ map ntd_TypeName (fsd_NestedTypes d))"

text \<open>The fields of all structs the generator makes of a resource for a scope.\<close>

definition all_fields :: "FieldSetData \<Rightarrow> FieldData set" where
  "all_fields d = set (fsd_ForProvider d) \<union> set (fsd_AtProvider d) \<union> \<Union> (set ` ntd_Fields ` set (fsd_NestedTypes d))"

definition well_formed :: "FieldSetData \<Rightarrow> bool" where
  "well_formed d \<longleftrightarrow>
     distinct (json_names (fsd_ForProvider d)) \<and> distinct (''id'' # json_names (fsd_AtProvider d)) \<and>
     distinct (map ntd_TypeName (fsd_NestedTypes d)) \<and>
     (\<forall>nt \<in> set (fsd_NestedTypes d). distinct (json_names (ntd_Fields nt))) \<and>
     (\<forall>fd \<in> all_fields d. declared_type d (fdt_GoType fd))"

text \<open>
  A reference's marker names the API package of a resource of the catalog, in the scope of the
  referring resource or in the cluster scope.
\<close>

definition points_into_catalog :: "bool \<Rightarrow> FieldData \<Rightarrow> bool" where
  "points_into_catalog isCluster fd \<longleftrightarrow>
     (\<forall>r. fdt_Reference fd = Some r \<longrightarrow>
        (\<exists>scope \<in> {''cluster'', if isCluster then ''cluster'' else ''namespaced''}. \<exists>rd \<in> set All_resources.
           rfd_MarkerType r =
             modulePath @ ''/apis/'' @ scope @ ''/'' @ res_Slug rd @ ''/'' @ apiVersion @ ''.'' @ res_Kind rd))"

lemma reference_names:
  "(case buildReferenceData (fd_Reference f) (fd_Name f) (fd_GoType f) c of None \<Rightarrow> []
    | Some r \<Rightarrow> [rfd_RefFieldJSONName r, rfd_SelectorFieldJSONName r]) = ref_names f"
  by (simp add: buildReferenceData_def ref_names_def Let_def split: option.split)

lemma json_names_mset:
  assumes "\<And>f. fdt_JSONName (b f) = fd_JSONName f"
    and "\<And>f. fdt_Reference (b f) = buildReferenceData (fd_Reference f) (fd_Name f) (fd_GoType f) c"
  shows "mset (json_names (map b fs)) = mset (map fd_JSONName fs @ concat (map ref_names fs))"
  by (induction fs) (simp_all add: json_names_def assms reference_names del: append_assoc)

lemma nested_reference [simp]:
  "fdt_Reference (nestedFieldData c f) = buildReferenceData (fd_Reference f) (fd_Name f) (fd_GoType f) c"
  by (simp add: nestedFieldData_def zeroFieldData_def)

lemma distinct_concat_filter: "distinct (concat (map g fs)) \<Longrightarrow> distinct (concat (map g (filter P fs)))"
  by (induction fs) auto

lemma names_ok_filter:
  assumes "names_ok fs"
  shows "names_ok (filter P fs)"
proof -
  have "distinct (map fd_JSONName fs)" "distinct (concat (map ref_names fs))"
    and "fd_JSONName ` set fs \<inter> (\<Union>f \<in> set fs. set (ref_names f)) = {}"
    using assms by (simp_all add: names_ok_def)
  then show ?thesis
    by (simp add: names_ok_def distinct_map_filter distinct_concat_filter) blast
qed

lemma names_ok_built:
  assumes "names_ok fs" "\<And>f. fdt_JSONName (b f) = fd_JSONName f"
    "\<And>f. fdt_Reference (b f) = buildReferenceData (fd_Reference f) (fd_Name f) (fd_GoType f) c"
  shows "distinct (json_names (map b fs))"
  using assms(1) mset_eq_imp_distinct_iff [OF json_names_mset [OF assms(2,3), where fs = fs]] by (simp add: names_ok_def)

lemma status_names: "json_names (map buildAtProviderFieldData fs) = map fd_JSONName fs"
  by (induction fs) (simp_all add: json_names_def)

lemma type_base_status: "type_base (atProviderGoType t) = type_base t"
  by (cases t) (auto simp: type_base_def atProviderGoType_def trim_prefix_def)

lemma reference_points:
  assumes "\<And>r. fd_Reference f = Some r \<Longrightarrow>
      (rd_TargetSlug r, rd_TargetKind r) \<in> set catalog_names \<and> rd_TargetScope r \<in> {[], ''cluster''}"
    and "fdt_Reference fd = buildReferenceData (fd_Reference f) (fd_Name f) (fd_GoType f) c"
  shows "points_into_catalog c fd"
proof (cases "fd_Reference f")
  case None
  with assms(2) show ?thesis by (simp add: points_into_catalog_def buildReferenceData_def)
next
  case (Some r)
  from assms(1) [OF this] have t: "(rd_TargetSlug r, rd_TargetKind r) \<in> set (map (\<lambda>rd. (res_Slug rd, res_Kind rd)) All_resources)"
    "rd_TargetScope r = [] \<or> rd_TargetScope r = ''cluster''"
    by (simp_all add: catalog_listed)
  then obtain q where q: "q \<in> set All_resources" "rd_TargetSlug r = res_Slug q" "rd_TargetKind r = res_Kind q"
    by auto
  let ?scope = "if rd_TargetScope r = [] then if c then ''cluster'' else ''namespaced'' else rd_TargetScope r"
  have "rfd_MarkerType x =
      modulePath @ ''/apis/'' @ ?scope @ ''/'' @ res_Slug q @ ''/'' @ apiVersion @ ''.'' @ res_Kind q"
    if "fdt_Reference fd = Some x" for x
    using that assms(2) Some q(2,3) by (auto simp: buildReferenceData_def Let_def split_beta)
  moreover have "?scope \<in> {''cluster'', if c then ''cluster'' else ''namespaced''}" using t(2) by auto
  ultimately show ?thesis using q(1) unfolding points_into_catalog_def by blast
qed

text \<open>The references of every field of a resource, nested types included.\<close>

lemma references_point:
  assumes "rd \<in> set All_resources" and "fd \<in> all_fields (BuildFieldSetData rd c)"
  shows "points_into_catalog c fd"
proof -
  have known: "(rd_TargetSlug r, rd_TargetKind r) \<in> set catalog_names \<and> rd_TargetScope r \<in> {[], ''cluster''}"
    if "f \<in> set (res_Fields rd) \<or> (\<exists>nt \<in> set (res_NestedTypes rd). f \<in> set (nt_Fields nt))" "fd_Reference f = Some r" for f r
  proof -
    have "references_known rd" using catalog_checked(3) assms(1) by (simp add: list_all_iff)
    then show ?thesis using that by (force simp: references_known_def Let_def list_all_iff)
  qed
  consider f where "f \<in> set (res_Fields rd)" "fd = buildFieldData f c"
    | f where "fd = buildAtProviderFieldData f"
    | nt f where "nt \<in> set (res_NestedTypes rd)" "f \<in> set (nt_Fields nt)" "fd = nestedFieldData c f"
    using assms(2) by (auto simp: all_fields_def)
  then show ?thesis
  proof cases
    case 1
    then show ?thesis using known [of f] by (intro reference_points [of f]) simp_all
  next
    case 2
    then show ?thesis by (simp add: points_into_catalog_def)
  next
    case 3
    then show ?thesis using known [of f] by (intro reference_points [of f]) auto
  qed
qed

text \<open>
  C29: the structs generated for every resource of the catalog, in both scopes, are well formed: no two fields of a struct
  share a JSON name, the reference and selector fields the generator adds and the id of the
  status included (the Go compiler does not reject a repeated JSON tag); each field's type is built in or a nested type
  declared in the same file; each cross-resource reference, of a spec field or of a field of a nested type, points to
  the API package of a resource of the catalog, in the cluster scope or in the scope of the
  referring resource (so a cluster resource never refers to a namespaced one).
\<close>

theorem structs_well_formed:
  assumes "rd \<in> set All_resources"
  shows "well_formed (BuildFieldSetData rd c) \<and>
    (\<forall>fd \<in> all_fields (BuildFieldSetData rd c). points_into_catalog c fd)"
proof -
  have ok: "names_distinct rd" "types_known rd"
    using catalog_checked(2,4) assms by (simp_all add: list_all_iff)
  have top: "names_ok (res_Fields rd)" "''id'' \<notin> fd_JSONName ` set (res_Fields rd)"
      "distinct (map nt_TypeName (res_NestedTypes rd))"
    and nested: "\<And>nt. nt \<in> set (res_NestedTypes rd) \<Longrightarrow> names_ok (nt_Fields nt)"
    using ok(1) by (simp_all add: names_distinct_def list_all_iff)
  have known: "type_base (fd_GoType f) \<in> set (built_in @ map nt_TypeName (res_NestedTypes rd))"
    if "f \<in> set (res_Fields rd) \<or> (\<exists>nt \<in> set (res_NestedTypes rd). f \<in> set (nt_Fields nt))" for f
    using ok(2) that by (fastforce simp: types_known_def built_in_def list_all_iff)
  have type_names: "map ntd_TypeName (fsd_NestedTypes (BuildFieldSetData rd c)) = map nt_TypeName (res_NestedTypes rd)"
    by simp
  have "well_formed (BuildFieldSetData rd c)"
    unfolding well_formed_def
  proof (intro conjI ballI)
    show "distinct (json_names (fsd_ForProvider (BuildFieldSetData rd c)))"
      using names_ok_built [OF names_ok_filter [OF top(1)], where b = "\<lambda>f. buildFieldData f c"] by simp
    show "distinct (''id'' # json_names (fsd_AtProvider (BuildFieldSetData rd c)))"
      using top(1,2) by (auto simp: status_names names_ok_def distinct_map_filter)
    show "distinct (map ntd_TypeName (fsd_NestedTypes (BuildFieldSetData rd c)))"
      using top(3) by (simp only: type_names)
    show "distinct (json_names (ntd_Fields nt))" if "nt \<in> set (fsd_NestedTypes (BuildFieldSetData rd c))" for nt
      using that names_ok_built [OF nested, where b = "nestedFieldData c"] by auto
    show "declared_type (BuildFieldSetData rd c) (fdt_GoType fd)"
      if fd_in: "fd \<in> all_fields (BuildFieldSetData rd c)" for fd
    proof -
      obtain f where "f \<in> set (res_Fields rd) \<or> (\<exists>nt \<in> set (res_NestedTypes rd). f \<in> set (nt_Fields nt))"
        "type_base (fdt_GoType fd) = type_base (fd_GoType f)"
      proof -
        consider f where "f \<in> set (res_Fields rd)" "type_base (fdt_GoType fd) = type_base (fd_GoType f)"
          | nt f where "nt \<in> set (res_NestedTypes rd)" "f \<in> set (nt_Fields nt)" "fd = nestedFieldData c f"
          using fd_in by (auto simp: all_fields_def type_base_status)
        then show ?thesis using that by cases auto
      qed
      with known [of f] show ?thesis by (simp only: declared_type_def type_names)
    qed
  qed
  with references_point [OF assms] show ?thesis by blast
qed

text \<open>A member of a pool, in a namespaced resource, refers to a cluster scoped DTCServer.\<close>

lemma structs_well_formed_witness:
  "distinct (json_names (fsd_ForProvider (BuildFieldSetData dtcPool False))) \<and>
   fdt_Reference (nestedFieldData False (hd dtcPool_DTCPoolServerLink_Fields)) \<noteq> None \<and>
   points_into_catalog False (nestedFieldData False (hd dtcPool_DTCPoolServerLink_Fields))"
proof -
  have "dtcPool \<in> set All_resources" by (simp add: All_resources_def)
  note wf = structs_well_formed [OF this, of False]
  have "\<lparr>nt_TypeName = ''DTCPoolServerLink'', nt_Fields = dtcPool_DTCPoolServerLink_Fields\<rparr> \<in> set (res_NestedTypes dtcPool)"
    by (simp add: dtcPool_def)
  moreover have "hd dtcPool_DTCPoolServerLink_Fields \<in> set dtcPool_DTCPoolServerLink_Fields"
    by (simp add: dtcPool_DTCPoolServerLink_Fields_def)
  ultimately have "nestedFieldData False (hd dtcPool_DTCPoolServerLink_Fields) \<in> all_fields (BuildFieldSetData dtcPool False)"
    by (force simp: all_fields_def)
  moreover have "fdt_Reference (nestedFieldData False (hd dtcPool_DTCPoolServerLink_Fields)) \<noteq> None"
    by (simp add: dtcPool_DTCPoolServerLink_Fields_def buildReferenceData_def Let_def split_beta)
  ultimately show ?thesis using wf by (simp add: well_formed_def)
qed

section \<open>Where the generator writes\<close>

fun call_path :: "fscall \<Rightarrow> string" where
  "call_path (MkdirAll p) = p"
| "call_path (WriteFile p d) = p"

fun written :: "fscall list \<Rightarrow> string list" where
  "written [] = []"
| "written (MkdirAll p # cs) = written cs"
| "written (WriteFile p d # cs) = p # written cs"

lemma written_append [simp]: "written (a @ b) = written a @ written b"
  by (induction a rule: written.induct) simp_all

text \<open>
  A command went through the list of files in order: what it did to the file system stays in a set of paths, the
  files it wrote are the first of the list, and all of them when it succeeded.
\<close>

definition went :: "(string \<Rightarrow> bool) \<Rightarrow> string list \<Rightarrow> fscall list \<Rightarrow> goerr option \<times> fscall list \<Rightarrow> bool" where
  "went inside files h r \<longleftrightarrow>
     (\<exists>new. snd r = h @ new \<and> list_all (\<lambda>c. inside (call_path c)) new \<and> prefix (written new) files \<and>
        (fst r = None \<longrightarrow> written new = files))"

lemma went_nothing [simp]: "went inside files h (Some err, h)"
  by (simp add: went_def)

lemma went_done [simp]: "went inside [] h (None, h)"
  by (simp add: went_def)

lemma went_then:
  assumes "went inside fs h r" "\<And>h1. went inside gs h1 (k h1)"
  shows "went inside (fs @ gs) h (case r of (Some err, h1) \<Rightarrow> (Some (g err), h1) | (None, h1) \<Rightarrow> k h1)"
proof -
  obtain e h1 where r: "r = (e, h1)" by (cases r)
  obtain new where new: "h1 = h @ new" "list_all (\<lambda>c. inside (call_path c)) new" "prefix (written new) fs"
    "e = None \<longrightarrow> written new = fs"
    using assms(1) by (auto simp: went_def r)
  show ?thesis
  proof (cases e)
    case (Some err)
    with r new show ?thesis by (auto simp: went_def intro: prefix_order.order_trans)
  next
    case None
    obtain new' where new': "snd (k h1) = h1 @ new'" "list_all (\<lambda>c. inside (call_path c)) new'"
      "prefix (written new') gs" "fst (k h1) = None \<longrightarrow> written new' = gs"
      using assms(2) [of h1] by (auto simp: went_def)
    have "snd (k h1) = h @ (new @ new')" "list_all (\<lambda>c. inside (call_path c)) (new @ new')"
      "prefix (written (new @ new')) (fs @ gs)" "fst (k h1) = None \<longrightarrow> written (new @ new') = fs @ gs"
      using new new' None by simp_all
    then show ?thesis unfolding r None went_def by auto
  qed
qed

lemmas went_and_then = went_then [where g = "\<lambda>err. err"]

lemma went_mkdir:
  assumes "inside p" "\<And>h1. went inside files h1 (k h1)"
  shows "went inside files h (case os_mkdir env h p of Some err \<Rightarrow> (Some (g err), h @ [MkdirAll p]) | None \<Rightarrow> k (h @ [MkdirAll p]))"
proof -
  have "went inside [] h (os_mkdir env h p, h @ [MkdirAll p])"
    using assms(1) by (simp add: went_def)
  from went_then [OF this assms(2), of g] show ?thesis by (simp split: option.splits)
qed

lemma path_dir_join [simp]: "CHR ''/'' \<notin> set f \<Longrightarrow> path_dir (path_join [d, f]) = d"
proof -
  assume f: "CHR ''/'' \<notin> set f"
  have "split_on CHR ''/'' (d @ CHR ''/'' # f) = split_on CHR ''/'' d @ [f]" for d
    by (induction d) (auto simp: split_on_no_sep f split: list.splits)
  then show ?thesis by (simp add: path_dir_def path_join_def join_split)
qed

lemma writeFile_went:
  assumes "inside p" "inside (path_dir p)"
  shows "went inside [p] h (writeFile env p d h)"
  unfolding writeFile_def Let_def
proof (rule went_mkdir)
  show "went inside [p] h1 (case os_write env h1 p d of None \<Rightarrow> (None, h1 @ [WriteFile p d])
      | Some err \<Rightarrow> (Some (Wrapped (''writing '' @ p) err), h1 @ [WriteFile p d]))" for h1
    using assms(1) by (auto simp: went_def split: option.splits)
qed (rule assms(2))

definition below :: "string \<Rightarrow> string \<Rightarrow> bool" where
  "below root p \<longleftrightarrow> starts_with (root @ ''/apis/'') p"

lemma below_join [simp]:
  "below root (path_join (root # ''apis'' # s # rest))"
proof -
  have "path_join (root # ''apis'' # s # rest) = (root @ ''/apis/'') @ join_with ''/'' (s # rest)"
    by (simp add: path_join_def)
  then show ?thesis by (simp only: below_def starts_with_append)
qed

text \<open>The files of a resource and of a whole run, in the order they are written.\<close>

definition scope_files :: "string \<Rightarrow> string \<Rightarrow> string \<Rightarrow> string list" where
  "scope_files root scope slug =
     (let dir = path_join [root, ''apis'', scope, slug, ''v1alpha1''] in
      [path_join [dir, ''doc.go''], path_join [dir, ''register.go''], path_join [dir, slug @ ''_types.go'']])"

definition resource_files :: "string \<Rightarrow> ResourceDescriptor \<Rightarrow> string list" where
  "resource_files root rd =
     (let pkg = safeGoPackageName (res_Slug rd) in
      [path_join [path_join [root, ''apis'', ''common'', pkg], pkg @ ''_types.go'']] @
      scope_files root ''cluster'' (res_Slug rd) @ scope_files root ''namespaced'' (res_Slug rd))"

definition run_files :: "string \<Rightarrow> ResourceDescriptor list \<Rightarrow> string list" where
  "run_files root rds =
     concat (map (resource_files root) rds) @
     [path_join [path_join [root, ''apis'', ''common'', ''driftdetection''], ''driftdetection_types.go''],
      path_join [root, ''apis'', ''common'', ''referencehelpers'', ''zz_referencehelpers.go'']]"

lemma path_join_nest: "path_join [path_join (p # ps), f] = path_join (p # ps @ [f])"
proof -
  have "join_with sep [join_with sep (w # ws), f] = join_with sep (w # ws @ [f])" for sep w ws
    by (induction ws arbitrary: w) simp_all
  then show ?thesis by (simp only: path_join_def)
qed

lemma writeFile_below:
  assumes "CHR ''/'' \<notin> set f"
  shows "went (below root) [path_join [path_join (root # ''apis'' # s # rest), f]] h
    (writeFile env (path_join [path_join (root # ''apis'' # s # rest), f]) d h)"
proof (rule writeFile_went)
  show "below root (path_join [path_join (root # ''apis'' # s # rest), f])"
    by (simp only: path_join_nest append_Cons below_join)
  show "below root (path_dir (path_join [path_join (root # ''apis'' # s # rest), f]))"
    by (simp only: path_dir_join [OF assms] below_join)
qed

lemma went_render:
  assumes "\<And>x. went inside files h (k x)"
  shows "went inside files h (case r of Inl err \<Rightarrow> (Some (g err), h) | Inr x \<Rightarrow> k x)"
  using assms by (cases r) simp_all

lemma generateScope_went:
  assumes "CHR ''/'' \<notin> set (res_Slug rd)" and scope: "scope = (if c then ''cluster'' else ''namespaced'')"
  shows "went (below root) (scope_files root scope (res_Slug rd)) h (generateScope env rd root c h)"
proof -
  let ?dir = "path_join [root, ''apis'', scope, res_Slug rd, ''v1alpha1'']"
  have files: "scope_files root scope (res_Slug rd) =
      [path_join [?dir, ''doc.go'']] @ [path_join [?dir, ''register.go'']] @ [path_join [?dir, res_Slug rd @ ''_types.go'']]"
    by (simp add: scope_files_def Let_def)
  have one_file: "went (below root) [path_join [?dir, f]] h (writeFile env (path_join [?dir, f]) d h)"
    if "CHR ''/'' \<notin> set f" for f d h
    using writeFile_below [OF that] .
  show ?thesis
    unfolding generateScope_def Let_def apiVersion_def files scope [symmetric]
    by (rule went_mkdir, simp, rule went_render, rule went_and_then, rule one_file, simp, rule went_render,
        rule went_and_then, rule one_file, simp, rule went_render, rule one_file) (simp add: assms(1))
qed

lemma Generate_went:
  assumes "CHR ''/'' \<notin> set (res_Slug rd)"
  shows "went (below root) (resource_files root rd) h (Generate env rd root h)"
  unfolding Generate_def resource_files_def Let_def BuildFieldSetData_parts
  by (rule went_render, rule went_and_then, rule writeFile_below, simp add: assms safeGoPackageName_def,
      rule went_and_then, rule generateScope_went, rule assms, simp, rule generateScope_went, rule assms) simp

lemma generateLoop_went:
  assumes "list_all (\<lambda>rd. CHR ''/'' \<notin> set (res_Slug rd)) rds"
  shows "went (below root) (concat (map (resource_files root) rds)) h (generateLoop env rds root h)"
  using assms
  by (induction rds arbitrary: h) (auto intro!: went_then Generate_went)

lemma findResourceLoop_Some: "findResourceLoop rds slug = Some rd \<Longrightarrow> rd \<in> set rds \<and> res_Slug rd = slug"
  by (induction rds) (auto split: if_splits)

lemma findResourceLoop_None: "findResourceLoop rds slug = None \<longleftrightarrow> slug \<notin> res_Slug ` set rds"
  by (induction rds) auto

text \<open>FindResource is the lookup by slug, and slugs tell the resources apart.\<close>

lemma FindResource_iff: "FindResource slug = Some rd \<longleftrightarrow> rd \<in> set All_resources \<and> res_Slug rd = slug"
proof
  assume "FindResource slug = Some rd"
  then show "rd \<in> set All_resources \<and> res_Slug rd = slug"
    unfolding FindResource_def by (rule findResourceLoop_Some)
next
  assume rd: "rd \<in> set All_resources \<and> res_Slug rd = slug"
  then obtain rd' where r: "FindResource slug = Some rd'"
    using findResourceLoop_None [of All_resources slug] by (cases "FindResource slug") (auto simp: FindResource_def)
  then have "rd' \<in> set All_resources" "res_Slug rd' = slug"
    using findResourceLoop_Some unfolding FindResource_def by blast+
  with rd catalog_slugs have "rd' = rd" by (auto simp: distinct_map inj_on_def)
  with r show "FindResource slug = Some rd" by simp
qed

lemma slugs_plain: "list_all (\<lambda>rd. CHR ''/'' \<notin> set (res_Slug rd)) All_resources"
  by (simp add: All_resources_def catalog_facts)

lemma GenerateDriftDetectionPackage_went:
  "went (below root) [path_join [path_join [root, ''apis'', ''common'', ''driftdetection''], ''driftdetection_types.go'']] h
     (GenerateDriftDetectionPackage env root h)"
  unfolding GenerateDriftDetectionPackage_def Let_def
  by (rule went_render, rule went_mkdir, simp, rule writeFile_below) simp

lemma GenerateReferenceHelpers_went:
  "went (below root) [path_join [root, ''apis'', ''common'', ''referencehelpers'', ''zz_referencehelpers.go'']] h
     (GenerateReferenceHelpers env root h)"
proof -
  have nest: "path_join [root, ''apis'', ''common'', ''referencehelpers'', ''zz_referencehelpers.go''] =
      path_join [path_join [root, ''apis'', ''common'', ''referencehelpers''], ''zz_referencehelpers.go'']"
    by (simp add: path_join_def)
  show ?thesis
    unfolding GenerateReferenceHelpers_def nest by (rule went_render, rule writeFile_below) simp
qed

text \<open>A directory the generator accepts: absolute, outside every tools directory, with the provider's go.mod.\<close>

definition provider_root :: "gen_env \<Rightarrow> string \<Rightarrow> string \<Rightarrow> bool" where
  "provider_root env dir root \<longleftrightarrow>
     filepath_abs env dir = Inr root \<and> ''tools'' \<notin> set (split_on CHR ''/'' root) \<and>
     (\<exists>data. os_read env (root @ ''/go.mod'') = Inr data \<and> parseModulePath data = Inr providerModulePath)"

lemma resolveProviderRoot_Inr: "resolveProviderRoot env dir = Inr root \<longleftrightarrow> provider_root env dir root"
  by (auto simp: resolveProviderRoot_def provider_root_def path_join_def list_ex_iff split: sum.splits)

lemma runGenerate_went:
  assumes "list_all (\<lambda>rd. CHR ''/'' \<notin> set (res_Slug rd)) rds"
  shows "went (below root) (run_files root rds) h
    (case generateLoop env rds root h of
       (Some err, h1) \<Rightarrow> (Some err, h1)
     | (None, h1) \<Rightarrow>
         (case GenerateDriftDetectionPackage env root h1 of
            (Some err, h2) \<Rightarrow> (Some (Wrapped ''generate driftdetection package'' err), h2)
          | (None, h2) \<Rightarrow>
              (case GenerateReferenceHelpers env root h2 of
                 (Some err, h3) \<Rightarrow> (Some (Wrapped ''generate reference helpers'' err), h3)
               | (None, h3) \<Rightarrow> (None, h3))))"
proof -
  have files: "run_files root rds = concat (map (resource_files root) rds) @
      [path_join [path_join [root, ''apis'', ''common'', ''driftdetection''], ''driftdetection_types.go'']] @
      [path_join [root, ''apis'', ''common'', ''referencehelpers'', ''zz_referencehelpers.go'']] @ []"
    by (simp add: run_files_def)
  show ?thesis
    unfolding files
    by (rule went_and_then, rule generateLoop_went, rule assms, rule went_then, rule GenerateDriftDetectionPackage_went,
        rule went_then, rule GenerateReferenceHelpers_went) simp
qed

text \<open>
  C30: a run of openapi2crd either fails without touching the file system, or its output directory is the
  provider's root (absolute, not inside a tools directory, with a go.mod that declares the provider's module) and everything it
  creates lies below apis/ of that root: it writes the files of the resource asked for, or of all
  25, in order (a common copy, and doc, register and types for each scope), then the two shared
  packages; an error stops it with the files so far, and success means all are written.
\<close>

theorem generator_confined:
  "(\<exists>err. run env args h = (Some err, h)) \<or>
   (\<exists>rest dir slug root rds. args = ''generate'' # rest \<and> parse_flags env rest = Inr (dir, slug) \<and>
      provider_root env dir root \<and>
      (slug = [] \<and> rds = All_resources \<or> (\<exists>rd \<in> set All_resources. res_Slug rd = slug \<and> rds = [rd])) \<and>
      went (below root) (run_files root rds) h (run env args h))"
proof (cases "\<exists>rest dir slug root. args = ''generate'' # rest \<and> parse_flags env rest = Inr (dir, slug) \<and>
    resolveProviderRoot env dir = Inr root \<and> (slug = [] \<or> FindResource slug \<noteq> None)")
  case False
  then have "\<exists>err. run env args h = (Some err, h)"
    by (auto simp: run_def runGenerate_def split: list.split sum.split option.split)
  then show ?thesis by blast
next
  case True
  then obtain rest dir slug root where args: "args = ''generate'' # rest" "parse_flags env rest = Inr (dir, slug)"
    "resolveProviderRoot env dir = Inr root" "slug = [] \<or> FindResource slug \<noteq> None"
    by blast
  define rds where "rds = (if slug = [] then All_resources else [the (FindResource slug)])"
  have asked: "slug = [] \<and> rds = All_resources \<or> (\<exists>rd \<in> set All_resources. res_Slug rd = slug \<and> rds = [rd])"
  proof (cases "slug = []")
    case False
    then obtain rd where "FindResource slug = Some rd" using args(4) by auto
    with False show ?thesis using FindResource_iff [of slug rd] by (simp add: rds_def)
  qed (simp add: rds_def)
  then have plain: "list_all (\<lambda>rd. CHR ''/'' \<notin> set (res_Slug rd)) rds"
    using slugs_plain by (auto simp: list_all_iff)
  have "(if slug = [] then Inr All_resources else case FindResource slug of
      None \<Rightarrow> Inl (TextError (''resource '' @ go_quote slug @ '' not found in catalog'')) | Some rd \<Rightarrow> Inr [rd]) = Inr rds"
    using args(4) by (auto simp: rds_def)
  then have "went (below root) (run_files root rds) h (run env args h)"
    using runGenerate_went [OF plain, of root h env] by (simp add: run_def runGenerate_def args)
  with args asked show ?thesis by (auto simp: resolveProviderRoot_Inr)
qed

end
