(* ===== verification/Breaker.thy ===== *)
theory Breaker
  imports Prelude
begin

text \<open>
  internal/clients/dualclient/circuitbreaker.go: the circuit breaker that pins
  reads to the primary after repeated candidate failures. Times and durations
  are integers in nanoseconds; openUntil's zero time is None. Every method runs
  under the breaker's mutex, so a method is one step.
\<close>

section \<open>The breaker\<close>

definition DefaultCircuitBreakerThreshold :: int where "DefaultCircuitBreakerThreshold = 5"
definition DefaultCircuitBreakerBackoff :: int where "DefaultCircuitBreakerBackoff = 60 * 10 ^ 9"

record CircuitBreaker =
  cb_threshold :: int
  cb_backoff :: int
  consecutiveFailures :: int
  openUntil :: "int option"

definition NewCircuitBreaker :: "int \<Rightarrow> int \<Rightarrow> CircuitBreaker" where
  "NewCircuitBreaker threshold backoff =
     (let threshold1 = (if threshold \<le> 0 then DefaultCircuitBreakerThreshold else threshold);
          backoff1 = (if backoff \<le> 0 then DefaultCircuitBreakerBackoff else backoff)
      in \<lparr>cb_threshold = threshold1, cb_backoff = backoff1, consecutiveFailures = 0, openUntil = None\<rparr>)"

definition RecordSuccess :: "CircuitBreaker \<Rightarrow> CircuitBreaker" where
  "RecordSuccess b = b\<lparr>consecutiveFailures := 0, openUntil := None\<rparr>"

text \<open>The methods that read the clock take its reading as an argument.\<close>

definition RecordFailure :: "int \<Rightarrow> CircuitBreaker \<Rightarrow> bool \<times> CircuitBreaker" where
  "RecordFailure now b =
     (let b1 = b\<lparr>consecutiveFailures := consecutiveFailures b + 1\<rparr> in
      if consecutiveFailures b1 \<ge> cb_threshold b1 then
        (True, b1\<lparr>openUntil := Some (now + cb_backoff b1)\<rparr>)
      else (False, b1))"

definition IsOpen :: "int \<Rightarrow> CircuitBreaker \<Rightarrow> bool \<times> CircuitBreaker" where
  "IsOpen now b =
     (case openUntil b of
        None \<Rightarrow> (False, b)
      | Some t \<Rightarrow> if now > t then (False, b\<lparr>openUntil := None\<rparr>) else (True, b))"

definition FailureCount :: "CircuitBreaker \<Rightarrow> int" where
  "FailureCount b = consecutiveFailures b"

section \<open>Histories of calls\<close>

datatype breaker_event = Succeeded | Failed int | Asked int

fun breaker_step :: "breaker_event \<Rightarrow> CircuitBreaker \<Rightarrow> CircuitBreaker" where
  "breaker_step Succeeded b = RecordSuccess b"
| "breaker_step (Failed now) b = snd (RecordFailure now b)"
| "breaker_step (Asked now) b = snd (IsOpen now b)"

definition breaker_run :: "int \<Rightarrow> int \<Rightarrow> breaker_event list \<Rightarrow> CircuitBreaker" where
  "breaker_run threshold backoff evs = fold breaker_step evs (NewCircuitBreaker threshold backoff)"

text \<open>
  The specification counts the failures since the last success in the history
  (newest event first) and remembers when the last one was.
\<close>

fun streak :: "breaker_event list \<Rightarrow> int" where
  "streak [] = 0"
| "streak (Succeeded # es) = 0"
| "streak (Failed t # es) = streak es + 1"
| "streak (Asked t # es) = streak es"

fun last_failure :: "breaker_event list \<Rightarrow> int option" where
  "last_failure [] = None"
| "last_failure (Succeeded # es) = None"
| "last_failure (Failed t # es) = Some t"
| "last_failure (Asked t # es) = last_failure es"

fun event_time :: "breaker_event \<Rightarrow> int option" where
  "event_time Succeeded = None"
| "event_time (Failed t) = Some t"
| "event_time (Asked t) = Some t"

text \<open>All clock readings of the history are at most now.\<close>

definition all_before :: "int \<Rightarrow> breaker_event list \<Rightarrow> bool" where
  "all_before now es = list_all (\<lambda>e. case event_time e of None \<Rightarrow> True | Some t \<Rightarrow> t \<le> now) es"

text \<open>Clock readings do not decrease (newest event first).\<close>

fun clock_monotone :: "breaker_event list \<Rightarrow> bool" where
  "clock_monotone [] = True"
| "clock_monotone (e # es) =
     (clock_monotone es \<and> (case event_time e of None \<Rightarrow> True | Some t \<Rightarrow> all_before t es))"

lemma streak_nonneg [simp]: "0 \<le> streak es"
  by (induction es rule: streak.induct) simp_all

lemma last_failure_streak: "last_failure es = None \<longleftrightarrow> streak es = 0"
  by (induction es rule: streak.induct) (simp_all add: add_nonneg_eq_0_iff)

lemma last_failure_before: "all_before t es \<Longrightarrow> last_failure es = Some s \<Longrightarrow> s \<le> t"
  by (induction es rule: streak.induct) (auto simp: all_before_def)

lemma breaker_step_params [simp]:
  "cb_threshold (breaker_step e b) = cb_threshold b"
  "cb_backoff (breaker_step e b) = cb_backoff b"
  by (cases e; simp add: RecordSuccess_def RecordFailure_def IsOpen_def Let_def split: option.split)+

text \<open>The simulation relation between the breaker and its history.\<close>

definition breaker_rel :: "breaker_event list \<Rightarrow> CircuitBreaker \<Rightarrow> bool" where
  "breaker_rel es b \<longleftrightarrow>
     cb_threshold b > 0 \<and> cb_backoff b > 0 \<and> consecutiveFailures b = streak es \<and>
     (case openUntil b of
        Some u \<Rightarrow> streak es \<ge> cb_threshold b \<and> (\<exists>s. last_failure es = Some s \<and> u = s + cb_backoff b)
      | None \<Rightarrow> streak es < cb_threshold b \<or>
          (\<exists>s t. last_failure es = Some s \<and> t > s + cb_backoff b \<and> Asked t \<in> set es))"

lemma breaker_rel_new: "breaker_rel [] (NewCircuitBreaker threshold backoff)"
  by (simp add: breaker_rel_def NewCircuitBreaker_def DefaultCircuitBreakerThreshold_def
      DefaultCircuitBreakerBackoff_def Let_def)

lemma breaker_rel_step: "breaker_rel es b \<Longrightarrow> breaker_rel (e # es) (breaker_step e b)"
proof (cases e)
  case (Asked t)
  assume "breaker_rel es b"
  with Asked show ?thesis
    by (cases "openUntil b") (auto simp: breaker_rel_def IsOpen_def)
qed (auto simp: breaker_rel_def RecordSuccess_def RecordFailure_def Let_def split: option.splits)

lemma breaker_rel_run: "breaker_rel (rev evs) (breaker_run threshold backoff evs)"
proof (induction evs rule: rev_induct)
  case Nil
  then show ?case by (simp add: breaker_run_def breaker_rel_new)
next
  case (snoc e es)
  then show ?case by (simp add: breaker_run_def breaker_rel_step)
qed

lemma breaker_run_params:
  "cb_threshold (breaker_run threshold backoff evs) = (if threshold \<le> 0 then 5 else threshold)"
  "cb_backoff (breaker_run threshold backoff evs) = (if backoff \<le> 0 then 60 * 10 ^ 9 else backoff)"
proof -
  have "cb_threshold (fold breaker_step evs b) = cb_threshold b
      \<and> cb_backoff (fold breaker_step evs b) = cb_backoff b" for b
    by (induction evs arbitrary: b) simp_all
  then show "cb_threshold (breaker_run threshold backoff evs) = (if threshold \<le> 0 then 5 else threshold)"
    "cb_backoff (breaker_run threshold backoff evs) = (if backoff \<le> 0 then 60 * 10 ^ 9 else backoff)"
    by (simp_all add: breaker_run_def NewCircuitBreaker_def DefaultCircuitBreakerThreshold_def
        DefaultCircuitBreakerBackoff_def Let_def)
qed

lemma asked_before:
  "clock_monotone es \<Longrightarrow> all_before now es \<Longrightarrow> Asked t \<in> set es \<Longrightarrow> t \<le> now"
  by (auto simp: all_before_def list_all_iff)

text \<open>
  C22: along any history of calls with a clock that does not run backwards, the breaker is
  open exactly when the failures since the last success have reached the threshold and
  the last of them is at most the backoff window ago: the state it keeps (a counter and
  a deadline cleared by a query) implements that specification.
\<close>

theorem IsOpen_refines_history:
  assumes "clock_monotone (Asked now # rev evs)"
  shows "fst (IsOpen now (breaker_run threshold backoff evs)) \<longleftrightarrow>
    streak (rev evs) \<ge> (if threshold \<le> 0 then 5 else threshold) \<and>
    (\<exists>s. last_failure (rev evs) = Some s \<and> now \<le> s + (if backoff \<le> 0 then 60 * 10 ^ 9 else backoff))"
proof -
  let ?b = "breaker_run threshold backoff evs"
  have rel: "breaker_rel (rev evs) ?b" by (rule breaker_rel_run)
  have seen: "Asked t \<in> set (rev evs) \<Longrightarrow> t \<le> now" for t
    using assms asked_before [of "rev evs" now t] by simp
  have "fst (IsOpen now ?b) \<longleftrightarrow> streak (rev evs) \<ge> cb_threshold ?b \<and>
      (\<exists>s. last_failure (rev evs) = Some s \<and> now \<le> s + cb_backoff ?b)"
  proof (cases "openUntil ?b")
    case None
    with rel have "streak (rev evs) < cb_threshold ?b \<or>
        (\<exists>s t. last_failure (rev evs) = Some s \<and> t > s + cb_backoff ?b \<and> Asked t \<in> set (rev evs))"
      by (simp add: breaker_rel_def)
    with None seen show ?thesis by (force simp: IsOpen_def)
  next
    case (Some u)
    with rel show ?thesis by (auto simp: breaker_rel_def IsOpen_def)
  qed
  then show ?thesis by (simp only: breaker_run_params)
qed

text \<open>
  After the backoff window, the query that half-opens the breaker is not the only one
  to report closed: every later query does too, at any time, until a failure is recorded;
  that single failure re-opens the breaker at once.
\<close>

theorem half_open_until_failure:
  assumes "fst (IsOpen now b) = False" and "openUntil b = Some u"
    and "cb_threshold b \<le> consecutiveFailures b"
  shows "fst (IsOpen later (fold breaker_step (map Asked ts) (snd (IsOpen now b)))) = False \<and>
    fst (RecordFailure later (fold breaker_step (map Asked ts) (snd (IsOpen now b))))"
proof -
  have b: "snd (IsOpen now b) = b\<lparr>openUntil := None\<rparr>"
    using assms by (simp add: IsOpen_def split: if_splits)
  have "fold breaker_step (map Asked ts) (b\<lparr>openUntil := None\<rparr>) = b\<lparr>openUntil := None\<rparr>"
    by (induction ts) (simp_all add: IsOpen_def)
  then have "fold breaker_step (map Asked ts) (snd (IsOpen now b)) = b\<lparr>openUntil := None\<rparr>"
    by (simp only: b)
  then show ?thesis
    using assms(3) by (simp only:) (simp add: IsOpen_def RecordFailure_def Let_def)
qed

section \<open>Two runs\<close>

lemma IsOpen_refines_history_witness:
  "fst (IsOpen 110 (breaker_run 2 100 [Failed 0, Failed 10])) \<and>
   \<not> fst (IsOpen 111 (breaker_run 2 100 [Failed 0, Failed 10]))"
  using IsOpen_refines_history [of 110 "[Failed 0, Failed 10]" 2 100]
    IsOpen_refines_history [of 111 "[Failed 0, Failed 10]" 2 100]
  by (simp add: all_before_def)

lemma half_open_until_failure_witness:
  "fst (IsOpen 300 (fold breaker_step (map Asked [200, 250]) (snd (IsOpen 150 (breaker_run 2 100 [Failed 0, Failed 10]))))) = False"
proof -
  let ?b = "breaker_run 2 100 [Failed 0, Failed 10]"
  have b: "?b = \<lparr>cb_threshold = 2, cb_backoff = 100, consecutiveFailures = 2, openUntil = Some 110\<rparr>"
    by (simp add: breaker_run_def NewCircuitBreaker_def RecordFailure_def Let_def)
  show ?thesis
    using half_open_until_failure [of 150 ?b 110 300 "[200, 250]"] by (simp add: b IsOpen_def)
qed

end
