(* ===== verification/DualClient.thy ===== *)
theory DualClient
  imports Breaker Wapi
begin

text \<open>
  internal/clients/dualclient: dualclient.go, routing reads between a primary
  and a candidate endpoint, and connect.go, building the clients from
  credentials. An ObjectManager is a value of an abstract type; the Kubernetes
  client's read of a Secret and the ObjectManager factory are parameters.
\<close>

section \<open>The routing client\<close>

record 'm Client =
  dc_primary :: 'm
  dc_candidate :: "'m option"
  dc_breaker :: "CircuitBreaker option"

definition NewClient :: "'m \<Rightarrow> 'm Client" where
  "NewClient primary = \<lparr>dc_primary = primary, dc_candidate = None, dc_breaker = None\<rparr>"

definition WithCandidate :: "'m \<Rightarrow> 'm option \<Rightarrow> CircuitBreaker option \<Rightarrow> 'm Client" where
  "WithCandidate primary candidate breaker =
     \<lparr>dc_primary = primary, dc_candidate = candidate, dc_breaker = breaker\<rparr>"

definition HasCandidate :: "'m Client \<Rightarrow> bool" where
  "HasCandidate c \<longleftrightarrow> dc_candidate c \<noteq> None"

definition Client_Breaker :: "'m Client \<Rightarrow> CircuitBreaker option" where
  "Client_Breaker c = dc_breaker c"

definition Writer :: "'m Client \<Rightarrow> 'm" where
  "Writer c = dc_primary c"

text \<open>Reader asks the breaker, which may half-open it: the client is returned updated.\<close>

definition Reader :: "int \<Rightarrow> bool \<Rightarrow> 'm Client \<Rightarrow> 'm \<times> 'm Client" where
  "Reader now useCandidate c =
     (if \<not> useCandidate then (dc_primary c, c)
      else (case dc_candidate c of
        None \<Rightarrow> (dc_primary c, c)
      | Some candidate \<Rightarrow>
          (case dc_breaker c of
             None \<Rightarrow> (candidate, c)
           | Some b \<Rightarrow>
               (case IsOpen now b of
                  (True, b1) \<Rightarrow> (dc_primary c, c\<lparr>dc_breaker := Some b1\<rparr>)
                | (False, b1) \<Rightarrow> (candidate, c\<lparr>dc_breaker := Some b1\<rparr>)))))"

section \<open>Credentials\<close>

record Credentials =
  cr_Host :: string
  cr_Username :: string
  cr_Password :: string

record SecretKeySelector =
  sks_Name :: string
  sks_Namespace :: string
  sks_Key :: string

definition errEmptyHost :: string where
  "errEmptyHost = ''host must not be empty: this indicates a caller bug or a ProviderConfig that predates the host field, not a malformed credentials Secret''"
definition errUnsupportedCreds :: string where
  "errUnsupportedCreds = ''unsupported credentials source: only Secret is supported''"
definition errNoSecretRef :: string where
  "errNoSecretRef = ''credentials secretRef is required for the Infoblox NIOS WAPI client''"
definition errGetSecret :: string where "errGetSecret = ''cannot get credentials secret''"
definition errMissingCredKey :: string where
  "errMissingCredKey = ''credentials secret is missing one of the required username/password keys''"
definition errNewPrimaryObjectManager :: string where
  "errNewPrimaryObjectManager = ''cannot create primary Infoblox NIOS WAPI object manager''"
definition errNewCandidateObjectManager :: string where
  "errNewCandidateObjectManager = ''cannot create candidate (readEndpoint) Infoblox NIOS WAPI object manager: misconfigured readEndpoint must fail loudly, not silently degrade to primary-only''"

definition CredentialsSourceSecret :: string where "CredentialsSourceSecret = ''Secret''"

text \<open>kube.Get of a Secret, by namespace and name; its Data.\<close>

type_synonym get_secret = "string \<Rightarrow> string \<Rightarrow> goerr + (string, string) fmap"

definition secret_value :: "(string, string) fmap \<Rightarrow> string \<Rightarrow> string" where
  "secret_value d k = (case fmlookup d k of None \<Rightarrow> [] | Some v \<Rightarrow> v)"

definition ExtractCredentials ::
  "get_secret \<Rightarrow> string \<Rightarrow> string \<Rightarrow> SecretKeySelector option \<Rightarrow> string \<Rightarrow> goerr + Credentials" where
  "ExtractCredentials kube_get host source secretRef fallbackNamespace =
     (if host = [] then Inl (TextError errEmptyHost)
      else if source \<noteq> CredentialsSourceSecret then Inl (TextError errUnsupportedCreds)
      else (case secretRef of
        None \<Rightarrow> Inl (TextError errNoSecretRef)
      | Some sref \<Rightarrow>
          (let ns = (if sks_Namespace sref = [] then fallbackNamespace else sks_Namespace sref) in
           case kube_get ns (sks_Name sref) of
             Inl err \<Rightarrow> Inl (Wrapped errGetSecret err)
           | Inr d \<Rightarrow>
               (let username = secret_value d ''username''; password = secret_value d ''password'' in
                if username = [] \<or> password = [] then Inl (TextError errMissingCredKey)
                else Inr \<lparr>cr_Host = host, cr_Username = username, cr_Password = password\<rparr>))))"

type_synonym 'm ObjectManagerFactory = "Credentials \<Rightarrow> bool \<Rightarrow> goerr + 'm"

definition Connect ::
  "Credentials \<Rightarrow> Credentials option \<Rightarrow> bool \<Rightarrow> 'm ObjectManagerFactory \<Rightarrow> CircuitBreaker option \<Rightarrow>
     goerr + 'm Client" where
  "Connect primaryCreds readCreds sslVerify newObjMgr breaker =
     (case newObjMgr primaryCreds sslVerify of
        Inl err \<Rightarrow> Inl (Wrapped errNewPrimaryObjectManager err)
      | Inr primary \<Rightarrow>
          (case readCreds of
             None \<Rightarrow> Inr (NewClient primary)
           | Some rc \<Rightarrow>
               (case newObjMgr rc sslVerify of
                  Inl err \<Rightarrow> Inl (Wrapped errNewCandidateObjectManager err)
                | Inr candidate \<Rightarrow> Inr (WithCandidate primary (Some candidate) breaker))))"

section \<open>Properties\<close>

text \<open>
  Reader returns the candidate only when the caller asked for it, one is configured
  and the breaker, if any, is not open; otherwise it returns the primary. Writer
  is the primary in every state Reader can leave behind, and Reader changes neither endpoint.
\<close>

theorem Reader_routing:
  "(case Reader now useCandidate c of (m, c') \<Rightarrow>
     m = (if useCandidate \<and> HasCandidate c \<and>
             (\<forall>b. Client_Breaker c = Some b \<longrightarrow> \<not> fst (IsOpen now b))
          then the (dc_candidate c) else Writer c) \<and>
     Writer c' = Writer c \<and> dc_candidate c' = dc_candidate c \<and>
     Client_Breaker c' = (if useCandidate \<and> HasCandidate c
        then map_option (\<lambda>b. snd (IsOpen now b)) (Client_Breaker c) else Client_Breaker c))"
  by (simp add: Reader_def HasCandidate_def Client_Breaker_def Writer_def split_beta
      split: option.split bool.split)

text \<open>
  A configured read endpoint fails loudly. Connect succeeds only with both object
  managers built, the candidate exactly when read credentials were given; a failure
  to build either is its error, and never a primary-only client.
\<close>

theorem Connect_fails_loudly:
  "case Connect pc rc ssl factory br of
     Inl e \<Rightarrow> (\<exists>e'. factory pc ssl = Inl e' \<and> e = Wrapped errNewPrimaryObjectManager e') \<or>
       (\<exists>r e'. rc = Some r \<and> factory r ssl = Inl e' \<and> e = Wrapped errNewCandidateObjectManager e')
   | Inr c \<Rightarrow> factory pc ssl = Inr (Writer c) \<and>
       (case rc of
          None \<Rightarrow> \<not> HasCandidate c
        | Some r \<Rightarrow> (case factory r ssl of
            Inl e \<Rightarrow> False
          | Inr cand \<Rightarrow> dc_candidate c = Some cand \<and> Client_Breaker c = br))"
  by (simp add: Connect_def NewClient_def WithCandidate_def Writer_def
      HasCandidate_def Client_Breaker_def split: sum.split option.split)

lemma ExtractCredentials_Inr:
  assumes "ExtractCredentials kube host src sel ns = Inr creds"
  shows "host \<noteq> [] \<and> src = CredentialsSourceSecret \<and>
    (\<exists>s d. sel = Some s \<and> kube (if sks_Namespace s = [] then ns else sks_Namespace s) (sks_Name s) = Inr d \<and>
       secret_value d ''username'' \<noteq> [] \<and> secret_value d ''password'' \<noteq> [] \<and>
       creds = \<lparr>cr_Host = host, cr_Username = secret_value d ''username'',
                cr_Password = secret_value d ''password''\<rparr>)"
  using assms
  by (cases sel) (auto simp: ExtractCredentials_def Let_def split: if_splits sum.splits)

text \<open>
  Extracted credentials are complete: the caller's host, a Secret source with a
  reference, and a user name and password that are the Secret's and not empty; the Secret is
  read in the reference's namespace, or in the fallback one when it names none.
\<close>

theorem ExtractCredentials_complete:
  assumes "ExtractCredentials kube host src sel ns = Inr creds"
  shows "cr_Host creds = host \<and> host \<noteq> [] \<and> cr_Username creds \<noteq> [] \<and> cr_Password creds \<noteq> [] \<and>
    (\<exists>s d. sel = Some s \<and> kube (if sks_Namespace s = [] then ns else sks_Namespace s) (sks_Name s) = Inr d \<and>
       fmlookup d ''username'' = Some (cr_Username creds) \<and> fmlookup d ''password'' = Some (cr_Password creds))"
proof -
  have v: "secret_value d k \<noteq> [] \<Longrightarrow> fmlookup d k = Some (secret_value d k)" for d k
    by (simp add: secret_value_def split: option.splits)
  from ExtractCredentials_Inr [OF assms] v show ?thesis by auto
qed

section \<open>Two clients\<close>

lemma Reader_routing_witness:
  "fst (Reader 0 True (WithCandidate (1::nat) (Some 2) (Some (NewCircuitBreaker 1 1)))) = 2 \<and>
   fst (Reader 0 True (WithCandidate (1::nat) (Some 2)
     (Some (snd (RecordFailure 0 (NewCircuitBreaker 1 1)))))) = 1"
  using Reader_routing [where now = 0 and useCandidate = True
      and c = "WithCandidate (1::nat) (Some 2) (Some (NewCircuitBreaker 1 1))"]
    Reader_routing [where now = 0 and useCandidate = True
      and c = "WithCandidate (1::nat) (Some 2) (Some (snd (RecordFailure 0 (NewCircuitBreaker 1 1))))"]
  by (simp add: split_beta WithCandidate_def HasCandidate_def Client_Breaker_def Writer_def IsOpen_def
      NewCircuitBreaker_def RecordFailure_def Let_def)

lemma ExtractCredentials_complete_witness:
  "\<exists>creds. ExtractCredentials
       (\<lambda>ns n. if ns = ''infra'' then Inr (fmupd ''username'' ''u'' (fmupd ''password'' ''p'' fmempty)) else Inl (NotFoundError n))
       ''grid'' ''Secret'' (Some \<lparr>sks_Name = ''creds'', sks_Namespace = [], sks_Key = []\<rparr>) ''infra'' = Inr creds \<and>
     cr_Host creds = ''grid'' \<and> cr_Username creds \<noteq> []"
proof -
  let ?kube = "\<lambda>ns n :: string. if ns = ''infra'' then Inr (fmupd ''username'' ''u'' (fmupd ''password'' ''p'' fmempty)) else Inl (NotFoundError n)"
  have "ExtractCredentials ?kube ''grid'' ''Secret'' (Some \<lparr>sks_Name = ''creds'', sks_Namespace = [], sks_Key = []\<rparr>) ''infra'' =
      Inr \<lparr>cr_Host = ''grid'', cr_Username = ''u'', cr_Password = ''p''\<rparr>"
    by (simp add: ExtractCredentials_def CredentialsSourceSecret_def secret_value_def Let_def)
  from ExtractCredentials_complete [OF this] this show ?thesis by blast
qed

end
