(* ===== verification/Config.thy ===== *)
theory Config
  imports DualClient Managed
begin

text \<open>
  internal/controller/config (resolving a ProviderConfig to an authenticated
  connection), the Connect methods of the two ARecord connectors, which are the
  pattern every controller follows, statemetrics' recorder loop and staleref's
  refusal errors. Reading Kubernetes objects, usage tracking and the SDK's
  connector are parameters.
\<close>

section \<open>config.go\<close>

definition wapiVersion :: string where "wapiVersion = ''2.9.7''"
definition errNewConnector :: string where
  "errNewConnector = ''cannot create Infoblox NIOS WAPI connector''"

record ProviderConfigSpec =
  pc_Host :: string
  pc_Source :: string
  pc_SecretRef :: "SecretKeySelector option"
  pc_SSLVerify :: "bool option"

record ProviderConfig = ProviderConfigSpec +
  pc_Namespace :: string

record HostConfig =
  hc_Scheme :: string
  hc_Host :: string
  hc_Version :: string
  hc_Port :: string

text \<open>NewTransportConfig's arguments: the text of sslVerify, timeout, pool size.\<close>

type_synonym 'c new_connector = "HostConfig \<Rightarrow> string \<times> string \<Rightarrow> string \<times> nat \<times> nat \<Rightarrow> goerr + 'c"

record 'c Conn =
  cn_Connector :: 'c
  cn_Endpoint :: string

definition BuildConnector ::
  "'c new_connector \<Rightarrow> Credentials \<Rightarrow> bool \<Rightarrow> string \<Rightarrow> string \<Rightarrow> goerr + 'c" where
  "BuildConnector newConnector creds sslVerify scheme port =
     (let hostConfig = \<lparr>hc_Scheme = scheme, hc_Host = cr_Host creds, hc_Version = wapiVersion, hc_Port = port\<rparr>;
          authConfig = (cr_Username creds, cr_Password creds);
          sslVerifyStr = (if \<not> sslVerify then ''false'' else ''true'')
      in case newConnector hostConfig authConfig (sslVerifyStr, 60, 10) of
           Inl err \<Rightarrow> Inl (Wrapped errNewConnector err)
         | Inr conn \<Rightarrow> Inr conn)"

definition resolve ::
  "get_secret \<Rightarrow> 'c new_connector \<Rightarrow> string \<Rightarrow> string \<Rightarrow> SecretKeySelector option \<Rightarrow> string \<Rightarrow> bool option \<Rightarrow>
     goerr + 'c Conn" where
  "resolve kube_get newConnector host source secretRef fallbackNamespace sslVerifyField =
     (case ExtractCredentials kube_get host source secretRef fallbackNamespace of
        Inl err \<Rightarrow> Inl err
      | Inr creds \<Rightarrow>
          (let sslVerify = (case sslVerifyField of None \<Rightarrow> True | Some b \<Rightarrow> b) in
           case BuildConnector newConnector creds sslVerify ''https'' ''443'' of
             Inl err \<Rightarrow> Inl err
           | Inr conn \<Rightarrow> Inr \<lparr>cn_Connector = conn, cn_Endpoint = cr_Host creds\<rparr>))"

definition GetLegacy :: "get_secret \<Rightarrow> 'c new_connector \<Rightarrow> ProviderConfig \<Rightarrow> goerr + 'c Conn" where
  "GetLegacy kube_get nc pc =
     resolve kube_get nc (pc_Host pc) (pc_Source pc) (pc_SecretRef pc) [] (pc_SSLVerify pc)"

definition GetNamespaced :: "get_secret \<Rightarrow> 'c new_connector \<Rightarrow> ProviderConfig \<Rightarrow> goerr + 'c Conn" where
  "GetNamespaced kube_get nc pc =
     resolve kube_get nc (pc_Host pc) (pc_Source pc) (pc_SecretRef pc) (pc_Namespace pc) (pc_SSLVerify pc)"

definition GetCluster :: "get_secret \<Rightarrow> 'c new_connector \<Rightarrow> ProviderConfig \<Rightarrow> goerr + 'c Conn" where
  "GetCluster kube_get nc cpc =
     resolve kube_get nc (pc_Host cpc) (pc_Source cpc) (pc_SecretRef cpc) [] (pc_SSLVerify cpc)"

section \<open>Connect\<close>

definition errTrackPCUsage :: string where "errTrackPCUsage = ''cannot track ProviderConfig usage''"
definition errGetPC :: string where "errGetPC = ''cannot get ProviderConfig''"
definition errGetClusterPC :: string where "errGetClusterPC = ''cannot get ClusterProviderConfig''"
definition errUnsupportedKind :: string where "errUnsupportedKind = ''unsupported provider config kind''"

text \<open>
  The API server as Connect reads it. The three kinds of configuration are
  three object types: the legacy one by name, the namespaced one by namespace
  and name, ClusterProviderConfig by name.
\<close>

record 'c kube =
  kube_track_usage :: "goerr option"
  kube_secret :: get_secret
  kube_legacy_pc :: "string \<Rightarrow> goerr + ProviderConfig"
  kube_pc :: "string \<Rightarrow> string \<Rightarrow> goerr + ProviderConfig"
  kube_cpc :: "string \<Rightarrow> goerr + ProviderConfig"
  new_connector :: "'c new_connector"

text \<open>The reference on the resource: its kind (namespaced scope only) and its name.\<close>

definition namespaced_Connect ::
  "'c kube \<Rightarrow> 'a mobj_scheme \<Rightarrow> (string \<times> string) option \<Rightarrow> goerr + 'c Conn" where
  "namespaced_Connect k cr reference =
     (case kube_track_usage k of
        Some err \<Rightarrow> Inl (Wrapped errTrackPCUsage err)
      | None \<Rightarrow>
          (case reference of
             None \<Rightarrow> Inl (TextError (errGetPC @ '': no ProviderConfigReference set''))
           | Some (kind, name) \<Rightarrow>
               if kind = ''ProviderConfig'' then
                 (case kube_pc k (mo_namespace cr) name of
                    Inl err \<Rightarrow> Inl (Wrapped errGetPC err)
                  | Inr pc \<Rightarrow> GetNamespaced (kube_secret k) (new_connector k) pc)
               else if kind = ''ClusterProviderConfig'' then
                 (case kube_cpc k name of
                    Inl err \<Rightarrow> Inl (Wrapped errGetClusterPC err)
                  | Inr cpc \<Rightarrow> GetCluster (kube_secret k) (new_connector k) cpc)
               else Inl (TextError (errUnsupportedKind @ '': '' @ kind))))"

definition cluster_Connect :: "'c kube \<Rightarrow> string option \<Rightarrow> goerr + 'c Conn" where
  "cluster_Connect k reference =
     (case kube_track_usage k of
        Some err \<Rightarrow> Inl (Wrapped errTrackPCUsage err)
      | None \<Rightarrow>
          (case reference of
             None \<Rightarrow> Inl (TextError (errGetPC @ '': no ProviderConfigReference set''))
           | Some name \<Rightarrow>
               (case kube_legacy_pc k name of
                  Inl err \<Rightarrow> Inl (Wrapped errGetPC err)
                | Inr pc \<Rightarrow> GetLegacy (kube_secret k) (new_connector k) pc)))"

section \<open>staleref.go\<close>

definition refusalMessage :: string where
  "refusalMessage = ''refusing to delete: stored _ref is stale (404) and an object matching this resource's identity still exists on the Grid. ''
     @ ''Deleting it cannot be proven safe because ownership is unverifiable. ''
     @ ''Reconcile the external-name annotation, or remove the object on the Grid manually, then retry. ''
     @ ''To abandon the object without deleting it, remove the finalizer.''"

definition RefusalError :: goerr where
  "RefusalError = TextError refusalMessage"

definition observeRefusalMessage :: string where
  "observeRefusalMessage = ''cannot observe: stored external-name (_ref) is stale (404) and an object matching this resource's identity still exists on the Grid. ''
     @ ''Binding this managed resource to it automatically is not safe because ownership is unverifiable. ''
     @ ''Reconcile the external-name annotation to the live _ref, or remove the object on the Grid manually, then retry. ''
     @ ''To abandon the object without deleting it, remove the finalizer.''"

definition ObserveRefusalError :: goerr where
  "ObserveRefusalError = TextError observeRefusalMessage"

section \<open>statemetrics/recorder.go\<close>

text \<open>
  Start's select receives ticks, each with the outcome of the recording it
  starts, until the context is done. The loop returns or is still running when
  the events given so far are consumed (None); it counts the retries it logged.
\<close>

datatype recorder_event = TickRecorded "goerr option" | ContextDone

fun Start :: "(goerr \<Rightarrow> bool) \<Rightarrow> recorder_event list \<Rightarrow> nat \<Rightarrow> goerr option option \<times> nat" where
  "Start isNoMatch [] logged = (None, logged)"
| "Start isNoMatch (TickRecorded None # es) logged = Start isNoMatch es logged"
| "Start isNoMatch (TickRecorded (Some err) # es) logged =
     (if isNoMatch err then Start isNoMatch es (Suc logged) else (Some (Some err), logged))"
| "Start isNoMatch (ContextDone # es) logged = (Some None, logged)"

section \<open>Properties\<close>

lemma resolve_Inr:
  assumes "resolve kube_get nc host src sel ns ssl = Inr conn"
  shows "\<exists>creds. ExtractCredentials kube_get host src sel ns = Inr creds \<and> cn_Endpoint conn = host \<and>
    nc \<lparr>hc_Scheme = ''https'', hc_Host = host, hc_Version = ''2.9.7'', hc_Port = ''443''\<rparr>
      (cr_Username creds, cr_Password creds) (if ssl = Some False then ''false'' else ''true'', 60, 10)
      = Inr (cn_Connector conn)"
proof -
  obtain creds where c: "ExtractCredentials kube_get host src sel ns = Inr creds"
    using assms by (cases "ExtractCredentials kube_get host src sel ns") (simp_all add: resolve_def)
  with ExtractCredentials_Inr [OF c] assms show ?thesis
    by (cases ssl) (auto simp: resolve_def BuildConnector_def wapiVersion_def Let_def split: sum.splits if_splits)
qed

text \<open>
  A connection is made over https to the configured host with credentials from the
  configured Secret, with certificate verification unless it is explicitly switched off;
  a namespaced configuration's Secret reference without a namespace is read in the
  configuration's own namespace, a cluster-scoped one's in none.
\<close>

theorem namespaced_Connect_config:
  assumes "namespaced_Connect k cr reference = Inr conn"
  shows "\<exists>kind name pc creds. reference = Some (kind, name) \<and>
    (kind = ''ProviderConfig'' \<and> kube_pc k (mo_namespace cr) name = Inr pc \<and>
       ExtractCredentials (kube_secret k) (pc_Host pc) (pc_Source pc) (pc_SecretRef pc) (pc_Namespace pc) = Inr creds \<or>
     kind = ''ClusterProviderConfig'' \<and> kube_cpc k name = Inr pc \<and>
       ExtractCredentials (kube_secret k) (pc_Host pc) (pc_Source pc) (pc_SecretRef pc) [] = Inr creds) \<and>
    cn_Endpoint conn = pc_Host pc \<and>
    new_connector k \<lparr>hc_Scheme = ''https'', hc_Host = pc_Host pc, hc_Version = ''2.9.7'', hc_Port = ''443''\<rparr>
      (cr_Username creds, cr_Password creds)
      (if pc_SSLVerify pc = Some False then ''false'' else ''true'', 60, 10) = Inr (cn_Connector conn)"
proof -
  obtain kind name where r: "reference = Some (kind, name)" and u: "kube_track_usage k = None"
    using assms by (auto simp: namespaced_Connect_def split: option.splits)
  consider (pc) pc where "kind = ''ProviderConfig''" "kube_pc k (mo_namespace cr) name = Inr pc"
      "GetNamespaced (kube_secret k) (new_connector k) pc = Inr conn"
    | (cpc) pc where "kind = ''ClusterProviderConfig''" "kube_cpc k name = Inr pc"
      "GetCluster (kube_secret k) (new_connector k) pc = Inr conn"
    using assms r u by (auto simp: namespaced_Connect_def split: if_splits sum.splits)
  then show ?thesis
    by cases (use r resolve_Inr in \<open>fastforce simp: GetNamespaced_def GetCluster_def\<close>)+
qed

text \<open>
  C40: The recorder loop stops only on a cancelled context or on an error that is not "no
  matches for kind"; however many of those arrive, they are retried and none is returned.
\<close>

theorem Start_result:
  "case Start isNoMatch es n of
     (Some (Some err), _) \<Rightarrow> \<not> isNoMatch err \<and> TickRecorded (Some err) \<in> set es
   | (Some None, _) \<Rightarrow> ContextDone \<in> set es
   | (None, m) \<Rightarrow> ContextDone \<notin> set es \<and> (\<forall>err. TickRecorded (Some err) \<in> set es \<longrightarrow> isNoMatch err) \<and>
       m = n + length (filter (\<lambda>e. e \<noteq> TickRecorded None) es)"
proof (induction isNoMatch es n rule: Start.induct)
  case (2 isNoMatch es logged)
  then show ?case by (simp split: prod.splits option.splits)
next
  case (3 isNoMatch err es logged)
  then show ?case by (cases "isNoMatch err") (auto split: prod.splits option.splits)
qed simp_all

section \<open>A configuration to apply the theorems to\<close>

definition demo_pc :: ProviderConfig where
  "demo_pc = \<lparr>pc_Host = ''grid'', pc_Source = ''Secret'',
     pc_SecretRef = Some \<lparr>sks_Name = ''creds'', sks_Namespace = [], sks_Key = []\<rparr>, pc_SSLVerify = None, pc_Namespace = ''team''\<rparr>"

definition demo_kube :: "(HostConfig \<times> string) kube" where
  "demo_kube =
     \<lparr>kube_track_usage = None,
      kube_secret = (\<lambda>ns n. if ns = ''team'' then Inr (fmupd ''username'' ''u'' (fmupd ''password'' ''p'' fmempty))
                            else Inl (NotFoundError n)),
      kube_legacy_pc = (\<lambda>n. Inr demo_pc), kube_pc = (\<lambda>ns n. Inr demo_pc), kube_cpc = (\<lambda>n. Inr demo_pc),
      new_connector = (\<lambda>host auth (ssl, _). Inr (host, ssl))\<rparr>"

definition demo_mr :: mobj where
  "demo_mr = \<lparr>mo_name = ''r'', mo_namespace = ''team'', mo_uid = ''u-1'', mo_annotations = fmempty, mo_conditions = fmempty\<rparr>"

lemma namespaced_Connect_config_witness:
  "\<exists>conn. namespaced_Connect demo_kube demo_mr (Some (''ProviderConfig'', ''default'')) = Inr conn \<and>
     cn_Endpoint conn = ''grid'' \<and>
     cn_Connector conn = (\<lparr>hc_Scheme = ''https'', hc_Host = ''grid'', hc_Version = ''2.9.7'', hc_Port = ''443''\<rparr>, ''true'')"
proof -
  have "\<exists>conn. namespaced_Connect demo_kube demo_mr (Some (''ProviderConfig'', ''default'')) = Inr conn"
    by (simp add: namespaced_Connect_def demo_kube_def demo_mr_def demo_pc_def GetNamespaced_def resolve_def
        ExtractCredentials_def CredentialsSourceSecret_def secret_value_def BuildConnector_def Let_def)
  then obtain conn where c: "namespaced_Connect demo_kube demo_mr (Some (''ProviderConfig'', ''default'')) = Inr conn"
    by blast
  from namespaced_Connect_config [OF c] c show ?thesis
    by (auto simp: demo_kube_def demo_pc_def intro!: exI [of _ conn])
qed

lemma Start_result_witness:
  "Start is_NotFoundError [TickRecorded (Some (NotFoundError ''no matches''))] 0 = (None, 1)"
  using Start_result [where isNoMatch = is_NotFoundError and es = "[TickRecorded (Some (NotFoundError ''no matches''))]" and n = 0]
  by simp

end
