(* ===== verification/ExtensibleAttributeDef.thy ===== *)
theory ExtensibleAttributeDef
  imports Slices Config
begin

text \<open>
  internal/controller/extensibleattributedef: the controller for extensible attribute
  definitions. A definition carries no stamp: the controller resolves it by its reference and
  its unique name, and refuses to touch the definition the identity ladder depends on. The
  connector's four calls on the object type are a parameter; the CRD's list value is a record
  with one field.
\<close>

section \<open>Data\<close>

datatype eadef_req =
    CreateEADefinition EADefinition
  | UpdateEADefinition string EADefinition \<comment> \<open>reference, object\<close>

type_synonym eadef_env = "(EADefinition, eadef_req) wapi"
type_synonym eadef_world = "eadef_req world"

record EADefListValue =
  elv_Value :: string

record ExtensibleAttributeDefParameters =
  edp_Name :: string
  edp_Type :: string
  edp_Comment :: "string option"
  edp_DefaultValue :: "string option"
  edp_Min :: "32 word option"
  edp_Max :: "32 word option"
  edp_Flags :: "string option"
  edp_ListValues :: "EADefListValue list"
  edp_AllowedObjectTypes :: "string list"
  edp_DescendantsAction :: "string option"

record ExtensibleAttributeDefObservation =
  eds_ID :: string
  eds_Name :: "string option"
  eds_Type :: "string option"
  eds_Comment :: "string option"
  eds_DefaultValue :: "string option"
  eds_Min :: "32 word option"
  eds_Max :: "32 word option"
  eds_Flags :: "string option"
  eds_ListValues :: "EADefListValue list"
  eds_AllowedObjectTypes :: "string list"
  eds_Ref :: "string option"
  eds_Namespace :: "string option"

record ExtensibleAttributeDefCR = mobj +
  ed_ForProvider :: ExtensibleAttributeDefParameters
  ed_AtProvider :: ExtensibleAttributeDefObservation

definition eaDefObjectType :: string where
  "eaDefObjectType = ''extensibleattributedef''"

section \<open>Error messages\<close>

definition errObserveEADefinition :: string where "errObserveEADefinition = ''cannot observe ExtensibleAttributeDef''"
definition errCreateEADefinition :: string where "errCreateEADefinition = ''cannot create ExtensibleAttributeDef''"
definition errUpdateEADefinition :: string where "errUpdateEADefinition = ''cannot update ExtensibleAttributeDef''"
definition errDeleteEADefinition :: string where "errDeleteEADefinition = ''cannot delete ExtensibleAttributeDef''"

definition errReservedName :: string where
  "errReservedName =
     ''refusing to manage the reserved identity extensible attribute definition ('' @ go_quote EAKey @ ''): ''
     @ ''every other resource in this provider depends on it for ownership verification, and this controller has no way to tell a ''
     @ ''legitimate administrative change from one that would silently break identity resolution Grid-wide. Choose a different name.''"

definition errResolveReservedGuard :: string where
  "errResolveReservedGuard =
     ''cannot verify whether the external-name annotation resolves to the reserved identity extensible attribute definition''"

section \<open>Reading definitions\<close>

definition getEADefinitionByRef :: "eadef_env \<Rightarrow> string \<Rightarrow> eadef_world \<Rightarrow> (goerr + EADefinition) \<times> eadef_world" where
  "getEADefinitionByRef env ref w = get_object env eaDefObjectType ref w"

definition eaDefinitionExistsByNaturalKey :: "eadef_env \<Rightarrow> string \<Rightarrow> eadef_world \<Rightarrow> (goerr + bool) \<times> eadef_world" where
  "eaDefinitionExistsByNaturalKey env name w =
     (if name = [] then (Inr False, w)
      else
        (case search_objects env eaDefObjectType (fmupd ''name'' name fmempty) w of
           (Inl err, w1) \<Rightarrow> if isNotFound (Some err) then (Inr False, w1) else (Inl err, w1)
         | (Inr res, w1) \<Rightarrow> (Inr (res \<noteq> []), w1)))"

section \<open>The guard of the reserved definition\<close>

definition isReservedIdentityDefinitionName :: "string \<Rightarrow> bool" where
  "isReservedIdentityDefinitionName name \<longleftrightarrow> name = EAKey"

definition refuseIfResolvedRefIsReserved ::
  "eadef_env \<Rightarrow> string \<Rightarrow> string \<Rightarrow> eadef_world \<Rightarrow> goerr option \<times> eadef_world" where
  "refuseIfResolvedRefIsReserved env ref crName w =
     (if ref = [] \<or> ref = crName then (None, w)
      else
        (case getEADefinitionByRef env ref w of
           (Inl err, w1) \<Rightarrow>
             if isNotFound (Some err) then (None, w1)
             else (Some (Wrapped errResolveReservedGuard err), w1)
         | (Inr def1, w1) \<Rightarrow>
             (case ead_Name def1 of
                None \<Rightarrow> (None, w1)
              | Some n \<Rightarrow> if isReservedIdentityDefinitionName n then (Some (TextError errReservedName), w1)
                          else (None, w1))))"

section \<open>Field translation, comparison and late initialisation\<close>

definition toSDKListValues :: "string list \<Rightarrow> string option list" where
  "toSDKListValues values = (if values = [] then [] else map Some values)"

definition fromSDKListValues :: "string option list \<Rightarrow> string list" where
  "fromSDKListValues values = (if values = [] then [] else map (\<lambda>v. case v of None \<Rightarrow> [] | Some s \<Rightarrow> s) values)"

definition descendantsActionToSDK :: "string option \<Rightarrow> string option" where
  "descendantsActionToSDK v = (if v = None \<or> v = Some [] then None else v)"

definition stringSlicesEqualUnordered :: "string list \<Rightarrow> string list \<Rightarrow> bool" where
  "stringSlicesEqualUnordered a b =
     (if length a \<noteq> length b then False
      else
        (let counts = fold (\<lambda>v c. c(v := c v + 1)) a (\<lambda>_. 0 :: int);
             counts1 = fold (\<lambda>v c. c(v := c v - 1)) b counts
         in list_all (\<lambda>v. counts1 v = 0) (a @ b)))"

lemma stringSlicesEqualUnordered_iff: "stringSlicesEqualUnordered a b \<longleftrightarrow> mset a = mset b"
  by (simp only: stringSlicesEqualUnordered_def flip: stringSliceEqualUnordered_def stringSliceEqualUnordered_iff)

definition ExtensibleAttributeDef_isUpToDate ::
  "string \<Rightarrow> string option \<Rightarrow> string option \<Rightarrow> string option \<Rightarrow> string list \<Rightarrow> string list \<Rightarrow> EADefinition \<Rightarrow> bool" where
  "ExtensibleAttributeDef_isUpToDate name comment defaultValue flags listValues allowedObjectTypes def1 =
     (if name \<noteq> strOrEmpty (ead_Name def1) then False
      else if strOrEmpty comment \<noteq> strOrEmpty (ead_Comment def1) then False
      else if strOrEmpty defaultValue \<noteq> strOrEmpty (ead_DefaultValue def1) then False
      else if strOrEmpty flags \<noteq> strOrEmpty (ead_Flags def1) then False
      else if \<not> stringSlicesEqualUnordered listValues (fromSDKListValues (ead_ListValues def1)) then False
      else stringSlicesEqualUnordered allowedObjectTypes (ead_AllowedObjectTypes def1))"

text \<open>The ForProvider fields lateInitialize takes pointers to; the list values as strings.\<close>

type_synonym eadef_late = "string option \<times> string option \<times> string option \<times> string list \<times> string list"

definition ExtensibleAttributeDef_lateInitialize :: "eadef_late \<Rightarrow> EADefinition \<Rightarrow> eadef_late \<times> bool" where
  "ExtensibleAttributeDef_lateInitialize p def1 =
     (case p of (comment, defaultValue, flags, listValues, allowedObjectTypes) \<Rightarrow>
       (let (comment1, c1) = (if comment = None \<and> ead_Comment def1 \<noteq> None \<and> ead_Comment def1 \<noteq> Some []
                              then (ead_Comment def1, True) else (comment, False));
            (defaultValue1, c2) = (if defaultValue = None \<and> ead_DefaultValue def1 \<noteq> None \<and> ead_DefaultValue def1 \<noteq> Some []
                                   then (ead_DefaultValue def1, True) else (defaultValue, c1));
            (flags1, c3) = (if flags = None \<and> ead_Flags def1 \<noteq> None \<and> ead_Flags def1 \<noteq> Some []
                            then (ead_Flags def1, True) else (flags, c2));
            fromDef = fromSDKListValues (ead_ListValues def1);
            (listValues1, c4) = (if listValues = [] \<and> fromDef \<noteq> [] then (fromDef, True) else (listValues, c3));
            (allowedObjectTypes1, c5) = (if allowedObjectTypes = [] \<and> ead_AllowedObjectTypes def1 \<noteq> []
                                         then (ead_AllowedObjectTypes def1, True) else (allowedObjectTypes, c4))
        in ((comment1, defaultValue1, flags1, listValues1, allowedObjectTypes1), c5)))"

record observedEADefinition =
  edo_ID :: string
  edo_Name :: "string option"
  edo_Type :: "string option"
  edo_Comment :: "string option"
  edo_DefaultValue :: "string option"
  edo_Min :: "32 word option"
  edo_Max :: "32 word option"
  edo_Flags :: "string option"
  edo_ListValues :: "string list"
  edo_AllowedObjectTypes :: "string list"
  edo_Ref :: "string option"
  edo_Namespace :: "string option"

definition observeFromEADefinition :: "string \<Rightarrow> EADefinition \<Rightarrow> observedEADefinition" where
  "observeFromEADefinition externalID def1 =
     \<lparr>edo_ID = externalID,
      edo_Name = ptrIfSet (ead_Name def1),
      edo_Type = ptrIfNonEmpty (ead_Type def1),
      edo_Comment = ptrIfSet (ead_Comment def1),
      edo_DefaultValue = ptrIfSet (ead_DefaultValue def1),
      edo_Min = ead_Min def1,
      edo_Max = ead_Max def1,
      edo_Flags = ptrIfSet (ead_Flags def1),
      edo_ListValues = fromSDKListValues (ead_ListValues def1),
      edo_AllowedObjectTypes = ead_AllowedObjectTypes def1,
      edo_Ref = ptrIfNonEmpty (ead_Ref def1),
      edo_Namespace = ptrIfNonEmpty (ead_Namespace def1)\<rparr>"

section \<open>Connector calls\<close>

definition createEADefinition ::
  "eadef_env \<Rightarrow> ExtensibleAttributeDefParameters \<Rightarrow> string option list \<Rightarrow> string option \<Rightarrow> eadef_world \<Rightarrow>
     (goerr + EADefinition) \<times> eadef_world" where
  "createEADefinition env p listValues descendantsAction w =
     (let obj = \<lparr>ead_Ref = [], ead_Name = Some (edp_Name p), ead_Type = edp_Type p, ead_Comment = edp_Comment p,
                 ead_DefaultValue = edp_DefaultValue p, ead_Min = edp_Min p, ead_Max = edp_Max p,
                 ead_Flags = edp_Flags p, ead_ListValues = listValues,
                 ead_AllowedObjectTypes = edp_AllowedObjectTypes p, ead_Namespace = [],
                 ead_DescendantsAction = descendantsAction\<rparr>
      in case mutate_object env (CreateEADefinition obj) w of
           (Inl err, w1) \<Rightarrow> (Inl err, w1)
         | (Inr x, w1) \<Rightarrow> (Inr (obj\<lparr>ead_Ref := ead_Ref x\<rparr>), w1))"

definition updateEADefinition ::
  "eadef_env \<Rightarrow> string \<Rightarrow> ExtensibleAttributeDefParameters \<Rightarrow> string option list \<Rightarrow> string option \<Rightarrow> eadef_world \<Rightarrow>
     (goerr + string) \<times> eadef_world" where
  "updateEADefinition env ref p listValues descendantsAction w =
     (let obj = \<lparr>ead_Ref = [], ead_Name = Some (edp_Name p), ead_Type = [], ead_Comment = edp_Comment p,
                 ead_DefaultValue = edp_DefaultValue p, ead_Min = None, ead_Max = None,
                 ead_Flags = edp_Flags p, ead_ListValues = listValues,
                 ead_AllowedObjectTypes = edp_AllowedObjectTypes p, ead_Namespace = [],
                 ead_DescendantsAction = descendantsAction\<rparr>
      in case mutate_object env (UpdateEADefinition ref obj) w of
           (Inl err, w1) \<Rightarrow> (Inl err, w1)
         | (Inr x, w1) \<Rightarrow> (Inr (ead_Ref x), w1))"

definition deleteEADefinition :: "eadef_env \<Rightarrow> string \<Rightarrow> eadef_world \<Rightarrow> goerr option \<times> eadef_world" where
  "deleteEADefinition env ref w =
     (case delete_object env ref w of
        (Inl err, w1) \<Rightarrow> (Some err, w1)
      | (Inr _, w1) \<Rightarrow> (None, w1))"

definition deleteEADefinitionResolving404 ::
  "eadef_env \<Rightarrow> string \<Rightarrow> string \<Rightarrow> eadef_world \<Rightarrow> goerr option \<times> eadef_world" where
  "deleteEADefinitionResolving404 env ref name w =
     (case deleteEADefinition env ref w of
        (None, w1) \<Rightarrow> (None, w1)
      | (Some delErr, w1) \<Rightarrow>
          if \<not> isNotFound (Some delErr) then (Some (Wrapped errDeleteEADefinition delErr), w1)
          else
            (case eaDefinitionExistsByNaturalKey env name w1 of
               (Inl searchErr, w2) \<Rightarrow> (Some (Wrapped errDeleteEADefinition searchErr), w2)
             | (Inr found, w2) \<Rightarrow> if found then (Some RefusalError, w2) else (None, w2)))"

section \<open>The external clients\<close>

subsection \<open>namespaced.go\<close>

definition namespacedListValuesToStrings :: "EADefListValue list \<Rightarrow> string list" where
  "namespacedListValuesToStrings vals = (if vals = [] then [] else map elv_Value vals)"

definition namespacedStringsToListValues :: "string list \<Rightarrow> EADefListValue list" where
  "namespacedStringsToListValues vals = (if vals = [] then [] else map (\<lambda>v. \<lparr>elv_Value = v\<rparr>) vals)"

definition namespaced_ExtensibleAttributeDef_Observe ::
  "eadef_env \<Rightarrow> ExtensibleAttributeDefCR \<Rightarrow> eadef_world \<Rightarrow>
     (goerr + ExternalObservation) \<times> ExtensibleAttributeDefCR \<times> eadef_world" where
  "namespaced_ExtensibleAttributeDef_Observe env cr w =
     (let externalID = GetExternalName cr in
      if externalID = mo_name cr then (Inr notExists, cr, w)
      else
        (case getEADefinitionByRef env externalID w of
           (Inl err, w1) \<Rightarrow>
             if isNotFound (Some err) then
               (case eaDefinitionExistsByNaturalKey env (edp_Name (ed_ForProvider cr)) w1 of
                  (Inl searchErr, w2) \<Rightarrow> (Inl (Wrapped errObserveEADefinition searchErr), cr, w2)
                | (Inr found, w2) \<Rightarrow>
                    if found then (Inl ObserveRefusalError, cr, w2) else (Inr notExists, cr, w2))
             else (Inl (Wrapped errObserveEADefinition err), cr, w1)
         | (Inr def1, w1) \<Rightarrow>
             (let o1 = observeFromEADefinition externalID def1; p0 = ed_ForProvider cr;
                  cr1 = cr\<lparr>ed_AtProvider :=
                    \<lparr>eds_ID = edo_ID o1, eds_Name = edo_Name o1, eds_Type = edo_Type o1, eds_Comment = edo_Comment o1,
                     eds_DefaultValue = edo_DefaultValue o1, eds_Min = edo_Min o1, eds_Max = edo_Max o1,
                     eds_Flags = edo_Flags o1, eds_ListValues = namespacedStringsToListValues (edo_ListValues o1),
                     eds_AllowedObjectTypes = edo_AllowedObjectTypes o1, eds_Ref = edo_Ref o1,
                     eds_Namespace = edo_Namespace o1\<rparr>\<rparr>;
                  ((comment, defaultValue, flags, listValues, allowedObjectTypes), lateInit) =
                    ExtensibleAttributeDef_lateInitialize
                      (edp_Comment p0, edp_DefaultValue p0, edp_Flags p0, namespacedListValuesToStrings (edp_ListValues p0),
                       edp_AllowedObjectTypes p0) def1;
                  p = p0\<lparr>edp_Comment := comment, edp_DefaultValue := defaultValue, edp_Flags := flags,
                         edp_ListValues := namespacedStringsToListValues listValues,
                         edp_AllowedObjectTypes := allowedObjectTypes\<rparr>;
                  cr2 = SetAvailable (cr1\<lparr>ed_ForProvider := p\<rparr>)
              in (Inr \<lparr>ResourceExists = True,
                       ResourceUpToDate = ExtensibleAttributeDef_isUpToDate (edp_Name p) (edp_Comment p)
                         (edp_DefaultValue p) (edp_Flags p) (namespacedListValuesToStrings (edp_ListValues p)) (edp_AllowedObjectTypes p) def1,
                       ResourceLateInitialized = lateInit\<rparr>, cr2, w1))))"

definition namespaced_ExtensibleAttributeDef_Create ::
  "eadef_env \<Rightarrow> ExtensibleAttributeDefCR \<Rightarrow> eadef_world \<Rightarrow> goerr option \<times> ExtensibleAttributeDefCR \<times> eadef_world" where
  "namespaced_ExtensibleAttributeDef_Create env cr w =
     (let p = ed_ForProvider cr in
      if isReservedIdentityDefinitionName (edp_Name p) then (Some (TextError errReservedName), cr, w)
      else
        (case refuseIfResolvedRefIsReserved env (GetExternalName cr) (mo_name cr) w of
           (Some err, w1) \<Rightarrow> (Some err, cr, w1)
         | (None, w1) \<Rightarrow>
             (case createEADefinition env p (toSDKListValues (namespacedListValuesToStrings (edp_ListValues p)))
                     (descendantsActionToSDK (edp_DescendantsAction p)) w1 of
                (Inl err, w2) \<Rightarrow> (Some (Wrapped errCreateEADefinition err), cr, w2)
              | (Inr def1, w2) \<Rightarrow> (None, SetExternalName (ead_Ref def1) cr, w2))))"

definition namespaced_ExtensibleAttributeDef_Update ::
  "eadef_env \<Rightarrow> ExtensibleAttributeDefCR \<Rightarrow> eadef_world \<Rightarrow> goerr option \<times> ExtensibleAttributeDefCR \<times> eadef_world" where
  "namespaced_ExtensibleAttributeDef_Update env cr w =
     (let p = ed_ForProvider cr in
      if isReservedIdentityDefinitionName (edp_Name p) then (Some (TextError errReservedName), cr, w)
      else
        (let externalID = GetExternalName cr in
         case refuseIfResolvedRefIsReserved env externalID (mo_name cr) w of
           (Some err, w1) \<Rightarrow> (Some err, cr, w1)
         | (None, w1) \<Rightarrow>
             (case updateEADefinition env externalID p (toSDKListValues (namespacedListValuesToStrings (edp_ListValues p)))
                     (descendantsActionToSDK (edp_DescendantsAction p)) w1 of
                (Inl err, w2) \<Rightarrow> (Some (Wrapped errUpdateEADefinition err), cr, w2)
              | (Inr newRef, w2) \<Rightarrow>
                  if newRef \<noteq> [] \<and> newRef \<noteq> externalID then
                    (case Refresh env cr newRef w2 of
                       (Some err, cr1, w3) \<Rightarrow> (Some (Wrapped errPersistExternalName err), cr1, w3)
                     | (None, cr1, w3) \<Rightarrow> (None, cr1, w3))
                  else (None, cr, w2))))"

definition namespaced_ExtensibleAttributeDef_Delete ::
  "eadef_env \<Rightarrow> ExtensibleAttributeDefCR \<Rightarrow> eadef_world \<Rightarrow> goerr option \<times> eadef_world" where
  "namespaced_ExtensibleAttributeDef_Delete env cr w =
     (if isReservedIdentityDefinitionName (edp_Name (ed_ForProvider cr)) then (Some (TextError errReservedName), w)
      else
        (let externalID = GetExternalName cr in
         case refuseIfResolvedRefIsReserved env externalID (mo_name cr) w of
           (Some err, w1) \<Rightarrow> (Some err, w1)
         | (None, w1) \<Rightarrow> deleteEADefinitionResolving404 env externalID (edp_Name (ed_ForProvider cr)) w1))"

subsection \<open>cluster.go\<close>

definition listValuesToStrings :: "EADefListValue list \<Rightarrow> string list" where
  "listValuesToStrings vals = (if vals = [] then [] else map elv_Value vals)"

definition stringsToListValues :: "string list \<Rightarrow> EADefListValue list" where
  "stringsToListValues vals = (if vals = [] then [] else map (\<lambda>v. \<lparr>elv_Value = v\<rparr>) vals)"

definition cluster_ExtensibleAttributeDef_Observe ::
  "eadef_env \<Rightarrow> ExtensibleAttributeDefCR \<Rightarrow> eadef_world \<Rightarrow>
     (goerr + ExternalObservation) \<times> ExtensibleAttributeDefCR \<times> eadef_world" where
  "cluster_ExtensibleAttributeDef_Observe env cr w =
     (let externalID = GetExternalName cr in
      if externalID = mo_name cr then (Inr notExists, cr, w)
      else
        (case getEADefinitionByRef env externalID w of
           (Inl err, w1) \<Rightarrow>
             if isNotFound (Some err) then
               (case eaDefinitionExistsByNaturalKey env (edp_Name (ed_ForProvider cr)) w1 of
                  (Inl searchErr, w2) \<Rightarrow> (Inl (Wrapped errObserveEADefinition searchErr), cr, w2)
                | (Inr found, w2) \<Rightarrow>
                    if found then (Inl ObserveRefusalError, cr, w2) else (Inr notExists, cr, w2))
             else (Inl (Wrapped errObserveEADefinition err), cr, w1)
         | (Inr def1, w1) \<Rightarrow>
             (let o1 = observeFromEADefinition externalID def1; p0 = ed_ForProvider cr;
                  cr1 = cr\<lparr>ed_AtProvider :=
                    \<lparr>eds_ID = edo_ID o1, eds_Name = edo_Name o1, eds_Type = edo_Type o1, eds_Comment = edo_Comment o1,
                     eds_DefaultValue = edo_DefaultValue o1, eds_Min = edo_Min o1, eds_Max = edo_Max o1,
                     eds_Flags = edo_Flags o1, eds_ListValues = stringsToListValues (edo_ListValues o1),
                     eds_AllowedObjectTypes = edo_AllowedObjectTypes o1, eds_Ref = edo_Ref o1,
                     eds_Namespace = edo_Namespace o1\<rparr>\<rparr>;
                  ((comment, defaultValue, flags, listValues, allowedObjectTypes), lateInit) =
                    ExtensibleAttributeDef_lateInitialize
                      (edp_Comment p0, edp_DefaultValue p0, edp_Flags p0, listValuesToStrings (edp_ListValues p0),
                       edp_AllowedObjectTypes p0) def1;
                  p = p0\<lparr>edp_Comment := comment, edp_DefaultValue := defaultValue, edp_Flags := flags,
                         edp_ListValues := stringsToListValues listValues,
                         edp_AllowedObjectTypes := allowedObjectTypes\<rparr>;
                  cr2 = SetAvailable (cr1\<lparr>ed_ForProvider := p\<rparr>)
              in (Inr \<lparr>ResourceExists = True,
                       ResourceUpToDate = ExtensibleAttributeDef_isUpToDate (edp_Name p) (edp_Comment p)
                         (edp_DefaultValue p) (edp_Flags p) (listValuesToStrings (edp_ListValues p)) (edp_AllowedObjectTypes p) def1,
                       ResourceLateInitialized = lateInit\<rparr>, cr2, w1))))"

definition cluster_ExtensibleAttributeDef_Create ::
  "eadef_env \<Rightarrow> ExtensibleAttributeDefCR \<Rightarrow> eadef_world \<Rightarrow> goerr option \<times> ExtensibleAttributeDefCR \<times> eadef_world" where
  "cluster_ExtensibleAttributeDef_Create env cr w =
     (let p = ed_ForProvider cr in
      if isReservedIdentityDefinitionName (edp_Name p) then (Some (TextError errReservedName), cr, w)
      else
        (case refuseIfResolvedRefIsReserved env (GetExternalName cr) (mo_name cr) w of
           (Some err, w1) \<Rightarrow> (Some err, cr, w1)
         | (None, w1) \<Rightarrow>
             (case createEADefinition env p (toSDKListValues (listValuesToStrings (edp_ListValues p)))
                     (descendantsActionToSDK (edp_DescendantsAction p)) w1 of
                (Inl err, w2) \<Rightarrow> (Some (Wrapped errCreateEADefinition err), cr, w2)
              | (Inr def1, w2) \<Rightarrow> (None, SetExternalName (ead_Ref def1) cr, w2))))"

definition cluster_ExtensibleAttributeDef_Update ::
  "eadef_env \<Rightarrow> ExtensibleAttributeDefCR \<Rightarrow> eadef_world \<Rightarrow> goerr option \<times> ExtensibleAttributeDefCR \<times> eadef_world" where
  "cluster_ExtensibleAttributeDef_Update env cr w =
     (let p = ed_ForProvider cr in
      if isReservedIdentityDefinitionName (edp_Name p) then (Some (TextError errReservedName), cr, w)
      else
        (let externalID = GetExternalName cr in
         case refuseIfResolvedRefIsReserved env externalID (mo_name cr) w of
           (Some err, w1) \<Rightarrow> (Some err, cr, w1)
         | (None, w1) \<Rightarrow>
             (case updateEADefinition env externalID p (toSDKListValues (listValuesToStrings (edp_ListValues p)))
                     (descendantsActionToSDK (edp_DescendantsAction p)) w1 of
                (Inl err, w2) \<Rightarrow> (Some (Wrapped errUpdateEADefinition err), cr, w2)
              | (Inr newRef, w2) \<Rightarrow>
                  if newRef \<noteq> [] \<and> newRef \<noteq> externalID then
                    (case Refresh env cr newRef w2 of
                       (Some err, cr1, w3) \<Rightarrow> (Some (Wrapped errPersistExternalName err), cr1, w3)
                     | (None, cr1, w3) \<Rightarrow> (None, cr1, w3))
                  else (None, cr, w2))))"

definition cluster_ExtensibleAttributeDef_Delete ::
  "eadef_env \<Rightarrow> ExtensibleAttributeDefCR \<Rightarrow> eadef_world \<Rightarrow> goerr option \<times> eadef_world" where
  "cluster_ExtensibleAttributeDef_Delete env cr w =
     (if isReservedIdentityDefinitionName (edp_Name (ed_ForProvider cr)) then (Some (TextError errReservedName), w)
      else
        (let externalID = GetExternalName cr in
         case refuseIfResolvedRefIsReserved env externalID (mo_name cr) w of
           (Some err, w1) \<Rightarrow> (Some err, w1)
         | (None, w1) \<Rightarrow> deleteEADefinitionResolving404 env externalID (edp_Name (ed_ForProvider cr)) w1))"

lemma ExtensibleAttributeDef_scopes:
  "cluster_ExtensibleAttributeDef_Observe = namespaced_ExtensibleAttributeDef_Observe"
  "cluster_ExtensibleAttributeDef_Create = namespaced_ExtensibleAttributeDef_Create"
  "cluster_ExtensibleAttributeDef_Update = namespaced_ExtensibleAttributeDef_Update"
  "cluster_ExtensibleAttributeDef_Delete = namespaced_ExtensibleAttributeDef_Delete"
proof -
  have conv: "listValuesToStrings = namespacedListValuesToStrings" "stringsToListValues = namespacedStringsToListValues"
    by (intro ext; simp only: listValuesToStrings_def namespacedListValuesToStrings_def stringsToListValues_def
        namespacedStringsToListValues_def)+
  show "cluster_ExtensibleAttributeDef_Observe = namespaced_ExtensibleAttributeDef_Observe"
    "cluster_ExtensibleAttributeDef_Create = namespaced_ExtensibleAttributeDef_Create"
    "cluster_ExtensibleAttributeDef_Update = namespaced_ExtensibleAttributeDef_Update"
    "cluster_ExtensibleAttributeDef_Delete = namespaced_ExtensibleAttributeDef_Delete"
    by (intro ext; simp only: conv cluster_ExtensibleAttributeDef_Observe_def namespaced_ExtensibleAttributeDef_Observe_def
        cluster_ExtensibleAttributeDef_Create_def namespaced_ExtensibleAttributeDef_Create_def
        cluster_ExtensibleAttributeDef_Update_def namespaced_ExtensibleAttributeDef_Update_def
        cluster_ExtensibleAttributeDef_Delete_def namespaced_ExtensibleAttributeDef_Delete_def)+
qed

end
