(* ===== verification/ExtensibleAttributeDefSpec.thy ===== *)
theory ExtensibleAttributeDefSpec
  imports ExtensibleAttributeDef
begin

text \<open>
  What the controller for extensible attribute definitions guarantees: the definition the
  identity ladder depends on is never written or deleted, absence is reported only when the
  name is free too, and a write is followed by an Observe that agrees.
\<close>

section \<open>Late initialisation and comparison\<close>

lemma list_values_conv [simp]:
  "namespacedListValuesToStrings (namespacedStringsToListValues xs) = xs"
  "namespacedStringsToListValues (namespacedListValuesToStrings vs) = vs"
  "fromSDKListValues (toSDKListValues xs) = xs" "toSDKListValues xs = [] \<longleftrightarrow> xs = []" "fromSDKListValues [] = []"
  by (auto simp: namespacedListValuesToStrings_def namespacedStringsToListValues_def fromSDKListValues_def
      toSDKListValues_def comp_def map_idI)

lemma ExtensibleAttributeDef_lateInitialize_eq:
  "ExtensibleAttributeDef_lateInitialize (comment, defaultValue, flags, listValues, allowedObjectTypes) def1 =
     (let l = (fill comment (ptrIfSet (ead_Comment def1)), fill defaultValue (ptrIfSet (ead_DefaultValue def1)),
               fill flags (ptrIfSet (ead_Flags def1)), fill_list listValues (fromSDKListValues (ead_ListValues def1)),
               fill_list allowedObjectTypes (ead_AllowedObjectTypes def1))
      in (l, l \<noteq> (comment, defaultValue, flags, listValues, allowedObjectTypes)))"
  by (simp only: ExtensibleAttributeDef_lateInitialize_def Let_def case_prod_conv fill_steps prod.inject de_Morgan_conj
      fill_changed ptrIfSet_set) blast

definition ead_get :: "ExtensibleAttributeDefCR \<Rightarrow> eadef_late" where
  "ead_get cr = (let p = ed_ForProvider cr in
     (edp_Comment p, edp_DefaultValue p, edp_Flags p, namespacedListValuesToStrings (edp_ListValues p),
      edp_AllowedObjectTypes p))"

definition ead_put :: "ExtensibleAttributeDefCR \<Rightarrow> eadef_late \<Rightarrow> ExtensibleAttributeDefCR" where
  "ead_put cr l = (case l of (comment, defaultValue, flags, listValues, allowedObjectTypes) \<Rightarrow>
     cr\<lparr>ed_ForProvider := (ed_ForProvider cr)\<lparr>edp_Comment := comment, edp_DefaultValue := defaultValue,
       edp_Flags := flags, edp_ListValues := namespacedStringsToListValues listValues,
       edp_AllowedObjectTypes := allowedObjectTypes\<rparr>\<rparr>)"

definition ead_utd :: "ExtensibleAttributeDefCR \<Rightarrow> EADefinition \<Rightarrow> bool" where
  "ead_utd cr def1 = (let p = ed_ForProvider cr in
     ExtensibleAttributeDef_isUpToDate (edp_Name p) (edp_Comment p) (edp_DefaultValue p) (edp_Flags p)
       (namespacedListValuesToStrings (edp_ListValues p)) (edp_AllowedObjectTypes p) def1)"

definition ead_keeps :: "eadef_late \<Rightarrow> eadef_late \<Rightarrow> bool" where
  "ead_keeps l l' = (case (l, l') of ((c, d, f, vs, ts), (c', d', f', vs', ts')) \<Rightarrow>
     keeps_set c c' \<and> keeps_set d d' \<and> keeps_set f f' \<and> (vs = [] \<or> vs' = vs) \<and> (ts = [] \<or> ts' = ts))"

lemma ead_utd_iff:
  "ead_utd cr def1 \<longleftrightarrow> (let p = ed_ForProvider cr in
     edp_Name p = strOrEmpty (ead_Name def1) \<and> strOrEmpty (edp_Comment p) = strOrEmpty (ead_Comment def1) \<and>
     strOrEmpty (edp_DefaultValue p) = strOrEmpty (ead_DefaultValue def1) \<and>
     strOrEmpty (edp_Flags p) = strOrEmpty (ead_Flags def1) \<and>
     mset (namespacedListValuesToStrings (edp_ListValues p)) = mset (fromSDKListValues (ead_ListValues def1)) \<and>
     mset (edp_AllowedObjectTypes p) = mset (ead_AllowedObjectTypes def1))"
  by (simp add: ead_utd_def ExtensibleAttributeDef_isUpToDate_def Let_def stringSlicesEqualUnordered_iff)

interpretation eadef_late: late_lens ExtensibleAttributeDef_lateInitialize ead_keeps ead_get ead_put ead_utd
proof
  fix l l' :: eadef_late and def1 :: EADefinition and cr :: ExtensibleAttributeDefCR
  obtain c d f vs ts where l: "l = (c, d, f, vs, ts)" by (cases l)
  note lates = l ExtensibleAttributeDef_lateInitialize_eq Let_def
  show "ExtensibleAttributeDef_lateInitialize (fst (ExtensibleAttributeDef_lateInitialize l def1)) def1 =
      (fst (ExtensibleAttributeDef_lateInitialize l def1), False)"
    by (simp add: lates)
  show "snd (ExtensibleAttributeDef_lateInitialize l def1) \<longleftrightarrow> fst (ExtensibleAttributeDef_lateInitialize l def1) \<noteq> l"
    by (simp add: lates)
  show "ead_keeps l (fst (ExtensibleAttributeDef_lateInitialize l def1))"
    by (simp add: lates ead_keeps_def fill_list_def)
  show "ead_get (ead_put cr l) = l" "ead_put cr (ead_get cr) = cr"
    by (simp_all add: l ead_get_def ead_put_def Let_def)
  show "ead_put (ead_put cr l) l' = ead_put cr l'"
    by (simp add: l ead_put_def split: prod.split)
  show "ead_utd (ead_put cr (fst (ExtensibleAttributeDef_lateInitialize (ead_get cr) def1))) def1" if "ead_utd cr def1"
    using that by (auto simp: ead_get_def ead_put_def ExtensibleAttributeDef_lateInitialize_eq Let_def ead_utd_iff fill_list_def)
qed

section \<open>The handlers over these parts\<close>

lemma ExtensibleAttributeDef_Observe_found:
  assumes "GetExternalName cr \<noteq> mo_name cr"
    and "wapi_get env (calls w) eaDefObjectType (GetExternalName cr) = Inr def1"
  shows "\<exists>obs cr' w'. namespaced_ExtensibleAttributeDef_Observe env cr w = (Inr obs, cr', w') \<and> ResourceExists obs \<and>
    (ResourceUpToDate obs \<longleftrightarrow> ead_utd (fst (lift_late ExtensibleAttributeDef_lateInitialize ead_get ead_put cr def1)) def1) \<and>
    GetExternalName cr' = GetExternalName cr"
proof -
  obtain c d f vs ts b where l: "ExtensibleAttributeDef_lateInitialize (ead_get cr) def1 = ((c, d, f, vs, ts), b)"
    by (metis prod.exhaust_sel)
  have [simp]: "GetExternalName (SetAvailable cr1) = GetExternalName cr1" for cr1 :: ExtensibleAttributeDefCR
    by (simp add: SetAvailable_def SetCondition_def GetExternalName_def)
  show ?thesis
    using l assms
    by (simp add: namespaced_ExtensibleAttributeDef_Observe_def getEADefinitionByRef_def get_object_def Let_def
        lift_late_def ead_put_def ead_get_def ead_utd_def) (simp add: GetExternalName_def)
qed

text \<open>What the guard lets through: the object just read is another definition, or was not found.\<close>

definition spared :: "eadef_env \<Rightarrow> string \<Rightarrow> eadef_req wcall list \<Rightarrow> string \<Rightarrow> bool" where
  "spared env crName log r \<longleftrightarrow> r \<in> {[], crName} \<or>
     (\<exists>h. log = h @ [CGet eaDefObjectType r] \<and>
        (case wapi_get env h eaDefObjectType r of
           Inl e \<Rightarrow> isNotFound (Some e)
         | Inr d \<Rightarrow> ead_Name d \<noteq> Some EAKey))"

text \<open>A request that leaves the reserved definition alone, given the log before it.\<close>

definition spares_reserved :: "eadef_env \<Rightarrow> string \<Rightarrow> eadef_req wcall list \<Rightarrow> eadef_req wcall \<Rightarrow> bool" where
  "spares_reserved env crName log c \<longleftrightarrow>
     (case c of
        CMutate (CreateEADefinition d) \<Rightarrow> ead_Name d \<noteq> Some EAKey
      | CMutate (UpdateEADefinition r d) \<Rightarrow> ead_Name d \<noteq> Some EAKey \<and> spared env crName log r
      | CDelete r \<Rightarrow> spared env crName log r
      | _ \<Rightarrow> True)"

fun sparing :: "eadef_env \<Rightarrow> string \<Rightarrow> eadef_req wcall list \<Rightarrow> eadef_req wcall list \<Rightarrow> bool" where
  "sparing env crName log [] = True"
| "sparing env crName log (c # cs) = (spares_reserved env crName log c \<and> sparing env crName (log @ [c]) cs)"

definition steps_sparing :: "eadef_env \<Rightarrow> string \<Rightarrow> eadef_world \<Rightarrow> eadef_world \<Rightarrow> bool" where
  "steps_sparing env crName w w' \<longleftrightarrow> (\<exists>cs. calls w' = calls w @ cs \<and> sparing env crName (calls w) cs)"

lemma sparing_append: "sparing env n log (cs @ ds) \<longleftrightarrow> sparing env n log cs \<and> sparing env n (log @ cs) ds"
  by (induction cs arbitrary: log) auto

lemma steps_sparing_refl [simp]: "steps_sparing env n w w"
  by (auto simp: steps_sparing_def intro: exI [of _ "[]"])

lemma steps_sparing_trans: "steps_sparing env n w w1 \<Longrightarrow> steps_sparing env n w1 w2 \<Longrightarrow> steps_sparing env n w w2"
  by (force simp: steps_sparing_def sparing_append)

lemma steps_sparing_call:
  "spares_reserved env n (calls w) c \<Longrightarrow> steps_sparing env n w (log_call c w)"
  by (auto simp: steps_sparing_def intro: exI [of _ "[c]"])

lemma spares_reserved_quiet: "\<not> mutating c \<Longrightarrow> spares_reserved env n log c"
  by (cases c) (simp_all add: spares_reserved_def)

lemma sparing_quiet: "list_all (\<lambda>c. \<not> mutating c) cs \<Longrightarrow> sparing env n log cs"
  by (induction cs arbitrary: log) (simp_all add: spares_reserved_quiet)

lemma steps_sparing_quiet:
  "extends w w' \<Longrightarrow> mutations w' = mutations w \<Longrightarrow> steps_sparing env n w w'"
  by (erule quiet_part, assumption) (auto simp: steps_sparing_def sparing_quiet)

lemma guard_passes:
  assumes "refuseIfResolvedRefIsReserved env ref crName w = (None, w1)"
  shows "spared env crName (calls w1) ref" and "extends w w1" and "mutations w1 = mutations w"
  using assms
  by (auto simp: refuseIfResolvedRefIsReserved_def getEADefinitionByRef_def get_object_def spared_def extends_def
      isReservedIdentityDefinitionName_def split: if_splits sum.splits option.splits)

lemma guard_refuses:
  assumes "refuseIfResolvedRefIsReserved env ref crName w = (Some err, w1)"
  shows "extends w w1" and "mutations w1 = mutations w"
  using assms
  by (auto simp: refuseIfResolvedRefIsReserved_def getEADefinitionByRef_def get_object_def extends_def
      split: if_splits sum.splits option.splits)

lemma exists_by_key_quiet:
  assumes "eaDefinitionExistsByNaturalKey env name w = (r, w1)"
  shows "extends w w1" and "mutations w1 = mutations w"
  using assms
  by (auto simp: eaDefinitionExistsByNaturalKey_def search_objects_def extends_def split: if_splits sum.splits)

lemma Create_sparing: "steps_sparing env (mo_name cr) w (snd (snd (namespaced_ExtensibleAttributeDef_Create env cr w)))"
proof (cases "edp_Name (ed_ForProvider cr) = EAKey")
  case True
  then show ?thesis by (simp add: namespaced_ExtensibleAttributeDef_Create_def isReservedIdentityDefinitionName_def)
next
  case False
  obtain e w1 where g: "refuseIfResolvedRefIsReserved env (GetExternalName cr) (mo_name cr) w = (e, w1)"
    by (cases "refuseIfResolvedRefIsReserved env (GetExternalName cr) (mo_name cr) w")
  show ?thesis
  proof (cases e)
    case None
    have "steps_sparing env (mo_name cr) w w1"
      using guard_passes [OF g [unfolded None]] by (blast intro: steps_sparing_quiet)
    moreover have "steps_sparing env (mo_name cr) w1 (log_call (CMutate (CreateEADefinition d)) w1)"
      if "ead_Name d \<noteq> Some EAKey" for d
      using that by (intro steps_sparing_call) (simp add: spares_reserved_def)
    ultimately show ?thesis
      using g None False by (simp add: namespaced_ExtensibleAttributeDef_Create_def isReservedIdentityDefinitionName_def
          createEADefinition_def mutate_object_def Let_def steps_sparing_trans split: sum.split)
  next
    case (Some err)
    then show ?thesis
      using g False guard_refuses [OF g [unfolded Some]] by (simp add: namespaced_ExtensibleAttributeDef_Create_def isReservedIdentityDefinitionName_def
          Let_def steps_sparing_quiet)
  qed
qed

lemma Refresh_sparing: "retry_documented env \<Longrightarrow> steps_sparing env n w (snd (snd (Refresh env cr r w)))"
  by (blast intro: steps_sparing_quiet Refresh_extends Refresh_mutations)

lemma Update_sparing:
  assumes "retry_documented env"
  shows "steps_sparing env (mo_name cr) w (snd (snd (namespaced_ExtensibleAttributeDef_Update env cr w)))"
proof (cases "edp_Name (ed_ForProvider cr) = EAKey")
  case True
  then show ?thesis by (simp add: namespaced_ExtensibleAttributeDef_Update_def isReservedIdentityDefinitionName_def)
next
  case False
  obtain e w1 where g: "refuseIfResolvedRefIsReserved env (GetExternalName cr) (mo_name cr) w = (e, w1)"
    by (cases "refuseIfResolvedRefIsReserved env (GetExternalName cr) (mo_name cr) w")
  show ?thesis
  proof (cases e)
    case None
    note pass = guard_passes [OF g [unfolded None]]
    obtain r w2 where u: "updateEADefinition env (GetExternalName cr) (ed_ForProvider cr)
        (toSDKListValues (namespacedListValuesToStrings (edp_ListValues (ed_ForProvider cr))))
        (descendantsActionToSDK (edp_DescendantsAction (ed_ForProvider cr))) w1 = (r, w2)"
      by (cases "updateEADefinition env (GetExternalName cr) (ed_ForProvider cr)
        (toSDKListValues (namespacedListValuesToStrings (edp_ListValues (ed_ForProvider cr))))
        (descendantsActionToSDK (edp_DescendantsAction (ed_ForProvider cr))) w1")
    have "\<exists>d. w2 = log_call (CMutate (UpdateEADefinition (GetExternalName cr) d)) w1 \<and> ead_Name d \<noteq> Some EAKey"
      using u False by (auto simp: updateEADefinition_def mutate_object_def Let_def split: sum.splits)
    then have "steps_sparing env (mo_name cr) w1 w2"
      using pass(1) by (auto intro!: steps_sparing_call simp: spares_reserved_def)
    then have w2: "steps_sparing env (mo_name cr) w w2"
      using pass steps_sparing_quiet steps_sparing_trans by blast
    then have "steps_sparing env (mo_name cr) w (snd (snd (Refresh env cr x w2)))" for x
      using Refresh_sparing [OF assms] steps_sparing_trans by blast
    then show ?thesis
      using g None False u w2
      by (simp add: namespaced_ExtensibleAttributeDef_Update_def isReservedIdentityDefinitionName_def Let_def split_beta
          split: sum.split option.split)
  next
    case (Some err)
    then show ?thesis
      using g False guard_refuses [OF g [unfolded Some]] by (simp add: namespaced_ExtensibleAttributeDef_Update_def isReservedIdentityDefinitionName_def
          Let_def steps_sparing_quiet)
  qed
qed

lemma Delete_sparing: "steps_sparing env (mo_name cr) w (snd (namespaced_ExtensibleAttributeDef_Delete env cr w))"
proof (cases "edp_Name (ed_ForProvider cr) = EAKey")
  case True
  then show ?thesis by (simp add: namespaced_ExtensibleAttributeDef_Delete_def isReservedIdentityDefinitionName_def)
next
  case False
  let ?r = "GetExternalName cr" and ?n = "edp_Name (ed_ForProvider cr)"
  obtain e w1 where g: "refuseIfResolvedRefIsReserved env ?r (mo_name cr) w = (e, w1)"
    by (cases "refuseIfResolvedRefIsReserved env ?r (mo_name cr) w")
  show ?thesis
  proof (cases e)
    case None
    note pass = guard_passes [OF g [unfolded None]]
    obtain x w3 where k: "eaDefinitionExistsByNaturalKey env ?n (log_call (CDelete ?r) w1) = (x, w3)"
      by (cases "eaDefinitionExistsByNaturalKey env ?n (log_call (CDelete ?r) w1)")
    have w2: "steps_sparing env (mo_name cr) w (log_call (CDelete ?r) w1)"
      using pass by (intro steps_sparing_trans [OF steps_sparing_quiet steps_sparing_call]) (simp_all add: spares_reserved_def)
    then have "steps_sparing env (mo_name cr) w w3"
      using steps_sparing_quiet [OF exists_by_key_quiet [OF k]] steps_sparing_trans by blast
    then show ?thesis
      using g None False w2 k by (simp add: namespaced_ExtensibleAttributeDef_Delete_def isReservedIdentityDefinitionName_def Let_def
          deleteEADefinitionResolving404_def deleteEADefinition_def delete_object_def split: sum.split option.split)
  next
    case (Some err)
    then show ?thesis
      using g False guard_refuses [OF g [unfolded Some]] by (simp add: namespaced_ExtensibleAttributeDef_Delete_def isReservedIdentityDefinitionName_def
          Let_def steps_sparing_quiet)
  qed
qed

lemma Observe_sparing: "steps_sparing env n w (snd (snd (namespaced_ExtensibleAttributeDef_Observe env cr w)))"
proof -
  let ?w1 = "log_call (CGet eaDefObjectType (GetExternalName cr)) w"
  obtain x w2 where k: "eaDefinitionExistsByNaturalKey env (edp_Name (ed_ForProvider cr)) ?w1 = (x, w2)"
    by (cases "eaDefinitionExistsByNaturalKey env (edp_Name (ed_ForProvider cr)) ?w1")
  have w1: "steps_sparing env n w ?w1" by (rule steps_sparing_quiet) simp_all
  then have "steps_sparing env n w w2"
    using steps_sparing_quiet [OF exists_by_key_quiet [OF k]] steps_sparing_trans by blast
  then show ?thesis
    using w1 k by (simp add: namespaced_ExtensibleAttributeDef_Observe_def Let_def split_beta getEADefinitionByRef_def get_object_def
        split: sum.split)
qed

section \<open>Runs of many resources\<close>

datatype eadef_op = EADefObserve | EADefCreate | EADefUpdate | EADefDelete

text \<open>One handler call in one of the two scopes: the resource and the world it leaves.\<close>

fun eadef_handler ::
  "eadef_env \<Rightarrow> bool \<Rightarrow> eadef_op \<Rightarrow> ExtensibleAttributeDefCR \<Rightarrow> eadef_world \<Rightarrow> ExtensibleAttributeDefCR \<times> eadef_world" where
  "eadef_handler env clusterScope EADefObserve cr w =
     snd ((if clusterScope then cluster_ExtensibleAttributeDef_Observe else namespaced_ExtensibleAttributeDef_Observe) env cr w)"
| "eadef_handler env clusterScope EADefCreate cr w =
     snd ((if clusterScope then cluster_ExtensibleAttributeDef_Create else namespaced_ExtensibleAttributeDef_Create) env cr w)"
| "eadef_handler env clusterScope EADefUpdate cr w =
     snd ((if clusterScope then cluster_ExtensibleAttributeDef_Update else namespaced_ExtensibleAttributeDef_Update) env cr w)"
| "eadef_handler env clusterScope EADefDelete cr w =
     (cr, snd ((if clusterScope then cluster_ExtensibleAttributeDef_Delete else namespaced_ExtensibleAttributeDef_Delete) env cr w))"

text \<open>
  Any number of resources; each may be edited in every way but its name (its external name
  included) between handler calls.
\<close>

inductive eadef_run ::
  "eadef_env \<Rightarrow> (nat \<Rightarrow> ExtensibleAttributeDefCR) \<Rightarrow> (nat \<Rightarrow> ExtensibleAttributeDefCR) \<Rightarrow> eadef_world \<Rightarrow> bool"
  for env crs0 where
  run_start: "calls w = [] \<Longrightarrow> eadef_run env crs0 crs0 w"
| run_handle: "eadef_run env crs0 crs w \<Longrightarrow> eadef_handler env sc op (crs i) w = (cr', w') \<Longrightarrow>
     eadef_run env crs0 (crs(i := cr')) w'"
| run_edit: "eadef_run env crs0 crs w \<Longrightarrow> mo_name cr' = mo_name (crs i) \<Longrightarrow> eadef_run env crs0 (crs(i := cr')) w"

lemma eadef_handler_sparing:
  "retry_documented env \<Longrightarrow> steps_sparing env (mo_name cr) w (snd (eadef_handler env sc op cr w))"
  by (cases op) (simp_all add: ExtensibleAttributeDef_scopes Observe_sparing Create_sparing Update_sparing Delete_sparing)

lemma Refresh_name [simp]: "mo_name (fst (snd (Refresh env cr r w))) = mo_name cr"
  by (simp add: Refresh_result)

lemma eadef_handler_name: "mo_name (fst (eadef_handler env sc op cr w)) = mo_name cr"
proof -
  have "mo_name (fst (snd (namespaced_ExtensibleAttributeDef_Observe env cr w))) = mo_name cr"
    by (simp add: namespaced_ExtensibleAttributeDef_Observe_def Let_def split_beta split: sum.split)
  moreover have "mo_name (fst (snd (namespaced_ExtensibleAttributeDef_Create env cr w))) = mo_name cr"
    by (simp add: namespaced_ExtensibleAttributeDef_Create_def Let_def split_beta split: sum.split option.split)
  moreover have "mo_name (fst (snd (namespaced_ExtensibleAttributeDef_Update env cr w))) = mo_name cr"
    by (simp add: namespaced_ExtensibleAttributeDef_Update_def Let_def split_beta split: sum.split option.split)
  ultimately show ?thesis
    by (cases op) (simp_all add: ExtensibleAttributeDef_scopes)
qed

lemma eadef_run_names: "eadef_run env crs0 crs w \<Longrightarrow> mo_name (crs i) = mo_name (crs0 i)"
  by (induction rule: eadef_run.induct) (auto dest: arg_cong [where f = "mo_name \<circ> fst"] simp: eadef_handler_name)

text \<open>The reserved definition stands at a reference, and reading it is never answered by a 404.\<close>

definition reserved_at :: "eadef_env \<Rightarrow> string \<Rightarrow> bool" where
  "reserved_at env R \<longleftrightarrow> R \<noteq> [] \<and>
     (\<forall>h. case wapi_get env h eaDefObjectType R of
            Inl e \<Rightarrow> \<not> isNotFound (Some e)
          | Inr d \<Rightarrow> ead_Name d = Some EAKey)"

fun leaves_alone :: "string \<Rightarrow> eadef_req wcall \<Rightarrow> bool" where
  "leaves_alone R (CMutate (CreateEADefinition d)) = (ead_Name d \<noteq> Some EAKey)"
| "leaves_alone R (CMutate (UpdateEADefinition r d)) = (r \<noteq> R \<and> ead_Name d \<noteq> Some EAKey)"
| "leaves_alone R (CDelete r) = (r \<noteq> R)"
| "leaves_alone R _ = True"

lemma spared_other: "reserved_at env R \<Longrightarrow> n \<noteq> R \<Longrightarrow> spared env n log r \<Longrightarrow> r \<noteq> R"
  by (fastforce simp: spared_def reserved_at_def split: sum.splits)

lemma spares_leaves_alone:
  assumes "reserved_at env R" and "n \<noteq> R" and "spares_reserved env n log c"
  shows "leaves_alone R c"
proof (cases c)
  case (CMutate m)
  then show ?thesis using assms(3) spared_other [OF assms(1,2)] by (cases m) (auto simp: spares_reserved_def)
qed (use assms(3) spared_other [OF assms(1,2)] in \<open>auto simp: spares_reserved_def\<close>)

lemma sparing_leaves_alone:
  "reserved_at env R \<Longrightarrow> n \<noteq> R \<Longrightarrow> sparing env n log cs \<Longrightarrow> list_all (leaves_alone R) cs"
  by (induction cs arbitrary: log) (auto intro: spares_leaves_alone)

text \<open>
  C25: However handler calls of any number of extensible attribute definition resources, in
  both scopes, interleave with edits of those resources (their external names included), the
  definition the identity ladder depends on is never updated or deleted through its reference, and no
  request creates or renames a definition to its name.
\<close>

theorem reserved_definition_untouched:
  assumes "eadef_run env crs0 crs w" and "retry_documented env" and "reserved_at env R"
    and "\<forall>i. mo_name (crs0 i) \<noteq> R"
  shows "list_all (leaves_alone R) (calls w)"
  using assms(1)
proof induction
  case (run_handle crs w sc op i cr' w')
  have "mo_name (crs i) \<noteq> R" using eadef_run_names [OF run_handle.hyps(1)] assms(4) by simp
  moreover obtain cs where "calls w' = calls w @ cs" "sparing env (mo_name (crs i)) (calls w) cs"
    using eadef_handler_sparing [OF assms(2), of "crs i" w sc op] run_handle.hyps(2) by (auto simp: steps_sparing_def)
  ultimately show ?case
    using run_handle.IH sparing_leaves_alone [OF assms(3)] by auto
qed simp_all

section \<open>What absence and a finished deletion rest on\<close>

text \<open>The name is free: it is blank, or a search for it found nothing or gave a 404.\<close>

definition name_free :: "eadef_env \<Rightarrow> string \<Rightarrow> eadef_req wcall list \<Rightarrow> bool" where
  "name_free env name log \<longleftrightarrow> name = [] \<or>
     (\<exists>h. log = h @ [CSearch eaDefObjectType (fmupd ''name'' name fmempty)] \<and>
        (case wapi_search env h eaDefObjectType (fmupd ''name'' name fmempty) of
           Inl e \<Rightarrow> isNotFound (Some e)
         | Inr res \<Rightarrow> res = []))"

lemma exists_by_key_free:
  "eaDefinitionExistsByNaturalKey env name w = (Inr False, w1) \<Longrightarrow> name_free env name (calls w1)"
  by (auto simp: eaDefinitionExistsByNaturalKey_def name_free_def search_objects_def split: if_splits sum.splits)

text \<open>
  Observe reports a definition missing only when the resource never had a
  reference, or when its reference gave a 404 and its name is free as well; Delete reports success
  only when the deletion of the recorded reference succeeded, or gave a 404 and the name is
  free. A definition that was renamed or recreated is never reported as gone.
\<close>

theorem eadef_absence_justified:
  "(\<forall>cr' w'. namespaced_ExtensibleAttributeDef_Observe env cr w = (Inr notExists, cr', w') \<longrightarrow>
      GetExternalName cr = mo_name cr \<or>
      (\<exists>e. wapi_get env (calls w) eaDefObjectType (GetExternalName cr) = Inl e \<and> isNotFound (Some e)) \<and>
      name_free env (edp_Name (ed_ForProvider cr)) (calls w')) \<and>
   (\<forall>w'. namespaced_ExtensibleAttributeDef_Delete env cr w = (None, w') \<longrightarrow>
      (\<exists>h. mutations w' = mutations w @ [CDelete (GetExternalName cr)] \<and>
         (case wapi_delete env h (GetExternalName cr) of
            Inr _ \<Rightarrow> calls w' = h @ [CDelete (GetExternalName cr)]
          | Inl e \<Rightarrow> isNotFound (Some e) \<and> name_free env (edp_Name (ed_ForProvider cr)) (calls w'))))"
proof (intro conjI allI impI)
  fix cr' w'
  assume o: "namespaced_ExtensibleAttributeDef_Observe env cr w = (Inr notExists, cr', w')"
  show "GetExternalName cr = mo_name cr \<or>
      (\<exists>e. wapi_get env (calls w) eaDefObjectType (GetExternalName cr) = Inl e \<and> isNotFound (Some e)) \<and>
      name_free env (edp_Name (ed_ForProvider cr)) (calls w')"
  proof (cases "wapi_get env (calls w) eaDefObjectType (GetExternalName cr)")
    case (Inr def1)
    then show ?thesis
      using ExtensibleAttributeDef_Observe_found [of cr env w def1] o by (auto simp: notExists_def)
  next
    case (Inl e)
    then show ?thesis
      using o by (auto simp: namespaced_ExtensibleAttributeDef_Observe_def getEADefinitionByRef_def get_object_def Let_def
          dest: exists_by_key_free split: if_splits sum.splits prod.splits)
  qed
next
  fix w'
  assume d: "namespaced_ExtensibleAttributeDef_Delete env cr w = (None, w')"
  let ?r = "GetExternalName cr"
  obtain w1 where g: "refuseIfResolvedRefIsReserved env ?r (mo_name cr) w = (None, w1)"
    and r: "deleteEADefinitionResolving404 env ?r (edp_Name (ed_ForProvider cr)) w1 = (None, w')"
    using d by (auto simp: namespaced_ExtensibleAttributeDef_Delete_def Let_def split: if_splits prod.splits option.splits)
  have m: "mutations w1 = mutations w" using guard_passes(3) [OF g] .
  show "\<exists>h. mutations w' = mutations w @ [CDelete ?r] \<and>
      (case wapi_delete env h ?r of
         Inr _ \<Rightarrow> calls w' = h @ [CDelete ?r]
       | Inl e \<Rightarrow> isNotFound (Some e) \<and> name_free env (edp_Name (ed_ForProvider cr)) (calls w'))"
  proof (cases "wapi_delete env (calls w1) ?r")
    case (Inr x)
    then show ?thesis
      using r m by (intro exI [of _ "calls w1"])
        (auto simp: deleteEADefinitionResolving404_def deleteEADefinition_def delete_object_def)
  next
    case (Inl e)
    obtain b w2 where k: "eaDefinitionExistsByNaturalKey env (edp_Name (ed_ForProvider cr)) (log_call (CDelete ?r) w1) = (b, w2)"
      by (cases "eaDefinitionExistsByNaturalKey env (edp_Name (ed_ForProvider cr)) (log_call (CDelete ?r) w1)")
    have "b = Inr False" "w2 = w'" "isNotFound (Some e)"
      using r Inl k by (auto simp: deleteEADefinitionResolving404_def deleteEADefinition_def delete_object_def
          split: if_splits sum.splits)
    then show ?thesis
      using Inl m exists_by_key_free [of env _ _ w'] exists_by_key_quiet(2) [OF k] k
      by (intro exI [of _ "calls w1"]) simp
  qed
qed

section \<open>A write is followed by an Observe that agrees\<close>

text \<open>The fields of an answer that a write determines.\<close>

definition eadef_holds :: "ExtensibleAttributeDefParameters \<Rightarrow> EADefinition \<Rightarrow> bool" where
  "eadef_holds p def1 \<longleftrightarrow> strOrEmpty (ead_Name def1) = edp_Name p \<and>
     strOrEmpty (ead_Comment def1) = strOrEmpty (edp_Comment p) \<and>
     strOrEmpty (ead_DefaultValue def1) = strOrEmpty (edp_DefaultValue p) \<and>
     strOrEmpty (ead_Flags def1) = strOrEmpty (edp_Flags p) \<and>
     mset (fromSDKListValues (ead_ListValues def1)) = mset (namespacedListValuesToStrings (edp_ListValues p)) \<and>
     mset (ead_AllowedObjectTypes def1) = mset (edp_AllowedObjectTypes p)"

text \<open>The requests of a resource's Create and Update, and that they carry what eadef_holds compares.\<close>

lemma eadef_requests_hold:
  "eadef_holds p \<lparr>ead_Ref = r, ead_Name = Some (edp_Name p), ead_Type = t, ead_Comment = edp_Comment p,
     ead_DefaultValue = edp_DefaultValue p, ead_Min = mn, ead_Max = mx, ead_Flags = edp_Flags p,
     ead_ListValues = toSDKListValues (namespacedListValuesToStrings (edp_ListValues p)),
     ead_AllowedObjectTypes = edp_AllowedObjectTypes p, ead_Namespace = n, ead_DescendantsAction = a\<rparr>"
  by (simp add: eadef_holds_def strOrEmpty_def)

text \<open>
  After a Create or Update whose object the Grid stored, Observe in either scope reports
  the definition as existing and up to date.
\<close>

theorem eadef_write_then_observe:
  assumes "GetExternalName cr \<noteq> mo_name cr"
    and "wapi_get env (calls w) eaDefObjectType (GetExternalName cr) = Inr def1" and "eadef_holds (ed_ForProvider cr) def1"
  shows "\<exists>obs cr' w'. cluster_ExtensibleAttributeDef_Observe env cr w = (Inr obs, cr', w') \<and>
    namespaced_ExtensibleAttributeDef_Observe env cr w = (Inr obs, cr', w') \<and> ResourceExists obs \<and> ResourceUpToDate obs"
proof -
  have "ead_utd cr def1" using assms(3) by (auto simp: ead_utd_iff eadef_holds_def Let_def)
  then have "ead_utd (fst (lift_late ExtensibleAttributeDef_lateInitialize ead_get ead_put cr def1)) def1"
    by (rule eadef_late.late_utd)
  then show ?thesis
    using ExtensibleAttributeDef_Observe_found [OF assms(1,2)] by (auto simp: ExtensibleAttributeDef_scopes)
qed

section \<open>A concrete Grid\<close>

text \<open>A Grid with the reserved definition, and a resource whose external name was edited to point at it.\<close>

definition ead_demo :: eadef_env where
  "ead_demo =
     \<lparr>wapi_get = (\<lambda>h t r. if r = ''def/1'' then Inr identityDefinition else Inl (NotFoundError ''gone'')),
      wapi_search = (\<lambda>h t q. Inr []), wapi_def_search = (\<lambda>h q. Inr [identityDefinition]),
      wapi_def_create = (\<lambda>h d. Inr []), wapi_mutate = (\<lambda>h m. Inr identityDefinition),
      wapi_delete = (\<lambda>h r. Inr r), kube_patch = (\<lambda>h j. None), retry_on_conflict = (\<lambda>f w. f w), wall_clock = (\<lambda>n. 0)\<rparr>"

definition ead_cr :: ExtensibleAttributeDefCR where
  "ead_cr =
     \<lparr>mo_name = ''site'', mo_namespace = [], mo_uid = ''u-1'',
      mo_annotations = fmupd AnnotationKeyExternalName ''def/1'' fmempty, mo_conditions = fmempty,
      ed_ForProvider = \<lparr>edp_Name = ''Site'', edp_Type = ''STRING'', edp_Comment = Some ''where'', edp_DefaultValue = None,
        edp_Min = None, edp_Max = None, edp_Flags = None, edp_ListValues = [], edp_AllowedObjectTypes = [],
        edp_DescendantsAction = None\<rparr>,
      ed_AtProvider = \<lparr>eds_ID = [], eds_Name = None, eds_Type = None, eds_Comment = None, eds_DefaultValue = None,
        eds_Min = None, eds_Max = None, eds_Flags = None, eds_ListValues = [], eds_AllowedObjectTypes = [],
        eds_Ref = None, eds_Namespace = None\<rparr>\<rparr>"

lemma ead_cr_ref: "GetExternalName ead_cr = ''def/1''" "mo_name ead_cr = ''site''"
  by (simp_all add: ead_cr_def GetExternalName_def)

lemma reserved_definition_untouched_witness:
  "list_all (leaves_alone ''def/1'') (calls (snd (namespaced_ExtensibleAttributeDef_Delete ead_demo ead_cr init_world)))"
proof (rule reserved_definition_untouched)
  let ?w = "snd (namespaced_ExtensibleAttributeDef_Delete ead_demo ead_cr init_world)"
  show "eadef_run ead_demo (\<lambda>i. ead_cr) ((\<lambda>i. ead_cr)(0 := ead_cr)) ?w"
    by (rule eadef_run.run_handle [where sc = False and op = EADefDelete and i = 0 and w = init_world, OF eadef_run.run_start]) simp_all
  show "retry_documented ead_demo"
    by (auto simp: retry_documented_def ead_demo_def intro: exI [of _ 0])
  show "reserved_at ead_demo ''def/1''"
    by (simp add: reserved_at_def ead_demo_def identityDefinition_def)
  show "\<forall>i. mo_name ead_cr \<noteq> ''def/1''"
    by (simp add: ead_cr_ref)
qed

lemma eadef_absence_justified_witness:
  "mutations (snd (namespaced_ExtensibleAttributeDef_Delete ead_demo (SetExternalName ''def/2'' ead_cr) init_world)) = [CDelete ''def/2'']"
proof -
  let ?cr = "SetExternalName ''def/2'' ead_cr"
  have e: "wapi_get ead_demo h t ''def/2'' = Inl (NotFoundError ''gone'')" "wapi_delete ead_demo h r = Inr r" for h t r
    by (simp_all add: ead_demo_def)
  have "edp_Name (ed_ForProvider ?cr) = ''Site''" by (simp add: ead_cr_def SetExternalName_def)
  then have "fst (namespaced_ExtensibleAttributeDef_Delete ead_demo ?cr init_world) = None"
    by (simp add: namespaced_ExtensibleAttributeDef_Delete_def isReservedIdentityDefinitionName_def EAKey_def ead_cr_ref
        refuseIfResolvedRefIsReserved_def getEADefinitionByRef_def get_object_def e deleteEADefinitionResolving404_def
        deleteEADefinition_def delete_object_def Let_def)
  then obtain w' where d: "namespaced_ExtensibleAttributeDef_Delete ead_demo ?cr init_world = (None, w')"
    by (metis prod.collapse)
  show ?thesis
    using eadef_absence_justified [of ead_demo ?cr init_world] d by auto
qed

end
