(* ===== verification/IdentitySpec.thy ===== *)
theory IdentitySpec
  imports Identity
begin

text \<open>
  The specification of the identity ladder: against an abstract Grid, a list of
  objects with references and stamps, Resolve computes \<open>locate\<close>; so it finds
  the object a resource owns whatever happened to the object's reference.
\<close>

section \<open>An abstract Grid\<close>

definition object_ref :: "'o objtype \<Rightarrow> 'o \<Rightarrow> string" where
  "object_ref T x = (case getRef (ot_reflect T x) of Inr r \<Rightarrow> r | Inl _ \<Rightarrow> [])"

text \<open>
  The environment answers as the Grid g does: a read gives the object with the
  reference or a 404, a search for a uid gives the objects stamped with it.
\<close>

definition grid_view :: "('o, 'm) wapi \<Rightarrow> 'o objtype \<Rightarrow> 'o list \<Rightarrow> bool" where
  "grid_view env T g \<longleftrightarrow>
     ref_ea_shape T \<and> (\<forall>x \<in> set g. \<not> is_err (getEA (ot_reflect T x))) \<and>
     (\<forall>h r. case find (\<lambda>x. object_ref T x = r) g of
        Some x \<Rightarrow> wapi_get env h (ot_name T) r = Inr x
      | None \<Rightarrow> (\<exists>err. wapi_get env h (ot_name T) r = Inl err \<and> isNotFound (Some err))) \<and>
     (\<forall>h u. wapi_search env h (ot_name T) (uid_query u) = Inr (filter (\<lambda>x. stamped T x = Some u) g))"

definition locate :: "'o objtype \<Rightarrow> 'o list \<Rightarrow> string \<Rightarrow> string \<Rightarrow> goerr + 'o option \<times> Outcome" where
  "locate T g ref uid =
     (case (if ref = [] then None else find (\<lambda>x. object_ref T x = ref) g) of
        Some x \<Rightarrow>
          (case stamped T x of
             None \<Rightarrow> Inr (Some x, OutcomeAdopted)
           | Some u \<Rightarrow> if u = uid then Inr (Some x, OutcomeResolved)
                       else Inl (HandleReuseError (ot_name T) ref uid u))
      | None \<Rightarrow>
          (case filter (\<lambda>x. stamped T x = Some uid) g of
             [] \<Rightarrow> Inr (None, OutcomeNotFound)
           | [x] \<Rightarrow> Inr (Some x, if ref = [] then OutcomeFoundByUID else OutcomeRotated)
           | xs \<Rightarrow> Inl (AmbiguousMatchError (ot_name T) uid (length xs))))"

lemma grid_viewD:
  assumes "grid_view env T g"
  shows "ref_ea_shape T" and "x \<in> set g \<Longrightarrow> \<not> is_err (getEA (ot_reflect T x))"
    and "find (\<lambda>x. object_ref T x = r) g = Some x \<Longrightarrow> wapi_get env h (ot_name T) r = Inr x"
    and "find (\<lambda>x. object_ref T x = r) g = None \<Longrightarrow>
      \<exists>err. wapi_get env h (ot_name T) r = Inl err \<and> isNotFound (Some err)"
    and "wapi_search env h (ot_name T) (uid_query u) = Inr (filter (\<lambda>x. stamped T x = Some u) g)"
proof -
  have "case find (\<lambda>x. object_ref T x = r) g of
        Some x \<Rightarrow> wapi_get env h (ot_name T) r = Inr x
      | None \<Rightarrow> (\<exists>err. wapi_get env h (ot_name T) r = Inl err \<and> isNotFound (Some err))"
    using assms by (simp only: grid_view_def)
  then show "find (\<lambda>x. object_ref T x = r) g = Some x \<Longrightarrow> wapi_get env h (ot_name T) r = Inr x"
    and "find (\<lambda>x. object_ref T x = r) g = None \<Longrightarrow>
      \<exists>err. wapi_get env h (ot_name T) r = Inl err \<and> isNotFound (Some err)"
    by simp_all
qed (use assms in \<open>simp_all add: grid_view_def\<close>)

lemma resolveBySearch_locate:
  assumes "grid_view env T g"
    and "ref = [] \<or> find (\<lambda>x. object_ref T x = ref) g = None"
  shows "fst (resolveBySearch env T ref uid w) = locate T g ref uid"
proof -
  have "wapi_search env (calls w) (ot_name T) (uid_query uid) = Inr (filter (\<lambda>x. stamped T x = Some uid) g)"
    by (rule grid_viewD(5) [OF assms(1)])
  with assms(2) show ?thesis
    by (auto simp: resolveBySearch_def searchByUID_def search_objects_def locate_def split: list.split)
qed

lemma locate_eq:
  assumes "grid_view env T g" and "trim_space uid \<noteq> []"
  shows "fst (Resolve env T ref uid w) = locate T g ref (trim_space uid)"
proof (cases "ref = [] \<or> find (\<lambda>x. object_ref T x = ref) g = None")
  case True
  note shape = grid_viewD(1) [OF assms(1)]
  show ?thesis
  proof (cases "ref = []")
    case r: True
    then show ?thesis
      using resolveBySearch_locate [OF assms(1) True, of "trim_space uid" w]
      by (simp add: Resolve_unfold [OF shape assms(2)])
  next
    case r: False
    with True have "find (\<lambda>x. object_ref T x = ref) g = None" by simp
    then obtain err where "wapi_get env (calls w) (ot_name T) ref = Inl err" "isNotFound (Some err)"
      using grid_viewD(4) [OF assms(1)] by blast
    then have "resolveByRef env T ref (trim_space uid) w = (None, log_call (CGet (ot_name T) ref) w)"
      by (simp add: resolveByRef_def get_object_def)
    then show ?thesis
      using r resolveBySearch_locate [OF assms(1) True, of "trim_space uid" "log_call (CGet (ot_name T) ref) w"]
      by (simp add: Resolve_unfold [OF shape assms(2)])
  qed
next
  case False
  then obtain x where x: "find (\<lambda>x. object_ref T x = ref) g = Some x" "ref \<noteq> []" by auto
  then have "x \<in> set g" by (auto simp: find_Some_iff)
  then obtain e where e: "getEA (ot_reflect T x) = Inr e"
    using grid_viewD(2) [OF assms(1), of x] by (auto simp: is_err_def split: sum.splits)
  have "wapi_get env (calls w) (ot_name T) ref = Inr x"
    by (rule grid_viewD(3) [OF assms(1) x(1)])
  with x e show ?thesis
    by (auto simp: Resolve_unfold [OF grid_viewD(1) [OF assms(1)] assms(2)] resolveByRef_def get_object_def locate_def stamped_def
        split: option.split)
qed

text \<open>
  C2: against a Grid, the ladder computes the abstract lookup: the object under the recorded
  reference decides by its stamp (own, none, foreign), a reference that is gone or absent falls
  back to the objects stamped with the uid, of which there must be at most one; the request
  log holds no write.
\<close>

theorem Resolve_refines_grid:
  assumes "grid_view env T g" and "trim_space uid \<noteq> []"
  shows "fst (Resolve env T ref uid w) = locate T g ref (trim_space uid) \<and>
    mutations (snd (Resolve env T ref uid w)) = mutations w"
  using locate_eq [OF assms] by simp

text \<open>
  The resource finds its object again: if exactly one object of the Grid carries the uid,
  and the recorded reference, stale as it may be, does not name an object of someone else,
  Resolve returns that object.
\<close>

theorem Resolve_survives_rotation:
  assumes "grid_view env T g" and "trim_space uid \<noteq> []"
    and "filter (\<lambda>x. stamped T x = Some (trim_space uid)) g = [x]"
    and "\<forall>y \<in> set g. object_ref T y = ref \<longrightarrow> stamped T y = Some (trim_space uid)"
  shows "\<exists>out. fst (Resolve env T ref uid w) = Inr (Some x, out) \<and> out \<noteq> OutcomeAdopted \<and> out \<noteq> OutcomeNotFound"
proof (cases "find (\<lambda>y. object_ref T y = ref) g")
  case None
  with assms(3) show ?thesis by (auto simp: locate_eq [OF assms(1,2)] locate_def)
next
  case (Some y)
  then have y: "y \<in> set g" "object_ref T y = ref" by (auto simp: find_Some_iff)
  with assms(4) have s: "stamped T y = Some (trim_space uid)" by blast
  with y(1) have "y \<in> set (filter (\<lambda>x. stamped T x = Some (trim_space uid)) g)" by simp
  with assms(3) have "y = x" by simp
  with Some s assms(3) show ?thesis by (auto simp: locate_eq [OF assms(1,2)] locate_def)
qed

text \<open>
  The ladder trims the uid it compares but the stamp is written untrimmed: an object
  stamped for a uid with surrounding blanks is refused to that same resource as a reused handle.
\<close>

theorem padded_uid_refused:
  assumes "grid_view env T g" and "trim_space uid \<noteq> []" and "trim_space uid \<noteq> uid"
    and "ref \<noteq> []" and "find (\<lambda>x. object_ref T x = ref) g = Some x"
    and "getEA (ot_reflect T x) = Inr (Stamp e uid)"
  shows "fst (Resolve env T ref uid w) = Inl (HandleReuseError (ot_name T) ref (trim_space uid) uid)"
  using assms(3-6) by (simp add: locate_eq [OF assms(1,2)] locate_def stamped_def)

section \<open>A Grid to apply the theorems to\<close>

definition pair_type :: "(string \<times> ea) objtype" where
  "pair_type =
     \<lparr>ot_name = ''pair'', ot_empty = ([], fmempty),
      ot_reflect = (\<lambda>(r, e). PtrTo ''pair'' [(''Ref'', FString r), (''Ea'', FEA e)])\<rparr>"

definition pair_grid :: "(string \<times> ea) list" where
  "pair_grid = [(''new'', Stamp fmempty ''u1''), (''old'', Stamp fmempty ''u2''), (''pad'', Stamp fmempty '' u3'')]"

definition pair_env :: "(string \<times> ea, unit) wapi" where
  "pair_env =
     \<lparr>wapi_get = (\<lambda>h t r. case find (\<lambda>x. fst x = r) pair_grid of
        Some x \<Rightarrow> Inr x | None \<Rightarrow> Inl (NotFoundError ''gone'')),
      wapi_search = (\<lambda>h t q. Inr (filter (\<lambda>x. q = uid_query (the (eaValue (snd x) EAKey))) pair_grid)),
      wapi_def_search = (\<lambda>h q. Inr []), wapi_def_create = (\<lambda>h d. Inr []),
      wapi_mutate = (\<lambda>h m. Inr ([], fmempty)), wapi_delete = (\<lambda>h r. Inr r), kube_patch = (\<lambda>h j. None),
      retry_on_conflict = (\<lambda>f w. f w), wall_clock = (\<lambda>n. 0)\<rparr>"

lemma pair_ref [simp]: "object_ref pair_type x = fst x"
  by (cases x) (simp add: object_ref_def pair_type_def getRef_def)

lemma pair_ea [simp]: "getEA (ot_reflect pair_type x) = Inr (snd x)"
  by (cases x) (simp add: pair_type_def getEA_def)

lemma pair_stamped [simp]: "stamped pair_type x = eaValue (snd x) EAKey"
  by (simp add: stamped_def)

lemma pair_view: "grid_view pair_env pair_type pair_grid"
proof -
  have "ref_ea_shape pair_type"
    by (simp add: ref_ea_shape_def pair_type_def getRef_def getEA_def)
  moreover have "wapi_search pair_env h t (uid_query u) = Inr (filter (\<lambda>x. stamped pair_type x = Some u) pair_grid)" for h t u
    by (auto simp: pair_env_def pair_grid_def uid_query_inj)
  moreover have "case find (\<lambda>x. object_ref pair_type x = r) pair_grid of
        Some x \<Rightarrow> wapi_get pair_env h t r = Inr x
      | None \<Rightarrow> (\<exists>err. wapi_get pair_env h t r = Inl err \<and> isNotFound (Some err))" for h t r
    by (simp add: pair_env_def split: option.split)
  ultimately show ?thesis by (simp add: grid_view_def is_err_def)
qed

lemma trim_uids [simp]: "trim_space ''u1'' = ''u1''" "trim_space '' u3'' = ''u3''"
  by (simp_all add: trim_space_blank trim_space_visible visible_ascii_def)

lemma Resolve_refines_grid_witness:
  "fst (Resolve pair_env pair_type ''old'' ''u1'' init_world) = Inl (HandleReuseError ''pair'' ''old'' ''u1'' ''u2'')"
  using Resolve_refines_grid [OF pair_view, of "''u1''" "''old''" init_world]
  by (simp add: locate_def pair_grid_def) (simp add: pair_type_def)

lemma Resolve_survives_rotation_witness:
  "\<exists>out. fst (Resolve pair_env pair_type ''gone'' ''u1'' init_world) = Inr (Some (''new'', Stamp fmempty ''u1''), out)"
  using Resolve_survives_rotation [OF pair_view, of "''u1''" "(''new'', Stamp fmempty ''u1'')" "''gone''" init_world]
  by (auto simp: pair_grid_def)

lemma padded_uid_refused_witness:
  "fst (Resolve pair_env pair_type ''pad'' '' u3'' init_world) = Inl (HandleReuseError ''pair'' ''pad'' ''u3'' '' u3'')"
  using padded_uid_refused [OF pair_view, of "'' u3''" "''pad''" "(''pad'', Stamp fmempty '' u3'')" fmempty init_world]
  by (simp add: pair_grid_def) (simp add: pair_type_def)

end
