(* ===== verification/ProberConcurrency.thy ===== *)
theory ProberConcurrency
  imports Prober
begin

text \<open>
  Ensure under concurrency: any number of goroutines (numbered by nat) call
  Ensure on endpoints of their choice. Each call is cut at the points where
  another goroutine can run: the first lookup, taking the endpoint's mutex,
  the second lookup under it, the WAPI probe itself, and the store followed by
  the unlock. The clock (monotonic in Go) advances at any time, by any amount.
  The probe's verdict is arbitrary. A ghost history records, newest event
  first, when a probe of an endpoint starts and when its verdict is stored.
\<close>

datatype ppc =
    PIdle
  | PLookup string      \<comment> \<open>before the unlocked lookup\<close>
  | PWaiting string     \<comment> \<open>missed, waiting for the endpoint's mutex\<close>
  | PRecheck string     \<comment> \<open>holds the mutex, before the second lookup\<close>
  | PProbing string     \<comment> \<open>holds the mutex, issuing the WAPI requests\<close>
  | PUnlocking string   \<comment> \<open>stored its verdict, before the deferred unlock\<close>

datatype pevent = Started string int | Stored string int

record psys =
  ps_now :: int
  ps_pc :: "nat \<Rightarrow> ppc"
  ps_lock :: "string \<Rightarrow> nat option"
  ps_cache :: "string \<rightharpoonup> probeCacheEntry"
  ps_hist :: "pevent list"

definition ps_init :: "int \<Rightarrow> psys" where
  "ps_init t = \<lparr>ps_now = t, ps_pc = (\<lambda>_. PIdle), ps_lock = (\<lambda>_. None), ps_cache = snd NewProber, ps_hist = []\<rparr>"

inductive pstep :: "int \<Rightarrow> psys \<Rightarrow> psys \<Rightarrow> bool" for ttl :: int where
  call: "ps_pc s i = PIdle \<Longrightarrow> pstep ttl s (s\<lparr>ps_pc := (ps_pc s)(i := PLookup ep)\<rparr>)"
| lookup_hit: "ps_pc s i = PLookup ep \<Longrightarrow> cache_live (ps_cache s) ep (ps_now s) = Some v \<Longrightarrow>
     pstep ttl s (s\<lparr>ps_pc := (ps_pc s)(i := PIdle)\<rparr>)"
| lookup_miss: "ps_pc s i = PLookup ep \<Longrightarrow> cache_live (ps_cache s) ep (ps_now s) = None \<Longrightarrow>
     pstep ttl s (s\<lparr>ps_pc := (ps_pc s)(i := PWaiting ep)\<rparr>)"
| lock: "ps_pc s i = PWaiting ep \<Longrightarrow> ps_lock s ep = None \<Longrightarrow>
     pstep ttl s (s\<lparr>ps_pc := (ps_pc s)(i := PRecheck ep), ps_lock := (ps_lock s)(ep := Some i)\<rparr>)"
| recheck_hit: "ps_pc s i = PRecheck ep \<Longrightarrow> cache_live (ps_cache s) ep (ps_now s) = Some v \<Longrightarrow>
     pstep ttl s (s\<lparr>ps_pc := (ps_pc s)(i := PIdle), ps_lock := (ps_lock s)(ep := None)\<rparr>)"
| recheck_miss: "ps_pc s i = PRecheck ep \<Longrightarrow> cache_live (ps_cache s) ep (ps_now s) = None \<Longrightarrow>
     pstep ttl s (s\<lparr>ps_pc := (ps_pc s)(i := PProbing ep), ps_hist := Started ep (ps_now s) # ps_hist s\<rparr>)"
| store: "ps_pc s i = PProbing ep \<Longrightarrow>
     pstep ttl s (s\<lparr>ps_pc := (ps_pc s)(i := PUnlocking ep),
       ps_cache := cache_put ttl (ps_cache s) ep verdict (ps_now s),
       ps_hist := Stored ep (ps_now s) # ps_hist s\<rparr>)"
| unlock: "ps_pc s i = PUnlocking ep \<Longrightarrow>
     pstep ttl s (s\<lparr>ps_pc := (ps_pc s)(i := PIdle), ps_lock := (ps_lock s)(ep := None)\<rparr>)"
| tick: "0 \<le> d \<Longrightarrow> pstep ttl s (s\<lparr>ps_now := ps_now s + d\<rparr>)"

inductive preachable :: "int \<Rightarrow> psys \<Rightarrow> bool" for ttl :: int where
  init: "preachable ttl (ps_init t)"
| step: "preachable ttl s \<Longrightarrow> pstep ttl s s' \<Longrightarrow> preachable ttl s'"

section \<open>The mutex\<close>

fun holds_lock :: "string \<Rightarrow> ppc \<Rightarrow> bool" where
  "holds_lock ep (PRecheck e) = (e = ep)"
| "holds_lock ep (PProbing e) = (e = ep)"
| "holds_lock ep (PUnlocking e) = (e = ep)"
| "holds_lock ep _ = False"

definition lock_ok :: "(nat \<Rightarrow> ppc) \<Rightarrow> (string \<Rightarrow> nat option) \<Rightarrow> bool" where
  "lock_ok pc lk \<longleftrightarrow> (\<forall>ep i. holds_lock ep (pc i) \<longleftrightarrow> lk ep = Some i)"

definition lock_inv :: "psys \<Rightarrow> bool" where
  "lock_inv s \<longleftrightarrow> lock_ok (ps_pc s) (ps_lock s)"

lemma lock_ok_keep:
  "lock_ok pc lk \<Longrightarrow> (\<And>ep. holds_lock ep p = holds_lock ep (pc i)) \<Longrightarrow> lock_ok (pc(i := p)) lk"
  by (simp add: lock_ok_def)

lemma lock_ok_acquire:
  "lock_ok pc lk \<Longrightarrow> lk ep = None \<Longrightarrow> (\<And>e. \<not> holds_lock e (pc i)) \<Longrightarrow>
     lock_ok (pc(i := PRecheck ep)) (lk(ep := Some i))"
  by (auto simp: lock_ok_def)

lemma lock_ok_release:
  "lock_ok pc lk \<Longrightarrow> (\<And>e. holds_lock e (pc i) = (e = ep)) \<Longrightarrow> lock_ok (pc(i := PIdle)) (lk(ep := None))"
  unfolding lock_ok_def by (metis fun_upd_apply holds_lock.simps(4) option.distinct(1) option.inject)

lemma pstep_lock_inv: "pstep ttl s s' \<Longrightarrow> lock_inv s \<Longrightarrow> lock_inv s'"
  unfolding lock_inv_def
proof (induction rule: pstep.induct)
  case (lock s i ep)
  then have "lock_ok ((ps_pc s)(i := PRecheck ep)) ((ps_lock s)(ep := Some i))"
    by (intro lock_ok_acquire) simp_all
  then show ?case by (simp add: fun_upd_def)
next
  case (recheck_hit s i ep v)
  then have "lock_ok ((ps_pc s)(i := PIdle)) ((ps_lock s)(ep := None))"
    by (intro lock_ok_release) auto
  then show ?case by (simp add: fun_upd_def)
next
  case (unlock s i ep)
  then have "lock_ok ((ps_pc s)(i := PIdle)) ((ps_lock s)(ep := None))"
    by (intro lock_ok_release) auto
  then show ?case by (simp add: fun_upd_def)
qed (simp_all add: lock_ok_keep)

lemma preachable_lock_inv: "preachable ttl s \<Longrightarrow> lock_inv s"
proof (induction rule: preachable.induct)
  case (init t)
  then show ?case by (simp add: lock_inv_def lock_ok_def ps_init_def)
next
  case (step s s')
  then show ?case by (blast intro: pstep_lock_inv)
qed

section \<open>The history of probes\<close>

fun ev_ep :: "pevent \<Rightarrow> string" where
  "ev_ep (Started ep t) = ep"
| "ev_ep (Stored ep t) = ep"

text \<open>The latest event of an endpoint.\<close>

fun last_ev :: "string \<Rightarrow> pevent list \<Rightarrow> pevent option" where
  "last_ev ep [] = None"
| "last_ev ep (e # es) = (if ev_ep e = ep then Some e else last_ev ep es)"

text \<open>
  A history is well spaced when probes of one endpoint alternate start and
  store, and each start is at least the TTL after the store before it.
\<close>

fun spaced :: "int \<Rightarrow> pevent list \<Rightarrow> bool" where
  "spaced ttl [] = True"
| "spaced ttl (Started ep t # es) =
     (spaced ttl es \<and> (case last_ev ep es of None \<Rightarrow> True | Some (Stored _ e) \<Rightarrow> e + ttl \<le> t | Some (Started _ _) \<Rightarrow> False))"
| "spaced ttl (Stored ep t # es) =
     (spaced ttl es \<and> (case last_ev ep es of Some (Started _ _) \<Rightarrow> True | _ \<Rightarrow> False))"

definition busy :: "(nat \<Rightarrow> ppc) \<Rightarrow> string \<Rightarrow> bool" where
  "busy pc ep \<longleftrightarrow> (\<exists>i. pc i = PProbing ep)"

text \<open>How an endpoint's last event, its cache row and a running probe agree.\<close>

definition ep_ok :: "int \<Rightarrow> bool \<Rightarrow> probeCacheEntry option \<Rightarrow> pevent option \<Rightarrow> bool" where
  "ep_ok ttl b entry ev =
     (case ev of
        None \<Rightarrow> entry = None \<and> \<not> b
      | Some (Started _ _) \<Rightarrow> b
      | Some (Stored _ e) \<Rightarrow> \<not> b \<and> map_option pce_expiresAt entry = Some (e + ttl))"

definition hist_inv :: "int \<Rightarrow> psys \<Rightarrow> bool" where
  "hist_inv ttl s \<longleftrightarrow> spaced ttl (ps_hist s) \<and>
     (\<forall>ep. ep_ok ttl (busy (ps_pc s) ep) (ps_cache s ep) (last_ev ep (ps_hist s)))"

lemma busy_upd_other: "pc i \<noteq> PProbing ep \<Longrightarrow> p \<noteq> PProbing ep \<Longrightarrow> busy (pc(i := p)) ep = busy pc ep"
  unfolding busy_def by (metis fun_upd_apply)

lemma busy_upd_start: "busy (pc(i := PProbing ep)) ep"
  by (auto simp: busy_def intro: exI [of _ i])

lemma busy_upd_stop:
  "(\<And>j. pc j = PProbing ep \<Longrightarrow> j = i) \<Longrightarrow> p \<noteq> PProbing ep \<Longrightarrow> \<not> busy (pc(i := p)) ep"
  by (auto simp: busy_def)

text \<open>Two goroutines never probe the same endpoint at once.\<close>

lemma probing_exclusive:
  assumes "preachable ttl s" and "ps_pc s i = PProbing ep" and "ps_pc s j = PProbing ep"
  shows "i = j"
proof -
  have "lock_ok (ps_pc s) (ps_lock s)"
    using preachable_lock_inv [OF assms(1)] by (simp add: lock_inv_def)
  then have "ps_lock s ep = Some i" "ps_lock s ep = Some j"
    using assms(2,3) by (metis holds_lock.simps(2) lock_ok_def)+
  then show ?thesis by simp
qed

section \<open>The history invariant\<close>

lemma last_ev_ep: "last_ev ep h = Some e \<Longrightarrow> ev_ep e = ep"
  by (induction h) (auto split: if_splits)

text \<open>A step that neither enters nor leaves a probe keeps the history invariant.\<close>

lemma hist_inv_quiet:
  assumes "hist_inv ttl s"
    and "\<And>ep. busy (ps_pc s') ep = busy (ps_pc s) ep"
    and "ps_cache s' = ps_cache s" and "ps_hist s' = ps_hist s"
  shows "hist_inv ttl s'"
  using assms by (simp add: hist_inv_def)

lemma hist_inv_start:
  assumes inv: "hist_inv ttl s" and lk: "lock_inv s"
    and pc: "ps_pc s i = PRecheck ep" and live: "cache_live (ps_cache s) ep (ps_now s) = None"
  shows "hist_inv ttl (s\<lparr>ps_pc := (ps_pc s)(i := PProbing ep), ps_hist := Started ep (ps_now s) # ps_hist s\<rparr>)"
proof -
  have idle: "\<not> busy (ps_pc s) ep"
  proof
    assume "busy (ps_pc s) ep"
    then obtain j where j: "ps_pc s j = PProbing ep" by (auto simp: busy_def)
    then have "i = j"
      using lk pc by (metis holds_lock.simps(1,2) lock_inv_def lock_ok_def option.inject)
    with j pc show False by simp
  qed
  have ok: "ep_ok ttl (busy (ps_pc s) e) (ps_cache s e) (last_ev e (ps_hist s))" for e
    using inv by (simp add: hist_inv_def)
  have "case last_ev ep (ps_hist s) of None \<Rightarrow> True
      | Some (Stored _ e) \<Rightarrow> e + ttl \<le> ps_now s | Some (Started _ _) \<Rightarrow> False"
    using ok [of ep] idle live
    by (auto simp: ep_ok_def cache_live_def split: option.splits pevent.splits if_splits)
  moreover have "ep_ok ttl (busy ((ps_pc s)(i := PProbing ep)) e) (ps_cache s e)
      (last_ev e (Started ep (ps_now s) # ps_hist s))" for e
  proof (cases "e = ep")
    case True
    then show ?thesis by (simp add: ep_ok_def busy_upd_start)
  next
    case False
    then have "busy ((ps_pc s)(i := PProbing ep)) e = busy (ps_pc s) e"
      using pc by (intro busy_upd_other) auto
    with False ok [of e] show ?thesis by simp
  qed
  ultimately show ?thesis
    using inv by (simp add: hist_inv_def)
qed

lemma hist_inv_store:
  assumes inv: "hist_inv ttl s" and lk: "lock_inv s" and pc: "ps_pc s i = PProbing ep"
  shows "hist_inv ttl (s\<lparr>ps_pc := (ps_pc s)(i := PUnlocking ep),
      ps_cache := cache_put ttl (ps_cache s) ep verdict (ps_now s), ps_hist := Stored ep (ps_now s) # ps_hist s\<rparr>)"
proof -
  have only: "ps_pc s j = PProbing ep \<Longrightarrow> j = i" for j
    using lk pc by (metis holds_lock.simps(2) lock_inv_def lock_ok_def option.inject)
  have stop: "\<not> busy ((ps_pc s)(i := PUnlocking ep)) ep"
    using only by (intro busy_upd_stop) auto
  have ok: "ep_ok ttl (busy (ps_pc s) e) (ps_cache s e) (last_ev e (ps_hist s))" for e
    using inv by (simp add: hist_inv_def)
  have "busy (ps_pc s) ep" using pc by (auto simp: busy_def)
  with ok [of ep] have "case last_ev ep (ps_hist s) of Some (Started _ _) \<Rightarrow> True | _ \<Rightarrow> False"
    by (auto simp: ep_ok_def split: option.splits pevent.splits)
  moreover have "ep_ok ttl (busy ((ps_pc s)(i := PUnlocking ep)) e)
      (cache_put ttl (ps_cache s) ep verdict (ps_now s) e) (last_ev e (Stored ep (ps_now s) # ps_hist s))" for e
  proof (cases "e = ep")
    case True
    then show ?thesis using stop by (simp add: ep_ok_def cache_put_def)
  next
    case False
    then have "busy ((ps_pc s)(i := PUnlocking ep)) e = busy (ps_pc s) e"
      using pc by (intro busy_upd_other) auto
    with False ok [of e] show ?thesis by (simp add: cache_put_def)
  qed
  ultimately show ?thesis
    using inv by (simp add: hist_inv_def)
qed

lemma pstep_hist_inv:
  assumes "pstep ttl s s'" and "hist_inv ttl s" and "lock_inv s"
  shows "hist_inv ttl s'"
  using assms
proof (induction rule: pstep.induct)
  case (recheck_miss s i ep)
  then show ?case by (intro hist_inv_start)
next
  case (store s i ep verdict)
  then show ?case by (intro hist_inv_store)
qed (erule hist_inv_quiet; simp add: busy_upd_other)+

lemma preachable_hist_inv: "preachable ttl s \<Longrightarrow> hist_inv ttl s"
proof (induction rule: preachable.induct)
  case (init t)
  then show ?case by (simp add: hist_inv_def ps_init_def NewProber_def ep_ok_def busy_def)
next
  case (step s s')
  then show ?case by (blast intro: pstep_hist_inv preachable_lock_inv)
qed

section \<open>One probe per endpoint and TTL window\<close>

lemma spaced_append: "spaced ttl (xs @ ys) \<Longrightarrow> spaced ttl ys"
proof (induction xs)
  case (Cons x xs)
  then show ?case by (cases x) auto
qed simp

lemma spaced_between:
  assumes "spaced ttl (Started ep t2 # ys @ Started ep t1 # zs)"
  shows "\<exists>e. Stored ep e \<in> set ys \<and> e + ttl \<le> t2"
proof -
  have "case last_ev ep (ys @ Started ep t1 # zs) of None \<Rightarrow> True
      | Some (Stored _ e) \<Rightarrow> e + ttl \<le> t2 | Some (Started _ _) \<Rightarrow> False"
    using assms by simp
  moreover have "last_ev ep (ys @ Started ep t1 # zs) =
      (case last_ev ep ys of None \<Rightarrow> Some (Started ep t1) | Some e \<Rightarrow> Some e)"
    by (induction ys) auto
  moreover have "last_ev ep ys = Some e \<Longrightarrow> e \<in> set ys" for e
    by (induction ys) (auto split: if_splits)
  ultimately show ?thesis
    by (auto dest: last_ev_ep split: option.splits pevent.splits) (metis ev_ep.simps(2) last_ev_ep)
qed

lemma probe_window:
  assumes "preachable ttl s"
    and "ps_hist s = xs @ Started ep t2 # ys @ Started ep t1 # zs"
  shows "\<exists>e. Stored ep e \<in> set ys \<and> e + ttl \<le> t2"
proof -
  have "spaced ttl (ps_hist s)"
    using preachable_hist_inv [OF assms(1)] by (simp add: hist_inv_def)
  then have "spaced ttl (Started ep t2 # ys @ Started ep t1 # zs)"
    unfolding assms(2) by (rule spaced_append)
  then show ?thesis by (rule spaced_between)
qed

end
