(* ===== verification/ProberSpec.thy ===== *)
theory ProberSpec
  imports ProberConcurrency
begin

text \<open>
  What the prerequisite probe guarantees: for one goroutine, the meaning of a
  verdict and its caching; for any number of them, one probe per endpoint at a
  time and per TTL window, and no deadlock.
\<close>

section \<open>One goroutine\<close>

text \<open>
  Ensure caches every verdict, the transient failures too: as long as the entry it left
  has not expired, the next Ensure of that endpoint answers the same and sends no request.
\<close>

theorem Ensure_memoised:
  assumes "trim_space ep \<noteq> []" and "Ensure env ep w = (v, w1)"
    and "trim_space ep' = trim_space ep"
    and "\<And>entry. probe_cache w1 (trim_space ep) = Some entry \<Longrightarrow>
      wall_clock env (clock_reads w1) < pce_expiresAt entry"
  shows "fst (Ensure env ep' w1) = v \<and> calls (snd (Ensure env ep' w1)) = calls w1"
proof -
  obtain entry where e: "probe_cache w1 (trim_space ep) = Some entry" "pce_err entry = v"
    using Ensure_caches [OF assms(1), of env w] assms(2) by auto
  with assms(4) [OF e(1)] have "cache_live (probe_cache w1) (trim_space ep') (wall_clock env (clock_reads w1)) = Some v"
    by (simp add: cache_live_def assms(3))
  with assms(1,3) show ?thesis by (simp add: Ensure_hit)
qed

lemma classify_None [simp]: "\<not> isForbidden None" "\<not> isAlreadyExists None"
  by (simp_all add: isForbidden_def isAlreadyExists_def)

text \<open>
  The verdict of a first probe: usable when the definition is on the Grid, was created, or
  was created by someone else meanwhile; a PrerequisiteError exactly when it is missing and the
  Grid forbids its creation; and the creation request is sent only after the lookup
  found no definition.
\<close>

theorem Ensure_verdict:
  assumes "trim_space ep \<noteq> []" and "probe_cache w (trim_space ep) = None"
  shows "let found = wapi_def_search env (calls w) (fmupd ''name'' EAKey fmempty);
      missing = (case found of Inl err \<Rightarrow> isNotFound (Some err) | Inr ds \<Rightarrow> ds = []);
      created = wapi_def_create env (calls w @ [CDefSearch (fmupd ''name'' EAKey fmempty)]) identityDefinition in
    (fst (Ensure env ep w) = None \<longleftrightarrow>
       (case found of Inr ds \<Rightarrow> ds \<noteq> [] | Inl err \<Rightarrow> False) \<or>
       missing \<and> (case created of Inr _ \<Rightarrow> True | Inl err \<Rightarrow> isAlreadyExists (Some err))) \<and>
    (fst (Ensure env ep w) = Some (PrerequisiteError (trim_space ep)) \<longleftrightarrow>
       missing \<and> (case created of Inr _ \<Rightarrow> False
                  | Inl err \<Rightarrow> isForbidden (Some err) \<and> \<not> isAlreadyExists (Some err))) \<and>
    calls (snd (Ensure env ep w)) = calls w @ CDefSearch (fmupd ''name'' EAKey fmempty) #
      (if missing then [CDefCreate identityDefinition] else [])"
proof -
  have l: "prober_lookup env (trim_space ep) w = (None, w)"
    using assms(2) by (simp add: prober_lookup_def)
  have f: "definitionExists env w =
      (case wapi_def_search env (calls w) (fmupd ''name'' EAKey fmempty) of
         Inl err \<Rightarrow> if isNotFound (Some err) then Inr False else Inl err
       | Inr ds \<Rightarrow> Inr (ds \<noteq> []), log_call (CDefSearch (fmupd ''name'' EAKey fmempty)) w)"
    by (simp add: definitionExists_def def_search_def split: sum.split)
  have c: "createDefinition env w1 =
      (case wapi_def_create env (calls w1) identityDefinition of Inl err \<Rightarrow> Some err | Inr _ \<Rightarrow> None,
       log_call (CDefCreate identityDefinition) w1)" for w1
    by (simp add: createDefinition_def def_create_def split: sum.split)
  have E: "Ensure env ep w =
      (case probe env (trim_space ep) w of (err, w3) \<Rightarrow> (err, prober_store env (trim_space ep) err w3))"
    using assms(1) l by (simp add: Ensure_def Let_def)
  have K: "calls (prober_store env e v w3) = calls w3" for e v w3
    by (simp add: prober_store_def read_clock_def)
  have n: "fst (definitionExists env w) = Inr False \<longleftrightarrow>
      (case wapi_def_search env (calls w) (fmupd ''name'' EAKey fmempty) of
         Inl err \<Rightarrow> isNotFound (Some err) | Inr ds \<Rightarrow> ds = [])"
    by (simp add: f split: sum.split)
  show ?thesis
    using probe_ok_iff [of env "trim_space ep" w] probe_refused_iff [of env "trim_space ep" w "trim_space ep"]
    by (simp add: E split_beta K probe_calls n Let_def) (simp add: f c split: sum.split)
qed

section \<open>Any number of goroutines\<close>

text \<open>
  Two goroutines never probe the same endpoint at the same time.
\<close>

theorem Ensure_exclusive:
  assumes "preachable ttl s" and "ps_pc s i = PProbing ep" and "ps_pc s j = PProbing ep"
  shows "i = j \<and> ps_lock s ep = Some i"
  using probing_exclusive [OF assms] preachable_lock_inv [OF assms(1)] assms(2)
  by (metis holds_lock.simps(2) lock_inv_def lock_ok_def)

text \<open>
  C21: between two probes of one endpoint, however the goroutines interleave, a verdict of that
  endpoint was stored, and the later probe starts no sooner than the TTL after it.
\<close>

theorem Ensure_once_per_ttl:
  assumes "preachable ttl s"
    and "ps_hist s = xs @ Started ep t2 # ys @ Started ep t1 # zs"
  shows "\<exists>e. Stored ep e \<in> set ys \<and> e + ttl \<le> t2"
  using assms by (rule probe_window)

text \<open>
  C24: Ensure does not deadlock: as long as some goroutine is inside Ensure, some goroutine
  can take its next step, whatever the state reached.
\<close>

theorem Ensure_no_deadlock:
  assumes "preachable ttl s" and "ps_pc s i \<noteq> PIdle"
  shows "\<exists>j s'. pstep ttl s s' \<and> ps_pc s j \<noteq> PIdle \<and> ps_pc s' j \<noteq> ps_pc s j"
proof -
  have moves: "\<exists>j s'. pstep ttl s s' \<and> ps_pc s j \<noteq> PIdle \<and> ps_pc s' j \<noteq> ps_pc s j"
    if "pstep ttl s s'" "ps_pc s j \<noteq> PIdle" "ps_pc s' j \<noteq> ps_pc s j" for j s'
    using that by blast
  have held: ?thesis if "holds_lock ep (ps_pc s j)" for ep j
  proof (cases "ps_pc s j")
    case (PRecheck e)
    then show ?thesis
      by (cases "cache_live (ps_cache s) e (ps_now s)")
        (simp_all add: moves [where j = j, OF recheck_miss [where i = j and ep = e]]
          moves [where j = j, OF recheck_hit [where i = j and ep = e]])
  next
    case (PProbing e)
    then show ?thesis by (simp add: moves [where j = j, OF store [where i = j and ep = e]])
  next
    case (PUnlocking e)
    then show ?thesis by (simp add: moves [where j = j, OF unlock [where i = j and ep = e]])
  qed (use that in simp_all)
  have lk: "lock_ok (ps_pc s) (ps_lock s)"
    using preachable_lock_inv [OF assms(1)] by (simp add: lock_inv_def)
  show ?thesis
  proof (cases "ps_pc s i")
    case (PLookup e)
    then show ?thesis
      by (cases "cache_live (ps_cache s) e (ps_now s)")
        (simp_all add: moves [where j = i, OF lookup_miss [where i = i and ep = e]]
          moves [where j = i, OF lookup_hit [where i = i and ep = e]])
  next
    case (PWaiting e)
    show ?thesis
    proof (cases "ps_lock s e")
      case None
      with PWaiting show ?thesis by (simp add: moves [where j = i, OF lock [where i = i and ep = e]])
    next
      case (Some j)
      with lk have "holds_lock e (ps_pc s j)" by (simp add: lock_ok_def)
      then show ?thesis by (rule held)
    qed
  qed (metis assms(2) held holds_lock.simps(1-3))+
qed

section \<open>A run to apply the theorems to\<close>

text \<open>A goroutine that calls Ensure alone on a cold endpoint probes and returns.\<close>

lemma solo_probing:
  assumes "preachable ttl s" "ps_pc s i = PIdle" "ps_lock s ep = None"
    and "cache_live (ps_cache s) ep (ps_now s) = None"
  shows "\<exists>s'. preachable ttl s' \<and> ps_pc s' = (ps_pc s)(i := PProbing ep) \<and>
    ps_lock s' = (ps_lock s)(ep := Some i) \<and> ps_cache s' = ps_cache s \<and> ps_now s' = ps_now s \<and>
    ps_hist s' = Started ep (ps_now s) # ps_hist s"
proof -
  note go = preachable.step
  have 1: "preachable ttl (s\<lparr>ps_pc := (ps_pc s)(i := PLookup ep)\<rparr>)"
    by (rule go [OF assms(1) call]) (rule assms(2))
  have 2: "preachable ttl (s\<lparr>ps_pc := (ps_pc s)(i := PWaiting ep)\<rparr>)"
    using go [OF 1 lookup_miss [of _ i ep]] assms(4) by simp
  have 3: "preachable ttl (s\<lparr>ps_pc := (ps_pc s)(i := PRecheck ep), ps_lock := (ps_lock s)(ep := Some i)\<rparr>)"
    using go [OF 2 lock [of _ i ep]] assms(3) by simp
  let ?s = "s\<lparr>ps_lock := (ps_lock s)(ep := Some i), ps_pc := (ps_pc s)(i := PProbing ep),
    ps_hist := Started ep (ps_now s) # ps_hist s\<rparr>"
  have "preachable ttl ?s"
    using go [OF 3 recheck_miss [of _ i ep]] assms(4) by simp
  then show ?thesis by (intro exI [of _ ?s]) simp
qed

lemma solo_return:
  assumes "preachable ttl s" "ps_pc s i = PProbing ep" and nonneg: "0 \<le> ttl"
  shows "\<exists>s'. preachable ttl s' \<and> ps_pc s' = (ps_pc s)(i := PIdle) \<and>
    ps_lock s' = (ps_lock s)(ep := None) \<and> ps_cache s' = cache_put ttl (ps_cache s) ep v (ps_now s) \<and>
    ps_now s' = ps_now s + ttl \<and> ps_hist s' = Stored ep (ps_now s) # ps_hist s"
proof -
  note go = preachable.step
  have 1: "preachable ttl (s\<lparr>ps_pc := (ps_pc s)(i := PUnlocking ep),
       ps_cache := cache_put ttl (ps_cache s) ep v (ps_now s), ps_hist := Stored ep (ps_now s) # ps_hist s\<rparr>)"
    by (rule go [OF assms(1) store]) (rule assms(2))
  let ?s = "s\<lparr>ps_cache := cache_put ttl (ps_cache s) ep v (ps_now s), ps_hist := Stored ep (ps_now s) # ps_hist s,
    ps_pc := (ps_pc s)(i := PIdle), ps_lock := (ps_lock s)(ep := None),
    ps_now := ps_now s + ttl\<rparr>"
  have "preachable ttl ?s"
    using go [OF go [OF 1 unlock [of _ i ep]] tick [of ttl]] nonneg by simp
  then show ?thesis by (intro exI [of _ ?s]) simp
qed

lemma demo_probing:
  "\<exists>s. preachable 10 s \<and> ps_pc s 0 = PProbing ''g'' \<and>
     ps_hist s = [Started ''g'' 10, Stored ''g'' 0, Started ''g'' 0]"
proof -
  obtain s1 where 1: "preachable 10 s1" "ps_pc s1 = (\<lambda>_. PIdle)(0 := PProbing ''g'')" "ps_now s1 = 0"
    "ps_lock s1 = (\<lambda>_. None)(''g'' := Some 0)" "ps_cache s1 = Map.empty" "ps_hist s1 = [Started ''g'' 0]"
    using solo_probing [OF preachable.init [of 10 0], of 0 "''g''"]
    by (auto simp: ps_init_def NewProber_def cache_live_def)
  obtain s2 where 2: "preachable 10 s2" "ps_pc s2 0 = PIdle" "ps_lock s2 ''g'' = None" "ps_now s2 = 10"
    "ps_cache s2 = cache_put 10 Map.empty ''g'' None 0" "ps_hist s2 = [Stored ''g'' 0, Started ''g'' 0]"
    using solo_return [OF 1(1), of 0 "''g''" None] 1 by auto
  have "cache_live (ps_cache s2) ''g'' (ps_now s2) = None"
    by (simp add: 2 cache_live_def cache_put_def)
  from solo_probing [OF 2(1-3) this] 2 show ?thesis by auto
qed

lemma Ensure_exclusive_witness:
  "\<exists>s. preachable 10 s \<and> ps_pc s 0 = PProbing ''g'' \<and> ps_lock s ''g'' = Some 0"
proof -
  obtain s where s: "preachable 10 s" "ps_pc s 0 = PProbing ''g''"
    using demo_probing by blast
  from Ensure_exclusive [OF s s(2)] s show ?thesis by blast
qed

lemma Ensure_once_per_ttl_witness:
  "\<exists>s e. preachable 10 s \<and> ps_hist s = [Started ''g'' 10, Stored ''g'' 0, Started ''g'' 0] \<and>
     Stored ''g'' e \<in> set [Stored ''g'' 0] \<and> e + 10 \<le> 10"
proof -
  obtain s where s: "preachable 10 s" "ps_hist s = [Started ''g'' 10, Stored ''g'' 0, Started ''g'' 0]"
    using demo_probing by blast
  from Ensure_once_per_ttl [OF s(1), of "[]" "''g''" 10 "[Stored ''g'' 0]" 0 "[]"] s show ?thesis by auto
qed

lemma Ensure_no_deadlock_witness:
  "\<exists>s s' j. preachable 10 s \<and> ps_pc s 0 = PProbing ''g'' \<and> pstep 10 s s' \<and> ps_pc s' j \<noteq> ps_pc s j"
proof -
  obtain s where s: "preachable 10 s" "ps_pc s 0 = PProbing ''g''"
    using demo_probing by blast
  from Ensure_no_deadlock [OF s(1), of 0] s show ?thesis by auto
qed

text \<open>A Grid that refuses the lookup with a 500, then one that lacks the definition and forbids its creation.\<close>

definition probe_env :: "(goerr + EADefinition list) \<Rightarrow> (goerr + string) \<Rightarrow> (unit, unit) wapi" where
  "probe_env found created =
     \<lparr>wapi_get = (\<lambda>h t r. Inl (NotFoundError [])), wapi_search = (\<lambda>h t q. Inr []),
      wapi_def_search = (\<lambda>h q. found), wapi_def_create = (\<lambda>h d. created),
      wapi_mutate = (\<lambda>h m. Inr ()), wapi_delete = (\<lambda>h r. Inr r), kube_patch = (\<lambda>h j. None),
      retry_on_conflict = (\<lambda>f w. f w), wall_clock = (\<lambda>n. int n)\<rparr>"

lemma trim_g [simp]: "trim_space ''g'' = ''g''"
  by (rule trim_space_visible) (simp add: visible_ascii_def)

lemma Ensure_memoised_witness:
  "\<exists>w1. Ensure (probe_env (Inl (TextError ''timeout'')) (Inr [])) ''g'' init_world =
       (Some (Wrapped errCheckDefinitionExists (TextError ''timeout'')), w1) \<and>
     fst (Ensure (probe_env (Inl (TextError ''timeout'')) (Inr [])) ''g'' w1) =
       Some (Wrapped errCheckDefinitionExists (TextError ''timeout'')) \<and>
     calls (snd (Ensure (probe_env (Inl (TextError ''timeout'')) (Inr [])) ''g'' w1)) = calls w1"
proof -
  let ?env = "probe_env (Inl (TextError ''timeout'')) (Inr [])"
  let ?v = "Some (Wrapped errCheckDefinitionExists (TextError ''timeout''))"
  have nf: "\<not> isNotFound (Some (TextError ''timeout''))"
    by (simp add: isNotFound_def wapiErrorPrefix_def)
  have f: "wapi_def_search ?env h q = Inl (TextError ''timeout'')" "wall_clock ?env n = int n" for h q n
    by (simp_all add: probe_env_def)
  obtain w1 where w1: "Ensure ?env ''g'' init_world = (?v, w1)" "probe_cache w1 ''g'' = Some \<lparr>pce_err = ?v, pce_expiresAt = DefaultProbeTTL\<rparr>"
    "clock_reads w1 = 1"
    by (simp add: Ensure_def prober_lookup_def probe_def definitionExists_def def_search_def f nf
        prober_store_def cache_put_def init_world_def read_clock_def)
  have "fst (Ensure ?env ''g'' w1) = ?v \<and> calls (snd (Ensure ?env ''g'' w1)) = calls w1"
    by (rule Ensure_memoised [OF _ w1(1)]) (simp_all add: w1 f DefaultProbeTTL_def)
  with w1(1) show ?thesis by blast
qed

lemma Ensure_verdict_witness:
  "fst (Ensure (probe_env (Inr []) (Inl (TextError (wapiErrorPrefix @ ''403 Forbidden'')))) ''g'' init_world) =
     Some (PrerequisiteError ''g'')"
proof -
  let ?env = "probe_env (Inr []) (Inl (TextError (wapiErrorPrefix @ ''403 Forbidden'')))"
  have "errStatus (wapiErrorPrefix @ ''403 Forbidden'') = Some 403"
    by (rule errStatus_at_start) (simp add: three_digits_def digit_value_def)
  then have "isForbidden (Some (TextError (wapiErrorPrefix @ ''403 Forbidden'')))"
    by (simp add: isForbidden_def)
  moreover have "\<not> isAlreadyExists (Some (TextError (wapiErrorPrefix @ ''403 Forbidden'')))"
    by (simp add: isAlreadyExists_def wapiErrorPrefix_def lower_char_def)
  moreover have cold: "probe_cache init_world (trim_space ''g'') = None" by (simp add: init_world_def)
  moreover have "wapi_def_search ?env h q = Inr []"
    "wapi_def_create ?env h d = Inl (TextError (wapiErrorPrefix @ ''403 Forbidden''))" for h q d
    by (simp_all add: probe_env_def)
  ultimately show ?thesis
    using Ensure_verdict [OF _ cold, of ?env] by (simp add: Let_def)
qed

end
