(* ===== verification/Convergence.thy ===== *)
theory Convergence
  imports DualClient Managed
begin

text \<open>
  internal/clients/convergence: the SOA-serial convergence gate. annotation.go
  keeps the serial of the last DNS write as a JSON annotation on the resource,
  client.go reads zone_auth over HTTP, and gate.go decides whether the next
  read may go to the candidate. Parameters: the HTTP transport, and the text
  level of JSON and of RFC 3339 times (a parser and a printer); the decoding of
  a JSON value into the package's structs is modelled. Serials are 32 bit words.
\<close>

section \<open>Durations as text\<close>

text \<open>time.Duration's String method, for durations that are not negative.\<close>

fun pad_digits :: "nat \<Rightarrow> string \<Rightarrow> string" where
  "pad_digits n s = replicate (n - length s) (CHR 0x30) @ s"

definition fmtFrac :: "nat \<Rightarrow> nat \<Rightarrow> string" where
  "fmtFrac v prec =
     (let ds = rev (dropWhile (\<lambda>c. c = CHR 0x30) (rev (pad_digits prec (show_nat (v mod 10 ^ prec)))))
      in if ds = [] then [] else CHR 0x2E # ds)"

definition Duration_String :: "nat \<Rightarrow> string" where
  "Duration_String u =
     (if u = 0 then ''0s''
      else if u < 10 ^ 3 then show_nat u @ ''ns''
      else if u < 10 ^ 6 then show_nat (u div 10 ^ 3) @ fmtFrac u 3 @ [CHR 0xC2, CHR 0xB5, CHR 0x73]
      else if u < 10 ^ 9 then show_nat (u div 10 ^ 6) @ fmtFrac u 6 @ ''ms''
      else (let secs = u div 10 ^ 9;
                s = show_nat (secs mod 60) @ fmtFrac u 9 @ ''s'';
                mins = secs div 60
            in if mins = 0 then s
               else (let m = show_nat (mins mod 60) @ ''m'' @ s; hours = mins div 60
                     in if hours = 0 then m else show_nat hours @ ''h'' @ m)))"

section \<open>annotation.go\<close>

definition errMarshalAnnotation :: string where
  "errMarshalAnnotation = ''cannot marshal pending-zone-serial annotation''"
definition errUnmarshalAnnotation :: string where
  "errUnmarshalAnnotation = ''cannot unmarshal pending-zone-serial annotation''"
definition PendingZoneSerialAnnotation :: string where
  "PendingZoneSerialAnnotation = ''infobloxnios.crossplane.io/pending-zone-serial''"

record PendingZoneSerial =
  ps_Zone :: string
  ps_Serial :: "32 word"
  ps_Since :: int

text \<open>
  The text level: time_print fails on a year outside 0..9999; time_parse and
  json_parse answer an error's text or a value.
\<close>

record codec =
  time_print :: "int \<Rightarrow> string + string"
  time_parse :: "string \<Rightarrow> string + int"
  json_print :: "json \<Rightarrow> string"
  json_parse :: "string \<Rightarrow> string + json"

text \<open>The annotation's JSON object.\<close>

definition pending_json :: "string \<Rightarrow> int \<Rightarrow> string \<Rightarrow> json" where
  "pending_json since serial zone =
     JObj (fmupd ''since'' (JStr since) (fmupd ''serial'' (JNum serial) (fmupd ''zone'' (JStr zone) fmempty)))"

text \<open>
  Documented: a time that is printed parses back, and so does the JSON text of
  an annotation, which is not empty.
\<close>

definition codec_documented :: "codec \<Rightarrow> bool" where
  "codec_documented cd \<longleftrightarrow>
     (\<forall>t s. time_print cd t = Inr s \<longrightarrow> time_parse cd s = Inr t) \<and>
     (\<forall>since serial zone. 0 \<le> serial \<longrightarrow>
        json_parse cd (json_print cd (pending_json since serial zone)) = Inr (pending_json since serial zone) \<and>
        json_print cd (pending_json since serial zone) \<noteq> [])"

definition ZoneKey :: "string \<Rightarrow> string \<Rightarrow> string" where
  "ZoneKey fqdn view = fqdn @ ''/'' @ view"

definition marshalPending :: "codec \<Rightarrow> PendingZoneSerial \<Rightarrow> goerr + string" where
  "marshalPending cd p =
     (case time_print cd (ps_Since p) of
        Inl e \<Rightarrow> Inl (TextError e)
      | Inr since \<Rightarrow>
          Inr (json_print cd (pending_json since (uint (ps_Serial p)) (ps_Zone p))))"

text \<open>
  Decoding a member into a struct field: a missing member or null leaves the
  field's zero value; a value of another type is an error.
\<close>

definition decode_error :: goerr where
  "decode_error = TextError ''json: cannot unmarshal value into Go struct field''"

definition decode_string :: "(string, json) fmap \<Rightarrow> string \<Rightarrow> goerr + string" where
  "decode_string m k =
     (case fmlookup m k of
        None \<Rightarrow> Inr []
      | Some JNull \<Rightarrow> Inr []
      | Some (JStr s) \<Rightarrow> Inr s
      | Some _ \<Rightarrow> Inl decode_error)"

definition decode_uint32 :: "(string, json) fmap \<Rightarrow> string \<Rightarrow> goerr + 32 word option" where
  "decode_uint32 m k =
     (case fmlookup m k of
        None \<Rightarrow> Inr None
      | Some JNull \<Rightarrow> Inr None
      | Some (JNum n) \<Rightarrow> if 0 \<le> n \<and> n < 2 ^ 32 then Inr (Some (word_of_int n)) else Inl decode_error
      | Some _ \<Rightarrow> Inl decode_error)"

definition zeroTime :: int where
  "zeroTime = - 62135596800 * 10 ^ 9" \<comment> \<open>year 1, relative to 1970\<close>

definition decode_time :: "codec \<Rightarrow> (string, json) fmap \<Rightarrow> string \<Rightarrow> goerr + int" where
  "decode_time cd m k =
     (case fmlookup m k of
        None \<Rightarrow> Inr zeroTime
      | Some JNull \<Rightarrow> Inr zeroTime
      | Some (JStr s) \<Rightarrow> (case time_parse cd s of Inl e \<Rightarrow> Inl (TextError e) | Inr t \<Rightarrow> Inr t)
      | Some _ \<Rightarrow> Inl (TextError ''Time.UnmarshalJSON: input is not a JSON string''))"

definition unmarshalPending :: "codec \<Rightarrow> string \<Rightarrow> goerr + PendingZoneSerial" where
  "unmarshalPending cd raw =
     (case json_parse cd raw of
        Inl e \<Rightarrow> Inl (TextError e)
      | Inr JNull \<Rightarrow> Inr \<lparr>ps_Zone = [], ps_Serial = 0, ps_Since = zeroTime\<rparr>
      | Inr (JObj m) \<Rightarrow>
          (case decode_time cd m ''since'' of
             Inl e \<Rightarrow> Inl e
           | Inr since \<Rightarrow>
               (case decode_string m ''zone'' of
                  Inl e \<Rightarrow> Inl e
                | Inr zone \<Rightarrow>
                    (case decode_uint32 m ''serial'' of
                       Inl e \<Rightarrow> Inl e
                     | Inr serial \<Rightarrow>
                         Inr \<lparr>ps_Zone = zone, ps_Serial = (case serial of None \<Rightarrow> 0 | Some n \<Rightarrow> n),
                              ps_Since = since\<rparr>)))
      | Inr _ \<Rightarrow> Inl decode_error)"

definition SetPendingSerial ::
  "codec \<Rightarrow> 'a mobj_scheme \<Rightarrow> string \<Rightarrow> string \<Rightarrow> 32 word \<Rightarrow> int \<Rightarrow> goerr option \<times> 'a mobj_scheme" where
  "SetPendingSerial cd obj fqdn view serial now =
     (case marshalPending cd \<lparr>ps_Zone = ZoneKey fqdn view, ps_Serial = serial, ps_Since = now\<rparr> of
        Inl err \<Rightarrow> (Some (Wrapped errMarshalAnnotation err), obj)
      | Inr raw \<Rightarrow> (None, obj\<lparr>mo_annotations := fmupd PendingZoneSerialAnnotation raw (mo_annotations obj)\<rparr>))"

text \<open>\<open>Inr None\<close> is ok == false.\<close>

definition GetPendingSerial :: "codec \<Rightarrow> 'a mobj_scheme \<Rightarrow> goerr + PendingZoneSerial option" where
  "GetPendingSerial cd obj =
     (case fmlookup (mo_annotations obj) PendingZoneSerialAnnotation of
        None \<Rightarrow> Inr None
      | Some raw \<Rightarrow>
          if raw = [] then Inr None
          else (case unmarshalPending cd raw of
                  Inl err \<Rightarrow> Inl (Wrapped errUnmarshalAnnotation err)
                | Inr p \<Rightarrow> Inr (Some p)))"

definition ClearPendingSerial :: "'a mobj_scheme \<Rightarrow> 'a mobj_scheme" where
  "ClearPendingSerial obj =
     (if mo_annotations obj = fmempty then obj
      else if fmlookup (mo_annotations obj) PendingZoneSerialAnnotation = None then obj
      else obj\<lparr>mo_annotations := fmdrop PendingZoneSerialAnnotation (mo_annotations obj)\<rparr>)"

section \<open>client.go\<close>

definition errBuildRequest :: string where "errBuildRequest = ''cannot build zone_auth WAPI request''"
definition errDoRequest :: string where
  "errDoRequest = ''cannot reach candidate/primary WAPI endpoint for zone_auth query''"
definition errReadBody :: string where "errReadBody = ''cannot read zone_auth WAPI response body''"
definition errDecodeBody :: string where "errDecodeBody = ''cannot decode zone_auth WAPI response''"
definition errUnexpectedHTTP :: string where
  "errUnexpectedHTTP = ''zone_auth WAPI query returned an unexpected HTTP status''"

record MemberSerial =
  ms_GridPrimary :: string
  ms_Serial :: "32 word"

record zoneAuthObject =
  za_Ref :: string
  za_SOASerialNumber :: "32 word option"
  za_MemberSOASerials :: "MemberSerial list" \<comment> \<open>nil and empty alike: only the length is read\<close>

record zclient =
  zc_baseURL :: string
  zc_username :: string
  zc_password :: string
  zc_insecure :: bool

definition newClient :: "string \<Rightarrow> string \<Rightarrow> string \<Rightarrow> string \<Rightarrow> string \<Rightarrow> string \<Rightarrow> bool \<Rightarrow> zclient" where
  "newClient scheme host port version username password sslVerify =
     \<lparr>zc_baseURL = scheme @ ''://'' @ host @ '':'' @ port @ ''/wapi/'' @ version,
      zc_username = username, zc_password = password, zc_insecure = (\<not> sslVerify)\<rparr>"

definition NewZoneClient :: "string \<Rightarrow> string \<Rightarrow> string \<Rightarrow> string \<Rightarrow> string \<Rightarrow> bool \<Rightarrow> zclient" where
  "NewZoneClient host port version username password sslVerify =
     newClient ''https'' host port version username password sslVerify"

definition NewClientWithScheme ::
  "string \<Rightarrow> string \<Rightarrow> string \<Rightarrow> string \<Rightarrow> string \<Rightarrow> string \<Rightarrow> bool \<Rightarrow> zclient" where
  "NewClientWithScheme scheme host port version username password sslVerify =
     newClient scheme host port version username password sslVerify"

text \<open>url.QueryEscape and url.Values.Encode (keys in sorted order).\<close>

definition hex_digit :: "nat \<Rightarrow> char" where
  "hex_digit n = (if n < 10 then char_of (48 + n) else char_of (55 + n))"

definition url_unreserved :: "char \<Rightarrow> bool" where
  "url_unreserved c =
     (let n = of_char c :: nat in
      (48 \<le> n \<and> n \<le> 57) \<or> (65 \<le> n \<and> n \<le> 90) \<or> (97 \<le> n \<and> n \<le> 122) \<or>
      n = 45 \<or> n = 95 \<or> n = 46 \<or> n = 126)"

fun QueryEscape :: "string \<Rightarrow> string" where
  "QueryEscape [] = []"
| "QueryEscape (c # cs) =
     (if url_unreserved c then c # QueryEscape cs
      else if c = CHR 0x20 then CHR 0x2B # QueryEscape cs
      else CHR 0x25 # hex_digit (of_char c div 16) # hex_digit (of_char c mod 16) # QueryEscape cs)"

definition encode_pair :: "string \<times> string \<Rightarrow> string" where
  "encode_pair kv = QueryEscape (fst kv) @ ''='' @ QueryEscape (snd kv)"

definition zone_query :: "string \<Rightarrow> string \<Rightarrow> string \<Rightarrow> string" where
  "zone_query fqdn view returnFields =
     join_with ''&'' (map encode_pair
       ([(''_return_fields'', returnFields), (''fqdn'', fqdn)]
        @ (if view \<noteq> [] then [(''view'', view)] else [])))"

text \<open>
  The transport: building a request may fail, sending it may fail, and the body
  of a response may fail to be read. The n-th request is request n.
\<close>

record http_request =
  hr_url :: string
  hr_user :: string
  hr_pass :: string

record transport =
  http_new :: "string \<Rightarrow> goerr option"
  http_do :: "nat \<Rightarrow> http_request \<Rightarrow> goerr + (nat \<times> (goerr + string))"

record zworld =
  zw_requests :: "http_request list"
  zw_clock :: nat
  zw_breaker :: "CircuitBreaker option"

fun decode_list :: "('a \<Rightarrow> goerr + 'b) \<Rightarrow> 'a list \<Rightarrow> goerr + 'b list" where
  "decode_list f [] = Inr []"
| "decode_list f (x # xs) =
     (case f x of
        Inl e \<Rightarrow> Inl e
      | Inr y \<Rightarrow> (case decode_list f xs of Inl e \<Rightarrow> Inl e | Inr ys \<Rightarrow> Inr (y # ys)))"

definition decodeMember :: "json \<Rightarrow> goerr + MemberSerial" where
  "decodeMember j =
     (case j of
        JNull \<Rightarrow> Inr \<lparr>ms_GridPrimary = [], ms_Serial = 0\<rparr>
      | JObj m \<Rightarrow>
          (case decode_string m ''grid_primary'' of
             Inl e \<Rightarrow> Inl e
           | Inr g \<Rightarrow>
               (case decode_uint32 m ''serial'' of
                  Inl e \<Rightarrow> Inl e
                | Inr n \<Rightarrow> Inr \<lparr>ms_GridPrimary = g, ms_Serial = (case n of None \<Rightarrow> 0 | Some k \<Rightarrow> k)\<rparr>))
      | _ \<Rightarrow> Inl decode_error)"

definition decodeZone :: "json \<Rightarrow> goerr + zoneAuthObject" where
  "decodeZone j =
     (case j of
        JNull \<Rightarrow> Inr \<lparr>za_Ref = [], za_SOASerialNumber = None, za_MemberSOASerials = []\<rparr>
      | JObj m \<Rightarrow>
          (case decode_string m ''_ref'' of
             Inl e \<Rightarrow> Inl e
           | Inr r \<Rightarrow>
               (case decode_uint32 m ''soa_serial_number'' of
                  Inl e \<Rightarrow> Inl e
                | Inr n \<Rightarrow>
                    (case (case fmlookup m ''member_soa_serials'' of
                             None \<Rightarrow> Inr []
                           | Some JNull \<Rightarrow> Inr []
                           | Some (JArr xs) \<Rightarrow> decode_list decodeMember xs
                           | Some _ \<Rightarrow> Inl decode_error) of
                       Inl e \<Rightarrow> Inl e
                     | Inr ms \<Rightarrow> Inr \<lparr>za_Ref = r, za_SOASerialNumber = n, za_MemberSOASerials = ms\<rparr>)))
      | _ \<Rightarrow> Inl decode_error)"

definition decodeZones :: "codec \<Rightarrow> string \<Rightarrow> goerr + zoneAuthObject list" where
  "decodeZones cd body =
     (case json_parse cd body of
        Inl e \<Rightarrow> Inl (TextError e)
      | Inr JNull \<Rightarrow> Inr []
      | Inr (JArr xs) \<Rightarrow> decode_list decodeZone xs
      | Inr _ \<Rightarrow> Inl decode_error)"

definition queryZoneAuth ::
  "codec \<Rightarrow> transport \<Rightarrow> zclient \<Rightarrow> string \<Rightarrow> string \<Rightarrow> string \<Rightarrow> zworld \<Rightarrow>
     (goerr + zoneAuthObject list) \<times> zworld" where
  "queryZoneAuth cd tr c fqdn view returnFields w =
     (let reqURL = zc_baseURL c @ ''/zone_auth?'' @ zone_query fqdn view returnFields in
      case http_new tr reqURL of
        Some err \<Rightarrow> (Inl (Wrapped errBuildRequest err), w)
      | None \<Rightarrow>
          (let req = \<lparr>hr_url = reqURL, hr_user = zc_username c, hr_pass = zc_password c\<rparr>;
               w1 = w\<lparr>zw_requests := zw_requests w @ [req]\<rparr>
           in case http_do tr (length (zw_requests w)) req of
                Inl err \<Rightarrow> (Inl (Wrapped errDoRequest err), w1)
              | Inr (status, bodyRead) \<Rightarrow>
                  (case bodyRead of
                     Inl err \<Rightarrow> (Inl (Wrapped errReadBody err), w1)
                   | Inr body \<Rightarrow>
                       if status \<noteq> 200 then
                         (Inl (TextError (errUnexpectedHTTP @ '': '' @ show_nat status @ '': '' @ trim_space body)), w1)
                       else (case decodeZones cd body of
                               Inl err \<Rightarrow> (Inl (Wrapped errDecodeBody err), w1)
                             | Inr objs \<Rightarrow> (Inr objs, w1)))))"

text \<open>\<open>Inr None\<close> is found == false.\<close>

definition ReadZoneSerial ::
  "codec \<Rightarrow> transport \<Rightarrow> zclient \<Rightarrow> string \<Rightarrow> string \<Rightarrow> zworld \<Rightarrow> (goerr + 32 word option) \<times> zworld" where
  "ReadZoneSerial cd tr c fqdn view w =
     (case queryZoneAuth cd tr c fqdn view ''soa_serial_number'' w of
        (Inl err, w1) \<Rightarrow> (Inl err, w1)
      | (Inr objs, w1) \<Rightarrow>
          (case objs of
             [] \<Rightarrow> (Inr None, w1)
           | o1 # _ \<Rightarrow>
               (case za_SOASerialNumber o1 of
                  None \<Rightarrow> (Inr None, w1)
                | Some n \<Rightarrow> (Inr (Some n), w1))))"

definition ReadMemberSerials ::
  "codec \<Rightarrow> transport \<Rightarrow> zclient \<Rightarrow> string \<Rightarrow> string \<Rightarrow> zworld \<Rightarrow> (goerr + MemberSerial list) \<times> zworld" where
  "ReadMemberSerials cd tr c fqdn view w =
     (case queryZoneAuth cd tr c fqdn view ''member_soa_serials'' w of
        (Inl err, w1) \<Rightarrow> (Inl err, w1)
      | (Inr objs, w1) \<Rightarrow>
          (case objs of
             [] \<Rightarrow> (Inr [], w1)
           | o1 # _ \<Rightarrow> (Inr (za_MemberSOASerials o1), w1)))"

fun after_dot :: "string \<Rightarrow> string option" where
  "after_dot [] = None"
| "after_dot (c # cs) = (if c = CHR 0x2E then Some cs else after_dot cs)"

definition ZoneFQDNFromRecordName :: "string \<Rightarrow> string" where
  "ZoneFQDNFromRecordName name = (case after_dot name of None \<Rightarrow> name | Some rest \<Rightarrow> rest)"

section \<open>gate.go\<close>

definition ModeSOASerial :: string where "ModeSOASerial = ''soaSerial''"
definition ModePrimaryOnly :: string where "ModePrimaryOnly = ''primaryOnly''"

definition ReasonCandidateReady :: string where "ReasonCandidateReady = ''CandidateReady''"
definition ReasonWaitingForReplication :: string where "ReasonWaitingForReplication = ''WaitingForReplication''"
definition ReasonConvergenceTimeout :: string where "ReasonConvergenceTimeout = ''ConvergenceTimeout''"
definition ReasonCandidateDegraded :: string where "ReasonCandidateDegraded = ''CandidateDegraded''"
definition ReasonPrimaryOnly :: string where "ReasonPrimaryOnly = ''PrimaryOnly''"
definition ReadRoutingConditionType :: string where "ReadRoutingConditionType = ''ReadRouting''"
definition DefaultTimeout :: int where "DefaultTimeout = 60 * 10 ^ 9"

record RouteDecision =
  UseCandidate :: bool
  rd_Reason :: string
  rd_Message :: string
  rd_Warning :: bool

definition ReadRoutingCondition :: "RouteDecision \<Rightarrow> string \<times> condition" where
  "ReadRoutingCondition d =
     (ReadRoutingConditionType,
      \<lparr>cond_status = (if UseCandidate d then ConditionTrue else ConditionFalse),
       cond_reason = rd_Reason d, cond_message = rd_Message d\<rparr>)"

definition EffectiveMode :: "string \<Rightarrow> bool \<Rightarrow> string \<times> bool" where
  "EffectiveMode configuredMode isIPAM =
     (if \<not> isIPAM then (configuredMode, False)
      else (ModePrimaryOnly, configuredMode = ModeSOASerial))"

record Gate =
  g_Primary :: "zclient option"
  g_Candidate :: "zclient option"
  g_Hostname :: string

text \<open>The environment of the gate: text codec, transport and clock.\<close>

record genv =
  ge_codec :: codec
  ge_transport :: transport
  ge_clock :: "nat \<Rightarrow> int"

definition gate_now :: "genv \<Rightarrow> zworld \<Rightarrow> int \<times> zworld" where
  "gate_now ge w = (ge_clock ge (zw_clock w), w\<lparr>zw_clock := Suc (zw_clock w)\<rparr>)"

text \<open>g.Breaker is shared with the dual client, so the world holds it.\<close>

definition gate_breaker_open :: "genv \<Rightarrow> zworld \<Rightarrow> bool \<times> zworld" where
  "gate_breaker_open ge w =
     (case zw_breaker w of
        None \<Rightarrow> (False, w)
      | Some b \<Rightarrow>
          (if openUntil b = None then (False, w)
           else (case gate_now ge w of (now, w1) \<Rightarrow>
             (case IsOpen now b of (r, b1) \<Rightarrow> (r, w1\<lparr>zw_breaker := Some b1\<rparr>)))))"

definition gate_success :: "zworld \<Rightarrow> zworld" where
  "gate_success w = w\<lparr>zw_breaker := map_option RecordSuccess (zw_breaker w)\<rparr>"

definition gate_failure :: "genv \<Rightarrow> zworld \<Rightarrow> zworld" where
  "gate_failure ge w =
     (case zw_breaker w of
        None \<Rightarrow> w
      | Some b \<Rightarrow>
          (if consecutiveFailures b + 1 \<ge> cb_threshold b then
             (case gate_now ge w of (now, w1) \<Rightarrow> w1\<lparr>zw_breaker := Some (snd (RecordFailure now b))\<rparr>)
           else w\<lparr>zw_breaker := Some (snd (RecordFailure 0 b))\<rparr>))" \<comment> \<open>below the threshold the clock is not read\<close>

definition RecordWrite ::
  "genv \<Rightarrow> Gate \<Rightarrow> 'a mobj_scheme \<Rightarrow> string \<Rightarrow> string \<Rightarrow> zworld \<Rightarrow> goerr option \<times> 'a mobj_scheme \<times> zworld" where
  "RecordWrite ge g obj fqdn view w =
     (case g_Primary g of
        None \<Rightarrow> (None, obj, w)
      | Some primary \<Rightarrow>
          (case ReadZoneSerial (ge_codec ge) (ge_transport ge) primary fqdn view w of
             (Inl err, w1) \<Rightarrow> (Some err, obj, w1)
           | (Inr None, w1) \<Rightarrow> (None, obj, w1)
           | (Inr (Some serial), w1) \<Rightarrow>
               (case gate_now ge w1 of (now, w2) \<Rightarrow>
                 (case SetPendingSerial (ge_codec ge) obj fqdn view serial now of
                    (e, obj1) \<Rightarrow> (e, obj1, w2)))))"

definition evaluateStructural :: "genv \<Rightarrow> Gate \<Rightarrow> string \<Rightarrow> zworld \<Rightarrow> RouteDecision option \<times> zworld" where
  "evaluateStructural ge g mode w =
     (if mode = ModePrimaryOnly then
        (Some \<lparr>UseCandidate = False, rd_Reason = ReasonPrimaryOnly,
               rd_Message = ''convergence mode is primaryOnly for this resource'', rd_Warning = False\<rparr>, w)
      else if g_Candidate g = None then
        (Some \<lparr>UseCandidate = False, rd_Reason = ReasonPrimaryOnly,
               rd_Message = ''no read endpoint configured'', rd_Warning = False\<rparr>, w)
      else (case gate_breaker_open ge w of
        (True, w1) \<Rightarrow>
          (Some \<lparr>UseCandidate = False, rd_Reason = ReasonCandidateDegraded,
                 rd_Message = ''candidate read circuit breaker is open after repeated failures; routing to primary'',
                 rd_Warning = True\<rparr>, w1)
      | (False, w1) \<Rightarrow> (None, w1)))"

definition evaluatePending :: "codec \<Rightarrow> 'a mobj_scheme \<Rightarrow> RouteDecision + PendingZoneSerial" where
  "evaluatePending cd obj =
     (case GetPendingSerial cd obj of
        Inl err \<Rightarrow>
          Inl \<lparr>UseCandidate = False, rd_Reason = ReasonWaitingForReplication,
               rd_Message = ''pending-zone-serial annotation is unreadable; routing to primary until the next write resets it: '' @ err_text err,
               rd_Warning = True\<rparr>
      | Inr None \<Rightarrow>
          Inl \<lparr>UseCandidate = True, rd_Reason = ReasonCandidateReady,
               rd_Message = ''no pending write; reading from candidate'', rd_Warning = False\<rparr>
      | Inr (Some pending) \<Rightarrow> Inr pending)"

text \<open>time.Time.Sub saturates only past 292 years; elapsed is the exact difference.\<close>

definition evaluateTimeout ::
  "genv \<Rightarrow> 'a mobj_scheme \<Rightarrow> PendingZoneSerial \<Rightarrow> int \<Rightarrow> zworld \<Rightarrow>
     RouteDecision option \<times> 'a mobj_scheme \<times> zworld" where
  "evaluateTimeout ge obj pending timeout0 w =
     (let timeout = (if timeout0 \<le> 0 then DefaultTimeout else timeout0) in
      case gate_now ge w of (now, w1) \<Rightarrow>
        (if now - ps_Since pending > timeout then
           (Some \<lparr>UseCandidate = False, rd_Reason = ReasonConvergenceTimeout,
                  rd_Message = ''candidate did not reach serial '' @ show_nat (unat (ps_Serial pending))
                    @ '' for zone '' @ ps_Zone pending @ '' within '' @ Duration_String (nat timeout)
                    @ ''; falling back to primary'',
                  rd_Warning = True\<rparr>, ClearPendingSerial obj, w1)
         else (None, obj, w1)))"

definition decideFromMemberSerial ::
  "'a mobj_scheme \<Rightarrow> PendingZoneSerial \<Rightarrow> MemberSerial \<Rightarrow> zworld \<Rightarrow>
     RouteDecision \<times> 'a mobj_scheme \<times> zworld" where
  "decideFromMemberSerial obj pending m w =
     (if ms_Serial m \<ge> ps_Serial pending then
        (\<lparr>UseCandidate = True, rd_Reason = ReasonCandidateReady,
          rd_Message = ''candidate has caught up to the pending write'', rd_Warning = False\<rparr>,
         ClearPendingSerial obj, gate_success w)
      else
        (\<lparr>UseCandidate = False, rd_Reason = ReasonWaitingForReplication,
          rd_Message = ''candidate serial '' @ show_nat (unat (ms_Serial m))
            @ '' has not yet caught up to pending write serial '' @ show_nat (unat (ps_Serial pending))
            @ '' for zone '' @ ps_Zone pending,
          rd_Warning = False\<rparr>, obj, gate_success w))"

definition evaluateCandidateSerial ::
  "genv \<Rightarrow> Gate \<Rightarrow> zclient \<Rightarrow> 'a mobj_scheme \<Rightarrow> string \<Rightarrow> string \<Rightarrow> PendingZoneSerial \<Rightarrow> zworld \<Rightarrow>
     RouteDecision \<times> 'a mobj_scheme \<times> zworld" where
  "evaluateCandidateSerial ge g candidate obj fqdn view pending w =
     (case ReadMemberSerials (ge_codec ge) (ge_transport ge) candidate fqdn view w of
        (Inl err, w1) \<Rightarrow>
          (\<lparr>UseCandidate = False, rd_Reason = ReasonCandidateDegraded,
            rd_Message = ''candidate WAPI is unreachable or returned an error; routing to primary: '' @ err_text err,
            rd_Warning = True\<rparr>, obj, gate_failure ge w1)
      | (Inr members, w1) \<Rightarrow>
          if length members = 0 then
            (\<lparr>UseCandidate = False, rd_Reason = ReasonPrimaryOnly,
              rd_Message = ''zone '' @ ZoneKey fqdn view
                @ '' is not served by grid DNS (not found, or no grid_primary assigned); routing to primary'',
              rd_Warning = True\<rparr>, obj, w1)
          else (case List.find (\<lambda>m. ms_GridPrimary m = g_Hostname g) members of
            Some m \<Rightarrow> decideFromMemberSerial obj pending m w1
          | None \<Rightarrow>
              (\<lparr>UseCandidate = False, rd_Reason = ReasonWaitingForReplication,
                rd_Message = ''candidate hostname '' @ g_Hostname g
                  @ '' not present in member_soa_serials yet; routing to primary'',
                rd_Warning = False\<rparr>, obj, gate_success w1)))"

definition Evaluate ::
  "genv \<Rightarrow> Gate \<Rightarrow> 'a mobj_scheme \<Rightarrow> string \<Rightarrow> string \<Rightarrow> string \<Rightarrow> int \<Rightarrow> zworld \<Rightarrow>
     RouteDecision \<times> 'a mobj_scheme \<times> zworld" where
  "Evaluate ge g obj fqdn view mode timeout w =
     (case evaluateStructural ge g mode w of
        (Some d, w1) \<Rightarrow> (d, obj, w1)
      | (None, w1) \<Rightarrow>
          (case evaluatePending (ge_codec ge) obj of
             Inl d \<Rightarrow> (d, obj, w1)
           | Inr pending \<Rightarrow>
               (case evaluateTimeout ge obj pending timeout w1 of
                  (Some d, obj1, w2) \<Rightarrow> (d, obj1, w2)
                | (None, obj1, w2) \<Rightarrow>
                    evaluateCandidateSerial ge g (the (g_Candidate g)) obj1 fqdn view pending w2)))"

end
