(* ===== verification/ConvergenceSpec.thy ===== *)
theory ConvergenceSpec
  imports Convergence
begin

text \<open>
  What the convergence gate guarantees: when a read may go to the candidate,
  what a write's watermark does to the next reads, what a timeout leaves
  behind, and how serials are compared.
\<close>

section \<open>The annotation as a codec\<close>

locale watermark_store =
  fixes trusted :: bool and put :: "'w \<Rightarrow> 'o \<Rightarrow> 'o option" and get :: "'o \<Rightarrow> 'e + 'w option" and clear :: "'o \<Rightarrow> 'o"
  assumes get_put: "trusted \<Longrightarrow> put m x = Some y \<Longrightarrow> get y = Inr (Some m)"
    and get_clear: "get (clear x) = Inr None"
    and clear_put: "put m x = Some y \<Longrightarrow> clear y = clear x"
begin

lemma last_write_wins: "trusted \<Longrightarrow> put m x = Some y \<Longrightarrow> put n y = Some z \<Longrightarrow> get z = Inr (Some n) \<and> clear z = clear x"
  using get_put clear_put by metis

lemma clear_after_put: "put m x = Some y \<Longrightarrow> get (clear y) = Inr None"
  by (rule get_clear)

end

lemma unmarshal_marshal:
  assumes "codec_documented cd" and "marshalPending cd p = Inr raw"
  shows "unmarshalPending cd raw = Inr p" and "raw \<noteq> []"
proof -
  obtain s where s: "time_print cd (ps_Since p) = Inr s" "time_parse cd s = Inr (ps_Since p)"
    using assms by (auto simp: marshalPending_def codec_documented_def split: sum.splits)
  have bound: "uint (ps_Serial p) < 4294967296" using uint_lt2p [of "ps_Serial p"] by simp
  have j: "json_parse cd (json_print cd (pending_json a (uint n) z)) = Inr (pending_json a (uint n) z)"
    "json_print cd (pending_json a (uint n) z) \<noteq> []" for a z and n :: "32 word"
    using assms(1) by (simp_all add: codec_documented_def)
  show "unmarshalPending cd raw = Inr p" "raw \<noteq> []"
    using assms(2) s j bound
    by (auto simp: marshalPending_def unmarshalPending_def pending_json_def decode_time_def decode_string_def
        decode_uint32_def)
qed

definition put_pending :: "codec \<Rightarrow> string \<Rightarrow> string \<Rightarrow> 32 word \<times> int \<Rightarrow> 'a mobj_scheme \<Rightarrow> 'a mobj_scheme option" where
  "put_pending cd fqdn view m obj =
     (case SetPendingSerial cd obj fqdn view (fst m) (snd m) of (None, obj1) \<Rightarrow> Some obj1 | _ \<Rightarrow> None)"

lemma Get_Set:
  assumes "codec_documented cd" and "SetPendingSerial cd obj fqdn view serial now = (None, obj1)"
  shows "GetPendingSerial cd obj1 = Inr (Some \<lparr>ps_Zone = ZoneKey fqdn view, ps_Serial = serial, ps_Since = now\<rparr>)"
  using assms(2) unmarshal_marshal [OF assms(1)]
  by (auto simp: SetPendingSerial_def GetPendingSerial_def split: sum.splits)

lemma Clear_annotations:
  "mo_annotations (ClearPendingSerial obj) = fmdrop PendingZoneSerialAnnotation (mo_annotations obj)"
  by (auto simp: ClearPendingSerial_def fmdrop_idle' intro: fmap_ext)

lemma Get_Clear [simp]: "GetPendingSerial cd (ClearPendingSerial obj) = Inr None"
  by (simp add: GetPendingSerial_def Clear_annotations)

lemma Clear_Set:
  assumes "SetPendingSerial cd obj fqdn view serial now = (None, obj1)"
  shows "ClearPendingSerial obj1 = ClearPendingSerial obj"
proof -
  obtain raw where "obj1 = obj\<lparr>mo_annotations := fmupd PendingZoneSerialAnnotation raw (mo_annotations obj)\<rparr>"
    using assms by (auto simp: SetPendingSerial_def split: sum.splits)
  moreover have "fmdrop k (fmupd k v m) = fmdrop k m" for k v and m :: "(string, string) fmap"
    by (rule fmap_ext) simp
  moreover have "fmdrop k m = m" if "fmlookup m k = None" for k and m :: "(string, string) fmap"
    using that by (intro fmap_ext) auto
  ultimately show ?thesis
    by (cases "fmlookup (mo_annotations obj) PendingZoneSerialAnnotation = None")
      (auto simp: ClearPendingSerial_def)
qed

interpretation pending: watermark_store "codec_documented cd" "put_pending cd fqdn view"
  "\<lambda>obj. map_sum id (map_option (\<lambda>p. (ps_Serial p, ps_Since p))) (GetPendingSerial cd obj)"
  ClearPendingSerial
  for cd fqdn view
proof
  fix m :: "32 word \<times> int" and x y :: "'a mobj_scheme"
  assume put: "put_pending cd fqdn view m x = Some y"
  then have set: "SetPendingSerial cd x fqdn view (fst m) (snd m) = (None, y)"
    by (auto simp: put_pending_def split: prod.splits option.splits)
  show "ClearPendingSerial y = ClearPendingSerial x" by (rule Clear_Set [OF set])
  assume "codec_documented cd"
  from Get_Set [OF this set]
  show "map_sum id (map_option (\<lambda>p. (ps_Serial p, ps_Since p))) (GetPendingSerial cd y) = Inr (Some m)"
    by simp
qed simp

section \<open>Routing\<close>

lemma evaluateStructural_None:
  "fst (evaluateStructural ge g mode w) = None \<longleftrightarrow>
     mode \<noteq> ModePrimaryOnly \<and> g_Candidate g \<noteq> None \<and> \<not> fst (gate_breaker_open ge w)"
  by (simp add: evaluateStructural_def split_beta split: bool.split)

lemma evaluateStructural_Some: "fst (evaluateStructural ge g mode w) = Some d \<Longrightarrow> \<not> UseCandidate d"
  by (auto simp: evaluateStructural_def split_beta split: if_splits bool.splits)

lemma gate_frame [simp]:
  "zw_requests (snd (gate_now ge w)) = zw_requests w"
  "zw_requests (snd (gate_breaker_open ge w)) = zw_requests w"
  "zw_requests (snd (evaluateStructural ge g mode w)) = zw_requests w"
  "zw_requests (gate_success w) = zw_requests w"
  by (simp_all add: gate_now_def gate_breaker_open_def evaluateStructural_def gate_success_def split_beta
      split: option.split bool.split)

lemma evaluateTimeout_not:
  "fst (evaluateTimeout ge obj p timeout w) = Some d \<Longrightarrow> \<not> UseCandidate d"
  "fst (evaluateTimeout ge obj p timeout w) = None \<Longrightarrow> fst (snd (evaluateTimeout ge obj p timeout w)) = obj"
  by (auto simp: evaluateTimeout_def Let_def split_beta split: if_splits)

lemma evaluateTimeout_requests: "zw_requests (snd (snd (evaluateTimeout ge obj p timeout w))) = zw_requests w"
  using gate_frame(1) [of ge w] by (simp add: evaluateTimeout_def Let_def split_beta)

lemma evaluateCandidateSerial_use:
  assumes "evaluateCandidateSerial ge g c obj fqdn view p w = (d, obj', w')" and "UseCandidate d"
  shows "\<exists>ms m. fst (ReadMemberSerials (ge_codec ge) (ge_transport ge) c fqdn view w) = Inr ms \<and>
    m \<in> set ms \<and> ms_GridPrimary m = g_Hostname g \<and> ps_Serial p \<le> ms_Serial m \<and> obj' = ClearPendingSerial obj"
proof -
  obtain r w1 where r: "ReadMemberSerials (ge_codec ge) (ge_transport ge) c fqdn view w = (r, w1)"
    by (cases "ReadMemberSerials (ge_codec ge) (ge_transport ge) c fqdn view w")
  show ?thesis
  proof (cases r)
    case (Inl e)
    with assms r show ?thesis by (auto simp: evaluateCandidateSerial_def)
  next
    case (Inr ms)
    show ?thesis
    proof (cases "List.find (\<lambda>m. ms_GridPrimary m = g_Hostname g) ms")
      case None
      with assms r Inr show ?thesis by (auto simp: evaluateCandidateSerial_def split: if_splits)
    next
      case (Some m)
      then have "m \<in> set ms" "ms_GridPrimary m = g_Hostname g"
        by (auto simp: find_Some_iff in_set_conv_nth)
      with assms r Inr Some show ?thesis
        by (auto simp: evaluateCandidateSerial_def decideFromMemberSerial_def split: if_splits)
    qed
  qed
qed

lemma Evaluate_use_cases:
  assumes "Evaluate ge g obj fqdn view mode timeout w = (d, obj', w')" and "UseCandidate d"
  shows "mode \<noteq> ModePrimaryOnly \<and> \<not> fst (gate_breaker_open ge w) \<and>
    (\<exists>cand. g_Candidate g = Some cand \<and>
      (GetPendingSerial (ge_codec ge) obj = Inr None \<and> obj' = obj \<and> zw_requests w' = zw_requests w \<or>
       (\<exists>p w1 ms m. GetPendingSerial (ge_codec ge) obj = Inr (Some p) \<and> zw_requests w1 = zw_requests w \<and>
          fst (ReadMemberSerials (ge_codec ge) (ge_transport ge) cand fqdn view w1) = Inr ms \<and>
          m \<in> set ms \<and> ms_GridPrimary m = g_Hostname g \<and> ps_Serial p \<le> ms_Serial m \<and>
          GetPendingSerial (ge_codec ge) obj' = Inr None)))"
proof -
  obtain s w1 where s: "evaluateStructural ge g mode w = (s, w1)" by (cases "evaluateStructural ge g mode w")
  have "s = None"
    using assms s evaluateStructural_Some [of ge g mode w] by (cases s) (auto simp: Evaluate_def)
  with s evaluateStructural_None [of ge g mode w] obtain cand where
    c: "mode \<noteq> ModePrimaryOnly" "\<not> fst (gate_breaker_open ge w)" "g_Candidate g = Some cand" by auto
  have req: "zw_requests w1 = zw_requests w"
    using gate_frame(3) [of ge g mode w] s by simp
  show ?thesis
  proof (cases "evaluatePending (ge_codec ge) obj")
    case (Inl d0)
    with assms s \<open>s = None\<close> c req show ?thesis
      by (auto simp: Evaluate_def evaluatePending_def split: sum.splits option.splits)
  next
    case (Inr p)
    then have p: "GetPendingSerial (ge_codec ge) obj = Inr (Some p)"
      by (simp add: evaluatePending_def split: sum.splits option.splits)
    obtain t obj1 w2 where t: "evaluateTimeout ge obj p timeout w1 = (t, obj1, w2)"
      by (cases "evaluateTimeout ge obj p timeout w1") auto
    have "t = None" "obj1 = obj"
      using assms s \<open>s = None\<close> Inr t evaluateTimeout_not [of ge obj p timeout w1]
      by (cases t; auto simp: Evaluate_def)+
    with assms s \<open>s = None\<close> Inr t c
    have "evaluateCandidateSerial ge g cand obj fqdn view p w2 = (d, obj', w')"
      by (simp add: Evaluate_def)
    moreover have "zw_requests w2 = zw_requests w"
      using evaluateTimeout_requests [of ge obj p timeout w1] t req by simp
    ultimately show ?thesis
      using evaluateCandidateSerial_use [of ge g cand obj fqdn view p w2 d obj' w'] assms(2) c p
      by (auto intro!: exI [of _ w2])
  qed
qed

text \<open>
  C20: a read is routed to the candidate only when the mode allows it, a candidate is
  configured and the breaker is not open, and then either no write is pending (and no
  request was made), or the candidate itself, asked in this evaluation, reported for its own
  host name a serial at least the pending one, after which the watermark is gone.
\<close>

theorem Evaluate_candidate_safe:
  assumes "Evaluate ge g obj fqdn view mode timeout w = (d, obj', w')" and "UseCandidate d"
  shows "mode \<noteq> ModePrimaryOnly \<and> \<not> fst (gate_breaker_open ge w) \<and>
    (\<exists>cand. g_Candidate g = Some cand \<and>
      (GetPendingSerial (ge_codec ge) obj = Inr None \<and> obj' = obj \<and> zw_requests w' = zw_requests w \<or>
       (\<exists>p w1 ms m. GetPendingSerial (ge_codec ge) obj = Inr (Some p) \<and> zw_requests w1 = zw_requests w \<and>
          fst (ReadMemberSerials (ge_codec ge) (ge_transport ge) cand fqdn view w1) = Inr ms \<and>
          m \<in> set ms \<and> ms_GridPrimary m = g_Hostname g \<and> ps_Serial p \<le> ms_Serial m \<and>
          GetPendingSerial (ge_codec ge) obj' = Inr None)))"
  by (rule Evaluate_use_cases [OF assms])

section \<open>The reads after a write\<close>

text \<open>
  Evaluations of one object, one after the other: each works on the object as the one before left it,
  with a mode, a timeout and a state of the world of its own.
\<close>

fun evaluations ::
  "genv \<Rightarrow> Gate \<Rightarrow> string \<Rightarrow> string \<Rightarrow> 'a mobj_scheme \<Rightarrow> (string \<times> int \<times> zworld) list \<Rightarrow> RouteDecision list" where
  "evaluations ge g fqdn view obj [] = []"
| "evaluations ge g fqdn view obj ((mode, timeout, w) # rs) =
     (case Evaluate ge g obj fqdn view mode timeout w of (d, obj1, w1) \<Rightarrow> d # evaluations ge g fqdn view obj1 rs)"

text \<open>The candidate, asked in the state w, reports for its own host name at least this serial.\<close>

definition candidate_reports :: "genv \<Rightarrow> Gate \<Rightarrow> string \<Rightarrow> string \<Rightarrow> 32 word \<Rightarrow> zworld \<Rightarrow> bool" where
  "candidate_reports ge g fqdn view serial w \<longleftrightarrow>
     (\<exists>cand w1 ms m. g_Candidate g = Some cand \<and> zw_requests w1 = zw_requests w \<and>
        fst (ReadMemberSerials (ge_codec ge) (ge_transport ge) cand fqdn view w1) = Inr ms \<and>
        m \<in> set ms \<and> ms_GridPrimary m = g_Hostname g \<and> serial \<le> ms_Serial m)"

lemma evaluateCandidateSerial_keeps:
  assumes "evaluateCandidateSerial ge g c obj fqdn view p w = (d, obj', w')" and "\<not> UseCandidate d"
  shows "obj' = obj"
  using assms
  by (auto simp: evaluateCandidateSerial_def decideFromMemberSerial_def split: prod.splits sum.splits if_splits option.splits)

lemma evaluateTimeout_reason:
  "fst (evaluateTimeout ge obj p timeout w) = Some d \<Longrightarrow> rd_Reason d = ReasonConvergenceTimeout"
  by (auto simp: evaluateTimeout_def Let_def split_beta split: if_splits)

lemma Evaluate_pending_cases:
  assumes "GetPendingSerial (ge_codec ge) obj = Inr (Some p)"
    and "Evaluate ge g obj fqdn view mode timeout w = (d, obj', w')"
  shows "candidate_reports ge g fqdn view (ps_Serial p) w \<or>
    \<not> UseCandidate d \<and> (obj' = obj \<or> rd_Reason d = ReasonConvergenceTimeout)"
proof (cases "UseCandidate d")
  case True
  with Evaluate_use_cases [OF assms(2)] assms(1) show ?thesis
    by (auto simp: candidate_reports_def)
next
  case False
  obtain s w1 where s: "evaluateStructural ge g mode w = (s, w1)" by (cases "evaluateStructural ge g mode w")
  have "evaluatePending (ge_codec ge) obj = Inr p" using assms(1) by (simp add: evaluatePending_def)
  moreover obtain t obj1 w2 where t: "evaluateTimeout ge obj p timeout w1 = (t, obj1, w2)"
    by (cases "evaluateTimeout ge obj p timeout w1") auto
  ultimately have "obj' = obj \<or> rd_Reason d = ReasonConvergenceTimeout"
    using assms(2) s False evaluateTimeout_reason [of ge obj p timeout w1] evaluateTimeout_not(2) [of ge obj p timeout w1]
      evaluateCandidateSerial_keeps [of ge g _ obj1 fqdn view p w2 d obj' w']
    by (cases s; cases t) (auto simp: Evaluate_def)
  with False show ?thesis by simp
qed

lemma evaluations_pending:
  assumes "GetPendingSerial (ge_codec ge) obj = Inr (Some p)"
    and "i < length rs" and "UseCandidate (evaluations ge g fqdn view obj rs ! i)"
    and "\<forall>j < i. rd_Reason (evaluations ge g fqdn view obj rs ! j) \<noteq> ReasonConvergenceTimeout"
  shows "\<exists>j \<le> i. candidate_reports ge g fqdn view (ps_Serial p) (snd (snd (rs ! j)))"
  using assms
proof (induction rs arbitrary: obj i)
  case (Cons r rs)
  obtain mode timeout w where r: "r = (mode, timeout, w)" by (cases r)
  obtain d obj1 w1 where e: "Evaluate ge g obj fqdn view mode timeout w = (d, obj1, w1)"
    by (cases "Evaluate ge g obj fqdn view mode timeout w")
  from Evaluate_pending_cases [OF Cons.prems(1) e] show ?case
  proof
    assume "candidate_reports ge g fqdn view (ps_Serial p) w"
    then show ?thesis by (intro exI [of _ 0]) (simp add: r)
  next
    assume away: "\<not> UseCandidate d \<and> (obj1 = obj \<or> rd_Reason d = ReasonConvergenceTimeout)"
    have ds: "evaluations ge g fqdn view obj (r # rs) = d # evaluations ge g fqdn view obj1 rs"
      by (simp add: r e)
    from away Cons.prems(3) obtain k where k: "i = Suc k" unfolding ds by (cases i) auto
    have "rd_Reason d \<noteq> ReasonConvergenceTimeout" using Cons.prems(4) k unfolding ds by force
    with away have "obj1 = obj" by simp
    moreover have "\<forall>j < k. rd_Reason (evaluations ge g fqdn view obj1 rs ! j) \<noteq> ReasonConvergenceTimeout"
      using Cons.prems(4) k unfolding ds by force
    ultimately obtain j where "j \<le> k" "candidate_reports ge g fqdn view (ps_Serial p) (snd (snd (rs ! j)))"
      using Cons.IH [of obj k] Cons.prems(1-3) k unfolding ds by auto
    then show ?thesis using k by (intro exI [of _ "Suc j"]) simp
  qed
qed simp

text \<open>
  C23: take any sequence of evaluations after a DNS write whose zone has a serial, each working on the written
  object as the one before left it, with any mode, timeout and state of the world. If one of them sends
  the read to the candidate and none before it timed out, then in it or in an earlier one the
  candidate itself reported at least that serial for its own host name. (A timeout gives the
  pending serial up.)
\<close>

theorem RecordWrite_then_Evaluate:
  assumes "codec_documented (ge_codec ge)"
    and "RecordWrite ge g obj fqdn view w = (None, obj1, w1)"
    and "g_Primary g = Some prim"
    and "fst (ReadZoneSerial (ge_codec ge) (ge_transport ge) prim fqdn view w) = Inr (Some serial)"
    and "i < length rs" and "UseCandidate (evaluations ge g fqdn view obj1 rs ! i)"
    and "\<forall>j < i. rd_Reason (evaluations ge g fqdn view obj1 rs ! j) \<noteq> ReasonConvergenceTimeout"
  shows "\<exists>j \<le> i. candidate_reports ge g fqdn view serial (snd (snd (rs ! j)))"
proof -
  obtain w5 where "ReadZoneSerial (ge_codec ge) (ge_transport ge) prim fqdn view w = (Inr (Some serial), w5)"
    using assms(4) by (cases "ReadZoneSerial (ge_codec ge) (ge_transport ge) prim fqdn view w") simp
  then obtain now where "SetPendingSerial (ge_codec ge) obj fqdn view serial now = (None, obj1)"
    using assms(2,3)
    by (cases "SetPendingSerial (ge_codec ge) obj fqdn view serial (ge_clock ge (zw_clock w5))")
      (auto simp: RecordWrite_def gate_now_def)
  from Get_Set [OF assms(1) this] evaluations_pending [OF _ assms(5-7)] show ?thesis by fastforce
qed

section \<open>Timeout\<close>

lemma gate_breaker_open_stays_closed:
  assumes "\<not> fst (gate_breaker_open ge w)"
  shows "\<not> fst (gate_breaker_open ge ((snd (gate_breaker_open ge w))\<lparr>zw_clock := n\<rparr>))"
  using assms
  by (auto simp: gate_breaker_open_def gate_now_def IsOpen_def split_beta split: option.splits if_splits)

lemma evaluateStructural_closed:
  assumes "mode \<noteq> ModePrimaryOnly" "g_Candidate g = Some cand" "\<not> fst (gate_breaker_open ge w)"
  shows "evaluateStructural ge g mode w = (None, snd (gate_breaker_open ge w))"
  using assms by (simp add: evaluateStructural_def split_beta split: bool.split)

lemma Evaluate_no_pending:
  assumes "mode \<noteq> ModePrimaryOnly" "g_Candidate g = Some cand" "\<not> fst (gate_breaker_open ge w)"
    and "GetPendingSerial (ge_codec ge) obj = Inr None"
  shows "UseCandidate (fst (Evaluate ge g obj fqdn view mode timeout w))"
proof -
  obtain w1 where "evaluateStructural ge g mode w = (None, w1)"
    using evaluateStructural_None [of ge g mode w] assms(1-3)
    by (cases "evaluateStructural ge g mode w") auto
  with assms(4) show ?thesis by (simp add: Evaluate_def evaluatePending_def)
qed

text \<open>
  A convergence timeout sends one read to the primary and drops the watermark; the
  very next read of the same object, with no write between, goes to the candidate
  although it never reported the pending serial.
\<close>

theorem timeout_then_candidate:
  assumes "mode \<noteq> ModePrimaryOnly" "g_Candidate g = Some cand" "\<not> fst (gate_breaker_open ge w)"
    and "GetPendingSerial (ge_codec ge) obj = Inr (Some p)"
    and "ge_clock ge (zw_clock (snd (gate_breaker_open ge w))) - ps_Since p
           > (if timeout \<le> 0 then 60 * 10 ^ 9 else timeout)"
  shows "case Evaluate ge g obj fqdn view mode timeout w of (d1, obj1, w1) \<Rightarrow>
    rd_Reason d1 = ReasonConvergenceTimeout \<and> \<not> UseCandidate d1 \<and> rd_Warning d1 \<and>
    (case Evaluate ge g obj1 fqdn view mode timeout w1 of (d2, obj2, w2) \<Rightarrow>
      UseCandidate d2 \<and> rd_Reason d2 = ReasonCandidateReady \<and> zw_requests w2 = zw_requests w)"
proof -
  let ?w1 = "snd (gate_breaker_open ge w)"
  have s: "evaluateStructural ge g mode w = (None, ?w1)"
    by (rule evaluateStructural_closed [OF assms(1-3)])
  obtain d1 where e1: "Evaluate ge g obj fqdn view mode timeout w =
      (d1, ClearPendingSerial obj, ?w1\<lparr>zw_clock := Suc (zw_clock ?w1)\<rparr>)"
    "rd_Reason d1 = ReasonConvergenceTimeout" "\<not> UseCandidate d1" "rd_Warning d1"
    using assms(4,5)
    by (auto simp: Evaluate_def s evaluatePending_def evaluateTimeout_def gate_now_def DefaultTimeout_def
        split: if_splits)
  let ?w2 = "?w1\<lparr>zw_clock := Suc (zw_clock ?w1)\<rparr>"
  have s2: "evaluateStructural ge g mode ?w2 = (None, snd (gate_breaker_open ge ?w2))"
    by (rule evaluateStructural_closed [OF assms(1,2) gate_breaker_open_stays_closed [OF assms(3)]])
  have "zw_requests ?w2 = zw_requests w" by simp
  then show ?thesis
    using e1 by (simp add: s2 Evaluate_def evaluatePending_def)
qed

section \<open>Comparing serials\<close>

lemma sint_diff: "sint (a - b) = signed_take_bit 31 (uint a - uint b)" for a b :: "32 word"
  unfolding word_sub_wi [of a b] sint_sbintrunc' by simp

lemma sint_diff_small:
  fixes a b :: "32 word"
  assumes "uint a - uint b < 2 ^ 31" "- (2 ^ 31) \<le> uint a - uint b"
  shows "sint (a - b) = uint a - uint b"
  unfolding sint_diff using assms by (intro signed_take_bit_int_eq_self) simp_all

text \<open>RFC 1982: serial a is at or after serial b when their difference is not negative as a signed word.\<close>

definition serial_reached :: "32 word \<Rightarrow> 32 word \<Rightarrow> bool" where
  "serial_reached a b \<longleftrightarrow> 0 \<le> sint (a - b)"

text \<open>
  While the two serials are less than half the serial space apart as numbers, the
  gate's plain comparison is serial-number comparison; the candidate is used exactly
  when it has reached the pending serial.
\<close>

theorem decide_serial_order:
  assumes "\<bar>uint (ms_Serial m) - uint (ps_Serial p)\<bar> < 2 ^ 31"
  shows "UseCandidate (fst (decideFromMemberSerial obj p m w)) \<longleftrightarrow> serial_reached (ms_Serial m) (ps_Serial p)"
  using assms sint_diff_small [of "ms_Serial m" "ps_Serial p"]
  by (simp add: decideFromMemberSerial_def serial_reached_def word_le_def)

text \<open>
  C31: across the wrap of the serial space the comparison is the wrong way round. A
  candidate that is behind by serial arithmetic, but whose number is more than half the
  space larger, is accepted as caught up and its watermark removed.
\<close>

theorem decide_serial_wrap:
  assumes "uint (ms_Serial m) - uint (ps_Serial p) > 2 ^ 31"
  shows "\<not> serial_reached (ms_Serial m) (ps_Serial p) \<and>
    UseCandidate (fst (decideFromMemberSerial obj p m w)) \<and>
    GetPendingSerial cd (fst (snd (decideFromMemberSerial obj p m w))) = Inr None"
proof -
  let ?d = "uint (ms_Serial m) - uint (ps_Serial p)"
  have "uint (ms_Serial m) < 2 ^ 32" "0 \<le> uint (ps_Serial p)"
    using uint_lt2p [of "ms_Serial m"] by simp_all
  have e: "(2 :: int) ^ Suc 31 = 2 ^ 32" by simp
  from \<open>uint (ms_Serial m) < 2 ^ 32\<close> \<open>0 \<le> uint (ps_Serial p)\<close>
  have d: "2 ^ 31 < ?d" "?d < 2 ^ 32" using assms by linarith+
  have "sint (ms_Serial m - ps_Serial p) = signed_take_bit 31 ?d" by (rule sint_diff)
  also have "signed_take_bit 31 ?d = signed_take_bit 31 (?d - 2 ^ 32)"
    by (simp only: signed_take_bit_eq_iff_take_bit_eq take_bit_eq_mod e minus_mod_self2)
  also have "\<dots> = ?d - 2 ^ 32"
    using d by (intro signed_take_bit_int_eq_self) simp_all
  finally have "sint (ms_Serial m - ps_Serial p) < 0" using d by simp
  moreover have "ps_Serial p \<le> ms_Serial m" using d by (simp add: word_le_def)
  ultimately show ?thesis by (simp add: serial_reached_def decideFromMemberSerial_def)
qed

section \<open>The query\<close>

fun hex_value :: "char \<Rightarrow> nat option" where
  "hex_value c = (let n = of_char c :: nat in
     if 48 \<le> n \<and> n \<le> 57 then Some (n - 48) else if 65 \<le> n \<and> n \<le> 70 then Some (n - 55) else None)"

text \<open>The server's decoding of a query component.\<close>

fun QueryUnescape :: "string \<Rightarrow> string option" where
  "QueryUnescape [] = Some []"
| "QueryUnescape (c # cs) =
     (if c = CHR 0x2B then map_option ((#) (CHR 0x20)) (QueryUnescape cs)
      else if c = CHR 0x25 then
        (case cs of
           a # b # rest \<Rightarrow>
             (case (hex_value a, hex_value b) of
                (Some x, Some y) \<Rightarrow> map_option ((#) (char_of (16 * x + y))) (QueryUnescape rest)
              | _ \<Rightarrow> None)
         | _ \<Rightarrow> None)
      else map_option ((#) c) (QueryUnescape cs))"

lemma hex_value_digit: "n < 16 \<Longrightarrow> hex_value (hex_digit n) = Some n"
  by (cases "n < 10") (simp_all add: hex_digit_def Let_def)

lemma char_halves:
  "(of_char c :: nat) div 16 < 16" "(of_char c :: nat) mod 16 < 16"
  "16 * (of_char c div 16) + of_char c mod 16 = (of_char c :: nat)"
proof -
  have "(of_char c :: nat) < 256" by simp
  then show "(of_char c :: nat) div 16 < 16" by linarith
qed simp_all

lemma escaped_char:
  "QueryUnescape (CHR 0x25 # hex_digit (of_char c div 16) # hex_digit (of_char c mod 16) # cs) =
     map_option ((#) c) (QueryUnescape cs)"
  by (simp add: hex_value_digit char_halves del: hex_value.simps)

lemma QueryUnescape_QueryEscape: "QueryUnescape (QueryEscape s) = Some s"
proof (induction s)
  case (Cons c cs)
  show ?case
  proof (cases "url_unreserved c")
    case True
    then have "c \<noteq> CHR 0x2B" "c \<noteq> CHR 0x25" by (auto simp: url_unreserved_def Let_def)
    with True Cons show ?thesis by simp
  next
    case False
    then show ?thesis
      using Cons escaped_char [of c "QueryEscape cs"] by (cases "c = CHR 0x20") simp_all
  qed
qed simp

lemma QueryEscape_chars: "c \<in> set (QueryEscape s) \<Longrightarrow> c \<noteq> CHR ''&'' \<and> c \<noteq> CHR ''=''"
proof (induction s)
  case (Cons d s)
  have hex: "hex_digit n \<noteq> CHR ''&'' \<and> hex_digit n \<noteq> CHR ''=''" if "n < 16" for n
  proof -
    have "hex_value (hex_digit n) = Some n" by (rule hex_value_digit [OF that])
    moreover have "hex_value (CHR ''&'') = None" "hex_value (CHR ''='') = None" by (simp_all add: Let_def)
    ultimately show ?thesis by (metis option.distinct(1))
  qed
  have "url_unreserved d \<Longrightarrow> d \<noteq> CHR ''&'' \<and> d \<noteq> CHR ''=''"
    by (auto simp: url_unreserved_def Let_def)
  with Cons hex [OF char_halves(1) [of d]] hex [OF char_halves(2) [of d]] show ?case
    by (auto split: if_splits)
qed simp

text \<open>The server's parsing of a query: pairs between ampersands, cut at the first equals sign.\<close>

fun decode_pairs :: "string list \<Rightarrow> (string \<times> string) list option" where
  "decode_pairs [] = Some []"
| "decode_pairs (p # ps) =
     (case split_on (CHR ''='') p of
        [k, v] \<Rightarrow>
          (case (QueryUnescape k, QueryUnescape v, decode_pairs ps) of
             (Some k', Some v', Some kvs) \<Rightarrow> Some ((k', v') # kvs)
           | _ \<Rightarrow> None)
      | _ \<Rightarrow> None)"

definition ParseQuery :: "string \<Rightarrow> (string \<times> string) list option" where
  "ParseQuery q = decode_pairs (split_on (CHR ''&'') q)"

lemma split_encode_pair: "split_on (CHR ''='') (encode_pair kv) = [QueryEscape (fst kv), QueryEscape (snd kv)]"
proof -
  have "CHR ''='' \<notin> set (QueryEscape s)" for s using QueryEscape_chars by blast
  then show ?thesis by (simp add: encode_pair_def split_on_append split_on_no_sep)
qed

lemma ParseQuery_encoded: "kvs \<noteq> [] \<Longrightarrow> ParseQuery (join_with ''&'' (map encode_pair kvs)) = Some kvs"
proof -
  assume ne: "kvs \<noteq> []"
  have amp: "CHR ''&'' \<notin> set (encode_pair kv)" for kv
    using QueryEscape_chars by (auto simp: encode_pair_def)
  have "split_on (CHR ''&'') (join_with ''&'' (map encode_pair xs)) = map encode_pair xs" if "xs \<noteq> []" for xs
    using that
  proof (induction xs)
    case (Cons x xs)
    then show ?case
      by (cases xs) (simp_all add: split_on_no_sep split_on_append amp)
  qed simp
  moreover have "decode_pairs (map encode_pair xs) = Some xs" for xs
    by (induction xs) (simp_all add: split_encode_pair QueryUnescape_QueryEscape)
  ultimately show ?thesis using ne by (simp add: ParseQuery_def)
qed

text \<open>
  Whatever bytes the zone name, the view and the field list hold, a server that decodes the
  query of a zone_auth request sees exactly those three parameters (two without a view) and
  no other: no value can add or alter a parameter.
\<close>

theorem zone_query_roundtrip:
  "ParseQuery (zone_query fqdn view returnFields) =
     Some ([(''_return_fields'', returnFields), (''fqdn'', fqdn)] @ (if view = [] then [] else [(''view'', view)]))"
  by (simp add: zone_query_def ParseQuery_encoded del: map_append list.map)

section \<open>A zone to apply the theorems to\<close>

text \<open>
  Times are printed in unary, an annotation as its serial and the length of its
  zone in unary followed by both texts; the one response body stands for a zone
  with serial 7 that the candidate has reached.
\<close>

definition demo_zone :: json where
  "demo_zone =
     JArr [JObj (fmupd ''soa_serial_number'' (JNum 7)
       (fmupd ''member_soa_serials''
          (JArr [JObj (fmupd ''grid_primary'' (JStr ''cand'') (fmupd ''serial'' (JNum 7) fmempty))]) fmempty))]"

definition demo_print :: "json \<Rightarrow> string" where
  "demo_print j =
     (case j of
        JObj m \<Rightarrow>
          (case (fmlookup m ''since'', fmlookup m ''serial'', fmlookup m ''zone'') of
             (Some (JStr t), Some (JNum n), Some (JStr z)) \<Rightarrow>
               replicate (nat n) CHR ''1'' @ CHR ''0'' # replicate (length z) CHR ''1'' @ CHR ''0'' # z @ t
           | _ \<Rightarrow> [])
      | _ \<Rightarrow> [])"

definition demo_parse :: "string \<Rightarrow> string + json" where
  "demo_parse s =
     (if s = ''zones'' then Inr demo_zone
      else (let one = (\<lambda>c. c = CHR ''1''); n = length (takeWhile one s); r = tl (dropWhile one s);
                k = length (takeWhile one r); zt = drop (Suc k) r
            in Inr (pending_json (drop k zt) (int n) (take k zt))))"

definition demo_codec :: codec where
  "demo_codec =
     \<lparr>time_print = (\<lambda>t. if t < 0 then Inl ''year'' else Inr (replicate (nat t) CHR ''t'')),
      time_parse = (\<lambda>s. Inr (int (length s))), json_print = demo_print, json_parse = demo_parse\<rparr>"

lemma unary_prefix:
  "takeWhile (\<lambda>c. c = CHR ''1'') (replicate n CHR ''1'' @ CHR ''0'' # s) = replicate n CHR ''1''"
  "dropWhile (\<lambda>c. c = CHR ''1'') (replicate n CHR ''1'' @ CHR ''0'' # s) = CHR ''0'' # s"
  by (induction n) simp_all

lemma demo_print_pending:
  "demo_print (pending_json t n z) =
     replicate (nat n) CHR ''1'' @ CHR ''0'' # replicate (length z) CHR ''1'' @ CHR ''0'' # z @ t"
  by (simp add: demo_print_def pending_json_def)

lemma demo_codec_documented: "codec_documented demo_codec"
proof -
  have "demo_parse (demo_print (pending_json t n z)) = Inr (pending_json t n z)" if "0 \<le> n" for t n z
  proof -
    have "demo_print (pending_json t n z) \<noteq> ''zones''"
      unfolding demo_print_pending by (cases "nat n") simp_all
    moreover have "drop (Suc (length z)) (replicate (length z) CHR ''1'' @ CHR ''0'' # z @ t) = z @ t"
      by simp
    ultimately show ?thesis
      using that by (simp add: demo_parse_def demo_print_pending unary_prefix Let_def)
  qed
  moreover have "demo_print (pending_json t n z) \<noteq> []" for t n z
    by (simp add: demo_print_pending)
  ultimately show ?thesis
    by (auto simp: codec_documented_def demo_codec_def)
qed

definition demo_genv :: "int \<Rightarrow> genv" where
  "demo_genv step =
     \<lparr>ge_codec = demo_codec,
      ge_transport = \<lparr>http_new = (\<lambda>_. None), http_do = (\<lambda>_ _. Inr (200, Inr ''zones''))\<rparr>,
      ge_clock = (\<lambda>n. step * int n)\<rparr>"

definition demo_client :: zclient where
  "demo_client = NewZoneClient ''host'' ''443'' ''2.12'' ''u'' ''p'' True"

definition demo_gate :: Gate where
  "demo_gate = \<lparr>g_Primary = Some demo_client, g_Candidate = Some demo_client, g_Hostname = ''cand''\<rparr>"

definition demo_mobj :: mobj where
  "demo_mobj = \<lparr>mo_name = ''r'', mo_namespace = [], mo_uid = ''u-1'', mo_annotations = fmempty, mo_conditions = fmempty\<rparr>"

definition demo_zworld :: zworld where
  "demo_zworld = \<lparr>zw_requests = [], zw_clock = 0, zw_breaker = None\<rparr>"

lemma demo_query:
  "fst (queryZoneAuth demo_codec (ge_transport (demo_genv s)) c fqdn view f w) =
     Inr [\<lparr>za_Ref = [], za_SOASerialNumber = Some 7, za_MemberSOASerials = [\<lparr>ms_GridPrimary = ''cand'', ms_Serial = 7\<rparr>]\<rparr>]"
proof -
  have "json_parse demo_codec ''zones'' = Inr demo_zone"
    by (simp add: demo_codec_def demo_parse_def)
  then have "decodeZones demo_codec ''zones'' =
      Inr [\<lparr>za_Ref = [], za_SOASerialNumber = Some 7, za_MemberSOASerials = [\<lparr>ms_GridPrimary = ''cand'', ms_Serial = 7\<rparr>]\<rparr>]"
    by (simp add: decodeZones_def demo_zone_def decodeZone_def decodeMember_def decode_string_def decode_uint32_def)
  then show ?thesis
    by (simp add: queryZoneAuth_def demo_genv_def Let_def)
qed

lemma demo_reads:
  "fst (ReadZoneSerial demo_codec (ge_transport (demo_genv s)) c fqdn view w) = Inr (Some 7)"
  "fst (ReadMemberSerials demo_codec (ge_transport (demo_genv s)) c fqdn view w) =
     Inr [\<lparr>ms_GridPrimary = ''cand'', ms_Serial = 7\<rparr>]"
  using demo_query [of s c fqdn view "''soa_serial_number''" w] demo_query [of s c fqdn view "''member_soa_serials''" w]
  by (auto simp: ReadZoneSerial_def ReadMemberSerials_def split: prod.split sum.split)

lemma demo_genv_codec [simp]: "ge_codec (demo_genv s) = demo_codec"
  by (simp add: demo_genv_def)

text \<open>A write with the clock at 0, and the same object an instant and two minutes later.\<close>

lemma demo_set:
  "\<exists>obj1. SetPendingSerial demo_codec demo_mobj ''example.com'' ''default'' 7 0 = (None, obj1)"
  by (simp add: SetPendingSerial_def marshalPending_def) (simp add: demo_codec_def)

lemma demo_write:
  "\<exists>obj1 w1. RecordWrite (demo_genv 0) demo_gate demo_mobj ''example.com'' ''default'' demo_zworld = (None, obj1, w1) \<and>
     GetPendingSerial demo_codec obj1 = Inr (Some \<lparr>ps_Zone = ''example.com/default'', ps_Serial = 7, ps_Since = 0\<rparr>)"
proof -
  obtain obj1 where set: "SetPendingSerial demo_codec demo_mobj ''example.com'' ''default'' 7 0 = (None, obj1)"
    using demo_set by blast
  obtain w1 where r: "ReadZoneSerial demo_codec (ge_transport (demo_genv 0)) demo_client ''example.com'' ''default'' demo_zworld
      = (Inr (Some 7), w1)"
    using demo_reads(1) by (metis prod.collapse)
  have "ge_clock (demo_genv 0) n = 0" for n by (simp add: demo_genv_def)
  with Get_Set [OF demo_codec_documented set] set r show ?thesis
    by (simp add: RecordWrite_def demo_gate_def gate_now_def ZoneKey_def)
qed

lemma demo_evaluate:
  assumes "GetPendingSerial demo_codec obj = Inr (Some \<lparr>ps_Zone = z, ps_Serial = 7, ps_Since = 0\<rparr>)"
  shows "\<exists>d obj' w'. Evaluate (demo_genv 0) demo_gate obj fqdn view ModeSOASerial 0 demo_zworld = (d, obj', w') \<and> UseCandidate d"
proof -
  obtain w1 where r: "ReadMemberSerials demo_codec (ge_transport (demo_genv 0)) demo_client fqdn view
      (demo_zworld\<lparr>zw_clock := 1\<rparr>) = (Inr [\<lparr>ms_GridPrimary = ''cand'', ms_Serial = 7\<rparr>], w1)"
    using demo_reads(2) by (metis prod.collapse)
  have "ge_clock (demo_genv 0) n = 0" for n by (simp add: demo_genv_def)
  moreover have "evaluateStructural (demo_genv 0) demo_gate ModeSOASerial demo_zworld = (None, demo_zworld)"
    by (simp add: evaluateStructural_def gate_breaker_open_def demo_gate_def demo_zworld_def
        ModeSOASerial_def ModePrimaryOnly_def)
  ultimately show ?thesis
    using assms r
    by (simp add: Evaluate_def evaluatePending_def evaluateTimeout_def gate_now_def DefaultTimeout_def
        evaluateCandidateSerial_def decideFromMemberSerial_def demo_gate_def)
      (simp add: demo_zworld_def evaluateCandidateSerial_def decideFromMemberSerial_def)
qed

lemma Evaluate_candidate_safe_witness:
  "\<exists>(obj :: mobj) d obj' w' (w1 :: zworld) (m :: MemberSerial). Evaluate (demo_genv 0) demo_gate obj ''example.com'' ''default'' ModeSOASerial 0 demo_zworld = (d, obj', w') \<and>
     GetPendingSerial demo_codec obj = Inr (Some \<lparr>ps_Zone = ''example.com/default'', ps_Serial = 7, ps_Since = 0\<rparr>) \<and>
     zw_requests w1 = [] \<and> ms_GridPrimary m = ''cand'' \<and> 7 \<le> ms_Serial m \<and> GetPendingSerial demo_codec obj' = Inr None"
proof -
  obtain obj :: mobj where p: "GetPendingSerial demo_codec obj = Inr (Some \<lparr>ps_Zone = ''example.com/default'', ps_Serial = 7, ps_Since = 0\<rparr>)"
    using demo_write by blast
  from demo_evaluate [OF this] obtain d obj' w' where
    e: "Evaluate (demo_genv 0) demo_gate obj ''example.com'' ''default'' ModeSOASerial 0 demo_zworld = (d, obj', w')" "UseCandidate d"
    by blast
  from Evaluate_candidate_safe [OF e] p obtain m :: MemberSerial and w1 :: zworld where "zw_requests w1 = zw_requests demo_zworld" "ms_GridPrimary m = g_Hostname demo_gate"
    "7 \<le> ms_Serial m" "GetPendingSerial demo_codec obj' = Inr None" by auto
  with e(1) p show ?thesis by (auto simp: demo_zworld_def demo_gate_def)
qed

lemma RecordWrite_then_Evaluate_witness:
  "\<exists>(obj1 :: mobj) w1. RecordWrite (demo_genv 0) demo_gate demo_mobj ''example.com'' ''default'' demo_zworld = (None, obj1, w1) \<and>
     UseCandidate (evaluations (demo_genv 0) demo_gate ''example.com'' ''default'' obj1 [(ModeSOASerial, 0, demo_zworld)] ! 0) \<and>
     candidate_reports (demo_genv 0) demo_gate ''example.com'' ''default'' 7 demo_zworld"
proof -
  let ?rs = "[(ModeSOASerial, 0, demo_zworld)]"
  obtain obj1 :: mobj and w1 where w: "RecordWrite (demo_genv 0) demo_gate demo_mobj ''example.com'' ''default'' demo_zworld = (None, obj1, w1)"
    "GetPendingSerial demo_codec obj1 = Inr (Some \<lparr>ps_Zone = ''example.com/default'', ps_Serial = 7, ps_Since = 0\<rparr>)"
    using demo_write by blast
  have u: "UseCandidate (evaluations (demo_genv 0) demo_gate ''example.com'' ''default'' obj1 ?rs ! 0)"
    using demo_evaluate [OF w(2), of "''example.com''" "''default''"] by auto
  have p: "codec_documented (ge_codec (demo_genv 0))" "g_Primary demo_gate = Some demo_client"
    "fst (ReadZoneSerial (ge_codec (demo_genv 0)) (ge_transport (demo_genv 0)) demo_client ''example.com'' ''default'' demo_zworld) = Inr (Some 7)"
    "0 < length ?rs"
    by (simp_all add: demo_codec_documented demo_gate_def demo_reads)
  have "candidate_reports (demo_genv 0) demo_gate ''example.com'' ''default'' 7 demo_zworld"
    using RecordWrite_then_Evaluate [OF p(1) w(1) p(2-4) u] by simp
  with w(1) u show ?thesis by blast
qed

lemma timeout_then_candidate_witness:
  "\<exists>obj :: mobj. GetPendingSerial demo_codec obj = Inr (Some \<lparr>ps_Zone = ''example.com/default'', ps_Serial = 7, ps_Since = 0\<rparr>) \<and>
     (case Evaluate (demo_genv 200) demo_gate obj ''example.com'' ''default'' ModeSOASerial 100 (demo_zworld\<lparr>zw_clock := 1\<rparr>) of (d1, obj1, w1) \<Rightarrow>
        rd_Reason d1 = ReasonConvergenceTimeout \<and>
        UseCandidate (fst (Evaluate (demo_genv 200) demo_gate obj1 ''example.com'' ''default'' ModeSOASerial 100 w1)))"
proof -
  obtain obj :: mobj where p: "GetPendingSerial (ge_codec (demo_genv 200)) obj = Inr (Some \<lparr>ps_Zone = ''example.com/default'', ps_Serial = 7, ps_Since = 0\<rparr>)"
    using demo_write by auto
  have g: "ModeSOASerial \<noteq> ModePrimaryOnly" "g_Candidate demo_gate = Some demo_client"
    "\<not> fst (gate_breaker_open (demo_genv 200) (demo_zworld\<lparr>zw_clock := 1\<rparr>))"
    by (simp_all add: ModeSOASerial_def ModePrimaryOnly_def demo_gate_def gate_breaker_open_def demo_zworld_def)
  from timeout_then_candidate [OF g p, of 100 "''example.com''" "''default''"] p show ?thesis
    by (auto simp: demo_genv_def gate_breaker_open_def demo_zworld_def split: prod.splits intro!: exI [of _ obj])
qed

lemma decide_serial_order_witness:
  "UseCandidate (fst (decideFromMemberSerial demo_mobj \<lparr>ps_Zone = ''z'', ps_Serial = 7, ps_Since = 0\<rparr>
     \<lparr>ms_GridPrimary = ''cand'', ms_Serial = 9\<rparr> demo_zworld)) = serial_reached 9 7"
  using decide_serial_order [of "\<lparr>ms_GridPrimary = ''cand'', ms_Serial = 9\<rparr>" "\<lparr>ps_Zone = ''z'', ps_Serial = 7, ps_Since = 0\<rparr>"]
  by simp

lemma decide_serial_wrap_witness:
  "\<not> serial_reached 4294967295 3 \<and>
   UseCandidate (fst (decideFromMemberSerial demo_mobj \<lparr>ps_Zone = ''z'', ps_Serial = 3, ps_Since = 0\<rparr>
     \<lparr>ms_GridPrimary = ''cand'', ms_Serial = 4294967295\<rparr> demo_zworld))"
  using decide_serial_wrap [of "\<lparr>ms_GridPrimary = ''cand'', ms_Serial = 4294967295\<rparr>" "\<lparr>ps_Zone = ''z'', ps_Serial = 3, ps_Since = 0\<rparr>" demo_mobj demo_zworld demo_codec]
  by simp

end
