(* ===== verification/Drift.thy ===== *)
theory Drift
  imports Managed
begin

text \<open>
  internal/driftdetection: the decorator that gives every managed resource
  per-field drift ownership. The unstructured projection of a resource
  (crossplane-runtime's fieldpath package and apimachinery's converter), the
  resource's own accessors and the wrapped client are parameters.
\<close>

section \<open>Modes, conditions and messages\<close>

definition ModeEnabled :: string where "ModeEnabled = ''enabled''"
definition ModeWarn :: string where "ModeWarn = ''warn''"
definition ModeDisabled :: string where "ModeDisabled = ''disabled''"

definition TypeDriftDetected :: string where "TypeDriftDetected = ''DriftDetected''"
definition ReasonInSync :: string where "ReasonInSync = ''InSync''"
definition ReasonDrifted :: string where "ReasonDrifted = ''Drifted''"
definition ReasonIgnored :: string where "ReasonIgnored = ''DriftIgnored''"
definition ReasonUnobserved :: string where "ReasonUnobserved = ''IgnoredPathUnobserved''"

definition pathMode :: string where "pathMode = ''spec.driftDetection.mode''"
definition pathIgnorePaths :: string where "pathIgnorePaths = ''spec.driftDetection.ignore[*].paths[*]''"
definition prefixSpec :: string where "prefixSpec = ''spec.''"
definition prefixForProvider :: string where "prefixForProvider = ''forProvider.''"
definition prefixAtProvider :: string where "prefixAtProvider = ''status.atProvider.''"

definition errPave :: string where "errPave = ''cannot project managed resource for drift detection''"
definition errUnpave :: string where "errUnpave = ''cannot rebuild managed resource after path substitution''"
definition errSnapshot :: string where "errSnapshot = ''cannot read observed value for ignored path''"
definition errApply :: string where "errApply = ''cannot substitute observed value for ignored path''"
definition errBadPath :: string where "errBadPath = ''invalid drift detection ignore path''"
definition errNoObserve :: string where
  "errNoObserve = ''refusing to update with ignored paths before an observation was captured: ''
     @ ''updating from spec would revert the field's external owner''"
definition errIneligible :: string where "errIneligible = ''ineligible drift detection ignore path''"

definition eligibleFields :: "string \<Rightarrow> bool" where
  "eligibleFields f \<longleftrightarrow> f \<in> {''comment'', ''extAttrs'', ''ttl'', ''useTtl'', ''disable''}"

section \<open>The Go type of a resource\<close>

text \<open>What reflection sees of a type: pointers, structs with their JSON tags, anything else.\<close>

datatype gotype = GPtr gotype | GStruct "gofielddecl list" | GNamed string
  and gofielddecl = GField (gf_tag: string) (gf_anonymous: bool) (gf_type: gotype)

fun strip_ptr :: "gotype \<Rightarrow> gotype" where
  "strip_ptr (GPtr t) = strip_ptr t"
| "strip_ptr t = t"

definition json_name :: "gofielddecl \<Rightarrow> string" where
  "json_name f = hd (split_on (CHR 0x2C) (gf_tag f))"

fun direct_field :: "gofielddecl list \<Rightarrow> string \<Rightarrow> gotype option" where
  "direct_field [] name = None"
| "direct_field (f # fs) name =
     (if json_name f = ''-'' then direct_field fs name
      else if json_name f = name then Some (gf_type f)
      else direct_field fs name)"

definition embedded_fields :: "gofielddecl list \<Rightarrow> gotype list" where
  "embedded_fields fs = map gf_type (filter (\<lambda>f. json_name f = [] \<and> gf_anonymous f) fs)"

lemma size_strip_ptr: "size (strip_ptr t) \<le> size t"
  by (induction t rule: strip_ptr.induct) auto

lemma size_embedded: "size_list size (embedded_fields fs) \<le> size_list size fs"
proof (induction fs)
  case (Cons f fs)
  then show ?case by (cases f) (auto simp: embedded_fields_def comp_def)
qed (simp add: embedded_fields_def)

text \<open>The field list is the struct's; the second function is the loop over the embedded ones.\<close>

function structFieldByJSONName :: "gofielddecl list \<Rightarrow> string \<Rightarrow> gotype option"
  and embeddedFieldByJSONName :: "gotype list \<Rightarrow> string \<Rightarrow> gotype option" where
  "structFieldByJSONName fs name =
     (case direct_field fs name of
        Some t \<Rightarrow> Some t
      | None \<Rightarrow> embeddedFieldByJSONName (embedded_fields fs) name)"
| "embeddedFieldByJSONName [] name = None"
| "embeddedFieldByJSONName (t # ts) name =
     (case strip_ptr t of
        GStruct fs \<Rightarrow>
          (case structFieldByJSONName fs name of
             Some ft \<Rightarrow> Some ft
           | None \<Rightarrow> embeddedFieldByJSONName ts name)
      | _ \<Rightarrow> embeddedFieldByJSONName ts name)"
  by pat_completeness auto
termination
proof (relation "measure (\<lambda>x. case x of Inl (fs, _) \<Rightarrow> 2 * size_list size fs + 1 | Inr (ts, _) \<Rightarrow> 2 * size_list size ts)")
  fix t :: gotype and ts :: "gotype list" and name fs
  assume "strip_ptr t = GStruct fs"
  with size_strip_ptr [of t] show "(Inl (fs, name), Inr (t # ts, name))
      \<in> measure (\<lambda>x. case x of Inl (fs, _) \<Rightarrow> 2 * size_list size fs + 1 | Inr (ts, _) \<Rightarrow> 2 * size_list size ts)"
    by simp
qed (use size_embedded in \<open>auto simp: le_imp_less_Suc\<close>)

fun type_has_segments :: "gotype \<Rightarrow> string list \<Rightarrow> bool" where
  "type_has_segments t [] = True"
| "type_has_segments t (seg # segs) =
     (case strip_ptr t of
        GStruct fs \<Rightarrow>
          (case structFieldByJSONName fs seg of
             None \<Rightarrow> False
           | Some next \<Rightarrow> type_has_segments next segs)
      | _ \<Rightarrow> False)"

definition typeHasField :: "gotype \<Rightarrow> string \<Rightarrow> bool" where
  "typeHasField t path = type_has_segments t (''spec'' # split_on (CHR 0x2E) path)"

section \<open>The projection of a resource\<close>

record 'mg mgops =
  mg_type :: gotype
  mg_annotations :: "'mg \<Rightarrow> (string, string) fmap"
  mg_set_annotations :: "(string, string) fmap \<Rightarrow> 'mg \<Rightarrow> 'mg"
  mg_set_condition :: "string \<Rightarrow> condition \<Rightarrow> 'mg \<Rightarrow> 'mg"
  fp_pave :: "'mg \<Rightarrow> goerr + json"
  fp_get_string :: "json \<Rightarrow> string \<Rightarrow> goerr + string"
  fp_expand :: "json \<Rightarrow> string \<Rightarrow> goerr + string list"
  fp_get_value :: "json \<Rightarrow> string \<Rightarrow> goerr + json"
  fp_set_value :: "json \<Rightarrow> string \<Rightarrow> json \<Rightarrow> goerr + json"
  fp_unpave :: "json \<Rightarrow> 'mg \<Rightarrow> goerr + 'mg"
  fp_parse :: "string \<Rightarrow> goerr option"
  fp_is_not_found :: "goerr \<Rightarrow> bool"
  map_order :: "(string \<times> json) list \<Rightarrow> (string \<times> json) list"
    \<comment> \<open>the order in which a range over the map visits its entries\<close>

section \<open>Configuration\<close>

record driftConfig =
  dc_Mode :: string
  dc_IgnorePaths :: "string list"

definition Active :: "driftConfig \<Rightarrow> bool" where
  "Active c \<longleftrightarrow> dc_Mode c \<noteq> ModeEnabled \<or> length (dc_IgnorePaths c) > 0"

definition checkEligible :: "gotype \<Rightarrow> string \<Rightarrow> goerr option" where
  "checkEligible t path =
     (let segs = split_on (CHR 0x2E) path; lastSeg = last segs in
      if \<not> eligibleFields lastSeg then
        Some (TextError (errIneligible @ '' '' @ go_quote path @ '': '' @ go_quote lastSeg
          @ '' is not an eligible field for driftDetection.ignore''))
      else if \<not> typeHasField t path then
        Some (TextError (errIneligible @ '' '' @ go_quote path @ '': field does not exist on this resource''))
      else None)"

text \<open>strings.ReplaceAll of a two-character pattern by one character.\<close>

fun replace2 :: "char \<Rightarrow> char \<Rightarrow> char \<Rightarrow> string \<Rightarrow> string" where
  "replace2 a b r (x # y # s) =
     (if x = a \<and> y = b then r # replace2 a b r s else x # replace2 a b r (y # s))"
| "replace2 a b r s = s"

definition contains_any :: "string \<Rightarrow> string \<Rightarrow> bool" where
  "contains_any chars s \<longleftrightarrow> list_ex (\<lambda>c. c \<in> set chars) s"

definition unescape_pointer :: "string \<Rightarrow> string" where
  "unescape_pointer part = replace2 (CHR 0x7E) (CHR 0x30) (CHR 0x7E) (replace2 (CHR 0x7E) (CHR 0x31) (CHR 0x2F) part)"

definition normalizePath :: "(string \<Rightarrow> goerr option) \<Rightarrow> string \<Rightarrow> goerr + string" where
  "normalizePath parse s =
     (let p0 = trim_space s in
      if p0 = [] then Inl (TextError (errBadPath @ '': empty''))
      else
        (let p = (if starts_with ''/'' p0 then
                    join_with ''.'' (map unescape_pointer (split_on (CHR 0x2F) (trim_prefix ''/'' p0)))
                  else p0) in
         if contains_any ''[]*'' p then
           Inl (TextError (errBadPath @ '' '' @ go_quote s
             @ '': list indices and wildcards are not supported; ignore the whole list instead''))
         else if \<not> starts_with prefixForProvider p then
           Inl (TextError (errBadPath @ '' '' @ go_quote s @ '': must start with '' @ go_quote prefixForProvider))
         else (case parse p of
           Some err \<Rightarrow> Inl (Wrapped (errBadPath @ '': '' @ s) err)
         | None \<Rightarrow> Inr p)))"

text \<open>The loop over the expanded entries; it appends to the accepted paths.\<close>

fun readIgnorePaths :: "'mg mgops \<Rightarrow> json \<Rightarrow> string list \<Rightarrow> string list \<Rightarrow> goerr + string list" where
  "readIgnorePaths ops p [] acc = Inr acc"
| "readIgnorePaths ops p (e # es) acc =
     (case fp_get_string ops p e of
        Inl err \<Rightarrow> Inl (Wrapped errPave err)
      | Inr s \<Rightarrow>
          (case normalizePath (fp_parse ops) s of
             Inl err \<Rightarrow> Inl err
           | Inr n \<Rightarrow>
               (case checkEligible (mg_type ops) n of
                  Some err \<Rightarrow> Inl err
                | None \<Rightarrow> readIgnorePaths ops p es (acc @ [n]))))"

definition ReadConfig :: "'mg mgops \<Rightarrow> 'mg \<Rightarrow> goerr + driftConfig" where
  "ReadConfig ops mg =
     (case fp_pave ops mg of
        Inl err \<Rightarrow> Inl (Wrapped errPave err)
      | Inr p \<Rightarrow>
          (case (case fp_get_string ops p pathMode of
                   Inl err \<Rightarrow> if fp_is_not_found ops err then Inr ModeEnabled else Inl (Wrapped errPave err)
                 | Inr m \<Rightarrow> if m \<noteq> [] then Inr m else Inr ModeEnabled) of
             Inl err \<Rightarrow> Inl err
           | Inr mode \<Rightarrow>
               (case (case fp_expand ops p pathIgnorePaths of
                        Inl err \<Rightarrow> if fp_is_not_found ops err then Inr [] else Inl (Wrapped errPave err)
                      | Inr es \<Rightarrow> Inr es) of
                  Inl err \<Rightarrow> Inl err
                | Inr expanded \<Rightarrow>
                    (case readIgnorePaths ops p expanded [] of
                       Inl err \<Rightarrow> Inl err
                     | Inr paths \<Rightarrow> Inr \<lparr>dc_Mode = mode, dc_IgnorePaths = paths\<rparr>))))"

section \<open>Capturing and substituting observed values\<close>

text \<open>values is a Go map: a list with at most one entry per path.\<close>

record observation =
  ob_values :: "(string \<times> json) list"
  ob_unobserved :: "string list"

definition put_value :: "string \<Rightarrow> json \<Rightarrow> (string \<times> json) list \<Rightarrow> (string \<times> json) list" where
  "put_value k v m = filter (\<lambda>e. fst e \<noteq> k) m @ [(k, v)]"

definition at_path :: "string \<Rightarrow> string" where
  "at_path path = prefixAtProvider @ trim_prefix prefixForProvider path"

fun snapshot_loop :: "'mg mgops \<Rightarrow> json \<Rightarrow> string list \<Rightarrow> observation \<Rightarrow> goerr + observation" where
  "snapshot_loop ops p [] obs = Inr obs"
| "snapshot_loop ops p (path # paths) obs =
     (case fp_get_value ops p (at_path path) of
        Inl err \<Rightarrow>
          if fp_is_not_found ops err then
            snapshot_loop ops p paths (obs\<lparr>ob_unobserved := ob_unobserved obs @ [path]\<rparr>)
          else Inl (Wrapped errSnapshot err)
      | Inr v \<Rightarrow> snapshot_loop ops p paths (obs\<lparr>ob_values := put_value path v (ob_values obs)\<rparr>))"

definition snapshot :: "'mg mgops \<Rightarrow> 'mg \<Rightarrow> string list \<Rightarrow> goerr + observation" where
  "snapshot ops mg paths =
     (let obs = \<lparr>ob_values = [], ob_unobserved = []\<rparr> in
      if length paths = 0 then Inr obs
      else (case fp_pave ops mg of
        Inl err \<Rightarrow> Inl (Wrapped errPave err)
      | Inr p \<Rightarrow> snapshot_loop ops p paths obs))"

fun set_values :: "'mg mgops \<Rightarrow> (string \<times> json) list \<Rightarrow> json \<Rightarrow> goerr + json" where
  "set_values ops [] p = Inr p"
| "set_values ops ((path, v) # vs) p =
     (case fp_set_value ops p (prefixSpec @ path) v of
        Inl err \<Rightarrow> Inl (Wrapped errApply err)
      | Inr p1 \<Rightarrow> set_values ops vs p1)"

text \<open>
  DeepCopyObject of a value is the value, and of the same Go type, so its
  failure branch does not arise.
\<close>

definition apply_obs :: "'mg mgops \<Rightarrow> 'mg \<Rightarrow> observation option \<Rightarrow> goerr + 'mg" where
  "apply_obs ops mg obs =
     (case obs of
        None \<Rightarrow> Inr mg
      | Some ob \<Rightarrow>
          if length (ob_values ob) = 0 then Inr mg
          else (case fp_pave ops mg of
            Inl err \<Rightarrow> Inl (Wrapped errPave err)
          | Inr p \<Rightarrow>
              (case set_values ops (map_order ops (ob_values ob)) p of
                 Inl err \<Rightarrow> Inl err
               | Inr p1 \<Rightarrow>
                   (case fp_unpave ops p1 mg of
                      Inl err \<Rightarrow> Inl (Wrapped errUnpave err)
                    | Inr shadow \<Rightarrow> Inr shadow))))"

section \<open>The decorated client\<close>

text \<open>
  The wrapped client: each method may change the resource it is given and the
  world 'w (a status write, an annotation, a request).
\<close>

record ('mg, 'w) external_client =
  in_Observe :: "'mg \<Rightarrow> 'w \<Rightarrow> (goerr + ExternalObservation) \<times> 'mg \<times> 'w"
  in_Create :: "'mg \<Rightarrow> 'w \<Rightarrow> goerr option \<times> 'mg \<times> 'w"
  in_Update :: "'mg \<Rightarrow> 'w \<Rightarrow> goerr option \<times> 'mg \<times> 'w"
  in_Delete :: "'mg \<Rightarrow> 'w \<Rightarrow> goerr option \<times> 'mg \<times> 'w"
  in_Disconnect :: "'w \<Rightarrow> goerr option \<times> 'w"

text \<open>The field obs of the decorator, nil before the first Observe.\<close>

type_synonym captured = "observation option"

definition WrapClient_obs :: captured where
  "WrapClient_obs = None"

definition drift_setCondition :: "'mg mgops \<Rightarrow> 'mg \<Rightarrow> string \<Rightarrow> string \<Rightarrow> 'mg" where
  "drift_setCondition ops mg reason msg =
     (let status = (if reason = ReasonInSync then ConditionFalse else ConditionTrue) in
      mg_set_condition ops TypeDriftDetected
        \<lparr>cond_status = status, cond_reason = reason, cond_message = msg\<rparr> mg)"

definition drift_Observe ::
  "'mg mgops \<Rightarrow> ('mg, 'w) external_client \<Rightarrow> 'mg \<Rightarrow> captured \<Rightarrow> 'w \<Rightarrow>
     (goerr + ExternalObservation) \<times> 'mg \<times> captured \<times> 'w" where
  "drift_Observe ops inner mg e w =
     (case ReadConfig ops mg of
        Inl err \<Rightarrow> (Inl err, mg, e, w)
      | Inr cfg \<Rightarrow>
          (case in_Observe inner mg w of
             (Inl err, mg1, w1) \<Rightarrow> (Inl err, mg1, e, w1)
           | (Inr obs, mg1, w1) \<Rightarrow>
               if \<not> ResourceExists obs then (Inr obs, mg1, e, w1)
               else (case snapshot ops mg1 (dc_IgnorePaths cfg) of
                 Inl err \<Rightarrow> (Inl err, mg1, e, w1)
               | Inr captured \<Rightarrow>
                   (let e1 = Some captured in
                    if dc_Mode cfg = ModeDisabled then
                      (Inr (obs\<lparr>ResourceUpToDate := True\<rparr>), mg1, e1, w1)
                    else if dc_Mode cfg = ModeWarn then
                      (if \<not> ResourceUpToDate obs then
                         (Inr (obs\<lparr>ResourceUpToDate := True\<rparr>),
                          drift_setCondition ops mg1 ReasonDrifted
                            ''drift detected; not corrected (driftDetection.mode: warn)'', e1, w1)
                       else (Inr obs, drift_setCondition ops mg1 ReasonInSync ''no drift detected'', e1, w1))
                    else if length (dc_IgnorePaths cfg) = 0 then (Inr obs, mg1, e1, w1)
                    else
                      (let mg2 = (if length (ob_unobserved captured) > 0 then
                             drift_setCondition ops mg1 ReasonUnobserved
                               (''external resource did not report ignored path(s): ''
                                 @ join_with '', '' (ob_unobserved captured)
                                 @ ''; the spec value stands for these'')
                           else mg1) in
                       if ResourceUpToDate obs then
                         (Inr obs,
                          if length (ob_unobserved captured) = 0
                          then drift_setCondition ops mg2 ReasonInSync ''no drift detected'' else mg2, e1, w1)
                       else
                         (case apply_obs ops mg2 (Some captured) of
                            Inl err \<Rightarrow> (Inl err, mg2, e1, w1)
                          | Inr shadow \<Rightarrow>
                              (case in_Observe inner shadow w1 of
                                 (Inl err, _, w2) \<Rightarrow> (Inl err, mg2, e1, w2)
                               | (Inr shadowObs, _, w2) \<Rightarrow>
                                   (let mg3 = (if ResourceUpToDate shadowObs then
                                          drift_setCondition ops mg2 ReasonIgnored
                                            (''drift confined to ignored paths: ''
                                              @ join_with '', '' (dc_IgnorePaths cfg))
                                        else drift_setCondition ops mg2 ReasonDrifted
                                               ''drift outside ignored paths; correcting'')
                                    in (Inr (obs\<lparr>ResourceUpToDate := ResourceUpToDate shadowObs\<rparr>),
                                        mg3, e1, w2)))))))))"

definition drift_Create ::
  "('mg, 'w) external_client \<Rightarrow> 'mg \<Rightarrow> captured \<Rightarrow> 'w \<Rightarrow> goerr option \<times> 'mg \<times> captured \<times> 'w" where
  "drift_Create inner mg e w = (case in_Create inner mg w of (r, mg1, w1) \<Rightarrow> (r, mg1, e, w1))"

definition drift_Update ::
  "'mg mgops \<Rightarrow> ('mg, 'w) external_client \<Rightarrow> 'mg \<Rightarrow> captured \<Rightarrow> 'w \<Rightarrow>
     goerr option \<times> 'mg \<times> captured \<times> 'w" where
  "drift_Update ops inner mg e w =
     (case ReadConfig ops mg of
        Inl err \<Rightarrow> (Some err, mg, e, w)
      | Inr cfg \<Rightarrow>
          if dc_Mode cfg \<noteq> ModeEnabled \<or> length (dc_IgnorePaths cfg) = 0 then
            (case in_Update inner mg w of (r, mg1, w1) \<Rightarrow> (r, mg1, e, w1))
          else (case e of
            None \<Rightarrow> (Some (TextError errNoObserve), mg, e, w)
          | Some captured \<Rightarrow>
              (case apply_obs ops mg (Some captured) of
                 Inl err \<Rightarrow> (Some err, mg, e, w)
               | Inr shadow \<Rightarrow>
                   (case in_Update inner shadow w of
                      (r, shadow1, w1) \<Rightarrow>
                        (r, mg_set_annotations ops (mg_annotations ops shadow1) mg, e, w1)))))"

definition drift_Delete ::
  "('mg, 'w) external_client \<Rightarrow> 'mg \<Rightarrow> captured \<Rightarrow> 'w \<Rightarrow> goerr option \<times> 'mg \<times> captured \<times> 'w" where
  "drift_Delete inner mg e w = (case in_Delete inner mg w of (r, mg1, w1) \<Rightarrow> (r, mg1, e, w1))"

definition drift_Disconnect ::
  "('mg, 'w) external_client \<Rightarrow> captured \<Rightarrow> 'w \<Rightarrow> goerr option \<times> captured \<times> 'w" where
  "drift_Disconnect inner e w = (case in_Disconnect inner w of (r, w1) \<Rightarrow> (r, None, w1))"

text \<open>WrapConnector: connect, then wrap what was connected.\<close>

definition WrapConnector ::
  "('mg \<Rightarrow> 'w \<Rightarrow> (goerr + ('mg, 'w) external_client) \<times> 'w) \<Rightarrow> 'mg \<Rightarrow> 'w \<Rightarrow>
     (goerr + ('mg, 'w) external_client \<times> captured) \<times> 'w" where
  "WrapConnector connect mg w =
     (case connect mg w of
        (Inl err, w1) \<Rightarrow> (Inl err, w1)
      | (Inr inner, w1) \<Rightarrow> (Inr (inner, WrapClient_obs), w1))"

end
