(* ===== verification/DriftSpec.thy ===== *)
theory DriftSpec
  imports Drift "HOL-Library.Multiset"
begin

text \<open>
  What the drift decorator guarantees: which ignore paths it accepts, that an
  update carries the observed values of the ignored paths, that it fails closed
  without an observation, and that it is transparent when not configured.
\<close>

section \<open>Configuration\<close>

lemma readIgnorePaths_spec:
  assumes "readIgnorePaths ops p es acc = Inr paths"
  shows "\<exists>new. paths = acc @ new \<and> length new = length es \<and>
    (\<forall>i < length es. \<exists>s. fp_get_string ops p (es ! i) = Inr s \<and>
       normalizePath (fp_parse ops) s = Inr (new ! i) \<and> checkEligible (mg_type ops) (new ! i) = None)"
  using assms
proof (induction es arbitrary: acc)
  case (Cons e es)
  then obtain s n where n: "fp_get_string ops p e = Inr s" "normalizePath (fp_parse ops) s = Inr n"
    "checkEligible (mg_type ops) n = None" "readIgnorePaths ops p es (acc @ [n]) = Inr paths"
    by (auto split: sum.splits option.splits)
  from Cons.IH [OF n(4)] obtain new where new: "paths = (acc @ [n]) @ new" "length new = length es"
    "\<forall>i < length es. \<exists>s. fp_get_string ops p (es ! i) = Inr s \<and>
       normalizePath (fp_parse ops) s = Inr (new ! i) \<and> checkEligible (mg_type ops) (new ! i) = None"
    by blast
  with n show ?case
    by (intro exI [of _ "n # new"]) (auto simp: nth_Cons split: nat.split)
qed simp

lemma normalizePath_shape:
  assumes "normalizePath parse s = Inr p"
  shows "starts_with prefixForProvider p \<and> \<not> contains_any ''[]*'' p \<and> parse p = None"
  using assms by (auto simp: normalizePath_def Let_def split: if_splits option.splits)

lemma checkEligible_None:
  "checkEligible t path = None \<longleftrightarrow>
     eligibleFields (last (split_on (CHR 0x2E) path)) \<and> typeHasField t path"
  by (simp add: checkEligible_def Let_def)

text \<open>What ReadConfig accepts, one path per entry.\<close>

lemma ReadConfig_accepted:
  assumes "ReadConfig ops mg = Inr cfg" and "path \<in> set (dc_IgnorePaths cfg)"
  shows "starts_with prefixForProvider path \<and> \<not> contains_any ''[]*'' path \<and>
    eligibleFields (last (split_on (CHR 0x2E) path)) \<and> typeHasField (mg_type ops) path"
proof -
  obtain p where "fp_pave ops mg = Inr p"
    using assms(1) by (auto simp: ReadConfig_def split: sum.splits)
  then obtain es where "readIgnorePaths ops p es [] = Inr (dc_IgnorePaths cfg)"
    using assms by (auto simp: ReadConfig_def split: sum.splits if_splits)
  from readIgnorePaths_spec [OF this] have "length (dc_IgnorePaths cfg) = length es"
    "\<forall>i < length es. \<exists>s. fp_get_string ops p (es ! i) = Inr s \<and>
       normalizePath (fp_parse ops) s = Inr (dc_IgnorePaths cfg ! i) \<and>
       checkEligible (mg_type ops) (dc_IgnorePaths cfg ! i) = None"
    by auto
  with assms(2) normalizePath_shape checkEligible_None show ?thesis by (metis in_set_conv_nth)
qed

text \<open>
  C32: an accepted configuration names only paths under forProvider without indices or
  wildcards, whose last segment is on the allowlist and which exist on the resource's own
  type; it is all or nothing, one accepted path per entry of the spec.
\<close>

theorem ReadConfig_paths:
  assumes "ReadConfig ops mg = Inr cfg"
  shows "(\<forall>path \<in> set (dc_IgnorePaths cfg).
      starts_with ''forProvider.'' path \<and> \<not> contains_any ''[]*'' path \<and>
      last (split_on (CHR ''.'') path) \<in> {''comment'', ''extAttrs'', ''ttl'', ''useTtl'', ''disable''} \<and>
      typeHasField (mg_type ops) path) \<and>
    (\<forall>p es. fp_pave ops mg = Inr p \<longrightarrow> fp_expand ops p pathIgnorePaths = Inr es \<longrightarrow>
      length (dc_IgnorePaths cfg) = length es)"
proof -
  obtain p where pave: "fp_pave ops mg = Inr p"
    using assms by (auto simp: ReadConfig_def split: sum.splits)
  define es where "es = (case fp_expand ops p pathIgnorePaths of Inl _ \<Rightarrow> [] | Inr es \<Rightarrow> es)"
  have p: "fp_expand ops p pathIgnorePaths = Inr es \<or> is_err (fp_expand ops p pathIgnorePaths)"
    by (simp add: es_def is_err_def split: sum.split)
  have loop: "readIgnorePaths ops p es [] = Inr (dc_IgnorePaths cfg)"
    using assms pave by (auto simp: ReadConfig_def es_def split: sum.splits if_splits)
  from readIgnorePaths_spec [OF loop] have new: "length (dc_IgnorePaths cfg) = length es"
    "\<forall>i < length es. \<exists>s. fp_get_string ops p (es ! i) = Inr s \<and>
       normalizePath (fp_parse ops) s = Inr (dc_IgnorePaths cfg ! i) \<and>
       checkEligible (mg_type ops) (dc_IgnorePaths cfg ! i) = None"
    by auto
  note accepted = ReadConfig_accepted [OF assms]
  have "length (dc_IgnorePaths cfg) = length es'"
    if "fp_pave ops mg = Inr p'" "fp_expand ops p' pathIgnorePaths = Inr es'" for p' es'
    using that pave p new(1) by auto
  with accepted show ?thesis by (auto simp: prefixForProvider_def eligibleFields_def)
qed

section \<open>Two grammars of a path\<close>

definition pointer_escape :: "string \<Rightarrow> string" where
  "pointer_escape s = concat (map (\<lambda>c. if c = CHR 0x7E then ''~0'' else if c = CHR 0x2F then ''~1'' else [c]) s)"

lemma replace2_cons: "c \<noteq> a \<Longrightarrow> replace2 a b r (c # s) = c # replace2 a b r s"
  by (cases s) simp_all

lemma unescape_escape: "unescape_pointer (pointer_escape s) = s"
proof -
  let ?step1 = "\<lambda>s. concat (map (\<lambda>c. if c = CHR 0x7E then ''~0'' else [c]) s)"
  have one: "replace2 (CHR 0x7E) (CHR 0x31) (CHR 0x2F) (pointer_escape s) = ?step1 s" for s
    by (induction s) (auto simp: pointer_escape_def replace2_cons)
  have two: "replace2 (CHR 0x7E) (CHR 0x30) (CHR 0x7E) (?step1 s) = s" for s
    by (induction s) (auto simp: replace2_cons)
  show ?thesis by (simp only: unescape_pointer_def one two)
qed

lemma pointer_escape_no_slash: "CHR 0x2F \<notin> set (pointer_escape s)"
  by (induction s) (auto simp: pointer_escape_def)

lemma split_join:
  "ws \<noteq> [] \<Longrightarrow> \<forall>w \<in> set ws. d \<notin> set w \<Longrightarrow> split_on d (join_with [d] ws) = ws"
proof (induction ws)
  case (Cons w ws)
  then show ?case
    by (cases "ws = []") (simp_all add: split_on_no_sep split_on_append join_with_Cons_ne)
qed simp

text \<open>
  A path written as a JSON Pointer (its segments escaped by RFC 6901) and the same path
  written with dots are normalised alike.
\<close>

theorem normalizePath_grammars:
  assumes "segs \<noteq> []"
    and "trim_space (''/'' @ join_with ''/'' (map pointer_escape segs)) = ''/'' @ join_with ''/'' (map pointer_escape segs)"
    and "trim_space (join_with ''.'' segs) = join_with ''.'' segs"
    and "join_with ''.'' segs \<noteq> []" and "\<not> starts_with ''/'' (join_with ''.'' segs)"
  shows "normalizePath parse (''/'' @ join_with ''/'' (map pointer_escape segs)) = Inr p \<longleftrightarrow>
    normalizePath parse (join_with ''.'' segs) = Inr p"
proof -
  have "split_on (CHR 0x2F) (join_with ''/'' (map pointer_escape segs)) = map pointer_escape segs"
    using assms(1) pointer_escape_no_slash by (intro split_join) auto
  moreover have "trim_prefix ''/'' (CHR 0x2F # s) = s" for s
    using trim_prefix_append [of "''/''" s] by simp
  ultimately show ?thesis
    using assms(2-5)
    by (simp add: normalizePath_def Let_def unescape_escape comp_def split: option.split)
qed

section \<open>Substitution\<close>

text \<open>Dotted paths neither of which contains the other.\<close>

definition independent :: "string \<Rightarrow> string \<Rightarrow> bool" where
  "independent a b \<longleftrightarrow> \<not> starts_with (a @ ''.'') (b @ ''.'') \<and> \<not> starts_with (b @ ''.'') (a @ ''.'')"

text \<open>A path of field names only: no brackets or wildcards, and no empty segment.\<close>

definition plain_path :: "string \<Rightarrow> bool" where
  "plain_path path \<longleftrightarrow> \<not> contains_any ''[]*'' path \<and> [] \<notin> set (split_on (CHR 0x2E) path)"

text \<open>A value some projection has.\<close>

definition observed_value :: "'mg mgops \<Rightarrow> json \<Rightarrow> bool" where
  "observed_value ops v \<longleftrightarrow> (\<exists>mg p path. fp_pave ops mg = Inr p \<and> fp_get_value ops p path = Inr v)"

text \<open>
  What omitempty drops from a projection; a projection reads as a value when it has that value,
  or when the value is one of those and the field is not there.
\<close>

fun empty_json :: "json \<Rightarrow> bool" where
  "empty_json JNull = True"
| "empty_json (JBool b) = (\<not> b)"
| "empty_json (JNum n) = (n = 0)"
| "empty_json (JStr s) = (s = [])"
| "empty_json (JArr xs) = (xs = [])"
| "empty_json (JObj m) = (m = fmempty)"

definition reads_as :: "'mg mgops \<Rightarrow> json \<Rightarrow> string \<Rightarrow> json \<Rightarrow> bool" where
  "reads_as ops p path v \<longleftrightarrow>
     fp_get_value ops p path = Inr v \<or>
     empty_json v \<and> (\<exists>err. fp_get_value ops p path = Inl err \<and> fp_is_not_found ops err)"

text \<open>
  The documented behaviour of the projection, for paths of field names: a projected value that was
  set is read back; setting a path leaves the values at independent ones alone; a resource rebuilt
  from a projection reads, at an eligible field of its Go type, as the projected value the
  projection had there; and a range over a map visits every entry once.
\<close>

definition fieldpath_documented :: "'mg mgops \<Rightarrow> bool" where
  "fieldpath_documented ops \<longleftrightarrow>
     (\<forall>p path v p'. plain_path path \<longrightarrow> observed_value ops v \<longrightarrow> fp_set_value ops p path v = Inr p' \<longrightarrow>
        fp_get_value ops p' path = Inr v) \<and>
     (\<forall>p path v p' path' x. plain_path path \<longrightarrow> plain_path path' \<longrightarrow> independent path path' \<longrightarrow>
        fp_set_value ops p path v = Inr p' \<longrightarrow> fp_get_value ops p path' = Inr x \<longrightarrow> fp_get_value ops p' path' = Inr x) \<and>
     (\<forall>p mg mg'. fp_unpave ops p mg = Inr mg' \<longrightarrow> (\<exists>p'. fp_pave ops mg' = Inr p' \<and>
        (\<forall>path v. plain_path path \<longrightarrow> eligibleFields (last (split_on (CHR 0x2E) path)) \<longrightarrow>
           typeHasField (mg_type ops) path \<longrightarrow> observed_value ops v \<longrightarrow>
           fp_get_value ops p (prefixSpec @ path) = Inr v \<longrightarrow> reads_as ops p' (prefixSpec @ path) v))) \<and>
     (\<forall>m. mset (map_order ops m) = mset m)"

lemma plain_prefix: "plain_path path \<Longrightarrow> plain_path (prefixSpec @ path)"
proof -
  assume "plain_path path"
  moreover have "split_on (CHR 0x2E) (prefixSpec @ path) = ''spec'' # split_on (CHR 0x2E) path"
    by (simp add: prefixSpec_def)
  ultimately show ?thesis by (auto simp: plain_path_def contains_any_def prefixSpec_def)
qed

lemma starts_with_same: "starts_with (p @ a) (p @ b) = starts_with a b"
  by (induction p) simp_all

lemma independent_prefix: "independent (p @ a) (p @ b) = independent a b"
  by (simp add: independent_def starts_with_same)

definition all_independent :: "string list \<Rightarrow> bool" where
  "all_independent ps \<longleftrightarrow> (\<forall>a \<in> set ps. \<forall>b \<in> set ps. a \<noteq> b \<longrightarrow> independent a b)"

lemma set_values_other:
  assumes "fieldpath_documented ops" "set_values ops vs p = Inr p'"
    and "\<forall>e \<in> set vs. plain_path (fst e) \<and> independent (fst e) k" "plain_path k"
    and "fp_get_value ops p (prefixSpec @ k) = Inr x"
  shows "fp_get_value ops p' (prefixSpec @ k) = Inr x"
  using assms(2,3,5)
proof (induction vs arbitrary: p)
  case (Cons e vs)
  obtain path v where e: "e = (path, v)" by (cases e)
  with Cons.prems obtain p1 where p1: "fp_set_value ops p (prefixSpec @ path) v = Inr p1" "set_values ops vs p1 = Inr p'"
    by (auto split: sum.splits)
  have "plain_path (prefixSpec @ path)" "plain_path (prefixSpec @ k)" "independent (prefixSpec @ path) (prefixSpec @ k)"
    using Cons.prems(2) assms(4) e by (simp_all add: plain_prefix independent_prefix)
  with p1(1) Cons.prems(3) assms(1) have "fp_get_value ops p1 (prefixSpec @ k) = Inr x"
    unfolding fieldpath_documented_def by blast
  with Cons.IH [OF p1(2)] Cons.prems(2) show ?case by simp
qed simp

lemma set_values_get:
  assumes "fieldpath_documented ops" "set_values ops vs p = Inr p'"
    and "distinct (map fst vs)" "all_independent (map fst vs)"
    and "\<forall>e \<in> set vs. plain_path (fst e) \<and> observed_value ops (snd e)" "(k, v) \<in> set vs"
  shows "fp_get_value ops p' (prefixSpec @ k) = Inr v"
  using assms(2-6)
proof (induction vs arbitrary: p)
  case (Cons e vs)
  obtain path x where e: "e = (path, x)" by (cases e)
  with Cons.prems obtain p1 where p1: "fp_set_value ops p (prefixSpec @ path) x = Inr p1" "set_values ops vs p1 = Inr p'"
    by (auto split: sum.splits)
  show ?case
  proof (cases "(k, v) = e")
    case True
    with e have k: "k = path" "v = x" by simp_all
    have plain: "plain_path k" "observed_value ops v" using Cons.prems(4) e k by simp_all
    with p1(1) k assms(1) have set: "fp_get_value ops p1 (prefixSpec @ k) = Inr v"
      unfolding fieldpath_documented_def by (blast dest: plain_prefix)
    have "\<forall>e \<in> set vs. plain_path (fst e) \<and> independent (fst e) k"
      using Cons.prems(2,3,4) e k by (force simp: all_independent_def)
    from set_values_other [OF assms(1) p1(2) this plain(1) set] show ?thesis .
  next
    case False
    then have "(k, v) \<in> set vs" using Cons.prems(5) by simp
    with Cons.IH [OF p1(2)] Cons.prems(2,3,4) show ?thesis
      by (auto simp: all_independent_def)
  qed
qed simp

lemma snapshot_loop_spec:
  assumes "snapshot_loop ops p paths obs = Inr obs'"
    and "\<forall>e \<in> set (ob_values obs). fp_get_value ops p (at_path (fst e)) = Inr (snd e)"
    and "distinct (map fst (ob_values obs))"
  shows "(\<forall>e \<in> set (ob_values obs'). fp_get_value ops p (at_path (fst e)) = Inr (snd e)) \<and>
    distinct (map fst (ob_values obs')) \<and> set (ob_values obs) \<subseteq> set (ob_values obs') \<and>
    fst ` set (ob_values obs') \<subseteq> fst ` set (ob_values obs) \<union> set paths \<and>
    (\<forall>path \<in> set paths. \<forall>v. fp_get_value ops p (at_path path) = Inr v \<longrightarrow> (path, v) \<in> set (ob_values obs'))"
  using assms
proof (induction paths arbitrary: obs)
  case (Cons path paths)
  show ?case
  proof (cases "fp_get_value ops p (at_path path)")
    case (Inl err)
    with Cons.prems have l: "snapshot_loop ops p paths (obs\<lparr>ob_unobserved := ob_unobserved obs @ [path]\<rparr>) = Inr obs'"
      by (auto split: if_splits)
    from Cons.IH [OF l] Cons.prems Inl show ?thesis by auto
  next
    case (Inr v)
    let ?obs = "obs\<lparr>ob_values := put_value path v (ob_values obs)\<rparr>"
    have l: "snapshot_loop ops p paths ?obs = Inr obs'" using Cons.prems Inr by simp
    have sub: "set (ob_values obs) \<subseteq> set (put_value path v (ob_values obs))"
      using Cons.prems(2) Inr by (force simp: put_value_def)
    have "distinct (map fst (put_value path v (ob_values obs)))"
      using Cons.prems(3) by (auto simp: put_value_def distinct_map_filter)
    with Cons.IH [OF l] Cons.prems(2) Inr sub show ?thesis
      by (auto simp: put_value_def)
  qed
qed auto

text \<open>The ignored paths a captured observation can be about.\<close>

definition substitutable :: "'mg mgops \<Rightarrow> string \<times> json \<Rightarrow> bool" where
  "substitutable ops e \<longleftrightarrow>
     plain_path (fst e) \<and> eligibleFields (last (split_on (CHR 0x2E) (fst e))) \<and> typeHasField (mg_type ops) (fst e) \<and>
     observed_value ops (snd e)"

lemma apply_obs_values:
  assumes "fieldpath_documented ops" "apply_obs ops mg (Some ob) = Inr shadow"
    and "distinct (map fst (ob_values ob))" "all_independent (map fst (ob_values ob))"
    and "\<forall>e \<in> set (ob_values ob). substitutable ops e" "(k, v) \<in> set (ob_values ob)"
  shows "\<exists>p. fp_pave ops shadow = Inr p \<and> reads_as ops p (prefixSpec @ k) v"
proof -
  have ne: "length (ob_values ob) \<noteq> 0" using assms(6) by auto
  obtain p p1 where p: "fp_pave ops mg = Inr p" "set_values ops (map_order ops (ob_values ob)) p = Inr p1"
    "fp_unpave ops p1 mg = Inr shadow"
    using assms(2) ne by (auto simp: apply_obs_def split: sum.splits)
  have perm: "mset (map_order ops (ob_values ob)) = mset (ob_values ob)"
    using assms(1) by (simp add: fieldpath_documented_def)
  then have s: "set (map_order ops (ob_values ob)) = set (ob_values ob)" by (rule mset_eq_setD)
  from perm have "mset (map fst (map_order ops (ob_values ob))) = mset (map fst (ob_values ob))" by simp
  then have d: "distinct (map fst (map_order ops (ob_values ob)))"
    using assms(3) mset_eq_imp_distinct_iff by blast
  have "all_independent (map fst (map_order ops (ob_values ob)))"
    using assms(4) s by (simp add: all_independent_def)
  moreover have "\<forall>e \<in> set (map_order ops (ob_values ob)). plain_path (fst e) \<and> observed_value ops (snd e)"
    using assms(5) s by (simp add: substitutable_def)
  ultimately have "fp_get_value ops p1 (prefixSpec @ k) = Inr v"
    using set_values_get [OF assms(1) p(2) d] assms(6) s by blast
  moreover have "substitutable ops (k, v)" using assms(5,6) by blast
  ultimately show ?thesis
    using assms(1) p(3) unfolding fieldpath_documented_def substitutable_def by (metis fst_conv snd_conv)
qed

section \<open>The decorated client\<close>

lemma drift_Observe_captures:
  assumes "ReadConfig ops mg = Inr cfg" "in_Observe inner mg w = (Inr o0, mg0, w0)" "ResourceExists o0"
    and "drift_Observe ops inner mg e0 w = (Inr o1, mg1, e1, w1)"
  obtains captured where "snapshot ops mg0 (dc_IgnorePaths cfg) = Inr captured" "e1 = Some captured"
  using assms
  by (cases "snapshot ops mg0 (dc_IgnorePaths cfg)")
    (simp_all add: drift_Observe_def Let_def split: if_splits sum.splits prod.splits)

lemma snapshot_spec:
  assumes "snapshot ops mg paths = Inr captured" "fp_pave ops mg = Inr seen"
  shows "distinct (map fst (ob_values captured)) \<and> fst ` set (ob_values captured) \<subseteq> set paths \<and>
    (\<forall>e \<in> set (ob_values captured). fp_get_value ops seen (at_path (fst e)) = Inr (snd e)) \<and>
    (\<forall>path \<in> set paths. \<forall>v. fp_get_value ops seen (at_path path) = Inr v \<longrightarrow> (path, v) \<in> set (ob_values captured))"
proof (cases "paths = []")
  case False
  then have "snapshot_loop ops seen paths \<lparr>ob_values = [], ob_unobserved = []\<rparr> = Inr captured"
    using assms by (simp add: snapshot_def)
  from snapshot_loop_spec [OF this] show ?thesis by auto
qed (use assms in \<open>auto simp: snapshot_def\<close>)

text \<open>
  C19: in mode enabled, with ignored paths of which none contains another (and none has an empty
  segment), the Update that follows an Observe of an existing resource in the same reconcile, under an
  unchanged drift block, either fails without calling the wrapped client, or calls it on a copy
  of the resource whose spec reads, at every ignored path the external resource reported, as
  the value this Observe saw (a zero or empty value may read as an absent field).
\<close>

theorem Update_sends_observed:
  assumes "fieldpath_documented ops"
    and "ReadConfig ops mg = Inr cfg" and "dc_Mode cfg = ModeEnabled" and "dc_IgnorePaths cfg \<noteq> []"
    and "all_independent (dc_IgnorePaths cfg)"
    and "\<forall>path \<in> set (dc_IgnorePaths cfg). [] \<notin> set (split_on (CHR ''.'') path)"
    and "in_Observe inner mg w = (Inr o0, mg0, w0)" and "ResourceExists o0" and "fp_pave ops mg0 = Inr seen"
    and "drift_Observe ops inner mg e0 w = (Inr o1, mg1, e1, w1)" and "ReadConfig ops mg1 = Inr cfg"
  shows "(\<exists>err. drift_Update ops inner mg1 e1 w1 = (Some err, mg1, e1, w1)) \<or>
    (\<exists>shadow r shadow1 w2. in_Update inner shadow w1 = (r, shadow1, w2) \<and>
       drift_Update ops inner mg1 e1 w1 = (r, mg_set_annotations ops (mg_annotations ops shadow1) mg1, e1, w2) \<and>
       (\<forall>path \<in> set (dc_IgnorePaths cfg). \<forall>v. fp_get_value ops seen (at_path path) = Inr v \<longrightarrow>
          (\<exists>p. fp_pave ops shadow = Inr p \<and> reads_as ops p (prefixSpec @ path) v)))"
proof -
  from assms(2,7,8,10) obtain captured where c: "snapshot ops mg0 (dc_IgnorePaths cfg) = Inr captured"
    "e1 = Some captured" by (rule drift_Observe_captures)
  from snapshot_spec [OF c(1) assms(9)] have cap: "distinct (map fst (ob_values captured))"
    "fst ` set (ob_values captured) \<subseteq> set (dc_IgnorePaths cfg)"
    "\<And>e. e \<in> set (ob_values captured) \<Longrightarrow> fp_get_value ops seen (at_path (fst e)) = Inr (snd e)"
    "\<And>path v. path \<in> set (dc_IgnorePaths cfg) \<Longrightarrow> fp_get_value ops seen (at_path path) = Inr v \<Longrightarrow>
       (path, v) \<in> set (ob_values captured)" by auto
  have ind: "all_independent (map fst (ob_values captured))"
    using assms(5) cap(2) by (auto simp: all_independent_def)
  have sub: "\<forall>e \<in> set (ob_values captured). substitutable ops e"
  proof
    fix e
    assume e: "e \<in> set (ob_values captured)"
    then have "fst e \<in> set (dc_IgnorePaths cfg)" using cap(2) by blast
    moreover have "observed_value ops (snd e)"
      using assms(9) cap(3) [OF e] by (auto simp: observed_value_def)
    ultimately show "substitutable ops e"
      using ReadConfig_accepted [OF assms(2)] assms(6) by (auto simp: substitutable_def plain_path_def)
  qed
  show ?thesis
  proof (cases "apply_obs ops mg1 (Some captured)")
    case (Inl err)
    with assms(3,4,11) c show ?thesis by (auto simp: drift_Update_def)
  next
    case (Inr shadow)
    obtain r s1 w2 where u: "in_Update inner shadow w1 = (r, s1, w2)"
      by (cases "in_Update inner shadow w1") auto
    with Inr assms(3,4,11) c have
      "drift_Update ops inner mg1 e1 w1 = (r, mg_set_annotations ops (mg_annotations ops s1) mg1, e1, w2)"
      by (simp add: drift_Update_def)
    moreover have "\<exists>p. fp_pave ops shadow = Inr p \<and> reads_as ops p (prefixSpec @ path) v"
      if "path \<in> set (dc_IgnorePaths cfg)" "fp_get_value ops seen (at_path path) = Inr v" for path v
      using apply_obs_values [OF assms(1) Inr cap(1) ind sub cap(4) [OF that]] .
    ultimately show ?thesis using u by blast
  qed
qed

text \<open>
  C34: in mode enabled with ignored paths configured, an Update before any Observe of the reconcile is
  refused and the wrapped client is not called; Disconnect forgets the observation, so the
  next reconcile starts closed. In every other mode (warn, disabled, or a value that is none of
  the three) Update does not fail closed: the wrapped client gets the resource itself, with the
  spec values of the ignored paths, whether or not there was an Observe.
\<close>

theorem Update_fails_closed:
  assumes "ReadConfig ops mg = Inr cfg" and "dc_IgnorePaths cfg \<noteq> []"
  shows "(dc_Mode cfg = ModeEnabled \<longrightarrow>
      drift_Update ops inner mg None w = (Some (TextError errNoObserve), mg, None, w) \<and>
      (\<forall>e w'. drift_Update ops inner mg (fst (snd (drift_Disconnect inner e w'))) w =
         (Some (TextError errNoObserve), mg, None, w))) \<and>
    (dc_Mode cfg \<noteq> ModeEnabled \<longrightarrow>
      (\<forall>e. drift_Update ops inner mg e w = (case in_Update inner mg w of (r, mg1, w1) \<Rightarrow> (r, mg1, e, w1))))"
  using assms by (simp add: drift_Update_def drift_Disconnect_def split_beta)

text \<open>
  C33: a resource without a drift block is reconciled exactly as by the wrapped client:
  Observe, Create, Update and Delete return what it returns and change what it changes.
\<close>

theorem inactive_transparent:
  assumes "ReadConfig ops mg = Inr cfg" and "\<not> Active cfg"
  shows "(case drift_Observe ops inner mg e w of (r, mg', e', w') \<Rightarrow> (r, mg', w')) = in_Observe inner mg w \<and>
    (case drift_Update ops inner mg e w of (r, mg', e', w') \<Rightarrow> (r, mg', w')) = in_Update inner mg w \<and>
    (case drift_Create inner mg e w of (r, mg', e', w') \<Rightarrow> (r, mg', w')) = in_Create inner mg w \<and>
    (case drift_Delete inner mg e w of (r, mg', e', w') \<Rightarrow> (r, mg', w')) = in_Delete inner mg w"
proof -
  have cfg: "dc_Mode cfg = ModeEnabled" "dc_IgnorePaths cfg = []"
    using assms(2) by (auto simp: Active_def)
  have modes: "ModeEnabled \<noteq> ModeDisabled" "ModeEnabled \<noteq> ModeWarn"
    by (simp_all add: ModeEnabled_def ModeDisabled_def ModeWarn_def)
  obtain r mg1 w1 where o: "in_Observe inner mg w = (r, mg1, w1)" by (cases "in_Observe inner mg w") auto
  have "(case drift_Observe ops inner mg e w of (r, mg', e', w') \<Rightarrow> (r, mg', w')) = in_Observe inner mg w"
    using assms(1) cfg modes o by (cases r) (simp_all add: drift_Observe_def snapshot_def)
  then show ?thesis
    using assms(1) cfg by (simp add: drift_Update_def drift_Create_def drift_Delete_def split_beta)
qed

text \<open>
  In modes warn and disabled the decorator never lets an existing resource be reported
  out of date, whatever the wrapped client says.
\<close>

theorem warn_disabled_never_update:
  assumes "ReadConfig ops mg = Inr cfg" and "dc_Mode cfg \<in> {ModeWarn, ModeDisabled}"
    and "drift_Observe ops inner mg e w = (Inr o1, mg1, e1, w1)" and "ResourceExists o1"
  shows "ResourceUpToDate o1"
proof -
  obtain r mg0 w0 where o: "in_Observe inner mg w = (r, mg0, w0)" by (cases "in_Observe inner mg w") auto
  show ?thesis
    using assms o
    by (cases r) (auto simp: drift_Observe_def Let_def split: if_splits sum.splits)
qed

text \<open>
  For a mode that is none of the three, Observe substitutes ignored paths as in mode
  enabled, but Update hands the wrapped client the resource itself, with its spec values
  for the ignored paths.
\<close>

theorem unrecognised_mode_update:
  assumes "ReadConfig ops mg = Inr cfg" and "dc_Mode cfg \<notin> {ModeEnabled, ModeWarn, ModeDisabled}"
  shows "drift_Update ops inner mg e w =
      (case in_Update inner mg w of (r, mg1, w1) \<Rightarrow> (r, mg1, e, w1)) \<and>
    (dc_IgnorePaths cfg \<noteq> [] \<longrightarrow> in_Observe inner mg w = (Inr o0, mg0, w0) \<longrightarrow> ResourceExists o0 \<longrightarrow>
     \<not> ResourceUpToDate o0 \<longrightarrow> snapshot ops mg0 (dc_IgnorePaths cfg) = Inr cap \<longrightarrow> ob_unobserved cap = [] \<longrightarrow>
     apply_obs ops mg0 (Some cap) = Inr shadow \<longrightarrow> in_Observe inner shadow w0 = (Inr o2, mg2, w2) \<longrightarrow>
     fst (drift_Observe ops inner mg e w) = Inr (o0\<lparr>ResourceUpToDate := ResourceUpToDate o2\<rparr>))"
  using assms by (simp add: drift_Update_def drift_Observe_def Let_def)

section \<open>A resource to apply the theorems to\<close>

text \<open>
  A resource whose projection is flat (every path is a key), with one ignored
  path; the client compares the comment in the spec with the one on the Grid
  and logs the spec comment it is asked to write.
\<close>

type_synonym demo_mg = "(string, json) fmap \<times> (string, string) fmap \<times> (string, condition) fmap"

definition ignored0 :: string where "ignored0 = ''forProvider.comment''"

fun flat_get :: "json \<Rightarrow> string \<Rightarrow> goerr + json" where
  "flat_get (JObj m) path = (case fmlookup m path of Some v \<Rightarrow> Inr v | None \<Rightarrow> Inl (NotFoundError path))"
| "flat_get _ path = Inl (NotFoundError path)"

fun flat_set :: "json \<Rightarrow> string \<Rightarrow> json \<Rightarrow> goerr + json" where
  "flat_set (JObj m) path v = Inr (JObj (fmupd path v m))"
| "flat_set _ path v = Inl (TextError path)"

definition demo_ops :: "demo_mg mgops" where
  "demo_ops =
     \<lparr>mg_type = GStruct [GField ''spec'' False (GStruct [GField ''forProvider'' False
        (GStruct [GField ''name'' False (GNamed ''string''), GField ''comment,omitempty'' False (GPtr (GNamed ''string''))])])],
      mg_annotations = (\<lambda>(m, a, c). a), mg_set_annotations = (\<lambda>a (m, _, c). (m, a, c)),
      mg_set_condition = (\<lambda>t x (m, a, c). (m, a, fmupd t x c)),
      fp_pave = (\<lambda>(m, a, c). Inr (JObj m)),
      fp_get_string = (\<lambda>p path. case flat_get p path of Inr (JStr s) \<Rightarrow> Inr s | _ \<Rightarrow> Inl (NotFoundError path)),
      fp_expand = (\<lambda>p path. case flat_get p path of Inr _ \<Rightarrow> Inr [path] | Inl e \<Rightarrow> Inl e),
      fp_get_value = flat_get, fp_set_value = flat_set,
      fp_unpave = (\<lambda>p (m, a, c). case p of JObj m' \<Rightarrow> Inr (m', a, c) | _ \<Rightarrow> Inl (TextError ''unpave'')),
      fp_parse = (\<lambda>s. None), fp_is_not_found = is_NotFoundError, map_order = (\<lambda>m. m)\<rparr>"

lemma flat_set_get:
  assumes "flat_set p path v = Inr p'"
  shows "flat_get p' path = Inr v" and "path' \<noteq> path \<Longrightarrow> flat_get p' path' = flat_get p path'"
  using assms by (cases p; auto)+

lemma demo_documented: "fieldpath_documented demo_ops"
proof -
  have "path' \<noteq> path" if "independent path path'" for path path'
    using that starts_with_append [of "path @ ''.''" "[]"] by (auto simp: independent_def)
  moreover have "fp_unpave demo_ops p mg = Inr mg' \<Longrightarrow> fp_pave demo_ops mg' = Inr p" for p mg mg'
    by (cases p) (auto simp: demo_ops_def split: prod.splits)
  moreover have "fp_set_value demo_ops = flat_set" "fp_get_value demo_ops = flat_get" "map_order demo_ops = (\<lambda>m. m)"
    by (simp_all add: demo_ops_def)
  ultimately show ?thesis
    using flat_set_get by (fastforce simp: fieldpath_documented_def reads_as_def)
qed

definition demo_mg :: "string \<Rightarrow> demo_mg" where
  "demo_mg mode =
     (fmupd (prefixSpec @ ignored0) (JStr ''mine'') (fmupd (at_path ignored0) (JStr ''theirs'')
        (fmupd pathMode (JStr mode) (fmupd pathIgnorePaths (JStr ignored0) fmempty))), fmempty, fmempty)"

definition demo_inner :: "(demo_mg, json list) external_client" where
  "demo_inner =
     \<lparr>in_Observe = (\<lambda>(m, a, c) w.
        (Inr \<lparr>ResourceExists = True, ResourceUpToDate =
                (fmlookup m (prefixSpec @ ignored0) = fmlookup m (at_path ignored0)), ResourceLateInitialized = False\<rparr>,
         (m, a, c), w)),
      in_Create = (\<lambda>mg w. (None, mg, w)),
      in_Update = (\<lambda>(m, a, c) w. (None, (m, a, c), w @ [the (fmlookup m (prefixSpec @ ignored0))])),
      in_Delete = (\<lambda>mg w. (None, mg, w)), in_Disconnect = (\<lambda>w. (None, w))\<rparr>"

lemma demo_keys:
  "prefixSpec @ ignored0 \<noteq> at_path ignored0" "prefixSpec @ ignored0 \<noteq> pathMode" "prefixSpec @ ignored0 \<noteq> pathIgnorePaths"
  "at_path ignored0 \<noteq> pathMode" "at_path ignored0 \<noteq> pathIgnorePaths" "pathMode \<noteq> pathIgnorePaths"
  by (simp_all add: prefixSpec_def ignored0_def at_path_def prefixAtProvider_def pathMode_def pathIgnorePaths_def)

lemma demo_normalize: "normalizePath parse ignored0 = Inr ignored0" if "parse = (\<lambda>s. None)"
proof -
  have "trim_space ignored0 = ignored0"
    by (rule trim_space_visible) (simp add: ignored0_def visible_ascii_def)
  then show ?thesis
    using that by (simp add: normalizePath_def Let_def) (simp add: ignored0_def contains_any_def prefixForProvider_def)
qed

lemma demo_eligible: "checkEligible (mg_type demo_ops) ignored0 = None"
  by (simp add: checkEligible_None ignored0_def eligibleFields_def typeHasField_def demo_ops_def json_name_def)

lemma demo_config:
  assumes "mode \<noteq> []"
  shows "ReadConfig demo_ops (demo_mg mode) = Inr \<lparr>dc_Mode = mode, dc_IgnorePaths = [ignored0]\<rparr>"
proof -
  have p: "fp_pave demo_ops (demo_mg mode) = Inr (JObj (fst (demo_mg mode)))"
    "fp_expand demo_ops (JObj (fst (demo_mg mode))) pathIgnorePaths = Inr [pathIgnorePaths]" "fp_parse demo_ops = (\<lambda>s. None)"
    using demo_keys by (simp_all add: demo_ops_def demo_mg_def)
  have s: "fp_get_string demo_ops (JObj (fst (demo_mg mode))) pathMode = Inr mode"
    "fp_get_string demo_ops (JObj (fst (demo_mg mode))) pathIgnorePaths = Inr ignored0"
    using demo_keys by (simp_all add: demo_ops_def demo_mg_def)
  show ?thesis
    using assms by (simp add: ReadConfig_def p s demo_normalize demo_eligible)
qed

lemma mode_facts [simp]:
  "ModeEnabled \<noteq> []" "ModeWarn \<noteq> []" "ModeDisabled \<noteq> ModeEnabled" "ModeWarn \<noteq> ModeEnabled"
  by (simp_all add: ModeEnabled_def ModeWarn_def ModeDisabled_def)

lemma demo_observed:
  "in_Observe demo_inner (demo_mg mode) w =
     (Inr \<lparr>ResourceExists = True, ResourceUpToDate = False, ResourceLateInitialized = False\<rparr>, demo_mg mode, w)"
  "fp_pave demo_ops (demo_mg mode) = Inr (JObj (fst (demo_mg mode)))"
  "fp_get_value demo_ops (JObj (fst (demo_mg mode))) (at_path ignored0) = Inr (JStr ''theirs'')"
  "fp_get_value demo_ops (JObj (fst (demo_mg mode))) (prefixSpec @ ignored0) = Inr (JStr ''mine'')"
  using demo_keys(1) by (simp_all add: demo_inner_def demo_ops_def demo_mg_def)

lemma ReadConfig_paths_witness:
  "starts_with ''forProvider.'' ignored0 \<and> typeHasField (mg_type demo_ops) ignored0"
  using ReadConfig_paths [OF demo_config, of ModeEnabled] by simp

lemma normalizePath_grammars_witness:
  "normalizePath (\<lambda>s. None) ''/forProvider/comment'' = normalizePath (\<lambda>s. None) ''forProvider.comment''"
proof -
  have "trim_space ''/forProvider/comment'' = ''/forProvider/comment''" "trim_space ''forProvider.comment'' = ''forProvider.comment''"
    by (rule trim_space_visible, simp add: visible_ascii_def)+
  then show ?thesis
    using normalizePath_grammars [of "[''forProvider'', ''comment'']" "\<lambda>s. None" ignored0] demo_normalize [of "\<lambda>s. None"]
    by (simp add: pointer_escape_def ignored0_def)
qed

lemma Update_fails_closed_witness:
  "drift_Update demo_ops demo_inner (demo_mg ModeEnabled) None [] = (Some (TextError errNoObserve), demo_mg ModeEnabled, None, [])"
  using Update_fails_closed [OF demo_config, of ModeEnabled demo_inner "[]"] by simp

lemma warn_disabled_never_update_witness:
  "\<exists>o1 mg1 e1 w1. drift_Observe demo_ops demo_inner (demo_mg ModeWarn) None [] = (Inr o1, mg1, e1, w1) \<and>
     ResourceUpToDate o1 \<and> (\<exists>o0 mg0 w0. in_Observe demo_inner (demo_mg ModeWarn) [] = (Inr o0, mg0, w0) \<and> \<not> ResourceUpToDate o0)"
proof -
  have "fst (drift_Observe demo_ops demo_inner (demo_mg ModeWarn) None []) =
      Inr \<lparr>ResourceExists = True, ResourceUpToDate = True, ResourceLateInitialized = False\<rparr>"
    by (simp add: drift_Observe_def demo_config demo_observed snapshot_def Let_def)
  then obtain o1 mg1 e1 w1 where o: "drift_Observe demo_ops demo_inner (demo_mg ModeWarn) None [] = (Inr o1, mg1, e1, w1)" "ResourceExists o1"
    by (cases "drift_Observe demo_ops demo_inner (demo_mg ModeWarn) None []") auto
  have "dc_Mode \<lparr>dc_Mode = ModeWarn, dc_IgnorePaths = [ignored0]\<rparr> \<in> {ModeWarn, ModeDisabled}" by simp
  from warn_disabled_never_update [OF demo_config this o] o(1) show ?thesis
    unfolding demo_observed(1) by (cases mg1) (simp add: demo_mg_def)
qed

lemma demo_apply:
  "fst (demo_mg mode) = m \<Longrightarrow> apply_obs demo_ops (m, a, c) (Some \<lparr>ob_values = [(ignored0, JStr ''theirs'')], ob_unobserved = []\<rparr>) =
     Inr (fmupd (prefixSpec @ ignored0) (JStr ''theirs'') m, a, c)"
  by (simp add: apply_obs_def demo_ops_def)

lemma demo_snapshot:
  "snapshot demo_ops (demo_mg mode) [ignored0] = Inr \<lparr>ob_values = [(ignored0, JStr ''theirs'')], ob_unobserved = []\<rparr>"
  by (simp add: snapshot_def demo_observed put_value_def)

lemma demo_shadow:
  "in_Observe demo_inner (fmupd (prefixSpec @ ignored0) (JStr ''theirs'') (fst (demo_mg mode)), a, c) w =
     (Inr \<lparr>ResourceExists = True, ResourceUpToDate = True, ResourceLateInitialized = False\<rparr>,
      (fmupd (prefixSpec @ ignored0) (JStr ''theirs'') (fst (demo_mg mode)), a, c), w)"
  using demo_keys(1) by (auto simp: demo_inner_def demo_mg_def)

lemma demo_mg_parts: "demo_mg mode = (fst (demo_mg mode), fmempty, fmempty)"
  by (simp add: demo_mg_def)

lemma unrecognised_mode_update_witness:
  "fst (drift_Observe demo_ops demo_inner (demo_mg ''Enabled'') None []) =
     Inr \<lparr>ResourceExists = True, ResourceUpToDate = True, ResourceLateInitialized = False\<rparr> \<and>
   snd (snd (snd (drift_Update demo_ops demo_inner (demo_mg ''Enabled'') None []))) = [JStr ''mine'']"
proof -
  let ?mg = "demo_mg ''Enabled''" and ?cap = "\<lparr>ob_values = [(ignored0, JStr ''theirs'')], ob_unobserved = []\<rparr>"
  have c: "ReadConfig demo_ops ?mg = Inr \<lparr>dc_Mode = ''Enabled'', dc_IgnorePaths = [ignored0]\<rparr>"
    by (rule demo_config) simp
  have m: "dc_Mode \<lparr>dc_Mode = ''Enabled'', dc_IgnorePaths = [ignored0]\<rparr> \<notin> {ModeEnabled, ModeWarn, ModeDisabled}"
    by (simp add: ModeEnabled_def ModeWarn_def ModeDisabled_def)
  have a: "apply_obs demo_ops ?mg (Some ?cap) = Inr (fmupd (prefixSpec @ ignored0) (JStr ''theirs'') (fst ?mg), fmempty, fmempty)"
    using demo_apply [OF refl, of "''Enabled''" fmempty fmempty] by (simp add: demo_mg_parts [symmetric])
  have u: "in_Update demo_inner ?mg [] = (None, ?mg, [JStr ''mine''])"
    by (simp add: demo_inner_def demo_mg_def)
  from unrecognised_mode_update [OF c m, of demo_inner None "[]" _ ?mg "[]" ?cap] show ?thesis
    using demo_observed(1) [of "''Enabled''" "[]"] demo_snapshot [of "''Enabled''"] a demo_shadow u by simp
qed

lemma Update_sends_observed_witness:
  "\<exists>mg1 e1 w1. snd (drift_Observe demo_ops demo_inner (demo_mg ModeEnabled) None []) = (mg1, e1, w1) \<and>
     ((\<exists>err. drift_Update demo_ops demo_inner mg1 e1 w1 = (Some err, mg1, e1, w1)) \<or>
      (\<exists>shadow r s1 w2. in_Update demo_inner shadow w1 = (r, s1, w2) \<and>
         (\<exists>p. fp_pave demo_ops shadow = Inr p \<and> reads_as demo_ops p (prefixSpec @ ignored0) (JStr ''theirs''))))"
proof -
  let ?mg = "demo_mg ModeEnabled" and ?cap = "\<lparr>ob_values = [(ignored0, JStr ''theirs'')], ob_unobserved = []\<rparr>"
  have c: "ReadConfig demo_ops ?mg = Inr \<lparr>dc_Mode = ModeEnabled, dc_IgnorePaths = [ignored0]\<rparr>"
    by (rule demo_config) simp
  have a: "apply_obs demo_ops ?mg (Some ?cap) = Inr (fmupd (prefixSpec @ ignored0) (JStr ''theirs'') (fst ?mg), fmempty, fmempty)"
    using demo_apply [OF refl, of ModeEnabled fmempty fmempty] by (simp add: demo_mg_parts [symmetric])
  have modes: "ModeEnabled \<noteq> ModeDisabled" "ModeEnabled \<noteq> ModeWarn" using mode_facts(3,4) by metis+
  obtain o1 mg1 w1 where o: "drift_Observe demo_ops demo_inner ?mg None [] = (Inr o1, mg1, Some ?cap, w1)"
    "fst mg1 = fst ?mg" "w1 = []"
    by (simp add: drift_Observe_def c demo_observed demo_snapshot modes Let_def a demo_shadow)
      (simp add: drift_setCondition_def demo_ops_def demo_mg_def)
  have "ReadConfig demo_ops mg1 = ReadConfig demo_ops ?mg"
    using o(2) by (cases mg1; cases ?mg) (simp add: ReadConfig_def demo_ops_def)
  with c have c1: "ReadConfig demo_ops mg1 = Inr \<lparr>dc_Mode = ModeEnabled, dc_IgnorePaths = [ignored0]\<rparr>" by simp
  have ind: "all_independent (dc_IgnorePaths \<lparr>dc_Mode = ModeEnabled, dc_IgnorePaths = [ignored0]\<rparr>)"
    by (simp add: all_independent_def)
  have "fp_get_value demo_ops (JObj (fst ?mg)) (at_path ignored0) = Inr (JStr ''theirs'')"
    by (rule demo_observed(3))
  moreover have "\<forall>path \<in> set (dc_IgnorePaths \<lparr>dc_Mode = ModeEnabled, dc_IgnorePaths = [ignored0]\<rparr>). [] \<notin> set (split_on (CHR ''.'') path)"
    by (simp add: ignored0_def)
  ultimately have "(\<exists>err. drift_Update demo_ops demo_inner mg1 (Some ?cap) w1 = (Some err, mg1, Some ?cap, w1)) \<or>
      (\<exists>shadow r s1 w2. in_Update demo_inner shadow w1 = (r, s1, w2) \<and>
         (\<exists>p. fp_pave demo_ops shadow = Inr p \<and> reads_as demo_ops p (prefixSpec @ ignored0) (JStr ''theirs'')))"
    using Update_sends_observed [OF demo_documented c _ _ ind _ demo_observed(1) _ demo_observed(2) o(1) c1]
    by (simp del: split_paired_Ex) blast
  with o(1) show ?thesis by (intro exI [of _ mg1] exI [of _ "Some ?cap"] exI [of _ w1]) simp
qed

text \<open>The same resource without a drift block.\<close>

definition demo_plain :: demo_mg where
  "demo_plain = (fmupd (prefixSpec @ ignored0) (JStr ''mine'') fmempty, fmempty, fmempty)"

lemma demo_plain_config: "ReadConfig demo_ops demo_plain = Inr \<lparr>dc_Mode = ModeEnabled, dc_IgnorePaths = []\<rparr>"
  using demo_keys by (simp add: ReadConfig_def demo_ops_def demo_plain_def)

lemma inactive_transparent_witness:
  "(case drift_Update demo_ops demo_inner demo_plain None [] of (r, mg', e', w') \<Rightarrow> (r, mg', w')) =
     (None, demo_plain, [JStr ''mine''])"
  using inactive_transparent [OF demo_plain_config, where inner = demo_inner and e = None and w = "[]"]
  by (simp add: Active_def) (simp add: demo_inner_def demo_plain_def)

end
