(* ===== verification/NSRecordSpec.thy ===== *)
theory NSRecordSpec
  imports NSRecord
begin

text \<open>
  What the NSRecord controller guarantees: what it deletes, when it reports a
  record absent, and that what it writes is what it later compares equal.
\<close>

section \<open>The two scopes agree\<close>

lemma cluster_converters:
  "clusterAddressesToShared = namespacedAddressesToShared"
  "clusterAddressesFromShared = namespacedAddressesFromShared"
  "clusterCloudInfoFromShared = namespacedCloudInfoFromShared"
  by (intro ext; simp only: clusterAddressesToShared_def namespacedAddressesToShared_def
      clusterAddressesFromShared_def namespacedAddressesFromShared_def
      clusterCloudInfoFromShared_def namespacedCloudInfoFromShared_def)+

lemma NSRecord_scopes:
  "cluster_NSRecord_Observe = namespaced_NSRecord_Observe"
  "cluster_NSRecord_Create = namespaced_NSRecord_Create"
  "cluster_NSRecord_Update = namespaced_NSRecord_Update"
  "cluster_NSRecord_Delete = namespaced_NSRecord_Delete"
  by (intro ext; simp only: cluster_converters
      cluster_NSRecord_Observe_def namespaced_NSRecord_Observe_def
      cluster_NSRecord_Create_def namespaced_NSRecord_Create_def
      cluster_NSRecord_Update_def namespaced_NSRecord_Update_def
      cluster_NSRecord_Delete_def namespaced_NSRecord_Delete_def)+

lemma converters_id [simp]:
  "namespacedAddressesToShared addrs = addrs"
  "namespacedAddressesFromShared addrs = addrs"
  "namespacedCloudInfoFromShared ci = ci"
  by (auto simp: namespacedAddressesToShared_def namespacedAddressesFromShared_def
      namespacedCloudInfoFromShared_def intro!: map_idI split: option.split)

section \<open>Late initialisation and addresses\<close>

lemma NSRecord_lateInitialize_eq:
  "NSRecord_lateInitialize m rec =
     (let m1 = (if m = None then ptrIfSet (rn_MsDelegationName rec) else m) in (m1, m1 \<noteq> m))"
  by (simp only: NSRecord_lateInitialize_def Let_def late_step late_steps late_changed prod.inject simp_thms)

interpretation nsrecord_late: late_init
  "\<lambda>m (ns, addrs, rec). NSRecord_lateInitialize m rec"
  "\<lambda>m (ns, addrs, rec). NSRecord_isUpToDate ns m addrs rec"
  "\<lambda>m m'. m = None \<or> m' = m"
proof
  fix m :: "string option" and x :: "string option \<times> nsRecordAddress list \<times> RecordNS"
  obtain ns addrs rec where x: "x = (ns, addrs, rec)" by (cases x) auto
  let ?late = "\<lambda>m (ns, addrs, rec). NSRecord_lateInitialize m rec"
  show "?late (fst (?late m x)) x = (fst (?late m x), False)"
    by (simp add: x NSRecord_lateInitialize_eq Let_def)
  show "snd (?late m x) \<longleftrightarrow> fst (?late m x) \<noteq> m"
    by (simp add: x NSRecord_lateInitialize_eq Let_def)
  show "m = None \<or> fst (?late m x) = m"
    by (simp add: x NSRecord_lateInitialize_eq Let_def)
  show "(case x of (ns, addrs, rec) \<Rightarrow> NSRecord_isUpToDate ns (fst (?late m x)) addrs rec)"
    if "case x of (ns, addrs, rec) \<Rightarrow> NSRecord_isUpToDate ns m addrs rec"
    using that by (auto simp: x NSRecord_lateInitialize_eq NSRecord_isUpToDate_def Let_def split: if_splits)
qed

lemma addresses_same_built:
  "addresses_same addrs (addressesFromZoneNameServers (map Some (buildAddresses addrs)))"
  by (induction addrs) (simp_all add: buildAddresses_def strOrEmpty_def boolOrFalse_def)

lemma addresses_built_length:
  "length (addressesFromZoneNameServers (map Some (buildAddresses addrs))) = length addrs"
  by (induction addrs) (simp_all add: buildAddresses_def)

lemma addresses_same_iff:
  "length a = length b \<Longrightarrow> addresses_same a b \<longleftrightarrow> buildAddresses a = buildAddresses b"
  by (induction a b rule: list_induct2) (auto simp: buildAddresses_def)

text \<open>
  C35: glue addresses round-trip: a list read back as it was sent compares equal to the spec,
  and two specs compare equal exactly when they send the same list, in the same order.
\<close>

theorem addresses_roundtrip:
  "addressesEqual a (addressesFromZoneNameServers (map Some (buildAddresses a))) \<and>
   (addressesEqual a b \<longleftrightarrow> buildAddresses a = buildAddresses b)"
proof -
  have "buildAddresses a = buildAddresses b \<Longrightarrow> length a = length b"
    by (metis buildAddresses_def length_map)
  then show ?thesis
    using addresses_same_built [of a] addresses_built_length [of a] addresses_same_iff [of a b]
    by (auto simp: addressesEqual_def)
qed

section \<open>Resolution\<close>

lemma deleteNSRecord_eq:
  "deleteNSRecord env r w =
     (case wapi_delete env (calls w) r of Inl e \<Rightarrow> Some e | Inr _ \<Rightarrow> None, log_call (CDelete r) w)"
  by (simp add: deleteNSRecord_def delete_object_def split: sum.split)

lemma naturalKey_cases:
  assumes "resolveNSRecordByNaturalKey env name view nameserver w = (r, w')"
  shows "mutations w' = mutations w \<and>
    (\<forall>rec. r = Inr (Some rec) \<longrightarrow> strOrEmpty name \<noteq> [] \<and> strOrEmpty view \<noteq> [] \<and> strOrEmpty nameserver \<noteq> [] \<and>
       wapi_search env (calls w) ''record:ns''
         (nsrecord_key_query (strOrEmpty name) (strOrEmpty view) (strOrEmpty nameserver)) = Inr [rec]) \<and>
    (r = Inr None \<longrightarrow> strOrEmpty name = [] \<or> strOrEmpty view = [] \<or> strOrEmpty nameserver = [] \<or>
       calls w' = calls w @ [CSearch ''record:ns''
          (nsrecord_key_query (strOrEmpty name) (strOrEmpty view) (strOrEmpty nameserver))] \<and>
       (case wapi_search env (calls w) ''record:ns''
          (nsrecord_key_query (strOrEmpty name) (strOrEmpty view) (strOrEmpty nameserver)) of
          Inl err \<Rightarrow> isNotFound (Some err) | Inr xs \<Rightarrow> xs = []))"
proof (cases "strOrEmpty name = [] \<or> strOrEmpty view = [] \<or> strOrEmpty nameserver = []")
  case True
  with assms show ?thesis by (auto simp: resolveNSRecordByNaturalKey_def)
next
  case False
  let ?s = "wapi_search env (calls w) ''record:ns''
    (nsrecord_key_query (strOrEmpty name) (strOrEmpty view) (strOrEmpty nameserver))"
  show ?thesis
  proof (cases ?s)
    case (Inl err)
    with assms False show ?thesis
      by (auto simp: resolveNSRecordByNaturalKey_def search_objects_def Let_def split: if_splits)
  next
    case (Inr xs)
    with assms False show ?thesis
      by (auto simp: resolveNSRecordByNaturalKey_def search_objects_def Let_def split: list.splits)
  qed
qed

text \<open>
  Deleting an NSRecord deletes the stored reference and, only when that gives a 404,
  the one record that a search for its full natural key returns; success means that one of
  the two deletions went through, or that the record is not on the Grid any more. An
  ambiguous search deletes nothing further and is an error.
\<close>

theorem NSRecord_Delete_requests:
  assumes "namespaced_NSRecord_Delete env cr w = (e, w')"
    and "strOrEmpty (nsp_Name (ns_ForProvider cr)) \<noteq> []" and "strOrEmpty (nsp_View (ns_ForProvider cr)) \<noteq> []"
    and "strOrEmpty (nsp_Nameserver (ns_ForProvider cr)) \<noteq> []"
  shows "let p = ns_ForProvider cr; ref = GetExternalName cr;
      q = nsrecord_key_query (strOrEmpty (nsp_Name p)) (strOrEmpty (nsp_View p)) (strOrEmpty (nsp_Nameserver p));
      found = wapi_search env (calls w @ [CDelete ref]) ''record:ns'' q in
    case wapi_delete env (calls w) ref of
      Inr _ \<Rightarrow> e = None \<and> mutations w' = mutations w @ [CDelete ref]
    | Inl err1 \<Rightarrow>
        if \<not> isNotFound (Some err1) then e \<noteq> None \<and> mutations w' = mutations w @ [CDelete ref]
        else (case found of
          Inr [rec] \<Rightarrow> mutations w' = mutations w @ [CDelete ref, CDelete (rn_Ref rec)] \<and>
            (e = None \<longleftrightarrow> (case wapi_delete env (calls w @ [CDelete ref, CSearch ''record:ns'' q]) (rn_Ref rec) of
               Inr _ \<Rightarrow> True | Inl err2 \<Rightarrow> isNotFound (Some err2)))
        | Inr xs \<Rightarrow> mutations w' = mutations w @ [CDelete ref] \<and> (e = None \<longleftrightarrow> xs = [])
        | Inl err2 \<Rightarrow> mutations w' = mutations w @ [CDelete ref] \<and> (e = None \<longleftrightarrow> isNotFound (Some err2)))"
proof -
  let ?p = "ns_ForProvider cr" and ?ref = "GetExternalName cr"
  have d: "deleteNSRecordResolving404 env ?ref (nsp_Name ?p) (nsp_View ?p) (nsp_Nameserver ?p) w = (e, w')"
    using assms(1) by (simp add: namespaced_NSRecord_Delete_def Let_def split: prod.splits option.splits)
  let ?q = "nsrecord_key_query (strOrEmpty (nsp_Name ?p)) (strOrEmpty (nsp_View ?p)) (strOrEmpty (nsp_Nameserver ?p))"
  note defs = deleteNSRecordResolving404_def deleteNSRecord_eq resolveNSRecordByNaturalKey_def
    search_objects_def Let_def
  show ?thesis
  proof (cases "wapi_delete env (calls w) ?ref")
    case (Inr a)
    with d show ?thesis by (auto simp: defs)
  next
    case (Inl err1)
    show ?thesis
    proof (cases "isNotFound (Some err1)")
      case False
      with Inl d show ?thesis by (auto simp: defs)
    next
      case nf: True
      show ?thesis
      proof (cases "wapi_search env (calls w @ [CDelete ?ref]) ''record:ns'' ?q")
        case (Inl err2)
        with \<open>wapi_delete env (calls w) ?ref = Inl err1\<close> nf d assms(2-4) show ?thesis
          by (auto simp: defs split: if_splits)
      next
        case (Inr xs)
        consider "xs = []" | rec where "xs = [rec]" | x y zs where "xs = x # y # zs"
          by (cases xs; cases "tl xs") auto
        then show ?thesis
        proof cases
          case (2 rec)
          show ?thesis
            by (cases "wapi_delete env (calls w @ [CDelete ?ref, CSearch ''record:ns'' ?q]) (rn_Ref rec)")
              (use 2 \<open>wapi_delete env (calls w) ?ref = Inl err1\<close> nf Inr d assms(2-4) in
                \<open>auto simp: defs split: if_splits\<close>)
        qed (use \<open>wapi_delete env (calls w) ?ref = Inl err1\<close> nf Inr d assms(2-4) in \<open>auto simp: defs\<close>)
      qed
    qed
  qed
qed

text \<open>
  Observe reports an NSRecord absent only when the stored reference, if there is one,
  gave a 404 and the search for the natural key was empty; and then it has changed
  neither the Grid nor the resource.
\<close>

theorem NSRecord_Observe_absent:
  assumes "namespaced_NSRecord_Observe env cr w = (Inr obs, cr', w')" and "\<not> ResourceExists obs"
    and "strOrEmpty (nsp_Name (ns_ForProvider cr)) \<noteq> []" and "strOrEmpty (nsp_View (ns_ForProvider cr)) \<noteq> []"
    and "strOrEmpty (nsp_Nameserver (ns_ForProvider cr)) \<noteq> []"
  shows "cr' = cr \<and> mutations w' = mutations w \<and>
    (GetExternalName cr \<notin> {[], mo_name cr} \<longrightarrow>
       (\<exists>err. wapi_get env (calls w) ''record:ns'' (GetExternalName cr) = Inl err \<and> isNotFound (Some err))) \<and>
    (\<exists>h. calls w' = h @ [CSearch ''record:ns'' (nsrecord_key_query (strOrEmpty (nsp_Name (ns_ForProvider cr)))
            (strOrEmpty (nsp_View (ns_ForProvider cr))) (strOrEmpty (nsp_Nameserver (ns_ForProvider cr))))] \<and>
       (case wapi_search env h ''record:ns'' (nsrecord_key_query (strOrEmpty (nsp_Name (ns_ForProvider cr)))
            (strOrEmpty (nsp_View (ns_ForProvider cr))) (strOrEmpty (nsp_Nameserver (ns_ForProvider cr)))) of
       Inl err \<Rightarrow> isNotFound (Some err) | Inr xs \<Rightarrow> xs = []))"
proof -
  let ?p = "ns_ForProvider cr" and ?ref = "NSRecord_observeRefFor (mo_name cr) (GetExternalName cr)"
  obtain r w1 where r: "resolveNSRecordForObserve env ?ref (nsp_Name ?p) (nsp_View ?p) (nsp_Nameserver ?p) w = (r, w1)"
    by (cases "resolveNSRecordForObserve env ?ref (nsp_Name ?p) (nsp_View ?p) (nsp_Nameserver ?p) w")
  have res: "r = Inr None" "cr' = cr" "w' = w1"
    using assms(1,2) r
    by (auto simp: namespaced_NSRecord_Observe_def Let_def split_beta split: sum.splits option.splits)
  obtain w0 where w0: "resolveNSRecordByNaturalKey env (nsp_Name ?p) (nsp_View ?p) (nsp_Nameserver ?p) w0 = (Inr None, w1)"
    "mutations w0 = mutations w"
    "?ref \<noteq> [] \<longrightarrow> (\<exists>err. wapi_get env (calls w) ''record:ns'' ?ref = Inl err \<and> isNotFound (Some err))"
    using r res(1)
    by (cases "?ref = []"; cases "wapi_get env (calls w) ''record:ns'' ?ref")
      (auto simp: resolveNSRecordForObserve_def get_object_def split: if_splits sum.splits option.splits prod.splits)
  from naturalKey_cases [OF w0(1)] assms(3-5) w0 res show ?thesis
    by (auto simp: NSRecord_observeRefFor_def split: if_splits)
qed

text \<open>
  Update never sends the immutable name and view, whatever the spec holds, and goes to
  the recorded reference.
\<close>

theorem NSRecord_Update_request:
  assumes "retry_documented env"
  shows "mutations (snd (snd (namespaced_NSRecord_Update env cr w))) = mutations w @
    [CMutate (UpdateNSRecord (GetExternalName cr) [] (strOrEmpty (nsp_Nameserver (ns_ForProvider cr))) []
       (buildAddresses (nsp_Addresses (ns_ForProvider cr))) (strOrEmpty (nsp_MsDelegationName (ns_ForProvider cr))))]"
proof -
  let ?req = "UpdateNSRecord (GetExternalName cr) [] (strOrEmpty (nsp_Nameserver (ns_ForProvider cr))) []
       (buildAddresses (nsp_Addresses (ns_ForProvider cr))) (strOrEmpty (nsp_MsDelegationName (ns_ForProvider cr)))"
  show ?thesis
  proof (cases "wapi_mutate env (calls w) ?req")
    case (Inl err)
    then show ?thesis
      by (simp add: namespaced_NSRecord_Update_def updateNSRecord_def mutate_object_def Let_def)
  next
    case (Inr rec)
    obtain e cr1 w1 where "Refresh env cr (rn_Ref rec) (log_call (CMutate ?req) w) = (e, cr1, w1)"
      by (cases "Refresh env cr (rn_Ref rec) (log_call (CMutate ?req) w)") auto
    with Inr Refresh_mutations [OF assms, of cr "rn_Ref rec" "log_call (CMutate ?req) w"] show ?thesis
      by (simp add: namespaced_NSRecord_Update_def updateNSRecord_def mutate_object_def Let_def
          split: option.split)
  qed
qed

section \<open>A Grid to apply the theorems to\<close>

text \<open>The stored reference is stale; a search for the natural key gives the records found.\<close>

definition demo_ns :: RecordNS where
  "demo_ns =
     \<lparr>rn_Ref = ''ns/new'', rn_Name = ''example.com'', rn_View = ''default'', rn_Nameserver = Some ''ns1'',
      rn_Addresses = [], rn_MsDelegationName = None, rn_Zone = [], rn_Creator = [], rn_DnsName = [],
      rn_LastQueried = None, rn_CloudInfo = None, rn_Policy = []\<rparr>"

definition ns_demo :: "RecordNS list \<Rightarrow> ns_env" where
  "ns_demo found =
     \<lparr>wapi_get = (\<lambda>h t r. Inl (NotFoundError ''gone'')), wapi_search = (\<lambda>h t q. Inr found),
      wapi_def_search = (\<lambda>h q. Inr []), wapi_def_create = (\<lambda>h d. Inr []), wapi_mutate = (\<lambda>h m. Inr demo_ns),
      wapi_delete = (\<lambda>h r. if r = ''ns/new'' then Inr r else Inl (NotFoundError ''gone'')), kube_patch = (\<lambda>h j. None),
      retry_on_conflict = (\<lambda>f w. f w), wall_clock = (\<lambda>n. 0)\<rparr>"

definition ns_cr :: NSRecordCR where
  "ns_cr =
     \<lparr>mo_name = ''n'', mo_namespace = [], mo_uid = ''u-1'', mo_annotations = fmupd AnnotationKeyExternalName ''ns/old'' fmempty,
      mo_conditions = fmempty,
      ns_ForProvider = \<lparr>nsp_Name = Some ''example.com'', nsp_Nameserver = Some ''ns1'', nsp_View = Some ''default'',
        nsp_Addresses = [], nsp_MsDelegationName = None\<rparr>,
      ns_AtProvider = \<lparr>ons_ID = [], ons_Name = None, ons_Nameserver = None, ons_View = None, ons_Addresses = [],
        ons_MsDelegationName = None, ons_Ref = None, ons_Zone = None, ons_Creator = None, ons_DNSName = None,
        ons_LastQueried = None, ons_CloudInfo = None, ons_Policy = None\<rparr>\<rparr>"

lemma ns_cr_simps [simp]:
  "GetExternalName ns_cr = ''ns/old''" "mo_name ns_cr = ''n''"
  "strOrEmpty (nsp_Name (ns_ForProvider ns_cr)) = ''example.com''" "strOrEmpty (nsp_View (ns_ForProvider ns_cr)) = ''default''"
  "strOrEmpty (nsp_Nameserver (ns_ForProvider ns_cr)) = ''ns1''"
  by (simp_all add: ns_cr_def GetExternalName_def strOrEmpty_def)

lemma NSRecord_Delete_requests_witness:
  "fst (namespaced_NSRecord_Delete (ns_demo [demo_ns]) ns_cr init_world) = None \<and>
   mutations (snd (namespaced_NSRecord_Delete (ns_demo [demo_ns]) ns_cr init_world)) = [CDelete ''ns/old'', CDelete ''ns/new'']"
proof -
  obtain e w' where d: "namespaced_NSRecord_Delete (ns_demo [demo_ns]) ns_cr init_world = (e, w')"
    by (cases "namespaced_NSRecord_Delete (ns_demo [demo_ns]) ns_cr init_world")
  from NSRecord_Delete_requests [OF d] show ?thesis
    by (simp add: d Let_def) (simp add: ns_demo_def demo_ns_def)
qed

lemma ns_demo_answers [simp]:
  "wapi_get (ns_demo found) h t r = Inl (NotFoundError ''gone'')" "wapi_search (ns_demo found) h t q = Inr found"
  by (simp_all add: ns_demo_def)

lemma NSRecord_Observe_absent_witness:
  "namespaced_NSRecord_Observe (ns_demo []) ns_cr init_world =
     (Inr notExists, ns_cr, snd (snd (namespaced_NSRecord_Observe (ns_demo []) ns_cr init_world))) \<and>
   mutations (snd (snd (namespaced_NSRecord_Observe (ns_demo []) ns_cr init_world))) = []"
proof -
  have "fst (namespaced_NSRecord_Observe (ns_demo []) ns_cr init_world) = Inr notExists"
    by (simp add: namespaced_NSRecord_Observe_def resolveNSRecordForObserve_def get_object_def Let_def
        resolveNSRecordByNaturalKey_def search_objects_def NSRecord_observeRefFor_def)
  then obtain cr' w' where o: "namespaced_NSRecord_Observe (ns_demo []) ns_cr init_world = (Inr notExists, cr', w')"
    by (cases "namespaced_NSRecord_Observe (ns_demo []) ns_cr init_world") auto
  from NSRecord_Observe_absent [OF o] o show ?thesis by (simp add: notExists_def)
qed

lemma NSRecord_Update_request_witness:
  "mutations (snd (snd (namespaced_NSRecord_Update (ns_demo []) ns_cr init_world))) =
     [CMutate (UpdateNSRecord ''ns/old'' [] ''ns1'' [] [] [])]"
proof -
  have "retry_documented (ns_demo [])"
    by (auto simp: retry_documented_def ns_demo_def intro: exI [of _ 0])
  from NSRecord_Update_request [OF this, of ns_cr init_world] show ?thesis
    by (simp add: ns_cr_def strOrEmpty_def buildAddresses_def GetExternalName_def)
qed

end
