(* ===== verification/Spec2Isabelle.thy ===== *)
theory Spec2Isabelle
  imports GridFamily AddressFamilies DNSViewFamily GeneratorSpec ExtensibleAttributeDefSpec IdentitySpec ProberSpec ConvergenceSpec DriftSpec Config NSRecordSpec
begin

text \<open>
  A verification development for the Crossplane provider for Infoblox NIOS (Go, under src/).

  The program. The provider runs one controller per custom resource kind, each in two scopes
  (namespaced.go and cluster.go over a shared controller.go). The crossplane-runtime reconciler
  calls a controller's Observe, Create, Update and Delete; these call the Infoblox Grid through
  the SDK's object manager (WAPI requests) and the Kubernetes API through a client. What the
  provider adds to those libraries, and what this development models, is:

  \<^item> object identity (internal/clients/identity): every object is stamped with the uid of the
    resource that owns it, in a reserved extensible attribute. Resolve is the ladder that finds the
    object again by its recorded reference, then by a search for the stamp; the prober makes sure
    that the attribute's definition exists. Theories Identity, IdentitySpec, Prober, ProberSpec,
    ProberConcurrency (one call of Ensure, and any number of goroutines as a step relation).
  \<^item> the controllers (internal/controller/<kind>): drift check (isUpToDate), back-filling of the spec
    (lateInitialize), the status mirror (observeFrom), the SDK calls with the stamp, and the
    handlers. Theories ARecord, ARecordSpec and the seven record theories AAAARecord, CNAMERecord,
    TXTRecord, MXRecord, SRVRecord, PTRRecord, AliasRecord; NetworkView, Range, ZoneDelegated,
    ZoneForward, ZoneAuth, DTCServer, DTCLBDN, DTCPool, HostRecord, IPv4SharedNetwork, RangeTemplate;
    Network with NetworkSpec, NetworkContainer and FixedAddress, whose objects have two types, one per
    address family; DNSView (a field bag of 77 settings compared and back-filled by tables of functions)
    with DNSViewSpec and DNSViewFamily; ExtensibleAttributeDef with its Spec theory, which has no stamp
    but a reserved definition to protect; and NSRecord with NSRecordSpec, which finds objects by a
    natural key. Helpers that several packages declare with the same body are in Prelude, Slices, ExtAttrs,
    Managed, HandlerShapes, NameServers, DTC, DhcpOptions and TwoTypes.
  \<^item> drift detection (internal/driftdetection): the decorator that substitutes observed values for
    ignored fields. Theories Drift and DriftSpec.
  \<^item> the convergence gate (internal/clients/convergence): which endpoint the next read goes to after
    a DNS write, by SOA serials. Theories Convergence and ConvergenceSpec.
  \<^item> the dual client and its circuit breaker (internal/clients/dualclient), provider configuration
    (internal/controller/config), the state recorder's retry loop (internal/controller/statemetrics).
    Theories DualClient, Breaker and Config; theory Cidr models net.ParseCIDR for the network
    controllers.
  \<^item> the API types the controllers read are generated (tools/openapi2crd): a catalog of 25 resource
    descriptors, and a generator that renders each into a spec, a status and nested types for both
    scopes. Theories CatalogTypes, CatalogRecords, CatalogNetworks (the descriptors), Generator (template
    data, the lines of the field template, the files written), CatalogChecks and GeneratorSpec.

  How code becomes definitions. A struct is a record whose fields carry a prefix per type; a Go
  pointer to a scalar is an option; nil and empty slices or maps are one value where the code
  cannot tell them apart; uint32 is a 32 bit word, int64 time an int in nanoseconds; a string is a
  list of 8 bit characters. A handler takes the environment, the endpoint, the resource and the
  world, and returns its result (Inl an error), the resource as it left it, and the world. The
  world holds the log of all requests so far, the prober's cache and the counters. An early return is
  a branch, a panic on a nil pointer is the error nilDereference. The two scopes are transcribed
  separately and proved equal (lemmas <Kind>_scopes), so a change to one of them breaks a proof.

  Parameters. Nothing outside src/ is defined here. The Grid and the Kubernetes API are a record
  (wapi) of functions from the log of earlier requests and a request to its answer, so an
  environment is any Grid with any other writers. Hypotheses on it are named definitions:
  search_sound (a search for a stamp returns objects that carry it), retry_documented
  (RetryOnConflict runs its function some number of times), echoes (a write that succeeds is stored
  and read back until the next write), codec_documented (annotation text decodes to what was
  encoded), fieldpath_documented (setting and reading plain paths, and what the converter keeps of the
  fields that may be ignored). The conditions <kind>_holds say which fields of an answer a
  request determines. Each theorem with such a hypothesis has a witness on a concrete Grid. JSON
  and RFC 3339 text, the HTTP transport, fieldpath and the unstructured converter are parameters too.

  Interfaces. Contracts holds the locale late_init (back-filling is idempotent, keeps what the user
  set, reports a change exactly when it makes one, and never turns an agreeing spec into a
  differing one); HandlerShapes the locales late_lens and late_view, which give it for a part or a
  view of a resource, and the shapes of the four handlers; ExtAttrs the locale attr_codec.
  ResolvingClient holds the locale resolution (what finding an object promises) and, over it,
  resolving_client, whose assumptions are the shape of the handlers and the agreement of request and
  drift check, and refreshing_resolver for controllers that record the reference an update
  answers with. LadderClient gives them for one object type and the identity ladder: the locales
  ladder_client and refreshing_client, with the contracts as predicates over handlers
  (deletes_only_owned, delete_success_justified, observes_ownership, absent_means_searched,
  creates_as, updates_as, write_then_observe, runs_safely, never_up_to_date); TwoTypes gives the
  resolution of objects that come in two types. Each controller theory proves that its handlers
  have the shape and interprets the locales on them; RecordFamily, GridFamily, AddressFamilies and
  DNSViewFamily state the contracts in both scopes.

  What the lemmas show. Identity: the ladder refines an abstract Grid of owners, survives rotated
  references, and refuses reused handles and ambiguous matches. Prober: verdicts, one probe per
  endpoint and cache lifetime under concurrency, no deadlock. Controllers: only owned objects are
  deleted, success and absence are justified by requests, each write is exactly one
  request, computed from the spec, that carries the stamp, any interleaving of resources stays safe, and a write is followed by an
  Observe that reports agreement; and the specs that never agree. Drift: what Update sends in mode
  enabled, when it fails closed and in which modes it does not, the paths a configuration
  yields, transparency without a configuration.
  Convergence: after a write, no read goes to the candidate before its serial has reached the
  pending one or the wait has timed out. Breaker: refinement of a specification over the history of events. Generator: the status mirrors the
  spec, no struct repeats a name, the reserved attribute cannot be set through any spec, and a run writes
  below the provider's apis/ only. This theory composes drift detection with the ARecord controller.

  Bounds. All models are total functions; loops over slices are recursions on lists. RetryOnConflict
  makes a bounded number of attempts that is a parameter (attempts). The retry loop of the state
  recorder is modelled with one result per attempt, and Config proves when it returns. Runs of many
  resources (client_run) and of goroutines (pstep) are inductive relations of unbounded length.

  Not modelled: manager registration (Setup, SetupGated), logging, events and metrics export; CRD
  structs and deep copies beyond the fields the controllers read; the lists of return fields of
  a request; flag parsing in cmd/; of tools/openapi2crd the descriptions, which become comments, and the fixed texts of
  generated files; the inventory report under tools/openapi and the scripts under hack/, which run at
  build time only.
\<close>

section \<open>The drift decorator around the ARecord controller\<close>

text \<open>What WrapConnector wraps for ARecord: the client Connect returns; its Disconnect does nothing.\<close>

definition arecord_client ::
  "(RecordA, arecord_req) wapi \<Rightarrow> string \<Rightarrow> (ARecordCR, arecord_req world) external_client" where
  "arecord_client env endpoint =
     \<lparr>in_Observe = namespaced_ARecord_Observe env endpoint,
      in_Create = namespaced_ARecord_Create env endpoint,
      in_Update = namespaced_ARecord_Update env endpoint,
      in_Delete = (\<lambda>cr w. case namespaced_ARecord_Delete env endpoint cr w of (e, w1) \<Rightarrow> (e, cr, w1)),
      in_Disconnect = (\<lambda>w. (None, w))\<rparr>"

lemma arecord_client_simps [simp]:
  "in_Observe (arecord_client env ep) = namespaced_ARecord_Observe env ep"
  "in_Update (arecord_client env ep) = namespaced_ARecord_Update env ep"
  "in_Delete (arecord_client env ep) cr w = (case namespaced_ARecord_Delete env ep cr w of (e, w1) \<Rightarrow> (e, cr, w1))"
  by (simp_all add: arecord_client_def)

text \<open>Observing an adopted record: it exists, is out of date, and the resource keeps its identity.\<close>

lemma observe_adopted:
  assumes "Resolve env RecordA_type (observeRefFor (mo_name cr) (GetExternalName cr)) (mo_uid cr) w
      = (Inr (Some rec, OutcomeAdopted), w1)"
  obtains obs cr' where "namespaced_ARecord_Observe env ep cr w = (Inr obs, cr', w1)"
    "ResourceExists obs" "\<not> ResourceUpToDate obs" "mo_uid cr' = mo_uid cr"
    "GetExternalName cr' = GetExternalName cr"
proof -
  obtain cr' obs where o: "namespaced_ARecord_Observe env ep cr w = (Inr obs, cr', w1)"
    "ResourceExists obs" "\<not> ResourceUpToDate obs" "GetExternalName cr' = GetExternalName cr"
    using ARecord_Observe_found [OF assms, of ep] by auto
  moreover have "mo_uid cr' = mo_uid cr"
    using o(1) assms
    by (auto simp: namespaced_ARecord_Observe_def observeARecord_def Let_def resolveARecordIdentity_def
        SetAvailable_def SetCondition_def SetExternalName_def split: prod.splits if_splits)
  ultimately show ?thesis using that by blast
qed


text \<open>
  In the drift modes warn and disabled the adoption never completes: Observe answers up to
  date for a record without a stamp, so no Update writes it, and deleting the resource is
  refused, with the Grid unchanged, for as long as the reference names that record.
\<close>

theorem warned_adoption_never_stamped:
  assumes "ReadConfig ops cr = Inr cfg" and "dc_Mode cfg \<in> {ModeWarn, ModeDisabled}"
    and "Resolve env RecordA_type (observeRefFor (mo_name cr) (GetExternalName cr)) (mo_uid cr) w
      = (Inr (Some rec, OutcomeAdopted), w1)"
    and "drift_Observe ops (arecord_client env ep) cr e w = (Inr obs, cr', e1, w1')"
    and "Resolve env RecordA_type (GetExternalName cr) (mo_uid cr) w2 = (Inr (Some rec, OutcomeAdopted), w3)"
  shows "ResourceExists obs \<and> ResourceUpToDate obs \<and> mutations w1' = mutations w \<and>
    drift_Delete (arecord_client env ep) cr e1 w2 = (Some (TextError errDeleteUnverifiedOwnership), cr, e1, w3) \<and>
    mutations w3 = mutations w2"
proof -
  obtain obs0 cr0 where o: "namespaced_ARecord_Observe env ep cr w = (Inr obs0, cr0, w1)"
    "ResourceExists obs0" "\<not> ResourceUpToDate obs0"
    using observe_adopted [OF assms(3)] by metis
  have quiet: "mutations w1 = mutations w" "mutations w3 = mutations w2"
    using Resolve_mutations [of env RecordA_type _ "mo_uid cr"] assms(3,5) by (metis snd_conv)+
  have "ResourceExists obs \<and> ResourceUpToDate obs \<and> w1' = w1"
    using assms(1,2,4) o by (auto simp: drift_Observe_def Let_def split: if_splits sum.splits)
  moreover have "drift_Delete (arecord_client env ep) cr e1 w2 =
      (Some (TextError errDeleteUnverifiedOwnership), cr, e1, w3)"
    using assms(5) by (simp add: drift_Delete_def namespaced_ARecord_Delete_def deleteARecordIdentity_def
        resolveARecordIdentity_def)
  ultimately show ?thesis using quiet by simp
qed

section \<open>An adoptable record to apply the theorems to\<close>

definition adopt_rec :: RecordA where
  "adopt_rec = demo_rec\<lparr>ra_Ea := fmempty\<rparr>"

definition adopt_env :: "(RecordA, arecord_req) wapi" where
  "adopt_env = demo_env\<lparr>wapi_get := (\<lambda>h t r. if r = ''record:a/1'' then Inr adopt_rec else Inl (NotFoundError ''gone''))\<rparr>"

text \<open>The projection of a resource that has at most a drift mode.\<close>

definition mode_ops :: "string \<Rightarrow> ARecordCR mgops" where
  "mode_ops mode =
     \<lparr>mg_type = GStruct [], mg_annotations = mo_annotations, mg_set_annotations = (\<lambda>a cr. cr\<lparr>mo_annotations := a\<rparr>),
      mg_set_condition = (\<lambda>t c cr. cr\<lparr>mo_conditions := fmupd t c (mo_conditions cr)\<rparr>),
      fp_pave = (\<lambda>cr. Inr (JStr mode)),
      fp_get_string = (\<lambda>p path. if p = JStr mode \<and> path = pathMode \<and> mode \<noteq> [] then Inr mode else Inl (NotFoundError path)),
      fp_expand = (\<lambda>p path. Inl (NotFoundError path)), fp_get_value = (\<lambda>p path. Inl (NotFoundError path)),
      fp_set_value = (\<lambda>p path v. Inl (TextError path)), fp_unpave = (\<lambda>p cr. Inr cr), fp_parse = (\<lambda>s. None),
      fp_is_not_found = is_NotFoundError, map_order = (\<lambda>m. m)\<rparr>"

lemma mode_config:
  "ReadConfig (mode_ops mode) cr = Inr \<lparr>dc_Mode = (if mode = [] then ModeEnabled else mode), dc_IgnorePaths = []\<rparr>"
  by (simp add: ReadConfig_def mode_ops_def)

lemma adopt_resolve:
  "\<exists>w1. Resolve adopt_env RecordA_type ''record:a/1'' ''u-1'' w = (Inr (Some adopt_rec, OutcomeAdopted), w1) \<and>
     probe_cache w1 = probe_cache w"
proof -
  have g: "wapi_get adopt_env h t ''record:a/1'' = Inr adopt_rec" for h t
    by (simp add: adopt_env_def)
  have "getEA (ot_reflect RecordA_type adopt_rec) = Inr fmempty"
    by (simp add: RecordA_type_def reflectRecordA_def getEA_def adopt_rec_def)
  then have "fst (resolveByRef adopt_env RecordA_type ''record:a/1'' ''u-1'' w) = Some (Inr (Some adopt_rec, OutcomeAdopted))"
    by (simp add: resolveByRef_def get_object_def g eaValue_def)
  then show ?thesis
    using resolveByRef_frame [of adopt_env RecordA_type "''record:a/1''" "''u-1''" w]
    by (cases "resolveByRef adopt_env RecordA_type ''record:a/1'' ''u-1'' w") (simp add: Resolve_unfold)
qed



lemma warned_adoption_never_stamped_witness:
  "\<exists>obs cr' e1 w1' w3. drift_Observe (mode_ops ModeWarn) (arecord_client adopt_env ''grid'') demo_owner None init_world = (Inr obs, cr', e1, w1') \<and>
     ResourceUpToDate obs \<and>
     drift_Delete (arecord_client adopt_env ''grid'') demo_owner e1 w1' =
       (Some (TextError errDeleteUnverifiedOwnership), demo_owner, e1, w3) \<and> mutations w3 = []"
proof -
  obtain w1 where r: "Resolve adopt_env RecordA_type (observeRefFor (mo_name demo_owner) (GetExternalName demo_owner))
      (mo_uid demo_owner) init_world = (Inr (Some adopt_rec, OutcomeAdopted), w1)"
    using adopt_resolve [of init_world] by (auto simp: observeRefFor_def)
  have c: "ReadConfig (mode_ops ModeWarn) demo_owner = Inr \<lparr>dc_Mode = ModeWarn, dc_IgnorePaths = []\<rparr>"
    by (simp add: mode_config ModeWarn_def)
  obtain obs0 cr0 where o: "namespaced_ARecord_Observe adopt_env ''grid'' demo_owner init_world = (Inr obs0, cr0, w1)"
    "ResourceExists obs0" "\<not> ResourceUpToDate obs0"
    using observe_adopted [OF r] by metis
  have "ModeWarn \<noteq> ModeDisabled" by (simp add: ModeWarn_def ModeDisabled_def)
  with c o obtain obs cr' e1 w1' where d: "drift_Observe (mode_ops ModeWarn) (arecord_client adopt_env ''grid'') demo_owner None init_world = (Inr obs, cr', e1, w1')"
    by (simp add: drift_Observe_def snapshot_def)
  obtain w3 where r2: "Resolve adopt_env RecordA_type (GetExternalName demo_owner) (mo_uid demo_owner) w1' = (Inr (Some adopt_rec, OutcomeAdopted), w3)"
    using adopt_resolve [of w1'] by auto
  from warned_adoption_never_stamped [OF c _ r d r2] d show ?thesis by auto
qed

end
